(* ===== verification/Prelude.thy ===== *)
theory Prelude
  imports Main "HOL-Library.Word" "HOL-Library.List_Lexorder" "HOL-Library.Char_ord"
begin

section \<open>Prelude: results, ordered maps, generic lemmas\<close>

text \<open>
  What every component shares: Rust's \<open>Result\<close> as a sum type with the combinators that stand
  for the \<open>?\<close> operator and for a sequence of fallible checks, Rust's \<open>BTreeMap\<close> as a strictly
  sorted association list, and the collections of lemmas the component proofs draw on.
\<close>

named_theorems result_simps \<open>when a composed result is Ok\<close>
named_theorems model_defs \<open>definitions of the source's constants\<close>

subsection \<open>Results\<close>

abbreviation Ok :: "'a \<Rightarrow> 'e + 'a" where
  "Ok \<equiv> Inr"

abbreviation Err :: "'e \<Rightarrow> 'e + 'a" where
  "Err \<equiv> Inl"

text \<open>\<open>let x = r?; k x\<close>.\<close>

definition bind_ok :: "'e + 'a \<Rightarrow> ('a \<Rightarrow> 'e + 'b) \<Rightarrow> 'e + 'b" where
  "bind_ok r k = (case r of Inl e \<Rightarrow> Inl e | Inr x \<Rightarrow> k x)"

lemma bind_ok_simps [simp]:
  "bind_ok (Inl e) k = Inl e"
  "bind_ok (Inr x) k = k x"
  by (simp_all add: bind_ok_def)

lemma bind_ok_weak_cong [cong]: "r = r' \<Longrightarrow> bind_ok r k = bind_ok r' k"
  by simp

lemma bind_ok_eq_Ok [result_simps]:
  "bind_ok r k = Inr y \<longleftrightarrow> (\<exists>x. r = Inr x \<and> k x = Inr y)"
  by (cases r) auto

lemma bind_ok_eq_Err:
  "bind_ok r k = Inl e \<longleftrightarrow> r = Inl e \<or> (\<exists>x. r = Inr x \<and> k x = Inl e)"
  by (cases r) auto

lemma case_bind_ok: "(case r of Inl e \<Rightarrow> Inl e | Inr x \<Rightarrow> k x) = bind_ok r k"
  by (simp add: bind_ok_def)

text \<open>A block of checks \<open>c1?; c2?; ...\<close>: the first error, or \<open>()\<close>.\<close>

fun checks :: "('e + unit) list \<Rightarrow> 'e + unit" where
  "checks [] = Inr ()"
| "checks (c # cs) = (case c of Inl e \<Rightarrow> Inl e | Inr _ \<Rightarrow> checks cs)"

declare checks.simps(2) [simp del]

lemma checks_Cons [simp]:
  "checks (Inl e # cs) = Inl e"
  "checks (Inr u # cs) = checks cs"
  by (simp_all add: checks.simps(2))

lemma checks_Cons_eq_Ok [simp, result_simps]:
  "checks (c # cs) = Inr u \<longleftrightarrow> c = Inr () \<and> checks cs = Inr ()"
  by (cases c) auto

lemma checks_append: "checks (xs @ ys) = bind_ok (checks xs) (\<lambda>_. checks ys)"
proof (induction xs)
  case (Cons c cs)
  then show ?case by (cases c) auto
qed simp

lemma checks_eq_Ok_iff: "checks cs = Inr u \<longleftrightarrow> (\<forall>c\<in>set cs. c = Inr ())"
  by (induction cs) auto

lemma checks_Err_mem: "checks cs = Inl e \<Longrightarrow> Inl e \<in> set cs"
  by (induction cs) (auto simp: checks.simps(2) split: sum.splits)

text \<open>\<open>if c { return Err(e) }\<close>.\<close>

definition fail_if :: "bool \<Rightarrow> 'e \<Rightarrow> 'e + unit" where
  "fail_if c e = (if c then Inl e else Inr ())"

lemma fail_if_eq_Ok [simp, result_simps]: "fail_if c e = Inr u \<longleftrightarrow> \<not> c"
  by (simp add: fail_if_def)

lemma fail_if_simps [simp]: "fail_if True e = Inl e" "fail_if False e = Inr ()"
  by (simp_all add: fail_if_def)

lemma fail_if_eq_Err: "fail_if c e = Inl e' \<longleftrightarrow> c \<and> e' = e"
  by (auto simp: fail_if_def)

definition map_err :: "('e \<Rightarrow> 'f) \<Rightarrow> 'e + 'a \<Rightarrow> 'f + 'a" where
  "map_err f r = (case r of Inl e \<Rightarrow> Inl (f e) | Inr x \<Rightarrow> Inr x)"

lemma map_err_simps [simp]: "map_err f (Inl e) = Inl (f e)" "map_err f (Inr x) = Inr x"
  by (simp_all add: map_err_def)

lemma map_err_eq_Ok [simp, result_simps]: "map_err f r = Inr x \<longleftrightarrow> r = Inr x"
  by (cases r) auto

definition map_ok :: "('a \<Rightarrow> 'b) \<Rightarrow> 'e + 'a \<Rightarrow> 'e + 'b" where
  "map_ok f r = (case r of Inl e \<Rightarrow> Inl e | Inr x \<Rightarrow> Inr (f x))"

lemma map_ok_simps [simp]: "map_ok f (Inl e) = Inl e" "map_ok f (Inr x) = Inr (f x)"
  by (simp_all add: map_ok_def)

lemma map_ok_eq_Ok [result_simps]: "map_ok f r = Inr y \<longleftrightarrow> (\<exists>x. r = Inr x \<and> y = f x)"
  by (cases r) auto

text \<open>\<open>o.ok_or(e)\<close>.\<close>

definition ok_or :: "'e \<Rightarrow> 'a option \<Rightarrow> 'e + 'a" where
  "ok_or e x = (case x of None \<Rightarrow> Inl e | Some y \<Rightarrow> Inr y)"

lemma ok_or_simps [simp]: "ok_or e None = Inl e" "ok_or e (Some x) = Inr x"
  by (simp_all add: ok_or_def)

lemma ok_or_eq_Ok [simp, result_simps]: "ok_or e m = Inr x \<longleftrightarrow> m = Some x"
  by (cases m) auto

text \<open>\<open>r.is_ok()\<close> and \<open>r.is_err()\<close>.\<close>

definition is_ok :: "'e + 'a \<Rightarrow> bool" where
  "is_ok r = (case r of Inl _ \<Rightarrow> False | Inr _ \<Rightarrow> True)"

lemma is_ok_simps [simp]: "is_ok (Inl e) = False" "is_ok (Inr x) = True"
  by (simp_all add: is_ok_def)

lemma is_ok_iff: "is_ok r \<longleftrightarrow> (\<exists>x. r = Inr x)"
  by (cases r) auto

text \<open>\<open>for x in xs { s = f(x, s)?; }\<close>: the loop that stops at the first error.\<close>

fun try_fold :: "('a \<Rightarrow> 's \<Rightarrow> 'e + 's) \<Rightarrow> 'a list \<Rightarrow> 's \<Rightarrow> 'e + 's" where
  "try_fold f [] s = Inr s"
| "try_fold f (x # xs) s = (case f x s of Inl e \<Rightarrow> Inl e | Inr s' \<Rightarrow> try_fold f xs s')"

declare try_fold.simps(2) [simp del]

lemma try_fold_Cons_eq_Ok [result_simps]:
  "try_fold f (x # xs) s = Inr t \<longleftrightarrow> (\<exists>s'. f x s = Inr s' \<and> try_fold f xs s' = Inr t)"
  by (cases "f x s") (auto simp: try_fold.simps(2))

lemma try_fold_append:
  "try_fold f (xs @ ys) s = bind_ok (try_fold f xs s) (\<lambda>s'. try_fold f ys s')"
  by (induction xs arbitrary: s) (auto simp: try_fold.simps(2) split: sum.splits)

lemma try_fold_invariant:
  assumes "try_fold f xs s = Inr t" and "P s"
    and "\<And>x s s'. x \<in> set xs \<Longrightarrow> P s \<Longrightarrow> f x s = Inr s' \<Longrightarrow> P s'"
  shows "P t"
  using assms
proof (induction xs arbitrary: s)
  case Nil
  then show ?case by simp
next
  case (Cons x xs)
  from Cons.prems(1) obtain s' where s': "f x s = Inr s'" "try_fold f xs s' = Inr t"
    by (auto simp: result_simps)
  have "P s'" using Cons.prems(2,3) s'(1) by auto
  then show ?case using Cons.IH [OF s'(2)] Cons.prems(3) by auto
qed

text \<open>\<open>xs.iter().map(f).collect::<Result<Vec<_>, _>>()\<close>.\<close>

fun try_map :: "('a \<Rightarrow> 'e + 'b) \<Rightarrow> 'a list \<Rightarrow> 'e + 'b list" where
  "try_map f [] = Inr []"
| "try_map f (x # xs) =
     (case f x of Inl e \<Rightarrow> Inl e
      | Inr y \<Rightarrow> (case try_map f xs of Inl e \<Rightarrow> Inl e | Inr ys \<Rightarrow> Inr (y # ys)))"

lemma try_map_eq_Ok: "try_map f xs = Inr ys \<longleftrightarrow> map f xs = map Inr ys"
proof (induction xs arbitrary: ys)
  case Nil
  then show ?case by (cases ys) auto
next
  case (Cons x xs)
  have "try_map f (x # xs) = Inr ys \<longleftrightarrow>
      (\<exists>y zs. f x = Inr y \<and> try_map f xs = Inr zs \<and> ys = y # zs)"
    by (cases "f x"; cases "try_map f xs") auto
  also have "\<dots> \<longleftrightarrow> map f (x # xs) = map Inr ys"
    by (cases ys) (auto simp: Cons.IH)
  finally show ?case .
qed

subsection \<open>The interface of an ordered map\<close>

text \<open>
  What the components rely on when they keep a \<open>BTreeMap\<close>: \<open>get\<close>, \<open>put\<close> (Rust's
  \<open>insert\<close>), the entries in key order and the invariant of the representation. The last law
  says that the representation is canonical, which is what makes Rust's \<open>==\<close> on maps (equality
  of the sequences of entries) the equality of the maps.
\<close>

locale ordered_map =
  fixes get :: "'m \<Rightarrow> 'k \<Rightarrow> 'v option"
    and put :: "'k \<Rightarrow> 'v \<Rightarrow> 'm \<Rightarrow> 'm"
    and entries :: "'m \<Rightarrow> ('k \<times> 'v) list"
    and valid :: "'m \<Rightarrow> bool"
  assumes get_put: "get (put k v m) k' = (if k' = k then Some v else get m k')"
    and valid_put: "valid m \<Longrightarrow> valid (put k v m)"
    and entries_get: "valid m \<Longrightarrow> (k, v) \<in> set (entries m) \<longleftrightarrow> get m k = Some v"
    and canonical: "valid m \<Longrightarrow> valid m' \<Longrightarrow> get m = get m' \<Longrightarrow> m = m'"
begin

lemma get_put_same: "get (put k v m) k = Some v"
  by (simp add: get_put)

lemma get_put_other: "k' \<noteq> k \<Longrightarrow> get (put k v m) k' = get m k'"
  by (simp add: get_put)

lemma put_overwrites: "valid m \<Longrightarrow> put k v (put k w m) = put k v m"
  by (rule canonical) (auto simp: valid_put get_put fun_eq_iff)

lemma put_commute:
  "valid m \<Longrightarrow> k \<noteq> k' \<Longrightarrow> put k v (put k' w m) = put k' w (put k v m)"
  by (rule canonical) (auto simp: valid_put get_put fun_eq_iff)

lemma put_present: "valid m \<Longrightarrow> get m k = Some v \<Longrightarrow> put k v m = m"
  by (rule canonical) (auto simp: valid_put get_put fun_eq_iff)

lemma put_entries:
  "valid m \<Longrightarrow> (k', w) \<in> set (entries (put k v m))
    \<longleftrightarrow> (if k' = k then w = v else (k', w) \<in> set (entries m))"
  by (auto simp: valid_put entries_get get_put)

lemma all_entries_put:
  assumes "valid m" and "\<forall>(k, v) \<in> set (entries m). P k v" and "P k v"
  shows "\<forall>(k, v) \<in> set (entries (put k v m)). P k v"
  using assms by (auto simp: put_entries split: if_splits)

end

subsection \<open>BTreeMap as a strictly sorted association list\<close>

type_synonym ('k, 'v) btree = "('k \<times> 'v) list"

fun bt_insert :: "'k::linorder \<Rightarrow> 'v \<Rightarrow> ('k, 'v) btree \<Rightarrow> ('k, 'v) btree" where
  "bt_insert k v [] = [(k, v)]"
| "bt_insert k v (p # ps) =
     (if fst p < k then p # bt_insert k v ps
      else if fst p = k then (k, v) # ps
      else (k, v) # p # ps)"

definition bt_get :: "('k, 'v) btree \<Rightarrow> 'k \<Rightarrow> 'v option" where
  "bt_get m k = map_of m k"

definition bt_contains :: "('k, 'v) btree \<Rightarrow> 'k \<Rightarrow> bool" where
  "bt_contains m k \<longleftrightarrow> bt_get m k \<noteq> None"

definition bt_valid :: "('k::linorder, 'v) btree \<Rightarrow> bool" where
  "bt_valid m \<longleftrightarrow> sorted_wrt (<) (map fst m)"

definition bt_keys :: "('k, 'v) btree \<Rightarrow> 'k list" where
  "bt_keys m = map fst m"

definition bt_values :: "('k, 'v) btree \<Rightarrow> 'v list" where
  "bt_values m = map snd m"

definition bt_from :: "('k::linorder \<times> 'v) list \<Rightarrow> ('k, 'v) btree" where
  "bt_from kvs = fold (\<lambda>(k, v) m. bt_insert k v m) kvs []"

lemma bt_get_Nil [simp]: "bt_get [] k = None"
  by (simp add: bt_get_def)

lemma bt_get_insert [simp]: "bt_get (bt_insert k v m) k' = (if k' = k then Some v else bt_get m k')"
  by (induction k v m rule: bt_insert.induct) (auto simp: bt_get_def)

lemma bt_contains_insert [simp]:
  "bt_contains (bt_insert k v m) k' \<longleftrightarrow> k' = k \<or> bt_contains m k'"
  by (auto simp: bt_contains_def)

lemma fst_set_bt_insert: "fst ` set (bt_insert k v m) = insert k (fst ` set m)"
  by (induction k v m rule: bt_insert.induct) auto

lemma bt_valid_Nil [simp]: "bt_valid []"
  by (simp add: bt_valid_def)

lemma bt_valid_Cons:
  "bt_valid (p # ps) \<longleftrightarrow> (\<forall>q\<in>set ps. fst p < fst q) \<and> bt_valid ps"
  by (auto simp: bt_valid_def)

lemma bt_valid_insert [simp, intro]: "bt_valid m \<Longrightarrow> bt_valid (bt_insert k v m)"
proof (induction m)
  case Nil
  then show ?case by (simp add: bt_valid_def)
next
  case (Cons p ps)
  have keys: "\<And>q. q \<in> set (bt_insert k v ps) \<Longrightarrow> fst q = k \<or> (\<exists>r\<in>set ps. fst q = fst r)"
    using fst_set_bt_insert [of k v ps] by (metis imageE imageI insertE)
  show ?case
    using Cons keys by (fastforce simp: bt_valid_Cons)
qed

lemma bt_valid_distinct: "bt_valid m \<Longrightarrow> distinct (map fst m)"
  unfolding bt_valid_def by (induction m) (auto simp: less_le)

lemma bt_get_mem: "bt_valid m \<Longrightarrow> (k, v) \<in> set m \<longleftrightarrow> bt_get m k = Some v"
  unfolding bt_get_def by (metis bt_valid_distinct map_of_eq_Some_iff)

lemma bt_contains_keys: "bt_contains m k \<longleftrightarrow> k \<in> set (bt_keys m)"
  by (simp add: bt_contains_def bt_get_def bt_keys_def map_of_eq_None_iff)

lemma bt_canonical:
  assumes "bt_valid m" "bt_valid m'" "bt_get m = bt_get m'"
  shows "m = m'"
proof -
  have "set m = set m'"
  proof (intro set_eqI)
    fix p
    show "p \<in> set m \<longleftrightarrow> p \<in> set m'"
      using assms by (cases p) (simp add: bt_get_mem)
  qed
  moreover have "sorted (map fst m)" "sorted (map fst m')"
    using assms(1,2) by (auto simp: bt_valid_def strict_sorted_imp_sorted)
  moreover have "distinct (map fst m)" "distinct (map fst m')"
    using assms(1,2) by (auto simp: bt_valid_distinct)
  moreover from this(1) have "inj_on fst (set m \<union> set m')"
    using \<open>set m = set m'\<close> by (simp add: distinct_map)
  ultimately show ?thesis
    by (intro map_sorted_distinct_set_unique [of fst]) auto
qed

interpretation bt: ordered_map bt_get bt_insert "\<lambda>m. m" bt_valid
  by unfold_locales (auto simp: bt_get_mem intro: bt_canonical)

lemma bt_get_fold_insert:
  "bt_get (fold (\<lambda>(k, v) m. bt_insert k v m) kvs m) k =
     (case map_of (rev kvs) k of Some v \<Rightarrow> Some v | None \<Rightarrow> bt_get m k)"
  by (induction kvs arbitrary: m) (auto simp: map_add_def split: option.splits)

lemma bt_get_from: "bt_get (bt_from kvs) k = map_of (rev kvs) k"
  by (simp add: bt_from_def bt_get_fold_insert split: option.splits)

lemma bt_valid_from [simp]: "bt_valid (bt_from kvs)"
proof -
  have "bt_valid m \<Longrightarrow> bt_valid (fold (\<lambda>(k, v) m. bt_insert k v m) kvs m)" for m
    by (induction kvs arbitrary: m) auto
  then show ?thesis by (simp add: bt_from_def)
qed

text \<open>\<open>entry(k).or_default().push(v)\<close> and \<open>remove(k)\<close>.\<close>

definition push_entry :: "'k::linorder \<Rightarrow> 'v \<Rightarrow> ('k, 'v list) btree \<Rightarrow> ('k, 'v list) btree" where
  "push_entry k v m = bt_insert k (case_option [] id (bt_get m k) @ [v]) m"

lemma bt_get_push_entry [simp]:
  "bt_get (push_entry k v m) k' =
     (if k' = k then Some (case_option [] id (bt_get m k) @ [v]) else bt_get m k')"
  by (simp add: push_entry_def)

definition bt_remove :: "'k \<Rightarrow> ('k, 'v) btree \<Rightarrow> ('k, 'v) btree" where
  "bt_remove k m = filter (\<lambda>(k', _). k' \<noteq> k) m"

lemma bt_get_remove [simp]: "bt_get (bt_remove k m) k' = (if k' = k then None else bt_get m k')"
  by (induction m) (auto simp: bt_remove_def bt_get_def)

end
