(* ===== verification/Rust_Std.thy ===== *)
theory Rust_Std
  imports Prelude
begin

section \<open>The parts of Rust's standard library the program uses\<close>

text \<open>
  A Rust \<open>String\<close> is the list of its UTF-8 bytes, each byte one \<open>char\<close>, so that
  \<open>length\<close> is \<open>len()\<close> and the order of lists is Rust's order of strings; \<open>trim\<close> and
  \<open>char::is_control\<close> recognise the encodings of the Unicode characters they treat. A
  \<open>u64\<close> is a 64-bit word. A \<open>PathBuf\<close> is the text of the path on Unix; \<open>components\<close>,
  \<open>file_name\<close>, \<open>extension\<close>, \<open>parent\<close>, \<open>join\<close> and \<open>strip_prefix\<close> are those of
  \<open>std::path\<close>, and two paths are equal when their components are. Paths that are not UTF-8
  text are outside the model. A \<open>SystemTime\<close> is the number of nanoseconds since the Unix
  epoch, a \<open>Duration\<close> a number of nanoseconds.
\<close>

subsection \<open>Unsigned integers\<close>

type_synonym u8 = "8 word"
type_synonym u32 = "32 word"
type_synonym u64 = "64 word"

definition saturating_sub :: "u64 \<Rightarrow> u64 \<Rightarrow> u64" where
  "saturating_sub a b = (if a < b then 0 else a - b)"

definition saturating_add :: "u64 \<Rightarrow> u64 \<Rightarrow> u64" where
  "saturating_add a b = (if unat a + unat b < 2 ^ 64 then a + b else -1)"

definition saturating_mul :: "u64 \<Rightarrow> u64 \<Rightarrow> u64" where
  "saturating_mul a b = (if unat a * unat b < 2 ^ 64 then a * b else -1)"

definition checked_add :: "u64 \<Rightarrow> u64 \<Rightarrow> u64 option" where
  "checked_add a b = (if unat a + unat b < 2 ^ 64 then Some (a + b) else None)"

definition checked_mul :: "u64 \<Rightarrow> u64 \<Rightarrow> u64 option" where
  "checked_mul a b = (if unat a * unat b < 2 ^ 64 then Some (a * b) else None)"

text \<open>
  \<open>xs.len() as u64\<close>. No collection of a running program has \<open>2^64\<close> elements; on such lists, which
  exist only here, the cast saturates.
\<close>

definition len_u64 :: "'a list \<Rightarrow> u64" where
  "len_u64 xs = of_nat (min (length xs) (2 ^ 64 - 1))"

lemma unat_minus_one_u64: "unat (-1 :: u64) = 2 ^ 64 - 1"
  by (simp add: unsigned_minus_1_eq_mask mask_eq_exp_minus_1)

lemma unat_saturating_sub: "unat (saturating_sub a b) = unat a - unat b"
  by (auto simp: saturating_sub_def unat_sub word_less_nat_alt word_le_nat_alt not_less)

lemma unat_saturating_add: "unat (saturating_add a b) = min (unat a + unat b) (2 ^ 64 - 1)"
  by (auto simp: saturating_add_def unat_word_ariths unat_minus_one_u64)

lemma unat_saturating_mul: "unat (saturating_mul a b) = min (unat a * unat b) (2 ^ 64 - 1)"
  by (auto simp: saturating_mul_def unat_word_ariths unat_minus_one_u64)

lemma checked_add_Some: "checked_add a b = Some c \<Longrightarrow> unat c = unat a + unat b"
  by (auto simp: checked_add_def unat_word_ariths split: if_splits)

lemma checked_mul_Some: "checked_mul a b = Some c \<Longrightarrow> unat c = unat a * unat b"
  by (auto simp: checked_mul_def unat_word_ariths split: if_splits)

lemma unat_len_u64: "unat (len_u64 xs) = min (length xs) (2 ^ 64 - 1)"
  by (simp add: len_u64_def unat_of_nat take_bit_nat_eq_self min_def)

lemma len_u64_eq_0 [simp]: "len_u64 xs = 0 \<longleftrightarrow> xs = []"
  by (auto simp: word_unat_eq_iff unat_len_u64 min_def split: if_splits)

lemma len_u64_eq_1 [simp]: "len_u64 xs = 1 \<longleftrightarrow> length xs = 1"
  by (auto simp: word_unat_eq_iff unat_len_u64)

lemma saturating_add_eq_0 [simp]: "saturating_add a b = 0 \<longleftrightarrow> a = 0 \<and> b = 0"
  by (auto simp: word_unat_eq_iff unat_saturating_add)

subsection \<open>Strings\<close>

definition byte :: "char \<Rightarrow> nat" where
  "byte c = of_char c"

text \<open>The UTF-8 encodings of the characters with the Unicode property White_Space.\<close>

definition white_space :: "string list" where
  "white_space =
     map (map char_of) ([[9], [10], [11], [12], [13], [32],
       [194, 133], [194, 160], [225, 154, 128],
       [226, 128, 128], [226, 128, 129], [226, 128, 130], [226, 128, 131], [226, 128, 132],
       [226, 128, 133], [226, 128, 134], [226, 128, 135], [226, 128, 136], [226, 128, 137],
       [226, 128, 138], [226, 128, 168], [226, 128, 169], [226, 128, 175], [226, 129, 159],
       [227, 128, 128]] :: nat list list)"

fun strip_any :: "string list \<Rightarrow> string \<Rightarrow> string option" where
  "strip_any [] s = None"
| "strip_any (w # ws) s =
     (if w \<noteq> [] \<and> take (length w) s = w then Some (drop (length w) s) else strip_any ws s)"

lemma strip_any_suffix: "strip_any ws s = Some t \<Longrightarrow> \<exists>w. w \<in> set ws \<and> w \<noteq> [] \<and> s = w @ t"
  by (induction ws) (auto split: if_splits, metis append_take_drop_id)

lemma strip_any_shorter: "strip_any ws s = Some t \<Longrightarrow> length t < length s"
  by (auto dest!: strip_any_suffix)

function strip_all :: "string list \<Rightarrow> string \<Rightarrow> string" where
  "strip_all ws s = (case strip_any ws s of None \<Rightarrow> s | Some t \<Rightarrow> strip_all ws t)"
  by pat_completeness auto
termination
  by (relation "measure (\<lambda>(ws, s). length s)") (auto dest: strip_any_shorter)

declare strip_all.simps [simp del]

definition trim_start :: "string \<Rightarrow> string" where
  "trim_start s = strip_all white_space s"

definition trim_end :: "string \<Rightarrow> string" where
  "trim_end s = rev (strip_all (map rev white_space) (rev s))"

definition trim :: "string \<Rightarrow> string" where
  "trim s = trim_end (trim_start s)"

text \<open>\<open>s.trim().is_empty()\<close>.\<close>

definition is_blank :: "string \<Rightarrow> bool" where
  "is_blank s \<longleftrightarrow> trim s = []"

text \<open>\<open>s.chars().any(char::is_control)\<close>: U+0000 to U+001F and U+007F to U+009F.\<close>

fun has_control :: "string \<Rightarrow> bool" where
  "has_control [] = False"
| "has_control (c # cs) =
     (byte c < 32 \<or> byte c = 127
      \<or> (byte c = 194 \<and> (case cs of [] \<Rightarrow> False | d # _ \<Rightarrow> 128 \<le> byte d \<and> byte d \<le> 159))
      \<or> has_control cs)"

definition is_ascii_hexdigit :: "char \<Rightarrow> bool" where
  "is_ascii_hexdigit c \<longleftrightarrow>
     (48 \<le> byte c \<and> byte c \<le> 57) \<or> (97 \<le> byte c \<and> byte c \<le> 102) \<or> (65 \<le> byte c \<and> byte c \<le> 70)"

definition ascii_lower :: "char \<Rightarrow> char" where
  "ascii_lower c = (if 65 \<le> byte c \<and> byte c \<le> 90 then char_of (byte c + 32) else c)"

definition to_ascii_lowercase :: "string \<Rightarrow> string" where
  "to_ascii_lowercase s = map ascii_lower s"

definition starts_with :: "string \<Rightarrow> string \<Rightarrow> bool" where
  "starts_with s p \<longleftrightarrow> take (length p) s = p"

fun contains_str :: "string \<Rightarrow> string \<Rightarrow> bool" where
  "contains_str [] p = (p = [])"
| "contains_str (c # cs) p = (starts_with (c # cs) p \<or> contains_str cs p)"

text \<open>Decimal rendering, as by \<open>to_string\<close> on an unsigned integer.\<close>

fun nat_to_string :: "nat \<Rightarrow> string" where
  "nat_to_string n =
     (if n < 10 then [char_of (48 + n)] else nat_to_string (n div 10) @ [char_of (48 + n mod 10)])"

declare nat_to_string.simps [simp del]

definition u64_to_string :: "u64 \<Rightarrow> string" where
  "u64_to_string w = nat_to_string (unat w)"

paragraph \<open>Trimming is idempotent.\<close>

lemma strip_all_stops: "strip_any ws (strip_all ws s) = None"
  by (induction ws s rule: strip_all.induct) (subst strip_all.simps, auto split: option.splits)

lemma strip_all_fixed: "strip_any ws s = None \<Longrightarrow> strip_all ws s = s"
  by (subst strip_all.simps) simp

lemma strip_all_suffix: "\<exists>p. s = p @ strip_all ws s"
proof (induction ws s rule: strip_all.induct)
  case (1 ws s)
  show ?case
  proof (cases "strip_any ws s")
    case None
    then show ?thesis by (simp add: strip_all_fixed)
  next
    case (Some t)
    then have "strip_all ws s = strip_all ws t" by (subst strip_all.simps) simp
    moreover from Some obtain w where "s = w @ t" using strip_any_suffix by blast
    ultimately show ?thesis using 1 [OF Some] by (metis append.assoc)
  qed
qed

lemma strip_any_prefix: "strip_any ws (s @ t) = None \<Longrightarrow> strip_any ws s = None"
proof (induction ws)
  case (Cons w ws)
  then show ?case by (auto split: if_splits)
qed simp

lemma trim_end_prefix: "\<exists>q. s = trim_end s @ q"
proof -
  obtain p where "rev s = p @ strip_all (map rev white_space) (rev s)"
    using strip_all_suffix by blast
  then have "s = trim_end s @ rev p"
    unfolding trim_end_def by (metis rev_append rev_rev_ident)
  then show ?thesis by blast
qed

lemma trim_idem [simp]: "trim (trim s) = trim s"
proof -
  have "strip_any white_space (trim_end (trim_start s)) = None"
    using trim_end_prefix [of "trim_start s"] strip_all_stops [of white_space s]
    by (metis strip_any_prefix trim_start_def)
  then have "trim_start (trim s) = trim s"
    by (simp add: trim_def trim_start_def [of "trim_end _"] strip_all_fixed)
  moreover have "trim_end (trim_end t) = trim_end t" for t
    by (simp add: trim_end_def strip_all_fixed strip_all_stops)
  ultimately show ?thesis by (metis trim_def)
qed

lemma is_blank_trim [simp]: "is_blank (trim s) = is_blank s"
  by (simp add: is_blank_def)

lemma trim_Nil [simp]: "trim [] = []"
proof -
  have "strip_any ws [] = None" for ws by (induction ws) auto
  then show ?thesis
    by (simp add: trim_def trim_start_def trim_end_def strip_all_fixed)
qed

paragraph \<open>A string that holds a graphic ASCII character is not blank.\<close>

lemma strip_any_chars:
  "strip_any ws s = Some t \<Longrightarrow> set s \<subseteq> (\<Union>w\<in>set ws. set w) \<union> set t"
  by (auto dest!: strip_any_suffix)

lemma strip_all_chars: "set s \<subseteq> (\<Union>w\<in>set ws. set w) \<union> set (strip_all ws s)"
proof (induction ws s rule: strip_all.induct)
  case (1 ws s)
  show ?case
  proof (cases "strip_any ws s")
    case None
    then show ?thesis by (auto simp: strip_all_fixed)
  next
    case (Some t)
    then have "strip_all ws s = strip_all ws t" by (subst strip_all.simps) simp
    then show ?thesis using 1 [OF Some] strip_any_chars [OF Some] by auto
  qed
qed

lemma trim_chars: "set s \<subseteq> (\<Union>w\<in>set white_space. set w) \<union> set (trim s)"
proof -
  have "set (rev (trim_start s)) \<subseteq> (\<Union>w\<in>set (map rev white_space). set w) \<union> set (rev (trim s))"
    unfolding trim_def trim_end_def by (metis rev_rev_ident strip_all_chars)
  then show ?thesis
    using strip_all_chars [of s white_space] unfolding trim_start_def by auto
qed

lemma white_space_not_graphic: "w \<in> set white_space \<Longrightarrow> c \<in> set w \<Longrightarrow> byte c \<le> 32 \<or> 127 \<le> byte c"
  by (auto simp: white_space_def byte_def)

lemma not_blank_graphic:
  assumes "c \<in> set s" "32 < byte c" "byte c < 127"
  shows "\<not> is_blank s"
  using assms trim_chars [of s] white_space_not_graphic [of _ c] by (fastforce simp: is_blank_def)

lemma not_blank_Cons [simp]: "32 < byte c \<Longrightarrow> byte c < 127 \<Longrightarrow> \<not> is_blank (c # cs)"
  by (rule not_blank_graphic [of c]) auto

text \<open>Text that begins and ends with a graphic character has nothing to trim.\<close>

lemma strip_any_graphic:
  "strip_any ws (c # cs) = None" if "\<And>w. w \<in> set ws \<Longrightarrow> \<forall>d\<in>set w. byte d \<le> 32 \<or> 127 \<le> byte d"
    "32 < byte c" "byte c < 127"
  using that
proof (induction ws)
  case (Cons w ws)
  have "take (length w) (c # cs) \<noteq> w" if "w \<noteq> []"
  proof
    assume "take (length w) (c # cs) = w"
    with that have "c \<in> set w" by (cases w) auto
    with Cons.prems(1) [of w] Cons.prems(2,3) show False by auto
  qed
  with Cons show ?case by auto
qed simp

lemma trim_graphic:
  assumes "s \<noteq> []" "32 < byte (hd s)" "byte (hd s) < 127" "32 < byte (last s)" "byte (last s) < 127"
  shows "trim s = s"
proof -
  have ws: "\<forall>d\<in>set w. byte d \<le> 32 \<or> 127 \<le> byte d" if "w \<in> set white_space" for w
    using white_space_not_graphic [OF that] by blast
  have ws': "\<forall>d\<in>set w. byte d \<le> 32 \<or> 127 \<le> byte d" if "w \<in> set (map rev white_space)" for w
  proof -
    from that obtain x where x: "x \<in> set white_space" "w = rev x" by auto
    show ?thesis using ws [OF x(1)] unfolding x(2) set_rev .
  qed
  obtain c cs where s: "s = c # cs" using assms(1) by (cases s) auto
  obtain d ds where r: "rev s = d # ds" using assms(1) by (cases "rev s") auto
  then have d: "d = last s" using assms(1) by (metis hd_rev list.sel(1))
  have "strip_any white_space s = None"
    unfolding s using ws assms(2,3) s by (intro strip_any_graphic) simp_all
  then have "trim_start s = s" by (simp add: trim_start_def strip_all_fixed)
  moreover have "strip_any (map rev white_space) (rev s) = None"
    unfolding r using ws' assms(4,5) d by (intro strip_any_graphic) blast+
  then have "trim_end s = s" by (simp add: trim_end_def strip_all_fixed)
  ultimately show ?thesis by (simp add: trim_def)
qed

lemma is_blank_Nil [simp]: "is_blank []"
  by (simp add: is_blank_def)

subsection \<open>Paths\<close>

type_synonym path = string

datatype component = RootDir | CurDir | ParentDir | Normal string

text \<open>
  The segments between the separators, each with the position of its first byte and of the byte
  after its last.
\<close>

fun segments :: "nat \<Rightarrow> string \<Rightarrow> nat \<Rightarrow> path \<Rightarrow> (string \<times> nat \<times> nat) list" where
  "segments start acc pos [] = [(rev acc, start, pos)]"
| "segments start acc pos (c # cs) =
     (if c = CHR ''/'' then (rev acc, start, pos) # segments (Suc pos) [] (Suc pos) cs
      else segments start (c # acc) (Suc pos) cs)"

definition is_absolute :: "path \<Rightarrow> bool" where
  "is_absolute p \<longleftrightarrow> (case p of [] \<Rightarrow> False | c # _ \<Rightarrow> c = CHR ''/'')"

definition segment_component :: "string \<times> nat \<times> nat \<Rightarrow> (component \<times> nat \<times> nat) option" where
  "segment_component sg =
     (case sg of (s, b, e) \<Rightarrow>
        if s = [] then None
        else if s = ''.'' then (if b = 0 then Some (CurDir, b, e) else None)
        else if s = ''..'' then Some (ParentDir, b, e)
        else Some (Normal s, b, e))"

text \<open>\<open>Path::components\<close>, with the place of each component in the text.\<close>

definition component_spans :: "path \<Rightarrow> (component \<times> nat \<times> nat) list" where
  "component_spans p =
     (if is_absolute p then [(RootDir, 0, 1)] else [])
     @ List.map_filter segment_component (segments 0 [] 0 p)"

definition components :: "path \<Rightarrow> component list" where
  "components p = map fst (component_spans p)"

text \<open>\<open>==\<close> on paths.\<close>

definition path_eq :: "path \<Rightarrow> path \<Rightarrow> bool" where
  "path_eq a b \<longleftrightarrow> components a = components b"

definition file_name :: "path \<Rightarrow> string option" where
  "file_name p =
     (case rev (components p) of Normal s # _ \<Rightarrow> Some s | _ \<Rightarrow> None)"

text \<open>The position of the last dot of a file name, if it is not its first byte.\<close>

definition last_dot :: "string \<Rightarrow> nat option" where
  "last_dot s =
     (let suffix = takeWhile (\<lambda>c. c \<noteq> CHR ''.'') (rev s) in
      if length suffix + 1 < length s then Some (length s - length suffix - 1) else None)"

definition file_stem :: "path \<Rightarrow> string option" where
  "file_stem p =
     (case file_name p of None \<Rightarrow> None
      | Some s \<Rightarrow> Some (case last_dot s of None \<Rightarrow> s | Some i \<Rightarrow> take i s))"

definition path_extension :: "path \<Rightarrow> string option" where
  "path_extension p =
     (case file_name p of None \<Rightarrow> None
      | Some s \<Rightarrow> (case last_dot s of None \<Rightarrow> None | Some i \<Rightarrow> Some (drop (Suc i) s)))"

text \<open>\<open>PathBuf::set_extension\<close> with a non-empty extension.\<close>

definition set_extension :: "path \<Rightarrow> string \<Rightarrow> path" where
  "set_extension p ext =
     (case file_stem p of None \<Rightarrow> p
      | Some stem \<Rightarrow> take (fst (snd (last (component_spans p))) + length stem) p @ ''.'' @ ext)"

text \<open>\<open>Path::parent\<close>: the text up to the end of the component before the last.\<close>

definition path_parent :: "path \<Rightarrow> path option" where
  "path_parent p =
     (case rev (component_spans p) of
        [] \<Rightarrow> None
      | (RootDir, _) # _ \<Rightarrow> None
      | _ # [] \<Rightarrow> Some []
      | _ # (_, _, e) # _ \<Rightarrow> Some (take e p))"

definition path_join :: "path \<Rightarrow> path \<Rightarrow> path" where
  "path_join a b =
     (if is_absolute b then b
      else if a = [] \<or> last a = CHR ''/'' then a @ b
      else a @ ''/'' @ b)"

text \<open>\<open>Path::strip_prefix\<close>: the text from the first component after the base to the last.\<close>

definition strip_prefix :: "path \<Rightarrow> path \<Rightarrow> path option" where
  "strip_prefix p base =
     (let n = length (components base); rest = drop n (component_spans p) in
      if take n (components p) = components base
      then Some (case rest of [] \<Rightarrow> []
                 | (_, b, _) # _ \<Rightarrow> (let e = snd (snd (last rest)) in take (e - b) (drop b p)))
      else None)"

definition is_normal :: "component \<Rightarrow> bool" where
  "is_normal c = (case c of Normal _ \<Rightarrow> True | _ \<Rightarrow> False)"

lemma path_eq_refl [simp]: "path_eq p p"
  by (simp add: path_eq_def)

lemma path_eq_sym: "path_eq a b \<Longrightarrow> path_eq b a"
  by (simp add: path_eq_def)

lemma path_eq_trans: "path_eq a b \<Longrightarrow> path_eq b c \<Longrightarrow> path_eq a c"
  by (simp add: path_eq_def)

text \<open>The file name of a joined path is the name that was joined.\<close>

lemma segments_plain:
  "CHR ''/'' \<notin> set t \<Longrightarrow> segments st acc pos t = [(rev acc @ t, st, pos + length t)]"
  by (induction t arbitrary: acc pos) auto

lemma segments_join:
  "segments st acc pos (xs @ CHR ''/'' # t)
     = segments st acc pos xs @ segments (Suc (pos + length xs)) [] (Suc (pos + length xs)) t"
  by (induction xs arbitrary: st acc pos) auto

lemma segments_no_slash:
  "(s, b, e) \<in> set (segments st acc pos t) \<Longrightarrow> CHR ''/'' \<notin> set acc \<Longrightarrow> CHR ''/'' \<notin> set s"
  by (induction st acc pos t rule: segments.induct) (auto split: if_splits)

definition plain_name :: "string \<Rightarrow> bool" where
  "plain_name t \<longleftrightarrow> t \<notin> {[], ''.'', ''..''} \<and> CHR ''/'' \<notin> set t"

lemma segment_plain: "plain_name t \<Longrightarrow> segment_component (t, b, e) = Some (Normal t, b, e)"
  by (auto simp: plain_name_def segment_component_def)

lemma file_name_join:
  assumes "plain_name t"
  shows "file_name (path_join a t) = Some t"
proof -
  have t: "CHR ''/'' \<notin> set t" "\<not> is_absolute t"
    using assms by (auto simp: plain_name_def is_absolute_def split: list.splits)
  have last: "\<exists>cs b e. component_spans p = cs @ [(Normal t, b, e)]"
    if "segments 0 [] 0 p = sg @ [(t, b, e)]" for p sg b e
    using assms by (simp add: component_spans_def that map_filter_def segment_plain)
  have "\<exists>sg b e. segments 0 [] 0 (path_join a t) = sg @ [(t, b, e)]"
  proof (cases "a = [] \<or> last a = CHR ''/''")
    case True
    then consider "a = []" | a' where "a = a' @ [CHR ''/'']"
      by (metis append_butlast_last_id)
    then show ?thesis
      by cases (use t True in \<open>auto simp: path_join_def segments_plain segments_join\<close>)
  next
    case False
    with t show ?thesis by (auto simp: path_join_def segments_plain segments_join)
  qed
  with last show ?thesis by (fastforce simp: file_name_def components_def)
qed

lemma file_name_no_slash: "file_name p = Some s \<Longrightarrow> CHR ''/'' \<notin> set s"
proof -
  assume "file_name p = Some s"
  then have "Normal s \<in> set (components p)"
    by (cases "rev (components p)") (auto simp: file_name_def split: component.splits
        dest!: arg_cong [where f = set])
  then show ?thesis
    using segments_no_slash [of s _ _ 0 "[]" 0 p]
    by (auto simp: components_def component_spans_def map_filter_def segment_component_def
        split: if_splits)
qed

lemma file_name_path_eq: "path_eq p q \<Longrightarrow> file_name p = file_name q"
  by (simp add: path_eq_def file_name_def)

subsection \<open>Time\<close>

type_synonym system_time = int
type_synonym duration = nat

definition nanos_per_second :: nat where
  "nanos_per_second = 1000000000"

text \<open>\<open>self.duration_since(earlier)\<close>: an error when \<open>earlier\<close> is later.\<close>

definition duration_since :: "system_time \<Rightarrow> system_time \<Rightarrow> duration option" where
  "duration_since t earlier = (if earlier \<le> t then Some (nat (t - earlier)) else None)"

text \<open>\<open>Duration::as_secs\<close> and \<open>Duration::from_secs\<close>.\<close>

definition as_secs :: "duration \<Rightarrow> u64" where
  "as_secs d = word_of_nat (d div nanos_per_second)"

definition from_secs :: "u64 \<Rightarrow> duration" where
  "from_secs s = unat s * nanos_per_second"

end
