(* ===== verification/Json.thy ===== *)
theory Json
  imports Rust_Std
begin

section \<open>JSON values: serde's data model and the strict reader\<close>

text \<open>
  \<open>serde_json::Value\<close> with its three kinds of number, an object being a \<open>BTreeMap\<close> from
  names to values; the accessors the program calls on it; the decoding of structs as derived by
  \<open>#[derive(Deserialize)]\<close> (from an object, from an array in field order, with aliases and
  defaults), their encoding, the compact text that is hashed, and the visitor of
  \<open>src/src/strict_json.rs\<close>, which refuses an object with a duplicate key.
\<close>

datatype number = PosInt u64 | NegInt u64 | Float64 u64

datatype json =
    JNull
  | JBool bool
  | JNumber number
  | JString string
  | JArray "json list"
  | JObject "(string \<times> json) list"

subsection \<open>Accessors of \<open>Value\<close>\<close>

definition json_as_str :: "json \<Rightarrow> string option" where
  "json_as_str j = (case j of JString s \<Rightarrow> Some s | _ \<Rightarrow> None)"

definition json_as_u64 :: "json \<Rightarrow> u64 option" where
  "json_as_u64 j = (case j of JNumber (PosInt n) \<Rightarrow> Some n | _ \<Rightarrow> None)"

text \<open>A \<open>NegInt\<close> holds the two's complement bits of a negative \<open>i64\<close>.\<close>

definition json_as_i64 :: "json \<Rightarrow> int option" where
  "json_as_i64 j =
     (case j of
        JNumber (PosInt n) \<Rightarrow> (if unat n < 2 ^ 63 then Some (uint n) else None)
      | JNumber (NegInt n) \<Rightarrow> Some (sint n)
      | _ \<Rightarrow> None)"

definition json_as_bool :: "json \<Rightarrow> bool option" where
  "json_as_bool j = (case j of JBool b \<Rightarrow> Some b | _ \<Rightarrow> None)"

definition json_as_array :: "json \<Rightarrow> json list option" where
  "json_as_array j = (case j of JArray vs \<Rightarrow> Some vs | _ \<Rightarrow> None)"

definition json_as_object :: "json \<Rightarrow> (string \<times> json) list option" where
  "json_as_object j = (case j of JObject m \<Rightarrow> Some m | _ \<Rightarrow> None)"

definition json_get :: "string \<Rightarrow> json \<Rightarrow> json option" where
  "json_get k j = (case j of JObject m \<Rightarrow> bt_get m k | _ \<Rightarrow> None)"

text \<open>\<open>value[k] = v\<close>: a null becomes an object, any other value that is no object panics
  (\<open>None\<close>).\<close>

definition json_set :: "string \<Rightarrow> json \<Rightarrow> json \<Rightarrow> json option" where
  "json_set k v j =
     (case j of
        JNull \<Rightarrow> Some (JObject [(k, v)])
      | JObject m \<Rightarrow> Some (JObject (bt_insert k v m))
      | _ \<Rightarrow> None)"

lemma json_accessor_simps [simp]:
  "json_as_str (JString s) = Some s"
  "json_as_u64 (JNumber (PosInt n)) = Some n"
  "json_as_bool (JBool b) = Some b"
  "json_as_array (JArray vs) = Some vs"
  "json_as_object (JObject m) = Some m"
  "json_get k (JObject m) = bt_get m k"
  by (simp_all add: json_as_str_def json_as_u64_def json_as_bool_def json_as_array_def
      json_as_object_def json_get_def)

lemma json_as_str_eq_Some [simp]: "json_as_str j = Some s \<longleftrightarrow> j = JString s"
  by (auto simp: json_as_str_def split: json.splits)

lemma json_as_object_eq_Some [simp]: "json_as_object j = Some m \<longleftrightarrow> j = JObject m"
  by (auto simp: json_as_object_def split: json.splits)

lemma json_as_array_eq_Some [simp]: "json_as_array j = Some vs \<longleftrightarrow> j = JArray vs"
  by (auto simp: json_as_array_def split: json.splits)

lemma json_as_u64_eq_Some [simp]: "json_as_u64 j = Some n \<longleftrightarrow> j = JNumber (PosInt n)"
  by (auto simp: json_as_u64_def split: json.splits number.splits)

lemma json_as_bool_eq_Some [simp]: "json_as_bool j = Some b \<longleftrightarrow> j = JBool b"
  by (auto simp: json_as_bool_def split: json.splits)

subsection \<open>Encoding\<close>

definition jobject :: "(string \<times> json) list \<Rightarrow> json" where
  "jobject kvs = JObject (bt_from kvs)"

definition ser_u64 :: "u64 \<Rightarrow> json" where
  "ser_u64 n = JNumber (PosInt n)"

definition ser_small :: "'a::len word \<Rightarrow> json" where
  "ser_small n = JNumber (PosInt (ucast n))"

definition ser_opt :: "('a \<Rightarrow> json) \<Rightarrow> 'a option \<Rightarrow> json" where
  "ser_opt f x = (case x of None \<Rightarrow> JNull | Some v \<Rightarrow> f v)"

text \<open>A field with \<open>skip_serializing_if = "Option::is_none"\<close>.\<close>

definition ser_skip_none :: "string \<Rightarrow> ('a \<Rightarrow> json) \<Rightarrow> 'a option \<Rightarrow> (string \<times> json) list" where
  "ser_skip_none k f x = (case x of None \<Rightarrow> [] | Some v \<Rightarrow> [(k, f v)])"

lemma json_get_jobject [simp]: "json_get k (jobject kvs) = map_of (rev kvs) k"
  by (simp add: jobject_def bt_get_from)

subsection \<open>Decoding\<close>

definition de_string :: "json \<Rightarrow> string option" where
  "de_string j = json_as_str j"

definition de_u64 :: "json \<Rightarrow> u64 option" where
  "de_u64 j = json_as_u64 j"

definition de_small :: "json \<Rightarrow> ('a::len word) option" where
  "de_small j =
     (case json_as_u64 j of None \<Rightarrow> None
      | Some n \<Rightarrow> (if unat n < 2 ^ LENGTH('a) then Some (ucast n) else None))"

definition de_bool :: "json \<Rightarrow> bool option" where
  "de_bool j = json_as_bool j"

text \<open>
  The fields of a struct as the derived visitor reads them: each field with its aliases; from an
  object, a field given twice (under its name and an alias) is an error and a name of no field is
  ignored; from an array, the elements are the fields in order and too many are an error. The flag
  says that the source is an array, where a missing field without a default is an error even if
  it is an \<open>Option\<close>.
\<close>

type_synonym struct_source = "bool \<times> (string \<Rightarrow> json option)"

fun first_some :: "'a option list \<Rightarrow> 'a option" where
  "first_some [] = None"
| "first_some (x # xs) = (case x of None \<Rightarrow> first_some xs | Some y \<Rightarrow> Some y)"

definition struct_fields :: "(string \<times> string list) list \<Rightarrow> json \<Rightarrow> struct_source option" where
  "struct_fields fs j =
     (case j of
        JObject m \<Rightarrow>
          (if list_all (\<lambda>(n, as). length (filter (bt_contains m) (n # as)) \<le> 1) fs
           then Some (False, \<lambda>n. case map_of fs n of None \<Rightarrow> None
                                 | Some as \<Rightarrow> first_some (map (bt_get m) (n # as)))
           else None)
      | JArray vs \<Rightarrow>
          (if length vs \<le> length fs then Some (True, map_of (zip (map fst fs) vs)) else None)
      | _ \<Rightarrow> None)"

definition plain :: "string list \<Rightarrow> (string \<times> string list) list" where
  "plain ns = map (\<lambda>n. (n, [])) ns"

definition field_req :: "struct_source \<Rightarrow> string \<Rightarrow> (json \<Rightarrow> 'a option) \<Rightarrow> 'a option" where
  "field_req src n de = (case snd src n of None \<Rightarrow> None | Some v \<Rightarrow> de v)"

definition de_option :: "(json \<Rightarrow> 'a option) \<Rightarrow> json \<Rightarrow> 'a option option" where
  "de_option de v = (if v = JNull then Some None else map_option Some (de v))"

definition field_opt :: "struct_source \<Rightarrow> string \<Rightarrow> (json \<Rightarrow> 'a option) \<Rightarrow> 'a option option" where
  "field_opt src n de =
     (case snd src n of
        None \<Rightarrow> (if fst src then None else Some None)
      | Some v \<Rightarrow> de_option de v)"

definition field_default :: "struct_source \<Rightarrow> string \<Rightarrow> 'a \<Rightarrow> (json \<Rightarrow> 'a option) \<Rightarrow> 'a option" where
  "field_default src n d de = (case snd src n of None \<Rightarrow> Some d | Some v \<Rightarrow> de v)"

lemma de_ser [simp]:
  "de_string (JString s) = Some s"
  "de_u64 (ser_u64 n) = Some n"
  "de_bool (JBool b) = Some b"
  by (simp_all add: de_string_def de_u64_def ser_u64_def de_bool_def)

lemma de_ser_u8 [simp]: "de_small (ser_small (n :: u8)) = Some n"
proof -
  have "unat n < 2 ^ LENGTH(8)" by (rule unsigned_less)
  then have "unat (ucast n :: u64) = unat n"
    by (simp add: unsigned_ucast_eq take_bit_nat_eq_self)
  then show ?thesis
    using \<open>unat n < 2 ^ LENGTH(8)\<close> by (simp add: de_small_def ser_small_def ucast_up_ucast_id is_up)
qed

lemma de_ser_u32 [simp]: "de_small (ser_small (n :: u32)) = Some n"
proof -
  have "unat n < 2 ^ LENGTH(32)" by (rule unsigned_less)
  then have "unat (ucast n :: u64) = unat n"
    by (simp add: unsigned_ucast_eq take_bit_nat_eq_self)
  then show ?thesis
    using \<open>unat n < 2 ^ LENGTH(32)\<close> by (simp add: de_small_def ser_small_def ucast_up_ucast_id is_up)
qed

lemma de_option_ser [simp]:
  assumes "\<And>v. x = Some v \<Longrightarrow> de (ser v) = Some v \<and> ser v \<noteq> JNull"
  shows "de_option de (ser_opt ser x) = Some x"
  using assms by (cases x) (auto simp: de_option_def ser_opt_def)

lemma ser_not_null [simp]: "ser_u64 n \<noteq> JNull" "ser_small m \<noteq> JNull" "jobject kvs \<noteq> JNull"
  by (simp_all add: ser_u64_def ser_small_def jobject_def)

lemma struct_fields_plain_object:
  "struct_fields (plain ns) (JObject m) = Some (False, \<lambda>n. if n \<in> set ns then bt_get m n else None)"
proof -
  have "map_of (plain ns) n = (if n \<in> set ns then Some [] else None)" for n
    by (induction ns) (auto simp: plain_def)
  moreover have "list_all (\<lambda>(n, as). length (filter (bt_contains m) (n # as)) \<le> 1) (plain ns)"
    by (auto simp: plain_def list_all_iff)
  ultimately show ?thesis
    by (simp add: struct_fields_def fun_eq_iff split: option.splits)
qed

lemma struct_fields_plain_jobject:
  "struct_fields (plain ns) (jobject kvs)
     = Some (False, \<lambda>n. if n \<in> set ns then map_of (rev kvs) n else None)"
  by (simp add: jobject_def struct_fields_plain_object bt_get_from fun_eq_iff)

text \<open>Reading back a struct with fields that are left out when they are \<open>None\<close>.\<close>

lemma map_of_rev_distinct: "distinct (map fst kvs) \<Longrightarrow> map_of (rev kvs) n = map_of kvs n"
  by (metis distinct_rev map_of_eqI map_of_is_SomeI map_of_SomeD map_of_eq_None_iff option.exhaust
      rev_map set_map set_rev)

lemma struct_fields_distinct:
  "distinct (map fst kvs) \<Longrightarrow> struct_fields (plain ns) (jobject kvs)
     = Some (False, \<lambda>n. if n \<in> set ns then map_of kvs n else None)"
  by (simp add: struct_fields_plain_jobject fun_eq_iff map_of_rev_distinct)

lemma map_of_skip_none:
  "n \<noteq> k \<Longrightarrow> map_of (ser_skip_none k f x @ ys) n = map_of ys n"
  "map_of ys k = None \<Longrightarrow> map_of (ser_skip_none k f x @ ys) k = map_option f x"
  "n \<noteq> k \<Longrightarrow> map_of (ser_skip_none k f x) n = None"
  "map_of (ser_skip_none k f x) k = map_option f x"
  by (auto simp: ser_skip_none_def split: option.splits)

lemma fst_ser_skip_none: "fst ` set (ser_skip_none k f x) = (if x = None then {} else {k})"
  by (auto simp: ser_skip_none_def split: option.splits)

lemma distinct_ser_skip_none: "distinct (map fst (ser_skip_none k f x))"
  by (simp add: ser_skip_none_def split: option.splits)

lemma case_option_read_back:
  assumes "\<And>v. de (f v) = Some v \<and> f v \<noteq> JNull"
  shows "case_option (Some None) (de_option de \<circ> f) x = Some x"
    and "case_option (Some None) (\<lambda>v. de_option de (f v)) x = Some x"
  using assms by (cases x; simp add: de_option_def)+

lemmas skip_none_simps = map_of_skip_none case_option_read_back field_req_def field_default_def
  field_opt_def

subsection \<open>The interface of a proof type\<close>

text \<open>
  What the workflow relies on when it stores a typed proof in a record and reads it back: the
  decoder inverts the encoder. Each proof type of the program interprets this locale.
\<close>

locale codec =
  fixes enc :: "'a \<Rightarrow> json" and de :: "json \<Rightarrow> 'a option"
  assumes de_enc: "de (enc x) = Some x"
begin

lemma enc_inject: "enc x = enc y \<longleftrightarrow> x = y"
  by (metis de_enc option.inject)

lemma stored_read_back:
  "bt_get (bt_insert k (enc x) ps) k = Some v \<Longrightarrow> de v = Some x"
  by (auto simp: de_enc)

lemma stored_other:
  "k' \<noteq> k \<Longrightarrow> bt_get (bt_insert k (enc x) ps) k' = bt_get ps k'"
  by simp

end

interpretation string_codec: codec JString de_string
  by unfold_locales simp

interpretation u64_codec: codec ser_u64 de_u64
  by unfold_locales simp

subsection \<open>Compact text\<close>

text \<open>
  \<open>serde_json::to_vec\<close>. The rendering of floating point numbers belongs to the library and is
  a parameter. A struct prints its fields in the order of its declaration, so its text is that of
  a \<open>JObject\<close> in that order.
\<close>

definition hex_digit :: "nat \<Rightarrow> char" where
  "hex_digit n = char_of (if n < 10 then 48 + n else 87 + n)"

definition json_escape :: "char \<Rightarrow> string" where
  "json_escape c =
     (let n = byte c; bs = char_of (92 :: nat) in
      if n = 34 \<or> n = 92 then [bs, c]
      else if n = 8 then [bs, CHR ''b'']
      else if n = 9 then [bs, CHR ''t'']
      else if n = 10 then [bs, CHR ''n'']
      else if n = 12 then [bs, CHR ''f'']
      else if n = 13 then [bs, CHR ''r'']
      else if n < 32 then [bs] @ ''u00'' @ [hex_digit (n div 16), hex_digit (n mod 16)]
      else [c])"

definition json_string_text :: "string \<Rightarrow> string" where
  "json_string_text s = [CHR 0x22] @ concat (map json_escape s) @ [CHR 0x22]"

definition number_text :: "(u64 \<Rightarrow> string) \<Rightarrow> number \<Rightarrow> string" where
  "number_text fmt n =
     (case n of
        PosInt w \<Rightarrow> nat_to_string (unat w)
      | NegInt w \<Rightarrow> ''-'' @ nat_to_string (nat (- sint w))
      | Float64 w \<Rightarrow> fmt w)"

fun join_with :: "string \<Rightarrow> string list \<Rightarrow> string" where
  "join_with sep [] = []"
| "join_with sep [x] = x"
| "join_with sep (x # xs) = x @ sep @ join_with sep xs"

fun json_text :: "(u64 \<Rightarrow> string) \<Rightarrow> json \<Rightarrow> string" where
  "json_text fmt JNull = ''null''"
| "json_text fmt (JBool b) = (if b then ''true'' else ''false'')"
| "json_text fmt (JNumber n) = number_text fmt n"
| "json_text fmt (JString s) = json_string_text s"
| "json_text fmt (JArray vs) = ''['' @ join_with '','' (map (json_text fmt) vs) @ '']''"
| "json_text fmt (JObject kvs) =
     [CHR 0x7B]
     @ join_with '','' (map (\<lambda>(k, v). json_string_text k @ '':'' @ json_text fmt v) kvs)
     @ [CHR 0x7D]"

subsection \<open>The strict reader\<close>

text \<open>
  What \<open>serde_json\<close>'s parser hands to the visitor: the document with the entries of each object
  in the order of the text, duplicates included.
\<close>

datatype raw_json =
    RNull
  | RBool bool
  | RI64 u64
  | RU64 u64
  | RF64 u64
  | RStr string
  | RSeq "raw_json list"
  | RMap "(string \<times> raw_json) list"

datatype strict_error = NonFiniteNumber | DuplicateKey

text \<open>The exponent of a double is all ones exactly for infinities and NaNs.\<close>

definition f64_is_finite :: "u64 \<Rightarrow> bool" where
  "f64_is_finite w \<longleftrightarrow> unat (drop_bit 52 w) mod 2048 \<noteq> 2047"

fun strict_value :: "raw_json \<Rightarrow> strict_error + json"
and strict_seq :: "raw_json list \<Rightarrow> strict_error + json list"
and strict_map :: "(string \<times> raw_json) list \<Rightarrow> (string \<times> json) list \<Rightarrow> strict_error + (string \<times> json) list"
where
  "strict_value RNull = Ok JNull"
| "strict_value (RBool b) = Ok (JBool b)"
| "strict_value (RI64 n) = Ok (JNumber (if sint n < 0 then NegInt n else PosInt n))"
| "strict_value (RU64 n) = Ok (JNumber (PosInt n))"
| "strict_value (RF64 n) = (if f64_is_finite n then Ok (JNumber (Float64 n)) else Err NonFiniteNumber)"
| "strict_value (RStr s) = Ok (JString s)"
| "strict_value (RSeq vs) = map_ok JArray (strict_seq vs)"
| "strict_value (RMap kvs) = map_ok JObject (strict_map kvs [])"
| "strict_seq [] = Ok []"
| "strict_seq (v # vs) = bind_ok (strict_value v) (\<lambda>w. map_ok ((#) w) (strict_seq vs))"
| "strict_map [] acc = Ok acc"
| "strict_map (kv # kvs) acc =
     (if bt_contains acc (fst kv) then Err DuplicateKey
      else bind_ok (strict_value (snd kv)) (\<lambda>w. strict_map kvs (bt_insert (fst kv) w acc)))"

text \<open>The documents a strict reader is meant to accept.\<close>

fun raw_unambiguous :: "raw_json \<Rightarrow> bool" where
  "raw_unambiguous (RF64 n) = f64_is_finite n"
| "raw_unambiguous (RSeq vs) = (\<forall>v\<in>set vs. raw_unambiguous v)"
| "raw_unambiguous (RMap kvs) = (distinct (map fst kvs) \<and> (\<forall>kv\<in>set kvs. raw_unambiguous (snd kv)))"
| "raw_unambiguous _ = True"

text \<open>Every object, at every depth, is a \<open>BTreeMap\<close>.\<close>

fun json_valid :: "json \<Rightarrow> bool" where
  "json_valid (JArray vs) = (\<forall>v\<in>set vs. json_valid v)"
| "json_valid (JObject m) = (bt_valid m \<and> (\<forall>kv\<in>set m. json_valid (snd kv)))"
| "json_valid _ = True"

lemma strict_accepts:
  "is_ok (strict_value r) = raw_unambiguous r"
  "is_ok (strict_seq rs) = (\<forall>r\<in>set rs. raw_unambiguous r)"
  "is_ok (strict_map kvs acc) =
     (distinct (map fst kvs) \<and> (\<forall>kv\<in>set kvs. raw_unambiguous (snd kv))
      \<and> (\<forall>kv\<in>set kvs. \<not> bt_contains acc (fst kv)))"
proof (induction r and rs and kvs acc rule: strict_value_strict_seq_strict_map.induct)
  case (10 v vs)
  then show ?case
    by (cases "strict_value v"; cases "strict_seq vs") (auto simp: is_ok_iff)
next
  case (12 kv kvs acc)
  show ?case
  proof (cases "bt_contains acc (fst kv)")
    case False
    show ?thesis
    proof (cases "strict_value (snd kv)")
      case (Inl e)
      with 12(1) False show ?thesis by auto
    next
      case (Inr w)
      with 12 False have "is_ok (strict_map kvs (bt_insert (fst kv) w acc)) =
          (distinct (map fst kvs) \<and> (\<forall>q\<in>set kvs. raw_unambiguous (snd q))
           \<and> (\<forall>q\<in>set kvs. \<not> bt_contains (bt_insert (fst kv) w acc) (fst q)))"
        by blast
      with 12(1) False Inr show ?thesis by (force simp: image_iff)
    qed
  qed auto
qed (auto simp: is_ok_iff map_ok_def bt_contains_def split: sum.splits)

lemma strict_valid:
  "strict_value r = Ok j \<Longrightarrow> json_valid j"
  "strict_seq rs = Ok js \<Longrightarrow> \<forall>j\<in>set js. json_valid j"
  "strict_map kvs acc = Ok m \<Longrightarrow> bt_valid acc \<Longrightarrow> \<forall>kv\<in>set acc. json_valid (snd kv)
     \<Longrightarrow> bt_valid m \<and> (\<forall>kv\<in>set m. json_valid (snd kv))"
proof (induction r and rs and kvs acc arbitrary: j and js and m
    rule: strict_value_strict_seq_strict_map.induct)
  case (12 kv kvs acc)
  then obtain w where w: "\<not> bt_contains acc (fst kv)" "strict_value (snd kv) = Ok w"
    "strict_map kvs (bt_insert (fst kv) w acc) = Ok m"
    by (auto simp: bind_ok_eq_Ok split: if_splits)
  have "\<forall>q\<in>set (bt_insert (fst kv) w acc). json_valid (snd q)"
    using 12 w bt.all_entries_put [of acc "\<lambda>_. json_valid" "fst kv" w] by (auto simp: case_prod_beta)
  then show ?case using 12 w by auto
qed (auto simp: bind_ok_eq_Ok map_ok_eq_Ok split: if_splits)

text \<open>Each key of the document keeps the value the visitor made of it.\<close>

lemma strict_map_get:
  assumes "strict_map kvs acc = Ok m" and "(k, r) \<in> set kvs"
  shows "\<exists>j. strict_value r = Ok j \<and> bt_get m k = Some j"
proof -
  have keep: "bt_get acc k = Some j \<Longrightarrow> strict_map kvs acc = Ok m \<Longrightarrow> bt_get m k = Some j" for kvs acc j
  proof (induction kvs arbitrary: acc)
    case (Cons p ps)
    then obtain w where "strict_map ps (bt_insert (fst p) w acc) = Ok m"
      by (auto simp: bind_ok_eq_Ok split: if_splits)
    moreover have "fst p \<noteq> k"
      using Cons.prems by (auto simp: bt_contains_def split: if_splits)
    ultimately show ?case
      using Cons.IH [of "bt_insert (fst p) w acc"] Cons.prems(1) by simp
  qed simp
  show ?thesis
    using assms
  proof (induction kvs arbitrary: acc)
    case (Cons p ps)
    then obtain w where w: "strict_value (snd p) = Ok w" "strict_map ps (bt_insert (fst p) w acc) = Ok m"
      by (auto simp: bind_ok_eq_Ok split: if_splits)
    show ?case
    proof (cases "p = (k, r)")
      case True
      then show ?thesis using w keep [of "bt_insert (fst p) w acc" w ps] by auto
    next
      case False
      then show ?thesis using Cons w by auto
    qed
  qed simp
qed

end
