(* ===== verification/Manifest.thy ===== *)
theory Manifest
  imports Json
begin

section \<open>The manifest: asset records, lifecycle states and the record store\<close>

text \<open>
  \<open>src/src/manifest.rs\<close>. A manifest maps asset ids to records; a record has a lifecycle state,
  named JSON proofs, failures and a time stamp. An operation that the source runs on
  \<open>&mut self\<close> takes the manifest and returns the new one, or the error it returns (none of them
  changes the manifest before it fails). The clock readings (\<open>current_timestamp\<close>) are arguments.
  The migration registry is a parameter type of the manifest: its validation belongs to
  \<open>legacy_upload_migration.rs\<close>. A panic of \<open>upsert\<close> is the error it is raised with.
\<close>

subsection \<open>Lifecycle states\<close>

datatype state =
    Discovered
  | NasVerified
  | Converted
  | ConversionVerified
  | UploadVerified
  | DeleteEligible
  | DeleteApproved
  | Deleted
  | Failed
  | NoAction
  | NeedsReview

definition all_states :: "state list" where
  "all_states =
     [Discovered, NasVerified, Converted, ConversionVerified,
      UploadVerified, DeleteEligible, DeleteApproved, Deleted,
      Failed, NoAction, NeedsReview]"

definition allows :: "state \<Rightarrow> state \<Rightarrow> bool" where
  "allows s t \<longleftrightarrow>
     (s, t) \<in> {(Discovered, NasVerified), (NasVerified, Converted),
       (Converted, ConversionVerified), (ConversionVerified, UploadVerified),
       (UploadVerified, DeleteEligible), (DeleteEligible, DeleteApproved),
       (DeleteApproved, Deleted)}"

fun state_as_str :: "state \<Rightarrow> string" where
  "state_as_str Discovered = ''discovered''"
| "state_as_str NasVerified = ''nas_verified''"
| "state_as_str Converted = ''converted''"
| "state_as_str ConversionVerified = ''conversion_verified''"
| "state_as_str UploadVerified = ''upload_verified''"
| "state_as_str DeleteEligible = ''delete_eligible''"
| "state_as_str DeleteApproved = ''delete_approved''"
| "state_as_str Deleted = ''deleted''"
| "state_as_str Failed = ''failed''"
| "state_as_str NoAction = ''no_action''"
| "state_as_str NeedsReview = ''needs_review''"

definition is_terminal :: "state \<Rightarrow> bool" where
  "is_terminal s \<longleftrightarrow> s \<in> {Deleted, NoAction, NeedsReview}"

text \<open>The derived serde form: the snake case name of the variant.\<close>

definition de_unit_variant :: "(string \<times> 'a) list \<Rightarrow> json \<Rightarrow> 'a option" where
  "de_unit_variant vs j =
     (case j of
        JString s \<Rightarrow> map_of vs s
      | JObject [(s, JNull)] \<Rightarrow> map_of vs s
      | _ \<Rightarrow> None)"

definition de_state :: "json \<Rightarrow> state option" where
  "de_state = de_unit_variant (map (\<lambda>s. (state_as_str s, s)) all_states)"

definition ser_state :: "state \<Rightarrow> json" where
  "ser_state s = JString (state_as_str s)"

lemma de_ser_state [simp]: "de_state (ser_state s) = Some s"
  by (cases s) (simp_all add: de_state_def ser_state_def de_unit_variant_def all_states_def)

interpretation state_codec: codec ser_state de_state
  by unfold_locales simp

text \<open>The position of a state on the way to deletion.\<close>

fun state_rank :: "state \<Rightarrow> nat option" where
  "state_rank Discovered = Some 0"
| "state_rank NasVerified = Some 1"
| "state_rank Converted = Some 2"
| "state_rank ConversionVerified = Some 3"
| "state_rank UploadVerified = Some 4"
| "state_rank DeleteEligible = Some 5"
| "state_rank DeleteApproved = Some 6"
| "state_rank Deleted = Some 7"
| "state_rank _ = None"

lemma allows_rank: "allows s t \<longleftrightarrow> (\<exists>n. state_rank s = Some n \<and> state_rank t = Some (Suc n))"
  by (cases s; cases t) (simp_all add: allows_def)

lemma allows_not_terminal: "allows s t \<Longrightarrow> \<not> is_terminal s"
  by (auto simp: allows_def is_terminal_def)

lemma allows_not_failed: "allows s t \<Longrightarrow> s \<noteq> Failed \<and> t \<noteq> Failed"
  by (auto simp: allows_def)

subsection \<open>Failures\<close>

datatype failure_kind =
    HeicVisualContent
  | HeicVisualMatch
  | HeicReferenceOrientationInvalid
  | HeicFinalOrientationRotationInvalid
  | HeicDimensionMismatch
  | ConversionTimedOut
  | RawStagingTimedOut
  | ConversionOutputUnreadable
  | ConversionOutputAlreadyExists
  | StagedRawAlreadyExists
  | ConversionMetadataFailed
  | ConversionToolUnavailable
  | EmbeddedPreviewUnavailable
  | AdjustedSourceResolveFailed

fun failure_kind_as_str :: "failure_kind \<Rightarrow> string" where
  "failure_kind_as_str HeicVisualContent = ''heic_visual_content''"
| "failure_kind_as_str HeicVisualMatch = ''heic_visual_match''"
| "failure_kind_as_str HeicReferenceOrientationInvalid = ''heic_reference_orientation_invalid''"
| "failure_kind_as_str HeicFinalOrientationRotationInvalid = ''heic_final_orientation_rotation_invalid''"
| "failure_kind_as_str HeicDimensionMismatch = ''heic_dimension_mismatch''"
| "failure_kind_as_str ConversionTimedOut = ''conversion_timed_out''"
| "failure_kind_as_str RawStagingTimedOut = ''raw_staging_timed_out''"
| "failure_kind_as_str ConversionOutputUnreadable = ''conversion_output_unreadable''"
| "failure_kind_as_str ConversionOutputAlreadyExists = ''conversion_output_already_exists''"
| "failure_kind_as_str StagedRawAlreadyExists = ''staged_raw_already_exists''"
| "failure_kind_as_str ConversionMetadataFailed = ''conversion_metadata_failed''"
| "failure_kind_as_str ConversionToolUnavailable = ''conversion_tool_unavailable''"
| "failure_kind_as_str EmbeddedPreviewUnavailable = ''embedded_preview_unavailable''"
| "failure_kind_as_str AdjustedSourceResolveFailed = ''adjusted_source_resolve_failed''"

definition parse_failure_kind :: "string \<Rightarrow> failure_kind option" where
  "parse_failure_kind value =
     (if value = ''heic_visual_content'' then Some HeicVisualContent
      else if value = ''heic_visual_match'' then Some HeicVisualMatch
      else if value = ''heic_reference_orientation_invalid'' then Some HeicReferenceOrientationInvalid
      else if value = ''heic_final_orientation_rotation_invalid'' then Some HeicFinalOrientationRotationInvalid
      else if value = ''heic_dimension_mismatch'' then Some HeicDimensionMismatch
      else if value = ''conversion_timed_out'' then Some ConversionTimedOut
      else if value = ''raw_staging_timed_out'' then Some RawStagingTimedOut
      else if value = ''conversion_output_unreadable'' then Some ConversionOutputUnreadable
      else if value = ''conversion_output_already_exists'' then Some ConversionOutputAlreadyExists
      else if value = ''staged_raw_already_exists'' then Some StagedRawAlreadyExists
      else if value = ''conversion_metadata_failed'' then Some ConversionMetadataFailed
      else if value = ''conversion_tool_unavailable'' then Some ConversionToolUnavailable
      else if value = ''embedded_preview_unavailable'' then Some EmbeddedPreviewUnavailable
      else if value = ''adjusted_source_resolve_failed'' then Some AdjustedSourceResolveFailed
      else None)"

lemma parse_failure_kind_as_str [simp]: "parse_failure_kind (failure_kind_as_str k) = Some k"
  by (cases k) (simp_all add: parse_failure_kind_def)

record failure_record =
  fr_stage :: string
  fr_message :: string
  fr_recorded_at :: string
  fr_kind :: "failure_kind option"

definition FAILURE_QUARANTINE_PROOF_NAME :: string where
  [model_defs]: "FAILURE_QUARANTINE_PROOF_NAME = ''failure_quarantine''"

definition FAILURE_QUARANTINE_SCHEMA_VERSION :: u64 where
  [model_defs]: "FAILURE_QUARANTINE_SCHEMA_VERSION = 1"

definition RESERVED_PROOF_NAME :: string where
  [model_defs]: "RESERVED_PROOF_NAME = ''legacy_upload_migration''"

record failure_quarantine_proof =
  fq_evidence_sha256 :: string
  fq_target_set_sha256 :: string
  fq_successful_uploads :: u64
  fq_delete_attempts :: u64
  fq_deleted_finishes :: u64
  fq_mirror_successes :: u64
  fq_applied_at_unix_seconds :: u64

definition ser_failure_quarantine_proof :: "failure_quarantine_proof \<Rightarrow> json" where
  "ser_failure_quarantine_proof p =
     jobject
       [(''schema_version'', ser_u64 FAILURE_QUARANTINE_SCHEMA_VERSION),
        (''reason_code'', JString ''historical_remote_side_effect''),
        (''evidence_sha256'', JString (fq_evidence_sha256 p)),
        (''target_set_sha256'', JString (fq_target_set_sha256 p)),
        (''successful_uploads'', ser_u64 (fq_successful_uploads p)),
        (''delete_attempts'', ser_u64 (fq_delete_attempts p)),
        (''deleted_finishes'', ser_u64 (fq_deleted_finishes p)),
        (''mirror_successes'', ser_u64 (fq_mirror_successes p)),
        (''applied_at_unix_seconds'', ser_u64 (fq_applied_at_unix_seconds p))]"

subsection \<open>Asset records\<close>

type_synonym proofs = "(string, json) btree"

record asset_record =
  ar_asset_id :: string
  ar_raw_path :: path
  ar_state :: state
  ar_proofs :: proofs
  ar_failures :: "failure_record list"
  ar_updated_at :: string

definition new_asset_record :: "string \<Rightarrow> path \<Rightarrow> string \<Rightarrow> asset_record" where
  "new_asset_record asset_id raw_path now =
     \<lparr>ar_asset_id = asset_id, ar_raw_path = raw_path, ar_state = Discovered,
      ar_proofs = [], ar_failures = [], ar_updated_at = now\<rparr>"

definition has_proof :: "asset_record \<Rightarrow> string \<Rightarrow> bool" where
  "has_proof r k = bt_contains (ar_proofs r) k"

definition get_proof :: "asset_record \<Rightarrow> string \<Rightarrow> json option" where
  "get_proof r k = bt_get (ar_proofs r) k"

definition put_proof :: "string \<Rightarrow> json \<Rightarrow> asset_record \<Rightarrow> asset_record" where
  "put_proof k v r = r\<lparr>ar_proofs := bt_insert k v (ar_proofs r)\<rparr>"

lemma get_put_proof [simp]: "get_proof (put_proof k v r) k' = (if k' = k then Some v else get_proof r k')"
  by (simp add: get_proof_def put_proof_def)

lemma has_proof_iff: "has_proof r k \<longleftrightarrow> (\<exists>v. get_proof r k = Some v)"
  by (auto simp: has_proof_def get_proof_def bt_contains_def)

lemma has_put_proof [simp]: "has_proof (put_proof k v r) k' \<longleftrightarrow> k' = k \<or> has_proof r k'"
  by (auto simp: has_proof_iff)

lemma put_proof_fields [simp]:
  "ar_asset_id (put_proof k v r) = ar_asset_id r"
  "ar_raw_path (put_proof k v r) = ar_raw_path r"
  "ar_state (put_proof k v r) = ar_state r"
  "ar_failures (put_proof k v r) = ar_failures r"
  "ar_updated_at (put_proof k v r) = ar_updated_at r"
  by (simp_all add: put_proof_def)

lemma proofs_of_updates [simp]:
  "get_proof (r\<lparr>ar_state := s\<rparr>) = get_proof r"
  "get_proof (r\<lparr>ar_updated_at := u\<rparr>) = get_proof r"
  "get_proof (r\<lparr>ar_failures := fs\<rparr>) = get_proof r"
  "has_proof (r\<lparr>ar_state := s\<rparr>) = has_proof r"
  "has_proof (r\<lparr>ar_updated_at := u\<rparr>) = has_proof r"
  "has_proof (r\<lparr>ar_failures := fs\<rparr>) = has_proof r"
  by (simp_all add: get_proof_def has_proof_def fun_eq_iff)

subsection \<open>The manifest\<close>

record 'r manifest =
  mf_records :: "(string, asset_record) btree"
  mf_registry :: "'r option"

datatype manifest_error =
    UnknownAsset string
  | InvalidTransition string state state
  | ReservedInternalProofRequiresAuthority
  | ReservedInternalProofCapabilityMismatch
  | ManifestIo
  | ManifestJson

definition new_manifest :: "'r manifest" where
  "new_manifest = \<lparr>mf_records = [], mf_registry = None\<rparr>"

definition manifest_get :: "'r manifest \<Rightarrow> string \<Rightarrow> manifest_error + asset_record" where
  "manifest_get m asset_id =
     (case bt_get (mf_records m) asset_id of None \<Rightarrow> Err (UnknownAsset asset_id) | Some r \<Rightarrow> Ok r)"

definition insert_record :: "asset_record \<Rightarrow> 'r manifest \<Rightarrow> 'r manifest" where
  "insert_record r m = m\<lparr>mf_records := bt_insert (ar_asset_id r) r (mf_records m)\<rparr>"

text \<open>\<open>self.records.get_mut(asset_id)\<close> followed by assignments to the record.\<close>

definition modify_record :: "'r manifest \<Rightarrow> string \<Rightarrow> (asset_record \<Rightarrow> asset_record) \<Rightarrow> manifest_error + 'r manifest" where
  "modify_record m asset_id f =
     bind_ok (manifest_get m asset_id)
       (\<lambda>r. Ok (m\<lparr>mf_records := bt_insert asset_id (f r) (mf_records m)\<rparr>))"

lemma manifest_get_eq_Ok [simp]: "manifest_get m a = Inr r \<longleftrightarrow> bt_get (mf_records m) a = Some r"
  by (simp add: manifest_get_def split: option.splits)

lemma modify_record_eq_Ok:
  "modify_record m a f = Inr m' \<longleftrightarrow>
     (\<exists>r. bt_get (mf_records m) a = Some r
        \<and> m' = m\<lparr>mf_records := bt_insert a (f r) (mf_records m)\<rparr>)"
  by (auto simp: modify_record_def bind_ok_eq_Ok)

subsection \<open>Reserved proofs and untrusted recipe claims\<close>

definition record_has_reserved_internal_proof :: "asset_record \<Rightarrow> bool" where
  "record_has_reserved_internal_proof r = has_proof r RESERVED_PROOF_NAME"

definition reject_reserved_internal_proof :: "asset_record \<Rightarrow> manifest_error + unit" where
  "reject_reserved_internal_proof r =
     fail_if (record_has_reserved_internal_proof r) ReservedInternalProofRequiresAuthority"

definition reject_reserved_internal_proof_name :: "string \<Rightarrow> manifest_error + unit" where
  "reject_reserved_internal_proof_name k =
     fail_if (k = RESERVED_PROOF_NAME) ReservedInternalProofRequiresAuthority"

definition reject_reserved_internal_proofs :: "asset_record list \<Rightarrow> manifest_error + unit" where
  "reject_reserved_internal_proofs rs =
     fail_if (list_ex record_has_reserved_internal_proof rs) ReservedInternalProofRequiresAuthority"

definition recipe_proof_names :: "string list" where
  [model_defs]: "recipe_proof_names = [''conversion'', ''conversion_performance'', ''heic'']"

definition sanitize_untrusted_recipe_claim :: "string \<Rightarrow> json \<Rightarrow> json" where
  "sanitize_untrusted_recipe_claim k v =
     (if k \<in> set recipe_proof_names
      then (case v of
              JObject m \<Rightarrow> JObject (bt_insert ''conversion_recipe_id'' (JString []) m)
            | _ \<Rightarrow> v)
      else v)"

definition sanitize_one :: "string \<Rightarrow> asset_record \<Rightarrow> asset_record" where
  "sanitize_one k r =
     (case get_proof r k of None \<Rightarrow> r
      | Some v \<Rightarrow> put_proof k (sanitize_untrusted_recipe_claim k v) r)"

definition sanitize_untrusted_recipe_claims :: "asset_record \<Rightarrow> asset_record" where
  "sanitize_untrusted_recipe_claims r = fold sanitize_one recipe_proof_names r"

end
