(* ===== verification/Manifest_Ops.thy ===== *)
theory Manifest_Ops
  imports Manifest
begin

section \<open>The manifest's operations\<close>

text \<open>
  The operations of \<open>Manifest\<close> in \<open>src/src/manifest.rs\<close> that read or change records. Each
  takes the clock reading \<open>now\<close> it stamps the record with. What they share, that one record is
  replaced by one with the same id while no record with the reserved proof is touched, is the
  locale \<open>record_op\<close>; every operation interprets it.
\<close>

subsection \<open>Time stamps\<close>


text \<open>\<open>current_timestamp\<close>: seconds and nine digits of nanoseconds since the epoch (zero before it).\<close>

definition current_timestamp :: "system_time \<Rightarrow> string" where
  "current_timestamp t =
     (let d = (case duration_since t 0 of None \<Rightarrow> 0 | Some d \<Rightarrow> d) in
      nat_to_string (d div nanos_per_second) @ ''.''
      @ replicate (9 - length (nat_to_string (d mod nanos_per_second))) (CHR ''0'')
      @ nat_to_string (d mod nanos_per_second) @ ''Z'')"

subsection \<open>Insertion of whole records\<close>

definition reject_reserved_internal_proof_upsert :: "'r manifest \<Rightarrow> asset_record \<Rightarrow> manifest_error + unit" where
  "reject_reserved_internal_proof_upsert m r =
     fail_if (record_has_reserved_internal_proof r
              \<or> (case bt_get (mf_records m) (ar_asset_id r) of
                   None \<Rightarrow> False | Some old \<Rightarrow> record_has_reserved_internal_proof old))
       ReservedInternalProofRequiresAuthority"

definition upsert :: "'r manifest \<Rightarrow> asset_record \<Rightarrow> manifest_error + 'r manifest" where
  "upsert m r =
     bind_ok (reject_reserved_internal_proof_upsert m r)
       (\<lambda>_. Ok (insert_record (sanitize_untrusted_recipe_claims r) m))"

definition upsert_trusted :: "'r manifest \<Rightarrow> asset_record \<Rightarrow> manifest_error + 'r manifest" where
  "upsert_trusted m r =
     bind_ok (reject_reserved_internal_proof_upsert m r) (\<lambda>_. Ok (insert_record r m))"

text \<open>
  The authorities that may store a record with the reserved proof are an asset id with a digest of
  the record; the digest function differs between them and is an argument.
\<close>

record record_authority =
  ra_asset_id :: string
  ra_record_sha256 :: string

definition authority_authorizes :: "(asset_record \<Rightarrow> string) \<Rightarrow> record_authority \<Rightarrow> asset_record \<Rightarrow> bool" where
  "authority_authorizes digest au r \<longleftrightarrow>
     ra_asset_id au = ar_asset_id r \<and> digest r = ra_record_sha256 au"

definition authority_for_record :: "(asset_record \<Rightarrow> string) \<Rightarrow> asset_record \<Rightarrow> record_authority" where
  "authority_for_record digest r =
     \<lparr>ra_asset_id = ar_asset_id r, ra_record_sha256 = digest r\<rparr>"

definition upsert_authorized ::
  "(asset_record \<Rightarrow> string) \<Rightarrow> record_authority \<Rightarrow> 'r manifest \<Rightarrow> asset_record \<Rightarrow> manifest_error + 'r manifest"
where
  "upsert_authorized digest au m r =
     (if \<not> authority_authorizes digest au r then Err ReservedInternalProofCapabilityMismatch
      else Ok (insert_record r m))"

lemma authority_for_record_authorizes [simp]:
  "authority_authorizes digest (authority_for_record digest r) r"
  by (simp add: authority_authorizes_def authority_for_record_def)

lemma upsert_authorized_for_record [simp]:
  "upsert_authorized digest (authority_for_record digest r) m r = Inr (insert_record r m)"
  by (simp add: upsert_authorized_def)

text \<open>\<open>authorizes\<close> is the registry authority's verdict, which lies in the migration module.\<close>

definition install_legacy_upload_migration_registry ::
  "('r \<Rightarrow> bool) \<Rightarrow> 'r manifest \<Rightarrow> 'r \<Rightarrow> manifest_error + 'r manifest"
where
  "install_legacy_upload_migration_registry authorizes m reg =
     (if \<not> authorizes reg
         \<or> (case mf_registry m of None \<Rightarrow> False | Some persisted \<Rightarrow> persisted \<noteq> reg)
      then Err ReservedInternalProofCapabilityMismatch
      else Ok (m\<lparr>mf_registry := Some reg\<rparr>))"

definition snapshot_record :: "'r manifest \<Rightarrow> string \<Rightarrow> manifest_error + 'r manifest" where
  "snapshot_record m a =
     bind_ok (manifest_get m a) (\<lambda>r.
     bind_ok (reject_reserved_internal_proof r) (\<lambda>_.
     upsert_trusted new_manifest r))"

definition snapshot_authorized ::
  "(asset_record \<Rightarrow> string) \<Rightarrow> record_authority \<Rightarrow> 'r manifest \<Rightarrow> string \<Rightarrow> manifest_error + 'r manifest"
where
  "snapshot_authorized digest au m a =
     bind_ok (manifest_get m a) (\<lambda>r.
     if \<not> authority_authorizes digest au r then Err ReservedInternalProofCapabilityMismatch
     else upsert_authorized digest au new_manifest r)"

subsection \<open>Changes of one record\<close>

definition transition_trusted ::
  "string \<Rightarrow> state \<Rightarrow> string \<Rightarrow> json \<Rightarrow> 'r manifest \<Rightarrow> string \<Rightarrow> manifest_error + 'r manifest"
where
  "transition_trusted now new_state proof_name v m a =
     bind_ok (reject_reserved_internal_proof_name proof_name) (\<lambda>_.
     bind_ok (manifest_get m a) (\<lambda>r.
     bind_ok (reject_reserved_internal_proof r) (\<lambda>_.
     if \<not> allows (ar_state r) new_state
     then Err (InvalidTransition a (ar_state r) new_state)
     else modify_record m a
            (\<lambda>r. (put_proof proof_name v (r\<lparr>ar_state := new_state\<rparr>))\<lparr>ar_updated_at := now\<rparr>))))"

definition transition ::
  "string \<Rightarrow> state \<Rightarrow> string \<Rightarrow> json \<Rightarrow> 'r manifest \<Rightarrow> string \<Rightarrow> manifest_error + 'r manifest"
where
  "transition now new_state proof_name v m a =
     bind_ok (reject_reserved_internal_proof_name proof_name) (\<lambda>_.
     transition_trusted now new_state proof_name (sanitize_untrusted_recipe_claim proof_name v) m a)"

definition record_failure_with_kind ::
  "string \<Rightarrow> string \<Rightarrow> string \<Rightarrow> failure_kind option \<Rightarrow> 'r manifest \<Rightarrow> string \<Rightarrow> manifest_error + 'r manifest"
where
  "record_failure_with_kind now stage message kind m a =
     bind_ok (manifest_get m a) (\<lambda>r.
     bind_ok (reject_reserved_internal_proof r) (\<lambda>_.
     if is_terminal (ar_state r)
     then Err (InvalidTransition a (ar_state r) Failed)
     else modify_record m a
            (\<lambda>r. r\<lparr>ar_state := Failed,
                   ar_failures := ar_failures r
                     @ [\<lparr>fr_stage = stage, fr_message = message, fr_recorded_at = now, fr_kind = kind\<rparr>],
                   ar_updated_at := now\<rparr>)))"

definition record_failure ::
  "string \<Rightarrow> string \<Rightarrow> string \<Rightarrow> 'r manifest \<Rightarrow> string \<Rightarrow> manifest_error + 'r manifest"
where
  "record_failure now stage message m a = record_failure_with_kind now stage message None m a"

definition recover_failed_for_retry ::
  "string \<Rightarrow> state \<Rightarrow> 'r manifest \<Rightarrow> string \<Rightarrow> manifest_error + 'r manifest"
where
  "recover_failed_for_retry now retry_state m a =
     bind_ok (manifest_get m a) (\<lambda>r.
     bind_ok (reject_reserved_internal_proof r) (\<lambda>_.
     if ar_state r \<noteq> Failed
        \<or> \<not> (retry_state \<in> {NasVerified, Converted, ConversionVerified})
     then Err (InvalidTransition a (ar_state r) retry_state)
     else modify_record m a (\<lambda>r. r\<lparr>ar_state := retry_state, ar_updated_at := now\<rparr>)))"

definition quarantine_failed_for_historical_remote_side_effect ::
  "string \<Rightarrow> failure_quarantine_proof \<Rightarrow> 'r manifest \<Rightarrow> string \<Rightarrow> manifest_error + 'r manifest"
where
  "quarantine_failed_for_historical_remote_side_effect now p m a =
     bind_ok (manifest_get m a) (\<lambda>r.
     bind_ok (reject_reserved_internal_proof r) (\<lambda>_.
     if ar_state r \<noteq> Failed
     then Err (InvalidTransition a (ar_state r) NeedsReview)
     else modify_record m a
            (\<lambda>r. (put_proof FAILURE_QUARANTINE_PROOF_NAME (ser_failure_quarantine_proof p)
                    (r\<lparr>ar_state := NeedsReview\<rparr>))\<lparr>ar_updated_at := now\<rparr>)))"

definition terminalize_failed_with_proof ::
  "string \<Rightarrow> string \<Rightarrow> json \<Rightarrow> 'r manifest \<Rightarrow> string \<Rightarrow> manifest_error + 'r manifest"
where
  "terminalize_failed_with_proof now proof_name v m a =
     bind_ok (reject_reserved_internal_proof_name proof_name) (\<lambda>_.
     bind_ok (manifest_get m a) (\<lambda>r.
     bind_ok (reject_reserved_internal_proof r) (\<lambda>_.
     if ar_state r \<noteq> Failed
     then Err (InvalidTransition a (ar_state r) NeedsReview)
     else modify_record m a
            (\<lambda>r. (put_proof proof_name (sanitize_untrusted_recipe_claim proof_name v)
                    (r\<lparr>ar_state := NeedsReview\<rparr>))\<lparr>ar_updated_at := now\<rparr>))))"

definition apply_original_asset_resolution_update ::
  "string \<Rightarrow> state \<Rightarrow> json option \<Rightarrow> json \<Rightarrow> 'r manifest \<Rightarrow> string \<Rightarrow> manifest_error + 'r manifest"
where
  "apply_original_asset_resolution_update now new_state original_asset_proof resolution_proof m a =
     bind_ok (manifest_get m a) (\<lambda>r.
     bind_ok (reject_reserved_internal_proof r) (\<lambda>_.
     modify_record m a (\<lambda>r.
       let r1 = r\<lparr>ar_state := new_state\<rparr>;
           r2 = (case original_asset_proof of None \<Rightarrow> r1 | Some v \<Rightarrow> put_proof ''original_asset'' v r1)
       in (put_proof ''original_asset_resolution'' resolution_proof r2)\<lparr>ar_updated_at := now\<rparr>)))"

definition record_trusted_proof ::
  "string \<Rightarrow> string \<Rightarrow> json \<Rightarrow> 'r manifest \<Rightarrow> string \<Rightarrow> manifest_error + 'r manifest"
where
  "record_trusted_proof now proof_name v m a =
     bind_ok (reject_reserved_internal_proof_name proof_name) (\<lambda>_.
     bind_ok (manifest_get m a) (\<lambda>r.
     bind_ok (reject_reserved_internal_proof r) (\<lambda>_.
     modify_record m a (\<lambda>r. (put_proof proof_name v r)\<lparr>ar_updated_at := now\<rparr>))))"

definition record_proof ::
  "string \<Rightarrow> string \<Rightarrow> json \<Rightarrow> 'r manifest \<Rightarrow> string \<Rightarrow> manifest_error + 'r manifest"
where
  "record_proof now proof_name v m a =
     bind_ok (reject_reserved_internal_proof_name proof_name) (\<lambda>_.
     record_trusted_proof now proof_name (sanitize_untrusted_recipe_claim proof_name v) m a)"

subsection \<open>The sweep over all records\<close>

text \<open>
  The loop of \<open>requeue_interrupted_retries_as_failed\<close>: \<open>clock n\<close> is the reading for the
  \<open>n\<close>-th record that is changed.
\<close>

fun requeue_loop ::
  "(asset_record \<Rightarrow> bool) \<Rightarrow> (nat \<Rightarrow> string) \<Rightarrow> nat \<Rightarrow> (string \<times> asset_record) list
     \<Rightarrow> (string \<times> asset_record) list \<times> nat"
where
  "requeue_loop interrupted clock n [] = ([], n)"
| "requeue_loop interrupted clock n ((k, r) # rs) =
     (if ar_state r \<in> {NasVerified, Converted, ConversionVerified} \<and> interrupted r
      then (let (rs', n') = requeue_loop interrupted clock (Suc n) rs
            in ((k, r\<lparr>ar_state := Failed, ar_updated_at := clock n\<rparr>) # rs', n'))
      else (let (rs', n') = requeue_loop interrupted clock n rs in ((k, r) # rs', n')))"

definition requeue_interrupted_retries_as_failed ::
  "(nat \<Rightarrow> string) \<Rightarrow> (asset_record \<Rightarrow> bool) \<Rightarrow> 'r manifest \<Rightarrow> manifest_error + ('r manifest \<times> nat)"
where
  "requeue_interrupted_retries_as_failed clock interrupted m =
     bind_ok (reject_reserved_internal_proofs (bt_values (mf_records m))) (\<lambda>_.
     let (rs, n) = requeue_loop interrupted clock 0 (mf_records m)
     in Ok (m\<lparr>mf_records := rs\<rparr>, n))"

subsection \<open>The invariant of a manifest\<close>

text \<open>Records sit under their own ids, in key order, and their proofs are ordered maps.\<close>

definition record_ok :: "asset_record \<Rightarrow> bool" where
  "record_ok r \<longleftrightarrow> bt_valid (ar_proofs r)"

definition manifest_ok :: "'r manifest \<Rightarrow> bool" where
  "manifest_ok m \<longleftrightarrow>
     bt_valid (mf_records m)
     \<and> list_all (\<lambda>(k, r). ar_asset_id r = k \<and> record_ok r) (mf_records m)"

lemma manifest_ok_get:
  "manifest_ok m \<Longrightarrow> bt_get (mf_records m) a = Some r \<Longrightarrow> ar_asset_id r = a \<and> record_ok r"
  by (auto simp: manifest_ok_def list_all_iff bt_get_def dest: map_of_SomeD)

lemma manifest_ok_new [simp]: "manifest_ok new_manifest"
  by (simp add: manifest_ok_def new_manifest_def)

lemma manifest_ok_put:
  assumes "manifest_ok m" and "ar_asset_id r = a" and "record_ok r"
  shows "manifest_ok (m\<lparr>mf_records := bt_insert a r (mf_records m)\<rparr>)"
  using assms bt.all_entries_put [of "mf_records m" "\<lambda>k r. ar_asset_id r = k \<and> record_ok r" a r]
  by (auto simp: manifest_ok_def list_all_iff case_prod_beta)

lemma manifest_ok_insert_record: "manifest_ok m \<Longrightarrow> record_ok r \<Longrightarrow> manifest_ok (insert_record r m)"
  by (simp add: insert_record_def manifest_ok_put)

lemma record_ok_simps [simp]:
  "record_ok r \<Longrightarrow> record_ok (put_proof k v r)"
  "record_ok (r\<lparr>ar_state := s\<rparr>) = record_ok r"
  "record_ok (r\<lparr>ar_updated_at := u\<rparr>) = record_ok r"
  "record_ok (r\<lparr>ar_failures := fs\<rparr>) = record_ok r"
  by (simp_all add: record_ok_def put_proof_def)

lemma record_get_insert [simp]:
  "bt_get (mf_records (insert_record r m)) a
     = (if a = ar_asset_id r then Some r else bt_get (mf_records m) a)"
  by (simp add: insert_record_def)

lemma new_manifest_simps [simp]: "mf_records new_manifest = []" "mf_registry new_manifest = None"
  by (simp_all add: new_manifest_def)

subsection \<open>The contract of an operation on one record\<close>

abbreviation unreserved :: "asset_record \<Rightarrow> bool" where
  "unreserved r \<equiv> \<not> has_proof r RESERVED_PROOF_NAME"

locale record_op =
  fixes op :: "'r manifest \<Rightarrow> string \<Rightarrow> manifest_error + 'r manifest"
    and rel :: "asset_record \<Rightarrow> asset_record \<Rightarrow> bool"
  assumes op_changes: "op m a = Inr m' \<Longrightarrow>
      \<exists>r r'. bt_get (mf_records m) a = Some r \<and> unreserved r \<and> rel r r'
        \<and> m' = m\<lparr>mf_records := bt_insert a r' (mf_records m)\<rparr>"
    and op_fails: "op m a = Inl e \<Longrightarrow> bt_get (mf_records m) a = None
      \<Longrightarrow> e = UnknownAsset a \<or> e = ReservedInternalProofRequiresAuthority"
    and rel_id: "rel r r' \<Longrightarrow> ar_asset_id r' = ar_asset_id r"
    and rel_path: "rel r r' \<Longrightarrow> ar_raw_path r' = ar_raw_path r"
    and rel_unreserved: "rel r r' \<Longrightarrow> unreserved r \<Longrightarrow> unreserved r'"
    and rel_ok: "rel r r' \<Longrightarrow> record_ok r \<Longrightarrow> record_ok r'"
    and rel_proofs: "rel r r' \<Longrightarrow> has_proof r k \<Longrightarrow> has_proof r' k"
    and rel_failures: "rel r r' \<Longrightarrow> \<exists>fs. ar_failures r' = ar_failures r @ fs"
begin

lemma changes_one:
  assumes "op m a = Inr m'"
  obtains r r' where "bt_get (mf_records m) a = Some r" "unreserved r" "rel r r'"
    "bt_get (mf_records m') a = Some r'"
    "\<And>b. b \<noteq> a \<Longrightarrow> bt_get (mf_records m') b = bt_get (mf_records m) b"
    "mf_registry m' = mf_registry m"
  using op_changes [OF assms] by auto

lemma other_records: "op m a = Inr m' \<Longrightarrow> b \<noteq> a \<Longrightarrow> bt_get (mf_records m') b = bt_get (mf_records m) b"
  by (auto dest: op_changes)

lemma same_registry: "op m a = Inr m' \<Longrightarrow> mf_registry m' = mf_registry m"
  by (auto dest: op_changes)

lemma same_ids: "op m a = Inr m' \<Longrightarrow> bt_contains (mf_records m') b = bt_contains (mf_records m) b"
  by (cases "b = a") (auto simp: bt_contains_def dest!: op_changes)

lemma keeps_ok:
  assumes "op m a = Inr m'" and "manifest_ok m"
  shows "manifest_ok m'"
proof -
  from op_changes [OF assms(1)] obtain r r' where r: "bt_get (mf_records m) a = Some r"
    "rel r r'" "m' = m\<lparr>mf_records := bt_insert a r' (mf_records m)\<rparr>" by auto
  with manifest_ok_get [OF assms(2) r(1)] rel_id rel_ok show ?thesis
    by (auto intro!: manifest_ok_put assms(2))
qed

text \<open>A record with the reserved proof is never changed.\<close>

lemma reserved_untouched:
  "op m a = Inr m' \<Longrightarrow> bt_get (mf_records m) b = Some r \<Longrightarrow> \<not> unreserved r
     \<Longrightarrow> bt_get (mf_records m') b = Some r"
  by (cases "b = a") (auto dest!: op_changes)

lemma reserved_not_forged:
  "op m a = Inr m' \<Longrightarrow> bt_get (mf_records m') b = Some r' \<Longrightarrow> \<not> unreserved r'
     \<Longrightarrow> bt_get (mf_records m) b = Some r'"
  by (auto dest!: op_changes dest: rel_unreserved split: if_splits)

lemma keeps_history:
  assumes "op m a = Inr m'" and "bt_get (mf_records m) b = Some r"
  obtains r' where "bt_get (mf_records m') b = Some r'" "ar_raw_path r' = ar_raw_path r"
    "ar_asset_id r' = ar_asset_id r" "\<And>k. has_proof r k \<Longrightarrow> has_proof r' k"
    "\<exists>fs. ar_failures r' = ar_failures r @ fs"
proof (cases "b = a")
  case True
  with op_changes [OF assms(1)] assms(2) obtain r' where "rel r r'" "bt_get (mf_records m') b = Some r'"
    by auto
  from this(2) rel_path [OF this(1)] rel_id [OF this(1)] rel_proofs [OF this(1)] rel_failures [OF this(1)]
  show ?thesis by (rule that)
next
  case False
  with op_changes [OF assms(1)] assms(2) show ?thesis by (intro that [of r]) auto
qed

end

text \<open>The operations that change the state of a record along a relation on states.\<close>

locale state_op = record_op +
  fixes steps :: "state \<Rightarrow> state \<Rightarrow> bool"
  assumes rel_steps: "rel r r' \<Longrightarrow> steps (ar_state r) (ar_state r')"
begin

lemma step_of:
  assumes "op m a = Inr m'" and "bt_get (mf_records m) b = Some r" and "bt_get (mf_records m') b = Some r'"
  shows "r' = r \<or> (b = a \<and> steps (ar_state r) (ar_state r'))"
  using assms by (cases "b = a") (auto dest!: op_changes dest: rel_steps)

end

subsection \<open>The operations fulfil the contract\<close>

lemma reject_eq_Ok [simp, result_simps]:
  "reject_reserved_internal_proof r = Inr u \<longleftrightarrow> unreserved r"
  "reject_reserved_internal_proof_name k = Inr u \<longleftrightarrow> k \<noteq> RESERVED_PROOF_NAME"
  by (simp_all add: reject_reserved_internal_proof_def record_has_reserved_internal_proof_def
      reject_reserved_internal_proof_name_def)

lemma if_Err_eq_Ok [result_simps]: "(if c then Inl e else x) = Inr y \<longleftrightarrow> \<not> c \<and> x = Inr y"
  by simp

lemmas op_Ok_simps = result_simps modify_record_eq_Ok manifest_get_eq_Ok

lemma reserved_name_error:
  "bind_ok (reject_reserved_internal_proof_name k) f
     = (if k = RESERVED_PROOF_NAME then Inl ReservedInternalProofRequiresAuthority else f ())"
  by (simp add: reject_reserved_internal_proof_name_def fail_if_def)

text \<open>On an asset the manifest does not have, every operation fails.\<close>

lemma unknown_simps:
  assumes "bt_get (mf_records m) a = None"
  shows "transition_trusted now t k v m a =
      Inl (if k = RESERVED_PROOF_NAME then ReservedInternalProofRequiresAuthority else UnknownAsset a)"
    and "transition now t k v m a =
      Inl (if k = RESERVED_PROOF_NAME then ReservedInternalProofRequiresAuthority else UnknownAsset a)"
    and "record_failure_with_kind now stage message kind m a = Inl (UnknownAsset a)"
    and "recover_failed_for_retry now t m a = Inl (UnknownAsset a)"
    and "quarantine_failed_for_historical_remote_side_effect now p m a = Inl (UnknownAsset a)"
    and "terminalize_failed_with_proof now k v m a =
      Inl (if k = RESERVED_PROOF_NAME then ReservedInternalProofRequiresAuthority else UnknownAsset a)"
    and "apply_original_asset_resolution_update now t orig v m a = Inl (UnknownAsset a)"
    and "record_trusted_proof now k v m a =
      Inl (if k = RESERVED_PROOF_NAME then ReservedInternalProofRequiresAuthority else UnknownAsset a)"
    and "record_proof now k v m a =
      Inl (if k = RESERVED_PROOF_NAME then ReservedInternalProofRequiresAuthority else UnknownAsset a)"
  using assms
  by (simp_all add: transition_trusted_def transition_def record_failure_with_kind_def
      recover_failed_for_retry_def quarantine_failed_for_historical_remote_side_effect_def
      terminalize_failed_with_proof_def apply_original_asset_resolution_update_def
      record_trusted_proof_def record_proof_def reserved_name_error manifest_get_def)

lemma not_reserved_names [simp]:
  "''original_asset'' \<noteq> RESERVED_PROOF_NAME" "''original_asset_resolution'' \<noteq> RESERVED_PROOF_NAME"
  "FAILURE_QUARANTINE_PROOF_NAME \<noteq> RESERVED_PROOF_NAME"
  by (simp_all add: model_defs)

lemmas not_reserved_names_sym [simp] = not_reserved_names [symmetric]

definition transition_rel :: "string \<Rightarrow> state \<Rightarrow> string \<Rightarrow> json \<Rightarrow> asset_record \<Rightarrow> asset_record \<Rightarrow> bool" where
  "transition_rel now t k v r r' \<longleftrightarrow>
     k \<noteq> RESERVED_PROOF_NAME \<and> allows (ar_state r) t
     \<and> r' = (put_proof k v (r\<lparr>ar_state := t\<rparr>))\<lparr>ar_updated_at := now\<rparr>"

lemma transition_trusted_eq_Ok:
  "transition_trusted now t k v m a = Inr m' \<longleftrightarrow>
     (\<exists>r r'. bt_get (mf_records m) a = Some r \<and> unreserved r \<and> transition_rel now t k v r r'
        \<and> m' = m\<lparr>mf_records := bt_insert a r' (mf_records m)\<rparr>)"
  by (auto simp: transition_trusted_def transition_rel_def op_Ok_simps)

lemma transition_eq_Ok:
  "transition now t k v m a = Inr m' \<longleftrightarrow>
     (\<exists>r r'. bt_get (mf_records m) a = Some r \<and> unreserved r
        \<and> transition_rel now t k (sanitize_untrusted_recipe_claim k v) r r'
        \<and> m' = m\<lparr>mf_records := bt_insert a r' (mf_records m)\<rparr>)"
  by (auto simp: transition_def transition_trusted_eq_Ok op_Ok_simps transition_rel_def)

interpretation transition_trusted: state_op "transition_trusted now t k v" "transition_rel now t k v" allows
  for now t k v
  by unfold_locales
    (auto simp: transition_trusted_eq_Ok transition_rel_def unknown_simps split: if_splits)

interpretation transition: state_op "transition now t k v"
    "transition_rel now t k (sanitize_untrusted_recipe_claim k v)" allows
  for now t k v
  by unfold_locales
    (auto simp: transition_eq_Ok transition_rel_def unknown_simps split: if_splits)

definition failure_rel :: "string \<Rightarrow> string \<Rightarrow> string \<Rightarrow> failure_kind option \<Rightarrow> asset_record \<Rightarrow> asset_record \<Rightarrow> bool" where
  "failure_rel now stage message kind r r' \<longleftrightarrow>
     \<not> is_terminal (ar_state r)
     \<and> r' = r\<lparr>ar_state := Failed,
              ar_failures := ar_failures r
                @ [\<lparr>fr_stage = stage, fr_message = message, fr_recorded_at = now, fr_kind = kind\<rparr>],
              ar_updated_at := now\<rparr>"

lemma record_failure_with_kind_eq_Ok:
  "record_failure_with_kind now stage message kind m a = Inr m' \<longleftrightarrow>
     (\<exists>r r'. bt_get (mf_records m) a = Some r \<and> unreserved r \<and> failure_rel now stage message kind r r'
        \<and> m' = m\<lparr>mf_records := bt_insert a r' (mf_records m)\<rparr>)"
  by (auto simp: record_failure_with_kind_def failure_rel_def op_Ok_simps)

interpretation failure: state_op "record_failure_with_kind now stage message kind"
    "failure_rel now stage message kind" "\<lambda>s t. \<not> is_terminal s \<and> t = Failed"
  for now stage message kind
  by unfold_locales
    (auto simp: record_failure_with_kind_eq_Ok failure_rel_def unknown_simps split: if_splits)

definition retry_states :: "state set" where
  "retry_states = {NasVerified, Converted, ConversionVerified}"

definition recover_rel :: "string \<Rightarrow> state \<Rightarrow> asset_record \<Rightarrow> asset_record \<Rightarrow> bool" where
  "recover_rel now t r r' \<longleftrightarrow>
     ar_state r = Failed \<and> t \<in> retry_states \<and> r' = r\<lparr>ar_state := t, ar_updated_at := now\<rparr>"

lemma recover_failed_for_retry_eq_Ok:
  "recover_failed_for_retry now t m a = Inr m' \<longleftrightarrow>
     (\<exists>r r'. bt_get (mf_records m) a = Some r \<and> unreserved r \<and> recover_rel now t r r'
        \<and> m' = m\<lparr>mf_records := bt_insert a r' (mf_records m)\<rparr>)"
  by (auto simp: recover_failed_for_retry_def recover_rel_def retry_states_def op_Ok_simps)

interpretation recover: state_op "recover_failed_for_retry now t" "recover_rel now t"
    "\<lambda>s t. s = Failed \<and> t \<in> retry_states"
  for now t
  by unfold_locales
    (auto simp: recover_failed_for_retry_eq_Ok recover_rel_def unknown_simps split: if_splits)

definition terminalize_rel :: "string \<Rightarrow> string \<Rightarrow> json \<Rightarrow> asset_record \<Rightarrow> asset_record \<Rightarrow> bool" where
  "terminalize_rel now k v r r' \<longleftrightarrow>
     k \<noteq> RESERVED_PROOF_NAME \<and> ar_state r = Failed
     \<and> r' = (put_proof k v (r\<lparr>ar_state := NeedsReview\<rparr>))\<lparr>ar_updated_at := now\<rparr>"

lemma quarantine_eq_Ok:
  "quarantine_failed_for_historical_remote_side_effect now p m a = Inr m' \<longleftrightarrow>
     (\<exists>r r'. bt_get (mf_records m) a = Some r \<and> unreserved r
        \<and> terminalize_rel now FAILURE_QUARANTINE_PROOF_NAME (ser_failure_quarantine_proof p) r r'
        \<and> m' = m\<lparr>mf_records := bt_insert a r' (mf_records m)\<rparr>)"
  by (auto simp: quarantine_failed_for_historical_remote_side_effect_def terminalize_rel_def op_Ok_simps)

lemma terminalize_eq_Ok:
  "terminalize_failed_with_proof now k v m a = Inr m' \<longleftrightarrow>
     (\<exists>r r'. bt_get (mf_records m) a = Some r \<and> unreserved r
        \<and> terminalize_rel now k (sanitize_untrusted_recipe_claim k v) r r'
        \<and> m' = m\<lparr>mf_records := bt_insert a r' (mf_records m)\<rparr>)"
  by (auto simp: terminalize_failed_with_proof_def terminalize_rel_def op_Ok_simps)

interpretation quarantine: state_op "quarantine_failed_for_historical_remote_side_effect now p"
    "terminalize_rel now FAILURE_QUARANTINE_PROOF_NAME (ser_failure_quarantine_proof p)"
    "\<lambda>s t. s = Failed \<and> t = NeedsReview"
  for now p
  by unfold_locales
    (auto simp: quarantine_eq_Ok terminalize_rel_def unknown_simps split: if_splits)

interpretation terminalize: state_op "terminalize_failed_with_proof now k v"
    "terminalize_rel now k (sanitize_untrusted_recipe_claim k v)" "\<lambda>s t. s = Failed \<and> t = NeedsReview"
  for now k v
  by unfold_locales
    (auto simp: terminalize_eq_Ok terminalize_rel_def unknown_simps split: if_splits)

definition resolution_rel :: "string \<Rightarrow> state \<Rightarrow> json option \<Rightarrow> json \<Rightarrow> asset_record \<Rightarrow> asset_record \<Rightarrow> bool" where
  "resolution_rel now t orig v r r' \<longleftrightarrow>
     r' = (put_proof ''original_asset_resolution'' v
            (case orig of None \<Rightarrow> r\<lparr>ar_state := t\<rparr> | Some w \<Rightarrow> put_proof ''original_asset'' w (r\<lparr>ar_state := t\<rparr>)))
          \<lparr>ar_updated_at := now\<rparr>"

lemma apply_resolution_eq_Ok:
  "apply_original_asset_resolution_update now t orig v m a = Inr m' \<longleftrightarrow>
     (\<exists>r r'. bt_get (mf_records m) a = Some r \<and> unreserved r \<and> resolution_rel now t orig v r r'
        \<and> m' = m\<lparr>mf_records := bt_insert a r' (mf_records m)\<rparr>)"
  by (auto simp: apply_original_asset_resolution_update_def resolution_rel_def Let_def op_Ok_simps)

interpretation resolution: state_op "apply_original_asset_resolution_update now t orig v"
    "resolution_rel now t orig v" "\<lambda>_ s. s = t"
  for now t orig v
  by unfold_locales
    (auto simp: apply_resolution_eq_Ok resolution_rel_def unknown_simps
      split: option.splits)

definition proof_rel :: "string \<Rightarrow> string \<Rightarrow> json \<Rightarrow> asset_record \<Rightarrow> asset_record \<Rightarrow> bool" where
  "proof_rel now k v r r' \<longleftrightarrow>
     k \<noteq> RESERVED_PROOF_NAME \<and> r' = (put_proof k v r)\<lparr>ar_updated_at := now\<rparr>"

lemma record_trusted_proof_eq_Ok:
  "record_trusted_proof now k v m a = Inr m' \<longleftrightarrow>
     (\<exists>r r'. bt_get (mf_records m) a = Some r \<and> unreserved r \<and> proof_rel now k v r r'
        \<and> m' = m\<lparr>mf_records := bt_insert a r' (mf_records m)\<rparr>)"
  by (auto simp: record_trusted_proof_def proof_rel_def op_Ok_simps)

lemma record_proof_eq_Ok:
  "record_proof now k v m a = Inr m' \<longleftrightarrow>
     (\<exists>r r'. bt_get (mf_records m) a = Some r \<and> unreserved r
        \<and> proof_rel now k (sanitize_untrusted_recipe_claim k v) r r'
        \<and> m' = m\<lparr>mf_records := bt_insert a r' (mf_records m)\<rparr>)"
  by (auto simp: record_proof_def record_trusted_proof_eq_Ok op_Ok_simps proof_rel_def)

interpretation record_trusted_proof: state_op "record_trusted_proof now k v" "proof_rel now k v" "(=)"
  for now k v
  by unfold_locales
    (auto simp: record_trusted_proof_eq_Ok proof_rel_def unknown_simps split: if_splits)

interpretation record_proof: state_op "record_proof now k v"
    "proof_rel now k (sanitize_untrusted_recipe_claim k v)" "(=)"
  for now k v
  by unfold_locales
    (auto simp: record_proof_eq_Ok proof_rel_def unknown_simps split: if_splits)

end
