(* ===== verification/Lifecycle.thy ===== *)
theory Lifecycle
  imports Manifest_Ops
begin

section \<open>Sequences of manifest operations\<close>

text \<open>
  The generic operations of \<open>Manifest_Ops\<close> on one record as events, each with its clock reading,
  and their runs. A run stops at the first error, which leaves the manifest as it was; so the
  properties below are about runs of successful operations. Then the snapshot, the upserts, the sweep
  \<open>requeue_interrupted_retries_as_failed\<close> and the registry; and last the runs of every operation of
  the manifest that changes it, \<open>manifest_call\<close>.
\<close>

datatype manifest_event =
    Ev_Transition_Trusted string state string json
  | Ev_Transition string state string json
  | Ev_Failure string string string "failure_kind option"
  | Ev_Recover string state
  | Ev_Quarantine string failure_quarantine_proof
  | Ev_Terminalize string string json
  | Ev_Trusted_Proof string string json
  | Ev_Proof string string json

fun apply_event :: "manifest_event \<Rightarrow> 'r manifest \<Rightarrow> string \<Rightarrow> manifest_error + 'r manifest" where
  "apply_event (Ev_Transition_Trusted now t k v) = transition_trusted now t k v"
| "apply_event (Ev_Transition now t k v) = transition now t k v"
| "apply_event (Ev_Failure now stage message kind) = record_failure_with_kind now stage message kind"
| "apply_event (Ev_Recover now t) = recover_failed_for_retry now t"
| "apply_event (Ev_Quarantine now p) = quarantine_failed_for_historical_remote_side_effect now p"
| "apply_event (Ev_Terminalize now k v) = terminalize_failed_with_proof now k v"
| "apply_event (Ev_Trusted_Proof now k v) = record_trusted_proof now k v"
| "apply_event (Ev_Proof now k v) = record_proof now k v"

text \<open>What an event does to the record, and the steps of the state it allows.\<close>

fun event_rel :: "manifest_event \<Rightarrow> asset_record \<Rightarrow> asset_record \<Rightarrow> bool" where
  "event_rel (Ev_Transition_Trusted now t k v) = transition_rel now t k v"
| "event_rel (Ev_Transition now t k v) = transition_rel now t k (sanitize_untrusted_recipe_claim k v)"
| "event_rel (Ev_Failure now stage message kind) = failure_rel now stage message kind"
| "event_rel (Ev_Recover now t) = recover_rel now t"
| "event_rel (Ev_Quarantine now p) =
     terminalize_rel now FAILURE_QUARANTINE_PROOF_NAME (ser_failure_quarantine_proof p)"
| "event_rel (Ev_Terminalize now k v) = terminalize_rel now k (sanitize_untrusted_recipe_claim k v)"
| "event_rel (Ev_Trusted_Proof now k v) = proof_rel now k v"
| "event_rel (Ev_Proof now k v) = proof_rel now k (sanitize_untrusted_recipe_claim k v)"

fun event_steps :: "manifest_event \<Rightarrow> state \<Rightarrow> state \<Rightarrow> bool" where
  "event_steps (Ev_Transition_Trusted _ _ _ _) = allows"
| "event_steps (Ev_Transition _ _ _ _) = allows"
| "event_steps (Ev_Failure _ _ _ _) = (\<lambda>s t. \<not> is_terminal s \<and> t = Failed)"
| "event_steps (Ev_Recover _ _) = (\<lambda>s t. s = Failed \<and> t \<in> retry_states)"
| "event_steps (Ev_Quarantine _ _) = (\<lambda>s t. s = Failed \<and> t = NeedsReview)"
| "event_steps (Ev_Terminalize _ _ _) = (\<lambda>s t. s = Failed \<and> t = NeedsReview)"
| "event_steps (Ev_Trusted_Proof _ _ _) = (=)"
| "event_steps (Ev_Proof _ _ _) = (=)"

interpretation event: state_op "apply_event e" "event_rel e" "event_steps e" for e
proof (cases e)
  case (Ev_Transition_Trusted now t k v)
  then show "state_op (apply_event e) (event_rel e) (event_steps e)"
    using transition_trusted.state_op_axioms by simp
next
  case (Ev_Transition now t k v)
  then show "state_op (apply_event e) (event_rel e) (event_steps e)"
    using transition.state_op_axioms by simp
next
  case (Ev_Failure now stage message kind)
  then show "state_op (apply_event e) (event_rel e) (event_steps e)"
    using failure.state_op_axioms by simp
next
  case (Ev_Recover now t)
  then show "state_op (apply_event e) (event_rel e) (event_steps e)"
    using recover.state_op_axioms by simp
next
  case (Ev_Quarantine now p)
  then show "state_op (apply_event e) (event_rel e) (event_steps e)"
    using quarantine.state_op_axioms by simp
next
  case (Ev_Terminalize now k v)
  then show "state_op (apply_event e) (event_rel e) (event_steps e)"
    using terminalize.state_op_axioms by simp
next
  case (Ev_Trusted_Proof now k v)
  then show "state_op (apply_event e) (event_rel e) (event_steps e)"
    using record_trusted_proof.state_op_axioms by simp
next
  case (Ev_Proof now k v)
  then show "state_op (apply_event e) (event_rel e) (event_steps e)"
    using record_proof.state_op_axioms by simp
qed

type_synonym manifest_run = "(string \<times> manifest_event) list"

definition run_events :: "manifest_run \<Rightarrow> 'r manifest \<Rightarrow> manifest_error + 'r manifest" where
  "run_events = try_fold (\<lambda>(a, e) m. apply_event e m a)"

lemma run_events_simps [simp]:
  "run_events [] m = Inr m"
  by (simp add: run_events_def)

lemma run_events_Cons [result_simps]:
  "run_events ((a, e) # es) m = Inr m' \<longleftrightarrow>
     (\<exists>m1. apply_event e m a = Inr m1 \<and> run_events es m1 = Inr m')"
  by (simp add: run_events_def result_simps)

lemma run_events_append [result_simps]:
  "run_events (es @ fs) m = Inr m' \<longleftrightarrow> (\<exists>m1. run_events es m = Inr m1 \<and> run_events fs m1 = Inr m')"
  by (simp add: run_events_def try_fold_append result_simps)

lemma run_induct:
  assumes "run_events es m = Inr m'" and "P m"
    and "\<And>a e m m'. P m \<Longrightarrow> (a, e) \<in> set es \<Longrightarrow> apply_event e m a = Inr m' \<Longrightarrow> P m'"
  shows "P m'"
  using assms(1,2) unfolding run_events_def
  by (rule try_fold_invariant) (auto intro: assms(3) split: prod.splits)

lemma run_keeps_ok: "run_events es m = Inr m' \<Longrightarrow> manifest_ok m \<Longrightarrow> manifest_ok m'"
  by (erule run_induct) (auto intro: event.keeps_ok)

lemma run_same_registry: "run_events es m = Inr m' \<Longrightarrow> mf_registry m' = mf_registry m"
  by (erule run_induct [where P = "\<lambda>n. mf_registry n = mf_registry m"]) (auto dest: event.same_registry)

text \<open>What a run makes of one record: a relation between the record before and after it.\<close>

lemma run_record_invariant:
  assumes "run_events es m = Inr m'" and "bt_get (mf_records m) b = Some r" and "Q r"
    and "\<And>e r r'. Q r \<Longrightarrow> event_rel e r r' \<Longrightarrow> unreserved r \<Longrightarrow> (b, e) \<in> set es \<Longrightarrow> Q r'"
  shows "\<exists>r'. bt_get (mf_records m') b = Some r' \<and> Q r'"
proof -
  have "\<exists>r'. bt_get (mf_records m) b = Some r' \<and> Q r'" using assms(2,3) by blast
  with assms(1) show ?thesis
  proof (rule run_induct)
    fix a e and n n' :: "'a manifest"
    assume n: "\<exists>r'. bt_get (mf_records n) b = Some r' \<and> Q r'" "apply_event e n a = Inr n'"
      and es: "(a, e) \<in> set es"
    from event.op_changes [OF n(2)] obtain r r' where "bt_get (mf_records n) a = Some r"
      "unreserved r" "event_rel e r r'" "n' = n\<lparr>mf_records := bt_insert a r' (mf_records n)\<rparr>"
      by blast
    with n(1) es show "\<exists>r'. bt_get (mf_records n') b = Some r' \<and> Q r'"
      by (cases "a = b") (auto intro: assms(4))
  qed
qed

subsection \<open>States along a run\<close>

lemma event_rel_terminal:
  "event_rel e r r' \<Longrightarrow> is_terminal (ar_state r) \<Longrightarrow>
     ar_state r' = ar_state r \<and> ar_failures r' = ar_failures r"
  by (cases e)
    (auto simp: transition_rel_def failure_rel_def recover_rel_def terminalize_rel_def proof_rel_def
      is_terminal_def dest: allows_not_terminal)

text \<open>The transitions of one asset in a run.\<close>

definition is_transition :: "manifest_event \<Rightarrow> bool" where
  "is_transition e =
     (case e of Ev_Transition_Trusted _ _ _ _ \<Rightarrow> True | Ev_Transition _ _ _ _ \<Rightarrow> True | _ \<Rightarrow> False)"

definition is_recover :: "manifest_event \<Rightarrow> bool" where
  "is_recover e = (case e of Ev_Recover _ _ \<Rightarrow> True | _ \<Rightarrow> False)"

definition transitions_of :: "string \<Rightarrow> manifest_run \<Rightarrow> nat" where
  "transitions_of a es = length (filter (\<lambda>(b, e). b = a \<and> is_transition e) es)"

lemma event_steps_rank:
  "event_steps e s t \<Longrightarrow> \<not> is_recover e \<Longrightarrow> state_rank t = Some j \<Longrightarrow>
     (\<exists>i. state_rank s = Some i \<and> j = i + (if is_transition e then 1 else 0))"
  by (cases e) (auto simp: is_recover_def is_transition_def allows_rank)

lemma run_Cons_record:
  assumes "run_events ((b, e) # es) m = Inr m'" and "bt_get (mf_records m) a = Some r"
  obtains m1 r1 where "run_events es m1 = Inr m'" "bt_get (mf_records m1) a = Some r1"
    "b = a \<Longrightarrow> event_rel e r r1" "b \<noteq> a \<Longrightarrow> r1 = r"
proof -
  from assms(1) obtain m1 where m1: "apply_event e m b = Inr m1" "run_events es m1 = Inr m'"
    by (auto simp: result_simps)
  from event.op_changes [OF m1(1)] obtain s s' where "bt_get (mf_records m) b = Some s" "event_rel e s s'"
    "m1 = m\<lparr>mf_records := bt_insert b s' (mf_records m)\<rparr>" by blast
  with m1(2) assms(2) that show ?thesis by (cases "b = a") auto
qed

text \<open>C17: Along a run without a recovery of the asset, each step towards deletion is one transition:
  from a state of rank \<open>i\<close> to a state of rank \<open>j\<close> the run makes exactly \<open>j - i\<close> transitions of
  the asset, so no state on the way is skipped and none is entered twice.\<close>

theorem states_are_not_skipped:
  assumes "run_events es m = Ok m'"
    and "bt_get (mf_records m) a = Some r" and "bt_get (mf_records m') a = Some r'"
    and "list_all (\<lambda>(b, e). b = a \<longrightarrow> \<not> is_recover e) es"
    and "state_rank (ar_state r') = Some j"
  shows "\<exists>i. state_rank (ar_state r) = Some i \<and> j = i + transitions_of a es"
  using assms
proof (induction es arbitrary: m r)
  case Nil
  then show ?case by (simp add: transitions_of_def)
next
  case (Cons be es)
  obtain b e where be: "be = (b, e)" by (cases be)
  from Cons.prems(1,2) be obtain m1 r1 where m1: "run_events es m1 = Inr m'"
    "bt_get (mf_records m1) a = Some r1" "b = a \<Longrightarrow> event_rel e r r1" "b \<noteq> a \<Longrightarrow> r1 = r"
    by (auto elim!: run_Cons_record)
  from Cons.IH [OF m1(1,2) Cons.prems(3) _ Cons.prems(5)] Cons.prems(4) be
  obtain i where i: "state_rank (ar_state r1) = Some i" "j = i + transitions_of a es" by auto
  show ?case
  proof (cases "b = a")
    case True
    with m1(3) have "event_steps e (ar_state r) (ar_state r1)" by (auto intro: event.rel_steps)
    moreover have "\<not> is_recover e" using Cons.prems(4) be True by simp
    ultimately show ?thesis
      using event_steps_rank i be True by (fastforce simp: transitions_of_def)
  next
    case False
    with m1(4) i be show ?thesis by (auto simp: transitions_of_def)
  qed
qed

text \<open>A small run used as an instance.\<close>

definition sample_manifest :: "unit manifest" where
  "sample_manifest = insert_record (new_asset_record ''a'' ''/raw/a.dng'' ''0'') new_manifest"

definition sample_run :: manifest_run where
  "sample_run =
     [(''a'', Ev_Transition_Trusted ''1'' NasVerified ''raw'' JNull),
      (''a'', Ev_Proof ''2'' ''note'' (JBool True)),
      (''a'', Ev_Transition ''3'' Converted ''conversion'' (JObject []))]"

definition sample_result :: "unit manifest" where
  "sample_result = (case run_events sample_run sample_manifest of Inl _ \<Rightarrow> new_manifest | Inr m \<Rightarrow> m)"

lemma sample_run_Ok: "run_events sample_run sample_manifest = Ok sample_result"
  by code_simp

theorem states_are_not_skipped_witness:
  "\<exists>i. state_rank (ar_state (new_asset_record ''a'' ''/raw/a.dng'' ''0'')) = Some i
     \<and> 2 = i + transitions_of ''a'' sample_run"
proof (rule states_are_not_skipped [OF sample_run_Ok])
  show "bt_get (mf_records sample_manifest) ''a'' = Some (new_asset_record ''a'' ''/raw/a.dng'' ''0'')"
    by code_simp
  show "bt_get (mf_records sample_result) ''a'' = Some (the (bt_get (mf_records sample_result) ''a''))"
    by code_simp
  show "list_all (\<lambda>(b, e). b = ''a'' \<longrightarrow> \<not> is_recover e) sample_run" by code_simp
  show "state_rank (ar_state (the (bt_get (mf_records sample_result) ''a''))) = Some 2" by code_simp
qed

subsection \<open>The upserts and the snapshot\<close>

text \<open>An upsert, trusted or not, is refused for a record with the proof and over one.\<close>

lemma upsert_reserved:
  assumes "record_has_reserved_internal_proof r
    \<or> (\<exists>old. bt_get (mf_records m) (ar_asset_id r) = Some old \<and> record_has_reserved_internal_proof old)"
  shows "upsert m r = Inl ReservedInternalProofRequiresAuthority"
    and "upsert_trusted m r = Inl ReservedInternalProofRequiresAuthority"
  using assms
  by (auto simp: upsert_def upsert_trusted_def reject_reserved_internal_proof_upsert_def fail_if_def)

lemma upsert_trusted_eq_Ok:
  "upsert_trusted m r = Inr m' \<longleftrightarrow>
     unreserved r \<and> (\<forall>old. bt_get (mf_records m) (ar_asset_id r) = Some old \<longrightarrow> unreserved old)
     \<and> m' = insert_record r m"
  by (auto simp: upsert_trusted_def reject_reserved_internal_proof_upsert_def op_Ok_simps
      record_has_reserved_internal_proof_def split: option.splits)

lemma upsert_eq_Ok:
  "upsert m r = Inr m' \<longleftrightarrow>
     unreserved r \<and> (\<forall>old. bt_get (mf_records m) (ar_asset_id r) = Some old \<longrightarrow> unreserved old)
     \<and> m' = insert_record (sanitize_untrusted_recipe_claims r) m"
  by (auto simp: upsert_def reject_reserved_internal_proof_upsert_def op_Ok_simps
      record_has_reserved_internal_proof_def split: option.splits)

text \<open>The snapshot of an asset fails for an asset the manifest lacks and for one with the reserved
  proof; otherwise it is a manifest with exactly that record and no registry.\<close>

theorem snapshot_is_the_record:
  "snapshot_record m a =
     (case bt_get (mf_records m) a of
        None \<Rightarrow> Err (UnknownAsset a)
      | Some r \<Rightarrow>
          if record_has_reserved_internal_proof r then Err ReservedInternalProofRequiresAuthority
          else Ok \<lparr>mf_records = [(ar_asset_id r, r)], mf_registry = None\<rparr>)"
  by (auto simp: snapshot_record_def manifest_get_def reject_reserved_internal_proof_def
      record_has_reserved_internal_proof_def upsert_trusted_eq_Ok insert_record_def new_manifest_def
      fail_if_def split: option.splits)

subsection \<open>Recipe claims from untrusted callers\<close>

text \<open>A recipe proof that is an object claims no recipe.\<close>

definition no_recipe_claim :: "string \<Rightarrow> json \<Rightarrow> bool" where
  "no_recipe_claim k v =
     (k \<in> set recipe_proof_names \<longrightarrow>
       (case v of JObject kvs \<Rightarrow> bt_get kvs ''conversion_recipe_id'' = Some (JString []) | _ \<Rightarrow> True))"

definition claims_no_recipe :: "asset_record \<Rightarrow> bool" where
  "claims_no_recipe r \<longleftrightarrow>
     list_all (\<lambda>k. case get_proof r k of None \<Rightarrow> True | Some v \<Rightarrow> no_recipe_claim k v) recipe_proof_names"

lemma claims_no_recipe_iff:
  "claims_no_recipe r \<longleftrightarrow> (\<forall>k v. get_proof r k = Some v \<longrightarrow> no_recipe_claim k v)"
  by (auto simp: claims_no_recipe_def list_all_iff no_recipe_claim_def split: option.splits)

lemma no_recipe_claim_sanitized [simp]: "no_recipe_claim k (sanitize_untrusted_recipe_claim k v)"
  by (simp add: no_recipe_claim_def sanitize_untrusted_recipe_claim_def split: json.splits)

lemma claims_no_recipe_put [simp]:
  "claims_no_recipe r \<Longrightarrow> no_recipe_claim k v \<Longrightarrow> claims_no_recipe (put_proof k v r)"
  by (auto simp: claims_no_recipe_iff)

lemma claims_no_recipe_fields [simp]:
  "claims_no_recipe (r\<lparr>ar_state := s\<rparr>) = claims_no_recipe r"
  "claims_no_recipe (r\<lparr>ar_updated_at := u\<rparr>) = claims_no_recipe r"
  "claims_no_recipe (r\<lparr>ar_failures := fs\<rparr>) = claims_no_recipe r"
  by (simp_all add: claims_no_recipe_iff)

lemma get_proof_sanitize_one:
  "get_proof (sanitize_one k r) k' =
     (if k' = k then map_option (sanitize_untrusted_recipe_claim k) (get_proof r k) else get_proof r k')"
  by (auto simp: sanitize_one_def split: option.splits)

lemma get_proof_sanitized:
  "get_proof (sanitize_untrusted_recipe_claims r) k
     = map_option (sanitize_untrusted_recipe_claim k) (get_proof r k)"
  by (cases "get_proof r k")
    (auto simp: sanitize_untrusted_recipe_claims_def recipe_proof_names_def get_proof_sanitize_one
      sanitize_untrusted_recipe_claim_def)

lemma sanitized_claims_no_recipe [simp]: "claims_no_recipe (sanitize_untrusted_recipe_claims r)"
  by (auto simp: claims_no_recipe_iff get_proof_sanitized)

text \<open>The events of callers outside the crate.\<close>

definition is_untrusted :: "manifest_event \<Rightarrow> bool" where
  "is_untrusted e =
     (case e of Ev_Transition_Trusted _ _ _ _ \<Rightarrow> False | Ev_Trusted_Proof _ _ _ \<Rightarrow> False | _ \<Rightarrow> True)"

lemma no_recipe_claim_quarantine [simp]: "no_recipe_claim FAILURE_QUARANTINE_PROOF_NAME v"
  by (simp add: no_recipe_claim_def model_defs)

lemma untrusted_event_rel:
  "event_rel e r r' \<Longrightarrow> is_untrusted e \<Longrightarrow> claims_no_recipe r \<Longrightarrow> claims_no_recipe r'"
  by (cases e)
    (auto simp: is_untrusted_def transition_rel_def failure_rel_def recover_rel_def terminalize_rel_def
      proof_rel_def)

text \<open>However a caller without trust builds up a record - an upsert of any record, then any run of
  untrusted operations on it - the record's conversion proofs never claim a conversion recipe.\<close>

theorem untrusted_input_claims_no_recipe:
  assumes "upsert m r = Ok m0" and "run_events es m0 = Ok m'"
    and "list_all (\<lambda>(b, e). b = ar_asset_id r \<longrightarrow> is_untrusted e) es"
  shows "\<exists>r'. bt_get (mf_records m') (ar_asset_id r) = Some r' \<and> claims_no_recipe r'"
proof (rule run_record_invariant [OF assms(2)])
  show "bt_get (mf_records m0) (ar_asset_id r) = Some (sanitize_untrusted_recipe_claims r)"
  proof -
    have "ar_asset_id (sanitize_untrusted_recipe_claims r) = ar_asset_id r"
      by (simp add: sanitize_untrusted_recipe_claims_def recipe_proof_names_def sanitize_one_def
          split: option.splits)
    with assms(1) show ?thesis by (auto simp: upsert_eq_Ok)
  qed
  show "claims_no_recipe (sanitize_untrusted_recipe_claims r)" by simp
next
  fix e s s'
  assume "claims_no_recipe s" "event_rel e s s'" "(ar_asset_id r, e) \<in> set es"
  with assms(3) show "claims_no_recipe s'"
    by (auto simp: list_all_iff intro: untrusted_event_rel)
qed

definition forged_record :: asset_record where
  "forged_record =
     put_proof ''conversion'' (JObject [(''conversion_recipe_id'', JString ''forged'')])
       (new_asset_record ''a'' ''/raw/a.dng'' ''0'')"

theorem untrusted_input_claims_no_recipe_witness:
  "\<exists>m0 (m' :: unit manifest) r'. upsert new_manifest forged_record = Ok m0
     \<and> run_events [(''a'', Ev_Proof ''2'' ''heic'' (JObject []))] m0 = Ok m'
     \<and> bt_get (mf_records m') ''a'' = Some r' \<and> claims_no_recipe r'
     \<and> \<not> claims_no_recipe forged_record"
proof -
  obtain m0 :: "unit manifest" where m0: "upsert new_manifest forged_record = Ok m0"
    "run_events [(''a'', Ev_Proof ''2'' ''heic'' (JObject []))] m0
       = Ok (case run_events [(''a'', Ev_Proof ''2'' ''heic'' (JObject []))] m0 of
              Inl _ \<Rightarrow> new_manifest | Inr m \<Rightarrow> m)"
    (is "_ = Ok ?m'")
  proof
    let ?m0 = "case upsert (new_manifest :: unit manifest) forged_record of Inl _ \<Rightarrow> new_manifest | Inr m \<Rightarrow> m"
    show "upsert new_manifest forged_record = Ok ?m0" by code_simp
    show "run_events [(''a'', Ev_Proof ''2'' ''heic'' (JObject []))] ?m0
       = Ok (case run_events [(''a'', Ev_Proof ''2'' ''heic'' (JObject []))] ?m0 of
              Inl _ \<Rightarrow> new_manifest | Inr m \<Rightarrow> m)" by code_simp
  qed
  have id: "ar_asset_id forged_record = ''a''" by code_simp
  have "list_all (\<lambda>(b, e). b = ar_asset_id forged_record \<longrightarrow> is_untrusted e)
      [(''a'', Ev_Proof ''2'' ''heic'' (JObject []))]" by code_simp
  from untrusted_input_claims_no_recipe [OF m0 this] id
  obtain r' where r': "bt_get (mf_records ?m') ''a'' = Some r'" "claims_no_recipe r'" by auto
  have "\<not> claims_no_recipe forged_record" by code_simp
  with m0 r' show ?thesis by (intro exI [of _ m0] exI [of _ ?m'] exI [of _ r']) simp
qed

subsection \<open>The sweep of interrupted retries\<close>

definition swept :: "(asset_record \<Rightarrow> bool) \<Rightarrow> asset_record \<Rightarrow> bool" where
  "swept interrupted r \<longleftrightarrow> ar_state r \<in> retry_states \<and> interrupted r"

lemma requeue_loop_Cons:
  "requeue_loop interrupted clock n ((k, r) # rs) =
     (if swept interrupted r
      then map_prod ((#) (k, r\<lparr>ar_state := Failed, ar_updated_at := clock n\<rparr>)) id
             (requeue_loop interrupted clock (Suc n) rs)
      else map_prod ((#) (k, r)) id (requeue_loop interrupted clock n rs))"
  by (simp add: swept_def retry_states_def split: prod.splits)

declare requeue_loop.simps(2) [simp del]

lemma requeue_loop_keys: "map fst (fst (requeue_loop interrupted clock n rs)) = map fst rs"
proof (induction rs arbitrary: n)
  case (Cons p rs)
  then show ?case by (cases p) (simp add: requeue_loop_Cons)
qed simp

lemma requeue_loop_count:
  "snd (requeue_loop interrupted clock n rs) = n + length (filter (swept interrupted \<circ> snd) rs)"
proof (induction rs arbitrary: n)
  case (Cons p rs)
  then show ?case by (cases p) (simp add: requeue_loop_Cons)
qed simp

lemma requeue_loop_get:
  "bt_get (fst (requeue_loop interrupted clock n rs)) a =
     (case bt_get rs a of None \<Rightarrow> None
      | Some r \<Rightarrow> Some (if swept interrupted r
          then r\<lparr>ar_state := Failed,
                 ar_updated_at := clock (n + length (filter (swept interrupted \<circ> snd)
                                                      (takeWhile (\<lambda>p. fst p \<noteq> a) rs)))\<rparr>
          else r))"
proof (induction rs arbitrary: n)
  case (Cons p rs)
  obtain k r where p: "p = (k, r)" by (cases p)
  show ?case
  proof (cases "k = a")
    case True
    then show ?thesis by (simp add: p requeue_loop_Cons bt_get_def)
  next
    case False
    then show ?thesis
      using Cons.IH by (simp add: p requeue_loop_Cons bt_get_def split: option.splits)
  qed
qed simp

text \<open>The sweep fails exactly when some record has the reserved proof. Otherwise each record in a
  retry state that the caller calls interrupted becomes failed, with its proofs and failures kept,
  every other record is as it was, and the returned number counts the changed records.\<close>

theorem requeue_sweeps_exactly_the_interrupted:
  "requeue_interrupted_retries_as_failed clock interrupted m =
     (if list_ex (record_has_reserved_internal_proof \<circ> snd) (mf_records m)
      then Err ReservedInternalProofRequiresAuthority
      else Ok (m\<lparr>mf_records :=
                  map (\<lambda>i. let (k, r) = mf_records m ! i in
                         (k, if swept interrupted r
                             then r\<lparr>ar_state := Failed,
                                    ar_updated_at := clock (length (filter (swept interrupted \<circ> snd)
                                                                     (take i (mf_records m))))\<rparr>
                             else r))
                    [0..<length (mf_records m)]\<rparr>,
               length (filter (swept interrupted \<circ> snd) (mf_records m))))"
proof -
  have loop: "requeue_loop interrupted clock n rs =
      (map (\<lambda>i. let (k, r) = rs ! i in
         (k, if swept interrupted r
             then r\<lparr>ar_state := Failed,
                    ar_updated_at := clock (n + length (filter (swept interrupted \<circ> snd) (take i rs)))\<rparr>
             else r)) [0..<length rs],
       n + length (filter (swept interrupted \<circ> snd) rs))" for n rs
  proof (induction rs arbitrary: n)
    case (Cons p rs)
    have upt: "[0..<Suc (length rs)] = 0 # map Suc [0..<length rs]"
      unfolding map_Suc_upt by (simp add: upt_conv_Cons del: upt_Suc)
    show ?case
    proof (cases p)
      case (Pair k r)
      then show ?thesis
        by (auto simp: upt requeue_loop_Cons Cons.IH simp del: upt_Suc split: prod.splits)
    qed
  qed simp
  show ?thesis
    by (simp add: requeue_interrupted_retries_as_failed_def reject_reserved_internal_proofs_def
        fail_if_def bt_values_def loop list_ex_iff case_prod_beta)
qed

lemma requeue_keeps_ok:
  assumes "requeue_interrupted_retries_as_failed clock interrupted m = Ok (m', n)" and "manifest_ok m"
  shows "manifest_ok m'"
proof -
  let ?rs = "fst (requeue_loop interrupted clock 0 (mf_records m))"
  have m': "m' = m\<lparr>mf_records := ?rs\<rparr>"
    using assms(1) by (auto simp: requeue_interrupted_retries_as_failed_def op_Ok_simps split: prod.splits)
  have "bt_valid ?rs" using assms(2) by (simp add: manifest_ok_def bt_valid_def requeue_loop_keys)
  moreover have "ar_asset_id r = k \<and> record_ok r" if "(k, r) \<in> set ?rs" for k r
  proof -
    from that \<open>bt_valid ?rs\<close> have "bt_get ?rs k = Some r" by (simp add: bt_get_mem)
    then obtain r0 where "bt_get (mf_records m) k = Some r0" "ar_asset_id r = ar_asset_id r0"
      "record_ok r = record_ok r0"
      by (auto simp: requeue_loop_get split: option.splits if_splits)
    with manifest_ok_get [OF assms(2)] show ?thesis by simp
  qed
  ultimately show ?thesis by (auto simp: m' manifest_ok_def list_all_iff)
qed

subsection \<open>The registry\<close>

text \<open>Once installed, a registry can only be installed again unchanged.\<close>

lemma install_registry_eq_Ok:
  "install_legacy_upload_migration_registry authorizes m reg = Inr m' \<longleftrightarrow>
     authorizes reg \<and> mf_registry m \<in> {None, Some reg} \<and> m' = m\<lparr>mf_registry := Some reg\<rparr>"
  by (auto simp: install_legacy_upload_migration_registry_def split: option.splits if_splits)

subsection \<open>Runs of every operation that changes a manifest\<close>

text \<open>
  The calls that change a manifest: the events above, the upserts (\<open>Call_Upsert_Authorized\<close> is the
  capability upsert of the migration, of the state store and of a checkpoint, which differ in the
  digest), the update of a resolved original, the sweep and the installation of a registry.
\<close>

datatype 'r manifest_call =
    Call_Event string manifest_event
  | Call_Upsert asset_record
  | Call_Upsert_Trusted asset_record
  | Call_Upsert_Authorized "asset_record \<Rightarrow> string" record_authority asset_record
  | Call_Resolution string string state "json option" json
  | Call_Requeue "nat \<Rightarrow> string" "asset_record \<Rightarrow> bool"
  | Call_Install "'r \<Rightarrow> bool" 'r

fun apply_call :: "'r manifest_call \<Rightarrow> 'r manifest \<Rightarrow> manifest_error + 'r manifest" where
  "apply_call (Call_Event a e) m = apply_event e m a"
| "apply_call (Call_Upsert r) m = upsert m r"
| "apply_call (Call_Upsert_Trusted r) m = upsert_trusted m r"
| "apply_call (Call_Upsert_Authorized digest au r) m = upsert_authorized digest au m r"
| "apply_call (Call_Resolution a now t orig v) m = apply_original_asset_resolution_update now t orig v m a"
| "apply_call (Call_Requeue clock interrupted) m =
     bind_ok (requeue_interrupted_retries_as_failed clock interrupted m) (\<lambda>(m', n). Ok m')"
| "apply_call (Call_Install authorizes reg) m =
     install_legacy_upload_migration_registry authorizes m reg"

definition run_calls :: "'r manifest_call list \<Rightarrow> 'r manifest \<Rightarrow> manifest_error + 'r manifest" where
  "run_calls = try_fold apply_call"

text \<open>The calls that put a whole record, or a state the caller chose, in the place of asset \<open>a\<close>.\<close>

fun overwrites :: "string \<Rightarrow> 'r manifest_call \<Rightarrow> bool" where
  "overwrites a (Call_Upsert r) = (ar_asset_id r = a)"
| "overwrites a (Call_Upsert_Trusted r) = (ar_asset_id r = a)"
| "overwrites a (Call_Upsert_Authorized _ _ r) = (ar_asset_id r = a)"
| "overwrites a (Call_Resolution b _ _ _ _) = (b = a)"
| "overwrites a _ = False"

fun authorized_upsert_of :: "string \<Rightarrow> 'r manifest_call \<Rightarrow> bool" where
  "authorized_upsert_of a (Call_Upsert_Authorized _ _ r) = (ar_asset_id r = a)"
| "authorized_upsert_of a _ = False"

lemma run_calls_induct:
  assumes "run_calls cs m = Inr m'" and "P m"
    and "\<And>c m m'. P m \<Longrightarrow> c \<in> set cs \<Longrightarrow> apply_call c m = Inr m' \<Longrightarrow> P m'"
  shows "P m'"
  using assms(1,2) unfolding run_calls_def
  by (rule try_fold_invariant) (auto intro: assms(3))

lemma requeue_eq_Ok:
  "requeue_interrupted_retries_as_failed clock interrupted m = Inr (m', n) \<Longrightarrow>
     (\<forall>(k, r) \<in> set (mf_records m). unreserved r)
     \<and> m' = m\<lparr>mf_records := fst (requeue_loop interrupted clock 0 (mf_records m))\<rparr>"
  by (auto simp: requeue_interrupted_retries_as_failed_def reject_reserved_internal_proofs_def
      record_has_reserved_internal_proof_def bt_values_def list_ex_iff op_Ok_simps
      split: prod.splits if_splits)

lemma requeue_get:
  assumes "requeue_interrupted_retries_as_failed clock interrupted m = Inr (m', n)"
  shows "bt_get (mf_records m') a = None \<and> bt_get (mf_records m) a = None
    \<or> (\<exists>r u. bt_get (mf_records m) a = Some r \<and> unreserved r
        \<and> bt_get (mf_records m') a =
            Some (if swept interrupted r then r\<lparr>ar_state := Failed, ar_updated_at := u\<rparr> else r))"
proof -
  have "unreserved r" if "bt_get (mf_records m) a = Some r" for r
    using requeue_eq_Ok [OF assms] that by (auto simp: bt_get_def dest!: map_of_SomeD)
  with requeue_eq_Ok [OF assms] show ?thesis
    by (auto simp: requeue_loop_get split: option.splits)
qed

lemma sanitized_fields [simp]:
  "ar_asset_id (sanitize_untrusted_recipe_claims r) = ar_asset_id r"
  "has_proof (sanitize_untrusted_recipe_claims r) k = has_proof r k"
  by (simp add: sanitize_untrusted_recipe_claims_def recipe_proof_names_def sanitize_one_def
      split: option.splits)
    (simp add: has_proof_iff get_proof_sanitized)

text \<open>What a call other than an overwriting one does to the record of an asset.\<close>

lemma apply_call_record:
  assumes "apply_call c m = Inr m'" and "\<not> overwrites a c" and "bt_get (mf_records m) a = Some r"
  shows "\<exists>r'. bt_get (mf_records m') a = Some r' \<and>
    (r' = r \<or> (\<exists>e. event_rel e r r') \<or> (ar_state r \<in> retry_states \<and> unreserved r
        \<and> (\<exists>u. r' = r\<lparr>ar_state := Failed, ar_updated_at := u\<rparr>)))"
proof (cases c)
  case (Call_Event b e)
  with assms(1) have "apply_event e m b = Inr m'" by simp
  from event.op_changes [OF this] assms(3) show ?thesis by (cases "b = a") auto
next
  case (Call_Requeue clock interrupted)
  with assms(1) obtain n where "requeue_interrupted_retries_as_failed clock interrupted m = Inr (m', n)"
    by (auto simp: result_simps)
  from requeue_get [OF this, of a] assms(3) show ?thesis
    by (auto simp: swept_def split: if_splits)
qed (use assms in \<open>auto simp: upsert_eq_Ok upsert_trusted_eq_Ok upsert_authorized_def
      apply_resolution_eq_Ok install_registry_eq_Ok split: if_splits\<close>)

text \<open>
  C16: A record in a terminal state (deleted, no action, needs review) keeps its state, its
  failures and the names of its proofs through every successful run of the calls that change a
  manifest - transitions, failures, recoveries, quarantines, proofs, sweeps and registry
  installations of any assets, upserts and resolution updates of the other assets - unless a call of
  the run overwrites this very record: an upsert of the asset, or the update of its resolved original.
\<close>

theorem terminal_state_is_final:
  assumes "run_calls cs m = Ok m'" and "bt_get (mf_records m) a = Some r" and "is_terminal (ar_state r)"
  shows "list_ex (overwrites a) cs
    \<or> (\<exists>r'. bt_get (mf_records m') a = Some r' \<and> ar_state r' = ar_state r
        \<and> ar_failures r' = ar_failures r \<and> (\<forall>k. has_proof r k \<longrightarrow> has_proof r' k))"
proof -
  let ?Q = "\<lambda>s. ar_state s = ar_state r \<and> ar_failures s = ar_failures r
    \<and> (\<forall>k. has_proof r k \<longrightarrow> has_proof s k)"
  have "\<exists>s. bt_get (mf_records m') a = Some s \<and> ?Q s" if no: "\<not> list_ex (overwrites a) cs"
  proof (rule run_calls_induct [OF assms(1), where P = "\<lambda>n. \<exists>s. bt_get (mf_records n) a = Some s \<and> ?Q s"])
    show "\<exists>s. bt_get (mf_records m) a = Some s \<and> ?Q s" using assms(2) by simp
  next
    fix c and n n' :: "'a manifest"
    assume "\<exists>s. bt_get (mf_records n) a = Some s \<and> ?Q s" and c: "c \<in> set cs" "apply_call c n = Inr n'"
    then obtain s where s: "bt_get (mf_records n) a = Some s" "?Q s" by blast
    from no c(1) have "\<not> overwrites a c" by (auto simp: list_ex_iff)
    from apply_call_record [OF c(2) this s(1)] obtain s' where s': "bt_get (mf_records n') a = Some s'"
      "s' = s \<or> (\<exists>e. event_rel e s s') \<or> ar_state s \<in> retry_states" by blast
    have "ar_state s \<notin> retry_states" using s(2) assms(3) by (auto simp: is_terminal_def retry_states_def)
    with s' s(2) have "?Q s'"
      using event_rel_terminal [of _ s s'] event.rel_proofs [of _ s s'] assms(3) by auto
    with s'(1) show "\<exists>s. bt_get (mf_records n') a = Some s \<and> ?Q s" by blast
  qed
  then show ?thesis by blast
qed

text \<open>Only the capability upsert touches a record with the reserved proof, and only it makes one.\<close>

lemma apply_call_reserved:
  assumes "apply_call c m = Inr m'" and "\<not> authorized_upsert_of a c"
    and "bt_get (mf_records m) a = Some r" and "record_has_reserved_internal_proof r"
  shows "bt_get (mf_records m') a = Some r"
proof (cases c)
  case (Call_Event b e)
  with assms(1) have "apply_event e m b = Inr m'" by simp
  from event.reserved_untouched [OF this assms(3)] assms(4) show ?thesis
    by (simp add: record_has_reserved_internal_proof_def)
next
  case (Call_Requeue clock interrupted)
  with assms(1) obtain n where "requeue_interrupted_retries_as_failed clock interrupted m = Inr (m', n)"
    by (auto simp: result_simps)
  from requeue_get [OF this, of a] assms(3,4) show ?thesis
    by (auto simp: record_has_reserved_internal_proof_def)
qed (use assms in \<open>auto simp: upsert_eq_Ok upsert_trusted_eq_Ok upsert_authorized_def
      apply_resolution_eq_Ok install_registry_eq_Ok record_has_reserved_internal_proof_def
      split: if_splits\<close>)

lemma apply_call_makes_reserved:
  assumes "apply_call c m = Inr m'" and "bt_get (mf_records m') a = Some r"
    and "record_has_reserved_internal_proof r"
  shows "bt_get (mf_records m) a = Some r
    \<or> (\<exists>digest au. c = Call_Upsert_Authorized digest au r \<and> authority_authorizes digest au r
        \<and> ar_asset_id r = a)"
proof (cases c)
  case (Call_Event b e)
  with assms(1) have "apply_event e m b = Inr m'" by simp
  from event.reserved_not_forged [OF this assms(2)] assms(3) show ?thesis
    by (simp add: record_has_reserved_internal_proof_def)
next
  case (Call_Resolution b now t orig v)
  with assms(1) have "apply_original_asset_resolution_update now t orig v m b = Inr m'" by simp
  from resolution.reserved_not_forged [OF this assms(2)] assms(3) show ?thesis
    by (simp add: record_has_reserved_internal_proof_def)
next
  case (Call_Requeue clock interrupted)
  with assms(1) obtain n where "requeue_interrupted_retries_as_failed clock interrupted m = Inr (m', n)"
    by (auto simp: result_simps)
  from requeue_get [OF this, of a] assms(2,3) show ?thesis
    by (auto simp: record_has_reserved_internal_proof_def split: if_splits)
qed (use assms in \<open>auto simp: upsert_eq_Ok upsert_trusted_eq_Ok upsert_authorized_def
      install_registry_eq_Ok record_has_reserved_internal_proof_def split: if_splits\<close>)

text \<open>
  C18: Through every successful run of the calls that change a manifest, a record that carries the
  reserved migration proof stays exactly as it is unless a call is the capability upsert of its
  asset; and a record that carries the proof at the end was there at the start or is the record of
  such an upsert, which its authority names by asset and digest. No other call - no upsert, trusted
  or not, no transition, proof, failure, recovery, resolution update or sweep - changes, removes or
  makes one.
\<close>

theorem reserved_proof_is_sealed:
  assumes "run_calls cs m = Ok m'" and "record_has_reserved_internal_proof r"
  shows "(bt_get (mf_records m) a = Some r \<longrightarrow>
        bt_get (mf_records m') a = Some r \<or> list_ex (authorized_upsert_of a) cs)
    \<and> (bt_get (mf_records m') a = Some r \<longrightarrow>
        bt_get (mf_records m) a = Some r
        \<or> (\<exists>digest au. Call_Upsert_Authorized digest au r \<in> set cs \<and> authority_authorizes digest au r
            \<and> ar_asset_id r = a))"
proof (intro conjI impI)
  assume r: "bt_get (mf_records m) a = Some r"
  have "bt_get (mf_records m') a = Some r" if no: "\<not> list_ex (authorized_upsert_of a) cs"
  proof (rule run_calls_induct [OF assms(1), where P = "\<lambda>n. bt_get (mf_records n) a = Some r"])
    fix c and n n' :: "'a manifest"
    assume "bt_get (mf_records n) a = Some r" "c \<in> set cs" "apply_call c n = Inr n'"
    with no show "bt_get (mf_records n') a = Some r"
      using apply_call_reserved [of c n n' a r] assms(2) by (auto simp: list_ex_iff)
  qed (rule r)
  then show "bt_get (mf_records m') a = Some r \<or> list_ex (authorized_upsert_of a) cs" by blast
next
  let ?by = "\<exists>digest au. Call_Upsert_Authorized digest au r \<in> set cs \<and> authority_authorizes digest au r
    \<and> ar_asset_id r = a"
  assume "bt_get (mf_records m') a = Some r"
  moreover have "bt_get (mf_records m') a = Some r \<longrightarrow> bt_get (mf_records m) a = Some r \<or> ?by"
    by (rule run_calls_induct [OF assms(1), where
          P = "\<lambda>n. bt_get (mf_records n) a = Some r \<longrightarrow> bt_get (mf_records m) a = Some r \<or> ?by"])
      (simp, metis apply_call_makes_reserved [OF _ _ assms(2)])
  ultimately show "bt_get (mf_records m) a = Some r \<or> ?by" by blast
qed

subsection \<open>A sample run of calls\<close>

definition reviewed_manifest :: "unit manifest" where
  "reviewed_manifest =
     insert_record (put_proof RESERVED_PROOF_NAME JNull (new_asset_record ''z'' ''/raw/z.dng'' ''0''))
       (insert_record ((new_asset_record ''a'' ''/raw/a.dng'' ''0'')\<lparr>ar_state := NeedsReview\<rparr>) new_manifest)"

definition sample_calls :: "unit manifest_call list" where
  "sample_calls =
     [Call_Event ''a'' (Ev_Proof ''2'' ''note'' JNull),
      Call_Upsert (new_asset_record ''b'' ''/raw/b.dng'' ''3''),
      Call_Resolution ''b'' ''4'' NoAction None (JObject []),
      Call_Upsert_Trusted (new_asset_record ''c'' ''/raw/c.dng'' ''5''),
      Call_Install (\<lambda>_. True) ()]"

definition called_manifest :: "unit manifest" where
  "called_manifest = (case run_calls sample_calls reviewed_manifest of Inl _ \<Rightarrow> new_manifest | Inr m \<Rightarrow> m)"

lemma sample_calls_Ok: "run_calls sample_calls reviewed_manifest = Ok called_manifest"
  by code_simp

theorem terminal_state_is_final_witness:
  "\<exists>r'. bt_get (mf_records called_manifest) ''a'' = Some r' \<and> ar_state r' = NeedsReview"
proof -
  let ?r = "(new_asset_record ''a'' ''/raw/a.dng'' ''0'')\<lparr>ar_state := NeedsReview\<rparr>"
  have "bt_get (mf_records reviewed_manifest) ''a'' = Some ?r" by code_simp
  moreover have "is_terminal (ar_state ?r)" by code_simp
  moreover have "\<not> list_ex (overwrites ''a'') sample_calls" by code_simp
  ultimately have "\<exists>r'. bt_get (mf_records called_manifest) ''a'' = Some r' \<and> ar_state r' = ar_state ?r
      \<and> ar_failures r' = ar_failures ?r \<and> (\<forall>k. has_proof ?r k \<longrightarrow> has_proof r' k)"
    using terminal_state_is_final [OF sample_calls_Ok] by blast
  then show ?thesis by auto
qed

theorem reserved_proof_is_sealed_witness:
  "\<exists>r. record_has_reserved_internal_proof r \<and> bt_get (mf_records called_manifest) ''z'' = Some r"
proof -
  let ?r = "put_proof RESERVED_PROOF_NAME JNull (new_asset_record ''z'' ''/raw/z.dng'' ''0'')"
  have r: "record_has_reserved_internal_proof ?r" by code_simp
  have "bt_get (mf_records reviewed_manifest) ''z'' = Some ?r" by code_simp
  moreover have "\<not> list_ex (authorized_upsert_of ''z'') sample_calls" by code_simp
  ultimately have "bt_get (mf_records called_manifest) ''z'' = Some ?r"
    using reserved_proof_is_sealed [OF sample_calls_Ok r, of "''z''"] by blast
  with r show ?thesis by blast
qed

end
