(* ===== verification/Manifest_Store.thy ===== *)
theory Manifest_Store
  imports Lifecycle
begin

section \<open>The manifest on disk\<close>

text \<open>
  \<open>ManifestFile\<close>, \<open>load_from_reader\<close> and \<open>save_atomic\<close> of \<open>src/src/manifest.rs\<close>, and the two
  entry points of \<open>src/src/strict_json.rs\<close>. Parsing is left to \<open>serde_json\<close>: a document is what its
  parser hands to the visitor (\<open>raw_json\<close>), or nothing where the text is no JSON. The text that is
  written is \<open>manifest_text\<close>. The validation of the migration registry is a parameter
  (\<open>registry_api\<close>).
\<close>

subsection \<open>Strict reading\<close>

definition strict_from :: "(json \<Rightarrow> 'a option) \<Rightarrow> raw_json option \<Rightarrow> 'a option" where
  "strict_from de doc =
     (case doc of None \<Rightarrow> None
      | Some raw \<Rightarrow> (case strict_value raw of Inl _ \<Rightarrow> None | Inr v \<Rightarrow> de v))"

text \<open>
  The tokens of a value as the serializer writes them. That a parser hands over the tokens of the text
  it is given is never part of the model: it is a hypothesis where it is used. For \<open>serde_json\<close> as the
  program builds it the hypothesis fails for floating point numbers, whose text need not be read back to the
  bit, and for values nested deeper than 127, which its recursion limit refuses.
\<close>

fun to_raw :: "json \<Rightarrow> raw_json" where
  "to_raw JNull = RNull"
| "to_raw (JBool b) = RBool b"
| "to_raw (JNumber (PosInt n)) = RU64 n"
| "to_raw (JNumber (NegInt n)) = RI64 n"
| "to_raw (JNumber (Float64 n)) = RF64 n"
| "to_raw (JString s) = RStr s"
| "to_raw (JArray vs) = RSeq (map to_raw vs)"
| "to_raw (JObject kvs) = RMap (map (\<lambda>(k, v). (k, to_raw v)) kvs)"

text \<open>The values the library can hold: objects are ordered maps, numbers are in their ranges.\<close>

fun json_storable :: "json \<Rightarrow> bool" where
  "json_storable (JNumber (NegInt n)) = (sint n < 0)"
| "json_storable (JNumber (Float64 n)) = f64_is_finite n"
| "json_storable (JArray vs) = list_all json_storable vs"
| "json_storable (JObject m) = (bt_valid m \<and> list_all (\<lambda>(k, v). json_storable v) m)"
| "json_storable _ = True"

lemma bt_insert_last:
  "bt_valid (m @ [(k, v)]) \<Longrightarrow> bt_insert k v m = m @ [(k, v)]"
  by (induction m) (auto simp: bt_valid_Cons)

lemma bt_valid_append: "bt_valid (xs @ ys) \<Longrightarrow> bt_valid xs"
  by (simp add: bt_valid_def sorted_wrt_append)

lemma strict_map_storable:
  assumes "\<forall>kv\<in>set kvs. strict_value (f (snd kv)) = Inr (snd kv)" and "bt_valid (acc @ kvs)"
  shows "strict_map (map (\<lambda>(k, v). (k, f v)) kvs) acc = Inr (acc @ kvs)"
  using assms
proof (induction kvs arbitrary: acc)
  case (Cons p kvs)
  obtain k v where p: "p = (k, v)" by (cases p)
  from Cons.prems(2) p have valid: "bt_valid (acc @ [(k, v)])"
    using bt_valid_append [of "acc @ [(k, v)]" kvs] by simp
  then have "bt_insert k v acc = acc @ [(k, v)]" by (rule bt_insert_last)
  moreover have "\<not> bt_contains acc k"
    using bt_valid_distinct [OF valid] by (simp add: bt_contains_keys bt_keys_def)
  ultimately show ?case
    using Cons.IH [of "acc @ [(k, v)]"] Cons.prems p by simp
qed simp

lemma strict_to_raw: "json_storable j \<Longrightarrow> strict_value (to_raw j) = Inr j"
proof (induction j rule: to_raw.induct)
  case (7 vs)
  have "strict_seq (map to_raw ws) = Inr ws" if "\<forall>w\<in>set ws. strict_value (to_raw w) = Inr w" for ws
    using that by (induction ws) auto
  with 7 show ?case by (auto simp: list_all_iff)
next
  case (8 kvs)
  then have "\<forall>kv\<in>set kvs. strict_value (to_raw (snd kv)) = Inr (snd kv)"
    by (auto simp: list_all_iff)
  with 8 strict_map_storable [of kvs to_raw "[]"] show ?case by simp
qed auto

lemma strict_from_to_raw:
  "json_storable j \<Longrightarrow> strict_from de (Some (to_raw j)) = de j"
  by (simp add: strict_from_def strict_to_raw)

subsection \<open>Codecs of the stored types\<close>

text \<open>\<open>deny_unknown_fields\<close>.\<close>

definition deny_unknown :: "string list \<Rightarrow> json \<Rightarrow> bool" where
  "deny_unknown ns j = (case j of JObject m \<Rightarrow> list_all (\<lambda>(k, v). k \<in> set ns) m | _ \<Rightarrow> True)"

definition strict_struct :: "string list \<Rightarrow> json \<Rightarrow> struct_source option" where
  "strict_struct ns j = (if deny_unknown ns j then struct_fields (plain ns) j else None)"

fun de_list :: "(json \<Rightarrow> 'a option) \<Rightarrow> json list \<Rightarrow> 'a list option" where
  "de_list de [] = Some []"
| "de_list de (v # vs) =
     (case de v of None \<Rightarrow> None
      | Some x \<Rightarrow> (case de_list de vs of None \<Rightarrow> None | Some xs \<Rightarrow> Some (x # xs)))"

definition de_vec :: "(json \<Rightarrow> 'a option) \<Rightarrow> json \<Rightarrow> 'a list option" where
  "de_vec de j = (case j of JArray vs \<Rightarrow> de_list de vs | _ \<Rightarrow> None)"

lemma de_list_map [simp]: "(\<And>x. x \<in> set xs \<Longrightarrow> de (f x) = Some x) \<Longrightarrow> de_list de (map f xs) = Some xs"
  by (induction xs) auto

definition all_failure_kinds :: "failure_kind list" where
  "all_failure_kinds =
     [HeicVisualContent, HeicVisualMatch, HeicReferenceOrientationInvalid,
      HeicFinalOrientationRotationInvalid, HeicDimensionMismatch, ConversionTimedOut,
      RawStagingTimedOut, ConversionOutputUnreadable, ConversionOutputAlreadyExists,
      StagedRawAlreadyExists, ConversionMetadataFailed, ConversionToolUnavailable,
      EmbeddedPreviewUnavailable, AdjustedSourceResolveFailed]"

definition ser_failure_kind :: "failure_kind \<Rightarrow> json" where
  "ser_failure_kind k = JString (failure_kind_as_str k)"

definition de_failure_kind :: "json \<Rightarrow> failure_kind option" where
  "de_failure_kind = de_unit_variant (map (\<lambda>k. (failure_kind_as_str k, k)) all_failure_kinds)"

lemma de_ser_failure_kind [simp]: "de_failure_kind (ser_failure_kind k) = Some k"
  by (cases k) (simp_all add: de_failure_kind_def ser_failure_kind_def de_unit_variant_def
      all_failure_kinds_def)

definition ser_failure_record :: "failure_record \<Rightarrow> json" where
  "ser_failure_record f =
     jobject
       ([(''stage'', JString (fr_stage f)), (''message'', JString (fr_message f)),
         (''recorded_at'', JString (fr_recorded_at f))]
        @ ser_skip_none ''kind'' ser_failure_kind (fr_kind f))"

definition de_failure_record :: "json \<Rightarrow> failure_record option" where
  "de_failure_record j =
     Option.bind (strict_struct [''stage'', ''message'', ''recorded_at'', ''kind''] j) (\<lambda>src.
     Option.bind (field_req src ''stage'' de_string) (\<lambda>stage.
     Option.bind (field_req src ''message'' de_string) (\<lambda>message.
     Option.bind (field_req src ''recorded_at'' de_string) (\<lambda>recorded_at.
     Option.bind (field_default src ''kind'' None (de_option de_failure_kind)) (\<lambda>kind.
     Some \<lparr>fr_stage = stage, fr_message = message, fr_recorded_at = recorded_at, fr_kind = kind\<rparr>)))))"

definition ser_asset_record :: "asset_record \<Rightarrow> json" where
  "ser_asset_record r =
     jobject
       [(''asset_id'', JString (ar_asset_id r)), (''raw_path'', JString (ar_raw_path r)),
        (''state'', ser_state (ar_state r)), (''proofs'', JObject (ar_proofs r)),
        (''failures'', JArray (map ser_failure_record (ar_failures r))),
        (''updated_at'', JString (ar_updated_at r))]"

definition de_proofs :: "json \<Rightarrow> proofs option" where
  "de_proofs j = (case j of JObject m \<Rightarrow> Some m | _ \<Rightarrow> None)"

definition de_asset_record :: "json \<Rightarrow> asset_record option" where
  "de_asset_record j =
     Option.bind (strict_struct
       [''asset_id'', ''raw_path'', ''state'', ''proofs'', ''failures'', ''updated_at''] j) (\<lambda>src.
     Option.bind (field_req src ''asset_id'' de_string) (\<lambda>asset_id.
     Option.bind (field_req src ''raw_path'' de_string) (\<lambda>raw_path.
     Option.bind (field_req src ''state'' de_state) (\<lambda>st.
     Option.bind (field_req src ''proofs'' de_proofs) (\<lambda>proofs.
     Option.bind (field_req src ''failures'' (de_vec de_failure_record)) (\<lambda>failures.
     Option.bind (field_req src ''updated_at'' de_string) (\<lambda>updated_at.
     Some \<lparr>ar_asset_id = asset_id, ar_raw_path = raw_path, ar_state = st, ar_proofs = proofs,
           ar_failures = failures, ar_updated_at = updated_at\<rparr>)))))))"

lemma fst_set_bt_from: "fst ` set (bt_from kvs) = fst ` set kvs"
proof -
  have "fst ` set (fold (\<lambda>(k, v) m. bt_insert k v m) kvs m) = fst ` set kvs \<union> fst ` set m" for m
  proof (induction kvs arbitrary: m)
    case (Cons p kvs)
    then show ?case by (cases p) (simp add: fst_set_bt_insert)
  qed simp
  then show ?thesis by (simp add: bt_from_def)
qed

lemma deny_unknown_jobject: "deny_unknown ns (jobject kvs) \<longleftrightarrow> fst ` set kvs \<subseteq> set ns"
proof -
  have "deny_unknown ns (jobject kvs) \<longleftrightarrow> fst ` set (bt_from kvs) \<subseteq> set ns"
    by (auto simp: deny_unknown_def jobject_def list_all_iff)
  then show ?thesis by (simp add: fst_set_bt_from)
qed

lemmas decode_simps = strict_struct_def deny_unknown_jobject struct_fields_plain_jobject
  field_req_def field_opt_def field_default_def

lemma de_ser_failure_record [simp]: "de_failure_record (ser_failure_record f) = Some f"
  by (cases "fr_kind f")
    (simp_all add: ser_failure_record_def de_failure_record_def decode_simps ser_skip_none_def
      de_option_def ser_failure_kind_def de_ser_failure_kind [unfolded ser_failure_kind_def])

lemma de_ser_asset_record [simp]: "de_asset_record (ser_asset_record r) = Some r"
  by (simp add: ser_asset_record_def de_asset_record_def decode_simps de_vec_def de_proofs_def)

interpretation failure_record_codec: codec ser_failure_record de_failure_record
  by unfold_locales simp

interpretation asset_record_codec: codec ser_asset_record de_asset_record
  by unfold_locales simp

subsection \<open>Loading\<close>

record 'r registry_api =
  reg_ser :: "'r \<Rightarrow> json"
  reg_fields :: "'r \<Rightarrow> json"
  reg_de :: "json \<Rightarrow> 'r option"
  reg_valid :: "'r \<Rightarrow> bool"
  reg_sha256 :: "'r \<Rightarrow> string"
  reg_binding :: "'r manifest \<Rightarrow> bool"

definition ser_manifest_file :: "'r registry_api \<Rightarrow> 'r manifest \<Rightarrow> json" where
  "ser_manifest_file api m =
     jobject
       ([(''records'', JArray (map ser_asset_record (bt_values (mf_records m))))]
        @ ser_skip_none ''legacy_upload_migration_registry'' (reg_ser api) (mf_registry m))"

definition de_manifest_file :: "'r registry_api \<Rightarrow> json \<Rightarrow> (asset_record list \<times> 'r option) option" where
  "de_manifest_file api j =
     Option.bind (strict_struct [''records'', ''legacy_upload_migration_registry''] j) (\<lambda>src.
     Option.bind (field_req src ''records'' (de_vec de_asset_record)) (\<lambda>records.
     Option.bind (field_default src ''legacy_upload_migration_registry'' None (de_option (reg_de api)))
       (\<lambda>registry. Some (records, registry))))"

text \<open>\<open>asset_record_sha256\<close>: the digest of the compact text of the record, in field order.\<close>

definition failure_record_fields :: "failure_record \<Rightarrow> json" where
  "failure_record_fields f =
     JObject
       ([(''stage'', JString (fr_stage f)), (''message'', JString (fr_message f)),
         (''recorded_at'', JString (fr_recorded_at f))]
        @ ser_skip_none ''kind'' ser_failure_kind (fr_kind f))"

definition asset_record_fields :: "asset_record \<Rightarrow> json" where
  "asset_record_fields r =
     JObject
       [(''asset_id'', JString (ar_asset_id r)), (''raw_path'', JString (ar_raw_path r)),
        (''state'', ser_state (ar_state r)), (''proofs'', JObject (ar_proofs r)),
        (''failures'', JArray (map failure_record_fields (ar_failures r))),
        (''updated_at'', JString (ar_updated_at r))]"

definition asset_record_text :: "(u64 \<Rightarrow> string) \<Rightarrow> asset_record \<Rightarrow> string" where
  "asset_record_text fmt r = json_text fmt (asset_record_fields r)"

definition asset_record_sha256 :: "(u64 \<Rightarrow> string) \<Rightarrow> (string \<Rightarrow> string) \<Rightarrow> asset_record \<Rightarrow> string" where
  "asset_record_sha256 fmt sha256_hex r = sha256_hex (asset_record_text fmt r)"

text \<open>
  The text of the file: \<open>to_writer_pretty\<close> on the fields in the order of their declaration, the
  registry left out when there is none, and a newline. The pretty form has a line for each element of an
  array and each entry of an object, indented by two spaces a level.
\<close>

definition new_line :: "nat \<Rightarrow> string" where
  "new_line n = CHR 0x0A # replicate (2 * n) CHR '' ''"

fun pretty_text :: "(u64 \<Rightarrow> string) \<Rightarrow> nat \<Rightarrow> json \<Rightarrow> string" where
  "pretty_text fmt n (JArray vs) =
     (if vs = [] then ''[]''
      else ''['' @ join_with '','' (map (\<lambda>v. new_line (Suc n) @ pretty_text fmt (Suc n) v) vs)
           @ new_line n @ '']'')"
| "pretty_text fmt n (JObject kvs) =
     (if kvs = [] then [CHR 0x7B, CHR 0x7D]
      else [CHR 0x7B]
           @ join_with '','' (map (\<lambda>(k, v). new_line (Suc n) @ json_string_text k @ '': ''
                                    @ pretty_text fmt (Suc n) v) kvs)
           @ new_line n @ [CHR 0x7D])"
| "pretty_text fmt n JNull = json_text fmt JNull"
| "pretty_text fmt n (JBool b) = json_text fmt (JBool b)"
| "pretty_text fmt n (JNumber x) = json_text fmt (JNumber x)"
| "pretty_text fmt n (JString s) = json_text fmt (JString s)"

definition manifest_file_fields :: "'r registry_api \<Rightarrow> 'r manifest \<Rightarrow> json" where
  "manifest_file_fields api m =
     JObject
       ([(''records'', JArray (map asset_record_fields (bt_values (mf_records m))))]
        @ ser_skip_none ''legacy_upload_migration_registry'' (reg_fields api) (mf_registry m))"

definition manifest_text :: "(u64 \<Rightarrow> string) \<Rightarrow> 'r registry_api \<Rightarrow> 'r manifest \<Rightarrow> string" where
  "manifest_text fmt api m = pretty_text fmt 0 (manifest_file_fields api m) @ [CHR 0x0A]"

text \<open>\<open>LegacyUploadMigrationManifestRegistryAuthority\<close>.\<close>

definition registry_authority :: "'r registry_api \<Rightarrow> 'r \<Rightarrow> manifest_error + string" where
  "registry_authority api reg =
     (if reg_valid api reg then Ok (reg_sha256 api reg) else Err ReservedInternalProofCapabilityMismatch)"

definition registry_authorizes :: "'r registry_api \<Rightarrow> string \<Rightarrow> 'r \<Rightarrow> bool" where
  "registry_authorizes api au reg \<longleftrightarrow> au = reg_sha256 api reg \<and> reg_valid api reg"

definition load_registry :: "'r registry_api \<Rightarrow> 'r option \<Rightarrow> 'r manifest \<Rightarrow> manifest_error + 'r manifest" where
  "load_registry api registry m =
     (case registry of None \<Rightarrow> Ok m
      | Some reg \<Rightarrow>
          bind_ok (registry_authority api reg) (\<lambda>au.
          install_legacy_upload_migration_registry (registry_authorizes api au) m reg))"

definition load_from_reader ::
  "'r registry_api \<Rightarrow> (asset_record \<Rightarrow> string) \<Rightarrow> raw_json option \<Rightarrow> manifest_error + 'r manifest"
where
  "load_from_reader api digest doc =
     bind_ok (ok_or ManifestJson (strict_from (de_manifest_file api) doc)) (\<lambda>payload.
     bind_ok (load_registry api (snd payload) new_manifest) (\<lambda>m0.
     bind_ok (try_fold
                (\<lambda>r m. upsert_authorized digest (authority_for_record digest r) m r)
                (fst payload) m0) (\<lambda>m.
     if reg_binding api m then Ok m else Err ReservedInternalProofCapabilityMismatch)))"

lemma load_records_fold:
  "try_fold (\<lambda>r m. Inr (insert_record r m)) rs m = Inr (fold insert_record rs m)"
  by (induction rs arbitrary: m) (auto simp: try_fold.simps(2))

lemma fold_insert_records:
  assumes "bt_valid (acc @ recs)" and "list_all (\<lambda>(k, r). ar_asset_id r = k) recs"
  shows "fold insert_record (bt_values recs) (m\<lparr>mf_records := acc\<rparr>) = m\<lparr>mf_records := acc @ recs\<rparr>"
  using assms
proof (induction recs arbitrary: acc)
  case Nil
  then show ?case by (simp add: bt_values_def)
next
  case (Cons p recs)
  obtain k r where p: "p = (k, r)" by (cases p)
  with Cons.prems have "bt_insert k r acc = acc @ [(k, r)]"
    using bt_valid_append [of "acc @ [(k, r)]" recs] by (auto intro: bt_insert_last)
  with Cons.IH [of "acc @ [(k, r)]"] Cons.prems p show ?case
    by (simp add: bt_values_def insert_record_def)
qed

lemma json_storable_jobject:
  assumes "list_all (json_storable \<circ> snd) kvs"
  shows "json_storable (jobject kvs)"
proof -
  have "list_all (json_storable \<circ> snd) (fold (\<lambda>(k, v) m. bt_insert k v m) kvs m)"
    if "list_all (json_storable \<circ> snd) m" "bt_valid m" for m
    using assms that
  proof (induction kvs arbitrary: m)
    case (Cons p kvs)
    obtain k v where p: "p = (k, v)" by (cases p)
    have "\<forall>(k, w) \<in> set (bt_insert k v m). json_storable w"
      using Cons.prems p by (intro bt.all_entries_put) (auto simp: list_all_iff)
    then have "list_all (json_storable \<circ> snd) (bt_insert k v m)"
      by (auto simp: list_all_iff)
    with Cons p show ?case by (simp add: comp_def)
  qed simp
  from this [of "[]"] have "list_all (json_storable \<circ> snd) (bt_from kvs)"
    unfolding bt_from_def by simp
  then show ?thesis by (simp add: jobject_def list_all_iff case_prod_beta)
qed

definition record_storable :: "asset_record \<Rightarrow> bool" where
  "record_storable r \<longleftrightarrow> json_storable (JObject (ar_proofs r))"

lemma ser_asset_record_storable: "record_storable r \<Longrightarrow> json_storable (ser_asset_record r)"
  unfolding ser_asset_record_def
  by (rule json_storable_jobject)
    (auto simp: record_storable_def ser_state_def list_all_iff ser_failure_record_def ser_skip_none_def
      ser_failure_kind_def intro!: json_storable_jobject split: option.splits)

subsection \<open>The file reads back\<close>

text \<open>The fields of an object may come in any order, as long as their names differ.\<close>

lemma strict_map_fields:
  assumes "list_all2 (\<lambda>p q. fst p = fst q \<and> strict_value (to_raw (snd p)) = Inr (snd q)) kvs kus"
    and "distinct (map fst kvs)" and "\<forall>p\<in>set kvs. \<not> bt_contains acc (fst p)"
  shows "strict_map (map (\<lambda>(k, v). (k, to_raw v)) kvs) acc
    = Inr (fold (\<lambda>(k, v) m. bt_insert k v m) kus acc)"
  using assms
proof (induction kvs kus arbitrary: acc rule: list_all2_induct)
  case (Cons p kvs q kus)
  obtain k v where p: "p = (k, v)" by (cases p)
  obtain u where q: "q = (k, u)" using Cons p by (cases q) auto
  have "strict_value (to_raw v) = Inr u" "\<not> bt_contains acc k" using Cons p q by auto
  moreover have "\<forall>p\<in>set kvs. \<not> bt_contains (bt_insert k u acc) (fst p)"
    using Cons.prems p by (auto simp: bt_contains_insert)
  ultimately show ?case using Cons.IH [of "bt_insert k u acc"] Cons.prems p q by simp
qed simp

lemma strict_object:
  assumes "list_all2 (\<lambda>p q. fst p = fst q \<and> strict_value (to_raw (snd p)) = Inr (snd q)) kvs kus"
    and "distinct (map fst kvs)"
  shows "strict_value (to_raw (JObject kvs)) = Inr (jobject kus)"
  using strict_map_fields [OF assms, of "[]"]
  by (simp add: jobject_def bt_from_def bt_contains_def bt_get_def)

lemma strict_array:
  assumes "\<And>x. x \<in> set xs \<Longrightarrow> strict_value (to_raw (f x)) = Inr (g x)"
  shows "strict_value (to_raw (JArray (map f xs))) = Inr (JArray (map g xs))"
proof -
  have "strict_seq (map (to_raw \<circ> f) xs) = Inr (map g xs)"
    using assms by (induction xs) auto
  then show ?thesis by simp
qed

lemma strict_failure: "strict_value (to_raw (failure_record_fields x)) = Inr (ser_failure_record x)"
  unfolding failure_record_fields_def ser_failure_record_def
  by (rule strict_object)
    (simp_all add: ser_skip_none_def ser_failure_kind_def split: option.split)

lemma strict_asset_record:
  assumes "record_storable r"
  shows "strict_value (to_raw (asset_record_fields r)) = Inr (ser_asset_record r)"
  unfolding asset_record_fields_def ser_asset_record_def
proof (rule strict_object, simp_all only: list.rel_inject list.rel_intros fst_conv snd_conv simp_thms)
  have proofs: "strict_value (to_raw (JObject (ar_proofs r))) = Inr (JObject (ar_proofs r))"
    using assms unfolding record_storable_def by (rule strict_to_raw)
  have failures: "strict_value (to_raw (JArray (map failure_record_fields (ar_failures r))))
      = Inr (JArray (map ser_failure_record (ar_failures r)))"
    by (rule strict_array) (rule strict_failure)
  show "strict_value (to_raw (JString (ar_asset_id r))) = Inr (JString (ar_asset_id r)) \<and>
    strict_value (to_raw (JString (ar_raw_path r))) = Inr (JString (ar_raw_path r)) \<and>
    strict_value (to_raw (ser_state (ar_state r))) = Inr (ser_state (ar_state r)) \<and>
    strict_value (to_raw (JObject (ar_proofs r))) = Inr (JObject (ar_proofs r)) \<and>
    strict_value (to_raw (JArray (map failure_record_fields (ar_failures r))))
      = Inr (JArray (map ser_failure_record (ar_failures r))) \<and>
    strict_value (to_raw (JString (ar_updated_at r))) = Inr (JString (ar_updated_at r))"
    using proofs failures by (simp add: ser_state_def)
qed simp_all

lemma manifest_reads_back:
  assumes "manifest_ok m" and "list_all record_storable (bt_values (mf_records m))"
    and "\<And>reg. mf_registry m = Some reg \<Longrightarrow>
      reg_de api (reg_ser api reg) = Some reg \<and> reg_ser api reg \<noteq> JNull
      \<and> strict_value (to_raw (reg_fields api reg)) = Ok (reg_ser api reg) \<and> reg_valid api reg"
    and "reg_binding api m"
  shows "load_from_reader api digest (Some (to_raw (manifest_file_fields api m))) = Ok m"
proof -
  have records: "strict_value (to_raw (JArray (map asset_record_fields (bt_values (mf_records m)))))
      = Inr (JArray (map ser_asset_record (bt_values (mf_records m))))"
    using assms(2) by (intro strict_array strict_asset_record) (simp add: list_all_iff)
  have read: "strict_value (to_raw (manifest_file_fields api m)) = Inr (ser_manifest_file api m)"
    unfolding manifest_file_fields_def ser_manifest_file_def
    by (rule strict_object) (use records assms(3) in \<open>auto simp: ser_skip_none_def split: option.splits\<close>)
  have de: "de_manifest_file api (ser_manifest_file api m) = Some (bt_values (mf_records m), mf_registry m)"
    using assms(3) by (cases "mf_registry m")
      (simp_all add: ser_manifest_file_def de_manifest_file_def decode_simps de_vec_def ser_skip_none_def
        de_option_def)
  have reg: "load_registry api (mf_registry m) new_manifest
      = Ok (new_manifest\<lparr>mf_registry := mf_registry m\<rparr>)"
    using assms(3) by (auto simp: load_registry_def registry_authority_def install_registry_eq_Ok
        registry_authorizes_def new_manifest_def split: option.splits)
  have "list_all (\<lambda>(k, r). ar_asset_id r = k) (mf_records m)" "bt_valid ([] @ mf_records m)"
    using assms(1) by (auto simp: manifest_ok_def list_all_iff)
  from fold_insert_records [OF this(2,1), of "new_manifest\<lparr>mf_registry := mf_registry m\<rparr>"]
  have "fold insert_record (bt_values (mf_records m)) (new_manifest\<lparr>mf_registry := mf_registry m\<rparr>) = m"
    by (cases m) (simp add: new_manifest_def)
  with assms(4) show ?thesis
    by (simp add: load_from_reader_def strict_from_def read de reg load_records_fold)
qed

subsection \<open>Documents that do not load\<close>

definition plain_registry :: "unit registry_api" where
  "plain_registry =
     \<lparr>reg_ser = (\<lambda>_. JBool True), reg_fields = (\<lambda>_. JBool True), reg_de = (\<lambda>_. Some ()), reg_valid = (\<lambda>_. True),
      reg_sha256 = (\<lambda>_. ''''), reg_binding = (\<lambda>_. True)\<rparr>"

text \<open>A document with an object that gives a key twice, at any depth, or with an infinite or undefined
  number, does not load.\<close>

theorem duplicate_keys_do_not_load:
  "\<not> raw_unambiguous raw \<Longrightarrow> load_from_reader api digest (Some raw) = Err ManifestJson"
  using strict_accepts(1) [of raw]
  by (auto simp: load_from_reader_def strict_from_def is_ok_iff split: sum.splits)

theorem duplicate_keys_do_not_load_witness:
  "load_from_reader plain_registry ar_updated_at
     (Some (RMap [(''records'', RSeq [RMap [(''asset_id'', RStr ''a''), (''asset_id'', RStr ''b'')]])]))
     = Err ManifestJson"
  by (rule duplicate_keys_do_not_load) code_simp

end
