(* ===== verification/Atomic_Save.thy ===== *)
theory Atomic_Save
  imports Manifest_Store
begin

section \<open>Atomic replacement of the manifest file\<close>

text \<open>
  \<open>save_atomic\<close>, \<open>save_atomic_unchecked\<close>, \<open>create_temp_file\<close> and
  \<open>sync_parent_directory\<close> of \<open>src/src/manifest.rs\<close>. A file system maps paths, compared by
  components, to files, complete or cut short. Which calls fail is an argument (\<open>save_calls\<close>); a
  rename that fails and a removal that fails change nothing (their documented behaviour). A save
  yields the file systems after each of its calls, in order: a crash leaves one of them.
\<close>

datatype 'd stored = Complete 'd | Partial

type_synonym 'd file_system = "component list \<Rightarrow> 'd stored option"

record save_calls =
  sc_create_dir :: bool
  sc_open :: "nat \<Rightarrow> bool"
  sc_write :: bool
  sc_rename :: bool
  sc_remove :: bool
  sc_sync_parent :: bool
  sc_process_id :: nat
  sc_timestamp_nanos :: nat

definition temp_name :: "save_calls \<Rightarrow> path \<Rightarrow> nat \<Rightarrow> string" where
  "temp_name sc destination attempt =
     (let filename = (case file_name destination of None \<Rightarrow> ''manifest.json'' | Some n \<Rightarrow> n) in
      ''.'' @ filename @ ''.'' @ nat_to_string (sc_process_id sc) @ ''.''
      @ nat_to_string (sc_timestamp_nanos sc) @ ''.'' @ nat_to_string attempt @ ''.tmp'')"

text \<open>The loop over the attempts: \<open>left\<close> of them remain. \<open>create_new\<close> refuses a file that exists.\<close>

fun create_temp_loop ::
  "save_calls \<Rightarrow> 'd file_system \<Rightarrow> path \<Rightarrow> path \<Rightarrow> nat \<Rightarrow> nat \<Rightarrow> manifest_error + path"
where
  "create_temp_loop sc fs parent destination attempt 0 = Err ManifestIo"
| "create_temp_loop sc fs parent destination attempt (Suc left) =
     (let temp_path = path_join parent (temp_name sc destination attempt) in
      if fs (components temp_path) \<noteq> None
      then create_temp_loop sc fs parent destination (Suc attempt) left
      else if sc_open sc attempt then Ok temp_path
      else Err ManifestIo)"

definition create_temp_file :: "save_calls \<Rightarrow> 'd file_system \<Rightarrow> path \<Rightarrow> path \<Rightarrow> manifest_error + path" where
  "create_temp_file sc fs parent destination = create_temp_loop sc fs parent destination 0 100"

definition save_parent :: "path \<Rightarrow> path" where
  "save_parent destination =
     (case path_parent destination of None \<Rightarrow> ''.'' | Some p \<Rightarrow> if p = [] then ''.'' else p)"

definition remove_file :: "save_calls \<Rightarrow> path \<Rightarrow> 'd file_system \<Rightarrow> 'd file_system" where
  "remove_file sc p fs = (if sc_remove sc then fs(components p := None) else fs)"

definition save_atomic_unchecked ::
  "save_calls \<Rightarrow> 'd \<Rightarrow> path \<Rightarrow> 'd file_system \<Rightarrow> 'd file_system list \<times> (manifest_error + unit)"
where
  "save_atomic_unchecked sc payload destination fs =
     (let parent = save_parent destination in
      if \<not> sc_create_dir sc then ([fs], Err ManifestIo)
      else case create_temp_file sc fs parent destination of
        Inl e \<Rightarrow> ([fs], Err e)
      | Inr temp_path \<Rightarrow>
          (let fs1 = fs(components temp_path := Some Partial) in
           if \<not> sc_write sc then ([fs, fs1, remove_file sc temp_path fs1], Err ManifestIo)
           else
            (let fs2 = fs1(components temp_path := Some (Complete payload)) in
             if \<not> sc_rename sc then ([fs, fs1, fs2, remove_file sc temp_path fs2], Err ManifestIo)
             else
              (let fs3 = fs2(components temp_path := None, components destination := Some (Complete payload)) in
               ([fs, fs1, fs2, fs3], if sc_sync_parent sc then Ok () else Err ManifestIo)))))"

text \<open>\<open>fmt\<close> is the text of a floating point number, \<open>parse\<close> the parser of JSON texts.\<close>

definition save_atomic ::
  "(u64 \<Rightarrow> string) \<Rightarrow> 'r registry_api \<Rightarrow> save_calls \<Rightarrow> 'r manifest \<Rightarrow> path \<Rightarrow> string file_system
     \<Rightarrow> string file_system list \<times> (manifest_error + unit)"
where
  "save_atomic fmt api sc m destination fs =
     (case reject_reserved_internal_proofs (bt_values (mf_records m)) of
        Inl e \<Rightarrow> ([fs], Err e)
      | Inr _ \<Rightarrow> save_atomic_unchecked sc (manifest_text fmt api m) destination fs)"

text \<open>\<open>Manifest::load\<close> of a path: a missing file is an I/O error, a file cut short is no JSON.\<close>

definition load ::
  "(string \<Rightarrow> raw_json option) \<Rightarrow> 'r registry_api \<Rightarrow> (asset_record \<Rightarrow> string) \<Rightarrow> path \<Rightarrow> string file_system
     \<Rightarrow> manifest_error + 'r manifest"
where
  "load parse api digest p fs =
     (case fs (components p) of
        None \<Rightarrow> Err ManifestIo
      | Some Partial \<Rightarrow> load_from_reader api digest None
      | Some (Complete text) \<Rightarrow> load_from_reader api digest (parse text))"

subsection \<open>The temporary file is not the destination\<close>

lemma nat_to_string_digits: "c \<in> set (nat_to_string n) \<Longrightarrow> 48 \<le> byte c \<and> byte c \<le> 57"
proof (induction n rule: nat_to_string.induct)
  case (1 n)
  then show ?case
    by (subst (asm) (2) nat_to_string.simps)
      (auto simp: byte_def split: if_splits)
qed

lemma temp_name_plain: "plain_name (temp_name sc destination attempt)"
proof -
  have digits: "CHR ''/'' \<notin> set (nat_to_string n)" for n
    using nat_to_string_digits [of "CHR ''/''" n] by (auto simp: byte_def)
  show ?thesis
    using file_name_no_slash [of destination] digits
    by (auto simp: temp_name_def plain_name_def Let_def split: option.splits)
qed

lemma temp_path_not_destination:
  "components (path_join parent (temp_name sc destination attempt)) \<noteq> components destination"
proof
  assume "components (path_join parent (temp_name sc destination attempt)) = components destination"
  then have "file_name destination = Some (temp_name sc destination attempt)"
    using file_name_join [OF temp_name_plain] file_name_path_eq [unfolded path_eq_def] by metis
  moreover have "length (temp_name sc destination attempt) > length n" if "file_name destination = Some n" for n
    using that by (simp add: temp_name_def Let_def)
  ultimately show False by fastforce
qed

lemma create_temp_loop_fresh:
  "create_temp_loop sc fs parent destination attempt left = Ok temp_path \<Longrightarrow>
     fs (components temp_path) = None \<and> components temp_path \<noteq> components destination"
  by (induction sc fs parent destination attempt left rule: create_temp_loop.induct)
    (auto simp: Let_def temp_path_not_destination split: if_splits)

lemma create_temp_file_fresh:
  "create_temp_file sc fs parent destination = Ok temp_path \<Longrightarrow>
     fs (components temp_path) = None \<and> components temp_path \<noteq> components destination"
  by (auto simp: create_temp_file_def dest: create_temp_loop_fresh)

subsection \<open>A crash leaves the old manifest or the new one\<close>

lemma save_unchecked_states:
  assumes "fs' \<in> set (fst (save_atomic_unchecked sc payload destination fs))"
  shows "fs' (components destination) \<in> {fs (components destination), Some (Complete payload)}"
    and "p \<noteq> components destination \<Longrightarrow> fs p \<noteq> None \<Longrightarrow> fs' p = fs p"
  using assms
  by (auto simp: save_atomic_unchecked_def Let_def remove_file_def split: sum.splits if_splits
      dest!: create_temp_file_fresh)

lemma save_unchecked_Ok:
  assumes "snd (save_atomic_unchecked sc payload destination fs) = Ok ()"
  shows "last (fst (save_atomic_unchecked sc payload destination fs))
    = fs(components destination := Some (Complete payload))"
  using assms
  by (auto simp: save_atomic_unchecked_def Let_def fun_eq_iff split: sum.splits if_splits
      dest!: create_temp_file_fresh)

text \<open>C9: At every moment of a save, whatever calls fail, the file at the destination is the one that was
  there before or the complete text of the new manifest, and every other file that existed
  before is untouched.\<close>

theorem save_is_crash_safe:
  assumes "fs' \<in> set (fst (save_atomic fmt api sc m destination fs))"
  shows "fs' (components destination)
      \<in> {fs (components destination), Some (Complete (manifest_text fmt api m))}
    \<and> (\<forall>p. p \<noteq> components destination \<and> fs p \<noteq> None \<longrightarrow> fs' p = fs p)"
  using assms save_unchecked_states [of fs' sc "manifest_text fmt api m" destination fs]
  by (auto simp: save_atomic_def split: sum.splits)

text \<open>A save that succeeds leaves a file system that differs from the one before in the destination
  alone, where the text of the manifest is loaded.\<close>

lemma saved_text_is_loaded:
  assumes "snd (save_atomic_unchecked sc text destination fs) = Ok ()"
  shows "load parse api digest destination (last (fst (save_atomic_unchecked sc text destination fs)))
      = load_from_reader api digest (parse text)
    \<and> (\<forall>p. p \<noteq> components destination \<longrightarrow>
          last (fst (save_atomic_unchecked sc text destination fs)) p = fs p)"
  using save_unchecked_Ok [OF assms] by (simp add: load_def)

definition sample_save_calls :: save_calls where
  "sample_save_calls =
     \<lparr>sc_create_dir = True, sc_open = (\<lambda>_. True), sc_write = True, sc_rename = True, sc_remove = True,
      sc_sync_parent = True, sc_process_id = 7, sc_timestamp_nanos = 9\<rparr>"

definition sample_destination :: path where
  "sample_destination = ''/m/x.json''"

lemma sample_temp: "temp_name sample_save_calls sample_destination 0 = ''.x.json.7.9.0.tmp''"
proof -
  have "file_name sample_destination = Some ''x.json''" by code_simp
  then show ?thesis
    by (simp add: temp_name_def sample_save_calls_def nat_to_string.simps char_of_def bit_0)
qed

lemma sample_create:
  "create_temp_file sample_save_calls (Map.empty :: 'd file_system) (save_parent sample_destination) sample_destination
     = Ok (path_join (save_parent sample_destination) ''.x.json.7.9.0.tmp'')"
proof -
  have "(100 :: nat) = Suc 99" by simp
  then show ?thesis
    unfolding create_temp_file_def
    by (simp only: create_temp_loop.simps sample_temp) (simp add: sample_save_calls_def)
qed

lemma sample_save_Ok:
  "snd (save_atomic_unchecked sample_save_calls text sample_destination Map.empty) = Ok ()"
  by (simp add: save_atomic_unchecked_def sample_create) (simp add: sample_save_calls_def)

theorem save_is_crash_safe_witness:
  "hd (fst (save_atomic (\<lambda>_. []) plain_registry sample_save_calls sample_result sample_destination Map.empty))
       (components sample_destination)
     \<in> {None, Some (Complete (manifest_text (\<lambda>_. []) plain_registry sample_result))}"
proof -
  let ?t = "fst (save_atomic (\<lambda>_. []) plain_registry sample_save_calls sample_result sample_destination Map.empty)"
  have "?t \<noteq> []"
    by (simp add: save_atomic_def save_atomic_unchecked_def Let_def split: sum.splits)
  then have "hd ?t \<in> set ?t" by simp
  from save_is_crash_safe [OF this] show ?thesis by auto
qed

text \<open>A manifest with a record that carries the reserved proof is not saved by the generic
  operation: it fails before any call to the file system.\<close>

theorem reserved_manifest_is_not_exported:
  assumes "list_ex record_has_reserved_internal_proof (bt_values (mf_records m))"
  shows "save_atomic fmt api sc m destination fs = ([fs], Err ReservedInternalProofRequiresAuthority)"
  using assms by (simp add: save_atomic_def reject_reserved_internal_proofs_def)

definition sealed_manifest :: "unit manifest" where
  "sealed_manifest =
     insert_record (put_proof RESERVED_PROOF_NAME JNull (new_asset_record ''a'' ''/raw/a.dng'' ''0'')) new_manifest"

theorem reserved_manifest_is_not_exported_witness:
  "save_atomic (\<lambda>_. []) plain_registry sample_save_calls sealed_manifest sample_destination Map.empty
     = ([Map.empty], Err ReservedInternalProofRequiresAuthority)"
  by (rule reserved_manifest_is_not_exported) code_simp

end
