(* ===== verification/Cloudkit.thy ===== *)
theory Cloudkit
  imports Json "HOL-Library.Multiset"
begin

section \<open>CloudKit: destinations, delete requests and their responses\<close>

text \<open>
  The types of \<open>src/src/upload.rs\<close> the workflow shares with the CloudKit client, the validation
  of requests before anything is sent, the payloads, the client's delete operations and the
  parsers of the answers. The transport is an argument: a function from the payload of the one call
  an operation makes to the answer or the error.
\<close>

datatype upload_error =
    InvalidSession string
  | InvalidCloudKitDeleteRequest string
  | InvalidCloudKitDeleteResponse string
  | InvalidCloudKitDeleteLookupResponse string
  | InvalidCloudKitOriginalAssetRequest string
  | InvalidCloudKitOriginalAssetResponse string
  | InvalidCloudKitUploadedHeicRequest string
  | OriginalAssetResolveNotUnique nat
  | OriginalAssetResolveIncomplete nat
  | OriginalAssetDownloadSizeMismatch u64 u64
  | UploadTransportFailed string

datatype cloudkit_database_scope = Private | Shared

definition scope_as_str :: "cloudkit_database_scope \<Rightarrow> string" where
  "scope_as_str s = (case s of Private \<Rightarrow> ''private'' | Shared \<Rightarrow> ''shared'')"

definition ser_scope :: "cloudkit_database_scope \<Rightarrow> json" where
  "ser_scope s = JString (scope_as_str s)"

definition de_scope :: "json \<Rightarrow> cloudkit_database_scope option" where
  "de_scope j =
     (case j of
        JString s \<Rightarrow> map_of [(''private'', Private), (''shared'', Shared)] s
      | JObject [(s, JNull)] \<Rightarrow> map_of [(''private'', Private), (''shared'', Shared)] s
      | _ \<Rightarrow> None)"

lemma de_ser_scope [simp]: "de_scope (ser_scope s) = Some s"
  by (cases s) (simp_all add: de_scope_def ser_scope_def scope_as_str_def)

interpretation scope_codec: codec ser_scope de_scope
  by unfold_locales simp

definition PRIMARY_SYNC_ZONE :: string where
  [model_defs]: "PRIMARY_SYNC_ZONE = ''PrimarySync''"

definition SHARED_SYNC_ZONE_PREFIX :: string where
  [model_defs]: "SHARED_SYNC_ZONE_PREFIX = ''SharedSync-''"

record cloudkit_library_destination =
  ld_database_scope :: cloudkit_database_scope
  ld_zone_name :: string
  ld_owner_record_name :: "string option"

definition primary_sync :: cloudkit_library_destination where
  "primary_sync =
     \<lparr>ld_database_scope = Private, ld_zone_name = PRIMARY_SYNC_ZONE, ld_owner_record_name = None\<rparr>"

definition zone_id_payload :: "cloudkit_library_destination \<Rightarrow> json" where
  "zone_id_payload d =
     JObject
       (case ld_owner_record_name d of
          None \<Rightarrow> [(''zoneName'', JString (ld_zone_name d))]
        | Some owner \<Rightarrow>
            bt_insert ''ownerRecordName'' (JString owner) [(''zoneName'', JString (ld_zone_name d))])"

record cloudkit_delete_request =
  dr_record_name :: string
  dr_record_change_tag :: string
  dr_database_scope :: cloudkit_database_scope
  dr_zone_name :: string
  dr_owner_record_name :: "string option"

record cloudkit_delete_outcome =
  do_record_name :: string
  do_record_change_tag :: string

record delete_state_lookup_result =
  sl_confirmed_deleted :: "cloudkit_delete_outcome list"
  sl_unconfirmed :: "cloudkit_delete_request list"

record uploaded_heic_resolve_request =
  hr_uploaded_asset_id :: string
  hr_expected_heic_sha256 :: string
  hr_expected_size_bytes :: u64
  hr_database_scope :: cloudkit_database_scope
  hr_zone_name :: string
  hr_owner_record_name :: "string option"

text \<open>The session's own destination; the rest of a session serves the transport.\<close>

record delete_session =
  ds_database_scope :: cloudkit_database_scope
  ds_zone :: cloudkit_library_destination

definition request_destination :: "cloudkit_delete_request \<Rightarrow> cloudkit_library_destination" where
  "request_destination r =
     \<lparr>ld_database_scope = dr_database_scope r, ld_zone_name = dr_zone_name r,
      ld_owner_record_name = dr_owner_record_name r\<rparr>"

subsection \<open>Validation before sending\<close>

definition reject_control_chars :: "string \<Rightarrow> string \<Rightarrow> upload_error + unit" where
  "reject_control_chars v field =
     fail_if (has_control v) (InvalidSession (field @ '' contains control characters''))"

definition validate_library_destination :: "cloudkit_library_destination \<Rightarrow> upload_error + unit" where
  "validate_library_destination d =
     checks
      [fail_if (is_blank (ld_zone_name d)) (InvalidSession ''CloudKit zone name cannot be empty''),
       reject_control_chars (ld_zone_name d) ''CloudKit zone name'',
       fail_if (trim (ld_zone_name d) \<noteq> ld_zone_name d)
         (InvalidSession ''CloudKit zone name must not include leading or trailing whitespace''),
       (case ld_owner_record_name d of None \<Rightarrow> Ok ()
        | Some owner \<Rightarrow>
            checks
             [fail_if (is_blank owner) (InvalidSession ''CloudKit zone owner record name cannot be empty''),
              reject_control_chars owner ''CloudKit zone owner record name'',
              fail_if (trim owner \<noteq> owner)
                (InvalidSession ''CloudKit zone owner record name must not include leading or trailing whitespace'')]),
       fail_if (ld_database_scope d = Shared \<and> ld_owner_record_name d = None)
         (InvalidSession ''shared CloudKit library zone requires ownerRecordName''),
       fail_if (ld_database_scope d = Shared \<and> \<not> starts_with SHARED_SYNC_ZONE_PREFIX (ld_zone_name d))
         (InvalidSession ''shared CloudKit library zone must start with SharedSync-''),
       fail_if (ld_database_scope d = Private \<and> starts_with SHARED_SYNC_ZONE_PREFIX (ld_zone_name d))
         (InvalidSession ''SharedSync zones must use the shared CloudKit database scope''),
       fail_if (ld_database_scope d = Private \<and> ld_zone_name d \<noteq> PRIMARY_SYNC_ZONE)
         (InvalidSession ''private CloudKit library zone must be PrimarySync'')]"

definition validate_session_destination ::
  "delete_session \<Rightarrow> cloudkit_library_destination \<Rightarrow> upload_error + unit"
where
  "validate_session_destination s d =
     checks
      [validate_library_destination d,
       fail_if (ds_database_scope s \<noteq> ld_database_scope d \<or> ds_zone s \<noteq> d)
         (InvalidSession ''CloudKit request destination must match the authenticated session destination'')]"

definition reject_cloudkit_identity_chars :: "string \<Rightarrow> string \<Rightarrow> upload_error + unit" where
  "reject_cloudkit_identity_chars v field =
     fail_if (has_control v)
       (InvalidCloudKitDeleteRequest
         (if field = ''original asset recordName'' then ''original asset recordName contains control characters''
          else ''original asset recordChangeTag contains control characters''))"

definition validate_cloudkit_delete_request :: "cloudkit_delete_request \<Rightarrow> upload_error + unit" where
  "validate_cloudkit_delete_request r =
     checks
      [fail_if (is_blank (dr_record_name r))
         (InvalidCloudKitDeleteRequest ''original asset recordName is required''),
       fail_if (is_blank (dr_record_change_tag r))
         (InvalidCloudKitDeleteRequest ''original asset recordChangeTag is required''),
       reject_cloudkit_identity_chars (dr_record_name r) ''original asset recordName'',
       reject_cloudkit_identity_chars (dr_record_change_tag r) ''original asset recordChangeTag'',
       validate_library_destination (request_destination r)]"

text \<open>The loop over the batch, with the record names seen so far.\<close>

fun validate_batch_loop ::
  "cloudkit_library_destination \<Rightarrow> string set \<Rightarrow> cloudkit_delete_request list \<Rightarrow> upload_error + unit"
where
  "validate_batch_loop first seen [] = Ok ()"
| "validate_batch_loop first seen (r # rs) =
     (case checks
        [validate_cloudkit_delete_request r,
         fail_if (dr_record_name r \<in> seen)
           (InvalidCloudKitDeleteRequest ''batch delete has duplicate original asset recordName''),
         fail_if (first \<noteq> request_destination r)
           (InvalidCloudKitDeleteRequest ''batch delete cannot mix CloudKit library destinations'')] of
        Inl e \<Rightarrow> Inl e
      | Inr _ \<Rightarrow> validate_batch_loop first (insert (dr_record_name r) seen) rs)"

definition validate_cloudkit_delete_batch_request :: "cloudkit_delete_request list \<Rightarrow> upload_error + unit" where
  "validate_cloudkit_delete_batch_request rs =
     (case rs of
        [] \<Rightarrow> Err (InvalidCloudKitDeleteRequest ''at least one original asset delete request is required'')
      | r # _ \<Rightarrow> validate_batch_loop (request_destination r) {} rs)"

definition validate_uploaded_heic_resolve_request :: "uploaded_heic_resolve_request \<Rightarrow> upload_error + unit" where
  "validate_uploaded_heic_resolve_request r =
     checks
      [fail_if (is_blank (hr_uploaded_asset_id r))
         (InvalidCloudKitUploadedHeicRequest ''uploaded HEIC asset id is required''),
       fail_if (is_blank (hr_expected_heic_sha256 r))
         (InvalidCloudKitUploadedHeicRequest ''expected HEIC SHA-256 is required''),
       fail_if (hr_expected_size_bytes r = 0)
         (InvalidCloudKitUploadedHeicRequest ''expected HEIC size must be positive''),
       reject_cloudkit_identity_chars (hr_uploaded_asset_id r) ''uploaded HEIC asset id'',
       validate_library_destination
         \<lparr>ld_database_scope = hr_database_scope r, ld_zone_name = hr_zone_name r,
          ld_owner_record_name = hr_owner_record_name r\<rparr>]"

subsection \<open>Payloads\<close>

definition delete_operation :: "cloudkit_delete_request \<Rightarrow> json" where
  "delete_operation r =
     jobject
      [(''operationType'', JString ''update''),
       (''record'', jobject
         [(''recordName'', JString (dr_record_name r)),
          (''recordType'', JString ''CPLAsset''),
          (''recordChangeTag'', JString (dr_record_change_tag r)),
          (''fields'', jobject [(''isDeleted'', jobject [(''value'', ser_u64 1)])])])]"

definition cloudkit_delete_payload :: "cloudkit_delete_request \<Rightarrow> json" where
  "cloudkit_delete_payload r =
     jobject
      [(''atomic'', JBool True),
       (''desiredKeys'', JArray [JString ''isDeleted'']),
       (''operations'', JArray [delete_operation r]),
       (''zoneID'', zone_id_payload (request_destination r))]"

definition cloudkit_delete_batch_destination ::
  "cloudkit_delete_request list \<Rightarrow> upload_error + cloudkit_library_destination"
where
  "cloudkit_delete_batch_destination rs =
     (case rs of
        [] \<Rightarrow> Err (InvalidCloudKitDeleteRequest ''at least one original asset delete request is required'')
      | r # _ \<Rightarrow> Ok (request_destination r))"

definition cloudkit_delete_batch_payload :: "cloudkit_library_destination \<Rightarrow> cloudkit_delete_request list \<Rightarrow> json" where
  "cloudkit_delete_batch_payload d rs =
     jobject
      [(''atomic'', JBool True),
       (''desiredKeys'', JArray [JString ''isDeleted'']),
       (''operations'', JArray (map delete_operation rs)),
       (''zoneID'', zone_id_payload d)]"

definition cloudkit_records_lookup_payload ::
  "string list \<Rightarrow> string list \<Rightarrow> cloudkit_library_destination \<Rightarrow> json"
where
  "cloudkit_records_lookup_payload names keys d =
     jobject
      [(''records'', JArray (map (\<lambda>n. jobject [(''recordName'', JString n)]) names)),
       (''desiredKeys'', JArray (map JString keys)),
       (''zoneID'', zone_id_payload d)]"

subsection \<open>Answers\<close>

definition get_str :: "string \<Rightarrow> json \<Rightarrow> string option" where
  "get_str k j = Option.bind (json_get k j) json_as_str"

definition is_deleted_field :: "json \<Rightarrow> json option" where
  "is_deleted_field record =
     Option.bind (json_get ''fields'' record) (\<lambda>fields.
     Option.bind (json_get ''isDeleted'' fields) (json_get ''value''))"

definition cloudkit_delete_record_zone_matches :: "json \<Rightarrow> cloudkit_delete_request \<Rightarrow> bool" where
  "cloudkit_delete_record_zone_matches record r =
     (case json_get ''zoneID'' record of
        None \<Rightarrow> dr_database_scope r = Private \<and> dr_zone_name r = PRIMARY_SYNC_ZONE
      | Some zone \<Rightarrow>
          (case json_as_object zone of
             None \<Rightarrow> False
           | Some _ \<Rightarrow> get_str ''zoneName'' zone = Some (dr_zone_name r)
                      \<and> get_str ''ownerRecordName'' zone = dr_owner_record_name r))"

definition parse_cloudkit_delete_record ::
  "json \<Rightarrow> cloudkit_delete_request \<Rightarrow> upload_error + cloudkit_delete_outcome"
where
  "parse_cloudkit_delete_record record r =
     bind_ok (fail_if (json_get ''serverErrorCode'' record \<noteq> None)
       (InvalidCloudKitDeleteResponse ''records/modify returned a record error'')) (\<lambda>_.
     bind_ok (fail_if (\<not> cloudkit_delete_record_zone_matches record r)
       (InvalidCloudKitDeleteResponse ''records/modify response zone differs from the requested destination'')) (\<lambda>_.
     bind_ok (ok_or (InvalidCloudKitDeleteResponse ''records/modify response missing recordName'')
       (get_str ''recordName'' record)) (\<lambda>record_name.
     bind_ok (fail_if (record_name \<noteq> dr_record_name r)
       (InvalidCloudKitDeleteResponse ''records/modify confirmed a different recordName'')) (\<lambda>_.
     bind_ok (ok_or (InvalidCloudKitDeleteResponse ''records/modify response missing recordChangeTag'')
       (get_str ''recordChangeTag'' record)) (\<lambda>tag.
     bind_ok (fail_if (is_blank tag)
       (InvalidCloudKitDeleteResponse ''records/modify response returned an empty recordChangeTag'')) (\<lambda>_.
     bind_ok (fail_if
       (Option.bind (is_deleted_field record) json_as_i64 \<noteq> Some 1
        \<and> Option.bind (is_deleted_field record) json_as_bool \<noteq> Some True)
       (InvalidCloudKitDeleteResponse ''records/modify did not confirm isDeleted'')) (\<lambda>_.
     Ok \<lparr>do_record_name = record_name, do_record_change_tag = tag\<rparr>)))))))"

definition response_records :: "upload_error \<Rightarrow> json \<Rightarrow> upload_error + json list" where
  "response_records e v = ok_or e (Option.bind (json_get ''records'' v) json_as_array)"

definition parse_cloudkit_delete_response ::
  "json \<Rightarrow> cloudkit_delete_request \<Rightarrow> upload_error + cloudkit_delete_outcome"
where
  "parse_cloudkit_delete_response v r =
     bind_ok (response_records
       (InvalidCloudKitDeleteResponse ''records/modify response must include records'') v) (\<lambda>records.
     if length records \<noteq> 1
     then Err (InvalidCloudKitDeleteResponse ''records/modify must return exactly one record'')
     else parse_cloudkit_delete_record (records ! 0) r)"

text \<open>\<open>records_by_name\<close> of the batch answer.\<close>

fun index_delete_records :: "json list \<Rightarrow> (string, json) btree \<Rightarrow> upload_error + (string, json) btree" where
  "index_delete_records [] acc = Ok acc"
| "index_delete_records (record # rest) acc =
     (case get_str ''recordName'' record of
        None \<Rightarrow> Err (InvalidCloudKitDeleteResponse ''records/modify response missing recordName'')
      | Some name \<Rightarrow>
          if bt_contains acc name
          then Err (InvalidCloudKitDeleteResponse ''records/modify batch returned duplicate recordName'')
          else index_delete_records rest (bt_insert name record acc))"

definition parse_cloudkit_delete_batch_response ::
  "json \<Rightarrow> cloudkit_delete_request list \<Rightarrow> upload_error + cloudkit_delete_outcome list"
where
  "parse_cloudkit_delete_batch_response v rs =
     bind_ok (response_records
       (InvalidCloudKitDeleteResponse ''records/modify response must include records'') v) (\<lambda>records.
     if length records \<noteq> length rs
     then Err (InvalidCloudKitDeleteResponse ''records/modify batch returned a different record count'')
     else
       bind_ok (index_delete_records records []) (\<lambda>by_name.
       try_map (\<lambda>r.
         bind_ok (ok_or (InvalidCloudKitDeleteResponse ''records/modify batch omitted a requested recordName'')
           (bt_get by_name (dr_record_name r))) (\<lambda>record.
         parse_cloudkit_delete_record record r)) rs))"

subsection \<open>The answer of a state lookup\<close>

fun index_lookup_records :: "json list \<Rightarrow> (string, json) btree \<Rightarrow> upload_error + (string, json) btree" where
  "index_lookup_records [] acc = Ok acc"
| "index_lookup_records (record # rest) acc =
     (if json_get ''serverErrorCode'' record \<noteq> None
      then Err (InvalidCloudKitDeleteLookupResponse ''records/lookup returned a record error'')
      else case get_str ''recordName'' record of
        None \<Rightarrow> Err (InvalidCloudKitDeleteLookupResponse ''records/lookup response missing recordName'')
      | Some name \<Rightarrow>
          if bt_contains acc name
          then Err (InvalidCloudKitDeleteLookupResponse ''records/lookup returned duplicate recordName'')
          else index_lookup_records rest (bt_insert name record acc))"

text \<open>What the lookup says of one request: deleted, with the new change tag, or not.\<close>

definition lookup_record_state ::
  "(string, json) btree \<Rightarrow> cloudkit_delete_request \<Rightarrow> upload_error + cloudkit_delete_outcome option"
where
  "lookup_record_state by_name r =
     bind_ok (ok_or (InvalidCloudKitDeleteLookupResponse ''records/lookup omitted a requested recordName'')
       (bt_get by_name (dr_record_name r))) (\<lambda>record.
     bind_ok (fail_if (\<not> cloudkit_delete_record_zone_matches record r)
       (InvalidCloudKitDeleteLookupResponse ''records/lookup response zone differs from the requested destination'')) (\<lambda>_.
     bind_ok
       (case json_get ''recordType'' record of
          None \<Rightarrow> Ok ()
        | Some t \<Rightarrow>
            (case json_as_str t of
               None \<Rightarrow> Err (InvalidCloudKitDeleteLookupResponse ''records/lookup returned malformed recordType'')
             | Some t \<Rightarrow> fail_if (t \<noteq> ''CPLAsset'')
                 (InvalidCloudKitDeleteLookupResponse ''records/lookup returned a non-CPLAsset recordType''))) (\<lambda>_.
     bind_ok (ok_or (InvalidCloudKitDeleteLookupResponse ''records/lookup response missing recordChangeTag'')
       (get_str ''recordChangeTag'' record)) (\<lambda>tag.
     bind_ok (fail_if (is_blank tag)
       (InvalidCloudKitDeleteLookupResponse ''records/lookup returned an empty recordChangeTag'')) (\<lambda>_.
     bind_ok (ok_or (InvalidCloudKitDeleteLookupResponse ''records/lookup response missing isDeleted'')
       (is_deleted_field record)) (\<lambda>v.
     bind_ok
       (case (json_as_bool v, json_as_i64 v) of
          (Some b, _) \<Rightarrow> Ok b
        | (None, Some n) \<Rightarrow>
            if n = 0 then Ok False else if n = 1 then Ok True
            else Err (InvalidCloudKitDeleteLookupResponse ''records/lookup returned malformed isDeleted'')
        | _ \<Rightarrow> Err (InvalidCloudKitDeleteLookupResponse ''records/lookup returned malformed isDeleted'')) (\<lambda>deleted.
     if \<not> deleted
     then (if tag \<noteq> dr_record_change_tag r
           then Err (InvalidCloudKitDeleteLookupResponse
             ''records/lookup found an un-deleted record with a changed recordChangeTag'')
           else Ok None)
     else (if tag = dr_record_change_tag r
           then Err (InvalidCloudKitDeleteLookupResponse
             ''records/lookup confirmed delete without a changed recordChangeTag'')
           else Ok (Some \<lparr>do_record_name = dr_record_name r, do_record_change_tag = tag\<rparr>)))))))))"

definition parse_cloudkit_delete_state_lookup_response ::
  "json \<Rightarrow> cloudkit_delete_request list \<Rightarrow> upload_error + delete_state_lookup_result"
where
  "parse_cloudkit_delete_state_lookup_response v rs =
     bind_ok (response_records
       (InvalidCloudKitDeleteLookupResponse ''records/lookup response must include records'') v) (\<lambda>records.
     if length records \<noteq> length rs
     then Err (InvalidCloudKitDeleteLookupResponse ''records/lookup returned a different record count'')
     else
       bind_ok (index_lookup_records records []) (\<lambda>by_name.
       bind_ok (try_map (lookup_record_state by_name) rs) (\<lambda>states.
       Ok \<lparr>sl_confirmed_deleted = List.map_filter id states,
           sl_unconfirmed = map fst (filter (\<lambda>(r, s). s = None) (zip rs states))\<rparr>)))"

subsection \<open>The delete client\<close>

definition delete_cpl_asset ::
  "(json \<Rightarrow> upload_error + json) \<Rightarrow> delete_session \<Rightarrow> cloudkit_delete_request
     \<Rightarrow> upload_error + cloudkit_delete_outcome"
where
  "delete_cpl_asset post s r =
     bind_ok (validate_cloudkit_delete_request r) (\<lambda>_.
     bind_ok (validate_session_destination s (request_destination r)) (\<lambda>_.
     bind_ok (post (cloudkit_delete_payload r)) (\<lambda>response.
     parse_cloudkit_delete_response response r)))"

definition delete_originals_batch ::
  "(json \<Rightarrow> upload_error + json) \<Rightarrow> delete_session \<Rightarrow> cloudkit_delete_request list
     \<Rightarrow> upload_error + cloudkit_delete_outcome list"
where
  "delete_originals_batch post s rs =
     bind_ok (validate_cloudkit_delete_batch_request rs) (\<lambda>_.
     bind_ok (cloudkit_delete_batch_destination rs) (\<lambda>d.
     bind_ok (validate_session_destination s d) (\<lambda>_.
     bind_ok (post (cloudkit_delete_batch_payload d rs)) (\<lambda>response.
     parse_cloudkit_delete_batch_response response rs))))"

datatype 'e delete_batch_send_error = InvalidRequest upload_error | Preflight 'e | Remote upload_error

definition transport_was_called :: "'e delete_batch_send_error \<Rightarrow> bool" where
  "transport_was_called e = (case e of Remote _ \<Rightarrow> True | _ \<Rightarrow> False)"

definition delete_originals_batch_with_preflight ::
  "(json \<Rightarrow> upload_error + json) \<Rightarrow> (json \<Rightarrow> 'e + unit) \<Rightarrow> delete_session \<Rightarrow> cloudkit_delete_request list
     \<Rightarrow> 'e delete_batch_send_error + cloudkit_delete_outcome list"
where
  "delete_originals_batch_with_preflight post preflight s rs =
     bind_ok (map_err InvalidRequest (validate_cloudkit_delete_batch_request rs)) (\<lambda>_.
     bind_ok (map_err InvalidRequest (cloudkit_delete_batch_destination rs)) (\<lambda>d.
     bind_ok (map_err InvalidRequest (validate_session_destination s d)) (\<lambda>_.
     let payload = cloudkit_delete_batch_payload d rs in
     bind_ok (map_err Preflight (preflight payload)) (\<lambda>_.
     bind_ok (map_err Remote (post payload)) (\<lambda>response.
     map_err Remote (parse_cloudkit_delete_batch_response response rs))))))"

definition lookup_delete_states ::
  "(json \<Rightarrow> upload_error + json) \<Rightarrow> delete_session \<Rightarrow> cloudkit_delete_request list
     \<Rightarrow> upload_error + delete_state_lookup_result"
where
  "lookup_delete_states post s rs =
     bind_ok (validate_cloudkit_delete_batch_request rs) (\<lambda>_.
     bind_ok (cloudkit_delete_batch_destination rs) (\<lambda>d.
     bind_ok (validate_session_destination s d) (\<lambda>_.
     bind_ok (post (cloudkit_records_lookup_payload (map dr_record_name rs) [''isDeleted''] d)) (\<lambda>response.
     parse_cloudkit_delete_state_lookup_response response rs))))"

subsection \<open>Destinations\<close>

text \<open>A name CloudKit accepts: no blank, no control character, no white space around it.\<close>

definition clean_name :: "string \<Rightarrow> bool" where
  "clean_name s \<longleftrightarrow> \<not> is_blank s \<and> \<not> has_control s \<and> trim s = s"

lemma clean_PRIMARY [simp]: "clean_name PRIMARY_SYNC_ZONE"
  by (simp add: clean_name_def PRIMARY_SYNC_ZONE_def byte_def trim_graphic)

lemma PRIMARY_not_shared [simp]: "\<not> starts_with SHARED_SYNC_ZONE_PREFIX PRIMARY_SYNC_ZONE"
  by code_simp

text \<open>Which destinations pass.\<close>

lemma destination_eq_Ok:
  "validate_library_destination d = Ok () \<longleftrightarrow>
     (case ld_database_scope d of
        Private \<Rightarrow> ld_zone_name d = PRIMARY_SYNC_ZONE
          \<and> (case ld_owner_record_name d of None \<Rightarrow> True | Some owner \<Rightarrow> clean_name owner)
      | Shared \<Rightarrow> clean_name (ld_zone_name d) \<and> starts_with SHARED_SYNC_ZONE_PREFIX (ld_zone_name d)
          \<and> (case ld_owner_record_name d of None \<Rightarrow> False | Some owner \<Rightarrow> clean_name owner))"
proof -
  have primary: "\<not> is_blank PRIMARY_SYNC_ZONE" "\<not> has_control PRIMARY_SYNC_ZONE"
    "trim PRIMARY_SYNC_ZONE = PRIMARY_SYNC_ZONE"
    using clean_PRIMARY by (auto simp: clean_name_def)
  show ?thesis
    by (cases "ld_database_scope d"; cases "ld_owner_record_name d")
      (auto simp: validate_library_destination_def reject_control_chars_def clean_name_def primary)
qed

text \<open>The destinations that pass are the private primary library, with a clean owner name or none,
  and the shared libraries whose zone is a clean name after \<open>SharedSync-\<close> with a clean owner
  name.\<close>

theorem valid_destinations:
  "validate_library_destination d = Ok () \<longleftrightarrow>
     (case ld_database_scope d of
        Private \<Rightarrow> ld_zone_name d = PRIMARY_SYNC_ZONE
          \<and> (case ld_owner_record_name d of None \<Rightarrow> True | Some owner \<Rightarrow> clean_name owner)
      | Shared \<Rightarrow> clean_name (ld_zone_name d) \<and> starts_with SHARED_SYNC_ZONE_PREFIX (ld_zone_name d)
          \<and> (case ld_owner_record_name d of None \<Rightarrow> False | Some owner \<Rightarrow> clean_name owner))"
  by (rule destination_eq_Ok)

lemma valid_request:
  "validate_cloudkit_delete_request r = Ok () \<longleftrightarrow>
     \<not> is_blank (dr_record_name r) \<and> \<not> is_blank (dr_record_change_tag r)
     \<and> \<not> has_control (dr_record_name r) \<and> \<not> has_control (dr_record_change_tag r)
     \<and> validate_library_destination (request_destination r) = Ok ()"
  by (simp add: validate_cloudkit_delete_request_def reject_cloudkit_identity_chars_def)

lemma validate_batch_loop_eq_Ok:
  "validate_batch_loop first seen rs = Inr () \<longleftrightarrow>
     (\<forall>r\<in>set rs. validate_cloudkit_delete_request r = Inr () \<and> request_destination r = first)
     \<and> distinct (map dr_record_name rs) \<and> set (map dr_record_name rs) \<inter> seen = {}"
proof (induction rs arbitrary: seen)
  case (Cons r rs)
  show ?case
    unfolding validate_batch_loop.simps case_bind_ok bind_ok_eq_Ok by (simp add: Cons.IH) auto
qed simp

lemma valid_batch_iff:
  "validate_cloudkit_delete_batch_request rs = Inr () \<longleftrightarrow>
     rs \<noteq> [] \<and> distinct (map dr_record_name rs)
     \<and> (\<forall>r\<in>set rs. validate_cloudkit_delete_request r = Inr () \<and> request_destination r = request_destination (hd rs))"
  by (cases rs) (simp_all only: validate_cloudkit_delete_batch_request_def list.case
      validate_batch_loop_eq_Ok, auto)

subsection \<open>What a confirmed deletion rests on\<close>

definition reads_deleted :: "json \<Rightarrow> bool" where
  "reads_deleted record \<longleftrightarrow>
     Option.bind (is_deleted_field record) json_as_i64 = Some 1
     \<or> Option.bind (is_deleted_field record) json_as_bool = Some True"

text \<open>A record of an answer that confirms a request, and with which outcome.\<close>

definition confirms :: "json \<Rightarrow> cloudkit_delete_request \<Rightarrow> cloudkit_delete_outcome \<Rightarrow> bool" where
  "confirms record r out \<longleftrightarrow>
     json_get ''serverErrorCode'' record = None
     \<and> cloudkit_delete_record_zone_matches record r
     \<and> get_str ''recordName'' record = Some (dr_record_name r)
     \<and> get_str ''recordChangeTag'' record = Some (do_record_change_tag out)
     \<and> \<not> is_blank (do_record_change_tag out)
     \<and> reads_deleted record
     \<and> do_record_name out = dr_record_name r"

lemma parse_delete_record_eq_Ok:
  "parse_cloudkit_delete_record record r = Inr out \<longleftrightarrow> confirms record r out"
  by (cases out) (auto simp: parse_cloudkit_delete_record_def confirms_def reads_deleted_def bind_ok_eq_Ok)

lemma response_records_eq_Ok [simp]:
  "response_records e v = Inr records \<longleftrightarrow> json_get ''records'' v = Some (JArray records)"
  by (auto simp: response_records_def bind_eq_Some_conv)

text \<open>A deletion is reported only when the request was valid and for the session's own library,
  the transport answered the payload of that request, and the one record of the answer is in the
  requested zone, has the requested name, a change tag that is not blank and reads deleted.\<close>

theorem single_delete_is_confirmed:
  assumes "delete_cpl_asset post s r = Ok out"
  shows "validate_cloudkit_delete_request r = Ok () \<and> ds_zone s = request_destination r
    \<and> (\<exists>response record. post (cloudkit_delete_payload r) = Ok response
          \<and> json_get ''records'' response = Some (JArray [record]) \<and> confirms record r out)"
  using assms
  by (auto simp: delete_cpl_asset_def parse_cloudkit_delete_response_def bind_ok_eq_Ok
      validate_session_destination_def parse_delete_record_eq_Ok length_Suc_conv split: if_splits)

lemma index_delete_records_eq_Ok:
  "index_delete_records records acc = Inr by_name \<Longrightarrow>
     (\<forall>n. bt_get by_name n =
        (case find (\<lambda>entry. get_str ''recordName'' entry = Some n) records of
           Some entry \<Rightarrow> Some entry | None \<Rightarrow> bt_get acc n))
     \<and> list_all (\<lambda>entry. get_str ''recordName'' entry \<noteq> None) records
     \<and> distinct (map (get_str ''recordName'') records)
     \<and> (\<forall>n. bt_contains acc n \<longrightarrow> Some n \<notin> set (map (get_str ''recordName'') records))"
proof (induction records acc rule: index_delete_records.induct)
  case (2 entry rest acc)
  then obtain name where name: "get_str ''recordName'' entry = Some name" "\<not> bt_contains acc name"
    "index_delete_records rest (bt_insert name entry acc) = Inr by_name"
    by (auto split: option.splits if_splits)
  from 2(1) [OF name] have IH:
    "\<And>n. bt_get by_name n = (case find (\<lambda>r. get_str ''recordName'' r = Some n) rest of
        Some r \<Rightarrow> Some r | None \<Rightarrow> if n = name then Some entry else bt_get acc n)"
    "list_all (\<lambda>entry. get_str ''recordName'' entry \<noteq> None) rest"
    "distinct (map (get_str ''recordName'') rest)"
    "\<And>n. n = name \<or> bt_contains acc n \<Longrightarrow> Some n \<notin> set (map (get_str ''recordName'') rest)"
    by (auto split: option.splits)
  have none: "find (\<lambda>r. get_str ''recordName'' r = Some name) rest = None"
    using IH(4) [of name] by (fastforce simp: find_None_iff image_iff)
  have "bt_get by_name n = (case find (\<lambda>r. get_str ''recordName'' r = Some n) (entry # rest) of
      Some r \<Rightarrow> Some r | None \<Rightarrow> bt_get acc n)" for n
    using name(1) none IH(1) [of n] by (cases "n = name") auto
  moreover have "list_all (\<lambda>entry. get_str ''recordName'' entry \<noteq> None) (entry # rest)"
    using IH(2) name(1) by simp
  moreover have "distinct (map (get_str ''recordName'') (entry # rest))"
    using IH(3) IH(4) [of name] name(1) by auto
  moreover have "Some n \<notin> set (map (get_str ''recordName'') (entry # rest))" if "bt_contains acc n" for n
    using IH(4) [of n] name(1,2) that by auto
  ultimately show ?case by blast
qed simp

lemma index_delete_records_Ok:
  "is_ok (index_delete_records records acc) \<longleftrightarrow>
     list_all (\<lambda>entry. get_str ''recordName'' entry \<noteq> None) records
     \<and> distinct (map (get_str ''recordName'') records)
     \<and> (\<forall>n. bt_contains acc n \<longrightarrow> Some n \<notin> set (map (get_str ''recordName'') records))"
proof (induction records acc rule: index_delete_records.induct)
  case (2 entry rest acc)
  show ?case
  proof (cases "get_str ''recordName'' entry")
    case (Some name)
    with 2 show ?thesis by (auto simp: list_all_iff)
  qed (simp add: is_ok_def)
qed simp

text \<open>A parsed batch answer: for each request, in order, the entry of its name confirms it.\<close>

lemma batch_response_eq_Ok:
  "parse_cloudkit_delete_batch_response v rs = Inr outs \<longleftrightarrow>
     (\<exists>records. json_get ''records'' v = Some (JArray records)
        \<and> length records = length rs \<and> length outs = length rs
        \<and> list_all (\<lambda>entry. get_str ''recordName'' entry \<noteq> None) records
        \<and> distinct (map (get_str ''recordName'') records)
        \<and> (\<forall>i < length rs. \<exists>entry\<in>set records. confirms entry (rs ! i) (outs ! i)))"
  (is "?parse \<longleftrightarrow> (\<exists>records. ?ok records)")
proof -
  have step: "(length records = length rs \<and> (\<exists>by_name. index_delete_records records [] = Inr by_name
        \<and> try_map (\<lambda>r. bind_ok (ok_or e (bt_get by_name (dr_record_name r)))
              (\<lambda>entry. parse_cloudkit_delete_record entry r)) rs = Inr outs))
      \<longleftrightarrow> length records = length rs \<and> length outs = length rs
        \<and> list_all (\<lambda>entry. get_str ''recordName'' entry \<noteq> None) records
        \<and> distinct (map (get_str ''recordName'') records)
        \<and> (\<forall>i < length rs. \<exists>entry\<in>set records. confirms entry (rs ! i) (outs ! i))" for records e
  proof (cases "index_delete_records records []")
    case (Inl e')
    then show ?thesis using index_delete_records_Ok [of records "[]"] by (auto simp: bt_contains_def)
  next
    case (Inr by_name)
    note facts = index_delete_records_eq_Ok [OF Inr]
    have found: "bt_get by_name n = Some entry \<longleftrightarrow>
        entry \<in> set records \<and> get_str ''recordName'' entry = Some n" for n entry
    proof -
      have "find (\<lambda>r. get_str ''recordName'' r = Some n) records = Some entry \<longleftrightarrow>
          entry \<in> set records \<and> get_str ''recordName'' entry = Some n"
      proof
        assume "entry \<in> set records \<and> get_str ''recordName'' entry = Some n"
        then obtain r' where r': "find (\<lambda>r. get_str ''recordName'' r = Some n) records = Some r'"
          by (cases "find (\<lambda>r. get_str ''recordName'' r = Some n) records") (auto simp: find_None_iff)
        then have "r' \<in> set records" "get_str ''recordName'' r' = Some n"
          by (auto simp: find_Some_iff)
        moreover have "inj_on (get_str ''recordName'') (set records)"
          using facts by (simp add: distinct_map)
        ultimately have "r' = entry"
          using \<open>entry \<in> set records \<and> _\<close> by (metis inj_onD)
        with r' show "find (\<lambda>r. get_str ''recordName'' r = Some n) records = Some entry" by simp
      qed (auto simp: find_Some_iff)
      moreover have "bt_get by_name n = find (\<lambda>r. get_str ''recordName'' r = Some n) records"
        using facts by (simp split: option.split)
      ultimately show ?thesis by simp
    qed
    have "try_map (\<lambda>r. bind_ok (ok_or e (bt_get by_name (dr_record_name r)))
              (\<lambda>entry. parse_cloudkit_delete_record entry r)) rs = Inr outs
        \<longleftrightarrow> length outs = length rs
          \<and> (\<forall>i < length rs. \<exists>entry\<in>set records. confirms entry (rs ! i) (outs ! i))"
      by (auto simp: try_map_eq_Ok list_eq_iff_nth_eq bind_ok_eq_Ok parse_delete_record_eq_Ok found
          confirms_def) metis+
    with Inr facts show ?thesis by auto
  qed
  have "?parse \<longleftrightarrow> (\<exists>records. json_get ''records'' v = Some (JArray records)
      \<and> length records = length rs \<and> (\<exists>by_name. index_delete_records records [] = Inr by_name
        \<and> try_map (\<lambda>r. bind_ok (ok_or
             (InvalidCloudKitDeleteResponse ''records/modify batch omitted a requested recordName'')
             (bt_get by_name (dr_record_name r)))
              (\<lambda>entry. parse_cloudkit_delete_record entry r)) rs = Inr outs))"
    by (auto simp: parse_cloudkit_delete_batch_response_def bind_ok_eq_Ok split: if_splits)
  then show ?thesis unfolding step by blast
qed

text \<open>C20: A batch is reported deleted only when every request was valid, all for the session's library
  and with distinct names, and the answer has one record per request, with distinct names: the
  outcomes come in the order of the requests, each confirmed by a record of the answer.\<close>

theorem batch_delete_confirms_each:
  assumes "delete_originals_batch post s rs = Ok outs"
  shows "rs \<noteq> [] \<and> distinct (map dr_record_name rs)
    \<and> (\<forall>r\<in>set rs. validate_cloudkit_delete_request r = Ok () \<and> request_destination r = ds_zone s)
    \<and> (\<exists>response records. post (cloudkit_delete_batch_payload (ds_zone s) rs) = Ok response
          \<and> json_get ''records'' response = Some (JArray records)
          \<and> length records = length rs \<and> distinct (map (get_str ''recordName'') records)
          \<and> length outs = length rs
          \<and> (\<forall>i < length rs. \<exists>entry\<in>set records. confirms entry (rs ! i) (outs ! i)))"
proof -
  from assms obtain d response where d: "cloudkit_delete_batch_destination rs = Inr d"
    and v: "validate_cloudkit_delete_batch_request rs = Inr ()"
      "validate_session_destination s d = Inr ()"
    and post: "post (cloudkit_delete_batch_payload d rs) = Inr response"
    and parse: "parse_cloudkit_delete_batch_response response rs = Inr outs"
    by (auto simp: delete_originals_batch_def bind_ok_eq_Ok)
  from d have "rs \<noteq> []" "d = request_destination (hd rs)"
    by (auto simp: cloudkit_delete_batch_destination_def split: list.splits)
  then have rs: "\<forall>r\<in>set rs. request_destination r = d"
    using v(1) [unfolded valid_batch_iff] by blast
  have zone: "ds_zone s = d" using v(2) by (simp add: validate_session_destination_def)
  have "rs \<noteq> [] \<and> distinct (map dr_record_name rs)
    \<and> (\<forall>r\<in>set rs. validate_cloudkit_delete_request r = Ok () \<and> request_destination r = d)"
    using v(1) [unfolded valid_batch_iff] rs by blast
  with post parse [unfolded batch_response_eq_Ok] show ?thesis
    unfolding zone by blast
qed

text \<open>The order of the records in the answer does not matter: answers with the same records give the
  same outcomes.\<close>

theorem batch_answer_order_is_irrelevant:
  assumes "json_get ''records'' v = Some (JArray records)"
    and "json_get ''records'' v' = Some (JArray records')"
    and "mset records = mset records'"
    and "parse_cloudkit_delete_batch_response v rs = Ok outs"
  shows "parse_cloudkit_delete_batch_response v' rs = Ok outs"
proof -
  have "mset (map (get_str ''recordName'') records) = mset (map (get_str ''recordName'') records')"
    using assms(3) by simp
  then have "distinct (map (get_str ''recordName'') records) = distinct (map (get_str ''recordName'') records')"
    by (rule mset_eq_imp_distinct_iff)
  moreover have "set records = set records'" "length records = length records'"
    using assms(3) by (metis set_mset_mset, metis size_mset)
  ultimately show ?thesis
    using assms(1,2,4) by (auto simp: batch_response_eq_Ok list_all_iff)
qed

text \<open>When a batch with a preflight fails without the transport having been called, the outcome is
  the same for every transport; when it fails after, the requests were valid and the preflight had
  accepted the very payload that was sent.\<close>

theorem refused_batch_reaches_no_transport:
  assumes "delete_originals_batch_with_preflight post preflight s rs = Err e"
  shows "if transport_was_called e
    then validate_cloudkit_delete_batch_request rs = Ok ()
      \<and> preflight (cloudkit_delete_batch_payload (ds_zone s) rs) = Ok ()
    else delete_originals_batch_with_preflight post' preflight s rs = Err e"
proof -
  let ?k = "\<lambda>post d. bind_ok (map_err Preflight (preflight (cloudkit_delete_batch_payload d rs))) (\<lambda>_.
     bind_ok (map_err Remote (post (cloudkit_delete_batch_payload d rs))) (\<lambda>response.
     map_err Remote (parse_cloudkit_delete_batch_response response rs)))"
  show ?thesis
  proof (cases "validate_cloudkit_delete_batch_request rs")
    case (Inl e1)
    then show ?thesis using assms
      by (auto simp: delete_originals_batch_with_preflight_def transport_was_called_def)
  next
    case Inr1: (Inr u)
    then obtain d where d: "cloudkit_delete_batch_destination rs = Inr d"
      by (cases rs) (auto simp: cloudkit_delete_batch_destination_def validate_cloudkit_delete_batch_request_def)
    show ?thesis
    proof (cases "validate_session_destination s d")
      case (Inl e1)
      then show ?thesis using assms Inr1 d
        by (auto simp: delete_originals_batch_with_preflight_def transport_was_called_def)
    next
      case (Inr u2)
      then have zone: "ds_zone s = d" by (auto simp: validate_session_destination_def)
      have eq: "delete_originals_batch_with_preflight p preflight s rs = ?k p d" for p
        using Inr1 d Inr by (simp add: delete_originals_batch_with_preflight_def Let_def)
      show ?thesis
      proof (cases "preflight (cloudkit_delete_batch_payload d rs)")
        case (Inl e1)
        then show ?thesis using assms by (auto simp: eq transport_was_called_def)
      next
        case (Inr u3)
        then have "transport_was_called e"
          using assms by (auto simp: eq transport_was_called_def bind_ok_eq_Err map_err_def split: sum.splits)
        with Inr Inr1 zone show ?thesis by simp
      qed
    qed
  qed
qed

lemma index_lookup_eq_Ok:
  "index_lookup_records records acc = Inr by_name \<Longrightarrow> bt_get by_name n = Some entry \<Longrightarrow>
     entry \<in> set records \<or> bt_get acc n = Some entry"
  by (induction records acc rule: index_lookup_records.induct)
    (auto split: if_splits option.splits)

text \<open>A lookup answer for one request: what a record says of it.\<close>

lemma lookup_state_eq_Ok:
  assumes "lookup_record_state by_name r = Inr st"
  shows "\<exists>entry. bt_get by_name (dr_record_name r) = Some entry
    \<and> cloudkit_delete_record_zone_matches entry r
    \<and> (case st of
         None \<Rightarrow> get_str ''recordChangeTag'' entry = Some (dr_record_change_tag r) \<and> \<not> reads_deleted entry
       | Some out \<Rightarrow> do_record_name out = dr_record_name r
           \<and> get_str ''recordChangeTag'' entry = Some (do_record_change_tag out)
           \<and> do_record_change_tag out \<noteq> dr_record_change_tag r
           \<and> \<not> is_blank (do_record_change_tag out) \<and> reads_deleted entry)"
  using assms
  by (auto simp: lookup_record_state_def bind_ok_eq_Ok reads_deleted_def json_as_i64_def
      split: if_splits option.splits json.splits number.splits)

text \<open>A lookup sorts every request into deleted or not, in order: a request comes back for resending
  only if a record of the answer in its zone has the very change tag it asked for and does not read
  deleted, and it counts as deleted only if its record reads deleted under a new change tag.\<close>

theorem lookup_never_resends_after_drift:
  assumes "parse_cloudkit_delete_state_lookup_response v rs = Ok result"
    and "json_get ''records'' v = Some (JArray records)"
  shows "(\<forall>r\<in>set (sl_unconfirmed result). r \<in> set rs \<and> (\<exists>entry\<in>set records.
            cloudkit_delete_record_zone_matches entry r
            \<and> get_str ''recordChangeTag'' entry = Some (dr_record_change_tag r) \<and> \<not> reads_deleted entry))
    \<and> (\<forall>out\<in>set (sl_confirmed_deleted result). \<exists>r\<in>set rs. \<exists>entry\<in>set records.
            do_record_name out = dr_record_name r \<and> cloudkit_delete_record_zone_matches entry r
            \<and> get_str ''recordChangeTag'' entry = Some (do_record_change_tag out)
            \<and> do_record_change_tag out \<noteq> dr_record_change_tag r \<and> reads_deleted entry)
    \<and> length (sl_unconfirmed result) + length (sl_confirmed_deleted result) = length rs"
proof -
  from assms obtain by_name states where ix: "index_lookup_records records [] = Inr by_name"
    and st: "try_map (lookup_record_state by_name) rs = Inr states"
    and res: "sl_confirmed_deleted result = List.map_filter id states"
      "sl_unconfirmed result = map fst (filter (\<lambda>(r, s). s = None) (zip rs states))"
    by (auto simp: parse_cloudkit_delete_state_lookup_response_def bind_ok_eq_Ok split: if_splits)
  from st have len: "length states = length rs" by (auto simp: try_map_eq_Ok dest: map_eq_imp_length_eq)
  have each: "lookup_record_state by_name r = Inr s" if "(r, s) \<in> set (zip rs states)" for r s
    using st that len by (auto simp: try_map_eq_Ok in_set_zip list_eq_iff_nth_eq)
  have entry: "entry \<in> set records" if "bt_get by_name n = Some entry" for n entry
    using index_lookup_eq_Ok [OF ix that] by simp
  have "\<forall>r\<in>set (sl_unconfirmed result). r \<in> set rs \<and> (\<exists>entry\<in>set records.
            cloudkit_delete_record_zone_matches entry r
            \<and> get_str ''recordChangeTag'' entry = Some (dr_record_change_tag r) \<and> \<not> reads_deleted entry)"
    using entry each by (fastforce simp: res dest: lookup_state_eq_Ok set_zip_leftD)
  moreover have "\<forall>out\<in>set (sl_confirmed_deleted result). \<exists>r\<in>set rs. \<exists>entry\<in>set records.
            do_record_name out = dr_record_name r \<and> cloudkit_delete_record_zone_matches entry r
            \<and> get_str ''recordChangeTag'' entry = Some (do_record_change_tag out)
            \<and> do_record_change_tag out \<noteq> dr_record_change_tag r \<and> reads_deleted entry"
  proof
    fix out
    assume "out \<in> set (sl_confirmed_deleted result)"
    then have "Some out \<in> set states" by (auto simp: res map_filter_def)
    with len obtain r where r: "(r, Some out) \<in> set (zip rs states)"
      by (metis in_set_impl_in_set_zip2)
    then have "r \<in> set rs" by (rule set_zip_leftD)
    with lookup_state_eq_Ok [OF each [OF r]] entry
    show "\<exists>r\<in>set rs. \<exists>entry\<in>set records.
            do_record_name out = dr_record_name r \<and> cloudkit_delete_record_zone_matches entry r
            \<and> get_str ''recordChangeTag'' entry = Some (do_record_change_tag out)
            \<and> do_record_change_tag out \<noteq> dr_record_change_tag r \<and> reads_deleted entry" by auto
  qed
  moreover have "length (filter (\<lambda>(r, s). s = None) (zip rs states)) + length (List.map_filter id states)
      = length rs"
    using len by (induction rs states rule: list_induct2') (auto simp: map_filter_simps split: option.splits)
  ultimately show ?thesis by (simp add: res)
qed

subsection \<open>Instances\<close>

definition sample_request :: "string \<Rightarrow> cloudkit_delete_request" where
  "sample_request n =
     \<lparr>dr_record_name = n, dr_record_change_tag = ''t1'', dr_database_scope = Private,
      dr_zone_name = PRIMARY_SYNC_ZONE, dr_owner_record_name = None\<rparr>"

definition sample_session :: delete_session where
  "sample_session = \<lparr>ds_database_scope = Private, ds_zone = primary_sync\<rparr>"

definition sample_answer :: "u64 \<Rightarrow> string \<Rightarrow> string \<Rightarrow> json" where
  "sample_answer deleted tag n =
     jobject
      [(''recordName'', JString n), (''recordChangeTag'', JString tag),
       (''fields'', jobject [(''isDeleted'', jobject [(''value'', ser_u64 deleted)])])]"

definition sample_records :: "json list \<Rightarrow> json" where
  "sample_records rs = JObject [(''records'', JArray rs)]"

definition sample_outcome :: "string \<Rightarrow> cloudkit_delete_outcome" where
  "sample_outcome n = \<lparr>do_record_name = n, do_record_change_tag = ''t2''\<rparr>"

definition sample_post :: "json \<Rightarrow> upload_error + json" where
  "sample_post _ = Ok (sample_records [sample_answer 1 ''t2'' ''B'', sample_answer 1 ''t2'' ''A''])"

definition sample_batch :: "cloudkit_delete_request list" where
  "sample_batch = [sample_request ''A'', sample_request ''B'']"

lemma sample_valid: "n \<in> {''A'', ''B''} \<Longrightarrow> validate_cloudkit_delete_request (sample_request n) = Inr ()"
  by (auto simp: valid_request sample_request_def request_destination_def destination_eq_Ok byte_def)

lemma sample_destination_request: "request_destination (sample_request n) = primary_sync"
  by (simp add: request_destination_def sample_request_def primary_sync_def)

lemma sample_session_valid: "validate_session_destination sample_session primary_sync = Inr ()"
  by (simp add: validate_session_destination_def destination_eq_Ok sample_session_def)
    (simp add: primary_sync_def)

lemma sample_answer_get [simp]:
  "json_get ''recordName'' (sample_answer d t n) = Some (JString n)"
  "json_get ''recordChangeTag'' (sample_answer d t n) = Some (JString t)"
  "json_get ''serverErrorCode'' (sample_answer d t n) = None"
  "json_get ''zoneID'' (sample_answer d t n) = None"
  "json_get ''recordType'' (sample_answer d t n) = None"
  "is_deleted_field (sample_answer d t n) = Some (ser_u64 d)"
  by (simp_all add: sample_answer_def is_deleted_field_def)

lemma sample_records_get [simp]: "json_get ''records'' (sample_records rs) = Some (JArray rs)"
  by (simp add: sample_records_def bt_get_def)

lemma sample_confirms: "confirms (sample_answer 1 ''t2'' n) (sample_request n) (sample_outcome n)"
  by (simp add: confirms_def get_str_def reads_deleted_def sample_request_def sample_outcome_def
      cloudkit_delete_record_zone_matches_def ser_u64_def json_as_i64_def byte_def)

lemma sample_lookup_states:
  "bt_get m n = Some (sample_answer 1 ''t2'' n) \<Longrightarrow>
     lookup_record_state m (sample_request n) = Inr (Some (sample_outcome n))"
  "bt_get m n = Some (sample_answer 0 ''t1'' n) \<Longrightarrow>
     lookup_record_state m (sample_request n) = Inr None"
  by (simp_all add: lookup_record_state_def get_str_def ser_u64_def json_as_i64_def json_as_bool_def
      cloudkit_delete_record_zone_matches_def sample_request_def sample_outcome_def byte_def)

lemma sample_batch_parse:
  assumes "set rs = {sample_answer 1 ''t2'' ''A'', sample_answer 1 ''t2'' ''B''}" "length rs = 2"
  shows "parse_cloudkit_delete_batch_response (sample_records rs) sample_batch
    = Inr [sample_outcome ''A'', sample_outcome ''B'']"
proof -
  have "distinct rs" using assms
    by (intro card_distinct) (simp add: sample_answer_def jobject_def, code_simp)
  have "distinct (map (get_str ''recordName'') rs)"
    using assms \<open>distinct rs\<close> by (auto simp: distinct_map get_str_def)
  with assms sample_confirms show ?thesis
    by (auto simp: batch_response_eq_Ok sample_batch_def list_all_iff get_str_def less_Suc_eq)
qed

theorem single_delete_is_confirmed_witness:
  "\<exists>entry. confirms entry (sample_request ''A'') (sample_outcome ''A'')"
proof -
  have "delete_cpl_asset (\<lambda>_. Ok (sample_records [sample_answer 1 ''t2'' ''A''])) sample_session
      (sample_request ''A'') = Ok (sample_outcome ''A'')"
    using sample_confirms [of "''A''"]
    by (simp add: delete_cpl_asset_def bind_ok_eq_Ok sample_valid sample_destination_request
        sample_session_valid parse_cloudkit_delete_response_def parse_delete_record_eq_Ok)
  from single_delete_is_confirmed [OF this] show ?thesis by blast
qed

lemma sample_batch_Ok:
  "delete_originals_batch sample_post sample_session sample_batch
     = Ok [sample_outcome ''A'', sample_outcome ''B'']"
proof -
  have "validate_cloudkit_delete_batch_request sample_batch = Inr ()"
    by (simp add: valid_batch_iff sample_batch_def sample_valid sample_destination_request)
      (simp add: sample_request_def)
  moreover have "cloudkit_delete_batch_destination sample_batch = Inr primary_sync"
    by (simp add: cloudkit_delete_batch_destination_def sample_batch_def sample_destination_request)
  ultimately show ?thesis
    by (simp add: delete_originals_batch_def sample_session_valid sample_post_def sample_batch_parse
        insert_commute)
qed

theorem batch_delete_confirms_each_witness:
  "distinct (map dr_record_name sample_batch)
     \<and> (\<exists>records. \<forall>i < 2. \<exists>entry\<in>set records.
          confirms entry (sample_batch ! i) ([sample_outcome ''A'', sample_outcome ''B''] ! i))"
proof -
  have "length sample_batch = 2" by (simp add: sample_batch_def)
  with batch_delete_confirms_each [OF sample_batch_Ok] show ?thesis by auto
qed

theorem batch_answer_order_is_irrelevant_witness:
  "parse_cloudkit_delete_batch_response
     (sample_records [sample_answer 1 ''t2'' ''A'', sample_answer 1 ''t2'' ''B'']) sample_batch
     = Ok [sample_outcome ''A'', sample_outcome ''B'']"
proof (rule batch_answer_order_is_irrelevant)
  show "json_get ''records'' (sample_records [sample_answer 1 ''t2'' ''B'', sample_answer 1 ''t2'' ''A''])
      = Some (JArray [sample_answer 1 ''t2'' ''B'', sample_answer 1 ''t2'' ''A''])" by simp
  show "json_get ''records'' (sample_records [sample_answer 1 ''t2'' ''A'', sample_answer 1 ''t2'' ''B''])
      = Some (JArray [sample_answer 1 ''t2'' ''A'', sample_answer 1 ''t2'' ''B''])" by simp
  show "mset [sample_answer 1 ''t2'' ''B'', sample_answer 1 ''t2'' ''A'']
      = mset [sample_answer 1 ''t2'' ''A'', sample_answer 1 ''t2'' ''B'']" by simp
  show "parse_cloudkit_delete_batch_response
      (sample_records [sample_answer 1 ''t2'' ''B'', sample_answer 1 ''t2'' ''A'']) sample_batch
      = Ok [sample_outcome ''A'', sample_outcome ''B'']" by (rule sample_batch_parse) auto
qed

theorem refused_batch_reaches_no_transport_witness:
  "delete_originals_batch_with_preflight (\<lambda>_. Err (UploadTransportFailed ''network'')) (\<lambda>_. Err ''stale'')
     sample_session sample_batch = Err (Preflight ''stale'')"
proof -
  have "delete_originals_batch_with_preflight sample_post (\<lambda>_. Err ''stale'') sample_session sample_batch
      = Err (Preflight ''stale'')"
  proof -
    have "validate_cloudkit_delete_batch_request sample_batch = Inr ()"
      by (simp add: valid_batch_iff sample_batch_def sample_valid sample_destination_request)
        (simp add: sample_request_def)
    moreover have "cloudkit_delete_batch_destination sample_batch = Inr primary_sync"
      by (simp add: cloudkit_delete_batch_destination_def sample_batch_def sample_destination_request)
    ultimately show ?thesis
      by (simp add: delete_originals_batch_with_preflight_def sample_session_valid)
  qed
  from refused_batch_reaches_no_transport [OF this, of "\<lambda>_. Err (UploadTransportFailed ''network'')"]
  show ?thesis by (simp add: transport_was_called_def)
qed

theorem lookup_never_resends_after_drift_witness:
  "\<exists>entry\<in>set [sample_answer 1 ''t2'' ''A'', sample_answer 0 ''t1'' ''B''].
     get_str ''recordChangeTag'' entry = Some ''t1'' \<and> \<not> reads_deleted entry"
proof -
  let ?rs = "[sample_answer 1 ''t2'' ''A'', sample_answer 0 ''t1'' ''B'']"
  have "parse_cloudkit_delete_state_lookup_response (sample_records ?rs) sample_batch
      = Ok \<lparr>sl_confirmed_deleted = [sample_outcome ''A''], sl_unconfirmed = [sample_request ''B'']\<rparr>"
    by (simp add: parse_cloudkit_delete_state_lookup_response_def response_records_def sample_batch_def
        get_str_def bt_get_def bt_contains_def sample_lookup_states map_filter_simps)
  from lookup_never_resends_after_drift [OF this, of ?rs]
  show ?thesis by (auto simp: sample_request_def)
qed

end
