(* ===== verification/Nas_Proof.thy ===== *)
theory Nas_Proof
  imports Json
begin

section \<open>The proof that a RAW file is old and stable\<close>

text \<open>
  \<open>src/src/proof.rs\<close>. The function reads the file system in a fixed order of calls; between two
  of them anything may change. So what each call observes is an argument (\<open>raw_observations\<close>), and
  the theorems say what a proof means whatever was observed. SHA-256 is an argument. The causes of
  I/O errors are dropped.
\<close>

type_synonym i64 = int

definition DAY_SECONDS :: u64 where
  [model_defs]: "DAY_SECONDS = 86400"

definition MIN_RAW_AGE_DAYS :: u64 where
  [model_defs]: "MIN_RAW_AGE_DAYS = 30"

definition MIN_RAW_AGE_SECONDS :: u64 where
  [model_defs]: "MIN_RAW_AGE_SECONDS = MIN_RAW_AGE_DAYS * DAY_SECONDS"

definition RAW_EXTENSIONS :: "string list" where
  [model_defs]: "RAW_EXTENSIONS =
     [''dng'', ''cr2'', ''cr3'', ''nef'', ''arw'', ''raf'', ''rw2'', ''orf'', ''pef'', ''srw'', ''raw'']"

record nas_raw_proof =
  nr_canonical_path :: path
  nr_relative_path :: path
  nr_size_bytes :: u64
  nr_modified_unix_seconds :: u64
  nr_age_seconds :: u64
  nr_sha256 :: string

record raw_file_fingerprint =
  rf_canonical_path :: path
  rf_len :: u64
  rf_modified_unix_seconds :: i64
  rf_modified_unix_nanos :: i64
  rf_dev :: u64
  rf_ino :: u64
  rf_ctime :: i64
  rf_ctime_nsec :: i64

datatype proof_error =
    CanonicalizeNasRoot path
  | CanonicalizeRaw path
  | NasRootNotDirectory path
  | OutsideNasRoot path path
  | MissingRawExtension path
  | UnsupportedRawExtension path string
  | NotRegularFile path
  | ReadMetadata path
  | ModifiedInFuture path
  | ModifiedBeforeUnixEpoch path
  | RawTooNew path u64 u64
  | MinAgeBelowSafetyFloor u64 u64
  | MinAgeSecondsBelowSafetyFloor u64 u64
  | OpenRaw path
  | ReadRaw path
  | RawChangedDuringProof path
  | RawPathChangedDuringProof path "path option"

text \<open>What a call to \<open>metadata\<close> returns, on a Unix system.\<close>

record metadata =
  md_is_dir :: bool
  md_is_file :: bool
  md_len :: u64
  md_modified :: system_time
  md_mtime :: i64
  md_mtime_nsec :: i64
  md_dev :: u64
  md_ino :: u64
  md_ctime :: i64
  md_ctime_nsec :: i64

definition from_metadata :: "path \<Rightarrow> metadata \<Rightarrow> raw_file_fingerprint" where
  "from_metadata p m =
     \<lparr>rf_canonical_path = p, rf_len = md_len m, rf_modified_unix_seconds = md_mtime m,
      rf_modified_unix_nanos = md_mtime_nsec m, rf_dev = md_dev m, rf_ino = md_ino m,
      rf_ctime = md_ctime m, rf_ctime_nsec = md_ctime_nsec m\<rparr>"

text \<open>\<open>==\<close> of fingerprints compares the paths by components.\<close>

definition fingerprint_eq :: "raw_file_fingerprint \<Rightarrow> raw_file_fingerprint \<Rightarrow> bool" where
  "fingerprint_eq a b \<longleftrightarrow>
     path_eq (rf_canonical_path a) (rf_canonical_path b)
     \<and> rf_len a = rf_len b
     \<and> rf_modified_unix_seconds a = rf_modified_unix_seconds b
     \<and> rf_modified_unix_nanos a = rf_modified_unix_nanos b
     \<and> rf_dev a = rf_dev b \<and> rf_ino a = rf_ino b
     \<and> rf_ctime a = rf_ctime b \<and> rf_ctime_nsec a = rf_ctime_nsec b"

lemma fingerprint_eq_refl [simp]: "fingerprint_eq a a"
  by (simp add: fingerprint_eq_def)

lemma fingerprint_eq_sym: "fingerprint_eq a b \<Longrightarrow> fingerprint_eq b a"
  by (auto simp: fingerprint_eq_def intro: path_eq_sym)

lemma fingerprint_eq_trans: "fingerprint_eq a b \<Longrightarrow> fingerprint_eq b c \<Longrightarrow> fingerprint_eq a c"
  by (auto simp: fingerprint_eq_def intro: path_eq_trans)

text \<open>The observations in the order of the calls; \<open>None\<close> is a call that failed.\<close>

record raw_observations =
  ob_root :: "path option"
  ob_root_metadata :: "metadata option"
  ob_raw :: "path option"
  ob_open :: bool
  ob_before :: "metadata option"
  ob_content :: "string option"
  ob_after :: "metadata option"
  ob_final_raw :: "path option"
  ob_final :: "metadata option"

definition path_starts_with :: "path \<Rightarrow> path \<Rightarrow> bool" where
  "path_starts_with p base \<longleftrightarrow> take (length (components base)) (components p) = components base"

definition raw_extension :: "path \<Rightarrow> proof_error + string" where
  "raw_extension p =
     (case path_extension p of None \<Rightarrow> Err (MissingRawExtension p)
      | Some e \<Rightarrow> Ok (to_ascii_lowercase e))"

definition prove_nas_raw_with_min_age_seconds ::
  "(string \<Rightarrow> string) \<Rightarrow> raw_observations \<Rightarrow> path \<Rightarrow> path \<Rightarrow> u64 \<Rightarrow> system_time
     \<Rightarrow> proof_error + nas_raw_proof \<times> raw_file_fingerprint"
where
  "prove_nas_raw_with_min_age_seconds sha256_hex ob requested_root requested_raw min_age_seconds now =
     bind_ok (fail_if (min_age_seconds < MIN_RAW_AGE_SECONDS)
       (MinAgeSecondsBelowSafetyFloor min_age_seconds MIN_RAW_AGE_SECONDS)) (\<lambda>_.
     bind_ok (ok_or (CanonicalizeNasRoot requested_root) (ob_root ob)) (\<lambda>root.
     bind_ok (ok_or (ReadMetadata root) (ob_root_metadata ob)) (\<lambda>root_metadata.
     bind_ok (fail_if (\<not> md_is_dir root_metadata) (NasRootNotDirectory root)) (\<lambda>_.
     bind_ok (ok_or (CanonicalizeRaw requested_raw) (ob_raw ob)) (\<lambda>raw.
     bind_ok (fail_if (\<not> path_starts_with raw root) (OutsideNasRoot root raw)) (\<lambda>_.
     bind_ok (ok_or (OutsideNasRoot root raw) (strip_prefix raw root)) (\<lambda>relative.
     bind_ok (fail_if (\<not> ob_open ob) (OpenRaw raw)) (\<lambda>_.
     bind_ok (ok_or (ReadMetadata raw) (ob_before ob)) (\<lambda>before.
     bind_ok (fail_if (\<not> md_is_file before) (NotRegularFile raw)) (\<lambda>_.
     bind_ok (raw_extension raw) (\<lambda>extension.
     bind_ok (fail_if (extension \<notin> set RAW_EXTENSIONS) (UnsupportedRawExtension raw extension)) (\<lambda>_.
     bind_ok (ok_or (ModifiedInFuture raw) (duration_since now (md_modified before))) (\<lambda>age.
     bind_ok (fail_if (age < from_secs min_age_seconds)
       (RawTooNew raw (as_secs age) (as_secs (from_secs min_age_seconds)))) (\<lambda>_.
     bind_ok (ok_or (ModifiedBeforeUnixEpoch raw) (duration_since (md_modified before) 0)) (\<lambda>since_epoch.
     bind_ok (ok_or (ReadRaw raw) (ob_content ob)) (\<lambda>content.
     bind_ok (ok_or (ReadMetadata raw) (ob_after ob)) (\<lambda>after_hash.
     bind_ok (fail_if (\<not> fingerprint_eq (from_metadata raw before) (from_metadata raw after_hash))
       (RawChangedDuringProof raw)) (\<lambda>_.
     bind_ok (ok_or (RawPathChangedDuringProof raw None) (ob_final_raw ob)) (\<lambda>final_raw.
     bind_ok (fail_if (\<not> path_eq final_raw raw) (RawPathChangedDuringProof raw (Some final_raw))) (\<lambda>_.
     bind_ok (ok_or (RawPathChangedDuringProof raw (Some final_raw)) (ob_final ob)) (\<lambda>final.
     bind_ok (fail_if (\<not> fingerprint_eq (from_metadata raw after_hash) (from_metadata final_raw final))
       (RawChangedDuringProof raw)) (\<lambda>_.
     Ok (\<lparr>nr_canonical_path = raw, nr_relative_path = relative, nr_size_bytes = md_len before,
          nr_modified_unix_seconds = as_secs since_epoch, nr_age_seconds = as_secs age,
          nr_sha256 = sha256_hex content\<rparr>,
         from_metadata final_raw final)))))))))))))))))))))))"

definition prove_nas_raw ::
  "(string \<Rightarrow> string) \<Rightarrow> raw_observations \<Rightarrow> path \<Rightarrow> path \<Rightarrow> u64 \<Rightarrow> system_time
     \<Rightarrow> proof_error + nas_raw_proof"
where
  "prove_nas_raw sha256_hex ob requested_root requested_raw min_age_days now =
     (if min_age_days < MIN_RAW_AGE_DAYS
      then Err (MinAgeBelowSafetyFloor min_age_days MIN_RAW_AGE_DAYS)
      else map_ok fst
        (prove_nas_raw_with_min_age_seconds sha256_hex ob requested_root requested_raw
          (saturating_mul min_age_days DAY_SECONDS) now))"

text \<open>\<open>RawFileFingerprint::capture\<close>: a canonical path and the metadata found there.\<close>

record capture_observations =
  co_path :: "path option"
  co_metadata :: "metadata option"

definition capture :: "capture_observations \<Rightarrow> path \<Rightarrow> proof_error + raw_file_fingerprint" where
  "capture ob requested =
     bind_ok (ok_or (CanonicalizeRaw requested) (co_path ob)) (\<lambda>p.
     bind_ok (ok_or (ReadMetadata p) (co_metadata ob)) (\<lambda>m.
     bind_ok (fail_if (\<not> md_is_file m) (NotRegularFile p)) (\<lambda>_.
     Ok (from_metadata p m))))"

subsection \<open>What a proof means\<close>

text \<open>The facts a proof rests on, over the observations that were made.\<close>

definition raw_facts :: "(string \<Rightarrow> string) \<Rightarrow> raw_observations \<Rightarrow> u64 \<Rightarrow> system_time
    \<Rightarrow> nas_raw_proof \<Rightarrow> raw_file_fingerprint \<Rightarrow> bool" where
  "raw_facts sha256_hex ob min_age now p fp \<longleftrightarrow>
     (case (ob_root ob, ob_raw ob, ob_before ob, ob_content ob, ob_after ob, ob_final_raw ob, ob_final ob) of
        (Some root, Some raw, Some before, Some content, Some after_hash, Some final_raw, Some final) \<Rightarrow>
          path_starts_with raw root \<and> md_is_file before
          \<and> (\<exists>extension\<in>set RAW_EXTENSIONS. map_option to_ascii_lowercase (path_extension raw) = Some extension)
          \<and> 0 \<le> md_modified before \<and> md_modified before \<le> now
          \<and> from_secs min_age \<le> nat (now - md_modified before)
          \<and> fingerprint_eq (from_metadata raw before) (from_metadata raw after_hash)
          \<and> path_eq final_raw raw
          \<and> fingerprint_eq (from_metadata raw after_hash) (from_metadata final_raw final)
          \<and> p = \<lparr>nr_canonical_path = raw, nr_relative_path = the (strip_prefix raw root),
                 nr_size_bytes = md_len before,
                 nr_modified_unix_seconds = as_secs (nat (md_modified before)),
                 nr_age_seconds = as_secs (nat (now - md_modified before)),
                 nr_sha256 = sha256_hex content\<rparr>
          \<and> fp = from_metadata final_raw final
      | _ \<Rightarrow> False)"

lemma prove_Ok_facts:
  assumes "prove_nas_raw_with_min_age_seconds sha256_hex ob root0 raw0 min_age now = Inr (p, fp)"
  shows "MIN_RAW_AGE_SECONDS \<le> min_age \<and> raw_facts sha256_hex ob min_age now p fp"
  using assms unfolding prove_nas_raw_with_min_age_seconds_def raw_facts_def
  by (clarsimp simp: bind_ok_eq_Ok raw_extension_def duration_since_def not_less
      split: option.split_asm if_split_asm)

lemma unat_min_age: "unat MIN_RAW_AGE_SECONDS = 2592000"
  by (simp add: model_defs)

lemma prove_days_Ok:
  assumes "prove_nas_raw sha256_hex ob root0 raw0 days now = Inr p"
  shows "MIN_RAW_AGE_DAYS \<le> days
    \<and> (\<exists>fp. raw_facts sha256_hex ob (saturating_mul days DAY_SECONDS) now p fp)"
  using assms
  by (auto simp: prove_nas_raw_def map_ok_eq_Ok not_less split: if_splits dest!: prove_Ok_facts)

text \<open>C21: A proof of a RAW file says that a regular file with a RAW extension under the NAS root was at
  least thirty days old, that its hash is that of the bytes read, and that the file found at the
  path at the end is the one that was opened, unchanged: device, inode, size and both time stamps
  agree.\<close>

theorem nas_proof_is_sound:
  assumes "prove_nas_raw sha256_hex ob root0 raw0 days now = Ok p"
  shows "\<exists>root before content final.
      ob_root ob = Some root \<and> ob_before ob = Some before \<and> ob_content ob = Some content
      \<and> ob_final ob = Some final
      \<and> path_starts_with (nr_canonical_path p) root \<and> md_is_file before
      \<and> (\<exists>extension. path_extension (nr_canonical_path p) = Some extension
            \<and> to_ascii_lowercase extension \<in> set RAW_EXTENSIONS)
      \<and> 30 * 86400 * 1000000000 \<le> now - md_modified before
      \<and> nr_sha256 p = sha256_hex content
      \<and> nr_size_bytes p = md_len final
      \<and> (md_dev final, md_ino final, md_mtime final, md_mtime_nsec final, md_ctime final, md_ctime_nsec final)
        = (md_dev before, md_ino before, md_mtime before, md_mtime_nsec before, md_ctime before, md_ctime_nsec before)"
proof -
  from prove_days_Ok [OF assms] obtain fp where days: "MIN_RAW_AGE_DAYS \<le> days"
    and facts: "raw_facts sha256_hex ob (saturating_mul days DAY_SECONDS) now p fp" by blast
  have "unat (saturating_mul days DAY_SECONDS) \<ge> 2592000"
  proof -
    have "30 \<le> unat days" using days by (simp add: model_defs word_le_nat_alt)
    then show ?thesis by (simp add: unat_saturating_mul model_defs)
  qed
  then have "30 * 86400 * 1000000000 \<le> from_secs (saturating_mul days DAY_SECONDS)"
    by (simp add: from_secs_def nanos_per_second_def)
  with facts show ?thesis
    by (auto simp: raw_facts_def fingerprint_eq_def from_metadata_def split: option.splits)
qed

definition sample_metadata :: metadata where
  "sample_metadata =
     \<lparr>md_is_dir = True, md_is_file = True, md_len = 9, md_modified = 0, md_mtime = 0, md_mtime_nsec = 0,
      md_dev = 1, md_ino = 2, md_ctime = 0, md_ctime_nsec = 0\<rparr>"

definition sample_observations :: raw_observations where
  "sample_observations =
     \<lparr>ob_root = Some ''/nas'', ob_root_metadata = Some sample_metadata, ob_raw = Some ''/nas/c/a.DNG'',
      ob_open = True, ob_before = Some sample_metadata, ob_content = Some ''bytes'',
      ob_after = Some sample_metadata, ob_final_raw = Some ''/nas/c/a.DNG'', ob_final = Some sample_metadata\<rparr>"

definition sample_nas_proof :: nas_raw_proof where
  "sample_nas_proof =
     \<lparr>nr_canonical_path = ''/nas/c/a.DNG'', nr_relative_path = ''c/a.DNG'', nr_size_bytes = 9,
      nr_modified_unix_seconds = 0, nr_age_seconds = 2592000, nr_sha256 = ''bytes''\<rparr>"

lemma sample_paths:
  "path_starts_with ''/nas/c/a.DNG'' ''/nas''" "strip_prefix ''/nas/c/a.DNG'' ''/nas'' = Some ''c/a.DNG''"
  "path_extension ''/nas/c/a.DNG'' = Some ''DNG''" "to_ascii_lowercase ''DNG'' = ''dng''"
  by code_simp+

lemma sample_nas_proof_Ok:
  "prove_nas_raw (\<lambda>content. content) sample_observations ''/nas'' ''/nas/c/a.DNG'' 30 2592000000000000
     = Ok sample_nas_proof"
proof -
  have "saturating_mul 30 DAY_SECONDS = 2592000"
    by (simp add: saturating_mul_def model_defs)
  then show ?thesis
    by (simp add: prove_nas_raw_def prove_nas_raw_with_min_age_seconds_def sample_observations_def
        sample_metadata_def sample_paths raw_extension_def duration_since_def from_secs_def as_secs_def
        nanos_per_second_def sample_nas_proof_def model_defs)
qed

theorem nas_proof_is_sound_witness:
  "\<exists>before. ob_before sample_observations = Some before
     \<and> 30 * 86400 * 1000000000 \<le> 2592000000000000 - md_modified before"
  using nas_proof_is_sound [OF sample_nas_proof_Ok] by blast

text \<open>The floor of thirty days holds whatever the caller asks for.\<close>

lemma min_age_floor:
  "days < MIN_RAW_AGE_DAYS \<Longrightarrow>
     prove_nas_raw sha256_hex ob root0 raw0 days now = Inl (MinAgeBelowSafetyFloor days MIN_RAW_AGE_DAYS)"
  by (simp add: prove_nas_raw_def)

subsection \<open>Codec\<close>

definition ser_nas_raw_proof :: "nas_raw_proof \<Rightarrow> json" where
  "ser_nas_raw_proof p =
     jobject
      [(''canonical_path'', JString (nr_canonical_path p)),
       (''relative_path'', JString (nr_relative_path p)),
       (''size_bytes'', ser_u64 (nr_size_bytes p)),
       (''modified_unix_seconds'', ser_u64 (nr_modified_unix_seconds p)),
       (''age_seconds'', ser_u64 (nr_age_seconds p)),
       (''sha256'', JString (nr_sha256 p))]"

definition de_nas_raw_proof :: "json \<Rightarrow> nas_raw_proof option" where
  "de_nas_raw_proof j =
     Option.bind (struct_fields (plain
       [''canonical_path'', ''relative_path'', ''size_bytes'', ''modified_unix_seconds'', ''age_seconds'', ''sha256'']) j) (\<lambda>src.
     Option.bind (field_req src ''canonical_path'' de_string) (\<lambda>canonical_path.
     Option.bind (field_req src ''relative_path'' de_string) (\<lambda>relative_path.
     Option.bind (field_req src ''size_bytes'' de_u64) (\<lambda>size_bytes.
     Option.bind (field_req src ''modified_unix_seconds'' de_u64) (\<lambda>modified.
     Option.bind (field_req src ''age_seconds'' de_u64) (\<lambda>age.
     Option.bind (field_req src ''sha256'' de_string) (\<lambda>sha256.
     Some \<lparr>nr_canonical_path = canonical_path, nr_relative_path = relative_path, nr_size_bytes = size_bytes,
           nr_modified_unix_seconds = modified, nr_age_seconds = age, nr_sha256 = sha256\<rparr>)))))))"

interpretation nas_codec: codec ser_nas_raw_proof de_nas_raw_proof
  by unfold_locales
    (simp add: ser_nas_raw_proof_def de_nas_raw_proof_def struct_fields_plain_jobject field_req_def)

end
