(* ===== verification/Adjusted_Source.thy ===== *)
theory Adjusted_Source
  imports Cloudkit
begin

section \<open>Adjusted sources: the proof, its lineage and the resolver\<close>

text \<open>
  From \<open>src/src/adjusted_source.rs\<close>: the proof record with its codec and digest, the validation of
  its fields against the original asset, the parsers of the CloudKit records that name the adjusted
  JPEG, and the resolver's sequence of steps. The original asset's proof of \<open>src/src/workflow.rs\<close>
  comes first. What the operating system and the JPEG decoder answer are arguments
  (\<open>resolve_world\<close>, \<open>installed_source\<close>), as are URL parsing, SHA-256 and the printing of floats.
\<close>

subsection \<open>The proof of the original asset\<close>

record original_asset_proof =
  oa_record_name :: string
  oa_record_change_tag :: string
  oa_record_type :: string
  oa_database_scope :: cloudkit_database_scope
  oa_zone_name :: string
  oa_owner_record_name :: "string option"
  oa_filename :: string
  oa_size_bytes :: u64
  oa_matched_raw_sha256 :: string

definition ser_original_asset_proof :: "original_asset_proof \<Rightarrow> json" where
  "ser_original_asset_proof p =
     jobject
      ([(''record_name'', JString (oa_record_name p)),
        (''record_change_tag'', JString (oa_record_change_tag p)),
        (''record_type'', JString (oa_record_type p)),
        (''database_scope'', ser_scope (oa_database_scope p)),
        (''zone_name'', JString (oa_zone_name p)),
        (''filename'', JString (oa_filename p)),
        (''size_bytes'', ser_u64 (oa_size_bytes p)),
        (''matched_raw_sha256'', JString (oa_matched_raw_sha256 p))]
       @ ser_skip_none ''owner_record_name'' JString (oa_owner_record_name p))"

definition de_original_asset_proof :: "json \<Rightarrow> original_asset_proof option" where
  "de_original_asset_proof j =
     Option.bind (struct_fields (plain
       [''record_name'', ''record_change_tag'', ''record_type'', ''database_scope'', ''zone_name'',
        ''owner_record_name'', ''filename'', ''size_bytes'', ''matched_raw_sha256'']) j) (\<lambda>src.
     Option.bind (field_req src ''record_name'' de_string) (\<lambda>record_name.
     Option.bind (field_req src ''record_change_tag'' de_string) (\<lambda>record_change_tag.
     Option.bind (field_req src ''record_type'' de_string) (\<lambda>record_type.
     Option.bind (field_default src ''database_scope'' Private de_scope) (\<lambda>scope.
     Option.bind (field_default src ''zone_name'' PRIMARY_SYNC_ZONE de_string) (\<lambda>zone_name.
     Option.bind (field_default src ''owner_record_name'' None (de_option de_string)) (\<lambda>owner.
     Option.bind (field_req src ''filename'' de_string) (\<lambda>filename.
     Option.bind (field_req src ''size_bytes'' de_u64) (\<lambda>size_bytes.
     Option.bind (field_req src ''matched_raw_sha256'' de_string) (\<lambda>sha256.
     Some \<lparr>oa_record_name = record_name, oa_record_change_tag = record_change_tag,
           oa_record_type = record_type, oa_database_scope = scope, oa_zone_name = zone_name,
           oa_owner_record_name = owner, oa_filename = filename, oa_size_bytes = size_bytes,
           oa_matched_raw_sha256 = sha256\<rparr>))))))))))"

lemmas struct_decode_simps = struct_fields_plain_jobject field_req_def field_opt_def field_default_def
  ser_skip_none_def de_option_def

lemma ser_scope_not_null [simp]: "ser_scope s \<noteq> JNull"
  by (simp add: ser_scope_def)

interpretation original_asset_codec: codec ser_original_asset_proof de_original_asset_proof
proof
  fix p
  show "de_original_asset_proof (ser_original_asset_proof p) = Some p"
    by (cases "oa_owner_record_name p")
      (simp_all add: ser_original_asset_proof_def de_original_asset_proof_def struct_decode_simps)
qed

definition original_destination :: "original_asset_proof \<Rightarrow> cloudkit_library_destination" where
  "original_destination p =
     \<lparr>ld_database_scope = oa_database_scope p, ld_zone_name = oa_zone_name p,
      ld_owner_record_name = oa_owner_record_name p\<rparr>"

subsection \<open>The proof of an adjusted source\<close>

datatype adjusted_source_error =
    AdjInvalidRequest string
  | AdjInvalidResponse string
  | AdjInvalidResourceUrl
  | AdjLookupTransport
  | AdjDownloadTransport
  | AdjInvalidTemporaryFile
  | AdjUnsafeOutputPath
  | AdjExistingOutputMismatch
  | AdjDownloadedSizeMismatch
  | AdjDeclaredResourceTooLarge
  | AdjDownloadedHashMismatch
  | AdjInstalledOutputMismatch
  | AdjInvalidJpeg
  | AdjInvalidProof
  | AdjProofMismatch
  | AdjProofLocalFileMissing
  | AdjProofLocalFileMismatch
  | AdjFilesystem
  | AdjClock

definition ADJUSTED_SOURCE_PROOF_SCHEMA_VERSION :: string where
  [model_defs]: "ADJUSTED_SOURCE_PROOF_SCHEMA_VERSION = ''cloudkit-adjusted-source-v1''"

definition ADJUSTED_SOURCE_KIND :: string where
  [model_defs]: "ADJUSTED_SOURCE_KIND = ''cloudkit_adjusted_res_jpeg_full_res''"

definition ADJUSTED_RESOURCE_FIELD :: string where
  [model_defs]: "ADJUSTED_RESOURCE_FIELD = ''resJPEGFullRes''"

definition ADJUSTED_WIDTH_FIELD :: string where
  [model_defs]: "ADJUSTED_WIDTH_FIELD = ''resJPEGFullWidth''"

definition ADJUSTED_HEIGHT_FIELD :: string where
  [model_defs]: "ADJUSTED_HEIGHT_FIELD = ''resJPEGFullHeight''"

definition ADJUSTED_FILE_TYPE_FIELD :: string where
  [model_defs]: "ADJUSTED_FILE_TYPE_FIELD = ''resJPEGFullFileType''"

definition ADJUSTED_FINGERPRINT_FIELD :: string where
  [model_defs]: "ADJUSTED_FINGERPRINT_FIELD = ''resJPEGFullFingerprint''"

definition MAX_ADJUSTED_SOURCE_ENCODED_BYTES :: u64 where
  [model_defs]: "MAX_ADJUSTED_SOURCE_ENCODED_BYTES = 128 * 1024 * 1024"

record adjusted_source_proof =
  as_schema_version :: string
  as_source_kind :: string
  as_asset_id :: string
  as_asset_record_name :: string
  as_asset_record_change_tag :: string
  as_asset_record_type :: string
  as_resource_record_name :: string
  as_resource_record_change_tag :: string
  as_resource_record_type :: string
  as_database_scope :: cloudkit_database_scope
  as_zone_name :: string
  as_owner_record_name :: "string option"
  as_master_record_name :: "string option"
  as_resource_field :: string
  as_declared_file_type :: string
  as_declared_fingerprint :: string
  as_declared_size_bytes :: u64
  as_width :: u32
  as_height :: u32
  as_local_path :: path
  as_downloaded_size_bytes :: u64
  as_downloaded_sha256 :: string
  as_orientation :: u8
  as_verified_at_unix_seconds :: u64

text \<open>The fields in the order of the struct, as they are printed and hashed.\<close>

definition adjusted_source_fields :: "adjusted_source_proof \<Rightarrow> (string \<times> json) list" where
  "adjusted_source_fields p =
     [(''schemaVersion'', JString (as_schema_version p)),
      (''sourceKind'', JString (as_source_kind p)),
      (''assetId'', JString (as_asset_id p)),
      (''assetRecordName'', JString (as_asset_record_name p)),
      (''assetRecordChangeTag'', JString (as_asset_record_change_tag p)),
      (''assetRecordType'', JString (as_asset_record_type p)),
      (''resourceRecordName'', JString (as_resource_record_name p)),
      (''resourceRecordChangeTag'', JString (as_resource_record_change_tag p)),
      (''resourceRecordType'', JString (as_resource_record_type p)),
      (''databaseScope'', ser_scope (as_database_scope p)),
      (''zoneName'', JString (as_zone_name p))]
     @ ser_skip_none ''ownerRecordName'' JString (as_owner_record_name p)
     @ ser_skip_none ''masterRecordName'' JString (as_master_record_name p)
     @ [(''resourceField'', JString (as_resource_field p)),
        (''declaredFileType'', JString (as_declared_file_type p)),
        (''declaredFingerprint'', JString (as_declared_fingerprint p)),
        (''declaredSizeBytes'', ser_u64 (as_declared_size_bytes p)),
        (''width'', ser_small (as_width p)),
        (''height'', ser_small (as_height p)),
        (''localPath'', JString (as_local_path p)),
        (''downloadedSizeBytes'', ser_u64 (as_downloaded_size_bytes p)),
        (''downloadedSha256'', JString (as_downloaded_sha256 p)),
        (''orientation'', ser_small (as_orientation p)),
        (''verifiedAtUnixSeconds'', ser_u64 (as_verified_at_unix_seconds p))]"

definition ser_adjusted_source_proof :: "adjusted_source_proof \<Rightarrow> json" where
  "ser_adjusted_source_proof p = jobject (adjusted_source_fields p)"

definition de_adjusted_source_proof :: "json \<Rightarrow> adjusted_source_proof option" where
  "de_adjusted_source_proof j =
     Option.bind (struct_fields (plain
       [''schemaVersion'', ''sourceKind'', ''assetId'', ''assetRecordName'', ''assetRecordChangeTag'',
        ''assetRecordType'', ''resourceRecordName'', ''resourceRecordChangeTag'', ''resourceRecordType'',
        ''databaseScope'', ''zoneName'', ''ownerRecordName'', ''masterRecordName'', ''resourceField'',
        ''declaredFileType'', ''declaredFingerprint'', ''declaredSizeBytes'', ''width'', ''height'',
        ''localPath'', ''downloadedSizeBytes'', ''downloadedSha256'', ''orientation'', ''verifiedAtUnixSeconds'']) j) (\<lambda>src.
     Option.bind (field_req src ''schemaVersion'' de_string) (\<lambda>schema_version.
     Option.bind (field_req src ''sourceKind'' de_string) (\<lambda>source_kind.
     Option.bind (field_req src ''assetId'' de_string) (\<lambda>asset_id.
     Option.bind (field_req src ''assetRecordName'' de_string) (\<lambda>asset_record_name.
     Option.bind (field_req src ''assetRecordChangeTag'' de_string) (\<lambda>asset_tag.
     Option.bind (field_req src ''assetRecordType'' de_string) (\<lambda>asset_type.
     Option.bind (field_req src ''resourceRecordName'' de_string) (\<lambda>resource_record_name.
     Option.bind (field_req src ''resourceRecordChangeTag'' de_string) (\<lambda>resource_tag.
     Option.bind (field_req src ''resourceRecordType'' de_string) (\<lambda>resource_type.
     Option.bind (field_req src ''databaseScope'' de_scope) (\<lambda>scope.
     Option.bind (field_req src ''zoneName'' de_string) (\<lambda>zone_name.
     Option.bind (field_default src ''ownerRecordName'' None (de_option de_string)) (\<lambda>owner.
     Option.bind (field_opt src ''masterRecordName'' de_string) (\<lambda>master.
     Option.bind (field_req src ''resourceField'' de_string) (\<lambda>resource_field.
     Option.bind (field_req src ''declaredFileType'' de_string) (\<lambda>file_type.
     Option.bind (field_req src ''declaredFingerprint'' de_string) (\<lambda>fingerprint.
     Option.bind (field_req src ''declaredSizeBytes'' de_u64) (\<lambda>declared_size.
     Option.bind (field_req src ''width'' de_small) (\<lambda>width.
     Option.bind (field_req src ''height'' de_small) (\<lambda>height.
     Option.bind (field_req src ''localPath'' de_string) (\<lambda>local_path.
     Option.bind (field_req src ''downloadedSizeBytes'' de_u64) (\<lambda>downloaded_size.
     Option.bind (field_req src ''downloadedSha256'' de_string) (\<lambda>downloaded_sha256.
     Option.bind (field_req src ''orientation'' de_small) (\<lambda>orientation.
     Option.bind (field_req src ''verifiedAtUnixSeconds'' de_u64) (\<lambda>verified_at.
     Some \<lparr>as_schema_version = schema_version, as_source_kind = source_kind, as_asset_id = asset_id,
           as_asset_record_name = asset_record_name, as_asset_record_change_tag = asset_tag,
           as_asset_record_type = asset_type, as_resource_record_name = resource_record_name,
           as_resource_record_change_tag = resource_tag, as_resource_record_type = resource_type,
           as_database_scope = scope, as_zone_name = zone_name, as_owner_record_name = owner,
           as_master_record_name = master, as_resource_field = resource_field,
           as_declared_file_type = file_type, as_declared_fingerprint = fingerprint,
           as_declared_size_bytes = declared_size, as_width = width, as_height = height,
           as_local_path = local_path, as_downloaded_size_bytes = downloaded_size,
           as_downloaded_sha256 = downloaded_sha256, as_orientation = orientation,
           as_verified_at_unix_seconds = verified_at\<rparr>)))))))))))))))))))))))))"

lemma adjusted_fields_distinct: "distinct (map fst (adjusted_source_fields p))"
  by (simp add: adjusted_source_fields_def fst_ser_skip_none distinct_ser_skip_none)

interpretation adjusted_codec: codec ser_adjusted_source_proof de_adjusted_source_proof
proof
  fix p
  show "de_adjusted_source_proof (ser_adjusted_source_proof p) = Some p"
    by (simp add: ser_adjusted_source_proof_def de_adjusted_source_proof_def
        struct_fields_distinct [OF adjusted_fields_distinct] skip_none_simps)
      (simp add: adjusted_source_fields_def skip_none_simps del: map_of_append)
qed

definition adjusted_source_path_for_output :: "path \<Rightarrow> path" where
  "adjusted_source_path_for_output output_path = set_extension output_path ''adjusted-source.jpg''"

definition adjusted_source_proof_digest ::
  "(u64 \<Rightarrow> string) \<Rightarrow> (string \<Rightarrow> string) \<Rightarrow> adjusted_source_proof \<Rightarrow> string"
where
  "adjusted_source_proof_digest fmt sha256_hex p =
     sha256_hex (json_text fmt (JObject (adjusted_source_fields p)))"

definition is_sha256 :: "string \<Rightarrow> bool" where
  "is_sha256 v \<longleftrightarrow> length v = 64 \<and> list_all is_ascii_hexdigit v"

definition validate_adjusted_source_proof_fields ::
  "adjusted_source_proof \<Rightarrow> string \<Rightarrow> original_asset_proof \<Rightarrow> path \<Rightarrow> adjusted_source_error + unit"
where
  "validate_adjusted_source_proof_fields p asset_id orig expected_path =
     checks
      [fail_if (\<not> is_ok (validate_library_destination
           \<lparr>ld_database_scope = as_database_scope p, ld_zone_name = as_zone_name p,
            ld_owner_record_name = as_owner_record_name p\<rparr>)) AdjInvalidProof,
       fail_if (as_schema_version p \<noteq> ADJUSTED_SOURCE_PROOF_SCHEMA_VERSION
           \<or> as_source_kind p \<noteq> ADJUSTED_SOURCE_KIND
           \<or> as_resource_field p \<noteq> ADJUSTED_RESOURCE_FIELD
           \<or> as_declared_file_type p \<noteq> ''public.jpeg''
           \<or> as_orientation p \<noteq> 1
           \<or> is_blank (as_asset_id p)
           \<or> is_blank (as_resource_record_name p)
           \<or> is_blank (as_resource_record_change_tag p)
           \<or> is_blank (as_resource_record_type p)
           \<or> is_blank (as_zone_name p)
           \<or> is_blank (as_declared_fingerprint p)
           \<or> as_verified_at_unix_seconds p = 0
           \<or> as_width p = 0
           \<or> as_height p = 0
           \<or> as_declared_size_bytes p = 0
           \<or> as_declared_size_bytes p > MAX_ADJUSTED_SOURCE_ENCODED_BYTES
           \<or> as_downloaded_size_bytes p = 0
           \<or> as_downloaded_size_bytes p \<noteq> as_declared_size_bytes p
           \<or> \<not> is_sha256 (as_downloaded_sha256 p)) AdjInvalidProof,
       fail_if (as_asset_id p \<noteq> asset_id
           \<or> as_asset_record_name p \<noteq> oa_record_name orig
           \<or> as_asset_record_change_tag p \<noteq> oa_record_change_tag orig
           \<or> as_asset_record_type p \<noteq> oa_record_type orig
           \<or> as_database_scope p \<noteq> oa_database_scope orig
           \<or> as_zone_name p \<noteq> oa_zone_name orig
           \<or> as_owner_record_name p \<noteq> oa_owner_record_name orig
           \<or> \<not> path_eq (as_local_path p) expected_path) AdjProofMismatch,
       fail_if (as_asset_record_type p \<noteq> ''CPLAsset'') AdjInvalidProof,
       (case as_master_record_name p of
          None \<Rightarrow>
            fail_if (as_resource_record_name p \<noteq> as_asset_record_name p
                \<or> as_resource_record_change_tag p \<noteq> as_asset_record_change_tag p
                \<or> as_resource_record_type p \<noteq> as_asset_record_type p) AdjProofMismatch
        | Some master \<Rightarrow>
            fail_if (is_blank master
                \<or> as_resource_record_type p \<noteq> ''CPLMaster''
                \<or> as_resource_record_name p \<noteq> master
                \<or> as_resource_record_name p = as_asset_record_name p
                \<or> as_resource_record_change_tag p = as_asset_record_change_tag p) AdjInvalidProof)]"

definition validate_adjusted_source_proof_lineage ::
  "adjusted_source_proof \<Rightarrow> string \<Rightarrow> original_asset_proof \<Rightarrow> path \<Rightarrow> adjusted_source_error + unit"
where
  "validate_adjusted_source_proof_lineage p asset_id orig output_path =
     validate_adjusted_source_proof_fields p asset_id orig (adjusted_source_path_for_output output_path)"

text \<open>
  What opening the installed JPEG finds: the anchoring of its directory, the file's identity if it
  exists, whether it has a single link, the decoder's verdict on its pixels for a width and a
  height, and the identity seen at the end.
\<close>

type_synonym file_identity = "u64 \<times> string \<times> u64"

record installed_source =
  is_anchor :: "adjusted_source_error + unit"
  is_final :: "adjusted_source_error + file_identity option"
  is_single_link :: "adjusted_source_error + bool"
  is_jpeg :: "u32 \<Rightarrow> u32 \<Rightarrow> bool"
  is_final_again :: "adjusted_source_error + file_identity option"

definition identity_size :: "file_identity \<Rightarrow> u64" where "identity_size i = fst i"

definition identity_sha256 :: "file_identity \<Rightarrow> string" where "identity_sha256 i = fst (snd i)"

definition matches_bytes :: "file_identity \<Rightarrow> file_identity \<Rightarrow> bool" where
  "matches_bytes a b \<longleftrightarrow> identity_size a = identity_size b \<and> identity_sha256 a = identity_sha256 b"

definition ensure_final_identity ::
  "(adjusted_source_error + file_identity option) \<Rightarrow> file_identity \<Rightarrow> adjusted_source_error + unit"
where
  "ensure_final_identity current expected =
     bind_ok current (\<lambda>c. bind_ok (ok_or AdjInstalledOutputMismatch c) (\<lambda>i.
     fail_if (i \<noteq> expected) AdjInstalledOutputMismatch))"

definition validate_installed_adjusted_source_proof ::
  "installed_source \<Rightarrow> adjusted_source_proof \<Rightarrow> string \<Rightarrow> original_asset_proof \<Rightarrow> path
     \<Rightarrow> adjusted_source_error + unit"
where
  "validate_installed_adjusted_source_proof w p asset_id orig output_path =
     bind_ok (validate_adjusted_source_proof_fields p asset_id orig
       (adjusted_source_path_for_output output_path)) (\<lambda>_.
     bind_ok (is_anchor w) (\<lambda>_.
     bind_ok (is_final w) (\<lambda>final.
     bind_ok (ok_or AdjProofLocalFileMissing final) (\<lambda>identity.
     bind_ok (is_single_link w) (\<lambda>single.
     bind_ok (fail_if (\<not> single) AdjUnsafeOutputPath) (\<lambda>_.
     bind_ok (fail_if (identity_size identity \<noteq> as_downloaded_size_bytes p
                       \<or> identity_sha256 identity \<noteq> as_downloaded_sha256 p) AdjProofLocalFileMismatch) (\<lambda>_.
     bind_ok (fail_if (\<not> is_jpeg w (as_width p) (as_height p)) AdjInvalidJpeg) (\<lambda>_.
     ensure_final_identity (is_final_again w) identity))))))))"

end
