(* ===== verification/Adjusted_Resolve.thy ===== *)
theory Adjusted_Resolve
  imports Adjusted_Source
begin

section \<open>The resolver of adjusted sources\<close>

text \<open>
  The read-only resolver of \<open>src/src/adjusted_source.rs\<close>: the request's validation, the exact
  lookup of a record, the parsers of the answer, and \<open>resolve\<close> with the steps on the output file
  as observations (\<open>resolve_world\<close>). Its theorem connects it to the validation of the proofs it
  makes.
\<close>

record adjusted_resolve_request =
  ar_req_asset_id :: string
  ar_req_original_asset :: original_asset_proof
  ar_req_output_path :: path

record adjusted_resource =
  rs_record_name :: string
  rs_record_change_tag :: string
  rs_record_type :: string
  rs_master_record_name :: "string option"
  rs_download_url :: string
  rs_size_bytes :: u64
  rs_width :: u32
  rs_height :: u32
  rs_file_type :: string
  rs_fingerprint :: string

definition validate_request ::
  "delete_session \<Rightarrow> adjusted_resolve_request \<Rightarrow> adjusted_source_error + cloudkit_library_destination"
where
  "validate_request s r =
     (let orig = ar_req_original_asset r; d = original_destination orig in
      bind_ok (checks
       [fail_if (is_blank (ar_req_asset_id r)) (AdjInvalidRequest ''asset ID is empty''),
        fail_if (is_blank (oa_record_name orig) \<or> is_blank (oa_record_change_tag orig)
            \<or> oa_record_type orig \<noteq> ''CPLAsset'' \<or> is_blank (oa_zone_name orig))
          (AdjInvalidRequest ''original asset proof identity is invalid''),
        map_err (\<lambda>_. AdjInvalidRequest ''original asset proof destination is invalid'')
          (validate_library_destination d),
        fail_if (ds_database_scope s \<noteq> ld_database_scope d \<or> ds_zone s \<noteq> d)
          (AdjInvalidRequest ''session destination differs from original asset proof'')])
       (\<lambda>_. Ok d))"

subsection \<open>Parsers\<close>

definition nonblank :: "string option \<Rightarrow> string option" where
  "nonblank x = (case x of None \<Rightarrow> None | Some s \<Rightarrow> if is_blank s then None else Some s)"

definition record_fields :: "json \<Rightarrow> adjusted_source_error + (string \<times> json) list" where
  "record_fields record =
     ok_or (AdjInvalidResponse ''lookup record fields are malformed'')
       (Option.bind (json_get ''fields'' record) json_as_object)"

definition record_string :: "json \<Rightarrow> string \<Rightarrow> adjusted_source_error + string" where
  "record_string record key =
     ok_or (AdjInvalidResponse ''lookup record identity is malformed'') (nonblank (get_str key record))"

definition require_non_deleted :: "json \<Rightarrow> adjusted_source_error + unit" where
  "require_non_deleted record =
     (let malformed = AdjInvalidResponse ''lookup record isDeleted is malformed'' in
      bind_ok (record_fields record) (\<lambda>fs.
      case bt_get fs ''isDeleted'' of
        None \<Rightarrow> Ok ()
      | Some deleted \<Rightarrow>
          bind_ok (ok_or malformed (json_as_object deleted)) (\<lambda>_.
          bind_ok (ok_or malformed (json_get ''value'' deleted)) (\<lambda>v.
          bind_ok
            (if get_str ''type'' deleted = Some ''INT64''
             then (case json_as_i64 v of
                     None \<Rightarrow> Err malformed
                   | Some n \<Rightarrow> if n = 0 then Ok False else if n = 1 then Ok True else Err malformed)
             else if get_str ''type'' deleted = Some ''BOOLEAN'' then ok_or malformed (json_as_bool v)
             else Err malformed) (\<lambda>is_deleted.
          fail_if is_deleted (AdjInvalidResponse ''lookup record is deleted''))))))"

definition validate_record_destination :: "json \<Rightarrow> cloudkit_library_destination \<Rightarrow> adjusted_source_error + unit" where
  "validate_record_destination record d =
     bind_ok (ok_or (AdjInvalidResponse ''lookup record omitted zone identity'') (json_get ''zoneID'' record)) (\<lambda>zone.
     bind_ok (ok_or (AdjInvalidResponse ''lookup record zone is malformed'') (json_as_object zone)) (\<lambda>_.
     checks
      [fail_if (get_str ''zoneName'' zone \<noteq> Some (ld_zone_name d))
         (AdjInvalidResponse ''lookup record zone differs from the original asset proof''),
       fail_if (get_str ''ownerRecordName'' zone \<noteq> ld_owner_record_name d)
         (AdjInvalidResponse ''lookup record zone differs from the original asset proof'')]))"

definition validate_zone_identity ::
  "json option \<Rightarrow> cloudkit_library_destination \<Rightarrow> string \<Rightarrow> adjusted_source_error + unit"
where
  "validate_zone_identity zone d e =
     (case zone of
        Some (JObject m) \<Rightarrow>
          checks
           [fail_if (get_str ''zoneName'' (JObject m) \<noteq> Some (ld_zone_name d)) (AdjInvalidResponse e),
            fail_if (get_str ''ownerRecordName'' (JObject m) \<noteq> ld_owner_record_name d) (AdjInvalidResponse e)]
      | _ \<Rightarrow> Err (AdjInvalidResponse e))"

text \<open>A field wrapped as \<open>{"type": t, "value": v}\<close>.\<close>

definition wrapped_value :: "(string \<times> json) list \<Rightarrow> string \<Rightarrow> string \<Rightarrow> json option" where
  "wrapped_value fs name expected_type =
     (case bt_get fs name of
        Some (JObject m) \<Rightarrow>
          if get_str ''type'' (JObject m) = Some expected_type then bt_get m ''value'' else None
      | _ \<Rightarrow> None)"

definition wrapped_value_object ::
  "(string \<times> json) list \<Rightarrow> string \<Rightarrow> string \<Rightarrow> adjusted_source_error + (string \<times> json) list"
where
  "wrapped_value_object fs name expected_type =
     ok_or (AdjInvalidResponse ''adjusted resource wrapper is malformed'')
       (Option.bind (wrapped_value fs name expected_type) json_as_object)"

definition wrapped_positive_u32 :: "(string \<times> json) list \<Rightarrow> string \<Rightarrow> adjusted_source_error + u32" where
  "wrapped_positive_u32 fs name =
     ok_or (AdjInvalidResponse ''adjusted resource dimensions are malformed'')
       (Option.bind (Option.bind (wrapped_value fs name ''INT64'') de_small)
         (\<lambda>n. if n > 0 then Some n else None))"

definition wrapped_nonempty_string :: "(string \<times> json) list \<Rightarrow> string \<Rightarrow> adjusted_source_error + string" where
  "wrapped_nonempty_string fs name =
     ok_or (AdjInvalidResponse ''adjusted resource metadata is malformed'')
       (nonblank (Option.bind (wrapped_value fs name ''STRING'') json_as_str))"

definition required_nonempty_object_string :: "(string \<times> json) list \<Rightarrow> string \<Rightarrow> adjusted_source_error + string" where
  "required_nonempty_object_string obj name =
     ok_or (AdjInvalidResponse ''adjusted resource asset metadata is malformed'')
       (nonblank (Option.bind (bt_get obj name) json_as_str))"

definition adjusted_fields :: "string list" where
  "adjusted_fields =
     [ADJUSTED_RESOURCE_FIELD, ADJUSTED_WIDTH_FIELD, ADJUSTED_HEIGHT_FIELD, ADJUSTED_FILE_TYPE_FIELD,
      ADJUSTED_FINGERPRINT_FIELD]"

text \<open>\<open>url_ok\<close>: the library's URL parser accepts it and it is an Apple iCloud download URL.\<close>

definition parse_adjusted_resource ::
  "(string \<Rightarrow> bool) \<Rightarrow> json \<Rightarrow> string option \<Rightarrow> adjusted_source_error + adjusted_resource option"
where
  "parse_adjusted_resource url_ok record master =
     bind_ok (record_fields record) (\<lambda>fs.
     let present = length (filter (bt_contains fs) adjusted_fields) in
     if present = 0 then Ok None
     else if present \<noteq> length adjusted_fields
     then Err (AdjInvalidResponse ''adjusted resource fields are partial'')
     else
       bind_ok (wrapped_value_object fs ADJUSTED_RESOURCE_FIELD ''ASSETID'') (\<lambda>resource.
       bind_ok (required_nonempty_object_string resource ''downloadURL'') (\<lambda>download_url.
       bind_ok (fail_if (\<not> url_ok download_url) AdjInvalidResourceUrl) (\<lambda>_.
       bind_ok (ok_or (AdjInvalidResponse ''resJPEGFullRes size is missing or zero'')
         (Option.bind (Option.bind (bt_get resource ''size'') json_as_u64)
           (\<lambda>n. if n > 0 then Some n else None))) (\<lambda>size_bytes.
       bind_ok (required_nonempty_object_string resource ''fileChecksum'') (\<lambda>file_checksum.
       bind_ok (required_nonempty_object_string resource ''referenceChecksum'') (\<lambda>_.
       bind_ok (required_nonempty_object_string resource ''wrappingKey'') (\<lambda>_.
       bind_ok (wrapped_positive_u32 fs ADJUSTED_WIDTH_FIELD) (\<lambda>width.
       bind_ok (wrapped_positive_u32 fs ADJUSTED_HEIGHT_FIELD) (\<lambda>height.
       bind_ok (wrapped_nonempty_string fs ADJUSTED_FILE_TYPE_FIELD) (\<lambda>file_type.
       bind_ok (fail_if (file_type \<notin> {''public.jpeg'', ''image/jpeg''})
         (AdjInvalidResponse ''resJPEGFullRes file type is not JPEG'')) (\<lambda>_.
       bind_ok (wrapped_nonempty_string fs ADJUSTED_FINGERPRINT_FIELD) (\<lambda>fingerprint.
       bind_ok (fail_if (fingerprint \<noteq> file_checksum)
         (AdjInvalidResponse ''resJPEGFullRes fingerprint differs from fileChecksum'')) (\<lambda>_.
       bind_ok (record_string record ''recordName'') (\<lambda>record_name.
       bind_ok (record_string record ''recordChangeTag'') (\<lambda>record_change_tag.
       bind_ok (record_string record ''recordType'') (\<lambda>record_type.
       Ok (Some \<lparr>rs_record_name = record_name, rs_record_change_tag = record_change_tag,
                 rs_record_type = record_type, rs_master_record_name = master,
                 rs_download_url = download_url, rs_size_bytes = size_bytes, rs_width = width,
                 rs_height = height, rs_file_type = ''public.jpeg'',
                 rs_fingerprint = fingerprint\<rparr>))))))))))))))))))"

definition parse_master_ref ::
  "(string \<times> json) list \<Rightarrow> cloudkit_library_destination \<Rightarrow> adjusted_source_error + string"
where
  "parse_master_ref fs d =
     bind_ok (wrapped_value_object fs ''masterRef'' ''REFERENCE'') (\<lambda>master_ref.
     bind_ok (fail_if (Option.bind (bt_get master_ref ''action'') json_as_str \<noteq> Some ''DELETE_SELF'')
       (AdjInvalidResponse ''masterRef action is not DELETE_SELF'')) (\<lambda>_.
     bind_ok (validate_zone_identity (bt_get master_ref ''zoneID'') d
       ''masterRef zone differs from the original asset proof'') (\<lambda>_.
     ok_or (AdjInvalidResponse ''masterRef record name is malformed'')
       (nonblank (Option.bind (bt_get master_ref ''recordName'') json_as_str)))))"

subsection \<open>Lookup\<close>

definition lookup_exact_record ::
  "(json \<Rightarrow> 'e + json) \<Rightarrow> string \<Rightarrow> string \<Rightarrow> string \<Rightarrow> cloudkit_library_destination \<Rightarrow> string list
     \<Rightarrow> adjusted_source_error + json"
where
  "lookup_exact_record post record_name expected_change_tag expected_type d desired_keys =
     bind_ok (map_err (\<lambda>_. AdjLookupTransport) (post (cloudkit_records_lookup_payload [record_name] desired_keys d))) (\<lambda>response.
     bind_ok (ok_or (AdjInvalidResponse ''lookup response omitted records'')
       (Option.bind (json_get ''records'' response) json_as_array)) (\<lambda>records.
     if length records \<noteq> 1
     then Err (AdjInvalidResponse ''lookup response did not contain exactly one record'')
     else
       let record = records ! 0 in
       bind_ok (fail_if (json_get ''serverErrorCode'' record \<noteq> None \<or> json_get ''serverErrorReason'' record \<noteq> None)
         (AdjInvalidResponse ''lookup response returned a record error'')) (\<lambda>_.
       bind_ok (require_non_deleted record) (\<lambda>_.
       bind_ok (record_string record ''recordName'') (\<lambda>name.
       bind_ok (if name \<noteq> record_name then Ok True
                else map_ok (\<lambda>t. t \<noteq> expected_type) (record_string record ''recordType'')) (\<lambda>differs.
       bind_ok (fail_if differs
         (AdjInvalidResponse ''lookup response identity differs from requested record'')) (\<lambda>_.
       bind_ok (record_string record ''recordChangeTag'') (\<lambda>change_tag.
       bind_ok (fail_if (change_tag = [] \<or> (expected_change_tag \<noteq> [] \<and> change_tag \<noteq> expected_change_tag))
         (AdjInvalidResponse ''lookup response change tag differs from the required record'')) (\<lambda>_.
       bind_ok (validate_record_destination record d) (\<lambda>_.
       Ok record))))))))))"

subsection \<open>Resolving\<close>

datatype install_result = Installed | AlreadyExists

text \<open>What the transport, the operating system and the decoder answer, in the order of the steps.\<close>

record 'e resolve_world =
  rw_anchor :: "adjusted_source_error + unit"
  rw_lookup_asset :: "json \<Rightarrow> 'e + json"
  rw_lookup_master :: "json \<Rightarrow> 'e + json"
  rw_create_temp :: "adjusted_source_error + unit"
  rw_download :: "string \<Rightarrow> u64 \<Rightarrow> adjusted_source_error + u64 \<times> string"
  rw_sync_and_close :: "adjusted_source_error + unit"
  rw_temp :: "adjusted_source_error + file_identity"
  rw_jpeg :: "file_identity \<Rightarrow> u32 \<Rightarrow> u32 \<Rightarrow> bool"
  rw_final :: "adjusted_source_error + file_identity option"
  rw_temp_again :: "adjusted_source_error + file_identity"
  rw_rename :: "adjusted_source_error + install_result"
  rw_final_after :: "adjusted_source_error + file_identity option"
  rw_sync_final :: "adjusted_source_error + unit"
  rw_fsync_parent :: "adjusted_source_error + unit"
  rw_final_again :: "adjusted_source_error + file_identity option"
  rw_cleanup :: "adjusted_source_error + unit"
  rw_clock :: system_time

definition install_exclusive :: "'e resolve_world \<Rightarrow> file_identity \<Rightarrow> adjusted_source_error + install_result" where
  "install_exclusive w expected =
     bind_ok (rw_temp_again w) (\<lambda>current.
     bind_ok (fail_if (current \<noteq> expected) AdjInvalidTemporaryFile) (\<lambda>_. rw_rename w))"

definition final_after_install ::
  "'e resolve_world \<Rightarrow> file_identity \<Rightarrow> install_result \<Rightarrow> adjusted_source_error + file_identity"
where
  "final_after_install w expected result =
     bind_ok (rw_final_after w) (\<lambda>final.
     bind_ok (ok_or AdjInstalledOutputMismatch final) (\<lambda>identity.
     if result = Installed \<and> identity \<noteq> expected then Err AdjInstalledOutputMismatch
     else if result = AlreadyExists \<and> \<not> matches_bytes identity expected then Err AdjExistingOutputMismatch
     else Ok identity))"

definition verified_timestamp :: "system_time \<Rightarrow> adjusted_source_error + u64" where
  "verified_timestamp t =
     (case duration_since t 0 of None \<Rightarrow> Err AdjClock | Some d \<Rightarrow> Ok (as_secs d))"

definition resolve_resource ::
  "(string \<Rightarrow> bool) \<Rightarrow> 'e resolve_world \<Rightarrow> original_asset_proof \<Rightarrow> cloudkit_library_destination
     \<Rightarrow> adjusted_source_error + adjusted_resource"
where
  "resolve_resource url_ok w orig d =
     bind_ok (lookup_exact_record (rw_lookup_asset w) (oa_record_name orig) (oa_record_change_tag orig)
       ''CPLAsset'' d ([''masterRef'', ''isDeleted''] @ adjusted_fields)) (\<lambda>asset.
     bind_ok (record_fields asset) (\<lambda>asset_fields.
     bind_ok (parse_adjusted_resource url_ok asset None) (\<lambda>source.
     case source of
       Some resource \<Rightarrow> Ok resource
     | None \<Rightarrow>
         bind_ok (parse_master_ref asset_fields d) (\<lambda>master_name.
         bind_ok (lookup_exact_record (rw_lookup_master w) master_name [] ''CPLMaster'' d
           (''isDeleted'' # adjusted_fields)) (\<lambda>master.
         bind_ok (parse_adjusted_resource url_ok master (Some master_name)) (\<lambda>resource.
         ok_or (AdjInvalidResponse ''exact master record omitted resJPEGFullRes'') resource))))))"

text \<open>The download into a temporary file, its checks and its installation at the output path.\<close>

definition install_source :: "'e resolve_world \<Rightarrow> adjusted_resource \<Rightarrow> adjusted_source_error + file_identity" where
  "install_source w source =
     bind_ok (rw_create_temp w) (\<lambda>_.
     bind_ok (rw_download w (rs_download_url source) (rs_size_bytes source)) (\<lambda>download.
     bind_ok (rw_sync_and_close w) (\<lambda>_.
     bind_ok (rw_temp w) (\<lambda>temp_identity.
     bind_ok (fail_if (identity_size temp_identity \<noteq> rs_size_bytes source \<or> fst download \<noteq> rs_size_bytes source)
       AdjDownloadedSizeMismatch) (\<lambda>_.
     bind_ok (fail_if (\<not> is_sha256 (snd download) \<or> identity_sha256 temp_identity \<noteq> snd download)
       AdjDownloadedHashMismatch) (\<lambda>_.
     bind_ok (fail_if (\<not> rw_jpeg w temp_identity (rs_width source) (rs_height source)) AdjInvalidJpeg) (\<lambda>_.
     bind_ok (rw_final w) (\<lambda>existing.
     bind_ok
       (case existing of
          Some identity \<Rightarrow>
            (if \<not> matches_bytes identity temp_identity then Err AdjExistingOutputMismatch else Ok identity)
        | None \<Rightarrow>
            bind_ok (install_exclusive w temp_identity) (\<lambda>result.
            final_after_install w temp_identity result)) (\<lambda>final.
     bind_ok (fail_if (\<not> rw_jpeg w final (rs_width source) (rs_height source)) AdjInvalidJpeg) (\<lambda>_.
     bind_ok (rw_sync_final w) (\<lambda>_.
     bind_ok (rw_fsync_parent w) (\<lambda>_.
     bind_ok (ensure_final_identity (rw_final_again w) final) (\<lambda>_.
     bind_ok (rw_cleanup w) (\<lambda>_.
     Ok final))))))))))))))"

definition make_adjusted_proof ::
  "adjusted_resolve_request \<Rightarrow> cloudkit_library_destination \<Rightarrow> adjusted_resource \<Rightarrow> file_identity \<Rightarrow> u64
     \<Rightarrow> adjusted_source_proof"
where
  "make_adjusted_proof r d source final verified_at =
     (let orig = ar_req_original_asset r in
      \<lparr>as_schema_version = ADJUSTED_SOURCE_PROOF_SCHEMA_VERSION, as_source_kind = ADJUSTED_SOURCE_KIND,
         as_asset_id = ar_req_asset_id r, as_asset_record_name = oa_record_name orig,
         as_asset_record_change_tag = oa_record_change_tag orig, as_asset_record_type = oa_record_type orig,
         as_resource_record_name = rs_record_name source,
         as_resource_record_change_tag = rs_record_change_tag source,
         as_resource_record_type = rs_record_type source, as_database_scope = ld_database_scope d,
         as_zone_name = ld_zone_name d, as_owner_record_name = ld_owner_record_name d,
         as_master_record_name = rs_master_record_name source, as_resource_field = ADJUSTED_RESOURCE_FIELD,
         as_declared_file_type = rs_file_type source, as_declared_fingerprint = rs_fingerprint source,
         as_declared_size_bytes = rs_size_bytes source, as_width = rs_width source,
         as_height = rs_height source, as_local_path = ar_req_output_path r,
         as_downloaded_size_bytes = identity_size final, as_downloaded_sha256 = identity_sha256 final,
         as_orientation = 1, as_verified_at_unix_seconds = verified_at\<rparr>)"

definition resolve ::
  "(string \<Rightarrow> bool) \<Rightarrow> 'e resolve_world \<Rightarrow> delete_session \<Rightarrow> adjusted_resolve_request
     \<Rightarrow> adjusted_source_error + adjusted_source_proof"
where
  "resolve url_ok w s r =
     bind_ok (validate_request s r) (\<lambda>d.
     bind_ok (rw_anchor w) (\<lambda>_.
     bind_ok (resolve_resource url_ok w (ar_req_original_asset r) d) (\<lambda>source.
     bind_ok (fail_if (rs_size_bytes source > MAX_ADJUSTED_SOURCE_ENCODED_BYTES) AdjDeclaredResourceTooLarge) (\<lambda>_.
     bind_ok (install_source w source) (\<lambda>final.
     bind_ok (verified_timestamp (rw_clock w)) (\<lambda>verified_at.
     Ok (make_adjusted_proof r d source final verified_at)))))))"

subsection \<open>Lemmas on the parsers\<close>

lemma nonblank_eq_Some [simp]: "nonblank x = Some s \<longleftrightarrow> x = Some s \<and> \<not> is_blank s"
  by (auto simp: nonblank_def split: option.splits)

lemma record_string_eq_Ok: "record_string record k = Inr s \<longleftrightarrow> get_str k record = Some s \<and> \<not> is_blank s"
  by (simp add: record_string_def)

lemma parse_resource_Ok:
  assumes "parse_adjusted_resource url_ok record master = Inr (Some rs)"
  shows "get_str ''recordName'' record = Some (rs_record_name rs) \<and> \<not> is_blank (rs_record_name rs)
    \<and> get_str ''recordChangeTag'' record = Some (rs_record_change_tag rs) \<and> \<not> is_blank (rs_record_change_tag rs)
    \<and> get_str ''recordType'' record = Some (rs_record_type rs) \<and> \<not> is_blank (rs_record_type rs)
    \<and> rs_master_record_name rs = master \<and> url_ok (rs_download_url rs)
    \<and> 0 < rs_size_bytes rs \<and> 0 < rs_width rs \<and> 0 < rs_height rs
    \<and> rs_file_type rs = ''public.jpeg'' \<and> \<not> is_blank (rs_fingerprint rs)"
  using assms
  by (auto simp: parse_adjusted_resource_def Let_def bind_ok_eq_Ok record_string_eq_Ok
      wrapped_positive_u32_def wrapped_nonempty_string_def required_nonempty_object_string_def
      bind_eq_Some_conv split: if_splits)

lemma lookup_exact_Ok:
  assumes "lookup_exact_record post name tag type d keys = Inr record"
  shows "get_str ''recordName'' record = Some name \<and> get_str ''recordType'' record = Some type
    \<and> (tag \<noteq> [] \<longrightarrow> get_str ''recordChangeTag'' record = Some tag)"
  using assms
  by (auto simp: lookup_exact_record_def Let_def bind_ok_eq_Ok record_string_eq_Ok map_ok_eq_Ok
      split: if_splits)

lemma resolve_resource_Ok:
  assumes "resolve_resource url_ok w orig d = Inr rs" and "oa_record_change_tag orig \<noteq> []"
  shows "\<not> is_blank (rs_record_name rs) \<and> \<not> is_blank (rs_record_change_tag rs) \<and> url_ok (rs_download_url rs)
    \<and> 0 < rs_size_bytes rs \<and> 0 < rs_width rs \<and> 0 < rs_height rs
    \<and> rs_file_type rs = ''public.jpeg'' \<and> \<not> is_blank (rs_fingerprint rs)
    \<and> (case rs_master_record_name rs of
         None \<Rightarrow> rs_record_name rs = oa_record_name orig \<and> rs_record_change_tag rs = oa_record_change_tag orig
           \<and> rs_record_type rs = ''CPLAsset''
       | Some master \<Rightarrow> rs_record_name rs = master \<and> rs_record_type rs = ''CPLMaster'')"
proof -
  from assms(1) obtain asset asset_fields source where
    asset: "lookup_exact_record (rw_lookup_asset w) (oa_record_name orig) (oa_record_change_tag orig)
       ''CPLAsset'' d ([''masterRef'', ''isDeleted''] @ adjusted_fields) = Inr asset"
    and source: "parse_adjusted_resource url_ok asset None = Inr source"
    and rest: "(case source of
       Some resource \<Rightarrow> Ok resource
     | None \<Rightarrow>
         bind_ok (parse_master_ref asset_fields d) (\<lambda>master_name.
         bind_ok (lookup_exact_record (rw_lookup_master w) master_name [] ''CPLMaster'' d
           (''isDeleted'' # adjusted_fields)) (\<lambda>master.
         bind_ok (parse_adjusted_resource url_ok master (Some master_name)) (\<lambda>resource.
         ok_or (AdjInvalidResponse ''exact master record omitted resJPEGFullRes'') resource)))) = Inr rs"
    by (auto simp: resolve_resource_def bind_ok_eq_Ok)
  show ?thesis
  proof (cases source)
    case (Some resource)
    with rest have "source = Some rs" by simp
    with parse_resource_Ok [of url_ok asset None rs] source lookup_exact_Ok [OF asset] assms(2)
    show ?thesis by auto
  next
    case None
    with rest obtain name master where m:
      "lookup_exact_record (rw_lookup_master w) name [] ''CPLMaster'' d (''isDeleted'' # adjusted_fields) = Inr master"
      "parse_adjusted_resource url_ok master (Some name) = Inr (Some rs)"
      by (auto simp: bind_ok_eq_Ok)
    from parse_resource_Ok [OF m(2)] lookup_exact_Ok [OF m(1)] show ?thesis by auto
  qed
qed

subsection \<open>A resolved proof passes its validation\<close>

lemma final_identity_matches:
  assumes "(case existing of
          Some identity \<Rightarrow>
            (if \<not> matches_bytes identity temp_identity then Err AdjExistingOutputMismatch else Ok identity)
        | None \<Rightarrow>
            bind_ok (install_exclusive w temp_identity) (\<lambda>result.
            final_after_install w temp_identity result)) = Inr final"
  shows "matches_bytes final temp_identity"
proof (cases existing)
  case None
  with assms obtain result where "final_after_install w temp_identity result = Inr final"
    by (auto simp: bind_ok_eq_Ok)
  then show ?thesis
    by (cases result) (auto simp: final_after_install_def bind_ok_eq_Ok matches_bytes_def split: if_splits)
qed (use assms in \<open>auto split: if_splits\<close>)

text \<open>When the JPEG hangs on the master record, the validation also wants a master of another name and
  another change tag than the asset's.\<close>

definition distinct_master :: "adjusted_source_proof \<Rightarrow> bool" where
  "distinct_master p \<longleftrightarrow>
     (case as_master_record_name p of None \<Rightarrow> True
      | Some master \<Rightarrow> master \<noteq> as_asset_record_name p
          \<and> as_resource_record_change_tag p \<noteq> as_asset_record_change_tag p)"

lemma install_source_Ok:
  assumes "install_source w source = Inr final"
  shows "identity_size final = rs_size_bytes source \<and> is_sha256 (identity_sha256 final)
    \<and> rw_jpeg w final (rs_width source) (rs_height source) \<and> rw_final_again w = Inr (Some final)"
proof -
  from assms obtain temp_identity existing where
    "identity_size temp_identity = rs_size_bytes source" "is_sha256 (identity_sha256 temp_identity)"
    and f: "(case existing of
          Some identity \<Rightarrow>
            (if \<not> matches_bytes identity temp_identity then Err AdjExistingOutputMismatch else Ok identity)
        | None \<Rightarrow>
            bind_ok (install_exclusive w temp_identity) (\<lambda>result.
            final_after_install w temp_identity result)) = Inr final"
    and "rw_jpeg w final (rs_width source) (rs_height source)"
    and "ensure_final_identity (rw_final_again w) final = Inr ()"
    by (auto simp: install_source_def bind_ok_eq_Ok)
  with final_identity_matches [OF f] show ?thesis
    by (auto simp: matches_bytes_def ensure_final_identity_def bind_ok_eq_Ok)
qed

lemma resolve_eq_Ok:
  "resolve url_ok w s r = Inr p \<longleftrightarrow>
     (\<exists>d rs final verified_at. validate_request s r = Inr d \<and> rw_anchor w = Inr ()
        \<and> resolve_resource url_ok w (ar_req_original_asset r) d = Inr rs
        \<and> rs_size_bytes rs \<le> MAX_ADJUSTED_SOURCE_ENCODED_BYTES
        \<and> install_source w rs = Inr final \<and> verified_timestamp (rw_clock w) = Inr verified_at
        \<and> p = make_adjusted_proof r d rs final verified_at)"
  by (auto simp: resolve_def bind_ok_eq_Ok not_less)

lemma validate_request_eq_Ok:
  "validate_request s r = Inr d \<longleftrightarrow>
     d = original_destination (ar_req_original_asset r) \<and> \<not> is_blank (ar_req_asset_id r)
     \<and> \<not> is_blank (oa_record_name (ar_req_original_asset r))
     \<and> \<not> is_blank (oa_record_change_tag (ar_req_original_asset r))
     \<and> oa_record_type (ar_req_original_asset r) = ''CPLAsset''
     \<and> \<not> is_blank (oa_zone_name (ar_req_original_asset r))
     \<and> validate_library_destination d = Inr () \<and> ds_database_scope s = ld_database_scope d \<and> ds_zone s = d"
  by (auto simp: validate_request_def Let_def bind_ok_eq_Ok)

lemma verified_timestamp_pos:
  assumes "verified_timestamp t = Inr n" and "1000000000 \<le> t" and "t < 2 ^ 63 * 1000000000"
  shows "n \<noteq> 0"
proof -
  have n: "n = word_of_nat (nat t div nanos_per_second)"
    using assms(1) by (auto simp: verified_timestamp_def duration_since_def as_secs_def split: if_splits)
  have "1 \<le> nat t div nanos_per_second" "nat t div nanos_per_second < 2 ^ 64"
    using assms(2,3) by (auto simp: nanos_per_second_def div_less_iff_less_mult)
  then have "unat n = nat t div nanos_per_second" "unat n \<noteq> 0"
    by (auto simp: n unat_of_nat)
  then show ?thesis by auto
qed

text \<open>C36: A proof the resolver makes passes the validation of its fields for the asset it was asked for:
  for a source on the asset's own record always, for one on the master record exactly when the
  master differs from the asset in name and change tag. (The clock is past the first second of the
  epoch and within sixty-four bits.)\<close>

theorem resolved_proof_is_valid:
  assumes "resolve url_ok w s r = Ok p"
    and "1000000000 \<le> rw_clock w" and "rw_clock w < 2 ^ 63 * 1000000000"
    and "path_eq (ar_req_output_path r) (adjusted_source_path_for_output output_path)"
  shows "validate_adjusted_source_proof_lineage p (ar_req_asset_id r) (ar_req_original_asset r) output_path
      = (if distinct_master p then Ok () else Err AdjInvalidProof)"
proof -
  let ?orig = "ar_req_original_asset r"
  from assms(1) obtain rs final t where
    v: "validate_request s r = Inr (original_destination ?orig)"
    and rs: "resolve_resource url_ok w ?orig (original_destination ?orig) = Inr rs"
    and max: "rs_size_bytes rs \<le> MAX_ADJUSTED_SOURCE_ENCODED_BYTES"
    and final: "install_source w rs = Inr final" and t: "verified_timestamp (rw_clock w) = Inr t"
    and p: "p = make_adjusted_proof r (original_destination ?orig) rs final t"
    by (auto simp: resolve_eq_Ok validate_request_eq_Ok)
  note req = v [unfolded validate_request_eq_Ok]
  then have "oa_record_change_tag ?orig \<noteq> []" by auto
  note res = resolve_resource_Ok [OF rs this]
  have t0: "t \<noteq> 0" by (rule verified_timestamp_pos [OF t assms(2,3)])
  have dest: "original_destination ?orig = \<lparr>ld_database_scope = oa_database_scope ?orig,
      ld_zone_name = oa_zone_name ?orig, ld_owner_record_name = oa_owner_record_name ?orig\<rparr>"
    by (simp add: original_destination_def)
  have facts: "identity_size final = rs_size_bytes rs" "is_sha256 (identity_sha256 final)"
    using install_source_Ok [OF final] by auto
  show ?thesis
  proof (cases "rs_master_record_name rs")
    case None
    with req res max facts t0 assms(4) show ?thesis
      by (simp add: p make_adjusted_proof_def Let_def validate_adjusted_source_proof_lineage_def dest
          validate_adjusted_source_proof_fields_def distinct_master_def word_gt_0 not_less byte_def)
  next
    case (Some master)
    with req res max facts t0 assms(4) show ?thesis
      by (simp add: p make_adjusted_proof_def Let_def validate_adjusted_source_proof_lineage_def dest
          validate_adjusted_source_proof_fields_def distinct_master_def word_gt_0 not_less fail_if_def byte_def)
        auto
  qed
qed

subsection \<open>An instance\<close>

definition sample_original :: original_asset_proof where
  "sample_original =
     \<lparr>oa_record_name = ''A'', oa_record_change_tag = ''t1'', oa_record_type = ''CPLAsset'',
      oa_database_scope = Private, oa_zone_name = PRIMARY_SYNC_ZONE, oa_owner_record_name = None,
      oa_filename = ''a.dng'', oa_size_bytes = 9, oa_matched_raw_sha256 = ''h''\<rparr>"

definition wrapped :: "string \<Rightarrow> json \<Rightarrow> json" where
  "wrapped t v = jobject [(''type'', JString t), (''value'', v)]"

definition sample_asset_record :: json where
  "sample_asset_record =
     jobject
      [(''recordName'', JString ''A''), (''recordChangeTag'', JString ''t1''), (''recordType'', JString ''CPLAsset''),
       (''zoneID'', jobject [(''zoneName'', JString PRIMARY_SYNC_ZONE)]),
       (''fields'', jobject
         [(ADJUSTED_RESOURCE_FIELD, wrapped ''ASSETID'' (jobject
            [(''downloadURL'', JString ''https''), (''size'', ser_u64 5), (''fileChecksum'', JString ''c''),
             (''referenceChecksum'', JString ''r''), (''wrappingKey'', JString ''k'')])),
          (ADJUSTED_WIDTH_FIELD, wrapped ''INT64'' (ser_u64 3)),
          (ADJUSTED_HEIGHT_FIELD, wrapped ''INT64'' (ser_u64 4)),
          (ADJUSTED_FILE_TYPE_FIELD, wrapped ''STRING'' (JString ''public.jpeg'')),
          (ADJUSTED_FINGERPRINT_FIELD, wrapped ''STRING'' (JString ''c''))])]"

definition sample_sha256 :: string where
  "sample_sha256 = replicate 64 (CHR ''a'')"

definition sample_identity :: file_identity where
  "sample_identity = (5, sample_sha256, 1)"

definition sample_world :: "unit resolve_world" where
  "sample_world =
     \<lparr>rw_anchor = Ok (), rw_lookup_asset = (\<lambda>_. Ok (JObject [(''records'', JArray [sample_asset_record])])),
      rw_lookup_master = (\<lambda>_. Err ()), rw_create_temp = Ok (),
      rw_download = (\<lambda>_ n. Ok (n, sample_sha256)), rw_sync_and_close = Ok (), rw_temp = Ok sample_identity,
      rw_jpeg = (\<lambda>_ _ _. True), rw_final = Ok None, rw_temp_again = Ok sample_identity,
      rw_rename = Ok Installed, rw_final_after = Ok (Some sample_identity), rw_sync_final = Ok (),
      rw_fsync_parent = Ok (), rw_final_again = Ok (Some sample_identity), rw_cleanup = Ok (),
      rw_clock = 2000000000\<rparr>"

definition sample_adjusted_request :: adjusted_resolve_request where
  "sample_adjusted_request =
     \<lparr>ar_req_asset_id = ''id'', ar_req_original_asset = sample_original,
      ar_req_output_path = ''/o/a.adjusted-source.jpg''\<rparr>"

lemma sample_lookup:
  "lookup_exact_record (rw_lookup_asset sample_world) ''A'' ''t1'' ''CPLAsset'' primary_sync keys
     = Inr sample_asset_record"
  by (simp add: lookup_exact_record_def sample_world_def sample_asset_record_def jobject_def bt_get_from
      bt_get_def [of "[(''records'', _)]"] require_non_deleted_def record_fields_def record_string_def
      get_str_def nonblank_def byte_def validate_record_destination_def primary_sync_def model_defs)

definition sample_resource :: adjusted_resource where
  "sample_resource =
     \<lparr>rs_record_name = ''A'', rs_record_change_tag = ''t1'', rs_record_type = ''CPLAsset'',
      rs_master_record_name = None, rs_download_url = ''https'', rs_size_bytes = 5, rs_width = 3,
      rs_height = 4, rs_file_type = ''public.jpeg'', rs_fingerprint = ''c''\<rparr>"

lemma sample_parse:
  "parse_adjusted_resource (\<lambda>_. True) sample_asset_record None = Inr (Some sample_resource)"
  by (simp add: parse_adjusted_resource_def sample_asset_record_def jobject_def bt_get_from wrapped_def
      bt_contains_def adjusted_fields_def record_fields_def record_string_def get_str_def nonblank_def
      byte_def wrapped_value_object_def wrapped_value_def wrapped_positive_u32_def
      wrapped_nonempty_string_def required_nonempty_object_string_def de_small_def ser_u64_def
      sample_resource_def model_defs)

lemma sample_sha256_ok: "is_sha256 sample_sha256"
  by (simp add: is_sha256_def sample_sha256_def list_all_iff is_ascii_hexdigit_def byte_def)

lemma sample_resolve_Ok:
  "resolve (\<lambda>_. True) sample_world sample_session sample_adjusted_request
     = Ok (make_adjusted_proof sample_adjusted_request primary_sync sample_resource sample_identity 2)"
proof -
  have "original_destination sample_original = primary_sync"
    by (simp add: original_destination_def sample_original_def primary_sync_def)
  moreover have "validate_library_destination primary_sync = Inr ()"
    by (simp add: destination_eq_Ok primary_sync_def)
  ultimately have "validate_request sample_session sample_adjusted_request = Inr primary_sync"
    by (simp add: validate_request_eq_Ok sample_adjusted_request_def sample_session_def)
      (simp add: sample_original_def byte_def primary_sync_def model_defs)
  moreover have "resolve_resource (\<lambda>_. True) sample_world sample_original primary_sync = Inr sample_resource"
  proof -
    have "record_fields sample_asset_record = Inr (the (json_as_object (the (json_get ''fields'' sample_asset_record))))"
      by (simp add: record_fields_def sample_asset_record_def jobject_def bt_get_from)
    then show ?thesis
      by (simp add: resolve_resource_def sample_lookup sample_parse)
        (simp add: sample_original_def sample_lookup sample_parse)
  qed
  moreover have "install_source sample_world sample_resource = Inr sample_identity"
    by (simp add: install_source_def sample_world_def sample_resource_def sample_identity_def
        identity_size_def identity_sha256_def sample_sha256_ok install_exclusive_def
        final_after_install_def ensure_final_identity_def)
  moreover have "verified_timestamp (rw_clock sample_world) = Inr 2"
    by (simp add: verified_timestamp_def sample_world_def duration_since_def as_secs_def nanos_per_second_def)
  moreover have "rw_anchor sample_world = Inr ()" by (simp add: sample_world_def)
  moreover have "rs_size_bytes sample_resource \<le> MAX_ADJUSTED_SOURCE_ENCODED_BYTES"
    by (simp add: sample_resource_def model_defs)
  moreover have "ar_req_original_asset sample_adjusted_request = sample_original"
    by (simp add: sample_adjusted_request_def)
  ultimately show ?thesis by (simp add: resolve_def not_less [symmetric])
qed

theorem resolved_proof_is_valid_witness:
  "validate_adjusted_source_proof_lineage
     (make_adjusted_proof sample_adjusted_request primary_sync sample_resource sample_identity 2)
     ''id'' sample_original ''/o/a.heic'' = Ok ()"
proof -
  have "path_eq (ar_req_output_path sample_adjusted_request) (adjusted_source_path_for_output ''/o/a.heic'')"
    by code_simp
  from resolved_proof_is_valid [OF sample_resolve_Ok _ _ this]
  show ?thesis
    by (simp add: sample_world_def distinct_master_def make_adjusted_proof_def sample_resource_def)
      (simp add: sample_adjusted_request_def)
qed

end
