(* ===== verification/Workflow_Proofs.thy ===== *)
theory Workflow_Proofs
  imports Manifest_Store Adjusted_Source Nas_Proof
begin

section \<open>The proofs the workflow stores\<close>

text \<open>
  The proof types of \<open>src/src/workflow.rs\<close>, as they are written into a record and read back. Each is
  an interpretation of \<open>codec\<close>. A missing field with a default reads as the default; the alias
  \<open>vipsheader_ok\<close> of older records is accepted for \<open>heif_info_ok\<close>.
\<close>

subsection \<open>Names and constants\<close>

definition NAS_PROOF :: string where [model_defs]: "NAS_PROOF = ''nas''"
definition ORIGINAL_ASSET_PROOF :: string where [model_defs]: "ORIGINAL_ASSET_PROOF = ''original_asset''"
definition ADJUSTED_SOURCE_PROOF :: string where [model_defs]: "ADJUSTED_SOURCE_PROOF = ''adjusted_source''"
definition CONVERSION_PROOF :: string where [model_defs]: "CONVERSION_PROOF = ''conversion''"
definition CONVERSION_PERFORMANCE_PROOF :: string where
  [model_defs]: "CONVERSION_PERFORMANCE_PROOF = ''conversion_performance''"
definition HEIC_PROOF :: string where [model_defs]: "HEIC_PROOF = ''heic''"
definition SOURCE_AGE_PROOF :: string where [model_defs]: "SOURCE_AGE_PROOF = ''source_age''"
definition UPLOAD_PROOF :: string where [model_defs]: "UPLOAD_PROOF = ''upload''"
definition UPLOADED_HEIC_DELETE_PROOF :: string where
  [model_defs]: "UPLOADED_HEIC_DELETE_PROOF = ''uploaded_heic_delete''"
definition ICLOUDPD_LOCAL_MIRROR_PROOF :: string where
  [model_defs]: "ICLOUDPD_LOCAL_MIRROR_PROOF = ''icloudpd_local_mirror''"
definition DELETE_ELIGIBILITY_PROOF :: string where [model_defs]: "DELETE_ELIGIBILITY_PROOF = ''delete_eligibility''"
definition DELETE_APPROVAL_PROOF :: string where [model_defs]: "DELETE_APPROVAL_PROOF = ''delete_approval''"
definition DELETE_EXECUTION_PROOF :: string where [model_defs]: "DELETE_EXECUTION_PROOF = ''delete''"

definition CONVERSION_PERFORMANCE_SCHEMA_VERSION :: u8 where
  [model_defs]: "CONVERSION_PERFORMANCE_SCHEMA_VERSION = 1"

definition CONVERSION_PERFORMANCE_MEASUREMENT_METHOD :: string where
  [model_defs]: "CONVERSION_PERFORMANCE_MEASUREMENT_METHOD = ''monotonic_wall_clock''"

definition EMBEDDED_PREVIEW_CONVERSION_RECIPE :: string where
  [model_defs]: "EMBEDDED_PREVIEW_CONVERSION_RECIPE = ''embedded-preview-normalized-v1''"

definition UNSAFE_LEGACY_RAW_SENSOR_RENDER_TOOL :: string where
  [model_defs]: "UNSAFE_LEGACY_RAW_SENSOR_RENDER_TOOL = ''dcraw_emu+magick+heif-enc''"

definition BASE_DELETE_PLAN_PROOFS :: "string list" where
  "BASE_DELETE_PLAN_PROOFS =
     [NAS_PROOF, ORIGINAL_ASSET_PROOF, CONVERSION_PROOF, CONVERSION_PERFORMANCE_PROOF, HEIC_PROOF,
      SOURCE_AGE_PROOF, UPLOAD_PROOF, ICLOUDPD_LOCAL_MIRROR_PROOF, DELETE_ELIGIBILITY_PROOF,
      DELETE_APPROVAL_PROOF]"

subsection \<open>Conversion\<close>

datatype conversion_source_binding =
    EmbeddedPreview
  | AdjustedSource string string path

definition ser_source_binding :: "conversion_source_binding \<Rightarrow> json" where
  "ser_source_binding b =
     (case b of
        EmbeddedPreview \<Rightarrow> JString ''embedded_preview''
      | AdjustedSource digest sha256 p \<Rightarrow>
          jobject [(''adjusted_source'',
            jobject [(''adjusted_source_proof_digest'', JString digest),
                     (''adjusted_jpeg_sha256'', JString sha256),
                     (''adjusted_jpeg_path'', JString p)])])"

definition de_source_binding :: "json \<Rightarrow> conversion_source_binding option" where
  "de_source_binding j =
     (case j of
        JString s \<Rightarrow> (if s = ''embedded_preview'' then Some EmbeddedPreview else None)
      | JObject [(k, v)] \<Rightarrow>
          (if k = ''embedded_preview'' then (if v = JNull then Some EmbeddedPreview else None)
           else if k = ''adjusted_source'' then
             Option.bind (struct_fields (plain
               [''adjusted_source_proof_digest'', ''adjusted_jpeg_sha256'', ''adjusted_jpeg_path'']) v) (\<lambda>src.
             Option.bind (field_req src ''adjusted_source_proof_digest'' de_string) (\<lambda>digest.
             Option.bind (field_req src ''adjusted_jpeg_sha256'' de_string) (\<lambda>sha256.
             Option.bind (field_req src ''adjusted_jpeg_path'' de_string) (\<lambda>p.
             Some (AdjustedSource digest sha256 p)))))
           else None)
      | _ \<Rightarrow> None)"

lemma jobject_single: "jobject [(k, v)] = JObject [(k, v)]"
  by (simp add: jobject_def bt_from_def)

lemma de_ser_source_binding [simp]: "de_source_binding (ser_source_binding b) = Some b"
  by (cases b)
    (simp_all add: de_source_binding_def ser_source_binding_def jobject_single [of "''adjusted_source''"]
      struct_decode_simps)

record conversion_result_input =
  ci_heic_path :: path
  ci_heic_sha256 :: string
  ci_size_bytes :: u64
  ci_source_binding :: conversion_source_binding

record conversion_result_proof =
  cp_heic_path :: path
  cp_heic_sha256 :: string
  cp_size_bytes :: u64
  cp_conversion_recipe_id :: string
  cp_source_binding :: conversion_source_binding

definition ser_conversion_result_proof :: "conversion_result_proof \<Rightarrow> json" where
  "ser_conversion_result_proof p =
     jobject
      [(''heic_path'', JString (cp_heic_path p)),
       (''heic_sha256'', JString (cp_heic_sha256 p)),
       (''size_bytes'', ser_u64 (cp_size_bytes p)),
       (''conversion_recipe_id'', JString (cp_conversion_recipe_id p)),
       (''source_binding'', ser_source_binding (cp_source_binding p))]"

definition de_conversion_result_proof :: "json \<Rightarrow> conversion_result_proof option" where
  "de_conversion_result_proof j =
     Option.bind (struct_fields (plain
       [''heic_path'', ''heic_sha256'', ''size_bytes'', ''conversion_recipe_id'', ''source_binding'']) j) (\<lambda>src.
     Option.bind (field_req src ''heic_path'' de_string) (\<lambda>heic_path.
     Option.bind (field_req src ''heic_sha256'' de_string) (\<lambda>heic_sha256.
     Option.bind (field_req src ''size_bytes'' de_u64) (\<lambda>size_bytes.
     Option.bind (field_default src ''conversion_recipe_id'' [] de_string) (\<lambda>recipe.
     Option.bind (field_default src ''source_binding'' EmbeddedPreview de_source_binding) (\<lambda>binding.
     Some \<lparr>cp_heic_path = heic_path, cp_heic_sha256 = heic_sha256, cp_size_bytes = size_bytes,
           cp_conversion_recipe_id = recipe, cp_source_binding = binding\<rparr>))))))"

interpretation conversion_codec: codec ser_conversion_result_proof de_conversion_result_proof
  by unfold_locales
    (simp add: ser_conversion_result_proof_def de_conversion_result_proof_def struct_decode_simps)

record conversion_command_timing =
  ct_program :: string
  ct_wall_time_millis :: u64

definition ser_timing :: "conversion_command_timing \<Rightarrow> json" where
  "ser_timing t =
     jobject [(''program'', JString (ct_program t)), (''wall_time_millis'', ser_u64 (ct_wall_time_millis t))]"

definition de_timing :: "json \<Rightarrow> conversion_command_timing option" where
  "de_timing j =
     Option.bind (struct_fields (plain [''program'', ''wall_time_millis'']) j) (\<lambda>src.
     Option.bind (field_req src ''program'' de_string) (\<lambda>program.
     Option.bind (field_req src ''wall_time_millis'' de_u64) (\<lambda>wall_time_millis.
     Some \<lparr>ct_program = program, ct_wall_time_millis = wall_time_millis\<rparr>)))"

lemma de_ser_timing [simp]: "de_timing (ser_timing t) = Some t"
  by (simp add: ser_timing_def de_timing_def struct_decode_simps)

record conversion_performance_input =
  pi_measured_at_unix_seconds :: u64
  pi_conversion_tool :: string
  pi_conversion_tool_version :: "string option"
  pi_heic_quality :: u8
  pi_convert_wall_time_millis :: u64
  pi_total_wall_time_millis :: u64
  pi_user_cpu_time_millis :: "u64 option"
  pi_system_cpu_time_millis :: "u64 option"
  pi_peak_rss_kib :: "u64 option"
  pi_conversion_command_timings :: "conversion_command_timing list"

record conversion_performance_proof =
  pp_schema_version :: u8
  pp_measured_at_unix_seconds :: u64
  pp_measurement_method :: string
  pp_conversion_tool :: string
  pp_conversion_recipe_id :: string
  pp_conversion_tool_version :: "string option"
  pp_heic_quality :: u8
  pp_raw_size_bytes :: u64
  pp_heic_size_bytes :: u64
  pp_convert_wall_time_millis :: u64
  pp_total_wall_time_millis :: u64
  pp_user_cpu_time_millis :: "u64 option"
  pp_system_cpu_time_millis :: "u64 option"
  pp_peak_rss_kib :: "u64 option"
  pp_conversion_command_timings :: "conversion_command_timing list"

definition performance_fields :: "conversion_performance_proof \<Rightarrow> (string \<times> json) list" where
  "performance_fields p =
      ([(''schema_version'', ser_small (pp_schema_version p)),
        (''measured_at_unix_seconds'', ser_u64 (pp_measured_at_unix_seconds p)),
        (''measurement_method'', JString (pp_measurement_method p)),
        (''conversion_tool'', JString (pp_conversion_tool p)),
        (''conversion_recipe_id'', JString (pp_conversion_recipe_id p)),
        (''heic_quality'', ser_small (pp_heic_quality p)),
        (''raw_size_bytes'', ser_u64 (pp_raw_size_bytes p)),
        (''heic_size_bytes'', ser_u64 (pp_heic_size_bytes p)),
        (''convert_wall_time_millis'', ser_u64 (pp_convert_wall_time_millis p)),
        (''total_wall_time_millis'', ser_u64 (pp_total_wall_time_millis p))]
       @ ser_skip_none ''conversion_tool_version'' JString (pp_conversion_tool_version p)
       @ ser_skip_none ''user_cpu_time_millis'' ser_u64 (pp_user_cpu_time_millis p)
       @ ser_skip_none ''system_cpu_time_millis'' ser_u64 (pp_system_cpu_time_millis p)
       @ ser_skip_none ''peak_rss_kib'' ser_u64 (pp_peak_rss_kib p)
       @ (if pp_conversion_command_timings p = [] then []
          else [(''conversion_command_timings'', JArray (map ser_timing (pp_conversion_command_timings p)))]))"

definition ser_conversion_performance_proof :: "conversion_performance_proof \<Rightarrow> json" where
  "ser_conversion_performance_proof p = jobject (performance_fields p)"

definition de_conversion_performance_proof :: "json \<Rightarrow> conversion_performance_proof option" where
  "de_conversion_performance_proof j =
     Option.bind (struct_fields (plain
       [''schema_version'', ''measured_at_unix_seconds'', ''measurement_method'', ''conversion_tool'',
        ''conversion_recipe_id'', ''conversion_tool_version'', ''heic_quality'', ''raw_size_bytes'',
        ''heic_size_bytes'', ''convert_wall_time_millis'', ''total_wall_time_millis'',
        ''user_cpu_time_millis'', ''system_cpu_time_millis'', ''peak_rss_kib'', ''conversion_command_timings'']) j) (\<lambda>src.
     Option.bind (field_req src ''schema_version'' de_small) (\<lambda>schema_version.
     Option.bind (field_req src ''measured_at_unix_seconds'' de_u64) (\<lambda>measured_at.
     Option.bind (field_req src ''measurement_method'' de_string) (\<lambda>measurement_method.
     Option.bind (field_req src ''conversion_tool'' de_string) (\<lambda>conversion_tool.
     Option.bind (field_default src ''conversion_recipe_id'' [] de_string) (\<lambda>recipe.
     Option.bind (field_opt src ''conversion_tool_version'' de_string) (\<lambda>tool_version.
     Option.bind (field_req src ''heic_quality'' de_small) (\<lambda>heic_quality.
     Option.bind (field_req src ''raw_size_bytes'' de_u64) (\<lambda>raw_size.
     Option.bind (field_req src ''heic_size_bytes'' de_u64) (\<lambda>heic_size.
     Option.bind (field_req src ''convert_wall_time_millis'' de_u64) (\<lambda>convert_wall.
     Option.bind (field_req src ''total_wall_time_millis'' de_u64) (\<lambda>total_wall.
     Option.bind (field_opt src ''user_cpu_time_millis'' de_u64) (\<lambda>user_cpu.
     Option.bind (field_opt src ''system_cpu_time_millis'' de_u64) (\<lambda>system_cpu.
     Option.bind (field_opt src ''peak_rss_kib'' de_u64) (\<lambda>peak_rss.
     Option.bind (field_default src ''conversion_command_timings'' [] (de_vec de_timing)) (\<lambda>timings.
     Some \<lparr>pp_schema_version = schema_version, pp_measured_at_unix_seconds = measured_at,
           pp_measurement_method = measurement_method, pp_conversion_tool = conversion_tool,
           pp_conversion_recipe_id = recipe, pp_conversion_tool_version = tool_version,
           pp_heic_quality = heic_quality, pp_raw_size_bytes = raw_size, pp_heic_size_bytes = heic_size,
           pp_convert_wall_time_millis = convert_wall, pp_total_wall_time_millis = total_wall,
           pp_user_cpu_time_millis = user_cpu, pp_system_cpu_time_millis = system_cpu,
           pp_peak_rss_kib = peak_rss, pp_conversion_command_timings = timings\<rparr>))))))))))))))))"

lemma performance_fields_distinct: "distinct (map fst (performance_fields p))"
  by (simp add: performance_fields_def fst_ser_skip_none distinct_ser_skip_none)

interpretation performance_codec: codec ser_conversion_performance_proof de_conversion_performance_proof
proof
  fix p
  show "de_conversion_performance_proof (ser_conversion_performance_proof p) = Some p"
    by (simp add: ser_conversion_performance_proof_def de_conversion_performance_proof_def
        struct_fields_distinct [OF performance_fields_distinct] skip_none_simps de_vec_def)
      (simp add: performance_fields_def skip_none_simps de_vec_def del: map_of_append)
qed

end
