(* ===== verification/Delete_Proofs.thy ===== *)
theory Delete_Proofs
  imports Workflow_Proofs
begin

section \<open>The proofs on the way to a deletion\<close>

text \<open>
  The proof types of \<open>src/src/workflow.rs\<close> that come after the conversion: the verification of the
  HEIC file, its upload, the local mirror, the age of the source, the eligibility for deletion, its
  approval and its execution, each with its codec, and the tokens a caller holds between the
  validation of a deletion and its recording.
\<close>

subsection \<open>Verification of the HEIC file\<close>

record heic_verification_input =
  hi_heic_path :: path
  hi_heic_sha256 :: string
  hi_size_bytes :: u64
  hi_heif_info_ok :: bool
  hi_metadata_copied :: bool
  hi_visual_content_ok :: bool
  hi_visual_match_ok :: bool
  hi_visual_rmse_ppm :: "u32 option"
  hi_visual_mae_ppm :: "u32 option"

record heic_verification_proof =
  hp_heic_path :: path
  hp_heic_sha256 :: string
  hp_size_bytes :: u64
  hp_conversion_recipe_id :: string
  hp_heif_info_ok :: bool
  hp_metadata_copied :: bool
  hp_visual_content_ok :: bool
  hp_visual_match_ok :: bool
  hp_visual_rmse_ppm :: "u32 option"
  hp_visual_mae_ppm :: "u32 option"

definition heic_proof_of :: "string \<Rightarrow> heic_verification_input \<Rightarrow> heic_verification_proof" where
  "heic_proof_of recipe i =
     \<lparr>hp_heic_path = hi_heic_path i, hp_heic_sha256 = hi_heic_sha256 i, hp_size_bytes = hi_size_bytes i,
      hp_conversion_recipe_id = recipe, hp_heif_info_ok = hi_heif_info_ok i,
      hp_metadata_copied = hi_metadata_copied i, hp_visual_content_ok = hi_visual_content_ok i,
      hp_visual_match_ok = hi_visual_match_ok i, hp_visual_rmse_ppm = hi_visual_rmse_ppm i,
      hp_visual_mae_ppm = hi_visual_mae_ppm i\<rparr>"

text \<open>\<open>HeicVerificationInput::from\<close> forgets the recipe.\<close>

definition heic_input_of :: "heic_verification_proof \<Rightarrow> heic_verification_input" where
  "heic_input_of p =
     \<lparr>hi_heic_path = hp_heic_path p, hi_heic_sha256 = hp_heic_sha256 p, hi_size_bytes = hp_size_bytes p,
      hi_heif_info_ok = hp_heif_info_ok p, hi_metadata_copied = hp_metadata_copied p,
      hi_visual_content_ok = hp_visual_content_ok p, hi_visual_match_ok = hp_visual_match_ok p,
      hi_visual_rmse_ppm = hp_visual_rmse_ppm p, hi_visual_mae_ppm = hp_visual_mae_ppm p\<rparr>"

lemma heic_input_of_proof [simp]: "heic_input_of (heic_proof_of recipe i) = i"
  by (simp add: heic_input_of_def heic_proof_of_def)

definition heic_proof_fields :: "heic_verification_proof \<Rightarrow> (string \<times> json) list" where
  "heic_proof_fields p =
     [(''heic_path'', JString (hp_heic_path p)),
      (''heic_sha256'', JString (hp_heic_sha256 p)),
      (''size_bytes'', ser_u64 (hp_size_bytes p)),
      (''conversion_recipe_id'', JString (hp_conversion_recipe_id p)),
      (''heif_info_ok'', JBool (hp_heif_info_ok p)),
      (''metadata_copied'', JBool (hp_metadata_copied p)),
      (''visual_content_ok'', JBool (hp_visual_content_ok p)),
      (''visual_match_ok'', JBool (hp_visual_match_ok p))]
     @ ser_skip_none ''visual_rmse_ppm'' ser_small (hp_visual_rmse_ppm p)
     @ ser_skip_none ''visual_mae_ppm'' ser_small (hp_visual_mae_ppm p)"

definition ser_heic_verification_proof :: "heic_verification_proof \<Rightarrow> json" where
  "ser_heic_verification_proof p = jobject (heic_proof_fields p)"

definition heic_proof_names :: "(string \<times> string list) list" where
  "heic_proof_names =
     plain [''heic_path'', ''heic_sha256'', ''size_bytes'', ''conversion_recipe_id'']
     @ [(''heif_info_ok'', [''vipsheader_ok''])]
     @ plain [''metadata_copied'', ''visual_content_ok'', ''visual_match_ok'', ''visual_rmse_ppm'',
              ''visual_mae_ppm'']"

definition de_heic_verification_proof :: "json \<Rightarrow> heic_verification_proof option" where
  "de_heic_verification_proof j =
     Option.bind (struct_fields heic_proof_names j) (\<lambda>src.
     Option.bind (field_req src ''heic_path'' de_string) (\<lambda>heic_path.
     Option.bind (field_req src ''heic_sha256'' de_string) (\<lambda>heic_sha256.
     Option.bind (field_req src ''size_bytes'' de_u64) (\<lambda>size_bytes.
     Option.bind (field_default src ''conversion_recipe_id'' [] de_string) (\<lambda>recipe.
     Option.bind (field_req src ''heif_info_ok'' de_bool) (\<lambda>heif_info_ok.
     Option.bind (field_req src ''metadata_copied'' de_bool) (\<lambda>metadata_copied.
     Option.bind (field_req src ''visual_content_ok'' de_bool) (\<lambda>visual_content_ok.
     Option.bind (field_req src ''visual_match_ok'' de_bool) (\<lambda>visual_match_ok.
     Option.bind (field_default src ''visual_rmse_ppm'' None (de_option de_small)) (\<lambda>rmse.
     Option.bind (field_default src ''visual_mae_ppm'' None (de_option de_small)) (\<lambda>mae.
     Some \<lparr>hp_heic_path = heic_path, hp_heic_sha256 = heic_sha256, hp_size_bytes = size_bytes,
           hp_conversion_recipe_id = recipe, hp_heif_info_ok = heif_info_ok,
           hp_metadata_copied = metadata_copied, hp_visual_content_ok = visual_content_ok,
           hp_visual_match_ok = visual_match_ok, hp_visual_rmse_ppm = rmse, hp_visual_mae_ppm = mae\<rparr>)))))))))))"

text \<open>Reading back an object in which no alias is used.\<close>

lemma struct_fields_no_alias:
  assumes "distinct (map fst kvs)" and "distinct (map fst fs)"
    and "\<forall>(n, as)\<in>set fs. \<forall>a\<in>set as. a \<notin> fst ` set kvs"
  shows "struct_fields fs (jobject kvs)
     = Some (False, \<lambda>n. if n \<in> fst ` set fs then map_of kvs n else None)"
proof -
  have get: "bt_get (bt_from kvs) n = map_of kvs n" for n
    by (simp add: bt_get_from map_of_rev_distinct [OF assms(1)])
  have absent: "map_of kvs a = None" if "(n, as) \<in> set fs" "a \<in> set as" for n as a
    using assms(3) that by (fastforce simp: map_of_eq_None_iff)
  have none: "first_some (map (bt_get (bt_from kvs)) as) = None" if "(n, as) \<in> set fs" for n as
    using absent [OF that] by (induction as) (auto simp: get)
  have one: "filter (bt_contains (bt_from kvs)) as = []" if "(n, as) \<in> set fs" for n as
    using absent [OF that] by (auto simp: filter_empty_conv bt_contains_def get)
  have "(case map_of fs n of None \<Rightarrow> None | Some as \<Rightarrow> first_some (map (bt_get (bt_from kvs)) (n # as)))
      = (if n \<in> fst ` set fs then map_of kvs n else None)" for n
  proof (cases "map_of fs n")
    case None
    then have "n \<notin> fst ` set fs" by (simp add: map_of_eq_None_iff)
    with None show ?thesis by simp
  next
    case (Some as)
    then have "(n, as) \<in> set fs" by (rule map_of_SomeD)
    then show ?thesis
      using Some none by (cases "map_of kvs n") (force simp: get)+
  qed
  moreover have "list_all (\<lambda>(n, as). length (filter (bt_contains (bt_from kvs)) (n # as)) \<le> 1) fs"
    using one by (fastforce simp: list_all_iff)
  ultimately show ?thesis
    by (simp add: struct_fields_def jobject_def fun_eq_iff)
qed


lemma heic_proof_fields_distinct: "distinct (map fst (heic_proof_fields p))"
  by (simp add: heic_proof_fields_def fst_ser_skip_none distinct_ser_skip_none)

interpretation heic_codec: codec ser_heic_verification_proof de_heic_verification_proof
proof
  fix p
  have "struct_fields heic_proof_names (ser_heic_verification_proof p)
      = Some (False, \<lambda>n. if n \<in> fst ` set heic_proof_names then map_of (heic_proof_fields p) n else None)"
    unfolding ser_heic_verification_proof_def
    by (rule struct_fields_no_alias [OF heic_proof_fields_distinct])
      (auto simp: heic_proof_names_def plain_def heic_proof_fields_def ser_skip_none_def split: option.splits)
  then show "de_heic_verification_proof (ser_heic_verification_proof p) = Some p"
    by (simp add: de_heic_verification_proof_def heic_proof_names_def plain_def heic_proof_fields_def
        skip_none_simps del: map_of_append)
qed

record verified_heic =
  vh_heic_path :: path
  vh_heic_sha256 :: string
  vh_size_bytes :: u64

definition verified_heic_of :: "heic_verification_proof \<Rightarrow> verified_heic" where
  "verified_heic_of p =
     \<lparr>vh_heic_path = hp_heic_path p, vh_heic_sha256 = hp_heic_sha256 p, vh_size_bytes = hp_size_bytes p\<rparr>"

subsection \<open>Upload, local mirror, age of the source\<close>

record upload_proof =
  up_uploaded_heic_asset_id :: string
  up_uploaded_heic_sha256 :: string
  up_database_scope :: cloudkit_database_scope
  up_zone_name :: string
  up_owner_record_name :: "string option"
  up_uploaded_heic_path :: "path option"

definition upload_fields :: "upload_proof \<Rightarrow> (string \<times> json) list" where
  "upload_fields p =
     [(''uploaded_heic_asset_id'', JString (up_uploaded_heic_asset_id p)),
      (''uploaded_heic_sha256'', JString (up_uploaded_heic_sha256 p)),
      (''database_scope'', ser_scope (up_database_scope p)),
      (''zone_name'', JString (up_zone_name p))]
     @ ser_skip_none ''owner_record_name'' JString (up_owner_record_name p)
     @ ser_skip_none ''uploaded_heic_path'' JString (up_uploaded_heic_path p)"

definition ser_upload_proof :: "upload_proof \<Rightarrow> json" where
  "ser_upload_proof p = jobject (upload_fields p)"

definition de_upload_proof :: "json \<Rightarrow> upload_proof option" where
  "de_upload_proof j =
     Option.bind (struct_fields (plain
       [''uploaded_heic_asset_id'', ''uploaded_heic_sha256'', ''database_scope'', ''zone_name'',
        ''owner_record_name'', ''uploaded_heic_path'']) j) (\<lambda>src.
     Option.bind (field_req src ''uploaded_heic_asset_id'' de_string) (\<lambda>uploaded_heic_asset_id.
     Option.bind (field_req src ''uploaded_heic_sha256'' de_string) (\<lambda>uploaded_heic_sha256.
     Option.bind (field_default src ''database_scope'' Private de_scope) (\<lambda>database_scope.
     Option.bind (field_default src ''zone_name'' PRIMARY_SYNC_ZONE de_string) (\<lambda>zone_name.
     Option.bind (field_default src ''owner_record_name'' None (de_option de_string)) (\<lambda>owner_record_name.
     Option.bind (field_opt src ''uploaded_heic_path'' de_string) (\<lambda>uploaded_heic_path.
     Some \<lparr>up_uploaded_heic_asset_id = uploaded_heic_asset_id,
           up_uploaded_heic_sha256 = uploaded_heic_sha256, up_database_scope = database_scope,
           up_zone_name = zone_name, up_owner_record_name = owner_record_name,
           up_uploaded_heic_path = uploaded_heic_path\<rparr>)))))))"

lemma upload_fields_distinct: "distinct (map fst (upload_fields p))"
  by (simp add: upload_fields_def fst_ser_skip_none distinct_ser_skip_none)

interpretation upload_codec: codec ser_upload_proof de_upload_proof
proof
  fix p
  show "de_upload_proof (ser_upload_proof p) = Some p"
    by (simp add: ser_upload_proof_def de_upload_proof_def
        struct_fields_distinct [OF upload_fields_distinct] skip_none_simps)
      (simp add: upload_fields_def skip_none_simps del: map_of_append)
qed

record icloudpd_local_mirror_proof =
  lm_uploaded_heic_asset_id :: string
  lm_uploaded_heic_sha256 :: string
  lm_uploaded_heic_path :: path
  lm_icloudpd_download_path :: path
  lm_size_bytes :: u64

definition mirror_fields :: "icloudpd_local_mirror_proof \<Rightarrow> (string \<times> json) list" where
  "mirror_fields p =
     [(''uploaded_heic_asset_id'', JString (lm_uploaded_heic_asset_id p)),
      (''uploaded_heic_sha256'', JString (lm_uploaded_heic_sha256 p)),
      (''uploaded_heic_path'', JString (lm_uploaded_heic_path p)),
      (''icloudpd_download_path'', JString (lm_icloudpd_download_path p)),
      (''size_bytes'', ser_u64 (lm_size_bytes p))]"

definition ser_icloudpd_local_mirror_proof :: "icloudpd_local_mirror_proof \<Rightarrow> json" where
  "ser_icloudpd_local_mirror_proof p = jobject (mirror_fields p)"

definition de_icloudpd_local_mirror_proof :: "json \<Rightarrow> icloudpd_local_mirror_proof option" where
  "de_icloudpd_local_mirror_proof j =
     Option.bind (struct_fields (plain
       [''uploaded_heic_asset_id'', ''uploaded_heic_sha256'', ''uploaded_heic_path'',
        ''icloudpd_download_path'', ''size_bytes'']) j) (\<lambda>src.
     Option.bind (field_req src ''uploaded_heic_asset_id'' de_string) (\<lambda>uploaded_heic_asset_id.
     Option.bind (field_req src ''uploaded_heic_sha256'' de_string) (\<lambda>uploaded_heic_sha256.
     Option.bind (field_req src ''uploaded_heic_path'' de_string) (\<lambda>uploaded_heic_path.
     Option.bind (field_req src ''icloudpd_download_path'' de_string) (\<lambda>icloudpd_download_path.
     Option.bind (field_req src ''size_bytes'' de_u64) (\<lambda>size_bytes.
     Some \<lparr>lm_uploaded_heic_asset_id = uploaded_heic_asset_id,
           lm_uploaded_heic_sha256 = uploaded_heic_sha256,
           lm_uploaded_heic_path = uploaded_heic_path,
           lm_icloudpd_download_path = icloudpd_download_path, lm_size_bytes = size_bytes\<rparr>))))))"

lemma mirror_fields_distinct: "distinct (map fst (mirror_fields p))"
  by (simp add: mirror_fields_def fst_ser_skip_none distinct_ser_skip_none)

interpretation mirror_codec: codec ser_icloudpd_local_mirror_proof de_icloudpd_local_mirror_proof
proof
  fix p
  show "de_icloudpd_local_mirror_proof (ser_icloudpd_local_mirror_proof p) = Some p"
    by (simp add: ser_icloudpd_local_mirror_proof_def de_icloudpd_local_mirror_proof_def
        struct_fields_distinct [OF mirror_fields_distinct] skip_none_simps)
      (simp add: mirror_fields_def skip_none_simps del: map_of_append)
qed

record source_age_proof =
  sa_source_captured_unix_seconds :: u64
  sa_verified_at_unix_seconds :: u64
  sa_min_age_seconds :: u64

definition source_age_fields :: "source_age_proof \<Rightarrow> (string \<times> json) list" where
  "source_age_fields p =
     [(''source_captured_unix_seconds'', ser_u64 (sa_source_captured_unix_seconds p)),
      (''verified_at_unix_seconds'', ser_u64 (sa_verified_at_unix_seconds p)),
      (''min_age_seconds'', ser_u64 (sa_min_age_seconds p))]"

definition ser_source_age_proof :: "source_age_proof \<Rightarrow> json" where
  "ser_source_age_proof p = jobject (source_age_fields p)"

definition de_source_age_proof :: "json \<Rightarrow> source_age_proof option" where
  "de_source_age_proof j =
     Option.bind (struct_fields (plain
       [''source_captured_unix_seconds'', ''verified_at_unix_seconds'', ''min_age_seconds'']) j) (\<lambda>src.
     Option.bind (field_req src ''source_captured_unix_seconds'' de_u64) (\<lambda>source_captured_unix_seconds.
     Option.bind (field_req src ''verified_at_unix_seconds'' de_u64) (\<lambda>verified_at_unix_seconds.
     Option.bind (field_req src ''min_age_seconds'' de_u64) (\<lambda>min_age_seconds.
     Some \<lparr>sa_source_captured_unix_seconds = source_captured_unix_seconds,
           sa_verified_at_unix_seconds = verified_at_unix_seconds,
           sa_min_age_seconds = min_age_seconds\<rparr>))))"

lemma source_age_fields_distinct: "distinct (map fst (source_age_fields p))"
  by (simp add: source_age_fields_def fst_ser_skip_none distinct_ser_skip_none)

interpretation source_age_codec: codec ser_source_age_proof de_source_age_proof
proof
  fix p
  show "de_source_age_proof (ser_source_age_proof p) = Some p"
    by (simp add: ser_source_age_proof_def de_source_age_proof_def
        struct_fields_distinct [OF source_age_fields_distinct] skip_none_simps)
      (simp add: source_age_fields_def skip_none_simps del: map_of_append)
qed

subsection \<open>Eligibility, approval and execution of the deletion\<close>

record delete_eligibility_proof =
  el_upload_proof_key :: string
  el_original_asset_proof_key :: string
  el_conversion_performance_proof_key :: string
  el_heic_proof_key :: string
  el_source_age_proof_key :: string
  el_icloudpd_local_mirror_proof_key :: string
  el_adjusted_source_proof_key :: "string option"
  el_adjusted_source_proof_digest :: "string option"
  el_original_database_scope :: cloudkit_database_scope
  el_original_zone_name :: string
  el_original_owner_record_name :: "string option"
  el_uploaded_database_scope :: cloudkit_database_scope
  el_uploaded_zone_name :: string
  el_uploaded_owner_record_name :: "string option"
  el_uploaded_heic_asset_id :: string
  el_uploaded_heic_sha256 :: string
  el_uploaded_heic_path :: path
  el_verified_heic_sha256 :: string
  el_verified_heic_path :: path
  el_icloudpd_download_path :: path
  el_mirrored_heic_sha256 :: string
  el_mirrored_size_bytes :: u64
  el_source_captured_unix_seconds :: u64
  el_source_age_seconds :: u64
  el_min_source_age_seconds :: u64
  el_original_record_name :: string
  el_original_record_change_tag :: string
  el_original_record_type :: string
  el_original_filename :: string
  el_original_size_bytes :: u64
  el_matched_raw_sha256 :: string

definition de_delete_eligibility_proof :: "json \<Rightarrow> delete_eligibility_proof option" where
  "de_delete_eligibility_proof j =
     Option.bind (struct_fields (plain
       [''upload_proof_key'', ''original_asset_proof_key'', ''conversion_performance_proof_key'',
        ''heic_proof_key'', ''source_age_proof_key'', ''icloudpd_local_mirror_proof_key'',
        ''adjusted_source_proof_key'', ''adjusted_source_proof_digest'',
        ''original_database_scope'', ''original_zone_name'', ''original_owner_record_name'',
        ''uploaded_database_scope'', ''uploaded_zone_name'', ''uploaded_owner_record_name'',
        ''uploaded_heic_asset_id'', ''uploaded_heic_sha256'', ''uploaded_heic_path'',
        ''verified_heic_sha256'', ''verified_heic_path'', ''icloudpd_download_path'',
        ''mirrored_heic_sha256'', ''mirrored_size_bytes'', ''source_captured_unix_seconds'',
        ''source_age_seconds'', ''min_source_age_seconds'', ''original_record_name'',
        ''original_record_change_tag'', ''original_record_type'', ''original_filename'',
        ''original_size_bytes'', ''matched_raw_sha256'']) j) (\<lambda>src.
     Option.bind (field_req src ''upload_proof_key'' de_string) (\<lambda>upload_proof_key.
     Option.bind (field_req src ''original_asset_proof_key'' de_string) (\<lambda>original_asset_proof_key.
     Option.bind (field_req src ''conversion_performance_proof_key'' de_string) (\<lambda>conversion_performance_proof_key.
     Option.bind (field_req src ''heic_proof_key'' de_string) (\<lambda>heic_proof_key.
     Option.bind (field_req src ''source_age_proof_key'' de_string) (\<lambda>source_age_proof_key.
     Option.bind (field_req src ''icloudpd_local_mirror_proof_key'' de_string) (\<lambda>icloudpd_local_mirror_proof_key.
     Option.bind (field_default src ''adjusted_source_proof_key'' None (de_option de_string)) (\<lambda>adjusted_source_proof_key.
     Option.bind (field_default src ''adjusted_source_proof_digest'' None (de_option de_string)) (\<lambda>digest.
     Option.bind (field_default src ''original_database_scope'' Private de_scope) (\<lambda>original_database_scope.
     Option.bind (field_default src ''original_zone_name'' PRIMARY_SYNC_ZONE de_string) (\<lambda>original_zone_name.
     Option.bind (field_default src ''original_owner_record_name'' None (de_option de_string)) (\<lambda>original_owner_record_name.
     Option.bind (field_default src ''uploaded_database_scope'' Private de_scope) (\<lambda>uploaded_database_scope.
     Option.bind (field_default src ''uploaded_zone_name'' PRIMARY_SYNC_ZONE de_string) (\<lambda>uploaded_zone_name.
     Option.bind (field_default src ''uploaded_owner_record_name'' None (de_option de_string)) (\<lambda>uploaded_owner_record_name.
     Option.bind (field_req src ''uploaded_heic_asset_id'' de_string) (\<lambda>uploaded_heic_asset_id.
     Option.bind (field_req src ''uploaded_heic_sha256'' de_string) (\<lambda>uploaded_heic_sha256.
     Option.bind (field_req src ''uploaded_heic_path'' de_string) (\<lambda>uploaded_heic_path.
     Option.bind (field_req src ''verified_heic_sha256'' de_string) (\<lambda>verified_heic_sha256.
     Option.bind (field_req src ''verified_heic_path'' de_string) (\<lambda>verified_heic_path.
     Option.bind (field_req src ''icloudpd_download_path'' de_string) (\<lambda>icloudpd_download_path.
     Option.bind (field_req src ''mirrored_heic_sha256'' de_string) (\<lambda>mirrored_heic_sha256.
     Option.bind (field_req src ''mirrored_size_bytes'' de_u64) (\<lambda>mirrored_size_bytes.
     Option.bind (field_req src ''source_captured_unix_seconds'' de_u64) (\<lambda>source_captured_unix_seconds.
     Option.bind (field_req src ''source_age_seconds'' de_u64) (\<lambda>age_seconds.
     Option.bind (field_req src ''min_source_age_seconds'' de_u64) (\<lambda>min_source_age_seconds.
     Option.bind (field_req src ''original_record_name'' de_string) (\<lambda>original_record_name.
     Option.bind (field_req src ''original_record_change_tag'' de_string) (\<lambda>original_record_change_tag.
     Option.bind (field_req src ''original_record_type'' de_string) (\<lambda>original_record_type.
     Option.bind (field_req src ''original_filename'' de_string) (\<lambda>original_filename.
     Option.bind (field_req src ''original_size_bytes'' de_u64) (\<lambda>original_size_bytes.
     Option.bind (field_req src ''matched_raw_sha256'' de_string) (\<lambda>matched_raw_sha256.
     Some \<lparr>el_upload_proof_key = upload_proof_key,
           el_original_asset_proof_key = original_asset_proof_key,
           el_conversion_performance_proof_key = conversion_performance_proof_key,
           el_heic_proof_key = heic_proof_key, el_source_age_proof_key = source_age_proof_key,
           el_icloudpd_local_mirror_proof_key = icloudpd_local_mirror_proof_key,
           el_adjusted_source_proof_key = adjusted_source_proof_key,
           el_adjusted_source_proof_digest = digest,
           el_original_database_scope = original_database_scope,
           el_original_zone_name = original_zone_name,
           el_original_owner_record_name = original_owner_record_name,
           el_uploaded_database_scope = uploaded_database_scope,
           el_uploaded_zone_name = uploaded_zone_name,
           el_uploaded_owner_record_name = uploaded_owner_record_name,
           el_uploaded_heic_asset_id = uploaded_heic_asset_id,
           el_uploaded_heic_sha256 = uploaded_heic_sha256,
           el_uploaded_heic_path = uploaded_heic_path,
           el_verified_heic_sha256 = verified_heic_sha256,
           el_verified_heic_path = verified_heic_path,
           el_icloudpd_download_path = icloudpd_download_path,
           el_mirrored_heic_sha256 = mirrored_heic_sha256,
           el_mirrored_size_bytes = mirrored_size_bytes,
           el_source_captured_unix_seconds = source_captured_unix_seconds,
           el_source_age_seconds = age_seconds,
           el_min_source_age_seconds = min_source_age_seconds,
           el_original_record_name = original_record_name,
           el_original_record_change_tag = original_record_change_tag,
           el_original_record_type = original_record_type,
           el_original_filename = original_filename, el_original_size_bytes = original_size_bytes,
           el_matched_raw_sha256 = matched_raw_sha256\<rparr>))))))))))))))))))))))))))))))))"

record delete_approval_proof =
  ap_operator :: string
  ap_adjusted_source_proof_key :: "string option"
  ap_adjusted_source_proof_digest :: "string option"

definition approval_fields :: "delete_approval_proof \<Rightarrow> (string \<times> json) list" where
  "approval_fields p =
     [(''operator'', JString (ap_operator p))]
     @ ser_skip_none ''adjusted_source_proof_key'' JString (ap_adjusted_source_proof_key p)
     @ ser_skip_none ''adjusted_source_proof_digest'' JString (ap_adjusted_source_proof_digest p)"

definition ser_delete_approval_proof :: "delete_approval_proof \<Rightarrow> json" where
  "ser_delete_approval_proof p = jobject (approval_fields p)"

definition de_delete_approval_proof :: "json \<Rightarrow> delete_approval_proof option" where
  "de_delete_approval_proof j =
     Option.bind (struct_fields (plain
       [''operator'', ''adjusted_source_proof_key'', ''adjusted_source_proof_digest'']) j) (\<lambda>src.
     Option.bind (field_req src ''operator'' de_string) (\<lambda>operator.
     Option.bind (field_default src ''adjusted_source_proof_key'' None (de_option de_string)) (\<lambda>adjusted_source_proof_key.
     Option.bind (field_default src ''adjusted_source_proof_digest'' None (de_option de_string)) (\<lambda>digest.
     Some \<lparr>ap_operator = operator, ap_adjusted_source_proof_key = adjusted_source_proof_key,
           ap_adjusted_source_proof_digest = digest\<rparr>))))"

lemma approval_fields_distinct: "distinct (map fst (approval_fields p))"
  by (simp add: approval_fields_def fst_ser_skip_none distinct_ser_skip_none)

interpretation approval_codec: codec ser_delete_approval_proof de_delete_approval_proof
proof
  fix p
  show "de_delete_approval_proof (ser_delete_approval_proof p) = Some p"
    by (simp add: ser_delete_approval_proof_def de_delete_approval_proof_def
        struct_fields_distinct [OF approval_fields_distinct] skip_none_simps)
      (simp add: approval_fields_def skip_none_simps del: map_of_append)
qed

record delete_execution_proof =
  ex_old_record_change_tag :: string
  ex_deleted_record_name :: string
  ex_confirmed_deleted_change_tag :: string
  ex_uploaded_heic_asset_id :: string

definition execution_fields :: "delete_execution_proof \<Rightarrow> (string \<times> json) list" where
  "execution_fields p =
     [(''old_record_change_tag'', JString (ex_old_record_change_tag p)),
      (''deleted_record_name'', JString (ex_deleted_record_name p)),
      (''confirmed_deleted_change_tag'', JString (ex_confirmed_deleted_change_tag p)),
      (''uploaded_heic_asset_id'', JString (ex_uploaded_heic_asset_id p))]"

definition ser_delete_execution_proof :: "delete_execution_proof \<Rightarrow> json" where
  "ser_delete_execution_proof p = jobject (execution_fields p)"

definition de_delete_execution_proof :: "json \<Rightarrow> delete_execution_proof option" where
  "de_delete_execution_proof j =
     Option.bind (struct_fields (plain
       [''old_record_change_tag'', ''deleted_record_name'', ''confirmed_deleted_change_tag'',
        ''uploaded_heic_asset_id'']) j) (\<lambda>src.
     Option.bind (field_req src ''old_record_change_tag'' de_string) (\<lambda>old_record_change_tag.
     Option.bind (field_req src ''deleted_record_name'' de_string) (\<lambda>deleted_record_name.
     Option.bind (field_req src ''confirmed_deleted_change_tag'' de_string) (\<lambda>confirmed_deleted_change_tag.
     Option.bind (field_req src ''uploaded_heic_asset_id'' de_string) (\<lambda>uploaded_heic_asset_id.
     Some \<lparr>ex_old_record_change_tag = old_record_change_tag,
           ex_deleted_record_name = deleted_record_name,
           ex_confirmed_deleted_change_tag = confirmed_deleted_change_tag,
           ex_uploaded_heic_asset_id = uploaded_heic_asset_id\<rparr>)))))"

lemma execution_fields_distinct: "distinct (map fst (execution_fields p))"
  by (simp add: execution_fields_def fst_ser_skip_none distinct_ser_skip_none)

interpretation execution_codec: codec ser_delete_execution_proof de_delete_execution_proof
proof
  fix p
  show "de_delete_execution_proof (ser_delete_execution_proof p) = Some p"
    by (simp add: ser_delete_execution_proof_def de_delete_execution_proof_def
        struct_fields_distinct [OF execution_fields_distinct] skip_none_simps)
      (simp add: execution_fields_def skip_none_simps del: map_of_append)
qed

record uploaded_heic_delete_proof =
  uh_uploaded_heic_asset_id :: string
  uh_uploaded_heic_master_record_name :: string
  uh_matched_heic_sha256 :: string
  uh_size_bytes :: u64
  uh_old_record_change_tag :: string
  uh_deleted_record_name :: string
  uh_confirmed_deleted_change_tag :: string

definition heic_delete_fields :: "uploaded_heic_delete_proof \<Rightarrow> (string \<times> json) list" where
  "heic_delete_fields p =
     [(''uploaded_heic_asset_id'', JString (uh_uploaded_heic_asset_id p)),
      (''uploaded_heic_master_record_name'', JString (uh_uploaded_heic_master_record_name p)),
      (''matched_heic_sha256'', JString (uh_matched_heic_sha256 p)),
      (''size_bytes'', ser_u64 (uh_size_bytes p)),
      (''old_record_change_tag'', JString (uh_old_record_change_tag p)),
      (''deleted_record_name'', JString (uh_deleted_record_name p)),
      (''confirmed_deleted_change_tag'', JString (uh_confirmed_deleted_change_tag p))]"

definition ser_uploaded_heic_delete_proof :: "uploaded_heic_delete_proof \<Rightarrow> json" where
  "ser_uploaded_heic_delete_proof p = jobject (heic_delete_fields p)"

definition de_uploaded_heic_delete_proof :: "json \<Rightarrow> uploaded_heic_delete_proof option" where
  "de_uploaded_heic_delete_proof j =
     Option.bind (struct_fields (plain
       [''uploaded_heic_asset_id'', ''uploaded_heic_master_record_name'', ''matched_heic_sha256'',
        ''size_bytes'', ''old_record_change_tag'', ''deleted_record_name'',
        ''confirmed_deleted_change_tag'']) j) (\<lambda>src.
     Option.bind (field_req src ''uploaded_heic_asset_id'' de_string) (\<lambda>uploaded_heic_asset_id.
     Option.bind (field_req src ''uploaded_heic_master_record_name'' de_string) (\<lambda>uploaded_heic_master_record_name.
     Option.bind (field_req src ''matched_heic_sha256'' de_string) (\<lambda>matched_heic_sha256.
     Option.bind (field_req src ''size_bytes'' de_u64) (\<lambda>size_bytes.
     Option.bind (field_req src ''old_record_change_tag'' de_string) (\<lambda>old_record_change_tag.
     Option.bind (field_req src ''deleted_record_name'' de_string) (\<lambda>deleted_record_name.
     Option.bind (field_req src ''confirmed_deleted_change_tag'' de_string) (\<lambda>confirmed_deleted_change_tag.
     Some \<lparr>uh_uploaded_heic_asset_id = uploaded_heic_asset_id,
           uh_uploaded_heic_master_record_name = uploaded_heic_master_record_name,
           uh_matched_heic_sha256 = matched_heic_sha256, uh_size_bytes = size_bytes,
           uh_old_record_change_tag = old_record_change_tag,
           uh_deleted_record_name = deleted_record_name,
           uh_confirmed_deleted_change_tag = confirmed_deleted_change_tag\<rparr>))))))))"

lemma heic_delete_fields_distinct: "distinct (map fst (heic_delete_fields p))"
  by (simp add: heic_delete_fields_def fst_ser_skip_none distinct_ser_skip_none)

interpretation heic_delete_codec: codec ser_uploaded_heic_delete_proof de_uploaded_heic_delete_proof
proof
  fix p
  show "de_uploaded_heic_delete_proof (ser_uploaded_heic_delete_proof p) = Some p"
    by (simp add: ser_uploaded_heic_delete_proof_def de_uploaded_heic_delete_proof_def
        struct_fields_distinct [OF heic_delete_fields_distinct] skip_none_simps)
      (simp add: heic_delete_fields_def skip_none_simps del: map_of_append)
qed

end
