(* ===== verification/Workflow_Checks.thy ===== *)
theory Workflow_Checks
  imports Delete_Proofs
begin

section \<open>The checks of the workflow\<close>

text \<open>
  \<open>WorkflowError\<close> and the checks of \<open>src/src/workflow.rs\<close>: the small requirements on single fields,
  the readers of stored proofs, and the validators that tie the proofs of a record to each other.
  What the operating system, the clock and the hash function answer during one call is an argument
  (\<open>workflow_world\<close>). Comparisons of paths are comparisons of their components, as in Rust.
\<close>

subsection \<open>Errors and the world outside\<close>

datatype workflow_error =
    WfManifest manifest_error
  | WfProof proof_error
  | WfAdjustedSource adjusted_source_error
  | WfJson
  | ExistingAssetNotDiscoverable string state
  | RawPathMismatch string path path
  | MissingProof string string
  | MissingBatchOriginalAssetProof string
  | UnexpectedBatchOriginalAssetProof string
  | DuplicateBatchOriginalAssetProof string
  | ProofDecode string string
  | ProofMismatch string string string string
  | OwnerIdentityMismatch string string string
  | SourceAgeTooNew string u64 u64
  | NasProofTooNew string u64 u64
  | SourceAgeProofFrozen string state
  | WfMinAgeBelowSafetyFloor u64 u64 u64
  | DeleteEligibilityUnavailable string state
  | UploadUnavailable string state
  | DeletePlanUnavailable string state
  | PrevalidatedDeleteStale string string
  | DeleteReconciliationStale string string
  | PrevalidatedDeleteExpired string u64 u64
  | PrevalidatedDeleteClockMovedBackwards string
  | IcloudpdLocalMirrorUnavailable string state
  | AdjustedSourceUnavailable string state
  | AdjustedSourceProofAlreadyRecorded string
  | ConversionSourceBindingMismatch string string
  | EmptyOperator
  | EmptyProofField string
  | InvalidProofField string string string
  | HeicVerificationFailed string
  | ConversionRecipeOutdated string string string
  | WfPanic

text \<open>
  What a call of the workflow observes: the time stamp it writes, the text of floats and SHA-256,
  what opening the adjusted source beside an output path finds, what proving a RAW file under a
  root finds, the clock when it proves and when it finishes, and the debug text of a proof.
\<close>

record workflow_world =
  ww_timestamp :: string
  ww_float_text :: "u64 \<Rightarrow> string"
  ww_sha256_hex :: "string \<Rightarrow> string"
  ww_installed :: "path \<Rightarrow> installed_source"
  ww_raw :: "path \<Rightarrow> path \<Rightarrow> raw_observations"
  ww_clock :: system_time
  ww_clock_after :: system_time
  ww_debug_execution :: "delete_execution_proof \<Rightarrow> string"

definition source_digest :: "workflow_world \<Rightarrow> adjusted_source_proof \<Rightarrow> string" where
  "source_digest w p = adjusted_source_proof_digest (ww_float_text w) (ww_sha256_hex w) p"

subsection \<open>Requirements on single fields\<close>

definition require_non_empty :: "string \<Rightarrow> string \<Rightarrow> workflow_error + unit" where
  "require_non_empty field v = fail_if (is_blank v) (EmptyProofField field)"

definition require_non_empty_path :: "string \<Rightarrow> path \<Rightarrow> workflow_error + unit" where
  "require_non_empty_path field p = fail_if (p = []) (EmptyProofField field)"

definition require_current_conversion_recipe :: "string \<Rightarrow> string \<Rightarrow> workflow_error + unit" where
  "require_current_conversion_recipe proof_key recipe_id =
     fail_if (recipe_id \<noteq> EMBEDDED_PREVIEW_CONVERSION_RECIPE)
       (ConversionRecipeOutdated proof_key EMBEDDED_PREVIEW_CONVERSION_RECIPE recipe_id)"

definition require_positive_u64 :: "string \<Rightarrow> string \<Rightarrow> u64 \<Rightarrow> workflow_error + unit" where
  "require_positive_u64 proof_key field v =
     fail_if (v = 0) (InvalidProofField proof_key field ''must be greater than zero'')"

definition require_matching_path :: "string \<Rightarrow> string \<Rightarrow> path \<Rightarrow> path \<Rightarrow> workflow_error + unit" where
  "require_matching_path proof_key field expected actual =
     fail_if (\<not> path_eq expected actual) (ProofMismatch proof_key field expected actual)"

definition require_matching_str :: "string \<Rightarrow> string \<Rightarrow> string \<Rightarrow> string \<Rightarrow> workflow_error + unit" where
  "require_matching_str proof_key field expected actual =
     fail_if (expected \<noteq> actual) (ProofMismatch proof_key field expected actual)"

definition require_matching_u64 :: "string \<Rightarrow> string \<Rightarrow> u64 \<Rightarrow> u64 \<Rightarrow> workflow_error + unit" where
  "require_matching_u64 proof_key field expected actual =
     fail_if (expected \<noteq> actual)
       (ProofMismatch proof_key field (u64_to_string expected) (u64_to_string actual))"

definition require_matching_owner_identity ::
  "string \<Rightarrow> string \<Rightarrow> string option \<Rightarrow> string option \<Rightarrow> workflow_error + unit"
where
  "require_matching_owner_identity proof_key field expected actual =
     (if expected \<noteq> actual
      then Err (OwnerIdentityMismatch proof_key field
             (case (expected, actual) of
                (Some _, None) \<Rightarrow> ''missing'' | (None, Some _) \<Rightarrow> ''present'' | _ \<Rightarrow> ''mismatch''))
      else Ok ())"

definition require_min_age_seconds :: "u64 \<Rightarrow> workflow_error + unit" where
  "require_min_age_seconds min_age_seconds =
     fail_if (min_age_seconds < MIN_RAW_AGE_SECONDS)
       (WfMinAgeBelowSafetyFloor min_age_seconds MIN_RAW_AGE_SECONDS MIN_RAW_AGE_DAYS)"

definition source_age_seconds :: "string \<Rightarrow> source_age_proof \<Rightarrow> workflow_error + u64" where
  "source_age_seconds a p =
     bind_ok (require_min_age_seconds (sa_min_age_seconds p)) (\<lambda>_.
     let age_seconds = saturating_sub (sa_verified_at_unix_seconds p) (sa_source_captured_unix_seconds p) in
     if age_seconds < sa_min_age_seconds p
     then Err (SourceAgeTooNew a age_seconds (sa_min_age_seconds p))
     else Ok age_seconds)"

definition require_valid_library_destination ::
  "string \<Rightarrow> cloudkit_database_scope \<Rightarrow> string \<Rightarrow> string option \<Rightarrow> workflow_error + unit"
where
  "require_valid_library_destination proof_key scope zone_name owner =
     map_err (\<lambda>_. InvalidProofField proof_key ''library_destination''
                    ''CloudKit library destination is invalid'')
       (validate_library_destination
         \<lparr>ld_database_scope = scope, ld_zone_name = zone_name, ld_owner_record_name = owner\<rparr>)"

lemma require_Ok [simp, result_simps]:
  "require_non_empty f v = Inr u \<longleftrightarrow> \<not> is_blank v"
  "require_non_empty_path f p = Inr u \<longleftrightarrow> p \<noteq> []"
  "require_current_conversion_recipe k r = Inr u \<longleftrightarrow> r = EMBEDDED_PREVIEW_CONVERSION_RECIPE"
  "require_positive_u64 k f n = Inr u \<longleftrightarrow> n \<noteq> 0"
  "require_matching_path k f p q = Inr u \<longleftrightarrow> path_eq p q"
  "require_matching_str k f s t = Inr u \<longleftrightarrow> s = t"
  "require_matching_u64 k f n m = Inr u \<longleftrightarrow> n = m"
  "require_matching_owner_identity k f x y = Inr u \<longleftrightarrow> x = y"
  "require_min_age_seconds n = Inr u \<longleftrightarrow> MIN_RAW_AGE_SECONDS \<le> n"
  "require_valid_library_destination k sc z ow = Inr u \<longleftrightarrow>
     validate_library_destination
       \<lparr>ld_database_scope = sc, ld_zone_name = z, ld_owner_record_name = ow\<rparr> = Inr ()"
  by (auto simp: require_non_empty_def require_non_empty_path_def require_current_conversion_recipe_def
      require_positive_u64_def require_matching_path_def require_matching_str_def
      require_matching_u64_def require_matching_owner_identity_def require_min_age_seconds_def
      require_valid_library_destination_def not_less)

subsection \<open>Reading stored proofs\<close>

definition wf_get :: "'r manifest \<Rightarrow> string \<Rightarrow> workflow_error + asset_record" where
  "wf_get m a = map_err WfManifest (manifest_get m a)"

definition require_proof :: "'r manifest \<Rightarrow> string \<Rightarrow> string \<Rightarrow> workflow_error + json" where
  "require_proof m a proof_key =
     bind_ok (wf_get m a) (\<lambda>r. ok_or (MissingProof a proof_key) (get_proof r proof_key))"

definition stored_proof ::
  "(json \<Rightarrow> 'a option) \<Rightarrow> 'r manifest \<Rightarrow> string \<Rightarrow> string \<Rightarrow> workflow_error + 'a"
where
  "stored_proof de m a proof_key =
     bind_ok (require_proof m a proof_key) (\<lambda>v. ok_or (ProofDecode a proof_key) (de v))"

definition optional_workflow_proof ::
  "(json \<Rightarrow> 'a option) \<Rightarrow> asset_record \<Rightarrow> string \<Rightarrow> workflow_error + 'a option"
where
  "optional_workflow_proof de r proof_key =
     (case get_proof r proof_key of
        None \<Rightarrow> Ok None
      | Some v \<Rightarrow> map_ok Some (ok_or (ProofDecode (ar_asset_id r) proof_key) (de v)))"

lemma wf_get_eq_Ok [simp, result_simps]: "wf_get m a = Inr r \<longleftrightarrow> bt_get (mf_records m) a = Some r"
  by (simp add: wf_get_def manifest_get_eq_Ok)

lemma stored_proof_eq_Ok:
  "stored_proof de m a k = Inr p \<longleftrightarrow>
     (\<exists>r v. bt_get (mf_records m) a = Some r \<and> get_proof r k = Some v \<and> de v = Some p)"
  by (auto simp: stored_proof_def require_proof_def bind_ok_eq_Ok)

lemma optional_proof_eq_Ok:
  "optional_workflow_proof de r k = Inr x \<longleftrightarrow>
     (case x of None \<Rightarrow> get_proof r k = None | Some p \<Rightarrow> \<exists>v. get_proof r k = Some v \<and> de v = Some p)"
  by (auto simp: optional_workflow_proof_def map_ok_eq_Ok split: option.splits)

subsection \<open>Flags and measurements\<close>

definition validate_heic_verification_flags_legacy :: "heic_verification_proof \<Rightarrow> workflow_error + unit" where
  "validate_heic_verification_flags_legacy p =
     checks (map (\<lambda>(field, value). fail_if (\<not> value) (HeicVerificationFailed field))
       [(''heif_info_ok'', hp_heif_info_ok p), (''metadata_copied'', hp_metadata_copied p),
        (''visual_content_ok'', hp_visual_content_ok p), (''visual_match_ok'', hp_visual_match_ok p)])"

definition validate_heic_verification_flags :: "heic_verification_proof \<Rightarrow> workflow_error + unit" where
  "validate_heic_verification_flags p =
     checks [require_current_conversion_recipe HEIC_PROOF (hp_conversion_recipe_id p),
             validate_heic_verification_flags_legacy p]"

definition heic_flags_ok :: "heic_verification_proof \<Rightarrow> bool" where
  "heic_flags_ok p \<longleftrightarrow>
     hp_heif_info_ok p \<and> hp_metadata_copied p \<and> hp_visual_content_ok p \<and> hp_visual_match_ok p"

lemma heic_flags_Ok [simp, result_simps]:
  "validate_heic_verification_flags_legacy p = Inr u \<longleftrightarrow> heic_flags_ok p"
  "validate_heic_verification_flags p = Inr u \<longleftrightarrow>
     heic_flags_ok p \<and> hp_conversion_recipe_id p = EMBEDDED_PREVIEW_CONVERSION_RECIPE"
  by (auto simp: validate_heic_verification_flags_def validate_heic_verification_flags_legacy_def
      heic_flags_ok_def)

definition validate_conversion_performance_proof ::
  "conversion_performance_proof \<Rightarrow> nas_raw_proof \<Rightarrow> conversion_result_proof \<Rightarrow> workflow_error + unit"
where
  "validate_conversion_performance_proof p nas conversion =
     (let K = CONVERSION_PERFORMANCE_PROOF in
      checks
       ([require_matching_u64 K ''schema_version'' (ucast CONVERSION_PERFORMANCE_SCHEMA_VERSION)
           (ucast (pp_schema_version p)),
         require_matching_str K ''measurement_method'' CONVERSION_PERFORMANCE_MEASUREMENT_METHOD
           (pp_measurement_method p),
         require_non_empty ''conversion_tool'' (pp_conversion_tool p),
         fail_if (pp_conversion_tool p = UNSAFE_LEGACY_RAW_SENSOR_RENDER_TOOL)
           (InvalidProofField K ''conversion_tool''
             ''legacy RAW sensor render is not upload-safe; rerun conversion with the embedded-preview auto-orient path''),
         (case pp_conversion_tool_version p of
            None \<Rightarrow> Ok () | Some version \<Rightarrow> require_non_empty ''conversion_tool_version'' version),
         fail_if (\<not> (1 \<le> pp_heic_quality p \<and> pp_heic_quality p \<le> 100))
           (InvalidProofField K ''heic_quality'' ''must be between 1 and 100''),
         require_positive_u64 K ''measured_at_unix_seconds'' (pp_measured_at_unix_seconds p),
         require_positive_u64 K ''convert_wall_time_millis'' (pp_convert_wall_time_millis p),
         require_positive_u64 K ''total_wall_time_millis'' (pp_total_wall_time_millis p),
         fail_if (pp_total_wall_time_millis p < pp_convert_wall_time_millis p)
           (InvalidProofField K ''total_wall_time_millis''
             ''must be greater than or equal to convert_wall_time_millis''),
         fail_if (pp_peak_rss_kib p = Some 0)
           (InvalidProofField K ''peak_rss_kib'' ''must be greater than zero'')]
        @ concat (map (\<lambda>t.
            [require_non_empty ''conversion_command_timings.program'' (ct_program t),
             require_positive_u64 K ''conversion_command_timings.wall_time_millis'' (ct_wall_time_millis t)])
            (pp_conversion_command_timings p))
        @ [require_matching_u64 K ''raw_size_bytes'' (nr_size_bytes nas) (pp_raw_size_bytes p),
           require_matching_u64 K ''heic_size_bytes'' (cp_size_bytes conversion) (pp_heic_size_bytes p),
           fail_if (pp_raw_size_bytes p \<le> pp_heic_size_bytes p)
             (InvalidProofField K ''heic_size_bytes'' ''replacement HEIC must be smaller than the original RAW'')]))"

text \<open>What passing that validation means.\<close>

definition performance_ok ::
  "conversion_performance_proof \<Rightarrow> nas_raw_proof \<Rightarrow> conversion_result_proof \<Rightarrow> bool"
where
  "performance_ok p nas conversion \<longleftrightarrow>
     pp_schema_version p = CONVERSION_PERFORMANCE_SCHEMA_VERSION
     \<and> pp_measurement_method p = CONVERSION_PERFORMANCE_MEASUREMENT_METHOD
     \<and> \<not> is_blank (pp_conversion_tool p)
     \<and> pp_conversion_tool p \<noteq> UNSAFE_LEGACY_RAW_SENSOR_RENDER_TOOL
     \<and> (\<forall>v. pp_conversion_tool_version p = Some v \<longrightarrow> \<not> is_blank v)
     \<and> pp_heic_quality p \<noteq> 0 \<and> pp_heic_quality p \<le> 100
     \<and> pp_measured_at_unix_seconds p \<noteq> 0
     \<and> pp_convert_wall_time_millis p \<noteq> 0
     \<and> pp_convert_wall_time_millis p \<le> pp_total_wall_time_millis p
     \<and> pp_peak_rss_kib p \<noteq> Some 0
     \<and> (\<forall>t\<in>set (pp_conversion_command_timings p). \<not> is_blank (ct_program t) \<and> ct_wall_time_millis t \<noteq> 0)
     \<and> pp_raw_size_bytes p = nr_size_bytes nas
     \<and> pp_heic_size_bytes p = cp_size_bytes conversion
     \<and> cp_size_bytes conversion < nr_size_bytes nas"

lemma ucast_u8_inject: "(ucast (x :: u8) :: u64) = ucast y \<longleftrightarrow> x = y"
proof
  assume "(ucast x :: u64) = ucast y"
  then have "de_small (ser_small x) = (de_small (ser_small y) :: u8 option)" by (simp add: ser_small_def)
  then show "x = y" by simp
qed simp

lemma quality_from_one: "1 \<le> (n :: u8) \<longleftrightarrow> n \<noteq> 0"
  by (simp add: word_le_nat_alt Suc_le_eq unat_gt_0)

lemma positive_upper: "(n :: u64) \<noteq> 0 \<Longrightarrow> n \<le> k \<Longrightarrow> k \<noteq> 0"
  by auto

lemma timing_checks_Ok:
  "checks (concat (map (\<lambda>t.
      [require_non_empty f (ct_program t), require_positive_u64 k g (ct_wall_time_millis t)]) ts)) = Inr u
   \<longleftrightarrow> (\<forall>t\<in>set ts. \<not> is_blank (ct_program t) \<and> ct_wall_time_millis t \<noteq> 0)"
  by (auto simp: checks_eq_Ok_iff)

lemma performance_Ok [simp, result_simps]:
  "validate_conversion_performance_proof p nas conversion = Inr u \<longleftrightarrow> performance_ok p nas conversion"
proof -
  have version: "(case v of None \<Rightarrow> Inr () | Some x \<Rightarrow> require_non_empty f x) = Inr ()
      \<longleftrightarrow> (\<forall>x. v = Some x \<longrightarrow> \<not> is_blank x)" for v f
    by (cases v) auto
  show ?thesis
    unfolding validate_conversion_performance_proof_def performance_ok_def Let_def checks_append
      bind_ok_eq_Ok ex_simps checks_Cons_eq_Ok timing_checks_Ok version require_Ok fail_if_eq_Ok ucast_u8_inject
      quality_from_one not_less not_le
    using positive_upper [of "pp_convert_wall_time_millis p" "pp_total_wall_time_millis p"]
    by (auto simp: not_less not_le)
qed

end
