(* ===== verification/Workflow_Chain.thy ===== *)
theory Workflow_Chain
  imports Workflow_Checks
begin

section \<open>The chain of proofs behind a deletion\<close>

text \<open>
  The validators of \<open>src/src/workflow.rs\<close> that read the stored proofs of a record together: the
  conversion and the source it was bound to, the NAS proof and its renewal, the original asset, the
  upload and the local mirror, and on top of them the facts before a deletion, its eligibility and
  its approval.
\<close>

subsection \<open>Adjusted source and conversion\<close>

definition stored_adjusted_source_for_conversion ::
  "'r manifest \<Rightarrow> string \<Rightarrow> path \<Rightarrow> workflow_error + adjusted_source_proof option"
where
  "stored_adjusted_source_for_conversion m a output_path =
     bind_ok (wf_get m a) (\<lambda>r.
     bind_ok (optional_workflow_proof de_adjusted_source_proof r ADJUSTED_SOURCE_PROOF) (\<lambda>stored.
     case stored of
       None \<Rightarrow> Ok None
     | Some p \<Rightarrow>
         bind_ok (stored_proof de_original_asset_proof m a ORIGINAL_ASSET_PROOF) (\<lambda>original.
         bind_ok (map_err WfAdjustedSource (validate_adjusted_source_proof_lineage p a original output_path)) (\<lambda>_.
         Ok (Some p)))))"

definition validated_adjusted_source_for_conversion ::
  "workflow_world \<Rightarrow> 'r manifest \<Rightarrow> string \<Rightarrow> path \<Rightarrow> workflow_error + adjusted_source_proof option"
where
  "validated_adjusted_source_for_conversion w m a output_path =
     bind_ok (stored_adjusted_source_for_conversion m a output_path) (\<lambda>adjusted_source.
     bind_ok
       (case adjusted_source of
          None \<Rightarrow> Ok ()
        | Some p \<Rightarrow>
            bind_ok (stored_proof de_original_asset_proof m a ORIGINAL_ASSET_PROOF) (\<lambda>original.
            map_err WfAdjustedSource
              (validate_installed_adjusted_source_proof (ww_installed w output_path) p a original output_path)))
       (\<lambda>_. Ok adjusted_source))"

definition validate_conversion_source_binding ::
  "workflow_world \<Rightarrow> 'r manifest \<Rightarrow> string \<Rightarrow> conversion_result_proof
     \<Rightarrow> workflow_error + adjusted_source_proof option"
where
  "validate_conversion_source_binding w m a conversion =
     bind_ok (stored_adjusted_source_for_conversion m a (cp_heic_path conversion)) (\<lambda>adjusted_source.
     case (adjusted_source, cp_source_binding conversion) of
       (None, EmbeddedPreview) \<Rightarrow> Ok None
     | (None, AdjustedSource _ _ _) \<Rightarrow>
         Err (ConversionSourceBindingMismatch a ''adjusted conversion has no adjusted-source proof'')
     | (Some _, EmbeddedPreview) \<Rightarrow>
         Err (ConversionSourceBindingMismatch a ''adjusted-source proof requires adjusted conversion lineage'')
     | (Some p, AdjustedSource digest sha256 jpeg_path) \<Rightarrow>
         (if digest \<noteq> source_digest w p \<or> sha256 \<noteq> as_downloaded_sha256 p
             \<or> \<not> path_eq jpeg_path (as_local_path p)
          then Err (ConversionSourceBindingMismatch a
                 ''adjusted conversion binding differs from current adjusted-source proof'')
          else Ok adjusted_source))"

definition load_conversion_context ::
  "workflow_world \<Rightarrow> 'r manifest \<Rightarrow> string \<Rightarrow> workflow_error + nas_raw_proof \<times> conversion_result_proof"
where
  "load_conversion_context w m a =
     bind_ok (stored_proof de_nas_raw_proof m a NAS_PROOF) (\<lambda>nas.
     bind_ok (stored_proof de_conversion_result_proof m a CONVERSION_PROOF) (\<lambda>conversion.
     bind_ok (validate_conversion_source_binding w m a conversion) (\<lambda>_.
     Ok (nas, conversion))))"

definition validate_stored_conversion_performance ::
  "'r manifest \<Rightarrow> string \<Rightarrow> nas_raw_proof \<Rightarrow> conversion_result_proof \<Rightarrow> workflow_error + unit"
where
  "validate_stored_conversion_performance m a nas conversion =
     bind_ok (require_current_conversion_recipe CONVERSION_PROOF (cp_conversion_recipe_id conversion)) (\<lambda>_.
     bind_ok (stored_proof de_conversion_performance_proof m a CONVERSION_PERFORMANCE_PROOF) (\<lambda>performance.
     bind_ok (require_current_conversion_recipe CONVERSION_PERFORMANCE_PROOF
       (pp_conversion_recipe_id performance)) (\<lambda>_.
     validate_conversion_performance_proof performance nas conversion)))"

definition require_valid_conversion_performance ::
  "workflow_world \<Rightarrow> 'r manifest \<Rightarrow> string \<Rightarrow> workflow_error + nas_raw_proof \<times> conversion_result_proof"
where
  "require_valid_conversion_performance w m a =
     bind_ok (load_conversion_context w m a) (\<lambda>(nas, conversion).
     bind_ok (validate_stored_conversion_performance m a nas conversion) (\<lambda>_.
     Ok (nas, conversion)))"

subsection \<open>The NAS proof\<close>

definition validate_nas_proof :: "asset_record \<Rightarrow> nas_raw_proof \<Rightarrow> u64 \<Rightarrow> workflow_error + unit" where
  "validate_nas_proof r p min_age_seconds =
     checks
      [require_non_empty_path ''canonical_path'' (nr_canonical_path p),
       require_non_empty_path ''relative_path'' (nr_relative_path p),
       require_positive_u64 NAS_PROOF ''size_bytes'' (nr_size_bytes p),
       require_non_empty ''sha256'' (nr_sha256 p),
       fail_if (nr_age_seconds p < min_age_seconds)
         (NasProofTooNew (ar_asset_id r) (nr_age_seconds p) min_age_seconds),
       require_matching_path NAS_PROOF ''canonical_path'' (ar_raw_path r) (nr_canonical_path p)]"

text \<open>\<open>root.pop()\<close>, as often as the relative path has components.\<close>

fun pop_components :: "nat \<Rightarrow> path \<Rightarrow> path option" where
  "pop_components 0 root = Some root"
| "pop_components (Suc n) root = Option.bind (path_parent root) (pop_components n)"

definition derive_nas_root_from_proof :: "nas_raw_proof \<Rightarrow> workflow_error + path" where
  "derive_nas_root_from_proof p =
     bind_ok (require_non_empty_path ''relative_path'' (nr_relative_path p)) (\<lambda>_.
     bind_ok (fail_if (\<not> list_all is_normal (components (nr_relative_path p)))
       (InvalidProofField NAS_PROOF ''relative_path''
         ''must be a relative path without prefix or parent components'')) (\<lambda>_.
     bind_ok (ok_or (InvalidProofField NAS_PROOF ''relative_path'' ''must be a suffix of canonical_path'')
       (pop_components (length (components (nr_relative_path p))) (nr_canonical_path p))) (\<lambda>root.
     bind_ok (fail_if (root = [] \<or> \<not> path_eq (path_join root (nr_relative_path p)) (nr_canonical_path p))
       (InvalidProofField NAS_PROOF ''relative_path'' ''must be a suffix of canonical_path'')) (\<lambda>_.
     Ok root))))"

definition reprove_nas_proof ::
  "workflow_world \<Rightarrow> asset_record \<Rightarrow> nas_raw_proof \<Rightarrow> u64 \<Rightarrow> workflow_error + raw_file_fingerprint"
where
  "reprove_nas_proof w r p min_age_seconds =
     bind_ok (derive_nas_root_from_proof p) (\<lambda>nas_root.
     bind_ok (map_err WfProof (prove_nas_raw_with_min_age_seconds (ww_sha256_hex w)
       (ww_raw w nas_root (nr_canonical_path p)) nas_root (nr_canonical_path p) min_age_seconds (ww_clock w)))
       (\<lambda>(live, fingerprint).
     bind_ok (checks
      [require_matching_path NAS_PROOF ''canonical_path'' (nr_canonical_path p) (nr_canonical_path live),
       require_matching_path NAS_PROOF ''relative_path'' (nr_relative_path p) (nr_relative_path live),
       require_matching_u64 NAS_PROOF ''size_bytes'' (nr_size_bytes p) (nr_size_bytes live),
       require_matching_u64 NAS_PROOF ''modified_unix_seconds'' (nr_modified_unix_seconds p)
         (nr_modified_unix_seconds live),
       fail_if (nr_age_seconds live < nr_age_seconds p)
         (ProofMismatch NAS_PROOF ''age_seconds'' (''>= '' @ u64_to_string (nr_age_seconds p))
           (u64_to_string (nr_age_seconds live))),
       fail_if (nr_age_seconds live < min_age_seconds)
         (NasProofTooNew (ar_asset_id r) (nr_age_seconds live) min_age_seconds),
       require_matching_str NAS_PROOF ''sha256'' (nr_sha256 p) (nr_sha256 live)]) (\<lambda>_.
     Ok fingerprint)))"

subsection \<open>Original asset, upload and local mirror\<close>

definition validate_original_asset_proof :: "original_asset_proof \<Rightarrow> nas_raw_proof \<Rightarrow> workflow_error + unit" where
  "validate_original_asset_proof p nas =
     checks
      [require_non_empty ''record_name'' (oa_record_name p),
       require_non_empty ''record_change_tag'' (oa_record_change_tag p),
       require_non_empty ''filename'' (oa_filename p),
       require_non_empty ''zone_name'' (oa_zone_name p),
       require_valid_library_destination ORIGINAL_ASSET_PROOF (oa_database_scope p) (oa_zone_name p)
         (oa_owner_record_name p),
       require_matching_str ORIGINAL_ASSET_PROOF ''record_type'' ''CPLAsset'' (oa_record_type p),
       require_matching_u64 NAS_PROOF ''size_bytes'' (nr_size_bytes nas) (oa_size_bytes p),
       require_matching_str NAS_PROOF ''matched_raw_sha256'' (nr_sha256 nas) (oa_matched_raw_sha256 p)]"

definition require_matching_library_destination ::
  "string \<Rightarrow> original_asset_proof \<Rightarrow> upload_proof \<Rightarrow> workflow_error + unit"
where
  "require_matching_library_destination proof_key original upload =
     checks
      [fail_if (oa_database_scope original \<noteq> up_database_scope upload)
         (ProofMismatch proof_key ''database_scope'' (scope_as_str (oa_database_scope original))
           (scope_as_str (up_database_scope upload))),
       require_matching_str proof_key ''zone_name'' (oa_zone_name original) (up_zone_name upload),
       require_matching_owner_identity proof_key ''owner_record_name'' (oa_owner_record_name original)
         (up_owner_record_name upload)]"

text \<open>The checks of an upload proof against the HEIC proof; the path of the upload comes back.\<close>

definition uploaded_path_of_heic :: "upload_proof \<Rightarrow> heic_verification_proof \<Rightarrow> workflow_error + path" where
  "uploaded_path_of_heic upload heic =
     bind_ok (require_non_empty ''uploaded_heic_asset_id'' (up_uploaded_heic_asset_id upload)) (\<lambda>_.
     bind_ok (require_non_empty ''uploaded_heic_sha256'' (up_uploaded_heic_sha256 upload)) (\<lambda>_.
     bind_ok (ok_or (EmptyProofField ''uploaded_heic_path'') (up_uploaded_heic_path upload)) (\<lambda>uploaded_heic_path.
     bind_ok (require_non_empty_path ''uploaded_heic_path'' uploaded_heic_path) (\<lambda>_.
     bind_ok (require_matching_str HEIC_PROOF ''uploaded_heic_sha256'' (hp_heic_sha256 heic)
       (up_uploaded_heic_sha256 upload)) (\<lambda>_.
     bind_ok (require_matching_path HEIC_PROOF ''uploaded_heic_path'' (hp_heic_path heic) uploaded_heic_path) (\<lambda>_.
     Ok uploaded_heic_path))))))"

text \<open>The checks of a HEIC proof against the conversion.\<close>

definition heic_of_conversion :: "conversion_result_proof \<Rightarrow> heic_verification_proof \<Rightarrow> workflow_error + unit" where
  "heic_of_conversion conversion heic =
     checks
      [require_matching_path CONVERSION_PROOF ''heic_path'' (cp_heic_path conversion) (hp_heic_path heic),
       require_matching_str CONVERSION_PROOF ''heic_sha256'' (cp_heic_sha256 conversion) (hp_heic_sha256 heic),
       require_matching_u64 CONVERSION_PROOF ''size_bytes'' (cp_size_bytes conversion) (hp_size_bytes heic)]"

definition validate_icloudpd_local_mirror_inputs ::
  "workflow_world \<Rightarrow> 'r manifest \<Rightarrow> string \<Rightarrow> workflow_error + upload_proof \<times> heic_verification_proof \<times> path"
where
  "validate_icloudpd_local_mirror_inputs w m a =
     bind_ok (require_valid_conversion_performance w m a) (\<lambda>(_, conversion).
     bind_ok (stored_proof de_heic_verification_proof m a HEIC_PROOF) (\<lambda>heic.
     bind_ok (heic_of_conversion conversion heic) (\<lambda>_.
     bind_ok (validate_heic_verification_flags heic) (\<lambda>_.
     bind_ok (stored_proof de_upload_proof m a UPLOAD_PROOF) (\<lambda>upload.
     bind_ok (uploaded_path_of_heic upload heic) (\<lambda>uploaded_heic_path.
     Ok (upload, heic, uploaded_heic_path)))))))"

definition validate_icloudpd_local_mirror_proof ::
  "icloudpd_local_mirror_proof \<Rightarrow> upload_proof \<Rightarrow> path \<Rightarrow> heic_verification_proof \<Rightarrow> workflow_error + unit"
where
  "validate_icloudpd_local_mirror_proof p upload uploaded_heic_path heic =
     (let K = ICLOUDPD_LOCAL_MIRROR_PROOF in
      checks
       [require_non_empty ''uploaded_heic_asset_id'' (lm_uploaded_heic_asset_id p),
        require_non_empty ''uploaded_heic_sha256'' (lm_uploaded_heic_sha256 p),
        require_non_empty_path ''uploaded_heic_path'' (lm_uploaded_heic_path p),
        require_non_empty_path ''icloudpd_download_path'' (lm_icloudpd_download_path p),
        require_positive_u64 K ''size_bytes'' (lm_size_bytes p),
        require_matching_str K ''uploaded_heic_asset_id'' (up_uploaded_heic_asset_id upload)
          (lm_uploaded_heic_asset_id p),
        require_matching_str K ''uploaded_heic_sha256'' (up_uploaded_heic_sha256 upload) (lm_uploaded_heic_sha256 p),
        require_matching_str K ''uploaded_heic_sha256'' (hp_heic_sha256 heic) (lm_uploaded_heic_sha256 p),
        require_matching_path K ''uploaded_heic_path'' uploaded_heic_path (lm_uploaded_heic_path p),
        require_matching_path K ''uploaded_heic_path'' (hp_heic_path heic) (lm_uploaded_heic_path p),
        require_matching_u64 K ''size_bytes'' (hp_size_bytes heic) (lm_size_bytes p)])"

definition validate_candidate_icloudpd_local_mirror ::
  "workflow_world \<Rightarrow> 'r manifest \<Rightarrow> string \<Rightarrow> icloudpd_local_mirror_proof \<Rightarrow> workflow_error + unit"
where
  "validate_candidate_icloudpd_local_mirror w m a p =
     bind_ok (validate_icloudpd_local_mirror_inputs w m a) (\<lambda>(upload, heic, uploaded_heic_path).
     validate_icloudpd_local_mirror_proof p upload uploaded_heic_path heic)"

end
