(* ===== verification/Delete_Chain.thy ===== *)
theory Delete_Chain
  imports Workflow_Chain
begin

section \<open>The facts before a deletion, its eligibility and its approval\<close>

text \<open>
  From \<open>src/src/workflow.rs\<close>: \<open>validate_pre_delete_facts\<close>, the eligibility and approval proofs with
  their validators, the proof set of a delete plan and the validation of a stored plan, with and
  without the renewal of the NAS proof.
\<close>

subsection \<open>The facts\<close>

record pre_delete_facts =
  pf_original :: original_asset_proof
  pf_upload :: upload_proof
  pf_uploaded_heic_path :: path
  pf_heic :: heic_verification_proof
  pf_mirror :: icloudpd_local_mirror_proof
  pf_source_age :: source_age_proof
  pf_source_age_seconds :: u64
  pf_adjusted_source :: "adjusted_source_proof option"

definition validate_pre_delete_facts ::
  "workflow_world \<Rightarrow> 'r manifest \<Rightarrow> string \<Rightarrow> workflow_error + pre_delete_facts"
where
  "validate_pre_delete_facts w m a =
     bind_ok (wf_get m a) (\<lambda>r.
     bind_ok (load_conversion_context w m a) (\<lambda>(nas, conversion).
     bind_ok (validated_adjusted_source_for_conversion w m a (cp_heic_path conversion)) (\<lambda>adjusted_source.
     bind_ok (stored_proof de_heic_verification_proof m a HEIC_PROOF) (\<lambda>heic.
     bind_ok (heic_of_conversion conversion heic) (\<lambda>_.
     bind_ok (validate_heic_verification_flags heic) (\<lambda>_.
     bind_ok (stored_proof de_upload_proof m a UPLOAD_PROOF) (\<lambda>upload.
     bind_ok (uploaded_path_of_heic upload heic) (\<lambda>uploaded_heic_path.
     bind_ok (stored_proof de_source_age_proof m a SOURCE_AGE_PROOF) (\<lambda>source_age.
     bind_ok (source_age_seconds a source_age) (\<lambda>age_seconds.
     bind_ok (validate_nas_proof r nas (sa_min_age_seconds source_age)) (\<lambda>_.
     bind_ok (validate_stored_conversion_performance m a nas conversion) (\<lambda>_.
     bind_ok (stored_proof de_original_asset_proof m a ORIGINAL_ASSET_PROOF) (\<lambda>original.
     bind_ok (validate_original_asset_proof original nas) (\<lambda>_.
     bind_ok (require_matching_library_destination UPLOAD_PROOF original upload) (\<lambda>_.
     bind_ok (stored_proof de_icloudpd_local_mirror_proof m a ICLOUDPD_LOCAL_MIRROR_PROOF) (\<lambda>mirror.
     bind_ok (validate_icloudpd_local_mirror_proof mirror upload uploaded_heic_path heic) (\<lambda>_.
     Ok \<lparr>pf_original = original, pf_upload = upload, pf_uploaded_heic_path = uploaded_heic_path,
         pf_heic = heic, pf_mirror = mirror, pf_source_age = source_age,
         pf_source_age_seconds = age_seconds, pf_adjusted_source = adjusted_source\<rparr>)))))))))))))))))"

subsection \<open>Eligibility\<close>

definition json_opt :: "string option \<Rightarrow> json" where
  "json_opt x = (case x of None \<Rightarrow> JNull | Some s \<Rightarrow> JString s)"

definition eligibility_fields :: "workflow_world \<Rightarrow> pre_delete_facts \<Rightarrow> (string \<times> json) list" where
  "eligibility_fields w facts =
     [(''upload_proof_key'', JString UPLOAD_PROOF),
      (''original_asset_proof_key'', JString ORIGINAL_ASSET_PROOF),
      (''conversion_performance_proof_key'', JString CONVERSION_PERFORMANCE_PROOF),
      (''heic_proof_key'', JString HEIC_PROOF),
      (''source_age_proof_key'', JString SOURCE_AGE_PROOF),
      (''icloudpd_local_mirror_proof_key'', JString ICLOUDPD_LOCAL_MIRROR_PROOF),
      (''original_database_scope'', ser_scope (oa_database_scope (pf_original facts))),
      (''original_zone_name'', JString (oa_zone_name (pf_original facts))),
      (''original_owner_record_name'', json_opt (oa_owner_record_name (pf_original facts))),
      (''uploaded_database_scope'', ser_scope (up_database_scope (pf_upload facts))),
      (''uploaded_zone_name'', JString (up_zone_name (pf_upload facts))),
      (''uploaded_owner_record_name'', json_opt (up_owner_record_name (pf_upload facts))),
      (''uploaded_heic_asset_id'', JString (up_uploaded_heic_asset_id (pf_upload facts))),
      (''uploaded_heic_sha256'', JString (up_uploaded_heic_sha256 (pf_upload facts))),
      (''uploaded_heic_path'', JString (pf_uploaded_heic_path facts)),
      (''verified_heic_sha256'', JString (hp_heic_sha256 (pf_heic facts))),
      (''verified_heic_path'', JString (hp_heic_path (pf_heic facts))),
      (''icloudpd_download_path'', JString (lm_icloudpd_download_path (pf_mirror facts))),
      (''mirrored_heic_sha256'', JString (lm_uploaded_heic_sha256 (pf_mirror facts))),
      (''mirrored_size_bytes'', ser_u64 (lm_size_bytes (pf_mirror facts))),
      (''source_captured_unix_seconds'', ser_u64 (sa_source_captured_unix_seconds (pf_source_age facts))),
      (''source_age_seconds'', ser_u64 (pf_source_age_seconds facts)),
      (''min_source_age_seconds'', ser_u64 (sa_min_age_seconds (pf_source_age facts))),
      (''original_record_name'', JString (oa_record_name (pf_original facts))),
      (''original_record_change_tag'', JString (oa_record_change_tag (pf_original facts))),
      (''original_record_type'', JString (oa_record_type (pf_original facts))),
      (''original_filename'', JString (oa_filename (pf_original facts))),
      (''original_size_bytes'', ser_u64 (oa_size_bytes (pf_original facts))),
      (''matched_raw_sha256'', JString (oa_matched_raw_sha256 (pf_original facts)))]
     @ (case pf_adjusted_source facts of
          None \<Rightarrow> []
        | Some p \<Rightarrow>
            [(''adjusted_source_proof_key'', JString ADJUSTED_SOURCE_PROOF),
             (''adjusted_source_proof_digest'', JString (source_digest w p))])"

definition delete_eligibility_json :: "workflow_world \<Rightarrow> pre_delete_facts \<Rightarrow> json" where
  "delete_eligibility_json w facts = jobject (eligibility_fields w facts)"

text \<open>What a reader finds in it.\<close>

definition eligibility_of :: "workflow_world \<Rightarrow> pre_delete_facts \<Rightarrow> delete_eligibility_proof" where
  "eligibility_of w facts =
     \<lparr>el_upload_proof_key = UPLOAD_PROOF, el_original_asset_proof_key = ORIGINAL_ASSET_PROOF,
      el_conversion_performance_proof_key = CONVERSION_PERFORMANCE_PROOF,
      el_heic_proof_key = HEIC_PROOF, el_source_age_proof_key = SOURCE_AGE_PROOF,
      el_icloudpd_local_mirror_proof_key = ICLOUDPD_LOCAL_MIRROR_PROOF,
      el_adjusted_source_proof_key = map_option (\<lambda>_. ADJUSTED_SOURCE_PROOF) (pf_adjusted_source facts),
      el_adjusted_source_proof_digest = map_option (source_digest w) (pf_adjusted_source facts),
      el_original_database_scope = oa_database_scope (pf_original facts),
      el_original_zone_name = oa_zone_name (pf_original facts),
      el_original_owner_record_name = oa_owner_record_name (pf_original facts),
      el_uploaded_database_scope = up_database_scope (pf_upload facts),
      el_uploaded_zone_name = up_zone_name (pf_upload facts),
      el_uploaded_owner_record_name = up_owner_record_name (pf_upload facts),
      el_uploaded_heic_asset_id = up_uploaded_heic_asset_id (pf_upload facts),
      el_uploaded_heic_sha256 = up_uploaded_heic_sha256 (pf_upload facts),
      el_uploaded_heic_path = pf_uploaded_heic_path facts,
      el_verified_heic_sha256 = hp_heic_sha256 (pf_heic facts),
      el_verified_heic_path = hp_heic_path (pf_heic facts),
      el_icloudpd_download_path = lm_icloudpd_download_path (pf_mirror facts),
      el_mirrored_heic_sha256 = lm_uploaded_heic_sha256 (pf_mirror facts),
      el_mirrored_size_bytes = lm_size_bytes (pf_mirror facts),
      el_source_captured_unix_seconds = sa_source_captured_unix_seconds (pf_source_age facts),
      el_source_age_seconds = pf_source_age_seconds facts,
      el_min_source_age_seconds = sa_min_age_seconds (pf_source_age facts),
      el_original_record_name = oa_record_name (pf_original facts),
      el_original_record_change_tag = oa_record_change_tag (pf_original facts),
      el_original_record_type = oa_record_type (pf_original facts),
      el_original_filename = oa_filename (pf_original facts),
      el_original_size_bytes = oa_size_bytes (pf_original facts),
      el_matched_raw_sha256 = oa_matched_raw_sha256 (pf_original facts)\<rparr>"

lemma eligibility_fields_distinct: "distinct (map fst (eligibility_fields w facts))"
  by (cases "pf_adjusted_source facts") (simp_all add: eligibility_fields_def)

lemma de_option_JString: "de_option de_string (JString s) = Some (Some s)"
  by (simp add: de_option_def)

lemma de_json_opt: "de_option de_string (json_opt x) = Some x"
  by (simp add: json_opt_def de_option_def split: option.splits)

lemma de_eligibility [simp]:
  "de_delete_eligibility_proof (delete_eligibility_json w facts) = Some (eligibility_of w facts)"
proof (cases "pf_adjusted_source facts")
  case None
  then show ?thesis
    by (simp add: delete_eligibility_json_def de_delete_eligibility_proof_def
        struct_fields_distinct [OF eligibility_fields_distinct])
      (simp add: eligibility_fields_def eligibility_of_def de_json_opt field_req_def field_default_def)
next
  case (Some p)
  then show ?thesis
    by (simp add: delete_eligibility_json_def de_delete_eligibility_proof_def
        struct_fields_distinct [OF eligibility_fields_distinct])
      (simp add: eligibility_fields_def eligibility_of_def de_json_opt field_req_def field_default_def
        de_option_JString)
qed

end
