(* ===== verification/Delete_Plan.thy ===== *)
theory Delete_Plan
  imports Delete_Chain
begin

section \<open>Delete plans and the tokens of a deletion\<close>

text \<open>
  From \<open>src/src/workflow.rs\<close>: the validators of the eligibility and approval proofs, the validation of
  a stored plan, its renewal against the live RAW file, the set of proofs a plan names and copies,
  the proof of execution, and the tokens a caller holds while the remote deletion runs.
\<close>

subsection \<open>Validation of eligibility and approval\<close>

definition unwrap_missing :: "string option \<Rightarrow> string" where
  "unwrap_missing x = (case x of None \<Rightarrow> ''<missing>'' | Some s \<Rightarrow> s)"

definition validate_eligibility_source ::
  "workflow_world \<Rightarrow> delete_eligibility_proof \<Rightarrow> adjusted_source_proof option \<Rightarrow> workflow_error + unit"
where
  "validate_eligibility_source w el adjusted_source =
     (case adjusted_source of
        Some p \<Rightarrow>
          (if el_adjusted_source_proof_key el \<noteq> Some ADJUSTED_SOURCE_PROOF
           then Err (ProofMismatch DELETE_ELIGIBILITY_PROOF ''adjusted_source_proof_key'' ADJUSTED_SOURCE_PROOF
                  (unwrap_missing (el_adjusted_source_proof_key el)))
           else require_matching_str DELETE_ELIGIBILITY_PROOF ''adjusted_source_proof_digest''
                  (source_digest w p) (unwrap_missing (el_adjusted_source_proof_digest el)))
      | None \<Rightarrow>
          fail_if (el_adjusted_source_proof_key el \<noteq> None \<or> el_adjusted_source_proof_digest el \<noteq> None)
            (InvalidProofField DELETE_ELIGIBILITY_PROOF ''adjusted_source''
              ''embedded-preview conversion must not claim adjusted-source lineage''))"

definition validate_delete_eligibility_proof ::
  "workflow_world \<Rightarrow> delete_eligibility_proof \<Rightarrow> pre_delete_facts \<Rightarrow> workflow_error + unit"
where
  "validate_delete_eligibility_proof w el facts =
     (let K = DELETE_ELIGIBILITY_PROOF; original = pf_original facts; upload = pf_upload facts;
          heic = pf_heic facts; mirror = pf_mirror facts; source_age = pf_source_age facts in
      checks
       [require_matching_str K ''upload_proof_key'' UPLOAD_PROOF (el_upload_proof_key el),
        require_matching_str K ''original_asset_proof_key'' ORIGINAL_ASSET_PROOF (el_original_asset_proof_key el),
        require_matching_str K ''conversion_performance_proof_key'' CONVERSION_PERFORMANCE_PROOF
          (el_conversion_performance_proof_key el),
        require_matching_str K ''heic_proof_key'' HEIC_PROOF (el_heic_proof_key el),
        require_matching_str K ''source_age_proof_key'' SOURCE_AGE_PROOF (el_source_age_proof_key el),
        require_matching_str K ''icloudpd_local_mirror_proof_key'' ICLOUDPD_LOCAL_MIRROR_PROOF
          (el_icloudpd_local_mirror_proof_key el),
        validate_eligibility_source w el (pf_adjusted_source facts),
        fail_if (oa_database_scope original \<noteq> el_original_database_scope el)
          (ProofMismatch K ''original_database_scope'' (scope_as_str (oa_database_scope original))
            (scope_as_str (el_original_database_scope el))),
        require_matching_str K ''original_zone_name'' (oa_zone_name original) (el_original_zone_name el),
        require_matching_owner_identity K ''original_owner_record_name'' (oa_owner_record_name original)
          (el_original_owner_record_name el),
        fail_if (up_database_scope upload \<noteq> el_uploaded_database_scope el)
          (ProofMismatch K ''uploaded_database_scope'' (scope_as_str (up_database_scope upload))
            (scope_as_str (el_uploaded_database_scope el))),
        require_matching_str K ''uploaded_zone_name'' (up_zone_name upload) (el_uploaded_zone_name el),
        require_matching_owner_identity K ''uploaded_owner_record_name'' (up_owner_record_name upload)
          (el_uploaded_owner_record_name el),
        require_matching_str K ''uploaded_heic_asset_id'' (up_uploaded_heic_asset_id upload)
          (el_uploaded_heic_asset_id el),
        require_matching_str K ''uploaded_heic_sha256'' (up_uploaded_heic_sha256 upload) (el_uploaded_heic_sha256 el),
        require_matching_path K ''uploaded_heic_path'' (pf_uploaded_heic_path facts) (el_uploaded_heic_path el),
        require_matching_str K ''verified_heic_sha256'' (hp_heic_sha256 heic) (el_verified_heic_sha256 el),
        require_matching_path K ''verified_heic_path'' (hp_heic_path heic) (el_verified_heic_path el),
        require_matching_path K ''icloudpd_download_path'' (lm_icloudpd_download_path mirror)
          (el_icloudpd_download_path el),
        require_matching_str K ''mirrored_heic_sha256'' (lm_uploaded_heic_sha256 mirror) (el_mirrored_heic_sha256 el),
        require_matching_u64 K ''mirrored_size_bytes'' (lm_size_bytes mirror) (el_mirrored_size_bytes el),
        require_matching_u64 K ''source_captured_unix_seconds'' (sa_source_captured_unix_seconds source_age)
          (el_source_captured_unix_seconds el),
        require_matching_u64 K ''source_age_seconds'' (pf_source_age_seconds facts) (el_source_age_seconds el),
        require_matching_u64 K ''min_source_age_seconds'' (sa_min_age_seconds source_age)
          (el_min_source_age_seconds el),
        require_matching_str K ''original_record_name'' (oa_record_name original) (el_original_record_name el),
        require_matching_str K ''original_record_change_tag'' (oa_record_change_tag original)
          (el_original_record_change_tag el),
        require_matching_str K ''original_record_type'' (oa_record_type original) (el_original_record_type el),
        require_matching_str K ''original_filename'' (oa_filename original) (el_original_filename el),
        require_matching_u64 K ''original_size_bytes'' (oa_size_bytes original) (el_original_size_bytes el),
        require_matching_str K ''matched_raw_sha256'' (oa_matched_raw_sha256 original) (el_matched_raw_sha256 el)])"

definition validate_delete_eligibility_chain ::
  "workflow_world \<Rightarrow> 'r manifest \<Rightarrow> string \<Rightarrow> pre_delete_facts \<Rightarrow> workflow_error + unit"
where
  "validate_delete_eligibility_chain w m a facts =
     bind_ok (stored_proof de_delete_eligibility_proof m a DELETE_ELIGIBILITY_PROOF) (\<lambda>el.
     validate_delete_eligibility_proof w el facts)"

definition validate_delete_approval_proof ::
  "workflow_world \<Rightarrow> 'r manifest \<Rightarrow> string \<Rightarrow> pre_delete_facts \<Rightarrow> workflow_error + unit"
where
  "validate_delete_approval_proof w m a facts =
     bind_ok (stored_proof de_delete_approval_proof m a DELETE_APPROVAL_PROOF) (\<lambda>approval.
     bind_ok (fail_if (is_blank (ap_operator approval)) EmptyOperator) (\<lambda>_.
     bind_ok (stored_proof de_delete_eligibility_proof m a DELETE_ELIGIBILITY_PROOF) (\<lambda>el.
     case pf_adjusted_source facts of
       Some p \<Rightarrow>
         checks
          [fail_if (ap_adjusted_source_proof_key approval \<noteq> Some ADJUSTED_SOURCE_PROOF
                    \<or> el_adjusted_source_proof_key el \<noteq> Some ADJUSTED_SOURCE_PROOF)
             (ProofMismatch DELETE_APPROVAL_PROOF ''adjusted_source_proof_key'' ADJUSTED_SOURCE_PROOF
               (unwrap_missing (ap_adjusted_source_proof_key approval))),
           require_matching_str DELETE_APPROVAL_PROOF ''adjusted_source_proof_digest'' (source_digest w p)
             (unwrap_missing (ap_adjusted_source_proof_digest approval)),
           require_matching_str DELETE_APPROVAL_PROOF ''eligibility_adjusted_source_proof_digest''
             (unwrap_missing (ap_adjusted_source_proof_digest approval))
             (unwrap_missing (el_adjusted_source_proof_digest el))]
     | None \<Rightarrow>
         fail_if (ap_adjusted_source_proof_key approval \<noteq> None
                  \<or> ap_adjusted_source_proof_digest approval \<noteq> None)
           (InvalidProofField DELETE_APPROVAL_PROOF ''adjusted_source''
             ''embedded-preview conversion must not claim adjusted-source lineage''))))"

definition approval_proof_of :: "workflow_world \<Rightarrow> string \<Rightarrow> pre_delete_facts \<Rightarrow> delete_approval_proof" where
  "approval_proof_of w operator facts =
     \<lparr>ap_operator = operator,
      ap_adjusted_source_proof_key = map_option (\<lambda>_. ADJUSTED_SOURCE_PROOF) (pf_adjusted_source facts),
      ap_adjusted_source_proof_digest = map_option (source_digest w) (pf_adjusted_source facts)\<rparr>"

definition validate_stored_delete_plan_proofs ::
  "workflow_world \<Rightarrow> 'r manifest \<Rightarrow> string \<Rightarrow> workflow_error + pre_delete_facts"
where
  "validate_stored_delete_plan_proofs w m a =
     bind_ok (validate_pre_delete_facts w m a) (\<lambda>facts.
     bind_ok (validate_delete_eligibility_chain w m a facts) (\<lambda>_.
     bind_ok (validate_delete_approval_proof w m a facts) (\<lambda>_.
     Ok facts)))"

definition revalidate_delete_plan_proofs ::
  "workflow_world \<Rightarrow> 'r manifest \<Rightarrow> string \<Rightarrow> workflow_error + raw_file_fingerprint"
where
  "revalidate_delete_plan_proofs w m a =
     bind_ok (validate_stored_delete_plan_proofs w m a) (\<lambda>facts.
     bind_ok (wf_get m a) (\<lambda>r.
     bind_ok (stored_proof de_nas_raw_proof m a NAS_PROOF) (\<lambda>nas.
     reprove_nas_proof w r nas (sa_min_age_seconds (pf_source_age facts)))))"

text \<open>The eligibility proof of some facts is valid for them, and so is the approval.\<close>

lemma eligibility_of_valid: "validate_delete_eligibility_proof w (eligibility_of w facts) facts = Inr ()"
  by (cases "pf_adjusted_source facts")
    (simp_all add: validate_delete_eligibility_proof_def eligibility_of_def validate_eligibility_source_def
      unwrap_missing_def Let_def)

subsection \<open>The proofs of a plan\<close>

definition delete_plan_proof_keys :: "asset_record \<Rightarrow> workflow_error + string list" where
  "delete_plan_proof_keys r =
     bind_ok (optional_workflow_proof de_conversion_result_proof r CONVERSION_PROOF) (\<lambda>stored.
     bind_ok (ok_or (MissingProof (ar_asset_id r) CONVERSION_PROOF) stored) (\<lambda>conversion.
     Ok (case cp_source_binding conversion of
           AdjustedSource _ _ _ \<Rightarrow> BASE_DELETE_PLAN_PROOFS @ [ADJUSTED_SOURCE_PROOF]
         | EmbeddedPreview \<Rightarrow> BASE_DELETE_PLAN_PROOFS)))"

definition delete_plan_proof_snapshot :: "asset_record \<Rightarrow> workflow_error + proofs" where
  "delete_plan_proof_snapshot r =
     bind_ok (delete_plan_proof_keys r) (\<lambda>keys.
     try_fold (\<lambda>k ps. bind_ok (ok_or (MissingProof (ar_asset_id r) k) (get_proof r k)) (\<lambda>v.
                        Ok (bt_insert k v ps))) keys [])"

record delete_plan =
  pl_asset_id :: string
  pl_raw_path :: path
  pl_required_proof_keys :: "string list"
  pl_proofs :: proofs

definition build_delete_plan :: "workflow_world \<Rightarrow> 'r manifest \<Rightarrow> string \<Rightarrow> workflow_error + delete_plan" where
  "build_delete_plan w m a =
     bind_ok (wf_get m a) (\<lambda>r.
     bind_ok (fail_if (ar_state r \<noteq> DeleteApproved) (DeletePlanUnavailable a (ar_state r))) (\<lambda>_.
     bind_ok (revalidate_delete_plan_proofs w m a) (\<lambda>_.
     bind_ok (delete_plan_proof_keys r) (\<lambda>keys.
     bind_ok (delete_plan_proof_snapshot r) (\<lambda>ps.
     Ok \<lparr>pl_asset_id = ar_asset_id r, pl_raw_path = ar_raw_path r, pl_required_proof_keys = keys,
         pl_proofs = ps\<rparr>)))))"

subsection \<open>The proof of execution\<close>

definition execution_proof_of ::
  "string \<Rightarrow> string \<Rightarrow> string \<Rightarrow> cloudkit_delete_outcome \<Rightarrow> workflow_error + delete_execution_proof"
where
  "execution_proof_of record_name record_change_tag uploaded_heic_asset_id outcome =
     bind_ok (require_matching_str ORIGINAL_ASSET_PROOF ''record_name'' record_name
       (do_record_name outcome)) (\<lambda>_.
     bind_ok (require_non_empty ''confirmed_deleted_change_tag'' (do_record_change_tag outcome)) (\<lambda>_.
     bind_ok (fail_if (do_record_change_tag outcome = record_change_tag)
       (ProofMismatch DELETE_EXECUTION_PROOF ''confirmed_deleted_change_tag''
         (''new tag different from '' @ record_change_tag) (do_record_change_tag outcome))) (\<lambda>_.
     Ok \<lparr>ex_old_record_change_tag = record_change_tag, ex_deleted_record_name = do_record_name outcome,
         ex_confirmed_deleted_change_tag = do_record_change_tag outcome,
         ex_uploaded_heic_asset_id = uploaded_heic_asset_id\<rparr>)))"

definition validate_stored_delete_execution_proof ::
  "workflow_world \<Rightarrow> 'r manifest \<Rightarrow> string \<Rightarrow> workflow_error + unit"
where
  "validate_stored_delete_execution_proof w m a =
     bind_ok (stored_proof de_original_asset_proof m a ORIGINAL_ASSET_PROOF) (\<lambda>original.
     bind_ok (stored_proof de_upload_proof m a UPLOAD_PROOF) (\<lambda>upload.
     bind_ok (stored_proof de_delete_execution_proof m a DELETE_EXECUTION_PROOF) (\<lambda>stored.
     bind_ok (execution_proof_of (oa_record_name original) (oa_record_change_tag original)
       (up_uploaded_heic_asset_id upload)
       \<lparr>do_record_name = ex_deleted_record_name stored,
        do_record_change_tag = ex_confirmed_deleted_change_tag stored\<rparr>) (\<lambda>expected.
     fail_if (stored \<noteq> expected)
       (ProofMismatch DELETE_EXECUTION_PROOF ''delete_execution'' (ww_debug_execution w expected)
         (ww_debug_execution w stored))))))"

subsection \<open>Tokens\<close>

record prevalidated_delete =
  pd_asset_id :: string
  pd_raw_path :: path
  pd_request :: cloudkit_delete_request
  pd_uploaded_heic_asset_id :: string
  pd_proofs :: proofs
  pd_raw_fingerprint :: raw_file_fingerprint
  pd_validated_at :: system_time

record delete_reconciliation =
  rc_asset_id :: string
  rc_raw_path :: path
  rc_request :: cloudkit_delete_request
  rc_uploaded_heic_asset_id :: string
  rc_proofs :: proofs

datatype delete_token_kind = Prevalidated | Reconciliation

definition delete_token_stale :: "delete_token_kind \<Rightarrow> string \<Rightarrow> string \<Rightarrow> workflow_error + unit" where
  "delete_token_stale kind a field =
     (case kind of
        Prevalidated \<Rightarrow> Err (PrevalidatedDeleteStale a field)
      | Reconciliation \<Rightarrow> Err (DeleteReconciliationStale a field))"

definition validate_delete_token_snapshot ::
  "asset_record \<Rightarrow> string \<Rightarrow> path \<Rightarrow> proofs \<Rightarrow> delete_token_kind \<Rightarrow> workflow_error + unit"
where
  "validate_delete_token_snapshot r a raw_path ps kind =
     (if \<not> path_eq (ar_raw_path r) raw_path then delete_token_stale kind a ''raw_path''
      else bind_ok (delete_plan_proof_keys r) (\<lambda>keys.
        if length ps \<noteq> length keys then delete_token_stale kind a ''proof_set''
        else checks (map (\<lambda>k. if get_proof r k \<noteq> bt_get ps k then delete_token_stale kind a k else Ok ()) keys)))"

definition validate_prevalidated_delete :: "asset_record \<Rightarrow> prevalidated_delete \<Rightarrow> workflow_error + unit" where
  "validate_prevalidated_delete r t =
     validate_delete_token_snapshot r (pd_asset_id t) (pd_raw_path t) (pd_proofs t) Prevalidated"

definition validate_prevalidated_delete_freshness ::
  "string \<Rightarrow> system_time \<Rightarrow> duration \<Rightarrow> system_time \<Rightarrow> workflow_error + unit"
where
  "validate_prevalidated_delete_freshness a validated_at max_age now =
     bind_ok (ok_or (PrevalidatedDeleteClockMovedBackwards a) (duration_since now validated_at)) (\<lambda>age.
     fail_if (max_age < age) (PrevalidatedDeleteExpired a (as_secs age) (as_secs max_age)))"

definition validate_freshness_at :: "prevalidated_delete \<Rightarrow> duration \<Rightarrow> system_time \<Rightarrow> workflow_error + unit" where
  "validate_freshness_at t max_age now =
     validate_prevalidated_delete_freshness (pd_asset_id t) (pd_validated_at t) max_age now"

definition validate_live_raw_at ::
  "capture_observations \<Rightarrow> prevalidated_delete \<Rightarrow> duration \<Rightarrow> system_time \<Rightarrow> workflow_error + unit"
where
  "validate_live_raw_at ob t max_age now =
     bind_ok (validate_freshness_at t max_age now) (\<lambda>_.
     bind_ok (map_err WfProof (capture ob (pd_raw_path t))) (\<lambda>live.
     fail_if (\<not> fingerprint_eq live (pd_raw_fingerprint t))
       (PrevalidatedDeleteStale (pd_asset_id t) ''raw_fingerprint'')))"

definition delete_request_of :: "original_asset_proof \<Rightarrow> cloudkit_delete_request" where
  "delete_request_of original =
     \<lparr>dr_record_name = oa_record_name original, dr_record_change_tag = oa_record_change_tag original,
      dr_database_scope = oa_database_scope original, dr_zone_name = oa_zone_name original,
      dr_owner_record_name = oa_owner_record_name original\<rparr>"

definition prevalidate_approved_original_delete ::
  "workflow_world \<Rightarrow> 'r manifest \<Rightarrow> string \<Rightarrow> workflow_error + prevalidated_delete"
where
  "prevalidate_approved_original_delete w m a =
     bind_ok (wf_get m a) (\<lambda>r.
     bind_ok (fail_if (ar_state r \<noteq> DeleteApproved) (DeletePlanUnavailable a (ar_state r))) (\<lambda>_.
     bind_ok (revalidate_delete_plan_proofs w m a) (\<lambda>fingerprint.
     bind_ok (stored_proof de_original_asset_proof m a ORIGINAL_ASSET_PROOF) (\<lambda>original.
     bind_ok (stored_proof de_upload_proof m a UPLOAD_PROOF) (\<lambda>upload.
     bind_ok (delete_plan_proof_snapshot r) (\<lambda>ps.
     Ok \<lparr>pd_asset_id = ar_asset_id r, pd_raw_path = ar_raw_path r, pd_request = delete_request_of original,
         pd_uploaded_heic_asset_id = up_uploaded_heic_asset_id upload, pd_proofs = ps,
         pd_raw_fingerprint = fingerprint, pd_validated_at = ww_clock_after w\<rparr>))))))"

definition prepare_delete_reconciliation ::
  "workflow_world \<Rightarrow> 'r manifest \<Rightarrow> string \<Rightarrow> workflow_error + delete_reconciliation"
where
  "prepare_delete_reconciliation w m a =
     bind_ok (wf_get m a) (\<lambda>r.
     bind_ok (fail_if (ar_state r \<noteq> DeleteApproved) (DeletePlanUnavailable a (ar_state r))) (\<lambda>_.
     bind_ok (validate_stored_delete_plan_proofs w m a) (\<lambda>facts.
     bind_ok (delete_plan_proof_snapshot r) (\<lambda>ps.
     Ok \<lparr>rc_asset_id = ar_asset_id r, rc_raw_path = ar_raw_path r,
         rc_request = delete_request_of (pf_original facts),
         rc_uploaded_heic_asset_id = up_uploaded_heic_asset_id (pf_upload facts), rc_proofs = ps\<rparr>))))"

definition approved_original_delete_request ::
  "workflow_world \<Rightarrow> 'r manifest \<Rightarrow> string \<Rightarrow> workflow_error + cloudkit_delete_request"
where
  "approved_original_delete_request w m a = map_ok pd_request (prevalidate_approved_original_delete w m a)"

end
