(* ===== verification/Workflow.thy ===== *)
theory Workflow
  imports Delete_Plan Lifecycle
begin

section \<open>The workflow of an asset\<close>

text \<open>
  The operations of \<open>src/src/workflow.rs\<close>: each validates its input against the stored proofs and then
  makes at most one change through the manifest, or builds the changed manifest on a copy and
  installs it at the end. An operation yields the changed manifest or an error; on an error the
  manifest is as it was. \<open>WfPanic\<close> stands for the one panic of the source, where \<open>reverify\<close> indexes
  into a stored JSON value that need not be an object.
\<close>

subsection \<open>Changes through the manifest\<close>

definition transition_with_proof ::
  "workflow_world \<Rightarrow> state \<Rightarrow> string \<Rightarrow> json \<Rightarrow> 'r manifest \<Rightarrow> string \<Rightarrow> workflow_error + 'r manifest"
where
  "transition_with_proof w s proof_key v m a =
     map_err WfManifest (transition (ww_timestamp w) s proof_key v m a)"

definition transition_with_trusted_proof ::
  "workflow_world \<Rightarrow> state \<Rightarrow> string \<Rightarrow> json \<Rightarrow> 'r manifest \<Rightarrow> string \<Rightarrow> workflow_error + 'r manifest"
where
  "transition_with_trusted_proof w s proof_key v m a =
     map_err WfManifest (transition_trusted (ww_timestamp w) s proof_key v m a)"

definition insert_workflow_proof ::
  "workflow_world \<Rightarrow> string \<Rightarrow> json \<Rightarrow> 'r manifest \<Rightarrow> string \<Rightarrow> workflow_error + 'r manifest"
where
  "insert_workflow_proof w proof_key v m a = map_err WfManifest (record_proof (ww_timestamp w) proof_key v m a)"

definition insert_trusted_workflow_proof ::
  "workflow_world \<Rightarrow> string \<Rightarrow> json \<Rightarrow> 'r manifest \<Rightarrow> string \<Rightarrow> workflow_error + 'r manifest"
where
  "insert_trusted_workflow_proof w proof_key v m a =
     map_err WfManifest (record_trusted_proof (ww_timestamp w) proof_key v m a)"

subsection \<open>Discovery and the NAS proof\<close>

definition discover_raw_asset ::
  "workflow_world \<Rightarrow> path \<Rightarrow> 'r manifest \<Rightarrow> string \<Rightarrow> workflow_error + 'r manifest"
where
  "discover_raw_asset w raw_path m a =
     (case bt_get (mf_records m) a of
        Some r \<Rightarrow>
          bind_ok (checks
            [fail_if (ar_state r \<noteq> Discovered) (ExistingAssetNotDiscoverable a (ar_state r)),
             fail_if (\<not> path_eq (ar_raw_path r) raw_path) (RawPathMismatch a (ar_raw_path r) raw_path)])
            (\<lambda>_. Ok m)
      | None \<Rightarrow> map_err WfManifest (upsert m (new_asset_record a raw_path (ww_timestamp w))))"

definition record_nas_proof ::
  "workflow_world \<Rightarrow> nas_raw_proof \<Rightarrow> 'r manifest \<Rightarrow> string \<Rightarrow> workflow_error + 'r manifest"
where
  "record_nas_proof w p m a = transition_with_proof w NasVerified NAS_PROOF (ser_nas_raw_proof p) m a"

definition prove_and_record_nas ::
  "workflow_world \<Rightarrow> path \<Rightarrow> path \<Rightarrow> u64 \<Rightarrow> system_time \<Rightarrow> 'r manifest \<Rightarrow> string \<Rightarrow> workflow_error + 'r manifest"
where
  "prove_and_record_nas w raw_path nas_root min_age_days now m a =
     bind_ok (map_err WfProof (prove_nas_raw (ww_sha256_hex w) (ww_raw w nas_root raw_path) nas_root raw_path
       min_age_days now)) (\<lambda>p.
     bind_ok (discover_raw_asset w (nr_canonical_path p) m a) (\<lambda>m'.
     record_nas_proof w p m' a))"

subsection \<open>Conversion\<close>

definition record_adjusted_source_proof ::
  "workflow_world \<Rightarrow> path \<Rightarrow> adjusted_source_proof \<Rightarrow> 'r manifest \<Rightarrow> string \<Rightarrow> workflow_error + 'r manifest"
where
  "record_adjusted_source_proof w output_path p m a =
     bind_ok (wf_get m a) (\<lambda>r.
     bind_ok (fail_if (ar_state r \<noteq> NasVerified) (AdjustedSourceUnavailable a (ar_state r))) (\<lambda>_.
     bind_ok (fail_if (has_proof r ADJUSTED_SOURCE_PROOF) (AdjustedSourceProofAlreadyRecorded a)) (\<lambda>_.
     bind_ok (stored_proof de_original_asset_proof m a ORIGINAL_ASSET_PROOF) (\<lambda>original.
     bind_ok (map_err WfAdjustedSource
       (validate_installed_adjusted_source_proof (ww_installed w output_path) p a original output_path)) (\<lambda>_.
     insert_workflow_proof w ADJUSTED_SOURCE_PROOF (ser_adjusted_source_proof p) m a)))))"

definition record_conversion_result_with_recipe ::
  "workflow_world \<Rightarrow> conversion_result_input \<Rightarrow> string \<Rightarrow> bool \<Rightarrow> 'r manifest \<Rightarrow> string
     \<Rightarrow> workflow_error + 'r manifest"
where
  "record_conversion_result_with_recipe w i recipe trusted m a =
     (let p = \<lparr>cp_heic_path = ci_heic_path i, cp_heic_sha256 = ci_heic_sha256 i,
               cp_size_bytes = ci_size_bytes i, cp_conversion_recipe_id = recipe,
               cp_source_binding = ci_source_binding i\<rparr> in
      bind_ok (require_non_empty_path ''heic_path'' (cp_heic_path p)) (\<lambda>_.
      bind_ok (require_non_empty ''heic_sha256'' (cp_heic_sha256 p)) (\<lambda>_.
      bind_ok (validate_conversion_source_binding w m a p) (\<lambda>_.
      if trusted
      then transition_with_trusted_proof w Converted CONVERSION_PROOF (ser_conversion_result_proof p) m a
      else transition_with_proof w Converted CONVERSION_PROOF (ser_conversion_result_proof p) m a))))"

definition record_conversion_result ::
  "workflow_world \<Rightarrow> conversion_result_input \<Rightarrow> 'r manifest \<Rightarrow> string \<Rightarrow> workflow_error + 'r manifest"
where
  "record_conversion_result w i m a = record_conversion_result_with_recipe w i [] False m a"

definition record_current_conversion_result ::
  "workflow_world \<Rightarrow> conversion_result_input \<Rightarrow> 'r manifest \<Rightarrow> string \<Rightarrow> workflow_error + 'r manifest"
where
  "record_current_conversion_result w i m a =
     record_conversion_result_with_recipe w i EMBEDDED_PREVIEW_CONVERSION_RECIPE True m a"

definition record_conversion_performance_with_recipe ::
  "workflow_world \<Rightarrow> conversion_performance_input \<Rightarrow> string \<Rightarrow> bool \<Rightarrow> 'r manifest \<Rightarrow> string
     \<Rightarrow> workflow_error + 'r manifest"
where
  "record_conversion_performance_with_recipe w i recipe trusted m a =
     bind_ok (wf_get m a) (\<lambda>r.
     bind_ok (fail_if (ar_state r \<noteq> Converted) (WfManifest (InvalidTransition a (ar_state r) Converted))) (\<lambda>_.
     bind_ok (load_conversion_context w m a) (\<lambda>(nas, conversion).
     let p = \<lparr>pp_schema_version = CONVERSION_PERFORMANCE_SCHEMA_VERSION,
              pp_measured_at_unix_seconds = pi_measured_at_unix_seconds i,
              pp_measurement_method = CONVERSION_PERFORMANCE_MEASUREMENT_METHOD,
              pp_conversion_tool = pi_conversion_tool i, pp_conversion_recipe_id = recipe,
              pp_conversion_tool_version = pi_conversion_tool_version i,
              pp_heic_quality = pi_heic_quality i, pp_raw_size_bytes = nr_size_bytes nas,
              pp_heic_size_bytes = cp_size_bytes conversion,
              pp_convert_wall_time_millis = pi_convert_wall_time_millis i,
              pp_total_wall_time_millis = pi_total_wall_time_millis i,
              pp_user_cpu_time_millis = pi_user_cpu_time_millis i,
              pp_system_cpu_time_millis = pi_system_cpu_time_millis i,
              pp_peak_rss_kib = pi_peak_rss_kib i,
              pp_conversion_command_timings = pi_conversion_command_timings i\<rparr> in
     bind_ok (validate_conversion_performance_proof p nas conversion) (\<lambda>_.
     if trusted
     then insert_trusted_workflow_proof w CONVERSION_PERFORMANCE_PROOF (ser_conversion_performance_proof p) m a
     else insert_workflow_proof w CONVERSION_PERFORMANCE_PROOF (ser_conversion_performance_proof p) m a))))"

definition record_conversion_performance ::
  "workflow_world \<Rightarrow> conversion_performance_input \<Rightarrow> 'r manifest \<Rightarrow> string \<Rightarrow> workflow_error + 'r manifest"
where
  "record_conversion_performance w i m a = record_conversion_performance_with_recipe w i [] False m a"

definition record_current_conversion_performance ::
  "workflow_world \<Rightarrow> conversion_performance_input \<Rightarrow> 'r manifest \<Rightarrow> string \<Rightarrow> workflow_error + 'r manifest"
where
  "record_current_conversion_performance w i m a =
     record_conversion_performance_with_recipe w i EMBEDDED_PREVIEW_CONVERSION_RECIPE True m a"

definition record_heic_verification_with_recipe ::
  "workflow_world \<Rightarrow> heic_verification_input \<Rightarrow> string \<Rightarrow> bool \<Rightarrow> 'r manifest \<Rightarrow> string
     \<Rightarrow> workflow_error + 'r manifest"
where
  "record_heic_verification_with_recipe w i recipe trusted m a =
     (let p = heic_proof_of recipe i in
      bind_ok (require_non_empty_path ''heic_path'' (hp_heic_path p)) (\<lambda>_.
      bind_ok (require_non_empty ''heic_sha256'' (hp_heic_sha256 p)) (\<lambda>_.
      bind_ok (load_conversion_context w m a) (\<lambda>(_, conversion).
      bind_ok (heic_of_conversion conversion p) (\<lambda>_.
      bind_ok (validate_heic_verification_flags_legacy p) (\<lambda>_.
      bind_ok (require_valid_conversion_performance w m a) (\<lambda>_.
      if trusted
      then transition_with_trusted_proof w ConversionVerified HEIC_PROOF (ser_heic_verification_proof p) m a
      else transition_with_proof w ConversionVerified HEIC_PROOF (ser_heic_verification_proof p) m a)))))))"

definition record_heic_verification ::
  "workflow_world \<Rightarrow> heic_verification_input \<Rightarrow> 'r manifest \<Rightarrow> string \<Rightarrow> workflow_error + 'r manifest"
where
  "record_heic_verification w i m a = record_heic_verification_with_recipe w i [] False m a"

definition record_current_heic_verification ::
  "workflow_world \<Rightarrow> heic_verification_input \<Rightarrow> 'r manifest \<Rightarrow> string \<Rightarrow> workflow_error + 'r manifest"
where
  "record_current_heic_verification w i m a =
     record_heic_verification_with_recipe w i EMBEDDED_PREVIEW_CONVERSION_RECIPE True m a"


subsection \<open>Upload\<close>

definition record_upload_proof ::
  "workflow_world \<Rightarrow> upload_proof \<Rightarrow> 'r manifest \<Rightarrow> string \<Rightarrow> workflow_error + 'r manifest"
where
  "record_upload_proof w p m a =
     bind_ok (require_non_empty ''uploaded_heic_asset_id'' (up_uploaded_heic_asset_id p)) (\<lambda>_.
     bind_ok (require_non_empty ''uploaded_heic_sha256'' (up_uploaded_heic_sha256 p)) (\<lambda>_.
     bind_ok (require_valid_library_destination UPLOAD_PROOF (up_database_scope p) (up_zone_name p)
       (up_owner_record_name p)) (\<lambda>_.
     bind_ok (ok_or (EmptyProofField ''uploaded_heic_path'') (up_uploaded_heic_path p)) (\<lambda>uploaded_heic_path.
     bind_ok (require_non_empty_path ''uploaded_heic_path'' uploaded_heic_path) (\<lambda>_.
     bind_ok (require_valid_conversion_performance w m a) (\<lambda>_.
     bind_ok (stored_proof de_heic_verification_proof m a HEIC_PROOF) (\<lambda>heic.
     bind_ok (validate_heic_verification_flags heic) (\<lambda>_.
     bind_ok (require_matching_str HEIC_PROOF ''uploaded_heic_sha256'' (hp_heic_sha256 heic)
       (up_uploaded_heic_sha256 p)) (\<lambda>_.
     bind_ok (require_matching_path HEIC_PROOF ''uploaded_heic_path'' (hp_heic_path heic) uploaded_heic_path) (\<lambda>_.
     bind_ok (wf_get m a) (\<lambda>r.
     bind_ok
       (case get_proof r ORIGINAL_ASSET_PROOF of
          None \<Rightarrow> Ok ()
        | Some v \<Rightarrow>
            bind_ok (ok_or (ProofDecode a ORIGINAL_ASSET_PROOF) (de_original_asset_proof v)) (\<lambda>original.
            require_matching_library_destination UPLOAD_PROOF original p)) (\<lambda>_.
     transition_with_proof w UploadVerified UPLOAD_PROOF (ser_upload_proof p) m a))))))))))))"

definition upload_ready_heic_proof :: "workflow_world \<Rightarrow> 'r manifest \<Rightarrow> string \<Rightarrow> workflow_error + verified_heic" where
  "upload_ready_heic_proof w m a =
     bind_ok (wf_get m a) (\<lambda>r.
     bind_ok (fail_if (ar_state r \<noteq> ConversionVerified) (UploadUnavailable a (ar_state r))) (\<lambda>_.
     bind_ok (require_valid_conversion_performance w m a) (\<lambda>_.
     bind_ok (stored_proof de_heic_verification_proof m a HEIC_PROOF) (\<lambda>p.
     bind_ok (validate_heic_verification_flags p) (\<lambda>_.
     Ok (verified_heic_of p))))))"

subsection \<open>Verifying an upload again\<close>

text \<open>\<open>proof["conversion_recipe_id"] = v\<close> on a JSON value: an object or null takes it, others panic.\<close>

definition assign_recipe :: "json \<Rightarrow> workflow_error + json" where
  "assign_recipe v =
     (case v of
        JObject fs \<Rightarrow>
          Ok (JObject (bt_insert ''conversion_recipe_id'' (JString EMBEDDED_PREVIEW_CONVERSION_RECIPE) fs))
      | JNull \<Rightarrow> Ok (JObject [(''conversion_recipe_id'', JString EMBEDDED_PREVIEW_CONVERSION_RECIPE)])
      | _ \<Rightarrow> Err WfPanic)"

definition refresh_recipe :: "workflow_world \<Rightarrow> string \<Rightarrow> string \<Rightarrow> 'r manifest \<Rightarrow> workflow_error + 'r manifest" where
  "refresh_recipe w a proof_key candidate =
     bind_ok (wf_get candidate a) (\<lambda>r.
     bind_ok (ok_or (MissingProof a proof_key) (get_proof r proof_key)) (\<lambda>v.
     bind_ok (assign_recipe v) (\<lambda>v'.
     insert_trusted_workflow_proof w proof_key v' candidate a)))"

definition reverify_owned_proofs_are_current :: "asset_record \<Rightarrow> asset_record \<Rightarrow> bool" where
  "reverify_owned_proofs_are_current current desired \<longleftrightarrow>
     list_all (\<lambda>k. get_proof current k = get_proof desired k)
       [CONVERSION_PROOF, CONVERSION_PERFORMANCE_PROOF, HEIC_PROOF]"

definition reverify_upload_verified_record ::
  "workflow_world \<Rightarrow> heic_verification_input \<Rightarrow> 'r manifest \<Rightarrow> string \<Rightarrow> workflow_error + asset_record"
where
  "reverify_upload_verified_record w i m a =
     (let heic = heic_proof_of EMBEDDED_PREVIEW_CONVERSION_RECIPE i in
      bind_ok (wf_get m a) (\<lambda>current.
      bind_ok (fail_if (ar_state current \<noteq> UploadVerified) (UploadUnavailable a (ar_state current))) (\<lambda>_.
      bind_ok (stored_proof de_conversion_result_proof m a CONVERSION_PROOF) (\<lambda>conversion.
      bind_ok (heic_of_conversion conversion heic) (\<lambda>_.
      bind_ok (validate_heic_verification_flags_legacy heic) (\<lambda>_.
      bind_ok (map_err WfManifest (snapshot_record m a)) (\<lambda>c0.
      bind_ok (refresh_recipe w a CONVERSION_PROOF c0) (\<lambda>c1.
      bind_ok (refresh_recipe w a CONVERSION_PERFORMANCE_PROOF c1) (\<lambda>c2.
      bind_ok (insert_trusted_workflow_proof w HEIC_PROOF (ser_heic_verification_proof heic) c2 a) (\<lambda>candidate.
      bind_ok (validate_pre_delete_facts w candidate a) (\<lambda>_.
      bind_ok (wf_get candidate a) (\<lambda>desired.
      Ok (if reverify_owned_proofs_are_current current desired then current else desired)))))))))))))"

subsection \<open>Deletion of the uploaded HEIC\<close>

datatype uploaded_heic_initial_state = Active | ActiveUnmarked | AlreadyDeleted

datatype uploaded_heic_initial_state_lookup_mode = FilteredMarker | FullFields

record uploaded_heic_asset =
  ua_record_name :: string
  ua_record_change_tag :: string
  ua_master_record_name :: string
  ua_owner_record_name_sha256 :: string
  ua_initial_remote_state :: uploaded_heic_initial_state
  ua_initial_state_lookup_mode :: uploaded_heic_initial_state_lookup_mode
  ua_matched_heic_sha256 :: string
  ua_size_bytes :: u64

definition uploaded_heic_delete_inputs ::
  "'r manifest \<Rightarrow> string \<Rightarrow> workflow_error + upload_proof \<times> heic_verification_proof"
where
  "uploaded_heic_delete_inputs m a =
     bind_ok (wf_get m a) (\<lambda>_.
     bind_ok (stored_proof de_upload_proof m a UPLOAD_PROOF) (\<lambda>upload.
     bind_ok (require_non_empty ''uploaded_heic_asset_id'' (up_uploaded_heic_asset_id upload)) (\<lambda>_.
     bind_ok (require_non_empty ''uploaded_heic_sha256'' (up_uploaded_heic_sha256 upload)) (\<lambda>_.
     bind_ok (ok_or (EmptyProofField ''uploaded_heic_path'') (up_uploaded_heic_path upload)) (\<lambda>uploaded_heic_path.
     bind_ok (require_non_empty_path ''uploaded_heic_path'' uploaded_heic_path) (\<lambda>_.
     bind_ok (stored_proof de_heic_verification_proof m a HEIC_PROOF) (\<lambda>heic.
     bind_ok (validate_heic_verification_flags heic) (\<lambda>_.
     bind_ok (require_matching_str HEIC_PROOF ''uploaded_heic_sha256'' (hp_heic_sha256 heic)
       (up_uploaded_heic_sha256 upload)) (\<lambda>_.
     bind_ok (require_matching_path HEIC_PROOF ''uploaded_heic_path'' (hp_heic_path heic) uploaded_heic_path) (\<lambda>_.
     bind_ok (require_positive_u64 HEIC_PROOF ''size_bytes'' (hp_size_bytes heic)) (\<lambda>_.
     bind_ok
       (case stored_proof de_original_asset_proof m a ORIGINAL_ASSET_PROOF of
          Inl _ \<Rightarrow> Ok ()
        | Inr original \<Rightarrow>
            fail_if (oa_record_name original = up_uploaded_heic_asset_id upload)
              (InvalidProofField UPLOAD_PROOF ''uploaded_heic_asset_id''
                ''uploaded HEIC asset id must not match the original RAW asset record'')) (\<lambda>_.
     Ok (upload, heic)))))))))))))"

definition uploaded_heic_delete_request ::
  "'r manifest \<Rightarrow> string \<Rightarrow> workflow_error + uploaded_heic_resolve_request"
where
  "uploaded_heic_delete_request m a =
     bind_ok (uploaded_heic_delete_inputs m a) (\<lambda>(upload, heic).
     Ok \<lparr>hr_uploaded_asset_id = up_uploaded_heic_asset_id upload,
         hr_expected_heic_sha256 = up_uploaded_heic_sha256 upload,
         hr_expected_size_bytes = hp_size_bytes heic, hr_database_scope = up_database_scope upload,
         hr_zone_name = up_zone_name upload, hr_owner_record_name = up_owner_record_name upload\<rparr>)"

definition validate_uploaded_heic_delete_proof :: "uploaded_heic_delete_proof \<Rightarrow> workflow_error + unit" where
  "validate_uploaded_heic_delete_proof p =
     checks
      [require_non_empty ''uploaded_heic_asset_id'' (uh_uploaded_heic_asset_id p),
       require_non_empty ''uploaded_heic_master_record_name'' (uh_uploaded_heic_master_record_name p),
       require_non_empty ''matched_heic_sha256'' (uh_matched_heic_sha256 p),
       require_positive_u64 UPLOADED_HEIC_DELETE_PROOF ''size_bytes'' (uh_size_bytes p),
       require_non_empty ''old_record_change_tag'' (uh_old_record_change_tag p),
       require_non_empty ''deleted_record_name'' (uh_deleted_record_name p),
       require_non_empty ''confirmed_deleted_change_tag'' (uh_confirmed_deleted_change_tag p),
       require_matching_str UPLOADED_HEIC_DELETE_PROOF ''deleted_record_name'' (uh_uploaded_heic_asset_id p)
         (uh_deleted_record_name p)]"

definition record_uploaded_heic_delete ::
  "workflow_world \<Rightarrow> uploaded_heic_asset \<Rightarrow> cloudkit_delete_outcome \<Rightarrow> 'r manifest \<Rightarrow> string
     \<Rightarrow> workflow_error + 'r manifest"
where
  "record_uploaded_heic_delete w resolved outcome m a =
     (let K = UPLOADED_HEIC_DELETE_PROOF in
      bind_ok (uploaded_heic_delete_inputs m a) (\<lambda>(upload, heic).
      bind_ok (checks
        [require_matching_str K ''uploaded_heic_asset_id'' (up_uploaded_heic_asset_id upload)
           (ua_record_name resolved),
         require_matching_str K ''matched_heic_sha256'' (up_uploaded_heic_sha256 upload)
           (ua_matched_heic_sha256 resolved),
         require_matching_u64 K ''size_bytes'' (hp_size_bytes heic) (ua_size_bytes resolved),
         require_matching_str K ''deleted_record_name'' (ua_record_name resolved) (do_record_name outcome)]) (\<lambda>_.
      let p = \<lparr>uh_uploaded_heic_asset_id = up_uploaded_heic_asset_id upload,
               uh_uploaded_heic_master_record_name = ua_master_record_name resolved,
               uh_matched_heic_sha256 = ua_matched_heic_sha256 resolved, uh_size_bytes = ua_size_bytes resolved,
               uh_old_record_change_tag = ua_record_change_tag resolved,
               uh_deleted_record_name = do_record_name outcome,
               uh_confirmed_deleted_change_tag = do_record_change_tag outcome\<rparr> in
      bind_ok (validate_uploaded_heic_delete_proof p) (\<lambda>_.
      insert_workflow_proof w K (ser_uploaded_heic_delete_proof p) m a))))"


subsection \<open>The local mirror\<close>

definition mirror_state :: "state \<Rightarrow> bool" where
  "mirror_state s \<longleftrightarrow> s \<in> {UploadVerified, DeleteEligible, DeleteApproved}"

definition record_icloudpd_local_mirror_proof ::
  "workflow_world \<Rightarrow> icloudpd_local_mirror_proof \<Rightarrow> 'r manifest \<Rightarrow> string \<Rightarrow> workflow_error + 'r manifest"
where
  "record_icloudpd_local_mirror_proof w p m a =
     bind_ok (wf_get m a) (\<lambda>r.
     bind_ok (fail_if (\<not> mirror_state (ar_state r)) (IcloudpdLocalMirrorUnavailable a (ar_state r))) (\<lambda>_.
     bind_ok (validate_candidate_icloudpd_local_mirror w m a p) (\<lambda>_.
     bind_ok (insert_workflow_proof w ICLOUDPD_LOCAL_MIRROR_PROOF (ser_icloudpd_local_mirror_proof p) m a) (\<lambda>staged.
     if ar_state r \<in> {DeleteEligible, DeleteApproved}
     then
       bind_ok (validate_pre_delete_facts w staged a) (\<lambda>facts.
       bind_ok (insert_workflow_proof w DELETE_ELIGIBILITY_PROOF (delete_eligibility_json w facts) staged a) (\<lambda>staged'.
       bind_ok
         (if ar_state r = DeleteApproved then validate_delete_approval_proof w staged' a facts else Ok ()) (\<lambda>_.
       Ok staged')))
     else Ok staged))))"

definition icloudpd_local_mirror_ready_proofs ::
  "workflow_world \<Rightarrow> 'r manifest \<Rightarrow> string \<Rightarrow> workflow_error + upload_proof \<times> verified_heic"
where
  "icloudpd_local_mirror_ready_proofs w m a =
     bind_ok (wf_get m a) (\<lambda>r.
     bind_ok (fail_if (\<not> mirror_state (ar_state r)) (IcloudpdLocalMirrorUnavailable a (ar_state r))) (\<lambda>_.
     bind_ok (validate_icloudpd_local_mirror_inputs w m a) (\<lambda>(upload, heic, _).
     Ok (upload, verified_heic_of heic))))"

definition validate_current_icloudpd_local_mirror_proof ::
  "workflow_world \<Rightarrow> 'r manifest \<Rightarrow> string \<Rightarrow> workflow_error + unit"
where
  "validate_current_icloudpd_local_mirror_proof w m a =
     bind_ok (stored_proof de_icloudpd_local_mirror_proof m a ICLOUDPD_LOCAL_MIRROR_PROOF) (\<lambda>p.
     validate_candidate_icloudpd_local_mirror w m a p)"

datatype icloudpd_local_mirror_proof_disposition = Current | Repairable | Blocked

definition mirror_proof_disposition ::
  "workflow_world \<Rightarrow> 'r manifest \<Rightarrow> string \<Rightarrow> icloudpd_local_mirror_proof_disposition"
where
  "mirror_proof_disposition w m a =
     (case validate_icloudpd_local_mirror_inputs w m a of
        Inl _ \<Rightarrow> Blocked
      | Inr (upload, heic, uploaded_heic_path) \<Rightarrow>
          (case stored_proof de_icloudpd_local_mirror_proof m a ICLOUDPD_LOCAL_MIRROR_PROOF of
             Inl _ \<Rightarrow> Repairable
           | Inr p \<Rightarrow>
               (if is_ok (validate_icloudpd_local_mirror_proof p upload uploaded_heic_path heic)
                then Current else Repairable)))"

subsection \<open>Original assets\<close>

definition record_original_asset_proof ::
  "workflow_world \<Rightarrow> original_asset_proof \<Rightarrow> 'r manifest \<Rightarrow> string \<Rightarrow> workflow_error + 'r manifest"
where
  "record_original_asset_proof w p m a =
     bind_ok (stored_proof de_nas_raw_proof m a NAS_PROOF) (\<lambda>nas.
     bind_ok (validate_original_asset_proof p nas) (\<lambda>_.
     insert_workflow_proof w ORIGINAL_ASSET_PROOF (ser_original_asset_proof p) m a))"

fun validate_unique_records ::
  "string list \<Rightarrow> (string, original_asset_proof) btree \<Rightarrow> string set \<Rightarrow> workflow_error + unit"
where
  "validate_unique_records [] ps seen = Ok ()"
| "validate_unique_records (a # as) ps seen =
     (case bt_get ps a of
        None \<Rightarrow> Err (MissingBatchOriginalAssetProof a)
      | Some p \<Rightarrow>
          if oa_record_name p \<in> seen then Err (DuplicateBatchOriginalAssetProof (oa_record_name p))
          else validate_unique_records as ps (insert (oa_record_name p) seen))"

definition record_original_asset_batch_proofs ::
  "workflow_world \<Rightarrow> string list \<Rightarrow> (string, original_asset_proof) btree \<Rightarrow> 'r manifest
     \<Rightarrow> workflow_error + 'r manifest"
where
  "record_original_asset_batch_proofs w asset_ids ps m =
     bind_ok (checks (map (\<lambda>a. fail_if (\<not> bt_contains ps a) (MissingBatchOriginalAssetProof a)) asset_ids)) (\<lambda>_.
     bind_ok (checks (map (\<lambda>a. fail_if (a \<notin> set asset_ids) (UnexpectedBatchOriginalAssetProof a)) (bt_keys ps))) (\<lambda>_.
     bind_ok (validate_unique_records asset_ids ps {}) (\<lambda>_.
     try_fold (\<lambda>a staged.
         bind_ok (ok_or (MissingBatchOriginalAssetProof a) (bt_get ps a)) (\<lambda>p.
         record_original_asset_proof w p staged a)) asset_ids m)))"

subsection \<open>Age, eligibility, approval, execution\<close>

definition source_age_proof_is_frozen :: "state \<Rightarrow> bool" where
  "source_age_proof_is_frozen s \<longleftrightarrow> is_terminal s \<or> s \<in> {DeleteEligible, DeleteApproved, Failed}"

definition record_source_age_proof ::
  "workflow_world \<Rightarrow> source_age_proof \<Rightarrow> 'r manifest \<Rightarrow> string \<Rightarrow> workflow_error + 'r manifest"
where
  "record_source_age_proof w p m a =
     bind_ok (wf_get m a) (\<lambda>r.
     bind_ok (fail_if (source_age_proof_is_frozen (ar_state r)) (SourceAgeProofFrozen a (ar_state r))) (\<lambda>_.
     bind_ok (require_min_age_seconds (sa_min_age_seconds p)) (\<lambda>_.
     bind_ok (require_proof m a NAS_PROOF) (\<lambda>_.
     insert_workflow_proof w SOURCE_AGE_PROOF (ser_source_age_proof p) m a))))"

definition mark_delete_eligible ::
  "workflow_world \<Rightarrow> 'r manifest \<Rightarrow> string \<Rightarrow> workflow_error + 'r manifest"
where
  "mark_delete_eligible w m a =
     bind_ok (wf_get m a) (\<lambda>r.
     bind_ok (fail_if (ar_state r \<noteq> UploadVerified) (DeleteEligibilityUnavailable a (ar_state r))) (\<lambda>_.
     bind_ok (require_valid_conversion_performance w m a) (\<lambda>_.
     bind_ok (validate_pre_delete_facts w m a) (\<lambda>facts.
     transition_with_proof w DeleteEligible DELETE_ELIGIBILITY_PROOF (delete_eligibility_json w facts) m a))))"

definition approve_delete ::
  "workflow_world \<Rightarrow> string \<Rightarrow> 'r manifest \<Rightarrow> string \<Rightarrow> workflow_error + 'r manifest"
where
  "approve_delete w operator m a =
     bind_ok (require_valid_conversion_performance w m a) (\<lambda>_.
     let operator = trim operator in
     bind_ok (fail_if (operator = []) EmptyOperator) (\<lambda>_.
     bind_ok (wf_get m a) (\<lambda>r.
     bind_ok (fail_if (ar_state r \<noteq> DeleteEligible)
       (WfManifest (InvalidTransition a (ar_state r) DeleteApproved))) (\<lambda>_.
     bind_ok (validate_pre_delete_facts w m a) (\<lambda>facts.
     bind_ok (validate_delete_eligibility_chain w m a facts) (\<lambda>_.
     transition_with_proof w DeleteApproved DELETE_APPROVAL_PROOF
       (ser_delete_approval_proof (approval_proof_of w operator facts)) m a))))))"

definition record_delete_execution ::
  "workflow_world \<Rightarrow> cloudkit_delete_outcome \<Rightarrow> 'r manifest \<Rightarrow> string \<Rightarrow> workflow_error + 'r manifest"
where
  "record_delete_execution w outcome m a =
     bind_ok (wf_get m a) (\<lambda>r.
     bind_ok (fail_if (ar_state r \<noteq> DeleteApproved)
       (WfManifest (InvalidTransition a (ar_state r) Deleted))) (\<lambda>_.
     bind_ok (revalidate_delete_plan_proofs w m a) (\<lambda>_.
     bind_ok (stored_proof de_original_asset_proof m a ORIGINAL_ASSET_PROOF) (\<lambda>original.
     bind_ok (stored_proof de_upload_proof m a UPLOAD_PROOF) (\<lambda>upload.
     bind_ok (execution_proof_of (oa_record_name original) (oa_record_change_tag original)
       (up_uploaded_heic_asset_id upload) outcome) (\<lambda>p.
     transition_with_proof w Deleted DELETE_EXECUTION_PROOF (ser_delete_execution_proof p) m a))))))"

definition record_prevalidated_delete_execution ::
  "workflow_world \<Rightarrow> prevalidated_delete \<Rightarrow> cloudkit_delete_outcome \<Rightarrow> 'r manifest \<Rightarrow> workflow_error + 'r manifest"
where
  "record_prevalidated_delete_execution w t outcome m =
     bind_ok (wf_get m (pd_asset_id t)) (\<lambda>r.
     bind_ok (fail_if (ar_state r \<noteq> DeleteApproved)
       (WfManifest (InvalidTransition (pd_asset_id t) (ar_state r) Deleted))) (\<lambda>_.
     bind_ok (validate_prevalidated_delete r t) (\<lambda>_.
     bind_ok (execution_proof_of (dr_record_name (pd_request t)) (dr_record_change_tag (pd_request t))
       (pd_uploaded_heic_asset_id t) outcome) (\<lambda>p.
     transition_with_proof w Deleted DELETE_EXECUTION_PROOF (ser_delete_execution_proof p) m (pd_asset_id t)))))"

definition record_reconciled_delete_execution ::
  "workflow_world \<Rightarrow> delete_reconciliation \<Rightarrow> cloudkit_delete_outcome \<Rightarrow> 'r manifest
     \<Rightarrow> workflow_error + 'r manifest"
where
  "record_reconciled_delete_execution w t outcome m =
     bind_ok (wf_get m (rc_asset_id t)) (\<lambda>r.
     bind_ok (fail_if (ar_state r \<noteq> DeleteApproved)
       (WfManifest (InvalidTransition (rc_asset_id t) (ar_state r) Deleted))) (\<lambda>_.
     bind_ok (validate_delete_token_snapshot r (rc_asset_id t) (rc_raw_path t) (rc_proofs t) Reconciliation) (\<lambda>_.
     bind_ok (execution_proof_of (dr_record_name (rc_request t)) (dr_record_change_tag (rc_request t))
       (rc_uploaded_heic_asset_id t) outcome) (\<lambda>p.
     transition_with_proof w Deleted DELETE_EXECUTION_PROOF (ser_delete_execution_proof p) m (rc_asset_id t)))))"

definition record_stage_failure ::
  "workflow_world \<Rightarrow> string \<Rightarrow> string \<Rightarrow> 'r manifest \<Rightarrow> string \<Rightarrow> workflow_error + 'r manifest"
where
  "record_stage_failure w stage message m a =
     map_err WfManifest (record_failure (ww_timestamp w) stage message m a)"

definition record_stage_failure_with_kind ::
  "workflow_world \<Rightarrow> string \<Rightarrow> string \<Rightarrow> failure_kind \<Rightarrow> 'r manifest \<Rightarrow> string \<Rightarrow> workflow_error + 'r manifest"
where
  "record_stage_failure_with_kind w stage message kind m a =
     map_err WfManifest (record_failure_with_kind (ww_timestamp w) stage message (Some kind) m a)"

end
