(* ===== verification/Delete_Spec.thy ===== *)
theory Delete_Spec
  imports Workflow
begin

section \<open>When a deletion is justified\<close>

text \<open>
  What the workflow promises about a deletion, as a relation between the proofs stored in a record:
  which proofs there are (\<open>chain_stored\<close>), how they are tied to each other (\<open>chain_linked\<close>) and to
  the adjusted source, if any (\<open>source_bound\<close>). The validator of \<open>src/src/workflow.rs\<close> decides exactly
  this relation.
\<close>

definition chain_stored ::
  "'r manifest \<Rightarrow> string \<Rightarrow> nas_raw_proof \<Rightarrow> conversion_result_proof \<Rightarrow> conversion_performance_proof
     \<Rightarrow> pre_delete_facts \<Rightarrow> bool"
where
  "chain_stored m a nas conversion performance facts \<longleftrightarrow>
     stored_proof de_nas_raw_proof m a NAS_PROOF = Ok nas
     \<and> stored_proof de_conversion_result_proof m a CONVERSION_PROOF = Ok conversion
     \<and> stored_proof de_conversion_performance_proof m a CONVERSION_PERFORMANCE_PROOF = Ok performance
     \<and> stored_proof de_heic_verification_proof m a HEIC_PROOF = Ok (pf_heic facts)
     \<and> stored_proof de_upload_proof m a UPLOAD_PROOF = Ok (pf_upload facts)
     \<and> stored_proof de_source_age_proof m a SOURCE_AGE_PROOF = Ok (pf_source_age facts)
     \<and> stored_proof de_original_asset_proof m a ORIGINAL_ASSET_PROOF = Ok (pf_original facts)
     \<and> stored_proof de_icloudpd_local_mirror_proof m a ICLOUDPD_LOCAL_MIRROR_PROOF = Ok (pf_mirror facts)"

definition heic_linked ::
  "conversion_result_proof \<Rightarrow> heic_verification_proof \<Rightarrow> upload_proof \<Rightarrow> path
     \<Rightarrow> icloudpd_local_mirror_proof \<Rightarrow> bool"
where
  "heic_linked conversion heic upload uploaded_path mirror \<longleftrightarrow>
     heic_flags_ok heic
     \<and> path_eq (cp_heic_path conversion) (hp_heic_path heic)
     \<and> cp_heic_sha256 conversion = hp_heic_sha256 heic
     \<and> cp_size_bytes conversion = hp_size_bytes heic
     \<and> \<not> is_blank (up_uploaded_heic_asset_id upload)
     \<and> \<not> is_blank (up_uploaded_heic_sha256 upload)
     \<and> up_uploaded_heic_path upload = Some uploaded_path \<and> uploaded_path \<noteq> []
     \<and> hp_heic_sha256 heic = up_uploaded_heic_sha256 upload
     \<and> path_eq (hp_heic_path heic) uploaded_path
     \<and> lm_uploaded_heic_asset_id mirror = up_uploaded_heic_asset_id upload
     \<and> lm_uploaded_heic_sha256 mirror = up_uploaded_heic_sha256 upload
     \<and> path_eq uploaded_path (lm_uploaded_heic_path mirror) \<and> lm_uploaded_heic_path mirror \<noteq> []
     \<and> lm_icloudpd_download_path mirror \<noteq> []
     \<and> lm_size_bytes mirror = hp_size_bytes heic \<and> lm_size_bytes mirror \<noteq> 0"

definition raw_linked :: "asset_record \<Rightarrow> nas_raw_proof \<Rightarrow> original_asset_proof \<Rightarrow> bool" where
  "raw_linked r nas original \<longleftrightarrow>
     path_eq (ar_raw_path r) (nr_canonical_path nas) \<and> nr_canonical_path nas \<noteq> []
     \<and> nr_relative_path nas \<noteq> [] \<and> nr_size_bytes nas \<noteq> 0 \<and> \<not> is_blank (nr_sha256 nas)
     \<and> \<not> is_blank (oa_record_name original) \<and> \<not> is_blank (oa_record_change_tag original)
     \<and> \<not> is_blank (oa_filename original) \<and> \<not> is_blank (oa_zone_name original)
     \<and> validate_library_destination (original_destination original) = Ok ()
     \<and> oa_record_type original = ''CPLAsset''
     \<and> oa_size_bytes original = nr_size_bytes nas
     \<and> oa_matched_raw_sha256 original = nr_sha256 nas"

definition aged :: "nas_raw_proof \<Rightarrow> source_age_proof \<Rightarrow> u64 \<Rightarrow> bool" where
  "aged nas age seconds \<longleftrightarrow>
     MIN_RAW_AGE_SECONDS \<le> sa_min_age_seconds age
     \<and> sa_min_age_seconds age \<le> nr_age_seconds nas
     \<and> sa_min_age_seconds age \<le> seconds
     \<and> seconds = saturating_sub (sa_verified_at_unix_seconds age) (sa_source_captured_unix_seconds age)"

definition same_library :: "original_asset_proof \<Rightarrow> upload_proof \<Rightarrow> bool" where
  "same_library original upload \<longleftrightarrow>
     oa_database_scope original = up_database_scope upload
     \<and> oa_zone_name original = up_zone_name upload
     \<and> oa_owner_record_name original = up_owner_record_name upload"

definition chain_linked ::
  "asset_record \<Rightarrow> nas_raw_proof \<Rightarrow> conversion_result_proof \<Rightarrow> conversion_performance_proof
     \<Rightarrow> pre_delete_facts \<Rightarrow> bool"
where
  "chain_linked r nas conversion performance facts \<longleftrightarrow>
     raw_linked r nas (pf_original facts)
     \<and> aged nas (pf_source_age facts) (pf_source_age_seconds facts)
     \<and> heic_linked conversion (pf_heic facts) (pf_upload facts) (pf_uploaded_heic_path facts) (pf_mirror facts)
     \<and> performance_ok performance nas conversion
     \<and> same_library (pf_original facts) (pf_upload facts)
     \<and> cp_conversion_recipe_id conversion = EMBEDDED_PREVIEW_CONVERSION_RECIPE
     \<and> pp_conversion_recipe_id performance = EMBEDDED_PREVIEW_CONVERSION_RECIPE
     \<and> hp_conversion_recipe_id (pf_heic facts) = EMBEDDED_PREVIEW_CONVERSION_RECIPE"

definition source_bound ::
  "workflow_world \<Rightarrow> 'r manifest \<Rightarrow> string \<Rightarrow> conversion_result_proof \<Rightarrow> adjusted_source_proof option \<Rightarrow> bool"
where
  "source_bound w m a conversion adjusted_source \<longleftrightarrow>
     validate_conversion_source_binding w m a conversion = Ok adjusted_source
     \<and> validated_adjusted_source_for_conversion w m a (cp_heic_path conversion) = Ok adjusted_source"

text \<open>The small groups of checks decide their part of the relation.\<close>

lemma age_Ok: "source_age_seconds a p = Inr n \<longleftrightarrow>
    MIN_RAW_AGE_SECONDS \<le> sa_min_age_seconds p \<and> sa_min_age_seconds p \<le> n
    \<and> n = saturating_sub (sa_verified_at_unix_seconds p) (sa_source_captured_unix_seconds p)"
  by (auto simp: source_age_seconds_def bind_ok_eq_Ok Let_def not_less split: if_splits)

lemma nas_Ok: "validate_nas_proof r p n = Inr u \<longleftrightarrow>
    nr_canonical_path p \<noteq> [] \<and> nr_relative_path p \<noteq> [] \<and> nr_size_bytes p \<noteq> 0
    \<and> \<not> is_blank (nr_sha256 p) \<and> n \<le> nr_age_seconds p \<and> path_eq (ar_raw_path r) (nr_canonical_path p)"
  by (auto simp: validate_nas_proof_def not_less)

lemma original_Ok: "validate_original_asset_proof p nas = Inr u \<longleftrightarrow>
    \<not> is_blank (oa_record_name p) \<and> \<not> is_blank (oa_record_change_tag p)
    \<and> \<not> is_blank (oa_filename p) \<and> \<not> is_blank (oa_zone_name p)
    \<and> validate_library_destination (original_destination p) = Inr ()
    \<and> oa_record_type p = ''CPLAsset'' \<and> oa_size_bytes p = nr_size_bytes nas
    \<and> oa_matched_raw_sha256 p = nr_sha256 nas"
  by (auto simp: validate_original_asset_proof_def original_destination_def)

lemma library_Ok: "require_matching_library_destination k original upload = Inr u \<longleftrightarrow> same_library original upload"
  by (auto simp: require_matching_library_destination_def same_library_def)

lemma heic_conversion_Ok: "heic_of_conversion conversion heic = Inr u \<longleftrightarrow>
    path_eq (cp_heic_path conversion) (hp_heic_path heic)
    \<and> cp_heic_sha256 conversion = hp_heic_sha256 heic \<and> cp_size_bytes conversion = hp_size_bytes heic"
  by (auto simp: heic_of_conversion_def)

lemma uploaded_path_Ok: "uploaded_path_of_heic upload heic = Inr p \<longleftrightarrow>
    \<not> is_blank (up_uploaded_heic_asset_id upload) \<and> \<not> is_blank (up_uploaded_heic_sha256 upload)
    \<and> up_uploaded_heic_path upload = Some p \<and> p \<noteq> []
    \<and> hp_heic_sha256 heic = up_uploaded_heic_sha256 upload \<and> path_eq (hp_heic_path heic) p"
  by (auto simp: uploaded_path_of_heic_def bind_ok_eq_Ok)

lemma mirror_Ok:
  assumes "uploaded_path_of_heic upload heic = Inr p"
  shows "validate_icloudpd_local_mirror_proof mirror upload p heic = Inr u \<longleftrightarrow>
    lm_uploaded_heic_asset_id mirror = up_uploaded_heic_asset_id upload
    \<and> lm_uploaded_heic_sha256 mirror = up_uploaded_heic_sha256 upload
    \<and> path_eq p (lm_uploaded_heic_path mirror) \<and> lm_uploaded_heic_path mirror \<noteq> []
    \<and> lm_icloudpd_download_path mirror \<noteq> [] \<and> lm_size_bytes mirror = hp_size_bytes heic
    \<and> lm_size_bytes mirror \<noteq> 0"
  using assms
  by (auto simp: validate_icloudpd_local_mirror_proof_def uploaded_path_Ok Let_def
      intro: path_eq_trans)

lemma context_Ok: "load_conversion_context w m a = Inr (nas, conversion) \<longleftrightarrow>
    stored_proof de_nas_raw_proof m a NAS_PROOF = Inr nas
    \<and> stored_proof de_conversion_result_proof m a CONVERSION_PROOF = Inr conversion
    \<and> (\<exists>adjusted. validate_conversion_source_binding w m a conversion = Inr adjusted)"
  by (auto simp: load_conversion_context_def bind_ok_eq_Ok)

lemma stored_performance_Ok: "validate_stored_conversion_performance m a nas conversion = Inr u \<longleftrightarrow>
    cp_conversion_recipe_id conversion = EMBEDDED_PREVIEW_CONVERSION_RECIPE
    \<and> (\<exists>performance. stored_proof de_conversion_performance_proof m a CONVERSION_PERFORMANCE_PROOF = Inr performance
        \<and> pp_conversion_recipe_id performance = EMBEDDED_PREVIEW_CONVERSION_RECIPE
        \<and> performance_ok performance nas conversion)"
  by (auto simp: validate_stored_conversion_performance_def bind_ok_eq_Ok)

lemma valid_performance_Ok: "require_valid_conversion_performance w m a = Inr (nas, conversion) \<longleftrightarrow>
    load_conversion_context w m a = Inr (nas, conversion)
    \<and> validate_stored_conversion_performance m a nas conversion = Inr ()"
  by (auto simp: require_valid_conversion_performance_def bind_ok_eq_Ok)

text \<open>A binding, once valid, is to the adjusted source that is stored.\<close>

lemma binding_stored:
  assumes "validate_conversion_source_binding w m a conversion = Inr adjusted"
  shows "stored_adjusted_source_for_conversion m a (cp_heic_path conversion) = Inr adjusted"
  using assms
  by (auto simp: validate_conversion_source_binding_def bind_ok_eq_Ok
      split: option.split_asm conversion_source_binding.split_asm if_split_asm)

lemma validated_stored:
  assumes "validated_adjusted_source_for_conversion w m a p = Inr adjusted"
  shows "stored_adjusted_source_for_conversion m a p = Inr adjusted"
  using assms by (auto simp: validated_adjusted_source_for_conversion_def bind_ok_eq_Ok)

lemma pre_delete_Ok_iff:
  "validate_pre_delete_facts w m a = Inr facts \<longleftrightarrow>
     (\<exists>r nas conversion performance. bt_get (mf_records m) a = Some r
        \<and> chain_stored m a nas conversion performance facts
        \<and> chain_linked r nas conversion performance facts
        \<and> source_bound w m a conversion (pf_adjusted_source facts))" (is "?lhs \<longleftrightarrow> ?rhs")
proof
  assume ?lhs
  then obtain r nas conversion performance adjusted where
    "bt_get (mf_records m) a = Some r" "chain_stored m a nas conversion performance facts"
    "chain_linked r nas conversion performance facts"
    and bound: "validate_conversion_source_binding w m a conversion = Inr adjusted"
      "validated_adjusted_source_for_conversion w m a (cp_heic_path conversion) = Inr (pf_adjusted_source facts)"
    unfolding validate_pre_delete_facts_def chain_stored_def chain_linked_def raw_linked_def aged_def heic_linked_def
    by (clarsimp simp: bind_ok_eq_Ok context_Ok age_Ok nas_Ok original_Ok library_Ok heic_conversion_Ok
        stored_performance_Ok mirror_Ok) (auto simp: uploaded_path_Ok)
  with binding_stored [OF bound(1)] validated_stored [OF bound(2)] show ?rhs
    unfolding source_bound_def by auto
next
  assume ?rhs
  then obtain r nas conversion performance where
    r: "bt_get (mf_records m) a = Some r" and stored: "chain_stored m a nas conversion performance facts"
    and linked: "chain_linked r nas conversion performance facts"
    and bound: "source_bound w m a conversion (pf_adjusted_source facts)" by blast
  have path: "uploaded_path_of_heic (pf_upload facts) (pf_heic facts) = Inr (pf_uploaded_heic_path facts)"
    using linked by (simp add: uploaded_path_Ok chain_linked_def heic_linked_def)
  have mirror: "validate_icloudpd_local_mirror_proof (pf_mirror facts) (pf_upload facts)
      (pf_uploaded_heic_path facts) (pf_heic facts) = Inr ()"
    using linked unfolding mirror_Ok [OF path] chain_linked_def heic_linked_def by metis
  have performance: "validate_stored_conversion_performance m a nas conversion = Inr ()"
    using stored linked by (auto simp: stored_performance_Ok chain_stored_def chain_linked_def)
  have ctx: "load_conversion_context w m a = Inr (nas, conversion)"
    using stored bound by (auto simp: context_Ok chain_stored_def source_bound_def)
  have rest: "source_age_seconds a (pf_source_age facts) = Inr (pf_source_age_seconds facts)"
    "validate_nas_proof r nas (sa_min_age_seconds (pf_source_age facts)) = Inr ()"
    "validate_original_asset_proof (pf_original facts) nas = Inr ()"
    "require_matching_library_destination UPLOAD_PROOF (pf_original facts) (pf_upload facts) = Inr ()"
    "heic_of_conversion conversion (pf_heic facts) = Inr ()"
    "validate_heic_verification_flags (pf_heic facts) = Inr ()"
    using linked
    unfolding age_Ok nas_Ok original_Ok library_Ok heic_conversion_Ok heic_flags_Ok chain_linked_def
      raw_linked_def aged_def heic_linked_def
    by blast+
  have get: "wf_get m a = Inr r" using r by simp
  show ?lhs
    using stored bound unfolding validate_pre_delete_facts_def chain_stored_def source_bound_def
    by (simp add: get ctx path mirror performance rest)
qed

text \<open>C10: The validation before a deletion accepts exactly the records whose stored proofs form the declared
  chain, and it returns the facts of that chain: nothing is accepted that the relation does not
  justify, and no justified record is refused.\<close>

theorem validator_decides_the_chain:
  "validate_pre_delete_facts w m a = Ok facts \<longleftrightarrow>
     (\<exists>r nas conversion performance. bt_get (mf_records m) a = Some r
        \<and> chain_stored m a nas conversion performance facts
        \<and> chain_linked r nas conversion performance facts
        \<and> source_bound w m a conversion (pf_adjusted_source facts))"
  by (rule pre_delete_Ok_iff)

end
