(* ===== verification/Workflow_Frame.thy ===== *)
theory Workflow_Frame
  imports Delete_Spec
begin

section \<open>What an operation leaves alone\<close>

text \<open>
  Frame lemmas of the workflow: a reader of stored proofs sees only the proofs it names, so the
  validators give the same verdict on two manifests whose records of the asset agree on those; and
  each change through the manifest alters one proof of one record.
\<close>

text \<open>Two manifests whose records of an asset agree on identity, path and some proofs.\<close>

definition agree :: "string set \<Rightarrow> string \<Rightarrow> 'r manifest \<Rightarrow> 'r manifest \<Rightarrow> bool" where
  "agree ks a m m' \<longleftrightarrow>
     (\<exists>r r'. bt_get (mf_records m) a = Some r \<and> bt_get (mf_records m') a = Some r'
        \<and> ar_asset_id r' = ar_asset_id r \<and> ar_raw_path r' = ar_raw_path r
        \<and> (\<forall>k\<in>ks. get_proof r' k = get_proof r k))"

lemma agree_stored: "agree ks a m m' \<Longrightarrow> k \<in> ks \<Longrightarrow> stored_proof de m' a k = stored_proof de m a k"
  by (auto simp: agree_def stored_proof_def require_proof_def wf_get_def manifest_get_def)

lemma agree_subset: "agree ks a m m' \<Longrightarrow> ks' \<subseteq> ks \<Longrightarrow> agree ks' a m m'"
  by (fastforce simp: agree_def)

lemma agree_trans: "agree ks a m m' \<Longrightarrow> agree ks a m' m'' \<Longrightarrow> agree ks a m m''"
  by (fastforce simp: agree_def)

definition chain_keys :: "string set" where
  "chain_keys = {NAS_PROOF, ORIGINAL_ASSET_PROOF, ADJUSTED_SOURCE_PROOF, CONVERSION_PROOF,
     CONVERSION_PERFORMANCE_PROOF, HEIC_PROOF, SOURCE_AGE_PROOF, UPLOAD_PROOF, ICLOUDPD_LOCAL_MIRROR_PROOF}"

lemma agree_adjusted_source:
  assumes "agree {ORIGINAL_ASSET_PROOF, ADJUSTED_SOURCE_PROOF} a m m'"
  shows "stored_adjusted_source_for_conversion m' a p = stored_adjusted_source_for_conversion m a p"
proof -
  from assms obtain r r' where r: "wf_get m a = Inr r" "wf_get m' a = Inr r'"
    and same: "ar_asset_id r' = ar_asset_id r" "get_proof r' ADJUSTED_SOURCE_PROOF = get_proof r ADJUSTED_SOURCE_PROOF"
    by (auto simp: agree_def)
  have opt: "optional_workflow_proof de r' ADJUSTED_SOURCE_PROOF = optional_workflow_proof de r ADJUSTED_SOURCE_PROOF"
    for de :: "json \<Rightarrow> adjusted_source_proof option"
    unfolding optional_workflow_proof_def same ..
  have original: "stored_proof de m' a ORIGINAL_ASSET_PROOF = stored_proof de m a ORIGINAL_ASSET_PROOF"
    for de :: "json \<Rightarrow> original_asset_proof option"
    by (rule agree_stored [OF assms]) simp
  show ?thesis
    unfolding stored_adjusted_source_for_conversion_def r bind_ok_simps opt original ..
qed

lemma agree_adjusted:
  "agree chain_keys a m m' \<Longrightarrow>
     stored_adjusted_source_for_conversion m' a p = stored_adjusted_source_for_conversion m a p"
  by (rule agree_adjusted_source, rule agree_subset) (auto simp: chain_keys_def)

lemma agree_binding:
  assumes "agree {ORIGINAL_ASSET_PROOF, ADJUSTED_SOURCE_PROOF} a m m'"
  shows "validate_conversion_source_binding w m' a c = validate_conversion_source_binding w m a c"
    and "validated_adjusted_source_for_conversion w m' a p = validated_adjusted_source_for_conversion w m a p"
proof -
  have original: "stored_proof de m' a ORIGINAL_ASSET_PROOF = stored_proof de m a ORIGINAL_ASSET_PROOF"
    for de :: "json \<Rightarrow> original_asset_proof option"
    by (rule agree_stored [OF assms]) simp
  show "validate_conversion_source_binding w m' a c = validate_conversion_source_binding w m a c"
    unfolding validate_conversion_source_binding_def agree_adjusted_source [OF assms] ..
  show "validated_adjusted_source_for_conversion w m' a p = validated_adjusted_source_for_conversion w m a p"
    unfolding validated_adjusted_source_for_conversion_def agree_adjusted_source [OF assms] original ..
qed

lemma agree_pre_delete:
  assumes "agree chain_keys a m m'"
  shows "validate_pre_delete_facts w m' a = validate_pre_delete_facts w m a"
    and "load_conversion_context w m' a = load_conversion_context w m a"
    and "require_valid_conversion_performance w m' a = require_valid_conversion_performance w m a"
proof -
  from assms obtain r r' where r: "wf_get m a = Inr r" "wf_get m' a = Inr r'"
    and same: "ar_asset_id r' = ar_asset_id r" "ar_raw_path r' = ar_raw_path r"
    by (auto simp: agree_def)
  have "NAS_PROOF \<in> chain_keys" "ORIGINAL_ASSET_PROOF \<in> chain_keys" "CONVERSION_PROOF \<in> chain_keys"
    "CONVERSION_PERFORMANCE_PROOF \<in> chain_keys" "HEIC_PROOF \<in> chain_keys" "SOURCE_AGE_PROOF \<in> chain_keys"
    "UPLOAD_PROOF \<in> chain_keys" "ICLOUDPD_LOCAL_MIRROR_PROOF \<in> chain_keys"
    by (simp_all add: chain_keys_def)
  note stored = this [THEN agree_stored [OF assms]]
  have binding: "validate_conversion_source_binding w m' a c = validate_conversion_source_binding w m a c" for c
    unfolding validate_conversion_source_binding_def agree_adjusted [OF assms] ..
  show ctx: "load_conversion_context w m' a = load_conversion_context w m a"
    unfolding load_conversion_context_def binding stored ..
  have performance: "validate_stored_conversion_performance m' a nas c = validate_stored_conversion_performance m a nas c"
    for nas c
    unfolding validate_stored_conversion_performance_def stored ..
  show "require_valid_conversion_performance w m' a = require_valid_conversion_performance w m a"
    unfolding require_valid_conversion_performance_def ctx performance ..
  have installed: "validated_adjusted_source_for_conversion w m' a p = validated_adjusted_source_for_conversion w m a p" for p
    unfolding validated_adjusted_source_for_conversion_def agree_adjusted [OF assms] stored ..
  have nas: "validate_nas_proof r' nas n = validate_nas_proof r nas n" for nas n
    unfolding validate_nas_proof_def same ..
  show "validate_pre_delete_facts w m' a = validate_pre_delete_facts w m a"
    unfolding validate_pre_delete_facts_def r ctx installed stored performance bind_ok_simps nas ..
qed


subsection \<open>One proof of one record\<close>

text \<open>The manifest after a change of one record: its state, its proof under a name, its time stamp.\<close>

definition put_record :: "string \<Rightarrow> asset_record \<Rightarrow> 'r manifest \<Rightarrow> 'r manifest" where
  "put_record a r m = m\<lparr>mf_records := bt_insert a r (mf_records m)\<rparr>"

lemma put_record_get [simp]:
  "bt_get (mf_records (put_record a r m)) b = (if b = a then Some r else bt_get (mf_records m) b)"
  by (simp add: put_record_def)

lemma put_record_registry [simp]: "mf_registry (put_record a r m) = mf_registry m"
  by (simp add: put_record_def)

definition with_proof :: "string \<Rightarrow> state \<Rightarrow> string \<Rightarrow> json \<Rightarrow> asset_record \<Rightarrow> asset_record" where
  "with_proof now s k v r = (put_proof k v (r\<lparr>ar_state := s\<rparr>))\<lparr>ar_updated_at := now\<rparr>"

lemma with_proof_simps [simp]:
  "ar_state (with_proof now s k v r) = s"
  "ar_asset_id (with_proof now s k v r) = ar_asset_id r"
  "ar_raw_path (with_proof now s k v r) = ar_raw_path r"
  "ar_failures (with_proof now s k v r) = ar_failures r"
  "get_proof (with_proof now s k v r) k' = (if k' = k then Some v else get_proof r k')"
  by (simp_all add: with_proof_def put_proof_def get_proof_def)

lemma recipe_names: "set recipe_proof_names = {CONVERSION_PROOF, CONVERSION_PERFORMANCE_PROOF, HEIC_PROOF}"
  by (simp add: recipe_proof_names_def model_defs)

lemma sanitize_other: "k \<notin> set recipe_proof_names \<Longrightarrow> sanitize_untrusted_recipe_claim k v = v"
  by (simp add: sanitize_untrusted_recipe_claim_def)

lemma transition_with_proof_eq_Ok:
  "transition_with_proof w s k v m a = Inr m' \<longleftrightarrow>
     (\<exists>r. bt_get (mf_records m) a = Some r \<and> unreserved r \<and> k \<noteq> RESERVED_PROOF_NAME \<and> allows (ar_state r) s
        \<and> m' = put_record a (with_proof (ww_timestamp w) s k (sanitize_untrusted_recipe_claim k v) r) m)"
  by (auto simp: transition_with_proof_def transition_eq_Ok transition_rel_def put_record_def with_proof_def)

lemma transition_with_trusted_proof_eq_Ok:
  "transition_with_trusted_proof w s k v m a = Inr m' \<longleftrightarrow>
     (\<exists>r. bt_get (mf_records m) a = Some r \<and> unreserved r \<and> k \<noteq> RESERVED_PROOF_NAME \<and> allows (ar_state r) s
        \<and> m' = put_record a (with_proof (ww_timestamp w) s k v r) m)"
  by (auto simp: transition_with_trusted_proof_def transition_trusted_eq_Ok transition_rel_def put_record_def
      with_proof_def)

lemma insert_workflow_proof_eq_Ok:
  "insert_workflow_proof w k v m a = Inr m' \<longleftrightarrow>
     (\<exists>r. bt_get (mf_records m) a = Some r \<and> unreserved r \<and> k \<noteq> RESERVED_PROOF_NAME
        \<and> m' = put_record a (with_proof (ww_timestamp w) (ar_state r) k (sanitize_untrusted_recipe_claim k v) r) m)"
  by (auto simp: insert_workflow_proof_def record_proof_eq_Ok proof_rel_def put_record_def with_proof_def)

lemma insert_trusted_workflow_proof_eq_Ok:
  "insert_trusted_workflow_proof w k v m a = Inr m' \<longleftrightarrow>
     (\<exists>r. bt_get (mf_records m) a = Some r \<and> unreserved r \<and> k \<noteq> RESERVED_PROOF_NAME
        \<and> m' = put_record a (with_proof (ww_timestamp w) (ar_state r) k v r) m)"
  by (auto simp: insert_trusted_workflow_proof_def record_trusted_proof_eq_Ok proof_rel_def put_record_def
      with_proof_def)

lemmas change_eq_Ok = transition_with_proof_eq_Ok transition_with_trusted_proof_eq_Ok
  insert_workflow_proof_eq_Ok insert_trusted_workflow_proof_eq_Ok

lemma proof_names_distinct:
  "distinct [NAS_PROOF, ORIGINAL_ASSET_PROOF, ADJUSTED_SOURCE_PROOF, CONVERSION_PROOF,
     CONVERSION_PERFORMANCE_PROOF, HEIC_PROOF, SOURCE_AGE_PROOF, UPLOAD_PROOF, UPLOADED_HEIC_DELETE_PROOF,
     ICLOUDPD_LOCAL_MIRROR_PROOF, DELETE_ELIGIBILITY_PROOF, DELETE_APPROVAL_PROOF, DELETE_EXECUTION_PROOF,
     RESERVED_PROOF_NAME]"
  by (simp add: model_defs)

lemma proof_names_distinct_rev:
  "distinct [RESERVED_PROOF_NAME, DELETE_EXECUTION_PROOF, DELETE_APPROVAL_PROOF, DELETE_ELIGIBILITY_PROOF,
     ICLOUDPD_LOCAL_MIRROR_PROOF, UPLOADED_HEIC_DELETE_PROOF, UPLOAD_PROOF, SOURCE_AGE_PROOF, HEIC_PROOF,
     CONVERSION_PERFORMANCE_PROOF, CONVERSION_PROOF, ADJUSTED_SOURCE_PROOF, ORIGINAL_ASSET_PROOF, NAS_PROOF]"
  by (simp add: model_defs)

lemmas proof_names_simps [simp] = proof_names_distinct [simplified] proof_names_distinct_rev [simplified]

lemma sanitize_workflow [simp]:
  "k \<in> {NAS_PROOF, ORIGINAL_ASSET_PROOF, ADJUSTED_SOURCE_PROOF, SOURCE_AGE_PROOF, UPLOAD_PROOF,
     UPLOADED_HEIC_DELETE_PROOF, ICLOUDPD_LOCAL_MIRROR_PROOF, DELETE_ELIGIBILITY_PROOF, DELETE_APPROVAL_PROOF,
     DELETE_EXECUTION_PROOF} \<Longrightarrow> sanitize_untrusted_recipe_claim k v = v"
  by (rule sanitize_other) (auto simp: recipe_names)

lemma put_stored [simp]:
  "stored_proof de (put_record a (with_proof now s k v r) m) a k = ok_or (ProofDecode a k) (de v)"
  by (simp add: stored_proof_def require_proof_def wf_get_def manifest_get_def)

lemma put_stored_other:
  "bt_get (mf_records m) a = Some r \<Longrightarrow> k' \<noteq> k \<Longrightarrow>
     stored_proof de (put_record a (with_proof now s k v r) m) a k' = stored_proof de m a k'"
  by (simp add: stored_proof_def require_proof_def wf_get_def manifest_get_def)

lemma put_agree:
  "bt_get (mf_records m) a = Some r \<Longrightarrow> k \<notin> ks \<Longrightarrow> agree ks a m (put_record a (with_proof now s k v r) m)"
  by (auto simp: agree_def)

end
