(* ===== verification/Delete_Safety.thy ===== *)
theory Delete_Safety
  imports Workflow_Frame
begin

section \<open>Deletions are justified\<close>

text \<open>
  The properties of the deletion workflow of \<open>src/src/workflow.rs\<close>: what a recorded deletion, a plan
  and a token say about the stored proofs and the live RAW file, and that an eligible asset can be
  approved and planned.
\<close>

subsection \<open>The renewed NAS proof\<close>

lemma reprove_Ok:
  assumes "reprove_nas_proof w r nas min_age = Inr fp"
  shows "\<exists>root live. derive_nas_root_from_proof nas = Inr root
      \<and> prove_nas_raw_with_min_age_seconds (ww_sha256_hex w) (ww_raw w root (nr_canonical_path nas)) root
          (nr_canonical_path nas) min_age (ww_clock w) = Inr (live, fp)
      \<and> path_eq (nr_canonical_path nas) (nr_canonical_path live)
      \<and> nr_size_bytes live = nr_size_bytes nas \<and> nr_sha256 live = nr_sha256 nas
      \<and> nr_modified_unix_seconds live = nr_modified_unix_seconds nas
      \<and> nr_age_seconds nas \<le> nr_age_seconds live \<and> min_age \<le> nr_age_seconds live"
  using assms
  by (auto simp: reprove_nas_proof_def bind_ok_eq_Ok not_less split: prod.splits)

text \<open>The live RAW file is still the one of the stored proof.\<close>

definition raw_unchanged :: "workflow_world \<Rightarrow> nas_raw_proof \<Rightarrow> u64 \<Rightarrow> bool" where
  "raw_unchanged w nas min_age \<longleftrightarrow>
     (\<exists>root live fp. derive_nas_root_from_proof nas = Ok root
        \<and> prove_nas_raw_with_min_age_seconds (ww_sha256_hex w) (ww_raw w root (nr_canonical_path nas)) root
            (nr_canonical_path nas) min_age (ww_clock w) = Ok (live, fp)
        \<and> path_eq (nr_canonical_path nas) (nr_canonical_path live)
        \<and> nr_size_bytes live = nr_size_bytes nas \<and> nr_sha256 live = nr_sha256 nas
        \<and> nr_modified_unix_seconds live = nr_modified_unix_seconds nas
        \<and> nr_age_seconds nas \<le> nr_age_seconds live \<and> min_age \<le> nr_age_seconds live)"

subsection \<open>What a valid stored plan means\<close>

definition approved_by :: "'r manifest \<Rightarrow> string \<Rightarrow> string \<Rightarrow> bool" where
  "approved_by m a operator \<longleftrightarrow>
     (\<exists>approval. stored_proof de_delete_approval_proof m a DELETE_APPROVAL_PROOF = Ok approval
        \<and> ap_operator approval = operator \<and> \<not> is_blank operator)"

text \<open>A justified deletion: the whole chain of proofs, and a named approval.\<close>

definition justified ::
  "workflow_world \<Rightarrow> 'r manifest \<Rightarrow> string \<Rightarrow> asset_record \<Rightarrow> nas_raw_proof \<Rightarrow> conversion_result_proof
     \<Rightarrow> conversion_performance_proof \<Rightarrow> pre_delete_facts \<Rightarrow> bool"
where
  "justified w m a r nas conversion performance facts \<longleftrightarrow>
     bt_get (mf_records m) a = Some r
     \<and> chain_stored m a nas conversion performance facts
     \<and> chain_linked r nas conversion performance facts
     \<and> source_bound w m a conversion (pf_adjusted_source facts)
     \<and> (\<exists>operator. approved_by m a operator)"

lemma justified_record:
  "justified w m a r' nas conversion performance facts \<Longrightarrow> bt_get (mf_records m) a = Some r \<Longrightarrow> r' = r"
  by (simp add: justified_def)

lemma stored_plan_justified:
  assumes "validate_stored_delete_plan_proofs w m a = Inr facts"
  shows "\<exists>r nas conversion performance. justified w m a r nas conversion performance facts"
proof -
  have "validate_pre_delete_facts w m a = Inr facts" "validate_delete_approval_proof w m a facts = Inr ()"
    using assms by (auto simp: validate_stored_delete_plan_proofs_def bind_ok_eq_Ok)
  moreover from this(2) have "\<exists>operator. approved_by m a operator"
    unfolding validate_delete_approval_proof_def approved_by_def by (auto simp: bind_ok_eq_Ok)
  ultimately show ?thesis by (auto simp: pre_delete_Ok_iff justified_def)
qed

lemma revalidated_justified:
  assumes "revalidate_delete_plan_proofs w m a = Inr fp"
  shows "\<exists>r nas conversion performance facts.
      justified w m a r nas conversion performance facts
      \<and> raw_unchanged w nas (sa_min_age_seconds (pf_source_age facts))"
proof -
  from assms obtain facts r nas where
    "validate_stored_delete_plan_proofs w m a = Inr facts"
    and nas: "stored_proof de_nas_raw_proof m a NAS_PROOF = Inr nas"
    and live: "reprove_nas_proof w r nas (sa_min_age_seconds (pf_source_age facts)) = Inr fp"
    by (auto simp: revalidate_delete_plan_proofs_def bind_ok_eq_Ok)
  then obtain r' nas' conversion performance where j: "justified w m a r' nas' conversion performance facts"
    using stored_plan_justified by blast
  with nas have "nas' = nas" by (simp add: justified_def chain_stored_def)
  have "raw_unchanged w nas (sa_min_age_seconds (pf_source_age facts))"
    using reprove_Ok [OF live] unfolding raw_unchanged_def by blast
  with j \<open>nas' = nas\<close> show ?thesis by blast
qed

lemma execution_proof_Ok:
  "execution_proof_of name tag uploaded out = Inr p \<longleftrightarrow>
     name = do_record_name out \<and> \<not> is_blank (do_record_change_tag out) \<and> do_record_change_tag out \<noteq> tag
     \<and> p = \<lparr>ex_old_record_change_tag = tag, ex_deleted_record_name = do_record_name out,
            ex_confirmed_deleted_change_tag = do_record_change_tag out, ex_uploaded_heic_asset_id = uploaded\<rparr>"
  by (auto simp: execution_proof_of_def bind_ok_eq_Ok)

text \<open>C1: A deletion is recorded only for an approved asset whose stored proofs form the whole chain - the
  RAW file on the NAS with the size and hash of the original asset, both old enough; a smaller HEIC
  file, verified, uploaded to the same library and mirrored under one hash; a named approval - whose
  RAW file, read again, is unchanged, and for which the outcome names the original record under a new
  change tag. The record then changes in its state and in the proof of the deletion alone.\<close>

theorem deletion_is_justified:
  assumes "record_delete_execution w outcome m a = Ok m'"
  shows "\<exists>r nas conversion performance facts.
      ar_state r = DeleteApproved \<and> justified w m a r nas conversion performance facts
      \<and> raw_unchanged w nas (sa_min_age_seconds (pf_source_age facts))
      \<and> do_record_name outcome = oa_record_name (pf_original facts)
      \<and> \<not> is_blank (do_record_change_tag outcome)
      \<and> do_record_change_tag outcome \<noteq> oa_record_change_tag (pf_original facts)
      \<and> m' = put_record a (with_proof (ww_timestamp w) Deleted DELETE_EXECUTION_PROOF
          (ser_delete_execution_proof
            \<lparr>ex_old_record_change_tag = oa_record_change_tag (pf_original facts),
             ex_deleted_record_name = oa_record_name (pf_original facts),
             ex_confirmed_deleted_change_tag = do_record_change_tag outcome,
             ex_uploaded_heic_asset_id = up_uploaded_heic_asset_id (pf_upload facts)\<rparr>) r) m"
proof -
  from assms obtain r fp original upload p where
    r: "bt_get (mf_records m) a = Some r" "ar_state r = DeleteApproved"
    and fp: "revalidate_delete_plan_proofs w m a = Inr fp"
    and original: "stored_proof de_original_asset_proof m a ORIGINAL_ASSET_PROOF = Inr original"
    and upload: "stored_proof de_upload_proof m a UPLOAD_PROOF = Inr upload"
    and p: "execution_proof_of (oa_record_name original) (oa_record_change_tag original)
        (up_uploaded_heic_asset_id upload) outcome = Inr p"
    and m': "transition_with_proof w Deleted DELETE_EXECUTION_PROOF (ser_delete_execution_proof p) m a = Inr m'"
    by (auto simp: record_delete_execution_def bind_ok_eq_Ok)
  from revalidated_justified [OF fp] obtain r' nas conversion performance facts where
    j: "justified w m a r' nas conversion performance facts"
    and live: "raw_unchanged w nas (sa_min_age_seconds (pf_source_age facts))" by blast
  have same: "r' = r" "original = pf_original facts" "upload = pf_upload facts"
    using j r original upload by (auto simp: justified_def chain_stored_def)
  have "m' = put_record a (with_proof (ww_timestamp w) Deleted DELETE_EXECUTION_PROOF
      (ser_delete_execution_proof p) r) m"
    using m' r by (auto simp: change_eq_Ok)
  with r j live p show ?thesis
    unfolding same by (auto simp: execution_proof_Ok intro!: exI)
qed


subsection \<open>Plans\<close>

definition plan_keys :: "conversion_result_proof \<Rightarrow> string list" where
  "plan_keys c =
     (case cp_source_binding c of
        AdjustedSource _ _ _ \<Rightarrow> BASE_DELETE_PLAN_PROOFS @ [ADJUSTED_SOURCE_PROOF]
      | EmbeddedPreview \<Rightarrow> BASE_DELETE_PLAN_PROOFS)"

lemma plan_keys_Ok:
  "delete_plan_proof_keys r = Inr ks \<longleftrightarrow>
     (\<exists>v c. get_proof r CONVERSION_PROOF = Some v \<and> de_conversion_result_proof v = Some c \<and> ks = plan_keys c)"
proof -
  have "delete_plan_proof_keys r = Inr ks \<longleftrightarrow>
      (\<exists>c. optional_workflow_proof de_conversion_result_proof r CONVERSION_PROOF = Inr (Some c) \<and> ks = plan_keys c)"
    by (auto simp: delete_plan_proof_keys_def bind_ok_eq_Ok plan_keys_def)
  then show ?thesis by (auto simp: optional_proof_eq_Ok)
qed

lemma plan_keys_distinct: "distinct (plan_keys c)"
  by (auto simp: plan_keys_def BASE_DELETE_PLAN_PROOFS_def split: conversion_source_binding.splits)

lemma plan_keys_conversion: "CONVERSION_PROOF \<in> set (plan_keys c)"
  by (auto simp: plan_keys_def BASE_DELETE_PLAN_PROOFS_def split: conversion_source_binding.splits)

text \<open>The loop that copies the named proofs.\<close>

lemma snapshot_loop_Ok:
  "try_fold (\<lambda>k ps. bind_ok (ok_or (MissingProof i k) (get_proof r k)) (\<lambda>v. Ok (bt_insert k v ps))) ks ps0 = Inr ps
     \<longleftrightarrow> (\<forall>k\<in>set ks. get_proof r k \<noteq> None) \<and> ps = fold (\<lambda>k. bt_insert k (the (get_proof r k))) ks ps0"
proof (induction ks arbitrary: ps0)
  case (Cons k ks)
  then show ?case by (cases "get_proof r k") (auto simp: try_fold_Cons_eq_Ok)
qed auto

lemma bt_get_snapshot:
  "bt_get (fold (\<lambda>k. bt_insert k (f k)) ks ps0) k = (if k \<in> set ks then Some (f k) else bt_get ps0 k)"
  by (induction ks arbitrary: ps0) auto

lemma bt_valid_snapshot: "bt_valid ps0 \<Longrightarrow> bt_valid (fold (\<lambda>k. bt_insert k (f k)) ks ps0)"
  by (induction ks arbitrary: ps0) auto

lemma bt_length_keys:
  assumes "bt_valid ps" and "distinct ks" and "\<And>k. bt_contains ps k \<longleftrightarrow> k \<in> set ks"
  shows "length ps = length ks"
proof -
  have "set (bt_keys ps) = set ks" using assms(3) by (auto simp: bt_contains_keys)
  moreover have "distinct (bt_keys ps)" using assms(1) by (simp add: bt_keys_def bt_valid_distinct)
  ultimately have "length (bt_keys ps) = length ks" using assms(2) by (metis distinct_card)
  then show ?thesis by (simp add: bt_keys_def)
qed

lemma snapshot_Ok:
  "delete_plan_proof_snapshot r = Inr ps \<longleftrightarrow>
     (\<exists>ks. delete_plan_proof_keys r = Inr ks \<and> bt_valid ps \<and> (\<forall>k\<in>set ks. get_proof r k \<noteq> None)
        \<and> (\<forall>k. bt_get ps k = (if k \<in> set ks then get_proof r k else None)))" (is "?lhs \<longleftrightarrow> ?rhs")
proof
  assume ?lhs
  then show ?rhs
    by (auto simp: delete_plan_proof_snapshot_def bind_ok_eq_Ok snapshot_loop_Ok bt_get_snapshot bt_valid_snapshot)
next
  assume ?rhs
  then obtain ks where ks: "delete_plan_proof_keys r = Inr ks" "bt_valid ps" "\<forall>k\<in>set ks. get_proof r k \<noteq> None"
    "\<forall>k. bt_get ps k = (if k \<in> set ks then get_proof r k else None)" by blast
  have "ps = fold (\<lambda>k. bt_insert k (the (get_proof r k))) ks []"
    using ks(2-4) by (intro bt_canonical) (auto simp: bt_valid_snapshot bt_get_snapshot fun_eq_iff)
  with ks(1,3) show ?lhs by (simp add: delete_plan_proof_snapshot_def snapshot_loop_Ok)
qed

lemma snapshot_length: "delete_plan_proof_snapshot r = Inr ps \<Longrightarrow> delete_plan_proof_keys r = Inr ks \<Longrightarrow>
    length ps = length ks"
  by (rule bt_length_keys) (auto simp: snapshot_Ok plan_keys_Ok plan_keys_distinct bt_contains_def)

text \<open>C14: A plan is built only for an approved asset whose deletion is justified and whose RAW file is
  unchanged; it names the ten proofs of a deletion, and the adjusted source as an eleventh exactly when
  the conversion was bound to one, each once, and holds the stored value of each and nothing else.\<close>

theorem plan_is_complete:
  assumes "build_delete_plan w m a = Ok plan"
  shows "\<exists>r nas conversion performance facts.
      ar_state r = DeleteApproved \<and> justified w m a r nas conversion performance facts
      \<and> raw_unchanged w nas (sa_min_age_seconds (pf_source_age facts))
      \<and> pl_raw_path plan = ar_raw_path r
      \<and> pl_required_proof_keys plan = plan_keys conversion \<and> distinct (pl_required_proof_keys plan)
      \<and> (\<forall>k. bt_get (pl_proofs plan) k
              = (if k \<in> set (pl_required_proof_keys plan) then get_proof r k else None))
      \<and> (\<forall>k\<in>set (pl_required_proof_keys plan). get_proof r k \<noteq> None)"
proof -
  from assms obtain r fp ks ps where
    r: "bt_get (mf_records m) a = Some r" "ar_state r = DeleteApproved"
    and fp: "revalidate_delete_plan_proofs w m a = Inr fp"
    and ks: "delete_plan_proof_keys r = Inr ks" and ps: "delete_plan_proof_snapshot r = Inr ps"
    and plan: "plan = \<lparr>pl_asset_id = ar_asset_id r, pl_raw_path = ar_raw_path r, pl_required_proof_keys = ks,
      pl_proofs = ps\<rparr>"
    by (auto simp: build_delete_plan_def bind_ok_eq_Ok)
  from revalidated_justified [OF fp] obtain r' nas conversion performance facts where
    "justified w m a r' nas conversion performance facts"
    and live: "raw_unchanged w nas (sa_min_age_seconds (pf_source_age facts))" by blast
  with r(1) have j: "justified w m a r nas conversion performance facts" by (metis justified_record)
  have keys: "ks = plan_keys conversion"
    using j ks r(1) by (auto simp: justified_def chain_stored_def stored_proof_eq_Ok plan_keys_Ok)
  have all: "\<forall>k. bt_get ps k = (if k \<in> set ks then get_proof r k else None)" "\<forall>k\<in>set ks. get_proof r k \<noteq> None"
    using ps ks by (auto simp: snapshot_Ok)
  show ?thesis
    using r(2) j live all plan_keys_distinct [of conversion] unfolding plan
    by (intro exI [of _ r] exI [of _ nas] exI [of _ conversion] exI [of _ performance] exI [of _ facts])
      (simp add: keys)
qed

subsection \<open>Tokens\<close>

lemma all_checks: "checks (map (\<lambda>k. if P k then delete_token_stale kind a k else Ok ()) ks) = Inr u
    \<longleftrightarrow> (\<forall>k\<in>set ks. \<not> P k)"
  by (cases kind) (auto simp: checks_eq_Ok_iff delete_token_stale_def split: if_split_asm)

lemma token_snapshot_Ok:
  "validate_delete_token_snapshot r a p ps kind = Inr u \<longleftrightarrow>
     path_eq (ar_raw_path r) p \<and> (\<exists>ks. delete_plan_proof_keys r = Inr ks \<and> length ps = length ks
        \<and> (\<forall>k\<in>set ks. get_proof r k = bt_get ps k))"
  by (auto simp: validate_delete_token_snapshot_def bind_ok_eq_Ok all_checks delete_token_stale_def
      split: delete_token_kind.splits if_split_asm)

lemma token_matches:
  assumes "delete_plan_proof_snapshot r0 = Inr ps"
  shows "validate_delete_token_snapshot r a p ps kind = Inr u \<longleftrightarrow>
     path_eq (ar_raw_path r) p \<and> delete_plan_proof_snapshot r = Inr ps"
proof
  assume "validate_delete_token_snapshot r a p ps kind = Inr u"
  then obtain ks where p: "path_eq (ar_raw_path r) p" and ks: "delete_plan_proof_keys r = Inr ks"
    "length ps = length ks" "\<forall>k\<in>set ks. get_proof r k = bt_get ps k"
    by (auto simp: token_snapshot_Ok)
  from assms obtain ks0 where ks0: "delete_plan_proof_keys r0 = Inr ks0" "bt_valid ps"
    "\<forall>k\<in>set ks0. get_proof r0 k \<noteq> None" "\<forall>k. bt_get ps k = (if k \<in> set ks0 then get_proof r0 k else None)"
    by (auto simp: snapshot_Ok)
  from ks(1) ks0(1) obtain c c0 where c: "ks = plan_keys c" "ks0 = plan_keys c0" by (auto simp: plan_keys_Ok)
  have "length ks = length ks0" using snapshot_length [OF assms ks0(1)] ks(2) by simp
  then have "ks = ks0" unfolding c by (auto simp: plan_keys_def split: conversion_source_binding.splits)
  with p ks ks0 show "path_eq (ar_raw_path r) p \<and> delete_plan_proof_snapshot r = Inr ps"
    by (auto simp: snapshot_Ok)
next
  assume "path_eq (ar_raw_path r) p \<and> delete_plan_proof_snapshot r = Inr ps"
  then show "validate_delete_token_snapshot r a p ps kind = Inr u"
    using snapshot_length [of r ps] by (auto simp: token_snapshot_Ok snapshot_Ok)
qed

lemma same_snapshot:
  assumes "delete_plan_proof_snapshot r0 = Inr ps" and "delete_plan_proof_snapshot r = Inr ps"
    and "delete_plan_proof_keys r0 = Inr (plan_keys c)"
  shows "\<forall>k\<in>set (plan_keys c). get_proof r k = get_proof r0 k"
  using assms plan_keys_conversion [of c] unfolding snapshot_Ok by (metis Inr_inject option.distinct(1))

text \<open>A token made for a justified deletion, still valid for a record.\<close>

lemma token_evidence:
  assumes "justified w m0 a r0 nas conversion performance facts" and "delete_plan_proof_snapshot r0 = Inr ps"
    and "validate_delete_token_snapshot r a' (ar_raw_path r0) ps kind = Inr u"
  shows "path_eq (ar_raw_path r) (ar_raw_path r0) \<and> (\<forall>k\<in>set (plan_keys conversion). get_proof r k = get_proof r0 k)"
proof -
  have keys: "delete_plan_proof_keys r0 = Inr (plan_keys conversion)"
    using assms(1) by (auto simp: justified_def chain_stored_def stored_proof_eq_Ok plan_keys_Ok)
  have "path_eq (ar_raw_path r) (ar_raw_path r0)" "delete_plan_proof_snapshot r = Inr ps"
    using assms(3) token_matches [OF assms(2)] by auto
  moreover from this(2) have "\<forall>k\<in>set (plan_keys conversion). get_proof r k = get_proof r0 k"
    by (rule same_snapshot [OF assms(2) _ keys])
  ultimately show ?thesis by simp
qed

text \<open>C8: A deletion recorded through a prevalidated token was justified, with an unchanged RAW file,
  when the token was made, and none of its evidence has changed since: the record is still approved,
  at the same path, with the same value for every proof of the plan. The outcome names the token's
  original record under a new change tag.\<close>

theorem token_pins_the_evidence:
  assumes "prevalidate_approved_original_delete w m0 a = Ok t"
    and "record_prevalidated_delete_execution w' t outcome m = Ok m'"
  shows "\<exists>r0 nas conversion performance facts r.
      justified w m0 a r0 nas conversion performance facts
      \<and> raw_unchanged w nas (sa_min_age_seconds (pf_source_age facts))
      \<and> bt_get (mf_records m) (ar_asset_id r0) = Some r \<and> ar_state r = DeleteApproved
      \<and> path_eq (ar_raw_path r) (ar_raw_path r0)
      \<and> (\<forall>k\<in>set (plan_keys conversion). get_proof r k = get_proof r0 k)
      \<and> do_record_name outcome = oa_record_name (pf_original facts)
      \<and> do_record_change_tag outcome \<noteq> oa_record_change_tag (pf_original facts)"
proof -
  from assms(1) obtain r0 fp original upload ps where
    r0: "bt_get (mf_records m0) a = Some r0"
    and fp: "revalidate_delete_plan_proofs w m0 a = Inr fp"
    and original: "stored_proof de_original_asset_proof m0 a ORIGINAL_ASSET_PROOF = Inr original"
    and ps: "delete_plan_proof_snapshot r0 = Inr ps"
    and t: "pd_asset_id t = ar_asset_id r0" "pd_raw_path t = ar_raw_path r0" "pd_proofs t = ps"
      "pd_request t = delete_request_of original"
    by (auto simp: prevalidate_approved_original_delete_def bind_ok_eq_Ok)
  from revalidated_justified [OF fp] obtain r' nas conversion performance facts where
    "justified w m0 a r' nas conversion performance facts"
    and live: "raw_unchanged w nas (sa_min_age_seconds (pf_source_age facts))" by blast
  with r0 have j: "justified w m0 a r0 nas conversion performance facts" by (metis justified_record)
  from assms(2) obtain r p where r: "bt_get (mf_records m) (ar_asset_id r0) = Some r" "ar_state r = DeleteApproved"
    and token: "validate_delete_token_snapshot r (ar_asset_id r0) (ar_raw_path r0) ps Prevalidated = Inr ()"
    and p: "execution_proof_of (oa_record_name original) (oa_record_change_tag original)
      (pd_uploaded_heic_asset_id t) outcome = Inr p"
    by (auto simp: record_prevalidated_delete_execution_def validate_prevalidated_delete_def bind_ok_eq_Ok t
        delete_request_of_def)
  have same: "original = pf_original facts"
    using j original by (simp add: justified_def chain_stored_def)
  show ?thesis
    using j live r p token_evidence [OF j ps token] by (auto simp: execution_proof_Ok same intro!: exI)
qed

end
