(* ===== verification/Delete_Progress.thy ===== *)
theory Delete_Progress
  imports Delete_Safety
begin

section \<open>From an uploaded replacement to a recorded deletion\<close>

text \<open>
  The three steps of \<open>src/src/workflow.rs\<close> towards a deletion - eligibility, approval, execution -
  as equivalences: when each succeeds and which manifest it yields. The later steps accept what the
  earlier ones wrote, so that an asset whose chain of proofs is valid goes through to \<open>Deleted\<close>.
\<close>

lemma with_proof_unreserved [simp]:
  "unreserved (with_proof now s k v r) \<longleftrightarrow> unreserved r \<and> k \<noteq> RESERVED_PROOF_NAME"
  by (auto simp: with_proof_def put_proof_def has_proof_def bt_contains_insert)

lemma pre_delete_performance:
  assumes "validate_pre_delete_facts w m a = Inr facts"
  shows "\<exists>nas conversion. require_valid_conversion_performance w m a = Inr (nas, conversion)"
proof -
  from assms obtain r nas conversion performance where
    stored: "chain_stored m a nas conversion performance facts"
    and linked: "chain_linked r nas conversion performance facts"
    and bound: "source_bound w m a conversion (pf_adjusted_source facts)"
    by (auto simp: pre_delete_Ok_iff)
  have "validate_stored_conversion_performance m a nas conversion = Inr ()"
    using stored linked by (auto simp: stored_performance_Ok chain_stored_def chain_linked_def)
  moreover have "load_conversion_context w m a = Inr (nas, conversion)"
    using stored bound by (auto simp: context_Ok chain_stored_def source_bound_def)
  ultimately show ?thesis by (auto simp: valid_performance_Ok)
qed

text \<open>The record after the step to eligibility, and after approval.\<close>

definition eligible_record :: "workflow_world \<Rightarrow> pre_delete_facts \<Rightarrow> asset_record \<Rightarrow> asset_record" where
  "eligible_record w facts r =
     with_proof (ww_timestamp w) DeleteEligible DELETE_ELIGIBILITY_PROOF (delete_eligibility_json w facts) r"

definition approved_record :: "workflow_world \<Rightarrow> string \<Rightarrow> pre_delete_facts \<Rightarrow> asset_record \<Rightarrow> asset_record" where
  "approved_record w operator facts r =
     with_proof (ww_timestamp w) DeleteApproved DELETE_APPROVAL_PROOF
       (ser_delete_approval_proof (approval_proof_of w (trim operator) facts)) r"

lemma mark_delete_eligible_eq_Ok:
  "mark_delete_eligible w m a = Inr m' \<longleftrightarrow>
     (\<exists>r facts. bt_get (mf_records m) a = Some r \<and> ar_state r = UploadVerified \<and> unreserved r
        \<and> validate_pre_delete_facts w m a = Inr facts \<and> m' = put_record a (eligible_record w facts r) m)"
  by (auto simp: mark_delete_eligible_def bind_ok_eq_Ok change_eq_Ok eligible_record_def allows_def
      dest: pre_delete_performance)

lemma approve_delete_eq_Ok:
  "approve_delete w operator m a = Inr m' \<longleftrightarrow>
     (\<exists>r facts. bt_get (mf_records m) a = Some r \<and> ar_state r = DeleteEligible \<and> unreserved r
        \<and> \<not> is_blank operator \<and> validate_pre_delete_facts w m a = Inr facts
        \<and> validate_delete_eligibility_chain w m a facts = Inr ()
        \<and> m' = put_record a (approved_record w operator facts r) m)"
  by (auto simp: approve_delete_def bind_ok_eq_Ok change_eq_Ok approved_record_def Let_def is_blank_def
      allows_def
      dest: pre_delete_performance)

text \<open>What each step stores is valid for the next.\<close>

lemma eligible_agree:
  "bt_get (mf_records m) a = Some r \<Longrightarrow> agree chain_keys a m (put_record a (eligible_record w facts r) m)"
  unfolding eligible_record_def by (rule put_agree) (simp_all add: chain_keys_def)

lemma approved_agree:
  "bt_get (mf_records m) a = Some r \<Longrightarrow>
     agree (insert DELETE_ELIGIBILITY_PROOF chain_keys) a m (put_record a (approved_record w operator facts r) m)"
  unfolding approved_record_def by (rule put_agree) (simp_all add: chain_keys_def)

lemma eligible_chain:
  "validate_delete_eligibility_chain w (put_record a (eligible_record w facts r) m) a facts = Inr ()"
  by (simp add: validate_delete_eligibility_chain_def eligible_record_def de_eligibility eligibility_of_valid)

lemma eligibility_key:
  assumes "validate_delete_eligibility_proof w el facts = Inr ()" and "pf_adjusted_source facts = Some p"
  shows "el_adjusted_source_proof_key el = Some ADJUSTED_SOURCE_PROOF
    \<and> unwrap_missing (el_adjusted_source_proof_digest el) = source_digest w p"
  using assms by (auto simp: validate_delete_eligibility_proof_def validate_eligibility_source_def Let_def
      split: if_split_asm)

lemma approved_plan:
  assumes "bt_get (mf_records m) a = Some r" and facts: "validate_pre_delete_facts w m a = Inr facts"
    and chain: "validate_delete_eligibility_chain w m a facts = Inr ()" and "\<not> is_blank operator"
  shows "validate_stored_delete_plan_proofs w (put_record a (approved_record w operator facts r) m) a = Inr facts"
    (is "validate_stored_delete_plan_proofs w ?m a = _")
proof -
  note agree = approved_agree [OF assms(1), of w operator facts]
  have facts': "validate_pre_delete_facts w ?m a = Inr facts"
    using agree_pre_delete(1) [OF agree_subset [OF agree subset_insertI]] facts by simp
  have el: "stored_proof de ?m a DELETE_ELIGIBILITY_PROOF = stored_proof de m a DELETE_ELIGIBILITY_PROOF"
    for de :: "json \<Rightarrow> delete_eligibility_proof option"
    by (rule agree_stored [OF agree]) simp
  have chain': "validate_delete_eligibility_chain w ?m a facts = Inr ()"
    using chain unfolding validate_delete_eligibility_chain_def el .
  obtain e where e: "stored_proof de_delete_eligibility_proof m a DELETE_ELIGIBILITY_PROOF = Inr e"
    "validate_delete_eligibility_proof w e facts = Inr ()"
    using chain by (auto simp: validate_delete_eligibility_chain_def bind_ok_eq_Ok)
  have approval: "stored_proof de_delete_approval_proof ?m a DELETE_APPROVAL_PROOF
      = Inr (approval_proof_of w (trim operator) facts)"
    by (simp add: approved_record_def approval_codec.de_enc)
  have "validate_delete_approval_proof w ?m a facts = Inr ()"
    using assms(4) eligibility_key [OF e(2)]
    unfolding validate_delete_approval_proof_def approval el e bind_ok_simps
    by (auto simp: approval_proof_of_def unwrap_missing_def split: option.splits)
  with facts' chain' show ?thesis by (simp add: validate_stored_delete_plan_proofs_def)
qed

subsection \<open>Calls at different times\<close>

text \<open>Two calls that find the same adjusted source; the clock, the time stamp and the RAW file may differ.\<close>

definition same_sources :: "workflow_world \<Rightarrow> workflow_world \<Rightarrow> bool" where
  "same_sources w w' \<longleftrightarrow>
     ww_float_text w' = ww_float_text w \<and> ww_sha256_hex w' = ww_sha256_hex w \<and> ww_installed w' = ww_installed w"

lemma same_sources_digest: "same_sources w w' \<Longrightarrow> source_digest w' = source_digest w"
  by (rule ext) (simp add: same_sources_def source_digest_def)

lemma same_sources_validators:
  assumes "same_sources w w'"
  shows "validate_pre_delete_facts w' m a = validate_pre_delete_facts w m a"
    and "validate_delete_eligibility_proof w' el facts = validate_delete_eligibility_proof w el facts"
    and "validate_delete_eligibility_chain w' m a facts = validate_delete_eligibility_chain w m a facts"
    and "validate_delete_approval_proof w' m a facts = validate_delete_approval_proof w m a facts"
    and "validate_stored_delete_plan_proofs w' m a = validate_stored_delete_plan_proofs w m a"
proof -
  have installed: "ww_installed w' = ww_installed w" using assms by (simp add: same_sources_def)
  note digest = same_sources_digest [OF assms]
  have binding: "validate_conversion_source_binding w' m a c = validate_conversion_source_binding w m a c" for c
    unfolding validate_conversion_source_binding_def digest ..
  show facts: "validate_pre_delete_facts w' m a = validate_pre_delete_facts w m a"
    unfolding validate_pre_delete_facts_def load_conversion_context_def binding
      validated_adjusted_source_for_conversion_def installed ..
  show el: "validate_delete_eligibility_proof w' el facts = validate_delete_eligibility_proof w el facts" for el facts
    unfolding validate_delete_eligibility_proof_def validate_eligibility_source_def digest ..
  show chain: "validate_delete_eligibility_chain w' m a facts = validate_delete_eligibility_chain w m a facts" for facts
    unfolding validate_delete_eligibility_chain_def el ..
  show approval: "validate_delete_approval_proof w' m a facts = validate_delete_approval_proof w m a facts" for facts
    unfolding validate_delete_approval_proof_def digest ..
  show "validate_stored_delete_plan_proofs w' m a = validate_stored_delete_plan_proofs w m a"
    unfolding validate_stored_delete_plan_proofs_def facts chain approval ..
qed

subsection \<open>The way to a deletion is open\<close>

lemma plan_keys_of_chain:
  "chain_stored m a nas conversion performance facts \<Longrightarrow> bt_get (mf_records m) a = Some r \<Longrightarrow>
     delete_plan_proof_keys r = Inr (plan_keys conversion)"
  by (auto simp: chain_stored_def stored_proof_eq_Ok plan_keys_Ok)

text \<open>A record with a valid plan holds every proof the plan names.\<close>

lemma binding_adjusted:
  assumes "validate_conversion_source_binding w m a conversion = Inr adjusted"
    and "bt_get (mf_records m) a = Some r"
  shows "(\<exists>d s p. cp_source_binding conversion = AdjustedSource d s p) \<longleftrightarrow> get_proof r ADJUSTED_SOURCE_PROOF \<noteq> None"
  using assms binding_stored [OF assms(1)]
  by (auto simp: validate_conversion_source_binding_def stored_adjusted_source_for_conversion_def
      optional_workflow_proof_def bind_ok_eq_Ok map_ok_eq_Ok
      split: option.splits conversion_source_binding.splits if_split_asm)

lemma snapshot_exists:
  assumes "validate_stored_delete_plan_proofs w m a = Inr facts" and r: "bt_get (mf_records m) a = Some r"
  shows "\<exists>ps. delete_plan_proof_snapshot r = Inr ps"
proof -
  from assms(1) have facts: "validate_pre_delete_facts w m a = Inr facts"
    and "validate_delete_eligibility_chain w m a facts = Inr ()" "validate_delete_approval_proof w m a facts = Inr ()"
    by (auto simp: validate_stored_delete_plan_proofs_def bind_ok_eq_Ok)
  then obtain el ap where el: "stored_proof de_delete_eligibility_proof m a DELETE_ELIGIBILITY_PROOF = Inr el"
    and ap: "stored_proof de_delete_approval_proof m a DELETE_APPROVAL_PROOF = Inr ap"
    unfolding validate_delete_eligibility_chain_def validate_delete_approval_proof_def by (auto simp: bind_ok_eq_Ok)
  from facts obtain nas conversion performance where
    stored: "chain_stored m a nas conversion performance facts"
    and bound: "source_bound w m a conversion (pf_adjusted_source facts)" by (auto simp: pre_delete_Ok_iff)
  have adjusted: "get_proof r ADJUSTED_SOURCE_PROOF \<noteq> None" if "cp_source_binding conversion = AdjustedSource d s p" for d s p
    using bound that binding_adjusted [OF _ r] unfolding source_bound_def by blast
  have all: "\<forall>k\<in>set (plan_keys conversion). get_proof r k \<noteq> None"
    using stored el ap adjusted r
    by (auto simp: chain_stored_def stored_proof_eq_Ok plan_keys_def BASE_DELETE_PLAN_PROOFS_def
        split: conversion_source_binding.splits)
  show ?thesis
    using all unfolding delete_plan_proof_snapshot_def plan_keys_of_chain [OF stored r] bind_ok_simps
    by (auto simp: snapshot_loop_Ok)
qed

text \<open>C11: An asset that was marked eligible can be approved by any operator who is named: approval then
  succeeds, the stored plan is valid for the very facts eligibility was decided on, the approval names
  the trimmed operator, and a reconciliation token for the original record can be prepared. The clock
  and the state of the RAW file may change between the calls.\<close>

theorem eligible_assets_can_be_approved:
  assumes "mark_delete_eligible w m a = Ok m1" and "same_sources w w'" and "\<not> is_blank operator"
  shows "\<exists>m2 facts t. approve_delete w' operator m1 a = Ok m2
      \<and> validate_pre_delete_facts w m a = Ok facts \<and> validate_stored_delete_plan_proofs w' m2 a = Ok facts
      \<and> approved_by m2 a (trim operator)
      \<and> prepare_delete_reconciliation w' m2 a = Ok t \<and> rc_request t = delete_request_of (pf_original facts)"
proof -
  from assms(1) obtain r facts where r: "bt_get (mf_records m) a = Some r" "unreserved r"
    and facts: "validate_pre_delete_facts w m a = Inr facts"
    and m1: "m1 = put_record a (eligible_record w facts r) m"
    by (auto simp: mark_delete_eligible_eq_Ok)
  let ?r1 = "eligible_record w facts r" and ?m2 = "put_record a (approved_record w' operator facts (eligible_record w facts r)) m1"
  have r1: "bt_get (mf_records m1) a = Some ?r1" "ar_state ?r1 = DeleteEligible" "unreserved ?r1"
    using r(2) by (simp_all add: m1 eligible_record_def)
  have facts1: "validate_pre_delete_facts w' m1 a = Inr facts"
    using facts agree_pre_delete(1) [OF eligible_agree [OF r(1)]] unfolding m1 same_sources_validators(1) [OF assms(2)]
    by simp
  have chain1: "validate_delete_eligibility_chain w' m1 a facts = Inr ()"
    unfolding same_sources_validators(3) [OF assms(2)] m1 by (rule eligible_chain)
  have approved: "approve_delete w' operator m1 a = Inr ?m2"
    using r1 facts1 chain1 assms(3) by (auto simp: approve_delete_eq_Ok)
  have plan: "validate_stored_delete_plan_proofs w' ?m2 a = Inr facts"
    by (rule approved_plan [OF r1(1) facts1 chain1 assms(3)])
  obtain ps where ps: "delete_plan_proof_snapshot (approved_record w' operator facts ?r1) = Inr ps"
    using snapshot_exists [OF plan] by auto
  have state: "ar_state (approved_record w' operator facts ?r1) = DeleteApproved"
    by (simp add: approved_record_def)
  have name: "approved_by ?m2 a (trim operator)"
    using assms(3) by (simp add: approved_by_def approved_record_def approval_codec.de_enc approval_proof_of_def)
  have get: "wf_get ?m2 a = Inr (approved_record w' operator facts ?r1)" by simp
  have "\<exists>t. prepare_delete_reconciliation w' ?m2 a = Inr t \<and> rc_request t = delete_request_of (pf_original facts)"
    unfolding prepare_delete_reconciliation_def get plan bind_ok_simps ps state by simp
  with facts approved plan name show ?thesis by blast
qed

lemma execution_recorded:
  assumes "bt_get (mf_records m) a = Some r" and "ar_state r = DeleteApproved" and "unreserved r"
    and "revalidate_delete_plan_proofs w m a = Inr fp"
    and "stored_proof de_original_asset_proof m a ORIGINAL_ASSET_PROOF = Inr original"
    and "stored_proof de_upload_proof m a UPLOAD_PROOF = Inr upload"
    and "execution_proof_of (oa_record_name original) (oa_record_change_tag original)
      (up_uploaded_heic_asset_id upload) outcome = Inr p"
  shows "record_delete_execution w outcome m a
    = Inr (put_record a (with_proof (ww_timestamp w) Deleted DELETE_EXECUTION_PROOF (ser_delete_execution_proof p) r) m)"
  unfolding record_delete_execution_def using assms
  by (auto simp: bind_ok_eq_Ok change_eq_Ok allows_def)

lemma execution_stored:
  assumes "bt_get (mf_records m) a = Some r"
    and "stored_proof de_original_asset_proof m a ORIGINAL_ASSET_PROOF = Inr original"
    and "stored_proof de_upload_proof m a UPLOAD_PROOF = Inr upload"
    and "execution_proof_of (oa_record_name original) (oa_record_change_tag original)
      (up_uploaded_heic_asset_id upload) outcome = Inr p"
  shows "validate_stored_delete_execution_proof w
    (put_record a (with_proof now Deleted DELETE_EXECUTION_PROOF (ser_delete_execution_proof p) r) m) a = Inr ()"
proof -
  have "execution_proof_of (oa_record_name original) (oa_record_change_tag original)
      (up_uploaded_heic_asset_id upload)
      \<lparr>do_record_name = ex_deleted_record_name p, do_record_change_tag = ex_confirmed_deleted_change_tag p\<rparr> = Inr p"
    using assms(4) by (auto simp: execution_proof_Ok)
  with assms(2,3) show ?thesis
    by (simp add: validate_stored_delete_execution_proof_def put_stored_other [OF assms(1)] execution_codec.de_enc)
qed

text \<open>C12: An approved asset whose stored plan is valid and whose RAW file proves again goes through to the end:
  the outcome of the deletion that names the original record under a new change tag is recorded, the
  record is then in the state \<open>Deleted\<close> with an execution proof that its own validator accepts, and no
  second deletion can be recorded for it.\<close>

theorem approved_deletion_completes:
  assumes "bt_get (mf_records m) a = Some r" and "ar_state r = DeleteApproved" and "unreserved r"
    and "validate_stored_delete_plan_proofs w m a = Ok facts"
    and "stored_proof de_nas_raw_proof m a NAS_PROOF = Ok nas"
    and "reprove_nas_proof w r nas (sa_min_age_seconds (pf_source_age facts)) = Ok fp"
    and "do_record_name outcome = oa_record_name (pf_original facts)"
    and "\<not> is_blank (do_record_change_tag outcome)"
    and "do_record_change_tag outcome \<noteq> oa_record_change_tag (pf_original facts)"
  shows "\<exists>m'. record_delete_execution w outcome m a = Ok m'
      \<and> map_option ar_state (bt_get (mf_records m') a) = Some Deleted
      \<and> validate_stored_delete_execution_proof w' m' a = Ok ()
      \<and> (\<forall>w'' outcome'. record_delete_execution w'' outcome' m' a
           = Err (WfManifest (InvalidTransition a Deleted Deleted)))"
proof -
  from stored_plan_justified [OF assms(4)] have
    original: "stored_proof de_original_asset_proof m a ORIGINAL_ASSET_PROOF = Inr (pf_original facts)"
    and upload: "stored_proof de_upload_proof m a UPLOAD_PROOF = Inr (pf_upload facts)"
    by (auto simp: justified_def chain_stored_def)
  have get: "wf_get m a = Inr r" using assms(1) by simp
  have fp: "revalidate_delete_plan_proofs w m a = Inr fp"
    unfolding revalidate_delete_plan_proofs_def assms(4,5) get bind_ok_simps by (rule assms(6))
  obtain p where p: "execution_proof_of (oa_record_name (pf_original facts))
      (oa_record_change_tag (pf_original facts)) (up_uploaded_heic_asset_id (pf_upload facts)) outcome = Inr p"
    using assms(7-9) by (auto simp: execution_proof_Ok)
  let ?m = "put_record a (with_proof (ww_timestamp w) Deleted DELETE_EXECUTION_PROOF (ser_delete_execution_proof p) r) m"
  have "wf_get ?m a = Inr (with_proof (ww_timestamp w) Deleted DELETE_EXECUTION_PROOF (ser_delete_execution_proof p) r)"
    by simp
  note get' = this
  have "record_delete_execution w'' outcome' ?m a = Inl (WfManifest (InvalidTransition a Deleted Deleted))"
    for w'' outcome'
    unfolding record_delete_execution_def get' bind_ok_simps by simp
  with execution_recorded [OF assms(1-3) fp original upload p] execution_stored [OF assms(1) original upload p]
  show ?thesis by auto
qed

end
