(* ===== verification/Delete_Sample.thy ===== *)
theory Delete_Sample
  imports Delete_Progress Adjusted_Resolve
begin

section \<open>A deletion, step by step\<close>

text \<open>
  One asset with a valid chain of proofs, taken from the uploaded replacement to the recorded deletion
  through the operations of \<open>src/src/workflow.rs\<close>. The theorems on deletions are applied to it.
\<close>

subsection \<open>The proofs and the record\<close>

definition sample_original_proof :: original_asset_proof where
  "sample_original_proof = sample_original\<lparr>oa_matched_raw_sha256 := ''bytes''\<rparr>"

definition sample_conversion :: conversion_result_proof where
  "sample_conversion =
     \<lparr>cp_heic_path = ''/h/a.heic'', cp_heic_sha256 = ''heic'', cp_size_bytes = 5,
      cp_conversion_recipe_id = EMBEDDED_PREVIEW_CONVERSION_RECIPE, cp_source_binding = EmbeddedPreview\<rparr>"

definition sample_performance :: conversion_performance_proof where
  "sample_performance =
     \<lparr>pp_schema_version = CONVERSION_PERFORMANCE_SCHEMA_VERSION, pp_measured_at_unix_seconds = 1,
      pp_measurement_method = CONVERSION_PERFORMANCE_MEASUREMENT_METHOD, pp_conversion_tool = ''magick'',
      pp_conversion_recipe_id = EMBEDDED_PREVIEW_CONVERSION_RECIPE, pp_conversion_tool_version = None,
      pp_heic_quality = 60, pp_raw_size_bytes = 9, pp_heic_size_bytes = 5, pp_convert_wall_time_millis = 1,
      pp_total_wall_time_millis = 2, pp_user_cpu_time_millis = None, pp_system_cpu_time_millis = None,
      pp_peak_rss_kib = None, pp_conversion_command_timings = []\<rparr>"

definition sample_heic_input :: heic_verification_input where
  "sample_heic_input =
     \<lparr>hi_heic_path = ''/h/a.heic'', hi_heic_sha256 = ''heic'', hi_size_bytes = 5, hi_heif_info_ok = True,
      hi_metadata_copied = True, hi_visual_content_ok = True, hi_visual_match_ok = True,
      hi_visual_rmse_ppm = None, hi_visual_mae_ppm = None\<rparr>"

definition sample_heic :: heic_verification_proof where
  "sample_heic = heic_proof_of EMBEDDED_PREVIEW_CONVERSION_RECIPE sample_heic_input"

definition sample_upload :: upload_proof where
  "sample_upload =
     \<lparr>up_uploaded_heic_asset_id = ''H'', up_uploaded_heic_sha256 = ''heic'', up_database_scope = Private,
      up_zone_name = PRIMARY_SYNC_ZONE, up_owner_record_name = None, up_uploaded_heic_path = Some ''/h/a.heic''\<rparr>"

definition sample_mirror :: icloudpd_local_mirror_proof where
  "sample_mirror =
     \<lparr>lm_uploaded_heic_asset_id = ''H'', lm_uploaded_heic_sha256 = ''heic'',
      lm_uploaded_heic_path = ''/h/a.heic'', lm_icloudpd_download_path = ''/m/a.heic'', lm_size_bytes = 5\<rparr>"

definition sample_age :: source_age_proof where
  "sample_age =
     \<lparr>sa_source_captured_unix_seconds = 0, sa_verified_at_unix_seconds = MIN_RAW_AGE_SECONDS,
      sa_min_age_seconds = MIN_RAW_AGE_SECONDS\<rparr>"

definition sample_facts :: pre_delete_facts where
  "sample_facts =
     \<lparr>pf_original = sample_original_proof, pf_upload = sample_upload, pf_uploaded_heic_path = ''/h/a.heic'',
      pf_heic = sample_heic, pf_mirror = sample_mirror, pf_source_age = sample_age,
      pf_source_age_seconds = MIN_RAW_AGE_SECONDS, pf_adjusted_source = None\<rparr>"

definition sample_proofs :: "(string \<times> json) list" where
  "sample_proofs =
     [(NAS_PROOF, ser_nas_raw_proof sample_nas_proof),
      (ORIGINAL_ASSET_PROOF, ser_original_asset_proof sample_original_proof),
      (CONVERSION_PROOF, ser_conversion_result_proof sample_conversion),
      (CONVERSION_PERFORMANCE_PROOF, ser_conversion_performance_proof sample_performance),
      (HEIC_PROOF, ser_heic_verification_proof sample_heic),
      (SOURCE_AGE_PROOF, ser_source_age_proof sample_age),
      (UPLOAD_PROOF, ser_upload_proof sample_upload),
      (ICLOUDPD_LOCAL_MIRROR_PROOF, ser_icloudpd_local_mirror_proof sample_mirror)]"

definition sample_uploaded_record :: asset_record where
  "sample_uploaded_record =
     (new_asset_record ''a'' ''/nas/c/a.DNG'' ''0'')
       \<lparr>ar_state := UploadVerified, ar_proofs := bt_from sample_proofs\<rparr>"

definition sample_uploaded :: "unit manifest" where
  "sample_uploaded = put_record ''a'' sample_uploaded_record new_manifest"

definition sample_workflow_world :: workflow_world where
  "sample_workflow_world =
     \<lparr>ww_timestamp = ''1'', ww_float_text = (\<lambda>_. ''0''), ww_sha256_hex = (\<lambda>content. content),
      ww_installed = (\<lambda>_. \<lparr>is_anchor = Ok (), is_final = Ok None, is_single_link = Ok True,
                            is_jpeg = (\<lambda>_ _. True), is_final_again = Ok None\<rparr>),
      ww_raw = (\<lambda>_ _. sample_observations), ww_clock = 2592000000000000, ww_clock_after = 2592000000000001,
      ww_debug_execution = (\<lambda>_. ''proof'')\<rparr>"

lemma sample_get_proof:
  "get_proof sample_uploaded_record k = map_of sample_proofs k"
  by (simp add: get_proof_def sample_uploaded_record_def bt_get_from sample_proofs_def map_of_rev_distinct)

lemma sample_record_simps [simp]:
  "ar_state sample_uploaded_record = UploadVerified" "ar_raw_path sample_uploaded_record = ''/nas/c/a.DNG''"
  "unreserved sample_uploaded_record"
  "bt_get (mf_records sample_uploaded) ''a'' = Some sample_uploaded_record"
proof -
  have "get_proof sample_uploaded_record RESERVED_PROOF_NAME = None"
    by (simp add: sample_get_proof sample_proofs_def)
  then show "unreserved sample_uploaded_record" by (simp add: get_proof_def bt_contains_def has_proof_def)
qed (simp_all add: sample_uploaded_record_def sample_uploaded_def new_asset_record_def)

lemmas sample_defs = sample_original_proof_def sample_original_def sample_conversion_def sample_performance_def
  sample_heic_def sample_heic_input_def sample_upload_def sample_mirror_def sample_age_def sample_facts_def
  heic_proof_of_def sample_nas_proof_def

lemma sample_chain_stored:
  "chain_stored sample_uploaded ''a'' sample_nas_proof sample_conversion sample_performance sample_facts"
  by (simp add: chain_stored_def stored_proof_eq_Ok sample_get_proof sample_proofs_def sample_facts_def
      nas_codec.de_enc original_asset_codec.de_enc conversion_codec.de_enc performance_codec.de_enc
      heic_codec.de_enc source_age_codec.de_enc upload_codec.de_enc mirror_codec.de_enc)

lemma sample_chain_linked:
  "chain_linked sample_uploaded_record sample_nas_proof sample_conversion sample_performance sample_facts"
  by (simp add: chain_linked_def raw_linked_def aged_def heic_linked_def performance_ok_def same_library_def
      heic_flags_ok_def sample_defs original_destination_def destination_eq_Ok saturating_sub_def byte_def
      model_defs)

lemma embedded_binding:
  assumes r: "bt_get (mf_records m) a = Some r" and "get_proof r ADJUSTED_SOURCE_PROOF = None"
    and "cp_source_binding c = EmbeddedPreview"
  shows "validate_conversion_source_binding w m a c = Inr None"
    and "validated_adjusted_source_for_conversion w m a p = Inr None"
proof -
  have none: "optional_workflow_proof de_adjusted_source_proof r ADJUSTED_SOURCE_PROOF = Inr None"
    using assms(2) by (simp add: optional_proof_eq_Ok)
  have get: "wf_get m a = Inr r" using r by simp
  have "stored_adjusted_source_for_conversion m a p = Inr None" for p
    unfolding stored_adjusted_source_for_conversion_def get bind_ok_simps none by simp
  then show "validate_conversion_source_binding w m a c = Inr None"
    "validated_adjusted_source_for_conversion w m a p = Inr None"
    using assms(3) by (simp_all add: validate_conversion_source_binding_def
        validated_adjusted_source_for_conversion_def)
qed

lemma sample_source_bound: "source_bound sample_workflow_world sample_uploaded ''a'' sample_conversion None"
proof -
  have "get_proof sample_uploaded_record ADJUSTED_SOURCE_PROOF = None"
    by (simp add: sample_get_proof sample_proofs_def)
  moreover have "cp_source_binding sample_conversion = EmbeddedPreview" by (simp add: sample_conversion_def)
  ultimately show ?thesis
    unfolding source_bound_def using embedded_binding [of sample_uploaded "''a''" sample_uploaded_record] by simp
qed

lemma sample_facts_Ok: "validate_pre_delete_facts sample_workflow_world sample_uploaded ''a'' = Inr sample_facts"
proof -
  have "source_bound sample_workflow_world sample_uploaded ''a'' sample_conversion (pf_adjusted_source sample_facts)"
    using sample_source_bound by (simp add: sample_facts_def)
  with sample_chain_stored sample_chain_linked show ?thesis
    unfolding pre_delete_Ok_iff by (intro exI [of _ sample_uploaded_record]) auto
qed

subsection \<open>The steps\<close>

definition sample_eligible_record :: asset_record where
  "sample_eligible_record = eligible_record sample_workflow_world sample_facts sample_uploaded_record"

definition sample_eligible :: "unit manifest" where
  "sample_eligible = put_record ''a'' sample_eligible_record sample_uploaded"

definition sample_approved_record :: asset_record where
  "sample_approved_record = approved_record sample_workflow_world ''op'' sample_facts sample_eligible_record"

definition sample_approved :: "unit manifest" where
  "sample_approved = put_record ''a'' sample_approved_record sample_eligible"

lemma sample_step_simps [simp]:
  "bt_get (mf_records sample_eligible) ''a'' = Some sample_eligible_record"
  "bt_get (mf_records sample_approved) ''a'' = Some sample_approved_record"
  "ar_state sample_eligible_record = DeleteEligible" "ar_state sample_approved_record = DeleteApproved"
  "unreserved sample_eligible_record" "unreserved sample_approved_record"
  by (simp_all add: sample_eligible_def sample_approved_def sample_eligible_record_def
      sample_approved_record_def eligible_record_def approved_record_def)

lemma sample_operator: "\<not> is_blank ''op''"
  by (simp add: byte_def)

lemma sample_eligible_Ok: "mark_delete_eligible sample_workflow_world sample_uploaded ''a'' = Ok sample_eligible"
  unfolding mark_delete_eligible_eq_Ok using sample_facts_Ok
  by (auto simp: sample_eligible_def sample_eligible_record_def)

lemma sample_eligible_facts:
  "validate_pre_delete_facts sample_workflow_world sample_eligible ''a'' = Inr sample_facts"
  using agree_pre_delete(1) [OF eligible_agree, of sample_uploaded "''a''" sample_uploaded_record] sample_facts_Ok
  by (simp add: sample_eligible_def sample_eligible_record_def)

lemma sample_eligible_chain:
  "validate_delete_eligibility_chain sample_workflow_world sample_eligible ''a'' sample_facts = Inr ()"
  by (simp add: sample_eligible_def sample_eligible_record_def eligible_chain)

lemma sample_approved_Ok:
  "approve_delete sample_workflow_world ''op'' sample_eligible ''a'' = Ok sample_approved"
  unfolding approve_delete_eq_Ok using sample_eligible_facts sample_eligible_chain sample_operator
  by (auto simp: sample_approved_def sample_approved_record_def)

lemma sample_plan_Ok:
  "validate_stored_delete_plan_proofs sample_workflow_world sample_approved ''a'' = Inr sample_facts"
  unfolding sample_approved_def sample_approved_record_def
  by (rule approved_plan) (simp_all add: sample_eligible_facts sample_eligible_chain sample_operator)

definition sample_fingerprint :: raw_file_fingerprint where
  "sample_fingerprint = from_metadata ''/nas/c/a.DNG'' sample_metadata"

lemma sample_root: "derive_nas_root_from_proof sample_nas_proof = Inr ''/nas''"
  by code_simp

lemma sample_reprove:
  "reprove_nas_proof sample_workflow_world r sample_nas_proof MIN_RAW_AGE_SECONDS = Inr sample_fingerprint"
proof -
  have "prove_nas_raw_with_min_age_seconds (\<lambda>content. content) sample_observations ''/nas'' ''/nas/c/a.DNG''
      MIN_RAW_AGE_SECONDS 2592000000000000 = Inr (sample_nas_proof, sample_fingerprint)"
    by (simp add: prove_nas_raw_with_min_age_seconds_def sample_observations_def sample_fingerprint_def
        sample_metadata_def sample_paths raw_extension_def duration_since_def from_secs_def as_secs_def
        nanos_per_second_def sample_nas_proof_def from_metadata_def model_defs)
  note live = this
  have world: "ww_sha256_hex sample_workflow_world = (\<lambda>content. content)"
    "ww_raw sample_workflow_world root p = sample_observations" "ww_clock sample_workflow_world = 2592000000000000"
    for root p
    by (simp_all add: sample_workflow_world_def)
  have path: "nr_canonical_path sample_nas_proof = ''/nas/c/a.DNG''" by (simp add: sample_nas_proof_def)
  have age: "\<not> nr_age_seconds sample_nas_proof < MIN_RAW_AGE_SECONDS"
    by (simp add: sample_nas_proof_def model_defs)
  show ?thesis
    unfolding reprove_nas_proof_def sample_root bind_ok_simps world path live by (simp add: path age bind_ok_eq_Ok)
qed

definition sample_delete_outcome :: cloudkit_delete_outcome where
  "sample_delete_outcome = \<lparr>do_record_name = ''A'', do_record_change_tag = ''t2''\<rparr>"

lemma sample_stored_approved:
  "stored_proof de_nas_raw_proof sample_approved ''a'' NAS_PROOF = Inr sample_nas_proof"
  "stored_proof de_original_asset_proof sample_approved ''a'' ORIGINAL_ASSET_PROOF = Inr sample_original_proof"
  "stored_proof de_upload_proof sample_approved ''a'' UPLOAD_PROOF = Inr sample_upload"
  by (simp_all add: stored_proof_eq_Ok sample_approved_record_def approved_record_def sample_eligible_record_def
      eligible_record_def sample_get_proof sample_proofs_def nas_codec.de_enc original_asset_codec.de_enc
      upload_codec.de_enc)

lemma sample_revalidated:
  "revalidate_delete_plan_proofs sample_workflow_world sample_approved ''a'' = Inr sample_fingerprint"
proof -
  have get: "wf_get sample_approved ''a'' = Inr sample_approved_record" by simp
  have age: "sa_min_age_seconds (pf_source_age sample_facts) = MIN_RAW_AGE_SECONDS"
    by (simp add: sample_facts_def sample_age_def)
  show ?thesis
    unfolding revalidate_delete_plan_proofs_def sample_plan_Ok get sample_stored_approved bind_ok_simps age
    by (rule sample_reprove)
qed

definition sample_execution :: delete_execution_proof where
  "sample_execution =
     \<lparr>ex_old_record_change_tag = ''t1'', ex_deleted_record_name = ''A'',
      ex_confirmed_deleted_change_tag = ''t2'', ex_uploaded_heic_asset_id = ''H''\<rparr>"

lemma sample_execution_Ok:
  "execution_proof_of (oa_record_name sample_original_proof) (oa_record_change_tag sample_original_proof)
     (up_uploaded_heic_asset_id sample_upload) sample_delete_outcome = Inr sample_execution"
  by (simp add: execution_proof_Ok sample_defs sample_delete_outcome_def sample_execution_def byte_def)

definition sample_deleted :: "unit manifest" where
  "sample_deleted = put_record ''a'' (with_proof ''1'' Deleted DELETE_EXECUTION_PROOF
     (ser_delete_execution_proof sample_execution) sample_approved_record) sample_approved"

lemma sample_deleted_Ok:
  "record_delete_execution sample_workflow_world sample_delete_outcome sample_approved ''a'' = Ok sample_deleted"
proof -
  have "ww_timestamp sample_workflow_world = ''1''" by (simp add: sample_workflow_world_def)
  then show ?thesis
    using execution_recorded [OF _ _ _ sample_revalidated sample_stored_approved(2,3) sample_execution_Ok]
    by (simp add: sample_deleted_def)
qed

subsection \<open>The theorems at this deletion\<close>

theorem deletion_is_justified_witness:
  "\<exists>r nas conversion performance facts.
     ar_state r = DeleteApproved
     \<and> justified sample_workflow_world sample_approved ''a'' r nas conversion performance facts
     \<and> do_record_name sample_delete_outcome = oa_record_name (pf_original facts)"
  using deletion_is_justified [OF sample_deleted_Ok] by blast

lemma sample_snapshot: "\<exists>ps. delete_plan_proof_snapshot sample_approved_record = Inr ps"
  using snapshot_exists [OF sample_plan_Ok] by simp

lemma sample_get_approved: "wf_get sample_approved ''a'' = Inr sample_approved_record"
  by simp

lemma sample_build_plan: "\<exists>plan. build_delete_plan sample_workflow_world sample_approved ''a'' = Ok plan"
proof -
  from sample_snapshot obtain ps where ps: "delete_plan_proof_snapshot sample_approved_record = Inr ps" ..
  then obtain ks where ks: "delete_plan_proof_keys sample_approved_record = Inr ks" by (auto simp: snapshot_Ok)
  show ?thesis
    unfolding build_delete_plan_def sample_get_approved sample_revalidated bind_ok_simps ps ks by simp
qed

theorem plan_is_complete_witness:
  "\<exists>plan. build_delete_plan sample_workflow_world sample_approved ''a'' = Ok plan
     \<and> distinct (pl_required_proof_keys plan)"
  using sample_build_plan plan_is_complete [of sample_workflow_world sample_approved "''a''"] by blast

lemma sample_token:
  "\<exists>t m'. prevalidate_approved_original_delete sample_workflow_world sample_approved ''a'' = Ok t
     \<and> record_prevalidated_delete_execution sample_workflow_world t sample_delete_outcome sample_approved = Ok m'"
proof -
  from sample_snapshot obtain ps where ps: "delete_plan_proof_snapshot sample_approved_record = Inr ps" ..
  have id: "ar_asset_id sample_approved_record = ''a''"
    by (simp add: sample_approved_record_def approved_record_def sample_eligible_record_def eligible_record_def
        sample_uploaded_record_def new_asset_record_def)
  let ?t = "\<lparr>pd_asset_id = ''a'', pd_raw_path = ar_raw_path sample_approved_record,
    pd_request = delete_request_of sample_original_proof,
    pd_uploaded_heic_asset_id = up_uploaded_heic_asset_id sample_upload, pd_proofs = ps,
    pd_raw_fingerprint = sample_fingerprint, pd_validated_at = ww_clock_after sample_workflow_world\<rparr>"
  have t: "prevalidate_approved_original_delete sample_workflow_world sample_approved ''a'' = Inr ?t"
    unfolding prevalidate_approved_original_delete_def sample_get_approved sample_revalidated bind_ok_simps
      sample_stored_approved ps by (simp add: id)
  have valid: "validate_prevalidated_delete sample_approved_record ?t = Inr ()"
    using ps token_matches [OF ps, of sample_approved_record] by (simp add: validate_prevalidated_delete_def)
  have "\<exists>m'. record_prevalidated_delete_execution sample_workflow_world ?t sample_delete_outcome sample_approved
      = Inr m'"
    unfolding record_prevalidated_delete_execution_def using valid sample_execution_Ok
    by (auto simp: bind_ok_eq_Ok change_eq_Ok allows_def delete_request_of_def)
  with t show ?thesis by blast
qed

theorem token_pins_the_evidence_witness:
  "\<exists>t m' (facts :: pre_delete_facts). prevalidate_approved_original_delete sample_workflow_world sample_approved ''a'' = Ok t
     \<and> record_prevalidated_delete_execution sample_workflow_world t sample_delete_outcome sample_approved = Ok m'
     \<and> do_record_name sample_delete_outcome = oa_record_name (pf_original facts)"
proof -
  from sample_token obtain t and m' :: "unit manifest" where
    t: "prevalidate_approved_original_delete sample_workflow_world sample_approved ''a'' = Ok t"
    "record_prevalidated_delete_execution sample_workflow_world t sample_delete_outcome sample_approved = Ok m'"
    by blast
  with token_pins_the_evidence [OF t] show ?thesis by blast
qed

theorem eligible_assets_can_be_approved_witness:
  "\<exists>m2. approve_delete sample_workflow_world ''op'' sample_eligible ''a'' = Ok m2
     \<and> approved_by m2 ''a'' (trim ''op'')"
proof -
  have "same_sources sample_workflow_world sample_workflow_world" by (simp add: same_sources_def)
  from eligible_assets_can_be_approved [OF sample_eligible_Ok this sample_operator] show ?thesis by blast
qed

theorem approved_deletion_completes_witness:
  "\<exists>m'. record_delete_execution sample_workflow_world sample_delete_outcome sample_approved ''a'' = Ok m'
     \<and> map_option ar_state (bt_get (mf_records m') ''a'') = Some Deleted"
proof -
  have age: "sa_min_age_seconds (pf_source_age sample_facts) = MIN_RAW_AGE_SECONDS"
    by (simp add: sample_facts_def sample_age_def)
  have outcome: "do_record_name sample_delete_outcome = oa_record_name (pf_original sample_facts)"
    "\<not> is_blank (do_record_change_tag sample_delete_outcome)"
    "do_record_change_tag sample_delete_outcome \<noteq> oa_record_change_tag (pf_original sample_facts)"
    by (simp_all add: sample_defs sample_delete_outcome_def byte_def)
  show ?thesis
    using approved_deletion_completes [where a = "''a''", OF _ _ _ sample_plan_Ok sample_stored_approved(1)
        sample_reprove [folded age] outcome] by simp blast
qed

end
