(* ===== verification/Workflow_Steps.thy ===== *)
theory Workflow_Steps
  imports Delete_Sample
begin

section \<open>Runs of the workflow\<close>

text \<open>
  The operations of \<open>src/src/workflow.rs\<close> that change a manifest as events, and their runs in any
  order, each with its own world. Every operation refines a few abstract steps on a record
  (\<open>record_step\<close>), which cannot touch the evidence of an upload while the state is late; so whatever
  the order of calls, an asset on its way to deletion has a complete, verified replacement.
\<close>

subsection \<open>The operations as events\<close>

datatype workflow_op =
    Discover string path
  | Record_Nas string nas_raw_proof
  | Prove_Nas string path path u64 system_time
  | Record_Adjusted string path adjusted_source_proof
  | Record_Conversion bool string conversion_result_input
  | Record_Performance bool string conversion_performance_input
  | Record_Heic bool string heic_verification_input
  | Record_Upload string upload_proof
  | Record_Heic_Delete string uploaded_heic_asset cloudkit_delete_outcome
  | Record_Mirror string icloudpd_local_mirror_proof
  | Record_Original string original_asset_proof
  | Record_Originals "string list" "(string, original_asset_proof) btree"
  | Record_Source_Age string source_age_proof
  | Mark_Eligible string
  | Approve string string
  | Execute string cloudkit_delete_outcome
  | Execute_Token prevalidated_delete cloudkit_delete_outcome
  | Execute_Reconciled delete_reconciliation cloudkit_delete_outcome
  | Stage_Failure string string string "failure_kind option"
  | Recover string state

text \<open>The flag tells the recorders of the current recipe from the untrusted ones.\<close>

fun apply_op :: "workflow_world \<Rightarrow> workflow_op \<Rightarrow> 'r manifest \<Rightarrow> workflow_error + 'r manifest" where
  "apply_op w (Discover a p) m = discover_raw_asset w p m a"
| "apply_op w (Record_Nas a p) m = record_nas_proof w p m a"
| "apply_op w (Prove_Nas a p root days now) m = prove_and_record_nas w p root days now m a"
| "apply_op w (Record_Adjusted a output p) m = record_adjusted_source_proof w output p m a"
| "apply_op w (Record_Conversion current a i) m =
     (if current then record_current_conversion_result w i m a else record_conversion_result w i m a)"
| "apply_op w (Record_Performance current a i) m =
     (if current then record_current_conversion_performance w i m a else record_conversion_performance w i m a)"
| "apply_op w (Record_Heic current a i) m =
     (if current then record_current_heic_verification w i m a else record_heic_verification w i m a)"
| "apply_op w (Record_Upload a p) m = record_upload_proof w p m a"
| "apply_op w (Record_Heic_Delete a resolved outcome) m = record_uploaded_heic_delete w resolved outcome m a"
| "apply_op w (Record_Mirror a p) m = record_icloudpd_local_mirror_proof w p m a"
| "apply_op w (Record_Original a p) m = record_original_asset_proof w p m a"
| "apply_op w (Record_Originals as ps) m = record_original_asset_batch_proofs w as ps m"
| "apply_op w (Record_Source_Age a p) m = record_source_age_proof w p m a"
| "apply_op w (Mark_Eligible a) m = mark_delete_eligible w m a"
| "apply_op w (Approve a operator) m = approve_delete w operator m a"
| "apply_op w (Execute a outcome) m = record_delete_execution w outcome m a"
| "apply_op w (Execute_Token t outcome) m = record_prevalidated_delete_execution w t outcome m"
| "apply_op w (Execute_Reconciled t outcome) m = record_reconciled_delete_execution w t outcome m"
| "apply_op w (Stage_Failure a stage message kind) m =
     (case kind of
        None \<Rightarrow> record_stage_failure w stage message m a
      | Some k \<Rightarrow> record_stage_failure_with_kind w stage message k m a)"
| "apply_op w (Recover a s) m = map_err WfManifest (recover_failed_for_retry (ww_timestamp w) s m a)"

type_synonym workflow_run = "(workflow_world \<times> workflow_op) list"

definition run_ops :: "workflow_run \<Rightarrow> 'r manifest \<Rightarrow> workflow_error + 'r manifest" where
  "run_ops = try_fold (\<lambda>(w, op) m. apply_op w op m)"

subsection \<open>What a record must hold\<close>

text \<open>States from the uploaded replacement on, and the proofs that make it up.\<close>

definition late :: "state \<Rightarrow> bool" where
  "late s \<longleftrightarrow> s \<in> {UploadVerified, DeleteEligible, DeleteApproved, Deleted}"

definition replacement_keys :: "string set" where
  "replacement_keys = {NAS_PROOF, CONVERSION_PROOF, CONVERSION_PERFORMANCE_PROOF, HEIC_PROOF, UPLOAD_PROOF}"

definition decodes :: "string \<Rightarrow> json \<Rightarrow> bool" where
  "decodes k v \<longleftrightarrow>
     (if k = ORIGINAL_ASSET_PROOF then de_original_asset_proof v \<noteq> None
      else if k = SOURCE_AGE_PROOF then de_source_age_proof v \<noteq> None
      else if k = ICLOUDPD_LOCAL_MIRROR_PROOF then de_icloudpd_local_mirror_proof v \<noteq> None
      else if k = DELETE_ELIGIBILITY_PROOF then de_delete_eligibility_proof v \<noteq> None
      else if k = DELETE_APPROVAL_PROOF then de_delete_approval_proof v \<noteq> None
      else if k = DELETE_EXECUTION_PROOF then de_delete_execution_proof v \<noteq> None
      else True)"

definition holds :: "asset_record \<Rightarrow> string \<Rightarrow> bool" where
  "holds r k \<longleftrightarrow> (\<exists>v. get_proof r k = Some v \<and> decodes k v)"

definition eligible_keys :: "string list" where
  "eligible_keys =
     [ORIGINAL_ASSET_PROOF, SOURCE_AGE_PROOF, ICLOUDPD_LOCAL_MIRROR_PROOF, DELETE_ELIGIBILITY_PROOF]"

fun needs :: "state \<Rightarrow> string list" where
  "needs DeleteEligible = eligible_keys"
| "needs DeleteApproved = DELETE_APPROVAL_PROOF # eligible_keys"
| "needs Deleted = DELETE_EXECUTION_PROOF # DELETE_APPROVAL_PROOF # eligible_keys"
| "needs _ = []"

text \<open>
  A complete replacement: a conversion of the RAW file by the current recipe that made it smaller, its
  measurements, a HEIC file with all checks passed, and an upload of that file.
\<close>

definition replaced :: "asset_record \<Rightarrow> bool" where
  "replaced r \<longleftrightarrow>
     (\<exists>nas conversion performance heic upload p.
        Option.bind (get_proof r NAS_PROOF) de_nas_raw_proof = Some nas
        \<and> Option.bind (get_proof r CONVERSION_PROOF) de_conversion_result_proof = Some conversion
        \<and> Option.bind (get_proof r CONVERSION_PERFORMANCE_PROOF) de_conversion_performance_proof = Some performance
        \<and> Option.bind (get_proof r HEIC_PROOF) de_heic_verification_proof = Some heic
        \<and> Option.bind (get_proof r UPLOAD_PROOF) de_upload_proof = Some upload
        \<and> cp_conversion_recipe_id conversion = EMBEDDED_PREVIEW_CONVERSION_RECIPE
        \<and> pp_conversion_recipe_id performance = EMBEDDED_PREVIEW_CONVERSION_RECIPE
        \<and> hp_conversion_recipe_id heic = EMBEDDED_PREVIEW_CONVERSION_RECIPE
        \<and> performance_ok performance nas conversion \<and> heic_flags_ok heic
        \<and> \<not> is_blank (up_uploaded_heic_asset_id upload)
        \<and> up_uploaded_heic_sha256 upload = hp_heic_sha256 heic
        \<and> up_uploaded_heic_path upload = Some p \<and> path_eq (hp_heic_path heic) p)"

definition backed :: "asset_record \<Rightarrow> bool" where
  "backed r \<longleftrightarrow> (late (ar_state r) \<longrightarrow> replaced r) \<and> list_all (holds r) (needs (ar_state r))"

subsection \<open>Abstract steps\<close>

text \<open>
  The proofs of a replacement may be written as long as the state is not late; a failure, and the
  recovery to a retry state after it, leaves the late states, so that a later upload may replace what
  an earlier one recorded.
\<close>

inductive record_step :: "asset_record \<Rightarrow> asset_record \<Rightarrow> bool" where
  store: "k \<noteq> RESERVED_PROOF_NAME \<Longrightarrow> (late (ar_state r) \<Longrightarrow> k \<notin> replacement_keys \<and> decodes k v) \<Longrightarrow>
     record_step r (with_proof now (ar_state r) k v r)"
| advance: "k \<noteq> RESERVED_PROOF_NAME \<Longrightarrow> allows (ar_state r) s \<Longrightarrow> (late (ar_state r) \<Longrightarrow> k \<notin> replacement_keys)
     \<Longrightarrow> (s = UploadVerified \<Longrightarrow> replaced (with_proof now s k v r))
     \<Longrightarrow> (\<And>k'. k' \<in> set (needs s) \<Longrightarrow>
            holds (with_proof now s k v r) k' \<or> k' \<noteq> k \<and> k' \<in> set (needs (ar_state r)))
     \<Longrightarrow> record_step r (with_proof now s k v r)"
| fail: "failure_rel now stage message kind r r' \<Longrightarrow> record_step r r'"
| recover: "recover_rel now s r r' \<Longrightarrow> record_step r r'"

inductive manifest_step :: "'r manifest \<Rightarrow> 'r manifest \<Rightarrow> bool" where
  new: "bt_get (mf_records m) a = None \<Longrightarrow> manifest_step m (put_record a (new_asset_record a p now) m)"
| change: "bt_get (mf_records m) a = Some r \<Longrightarrow> unreserved r \<Longrightarrow> record_step r r' \<Longrightarrow>
     manifest_step m (put_record a r' m)"

lemma replaced_cong:
  "\<forall>k\<in>replacement_keys. get_proof r' k = get_proof r k \<Longrightarrow> replaced r' = replaced r"
  by (simp add: replaced_def replacement_keys_def)

lemma holds_cong: "get_proof r' k = get_proof r k \<Longrightarrow> holds r' k = holds r k"
  by (simp add: holds_def)

lemma replaced_with_proof [simp]:
  "k \<notin> replacement_keys \<Longrightarrow> replaced (with_proof now s k v r) = replaced r"
  by (rule replaced_cong) auto

lemma holds_with_proof [simp]:
  "holds (with_proof now s k v r) k' = (if k' = k then decodes k v else holds r k')"
  by (simp add: holds_def)

lemma allows_late: "allows s t \<Longrightarrow> late t \<Longrightarrow> t = UploadVerified \<or> late s"
  by (auto simp: allows_def late_def)

lemma record_step_backed: "record_step r r' \<Longrightarrow> backed r \<Longrightarrow> backed r'"
proof (induction rule: record_step.induct)
  case (store k r v now)
  show ?case
  proof (cases "late (ar_state r)")
    case True
    with store show ?thesis by (auto simp: backed_def list_all_iff)
  next
    case False
    then have "needs (ar_state r) = []" by (cases "ar_state r") (auto simp: late_def)
    with False show ?thesis by (simp add: backed_def)
  qed
next
  case (advance k r s now v)
  let ?r = "with_proof now s k v r"
  have "holds ?r k'" if "k' \<in> set (needs s)" for k'
    using advance(5) [OF that] advance(6) by (auto simp: backed_def list_all_iff)
  moreover have "replaced ?r" if "late s"
    using allows_late [OF advance(2) that] advance(3,4,6) by (auto simp: backed_def)
  ultimately show ?case by (simp add: backed_def list_all_iff)
qed (auto simp: backed_def failure_rel_def recover_rel_def retry_states_def late_def)

lemma new_backed: "backed (new_asset_record a p now)"
  by (simp add: backed_def new_asset_record_def late_def)

definition all_backed :: "'r manifest \<Rightarrow> bool" where
  "all_backed m \<longleftrightarrow> (\<forall>a r. bt_get (mf_records m) a = Some r \<longrightarrow> backed r)"

lemma manifest_step_backed: "manifest_step m m' \<Longrightarrow> all_backed m \<Longrightarrow> all_backed m'"
  by (induction rule: manifest_step.induct)
    (auto simp: all_backed_def new_backed intro: record_step_backed)

lemma manifest_steps_backed: "manifest_step\<^sup>*\<^sup>* m m' \<Longrightarrow> all_backed m \<Longrightarrow> all_backed m'"
  by (induction rule: rtranclp_induct) (auto intro: manifest_step_backed)

subsection \<open>Every operation refines the abstract steps\<close>

text \<open>Changes through the manifest as abstract steps.\<close>

lemma stored_step:
  assumes "bt_get (mf_records m) a = Some r" and "unreserved r" and "k \<noteq> RESERVED_PROOF_NAME"
    and "ar_state r = s" and "late s \<Longrightarrow> k \<notin> replacement_keys \<and> decodes k v"
  shows "manifest_step\<^sup>*\<^sup>* m (put_record a (with_proof now s k v r) m)"
proof -
  have "record_step r (with_proof now (ar_state r) k v r)"
    using assms(3-5) by (intro record_step.store) auto
  with assms(1,2,4) show ?thesis by (auto intro: manifest_step.change)
qed

lemma advance_step:
  assumes "bt_get (mf_records m) a = Some r" and "unreserved r" and "k \<noteq> RESERVED_PROOF_NAME"
    and "allows (ar_state r) s" and "late (ar_state r) \<Longrightarrow> k \<notin> replacement_keys"
    and "s = UploadVerified \<Longrightarrow> replaced (with_proof now s k v r)"
    and "\<And>k'. k' \<in> set (needs s) \<Longrightarrow> holds (with_proof now s k v r) k' \<or> k' \<noteq> k \<and> k' \<in> set (needs (ar_state r))"
  shows "manifest_step\<^sup>*\<^sup>* m (put_record a (with_proof now s k v r) m)"
proof -
  have "record_step r (with_proof now s k v r)"
    by (rule record_step.advance [OF assms(3-7)])
  with assms(1,2) show ?thesis by (auto intro: manifest_step.change)
qed

text \<open>Transitions before the upload carry no obligation.\<close>

lemma early_step:
  assumes "bt_get (mf_records m) a = Some r" and "unreserved r" and "k \<noteq> RESERVED_PROOF_NAME"
    and "allows (ar_state r) s" and "\<not> late s"
  shows "manifest_step\<^sup>*\<^sup>* m (put_record a (with_proof now s k v r) m)"
  using assms(4,5) by (intro advance_step assms(1-4)) (auto simp: allows_def late_def)

lemma discover_steps: "discover_raw_asset w p m a = Inr m' \<Longrightarrow> manifest_step\<^sup>*\<^sup>* m m'"
proof (cases "bt_get (mf_records m) a")
  case None
  have id: "ar_asset_id (new_asset_record a p now) = a" for now by (simp add: new_asset_record_def)
  have "sanitize_untrusted_recipe_claims (new_asset_record a p now) = new_asset_record a p now" for now
    by code_simp
  then have "m' = put_record a (new_asset_record a p (ww_timestamp w)) m" if "discover_raw_asset w p m a = Inr m'"
    using that None by (auto simp: discover_raw_asset_def upsert_eq_Ok insert_record_def put_record_def id)
  then show "discover_raw_asset w p m a = Inr m' \<Longrightarrow> ?thesis"
    using manifest_step.new [OF None] by auto
qed (auto simp: discover_raw_asset_def bind_ok_eq_Ok)

lemma failure_steps:
  "record_failure_with_kind now stage message kind m a = Inr m' \<Longrightarrow> manifest_step\<^sup>*\<^sup>* m m'"
  by (auto simp: record_failure_with_kind_eq_Ok put_record_def [symmetric]
      intro!: r_into_rtranclp manifest_step.change record_step.fail)

lemma recover_steps: "recover_failed_for_retry now s m a = Inr m' \<Longrightarrow> manifest_step\<^sup>*\<^sup>* m m'"
  by (auto simp: recover_failed_for_retry_eq_Ok put_record_def [symmetric]
      intro!: r_into_rtranclp manifest_step.change record_step.recover)

lemma nas_steps: "record_nas_proof w p m a = Inr m' \<Longrightarrow> manifest_step\<^sup>*\<^sup>* m m'"
  by (auto simp: record_nas_proof_def change_eq_Ok late_def intro: early_step)

lemma prove_nas_steps: "prove_and_record_nas w p root days now m a = Inr m' \<Longrightarrow> manifest_step\<^sup>*\<^sup>* m m'"
  by (auto simp: prove_and_record_nas_def bind_ok_eq_Ok dest!: discover_steps nas_steps)

lemma adjusted_steps: "record_adjusted_source_proof w output p m a = Inr m' \<Longrightarrow> manifest_step\<^sup>*\<^sup>* m m'"
  by (auto simp: record_adjusted_source_proof_def bind_ok_eq_Ok change_eq_Ok late_def intro: stored_step)

lemma conversion_steps:
  "record_conversion_result_with_recipe w i recipe trusted m a = Inr m' \<Longrightarrow> manifest_step\<^sup>*\<^sup>* m m'"
  by (auto simp: record_conversion_result_with_recipe_def Let_def bind_ok_eq_Ok change_eq_Ok late_def
      intro: early_step split: if_split_asm)

lemma performance_steps:
  "record_conversion_performance_with_recipe w i recipe trusted m a = Inr m' \<Longrightarrow> manifest_step\<^sup>*\<^sup>* m m'"
  by (auto simp: record_conversion_performance_with_recipe_def Let_def bind_ok_eq_Ok change_eq_Ok late_def
      intro: stored_step split: if_split_asm)

lemma heic_steps:
  "record_heic_verification_with_recipe w i recipe trusted m a = Inr m' \<Longrightarrow> manifest_step\<^sup>*\<^sup>* m m'"
  by (auto simp: record_heic_verification_with_recipe_def Let_def bind_ok_eq_Ok change_eq_Ok late_def
      intro: early_step split: if_split_asm)

text \<open>What an upload finds is a complete replacement.\<close>

lemma stored_bind: "bt_get (mf_records m) a = Some r \<Longrightarrow>
    stored_proof de m a k = Inr p \<longleftrightarrow> Option.bind (get_proof r k) de = Some p"
  by (auto simp: stored_proof_eq_Ok Option.bind_eq_Some_conv)

lemma upload_replaces:
  assumes r: "bt_get (mf_records m) a = Some r"
    and "require_valid_conversion_performance w m a = Inr (nas, conversion)"
    and "stored_proof de_heic_verification_proof m a HEIC_PROOF = Inr heic"
    and "validate_heic_verification_flags heic = Inr ()"
    and "hp_heic_sha256 heic = up_uploaded_heic_sha256 p" and "\<not> is_blank (up_uploaded_heic_asset_id p)"
    and "up_uploaded_heic_path p = Some x" and "path_eq (hp_heic_path heic) x"
  shows "replaced (with_proof now UploadVerified UPLOAD_PROOF (ser_upload_proof p) r)"
proof -
  from assms(2) obtain performance where
    stored: "stored_proof de_nas_raw_proof m a NAS_PROOF = Inr nas"
    "stored_proof de_conversion_result_proof m a CONVERSION_PROOF = Inr conversion"
    "stored_proof de_conversion_performance_proof m a CONVERSION_PERFORMANCE_PROOF = Inr performance"
    and recipes: "cp_conversion_recipe_id conversion = EMBEDDED_PREVIEW_CONVERSION_RECIPE"
    "pp_conversion_recipe_id performance = EMBEDDED_PREVIEW_CONVERSION_RECIPE"
    "performance_ok performance nas conversion"
    by (auto simp: valid_performance_Ok stored_performance_Ok context_Ok)
  note stored = stored [unfolded stored_bind [OF r]] assms(3) [unfolded stored_bind [OF r]]
  show ?thesis
    unfolding replaced_def using stored recipes assms(4-8)
    by (intro exI [of _ nas] exI [of _ conversion] exI [of _ performance] exI [of _ heic] exI [of _ p] exI [of _ x])
      (simp add: upload_codec.de_enc)
qed

lemma upload_steps: "record_upload_proof w p m a = Inr m' \<Longrightarrow> manifest_step\<^sup>*\<^sup>* m m'"
proof -
  assume "record_upload_proof w p m a = Inr m'"
  then obtain x nas conversion heic r where
    "\<not> is_blank (up_uploaded_heic_asset_id p)" "up_uploaded_heic_path p = Some x"
    "require_valid_conversion_performance w m a = Inr (nas, conversion)"
    "stored_proof de_heic_verification_proof m a HEIC_PROOF = Inr heic"
    "validate_heic_verification_flags heic = Inr ()"
    "hp_heic_sha256 heic = up_uploaded_heic_sha256 p" "path_eq (hp_heic_path heic) x"
    and r: "bt_get (mf_records m) a = Some r" "unreserved r" "allows (ar_state r) UploadVerified"
    and m': "m' = put_record a (with_proof (ww_timestamp w) UploadVerified UPLOAD_PROOF (ser_upload_proof p) r) m"
    unfolding record_upload_proof_def by (clarsimp simp: bind_ok_eq_Ok change_eq_Ok)
  with upload_replaces [OF r(1)] show ?thesis
    unfolding m' using r by (intro advance_step) (auto simp: allows_def late_def)
qed

lemma heic_delete_steps: "record_uploaded_heic_delete w resolved outcome m a = Inr m' \<Longrightarrow> manifest_step\<^sup>*\<^sup>* m m'"
  by (auto simp: record_uploaded_heic_delete_def Let_def bind_ok_eq_Ok change_eq_Ok replacement_keys_def
      decodes_def intro!: stored_step split: prod.splits)

lemma original_steps: "record_original_asset_proof w p m a = Inr m' \<Longrightarrow> manifest_step\<^sup>*\<^sup>* m m'"
  by (auto simp: record_original_asset_proof_def bind_ok_eq_Ok change_eq_Ok replacement_keys_def
      decodes_def original_asset_codec.de_enc intro!: stored_step)

lemma source_age_steps: "record_source_age_proof w p m a = Inr m' \<Longrightarrow> manifest_step\<^sup>*\<^sup>* m m'"
  by (auto simp: record_source_age_proof_def bind_ok_eq_Ok change_eq_Ok replacement_keys_def
      decodes_def source_age_codec.de_enc intro!: stored_step)

lemma originals_steps: "record_original_asset_batch_proofs w as ps m = Inr m' \<Longrightarrow> manifest_step\<^sup>*\<^sup>* m m'"
proof -
  assume "record_original_asset_batch_proofs w as ps m = Inr m'"
  then have "try_fold (\<lambda>a staged.
         bind_ok (ok_or (MissingBatchOriginalAssetProof a) (bt_get ps a)) (\<lambda>p.
         record_original_asset_proof w p staged a)) as m = Inr m'"
    by (auto simp: record_original_asset_batch_proofs_def bind_ok_eq_Ok)
  then show ?thesis
    by (rule try_fold_invariant) (auto simp: bind_ok_eq_Ok intro: rtranclp_trans [OF _ original_steps])
qed

lemma mirror_steps: "record_icloudpd_local_mirror_proof w p m a = Inr m' \<Longrightarrow> manifest_step\<^sup>*\<^sup>* m m'"
proof -
  assume *: "record_icloudpd_local_mirror_proof w p m a = Inr m'"
  then obtain r where r: "bt_get (mf_records m) a = Some r" "unreserved r"
    by (auto simp: record_icloudpd_local_mirror_proof_def bind_ok_eq_Ok change_eq_Ok)
  let ?r1 = "with_proof (ww_timestamp w) (ar_state r) ICLOUDPD_LOCAL_MIRROR_PROOF (ser_icloudpd_local_mirror_proof p) r"
  let ?m1 = "put_record a ?r1 m"
  have one: "manifest_step\<^sup>*\<^sup>* m ?m1"
    by (intro stored_step r refl) (auto simp: replacement_keys_def decodes_def mirror_codec.de_enc)
  have two: "manifest_step\<^sup>*\<^sup>* ?m1 (put_record a (with_proof (ww_timestamp w) (ar_state r)
      DELETE_ELIGIBILITY_PROOF (delete_eligibility_json w facts) ?r1) ?m1)" for facts
    using r by (intro stored_step) (auto simp: replacement_keys_def decodes_def de_eligibility)
  from * have "m' = ?m1 \<or> (\<exists>facts. m' = put_record a (with_proof (ww_timestamp w) (ar_state r)
      DELETE_ELIGIBILITY_PROOF (delete_eligibility_json w facts) ?r1) ?m1)"
    using r by (auto simp: record_icloudpd_local_mirror_proof_def bind_ok_eq_Ok change_eq_Ok split: if_split_asm)
  with one two show ?thesis by (auto intro: rtranclp_trans)
qed

lemma eligible_steps: "mark_delete_eligible w m a = Inr m' \<Longrightarrow> manifest_step\<^sup>*\<^sup>* m m'"
proof -
  assume "mark_delete_eligible w m a = Inr m'"
  then obtain r facts where r: "bt_get (mf_records m) a = Some r" "ar_state r = UploadVerified" "unreserved r"
    and facts: "validate_pre_delete_facts w m a = Inr facts" and m': "m' = put_record a (eligible_record w facts r) m"
    by (auto simp: mark_delete_eligible_eq_Ok)
  from facts obtain nas conversion performance where "chain_stored m a nas conversion performance facts"
    by (auto simp: pre_delete_Ok_iff)
  with r(1) have "holds r k" if "k \<in> {ORIGINAL_ASSET_PROOF, SOURCE_AGE_PROOF, ICLOUDPD_LOCAL_MIRROR_PROOF}" for k
    using that by (auto simp: chain_stored_def stored_proof_eq_Ok holds_def decodes_def)
  then show ?thesis
    unfolding m' eligible_record_def using r
    by (intro advance_step)
      (auto simp: allows_def replacement_keys_def eligible_keys_def decodes_def [of DELETE_ELIGIBILITY_PROOF])
qed

lemma approve_steps: "approve_delete w operator m a = Inr m' \<Longrightarrow> manifest_step\<^sup>*\<^sup>* m m'"
  by (auto simp: approve_delete_eq_Ok approved_record_def allows_def replacement_keys_def eligible_keys_def
      decodes_def approval_codec.de_enc intro!: advance_step)

lemma deleted_step:
  assumes "bt_get (mf_records m) a = Some r" and "unreserved r" and "ar_state r = DeleteApproved"
  shows "manifest_step\<^sup>*\<^sup>* m (put_record a (with_proof now Deleted DELETE_EXECUTION_PROOF
    (ser_delete_execution_proof p) r) m)"
  using assms by (intro advance_step)
    (auto simp: allows_def replacement_keys_def eligible_keys_def decodes_def execution_codec.de_enc)

lemma execute_steps:
  "record_delete_execution w outcome m a = Inr m' \<Longrightarrow> manifest_step\<^sup>*\<^sup>* m m'"
  "record_prevalidated_delete_execution w t outcome m = Inr m' \<Longrightarrow> manifest_step\<^sup>*\<^sup>* m m'"
  "record_reconciled_delete_execution w rt outcome m = Inr m' \<Longrightarrow> manifest_step\<^sup>*\<^sup>* m m'"
  by (auto simp: record_delete_execution_def record_prevalidated_delete_execution_def
      record_reconciled_delete_execution_def bind_ok_eq_Ok change_eq_Ok intro!: deleted_step)

lemma apply_op_steps: "apply_op w op m = Inr m' \<Longrightarrow> manifest_step\<^sup>*\<^sup>* m m'"
  by (cases op)
    (auto simp: record_current_conversion_result_def record_conversion_result_def
      record_current_conversion_performance_def record_conversion_performance_def
      record_current_heic_verification_def record_heic_verification_def record_stage_failure_def
      record_stage_failure_with_kind_def record_failure_def
      intro: discover_steps nas_steps prove_nas_steps adjusted_steps conversion_steps performance_steps heic_steps
        upload_steps heic_delete_steps mirror_steps original_steps originals_steps source_age_steps eligible_steps
        approve_steps execute_steps failure_steps recover_steps
      split: if_split_asm option.split_asm)

lemma run_ops_steps: "run_ops ops m = Inr m' \<Longrightarrow> manifest_step\<^sup>*\<^sup>* m m'"
  unfolding run_ops_def
  by (erule try_fold_invariant) (auto intro: rtranclp_trans [OF _ apply_op_steps])

text \<open>
  C13: Every operation of the workflow, on success, is a sequence of the abstract steps: new
  records, failures, recoveries to a retry state, proofs added, and single advances of the state. While
  the state is late - from the verified upload to the recorded deletion - no step writes one of the five
  proofs of a replacement; the step to the verified upload leaves the record with a complete replacement,
  and every advance with the proofs the new state needs. The protection ends with a failure: an asset that failed and
  was recovered to an earlier state may be given a new conversion, verification and upload.
\<close>

theorem operations_refine_steps:
  assumes "apply_op w op m = Ok m'"
  shows "manifest_step\<^sup>*\<^sup>* m m'"
  using assms by (rule apply_op_steps)

text \<open>C7: Whatever operations run, in whatever order, with failures and recoveries between them: in a
  manifest built up from nothing, every asset from the verified upload to the recorded deletion has a
  complete replacement - a smaller HEIC file made by the current recipe from the RAW file, all checks
  passed, uploaded under its hash - and from eligibility on it holds the proofs of its original, its
  age, its mirror and its eligibility, then of its approval, then of the execution.\<close>

theorem late_assets_are_replaced:
  assumes "run_ops ops new_manifest = Ok m" and "bt_get (mf_records m) a = Some r"
  shows "(late (ar_state r) \<longrightarrow> replaced r) \<and> list_all (holds r) (needs (ar_state r))"
proof -
  have "all_backed new_manifest" by (simp add: all_backed_def new_manifest_def)
  with run_ops_steps [OF assms(1)] have "all_backed m" by (rule manifest_steps_backed)
  with assms(2) show ?thesis by (auto simp: all_backed_def backed_def)
qed

subsection \<open>A run\<close>

definition sample_record :: "nat \<Rightarrow> asset_record" where
  "sample_record n =
     fold (\<lambda>(s, k, v). with_proof ''1'' s k v)
       (take n
         [(NasVerified, NAS_PROOF, ser_nas_raw_proof sample_nas_proof),
          (Converted, CONVERSION_PROOF, ser_conversion_result_proof sample_conversion),
          (Converted, CONVERSION_PERFORMANCE_PROOF, ser_conversion_performance_proof sample_performance),
          (ConversionVerified, HEIC_PROOF, ser_heic_verification_proof sample_heic),
          (UploadVerified, UPLOAD_PROOF, ser_upload_proof sample_upload)])
       (new_asset_record ''a'' ''/nas/c/a.DNG'' ''1'')"

definition sample_stage :: "nat \<Rightarrow> unit manifest" where
  "sample_stage n = put_record ''a'' (sample_record n) new_manifest"

definition sample_conversion_input :: conversion_result_input where
  "sample_conversion_input =
     \<lparr>ci_heic_path = ''/h/a.heic'', ci_heic_sha256 = ''heic'', ci_size_bytes = 5, ci_source_binding = EmbeddedPreview\<rparr>"

definition sample_performance_input :: conversion_performance_input where
  "sample_performance_input =
     \<lparr>pi_measured_at_unix_seconds = 1, pi_conversion_tool = ''magick'', pi_conversion_tool_version = None,
      pi_heic_quality = 60, pi_convert_wall_time_millis = 1, pi_total_wall_time_millis = 2,
      pi_user_cpu_time_millis = None, pi_system_cpu_time_millis = None, pi_peak_rss_kib = None,
      pi_conversion_command_timings = []\<rparr>"

lemma bt_insert_twice [simp]: "bt_insert k v (bt_insert k u m) = bt_insert k v m"
  by (induction m) auto

lemma put_record_twice [simp]: "put_record a r' (put_record a r m) = put_record a r' m"
  by (simp add: put_record_def)

lemma sample_stage_get [simp]: "bt_get (mf_records (sample_stage n)) ''a'' = Some (sample_record n)"
  by (simp add: sample_stage_def)

lemma sample_record_proofs:
  "get_proof (sample_record n) k = (if k \<in> set (take n [NAS_PROOF, CONVERSION_PROOF,
     CONVERSION_PERFORMANCE_PROOF, HEIC_PROOF, UPLOAD_PROOF]) then map_of sample_proofs k else None)"
proof -
  have "get_proof (new_asset_record a p now) k = None" for a p now
    by (simp add: new_asset_record_def get_proof_def)
  moreover have "n = 0 \<or> n = 1 \<or> n = 2 \<or> n = 3 \<or> n = 4 \<or> n \<ge> 5" by auto
  ultimately show ?thesis
    by (elim disjE) (auto simp: sample_record_def sample_proofs_def numeral_eq_Suc)
qed

lemma sample_record_steps:
  "with_proof ''1'' NasVerified NAS_PROOF (ser_nas_raw_proof sample_nas_proof) (sample_record 0) = sample_record (Suc 0)"
  "with_proof ''1'' Converted CONVERSION_PROOF (ser_conversion_result_proof sample_conversion) (sample_record (Suc 0))
     = sample_record 2"
  "with_proof ''1'' Converted CONVERSION_PERFORMANCE_PROOF (ser_conversion_performance_proof sample_performance)
     (sample_record 2) = sample_record 3"
  "with_proof ''1'' ConversionVerified HEIC_PROOF (ser_heic_verification_proof sample_heic) (sample_record 3)
     = sample_record 4"
  "with_proof ''1'' UploadVerified UPLOAD_PROOF (ser_upload_proof sample_upload) (sample_record 4) = sample_record 5"
  by (simp_all add: sample_record_def numeral_eq_Suc)

lemma sample_record_states [simp]:
  "ar_state (sample_record 0) = Discovered" "ar_state (sample_record (Suc 0)) = NasVerified"
  "ar_state (sample_record 2) = Converted" "ar_state (sample_record 3) = Converted"
  "ar_state (sample_record 4) = ConversionVerified" "ar_state (sample_record 5) = UploadVerified"
  by (simp_all add: sample_record_def numeral_eq_Suc new_asset_record_def)

lemma sample_record_unreserved [simp]: "unreserved (sample_record n)"
proof -
  have "get_proof (sample_record n) RESERVED_PROOF_NAME = None"
    by (simp add: sample_record_proofs sample_proofs_def)
  then show ?thesis by (simp add: get_proof_def bt_contains_def has_proof_def)
qed

lemma sample_stage_put [simp]: "put_record ''a'' r (sample_stage n) = put_record ''a'' r new_manifest"
  by (simp add: sample_stage_def)

lemma sample_timestamp [simp]: "ww_timestamp sample_workflow_world = ''1''"
  by (simp add: sample_workflow_world_def)

lemma sample_stage_proofs:
  "2 \<le> n \<Longrightarrow> stored_proof de_nas_raw_proof (sample_stage n) ''a'' NAS_PROOF = Inr sample_nas_proof"
  "2 \<le> n \<Longrightarrow> stored_proof de_conversion_result_proof (sample_stage n) ''a'' CONVERSION_PROOF = Inr sample_conversion"
  "3 \<le> n \<Longrightarrow> stored_proof de_conversion_performance_proof (sample_stage n) ''a'' CONVERSION_PERFORMANCE_PROOF
     = Inr sample_performance"
  "4 \<le> n \<Longrightarrow> stored_proof de_heic_verification_proof (sample_stage n) ''a'' HEIC_PROOF = Inr sample_heic"
  by (auto simp: stored_proof_eq_Ok sample_record_proofs sample_proofs_def nas_codec.de_enc conversion_codec.de_enc
      performance_codec.de_enc heic_codec.de_enc take_Cons' split: if_splits)

lemma sample_binding:
  "cp_source_binding c = EmbeddedPreview \<Longrightarrow>
     validate_conversion_source_binding sample_workflow_world (sample_stage n) ''a'' c = Inr None"
proof (rule embedded_binding(1) [OF sample_stage_get])
  show "get_proof (sample_record n) ADJUSTED_SOURCE_PROOF = None"
    by (simp add: sample_record_proofs sample_proofs_def)
qed

lemma sample_context:
  "2 \<le> n \<Longrightarrow> load_conversion_context sample_workflow_world (sample_stage n) ''a''
     = Inr (sample_nas_proof, sample_conversion)"
  unfolding context_Ok using sample_stage_proofs sample_binding by (auto simp: sample_conversion_def)

lemma sample_valid_performance:
  "3 \<le> n \<Longrightarrow> require_valid_conversion_performance sample_workflow_world (sample_stage n) ''a''
     = Inr (sample_nas_proof, sample_conversion)"
  using sample_chain_linked sample_context [of n] sample_stage_proofs(3) [of n]
  by (auto simp: valid_performance_Ok stored_performance_Ok chain_linked_def)

definition sample_ops :: workflow_run where
  "sample_ops = map (Pair sample_workflow_world)
     [Discover ''a'' ''/nas/c/a.DNG'', Record_Nas ''a'' sample_nas_proof,
      Record_Conversion True ''a'' sample_conversion_input, Record_Performance True ''a'' sample_performance_input,
      Record_Heic True ''a'' sample_heic_input, Record_Upload ''a'' sample_upload]"

lemma sample_discover: "discover_raw_asset sample_workflow_world ''/nas/c/a.DNG'' new_manifest ''a'' = Inr (sample_stage 0)"
proof -
  have "sanitize_untrusted_recipe_claims (new_asset_record a p now) = new_asset_record a p now" for a p now
    by code_simp
  moreover have "unreserved (new_asset_record a p now)" "ar_asset_id (new_asset_record a p now) = a" for a p now
    by (simp_all add: new_asset_record_def has_proof_def bt_contains_def)
  moreover have "bt_get (mf_records new_manifest) ''a'' = None" by (simp add: new_manifest_def)
  moreover have "sample_record 0 = new_asset_record ''a'' ''/nas/c/a.DNG'' ''1''" by (simp add: sample_record_def)
  ultimately show ?thesis
    by (simp add: discover_raw_asset_def upsert_eq_Ok insert_record_def sample_stage_def put_record_def)
qed

text \<open>A change of the sample record, as a step to the next stage.\<close>

lemma sample_put:
  "with_proof ''1'' s k v (sample_record n) = sample_record n' \<Longrightarrow>
     put_record ''a'' (with_proof ''1'' s k v (sample_record n)) (sample_stage n) = sample_stage n'"
  by (simp add: sample_stage_def)

lemma sample_nas_step: "record_nas_proof sample_workflow_world sample_nas_proof (sample_stage 0) ''a'' = Inr (sample_stage (Suc 0))"
  unfolding record_nas_proof_def change_eq_Ok
  by (intro exI [of _ "sample_record 0"])
    (simp add: allows_def sample_put [OF sample_record_steps(1)] del: sample_stage_put)

lemma sample_conversion_step:
  "record_current_conversion_result sample_workflow_world sample_conversion_input (sample_stage (Suc 0)) ''a''
     = Inr (sample_stage 2)"
proof -
  have "transition_with_trusted_proof sample_workflow_world Converted CONVERSION_PROOF
      (ser_conversion_result_proof sample_conversion) (sample_stage (Suc 0)) ''a'' = Inr (sample_stage 2)"
    unfolding change_eq_Ok
    by (intro exI [of _ "sample_record (Suc 0)"])
      (simp add: allows_def sample_put [OF sample_record_steps(2)] del: sample_stage_put)
  moreover have "cp_source_binding sample_conversion = EmbeddedPreview" "cp_heic_path sample_conversion \<noteq> []"
    "\<not> is_blank (cp_heic_sha256 sample_conversion)"
    by (simp_all add: sample_conversion_def byte_def)
  ultimately show ?thesis
    by (simp add: record_current_conversion_result_def record_conversion_result_with_recipe_def bind_ok_eq_Ok
        sample_conversion_input_def sample_binding sample_conversion_def [symmetric])
qed

lemma sample_performance_step:
  "record_current_conversion_performance sample_workflow_world sample_performance_input (sample_stage 2) ''a''
     = Inr (sample_stage 3)"
proof -
  have "insert_trusted_workflow_proof sample_workflow_world CONVERSION_PERFORMANCE_PROOF
      (ser_conversion_performance_proof sample_performance) (sample_stage 2) ''a'' = Inr (sample_stage 3)"
    unfolding change_eq_Ok
    by (intro exI [of _ "sample_record 2"])
      (simp add: sample_put [OF sample_record_steps(3)] del: sample_stage_put)
  moreover have "performance_ok sample_performance sample_nas_proof sample_conversion"
    using sample_chain_linked by (simp add: chain_linked_def)
  moreover have get: "wf_get (sample_stage 2) ''a'' = Inr (sample_record 2)" by simp
  moreover have sizes: "nr_size_bytes sample_nas_proof = 9" "cp_size_bytes sample_conversion = 5"
    by (simp_all add: sample_nas_proof_def sample_conversion_def)
  ultimately show ?thesis
    unfolding record_current_conversion_performance_def record_conversion_performance_with_recipe_def get
      bind_ok_simps
    by (simp add: sample_context Let_def sample_performance_input_def sizes sample_performance_def [symmetric] bind_ok_eq_Ok)
qed

lemma sample_heic_step:
  "record_current_heic_verification sample_workflow_world sample_heic_input (sample_stage 3) ''a'' = Inr (sample_stage 4)"
proof -
  have "transition_with_trusted_proof sample_workflow_world ConversionVerified HEIC_PROOF
      (ser_heic_verification_proof sample_heic) (sample_stage 3) ''a'' = Inr (sample_stage 4)"
    unfolding change_eq_Ok
    by (intro exI [of _ "sample_record 3"])
      (simp add: allows_def sample_put [OF sample_record_steps(4)] del: sample_stage_put)
  moreover have "heic_of_conversion sample_conversion sample_heic = Inr ()" "heic_flags_ok sample_heic"
    using sample_chain_linked by (auto simp: chain_linked_def heic_linked_def heic_conversion_Ok sample_facts_def)
  moreover have "hp_heic_path sample_heic \<noteq> []" "\<not> is_blank (hp_heic_sha256 sample_heic)"
    by (simp_all add: sample_heic_def sample_heic_input_def heic_proof_of_def byte_def)
  ultimately show ?thesis
    by (simp add: record_current_heic_verification_def record_heic_verification_with_recipe_def bind_ok_eq_Ok
        sample_heic_def [symmetric] sample_context sample_valid_performance)
qed

lemma sample_upload_step:
  "record_upload_proof sample_workflow_world sample_upload (sample_stage 4) ''a'' = Inr (sample_stage 5)"
proof -
  have "transition_with_proof sample_workflow_world UploadVerified UPLOAD_PROOF
      (ser_upload_proof sample_upload) (sample_stage 4) ''a'' = Inr (sample_stage 5)"
    unfolding change_eq_Ok
    by (intro exI [of _ "sample_record 4"])
      (simp add: allows_def sample_put [OF sample_record_steps(5)] del: sample_stage_put)
  moreover have "get_proof (sample_record 4) ORIGINAL_ASSET_PROOF = None"
    by (simp add: sample_record_proofs sample_proofs_def)
  moreover have "heic_flags_ok sample_heic" "hp_conversion_recipe_id sample_heic = EMBEDDED_PREVIEW_CONVERSION_RECIPE"
    using sample_chain_linked by (auto simp: chain_linked_def heic_linked_def sample_facts_def)
  ultimately show ?thesis
    unfolding record_upload_proof_def
    by (simp add: bind_ok_eq_Ok sample_valid_performance sample_stage_proofs)
      (simp add: sample_upload_def sample_heic_def sample_heic_input_def heic_proof_of_def byte_def destination_eq_Ok)
qed

lemma sample_ops_Ok: "run_ops sample_ops new_manifest = Ok (sample_stage 5)"
  by (simp add: run_ops_def sample_ops_def try_fold_Cons_eq_Ok sample_discover sample_nas_step sample_conversion_step
      sample_performance_step sample_heic_step sample_upload_step)

theorem late_assets_are_replaced_witness: "replaced (sample_record 5)"
  using late_assets_are_replaced [OF sample_ops_Ok sample_stage_get] by (simp add: late_def)

theorem operations_refine_steps_witness: "manifest_step\<^sup>*\<^sup>* (sample_stage 4) (sample_stage 5)"
  by (rule operations_refine_steps [where op = "Record_Upload ''a'' sample_upload" and w = sample_workflow_world]) (simp add: sample_upload_step)

end
