(* ===== verification/Workflow_Evidence.thy ===== *)
theory Workflow_Evidence
  imports Workflow_Steps
begin

section \<open>The evidence under single operations\<close>

text \<open>
  Which assets and which proofs an operation of \<open>src/src/workflow.rs\<close> may touch, the batch of original
  assets, the renewal of a mirror, the reverification of an upload and the freshness of tokens.
\<close>

subsection \<open>What an operation may touch\<close>

fun op_assets :: "workflow_op \<Rightarrow> string list" where
  "op_assets (Discover a _) = [a]"
| "op_assets (Record_Nas a _) = [a]"
| "op_assets (Prove_Nas a _ _ _ _) = [a]"
| "op_assets (Record_Adjusted a _ _) = [a]"
| "op_assets (Record_Conversion _ a _) = [a]"
| "op_assets (Record_Performance _ a _) = [a]"
| "op_assets (Record_Heic _ a _) = [a]"
| "op_assets (Record_Upload a _) = [a]"
| "op_assets (Record_Heic_Delete a _ _) = [a]"
| "op_assets (Record_Mirror a _) = [a]"
| "op_assets (Record_Original a _) = [a]"
| "op_assets (Record_Originals as _) = as"
| "op_assets (Record_Source_Age a _) = [a]"
| "op_assets (Mark_Eligible a) = [a]"
| "op_assets (Approve a _) = [a]"
| "op_assets (Execute a _) = [a]"
| "op_assets (Execute_Token t _) = [pd_asset_id t]"
| "op_assets (Execute_Reconciled t _) = [rc_asset_id t]"
| "op_assets (Stage_Failure a _ _ _) = [a]"
| "op_assets (Recover a _) = [a]"

fun op_keys :: "workflow_op \<Rightarrow> string list" where
  "op_keys (Record_Nas _ _) = [NAS_PROOF]"
| "op_keys (Prove_Nas _ _ _ _ _) = [NAS_PROOF]"
| "op_keys (Record_Adjusted _ _ _) = [ADJUSTED_SOURCE_PROOF]"
| "op_keys (Record_Conversion _ _ _) = [CONVERSION_PROOF]"
| "op_keys (Record_Performance _ _ _) = [CONVERSION_PERFORMANCE_PROOF]"
| "op_keys (Record_Heic _ _ _) = [HEIC_PROOF]"
| "op_keys (Record_Upload _ _) = [UPLOAD_PROOF]"
| "op_keys (Record_Heic_Delete _ _ _) = [UPLOADED_HEIC_DELETE_PROOF]"
| "op_keys (Record_Mirror _ _) = [ICLOUDPD_LOCAL_MIRROR_PROOF, DELETE_ELIGIBILITY_PROOF]"
| "op_keys (Record_Original _ _) = [ORIGINAL_ASSET_PROOF]"
| "op_keys (Record_Originals _ _) = [ORIGINAL_ASSET_PROOF]"
| "op_keys (Record_Source_Age _ _) = [SOURCE_AGE_PROOF]"
| "op_keys (Mark_Eligible _) = [DELETE_ELIGIBILITY_PROOF]"
| "op_keys (Approve _ _) = [DELETE_APPROVAL_PROOF]"
| "op_keys (Execute _ _) = [DELETE_EXECUTION_PROOF]"
| "op_keys (Execute_Token _ _) = [DELETE_EXECUTION_PROOF]"
| "op_keys (Execute_Reconciled _ _) = [DELETE_EXECUTION_PROOF]"
| "op_keys _ = []"

definition touches :: "string list \<Rightarrow> string list \<Rightarrow> 'r manifest \<Rightarrow> 'r manifest \<Rightarrow> bool" where
  "touches as ks m m' \<longleftrightarrow>
     mf_registry m' = mf_registry m
     \<and> (\<forall>b. b \<notin> set as \<longrightarrow> bt_get (mf_records m') b = bt_get (mf_records m) b)
     \<and> (\<forall>b r. bt_get (mf_records m) b = Some r \<longrightarrow>
          (\<exists>r'. bt_get (mf_records m') b = Some r' \<and> ar_asset_id r' = ar_asset_id r \<and> ar_raw_path r' = ar_raw_path r
             \<and> (\<forall>k. k \<notin> set ks \<longrightarrow> get_proof r' k = get_proof r k)))"

lemma touches_refl [simp]: "touches as ks m m"
  by (simp add: touches_def)

lemma touches_trans: "touches as ks m m' \<Longrightarrow> touches as ks m' m'' \<Longrightarrow> touches as ks m m''"
  unfolding touches_def by fastforce

lemma touches_put:
  "bt_get (mf_records m) a = Some r \<Longrightarrow> a \<in> set as \<Longrightarrow> k \<in> set ks \<Longrightarrow>
     touches as ks m (put_record a (with_proof now s k v r) m)"
  by (auto simp: touches_def)

lemma touches_same_proofs:
  "bt_get (mf_records m) a = Some r \<Longrightarrow> ar_asset_id r' = ar_asset_id r \<Longrightarrow> ar_raw_path r' = ar_raw_path r \<Longrightarrow>
     ar_proofs r' = ar_proofs r \<Longrightarrow> touches [a] ks m (put_record a r' m)"
  by (auto simp: touches_def get_proof_def)

lemma discover_touches: "discover_raw_asset w p m a = Inr m' \<Longrightarrow> touches [a] ks m m'"
proof (cases "bt_get (mf_records m) a")
  case None
  assume "discover_raw_asset w p m a = Inr m'"
  with None have "m' = insert_record (sanitize_untrusted_recipe_claims (new_asset_record a p (ww_timestamp w))) m"
    by (auto simp: discover_raw_asset_def upsert_eq_Ok)
  moreover have "ar_asset_id (sanitize_untrusted_recipe_claims (new_asset_record a p now)) = a" for now
    by code_simp
  ultimately show ?thesis using None by (auto simp: touches_def insert_record_def)
qed (auto simp: discover_raw_asset_def bind_ok_eq_Ok)

lemma failure_touches: "record_failure_with_kind now stage message kind m a = Inr m' \<Longrightarrow> touches [a] ks m m'"
  by (auto simp: record_failure_with_kind_eq_Ok put_record_def [symmetric] failure_rel_def
      intro!: touches_same_proofs)

lemma recover_touches: "recover_failed_for_retry now s m a = Inr m' \<Longrightarrow> touches [a] ks m m'"
  by (auto simp: recover_failed_for_retry_eq_Ok put_record_def [symmetric] recover_rel_def
      intro!: touches_same_proofs)

lemma nas_touches: "record_nas_proof w p m a = Inr m' \<Longrightarrow> touches [a] [NAS_PROOF] m m'"
  by (auto simp: record_nas_proof_def change_eq_Ok intro: touches_put)

lemma mirror_touches:
  "record_icloudpd_local_mirror_proof w p m a = Inr m' \<Longrightarrow>
     touches [a] [ICLOUDPD_LOCAL_MIRROR_PROOF, DELETE_ELIGIBILITY_PROOF] m m'"
  by (auto simp: record_icloudpd_local_mirror_proof_def bind_ok_eq_Ok change_eq_Ok touches_def
      split: if_split_asm)

lemma originals_touches:
  "record_original_asset_batch_proofs w as ps m = Inr m' \<Longrightarrow> touches as [ORIGINAL_ASSET_PROOF] m m'"
proof -
  assume "record_original_asset_batch_proofs w as ps m = Inr m'"
  then have "try_fold (\<lambda>a staged.
         bind_ok (ok_or (MissingBatchOriginalAssetProof a) (bt_get ps a)) (\<lambda>p.
         record_original_asset_proof w p staged a)) as m = Inr m'"
    by (auto simp: record_original_asset_batch_proofs_def bind_ok_eq_Ok)
  then show ?thesis
    by (rule try_fold_invariant)
      (auto simp: bind_ok_eq_Ok record_original_asset_proof_def change_eq_Ok
        intro: touches_trans [OF _ touches_put])
qed

lemma conversion_touches:
  "record_conversion_result_with_recipe w i recipe trusted m a = Inr m' \<Longrightarrow> touches [a] [CONVERSION_PROOF] m m'"
  "record_conversion_performance_with_recipe w j recipe trusted m a = Inr m' \<Longrightarrow>
     touches [a] [CONVERSION_PERFORMANCE_PROOF] m m'"
  "record_heic_verification_with_recipe w l recipe trusted m a = Inr m' \<Longrightarrow> touches [a] [HEIC_PROOF] m m'"
  by (auto simp: record_conversion_result_with_recipe_def record_conversion_performance_with_recipe_def
      record_heic_verification_with_recipe_def Let_def bind_ok_eq_Ok change_eq_Ok
      intro: touches_put split: if_split_asm)

lemma upload_touches:
  "record_upload_proof w p m a = Inr m' \<Longrightarrow> touches [a] [UPLOAD_PROOF] m m'"
  "record_adjusted_source_proof w output q m a = Inr m' \<Longrightarrow> touches [a] [ADJUSTED_SOURCE_PROOF] m m'"
  "record_uploaded_heic_delete w resolved outcome m a = Inr m' \<Longrightarrow> touches [a] [UPLOADED_HEIC_DELETE_PROOF] m m'"
  "record_original_asset_proof w oa m a = Inr m' \<Longrightarrow> touches [a] [ORIGINAL_ASSET_PROOF] m m'"
  "record_source_age_proof w sa m a = Inr m' \<Longrightarrow> touches [a] [SOURCE_AGE_PROOF] m m'"
  by (auto simp: record_upload_proof_def record_adjusted_source_proof_def record_uploaded_heic_delete_def
      record_original_asset_proof_def record_source_age_proof_def Let_def bind_ok_eq_Ok change_eq_Ok
      intro: touches_put split: prod.splits)

lemma deletion_touches:
  "mark_delete_eligible w m a = Inr m' \<Longrightarrow> touches [a] [DELETE_ELIGIBILITY_PROOF] m m'"
  "approve_delete w operator m a = Inr m' \<Longrightarrow> touches [a] [DELETE_APPROVAL_PROOF] m m'"
  "record_delete_execution w outcome m a = Inr m' \<Longrightarrow> touches [a] [DELETE_EXECUTION_PROOF] m m'"
  "record_prevalidated_delete_execution w t outcome m = Inr m' \<Longrightarrow>
     touches [pd_asset_id t] [DELETE_EXECUTION_PROOF] m m'"
  "record_reconciled_delete_execution w rt outcome m = Inr m' \<Longrightarrow>
     touches [rc_asset_id rt] [DELETE_EXECUTION_PROOF] m m'"
  by (auto simp: mark_delete_eligible_eq_Ok approve_delete_eq_Ok record_delete_execution_def eligible_record_def
      approved_record_def record_prevalidated_delete_execution_def record_reconciled_delete_execution_def
      bind_ok_eq_Ok change_eq_Ok intro: touches_put)

text \<open>A successful operation touches only the assets it names: the record of every other asset and the
  migration registry stay as they are; and in the records it names it changes no identity, no path and
  no proof but those of its own kind.\<close>

theorem operations_touch_their_own:
  assumes "apply_op w op m = Ok m'"
  shows "touches (op_assets op) (op_keys op) m m'"
  using assms
  by (cases op)
    (auto simp: prove_and_record_nas_def bind_ok_eq_Ok record_current_conversion_result_def record_conversion_result_def
      record_current_conversion_performance_def record_conversion_performance_def
      record_current_heic_verification_def record_heic_verification_def record_stage_failure_def
      record_stage_failure_with_kind_def record_failure_def
      intro: discover_touches nas_touches touches_trans [OF discover_touches nas_touches] conversion_touches
        upload_touches mirror_touches originals_touches deletion_touches failure_touches recover_touches
      split: if_split_asm option.split_asm)

theorem operations_touch_their_own_witness:
  "touches [''a''] [UPLOAD_PROOF] (sample_stage 4) (sample_stage 5)"
  using operations_touch_their_own [of sample_workflow_world "Record_Upload ''a'' sample_upload" "sample_stage 4"]
  by (simp add: sample_upload_step)

end
