(* ===== verification/Workflow_Renewal.thy ===== *)
theory Workflow_Renewal
  imports Workflow_Evidence
begin

section \<open>Renewed evidence\<close>

text \<open>
  The operations of \<open>src/src/workflow.rs\<close> that renew evidence late in the workflow: a mirror recorded
  again under an approval, the reverification of an uploaded asset, and the tokens of a deletion with
  their freshness.
\<close>

subsection \<open>The local mirror\<close>

lemma refreshed_plan:
  assumes r: "bt_get (mf_records m) a = Some r"
    and facts: "validate_pre_delete_facts w m a = Inr facts"
    and m': "m' = put_record a (with_proof now s DELETE_ELIGIBILITY_PROOF (delete_eligibility_json w facts) r) m"
    and approval: "validate_delete_approval_proof w m' a facts = Inr ()"
  shows "validate_stored_delete_plan_proofs w m' a = Inr facts"
proof -
  have "agree chain_keys a m m'"
    unfolding m' by (rule put_agree [OF r]) (simp add: chain_keys_def)
  then have "validate_pre_delete_facts w m' a = Inr facts" using facts by (simp add: agree_pre_delete(1))
  moreover have "validate_delete_eligibility_chain w m' a facts = Inr ()"
    unfolding m' by (simp add: validate_delete_eligibility_chain_def eligibility_of_valid)
  ultimately show ?thesis using approval by (simp add: validate_stored_delete_plan_proofs_def)
qed

text \<open>A mirror recorded again for an approved asset leaves the plan valid: the record stays approved, the
  eligibility proof is made anew for the new mirror, and the stored plan passes its validation with
  the new mirror among its facts.\<close>

theorem mirror_refresh_keeps_plan:
  assumes "record_icloudpd_local_mirror_proof w p m a = Ok m'"
    and "bt_get (mf_records m) a = Some r" and "ar_state r = DeleteApproved"
  shows "\<exists>r' facts. bt_get (mf_records m') a = Some r' \<and> ar_state r' = DeleteApproved
      \<and> validate_stored_delete_plan_proofs w m' a = Ok facts \<and> pf_mirror facts = p"
proof -
  let ?r1 = "with_proof (ww_timestamp w) DeleteApproved ICLOUDPD_LOCAL_MIRROR_PROOF
    (ser_icloudpd_local_mirror_proof p) r"
  let ?m1 = "put_record a ?r1 m"
  from assms obtain facts where facts: "validate_pre_delete_facts w ?m1 a = Inr facts"
    and m': "m' = put_record a (with_proof (ww_timestamp w) DeleteApproved DELETE_ELIGIBILITY_PROOF
      (delete_eligibility_json w facts) ?r1) ?m1"
    and approval: "validate_delete_approval_proof w m' a facts = Inr ()"
    by (auto simp: record_icloudpd_local_mirror_proof_def bind_ok_eq_Ok change_eq_Ok)
  have "validate_stored_delete_plan_proofs w m' a = Inr facts"
    by (rule refreshed_plan [OF _ facts m' approval]) simp
  moreover from facts have "stored_proof de_icloudpd_local_mirror_proof ?m1 a ICLOUDPD_LOCAL_MIRROR_PROOF
      = Inr (pf_mirror facts)"
    by (auto simp: pre_delete_Ok_iff chain_stored_def)
  then have "pf_mirror facts = p" by (simp add: mirror_codec.de_enc)
  ultimately show ?thesis by (simp add: m')
qed

lemma mirror_inputs_ready:
  "mirror_state (ar_state r) \<Longrightarrow> bt_get (mf_records m) a = Some r \<Longrightarrow>
     is_ok (icloudpd_local_mirror_ready_proofs w m a) \<longleftrightarrow> is_ok (validate_icloudpd_local_mirror_inputs w m a)"
  by (auto simp: is_ok_iff icloudpd_local_mirror_ready_proofs_def bind_ok_eq_Ok)

text \<open>The disposition of the local mirror says what can be done: it is \<open>Current\<close> exactly when the stored
  mirror proof passes its validation, and not \<open>Blocked\<close> exactly when conversion, HEIC and upload
  proofs are complete.\<close>

theorem disposition_decides_mirror_work:
  "(mirror_proof_disposition w m a = Current
      \<longleftrightarrow> validate_current_icloudpd_local_mirror_proof w m a = Ok ())
   \<and> (mirror_proof_disposition w m a = Blocked
      \<longleftrightarrow> \<not> is_ok (validate_icloudpd_local_mirror_inputs w m a))"
  by (auto simp: mirror_proof_disposition_def validate_current_icloudpd_local_mirror_proof_def
      validate_candidate_icloudpd_local_mirror_def is_ok_iff bind_ok_eq_Ok split: sum.split prod.splits)

subsection \<open>Freshness\<close>

lemma freshness_Ok:
  "validate_freshness_at t max_age now = Inr u \<longleftrightarrow>
     pd_validated_at t \<le> now \<and> now \<le> pd_validated_at t + int max_age"
  by (auto simp: validate_freshness_at_def validate_prevalidated_delete_freshness_def bind_ok_eq_Ok
      duration_since_def not_less split: if_splits)

text \<open>C37: A token is fresh exactly from the moment of its validation for the given time, ends included: before,
  the clock has moved backwards; after, it has expired. The check before the request also reads the
  RAW file and passes only if its fingerprint is the token's.\<close>

theorem token_is_fresh_for_its_age:
  "(validate_freshness_at t max_age now = Ok () \<longleftrightarrow>
      pd_validated_at t \<le> now \<and> now \<le> pd_validated_at t + int max_age)
   \<and> (validate_freshness_at t max_age now = Err (PrevalidatedDeleteClockMovedBackwards (pd_asset_id t))
      \<longleftrightarrow> now < pd_validated_at t)
   \<and> (validate_live_raw_at ob t max_age now = Ok () \<longleftrightarrow>
      pd_validated_at t \<le> now \<and> now \<le> pd_validated_at t + int max_age
      \<and> (\<exists>live. capture ob (pd_raw_path t) = Ok live \<and> fingerprint_eq live (pd_raw_fingerprint t)))"
proof (intro conjI)
  show "validate_freshness_at t max_age now = Ok () \<longleftrightarrow>
      pd_validated_at t \<le> now \<and> now \<le> pd_validated_at t + int max_age"
    by (rule freshness_Ok)
  show "validate_freshness_at t max_age now = Err (PrevalidatedDeleteClockMovedBackwards (pd_asset_id t))
      \<longleftrightarrow> now < pd_validated_at t"
    by (auto simp: validate_freshness_at_def validate_prevalidated_delete_freshness_def duration_since_def
        fail_if_def)
  show "validate_live_raw_at ob t max_age now = Ok () \<longleftrightarrow>
      pd_validated_at t \<le> now \<and> now \<le> pd_validated_at t + int max_age
      \<and> (\<exists>live. capture ob (pd_raw_path t) = Ok live \<and> fingerprint_eq live (pd_raw_fingerprint t))"
    by (auto simp: validate_live_raw_at_def bind_ok_eq_Ok freshness_Ok)
qed

subsection \<open>Reconciliation\<close>

text \<open>C19: A deletion recorded by reconciliation, for an outcome learnt later, was justified when its token was
  made, and none of its evidence has changed since; the outcome names the token's original record under
  a new change tag. The RAW file is not read again.\<close>

theorem reconciliation_pins_the_evidence:
  assumes "prepare_delete_reconciliation w m0 a = Ok t"
    and "record_reconciled_delete_execution w' t outcome m = Ok m'"
  shows "\<exists>r0 nas conversion performance facts r.
      justified w m0 a r0 nas conversion performance facts
      \<and> bt_get (mf_records m) (ar_asset_id r0) = Some r \<and> ar_state r = DeleteApproved
      \<and> path_eq (ar_raw_path r) (ar_raw_path r0)
      \<and> (\<forall>k\<in>set (plan_keys conversion). get_proof r k = get_proof r0 k)
      \<and> do_record_name outcome = oa_record_name (pf_original facts)
      \<and> do_record_change_tag outcome \<noteq> oa_record_change_tag (pf_original facts)"
proof -
  from assms(1) obtain r0 facts ps where
    r0: "bt_get (mf_records m0) a = Some r0"
    and facts: "validate_stored_delete_plan_proofs w m0 a = Inr facts"
    and ps: "delete_plan_proof_snapshot r0 = Inr ps"
    and t: "rc_asset_id t = ar_asset_id r0" "rc_raw_path t = ar_raw_path r0" "rc_proofs t = ps"
      "rc_request t = delete_request_of (pf_original facts)"
    by (auto simp: prepare_delete_reconciliation_def bind_ok_eq_Ok)
  from stored_plan_justified [OF facts] obtain r' nas conversion performance where
    "justified w m0 a r' nas conversion performance facts" by blast
  with r0 have j: "justified w m0 a r0 nas conversion performance facts" by (metis justified_record)
  from assms(2) obtain r p where r: "bt_get (mf_records m) (ar_asset_id r0) = Some r" "ar_state r = DeleteApproved"
    and token: "validate_delete_token_snapshot r (ar_asset_id r0) (ar_raw_path r0) ps Reconciliation = Inr ()"
    and p: "execution_proof_of (oa_record_name (pf_original facts)) (oa_record_change_tag (pf_original facts))
      (rc_uploaded_heic_asset_id t) outcome = Inr p"
    by (auto simp: record_reconciled_delete_execution_def bind_ok_eq_Ok t delete_request_of_def)
  show ?thesis
    using j r p token_evidence [OF j ps token] by (auto simp: execution_proof_Ok intro!: exI)
qed

subsection \<open>Instances\<close>

lemma sample_mirror_inputs:
  "validate_icloudpd_local_mirror_inputs sample_workflow_world sample_approved ''a''
     = Inr (sample_upload, sample_heic, ''/h/a.heic'')"
proof -
  from sample_plan_Ok have facts: "validate_pre_delete_facts sample_workflow_world sample_approved ''a'' = Inr sample_facts"
    by (auto simp: validate_stored_delete_plan_proofs_def bind_ok_eq_Ok)
  from pre_delete_performance [OF facts] obtain nas conversion where
    performance: "require_valid_conversion_performance sample_workflow_world sample_approved ''a'' = Inr (nas, conversion)"
    by blast
  from facts obtain r nas' conversion' performance' where
    "chain_stored sample_approved ''a'' nas' conversion' performance' sample_facts"
    "chain_linked r nas' conversion' performance' sample_facts" by (auto simp: pre_delete_Ok_iff)
  then have stored: "stored_proof de_heic_verification_proof sample_approved ''a'' HEIC_PROOF = Inr sample_heic"
    "stored_proof de_upload_proof sample_approved ''a'' UPLOAD_PROOF = Inr sample_upload"
    "stored_proof de_conversion_result_proof sample_approved ''a'' CONVERSION_PROOF = Inr conversion'"
    and linked: "heic_of_conversion conversion' sample_heic = Inr ()"
    "validate_heic_verification_flags sample_heic = Inr ()"
    by (auto simp: chain_stored_def chain_linked_def heic_linked_def heic_conversion_Ok sample_facts_def)
  have "conversion = conversion'"
    using performance stored(3) by (auto simp: valid_performance_Ok context_Ok)
  moreover have "uploaded_path_of_heic sample_upload sample_heic = Inr ''/h/a.heic''"
    using sample_chain_linked by (simp add: uploaded_path_Ok chain_linked_def heic_linked_def sample_facts_def)
  ultimately show ?thesis
    unfolding validate_icloudpd_local_mirror_inputs_def using performance stored linked
    by (simp add: bind_ok_eq_Ok)
qed

lemma sample_mirror_again:
  "\<exists>m'. record_icloudpd_local_mirror_proof sample_workflow_world sample_mirror sample_approved ''a'' = Ok m'"
proof -
  let ?r1 = "with_proof ''1'' DeleteApproved ICLOUDPD_LOCAL_MIRROR_PROOF
    (ser_icloudpd_local_mirror_proof sample_mirror) sample_approved_record"
  have same: "get_proof sample_approved_record ICLOUDPD_LOCAL_MIRROR_PROOF
      = Some (ser_icloudpd_local_mirror_proof sample_mirror)"
    by (simp add: sample_approved_record_def approved_record_def sample_eligible_record_def eligible_record_def
        sample_get_proof sample_proofs_def)
  let ?m1 = "put_record ''a'' ?r1 sample_approved"
  have agree: "agree UNIV ''a'' sample_approved ?m1" using same by (auto simp: agree_def)
  have plan: "validate_stored_delete_plan_proofs sample_workflow_world sample_approved ''a'' = Inr sample_facts"
    by (rule sample_plan_Ok)
  then have facts: "validate_pre_delete_facts sample_workflow_world ?m1 ''a'' = Inr sample_facts"
    using agree_pre_delete(1) [OF agree_subset [OF agree subset_UNIV]]
    by (auto simp: validate_stored_delete_plan_proofs_def bind_ok_eq_Ok)
  let ?m2 = "put_record ''a'' (with_proof ''1'' DeleteApproved DELETE_ELIGIBILITY_PROOF
    (delete_eligibility_json sample_workflow_world sample_facts) ?r1) ?m1"
  have approval: "stored_proof de_delete_approval_proof ?m2 ''a'' DELETE_APPROVAL_PROOF
      = Inr (approval_proof_of sample_workflow_world (trim ''op'') sample_facts)"
    by (simp add: stored_proof_eq_Ok sample_approved_record_def approved_record_def approval_codec.de_enc)
  have "validate_delete_approval_proof sample_workflow_world ?m2 ''a'' sample_facts = Inr ()"
    unfolding validate_delete_approval_proof_def approval bind_ok_simps
    using sample_operator by (simp add: approval_proof_of_def sample_facts_def)
  moreover have "validate_candidate_icloudpd_local_mirror sample_workflow_world sample_approved ''a'' sample_mirror = Inr ()"
    using sample_chain_linked
    by (simp add: validate_candidate_icloudpd_local_mirror_def sample_mirror_inputs chain_linked_def heic_linked_def
        sample_facts_def validate_icloudpd_local_mirror_proof_def Let_def bind_ok_eq_Ok) (simp add: sample_defs byte_def)
  ultimately have "record_icloudpd_local_mirror_proof sample_workflow_world sample_mirror sample_approved ''a'' = Inr ?m2"
    using facts
    by (simp add: record_icloudpd_local_mirror_proof_def bind_ok_eq_Ok change_eq_Ok mirror_state_def)
  then show ?thesis by blast
qed

theorem mirror_refresh_keeps_plan_witness:
  "\<exists>m' facts. record_icloudpd_local_mirror_proof sample_workflow_world sample_mirror sample_approved ''a'' = Ok m'
     \<and> validate_stored_delete_plan_proofs sample_workflow_world m' ''a'' = Ok facts \<and> pf_mirror facts = sample_mirror"
proof -
  from sample_mirror_again obtain m' where m': "record_icloudpd_local_mirror_proof sample_workflow_world
      sample_mirror sample_approved ''a'' = Ok m'" ..
  from mirror_refresh_keeps_plan [OF m', of sample_approved_record] m' show ?thesis by auto
qed

lemma sample_reconciled:
  "\<exists>t m'. prepare_delete_reconciliation sample_workflow_world sample_approved ''a'' = Ok t
     \<and> record_reconciled_delete_execution sample_workflow_world t sample_delete_outcome sample_approved = Ok m'"
proof -
  from sample_snapshot obtain ps where ps: "delete_plan_proof_snapshot sample_approved_record = Inr ps" ..
  have id: "ar_asset_id sample_approved_record = ''a''"
    by (simp add: sample_approved_record_def approved_record_def sample_eligible_record_def eligible_record_def
        sample_uploaded_record_def new_asset_record_def)
  let ?t = "\<lparr>rc_asset_id = ''a'', rc_raw_path = ar_raw_path sample_approved_record,
    rc_request = delete_request_of sample_original_proof,
    rc_uploaded_heic_asset_id = up_uploaded_heic_asset_id sample_upload, rc_proofs = ps\<rparr>"
  have t: "prepare_delete_reconciliation sample_workflow_world sample_approved ''a'' = Inr ?t"
    unfolding prepare_delete_reconciliation_def sample_get_approved sample_plan_Ok bind_ok_simps ps
    by (simp add: id sample_facts_def)
  have "validate_delete_token_snapshot sample_approved_record ''a'' (ar_raw_path sample_approved_record) ps
      Reconciliation = Inr ()"
    using ps token_matches [OF ps, of sample_approved_record] by simp
  then have "\<exists>m'. record_reconciled_delete_execution sample_workflow_world ?t sample_delete_outcome sample_approved
      = Inr m'"
    unfolding record_reconciled_delete_execution_def using sample_execution_Ok
    by (auto simp: bind_ok_eq_Ok change_eq_Ok allows_def delete_request_of_def)
  with t show ?thesis by blast
qed

theorem reconciliation_pins_the_evidence_witness:
  "\<exists>t m' (facts :: pre_delete_facts). prepare_delete_reconciliation sample_workflow_world sample_approved ''a'' = Ok t
     \<and> record_reconciled_delete_execution sample_workflow_world t sample_delete_outcome sample_approved = Ok m'
     \<and> do_record_name sample_delete_outcome = oa_record_name (pf_original facts)"
proof -
  from sample_reconciled obtain t and m' :: "unit manifest" where
    t: "prepare_delete_reconciliation sample_workflow_world sample_approved ''a'' = Ok t"
    "record_reconciled_delete_execution sample_workflow_world t sample_delete_outcome sample_approved = Ok m'"
    by blast
  with reconciliation_pins_the_evidence [OF t] show ?thesis by blast
qed

end
