(* ===== verification/Workflow_Recipes.thy ===== *)
theory Workflow_Recipes
  imports Workflow_Renewal
begin

section \<open>Batches, recipes and reverification\<close>

text \<open>
  The batch of original assets of \<open>src/src/workflow.rs\<close>, the recorders without trust in the recipe, and
  the reverification that brings an uploaded record to the current recipe.
\<close>

subsection \<open>The batch of original assets\<close>

lemma unique_records_Ok:
  "validate_unique_records as ps seen = Inr u \<longleftrightarrow>
     (\<forall>a\<in>set as. bt_get ps a \<noteq> None) \<and> distinct (map (\<lambda>a. oa_record_name (the (bt_get ps a))) as)
     \<and> (\<forall>a\<in>set as. oa_record_name (the (bt_get ps a)) \<notin> seen)"
proof (induction as arbitrary: seen)
  case (Cons a as)
  show ?case
  proof (cases "bt_get ps a")
    case (Some p)
    have "(\<forall>b\<in>set as. oa_record_name (the (bt_get ps b)) \<notin> insert (oa_record_name p) seen) \<longleftrightarrow>
        oa_record_name p \<notin> (\<lambda>a. oa_record_name (the (bt_get ps a))) ` set as
        \<and> (\<forall>b\<in>set as. oa_record_name (the (bt_get ps b)) \<notin> seen)" by (auto simp: image_iff)
    with Cons.IH [of "insert (oa_record_name p) seen"] Some show ?thesis by (simp split: if_split) blast
  qed simp
qed simp

definition original_record :: "workflow_world \<Rightarrow> original_asset_proof \<Rightarrow> asset_record \<Rightarrow> asset_record" where
  "original_record w p r =
     with_proof (ww_timestamp w) (ar_state r) ORIGINAL_ASSET_PROOF (ser_original_asset_proof p) r"

lemma originals_loop:
  assumes "try_fold (\<lambda>a staged.
      bind_ok (ok_or (MissingBatchOriginalAssetProof a) (bt_get ps a)) (\<lambda>p.
      record_original_asset_proof w p staged a)) as m = Inr m'"
    and "distinct as"
  shows "(\<forall>a\<in>set as. \<exists>r p nas. bt_get (mf_records m) a = Some r \<and> bt_get ps a = Some p
             \<and> stored_proof de_nas_raw_proof m a NAS_PROOF = Inr nas \<and> validate_original_asset_proof p nas = Inr ()
             \<and> bt_get (mf_records m') a = Some (original_record w p r))
       \<and> (\<forall>a. a \<notin> set as \<longrightarrow> bt_get (mf_records m') a = bt_get (mf_records m) a)"
  using assms
proof (induction as arbitrary: m)
  case (Cons a as)
  then obtain p m1 where p: "bt_get ps a = Some p" and m1: "record_original_asset_proof w p m a = Inr m1"
    and rest: "try_fold (\<lambda>a staged.
      bind_ok (ok_or (MissingBatchOriginalAssetProof a) (bt_get ps a)) (\<lambda>p.
      record_original_asset_proof w p staged a)) as m1 = Inr m'"
    by (auto simp: try_fold_Cons_eq_Ok bind_ok_eq_Ok)
  from m1 obtain r nas where r: "bt_get (mf_records m) a = Some r" "m1 = put_record a (original_record w p r) m"
    "stored_proof de_nas_raw_proof m a NAS_PROOF = Inr nas" "validate_original_asset_proof p nas = Inr ()"
    by (auto simp: record_original_asset_proof_def bind_ok_eq_Ok change_eq_Ok original_record_def)
  have other: "stored_proof de_nas_raw_proof m1 b NAS_PROOF = stored_proof de_nas_raw_proof m b NAS_PROOF"
    if "b \<noteq> a" for b
    using that r(2) by (simp add: stored_proof_def require_proof_def wf_get_def manifest_get_def)
  have get: "bt_get (mf_records m1) b = (if b = a then Some (original_record w p r) else bt_get (mf_records m) b)" for b
    by (simp add: r(2))
  from Cons.prems(2) have "a \<notin> set as" "distinct as" by auto
  note IH = Cons.IH [OF rest this(2)]
  show ?case
  proof (intro conjI ballI allI impI)
    fix b assume b: "b \<in> set (a # as)"
    show "\<exists>r p nas. bt_get (mf_records m) b = Some r \<and> bt_get ps b = Some p
             \<and> stored_proof de_nas_raw_proof m b NAS_PROOF = Inr nas \<and> validate_original_asset_proof p nas = Inr ()
             \<and> bt_get (mf_records m') b = Some (original_record w p r)"
    proof (cases "b = a")
      case True
      with r p IH \<open>a \<notin> set as\<close> get [of a] show ?thesis by auto
    next
      case False
      with b have "b \<in> set as" by simp
      from bspec [OF conjunct1 [OF IH] this] show ?thesis
        unfolding get other [OF False] using False by simp
    qed
  next
    fix b assume "b \<notin> set (a # as)"
    with IH get [of b] show "bt_get (mf_records m') b = bt_get (mf_records m) b" by simp
  qed
qed simp

text \<open>A batch of original assets is recorded as a whole: when it succeeds, the proofs given are for
  exactly the assets asked for, each once and each for a different remote record; every asset of the
  batch then holds its own proof, valid for its RAW file, and nothing else has changed.\<close>

theorem batch_is_all_or_nothing:
  assumes "record_original_asset_batch_proofs w as ps m = Ok m'"
  shows "distinct as \<and> set as = set (bt_keys ps)
    \<and> distinct (map (\<lambda>a. oa_record_name (the (bt_get ps a))) as)
    \<and> (\<forall>a\<in>set as. \<exists>r p nas. bt_get (mf_records m) a = Some r \<and> bt_get ps a = Some p
         \<and> stored_proof de_nas_raw_proof m a NAS_PROOF = Ok nas \<and> validate_original_asset_proof p nas = Ok ()
         \<and> bt_get (mf_records m') a = Some (original_record w p r))
    \<and> (\<forall>a. a \<notin> set as \<longrightarrow> bt_get (mf_records m') a = bt_get (mf_records m) a)"
proof -
  from assms have sets: "set as = set (bt_keys ps)"
    and unique: "validate_unique_records as ps {} = Inr ()"
    and loop: "try_fold (\<lambda>a staged.
      bind_ok (ok_or (MissingBatchOriginalAssetProof a) (bt_get ps a)) (\<lambda>p.
      record_original_asset_proof w p staged a)) as m = Inr m'"
    by (auto simp: record_original_asset_batch_proofs_def bind_ok_eq_Ok checks_eq_Ok_iff bt_contains_keys)
  from unique have names: "distinct (map (\<lambda>a. oa_record_name (the (bt_get ps a))) as)"
    by (simp add: unique_records_Ok)
  then have "distinct as" by (simp add: distinct_map)
  with sets names originals_loop [OF loop this] show ?thesis by blast
qed

lemma sample_original_valid: "validate_original_asset_proof sample_original_proof sample_nas_proof = Inr ()"
  using sample_chain_linked by (simp add: original_Ok chain_linked_def raw_linked_def sample_facts_def)

lemma batch_of_one:
  assumes "bt_get ps a = Some p" and "bt_keys ps = [a]" and "record_original_asset_proof w p m a = Inr m'"
  shows "record_original_asset_batch_proofs w [a] ps m = Inr m'"
  using assms by (simp add: record_original_asset_batch_proofs_def bt_contains_def try_fold.simps(2))

lemma sample_originals_Ok:
  "\<exists>m'. record_original_asset_batch_proofs sample_workflow_world [''a''] [(''a'', sample_original_proof)] sample_uploaded
     = Ok m'"
proof -
  have "stored_proof de_nas_raw_proof sample_uploaded ''a'' NAS_PROOF = Inr sample_nas_proof"
    using sample_chain_stored by (simp add: chain_stored_def)
  then obtain m' where "record_original_asset_proof sample_workflow_world sample_original_proof sample_uploaded ''a'' = Inr m'"
    by (auto simp: record_original_asset_proof_def bind_ok_eq_Ok sample_original_valid change_eq_Ok)
  from batch_of_one [OF _ _ this, of "[(''a'', sample_original_proof)]"] show ?thesis
    by (auto simp: bt_get_def bt_keys_def)
qed

theorem batch_is_all_or_nothing_witness:
  "\<exists>m'. record_original_asset_batch_proofs sample_workflow_world [''a''] [(''a'', sample_original_proof)] sample_uploaded
       = Ok m'
     \<and> bt_get (mf_records m') ''a'' = Some (original_record sample_workflow_world sample_original_proof
          sample_uploaded_record)"
proof -
  from sample_originals_Ok obtain m' where m': "record_original_asset_batch_proofs sample_workflow_world [''a'']
    [(''a'', sample_original_proof)] sample_uploaded = Ok m'" ..
  note each = conjunct1 [OF conjunct2 [OF conjunct2 [OF conjunct2 [OF batch_is_all_or_nothing [OF m']]]]]
  have "''a'' \<in> set [''a'']" by simp
  from bspec [OF each this] obtain r p where
    "bt_get (mf_records sample_uploaded) ''a'' = Some r" "bt_get [(''a'', sample_original_proof)] ''a'' = Some p"
    "bt_get (mf_records m') ''a'' = Some (original_record sample_workflow_world p r)" by blast
  moreover have "bt_get [(''a'', sample_original_proof)] ''a'' = Some sample_original_proof" by (simp add: bt_get_def)
  ultimately show ?thesis using m' by simp
qed

subsection \<open>Recorders without trust\<close>

text \<open>A claim already empty stays as it is.\<close>

lemma bt_insert_present:
  assumes "bt_valid m" and "bt_get m k = Some v"
  shows "bt_insert k v m = m"
  using assms by (intro bt_canonical) (auto simp: fun_eq_iff)

lemma sanitize_empty_claim:
  assumes "bt_get (bt_from kvs) ''conversion_recipe_id'' = Some (JString [])"
  shows "sanitize_untrusted_recipe_claim k (jobject kvs) = jobject kvs"
  using assms by (simp add: sanitize_untrusted_recipe_claim_def jobject_def bt_insert_present)

lemma untrusted_values:
  "cp_conversion_recipe_id cp = [] \<Longrightarrow>
     sanitize_untrusted_recipe_claim k (ser_conversion_result_proof cp) = ser_conversion_result_proof cp"
  "pp_conversion_recipe_id pp = [] \<Longrightarrow>
     sanitize_untrusted_recipe_claim k (ser_conversion_performance_proof pp) = ser_conversion_performance_proof pp"
  "hp_conversion_recipe_id hp = [] \<Longrightarrow>
     sanitize_untrusted_recipe_claim k (ser_heic_verification_proof hp) = ser_heic_verification_proof hp"
proof -
  show "cp_conversion_recipe_id cp = [] \<Longrightarrow>
     sanitize_untrusted_recipe_claim k (ser_conversion_result_proof cp) = ser_conversion_result_proof cp"
    unfolding ser_conversion_result_proof_def
    by (rule sanitize_empty_claim) (simp add: bt_get_from)
  show "pp_conversion_recipe_id pp = [] \<Longrightarrow>
     sanitize_untrusted_recipe_claim k (ser_conversion_performance_proof pp) = ser_conversion_performance_proof pp"
    unfolding ser_conversion_performance_proof_def
    by (rule sanitize_empty_claim, simp only: bt_get_from map_of_rev_distinct [OF performance_fields_distinct])
      (simp add: performance_fields_def)
  show "hp_conversion_recipe_id hp = [] \<Longrightarrow>
     sanitize_untrusted_recipe_claim k (ser_heic_verification_proof hp) = ser_heic_verification_proof hp"
    unfolding ser_heic_verification_proof_def
    by (rule sanitize_empty_claim, simp only: bt_get_from map_of_rev_distinct [OF heic_proof_fields_distinct])
      (simp add: heic_proof_fields_def)
qed

definition is_untrusted_recorder :: "workflow_op \<Rightarrow> bool" where
  "is_untrusted_recorder op =
     (case op of
        Record_Conversion current _ _ \<Rightarrow> \<not> current
      | Record_Performance current _ _ \<Rightarrow> \<not> current
      | Record_Heic current _ _ \<Rightarrow> \<not> current
      | _ \<Rightarrow> False)"

text \<open>Whoever reads the replacement needs the current recipe in all three proofs.\<close>

definition recipe_current :: "'r manifest \<Rightarrow> string \<Rightarrow> bool" where
  "recipe_current m a \<longleftrightarrow>
     (\<exists>c p. stored_proof de_conversion_result_proof m a CONVERSION_PROOF = Ok c
        \<and> cp_conversion_recipe_id c = EMBEDDED_PREVIEW_CONVERSION_RECIPE
        \<and> stored_proof de_conversion_performance_proof m a CONVERSION_PERFORMANCE_PROOF = Ok p
        \<and> pp_conversion_recipe_id p = EMBEDDED_PREVIEW_CONVERSION_RECIPE)
     \<and> (\<exists>h. stored_proof de_heic_verification_proof m a HEIC_PROOF = Ok h
        \<and> hp_conversion_recipe_id h = EMBEDDED_PREVIEW_CONVERSION_RECIPE)"

lemma readers_need_recipe:
  "upload_ready_heic_proof w m a = Inr x \<Longrightarrow> recipe_current m a"
  "record_upload_proof w p m a = Inr m' \<Longrightarrow> recipe_current m a"
  "validate_pre_delete_facts w m a = Inr facts \<Longrightarrow> recipe_current m a"
  by (auto simp: upload_ready_heic_proof_def record_upload_proof_def recipe_current_def bind_ok_eq_Ok
      valid_performance_Ok stored_performance_Ok context_Ok pre_delete_Ok_iff chain_stored_def chain_linked_def)

lemma recorder_leaves_no_recipe:
  assumes "apply_op w op m = Inr m'" and "is_untrusted_recorder op"
  shows "\<forall>a\<in>set (op_assets op). \<not> recipe_current m' a"
proof (cases op)
  case (Record_Conversion current a i)
  let ?c = "\<lparr>cp_heic_path = ci_heic_path i, cp_heic_sha256 = ci_heic_sha256 i, cp_size_bytes = ci_size_bytes i,
    cp_conversion_recipe_id = [], cp_source_binding = ci_source_binding i\<rparr>"
  from Record_Conversion assms obtain r where
    "m' = put_record a (with_proof (ww_timestamp w) Converted CONVERSION_PROOF (ser_conversion_result_proof ?c) r) m"
    by (auto simp: is_untrusted_recorder_def record_conversion_result_def record_conversion_result_with_recipe_def
        Let_def bind_ok_eq_Ok change_eq_Ok untrusted_values)
  with Record_Conversion show ?thesis
    by (simp add: recipe_current_def conversion_codec.de_enc model_defs)
next
  case (Record_Performance current a i)
  let ?p = "\<lambda>nas conversion. \<lparr>pp_schema_version = CONVERSION_PERFORMANCE_SCHEMA_VERSION,
    pp_measured_at_unix_seconds = pi_measured_at_unix_seconds i,
    pp_measurement_method = CONVERSION_PERFORMANCE_MEASUREMENT_METHOD,
    pp_conversion_tool = pi_conversion_tool i, pp_conversion_recipe_id = [],
    pp_conversion_tool_version = pi_conversion_tool_version i,
    pp_heic_quality = pi_heic_quality i, pp_raw_size_bytes = nr_size_bytes nas,
    pp_heic_size_bytes = cp_size_bytes conversion,
    pp_convert_wall_time_millis = pi_convert_wall_time_millis i,
    pp_total_wall_time_millis = pi_total_wall_time_millis i,
    pp_user_cpu_time_millis = pi_user_cpu_time_millis i,
    pp_system_cpu_time_millis = pi_system_cpu_time_millis i,
    pp_peak_rss_kib = pi_peak_rss_kib i,
    pp_conversion_command_timings = pi_conversion_command_timings i\<rparr>"
  from Record_Performance assms obtain nas :: nas_raw_proof and conversion :: conversion_result_proof and s r where
    "m' = put_record a (with_proof (ww_timestamp w) s CONVERSION_PERFORMANCE_PROOF
      (ser_conversion_performance_proof (?p nas conversion)) r) m"
    by (auto simp: is_untrusted_recorder_def record_conversion_performance_def
        record_conversion_performance_with_recipe_def Let_def bind_ok_eq_Ok change_eq_Ok untrusted_values)
  with Record_Performance show ?thesis
    by (simp add: recipe_current_def performance_codec.de_enc model_defs)
next
  case (Record_Heic current a i)
  with assms obtain r where
    "m' = put_record a (with_proof (ww_timestamp w) ConversionVerified HEIC_PROOF
      (ser_heic_verification_proof (heic_proof_of [] i)) r) m"
    by (auto simp: is_untrusted_recorder_def record_heic_verification_def heic_proof_of_def
        record_heic_verification_with_recipe_def Let_def bind_ok_eq_Ok change_eq_Ok untrusted_values)
  with Record_Heic show ?thesis
    by (simp add: recipe_current_def heic_codec.de_enc heic_proof_of_def model_defs)
qed (use assms in \<open>simp_all add: is_untrusted_recorder_def\<close>)

text \<open>A conversion, a measurement or a verification recorded without trust in its recipe never leads on:
  right after it, the asset is not ready for upload, no upload can be recorded for it and it does not
  pass the validation before a deletion.\<close>

theorem untrusted_evidence_is_not_uploaded:
  assumes "apply_op w op m = Ok m'" and "is_untrusted_recorder op" and "a \<in> set (op_assets op)"
  shows "\<not> is_ok (upload_ready_heic_proof w' m' a) \<and> \<not> is_ok (record_upload_proof w' p m' a)
    \<and> \<not> is_ok (validate_pre_delete_facts w' m' a)"
proof -
  have "\<not> recipe_current m' a" using recorder_leaves_no_recipe [OF assms(1,2)] assms(3) by blast
  then show ?thesis
    using readers_need_recipe(1) [of w' m' a] readers_need_recipe(2) [of w' p m' a]
      readers_need_recipe(3) [of w' m' a]
    by (auto simp: is_ok_iff)
qed

lemma sample_untrusted_Ok:
  "\<exists>m'. apply_op sample_workflow_world (Record_Conversion False ''a'' sample_conversion_input) (sample_stage (Suc 0)) = Ok m'"
proof -
  have "\<exists>m'. transition_with_proof sample_workflow_world Converted CONVERSION_PROOF v (sample_stage (Suc 0)) ''a'' = Inr m'"
    for v
    unfolding change_eq_Ok by (auto simp: allows_def)
  moreover have "ci_heic_path sample_conversion_input \<noteq> []" "\<not> is_blank (ci_heic_sha256 sample_conversion_input)"
    "ci_source_binding sample_conversion_input = EmbeddedPreview"
    by (simp_all add: sample_conversion_input_def byte_def)
  ultimately show ?thesis
    by (simp add: record_conversion_result_def record_conversion_result_with_recipe_def Let_def bind_ok_eq_Ok
        sample_binding)
qed

theorem untrusted_evidence_is_not_uploaded_witness:
  "\<exists>m'. apply_op sample_workflow_world (Record_Conversion False ''a'' sample_conversion_input) (sample_stage (Suc 0)) = Ok m'
     \<and> \<not> is_ok (upload_ready_heic_proof sample_workflow_world m' ''a'')"
proof -
  from sample_untrusted_Ok obtain m' where m': "apply_op sample_workflow_world
    (Record_Conversion False ''a'' sample_conversion_input) (sample_stage (Suc 0)) = Ok m'" ..
  have "is_untrusted_recorder (Record_Conversion False ''a'' sample_conversion_input)"
    "''a'' \<in> set (op_assets (Record_Conversion False ''a'' sample_conversion_input))"
    by (simp_all add: is_untrusted_recorder_def)
  from untrusted_evidence_is_not_uploaded [OF m' this] m' show ?thesis by blast
qed

subsection \<open>Reverification\<close>

lemma refresh_recipe_eq_Ok:
  "refresh_recipe w a k m = Inr m' \<longleftrightarrow>
     (\<exists>r v v'. bt_get (mf_records m) a = Some r \<and> unreserved r \<and> k \<noteq> RESERVED_PROOF_NAME
        \<and> get_proof r k = Some v \<and> assign_recipe v = Inr v'
        \<and> m' = put_record a (with_proof (ww_timestamp w) (ar_state r) k v' r) m)"
  by (auto simp: refresh_recipe_def bind_ok_eq_Ok change_eq_Ok)

text \<open>What reverification writes for a record: two claims assigned, the verification replaced.\<close>

definition reverified :: "workflow_world \<Rightarrow> heic_verification_proof \<Rightarrow> json \<Rightarrow> json \<Rightarrow> asset_record \<Rightarrow> asset_record" where
  "reverified w heic c p r =
     with_proof (ww_timestamp w) (ar_state r) HEIC_PROOF (ser_heic_verification_proof heic)
       (with_proof (ww_timestamp w) (ar_state r) CONVERSION_PERFORMANCE_PROOF p
         (with_proof (ww_timestamp w) (ar_state r) CONVERSION_PROOF c r))"

definition recipe_keys :: "string set" where
  "recipe_keys = {CONVERSION_PROOF, CONVERSION_PERFORMANCE_PROOF, HEIC_PROOF}"

lemma reverified_simps [simp]:
  "ar_state (reverified w heic c p r) = ar_state r" "ar_asset_id (reverified w heic c p r) = ar_asset_id r"
  "ar_raw_path (reverified w heic c p r) = ar_raw_path r" "ar_failures (reverified w heic c p r) = ar_failures r"
  "get_proof (reverified w heic c p r) k =
     (if k = HEIC_PROOF then Some (ser_heic_verification_proof heic)
      else if k = CONVERSION_PERFORMANCE_PROOF then Some p
      else if k = CONVERSION_PROOF then Some c else get_proof r k)"
  "unreserved (reverified w heic c p r) \<longleftrightarrow> unreserved r"
  by (simp_all add: reverified_def)

lemma snapshot_eq_Ok:
  "snapshot_record m a = Inr c \<longleftrightarrow>
     (\<exists>r. bt_get (mf_records m) a = Some r \<and> unreserved r \<and> c = put_record (ar_asset_id r) r new_manifest)"
  by (auto simp: snapshot_record_def bind_ok_eq_Ok manifest_get_eq_Ok upsert_trusted_eq_Ok insert_record_def
      put_record_def new_manifest_def)

lemma agree_same_record:
  "bt_get (mf_records m) a = Some r \<Longrightarrow> bt_get (mf_records m') a = Some r' \<Longrightarrow> ar_asset_id r' = ar_asset_id r \<Longrightarrow>
     ar_raw_path r' = ar_raw_path r \<Longrightarrow> \<forall>k\<in>ks. get_proof r' k = get_proof r k \<Longrightarrow> agree ks a m m'"
  by (auto simp: agree_def)

lemma reverify_eq_Ok:
  "reverify_upload_verified_record w i m a = Inr r' \<longleftrightarrow>
     (\<exists>r v c v' p conversion facts. bt_get (mf_records m) a = Some r \<and> ar_state r = UploadVerified \<and> unreserved r
        \<and> ar_asset_id r = a
        \<and> stored_proof de_conversion_result_proof m a CONVERSION_PROOF = Inr conversion
        \<and> heic_of_conversion conversion (heic_proof_of EMBEDDED_PREVIEW_CONVERSION_RECIPE i) = Inr ()
        \<and> heic_flags_ok (heic_proof_of EMBEDDED_PREVIEW_CONVERSION_RECIPE i)
        \<and> get_proof r CONVERSION_PROOF = Some v \<and> assign_recipe v = Inr c
        \<and> get_proof r CONVERSION_PERFORMANCE_PROOF = Some v' \<and> assign_recipe v' = Inr p
        \<and> validate_pre_delete_facts w (put_record a
              (reverified w (heic_proof_of EMBEDDED_PREVIEW_CONVERSION_RECIPE i) c p r) m) a = Inr facts
        \<and> r' = (let d = reverified w (heic_proof_of EMBEDDED_PREVIEW_CONVERSION_RECIPE i) c p r in
                if reverify_owned_proofs_are_current r d then r else d))" (is "?lhs \<longleftrightarrow> ?rhs")
proof -
  let ?heic = "heic_proof_of EMBEDDED_PREVIEW_CONVERSION_RECIPE i"
  have same: "validate_pre_delete_facts w (put_record a (reverified w ?heic c p r) m') a
      = validate_pre_delete_facts w (put_record a (reverified w ?heic c p r) m) a" for c p r and m' :: "'a manifest"
    by (rule agree_pre_delete(1), rule agree_same_record) auto
  have candidate: "(\<exists>c1 c2. refresh_recipe w a CONVERSION_PROOF (put_record (ar_asset_id r) r n) = Inr c1
        \<and> refresh_recipe w a CONVERSION_PERFORMANCE_PROOF c1 = Inr c2
        \<and> insert_trusted_workflow_proof w HEIC_PROOF (ser_heic_verification_proof ?heic) c2 a = Inr m')
      \<longleftrightarrow> (\<exists>v c v' p. unreserved r \<and> get_proof r CONVERSION_PROOF = Some v \<and> assign_recipe v = Inr c
        \<and> get_proof r CONVERSION_PERFORMANCE_PROOF = Some v' \<and> assign_recipe v' = Inr p
        \<and> m' = put_record a (reverified w ?heic c p r) n)"
    if "ar_asset_id r = a" for r and n m' :: "'a manifest"
    using that by (auto simp: refresh_recipe_eq_Ok change_eq_Ok reverified_def)
  have other: "refresh_recipe w a CONVERSION_PROOF (put_record (ar_asset_id r) r new_manifest) \<noteq> Inr c1"
    if "ar_asset_id r \<noteq> a" for r and c1 :: "'a manifest"
    using that by (auto simp: refresh_recipe_eq_Ok new_manifest_def)
  show ?thesis
  proof
    assume ?lhs
    then obtain r conversion and c1 c2 n :: "'a manifest" and facts d where
      r: "bt_get (mf_records m) a = Some r" "ar_state r = UploadVerified" "unreserved r"
      and conversion: "stored_proof de_conversion_result_proof m a CONVERSION_PROOF = Inr conversion"
        "heic_of_conversion conversion ?heic = Inr ()" "heic_flags_ok ?heic"
      and c: "refresh_recipe w a CONVERSION_PROOF (put_record (ar_asset_id r) r new_manifest) = Inr c1"
        "refresh_recipe w a CONVERSION_PERFORMANCE_PROOF c1 = Inr c2"
        "insert_trusted_workflow_proof w HEIC_PROOF (ser_heic_verification_proof ?heic) c2 a = Inr n"
      and facts: "validate_pre_delete_facts w n a = Inr facts"
      and d: "bt_get (mf_records n) a = Some d" "r' = (if reverify_owned_proofs_are_current r d then r else d)"
      by (auto simp: reverify_upload_verified_record_def Let_def bind_ok_eq_Ok snapshot_eq_Ok)
    from c have steps: "\<exists>c1 c2. refresh_recipe w a CONVERSION_PROOF (put_record (ar_asset_id r) r new_manifest) = Inr c1
        \<and> refresh_recipe w a CONVERSION_PERFORMANCE_PROOF c1 = Inr c2
        \<and> insert_trusted_workflow_proof w HEIC_PROOF (ser_heic_verification_proof ?heic) c2 a = Inr n" by blast
    have id: "ar_asset_id r = a" using c(1) other by blast
    from steps [unfolded candidate [OF id]] obtain v c v' p where
      "get_proof r CONVERSION_PROOF = Some v" "assign_recipe v = Inr c"
      "get_proof r CONVERSION_PERFORMANCE_PROOF = Some v'" "assign_recipe v' = Inr p"
      and n: "n = put_record a (reverified w ?heic c p r) new_manifest" by blast
    moreover have "d = reverified w ?heic c p r" using d(1) by (simp add: n)
    moreover have "validate_pre_delete_facts w (put_record a (reverified w ?heic c p r) m) a = Inr facts"
      using facts same [of c p r new_manifest] unfolding n by simp
    ultimately show ?rhs
      using r id conversion d(2) unfolding Let_def by blast
  next
    assume ?rhs
    then obtain r v c v' p conversion facts where r: "bt_get (mf_records m) a = Some r" "ar_state r = UploadVerified"
      "unreserved r" and id: "ar_asset_id r = a"
      and conversion: "stored_proof de_conversion_result_proof m a CONVERSION_PROOF = Inr conversion"
        "heic_of_conversion conversion ?heic = Inr ()" "heic_flags_ok ?heic"
      and v: "get_proof r CONVERSION_PROOF = Some v" "assign_recipe v = Inr c"
      "get_proof r CONVERSION_PERFORMANCE_PROOF = Some v'" "assign_recipe v' = Inr p"
      and facts: "validate_pre_delete_facts w (put_record a (reverified w ?heic c p r) m) a = Inr facts"
      and r': "r' = (let d = reverified w ?heic c p r in if reverify_owned_proofs_are_current r d then r else d)"
      by blast
    let ?n = "put_record a (reverified w ?heic c p r) (new_manifest :: 'a manifest)"
    have "\<exists>c1 c2. refresh_recipe w a CONVERSION_PROOF (put_record (ar_asset_id r) r new_manifest) = Inr c1
        \<and> refresh_recipe w a CONVERSION_PERFORMANCE_PROOF c1 = Inr c2
        \<and> insert_trusted_workflow_proof w HEIC_PROOF (ser_heic_verification_proof ?heic) c2 a = Inr ?n"
      unfolding candidate [OF id] using r(3) v by blast
    moreover have "validate_pre_delete_facts w ?n a = Inr facts"
      using facts same [of c p r new_manifest] by simp
    moreover have "snapshot_record m a = Inr (put_record (ar_asset_id r) r new_manifest)"
      using r by (simp add: snapshot_eq_Ok)
    ultimately show ?lhs
      using r conversion r' unfolding reverify_upload_verified_record_def Let_def
      by (auto simp: bind_ok_eq_Ok)
  qed
qed

lemma assign_recipe_again:
  assumes "assign_recipe v = Inr v'"
  shows "assign_recipe v' = Inr v'"
  using assms by (auto simp: assign_recipe_def split: json.split_asm)

text \<open>A record that is already what reverification writes is left alone.\<close>

lemma reverify_current:
  assumes r: "bt_get (mf_records m) a = Some r" "ar_state r = UploadVerified" "unreserved r" "ar_asset_id r = a"
    and heic: "get_proof r HEIC_PROOF
      = Some (ser_heic_verification_proof (heic_proof_of EMBEDDED_PREVIEW_CONVERSION_RECIPE i))"
    and c: "get_proof r CONVERSION_PROOF = Some c" "assign_recipe c = Inr c"
    and p: "get_proof r CONVERSION_PERFORMANCE_PROOF = Some p" "assign_recipe p = Inr p"
    and facts: "validate_pre_delete_facts w m a = Inr facts"
  shows "reverify_upload_verified_record w i m a = Inr r"
proof -
  let ?heic = "heic_proof_of EMBEDDED_PREVIEW_CONVERSION_RECIPE i"
  from facts obtain r' nas conversion performance where
    stored: "chain_stored m a nas conversion performance facts"
    and linked: "chain_linked r' nas conversion performance facts"
    by (auto simp: pre_delete_Ok_iff)
  have "pf_heic facts = ?heic"
    using stored heic r(1) by (auto simp: chain_stored_def stored_proof_eq_Ok heic_codec.de_enc)
  then have conversion: "heic_of_conversion conversion ?heic = Inr ()" "heic_flags_ok ?heic"
    using linked by (auto simp: chain_linked_def heic_linked_def heic_conversion_Ok)
  have same: "agree chain_keys a m (put_record a (reverified w ?heic c p r) m)"
    using r(1) heic c(1) p(1) by (auto simp: agree_def)
  have current: "reverify_owned_proofs_are_current r (reverified w ?heic c p r)"
    using heic c(1) p(1) by (simp add: reverify_owned_proofs_are_current_def)
  have again: "validate_pre_delete_facts w (put_record a (reverified w ?heic c p r) m) a = Inr facts"
    using agree_pre_delete(1) [OF same] facts by simp
  show ?thesis
    unfolding reverify_eq_Ok Let_def
    using r c p conversion again current stored by (auto simp: chain_stored_def intro!: exI)
qed

text \<open>Reverification takes an uploaded asset and gives a record in the same state, of the same asset and
  path, with the same failures, that differs from it at most in the three proofs of the conversion and
  in its time stamp, claims the current recipe in each of them and passes the whole validation before a
  deletion. Once that record is stored, reverification with the same measurements gives it back.\<close>

theorem reverification_is_idempotent:
  assumes "reverify_upload_verified_record w i m a = Ok r'" and "same_sources w w'"
  shows "\<exists>r facts. bt_get (mf_records m) a = Some r \<and> ar_state r = UploadVerified \<and> ar_state r' = UploadVerified
      \<and> ar_asset_id r' = ar_asset_id r \<and> ar_raw_path r' = ar_raw_path r \<and> ar_failures r' = ar_failures r
      \<and> (\<forall>k. k \<notin> recipe_keys \<longrightarrow> get_proof r' k = get_proof r k)
      \<and> recipe_current (put_record a r' m) a
      \<and> validate_pre_delete_facts w (put_record a r' m) a = Ok facts
      \<and> reverify_upload_verified_record w' i (put_record a r' m) a = Ok r'"
proof -
  let ?heic = "heic_proof_of EMBEDDED_PREVIEW_CONVERSION_RECIPE i"
  from assms(1) obtain r v c v' p facts where r: "bt_get (mf_records m) a = Some r" "ar_state r = UploadVerified"
      "unreserved r" "ar_asset_id r = a"
    and assign: "assign_recipe v = Inr c" "assign_recipe v' = Inr p"
    and facts: "validate_pre_delete_facts w (put_record a (reverified w ?heic c p r) m) a = Inr facts"
    and r': "r' = (let d = reverified w ?heic c p r in if reverify_owned_proofs_are_current r d then r else d)"
    unfolding reverify_eq_Ok by blast
  have proofs: "get_proof r' k = get_proof (reverified w ?heic c p r) k" for k
    unfolding r' Let_def by (auto simp: reverify_owned_proofs_are_current_def)
  have rest: "ar_state r' = UploadVerified" "ar_asset_id r' = a" "ar_raw_path r' = ar_raw_path r"
    "ar_failures r' = ar_failures r" "unreserved r'"
    unfolding r' Let_def using r by auto
  have "agree chain_keys a (put_record a (reverified w ?heic c p r) m) (put_record a r' m)"
    using rest proofs r(4) by (auto simp: agree_def)
  with facts have facts': "validate_pre_delete_facts w (put_record a r' m) a = Inr facts"
    by (simp add: agree_pre_delete(1))
  have "reverify_upload_verified_record w' i (put_record a r' m) a = Inr r'"
    using rest proofs assign [THEN assign_recipe_again] facts'
    by (intro reverify_current [where c = c and p = p and facts = facts])
      (auto simp: same_sources_validators(1) [OF assms(2)])
  with r rest proofs facts' readers_need_recipe(3) [OF facts'] show ?thesis
    by (intro exI [of _ r] exI [of _ facts]) (auto simp: recipe_keys_def)
qed

lemma assign_recipe_present:
  assumes "bt_get (bt_from kvs) ''conversion_recipe_id'' = Some (JString EMBEDDED_PREVIEW_CONVERSION_RECIPE)"
  shows "assign_recipe (jobject kvs) = Inr (jobject kvs)"
  using assms by (simp add: assign_recipe_def jobject_def bt_insert_present)

lemma sample_assign:
  "assign_recipe (ser_conversion_result_proof sample_conversion) = Inr (ser_conversion_result_proof sample_conversion)"
  "assign_recipe (ser_conversion_performance_proof sample_performance)
     = Inr (ser_conversion_performance_proof sample_performance)"
proof -
  show "assign_recipe (ser_conversion_result_proof sample_conversion) = Inr (ser_conversion_result_proof sample_conversion)"
    unfolding ser_conversion_result_proof_def
    by (rule assign_recipe_present) (simp add: bt_get_from sample_conversion_def)
  show "assign_recipe (ser_conversion_performance_proof sample_performance)
     = Inr (ser_conversion_performance_proof sample_performance)"
    unfolding ser_conversion_performance_proof_def
    by (rule assign_recipe_present, simp only: bt_get_from map_of_rev_distinct [OF performance_fields_distinct])
      (simp add: performance_fields_def sample_performance_def)
qed

lemma sample_reverify:
  "reverify_upload_verified_record sample_workflow_world sample_heic_input sample_uploaded ''a'' = Ok sample_uploaded_record"
  by (rule reverify_current [OF _ _ _ _ _ _ sample_assign(1) _ sample_assign(2) sample_facts_Ok])
    (simp_all add: sample_get_proof sample_proofs_def sample_heic_def, simp add: sample_uploaded_record_def new_asset_record_def)

theorem reverification_is_idempotent_witness:
  "reverify_upload_verified_record sample_workflow_world sample_heic_input
     (put_record ''a'' sample_uploaded_record sample_uploaded) ''a'' = Ok sample_uploaded_record"
proof -
  have "same_sources sample_workflow_world sample_workflow_world" by (simp add: same_sources_def)
  from reverification_is_idempotent [OF sample_reverify this] show ?thesis by blast
qed

subsection \<open>Two gaps\<close>

text \<open>A stored measurement that is not an object makes reverification panic: it is indexed into before it is decoded.\<close>

theorem malformed_measurement_panics:
  assumes "bt_get (mf_records m) a = Some r" and "ar_state r = UploadVerified" and "unreserved r" and "ar_asset_id r = a"
    and "stored_proof de_conversion_result_proof m a CONVERSION_PROOF = Ok conversion"
    and "heic_of_conversion conversion (heic_proof_of EMBEDDED_PREVIEW_CONVERSION_RECIPE i) = Ok ()"
    and "heic_flags_ok (heic_proof_of EMBEDDED_PREVIEW_CONVERSION_RECIPE i)"
    and "get_proof r CONVERSION_PROOF = Some c" and "assign_recipe c = Ok c'"
    and "get_proof r CONVERSION_PERFORMANCE_PROOF = Some (JString s)"
  shows "reverify_upload_verified_record w i m a = Err WfPanic"
proof -
  let ?c0 = "put_record a r new_manifest"
  let ?r1 = "with_proof (ww_timestamp w) UploadVerified CONVERSION_PROOF c' r"
  have get: "wf_get m a = Inr r" using assms(1) by simp
  have snapshot: "snapshot_record m a = Inr ?c0"
    using assms(1,3,4) by (simp add: snapshot_eq_Ok)
  have first: "refresh_recipe w a CONVERSION_PROOF ?c0 = Inr (put_record a ?r1 ?c0)"
    unfolding refresh_recipe_eq_Ok using assms by auto
  have get': "wf_get (put_record a ?r1 ?c0) a = Inr ?r1" by simp
  have second: "refresh_recipe w a CONVERSION_PERFORMANCE_PROOF (put_record a ?r1 ?c0) = Inl WfPanic"
    unfolding refresh_recipe_def get' bind_ok_simps using assms(10) by (simp add: assign_recipe_def)
  have flags: "validate_heic_verification_flags_legacy (heic_proof_of EMBEDDED_PREVIEW_CONVERSION_RECIPE i) = Inr ()"
    using assms(7) by simp
  show ?thesis
    unfolding reverify_upload_verified_record_def Let_def get bind_ok_simps assms(2,5,6) flags snapshot map_err_simps
      first second by simp
qed

definition malformed_record :: asset_record where
  "malformed_record =
     with_proof ''0'' UploadVerified CONVERSION_PERFORMANCE_PROOF (JString ''fast'') sample_uploaded_record"

theorem malformed_measurement_panics_witness:
  "reverify_upload_verified_record sample_workflow_world sample_heic_input
     (put_record ''a'' malformed_record (new_manifest :: unit manifest)) ''a'' = Err WfPanic"
proof (rule malformed_measurement_panics [where r = malformed_record and s = "''fast''" and conversion = sample_conversion
      and c = "ser_conversion_result_proof sample_conversion" and c' = "ser_conversion_result_proof sample_conversion"])
  show "stored_proof de_conversion_result_proof (put_record ''a'' malformed_record new_manifest) ''a'' CONVERSION_PROOF
      = Ok sample_conversion"
    by (simp add: stored_proof_eq_Ok malformed_record_def sample_get_proof sample_proofs_def conversion_codec.de_enc)
  show "heic_of_conversion sample_conversion (heic_proof_of EMBEDDED_PREVIEW_CONVERSION_RECIPE sample_heic_input) = Ok ()"
    "heic_flags_ok (heic_proof_of EMBEDDED_PREVIEW_CONVERSION_RECIPE sample_heic_input)"
    by (simp_all add: heic_conversion_Ok heic_flags_ok_def sample_conversion_def sample_heic_input_def heic_proof_of_def)
  show "assign_recipe (ser_conversion_result_proof sample_conversion) = Ok (ser_conversion_result_proof sample_conversion)"
    by (rule sample_assign)
qed (simp_all add: malformed_record_def sample_get_proof sample_proofs_def,
    simp add: sample_uploaded_record_def new_asset_record_def)

subsection \<open>The id of the uploaded replacement\<close>






end
