(* ===== verification/Reconcile_Proofs.thy ===== *)
theory Reconcile_Proofs
  imports Delete_Proofs
begin

section \<open>The data of reconciliation\<close>

text \<open>
  The types of \<open>src/src/reconciliation.rs\<close> and those of \<open>src/src/upload.rs\<close> it takes in: what the
  resolver was asked and what it observed, and the durable proof that a record keeps of the outcome.
  The disposition of that proof is an internally tagged enum flattened into the object of the proof.
\<close>

subsection \<open>Questions and answers of the resolver\<close>

definition ORIGINAL_ASSET_RESOLVER_VERSION :: string where
  [model_defs]: "ORIGINAL_ASSET_RESOLVER_VERSION = ''cloudkit-original-asset-reconcile-v1''"

record local_replacement_candidate =
  rc_sha256 :: string
  rc_size_bytes :: u64

record resolve_target =
  rt_asset_id :: string
  rt_raw_size_bytes :: u64
  rt_source_captured_unix_seconds :: u64
  rt_capture_tolerance_seconds :: u64
  rt_filename :: string
  rt_matched_raw_sha256 :: string
  rt_replacement_candidate :: "local_replacement_candidate option"

record resolve_observations =
  ro_date_candidates :: u64
  ro_raw_resources :: u64
  ro_raw_size_matches :: u64
  ro_raw_hash_matches :: u64
  ro_replacement_resource_matches :: u64
  ro_download_size_mismatches :: u64
  ro_ambiguity_evidence :: u64

record replacement_resource_proof =
  rr_record_name :: string
  rr_record_change_tag :: string
  rr_record_type :: string
  rr_database_scope :: cloudkit_database_scope
  rr_zone_name :: string
  rr_owner_record_name :: "string option"
  rr_resource_field :: string
  rr_size_bytes :: u64
  rr_matched_heic_sha256 :: string

datatype resolve_disposition =
    ResolvedExactOriginal original_asset_proof
  | ResolvedReplacementPresent replacement_resource_proof
  | ResolvedCoexistence original_asset_proof replacement_resource_proof
  | ResolvedNoDateCandidate
  | ResolvedNoRawResource
  | ResolvedRawSizeMismatch
  | ResolvedRawHashMismatch
  | ResolvedAmbiguous
  | IncompleteTransient

record asset_resolution =
  rn_observations :: resolve_observations
  rn_disposition :: resolve_disposition

record inventory_fingerprint =
  if_resolver_version :: string
  if_sha256 :: string
  if_records_scanned :: u64

record resolution_batch =
  rb_targets :: "resolve_target list"
  rb_destination :: cloudkit_library_destination
  rb_inventory :: inventory_fingerprint
  rb_observed_at_unix_seconds :: u64
  rb_resolutions :: "(string, asset_resolution) btree"

subsection \<open>The durable proof\<close>

definition RESOLUTION_PROOF :: string where
  [model_defs]: "RESOLUTION_PROOF = ''original_asset_resolution''"

definition RESOLUTION_SCHEMA_VERSION :: u8 where
  [model_defs]: "RESOLUTION_SCHEMA_VERSION = 2"

record inventory_proof =
  iv_resolver_version :: string
  iv_sha256 :: string
  iv_records_scanned :: u64

record resolution_source_proof =
  rs_nas_sha256 :: string
  rs_nas_size_bytes :: u64
  rs_source_captured_unix_seconds :: u64
  rs_capture_tolerance_seconds :: u64
  rs_filename :: string

record resolution_observations =
  os_date_candidates :: u64
  os_raw_resources :: u64
  os_raw_size_matches :: u64
  os_raw_hash_matches :: u64
  os_replacement_resource_matches :: u64
  os_download_size_mismatches :: u64
  os_ambiguity_evidence :: u64

record asset_replacement_proof =
  ra_record_name :: string
  ra_record_change_tag :: string
  ra_record_type :: string
  ra_database_scope :: cloudkit_database_scope
  ra_zone_name :: string
  ra_owner_record_name :: "string option"
  ra_resource_field :: string
  ra_size_bytes :: u64
  ra_matched_heic_sha256 :: string

datatype resolution_disposition =
    ExactOriginal original_asset_proof
  | ReplacementPresent asset_replacement_proof
  | Coexistence original_asset_proof asset_replacement_proof
  | NoDateCandidate
  | NoRawResource
  | RawSizeMismatch
  | RawHashMismatch
  | Ambiguous

record resolution_proof =
  rp_schema_version :: u8
  rp_inventory :: inventory_proof
  rp_destination :: cloudkit_library_destination
  rp_observed_at_unix_seconds :: u64
  rp_source :: resolution_source_proof
  rp_observations :: resolution_observations
  rp_disposition :: resolution_disposition

definition replacement_proof :: "replacement_resource_proof \<Rightarrow> asset_replacement_proof" where
  "replacement_proof p =
     \<lparr>ra_record_name = rr_record_name p, ra_record_change_tag = rr_record_change_tag p,
      ra_record_type = rr_record_type p, ra_database_scope = rr_database_scope p,
      ra_zone_name = rr_zone_name p, ra_owner_record_name = rr_owner_record_name p,
      ra_resource_field = rr_resource_field p, ra_size_bytes = rr_size_bytes p,
      ra_matched_heic_sha256 = rr_matched_heic_sha256 p\<rparr>"

definition observations :: "resolve_observations \<Rightarrow> resolution_observations" where
  "observations s =
     \<lparr>os_date_candidates = ro_date_candidates s, os_raw_resources = ro_raw_resources s,
      os_raw_size_matches = ro_raw_size_matches s, os_raw_hash_matches = ro_raw_hash_matches s,
      os_replacement_resource_matches = ro_replacement_resource_matches s,
      os_download_size_mismatches = ro_download_size_mismatches s,
      os_ambiguity_evidence = ro_ambiguity_evidence s\<rparr>"

subsection \<open>Its JSON form\<close>

definition destination_fields :: "cloudkit_library_destination \<Rightarrow> (string \<times> json) list" where
  "destination_fields d =
     [(''database_scope'', ser_scope (ld_database_scope d)), (''zone_name'', JString (ld_zone_name d))]
     @ ser_skip_none ''owner_record_name'' JString (ld_owner_record_name d)"

definition ser_destination :: "cloudkit_library_destination \<Rightarrow> json" where
  "ser_destination d = jobject (destination_fields d)"

definition de_destination :: "json \<Rightarrow> cloudkit_library_destination option" where
  "de_destination j =
     Option.bind (struct_fields (plain [''database_scope'', ''zone_name'', ''owner_record_name'']) j) (\<lambda>src.
     Option.bind (field_default src ''database_scope'' Private de_scope) (\<lambda>scope.
     Option.bind (field_default src ''zone_name'' PRIMARY_SYNC_ZONE de_string) (\<lambda>zone_name.
     Option.bind (field_default src ''owner_record_name'' None (de_option de_string)) (\<lambda>owner.
     Some \<lparr>ld_database_scope = scope, ld_zone_name = zone_name, ld_owner_record_name = owner\<rparr>))))"

lemma destination_fields_distinct: "distinct (map fst (destination_fields d))"
  by (simp add: destination_fields_def fst_ser_skip_none distinct_ser_skip_none)

interpretation destination_codec: codec ser_destination de_destination
proof
  fix d
  show "de_destination (ser_destination d) = Some d"
    by (simp add: ser_destination_def de_destination_def
        struct_fields_distinct [OF destination_fields_distinct] skip_none_simps)
      (simp add: destination_fields_def skip_none_simps del: map_of_append)
qed

definition ser_inventory_proof :: "inventory_proof \<Rightarrow> json" where
  "ser_inventory_proof p =
     jobject [(''resolver_version'', JString (iv_resolver_version p)), (''sha256'', JString (iv_sha256 p)),
              (''records_scanned'', ser_u64 (iv_records_scanned p))]"

definition de_inventory_proof :: "json \<Rightarrow> inventory_proof option" where
  "de_inventory_proof j =
     Option.bind (struct_fields (plain [''resolver_version'', ''sha256'', ''records_scanned'']) j) (\<lambda>src.
     Option.bind (field_req src ''resolver_version'' de_string) (\<lambda>resolver_version.
     Option.bind (field_req src ''sha256'' de_string) (\<lambda>sha256.
     Option.bind (field_req src ''records_scanned'' de_u64) (\<lambda>records_scanned.
     Some \<lparr>iv_resolver_version = resolver_version, iv_sha256 = sha256,
           iv_records_scanned = records_scanned\<rparr>))))"

interpretation inventory_codec: codec ser_inventory_proof de_inventory_proof
  by unfold_locales (simp add: ser_inventory_proof_def de_inventory_proof_def struct_decode_simps)

definition ser_resolution_source :: "resolution_source_proof \<Rightarrow> json" where
  "ser_resolution_source p =
     jobject [(''nas_sha256'', JString (rs_nas_sha256 p)), (''nas_size_bytes'', ser_u64 (rs_nas_size_bytes p)),
              (''source_captured_unix_seconds'', ser_u64 (rs_source_captured_unix_seconds p)),
              (''capture_tolerance_seconds'', ser_u64 (rs_capture_tolerance_seconds p)),
              (''filename'', JString (rs_filename p))]"

definition de_resolution_source :: "json \<Rightarrow> resolution_source_proof option" where
  "de_resolution_source j =
     Option.bind (struct_fields (plain
       [''nas_sha256'', ''nas_size_bytes'', ''source_captured_unix_seconds'', ''capture_tolerance_seconds'',
        ''filename'']) j) (\<lambda>src.
     Option.bind (field_req src ''nas_sha256'' de_string) (\<lambda>nas_sha256.
     Option.bind (field_req src ''nas_size_bytes'' de_u64) (\<lambda>nas_size_bytes.
     Option.bind (field_req src ''source_captured_unix_seconds'' de_u64) (\<lambda>captured.
     Option.bind (field_req src ''capture_tolerance_seconds'' de_u64) (\<lambda>tolerance.
     Option.bind (field_req src ''filename'' de_string) (\<lambda>filename.
     Some \<lparr>rs_nas_sha256 = nas_sha256, rs_nas_size_bytes = nas_size_bytes,
           rs_source_captured_unix_seconds = captured, rs_capture_tolerance_seconds = tolerance,
           rs_filename = filename\<rparr>))))))"

interpretation resolution_source_codec: codec ser_resolution_source de_resolution_source
  by unfold_locales (simp add: ser_resolution_source_def de_resolution_source_def struct_decode_simps)

definition ser_observations :: "resolution_observations \<Rightarrow> json" where
  "ser_observations p =
     jobject [(''date_candidates'', ser_u64 (os_date_candidates p)),
              (''raw_resources'', ser_u64 (os_raw_resources p)),
              (''raw_size_matches'', ser_u64 (os_raw_size_matches p)),
              (''raw_hash_matches'', ser_u64 (os_raw_hash_matches p)),
              (''replacement_resource_matches'', ser_u64 (os_replacement_resource_matches p)),
              (''download_size_mismatches'', ser_u64 (os_download_size_mismatches p)),
              (''ambiguity_evidence'', ser_u64 (os_ambiguity_evidence p))]"

definition de_observations :: "json \<Rightarrow> resolution_observations option" where
  "de_observations j =
     Option.bind (struct_fields (plain
       [''date_candidates'', ''raw_resources'', ''raw_size_matches'', ''raw_hash_matches'',
        ''replacement_resource_matches'', ''download_size_mismatches'', ''ambiguity_evidence'']) j) (\<lambda>src.
     Option.bind (field_req src ''date_candidates'' de_u64) (\<lambda>date_candidates.
     Option.bind (field_req src ''raw_resources'' de_u64) (\<lambda>raw_resources.
     Option.bind (field_req src ''raw_size_matches'' de_u64) (\<lambda>raw_size_matches.
     Option.bind (field_req src ''raw_hash_matches'' de_u64) (\<lambda>raw_hash_matches.
     Option.bind (field_req src ''replacement_resource_matches'' de_u64) (\<lambda>replacement_matches.
     Option.bind (field_req src ''download_size_mismatches'' de_u64) (\<lambda>download_size_mismatches.
     Option.bind (field_req src ''ambiguity_evidence'' de_u64) (\<lambda>ambiguity_evidence.
     Some \<lparr>os_date_candidates = date_candidates, os_raw_resources = raw_resources,
           os_raw_size_matches = raw_size_matches, os_raw_hash_matches = raw_hash_matches,
           os_replacement_resource_matches = replacement_matches,
           os_download_size_mismatches = download_size_mismatches,
           os_ambiguity_evidence = ambiguity_evidence\<rparr>))))))))"

interpretation observations_codec: codec ser_observations de_observations
  by unfold_locales (simp add: ser_observations_def de_observations_def struct_decode_simps)

definition replacement_fields :: "asset_replacement_proof \<Rightarrow> (string \<times> json) list" where
  "replacement_fields p =
     [(''record_name'', JString (ra_record_name p)),
      (''record_change_tag'', JString (ra_record_change_tag p)),
      (''record_type'', JString (ra_record_type p)),
      (''database_scope'', ser_scope (ra_database_scope p)),
      (''zone_name'', JString (ra_zone_name p)),
      (''resource_field'', JString (ra_resource_field p)),
      (''size_bytes'', ser_u64 (ra_size_bytes p)),
      (''matched_heic_sha256'', JString (ra_matched_heic_sha256 p))]
     @ ser_skip_none ''owner_record_name'' JString (ra_owner_record_name p)"

definition ser_asset_replacement_proof :: "asset_replacement_proof \<Rightarrow> json" where
  "ser_asset_replacement_proof p = jobject (replacement_fields p)"

definition de_asset_replacement_proof :: "json \<Rightarrow> asset_replacement_proof option" where
  "de_asset_replacement_proof j =
     Option.bind (struct_fields (plain
       [''record_name'', ''record_change_tag'', ''record_type'', ''database_scope'', ''zone_name'',
        ''owner_record_name'', ''resource_field'', ''size_bytes'', ''matched_heic_sha256'']) j) (\<lambda>src.
     Option.bind (field_req src ''record_name'' de_string) (\<lambda>record_name.
     Option.bind (field_req src ''record_change_tag'' de_string) (\<lambda>record_change_tag.
     Option.bind (field_req src ''record_type'' de_string) (\<lambda>record_type.
     Option.bind (field_req src ''database_scope'' de_scope) (\<lambda>scope.
     Option.bind (field_req src ''zone_name'' de_string) (\<lambda>zone_name.
     Option.bind (field_default src ''owner_record_name'' None (de_option de_string)) (\<lambda>owner.
     Option.bind (field_req src ''resource_field'' de_string) (\<lambda>resource_field.
     Option.bind (field_req src ''size_bytes'' de_u64) (\<lambda>size_bytes.
     Option.bind (field_req src ''matched_heic_sha256'' de_string) (\<lambda>sha256.
     Some \<lparr>ra_record_name = record_name, ra_record_change_tag = record_change_tag,
           ra_record_type = record_type, ra_database_scope = scope, ra_zone_name = zone_name,
           ra_owner_record_name = owner, ra_resource_field = resource_field, ra_size_bytes = size_bytes,
           ra_matched_heic_sha256 = sha256\<rparr>))))))))))"

lemma replacement_fields_distinct: "distinct (map fst (replacement_fields p))"
  by (simp add: replacement_fields_def fst_ser_skip_none distinct_ser_skip_none)

interpretation replacement_codec: codec ser_asset_replacement_proof de_asset_replacement_proof
proof
  fix p
  show "de_asset_replacement_proof (ser_asset_replacement_proof p) = Some p"
    by (simp add: ser_asset_replacement_proof_def de_asset_replacement_proof_def
        struct_fields_distinct [OF replacement_fields_distinct] skip_none_simps)
      (simp add: replacement_fields_def skip_none_simps del: map_of_append)
qed

text \<open>
  The tag is the name of a variant, or its index, which the derived visitor of variants accepts as
  well. An entry of the object that belongs to no variant is ignored. The proof inside a variant is
  read from serde's buffer of the object like any other struct (the buffer differs in one point from
  the reader of a JSON value: it takes an empty object for the content of a unit variant).
\<close>

definition disposition_names :: "string list" where
  "disposition_names =
     [''exact_original'', ''replacement_present'', ''coexistence'', ''no_date_candidate'',
      ''no_raw_resource'', ''raw_size_mismatch'', ''raw_hash_mismatch'', ''ambiguous'']"

definition disposition_tag :: "json \<Rightarrow> string option" where
  "disposition_tag j =
     (case j of
        JString s \<Rightarrow> (if s \<in> set disposition_names then Some s else None)
      | JNumber (PosInt n) \<Rightarrow>
          (if unat n < length disposition_names then Some (disposition_names ! unat n) else None)
      | _ \<Rightarrow> None)"

definition disposition_fields :: "resolution_disposition \<Rightarrow> (string \<times> json) list" where
  "disposition_fields d =
     (case d of
        ExactOriginal p \<Rightarrow>
          [(''disposition'', JString ''exact_original''), (''proof'', ser_original_asset_proof p)]
      | ReplacementPresent p \<Rightarrow>
          [(''disposition'', JString ''replacement_present''), (''proof'', ser_asset_replacement_proof p)]
      | Coexistence p q \<Rightarrow>
          [(''disposition'', JString ''coexistence''), (''original_proof'', ser_original_asset_proof p),
           (''replacement_proof'', ser_asset_replacement_proof q)]
      | NoDateCandidate \<Rightarrow> [(''disposition'', JString ''no_date_candidate'')]
      | NoRawResource \<Rightarrow> [(''disposition'', JString ''no_raw_resource'')]
      | RawSizeMismatch \<Rightarrow> [(''disposition'', JString ''raw_size_mismatch'')]
      | RawHashMismatch \<Rightarrow> [(''disposition'', JString ''raw_hash_mismatch'')]
      | Ambiguous \<Rightarrow> [(''disposition'', JString ''ambiguous'')])"

definition de_disposition :: "struct_source \<Rightarrow> resolution_disposition option" where
  "de_disposition src =
     Option.bind (field_req src ''disposition'' disposition_tag) (\<lambda>tag.
     if tag = ''exact_original'' then
       map_option ExactOriginal (field_req src ''proof'' de_original_asset_proof)
     else if tag = ''replacement_present'' then
       map_option ReplacementPresent (field_req src ''proof'' de_asset_replacement_proof)
     else if tag = ''coexistence'' then
       Option.bind (field_req src ''original_proof'' de_original_asset_proof) (\<lambda>p.
       map_option (Coexistence p) (field_req src ''replacement_proof'' de_asset_replacement_proof))
     else map_of [(''no_date_candidate'', NoDateCandidate), (''no_raw_resource'', NoRawResource),
       (''raw_size_mismatch'', RawSizeMismatch), (''raw_hash_mismatch'', RawHashMismatch),
       (''ambiguous'', Ambiguous)] tag)"

definition resolution_fields :: "resolution_proof \<Rightarrow> (string \<times> json) list" where
  "resolution_fields p =
     [(''schema_version'', ser_small (rp_schema_version p)),
      (''inventory'', ser_inventory_proof (rp_inventory p)),
      (''destination'', ser_destination (rp_destination p)),
      (''observed_at_unix_seconds'', ser_u64 (rp_observed_at_unix_seconds p)),
      (''source'', ser_resolution_source (rp_source p)),
      (''observations'', ser_observations (rp_observations p))]
     @ disposition_fields (rp_disposition p)"

definition ser_resolution_proof :: "resolution_proof \<Rightarrow> json" where
  "ser_resolution_proof p = jobject (resolution_fields p)"

text \<open>A struct with a flattened field is read from an object only.\<close>

definition de_resolution_proof :: "json \<Rightarrow> resolution_proof option" where
  "de_resolution_proof j =
     Option.bind (json_as_object j) (\<lambda>m.
     let src = (False, bt_get m) in
     Option.bind (field_req src ''schema_version'' de_small) (\<lambda>schema_version.
     Option.bind (field_req src ''inventory'' de_inventory_proof) (\<lambda>inventory.
     Option.bind (field_req src ''destination'' de_destination) (\<lambda>destination.
     Option.bind (field_req src ''observed_at_unix_seconds'' de_u64) (\<lambda>observed_at.
     Option.bind (field_req src ''source'' de_resolution_source) (\<lambda>source.
     Option.bind (field_req src ''observations'' de_observations) (\<lambda>observed.
     Option.bind (de_disposition src) (\<lambda>disposition.
     Some \<lparr>rp_schema_version = schema_version, rp_inventory = inventory, rp_destination = destination,
           rp_observed_at_unix_seconds = observed_at, rp_source = source, rp_observations = observed,
           rp_disposition = disposition\<rparr>))))))))"

lemma resolution_fields_distinct: "distinct (map fst (resolution_fields p))"
  by (simp add: resolution_fields_def disposition_fields_def split: resolution_disposition.splits)

lemma de_disposition_fields:
  assumes "\<And>n. n \<in> {''disposition'', ''proof'', ''original_proof'', ''replacement_proof''} \<Longrightarrow>
    f n = map_of (disposition_fields d) n"
  shows "de_disposition (False, f) = Some d"
  using assms
  by (cases d) (simp_all add: de_disposition_def field_req_def disposition_fields_def disposition_tag_def
      disposition_names_def original_asset_codec.de_enc replacement_codec.de_enc)

interpretation resolution_codec: codec ser_resolution_proof de_resolution_proof
proof
  fix p
  let ?f = "map_of (resolution_fields p)"
  have get: "bt_get (bt_from (resolution_fields p)) = ?f"
    by (simp add: fun_eq_iff bt_get_from map_of_rev_distinct [OF resolution_fields_distinct])
  have "de_disposition (False, ?f) = Some (rp_disposition p)"
    by (rule de_disposition_fields) (auto simp: resolution_fields_def)
  then show "de_resolution_proof (ser_resolution_proof p) = Some p"
    by (simp add: de_resolution_proof_def ser_resolution_proof_def jobject_def json_as_object_def get Let_def
        field_req_def)
      (simp add: resolution_fields_def inventory_codec.de_enc destination_codec.de_enc
        resolution_source_codec.de_enc observations_codec.de_enc)
qed

end
