(* ===== verification/Reconcile.thy ===== *)
theory Reconcile
  imports Reconcile_Proofs Workflow_Frame
begin

section \<open>Reconciliation with the remote library\<close>

text \<open>
  \<open>apply_original_asset_resolution_batch\<close> of \<open>src/src/reconciliation.rs\<close> with all of its validators, and
  the two classifiers of \<open>src/src/workflow.rs\<close> it calls. A batch carries what the resolver found for some
  assets; it is applied as a whole or not at all. Before that the identities of all remote records
  that the manifest already knows are collected, which reads back every stored resolution.
\<close>

subsection \<open>Errors\<close>

datatype resolution_error =
    EmptyTargets
  | DuplicateTarget string
  | TargetOutcomeSetMismatch
  | InvalidInventory string
  | InvalidDestination string
  | MissingObservedTime
  | InvalidTarget string string
  | InvalidSource string string
  | InvalidSourceState string state
  | IncompleteTransientError string
  | UnsupportedDisposition string
  | DuplicateOriginalRecord string
  | MalformedExistingProof string string
  | InvalidResolutionProof string string
  | ResolutionManifest manifest_error
  | ResolutionJson
  | ResolutionPanic

subsection \<open>The state that the stored proofs support\<close>

definition is_safe_identity :: "string \<Rightarrow> bool" where
  "is_safe_identity v \<longleftrightarrow> \<not> is_blank v \<and> \<not> has_control v"

definition lifecycle_conversion_ok :: "conversion_result_proof \<Rightarrow> bool" where
  "lifecycle_conversion_ok c \<longleftrightarrow> cp_heic_path c \<noteq> [] \<and> is_sha256 (cp_heic_sha256 c) \<and> cp_size_bytes c \<noteq> 0"

definition lifecycle_heic_ok :: "conversion_result_proof \<Rightarrow> heic_verification_proof \<Rightarrow> bool" where
  "lifecycle_heic_ok c h \<longleftrightarrow>
     hp_heic_path h \<noteq> [] \<and> is_sha256 (hp_heic_sha256 h) \<and> hp_size_bytes h \<noteq> 0
     \<and> path_eq (hp_heic_path h) (cp_heic_path c) \<and> hp_heic_sha256 h = cp_heic_sha256 c
     \<and> hp_size_bytes h = cp_size_bytes c"

definition lifecycle_upload_ok ::
  "heic_verification_proof \<Rightarrow> upload_proof \<Rightarrow> path \<Rightarrow> cloudkit_library_destination \<Rightarrow> bool"
where
  "lifecycle_upload_ok h u uploaded_heic_path d \<longleftrightarrow>
     is_safe_identity (up_uploaded_heic_asset_id u) \<and> is_sha256 (up_uploaded_heic_sha256 u)
     \<and> uploaded_heic_path \<noteq> [] \<and> path_eq uploaded_heic_path (hp_heic_path h)
     \<and> up_uploaded_heic_sha256 u = hp_heic_sha256 h
     \<and> up_database_scope u = ld_database_scope d \<and> up_zone_name u = ld_zone_name d"

definition lifecycle_after_heic ::
  "heic_verification_proof \<Rightarrow> upload_proof option \<Rightarrow> cloudkit_library_destination \<Rightarrow> workflow_error + state"
where
  "lifecycle_after_heic heic upload d =
     (case upload of
        None \<Rightarrow> Ok ConversionVerified
      | Some u \<Rightarrow>
          bind_ok (ok_or (InvalidProofField UPLOAD_PROOF ''uploaded_heic_path'' ''is required'')
            (up_uploaded_heic_path u)) (\<lambda>uploaded_heic_path.
          bind_ok (fail_if (\<not> lifecycle_upload_ok heic u uploaded_heic_path d)
            (InvalidProofField UPLOAD_PROOF ''HEIC''
              ''upload proof must match the verified HEIC and destination'')) (\<lambda>_.
          Ok UploadVerified)))"

definition reconciliation_lifecycle_state ::
  "workflow_world \<Rightarrow> 'r manifest \<Rightarrow> string \<Rightarrow> cloudkit_library_destination \<Rightarrow> workflow_error + state"
where
  "reconciliation_lifecycle_state w m a d =
     bind_ok (wf_get m a) (\<lambda>r.
     bind_ok (optional_workflow_proof de_conversion_result_proof r CONVERSION_PROOF) (\<lambda>conversion.
     bind_ok (optional_workflow_proof de_heic_verification_proof r HEIC_PROOF) (\<lambda>heic.
     bind_ok (optional_workflow_proof de_upload_proof r UPLOAD_PROOF) (\<lambda>upload.
     case conversion of
       None \<Rightarrow>
         (if heic \<noteq> None \<or> upload \<noteq> None
          then Err (InvalidProofField CONVERSION_PROOF ''lifecycle''
                 ''HEIC or upload proof exists without conversion'')
          else Ok NasVerified)
     | Some c \<Rightarrow>
         bind_ok (fail_if (\<not> lifecycle_conversion_ok c)
           (InvalidProofField CONVERSION_PROOF ''conversion''
             ''conversion output path, SHA-256, and size are required'')) (\<lambda>_.
         bind_ok (validate_conversion_source_binding w m a c) (\<lambda>_.
         case heic of
           None \<Rightarrow>
             (if upload \<noteq> None
              then Err (InvalidProofField UPLOAD_PROOF ''lifecycle''
                     ''upload proof exists without HEIC verification'')
              else Ok Converted)
         | Some h \<Rightarrow>
             bind_ok (validate_heic_verification_flags_legacy h) (\<lambda>_.
             bind_ok (fail_if (\<not> lifecycle_heic_ok c h)
               (InvalidProofField HEIC_PROOF ''conversion''
                 ''HEIC proof must match the conversion output path, SHA-256, and size'')) (\<lambda>_.
             bind_ok (stored_proof de_conversion_performance_proof m a CONVERSION_PERFORMANCE_PROOF) (\<lambda>_.
             lifecycle_after_heic h upload d)))))))))"

definition last_failure_stage :: "asset_record \<Rightarrow> string option" where
  "last_failure_stage r = (case rev (ar_failures r) of [] \<Rightarrow> None | f # _ \<Rightarrow> Some (fr_stage f))"

definition reconciliation_exact_state_is_consistent ::
  "workflow_world \<Rightarrow> 'r manifest \<Rightarrow> string \<Rightarrow> cloudkit_library_destination \<Rightarrow> workflow_error + bool"
where
  "reconciliation_exact_state_is_consistent w m a d =
     bind_ok (wf_get m a) (\<lambda>r.
     bind_ok (reconciliation_lifecycle_state w m a d) (\<lambda>lifecycle_state.
     let has_eligibility = has_proof r DELETE_ELIGIBILITY_PROOF;
         has_approval = has_proof r DELETE_APPROVAL_PROOF;
         has_delete = has_proof r DELETE_EXECUTION_PROOF
     in
       if ar_state r \<in> {NasVerified, Converted, ConversionVerified, UploadVerified}
       then Ok (ar_state r = lifecycle_state \<and> \<not> has_eligibility \<and> \<not> has_approval \<and> \<not> has_delete)
       else if ar_state r = DeleteEligible then
         (if lifecycle_state \<noteq> UploadVerified \<or> has_approval \<or> has_delete then Ok False
          else bind_ok (validate_pre_delete_facts w m a) (\<lambda>facts.
               bind_ok (validate_delete_eligibility_chain w m a facts) (\<lambda>_. Ok True)))
       else if ar_state r = DeleteApproved then
         (if lifecycle_state \<noteq> UploadVerified \<or> has_delete then Ok False
          else bind_ok (validate_stored_delete_plan_proofs w m a) (\<lambda>_. Ok True))
       else if ar_state r = Deleted then
         (if lifecycle_state \<noteq> UploadVerified then Ok False
          else bind_ok (validate_stored_delete_plan_proofs w m a) (\<lambda>_.
               bind_ok (validate_stored_delete_execution_proof w m a) (\<lambda>_. Ok True)))
       else if ar_state r = Failed then
         (if has_delete \<or> (case last_failure_stage r of None \<Rightarrow> True | Some s \<Rightarrow> s = ''original_asset_resolve'')
          then Ok False
          else if has_approval
          then bind_ok (validate_stored_delete_plan_proofs w m a) (\<lambda>_. Ok True)
          else if has_eligibility
          then bind_ok (validate_pre_delete_facts w m a) (\<lambda>facts.
               bind_ok (validate_delete_eligibility_chain w m a facts) (\<lambda>_. Ok True))
          else Ok True)
       else Ok False))"

subsection \<open>The shape of a batch\<close>

definition is_safe_single_filename :: "string \<Rightarrow> bool" where
  "is_safe_single_filename v \<longleftrightarrow> \<not> is_blank v \<and> \<not> has_control v \<and> components v = [Normal v]"

definition validate_inventory :: "inventory_fingerprint \<Rightarrow> resolution_error + unit" where
  "validate_inventory i =
     checks
      [fail_if (if_resolver_version i \<noteq> ORIGINAL_ASSET_RESOLVER_VERSION)
         (InvalidInventory ''resolver version is not recognized''),
       fail_if (\<not> is_sha256 (if_sha256 i))
         (InvalidInventory ''SHA-256 fingerprint must be 64 hexadecimal characters'')]"

definition validate_destination :: "cloudkit_library_destination \<Rightarrow> resolution_error + unit" where
  "validate_destination d =
     map_err (\<lambda>_. InvalidDestination ''CloudKit library destination is invalid'')
       (validate_library_destination d)"

definition validate_target :: "resolve_target \<Rightarrow> resolution_error + unit" where
  "validate_target t =
     (let invalid = InvalidTarget (rt_asset_id t) in
      checks
       [fail_if (is_blank (rt_asset_id t)) (invalid ''asset ID is required''),
        fail_if (rt_raw_size_bytes t = 0) (invalid ''RAW size must be positive''),
        fail_if (rt_source_captured_unix_seconds t = 0) (invalid ''capture time must be positive''),
        fail_if (\<not> is_safe_single_filename (rt_filename t))
          (invalid ''filename must be one safe component without control characters''),
        fail_if (\<not> is_sha256 (rt_matched_raw_sha256 t))
          (invalid ''RAW SHA-256 must be 64 hexadecimal characters''),
        fail_if (case rt_replacement_candidate t of None \<Rightarrow> False
                 | Some c \<Rightarrow> rc_size_bytes c = 0 \<or> \<not> is_sha256 (rc_sha256 c))
          (invalid ''replacement candidate must have a positive size and 64-character SHA-256'')])"

fun unique_targets :: "resolve_target list \<Rightarrow> string set \<Rightarrow> resolution_error + string set" where
  "unique_targets [] ids = Ok ids"
| "unique_targets (t # ts) ids =
     bind_ok (validate_target t) (\<lambda>_.
     if rt_asset_id t \<in> ids then Err (DuplicateTarget (rt_asset_id t))
     else unique_targets ts (insert (rt_asset_id t) ids))"

definition validate_batch_shape :: "resolution_batch \<Rightarrow> resolution_error + unit" where
  "validate_batch_shape b =
     bind_ok (checks
       [fail_if (rb_targets b = []) EmptyTargets,
        fail_if (rb_observed_at_unix_seconds b = 0) MissingObservedTime,
        validate_inventory (rb_inventory b),
        validate_destination (rb_destination b)]) (\<lambda>_.
     bind_ok (unique_targets (rb_targets b) {}) (\<lambda>target_ids.
     fail_if (target_ids \<noteq> set (bt_keys (rb_resolutions b))) TargetOutcomeSetMismatch))"

subsection \<open>The source of a target\<close>

definition source_states :: "state list" where
  "source_states = [NasVerified, Converted, ConversionVerified, UploadVerified, Failed]"

definition FAILED_RESOLUTION_DOWNSTREAM_PROOF_KEYS :: "string list" where
  "FAILED_RESOLUTION_DOWNSTREAM_PROOF_KEYS =
     [ORIGINAL_ASSET_PROOF, ''icloudpd_local_mirror'', ''delete_eligibility'', ''delete_approval'', ''delete'',
      ''uploaded_heic_delete'', RESOLUTION_PROOF]"

definition stored_source_proof ::
  "(json \<Rightarrow> 'a option) \<Rightarrow> asset_record \<Rightarrow> string \<Rightarrow> resolution_error + 'a"
where
  "stored_source_proof de r k =
     bind_ok (ok_or (InvalidSource (ar_asset_id r) ''required source proof is missing'') (get_proof r k)) (\<lambda>v.
     ok_or (InvalidSource (ar_asset_id r) ''required source proof is malformed'') (de v))"

definition source_proofs_are_valid :: "asset_record \<Rightarrow> nas_raw_proof \<Rightarrow> source_age_proof \<Rightarrow> bool" where
  "source_proofs_are_valid r nas source_age \<longleftrightarrow>
     nr_canonical_path nas \<noteq> []
     \<and> nr_relative_path nas \<noteq> [] \<and> list_all is_normal (components (nr_relative_path nas))
     \<and> path_eq (ar_raw_path r) (nr_canonical_path nas)
     \<and> nr_size_bytes nas > 0
     \<and> is_sha256 (nr_sha256 nas)
     \<and> nr_modified_unix_seconds nas = sa_source_captured_unix_seconds source_age
     \<and> sa_min_age_seconds source_age \<ge> MIN_RAW_AGE_SECONDS
     \<and> nr_age_seconds nas \<ge> sa_min_age_seconds source_age
     \<and> saturating_sub (sa_verified_at_unix_seconds source_age) (sa_source_captured_unix_seconds source_age)
         \<ge> sa_min_age_seconds source_age"

definition validate_source ::
  "workflow_world \<Rightarrow> 'r manifest \<Rightarrow> asset_record \<Rightarrow> resolve_target \<Rightarrow> cloudkit_library_destination \<Rightarrow> u64
     \<Rightarrow> resolution_error + nas_raw_proof"
where
  "validate_source w m r t d observed_at =
     (let invalid = InvalidSource (ar_asset_id r) in
      bind_ok (checks
        [fail_if (ar_state r \<notin> set source_states) (InvalidSourceState (ar_asset_id r) (ar_state r)),
         fail_if (has_proof r RESOLUTION_PROOF)
           (invalid ''record already carries an original asset resolution proof''),
         fail_if (has_proof r ORIGINAL_ASSET_PROOF \<or> has_proof r ''delete_eligibility''
             \<or> has_proof r ''delete_approval'')
           (invalid ''already has original or delete proof'')]) (\<lambda>_.
      bind_ok (stored_source_proof de_nas_raw_proof r ''nas'') (\<lambda>nas.
      bind_ok (stored_source_proof de_source_age_proof r ''source_age'') (\<lambda>source_age.
      bind_ok (checks
        [fail_if (ar_state r = Failed
             \<and> (last_failure_stage r \<noteq> Some ''original_asset_resolve''
                \<or> list_ex (has_proof r) FAILED_RESOLUTION_DOWNSTREAM_PROOF_KEYS))
           (invalid ''failed record is not an unresolved original asset resolver failure''),
         fail_if (\<not> source_proofs_are_valid r nas source_age)
           (invalid ''NAS and source-age proofs are inconsistent''),
         fail_if (observed_at < sa_verified_at_unix_seconds source_age
             \<or> observed_at < rt_source_captured_unix_seconds t)
           (invalid ''resolution observation predates the source proof'')]) (\<lambda>_.
      bind_ok (map_err (\<lambda>_. invalid ''lifecycle proof chain is invalid'')
        (reconciliation_lifecycle_state w m (ar_asset_id r) d)) (\<lambda>proof_strength.
      bind_ok (checks
        [fail_if (ar_state r \<noteq> Failed \<and> ar_state r \<noteq> proof_strength)
           (invalid ''state does not match the lifecycle proof chain''),
         fail_if (nr_size_bytes nas \<noteq> rt_raw_size_bytes t \<or> nr_sha256 nas \<noteq> rt_matched_raw_sha256 t
             \<or> nr_modified_unix_seconds nas \<noteq> rt_source_captured_unix_seconds t
             \<or> file_name (ar_raw_path r) \<noteq> Some (rt_filename t))
           (invalid ''target does not bind the proven source'')]) (\<lambda>_.
      Ok nas)))))))"

subsection \<open>The outcome of a target\<close>

definition validate_exact_original_proof ::
  "string \<Rightarrow> original_asset_proof \<Rightarrow> resolve_target \<Rightarrow> cloudkit_library_destination \<Rightarrow> resolution_error + unit"
where
  "validate_exact_original_proof a p t d =
     fail_if
       (\<not> is_safe_identity (oa_record_name p) \<or> \<not> is_safe_identity (oa_record_change_tag p)
        \<or> oa_filename p \<noteq> rt_filename t \<or> oa_record_type p \<noteq> ''CPLAsset''
        \<or> oa_size_bytes p \<noteq> rt_raw_size_bytes t \<or> oa_matched_raw_sha256 p \<noteq> rt_matched_raw_sha256 t
        \<or> oa_database_scope p \<noteq> ld_database_scope d \<or> oa_zone_name p \<noteq> ld_zone_name d
        \<or> oa_owner_record_name p \<noteq> ld_owner_record_name d)
       (InvalidResolutionProof a ''exact original proof does not bind the target and destination'')"

definition validate_replacement_proof ::
  "string \<Rightarrow> replacement_resource_proof \<Rightarrow> resolve_target \<Rightarrow> cloudkit_library_destination \<Rightarrow> resolution_error + unit"
where
  "validate_replacement_proof a p t d =
     bind_ok (ok_or (InvalidResolutionProof a ''replacement outcome has no replacement target'')
       (rt_replacement_candidate t)) (\<lambda>candidate.
     fail_if
       (\<not> is_safe_identity (rr_record_name p) \<or> \<not> is_safe_identity (rr_record_change_tag p)
        \<or> rr_record_type p \<noteq> ''CPLAsset'' \<or> \<not> is_safe_identity (rr_resource_field p)
        \<or> rr_database_scope p \<noteq> ld_database_scope d \<or> rr_zone_name p \<noteq> ld_zone_name d
        \<or> rr_owner_record_name p \<noteq> ld_owner_record_name d
        \<or> rr_size_bytes p \<noteq> rc_size_bytes candidate \<or> rr_matched_heic_sha256 p \<noteq> rc_sha256 candidate)
       (InvalidResolutionProof a ''replacement proof does not bind the target and destination''))"

definition validate_coexistence_proofs ::
  "string \<Rightarrow> original_asset_proof \<Rightarrow> replacement_resource_proof \<Rightarrow> resolve_target
     \<Rightarrow> cloudkit_library_destination \<Rightarrow> resolution_error + unit"
where
  "validate_coexistence_proofs a p q t d =
     checks [validate_exact_original_proof a p t d, validate_replacement_proof a q t d]"

datatype evidence_kind =
    EvExactOriginal
  | EvReplacementPresent
  | EvCoexistence
  | EvNoDateCandidate
  | EvNoRawResource
  | EvRawSizeMismatch
  | EvRawHashMismatch
  | EvAmbiguous

fun resolution_evidence :: "resolve_disposition \<Rightarrow> evidence_kind option" where
  "resolution_evidence (ResolvedExactOriginal _) = Some EvExactOriginal"
| "resolution_evidence (ResolvedReplacementPresent _) = Some EvReplacementPresent"
| "resolution_evidence (ResolvedCoexistence _ _) = Some EvCoexistence"
| "resolution_evidence ResolvedNoDateCandidate = Some EvNoDateCandidate"
| "resolution_evidence ResolvedNoRawResource = Some EvNoRawResource"
| "resolution_evidence ResolvedRawSizeMismatch = Some EvRawSizeMismatch"
| "resolution_evidence ResolvedRawHashMismatch = Some EvRawHashMismatch"
| "resolution_evidence ResolvedAmbiguous = Some EvAmbiguous"
| "resolution_evidence IncompleteTransient = None"

definition evidence_is_coherent :: "resolution_observations \<Rightarrow> evidence_kind \<Rightarrow> bool" where
  "evidence_is_coherent ob evidence =
     (let no_ambiguity_or_download_mismatch =
            (os_ambiguity_evidence ob = 0 \<and> os_download_size_mismatches ob = 0);
          no_matches = (os_raw_size_matches ob = 0 \<and> os_raw_hash_matches ob = 0
            \<and> os_replacement_resource_matches ob = 0)
      in case evidence of
        EvExactOriginal \<Rightarrow>
          os_date_candidates ob > 0 \<and> os_raw_resources ob > 0 \<and> os_raw_size_matches ob > 0
          \<and> os_raw_hash_matches ob = 1 \<and> os_replacement_resource_matches ob = 0
          \<and> no_ambiguity_or_download_mismatch
      | EvReplacementPresent \<Rightarrow>
          os_date_candidates ob > 0 \<and> os_raw_hash_matches ob = 0
          \<and> os_replacement_resource_matches ob = 1 \<and> no_ambiguity_or_download_mismatch
      | EvCoexistence \<Rightarrow>
          os_date_candidates ob > 0 \<and> os_raw_resources ob > 0 \<and> os_raw_size_matches ob > 0
          \<and> os_raw_hash_matches ob = 1 \<and> os_replacement_resource_matches ob = 1
          \<and> no_ambiguity_or_download_mismatch
      | EvNoDateCandidate \<Rightarrow>
          os_date_candidates ob = 0 \<and> os_raw_resources ob = 0 \<and> no_matches
          \<and> no_ambiguity_or_download_mismatch
      | EvNoRawResource \<Rightarrow>
          os_date_candidates ob > 0 \<and> os_raw_resources ob = 0 \<and> no_matches
          \<and> no_ambiguity_or_download_mismatch
      | EvRawSizeMismatch \<Rightarrow>
          os_date_candidates ob > 0 \<and> os_raw_resources ob > 0 \<and> no_matches
          \<and> no_ambiguity_or_download_mismatch
      | EvRawHashMismatch \<Rightarrow>
          os_date_candidates ob > 0 \<and> os_raw_resources ob > 0 \<and> os_raw_size_matches ob > 0
          \<and> os_raw_hash_matches ob = 0 \<and> os_replacement_resource_matches ob = 0
          \<and> no_ambiguity_or_download_mismatch
      | EvAmbiguous \<Rightarrow>
          os_date_candidates ob > 0 \<and> os_ambiguity_evidence ob > 0
          \<and> (os_raw_hash_matches ob > 0 \<or> os_replacement_resource_matches ob > 0)
          \<and> os_download_size_mismatches ob = 0)"

definition validate_disposition_evidence :: "string \<Rightarrow> asset_resolution \<Rightarrow> resolution_error + unit" where
  "validate_disposition_evidence a resolution =
     (if (case resolution_evidence (rn_disposition resolution) of None \<Rightarrow> True
          | Some evidence \<Rightarrow> evidence_is_coherent (observations (rn_observations resolution)) evidence)
      then Ok ()
      else Err (InvalidResolutionProof a ''disposition does not match resolver observations''))"

end
