(* ===== verification/Reconcile_Batch.thy ===== *)
theory Reconcile_Batch
  imports Reconcile
begin

section \<open>Applying a batch\<close>

text \<open>
  The second half of \<open>src/src/reconciliation.rs\<close>: the identities of the remote records that a manifest
  already knows, with the validation of every stored resolution, and the batch itself.
\<close>

subsection \<open>Remote records the manifest knows\<close>

type_synonym remote_identity = "cloudkit_database_scope \<times> string \<times> string option \<times> string"

definition remote_record_identity :: "cloudkit_library_destination \<Rightarrow> string \<Rightarrow> remote_identity" where
  "remote_record_identity d record_name =
     (ld_database_scope d, ld_zone_name d, ld_owner_record_name d, record_name)"

definition decode_existing_proof ::
  "(json \<Rightarrow> 'a option) \<Rightarrow> asset_record \<Rightarrow> string \<Rightarrow> json \<Rightarrow> resolution_error + 'a"
where
  "decode_existing_proof de r k v = ok_or (MalformedExistingProof (ar_asset_id r) k) (de v)"

definition malformed_existing_resolution :: "asset_record \<Rightarrow> resolution_error" where
  "malformed_existing_resolution r = MalformedExistingProof (ar_asset_id r) RESOLUTION_PROOF"

definition validate_existing_original_asset_proof ::
  "asset_record \<Rightarrow> original_asset_proof \<Rightarrow> resolution_error + unit"
where
  "validate_existing_original_asset_proof r p =
     fail_if
       (\<not> is_safe_identity (oa_record_name p) \<or> \<not> is_safe_identity (oa_record_change_tag p)
        \<or> oa_record_type p \<noteq> ''CPLAsset'' \<or> \<not> is_safe_single_filename (oa_filename p)
        \<or> oa_size_bytes p = 0 \<or> \<not> is_sha256 (oa_matched_raw_sha256 p)
        \<or> \<not> is_ok (validate_destination (original_destination p)))
       (MalformedExistingProof (ar_asset_id r) ORIGINAL_ASSET_PROOF)"

definition validate_existing_resolution_source ::
  "asset_record \<Rightarrow> resolution_proof \<Rightarrow> resolution_error + unit"
where
  "validate_existing_resolution_source r p =
     (let malformed = malformed_existing_resolution r; source = rp_source p in
      bind_ok (map_err (\<lambda>_. malformed) (stored_source_proof de_nas_raw_proof r ''nas'')) (\<lambda>nas.
      bind_ok (map_err (\<lambda>_. malformed) (stored_source_proof de_source_age_proof r ''source_age'')) (\<lambda>source_age.
      fail_if
        (\<not> source_proofs_are_valid r nas source_age
         \<or> rs_nas_sha256 source \<noteq> nr_sha256 nas \<or> rs_nas_size_bytes source \<noteq> nr_size_bytes nas
         \<or> rs_source_captured_unix_seconds source \<noteq> sa_source_captured_unix_seconds source_age
         \<or> file_name (ar_raw_path r) \<noteq> Some (rs_filename source)
         \<or> rp_observed_at_unix_seconds p < sa_verified_at_unix_seconds source_age
         \<or> rp_observed_at_unix_seconds p < rs_source_captured_unix_seconds source)
        malformed)))"

definition replacement_is_bound :: "asset_replacement_proof \<Rightarrow> cloudkit_library_destination \<Rightarrow> bool" where
  "replacement_is_bound q d \<longleftrightarrow>
     is_safe_identity (ra_record_name q) \<and> is_safe_identity (ra_record_change_tag q)
     \<and> ra_record_type q = ''CPLAsset'' \<and> is_safe_identity (ra_resource_field q)
     \<and> ra_size_bytes q \<noteq> 0 \<and> is_sha256 (ra_matched_heic_sha256 q)
     \<and> ra_database_scope q = ld_database_scope d \<and> ra_zone_name q = ld_zone_name d
     \<and> ra_owner_record_name q = ld_owner_record_name d"

definition original_is_bound :: "original_asset_proof \<Rightarrow> resolution_proof \<Rightarrow> bool" where
  "original_is_bound o' p \<longleftrightarrow>
     oa_database_scope o' = ld_database_scope (rp_destination p)
     \<and> oa_zone_name o' = ld_zone_name (rp_destination p)
     \<and> oa_owner_record_name o' = ld_owner_record_name (rp_destination p)
     \<and> oa_filename o' = rs_filename (rp_source p) \<and> oa_size_bytes o' = rs_nas_size_bytes (rp_source p)
     \<and> oa_matched_raw_sha256 o' = rs_nas_sha256 (rp_source p)"

definition persisted_disposition_state_is_consistent ::
  "asset_record \<Rightarrow> evidence_kind \<Rightarrow> original_asset_proof option \<Rightarrow> bool"
where
  "persisted_disposition_state_is_consistent r evidence top_level_original =
     (if evidence = EvExactOriginal then top_level_original \<noteq> None
      else
        ar_state r =
          (if evidence \<in> {EvReplacementPresent, EvCoexistence, EvNoDateCandidate, EvNoRawResource}
           then NoAction else NeedsReview)
        \<and> top_level_original = None
        \<and> \<not> list_ex (has_proof r)
              [''delete_eligibility'', ''delete_approval'', ''delete'', ''uploaded_heic_delete''])"

definition existing_disposition ::
  "workflow_world \<Rightarrow> 'r manifest \<Rightarrow> asset_record \<Rightarrow> resolution_proof \<Rightarrow> original_asset_proof option
     \<Rightarrow> resolution_error + evidence_kind \<times> remote_identity list"
where
  "existing_disposition w m r p top_level_original =
     (let malformed = malformed_existing_resolution r; d = rp_destination p in
      case rp_disposition p of
        ExactOriginal original \<Rightarrow>
          bind_ok (validate_existing_original_asset_proof r original) (\<lambda>_.
          bind_ok (fail_if (top_level_original \<noteq> Some original \<or> \<not> original_is_bound original p) malformed) (\<lambda>_.
          bind_ok (map_err (\<lambda>_. malformed)
            (reconciliation_exact_state_is_consistent w m (ar_asset_id r) d)) (\<lambda>consistent.
          bind_ok (fail_if (\<not> consistent) malformed) (\<lambda>_.
          Ok (EvExactOriginal, [remote_record_identity d (oa_record_name original)])))))
      | ReplacementPresent replacement \<Rightarrow>
          bind_ok (fail_if (\<not> replacement_is_bound replacement d) malformed) (\<lambda>_.
          Ok (EvReplacementPresent, [remote_record_identity d (ra_record_name replacement)]))
      | Coexistence original replacement \<Rightarrow>
          bind_ok (fail_if
            (\<not> is_safe_identity (oa_record_name original) \<or> \<not> is_safe_identity (oa_record_change_tag original)
             \<or> oa_record_type original \<noteq> ''CPLAsset'' \<or> \<not> is_safe_single_filename (oa_filename original)
             \<or> \<not> original_is_bound original p \<or> \<not> replacement_is_bound replacement d) malformed) (\<lambda>_.
          Ok (EvCoexistence,
              (if oa_record_name original = ra_record_name replacement
               then [remote_record_identity d (oa_record_name original)]
               else [remote_record_identity d (oa_record_name original),
                     remote_record_identity d (ra_record_name replacement)])))
      | NoDateCandidate \<Rightarrow> Ok (EvNoDateCandidate, [])
      | NoRawResource \<Rightarrow> Ok (EvNoRawResource, [])
      | RawSizeMismatch \<Rightarrow> Ok (EvRawSizeMismatch, [])
      | RawHashMismatch \<Rightarrow> Ok (EvRawHashMismatch, [])
      | Ambiguous \<Rightarrow> Ok (EvAmbiguous, []))"

definition validate_existing_resolution_proof ::
  "workflow_world \<Rightarrow> 'r manifest \<Rightarrow> asset_record \<Rightarrow> resolution_proof \<Rightarrow> original_asset_proof option
     \<Rightarrow> resolution_error + remote_identity list"
where
  "validate_existing_resolution_proof w m r p top_level_original =
     (let malformed = malformed_existing_resolution r; inventory = rp_inventory p; source = rp_source p in
      bind_ok (fail_if
        (rp_schema_version p \<noteq> RESOLUTION_SCHEMA_VERSION
         \<or> \<not> is_ok (validate_inventory
               \<lparr>if_resolver_version = iv_resolver_version inventory, if_sha256 = iv_sha256 inventory,
                if_records_scanned = iv_records_scanned inventory\<rparr>)
         \<or> \<not> is_ok (validate_destination (rp_destination p))
         \<or> rp_observed_at_unix_seconds p = 0 \<or> rs_nas_size_bytes source = 0
         \<or> rs_source_captured_unix_seconds source = 0 \<or> \<not> is_sha256 (rs_nas_sha256 source)
         \<or> \<not> is_safe_single_filename (rs_filename source)) malformed) (\<lambda>_.
      bind_ok (validate_existing_resolution_source r p) (\<lambda>_.
      bind_ok (map_err (\<lambda>_. malformed)
        (reconciliation_lifecycle_state w m (ar_asset_id r) (rp_destination p))) (\<lambda>_.
      bind_ok (existing_disposition w m r p top_level_original) (\<lambda>(evidence, identity).
      bind_ok (fail_if
        (\<not> evidence_is_coherent (rp_observations p) evidence
         \<or> \<not> persisted_disposition_state_is_consistent r evidence top_level_original) malformed) (\<lambda>_.
      Ok identity))))))"

definition insert_existing_remote_identity ::
  "asset_record \<Rightarrow> remote_identity \<Rightarrow> (remote_identity \<rightharpoonup> string)
     \<Rightarrow> resolution_error + (remote_identity \<rightharpoonup> string)"
where
  "insert_existing_remote_identity r identity names =
     (case names identity of
        Some existing_asset_id \<Rightarrow>
          (if existing_asset_id \<noteq> ar_asset_id r
           then Err (DuplicateOriginalRecord (snd (snd (snd identity))))
           else Ok (names(identity \<mapsto> ar_asset_id r)))
      | None \<Rightarrow> Ok (names(identity \<mapsto> ar_asset_id r)))"

definition existing_original :: "asset_record \<Rightarrow> resolution_error + original_asset_proof option" where
  "existing_original r =
     (case get_proof r ORIGINAL_ASSET_PROOF of
        None \<Rightarrow> Ok None
      | Some v \<Rightarrow> map_ok Some (decode_existing_proof de_original_asset_proof r ORIGINAL_ASSET_PROOF v))"

definition existing_resolution :: "asset_record \<Rightarrow> resolution_error + resolution_proof option" where
  "existing_resolution r =
     (case get_proof r RESOLUTION_PROOF of
        None \<Rightarrow> Ok None
      | Some v \<Rightarrow> map_ok Some (decode_existing_proof de_resolution_proof r RESOLUTION_PROOF v))"

definition collect_record_names ::
  "workflow_world \<Rightarrow> 'r manifest \<Rightarrow> asset_record \<Rightarrow> (remote_identity \<rightharpoonup> string)
     \<Rightarrow> resolution_error + (remote_identity \<rightharpoonup> string)"
where
  "collect_record_names w m r names =
     bind_ok (existing_original r) (\<lambda>original.
     bind_ok
       (case original of
          None \<Rightarrow> Ok names
        | Some p \<Rightarrow>
            bind_ok (validate_existing_original_asset_proof r p) (\<lambda>_.
            insert_existing_remote_identity r
              (remote_record_identity (original_destination p) (oa_record_name p)) names)) (\<lambda>names.
     bind_ok (existing_resolution r) (\<lambda>resolution.
     case resolution of
       None \<Rightarrow> Ok names
     | Some p \<Rightarrow>
         bind_ok (validate_existing_resolution_proof w m r p original) (\<lambda>identities.
         try_fold (insert_existing_remote_identity r) identities names))))"

definition existing_original_record_names ::
  "workflow_world \<Rightarrow> 'r manifest \<Rightarrow> resolution_error + remote_identity set"
where
  "existing_original_record_names w m =
     map_ok dom (try_fold (collect_record_names w m) (bt_values (mf_records m)) Map.empty)"

subsection \<open>The batch\<close>

definition insert_new_identity ::
  "cloudkit_library_destination \<Rightarrow> string \<Rightarrow> remote_identity set \<Rightarrow> resolution_error + remote_identity set"
where
  "insert_new_identity d record_name seen =
     (if remote_record_identity d record_name \<in> seen then Err (DuplicateOriginalRecord record_name)
      else Ok (insert (remote_record_identity d record_name) seen))"

definition insert_remote_record_identity ::
  "cloudkit_library_destination \<Rightarrow> string \<Rightarrow> string \<Rightarrow> remote_identity set
     \<Rightarrow> resolution_error + remote_identity set"
where
  "insert_remote_record_identity d original_record_name replacement_record_name seen =
     bind_ok (insert_new_identity d original_record_name seen) (\<lambda>seen.
     if replacement_record_name \<noteq> original_record_name
     then insert_new_identity d replacement_record_name seen
     else Ok seen)"

definition strongest_proof_consistent_state ::
  "workflow_world \<Rightarrow> 'r manifest \<Rightarrow> asset_record \<Rightarrow> cloudkit_library_destination \<Rightarrow> resolution_error + state"
where
  "strongest_proof_consistent_state w m r d =
     map_err (\<lambda>_. InvalidSource (ar_asset_id r) ''lifecycle proof chain is invalid'')
       (reconciliation_lifecycle_state w m (ar_asset_id r) d)"

record batch_summary =
  bs_exact_original :: u64
  bs_no_action :: u64
  bs_needs_review :: u64

definition no_summary :: batch_summary where
  "no_summary = \<lparr>bs_exact_original = 0, bs_no_action = 0, bs_needs_review = 0\<rparr>"

definition count_exact :: "batch_summary \<Rightarrow> batch_summary" where
  "count_exact s = s\<lparr>bs_exact_original := saturating_add (bs_exact_original s) 1\<rparr>"

definition count_no_action :: "batch_summary \<Rightarrow> batch_summary" where
  "count_no_action s = s\<lparr>bs_no_action := saturating_add (bs_no_action s) 1\<rparr>"

definition count_needs_review :: "batch_summary \<Rightarrow> batch_summary" where
  "count_needs_review s = s\<lparr>bs_needs_review := saturating_add (bs_needs_review s) 1\<rparr>"

record resolution_update =
  ru_asset_id :: string
  ru_new_state :: state
  ru_original_asset_proof :: "original_asset_proof option"
  ru_resolution_proof :: resolution_proof

definition durable_proof ::
  "resolution_batch \<Rightarrow> resolve_target \<Rightarrow> nas_raw_proof \<Rightarrow> asset_resolution \<Rightarrow> resolution_disposition
     \<Rightarrow> resolution_proof"
where
  "durable_proof b t source resolution disposition =
     \<lparr>rp_schema_version = RESOLUTION_SCHEMA_VERSION,
      rp_inventory =
        \<lparr>iv_resolver_version = if_resolver_version (rb_inventory b), iv_sha256 = if_sha256 (rb_inventory b),
         iv_records_scanned = if_records_scanned (rb_inventory b)\<rparr>,
      rp_destination = rb_destination b,
      rp_observed_at_unix_seconds = rb_observed_at_unix_seconds b,
      rp_source =
        \<lparr>rs_nas_sha256 = nr_sha256 source, rs_nas_size_bytes = nr_size_bytes source,
         rs_source_captured_unix_seconds = rt_source_captured_unix_seconds t,
         rs_capture_tolerance_seconds = rt_capture_tolerance_seconds t, rs_filename = rt_filename t\<rparr>,
      rp_observations = observations (rn_observations resolution),
      rp_disposition = disposition\<rparr>"

text \<open>
  One target of the loop, after its source and evidence are valid: the remote identities seen, the
  summary, and the new state, the original's proof and the disposition to record.
\<close>

type_synonym settled =
  "remote_identity set \<times> batch_summary \<times> state \<times> original_asset_proof option \<times> resolution_disposition"

definition settle_target ::
  "workflow_world \<Rightarrow> 'r manifest \<Rightarrow> resolution_batch \<Rightarrow> resolve_target \<Rightarrow> asset_record
     \<Rightarrow> resolve_disposition \<Rightarrow> remote_identity set \<Rightarrow> batch_summary \<Rightarrow> resolution_error + settled"
where
  "settle_target w m b t r disposition seen summary =
     (let a = rt_asset_id t; d = rb_destination b in
      case disposition of
        ResolvedExactOriginal p \<Rightarrow>
          bind_ok (validate_exact_original_proof a p t d) (\<lambda>_.
          bind_ok (insert_new_identity d (oa_record_name p) seen) (\<lambda>seen.
          bind_ok (strongest_proof_consistent_state w m r d) (\<lambda>s.
          Ok (seen, count_exact summary, s, Some p, ExactOriginal p))))
      | IncompleteTransient \<Rightarrow> Err (IncompleteTransientError a)
      | ResolvedReplacementPresent p \<Rightarrow>
          bind_ok (validate_replacement_proof a p t d) (\<lambda>_.
          bind_ok (insert_new_identity d (rr_record_name p) seen) (\<lambda>seen.
          Ok (seen, count_no_action summary, NoAction, None, ReplacementPresent (replacement_proof p))))
      | ResolvedCoexistence p q \<Rightarrow>
          bind_ok (validate_coexistence_proofs a p q t d) (\<lambda>_.
          bind_ok (insert_remote_record_identity d (oa_record_name p) (rr_record_name q) seen) (\<lambda>seen.
          Ok (seen, count_no_action summary, NoAction, None, Coexistence p (replacement_proof q))))
      | ResolvedNoDateCandidate \<Rightarrow> Ok (seen, count_no_action summary, NoAction, None, NoDateCandidate)
      | ResolvedNoRawResource \<Rightarrow> Ok (seen, count_no_action summary, NoAction, None, NoRawResource)
      | ResolvedRawSizeMismatch \<Rightarrow> Ok (seen, count_needs_review summary, NeedsReview, None, RawSizeMismatch)
      | ResolvedRawHashMismatch \<Rightarrow> Ok (seen, count_needs_review summary, NeedsReview, None, RawHashMismatch)
      | ResolvedAmbiguous \<Rightarrow> Ok (seen, count_needs_review summary, NeedsReview, None, Ambiguous))"

definition resolve_one ::
  "workflow_world \<Rightarrow> 'r manifest \<Rightarrow> resolution_batch \<Rightarrow> resolve_target
     \<Rightarrow> remote_identity set \<times> batch_summary
     \<Rightarrow> resolution_error + (remote_identity set \<times> batch_summary) \<times> resolution_update"
where
  "resolve_one w m b t acc =
     (case acc of (seen, summary) \<Rightarrow>
      bind_ok (map_err ResolutionManifest (manifest_get m (rt_asset_id t))) (\<lambda>r.
      bind_ok (validate_source w m r t (rb_destination b) (rb_observed_at_unix_seconds b)) (\<lambda>source.
      bind_ok (ok_or ResolutionPanic (bt_get (rb_resolutions b) (rt_asset_id t))) (\<lambda>resolution.
      bind_ok (validate_disposition_evidence (rt_asset_id t) resolution) (\<lambda>_.
      bind_ok (settle_target w m b t r (rn_disposition resolution) seen summary)
        (\<lambda>(seen, summary, new_state, original, disposition).
      Ok ((seen, summary),
          \<lparr>ru_asset_id = rt_asset_id t, ru_new_state = new_state, ru_original_asset_proof = original,
           ru_resolution_proof = durable_proof b t source resolution disposition\<rparr>)))))))"

fun resolve_all ::
  "workflow_world \<Rightarrow> 'r manifest \<Rightarrow> resolution_batch \<Rightarrow> resolve_target list
     \<Rightarrow> remote_identity set \<times> batch_summary
     \<Rightarrow> resolution_error + batch_summary \<times> resolution_update list"
where
  "resolve_all w m b [] acc = Ok (snd acc, [])"
| "resolve_all w m b (t # ts) acc =
     bind_ok (resolve_one w m b t acc) (\<lambda>(acc, u).
     bind_ok (resolve_all w m b ts acc) (\<lambda>(summary, us). Ok (summary, u # us)))"

text \<open>The loop over the updates, on a copy; \<open>clock n\<close> is the reading at the \<open>n\<close>-th update.\<close>

fun stage_updates ::
  "(nat \<Rightarrow> string) \<Rightarrow> nat \<Rightarrow> resolution_update list \<Rightarrow> 'r manifest
     \<Rightarrow> resolution_error + 'r manifest \<times> asset_record list"
where
  "stage_updates clock n [] staged = Ok (staged, [])"
| "stage_updates clock n (u # us) staged =
     bind_ok (map_err ResolutionManifest
       (apply_original_asset_resolution_update (clock n) (ru_new_state u)
         (map_option ser_original_asset_proof (ru_original_asset_proof u))
         (ser_resolution_proof (ru_resolution_proof u)) staged (ru_asset_id u))) (\<lambda>staged.
     bind_ok (map_err ResolutionManifest (manifest_get staged (ru_asset_id u))) (\<lambda>changed.
     bind_ok (stage_updates clock (Suc n) us staged) (\<lambda>(staged, changed_records).
     Ok (staged, changed # changed_records))))"

definition apply_original_asset_resolution_batch ::
  "workflow_world \<Rightarrow> (nat \<Rightarrow> string) \<Rightarrow> resolution_batch \<Rightarrow> 'r manifest
     \<Rightarrow> resolution_error + 'r manifest \<times> asset_record list \<times> batch_summary"
where
  "apply_original_asset_resolution_batch w clock b m =
     bind_ok (validate_batch_shape b) (\<lambda>_.
     bind_ok (existing_original_record_names w m) (\<lambda>seen_remote_records.
     bind_ok (resolve_all w m b (rb_targets b) (seen_remote_records, no_summary)) (\<lambda>(summary, updates).
     bind_ok (stage_updates clock 0 updates m) (\<lambda>(staged, changed_records).
     Ok (staged, changed_records, summary)))))"

end
