(* ===== verification/Reconcile_Frame.thy ===== *)
theory Reconcile_Frame
  imports Reconcile_Batch
begin

section \<open>What reconciliation reads\<close>

text \<open>
  The known remote records of a manifest, record by record: collecting them succeeds exactly when the
  stored proofs of each record are valid and no two assets claim the same remote record. What one
  record contributes depends on that record only.
\<close>

subsection \<open>One record\<close>

definition record_names ::
  "workflow_world \<Rightarrow> 'r manifest \<Rightarrow> asset_record \<Rightarrow> resolution_error + remote_identity list"
where
  "record_names w m r =
     bind_ok (existing_original r) (\<lambda>original.
     bind_ok
       (case original of
          None \<Rightarrow> Ok []
        | Some p \<Rightarrow>
            bind_ok (validate_existing_original_asset_proof r p) (\<lambda>_.
            Ok [remote_record_identity (original_destination p) (oa_record_name p)])) (\<lambda>names.
     bind_ok (existing_resolution r) (\<lambda>resolution.
     case resolution of
       None \<Rightarrow> Ok names
     | Some p \<Rightarrow>
         bind_ok (validate_existing_resolution_proof w m r p original) (\<lambda>identities.
         Ok (names @ identities)))))"

lemma insert_existing_eq_Ok:
  "insert_existing_remote_identity r i names = Inr names' \<longleftrightarrow>
     (names i = None \<or> names i = Some (ar_asset_id r)) \<and> names' = names(i \<mapsto> ar_asset_id r)"
  by (auto simp: insert_existing_remote_identity_def split: option.splits)

definition own_all :: "asset_record \<Rightarrow> remote_identity list \<Rightarrow> (remote_identity \<rightharpoonup> string)
    \<Rightarrow> (remote_identity \<rightharpoonup> string)" where
  "own_all r ids names = (\<lambda>i. if i \<in> set ids then Some (ar_asset_id r) else names i)"

lemma insert_all_eq_Ok:
  "try_fold (insert_existing_remote_identity r) ids names = Inr names' \<longleftrightarrow>
     (\<forall>i\<in>set ids. names i = None \<or> names i = Some (ar_asset_id r)) \<and> names' = own_all r ids names"
proof (induction ids arbitrary: names)
  case Nil
  then show ?case by (auto simp: own_all_def)
next
  case (Cons i ids)
  have own: "own_all r ids (names(i \<mapsto> ar_asset_id r)) = own_all r (i # ids) names"
    by (auto simp: own_all_def)
  have free: "(\<forall>j\<in>set ids. (names(i \<mapsto> ar_asset_id r)) j = None \<or> (names(i \<mapsto> ar_asset_id r)) j = Some (ar_asset_id r))
      = (\<forall>j\<in>set ids. j = i \<or> names j = None \<or> names j = Some (ar_asset_id r))"
    by auto
  have "try_fold (insert_existing_remote_identity r) (i # ids) names = Inr names' \<longleftrightarrow>
      (names i = None \<or> names i = Some (ar_asset_id r))
      \<and> try_fold (insert_existing_remote_identity r) ids (names(i \<mapsto> ar_asset_id r)) = Inr names'"
    unfolding try_fold_Cons_eq_Ok insert_existing_eq_Ok by blast
  then show ?case
    unfolding Cons.IH own free by auto
qed

lemma collect_eq:
  "collect_record_names w m r names =
     (case record_names w m r of
        Inr ids \<Rightarrow> try_fold (insert_existing_remote_identity r) ids names
      | Inl e \<Rightarrow> collect_record_names w m r names)"
proof (cases "record_names w m r")
  case (Inr ids)
  then show ?thesis
    by (auto simp: record_names_def collect_record_names_def bind_ok_eq_Ok try_fold_append
        try_fold.simps split: option.splits sum.splits)
qed simp

lemma collect_eq_Ok:
  "collect_record_names w m r names = Inr names' \<longleftrightarrow>
     (\<exists>ids. record_names w m r = Inr ids
        \<and> (\<forall>i\<in>set ids. names i = None \<or> names i = Some (ar_asset_id r)) \<and> names' = own_all r ids names)"
proof (cases "record_names w m r")
  case (Inl e)
  then have "collect_record_names w m r names \<noteq> Inr names'"
    by (auto simp: record_names_def collect_record_names_def bind_ok_def split: option.splits sum.splits)
  with Inl show ?thesis by simp
next
  case (Inr ids)
  then show ?thesis by (simp add: collect_eq insert_all_eq_Ok)
qed

subsection \<open>All records\<close>

definition owns :: "workflow_world \<Rightarrow> 'r manifest \<Rightarrow> (remote_identity \<rightharpoonup> string) \<Rightarrow> asset_record \<Rightarrow> bool" where
  "owns w m f r \<longleftrightarrow> (\<exists>ids. record_names w m r = Inr ids \<and> (\<forall>i\<in>set ids. f i = Some (ar_asset_id r)))"

definition known :: "workflow_world \<Rightarrow> 'r manifest \<Rightarrow> asset_record \<Rightarrow> remote_identity set" where
  "known w m r = (case record_names w m r of Inl _ \<Rightarrow> {} | Inr ids \<Rightarrow> set ids)"

lemma map_le_iff: "f \<subseteq>\<^sub>m g \<longleftrightarrow> (\<forall>i x. f i = Some x \<longrightarrow> g i = Some x)"
  by (metis domI domIff map_le_def not_None_eq)

lemma own_all_owned: "i \<in> set ids \<Longrightarrow> own_all r ids names i = Some (ar_asset_id r)"
  by (simp add: own_all_def)

lemma own_all_extends:
  assumes "\<forall>i\<in>set ids. names i = None \<or> names i = Some (ar_asset_id r)"
  shows "names \<subseteq>\<^sub>m own_all r ids names"
  unfolding map_le_iff own_all_def using assms by (metis option.distinct(1) option.inject)

lemma own_all_le: "names \<subseteq>\<^sub>m f \<Longrightarrow> \<forall>i\<in>set ids. f i = Some (ar_asset_id r) \<Longrightarrow> own_all r ids names \<subseteq>\<^sub>m f"
  unfolding map_le_iff own_all_def by (metis option.inject)

lemma collect_all_sound:
  assumes "try_fold (collect_record_names w m) rs names = Inr names'"
  shows "(\<forall>r\<in>set rs. owns w m names' r) \<and> names \<subseteq>\<^sub>m names'
    \<and> dom names' = dom names \<union> (\<Union>r\<in>set rs. known w m r)"
  using assms
proof (induction rs arbitrary: names)
  case Nil
  then show ?case by simp
next
  case (Cons r rs)
  then obtain ids where ids: "record_names w m r = Inr ids"
      "\<forall>i\<in>set ids. names i = None \<or> names i = Some (ar_asset_id r)"
    and rest: "try_fold (collect_record_names w m) rs (own_all r ids names) = Inr names'"
    by (auto simp: try_fold_Cons_eq_Ok collect_eq_Ok)
  note IH = Cons.IH [OF rest]
  have step: "names \<subseteq>\<^sub>m own_all r ids names"
    by (rule own_all_extends) (rule ids(2))
  have "\<forall>i\<in>set ids. names' i = Some (ar_asset_id r)"
    using IH own_all_owned [of _ ids r names] unfolding map_le_iff by blast
  then have "owns w m names' r"
    using ids(1) unfolding owns_def by blast
  moreover have "dom (own_all r ids names) = dom names \<union> known w m r"
    by (auto simp: own_all_def known_def ids(1) split: if_splits)
  ultimately show ?case
    using IH map_le_trans [OF step] by auto
qed

lemma collect_all_complete:
  assumes "\<forall>r\<in>set rs. owns w m f r" and "names \<subseteq>\<^sub>m f"
  shows "\<exists>names'. try_fold (collect_record_names w m) rs names = Inr names'"
  using assms
proof (induction rs arbitrary: names)
  case Nil
  then show ?case by simp
next
  case (Cons r rs)
  then obtain ids where ids: "record_names w m r = Inr ids" "\<forall>i\<in>set ids. f i = Some (ar_asset_id r)"
    by (auto simp: owns_def)
  have "\<forall>i\<in>set ids. names i = None \<or> names i = Some (ar_asset_id r)"
    using ids(2) Cons.prems(2) unfolding map_le_iff by (metis option.exhaust)
  moreover have "own_all r ids names \<subseteq>\<^sub>m f"
    by (rule own_all_le [OF Cons.prems(2) ids(2)])
  ultimately show ?case
    using Cons.IH [of "own_all r ids names"] Cons.prems(1) ids(1)
    by (auto simp: try_fold_Cons_eq_Ok collect_eq_Ok)
qed

lemma existing_names_eq_Ok:
  "existing_original_record_names w m = Inr S \<longleftrightarrow>
     (\<exists>f. \<forall>r\<in>set (bt_values (mf_records m)). owns w m f r)
     \<and> S = (\<Union>r\<in>set (bt_values (mf_records m)). known w m r)"
proof
  assume "existing_original_record_names w m = Inr S"
  then show "(\<exists>f. \<forall>r\<in>set (bt_values (mf_records m)). owns w m f r)
     \<and> S = (\<Union>r\<in>set (bt_values (mf_records m)). known w m r)"
    by (auto simp: existing_original_record_names_def map_ok_eq_Ok dest!: collect_all_sound)
next
  assume S: "(\<exists>f. \<forall>r\<in>set (bt_values (mf_records m)). owns w m f r)
     \<and> S = (\<Union>r\<in>set (bt_values (mf_records m)). known w m r)"
  then obtain names where
    "try_fold (collect_record_names w m) (bt_values (mf_records m)) Map.empty = Inr names"
    using collect_all_complete [of "bt_values (mf_records m)" w m _ Map.empty] by auto
  with S show "existing_original_record_names w m = Inr S"
    by (auto simp: existing_original_record_names_def map_ok_eq_Ok dest!: collect_all_sound)
qed

subsection \<open>A record sees itself only\<close>

lemma same_record_agree: "bt_get (mf_records m') a = bt_get (mf_records m) a \<Longrightarrow>
    bt_get (mf_records m) a = Some r \<Longrightarrow> agree ks a m m'"
  by (simp add: agree_def)

lemma same_lifecycle:
  fixes m m' :: "'r manifest"
  assumes same: "bt_get (mf_records m') a = bt_get (mf_records m) a" and r: "bt_get (mf_records m) a = Some r"
  shows "reconciliation_lifecycle_state w m' a d = reconciliation_lifecycle_state w m a d"
    and "reconciliation_exact_state_is_consistent w m' a d = reconciliation_exact_state_is_consistent w m a d"
proof -
  note agree = same_record_agree [OF same r]
  have get: "wf_get m' a = wf_get m a"
    by (simp add: wf_get_def manifest_get_def same)
  have stored2: "stored_proof de m' a k = stored_proof de m a k"
    for de :: "json \<Rightarrow> delete_eligibility_proof option" and k
    by (rule agree_stored [OF agree [of UNIV]]) simp
  have stored3: "stored_proof de m' a k = stored_proof de m a k"
    for de :: "json \<Rightarrow> delete_approval_proof option" and k
    by (rule agree_stored [OF agree [of UNIV]]) simp
  have stored4: "stored_proof de m' a k = stored_proof de m a k"
    for de :: "json \<Rightarrow> delete_execution_proof option" and k
    by (rule agree_stored [OF agree [of UNIV]]) simp
  have stored5: "stored_proof de m' a k = stored_proof de m a k"
    for de :: "json \<Rightarrow> original_asset_proof option" and k
    by (rule agree_stored [OF agree [of UNIV]]) simp
  have stored6: "stored_proof de m' a k = stored_proof de m a k"
    for de :: "json \<Rightarrow> upload_proof option" and k
    by (rule agree_stored [OF agree [of UNIV]]) simp
  have stored7: "stored_proof de m' a k = stored_proof de m a k"
    for de :: "json \<Rightarrow> conversion_performance_proof option" and k
    by (rule agree_stored [OF agree [of UNIV]]) simp
  note stored = stored2 stored3 stored4 stored5 stored6 stored7
  have binding: "validate_conversion_source_binding w m' a c = validate_conversion_source_binding w m a c" for c
    unfolding validate_conversion_source_binding_def agree_adjusted [OF agree] ..
  show life: "reconciliation_lifecycle_state w m' a d = reconciliation_lifecycle_state w m a d"
    unfolding reconciliation_lifecycle_state_def get binding stored ..
  have chain: "validate_delete_eligibility_chain w m' a facts = validate_delete_eligibility_chain w m a facts"
    "validate_delete_approval_proof w m' a facts = validate_delete_approval_proof w m a facts" for facts
    unfolding validate_delete_eligibility_chain_def validate_delete_approval_proof_def stored by (rule refl)+
  have plan: "validate_stored_delete_plan_proofs w m' a = validate_stored_delete_plan_proofs w m a"
    "validate_stored_delete_execution_proof w m' a = validate_stored_delete_execution_proof w m a"
    unfolding validate_stored_delete_plan_proofs_def validate_stored_delete_execution_proof_def
      agree_pre_delete [OF agree] chain stored by (rule refl)+
  show "reconciliation_exact_state_is_consistent w m' a d = reconciliation_exact_state_is_consistent w m a d"
    unfolding reconciliation_exact_state_is_consistent_def get life agree_pre_delete [OF agree] chain plan ..
qed

lemma same_record_names:
  fixes m m' :: "'r manifest"
  assumes "bt_get (mf_records m') (ar_asset_id r) = bt_get (mf_records m) (ar_asset_id r)"
    and "bt_get (mf_records m) (ar_asset_id r) = Some r"
  shows "record_names w m' r = record_names w m r"
  unfolding record_names_def validate_existing_resolution_proof_def existing_disposition_def
    same_lifecycle [OF assms] ..

end
