(* ===== verification/Reconcile_Outcome.thy ===== *)
theory Reconcile_Outcome
  imports Reconcile_Frame
begin

section \<open>The outcome of a batch as a relation\<close>

text \<open>
  The outcome of one target as a relation (\<open>outcome\<close>, \<open>justified_update\<close>), the loop over the targets and
  the loop over the updates refined to it, and what the validators of a source and of a batch establish.
\<close>

subsection \<open>The outcome of one target\<close>

fun remote_records :: "cloudkit_library_destination \<Rightarrow> resolution_disposition \<Rightarrow> remote_identity set" where
  "remote_records d (ExactOriginal p) = {remote_record_identity d (oa_record_name p)}"
| "remote_records d (ReplacementPresent q) = {remote_record_identity d (ra_record_name q)}"
| "remote_records d (Coexistence p q) =
     {remote_record_identity d (oa_record_name p), remote_record_identity d (ra_record_name q)}"
| "remote_records d _ = {}"

inductive outcome ::
  "workflow_world \<Rightarrow> 'r manifest \<Rightarrow> resolution_batch \<Rightarrow> resolve_target \<Rightarrow> asset_record
     \<Rightarrow> resolve_disposition \<Rightarrow> state \<Rightarrow> original_asset_proof option \<Rightarrow> resolution_disposition \<Rightarrow> bool"
  for w m b t r
where
  exact: "validate_exact_original_proof (rt_asset_id t) p t (rb_destination b) = Ok ()
    \<Longrightarrow> reconciliation_lifecycle_state w m (ar_asset_id r) (rb_destination b) = Ok s
    \<Longrightarrow> outcome w m b t r (ResolvedExactOriginal p) s (Some p) (ExactOriginal p)"
| replacement: "validate_replacement_proof (rt_asset_id t) q t (rb_destination b) = Ok ()
    \<Longrightarrow> outcome w m b t r (ResolvedReplacementPresent q) NoAction None (ReplacementPresent (replacement_proof q))"
| coexistence: "validate_exact_original_proof (rt_asset_id t) p t (rb_destination b) = Ok ()
    \<Longrightarrow> validate_replacement_proof (rt_asset_id t) q t (rb_destination b) = Ok ()
    \<Longrightarrow> outcome w m b t r (ResolvedCoexistence p q) NoAction None (Coexistence p (replacement_proof q))"
| no_date: "outcome w m b t r ResolvedNoDateCandidate NoAction None NoDateCandidate"
| no_raw: "outcome w m b t r ResolvedNoRawResource NoAction None NoRawResource"
| size_mismatch: "outcome w m b t r ResolvedRawSizeMismatch NeedsReview None RawSizeMismatch"
| hash_mismatch: "outcome w m b t r ResolvedRawHashMismatch NeedsReview None RawHashMismatch"
| ambiguous: "outcome w m b t r ResolvedAmbiguous NeedsReview None Ambiguous"

definition update_of ::
  "resolution_batch \<Rightarrow> resolve_target \<Rightarrow> nas_raw_proof \<Rightarrow> asset_resolution \<Rightarrow> state
     \<Rightarrow> original_asset_proof option \<Rightarrow> resolution_disposition \<Rightarrow> resolution_update"
where
  "update_of b t source resolution s original disposition =
     \<lparr>ru_asset_id = rt_asset_id t, ru_new_state = s, ru_original_asset_proof = original,
      ru_resolution_proof = durable_proof b t source resolution disposition\<rparr>"

definition justified_update ::
  "workflow_world \<Rightarrow> 'r manifest \<Rightarrow> resolution_batch \<Rightarrow> resolve_target \<Rightarrow> resolution_update \<Rightarrow> bool"
where
  "justified_update w m b t u \<longleftrightarrow>
     (\<exists>r source resolution s original disposition.
        bt_get (mf_records m) (rt_asset_id t) = Some r
        \<and> validate_source w m r t (rb_destination b) (rb_observed_at_unix_seconds b) = Ok source
        \<and> bt_get (rb_resolutions b) (rt_asset_id t) = Some resolution
        \<and> validate_disposition_evidence (rt_asset_id t) resolution = Ok ()
        \<and> outcome w m b t r (rn_disposition resolution) s original disposition
        \<and> u = update_of b t source resolution s original disposition)"

definition update_records :: "resolution_batch \<Rightarrow> resolution_update \<Rightarrow> remote_identity set" where
  "update_records b u = remote_records (rb_destination b) (rp_disposition (ru_resolution_proof u))"

lemma insert_new_eq_Ok:
  "insert_new_identity d n seen = Inr seen' \<longleftrightarrow>
     remote_record_identity d n \<notin> seen \<and> seen' = insert (remote_record_identity d n) seen"
  by (auto simp: insert_new_identity_def)

lemma insert_both_eq_Ok:
  "insert_remote_record_identity d n k seen = Inr seen' \<Longrightarrow>
     {remote_record_identity d n, remote_record_identity d k} \<inter> seen = {}
     \<and> seen' = seen \<union> {remote_record_identity d n, remote_record_identity d k}"
  by (auto simp: insert_remote_record_identity_def bind_ok_eq_Ok insert_new_eq_Ok split: if_splits)

lemma settle_target_outcome:
  assumes "settle_target w m b t r disposition seen summary = Inr (seen', summary', s, original, durable)"
  shows "outcome w m b t r disposition s original durable
    \<and> remote_records (rb_destination b) durable \<inter> seen = {}
    \<and> seen' = seen \<union> remote_records (rb_destination b) durable"
proof (cases disposition)
  case (ResolvedExactOriginal p)
  then have "validate_exact_original_proof (rt_asset_id t) p t (rb_destination b) = Ok ()"
      "insert_new_identity (rb_destination b) (oa_record_name p) seen = Inr seen'"
      "reconciliation_lifecycle_state w m (ar_asset_id r) (rb_destination b) = Ok s"
      "original = Some p" "durable = ExactOriginal p"
    using assms by (auto simp: settle_target_def Let_def bind_ok_eq_Ok strongest_proof_consistent_state_def)
  then show ?thesis
    using ResolvedExactOriginal outcome.exact by (simp add: insert_new_eq_Ok)
next
  case (ResolvedReplacementPresent q)
  then have "validate_replacement_proof (rt_asset_id t) q t (rb_destination b) = Ok ()"
      "insert_new_identity (rb_destination b) (rr_record_name q) seen = Inr seen'"
      "s = NoAction" "original = None" "durable = ReplacementPresent (replacement_proof q)"
    using assms by (auto simp: settle_target_def Let_def bind_ok_eq_Ok)
  then show ?thesis
    using ResolvedReplacementPresent outcome.replacement
    by (simp add: insert_new_eq_Ok) (simp add: replacement_proof_def)
next
  case (ResolvedCoexistence p q)
  then have "validate_exact_original_proof (rt_asset_id t) p t (rb_destination b) = Ok ()"
      "validate_replacement_proof (rt_asset_id t) q t (rb_destination b) = Ok ()"
      "insert_remote_record_identity (rb_destination b) (oa_record_name p) (rr_record_name q) seen = Inr seen'"
      "s = NoAction" "original = None" "durable = Coexistence p (replacement_proof q)"
    using assms by (auto simp: settle_target_def Let_def bind_ok_eq_Ok validate_coexistence_proofs_def)
  then show ?thesis
    using ResolvedCoexistence outcome.coexistence insert_both_eq_Ok
    by (fastforce simp: replacement_proof_def)
qed (use assms in \<open>simp_all add: settle_target_def Let_def outcome.intros\<close>)

lemma resolve_one_justified:
  assumes "resolve_one w m b t (seen, summary) = Inr ((seen', summary'), u)"
  shows "justified_update w m b t u \<and> ru_asset_id u = rt_asset_id t
    \<and> update_records b u \<inter> seen = {} \<and> seen' = seen \<union> update_records b u"
  using assms
  by (auto simp: resolve_one_def bind_ok_eq_Ok map_err_eq_Ok manifest_get_eq_Ok justified_update_def update_of_def
      update_records_def durable_proof_def dest!: settle_target_outcome split: prod.splits)

subsection \<open>The loop over the targets\<close>

definition apart :: "resolution_batch \<Rightarrow> resolution_update list \<Rightarrow> remote_identity set \<Rightarrow> bool" where
  "apart b us seen \<longleftrightarrow>
     (\<forall>u\<in>set us. update_records b u \<inter> seen = {})
     \<and> sorted_wrt (\<lambda>u v. update_records b u \<inter> update_records b v = {}) us"

lemma apart_Cons:
  "apart b us (seen \<union> update_records b u) \<Longrightarrow> update_records b u \<inter> seen = {} \<Longrightarrow> apart b (u # us) seen"
  by (auto simp: apart_def)

lemma resolve_all_justified:
  assumes "resolve_all w m b ts (seen, summary) = Inr (summary', us)"
  shows "list_all2 (justified_update w m b) ts us \<and> map ru_asset_id us = map rt_asset_id ts \<and> apart b us seen"
  using assms
proof (induction ts arbitrary: seen summary us)
  case Nil
  then show ?case by (simp add: apart_def)
next
  case (Cons t ts)
  then obtain seen1 summary1 u us1 where one: "resolve_one w m b t (seen, summary) = Inr ((seen1, summary1), u)"
    and rest: "resolve_all w m b ts (seen1, summary1) = Inr (summary', us1)" and us: "us = u # us1"
    by (auto simp: bind_ok_eq_Ok split: prod.splits)
  show ?case
    using resolve_one_justified [OF one] Cons.IH [OF rest] us by (auto intro: apart_Cons)
qed

subsection \<open>The loop over the updates\<close>

definition resolved_record :: "string \<Rightarrow> resolution_update \<Rightarrow> asset_record \<Rightarrow> asset_record" where
  "resolved_record now u r =
     (put_proof RESOLUTION_PROOF (ser_resolution_proof (ru_resolution_proof u))
        (case ru_original_asset_proof u of
           None \<Rightarrow> r\<lparr>ar_state := ru_new_state u\<rparr>
         | Some p \<Rightarrow> put_proof ORIGINAL_ASSET_PROOF (ser_original_asset_proof p) (r\<lparr>ar_state := ru_new_state u\<rparr>)))
     \<lparr>ar_updated_at := now\<rparr>"

lemma resolution_names [simp]:
  "RESOLUTION_PROOF \<noteq> ORIGINAL_ASSET_PROOF" "ORIGINAL_ASSET_PROOF \<noteq> RESOLUTION_PROOF"
  by (simp_all add: model_defs)

lemma resolved_record_simps [simp]:
  "ar_state (resolved_record now u r) = ru_new_state u"
  "ar_asset_id (resolved_record now u r) = ar_asset_id r"
  "ar_raw_path (resolved_record now u r) = ar_raw_path r"
  "ar_failures (resolved_record now u r) = ar_failures r"
  "get_proof (resolved_record now u r) k =
     (if k = RESOLUTION_PROOF then Some (ser_resolution_proof (ru_resolution_proof u))
      else if k = ORIGINAL_ASSET_PROOF \<and> ru_original_asset_proof u \<noteq> None
      then map_option ser_original_asset_proof (ru_original_asset_proof u)
      else get_proof r k)"
  "record_ok r \<Longrightarrow> record_ok (resolved_record now u r)"
  by (auto simp: resolved_record_def put_proof_def get_proof_def record_ok_def split: option.splits)

lemma stage_one:
  "apply_original_asset_resolution_update now (ru_new_state u)
      (map_option ser_original_asset_proof (ru_original_asset_proof u))
      (ser_resolution_proof (ru_resolution_proof u)) m (ru_asset_id u) = Inr m' \<longleftrightarrow>
   (\<exists>r. bt_get (mf_records m) (ru_asset_id u) = Some r \<and> unreserved r
      \<and> m' = put_record (ru_asset_id u) (resolved_record now u r) m)"
  by (auto simp: apply_resolution_eq_Ok resolution_rel_def resolved_record_def put_record_def model_defs
      split: option.splits)

lemma stage_updates_spec:
  assumes "stage_updates clock n us m = Inr (m', changed)" and "distinct (map ru_asset_id us)"
  shows "(\<forall>a. a \<notin> ru_asset_id ` set us \<longrightarrow> bt_get (mf_records m') a = bt_get (mf_records m) a)
    \<and> (\<forall>u\<in>set us. \<exists>now r. bt_get (mf_records m) (ru_asset_id u) = Some r
         \<and> bt_get (mf_records m') (ru_asset_id u) = Some (resolved_record now u r))
    \<and> (manifest_ok m \<longrightarrow> manifest_ok m')"
  using assms
proof (induction us arbitrary: n m changed)
  case Nil
  then show ?case by simp
next
  case (Cons u us)
  then obtain r changed1 where r: "bt_get (mf_records m) (ru_asset_id u) = Some r"
    and rest: "stage_updates clock (Suc n) us (put_record (ru_asset_id u) (resolved_record (clock n) u r) m)
        = Inr (m', changed1)"
    by (auto simp: bind_ok_eq_Ok map_err_eq_Ok stage_one)
  note IH = Cons.IH [OF rest]
  have ok: "manifest_ok m \<Longrightarrow> manifest_ok (put_record (ru_asset_id u) (resolved_record (clock n) u r) m)"
    unfolding put_record_def using manifest_ok_get [OF _ r] by (intro manifest_ok_put) auto
  have other: "ru_asset_id v \<noteq> ru_asset_id u" if "v \<in> set us" for v
    using Cons.prems(2) that by (metis distinct.simps(2) image_eqI list.set_map list.simps(9))
  have us: "\<exists>now s. bt_get (mf_records m) (ru_asset_id v) = Some s
      \<and> bt_get (mf_records m') (ru_asset_id v) = Some (resolved_record now v s)" if "v \<in> set us" for v
    using IH Cons.prems(2) other [OF that] that by fastforce
  show ?case
    using IH Cons.prems(2) r ok us by (auto simp: image_iff)
qed

subsection \<open>What a valid source says\<close>

lemma lifecycle_states:
  "reconciliation_lifecycle_state w m a d = Inr s \<Longrightarrow> s \<in> {NasVerified, Converted, ConversionVerified, UploadVerified}"
  by (auto simp: reconciliation_lifecycle_state_def lifecycle_after_heic_def bind_ok_eq_Ok
      split: option.splits if_splits)

lemma stored_source_eq_Ok:
  "stored_source_proof de r k = Inr p \<longleftrightarrow> (\<exists>v. get_proof r k = Some v \<and> de v = Some p)"
  by (auto simp: stored_source_proof_def bind_ok_eq_Ok)

lemma validate_source_facts:
  assumes "validate_source w m r t d observed = Inr nas"
  shows "ar_state r \<in> set source_states"
    and "get_proof r RESOLUTION_PROOF = None" "get_proof r ORIGINAL_ASSET_PROOF = None"
    and "get_proof r DELETE_ELIGIBILITY_PROOF = None" "get_proof r DELETE_APPROVAL_PROOF = None"
    and "stored_source_proof de_nas_raw_proof r ''nas'' = Inr nas"
    and "\<exists>age. stored_source_proof de_source_age_proof r ''source_age'' = Inr age
      \<and> source_proofs_are_valid r nas age \<and> sa_verified_at_unix_seconds age \<le> observed"
    and "rt_source_captured_unix_seconds t \<le> observed"
    and "\<exists>s. reconciliation_lifecycle_state w m (ar_asset_id r) d = Inr s \<and> (ar_state r = Failed \<or> ar_state r = s)"
    and "nr_size_bytes nas = rt_raw_size_bytes t" "nr_sha256 nas = rt_matched_raw_sha256 t"
    and "nr_modified_unix_seconds nas = rt_source_captured_unix_seconds t"
    and "file_name (ar_raw_path r) = Some (rt_filename t)"
  using assms unfolding validate_source_def Let_def
  by (auto simp: bind_ok_eq_Ok has_proof_iff model_defs not_less)

subsection \<open>Reading back\<close>

text \<open>The state that the stored proofs support does not change when the outcome is recorded.\<close>

lemma lifecycle_kept:
  fixes m m' :: "'r manifest"
  assumes r: "bt_get (mf_records m) a = Some r" "bt_get (mf_records m') a = Some r'"
    and same: "\<And>k. k \<noteq> ORIGINAL_ASSET_PROOF \<Longrightarrow> k \<noteq> RESOLUTION_PROOF \<Longrightarrow> get_proof r' k = get_proof r k"
    and none: "get_proof r ORIGINAL_ASSET_PROOF = None"
    and ids: "ar_asset_id r' = ar_asset_id r"
    and life: "reconciliation_lifecycle_state w m a d = Inr s"
  shows "reconciliation_lifecycle_state w m' a d = Inr s"
proof -
  have gets: "wf_get m a = Inr r" "wf_get m' a = Inr r'"
    using r by simp_all
  have names: "k \<noteq> ORIGINAL_ASSET_PROOF" "k \<noteq> RESOLUTION_PROOF"
    if "k \<in> {CONVERSION_PROOF, HEIC_PROOF, UPLOAD_PROOF, CONVERSION_PERFORMANCE_PROOF, ADJUSTED_SOURCE_PROOF}" for k
    using that by (auto simp: model_defs)
  have opt: "optional_workflow_proof de r' k = optional_workflow_proof de r k"
    if "k \<in> {CONVERSION_PROOF, HEIC_PROOF, UPLOAD_PROOF, CONVERSION_PERFORMANCE_PROOF, ADJUSTED_SOURCE_PROOF}"
    for de :: "json \<Rightarrow> 'b option" and k
    unfolding optional_workflow_proof_def ids same [OF names [OF that]] ..
  have performance: "stored_proof de_conversion_performance_proof m' a CONVERSION_PERFORMANCE_PROOF
      = stored_proof de_conversion_performance_proof m a CONVERSION_PERFORMANCE_PROOF"
    using same [OF names, of CONVERSION_PERFORMANCE_PROOF]
    by (simp add: stored_proof_def require_proof_def wf_get_def manifest_get_def r)
  have no_original: "stored_proof de_original_asset_proof m a ORIGINAL_ASSET_PROOF
      = Inl (MissingProof a ORIGINAL_ASSET_PROOF)"
    by (simp add: stored_proof_def require_proof_def gets none bind_ok_def)
  have binding: "validate_conversion_source_binding w m' a c = Inr x"
    if "validate_conversion_source_binding w m a c = Inr x" for c x
  proof -
    have "get_proof r ADJUSTED_SOURCE_PROOF = None"
      using that unfolding validate_conversion_source_binding_def stored_adjusted_source_for_conversion_def
        gets bind_ok_simps no_original
      by (auto simp: bind_ok_eq_Ok optional_proof_eq_Ok split: option.splits)
    then have "stored_adjusted_source_for_conversion m a p = Inr None"
        "stored_adjusted_source_for_conversion m' a p = Inr None" for p
      using same [OF names, of ADJUSTED_SOURCE_PROOF]
      unfolding stored_adjusted_source_for_conversion_def gets bind_ok_simps
      by (simp_all add: optional_workflow_proof_def bind_ok_def)
    then show ?thesis
      using that unfolding validate_conversion_source_binding_def by simp
  qed
  have opts: "optional_workflow_proof de_conversion_result_proof r' CONVERSION_PROOF
        = optional_workflow_proof de_conversion_result_proof r CONVERSION_PROOF"
      "optional_workflow_proof de_heic_verification_proof r' HEIC_PROOF
        = optional_workflow_proof de_heic_verification_proof r HEIC_PROOF"
      "optional_workflow_proof de_upload_proof r' UPLOAD_PROOF = optional_workflow_proof de_upload_proof r UPLOAD_PROOF"
    by (rule opt; simp)+
  from life obtain conversion heic upload where read:
      "optional_workflow_proof de_conversion_result_proof r CONVERSION_PROOF = Inr conversion"
      "optional_workflow_proof de_heic_verification_proof r HEIC_PROOF = Inr heic"
      "optional_workflow_proof de_upload_proof r UPLOAD_PROOF = Inr upload"
    unfolding reconciliation_lifecycle_state_def gets bind_ok_simps by (auto simp only: bind_ok_eq_Ok)
  show ?thesis
  proof (cases conversion)
    case None
    then show ?thesis
      using life unfolding reconciliation_lifecycle_state_def gets bind_ok_simps opts read by simp
  next
    case (Some c)
    note life = life [unfolded reconciliation_lifecycle_state_def gets bind_ok_simps read Some option.case]
    then obtain x where x: "validate_conversion_source_binding w m a c = Inr x"
      by (auto simp only: bind_ok_eq_Ok)
    show ?thesis
      using life unfolding reconciliation_lifecycle_state_def gets bind_ok_simps opts read Some option.case
        performance x binding [OF x] .
  qed
qed

subsection \<open>The shape of a valid batch\<close>

lemma unique_targets_spec:
  "unique_targets ts ids = Inr ids' \<Longrightarrow>
     (\<forall>t\<in>set ts. validate_target t = Ok ()) \<and> distinct (map rt_asset_id ts)
     \<and> rt_asset_id ` set ts \<inter> ids = {} \<and> ids' = ids \<union> rt_asset_id ` set ts"
  by (induction ts arbitrary: ids) (fastforce simp: bind_ok_eq_Ok split: if_splits)+

lemma shape_facts:
  assumes "validate_batch_shape b = Inr u"
  shows "validate_inventory (rb_inventory b) = Ok ()" "validate_destination (rb_destination b) = Ok ()"
    and "rb_observed_at_unix_seconds b \<noteq> 0" "rb_targets b \<noteq> []"
    and "\<forall>t\<in>set (rb_targets b). validate_target t = Ok ()" "distinct (map rt_asset_id (rb_targets b))"
  using assms by (auto simp: validate_batch_shape_def bind_ok_eq_Ok dest!: unique_targets_spec)

lemma target_facts:
  assumes "validate_target t = Ok ()"
  shows "rt_raw_size_bytes t \<noteq> 0" "rt_source_captured_unix_seconds t \<noteq> 0"
    and "is_safe_single_filename (rt_filename t)" "is_sha256 (rt_matched_raw_sha256 t)"
    and "rt_replacement_candidate t = Some c \<Longrightarrow> rc_size_bytes c \<noteq> 0 \<and> is_sha256 (rc_sha256 c)"
  using assms by (auto simp: validate_target_def Let_def)

lemma original_bound:
  assumes "validate_exact_original_proof a p t d = Ok ()" and "validate_target t = Ok ()"
    and "validate_destination d = Ok ()"
  shows "validate_existing_original_asset_proof r p = Ok ()" "original_destination p = d"
    and "rp_destination q = d \<Longrightarrow> rs_filename (rp_source q) = rt_filename t
      \<Longrightarrow> rs_nas_size_bytes (rp_source q) = rt_raw_size_bytes t
      \<Longrightarrow> rs_nas_sha256 (rp_source q) = rt_matched_raw_sha256 t \<Longrightarrow> original_is_bound p q"
proof -
  show d: "original_destination p = d"
    using assms(1) by (cases d) (simp add: validate_exact_original_proof_def original_destination_def)
  show "validate_existing_original_asset_proof r p = Ok ()"
    using assms(1) target_facts [OF assms(2)] assms(3)
    by (simp add: validate_existing_original_asset_proof_def validate_exact_original_proof_def d is_ok_def)
  show "rp_destination q = d \<Longrightarrow> rs_filename (rp_source q) = rt_filename t
      \<Longrightarrow> rs_nas_size_bytes (rp_source q) = rt_raw_size_bytes t
      \<Longrightarrow> rs_nas_sha256 (rp_source q) = rt_matched_raw_sha256 t \<Longrightarrow> original_is_bound p q"
    using assms(1) by (simp add: validate_exact_original_proof_def original_is_bound_def)
qed

lemma replacement_bound:
  assumes "validate_replacement_proof a q t d = Ok ()" and "validate_target t = Ok ()"
  shows "replacement_is_bound (replacement_proof q) d"
proof -
  obtain c where "rt_replacement_candidate t = Some c"
    using assms(1) by (auto simp: validate_replacement_proof_def bind_ok_eq_Ok)
  then show ?thesis
    using assms(1) target_facts(5) [OF assms(2)]
    by (auto simp: validate_replacement_proof_def bind_ok_eq_Ok replacement_is_bound_def replacement_proof_def)
qed

end
