(* ===== verification/Reconcile_Safety.thy ===== *)
theory Reconcile_Safety
  imports Reconcile_Outcome
begin

section \<open>What an applied batch has done\<close>

text \<open>
  The two theorems on batches: a batch changes exactly its targets and never gives two assets the same
  remote record, and what it writes is accepted when the next batch reads it back.
\<close>

subsection \<open>A recorded outcome is accepted\<close>

text \<open>The evidence that each disposition of a durable proof stands for.\<close>

lemma outcome_facts:
  assumes "outcome w m b t r disposition s original durable"
  shows "\<exists>evidence. resolution_evidence disposition = Some evidence
      \<and> (evidence = EvExactOriginal \<longleftrightarrow> original \<noteq> None)
      \<and> (original = None \<longrightarrow>
           s = (if evidence \<in> {EvReplacementPresent, EvCoexistence, EvNoDateCandidate, EvNoRawResource}
                then NoAction else NeedsReview))"
  using assms by cases simp_all

lemma recorded_disposition:
  assumes out: "outcome w m b t r (rn_disposition resolution) s original durable"
    and target: "validate_target t = Ok ()" and dest: "validate_destination (rb_destination b) = Ok ()"
    and source: "nr_size_bytes nas = rt_raw_size_bytes t" "nr_sha256 nas = rt_matched_raw_sha256 t"
    and exact: "\<And>p. durable = ExactOriginal p \<Longrightarrow>
      reconciliation_exact_state_is_consistent w m' (ar_asset_id r') (rb_destination b) = Inr True"
  shows "\<exists>evidence ids. resolution_evidence (rn_disposition resolution) = Some evidence
    \<and> existing_disposition w m' r' (durable_proof b t nas resolution durable) original = Inr (evidence, ids)
    \<and> set ids = remote_records (rb_destination b) durable"
proof -
  let ?p = "durable_proof b t nas resolution durable"
  have p: "rp_destination ?p = rb_destination b" "rs_filename (rp_source ?p) = rt_filename t"
      "rs_nas_size_bytes (rp_source ?p) = rt_raw_size_bytes t" "rs_nas_sha256 (rp_source ?p) = rt_matched_raw_sha256 t"
      "rp_disposition ?p = durable"
    by (simp_all add: durable_proof_def source)
  show ?thesis
    using out
  proof cases
    case (exact q)
    note bound = original_bound [OF this(4) target dest]
    show ?thesis
      using exact(1-3) bound(1) bound(3) [OF p(1-4)] assms(6) [OF exact(3)]
      unfolding existing_disposition_def Let_def p by simp
  next
    case (replacement q)
    show ?thesis
      using replacement(1-4) replacement_bound [OF replacement(5) target]
      unfolding existing_disposition_def Let_def p by simp
  next
    case (coexistence q q')
    note bound = original_bound [OF this(5) target dest]
    have "is_safe_identity (oa_record_name q)" "is_safe_identity (oa_record_change_tag q)"
        "oa_record_type q = ''CPLAsset''" "is_safe_single_filename (oa_filename q)"
      using coexistence(5) target_facts(3) [OF target] by (simp_all add: validate_exact_original_proof_def)
    then show ?thesis
      using coexistence(1-4) replacement_bound [OF coexistence(6) target] bound(3) [OF p(1-4)]
      unfolding existing_disposition_def Let_def p by auto
  qed (unfold existing_disposition_def Let_def p, simp_all)
qed

lemma recorded_outcome_reads_back:
  fixes m m' :: "'r manifest"
  assumes just: "justified_update w m b t u" and shape: "validate_batch_shape b = Inr ()" and t: "t \<in> set (rb_targets b)"
    and r: "bt_get (mf_records m) (rt_asset_id t) = Some r" "ar_asset_id r = rt_asset_id t"
    and r': "bt_get (mf_records m') (rt_asset_id t) = Some (resolved_record now u r)"
    and no_delete: "get_proof r DELETE_EXECUTION_PROOF = None" "get_proof r UPLOADED_HEIC_DELETE_PROOF = None"
  shows "\<exists>ids. record_names w m' (resolved_record now u r) = Inr ids \<and> set ids = update_records b u"
proof -
  let ?r = "resolved_record now u r" and ?d = "rb_destination b"
  from just r(1) obtain nas resolution s original durable where
      source: "validate_source w m r t ?d (rb_observed_at_unix_seconds b) = Inr nas"
    and coherent: "validate_disposition_evidence (rt_asset_id t) resolution = Ok ()"
    and out: "outcome w m b t r (rn_disposition resolution) s original durable"
    and u: "u = update_of b t nas resolution s original durable"
    by (auto simp: justified_update_def)
  note src = validate_source_facts [OF source]
  note shape = shape_facts [OF shape]
  have target: "validate_target t = Ok ()" using shape(5) t by blast
  let ?p = "durable_proof b t nas resolution durable"
  have us: "ru_new_state u = s" "ru_original_asset_proof u = original" "ru_resolution_proof u = ?p"
    by (simp_all add: u update_of_def)
  have kept: "get_proof ?r k = get_proof r k" if "k \<noteq> ORIGINAL_ASSET_PROOF" "k \<noteq> RESOLUTION_PROOF" for k
    using that by simp
  obtain life_state where life: "reconciliation_lifecycle_state w m (rt_asset_id t) ?d = Inr life_state"
    using src(9) r(2) by auto
  have life': "reconciliation_lifecycle_state w m' (rt_asset_id t) ?d = Inr life_state"
    by (rule lifecycle_kept [OF r(1) r' kept src(3) _ life]) simp_all
  have exact: "reconciliation_exact_state_is_consistent w m' (ar_asset_id ?r) ?d = Inr True"
    if "durable = ExactOriginal p" for p
  proof -
    have s: "s = life_state"
      using out that life r(2) by cases auto
    have get: "wf_get m' (ar_asset_id ?r) = Inr ?r" using r' r(2) by simp
    have "ar_asset_id ?r = rt_asset_id t" using r(2) by simp
    then show ?thesis
      using lifecycle_states [OF life'] src(4,5) no_delete(1) s
      unfolding reconciliation_exact_state_is_consistent_def get bind_ok_simps
      by (simp add: life' us has_proof_iff kept model_defs)
  qed
  have original: "existing_original ?r = Inr original"
    using src(3) by (cases original)
      (simp_all add: existing_original_def us decode_existing_proof_def original_asset_codec.de_enc)
  have resolution: "existing_resolution ?r = Inr (Some ?p)"
    by (simp add: existing_resolution_def us decode_existing_proof_def resolution_codec.de_enc)
  have "\<exists>evidence ids. resolution_evidence (rn_disposition resolution) = Some evidence
      \<and> existing_disposition w m' ?r ?p original = Inr (evidence, ids)
      \<and> set ids = remote_records ?d durable"
    by (rule recorded_disposition [OF out target shape(2) src(10,11)]) (rule exact)
  then obtain evidence ids where ev: "resolution_evidence (rn_disposition resolution) = Some evidence"
    and disposition: "existing_disposition w m' ?r ?p original = Inr (evidence, ids)"
    and ids: "set ids = remote_records ?d durable"
    by auto
  have source_ok: "validate_existing_resolution_source ?r ?p = Inr ()"
  proof -
    obtain age where "stored_source_proof de_source_age_proof r ''source_age'' = Inr age"
        "source_proofs_are_valid r nas age" "sa_verified_at_unix_seconds age \<le> rb_observed_at_unix_seconds b"
      using src(7) by blast
    moreover from this(2) have "sa_source_captured_unix_seconds age = rt_source_captured_unix_seconds t"
      by (simp add: source_proofs_are_valid_def src(12) [symmetric])
    moreover have "stored_source_proof de ?r k = stored_source_proof de r k"
      if "k \<in> {''nas'', ''source_age''}" for de :: "json \<Rightarrow> 'b option" and k
    proof -
      have "get_proof ?r k = get_proof r k" using that by (intro kept) (auto simp: model_defs)
      then show ?thesis unfolding stored_source_proof_def resolved_record_simps(2) by (rule arg_cong)
    qed
    note stored = this
    ultimately show ?thesis
      using src(6,8,13) unfolding validate_existing_resolution_source_def Let_def
      by (simp add: stored bind_ok_def source_proofs_are_valid_def durable_proof_def not_less)
  qed
  have observed: "evidence_is_coherent (rp_observations ?p) evidence"
    using coherent ev by (auto simp: validate_disposition_evidence_def durable_proof_def split: if_splits)
  have state: "persisted_disposition_state_is_consistent ?r evidence original"
    using outcome_facts [OF out] ev src(4,5) no_delete
    by (auto simp: persisted_disposition_state_is_consistent_def us has_proof_iff model_defs)
  have valid: "validate_existing_resolution_proof w m' ?r ?p original = Inr ids"
  proof -
    have "\<lparr>if_resolver_version = iv_resolver_version (rp_inventory ?p), if_sha256 = iv_sha256 (rp_inventory ?p),
        if_records_scanned = iv_records_scanned (rp_inventory ?p)\<rparr> = rb_inventory b"
      by (cases "rb_inventory b") (simp add: durable_proof_def)
    moreover have "rp_schema_version ?p = RESOLUTION_SCHEMA_VERSION" "rp_destination ?p = ?d"
        "rp_observed_at_unix_seconds ?p \<noteq> 0" "rs_nas_size_bytes (rp_source ?p) \<noteq> 0"
        "rs_source_captured_unix_seconds (rp_source ?p) \<noteq> 0" "is_sha256 (rs_nas_sha256 (rp_source ?p))"
        "is_safe_single_filename (rs_filename (rp_source ?p))"
      using shape(3) target_facts [OF target] by (simp_all add: durable_proof_def src(10,11))
    moreover have "reconciliation_lifecycle_state w m' (ar_asset_id ?r) ?d = Inr life_state"
      using life' r(2) by simp
    ultimately show ?thesis
      unfolding validate_existing_resolution_proof_def Let_def
      by (simp add: shape(1,2) is_ok_def source_ok disposition observed state bind_ok_simps)
  qed
  have names: "validate_existing_original_asset_proof ?r p = Inr ()
      \<and> remote_record_identity (original_destination p) (oa_record_name p) \<in> set ids" if "original = Some p" for p
  proof -
    have "validate_exact_original_proof (rt_asset_id t) p t ?d = Ok ()" "durable = ExactOriginal p"
      using out that by (cases; simp)+
    then show ?thesis
      using original_bound(1,2) [OF _ target shape(2)] ids by simp
  qed
  have disposition_of: "rp_disposition ?p = durable"
    by (simp add: durable_proof_def)
  have "update_records b u = set ids"
    unfolding update_records_def us disposition_of ids ..
  then show ?thesis
  proof (cases original)
    case None
    then have "record_names w m' ?r = Inr ids"
      unfolding record_names_def original resolution bind_ok_simps option.case None
      using valid None by (simp add: bind_ok_simps)
    with \<open>update_records b u = set ids\<close> show ?thesis by simp
  next
    case (Some p)
    then have read: "record_names w m' ?r
        = Inr (remote_record_identity (original_destination p) (oa_record_name p) # ids)"
      unfolding record_names_def original resolution bind_ok_simps option.case Some
      using valid [unfolded Some] names [OF Some] by (simp add: bind_ok_simps)
    have "set (remote_record_identity (original_destination p) (oa_record_name p) # ids) = set ids"
      using names [OF Some] by (simp add: insert_absorb)
    with read show ?thesis unfolding \<open>update_records b u = set ids\<close> by blast
  qed
qed

subsection \<open>A batch and what it writes\<close>

lemma batch_facts:
  fixes m m' :: "'r manifest"
  assumes "apply_original_asset_resolution_batch w clock b m = Inr (m', changed, summary)"
  obtains S us where "validate_batch_shape b = Inr ()" "existing_original_record_names w m = Inr S"
    and "list_all2 (justified_update w m b) (rb_targets b) us" "map ru_asset_id us = map rt_asset_id (rb_targets b)"
    and "apart b us S" "stage_updates clock 0 us m = Inr (m', changed)"
  using assms
  by (auto simp: apply_original_asset_resolution_batch_def bind_ok_eq_Ok dest!: resolve_all_justified
      split: prod.splits)

text \<open>
  The durable disposition that each outcome of the resolver calls for: the found original, the found
  replacement with all its fields, both, or why nothing was found; none for an incomplete outcome.
\<close>

definition same_replacement :: "replacement_resource_proof \<Rightarrow> asset_replacement_proof" where
  "same_replacement q =
     \<lparr>ra_record_name = rr_record_name q, ra_record_change_tag = rr_record_change_tag q,
      ra_record_type = rr_record_type q, ra_database_scope = rr_database_scope q,
      ra_zone_name = rr_zone_name q, ra_owner_record_name = rr_owner_record_name q,
      ra_resource_field = rr_resource_field q, ra_size_bytes = rr_size_bytes q,
      ra_matched_heic_sha256 = rr_matched_heic_sha256 q\<rparr>"

fun calls_for :: "resolve_disposition \<Rightarrow> resolution_disposition option" where
  "calls_for (ResolvedExactOriginal p) = Some (ExactOriginal p)"
| "calls_for (ResolvedReplacementPresent q) = Some (ReplacementPresent (same_replacement q))"
| "calls_for (ResolvedCoexistence p q) = Some (Coexistence p (same_replacement q))"
| "calls_for ResolvedNoDateCandidate = Some NoDateCandidate"
| "calls_for ResolvedNoRawResource = Some NoRawResource"
| "calls_for ResolvedRawSizeMismatch = Some RawSizeMismatch"
| "calls_for ResolvedRawHashMismatch = Some RawHashMismatch"
| "calls_for ResolvedAmbiguous = Some Ambiguous"
| "calls_for IncompleteTransient = None"

text \<open>The replacement that an outcome names is the one the target asked for.\<close>

fun asked_replacement :: "resolve_target \<Rightarrow> resolution_disposition \<Rightarrow> bool" where
  "asked_replacement t (ReplacementPresent q) = (\<exists>c. rt_replacement_candidate t = Some c
     \<and> ra_size_bytes q = rc_size_bytes c \<and> ra_matched_heic_sha256 q = rc_sha256 c)"
| "asked_replacement t (Coexistence p q) = (\<exists>c. rt_replacement_candidate t = Some c
     \<and> ra_size_bytes q = rc_size_bytes c \<and> ra_matched_heic_sha256 q = rc_sha256 c
     \<and> oa_size_bytes p = rt_raw_size_bytes t \<and> oa_matched_raw_sha256 p = rt_matched_raw_sha256 t)"
| "asked_replacement t _ = True"

text \<open>
  The record of a target before and after: \<open>d\<close> is the disposition that the outcome of this target in
  the batch calls for, and the one its durable proof carries.
\<close>

definition resolved ::
  "workflow_world \<Rightarrow> 'r manifest \<Rightarrow> resolution_batch \<Rightarrow> resolve_target \<Rightarrow> asset_record \<Rightarrow> asset_record
     \<Rightarrow> resolution_disposition \<Rightarrow> bool"
where
  "resolved w m b t r r' d \<longleftrightarrow>
     ar_state r \<in> set source_states
     \<and> (\<forall>k\<in>{RESOLUTION_PROOF, ORIGINAL_ASSET_PROOF, DELETE_ELIGIBILITY_PROOF, DELETE_APPROVAL_PROOF}.
          get_proof r k = None)
     \<and> (\<forall>k. k \<noteq> RESOLUTION_PROOF \<longrightarrow> k \<noteq> ORIGINAL_ASSET_PROOF \<longrightarrow> get_proof r' k = get_proof r k)
     \<and> ar_raw_path r' = ar_raw_path r \<and> ar_failures r' = ar_failures r
     \<and> (\<exists>resolution p. bt_get (rb_resolutions b) (rt_asset_id t) = Some resolution
          \<and> calls_for (rn_disposition resolution) = Some d
          \<and> get_proof r' RESOLUTION_PROOF = Some (ser_resolution_proof p) \<and> rp_disposition p = d
          \<and> rp_observations p = observations (rn_observations resolution)
          \<and> rp_destination p = rb_destination b
          \<and> rp_observed_at_unix_seconds p = rb_observed_at_unix_seconds b
          \<and> rs_nas_sha256 (rp_source p) = rt_matched_raw_sha256 t
          \<and> Some (rs_filename (rp_source p)) = file_name (ar_raw_path r))
     \<and> asked_replacement t d
     \<and> (case d of
          ExactOriginal p \<Rightarrow>
            get_proof r' ORIGINAL_ASSET_PROOF = Some (ser_original_asset_proof p)
            \<and> Some (oa_filename p) = file_name (ar_raw_path r)
            \<and> oa_matched_raw_sha256 p = rt_matched_raw_sha256 t
            \<and> reconciliation_lifecycle_state w m (ar_asset_id r) (rb_destination b) = Ok (ar_state r')
        | _ \<Rightarrow> get_proof r' ORIGINAL_ASSET_PROOF = None
            \<and> ar_state r' = (if d \<in> {RawSizeMismatch, RawHashMismatch, Ambiguous} then NeedsReview else NoAction))"

lemma map_eq_nth: "map f xs = map g ys \<Longrightarrow> i < length xs \<Longrightarrow> f (xs ! i) = g (ys ! i)"
  by (metis length_map nth_map)

lemma outcome_calls_for:
  "outcome w m b t r disposition s original durable \<Longrightarrow>
     calls_for disposition = Some durable \<and> asked_replacement t durable"
  by (induction rule: outcome.induct)
    (auto simp: same_replacement_def replacement_proof_def validate_replacement_proof_def
      validate_exact_original_proof_def bind_ok_eq_Ok)

lemma justified_resolved:
  assumes just: "justified_update w m b t u" and r: "bt_get (mf_records m) (rt_asset_id t) = Some r"
  shows "resolved w m b t r (resolved_record now u r) (rp_disposition (ru_resolution_proof u))"
proof -
  from just r obtain nas resolution s original durable where
      source: "validate_source w m r t (rb_destination b) (rb_observed_at_unix_seconds b) = Inr nas"
    and resolution: "bt_get (rb_resolutions b) (rt_asset_id t) = Some resolution"
    and out: "outcome w m b t r (rn_disposition resolution) s original durable"
    and u: "u = update_of b t nas resolution s original durable"
    by (auto simp: justified_update_def)
  note src = validate_source_facts [OF source]
  have us: "ru_new_state u = s" "ru_original_asset_proof u = original"
      "rp_disposition (ru_resolution_proof u) = durable"
      "rp_destination (ru_resolution_proof u) = rb_destination b"
      "rp_observed_at_unix_seconds (ru_resolution_proof u) = rb_observed_at_unix_seconds b"
      "rp_observations (ru_resolution_proof u) = observations (rn_observations resolution)"
      "rs_nas_sha256 (rp_source (ru_resolution_proof u)) = rt_matched_raw_sha256 t"
      "rs_filename (rp_source (ru_resolution_proof u)) = rt_filename t"
    by (simp_all add: u update_of_def durable_proof_def src(11))
  note asked = outcome_calls_for [OF out]
  show ?thesis
    using out src(1-5,13) asked resolution
    by cases (simp_all add: resolved_def us validate_exact_original_proof_def resolution_codec.enc_inject)
qed

text \<open>
  C22: A batch that is applied changes the records of its targets only. Each of
  them had neither an original nor a step towards deletion, and keeps its other proofs, its path and its
  failures. It gets the durable proof of the outcome that the batch holds for it - the same disposition,
  with the found original or replacement and the observations of that outcome - and the state the
  disposition calls for: an original, with the state its proofs support, exactly for an exact
  original; a review for a size or hash mismatch or an ambiguous outcome; no action otherwise. A found
  replacement is the one the target asked for. No remote record of an outcome was known to the manifest
  before, and no two targets share one.
\<close>
theorem resolution_batch_is_exact:
  fixes m m' :: "'r manifest"
  assumes "apply_original_asset_resolution_batch w clock b m = Ok (m', changed, summary)"
  shows "(\<forall>a. a \<notin> rt_asset_id ` set (rb_targets b) \<longrightarrow> bt_get (mf_records m') a = bt_get (mf_records m) a)
    \<and> (\<exists>S ds. existing_original_record_names w m = Ok S \<and> length ds = length (rb_targets b)
        \<and> (\<forall>i < length ds. \<exists>r r'. bt_get (mf_records m) (rt_asset_id (rb_targets b ! i)) = Some r
             \<and> bt_get (mf_records m') (rt_asset_id (rb_targets b ! i)) = Some r'
             \<and> resolved w m b (rb_targets b ! i) r r' (ds ! i))
        \<and> (\<forall>i < length ds. remote_records (rb_destination b) (ds ! i) \<inter> S = {})
        \<and> (\<forall>i j. i < j \<longrightarrow> j < length ds \<longrightarrow>
             remote_records (rb_destination b) (ds ! i) \<inter> remote_records (rb_destination b) (ds ! j) = {}))"
proof -
  from assms obtain S us where shape: "validate_batch_shape b = Inr ()"
    and S: "existing_original_record_names w m = Inr S"
    and just: "list_all2 (justified_update w m b) (rb_targets b) us"
    and ids: "map ru_asset_id us = map rt_asset_id (rb_targets b)"
    and apart: "apart b us S" and stage: "stage_updates clock 0 us m = Inr (m', changed)"
    by (rule batch_facts)
  have "distinct (map ru_asset_id us)"
    unfolding ids using shape_facts(6) [OF shape] .
  note staged = stage_updates_spec [OF stage this]
  define ds where "ds = map (\<lambda>u. rp_disposition (ru_resolution_proof u)) us"
  have len: "length us = length (rb_targets b)" "length ds = length us"
    using map_eq_imp_length_eq [OF ids] by (simp_all add: ds_def)
  have records: "remote_records (rb_destination b) (ds ! i) = update_records b (us ! i)" if "i < length ds" for i
    using that len by (simp add: ds_def update_records_def)
  have one: "\<exists>r r'. bt_get (mf_records m) (rt_asset_id (rb_targets b ! i)) = Some r
      \<and> bt_get (mf_records m') (rt_asset_id (rb_targets b ! i)) = Some r'
      \<and> resolved w m b (rb_targets b ! i) r r' (ds ! i)" if i: "i < length ds" for i
  proof -
    have u: "us ! i \<in> set us" and id: "ru_asset_id (us ! i) = rt_asset_id (rb_targets b ! i)"
      using i len map_eq_nth [OF ids] by simp_all
    obtain now r where r: "bt_get (mf_records m) (rt_asset_id (rb_targets b ! i)) = Some r"
        "bt_get (mf_records m') (rt_asset_id (rb_targets b ! i)) = Some (resolved_record now (us ! i) r)"
      using staged u id by metis
    have "justified_update w m b (rb_targets b ! i) (us ! i)"
      using just i len by (simp add: list_all2_conv_all_nth)
    from justified_resolved [OF this r(1), of now] r show ?thesis
      using i len by (auto simp: ds_def)
  qed
  have "ru_asset_id ` set us = rt_asset_id ` set (rb_targets b)"
    by (metis ids list.set_map)
  then have untouched: "\<forall>a. a \<notin> rt_asset_id ` set (rb_targets b) \<longrightarrow> bt_get (mf_records m') a = bt_get (mf_records m) a"
    using staged by simp
  have unknown: "\<forall>i < length ds. remote_records (rb_destination b) (ds ! i) \<inter> S = {}"
    using apart records len by (simp add: apart_def)
  have distinct: "\<forall>i j. i < j \<longrightarrow> j < length ds \<longrightarrow>
      remote_records (rb_destination b) (ds ! i) \<inter> remote_records (rb_destination b) (ds ! j) = {}"
    using apart records len by (simp add: apart_def sorted_wrt_iff_nth_less)
  show ?thesis
    by (intro conjI exI [of _ S] exI [of _ ds] untouched S unknown distinct) (use one len in simp_all)
qed

lemma values_get: "manifest_ok m \<Longrightarrow> r \<in> set (bt_values (mf_records m)) \<longleftrightarrow> (\<exists>a. bt_get (mf_records m) a = Some r)"
  by (force simp: bt_values_def manifest_ok_def bt_get_mem [symmetric])

lemma unresolved_names:
  "get_proof r ORIGINAL_ASSET_PROOF = None \<Longrightarrow> get_proof r RESOLUTION_PROOF = None \<Longrightarrow> record_names w m r = Inr []"
  by (simp add: record_names_def existing_original_def existing_resolution_def bind_ok_simps)

text \<open>A manifest before and after a batch whose outcomes read back.\<close>

definition staged_batch ::
  "workflow_world \<Rightarrow> resolution_batch \<Rightarrow> 'r manifest \<Rightarrow> 'r manifest \<Rightarrow> resolution_update list
     \<Rightarrow> remote_identity set \<Rightarrow> bool"
where
  "staged_batch w b m m' us S \<longleftrightarrow>
     existing_original_record_names w m = Inr S \<and> manifest_ok m \<and> manifest_ok m' \<and> apart b us S
     \<and> (\<forall>a. a \<notin> ru_asset_id ` set us \<longrightarrow> bt_get (mf_records m') a = bt_get (mf_records m) a)
     \<and> (\<forall>u\<in>set us.
          (\<exists>r. bt_get (mf_records m) (ru_asset_id u) = Some r \<and> get_proof r ORIGINAL_ASSET_PROOF = None
             \<and> get_proof r RESOLUTION_PROOF = None)
          \<and> (\<exists>r ns. bt_get (mf_records m') (ru_asset_id u) = Some r \<and> ar_asset_id r = ru_asset_id u
               \<and> record_names w m' r = Inr ns \<and> set ns = update_records b u))"

lemma staged_batch_intro:
  fixes m m' :: "'r manifest"
  assumes shape: "validate_batch_shape b = Inr ()" and S: "existing_original_record_names w m = Inr S"
    and just: "list_all2 (justified_update w m b) (rb_targets b) us"
    and ids: "map ru_asset_id us = map rt_asset_id (rb_targets b)"
    and apart: "apart b us S" and stage: "stage_updates clock 0 us m = Inr (m', changed)"
    and ok: "manifest_ok m"
    and free: "\<forall>a\<in>rt_asset_id ` set (rb_targets b). \<forall>r. bt_get (mf_records m) a = Some r \<longrightarrow>
      get_proof r DELETE_EXECUTION_PROOF = None \<and> get_proof r UPLOADED_HEIC_DELETE_PROOF = None"
  shows "staged_batch w b m m' us S"
proof -
  have "distinct (map ru_asset_id us)"
    unfolding ids using shape_facts(6) [OF shape] .
  note staged = stage_updates_spec [OF stage this]
  have "(\<exists>r. bt_get (mf_records m) (ru_asset_id u) = Some r \<and> get_proof r ORIGINAL_ASSET_PROOF = None
      \<and> get_proof r RESOLUTION_PROOF = None)
      \<and> (\<exists>r ns. bt_get (mf_records m') (ru_asset_id u) = Some r \<and> ar_asset_id r = ru_asset_id u
           \<and> record_names w m' r = Inr ns \<and> set ns = update_records b u)" if u: "u \<in> set us" for u
  proof -
    obtain i where i: "i < length us" "u = us ! i" using u by (metis in_set_conv_nth)
    let ?t = "rb_targets b ! i"
    have len: "length us = length (rb_targets b)" using ids by (rule map_eq_imp_length_eq)
    have t: "?t \<in> set (rb_targets b)" "ru_asset_id u = rt_asset_id ?t" "justified_update w m b ?t u"
      using i len just map_eq_nth [OF ids] by (simp_all add: list_all2_conv_all_nth)
    obtain now r where r: "bt_get (mf_records m) (rt_asset_id ?t) = Some r"
        "bt_get (mf_records m') (rt_asset_id ?t) = Some (resolved_record now u r)"
      using staged u t(2) by metis
    have id: "ar_asset_id r = rt_asset_id ?t"
      using manifest_ok_get [OF ok r(1)] by simp
    have none: "get_proof r DELETE_EXECUTION_PROOF = None" "get_proof r UPLOADED_HEIC_DELETE_PROOF = None"
      using free t(1) r(1) by auto
    obtain ns where "record_names w m' (resolved_record now u r) = Inr ns" "set ns = update_records b u"
      using recorded_outcome_reads_back [OF t(3) shape t(1) r(1) id r(2) none] by blast
    moreover have "get_proof r ORIGINAL_ASSET_PROOF = None" "get_proof r RESOLUTION_PROOF = None"
      using t(3) r(1) validate_source_facts(2,3) by (auto simp: justified_update_def)
    ultimately show ?thesis
      using r id t(2) by auto
  qed
  then show ?thesis
    using S ok apart staged by (simp add: staged_batch_def)
qed

lemma staged_old:
  fixes m m' :: "'r manifest"
  assumes st: "staged_batch w b m m' us S" and a: "a \<notin> ru_asset_id ` set us" "bt_get (mf_records m') a = Some r"
  shows "bt_get (mf_records m) a = Some r" "record_names w m' r = record_names w m r"
    and "known w m' r = known w m r"
proof -
  show g: "bt_get (mf_records m) a = Some r" using st a by (simp add: staged_batch_def)
  have "ar_asset_id r = a"
    using st manifest_ok_get [OF _ g] by (simp add: staged_batch_def)
  then show "record_names w m' r = record_names w m r"
    using g a(2) by (intro same_record_names) simp_all
  then show "known w m' r = known w m r" by (simp add: known_def)
qed

lemma staged_new:
  assumes st: "staged_batch w b m m' us S" and u: "u \<in> set us" "bt_get (mf_records m') (ru_asset_id u) = Some r"
  shows "ar_asset_id r = ru_asset_id u" "known w m' r = update_records b u"
    and "\<exists>ns. record_names w m' r = Inr ns \<and> set ns = update_records b u"
proof -
  from st u obtain ns where ns: "ar_asset_id r = ru_asset_id u"
      "record_names w m' r = Inr ns" "set ns = update_records b u"
    by (auto simp: staged_batch_def)
  then show "ar_asset_id r = ru_asset_id u" "known w m' r = update_records b u" by (simp_all add: known_def)
  from ns(2,3) show "\<exists>ns. record_names w m' r = Inr ns \<and> set ns = update_records b u" by blast
qed

lemma staged_before:
  assumes st: "staged_batch w b m m' us S" and r: "bt_get (mf_records m) a = Some r"
  shows "known w m r \<subseteq> S" and "a \<in> ru_asset_id ` set us \<Longrightarrow> known w m r = {}"
proof -
  have "r \<in> set (bt_values (mf_records m))"
    using st r values_get by (auto simp: staged_batch_def)
  with st show "known w m r \<subseteq> S"
    unfolding staged_batch_def existing_names_eq_Ok by blast
  assume "a \<in> ru_asset_id ` set us"
  with st r have "get_proof r ORIGINAL_ASSET_PROOF = None" "get_proof r RESOLUTION_PROOF = None"
    by (auto simp: staged_batch_def)
  then show "known w m r = {}" by (simp add: known_def unresolved_names)
qed

lemma staged_known:
  fixes m m' :: "'r manifest"
  assumes st: "staged_batch w b m m' us S"
  shows "(\<Union>r\<in>set (bt_values (mf_records m')). known w m' r) = S \<union> (\<Union>u\<in>set us. update_records b u)"
    (is "?K = S \<union> ?new")
proof
  have ok: "manifest_ok m" "manifest_ok m'" using st by (simp_all add: staged_batch_def)
  show "?K \<subseteq> S \<union> ?new"
  proof (rule UN_least)
    fix r assume "r \<in> set (bt_values (mf_records m'))"
    then obtain a where a: "bt_get (mf_records m') a = Some r" using values_get [OF ok(2)] by blast
    show "known w m' r \<subseteq> S \<union> ?new"
    proof (cases "a \<in> ru_asset_id ` set us")
      case True
      with staged_new(2) [OF st] a show ?thesis by blast
    next
      case False
      with staged_old(1,3) [OF st this a] staged_before(1) [OF st] show ?thesis by blast
    qed
  qed
  show "S \<union> ?new \<subseteq> ?K"
  proof (rule Un_least; rule subsetI)
    fix i assume "i \<in> S"
    then obtain r where "r \<in> set (bt_values (mf_records m))" "i \<in> known w m r"
      using st unfolding staged_batch_def existing_names_eq_Ok by blast
    then obtain a where r: "bt_get (mf_records m) a = Some r" "i \<in> known w m r"
      using values_get [OF ok(1)] by blast
    have a: "a \<notin> ru_asset_id ` set us"
      using staged_before(2) [OF st r(1)] r(2) by blast
    then have r': "bt_get (mf_records m') a = Some r"
      using st r(1) by (simp add: staged_batch_def)
    with staged_old(3) [OF st a this] r(2) values_get [OF ok(2)] show "i \<in> ?K" by blast
  next
    fix i assume "i \<in> ?new"
    then obtain u where u: "u \<in> set us" "i \<in> update_records b u" by blast
    then obtain r where "bt_get (mf_records m') (ru_asset_id u) = Some r"
      using st by (auto simp: staged_batch_def)
    with staged_new(2) [OF st u(1) this] u(2) values_get [OF ok(2)] show "i \<in> ?K" by blast
  qed
qed

text \<open>The asset that owns a remote record after the batch.\<close>

lemma apart_owner:
  assumes apart: "apart b us S"
  shows "\<exists>g. (\<forall>u\<in>set us. \<forall>i\<in>update_records b u. g i = Some (ru_asset_id u)) \<and> (\<forall>i\<in>S. g i = f i)"
proof -
  let ?P = "\<lambda>i u. u \<in> set us \<and> i \<in> update_records b u"
  have unique: "u = v" if u: "?P i u" "?P i v" for u v i
  proof -
    obtain j k where "j < length us" "k < length us" "u = us ! j" "v = us ! k"
      using u by (metis in_set_conv_nth)
    moreover have "\<forall>j k. j < k \<longrightarrow> k < length us \<longrightarrow> i \<notin> update_records b (us ! j) \<inter> update_records b (us ! k)"
      using apart by (simp add: apart_def sorted_wrt_iff_nth_less)
    ultimately show ?thesis
      using u by (cases j k rule: linorder_cases) auto
  qed
  define g where "g i = (if \<exists>u. ?P i u then Some (ru_asset_id (THE u. ?P i u)) else f i)" for i
  have "g i = Some (ru_asset_id u)" if u: "u \<in> set us" "i \<in> update_records b u" for u i
  proof -
    have "(THE u. ?P i u) = u" using u unique by (intro the_equality) blast+
    moreover have "\<exists>u. ?P i u" using u by blast
    ultimately show ?thesis by (simp only: g_def if_True)
  qed
  moreover have "g i = f i" if i: "i \<in> S" for i
  proof -
    have "\<not> (\<exists>u. ?P i u)" using apart i unfolding apart_def by blast
    then show ?thesis by (simp only: g_def if_False)
  qed
  ultimately show ?thesis by blast
qed

lemma staged_names_known:
  fixes m m' :: "'r manifest"
  assumes st: "staged_batch w b m m' us S"
  shows "existing_original_record_names w m' = Inr (S \<union> (\<Union>u\<in>set us. update_records b u))"
proof -
  have ok: "manifest_ok m" "manifest_ok m'" using st by (simp_all add: staged_batch_def)
  obtain f where f: "\<forall>r\<in>set (bt_values (mf_records m)). owns w m f r"
    using st unfolding staged_batch_def existing_names_eq_Ok by blast
  obtain g where g: "\<And>u i. u \<in> set us \<Longrightarrow> i \<in> update_records b u \<Longrightarrow> g i = Some (ru_asset_id u)"
      "\<And>i. i \<in> S \<Longrightarrow> g i = f i"
    using apart_owner [of b us S f] st by (auto simp: staged_batch_def)
  have "owns w m' g r" if r: "r \<in> set (bt_values (mf_records m'))" for r
  proof -
    obtain a where a: "bt_get (mf_records m') a = Some r"
      using r unfolding values_get [OF ok(2)] by (rule exE)
    show ?thesis
    proof (cases "a \<in> ru_asset_id ` set us")
      case True
      then obtain u where "u \<in> set us" "a = ru_asset_id u" by blast
      with staged_new(1,3) [OF st] a g(1) show ?thesis unfolding owns_def by metis
    next
      case False
      note old = staged_old [OF st False a]
      have "owns w m f r" using f old(1) values_get [OF ok(1)] by blast
      then obtain ns where "record_names w m r = Inr ns" "\<forall>i\<in>set ns. f i = Some (ar_asset_id r)"
        by (auto simp: owns_def)
      moreover from this(1) have "set ns \<subseteq> S"
        using staged_before(1) [OF st old(1)] by (simp add: known_def)
      ultimately show ?thesis using old(2) g(2) by (auto simp: owns_def)
    qed
  qed
  then have "\<exists>g. \<forall>r\<in>set (bt_values (mf_records m')). owns w m' g r" by blast
  then show ?thesis
    unfolding existing_names_eq_Ok staged_known [OF st] by blast
qed

text \<open>
  C23: When no target carries the proof of a deletion, of its original or of its uploaded
  replacement, what a batch has written is accepted by the validators of the next batch: the remote
  records known afterwards are those known before and those of the outcomes. Without the condition the
  claim fails: after the deletion of an uploaded replacement the record a batch writes is refused.
\<close>
theorem applied_batch_reads_back:
  fixes m m' :: "'r manifest"
  assumes "apply_original_asset_resolution_batch w clock b m = Ok (m', changed, summary)" and "manifest_ok m"
    and "\<forall>a\<in>rt_asset_id ` set (rb_targets b). \<forall>r. bt_get (mf_records m) a = Some r \<longrightarrow>
      get_proof r DELETE_EXECUTION_PROOF = None \<and> get_proof r UPLOADED_HEIC_DELETE_PROOF = None"
  shows "\<exists>S ds. existing_original_record_names w m = Ok S \<and> length ds = length (rb_targets b)
    \<and> (\<forall>i < length ds. \<exists>r p. bt_get (mf_records m') (rt_asset_id (rb_targets b ! i)) = Some r
         \<and> get_proof r RESOLUTION_PROOF = Some (ser_resolution_proof p) \<and> rp_disposition p = ds ! i)
    \<and> existing_original_record_names w m'
        = Ok (S \<union> \<Union> (set (map (remote_records (rb_destination b)) ds)))"
proof -
  from assms(1) obtain S us where shape: "validate_batch_shape b = Inr ()"
    and S: "existing_original_record_names w m = Inr S"
    and just: "list_all2 (justified_update w m b) (rb_targets b) us"
    and ids: "map ru_asset_id us = map rt_asset_id (rb_targets b)"
    and apart: "apart b us S" and stage: "stage_updates clock 0 us m = Inr (m', changed)"
    by (rule batch_facts)
  have known_after: "existing_original_record_names w m' = Inr (S \<union> (\<Union>u\<in>set us. update_records b u))"
    by (rule staged_names_known [OF staged_batch_intro [OF shape S just ids apart stage assms(2,3)]])
  define ds where "ds = map (\<lambda>u. rp_disposition (ru_resolution_proof u)) us"
  have len: "length us = length (rb_targets b)" "length ds = length us"
    using map_eq_imp_length_eq [OF ids] by (simp_all add: ds_def)
  have "distinct (map ru_asset_id us)"
    unfolding ids using shape_facts(6) [OF shape] .
  note staged = stage_updates_spec [OF stage this]
  have "\<exists>r p. bt_get (mf_records m') (rt_asset_id (rb_targets b ! i)) = Some r
      \<and> get_proof r RESOLUTION_PROOF = Some (ser_resolution_proof p) \<and> rp_disposition p = ds ! i"
    if i: "i < length ds" for i
  proof -
    have u: "us ! i \<in> set us" and id: "ru_asset_id (us ! i) = rt_asset_id (rb_targets b ! i)"
      using i len map_eq_nth [OF ids] by simp_all
    obtain now r where "bt_get (mf_records m') (rt_asset_id (rb_targets b ! i)) = Some (resolved_record now (us ! i) r)"
      using staged u id by metis
    then show ?thesis
      using i len by (auto simp: ds_def)
  qed
  moreover have "(\<Union>u\<in>set us. update_records b u) = \<Union> (set (map (remote_records (rb_destination b)) ds))"
    by (auto simp: ds_def update_records_def)
  ultimately show ?thesis
    using S known_after len by auto
qed

end
