(* ===== verification/Reconcile_Sample.thy ===== *)
theory Reconcile_Sample
  imports Reconcile_Safety Delete_Sample
begin

section \<open>Two batches\<close>

text \<open>
  An asset with a verified upload is reconciled: once with its original found, and once after its
  uploaded replacement has been deleted. The second batch is accepted, and no batch after it.
\<close>

subsection \<open>The manifest and the batches\<close>

definition hex_sha256 :: string where
  "hex_sha256 = replicate 64 (CHR ''a'')"

definition reconcile_nas :: nas_raw_proof where
  "reconcile_nas =
     \<lparr>nr_canonical_path = ''/nas/c/a.DNG'', nr_relative_path = ''c/a.DNG'', nr_size_bytes = 9,
      nr_modified_unix_seconds = 5, nr_age_seconds = MIN_RAW_AGE_SECONDS, nr_sha256 = hex_sha256\<rparr>"

definition reconcile_age :: source_age_proof where
  "reconcile_age =
     \<lparr>sa_source_captured_unix_seconds = 5, sa_verified_at_unix_seconds = MIN_RAW_AGE_SECONDS + 5,
      sa_min_age_seconds = MIN_RAW_AGE_SECONDS\<rparr>"

definition reconcile_conversion :: conversion_result_proof where
  "reconcile_conversion = sample_conversion\<lparr>cp_heic_sha256 := hex_sha256\<rparr>"

definition reconcile_heic :: heic_verification_proof where
  "reconcile_heic = sample_heic\<lparr>hp_heic_sha256 := hex_sha256\<rparr>"

definition reconcile_upload :: upload_proof where
  "reconcile_upload = sample_upload\<lparr>up_uploaded_heic_sha256 := hex_sha256\<rparr>"

definition reconcile_proofs :: "(string \<times> json) list" where
  "reconcile_proofs =
     [(NAS_PROOF, ser_nas_raw_proof reconcile_nas),
      (SOURCE_AGE_PROOF, ser_source_age_proof reconcile_age),
      (CONVERSION_PROOF, ser_conversion_result_proof reconcile_conversion),
      (CONVERSION_PERFORMANCE_PROOF, ser_conversion_performance_proof sample_performance),
      (HEIC_PROOF, ser_heic_verification_proof reconcile_heic),
      (UPLOAD_PROOF, ser_upload_proof reconcile_upload)]"

definition reconcile_record :: asset_record where
  "reconcile_record =
     (new_asset_record ''a'' ''/nas/c/a.DNG'' ''0'')
       \<lparr>ar_state := UploadVerified, ar_proofs := bt_from reconcile_proofs\<rparr>"

definition reconcile_manifest :: "unit manifest" where
  "reconcile_manifest = put_record ''a'' reconcile_record new_manifest"

definition reconcile_target :: resolve_target where
  "reconcile_target =
     \<lparr>rt_asset_id = ''a'', rt_raw_size_bytes = 9, rt_source_captured_unix_seconds = 5,
      rt_capture_tolerance_seconds = 0, rt_filename = ''a.DNG'', rt_matched_raw_sha256 = hex_sha256,
      rt_replacement_candidate = None\<rparr>"

definition reconcile_original :: original_asset_proof where
  "reconcile_original = sample_original\<lparr>oa_filename := ''a.DNG'', oa_matched_raw_sha256 := hex_sha256\<rparr>"

definition found_once :: asset_resolution where
  "found_once =
     \<lparr>rn_observations = \<lparr>ro_date_candidates = 1, ro_raw_resources = 1, ro_raw_size_matches = 1,
        ro_raw_hash_matches = 1, ro_replacement_resource_matches = 0, ro_download_size_mismatches = 0,
        ro_ambiguity_evidence = 0\<rparr>,
      rn_disposition = ResolvedExactOriginal reconcile_original\<rparr>"

definition not_found :: asset_resolution where
  "not_found =
     \<lparr>rn_observations = \<lparr>ro_date_candidates = 0, ro_raw_resources = 0, ro_raw_size_matches = 0,
        ro_raw_hash_matches = 0, ro_replacement_resource_matches = 0, ro_download_size_mismatches = 0,
        ro_ambiguity_evidence = 0\<rparr>,
      rn_disposition = ResolvedNoDateCandidate\<rparr>"

definition reconcile_batch :: "asset_resolution \<Rightarrow> resolution_batch" where
  "reconcile_batch resolution =
     \<lparr>rb_targets = [reconcile_target], rb_destination = primary_sync,
      rb_inventory = \<lparr>if_resolver_version = ORIGINAL_ASSET_RESOLVER_VERSION, if_sha256 = hex_sha256,
                      if_records_scanned = 1\<rparr>,
      rb_observed_at_unix_seconds = MIN_RAW_AGE_SECONDS + 5,
      rb_resolutions = [(''a'', resolution)]\<rparr>"

subsection \<open>Evaluation\<close>

lemma hex_sha256_ok: "is_sha256 hex_sha256"
  by (simp add: is_sha256_def hex_sha256_def list_all_iff is_ascii_hexdigit_def byte_def)

lemma hex_not_blank [simp]: "\<not> is_blank hex_sha256"
  by (simp add: hex_sha256_def numeral_eq_Suc byte_def)

lemma reconcile_paths:
  "components ''a.DNG'' = [Normal ''a.DNG'']" "components ''c/a.DNG'' = [Normal ''c'', Normal ''a.DNG'']"
  "file_name ''/nas/c/a.DNG'' = Some ''a.DNG''"
  by code_simp+

lemma reconcile_strings:
  "is_safe_identity ''H''" "is_safe_identity ''A''" "is_safe_identity ''t1''" "\<not> is_blank ''a''"
  "is_safe_single_filename ''a.DNG''" "file_name ''/nas/c/a.DNG'' = Some ''a.DNG''"
  "list_all is_normal (components ''c/a.DNG'')"
  by (simp_all add: is_safe_identity_def is_safe_single_filename_def byte_def reconcile_paths is_normal_def)

lemma reconcile_get_proof: "get_proof reconcile_record k = map_of reconcile_proofs k"
  by (simp add: get_proof_def reconcile_record_def bt_get_from reconcile_proofs_def map_of_rev_distinct)

lemma reconcile_record_simps [simp]:
  "ar_state reconcile_record = UploadVerified" "ar_raw_path reconcile_record = ''/nas/c/a.DNG''"
  "ar_asset_id reconcile_record = ''a''"
  by (simp_all add: reconcile_record_def new_asset_record_def)

lemma reconcile_destination_ok: "validate_destination primary_sync = Ok ()"
  by (simp add: validate_destination_def destination_eq_Ok primary_sync_def byte_def model_defs)

lemma reconcile_shape: "validate_batch_shape (reconcile_batch resolution) = Ok ()"
  by (simp add: validate_batch_shape_def reconcile_batch_def reconcile_destination_ok validate_inventory_def
      hex_sha256_ok validate_target_def reconcile_target_def reconcile_strings bt_keys_def bind_ok_eq_Ok model_defs)

text \<open>A record that differs from the sample in proofs that reconciliation does not read.\<close>

definition like_sample :: "asset_record \<Rightarrow> bool" where
  "like_sample r \<longleftrightarrow>
     ar_state r = UploadVerified \<and> ar_asset_id r = ''a'' \<and> ar_raw_path r = ''/nas/c/a.DNG''
     \<and> (\<forall>k. k \<noteq> UPLOADED_HEIC_DELETE_PROOF \<longrightarrow> get_proof r k = map_of reconcile_proofs k)"

lemmas reconcile_defs = reconcile_conversion_def reconcile_heic_def reconcile_upload_def reconcile_nas_def
  reconcile_age_def reconcile_original_def sample_defs

lemma like_sample_lifecycle:
  assumes "bt_get (mf_records m) ''a'' = Some r" and "like_sample r"
  shows "reconciliation_lifecycle_state w m ''a'' primary_sync = Inr UploadVerified"
proof -
  have get: "wf_get m ''a'' = Inr r" using assms(1) by simp
  have proofs: "get_proof r CONVERSION_PROOF = Some (ser_conversion_result_proof reconcile_conversion)"
      "get_proof r HEIC_PROOF = Some (ser_heic_verification_proof reconcile_heic)"
      "get_proof r UPLOAD_PROOF = Some (ser_upload_proof reconcile_upload)"
      "get_proof r CONVERSION_PERFORMANCE_PROOF = Some (ser_conversion_performance_proof sample_performance)"
      "get_proof r ADJUSTED_SOURCE_PROOF = None"
    using assms(2) by (simp_all add: like_sample_def reconcile_proofs_def)
  have read: "optional_workflow_proof de_conversion_result_proof r CONVERSION_PROOF = Inr (Some reconcile_conversion)"
      "optional_workflow_proof de_heic_verification_proof r HEIC_PROOF = Inr (Some reconcile_heic)"
      "optional_workflow_proof de_upload_proof r UPLOAD_PROOF = Inr (Some reconcile_upload)"
      "stored_proof de_conversion_performance_proof m ''a'' CONVERSION_PERFORMANCE_PROOF = Inr sample_performance"
    by (simp_all add: optional_proof_eq_Ok stored_proof_eq_Ok assms(1) proofs conversion_codec.de_enc
        heic_codec.de_enc upload_codec.de_enc performance_codec.de_enc)
  have binding: "validate_conversion_source_binding w m ''a'' reconcile_conversion = Inr None"
    by (rule embedded_binding(1) [OF assms(1) proofs(5)]) (simp add: reconcile_defs)
  have ok: "lifecycle_conversion_ok reconcile_conversion" "lifecycle_heic_ok reconcile_conversion reconcile_heic"
      "heic_flags_ok reconcile_heic"
      "up_uploaded_heic_path reconcile_upload = Some ''/h/a.heic''"
      "lifecycle_upload_ok reconcile_heic reconcile_upload ''/h/a.heic'' primary_sync"
    by (simp_all add: lifecycle_conversion_ok_def lifecycle_heic_ok_def lifecycle_upload_ok_def heic_flags_ok_def
        reconcile_defs primary_sync_def hex_sha256_ok reconcile_strings)
  show ?thesis
    unfolding reconciliation_lifecycle_state_def get bind_ok_simps read binding option.case lifecycle_after_heic_def
    by (simp add: ok bind_ok_eq_Ok)
qed

lemma like_sample_source:
  assumes "bt_get (mf_records m) ''a'' = Some r" and "like_sample r"
  shows "validate_source w m r reconcile_target primary_sync (MIN_RAW_AGE_SECONDS + 5) = Inr reconcile_nas"
proof -
  have proofs: "get_proof r k = map_of reconcile_proofs k" if "k \<noteq> UPLOADED_HEIC_DELETE_PROOF" for k
    using assms(2) that by (simp add: like_sample_def)
  have stored: "stored_source_proof de_nas_raw_proof r ''nas'' = Inr reconcile_nas"
      "stored_source_proof de_source_age_proof r ''source_age'' = Inr reconcile_age"
    by (simp_all add: stored_source_eq_Ok proofs reconcile_proofs_def model_defs nas_codec.de_enc source_age_codec.de_enc)
  have absent: "get_proof r k = None"
    if "k \<in> {RESOLUTION_PROOF, ORIGINAL_ASSET_PROOF, ''delete_eligibility'', ''delete_approval''}" for k
    using that by (auto simp: proofs reconcile_proofs_def model_defs)
  have valid: "source_proofs_are_valid r reconcile_nas reconcile_age"
    using assms(2) by (simp add: source_proofs_are_valid_def like_sample_def reconcile_nas_def reconcile_age_def
        hex_sha256_ok reconcile_strings saturating_sub_def model_defs)
  have fields: "ar_state r = UploadVerified" "ar_asset_id r = ''a''" "ar_raw_path r = ''/nas/c/a.DNG''"
    using assms(2) by (simp_all add: like_sample_def)
  have times: "sa_verified_at_unix_seconds reconcile_age = MIN_RAW_AGE_SECONDS + 5"
      "\<not> MIN_RAW_AGE_SECONDS + 5 < rt_source_captured_unix_seconds reconcile_target"
    by (simp_all add: reconcile_age_def reconcile_target_def model_defs)
  show ?thesis
    unfolding validate_source_def Let_def stored fields bind_ok_simps like_sample_lifecycle [OF assms]
    by (simp add: has_proof_iff absent source_states_def valid times bind_ok_eq_Ok map_err_def)
      (simp add: reconcile_nas_def reconcile_target_def reconcile_strings)
qed

lemma like_sample_known:
  assumes "like_sample r"
  shows "existing_original_record_names w (put_record ''a'' r (new_manifest :: unit manifest)) = Inr {}"
proof -
  have "get_proof r ORIGINAL_ASSET_PROOF = None" "get_proof r RESOLUTION_PROOF = None"
    using assms by (simp_all add: like_sample_def reconcile_proofs_def model_defs)
  note names = unresolved_names [OF this]
  let ?m = "put_record ''a'' r (new_manifest :: unit manifest)"
  have "collect_record_names w ?m r Map.empty = Inr Map.empty"
    unfolding collect_eq_Ok by (intro exI [of _ "[]"]) (simp add: names own_all_def)
  then have "try_fold (collect_record_names w ?m) [r] Map.empty = Inr Map.empty"
    by (simp add: try_fold_Cons_eq_Ok)
  moreover have "bt_values (mf_records ?m) = [r]"
    by (simp add: put_record_def new_manifest_def bt_values_def)
  ultimately show ?thesis
    unfolding existing_original_record_names_def by (simp add: map_ok_eq_Ok)
qed

definition reconcile_update :: "asset_resolution \<Rightarrow> state \<Rightarrow> original_asset_proof option
    \<Rightarrow> resolution_disposition \<Rightarrow> resolution_update" where
  "reconcile_update resolution = update_of (reconcile_batch resolution) reconcile_target reconcile_nas resolution"

lemma reconcile_fields [simp]:
  "rb_targets (reconcile_batch resolution) = [reconcile_target]"
  "rb_destination (reconcile_batch resolution) = primary_sync"
  "rb_observed_at_unix_seconds (reconcile_batch resolution) = MIN_RAW_AGE_SECONDS + 5"
  "bt_get (rb_resolutions (reconcile_batch resolution)) ''a'' = Some resolution"
  "rt_asset_id reconcile_target = ''a''"
  by (simp_all add: reconcile_batch_def reconcile_target_def bt_get_def)

lemma reconcile_evidence:
  "validate_disposition_evidence a found_once = Ok ()" "validate_disposition_evidence a not_found = Ok ()"
  by (simp_all add: validate_disposition_evidence_def found_once_def not_found_def evidence_is_coherent_def
      observations_def)

lemma reconcile_settled:
  assumes "bt_get (mf_records m) ''a'' = Some r" and "like_sample r"
  shows "\<exists>seen summary. settle_target w m (reconcile_batch found_once) reconcile_target r
      (rn_disposition found_once) {} no_summary
      = Inr (seen, summary, UploadVerified, Some reconcile_original, ExactOriginal reconcile_original)"
    and "\<exists>seen summary. settle_target w m (reconcile_batch not_found) reconcile_target r
      (rn_disposition not_found) {} no_summary = Inr (seen, summary, NoAction, None, NoDateCandidate)"
proof -
  have "validate_exact_original_proof ''a'' reconcile_original reconcile_target primary_sync = Ok ()"
    using reconcile_strings
    by (simp add: validate_exact_original_proof_def reconcile_defs reconcile_target_def primary_sync_def)
  moreover have "ar_asset_id r = ''a''" using assms(2) by (simp add: like_sample_def)
  ultimately show "\<exists>seen summary. settle_target w m (reconcile_batch found_once) reconcile_target r
      (rn_disposition found_once) {} no_summary
      = Inr (seen, summary, UploadVerified, Some reconcile_original, ExactOriginal reconcile_original)"
    by (simp add: settle_target_def found_once_def Let_def bind_ok_eq_Ok insert_new_eq_Ok
        strongest_proof_consistent_state_def like_sample_lifecycle [OF assms])
qed (simp add: settle_target_def not_found_def Let_def)

lemma reconcile_applied:
  assumes like: "like_sample r" and free: "unreserved r"
    and evidence: "validate_disposition_evidence ''a'' resolution = Ok ()"
    and settled: "\<exists>seen summary. settle_target w (put_record ''a'' r (new_manifest :: unit manifest)) (reconcile_batch resolution)
      reconcile_target r (rn_disposition resolution) {} no_summary = Inr (seen, summary, s, original, disposition)"
  shows "\<exists>changed summary. apply_original_asset_resolution_batch w clock (reconcile_batch resolution)
      (put_record ''a'' r (new_manifest :: unit manifest))
    = Ok (put_record ''a'' (resolved_record (clock 0) (reconcile_update resolution s original disposition) r)
        (put_record ''a'' r new_manifest), changed, summary)"
proof -
  let ?m = "put_record ''a'' r (new_manifest :: unit manifest)"
  let ?u = "reconcile_update resolution s original disposition"
  from settled obtain seen summary where s: "settle_target w ?m (reconcile_batch resolution)
      reconcile_target r (rn_disposition resolution) {} no_summary = Inr (seen, summary, s, original, disposition)"
    by blast
  have get: "bt_get (mf_records ?m) ''a'' = Some r" by simp
  have got: "manifest_get ?m ''a'' = Inr r" by simp
  have one: "resolve_one w ?m (reconcile_batch resolution) reconcile_target ({}, no_summary)
      = Inr ((seen, summary), ?u)"
    unfolding resolve_one_def prod.case reconcile_fields got map_err_def sum.case bind_ok_simps
      like_sample_source [OF get like] evidence s
    by (simp add: reconcile_update_def update_of_def bind_ok_simps evidence s)
  have u: "ru_asset_id ?u = ''a''" by (simp add: reconcile_update_def update_of_def)
  show ?thesis
    unfolding apply_original_asset_resolution_batch_def reconcile_shape like_sample_known [OF like]
      bind_ok_simps reconcile_fields
    by (simp add: bind_ok_eq_Ok one stage_one [of _ ?u, unfolded u] free u)
qed

subsection \<open>A deleted replacement\<close>

lemma batch_resolves:
  fixes m m' :: "'r manifest"
  assumes "apply_original_asset_resolution_batch w clock b m = Ok (m', changed, summary)"
    and "t \<in> set (rb_targets b)" and "bt_get (mf_records m) (rt_asset_id t) = Some r"
  obtains u now where "justified_update w m b t u"
    and "bt_get (mf_records m') (rt_asset_id t) = Some (resolved_record now u r)"
proof -
  from assms(1) obtain us where shape: "validate_batch_shape b = Inr ()"
    and just: "list_all2 (justified_update w m b) (rb_targets b) us"
    and ids: "map ru_asset_id us = map rt_asset_id (rb_targets b)"
    and stage: "stage_updates clock 0 us m = Inr (m', changed)"
    by (rule batch_facts)
  have "distinct (map ru_asset_id us)"
    unfolding ids using shape_facts(6) [OF shape] .
  note staged = stage_updates_spec [OF stage this]
  obtain i where i: "i < length us" "rb_targets b ! i = t"
    using assms(2) map_eq_imp_length_eq [OF ids] by (metis in_set_conv_nth)
  have "ru_asset_id (us ! i) = rt_asset_id t" "us ! i \<in> set us" "justified_update w m b t (us ! i)"
    using i map_eq_nth [OF ids, of i] just by (auto simp: list_all2_conv_all_nth)
  with staged assms(3) that show ?thesis by (metis option.inject)
qed

text \<open>A stored resolution that is not exact is malformed beside the proof of a deleted replacement.\<close>

lemma refused_record:
  assumes stored: "get_proof r RESOLUTION_PROOF = Some (ser_resolution_proof p)"
    and inexact: "\<And>q. rp_disposition p \<noteq> ExactOriginal q"
    and deleted: "get_proof r UPLOADED_HEIC_DELETE_PROOF \<noteq> None"
  shows "record_names w m r \<noteq> Inr ns"
proof
  assume "record_names w m r = Inr ns"
  moreover have "existing_resolution r = Inr (Some p)"
    by (simp add: existing_resolution_def stored decode_existing_proof_def resolution_codec.de_enc)
  ultimately obtain original ids where "validate_existing_resolution_proof w m r p original = Inr ids"
    by (auto simp: record_names_def bind_ok_eq_Ok)
  then obtain evidence ids where d: "existing_disposition w m r p original = Inr (evidence, ids)"
    and s: "persisted_disposition_state_is_consistent r evidence original"
    by (auto simp: validate_existing_resolution_proof_def Let_def bind_ok_eq_Ok split: prod.splits)
  have "evidence \<noteq> EvExactOriginal"
    using d inexact by (auto simp: existing_disposition_def Let_def bind_ok_eq_Ok split: resolution_disposition.splits)
  with s deleted show False
    by (simp add: persisted_disposition_state_is_consistent_def has_proof_iff model_defs)
qed

text \<open>
  C39: After the uploaded replacement of an asset was deleted, a
  batch that does not find the asset's original is still applied to it, but what it records is refused
  by every later batch, whatever that batch is about.
\<close>
theorem deleted_replacement_blocks_reconciliation:
  fixes m m' :: "'r manifest"
  assumes "apply_original_asset_resolution_batch w clock b m = Ok (m', changed, summary)" and "manifest_ok m"
    and "t \<in> set (rb_targets b)" and "bt_get (mf_records m) (rt_asset_id t) = Some r"
    and "get_proof r UPLOADED_HEIC_DELETE_PROOF \<noteq> None"
    and "bt_get (rb_resolutions b) (rt_asset_id t) = Some resolution"
    and "resolution_evidence (rn_disposition resolution) \<noteq> Some EvExactOriginal"
  shows "\<not> is_ok (apply_original_asset_resolution_batch w' clock' b' m')"
proof -
  obtain u now where just: "justified_update w m b t u"
    and r': "bt_get (mf_records m') (rt_asset_id t) = Some (resolved_record now u r)"
    by (rule batch_resolves [OF assms(1,3,4)])
  let ?r = "resolved_record now u r"
  from just assms(4,6) obtain nas s original durable where
      out: "outcome w m b t r (rn_disposition resolution) s original durable"
    and u: "u = update_of b t nas resolution s original durable"
    by (auto simp: justified_update_def)
  have "rp_disposition (ru_resolution_proof u) \<noteq> ExactOriginal q" for q
    using out assms(7) by cases (simp_all add: u update_of_def durable_proof_def)
  moreover have "get_proof ?r UPLOADED_HEIC_DELETE_PROOF \<noteq> None"
    using assms(5) by (simp add: model_defs)
  ultimately have "record_names w' m' ?r \<noteq> Inr ns" for ns
    by (intro refused_record [of _ "ru_resolution_proof u"]) simp_all
  moreover have "?r \<in> set (bt_values (mf_records m'))"
    using r' by (auto simp: bt_values_def bt_get_def dest!: map_of_SomeD intro!: image_eqI)
  ultimately have "existing_original_record_names w' m' \<noteq> Inr S" for S
    unfolding existing_names_eq_Ok owns_def by blast
  then show ?thesis
    by (auto simp: apply_original_asset_resolution_batch_def bind_ok_def is_ok_def split: sum.splits)
qed

subsection \<open>The theorems on the two batches\<close>

definition deleted_heic :: uploaded_heic_asset where
  "deleted_heic =
     \<lparr>ua_record_name = ''H'', ua_record_change_tag = ''1'', ua_master_record_name = ''M'',
      ua_owner_record_name_sha256 = hex_sha256, ua_initial_remote_state = Active,
      ua_initial_state_lookup_mode = FullFields, ua_matched_heic_sha256 = hex_sha256, ua_size_bytes = 5\<rparr>"

definition deleted_heic_outcome :: cloudkit_delete_outcome where
  "deleted_heic_outcome = \<lparr>do_record_name = ''H'', do_record_change_tag = ''2''\<rparr>"

definition deleted_heic_proof :: uploaded_heic_delete_proof where
  "deleted_heic_proof =
     \<lparr>uh_uploaded_heic_asset_id = ''H'', uh_uploaded_heic_master_record_name = ''M'',
      uh_matched_heic_sha256 = hex_sha256, uh_size_bytes = 5, uh_old_record_change_tag = ''1'',
      uh_deleted_record_name = ''H'', uh_confirmed_deleted_change_tag = ''2''\<rparr>"

definition deleted_heic_record :: asset_record where
  "deleted_heic_record =
     with_proof ''1'' UploadVerified UPLOADED_HEIC_DELETE_PROOF (ser_uploaded_heic_delete_proof deleted_heic_proof)
       reconcile_record"

lemma reconcile_unreserved [simp]: "unreserved reconcile_record" "unreserved deleted_heic_record"
proof -
  have "get_proof reconcile_record RESERVED_PROOF_NAME = None"
    by (simp add: reconcile_get_proof reconcile_proofs_def)
  then show "unreserved reconcile_record" "unreserved deleted_heic_record"
    by (simp_all add: deleted_heic_record_def record_has_reserved_internal_proof_def has_proof_iff)
qed

lemma reconcile_like_sample: "like_sample reconcile_record" "like_sample deleted_heic_record"
  by (simp_all add: like_sample_def reconcile_get_proof deleted_heic_record_def)

lemma reconcile_manifest_ok:
  "manifest_ok reconcile_manifest" "manifest_ok (put_record ''a'' deleted_heic_record reconcile_manifest)"
proof -
  have ok: "record_ok reconcile_record" "record_ok deleted_heic_record"
    by (simp_all add: deleted_heic_record_def with_proof_def reconcile_record_def record_ok_def put_proof_def)
  then show "manifest_ok reconcile_manifest"
    unfolding reconcile_manifest_def put_record_def by (intro manifest_ok_put) simp_all
  with ok(2) show "manifest_ok (put_record ''a'' deleted_heic_record reconcile_manifest)"
    unfolding put_record_def [of _ deleted_heic_record]
    by (intro manifest_ok_put) (simp_all add: deleted_heic_record_def)
qed

lemma deleted_heic_recorded:
  "record_uploaded_heic_delete sample_workflow_world deleted_heic deleted_heic_outcome reconcile_manifest ''a''
     = Ok (put_record ''a'' deleted_heic_record reconcile_manifest)"
proof -
  have get: "bt_get (mf_records reconcile_manifest) ''a'' = Some reconcile_record"
    by (simp add: reconcile_manifest_def)
  have "stored_proof de_upload_proof reconcile_manifest ''a'' UPLOAD_PROOF = Inr reconcile_upload"
      "stored_proof de_heic_verification_proof reconcile_manifest ''a'' HEIC_PROOF = Inr reconcile_heic"
      "stored_proof de_original_asset_proof reconcile_manifest ''a'' ORIGINAL_ASSET_PROOF
        = Inl (MissingProof ''a'' ORIGINAL_ASSET_PROOF)"
      "wf_get reconcile_manifest ''a'' = Inr reconcile_record"
    using get by (simp_all add: stored_proof_eq_Ok reconcile_get_proof reconcile_proofs_def heic_codec.de_enc
        upload_codec.de_enc) (simp add: stored_proof_def require_proof_def wf_get_def manifest_get_def
        reconcile_get_proof reconcile_proofs_def bind_ok_def map_err_def)
  then have "uploaded_heic_delete_inputs reconcile_manifest ''a'' = Inr (reconcile_upload, reconcile_heic)"
    unfolding uploaded_heic_delete_inputs_def
    by (simp add: bind_ok_eq_Ok) (simp add: reconcile_defs heic_flags_ok_def byte_def)
  then show ?thesis
    by (simp add: record_uploaded_heic_delete_def Let_def bind_ok_eq_Ok insert_workflow_proof_eq_Ok get)
      (simp add: validate_uploaded_heic_delete_proof_def reconcile_defs deleted_heic_def deleted_heic_outcome_def
        deleted_heic_record_def deleted_heic_proof_def byte_def sample_workflow_world_def)
qed

lemma found_batch_applied:
  "\<exists>now changed summary. apply_original_asset_resolution_batch sample_workflow_world (\<lambda>_. ''1'')
      (reconcile_batch found_once) reconcile_manifest
    = Ok (put_record ''a'' (resolved_record now (reconcile_update found_once UploadVerified
        (Some reconcile_original) (ExactOriginal reconcile_original)) reconcile_record) reconcile_manifest,
      changed, summary)"
proof -
  have get: "bt_get (mf_records (put_record ''a'' reconcile_record (new_manifest :: unit manifest))) ''a''
      = Some reconcile_record" by simp
  show ?thesis
    using reconcile_applied [OF reconcile_like_sample(1) reconcile_unreserved(1) reconcile_evidence(1)
        reconcile_settled(1) [OF get reconcile_like_sample(1), of sample_workflow_world]]
    unfolding reconcile_manifest_def by blast
qed

lemma absent_batch_applied:
  "\<exists>m' changed summary. apply_original_asset_resolution_batch sample_workflow_world (\<lambda>_. ''1'')
      (reconcile_batch not_found) (put_record ''a'' deleted_heic_record reconcile_manifest)
    = Ok (m', changed, summary)"
proof -
  have twice: "put_record ''a'' deleted_heic_record reconcile_manifest
      = put_record ''a'' deleted_heic_record (new_manifest :: unit manifest)"
    by (simp add: reconcile_manifest_def put_record_def new_manifest_def)
  have get: "bt_get (mf_records (put_record ''a'' deleted_heic_record (new_manifest :: unit manifest))) ''a''
      = Some deleted_heic_record" by simp
  show ?thesis
    using reconcile_applied [OF reconcile_like_sample(2) reconcile_unreserved(2) reconcile_evidence(2)
        reconcile_settled(2) [OF get reconcile_like_sample(2), of sample_workflow_world]]
    unfolding twice by blast
qed

theorem resolution_batch_is_exact_witness:
  "\<exists>S ds. existing_original_record_names sample_workflow_world reconcile_manifest = Ok S \<and> length ds = 1
     \<and> remote_records primary_sync (ds ! 0) \<inter> S = {}
     \<and> (\<exists>r r'. bt_get (mf_records reconcile_manifest) ''a'' = Some r
          \<and> resolved sample_workflow_world reconcile_manifest (reconcile_batch found_once) reconcile_target r r' (ds ! 0))"
proof -
  obtain m' changed summary where applied: "apply_original_asset_resolution_batch sample_workflow_world
      (\<lambda>_. ''1'') (reconcile_batch found_once) reconcile_manifest = Ok (m', changed, summary)"
    using found_batch_applied by blast
  show ?thesis
    using resolution_batch_is_exact [OF applied] by fastforce
qed

theorem applied_batch_reads_back_witness:
  "\<exists>S now. existing_original_record_names sample_workflow_world
      (put_record ''a'' (resolved_record now (reconcile_update found_once UploadVerified
        (Some reconcile_original) (ExactOriginal reconcile_original)) reconcile_record) reconcile_manifest) = Ok S"
proof -
  have free: "\<forall>a\<in>rt_asset_id ` set (rb_targets (reconcile_batch found_once)).
      \<forall>r. bt_get (mf_records reconcile_manifest) a = Some r \<longrightarrow>
        get_proof r DELETE_EXECUTION_PROOF = None \<and> get_proof r UPLOADED_HEIC_DELETE_PROOF = None"
    by (simp add: reconcile_manifest_def reconcile_get_proof reconcile_proofs_def)
  obtain now changed summary where applied: "apply_original_asset_resolution_batch sample_workflow_world
      (\<lambda>_. ''1'') (reconcile_batch found_once) reconcile_manifest
    = Ok (put_record ''a'' (resolved_record now (reconcile_update found_once UploadVerified
        (Some reconcile_original) (ExactOriginal reconcile_original)) reconcile_record) reconcile_manifest,
      changed, summary)"
    using found_batch_applied by blast
  show ?thesis
    using applied_batch_reads_back [OF applied reconcile_manifest_ok(1) free] by blast
qed

text \<open>The deletion of the replacement, the batch after it, and the refusal of the next batch.\<close>

theorem deleted_replacement_blocks_reconciliation_witness:
  "\<exists>m m' changed summary.
     record_uploaded_heic_delete sample_workflow_world deleted_heic deleted_heic_outcome reconcile_manifest ''a'' = Ok m
     \<and> apply_original_asset_resolution_batch sample_workflow_world (\<lambda>_. ''1'') (reconcile_batch not_found) m
         = Ok (m', changed, summary)
     \<and> \<not> is_ok (apply_original_asset_resolution_batch sample_workflow_world (\<lambda>_. ''2'')
           (reconcile_batch found_once) m')"
proof -
  let ?m = "put_record ''a'' deleted_heic_record reconcile_manifest"
  obtain m' changed summary where applied: "apply_original_asset_resolution_batch sample_workflow_world
      (\<lambda>_. ''1'') (reconcile_batch not_found) ?m = Ok (m', changed, summary)"
    using absent_batch_applied by blast
  have t: "reconcile_target \<in> set (rb_targets (reconcile_batch not_found))" by simp
  have r: "bt_get (mf_records ?m) (rt_asset_id reconcile_target) = Some deleted_heic_record" by simp
  have d: "get_proof deleted_heic_record UPLOADED_HEIC_DELETE_PROOF \<noteq> None"
    by (simp add: deleted_heic_record_def)
  have n: "bt_get (rb_resolutions (reconcile_batch not_found)) (rt_asset_id reconcile_target) = Some not_found"
    by simp
  have e: "resolution_evidence (rn_disposition not_found) \<noteq> Some EvExactOriginal"
    by (simp add: not_found_def)
  show ?thesis
    using deleted_heic_recorded applied
      deleted_replacement_blocks_reconciliation [OF applied reconcile_manifest_ok(2) t r d n e] by blast
qed

end
