(* ===== verification/Resolver_Cohorts.thy ===== *)
theory Resolver_Cohorts
  imports Reconcile_Proofs "HOL-Library.Product_Lexorder"
begin

section \<open>Targets of a resolver run, grouped by capture window\<close>

text \<open>
  \<open>OriginalAssetTargetIndex\<close> of \<open>src/src/upload.rs\<close>: targets with the same window of capture dates form a
  cohort, which counts the contents asked for. Its theorem is that looking up the cohorts of an
  asset's date, by a partition point over the sorted windows, finds the cohort of each target
  whose tolerance admits that date and no other.
\<close>

text \<open>\<open>OriginalAssetMatchKey\<close> with its derived order.\<close>

datatype match_key = MatchKey (mk_size_bytes: u64) (mk_sha256: string)

instantiation match_key :: linorder
begin

definition less_eq_match_key :: "match_key \<Rightarrow> match_key \<Rightarrow> bool" where
  "less_eq_match_key a b \<longleftrightarrow>
     mk_size_bytes a < mk_size_bytes b \<or> mk_size_bytes a = mk_size_bytes b \<and> mk_sha256 a \<le> mk_sha256 b"

definition less_match_key :: "match_key \<Rightarrow> match_key \<Rightarrow> bool" where
  "less_match_key a b \<longleftrightarrow>
     mk_size_bytes a < mk_size_bytes b \<or> mk_size_bytes a = mk_size_bytes b \<and> mk_sha256 a < mk_sha256 b"

instance
  by intro_classes (auto simp: less_eq_match_key_def less_match_key_def match_key.expand)

end

record target_cohort =
  tc_start_unix_seconds :: u64
  tc_end_unix_seconds :: u64
  tc_raw_target_counts :: "(match_key, nat) btree"
  tc_replacement_target_counts :: "(match_key, nat) btree"
  tc_raw_target_sizes :: "u64 set"
  tc_replacement_target_sizes :: "u64 set"

record target_index =
  ti_cohorts :: "target_cohort list"
  ti_target_cohort_indexes :: "nat list"

record date_window =
  dw_start_unix_seconds :: u64
  dw_end_unix_seconds :: u64

definition new_date_window :: "u64 \<Rightarrow> u64 \<Rightarrow> date_window" where
  "new_date_window source_captured tolerance =
     \<lparr>dw_start_unix_seconds = saturating_sub source_captured tolerance,
      dw_end_unix_seconds = saturating_add source_captured tolerance\<rparr>"

definition raw_key :: "resolve_target \<Rightarrow> match_key" where
  "raw_key t = MatchKey (rt_raw_size_bytes t) (rt_matched_raw_sha256 t)"

definition candidate_key :: "local_replacement_candidate \<Rightarrow> match_key" where
  "candidate_key c = MatchKey (rc_size_bytes c) (rc_sha256 c)"

definition replacement_key :: "resolve_target \<Rightarrow> match_key option" where
  "replacement_key t = map_option candidate_key (rt_replacement_candidate t)"

subsection \<open>Building the index\<close>

text \<open>The two ends of a target's window; \<open>entry(k).or_default() += 1\<close>.\<close>

definition target_window :: "resolve_target \<Rightarrow> u64 \<times> u64" where
  "target_window t =
     (saturating_sub (rt_source_captured_unix_seconds t) (rt_capture_tolerance_seconds t),
      saturating_add (rt_source_captured_unix_seconds t) (rt_capture_tolerance_seconds t))"

definition bump_entry :: "'k::linorder \<Rightarrow> ('k, nat) btree \<Rightarrow> ('k, nat) btree" where
  "bump_entry k m = bt_insert k (case_option 0 id (bt_get m k) + 1) m"

definition target_date_windows :: "resolve_target list \<Rightarrow> (u64 \<times> u64, nat list) btree" where
  "target_date_windows targets =
     fold (\<lambda>(i, t) m. push_entry (target_window t) i m) (enumerate 0 targets) []"

definition count_target :: "resolve_target \<Rightarrow> target_cohort \<Rightarrow> target_cohort" where
  "count_target t c =
     (let c1 = c\<lparr>tc_raw_target_sizes := insert (rt_raw_size_bytes t) (tc_raw_target_sizes c),
                tc_raw_target_counts := bump_entry (raw_key t) (tc_raw_target_counts c)\<rparr> in
      case rt_replacement_candidate t of
        None \<Rightarrow> c1
      | Some r \<Rightarrow>
          c1\<lparr>tc_replacement_target_sizes := insert (rc_size_bytes r) (tc_replacement_target_sizes c1),
             tc_replacement_target_counts :=
               bump_entry (candidate_key r) (tc_replacement_target_counts c1)\<rparr>)"

definition cohort_of_targets :: "(u64 \<times> u64) \<times> resolve_target list \<Rightarrow> target_cohort" where
  "cohort_of_targets w =
     (case w of ((start, end_), ts) \<Rightarrow>
        fold count_target ts
          \<lparr>tc_start_unix_seconds = start, tc_end_unix_seconds = end_, tc_raw_target_counts = [],
           tc_replacement_target_counts = [], tc_raw_target_sizes = {},
           tc_replacement_target_sizes = {}\<rparr>)"

definition new_target_index :: "resolve_target list \<Rightarrow> target_index" where
  "new_target_index targets =
     (let windows = target_date_windows targets in
      \<lparr>ti_cohorts = map (\<lambda>(w, is). cohort_of_targets (w, map ((!) targets) is)) windows,
       ti_target_cohort_indexes =
         fold (\<lambda>(cohort_index, _, is) xs. fold (\<lambda>i xs. xs[i := cohort_index]) is xs)
           (enumerate 0 windows) (replicate (length targets) 0)\<rparr>)"

text \<open>\<open>partition_point\<close>: the documented result on a slice the predicate partitions.\<close>

definition partition_point :: "('a \<Rightarrow> bool) \<Rightarrow> 'a list \<Rightarrow> nat" where
  "partition_point P xs = length (takeWhile P xs)"

definition cohort_indexes_for_asset_date :: "target_index \<Rightarrow> u64 \<Rightarrow> nat list" where
  "cohort_indexes_for_asset_date ix asset_date =
     (let upper_bound = partition_point (\<lambda>c. tc_start_unix_seconds c \<le> asset_date) (ti_cohorts ix) in
      map fst (filter (\<lambda>(_, c). asset_date \<le> tc_end_unix_seconds c)
        (enumerate 0 (take upper_bound (ti_cohorts ix)))))"

definition cohort_count :: "target_index \<Rightarrow> nat" where
  "cohort_count ix = length (ti_cohorts ix)"

definition min_or_zero :: "u64 list \<Rightarrow> u64" where
  "min_or_zero xs = (case xs of [] \<Rightarrow> 0 | x # xs \<Rightarrow> fold min xs x)"

definition max_or_zero :: "u64 list \<Rightarrow> u64" where
  "max_or_zero xs = (case xs of [] \<Rightarrow> 0 | x # xs \<Rightarrow> fold max xs x)"

definition index_date_window :: "target_index \<Rightarrow> date_window" where
  "index_date_window ix =
     \<lparr>dw_start_unix_seconds = min_or_zero (map tc_start_unix_seconds (ti_cohorts ix)),
      dw_end_unix_seconds = max_or_zero (map tc_end_unix_seconds (ti_cohorts ix))\<rparr>"

definition asset_date_matches :: "u64 \<Rightarrow> u64 \<Rightarrow> u64 \<Rightarrow> bool" where
  "asset_date_matches asset_date source_captured tolerance \<longleftrightarrow>
     (if asset_date < source_captured then source_captured - asset_date else asset_date - source_captured)
       \<le> tolerance"

subsection \<open>Windows and their targets\<close>

lemma windows_get:
  "bt_get (fold (\<lambda>(i, t) m. push_entry (target_window t) i m) (enumerate k ts) m) w =
     (let is = filter (\<lambda>i. target_window (ts ! (i - k)) = w) [k..<k + length ts] in
      if is = [] then bt_get m w else Some (case_option [] id (bt_get m w) @ is))"
proof (induction ts arbitrary: k m)
  case Nil
  then show ?case by simp
next
  case (Cons t ts)
  have upt: "[k..<k + length (t # ts)] = k # [Suc k..<Suc k + length ts]"
    by (simp add: upt_rec)
  have later: "filter (\<lambda>i. target_window ((t # ts) ! (i - k)) = w) [Suc k..<Suc k + length ts]
      = filter (\<lambda>i. target_window (ts ! (i - Suc k)) = w) [Suc k..<Suc k + length ts]"
    by (rule filter_cong) (auto simp: nth_Cons')
  define js where "js = filter (\<lambda>i. target_window (ts ! (i - Suc k)) = w) [Suc k..<Suc k + length ts]"
  have "bt_get (fold (\<lambda>(i, t) m. push_entry (target_window t) i m) (enumerate (Suc k) ts)
      (push_entry (target_window t) k m)) w =
      (if js = [] then bt_get (push_entry (target_window t) k m) w
       else Some (case_option [] id (bt_get (push_entry (target_window t) k m) w) @ js))"
    unfolding Cons.IH js_def Let_def ..
  then show ?case
    unfolding upt filter.simps later js_def [symmetric] by (simp add: Let_def)
qed

lemma windows_valid: "bt_valid m \<Longrightarrow>
    bt_valid (fold (\<lambda>(i, t) m. push_entry (target_window t) i m) its m)"
  by (induction its arbitrary: m) (auto simp: push_entry_def)

lemma target_date_windows_valid: "bt_valid (target_date_windows ts)"
  by (simp add: target_date_windows_def windows_valid)

lemma target_date_windows_mem:
  "(w, is) \<in> set (target_date_windows ts) \<longleftrightarrow>
     is \<noteq> [] \<and> is = filter (\<lambda>i. target_window (ts ! i) = w) [0..<length ts]"
  unfolding bt_get_mem [OF target_date_windows_valid]
  by (auto simp: target_date_windows_def windows_get Let_def)

lemma target_has_window:
  assumes "i < length ts"
  obtains q where "q < length (target_date_windows ts)"
    "fst (target_date_windows ts ! q) = target_window (ts ! i)"
    "snd (target_date_windows ts ! q) = filter (\<lambda>j. target_window (ts ! j) = target_window (ts ! i)) [0..<length ts]"
    "i \<in> set (snd (target_date_windows ts ! q))"
proof -
  let ?is = "filter (\<lambda>j. target_window (ts ! j) = target_window (ts ! i)) [0..<length ts]"
  have "i \<in> set ?is" using assms by simp
  then have "(target_window (ts ! i), ?is) \<in> set (target_date_windows ts)"
    by (auto simp: target_date_windows_mem filter_empty_conv)
  then obtain q where "q < length (target_date_windows ts)"
    "target_date_windows ts ! q = (target_window (ts ! i), ?is)"
    by (auto simp: in_set_conv_nth)
  with \<open>i \<in> set ?is\<close> show ?thesis using that by simp
qed

lemma window_unique:
  assumes "p < length (target_date_windows ts)" "q < length (target_date_windows ts)"
    and "i \<in> set (snd (target_date_windows ts ! p))" "i \<in> set (snd (target_date_windows ts ! q))"
  shows "p = q"
proof -
  let ?ws = "target_date_windows ts"
  have w: "fst (?ws ! r) = target_window (ts ! i)" if "r < length ?ws" "i \<in> set (snd (?ws ! r))" for r
  proof -
    have "(fst (?ws ! r), snd (?ws ! r)) \<in> set ?ws" using that(1) by simp
    then have "snd (?ws ! r) = filter (\<lambda>j. target_window (ts ! j) = fst (?ws ! r)) [0..<length ts]"
      unfolding target_date_windows_mem by blast
    then have "set (snd (?ws ! r)) \<subseteq> {j. target_window (ts ! j) = fst (?ws ! r)}"
      by (metis (no_types, lifting) filter_is_subset mem_Collect_eq set_filter subsetI)
    with that(2) show ?thesis by auto
  qed
  have "distinct (map fst ?ws)" using bt_valid_distinct [OF target_date_windows_valid] .
  moreover have "map fst ?ws ! p = map fst ?ws ! q"
    using assms w [of p] w [of q] by simp
  ultimately show ?thesis using assms(1,2) nth_eq_iff_index_eq [of "map fst ?ws" p q] by simp
qed

subsection \<open>The cohort of a target\<close>

lemma fold_update_length [simp]: "length (fold (\<lambda>i xs. xs[i := c]) is xs) = length xs"
  by (induction "is" arbitrary: xs) auto

lemma fold_update_nth:
  "j < length xs \<Longrightarrow> fold (\<lambda>i xs. xs[i := c]) is xs ! j = (if j \<in> set is then c else xs ! j)"
  by (induction "is" arbitrary: xs) (auto simp: nth_list_update)

lemma fold_windows_length [simp]:
  "length (fold (\<lambda>(c, _, is) xs. fold (\<lambda>i xs. xs[i := c]) is xs) cws xs) = length xs"
  by (induction cws arbitrary: xs) auto

lemma fold_windows_none:
  assumes "j < length xs" "\<forall>p<length ws. j \<notin> set (snd (ws ! p))"
  shows "fold (\<lambda>(c, _, is) xs. fold (\<lambda>i xs. xs[i := c]) is xs) (enumerate k ws) xs ! j = xs ! j"
  using assms
proof (induction ws arbitrary: k xs)
  case (Cons w ws)
  from Cons.prems have "j \<notin> set (snd w)" "\<forall>p<length ws. j \<notin> set (snd (ws ! p))" by force+
  with Cons.prems(1) show ?case by (cases w) (simp add: Cons.IH fold_update_nth)
qed simp

lemma fold_windows_nth:
  assumes "j < length xs" "q < length ws" "j \<in> set (snd (ws ! q))"
    and "\<forall>p<length ws. j \<in> set (snd (ws ! p)) \<longrightarrow> p = q"
  shows "fold (\<lambda>(c, _, is) xs. fold (\<lambda>i xs. xs[i := c]) is xs) (enumerate k ws) xs ! j = k + q"
  using assms
proof (induction ws arbitrary: k xs q)
  case (Cons w ws)
  show ?case
  proof (cases q)
    case 0
    have none: "\<forall>p<length ws. j \<notin> set (snd (ws ! p))"
      using Cons.prems(4) 0 by force
    from Cons.prems(3) 0 have "j \<in> set (snd w)" by simp
    with Cons.prems(1) none show ?thesis
      using 0 by (cases w) (simp add: fold_windows_none fold_update_nth)
  next
    case (Suc q')
    have "\<forall>p<length ws. j \<in> set (snd (ws ! p)) \<longrightarrow> p = q'"
      using Cons.prems(4) Suc by force
    moreover have "q' < length ws" "j \<in> set (snd (ws ! q'))"
      using Cons.prems(2,3) Suc by auto
    moreover have "j < length (fold (\<lambda>i xs. xs[i := k]) (snd w) xs)"
      using Cons.prems(1) by simp
    ultimately have "fold (\<lambda>(c, _, is) xs. fold (\<lambda>i xs. xs[i := c]) is xs) (enumerate (Suc k) ws)
        (fold (\<lambda>i xs. xs[i := k]) (snd w) xs) ! j = Suc k + q'"
      by (intro Cons.IH)
    then show ?thesis using Suc by (cases w) simp
  qed
qed simp

lemma count_target_simps [simp]:
  "tc_start_unix_seconds (count_target t c) = tc_start_unix_seconds c"
  "tc_end_unix_seconds (count_target t c) = tc_end_unix_seconds c"
  by (auto simp: count_target_def Let_def split: option.splits)

lemma cohort_of_targets_window [simp]:
  "tc_start_unix_seconds (cohort_of_targets (w, ts)) = fst w"
  "tc_end_unix_seconds (cohort_of_targets (w, ts)) = snd w"
proof -
  have "tc_start_unix_seconds (fold count_target ts c) = tc_start_unix_seconds c"
    "tc_end_unix_seconds (fold count_target ts c) = tc_end_unix_seconds c" for c
    by (induction ts arbitrary: c) auto
  then show "tc_start_unix_seconds (cohort_of_targets (w, ts)) = fst w"
    "tc_end_unix_seconds (cohort_of_targets (w, ts)) = snd w"
    by (simp_all add: cohort_of_targets_def split: prod.splits)
qed

lemma cohort_index_of_target:
  assumes "i < length ts"
  obtains q where "ti_target_cohort_indexes (new_target_index ts) ! i = q"
    "q < length (ti_cohorts (new_target_index ts))"
    "ti_cohorts (new_target_index ts) ! q
       = cohort_of_targets (target_window (ts ! i),
           map ((!) ts) (filter (\<lambda>j. target_window (ts ! j) = target_window (ts ! i)) [0..<length ts]))"
proof -
  let ?ws = "target_date_windows ts"
  obtain q where q: "q < length ?ws" "fst (?ws ! q) = target_window (ts ! i)"
    "snd (?ws ! q) = filter (\<lambda>j. target_window (ts ! j) = target_window (ts ! i)) [0..<length ts]"
    "i \<in> set (snd (?ws ! q))"
    using target_has_window [OF assms] .
  have unique: "\<forall>p<length ?ws. i \<in> set (snd (?ws ! p)) \<longrightarrow> p = q"
    using window_unique q(1,4) by blast
  have "ti_target_cohort_indexes (new_target_index ts) ! i = 0 + q"
    unfolding new_target_index_def Let_def target_index.simps
    using fold_windows_nth [OF _ q(1,4) unique, of "replicate (length ts) 0" 0] assms by simp
  then have "ti_target_cohort_indexes (new_target_index ts) ! i = q" by simp
  moreover have "ti_cohorts (new_target_index ts) ! q
      = cohort_of_targets (target_window (ts ! i), map ((!) ts)
          (filter (\<lambda>j. target_window (ts ! j) = target_window (ts ! i)) [0..<length ts]))"
    using q by (simp add: new_target_index_def Let_def case_prod_beta)
  moreover have "q < length (ti_cohorts (new_target_index ts))"
    using q(1) by (simp add: new_target_index_def Let_def)
  ultimately show ?thesis using that by blast
qed

subsection \<open>Looking a date up\<close>

lemma partition_point_filter:
  assumes "sorted_wrt (\<lambda>x y. P y \<longrightarrow> P x) xs"
  shows "take (partition_point P xs) xs = takeWhile P xs" "takeWhile P xs = filter P xs"
proof -
  show "take (partition_point P xs) xs = takeWhile P xs"
    unfolding partition_point_def by (simp add: takeWhile_eq_take [symmetric])
  from assms show "takeWhile P xs = filter P xs"
    by (induction xs) (auto simp: filter_empty_conv)
qed

lemma cohort_starts_sorted:
  "sorted_wrt (\<lambda>c d. tc_start_unix_seconds c \<le> tc_start_unix_seconds d) (ti_cohorts (new_target_index ts))"
proof -
  have "sorted_wrt (<) (map fst (target_date_windows ts))"
    using target_date_windows_valid by (simp add: bt_valid_def)
  then have "sorted_wrt (\<lambda>x y. fst (fst x) \<le> fst (fst y)) (target_date_windows ts)"
    unfolding sorted_wrt_map by (rule sorted_wrt_mono_rel [rotated]) (auto simp: less_prod_def' less_imp_le)
  then show ?thesis
    by (simp add: new_target_index_def Let_def sorted_wrt_map case_prod_beta)
qed

lemma enumerate_takeWhile_mem:
  assumes "sorted_wrt (\<lambda>x y. P y \<longrightarrow> P x) xs"
  shows "(i, x) \<in> set (enumerate 0 (take (partition_point P xs) xs)) \<longleftrightarrow> i < length xs \<and> xs ! i = x \<and> P x"
proof -
  have "takeWhile P xs ! i = xs ! i" if "i < length (takeWhile P xs)" for i
    using that by (rule takeWhile_nth)
  moreover have "i < length (takeWhile P xs) \<longleftrightarrow> i < length xs \<and> P (xs ! i)"
  proof
    assume i: "i < length (takeWhile P xs)"
    then show "i < length xs \<and> P (xs ! i)"
      using length_takeWhile_le [of P xs] takeWhile_nth [OF i]
      by (metis le_trans not_le nth_mem set_takeWhileD less_le_trans)
  next
    assume i: "i < length xs \<and> P (xs ! i)"
    show "i < length (takeWhile P xs)"
    proof (rule ccontr)
      let ?k = "length (takeWhile P xs)"
      assume "\<not> i < ?k"
      then have k: "?k \<le> i" "?k < length xs" using i by auto
      then have "\<not> P (xs ! ?k)" using nth_length_takeWhile by blast
      moreover have "P (xs ! ?k)"
      proof (cases "?k = i")
        case False
        with k(1) have "?k < i" by simp
        with assms i show ?thesis unfolding sorted_wrt_iff_nth_less by blast
      qed (use i in simp)
      ultimately show False ..
    qed
  qed
  ultimately show ?thesis
    unfolding partition_point_filter(1) [OF assms] by (auto simp: in_set_enumerate_eq)
qed

lemma cohort_indexes_mem:
  "i \<in> set (cohort_indexes_for_asset_date (new_target_index ts) d) \<longleftrightarrow>
     i < length (ti_cohorts (new_target_index ts))
     \<and> tc_start_unix_seconds (ti_cohorts (new_target_index ts) ! i) \<le> d
     \<and> d \<le> tc_end_unix_seconds (ti_cohorts (new_target_index ts) ! i)"
proof -
  let ?cs = "ti_cohorts (new_target_index ts)" and ?P = "\<lambda>c. tc_start_unix_seconds c \<le> d"
  have sorted: "sorted_wrt (\<lambda>x y. ?P y \<longrightarrow> ?P x) ?cs"
    by (rule sorted_wrt_mono_rel [OF _ cohort_starts_sorted]) auto
  have "i \<in> set (cohort_indexes_for_asset_date (new_target_index ts) d) \<longleftrightarrow>
      (\<exists>c. (i, c) \<in> set (enumerate 0 (take (partition_point ?P ?cs) ?cs)) \<and> d \<le> tc_end_unix_seconds c)"
    by (force simp: cohort_indexes_for_asset_date_def Let_def)
  then show ?thesis unfolding enumerate_takeWhile_mem [OF sorted] by auto
qed

lemma window_admits_date:
  "asset_date_matches d captured tolerance \<longleftrightarrow>
     saturating_sub captured tolerance \<le> d \<and> d \<le> saturating_add captured tolerance"
proof -
  have d: "unat d < 2 ^ 64" using unsigned_less [of d] by simp
  show ?thesis
    unfolding asset_date_matches_def
    by (auto simp: word_le_nat_alt word_less_nat_alt unat_saturating_sub unat_saturating_add unat_sub
        min_def split: if_splits) (use d in simp)+
qed

text \<open>The cohort of a target is among those looked up for the date of an asset
  exactly when the date is within the target's tolerance, as the resolver of a single asset tests it.\<close>

theorem cohorts_match_dates:
  assumes "i < length targets"
  shows "ti_target_cohort_indexes (new_target_index targets) ! i
           \<in> set (cohort_indexes_for_asset_date (new_target_index targets) d)
         \<longleftrightarrow> asset_date_matches d (rt_source_captured_unix_seconds (targets ! i))
               (rt_capture_tolerance_seconds (targets ! i))"
proof -
  obtain q where q: "ti_target_cohort_indexes (new_target_index targets) ! i = q"
    "q < length (ti_cohorts (new_target_index targets))"
    "ti_cohorts (new_target_index targets) ! q
       = cohort_of_targets (target_window (targets ! i), map ((!) targets)
           (filter (\<lambda>j. target_window (targets ! j) = target_window (targets ! i)) [0..<length targets]))"
    using cohort_index_of_target [OF assms] .
  show ?thesis
    unfolding q(1) cohort_indexes_mem using q(2,3) by (simp add: target_window_def window_admits_date)
qed

end
