(* ===== verification/Rust_Float.thy ===== *)
theory Rust_Float
  imports Rust_Std
begin

section \<open>Floating-point numbers the program computes with\<close>

text \<open>
  Non-negative finite \<open>f64\<close> values as fractions of natural numbers, the denominator positive: what
  bits stand for, the value nearest to a fraction (ties to even, 53 significant bits), and the cast
  back to \<open>u64\<close>. This is IEEE 754 for values of at least one, which is where the program rounds; it
  never comes near the subnormal numbers or the overflow.
\<close>

type_synonym fraction = "nat \<times> nat"

text \<open>A finite value that is not below zero; \<open>-0.0\<close> is zero.\<close>

definition f64_fraction :: "u64 \<Rightarrow> fraction option" where
  "f64_fraction bits =
     (let e = unat (drop_bit 52 bits) mod 2 ^ 11; m = unat bits mod 2 ^ 52 in
      if e = 2047 then None
      else if 2 ^ 63 \<le> unat bits \<and> (e, m) \<noteq> (0, 0) then None
      else if e = 0 then Some (m, 2 ^ 1074)
      else if 1075 \<le> e then Some ((2 ^ 52 + m) * 2 ^ (e - 1075), 1)
      else Some (2 ^ 52 + m, 2 ^ (1075 - e)))"

fun bit_length :: "nat \<Rightarrow> nat" where
  "bit_length n = (if n = 0 then 0 else Suc (bit_length (n div 2)))"

declare bit_length.simps [simp del]

text \<open>The natural number nearest to \<open>a / b\<close>, ties to even and ties upwards.\<close>

definition round_half_even :: "nat \<Rightarrow> nat \<Rightarrow> nat" where
  "round_half_even a b =
     (let q = a div b; r = a mod b in
      if b < 2 * r \<or> b = 2 * r \<and> odd q then Suc q else q)"

definition round_half_up :: "nat \<Rightarrow> nat \<Rightarrow> nat" where
  "round_half_up a b = (2 * a + b) div (2 * b)"

text \<open>The \<open>f64\<close> nearest to a fraction that is zero or at least one.\<close>

definition f64_nearest :: "fraction \<Rightarrow> fraction" where
  "f64_nearest x =
     (case x of (a, b) \<Rightarrow>
        let k = bit_length (a div b) in
        if k \<le> 53 then (round_half_even (a * 2 ^ (53 - k)) b, 2 ^ (53 - k))
        else (round_half_even a (b * 2 ^ (k - 53)) * 2 ^ (k - 53), 1))"

text \<open>\<open>x.round() as u64\<close>.\<close>

definition f64_round_u64 :: "fraction \<Rightarrow> u64" where
  "f64_round_u64 x = (case x of (a, b) \<Rightarrow> of_nat (min (round_half_up a b) (2 ^ 64 - 1)))"

text \<open>Integers up to 53 bits are exact.\<close>

lemma round_half_even_exact [simp]: "0 < b \<Longrightarrow> round_half_even (a * b) b = a"
  by (simp add: round_half_even_def)

lemma round_half_even_one [simp]: "round_half_even a (Suc 0) = a"
  using round_half_even_exact [of 1 a] by simp

lemma f64_nearest_integer: "bit_length a \<le> 53 \<Longrightarrow>
    f64_nearest (a, 1) = (a * 2 ^ (53 - bit_length a), 2 ^ (53 - bit_length a))"
  by (simp add: f64_nearest_def Let_def)

lemma round_half_up_exact [simp]: "0 < b \<Longrightarrow> round_half_up (a * b) b = a"
proof -
  assume b: "0 < b"
  have "(2 * (a * b) + b) div (2 * b) = (b + a * (2 * b)) div (2 * b)"
    by (simp add: algebra_simps)
  also have "\<dots> = a" using b by simp
  finally show ?thesis by (simp add: round_half_up_def)
qed

lemma f64_round_integer:
  assumes "bit_length a \<le> 53" "a < 2 ^ 64"
  shows "f64_round_u64 (f64_nearest (a, 1)) = of_nat a"
  unfolding f64_nearest_integer [OF assms(1)] f64_round_u64_def
  using assms(2) by (simp add: min_def)

lemma bit_length_bound: "n < 2 ^ k \<Longrightarrow> bit_length n \<le> k"
proof (induction k arbitrary: n)
  case 0
  then show ?case by (simp add: bit_length.simps)
next
  case (Suc k)
  have "n div 2 < 2 ^ k" using Suc.prems by auto
  with Suc.IH have "bit_length (n div 2) \<le> k" by blast
  then show ?case by (subst bit_length.simps) simp
qed

end
