(* ===== verification/Resolver_Records.thy ===== *)
theory Resolver_Records
  imports Resolver_Cohorts Rust_Float
begin

section \<open>Records and pages of the library queries\<close>

text \<open>
  What \<open>src/src/upload.rs\<close> reads from the answers to \<open>records/query\<close>: assets with their zone, date and
  master, the resources of an asset and its master, their identities, and a page of the library,
  once for the resolver of a single asset and once for the batch. URLs are parsed by a library; the
  parameter \<open>parse_url\<close> stands for it and a \<open>url\<close> for what the program asks of a parsed URL.
\<close>

record url =
  url_as_str :: string
  url_scheme :: string
  url_username :: string
  url_password :: "string option"
  url_fragment :: "string option"
  url_host_str :: "string option"

type_synonym url_parser = "string \<Rightarrow> url option"

datatype candidate_kind = RawKind | ReplacementKind

definition kind_as_u8 :: "candidate_kind \<Rightarrow> nat" where
  "kind_as_u8 k = (case k of RawKind \<Rightarrow> 0 | ReplacementKind \<Rightarrow> 1)"

record remote_resource =
  rx_field :: string
  rx_kind :: candidate_kind
  rx_size_bytes :: u64
  rx_download_url :: url

record remote_asset =
  ra_asset_record_name :: string
  ra_asset_record_change_tag :: string

record asset_query_record =
  ca_record_name :: string
  ca_record_change_tag :: string
  ca_master_record_name :: string
  ca_asset_date_unix_seconds :: u64
  ca_record :: json

record observation_increment =
  oi_cohort_index :: nat
  oi_date_candidates :: u64
  oi_raw_resources :: u64
  oi_raw_size_matches :: "(u64, u64) btree"

record 'a query_page =
  qp_continuation_marker :: "string option"
  qp_matches :: "'a list"
  qp_asset_dates :: "u64 list"
  qp_observation_increments :: "observation_increment list"
  qp_inventory_records :: "string list"

record original_candidate =
  oc_proof :: original_asset_proof
  oc_download_url :: url

record batch_candidate =
  bc_asset :: remote_asset
  bc_resource :: remote_resource
  bc_cohort_indexes :: "nat list"

abbreviation invalid_response :: "string \<Rightarrow> upload_error" where
  "invalid_response \<equiv> InvalidCloudKitOriginalAssetResponse"

subsection \<open>Fields\<close>

definition required_record_string :: "json \<Rightarrow> string \<Rightarrow> upload_error + string" where
  "required_record_string record key =
     ok_or (invalid_response
         (if key = ''recordName'' then ''record missing recordName''
          else if key = ''recordType'' then ''record missing recordType''
          else ''record missing recordChangeTag''))
       (get_str key record)"

definition query_record_fields :: "json \<Rightarrow> upload_error + (string \<times> json) list" where
  "query_record_fields record =
     ok_or (invalid_response ''record missing fields'')
       (Option.bind (json_get ''fields'' record) json_as_object)"

definition field_value :: "(string \<times> json) list \<Rightarrow> string \<Rightarrow> json option" where
  "field_value fs key = Option.bind (bt_get fs key) (json_get ''value'')"

definition field_value_object :: "json \<Rightarrow> (string \<times> json) list option" where
  "field_value_object field = Option.bind (json_get ''value'' field) json_as_object"

definition field_string :: "(string \<times> json) list \<Rightarrow> string \<Rightarrow> string option" where
  "field_string fs key = Option.bind (field_value fs key) json_as_str"

definition filter_some :: "('a \<Rightarrow> bool) \<Rightarrow> 'a option \<Rightarrow> 'a option" where
  "filter_some P x = (case x of None \<Rightarrow> None | Some v \<Rightarrow> if P v then Some v else None)"

lemma filter_some_simps [simp]:
  "filter_some P None = None" "filter_some P (Some v) = (if P v then Some v else None)"
  by (simp_all add: filter_some_def)

lemma filter_some_eq_Some [simp]: "filter_some P x = Some v \<longleftrightarrow> x = Some v \<and> P v"
  by (auto simp: filter_some_def split: option.splits)

text \<open>A number as seconds since the epoch: values from \<open>10^10\<close> are milliseconds.\<close>

definition json_fraction :: "json \<Rightarrow> fraction option" where
  "json_fraction v =
     (case v of
        JNumber (PosInt n) \<Rightarrow> Some (f64_nearest (unat n, 1))
      | JNumber (NegInt n) \<Rightarrow> None
      | JNumber (Float64 bits) \<Rightarrow> f64_fraction bits
      | _ \<Rightarrow> None)"

definition cloudkit_unix_seconds :: "json \<Rightarrow> u64 option" where
  "cloudkit_unix_seconds v =
     map_option (\<lambda>(a, b). f64_round_u64
       (if 10000000000 * b \<le> a then f64_nearest (a, 1000 * b) else (a, b)))
     (json_fraction v)"

subsection \<open>Assets\<close>

definition validate_original_asset_zone_identity ::
  "json option \<Rightarrow> cloudkit_library_destination \<Rightarrow> string \<Rightarrow> upload_error + unit"
where
  "validate_original_asset_zone_identity zone d error =
     bind_ok (ok_or (invalid_response error) (Option.bind zone json_as_object)) (\<lambda>z.
     fail_if (Option.bind (bt_get z ''zoneName'') json_as_str \<noteq> Some (ld_zone_name d)
         \<or> Option.bind (bt_get z ''ownerRecordName'') json_as_str \<noteq> ld_owner_record_name d)
       (invalid_response error))"

definition parse_cloudkit_continuation_marker :: "json \<Rightarrow> upload_error + string option" where
  "parse_cloudkit_continuation_marker v =
     bind_ok (ok_or (invalid_response ''records/query response must be an object'') (json_as_object v)) (\<lambda>m.
     case bt_get m ''continuationMarker'' of
       None \<Rightarrow> Ok None
     | Some marker \<Rightarrow>
         map_ok Some (ok_or (invalid_response ''records/query continuationMarker must be a non-empty string'')
           (filter_some (\<lambda>s. \<not> is_blank s) (json_as_str marker))))"

definition parse_cloudkit_asset_record ::
  "json \<Rightarrow> cloudkit_library_destination \<Rightarrow> upload_error + asset_query_record"
where
  "parse_cloudkit_asset_record record d =
     bind_ok (validate_original_asset_zone_identity (json_get ''zoneID'' record) d
       ''CPLAsset zone differs from the requested destination'') (\<lambda>_.
     bind_ok (required_record_string record ''recordName'') (\<lambda>record_name.
     bind_ok (required_record_string record ''recordChangeTag'') (\<lambda>change_tag.
     bind_ok (fail_if (is_blank record_name \<or> is_blank change_tag)
       (invalid_response ''CPLAsset identity cannot be empty'')) (\<lambda>_.
     bind_ok (query_record_fields record) (\<lambda>fs.
     bind_ok (ok_or (invalid_response ''CPLAsset masterRef is malformed'')
       (Option.bind (field_value fs ''masterRef'') json_as_object)) (\<lambda>master_ref.
     bind_ok (validate_original_asset_zone_identity (bt_get master_ref ''zoneID'') d
       ''CPLAsset masterRef zone differs from the requested destination'') (\<lambda>_.
     bind_ok (ok_or (invalid_response ''CPLAsset missing masterRef'')
       (Option.bind (bt_get master_ref ''recordName'') json_as_str)) (\<lambda>master.
     bind_ok (fail_if (is_blank master) (invalid_response ''CPLAsset masterRef cannot be empty'')) (\<lambda>_.
     bind_ok (ok_or (invalid_response ''CPLAsset missing assetDate'')
       (Option.bind (field_value fs ''assetDate'') cloudkit_unix_seconds)) (\<lambda>date.
     Ok \<lparr>ca_record_name = record_name, ca_record_change_tag = change_tag,
         ca_master_record_name = master, ca_asset_date_unix_seconds = date,
         ca_record = record\<rparr>))))))))))"

text \<open>
  The first loop over the records of a page: its assets in order, and its masters by name. Records
  of other types are passed over.
\<close>

definition add_query_record ::
  "cloudkit_library_destination \<Rightarrow> json \<Rightarrow> asset_query_record list \<times> (string, json) btree
     \<Rightarrow> upload_error + asset_query_record list \<times> (string, json) btree"
where
  "add_query_record d record acc =
     (case acc of (assets, masters) \<Rightarrow>
        bind_ok (fail_if (json_get ''serverErrorCode'' record \<noteq> None)
          (invalid_response ''records/query returned a record error'')) (\<lambda>_.
        bind_ok (required_record_string record ''recordType'') (\<lambda>record_type.
        if record_type = ''CPLAsset''
        then map_ok (\<lambda>a. (assets @ [a], masters)) (parse_cloudkit_asset_record record d)
        else if record_type = ''CPLMaster''
        then
          bind_ok (validate_original_asset_zone_identity (json_get ''zoneID'' record) d
            ''CPLMaster zone differs from the requested destination'') (\<lambda>_.
          bind_ok (required_record_string record ''recordName'') (\<lambda>name.
          bind_ok (fail_if (bt_contains masters name)
            (invalid_response ''records/query returned duplicate CPLMaster recordName'')) (\<lambda>_.
          Ok (assets, bt_insert name record masters))))
        else Ok (assets, masters))))"

definition query_response_records :: "json \<Rightarrow> upload_error + json list" where
  "query_response_records v =
     ok_or (invalid_response ''records/query response must include records'')
       (Option.bind (json_get ''records'' v) json_as_array)"

subsection \<open>Resources\<close>

definition original_prefixes :: "string list" where
  "original_prefixes = [''resOriginal'', ''resOriginalAlt'', ''resSidecar'', ''resOriginalVidCompl'']"

definition resource_size_bytes :: "(string \<times> json) list \<Rightarrow> u64 option" where
  "resource_size_bytes resource = Option.bind (bt_get resource ''size'') json_as_u64"

definition ends_with :: "string \<Rightarrow> string \<Rightarrow> bool" where
  "ends_with s t \<longleftrightarrow> starts_with (rev s) (rev t)"

definition is_allowed_icloud_host :: "string \<Rightarrow> bool" where
  "is_allowed_icloud_host host =
     (let host = to_ascii_lowercase host in
      host = ''icloud.com'' \<or> ends_with host ''.icloud.com''
      \<or> host = ''icloud.com.cn'' \<or> ends_with host ''.icloud.com.cn''
      \<or> host = ''icloud-content.com'' \<or> ends_with host ''.icloud-content.com''
      \<or> host = ''icloud-content.com.cn'' \<or> ends_with host ''.icloud-content.com.cn'')"

definition validate_cloudkit_resource_download_url :: "url \<Rightarrow> upload_error + unit" where
  "validate_cloudkit_resource_download_url u =
     bind_ok (fail_if (url_scheme u \<noteq> ''https'')
       (invalid_response ''resource downloadURL must use https'')) (\<lambda>_.
     bind_ok (fail_if (url_username u \<noteq> [] \<or> url_password u \<noteq> None)
       (invalid_response ''resource downloadURL must not include credentials'')) (\<lambda>_.
     bind_ok (fail_if (url_fragment u \<noteq> None)
       (invalid_response ''resource downloadURL must not include a fragment'')) (\<lambda>_.
     bind_ok (ok_or (invalid_response ''resource downloadURL host is required'') (url_host_str u)) (\<lambda>host.
     fail_if (\<not> is_allowed_icloud_host host)
       (invalid_response ''resource downloadURL host is not an Apple iCloud host'')))))"

definition resource_download_url :: "url_parser \<Rightarrow> (string \<times> json) list \<Rightarrow> upload_error + url" where
  "resource_download_url parse_url resource =
     bind_ok (ok_or (invalid_response ''CPLMaster resource missing downloadURL'')
       (filter_some (\<lambda>s. \<not> is_blank s) (Option.bind (bt_get resource ''downloadURL'') json_as_str))) (\<lambda>raw_url.
     bind_ok (ok_or (invalid_response ''CPLMaster resource downloadURL is invalid'') (parse_url raw_url)) (\<lambda>u.
     bind_ok (validate_cloudkit_resource_download_url u) (\<lambda>_. Ok u)))"

definition resource_type_is_raw :: "string \<Rightarrow> bool" where
  "resource_type_is_raw v =
     (let v = to_ascii_lowercase v in
      v = ''dng'' \<or> contains_str v ''raw'' \<or> contains_str v ''digital-negative''
      \<or> contains_str v ''adobe.raw-image'')"

definition resource_type_is_heic :: "string \<Rightarrow> bool" where
  "resource_type_is_heic v =
     (let v = to_ascii_lowercase v in
      v = ''heic'' \<or> v = ''heif'' \<or> contains_str v ''heic'' \<or> contains_str v ''heif''
      \<or> contains_str v ''hevc'')"

definition resource_kind :: "string \<Rightarrow> candidate_kind option" where
  "resource_kind file_type =
     (if resource_type_is_raw file_type then Some RawKind
      else if resource_type_is_heic file_type then Some ReplacementKind else None)"

text \<open>The body of the loop over the prefixes: the resource of one field, if it is of either kind.\<close>

definition prefix_resource ::
  "url_parser \<Rightarrow> (string \<times> json) list \<Rightarrow> string \<Rightarrow> upload_error + remote_resource option"
where
  "prefix_resource parse_url fs prefix =
     (case bt_get fs (prefix @ ''Res'') of
        None \<Rightarrow> Ok None
      | Some field \<Rightarrow>
          bind_ok (ok_or (invalid_response ''CloudKit original resource field is malformed'')
            (field_value_object field)) (\<lambda>resource.
          bind_ok (ok_or (invalid_response ''CloudKit original resource missing size'')
            (resource_size_bytes resource)) (\<lambda>size_bytes.
          bind_ok (ok_or (invalid_response ''CloudKit original resource missing file type'')
            (field_string fs (prefix @ ''FileType''))) (\<lambda>file_type.
          case resource_kind file_type of
            None \<Rightarrow> Ok None
          | Some kind \<Rightarrow>
              map_ok (\<lambda>u. Some \<lparr>rx_field = prefix @ ''Res'', rx_kind = kind,
                               rx_size_bytes = size_bytes, rx_download_url = u\<rparr>)
                (resource_download_url parse_url resource)))))"

definition record_original_asset_resources :: "url_parser \<Rightarrow> json \<Rightarrow> upload_error + remote_resource list" where
  "record_original_asset_resources parse_url record =
     bind_ok (query_record_fields record) (\<lambda>fs.
     map_ok (List.map_filter id) (try_map (prefix_resource parse_url fs) original_prefixes))"

text \<open>Keeping the first of the entries with the same key, as \<open>seen.insert\<close> does.\<close>

fun dedup_by :: "('a \<Rightarrow> 'k) \<Rightarrow> 'k set \<Rightarrow> 'a list \<Rightarrow> 'a list" where
  "dedup_by key seen [] = []"
| "dedup_by key seen (x # xs) =
     (if key x \<in> seen then dedup_by key seen xs else x # dedup_by key (insert (key x) seen) xs)"

definition record_pair_original_asset_resources ::
  "url_parser \<Rightarrow> json \<Rightarrow> json \<Rightarrow> upload_error + remote_resource list"
where
  "record_pair_original_asset_resources parse_url asset master =
     bind_ok (record_original_asset_resources parse_url asset) (\<lambda>xs.
     bind_ok (record_original_asset_resources parse_url master) (\<lambda>ys.
     Ok (dedup_by (\<lambda>x. (kind_as_u8 (rx_kind x), rx_size_bytes x, url_as_str (rx_download_url x))) {} (xs @ ys))))"

definition remote_resource_identity :: "string \<Rightarrow> remote_resource \<Rightarrow> string" where
  "remote_resource_identity asset_record_name r =
     asset_record_name @ [char_of (31 :: nat)] @ rx_field r @ [char_of (31 :: nat)]
     @ nat_to_string (kind_as_u8 (rx_kind r)) @ [char_of (31 :: nat)] @ u64_to_string (rx_size_bytes r)"

text \<open>The RAW resources of given sizes, as the resolver of a single asset collects them.\<close>

definition prefix_raw_url ::
  "url_parser \<Rightarrow> u64 set \<Rightarrow> (string \<times> json) list \<Rightarrow> string
     \<Rightarrow> upload_error + bool \<times> (u64 \<times> url) option"
where
  "prefix_raw_url parse_url target_sizes fs prefix =
     (case bt_get fs (prefix @ ''Res'') of
        None \<Rightarrow> Ok (False, None)
      | Some field \<Rightarrow>
          bind_ok (ok_or (invalid_response ''CloudKit original resource field is malformed'')
            (field_value_object field)) (\<lambda>resource.
          bind_ok (ok_or (invalid_response ''CloudKit original resource missing size'')
            (resource_size_bytes resource)) (\<lambda>size_bytes.
          if size_bytes \<notin> target_sizes then Ok (True, None)
          else
            bind_ok (ok_or (invalid_response ''CloudKit original resource missing file type'')
              (field_string fs (prefix @ ''FileType''))) (\<lambda>file_type.
            if resource_type_is_raw file_type
            then map_ok (\<lambda>u. (True, Some (size_bytes, u))) (resource_download_url parse_url resource)
            else Ok (True, None)))))"

definition record_matching_raw_resource_urls ::
  "url_parser \<Rightarrow> json \<Rightarrow> u64 set \<Rightarrow> upload_error + bool \<times> (u64 \<times> url) list"
where
  "record_matching_raw_resource_urls parse_url record target_sizes =
     bind_ok (query_record_fields record) (\<lambda>fs.
     map_ok (\<lambda>rs. (\<exists>r\<in>set rs. fst r, List.map_filter snd rs))
       (try_map (prefix_raw_url parse_url target_sizes fs) original_prefixes))"

definition record_pair_matching_raw_resource_urls ::
  "url_parser \<Rightarrow> json \<Rightarrow> json \<Rightarrow> u64 set \<Rightarrow> upload_error + (u64 \<times> url) list"
where
  "record_pair_matching_raw_resource_urls parse_url asset master target_sizes =
     bind_ok (record_matching_raw_resource_urls parse_url asset target_sizes) (\<lambda>(saw1, ms1).
     bind_ok (record_matching_raw_resource_urls parse_url master target_sizes) (\<lambda>(saw2, ms2).
     if \<not> (saw1 \<or> saw2)
     then Err (invalid_response ''CloudKit original record pair missing original resources'')
     else Ok (dedup_by (\<lambda>(size, u). (size, url_as_str u)) {} (ms1 @ ms2))))"

subsection \<open>Identities in the inventory\<close>

definition separated :: "nat \<Rightarrow> string list \<Rightarrow> string" where
  "separated c ss = join_with [char_of c] ss"

definition normalized_inventory_resource_identity ::
  "string \<Rightarrow> (string \<times> json) list \<Rightarrow> string \<Rightarrow> upload_error + string option"
where
  "normalized_inventory_resource_identity role fs prefix =
     (case (bt_get fs (prefix @ ''Res''), bt_get fs (prefix @ ''Fingerprint'')) of
        (None, None) \<Rightarrow> Ok None
      | (Some _, None) \<Rightarrow> Err (invalid_response ''CloudKit original resource missing fingerprint'')
      | (None, Some _) \<Rightarrow> Err (invalid_response ''CloudKit original fingerprint has no resource'')
      | (Some field, Some _) \<Rightarrow>
          bind_ok (ok_or (invalid_response ''CloudKit original resource field is malformed'')
            (field_value_object field)) (\<lambda>resource.
          bind_ok (ok_or (invalid_response ''CloudKit original resource missing size'')
            (resource_size_bytes resource)) (\<lambda>size_bytes.
          bind_ok (ok_or (invalid_response ''CloudKit original resource missing file type'')
            (field_string fs (prefix @ ''FileType''))) (\<lambda>file_type.
          bind_ok (ok_or (invalid_response ''CloudKit original resource fingerprint is malformed or conflicting'')
            (filter_some (\<lambda>s. \<not> is_blank s) (field_string fs (prefix @ ''Fingerprint'')))) (\<lambda>fingerprint.
          Ok (Some (separated 31 [role, prefix @ ''Res'', to_ascii_lowercase file_type,
            u64_to_string size_bytes, fingerprint])))))))"

definition record_resource_identities :: "string \<Rightarrow> json \<Rightarrow> upload_error + string list" where
  "record_resource_identities role record =
     bind_ok (query_record_fields record) (\<lambda>fs.
     map_ok (List.map_filter id) (try_map (normalized_inventory_resource_identity role fs) original_prefixes))"

definition normalized_inventory_asset_identity ::
  "asset_query_record \<Rightarrow> json \<Rightarrow> upload_error + string"
where
  "normalized_inventory_asset_identity asset master =
     bind_ok (required_record_string master ''recordName'') (\<lambda>master_record_name.
     bind_ok (record_resource_identities ''asset'' (ca_record asset)) (\<lambda>xs.
     bind_ok (record_resource_identities ''master'' master) (\<lambda>ys.
     Ok (separated 31
       [ca_record_name asset, ca_master_record_name asset,
        u64_to_string (ca_asset_date_unix_seconds asset), master_record_name,
        separated 30 (sorted_list_of_set (set (xs @ ys)))]))))"

end
