(* ===== verification/Calls.thy ===== *)
theory Calls
  imports Prelude
begin

section \<open>Calls\<close>

text \<open>
  Computations that may fail and that change a state on the way: a transport, or everything a scan works
  on. \<open>and_then\<close> is the \<open>?\<close> operator on them, \<open>now\<close> a result that needs no state, \<open>call_fold\<close> a loop whose
  body may call.
\<close>

definition now :: "'e + 'a \<Rightarrow> 't \<Rightarrow> ('e + 'a) \<times> 't" where
  "now r = (\<lambda>t. (r, t))"

definition and_then ::
  "('t \<Rightarrow> ('e + 'a) \<times> 't) \<Rightarrow> ('a \<Rightarrow> 't \<Rightarrow> ('e + 'b) \<times> 't) \<Rightarrow> 't \<Rightarrow> ('e + 'b) \<times> 't"
where
  "and_then f k = (\<lambda>t. case f t of (Inl e, t') \<Rightarrow> (Inl e, t') | (Inr x, t') \<Rightarrow> k x t')"

fun call_fold :: "('x \<Rightarrow> 's \<Rightarrow> 't \<Rightarrow> ('e + 's) \<times> 't) \<Rightarrow> 'x list \<Rightarrow> 's \<Rightarrow> 't \<Rightarrow> ('e + 's) \<times> 't" where
  "call_fold f [] s = now (Ok s)"
| "call_fold f (x # xs) s = and_then (f x s) (call_fold f xs)"

lemma now_simps [simp]: "now r t = (r, t)"
  by (simp add: now_def)

lemma and_then_eq_Ok:
  "and_then f k t = (Inr y, t'') \<longleftrightarrow> (\<exists>x t'. f t = (Inr x, t') \<and> k x t' = (Inr y, t''))"
  by (auto simp: and_then_def split: prod.splits sum.splits)

lemma and_then_eq_Err:
  "and_then f k t = (Inl e, t'') \<longleftrightarrow>
     f t = (Inl e, t'') \<or> (\<exists>x t'. f t = (Inr x, t') \<and> k x t' = (Inl e, t''))"
  by (auto simp: and_then_def split: prod.splits sum.splits)

lemma now_then:
  "and_then (now r) k = (case r of Inl e \<Rightarrow> now (Err e) | Inr x \<Rightarrow> k x)"
  by (auto simp: and_then_def now_def fun_eq_iff split: sum.splits)

lemma now_then_eq_Ok: "and_then (now r) k t = (Inr y, t') \<longleftrightarrow> (\<exists>x. r = Inr x \<and> k x t = (Inr y, t'))"
  by (cases r) (simp_all add: now_then)

lemma and_then_cong [fundef_cong]:
  assumes "f = f'" "\<And>x t t'. f' t = (Inr x, t') \<Longrightarrow> k x = k' x"
  shows "and_then f k = and_then f' k'"
  using assms by (auto simp: and_then_def fun_eq_iff split: prod.splits sum.splits)

end
