(* ===== verification/Resolver_Pages.thy ===== *)
theory Resolver_Pages
  imports Resolver_Records Calls
begin

section \<open>Pages of the library and the seek for a window of dates\<close>

text \<open>
  The parsers of a page for the two resolvers of \<open>src/src/upload.rs\<close>, where a page lies against a window
  of dates, and \<open>seek_original_asset_query_page\<close>, which finds the page to start from: it doubles its
  steps until a page is no longer too new (or too old) and then bisects. Ranks grow from the newest
  asset to the oldest. Every page read counts against \<open>max_pages\<close>, which is the measure of each
  loop, so the seek ends whatever is answered.
\<close>

subsection \<open>A page for one asset\<close>

record original_resolve_request =
  or_raw_size_bytes :: u64
  or_source_captured_unix_seconds :: u64
  or_capture_tolerance_seconds :: u64
  or_filename :: string
  or_matched_raw_sha256 :: string
  or_start_rank :: u64
  or_page_size :: u64
  or_max_pages :: u64

definition original_proof_for ::
  "original_resolve_request \<Rightarrow> cloudkit_library_destination \<Rightarrow> asset_query_record \<Rightarrow> original_asset_proof"
where
  "original_proof_for request d asset =
     \<lparr>oa_record_name = ca_record_name asset, oa_record_change_tag = ca_record_change_tag asset,
      oa_record_type = ''CPLAsset'', oa_database_scope = ld_database_scope d, oa_zone_name = ld_zone_name d,
      oa_owner_record_name = ld_owner_record_name d, oa_filename = or_filename request,
      oa_size_bytes = or_raw_size_bytes request, oa_matched_raw_sha256 = or_matched_raw_sha256 request\<rparr>"

definition asset_master :: "(string, json) btree \<Rightarrow> asset_query_record \<Rightarrow> upload_error + json" where
  "asset_master masters asset =
     ok_or (invalid_response ''records/query returned an asset without its master'')
       (bt_get masters (ca_master_record_name asset))"

definition asset_original_candidates ::
  "url_parser \<Rightarrow> original_resolve_request \<Rightarrow> cloudkit_library_destination \<Rightarrow> (string, json) btree
     \<Rightarrow> asset_query_record \<Rightarrow> upload_error + original_candidate list"
where
  "asset_original_candidates parse_url request d masters asset =
     bind_ok (asset_master masters asset) (\<lambda>master.
     if \<not> asset_date_matches (ca_asset_date_unix_seconds asset) (or_source_captured_unix_seconds request)
          (or_capture_tolerance_seconds request)
     then Ok []
     else
       bind_ok (record_pair_matching_raw_resource_urls parse_url (ca_record asset) master
         {or_raw_size_bytes request}) (\<lambda>urls.
       Ok (map (\<lambda>(_, u). \<lparr>oc_proof = original_proof_for request d asset, oc_download_url = u\<rparr>) urls)))"

definition parse_original_asset_query_response ::
  "url_parser \<Rightarrow> json \<Rightarrow> original_resolve_request \<Rightarrow> cloudkit_library_destination
     \<Rightarrow> upload_error + original_candidate query_page"
where
  "parse_original_asset_query_response parse_url v request d =
     bind_ok (query_response_records v) (\<lambda>records.
     bind_ok (parse_cloudkit_continuation_marker v) (\<lambda>marker.
     bind_ok (try_fold (add_query_record d) records ([], [])) (\<lambda>(assets, masters).
     bind_ok (try_map (asset_original_candidates parse_url request d masters) assets) (\<lambda>ms.
     Ok \<lparr>qp_continuation_marker = marker, qp_matches = concat ms,
         qp_asset_dates = map ca_asset_date_unix_seconds assets, qp_observation_increments = [],
         qp_inventory_records = []\<rparr>))))"

subsection \<open>A page for a batch\<close>

definition bump_size :: "(u64, u64) btree \<Rightarrow> u64 \<Rightarrow> u64 \<Rightarrow> (u64, u64) btree" where
  "bump_size m bytes n = bt_insert bytes (saturating_add (case_option 0 id (bt_get m bytes)) n) m"

definition count_resource :: "remote_resource \<Rightarrow> observation_increment \<Rightarrow> observation_increment" where
  "count_resource r oi =
     (if rx_kind r = RawKind
      then oi\<lparr>oi_raw_resources := saturating_add (oi_raw_resources oi) 1,
              oi_raw_size_matches := bump_size (oi_raw_size_matches oi) (rx_size_bytes r) 1\<rparr>
      else oi)"

definition increment_for :: "remote_resource list \<Rightarrow> nat \<Rightarrow> observation_increment" where
  "increment_for resources cohort_index =
     fold count_resource resources
       \<lparr>oi_cohort_index = cohort_index, oi_date_candidates = 1, oi_raw_resources = 0,
        oi_raw_size_matches = []\<rparr>"

definition resource_is_relevant :: "target_index \<Rightarrow> nat list \<Rightarrow> remote_resource \<Rightarrow> bool" where
  "resource_is_relevant ix cohort_indexes r \<longleftrightarrow>
     (\<exists>ci\<in>set cohort_indexes.
        (case rx_kind r of
           RawKind \<Rightarrow> rx_size_bytes r \<in> tc_raw_target_sizes (ti_cohorts ix ! ci)
         | ReplacementKind \<Rightarrow> rx_size_bytes r \<in> tc_replacement_target_sizes (ti_cohorts ix ! ci)))"

type_synonym page_items = "batch_candidate list \<times> observation_increment list \<times> string set"

definition add_batch_asset ::
  "url_parser \<Rightarrow> target_index \<Rightarrow> (string, json) btree \<Rightarrow> asset_query_record \<Rightarrow> page_items
     \<Rightarrow> upload_error + page_items"
where
  "add_batch_asset parse_url ix masters asset items =
     (case items of (matches, increments, inventory) \<Rightarrow>
      let cohort_indexes = cohort_indexes_for_asset_date ix (ca_asset_date_unix_seconds asset);
          window = index_date_window ix;
          in_inventory_window =
            (dw_start_unix_seconds window \<le> ca_asset_date_unix_seconds asset
             \<and> ca_asset_date_unix_seconds asset \<le> dw_end_unix_seconds window) in
      if cohort_indexes = [] \<and> \<not> in_inventory_window then Ok items
      else
        bind_ok (asset_master masters asset) (\<lambda>master.
        bind_ok (record_pair_original_asset_resources parse_url (ca_record asset) master) (\<lambda>resources.
        bind_ok (normalized_inventory_asset_identity asset master) (\<lambda>identity.
        if cohort_indexes = [] then Ok (matches, increments, insert identity inventory)
        else
          Ok (matches @ map (\<lambda>r. \<lparr>bc_asset = \<lparr>ra_asset_record_name = ca_record_name asset,
                                       ra_asset_record_change_tag = ca_record_change_tag asset\<rparr>,
                                  bc_resource = r, bc_cohort_indexes = cohort_indexes\<rparr>)
                (filter (resource_is_relevant ix cohort_indexes) resources),
              increments @ map (increment_for resources) cohort_indexes,
              insert identity inventory)))))"

definition parse_original_asset_batch_query_response ::
  "url_parser \<Rightarrow> json \<Rightarrow> target_index \<Rightarrow> cloudkit_library_destination
     \<Rightarrow> upload_error + batch_candidate query_page"
where
  "parse_original_asset_batch_query_response parse_url v ix d =
     bind_ok (query_response_records v) (\<lambda>records.
     bind_ok (parse_cloudkit_continuation_marker v) (\<lambda>marker.
     bind_ok (try_fold (add_query_record d) records ([], [])) (\<lambda>(assets, masters).
     bind_ok (try_fold (add_batch_asset parse_url ix masters) assets ([], [], {})) (\<lambda>(matches, increments, inventory).
     Ok \<lparr>qp_continuation_marker = marker, qp_matches = matches,
         qp_asset_dates = map ca_asset_date_unix_seconds assets,
         qp_observation_increments = increments,
         qp_inventory_records = sorted_list_of_set inventory\<rparr>))))"

subsection \<open>Where a page lies\<close>

datatype page_position = TooNew | Overlaps | TooOld | EmptyPage

definition asset_count :: "'a query_page \<Rightarrow> u64" where
  "asset_count p = len_u64 (qp_asset_dates p)"

definition date_bounds :: "'a query_page \<Rightarrow> (u64 \<times> u64) option" where
  "date_bounds p =
     (case qp_asset_dates p of [] \<Rightarrow> None
      | _ \<Rightarrow> Some (min_or_zero (qp_asset_dates p), max_or_zero (qp_asset_dates p)))"

definition position_against :: "'a query_page \<Rightarrow> date_window \<Rightarrow> page_position" where
  "position_against p w =
     (case date_bounds p of
        None \<Rightarrow> EmptyPage
      | Some (min_date, max_date) \<Rightarrow>
          if dw_end_unix_seconds w < min_date then TooNew
          else if max_date < dw_start_unix_seconds w then TooOld
          else Overlaps)"

record 'a positioned_page =
  pp_start_rank :: u64
  pp_page :: "'a query_page"

record 'a seek_result =
  sr_page :: "'a positioned_page"
  sr_pages_read :: u64

subsection \<open>Calls\<close>

text \<open>A call of the transport: the answer or the error, and the transport afterwards.\<close>

type_synonym ('t, 'a) call = "'t \<Rightarrow> (upload_error + 'a) \<times> 't"

subsection \<open>The seek\<close>

definition checked_rank_add :: "u64 \<Rightarrow> u64 \<Rightarrow> upload_error + u64" where
  "checked_rank_add start_rank offset =
     ok_or (InvalidCloudKitOriginalAssetRequest ''pagination start rank overflow'')
       (checked_add start_rank offset)"

definition double_step :: "u64 \<Rightarrow> upload_error + u64" where
  "double_step step =
     ok_or (InvalidCloudKitOriginalAssetRequest ''pagination start rank overflow'') (checked_mul step 2)"

definition original_asset_query_start_rank :: "u64 \<Rightarrow> u64 \<Rightarrow> u64 \<Rightarrow> upload_error + u64" where
  "original_asset_query_start_rank start_rank page_size page =
     bind_ok (ok_or (InvalidCloudKitOriginalAssetRequest ''pagination start rank overflow'')
       (checked_mul page page_size)) (\<lambda>offset. checked_rank_add start_rank offset)"

definition read_original_asset_rank_page ::
  "(u64 \<Rightarrow> ('t, 'a query_page) call) \<Rightarrow> u64 \<Rightarrow> u64 \<Rightarrow> ('t, 'a positioned_page \<times> u64) call"
where
  "read_original_asset_rank_page query rank pages_read =
     and_then (query rank) (\<lambda>page.
       now (Ok (\<lparr>pp_start_rank = rank, pp_page = page\<rparr>, saturating_add pages_read 1)))"

definition first_step :: "'a query_page \<Rightarrow> u64 \<Rightarrow> u64" where
  "first_step p page_size = max (max (asset_count p) 1) (max (page_size div 2) 1)"

definition middle_rank :: "u64 \<Rightarrow> u64 \<Rightarrow> u64" where
  "middle_rank lower upper = lower + (upper - lower) div 2"

abbreviation resolve_incomplete :: "('t, 'b) call" where
  "resolve_incomplete \<equiv> now (Err (OriginalAssetResolveIncomplete 0))"

lemma pages_read_decreases:
  fixes pages_read max_pages :: u64
  assumes "\<not> max_pages \<le> pages_read"
  shows "unat max_pages - unat (saturating_add pages_read 1) < unat max_pages - unat pages_read"
proof -
  have "unat max_pages < 2 ^ 64" using unsigned_less [of max_pages] by simp
  then show ?thesis
    using assms by (simp add: unat_saturating_add word_le_nat_alt min_def)
qed

lemma read_page_eq_Ok:
  "read_original_asset_rank_page query rank n t = (Inr (p, n'), t') \<longleftrightarrow>
     (\<exists>page. query rank t = (Inr page, t') \<and> p = \<lparr>pp_start_rank = rank, pp_page = page\<rparr>
        \<and> n' = saturating_add n 1)"
  by (auto simp: read_original_asset_rank_page_def and_then_eq_Ok)

text \<open>The loop that doubles the step until a page is not too new: the last rank that was, that page.\<close>

function probe_older ::
  "(u64 \<Rightarrow> ('t, 'a query_page) call) \<Rightarrow> date_window \<Rightarrow> u64 \<Rightarrow> u64 \<Rightarrow> u64 \<Rightarrow> u64 \<Rightarrow> u64
     \<Rightarrow> ('t, u64 \<times> 'a positioned_page \<times> u64) call"
where
  "probe_older query w max_pages start_rank lower_rank step pages_read =
     (if max_pages \<le> pages_read then resolve_incomplete
      else
        and_then (now (checked_rank_add start_rank step)) (\<lambda>probe_rank.
        and_then (read_original_asset_rank_page query probe_rank pages_read) (\<lambda>(page, n).
        if position_against (pp_page page) w = TooNew
        then and_then (now (double_step step)) (\<lambda>step'.
               probe_older query w max_pages start_rank probe_rank step' n)
        else now (Ok (lower_rank, page, n)))))"
  by pat_completeness auto
termination
  by (relation "measure (\<lambda>(_, _, max_pages, _, _, _, n). unat max_pages - unat n)")
    (auto simp: read_page_eq_Ok pages_read_decreases)

declare probe_older.simps [simp del]

text \<open>The bisection between a rank that is too new and a page that is not.\<close>

function bisect_older ::
  "(u64 \<Rightarrow> ('t, 'a query_page) call) \<Rightarrow> date_window \<Rightarrow> u64 \<Rightarrow> u64 \<Rightarrow> 'a positioned_page \<Rightarrow> u64
     \<Rightarrow> ('t, 'a seek_result) call"
where
  "bisect_older query w max_pages lower_rank upper_page pages_read =
     (if \<not> saturating_add lower_rank 1 < pp_start_rank upper_page
      then now (Ok \<lparr>sr_page = upper_page, sr_pages_read = pages_read\<rparr>)
      else if max_pages \<le> pages_read then resolve_incomplete
      else
        let mid_rank = middle_rank lower_rank (pp_start_rank upper_page) in
        and_then (read_original_asset_rank_page query mid_rank pages_read) (\<lambda>(page, n).
          if position_against (pp_page page) w = TooNew
          then bisect_older query w max_pages mid_rank upper_page n
          else bisect_older query w max_pages lower_rank page n))"
  by pat_completeness auto
termination
  by (relation "measure (\<lambda>(_, _, max_pages, _, _, n). unat max_pages - unat n)")
    (auto simp: read_page_eq_Ok pages_read_decreases)

declare bisect_older.simps [simp del]

text \<open>
  The way back from a start that is too old. The loop ends with a page to return or with a page that
  is not too old, and the bisection that follows returns the first page it meets that overlaps the
  window or is empty.
\<close>

datatype 'a probe_end = ReturnPage "'a positioned_page" | LowerPage "'a positioned_page" "'a positioned_page"

function probe_newer ::
  "(u64 \<Rightarrow> ('t, 'a query_page) call) \<Rightarrow> date_window \<Rightarrow> u64 \<Rightarrow> 'a positioned_page \<Rightarrow> u64 \<Rightarrow> u64
     \<Rightarrow> ('t, 'a probe_end \<times> u64) call"
where
  "probe_newer query w max_pages upper_page step pages_read =
     (if max_pages \<le> pages_read then resolve_incomplete
      else
        let probe_rank = saturating_sub (pp_start_rank upper_page) step in
        and_then (read_original_asset_rank_page query probe_rank pages_read) (\<lambda>(page, n).
          if position_against (pp_page page) w = TooOld
          then
            (if 0 < probe_rank
             then and_then (now (double_step step)) (\<lambda>step'.
                    probe_newer query w max_pages page step' n)
             else now (Ok (ReturnPage page, n)))
          else now (Ok (LowerPage page upper_page, n))))"
  by pat_completeness auto
termination
  by (relation "measure (\<lambda>(_, _, max_pages, _, _, n). unat max_pages - unat n)")
    (auto simp: read_page_eq_Ok pages_read_decreases)

declare probe_newer.simps [simp del]

function bisect_newer ::
  "(u64 \<Rightarrow> ('t, 'a query_page) call) \<Rightarrow> date_window \<Rightarrow> u64 \<Rightarrow> u64 \<Rightarrow> 'a positioned_page \<Rightarrow> u64
     \<Rightarrow> ('t, 'a seek_result) call"
where
  "bisect_newer query w max_pages lower_rank upper_page pages_read =
     (if \<not> saturating_add lower_rank 1 < pp_start_rank upper_page
      then now (Ok \<lparr>sr_page = upper_page, sr_pages_read = pages_read\<rparr>)
      else if max_pages \<le> pages_read then resolve_incomplete
      else
        let mid_rank = middle_rank lower_rank (pp_start_rank upper_page) in
        and_then (read_original_asset_rank_page query mid_rank pages_read) (\<lambda>(page, n).
          case position_against (pp_page page) w of
            TooNew \<Rightarrow> bisect_newer query w max_pages mid_rank upper_page n
          | TooOld \<Rightarrow> bisect_newer query w max_pages lower_rank page n
          | _ \<Rightarrow> now (Ok \<lparr>sr_page = page, sr_pages_read = n\<rparr>)))"
  by pat_completeness auto
termination
  by (relation "measure (\<lambda>(_, _, max_pages, _, _, n). unat max_pages - unat n)")
    (auto simp: read_page_eq_Ok pages_read_decreases)

declare bisect_newer.simps [simp del]

definition seek_toward_newer ::
  "(u64 \<Rightarrow> ('t, 'a query_page) call) \<Rightarrow> 'a positioned_page \<Rightarrow> u64 \<Rightarrow> u64 \<Rightarrow> date_window \<Rightarrow> u64
     \<Rightarrow> ('t, 'a seek_result) call"
where
  "seek_toward_newer query first_page page_size max_pages w pages_read =
     (if pp_start_rank first_page = 0
      then now (Ok \<lparr>sr_page = first_page, sr_pages_read = pages_read\<rparr>)
      else
        and_then (probe_newer query w max_pages first_page (first_step (pp_page first_page) page_size) pages_read)
          (\<lambda>(final, n).
             case final of
               ReturnPage page \<Rightarrow> now (Ok \<lparr>sr_page = page, sr_pages_read = n\<rparr>)
             | LowerPage lower_page upper_page \<Rightarrow>
                 if position_against (pp_page lower_page) w \<noteq> TooNew
                 then now (Ok \<lparr>sr_page = lower_page, sr_pages_read = n\<rparr>)
                 else bisect_newer query w max_pages (pp_start_rank lower_page) upper_page n))"

definition seek_original_asset_query_page ::
  "(u64 \<Rightarrow> ('t, 'a query_page) call) \<Rightarrow> u64 \<Rightarrow> u64 \<Rightarrow> u64 \<Rightarrow> date_window \<Rightarrow> ('t, 'a seek_result) call"
where
  "seek_original_asset_query_page query start_rank page_size max_pages w =
     and_then (read_original_asset_rank_page query start_rank 0) (\<lambda>(first_page, n).
       case position_against (pp_page first_page) w of
         TooNew \<Rightarrow>
           and_then (probe_older query w max_pages start_rank start_rank
               (first_step (pp_page first_page) page_size) n)
             (\<lambda>(lower_rank, upper_page, n). bisect_older query w max_pages lower_rank upper_page n)
       | TooOld \<Rightarrow> seek_toward_newer query first_page page_size max_pages w n
       | _ \<Rightarrow> now (Ok \<lparr>sr_page = first_page, sr_pages_read = n\<rparr>))"

end
