(* ===== verification/Resolver.thy ===== *)
theory Resolver
  imports Resolver_Pages
begin

section \<open>The resolvers of original assets\<close>

text \<open>
  \<open>resolve_original_asset\<close> and \<open>resolve_original_assets_batch_outcome\<close> of \<open>src/src/upload.rs\<close>: after the seek they
  follow the continuation markers, download every candidate of a size that is asked for, compare its
  hash, and decide. \<open>post\<close> and \<open>download\<close> are the two calls of the transport, for the session's
  library; the transport's own state \<open>'t\<close> is threaded through.
\<close>

record batch_resolve_request =
  br_targets :: "resolve_target list"
  br_start_rank :: u64
  br_page_size :: u64
  br_max_pages :: u64

record resource_download =
  rd_sha256 :: string
  rd_size_bytes :: u64

type_synonym 't post = "json \<Rightarrow> ('t, json) call"
type_synonym 't download = "url \<Rightarrow> u64 \<Rightarrow> ('t, resource_download) call"

abbreviation invalid_request :: "string \<Rightarrow> upload_error" where
  "invalid_request \<equiv> InvalidCloudKitOriginalAssetRequest"

subsection \<open>Validation\<close>

definition validate_original_asset_target_fields :: "u64 \<Rightarrow> string \<Rightarrow> string \<Rightarrow> upload_error + unit" where
  "validate_original_asset_target_fields raw_size_bytes filename matched_raw_sha256 =
     checks
      [fail_if (raw_size_bytes = 0) (invalid_request ''raw size must be positive''),
       fail_if (is_blank filename) (invalid_request ''filename is required''),
       fail_if (is_blank matched_raw_sha256) (invalid_request ''matched RAW SHA-256 is required'')]"

definition validate_original_asset_resolve_request :: "original_resolve_request \<Rightarrow> upload_error + unit" where
  "validate_original_asset_resolve_request r =
     checks
      [validate_original_asset_target_fields (or_raw_size_bytes r) (or_filename r) (or_matched_raw_sha256 r),
       fail_if (or_page_size r = 0) (invalid_request ''page size must be positive''),
       fail_if (or_max_pages r = 0) (invalid_request ''max pages must be positive'')]"

definition validate_resolve_target :: "resolve_target \<Rightarrow> string set \<Rightarrow> upload_error + string set" where
  "validate_resolve_target t seen =
     bind_ok
       (checks
         [fail_if (is_blank (rt_asset_id t)) (invalid_request ''asset id is required''),
          fail_if (rt_asset_id t \<in> seen) (invalid_request ''duplicate asset id in batch targets''),
          validate_original_asset_target_fields (rt_raw_size_bytes t) (rt_filename t) (rt_matched_raw_sha256 t),
          (case rt_replacement_candidate t of
             None \<Rightarrow> Ok ()
           | Some c \<Rightarrow>
               checks
                [fail_if (rc_size_bytes c = 0) (invalid_request ''replacement candidate size must be positive''),
                 fail_if (is_blank (rc_sha256 c)) (invalid_request ''replacement candidate SHA-256 is required'')])])
       (\<lambda>_. Ok (insert (rt_asset_id t) seen))"

definition validate_original_asset_batch_resolve_request :: "batch_resolve_request \<Rightarrow> upload_error + unit" where
  "validate_original_asset_batch_resolve_request r =
     checks
      [fail_if (br_targets r = []) (invalid_request ''batch targets are required''),
       fail_if (br_page_size r = 0) (invalid_request ''page size must be positive''),
       fail_if (br_max_pages r = 0) (invalid_request ''max pages must be positive''),
       map_ok (\<lambda>_. ()) (try_fold validate_resolve_target (br_targets r) {})]"

definition validate_original_asset_pagination_range :: "original_resolve_request \<Rightarrow> upload_error + unit" where
  "validate_original_asset_pagination_range r =
     map_ok (\<lambda>_. ()) (original_asset_query_start_rank (or_start_rank r) (or_page_size r) (or_max_pages r - 1))"

definition validate_original_asset_batch_pagination_range :: "batch_resolve_request \<Rightarrow> upload_error + unit" where
  "validate_original_asset_batch_pagination_range r =
     map_ok (\<lambda>_. ()) (original_asset_query_start_rank (br_start_rank r) (br_page_size r) (br_max_pages r - 1))"

subsection \<open>Queries\<close>

definition desired_query_keys :: "string list" where
  "desired_query_keys =
     [''masterRef'', ''assetDate'',
      ''resOriginalRes'', ''resOriginalFileType'', ''resOriginalFingerprint'', ''resOriginalWidth'', ''resOriginalHeight'',
      ''resOriginalAltRes'', ''resOriginalAltFileType'', ''resOriginalAltFingerprint'', ''resOriginalAltWidth'',
      ''resOriginalAltHeight'',
      ''resSidecarRes'', ''resSidecarFileType'', ''resSidecarFingerprint'', ''resSidecarWidth'', ''resSidecarHeight'',
      ''resOriginalVidComplRes'', ''resOriginalVidComplFileType'', ''resOriginalVidComplFingerprint'',
      ''resOriginalVidComplWidth'', ''resOriginalVidComplHeight'']"

definition query_filter :: "string \<Rightarrow> string \<Rightarrow> json \<Rightarrow> json" where
  "query_filter field value_type v =
     jobject
      [(''fieldName'', JString field), (''comparator'', JString ''EQUALS''),
       (''fieldValue'', jobject [(''type'', JString value_type), (''value'', v)])]"

definition cloudkit_original_asset_query_payload ::
  "u64 \<Rightarrow> u64 \<Rightarrow> string option \<Rightarrow> cloudkit_library_destination \<Rightarrow> json"
where
  "cloudkit_original_asset_query_payload start_rank page_size marker d =
     jobject
      ([(''query'', jobject
          [(''recordType'', JString ''CPLAssetAndMasterByAssetDateWithoutHiddenOrDeleted''),
           (''filterBy'', JArray
             [query_filter ''direction'' ''STRING'' (JString ''ASCENDING''),
              query_filter ''startRank'' ''INT64'' (ser_u64 start_rank)])]),
        (''resultsLimit'', ser_u64 page_size),
        (''desiredKeys'', JArray (map JString desired_query_keys)),
        (''zoneID'', zone_id_payload d)]
       @ ser_skip_none ''continuationMarker'' JString marker)"

text \<open>The two kinds of query, each with the parser of its page.\<close>

definition query_original_page ::
  "url_parser \<Rightarrow> 't post \<Rightarrow> original_resolve_request \<Rightarrow> cloudkit_library_destination \<Rightarrow> string option
     \<Rightarrow> u64 \<Rightarrow> ('t, original_candidate query_page) call"
where
  "query_original_page parse_url post request d marker start_rank =
     and_then (post (cloudkit_original_asset_query_payload start_rank (or_page_size request) marker d)) (\<lambda>response.
     now (parse_original_asset_query_response parse_url response request d))"

definition query_batch_page ::
  "url_parser \<Rightarrow> 't post \<Rightarrow> target_index \<Rightarrow> u64 \<Rightarrow> cloudkit_library_destination \<Rightarrow> string option
     \<Rightarrow> u64 \<Rightarrow> ('t, batch_candidate query_page) call"
where
  "query_batch_page parse_url post ix page_size d marker start_rank =
     and_then (post (cloudkit_original_asset_query_payload start_rank page_size marker d)) (\<lambda>response.
     now (parse_original_asset_batch_query_response parse_url response ix d))"

text \<open>
  What the loop does with a page before its candidates: stop with an error, stop because the window
  is past, or go on.
\<close>

datatype page_action = StopError upload_error | StopExhausted | ScanPage

definition page_step :: "'a query_page \<Rightarrow> date_window \<Rightarrow> page_action" where
  "page_step p w =
     (case position_against p w of
        TooNew \<Rightarrow> StopError (invalid_response ''records/query returned non-monotonic assetDate pages'')
      | EmptyPage \<Rightarrow> if qp_continuation_marker p \<noteq> None then ScanPage else StopExhausted
      | TooOld \<Rightarrow> StopExhausted
      | Overlaps \<Rightarrow> ScanPage)"

subsection \<open>One asset\<close>

definition try_candidate ::
  "'t download \<Rightarrow> original_resolve_request \<Rightarrow> original_candidate \<Rightarrow> original_asset_proof list
     \<Rightarrow> ('t, original_asset_proof list) call"
where
  "try_candidate download request c matches =
     and_then (download (oc_download_url c) (or_raw_size_bytes request)) (\<lambda>dl.
     now (if rd_size_bytes dl \<noteq> or_raw_size_bytes request
          then Err (OriginalAssetDownloadSizeMismatch (or_raw_size_bytes request) (rd_size_bytes dl))
          else if rd_sha256 dl = or_matched_raw_sha256 request then Ok (matches @ [oc_proof c])
          else Ok matches))"

text \<open>The matches found, and whether the window was exhausted.\<close>

function scan_original ::
  "url_parser \<Rightarrow> 't post \<Rightarrow> 't download \<Rightarrow> original_resolve_request \<Rightarrow> cloudkit_library_destination
     \<Rightarrow> date_window \<Rightarrow> original_candidate positioned_page \<Rightarrow> original_asset_proof list \<Rightarrow> u64
     \<Rightarrow> ('t, original_asset_proof list \<times> bool) call"
where
  "scan_original parse_url post download request d w page matches pages_read =
     (case page_step (pp_page page) w of
        StopError e \<Rightarrow> now (Err e)
      | StopExhausted \<Rightarrow> now (Ok (matches, True))
      | ScanPage \<Rightarrow>
          and_then (call_fold (try_candidate download request) (qp_matches (pp_page page)) matches) (\<lambda>matches'.
          if 1 < length matches' then now (Err (OriginalAssetResolveNotUnique (length matches')))
          else
            case qp_continuation_marker (pp_page page) of
              None \<Rightarrow> now (Ok (matches', True))
            | Some marker \<Rightarrow>
                if or_max_pages request \<le> pages_read then now (Ok (matches', False))
                else
                  and_then (query_original_page parse_url post request d (Some marker) (pp_start_rank page)) (\<lambda>next.
                  scan_original parse_url post download request d w
                    \<lparr>pp_start_rank = pp_start_rank page, pp_page = next\<rparr> matches'
                    (saturating_add pages_read 1))))"
  by pat_completeness auto
termination
  by (relation "measure (\<lambda>(_, _, _, request, _, _, _, _, n). unat (or_max_pages request) - unat n)")
    (auto simp: pages_read_decreases)

declare scan_original.simps [simp del]

definition resolve_original_asset ::
  "url_parser \<Rightarrow> 't post \<Rightarrow> 't download \<Rightarrow> delete_session \<Rightarrow> original_resolve_request
     \<Rightarrow> ('t, original_asset_proof) call"
where
  "resolve_original_asset parse_url post download session request =
     and_then (now (validate_original_asset_resolve_request request)) (\<lambda>_.
     and_then (now (validate_original_asset_pagination_range request)) (\<lambda>_.
     let w = new_date_window (or_source_captured_unix_seconds request) (or_capture_tolerance_seconds request) in
     and_then (seek_original_asset_query_page
         (query_original_page parse_url post request (ds_zone session) None)
         (or_start_rank request) (or_page_size request) (or_max_pages request) w) (\<lambda>found.
     and_then (scan_original parse_url post download request (ds_zone session) w
         (sr_page found) [] (sr_pages_read found)) (\<lambda>(matches, exhausted).
     now (if \<not> exhausted then Err (OriginalAssetResolveIncomplete (length matches))
          else case matches of
            [p] \<Rightarrow> Ok p
          | _ \<Rightarrow> Err (OriginalAssetResolveNotUnique (length matches)))))))"

subsection \<open>The work of a batch\<close>

record remote_match =
  rm_asset :: remote_asset
  rm_resource_field :: string

record cohort_work =
  cw_observations :: resolve_observations
  cw_raw_size_matches :: "(u64, u64) btree"
  cw_incomplete_raw_sizes :: "(u64, u64) btree"
  cw_incomplete_replacement_sizes :: "(u64, u64) btree"
  cw_raw_matches :: "(match_key, (string, remote_match) btree) btree"
  cw_replacement_matches :: "(match_key, (string, remote_match) btree) btree"

definition no_observations :: resolve_observations where
  "no_observations =
     \<lparr>ro_date_candidates = 0, ro_raw_resources = 0, ro_raw_size_matches = 0, ro_raw_hash_matches = 0,
      ro_replacement_resource_matches = 0, ro_download_size_mismatches = 0, ro_ambiguity_evidence = 0\<rparr>"

definition no_work :: cohort_work where
  "no_work =
     \<lparr>cw_observations = no_observations, cw_raw_size_matches = [], cw_incomplete_raw_sizes = [],
      cw_incomplete_replacement_sizes = [], cw_raw_matches = [], cw_replacement_matches = []\<rparr>"

datatype cached_resource_download = Downloaded resource_download | SizeMismatch

record batch_scan =
  bs_work :: "cohort_work list"
  bs_cache :: "string \<times> u64 \<Rightarrow> cached_resource_download option"
  bs_inventory :: "string set"

definition add_observation :: "observation_increment \<Rightarrow> cohort_work \<Rightarrow> cohort_work" where
  "add_observation oi w =
     w\<lparr>cw_observations := (cw_observations w)
          \<lparr>ro_date_candidates := saturating_add (ro_date_candidates (cw_observations w)) (oi_date_candidates oi),
           ro_raw_resources := saturating_add (ro_raw_resources (cw_observations w)) (oi_raw_resources oi)\<rparr>,
       cw_raw_size_matches :=
         fold (\<lambda>(bytes, n) m. bump_size m bytes n) (oi_raw_size_matches oi) (cw_raw_size_matches w)\<rparr>"

definition observe :: "observation_increment \<Rightarrow> cohort_work list \<Rightarrow> upload_error + cohort_work list" where
  "observe oi ws =
     (if oi_cohort_index oi < length ws
      then Ok (ws[oi_cohort_index oi := add_observation oi (ws ! oi_cohort_index oi)])
      else Err (invalid_response ''records/query observed an unknown target cohort''))"

text \<open>
  A download through the cache: a size other than the announced one, whether downloaded or refused
  by the transport, is remembered as a mismatch; any other error ends the run.
\<close>

definition cached_download ::
  "'t download \<Rightarrow> remote_resource \<Rightarrow> (string \<times> u64 \<Rightarrow> cached_resource_download option)
     \<Rightarrow> ('t, cached_resource_download \<times> (string \<times> u64 \<Rightarrow> cached_resource_download option)) call"
where
  "cached_download download r cache =
     (let key = (url_as_str (rx_download_url r), rx_size_bytes r) in
      case cache key of
        Some c \<Rightarrow> now (Ok (c, cache))
      | None \<Rightarrow>
          and_then
            (\<lambda>t. case download (rx_download_url r) (rx_size_bytes r) t of
               (Inr dl, t') \<Rightarrow>
                 (Ok (if rd_size_bytes dl = rx_size_bytes r then Downloaded dl else SizeMismatch), t')
             | (Inl (OriginalAssetDownloadSizeMismatch _ _), t') \<Rightarrow> (Ok SizeMismatch, t')
             | (Inl e, t') \<Rightarrow> (Err e, t'))
            (\<lambda>c. now (Ok (c, cache(key \<mapsto> c)))))"

definition note_incomplete :: "target_index \<Rightarrow> remote_resource \<Rightarrow> nat \<Rightarrow> cohort_work list \<Rightarrow> cohort_work list" where
  "note_incomplete ix r ci ws =
     (let cohort = ti_cohorts ix ! ci; w = ws ! ci; bytes = rx_size_bytes r in
      case rx_kind r of
        RawKind \<Rightarrow>
          if bytes \<in> tc_raw_target_sizes cohort
          then ws[ci := w\<lparr>cw_incomplete_raw_sizes := bump_size (cw_incomplete_raw_sizes w) bytes 1\<rparr>]
          else ws
      | ReplacementKind \<Rightarrow>
          if bytes \<in> tc_replacement_target_sizes cohort
          then ws[ci := w\<lparr>cw_incomplete_replacement_sizes := bump_size (cw_incomplete_replacement_sizes w) bytes 1\<rparr>]
          else ws)"

definition add_match ::
  "match_key \<Rightarrow> string \<Rightarrow> remote_match \<Rightarrow> (match_key, (string, remote_match) btree) btree
     \<Rightarrow> (match_key, (string, remote_match) btree) btree"
where
  "add_match key identity m matches =
     bt_insert key (bt_insert identity m (case_option [] id (bt_get matches key))) matches"

definition note_match ::
  "target_index \<Rightarrow> candidate_kind \<Rightarrow> match_key \<Rightarrow> string \<Rightarrow> remote_match \<Rightarrow> nat \<Rightarrow> cohort_work list
     \<Rightarrow> cohort_work list"
where
  "note_match ix kind key identity m ci ws =
     (let cohort = ti_cohorts ix ! ci; w = ws ! ci in
      case kind of
        RawKind \<Rightarrow>
          if bt_contains (tc_raw_target_counts cohort) key
          then ws[ci := w\<lparr>cw_raw_matches := add_match key identity m (cw_raw_matches w)\<rparr>]
          else ws
      | ReplacementKind \<Rightarrow>
          if bt_contains (tc_replacement_target_counts cohort) key
          then ws[ci := w\<lparr>cw_replacement_matches := add_match key identity m (cw_replacement_matches w)\<rparr>]
          else ws)"

definition scan_candidate ::
  "'t download \<Rightarrow> target_index \<Rightarrow> batch_candidate \<Rightarrow> batch_scan \<Rightarrow> ('t, batch_scan) call"
where
  "scan_candidate download ix c s =
     and_then (cached_download download (bc_resource c) (bs_cache s)) (\<lambda>(result, cache).
     now (Ok (s\<lparr>bs_cache := cache,
               bs_work :=
                 (case result of
                    SizeMismatch \<Rightarrow> fold (note_incomplete ix (bc_resource c)) (bc_cohort_indexes c) (bs_work s)
                  | Downloaded dl \<Rightarrow>
                      fold (note_match ix (rx_kind (bc_resource c))
                            (MatchKey (rx_size_bytes (bc_resource c)) (rd_sha256 dl))
                            (remote_resource_identity (ra_asset_record_name (bc_asset c)) (bc_resource c))
                            \<lparr>rm_asset = bc_asset c, rm_resource_field = rx_field (bc_resource c)\<rparr>)
                        (bc_cohort_indexes c) (bs_work s))\<rparr>)))"

definition scan_page ::
  "'t download \<Rightarrow> target_index \<Rightarrow> batch_candidate query_page \<Rightarrow> batch_scan \<Rightarrow> ('t, batch_scan) call"
where
  "scan_page download ix p s =
     and_then (now (try_fold observe (qp_observation_increments p) (bs_work s))) (\<lambda>ws.
     call_fold (scan_candidate download ix) (qp_matches p)
       (s\<lparr>bs_work := ws, bs_inventory := bs_inventory s \<union> set (qp_inventory_records p)\<rparr>))"

function scan_batch ::
  "url_parser \<Rightarrow> 't post \<Rightarrow> 't download \<Rightarrow> batch_resolve_request \<Rightarrow> target_index \<Rightarrow> cloudkit_library_destination
     \<Rightarrow> date_window \<Rightarrow> batch_candidate positioned_page \<Rightarrow> batch_scan \<Rightarrow> u64
     \<Rightarrow> ('t, batch_scan \<times> bool) call"
where
  "scan_batch parse_url post download request ix d w page s pages_read =
     (case page_step (pp_page page) w of
        StopError e \<Rightarrow> now (Err e)
      | StopExhausted \<Rightarrow> now (Ok (s, True))
      | ScanPage \<Rightarrow>
          and_then (scan_page download ix (pp_page page) s) (\<lambda>s'.
          case qp_continuation_marker (pp_page page) of
            None \<Rightarrow> now (Ok (s', True))
          | Some marker \<Rightarrow>
              if br_max_pages request \<le> pages_read then now (Ok (s', False))
              else
                and_then (query_batch_page parse_url post ix (br_page_size request) d (Some marker)
                    (pp_start_rank page)) (\<lambda>next.
                scan_batch parse_url post download request ix d w
                  \<lparr>pp_start_rank = pp_start_rank page, pp_page = next\<rparr> s' (saturating_add pages_read 1))))"
  by pat_completeness auto
termination
  by (relation "measure (\<lambda>(_, _, _, request, _, _, _, _, _, n). unat (br_max_pages request) - unat n)")
    (auto simp: pages_read_decreases)

declare scan_batch.simps [simp del]

subsection \<open>The outcome of a batch\<close>

record batch_outcome =
  bo_resolutions :: "(string, asset_resolution) btree"
  bo_inventory :: "inventory_fingerprint option"

datatype match_group = MatchGroup (mg_cohort_index: nat) (mg_kind: candidate_kind) (mg_key: match_key)

type_synonym claims = "(string, match_group set) btree"

text \<open>
  The groups of one cohort: for every content found, whether it is ambiguous by itself, and the
  claim of its group on every remote resource it was found in.
\<close>

definition claim :: "match_group \<Rightarrow> string \<Rightarrow> claims \<Rightarrow> claims" where
  "claim g identity cs = bt_insert identity (insert g (case_option {} id (bt_get cs identity))) cs"

definition add_group ::
  "nat \<Rightarrow> candidate_kind \<Rightarrow> (match_key, nat) btree \<Rightarrow> match_key \<times> (string, remote_match) btree
     \<Rightarrow> claims \<times> match_group set \<Rightarrow> claims \<times> match_group set"
where
  "add_group ci kind counts entry acc =
     (case entry of (key, candidates) \<Rightarrow> case acc of (cs, ambiguous) \<Rightarrow>
        let g = MatchGroup ci kind key in
        (fold (claim g) (bt_keys candidates) cs,
         if 1 < length candidates \<or> 1 < case_option 0 id (bt_get counts key)
         then insert g ambiguous else ambiguous))"

definition add_cohort_groups ::
  "nat \<times> cohort_work \<times> target_cohort \<Rightarrow> claims \<times> match_group set \<Rightarrow> claims \<times> match_group set"
where
  "add_cohort_groups entry acc =
     (case entry of (ci, work, cohort) \<Rightarrow>
        fold (add_group ci ReplacementKind (tc_replacement_target_counts cohort)) (cw_replacement_matches work)
          (fold (add_group ci RawKind (tc_raw_target_counts cohort)) (cw_raw_matches work) acc))"

definition ambiguous_groups :: "cohort_work list \<Rightarrow> target_cohort list \<Rightarrow> match_group set" where
  "ambiguous_groups works cohorts =
     (case fold add_cohort_groups (enumerate 0 (zip works cohorts)) ([], {}) of (cs, ambiguous) \<Rightarrow>
        fold (\<lambda>gs amb. if 1 < card gs then amb \<union> gs else amb) (bt_values cs) ambiguous)"

definition unique_match :: "(string, remote_match) btree option \<Rightarrow> remote_match option" where
  "unique_match matches =
     (case matches of Some [(_, m)] \<Rightarrow> Some m | _ \<Rightarrow> None)"

definition original_proof_of ::
  "resolve_target \<Rightarrow> cloudkit_library_destination \<Rightarrow> remote_match \<Rightarrow> original_asset_proof"
where
  "original_proof_of t d m =
     \<lparr>oa_record_name = ra_asset_record_name (rm_asset m),
      oa_record_change_tag = ra_asset_record_change_tag (rm_asset m), oa_record_type = ''CPLAsset'',
      oa_database_scope = ld_database_scope d, oa_zone_name = ld_zone_name d,
      oa_owner_record_name = ld_owner_record_name d, oa_filename = rt_filename t,
      oa_size_bytes = rt_raw_size_bytes t, oa_matched_raw_sha256 = rt_matched_raw_sha256 t\<rparr>"

definition replacement_proof_of ::
  "local_replacement_candidate \<Rightarrow> cloudkit_library_destination \<Rightarrow> remote_match \<Rightarrow> replacement_resource_proof"
where
  "replacement_proof_of c d m =
     \<lparr>rr_record_name = ra_asset_record_name (rm_asset m),
      rr_record_change_tag = ra_asset_record_change_tag (rm_asset m), rr_record_type = ''CPLAsset'',
      rr_database_scope = ld_database_scope d, rr_zone_name = ld_zone_name d,
      rr_owner_record_name = ld_owner_record_name d, rr_resource_field = rm_resource_field m,
      rr_size_bytes = rc_size_bytes c, rr_matched_heic_sha256 = rc_sha256 c\<rparr>"

definition target_replacement_matches ::
  "cohort_work \<Rightarrow> resolve_target \<Rightarrow> (string, remote_match) btree option"
where
  "target_replacement_matches work t = Option.bind (replacement_key t) (bt_get (cw_replacement_matches work))"

definition target_is_ambiguous :: "match_group set \<Rightarrow> nat \<Rightarrow> resolve_target \<Rightarrow> bool" where
  "target_is_ambiguous ambiguous ci t \<longleftrightarrow>
     MatchGroup ci RawKind (raw_key t) \<in> ambiguous
     \<or> (case replacement_key t of None \<Rightarrow> False | Some k \<Rightarrow> MatchGroup ci ReplacementKind k \<in> ambiguous)"

definition target_is_incomplete :: "cohort_work \<Rightarrow> resolve_target \<Rightarrow> bool" where
  "target_is_incomplete work t \<longleftrightarrow>
     bt_contains (cw_incomplete_raw_sizes work) (rt_raw_size_bytes t)
     \<or> (case rt_replacement_candidate t of None \<Rightarrow> False
         | Some c \<Rightarrow> bt_contains (cw_incomplete_replacement_sizes work) (rc_size_bytes c))"

definition target_observations :: "match_group set \<Rightarrow> nat \<Rightarrow> cohort_work \<Rightarrow> resolve_target \<Rightarrow> resolve_observations" where
  "target_observations ambiguous ci work t =
     (cw_observations work)
       \<lparr>ro_raw_size_matches := case_option 0 id (bt_get (cw_raw_size_matches work) (rt_raw_size_bytes t)),
        ro_raw_hash_matches := case_option 0 len_u64 (bt_get (cw_raw_matches work) (raw_key t)),
        ro_replacement_resource_matches := case_option 0 len_u64 (target_replacement_matches work t),
        ro_download_size_mismatches :=
          saturating_add (case_option 0 id (bt_get (cw_incomplete_raw_sizes work) (rt_raw_size_bytes t)))
            (case_option 0 id (Option.bind (rt_replacement_candidate t)
              (\<lambda>c. bt_get (cw_incomplete_replacement_sizes work) (rc_size_bytes c)))),
        ro_ambiguity_evidence :=
          (if target_is_ambiguous ambiguous ci t then 1 else ro_ambiguity_evidence (cw_observations work))\<rparr>"

definition target_disposition ::
  "bool \<Rightarrow> bool \<Rightarrow> resolve_observations \<Rightarrow> cohort_work \<Rightarrow> cloudkit_library_destination \<Rightarrow> resolve_target
     \<Rightarrow> resolve_disposition"
where
  "target_disposition transient ambiguous ob work d t =
     (let raw = unique_match (bt_get (cw_raw_matches work) (raw_key t));
          replacement = unique_match (target_replacement_matches work t) in
      if transient then IncompleteTransient
      else if ambiguous then ResolvedAmbiguous
      else case (raw, replacement, rt_replacement_candidate t) of
          (Some m, Some n, Some c) \<Rightarrow> ResolvedCoexistence (original_proof_of t d m) (replacement_proof_of c d n)
        | (Some m, _, _) \<Rightarrow> ResolvedExactOriginal (original_proof_of t d m)
        | (None, Some n, Some c) \<Rightarrow> ResolvedReplacementPresent (replacement_proof_of c d n)
        | _ \<Rightarrow>
            if ro_date_candidates ob = 0 then ResolvedNoDateCandidate
            else if ro_raw_resources ob = 0 then ResolvedNoRawResource
            else if ro_raw_size_matches ob = 0 then ResolvedRawSizeMismatch
            else ResolvedRawHashMismatch)"

definition resolve_target_in ::
  "match_group set \<Rightarrow> bool \<Rightarrow> cloudkit_library_destination \<Rightarrow> nat \<Rightarrow> cohort_work \<Rightarrow> resolve_target
     \<Rightarrow> asset_resolution"
where
  "resolve_target_in ambiguous force_transient d ci work t =
     (let ob = target_observations ambiguous ci work t in
      \<lparr>rn_observations = ob,
       rn_disposition = target_disposition (force_transient \<or> target_is_incomplete work t)
         (target_is_ambiguous ambiguous ci t) ob work d t\<rparr>)"

definition cloudkit_original_asset_inventory_fingerprint ::
  "(string \<Rightarrow> string) \<Rightarrow> cloudkit_library_destination \<Rightarrow> date_window \<Rightarrow> string set \<Rightarrow> inventory_fingerprint"
where
  "cloudkit_original_asset_inventory_fingerprint sha256 d w records =
     \<lparr>if_resolver_version = ORIGINAL_ASSET_RESOLVER_VERSION,
      if_sha256 = sha256 (concat (map (\<lambda>s. s @ [char_of (0 :: nat)])
        ([ORIGINAL_ASSET_RESOLVER_VERSION, scope_as_str (ld_database_scope d), ld_zone_name d,
          u64_to_string (dw_start_unix_seconds w), u64_to_string (dw_end_unix_seconds w)]
         @ sorted_list_of_set records))),
      if_records_scanned = len_u64 (sorted_list_of_set records)\<rparr>"

definition build_batch_resolve_outcome ::
  "(string \<Rightarrow> string) \<Rightarrow> batch_resolve_request \<Rightarrow> target_index \<Rightarrow> date_window \<Rightarrow> cloudkit_library_destination
     \<Rightarrow> cohort_work list \<Rightarrow> string set \<Rightarrow> bool \<Rightarrow> bool \<Rightarrow> batch_outcome"
where
  "build_batch_resolve_outcome sha256 request ix w d works inventory complete force_transient =
     (let ambiguous = ambiguous_groups works (ti_cohorts ix) in
      \<lparr>bo_resolutions =
         bt_from (map (\<lambda>(i, t).
             let ci = ti_target_cohort_indexes ix ! i in
             (rt_asset_id t, resolve_target_in ambiguous force_transient d ci (works ! ci) t))
           (enumerate 0 (br_targets request))),
       bo_inventory =
         (if complete \<and> \<not> force_transient
          then Some (cloudkit_original_asset_inventory_fingerprint sha256 d w inventory) else None)\<rparr>)"

definition resolve_original_assets_batch_outcome ::
  "(string \<Rightarrow> string) \<Rightarrow> url_parser \<Rightarrow> 't post \<Rightarrow> 't download \<Rightarrow> delete_session \<Rightarrow> batch_resolve_request
     \<Rightarrow> ('t, batch_outcome) call"
where
  "resolve_original_assets_batch_outcome sha256 parse_url post download session request =
     and_then (now (validate_original_asset_batch_resolve_request request)) (\<lambda>_.
     and_then (now (validate_original_asset_batch_pagination_range request)) (\<lambda>_.
     let ix = new_target_index (br_targets request);
         w = index_date_window ix;
         d = ds_zone session;
         works = replicate (cohort_count ix) no_work;
         outcome = build_batch_resolve_outcome sha256 request ix w d in
     (\<lambda>t.
        case seek_original_asset_query_page
            (query_batch_page parse_url post ix (br_page_size request) d None)
            (br_start_rank request) (br_page_size request) (br_max_pages request) w t of
          (Inl (OriginalAssetResolveIncomplete _), t') \<Rightarrow> (Ok (outcome works {} False True), t')
        | (Inl e, t') \<Rightarrow> (Err e, t')
        | (Inr found, t') \<Rightarrow>
            and_then
              (scan_batch parse_url post download request ix d w (sr_page found)
                \<lparr>bs_work = works, bs_cache = Map.empty, bs_inventory = {}\<rparr> (sr_pages_read found))
              (\<lambda>(s, exhausted).
                 now (Ok (outcome (bs_work s) (bs_inventory s) exhausted (\<not> exhausted)))) t')))"

definition exact_original_proofs :: "batch_outcome \<Rightarrow> (string, original_asset_proof) btree" where
  "exact_original_proofs outcome =
     bt_from (List.map_filter
       (\<lambda>(a, r). case rn_disposition r of ResolvedExactOriginal p \<Rightarrow> Some (a, p) | _ \<Rightarrow> None)
       (bo_resolutions outcome))"

definition non_exact_asset_ids :: "batch_outcome \<Rightarrow> string list" where
  "non_exact_asset_ids outcome =
     map fst (filter (\<lambda>(_, r). case rn_disposition r of ResolvedExactOriginal _ \<Rightarrow> False | _ \<Rightarrow> True)
       (bo_resolutions outcome))"

definition resolve_original_assets_batch ::
  "(string \<Rightarrow> string) \<Rightarrow> url_parser \<Rightarrow> 't post \<Rightarrow> 't download \<Rightarrow> delete_session \<Rightarrow> batch_resolve_request
     \<Rightarrow> ('t, (string, original_asset_proof) btree) call"
where
  "resolve_original_assets_batch sha256 parse_url post download session request =
     and_then (resolve_original_assets_batch_outcome sha256 parse_url post download session request) (\<lambda>outcome.
     let proofs = exact_original_proofs outcome in
     now (if length proofs \<noteq> length (bo_resolutions outcome) then Err (OriginalAssetResolveNotUnique 0)
          else Ok proofs))"

end
