(* ===== verification/Resolver_Evidence.thy ===== *)
theory Resolver_Evidence
  imports Resolver
begin

section \<open>What a scan records rests on what was read\<close>

text \<open>
  The invariant of the batch scan: whatever is counted or matched for a cohort was on a page whose
  dates admit it, and every match is backed by a predicate \<open>E\<close> that holds of each content downloaded.
\<close>

subsection \<open>Counted sizes\<close>

definition size_seen :: "(u64, u64) btree \<Rightarrow> u64 \<Rightarrow> bool" where
  "size_seen m s \<longleftrightarrow> case_option 0 id (bt_get m s) \<noteq> 0"

lemma size_seen_Nil [simp]: "\<not> size_seen [] s"
  by (simp add: size_seen_def)

lemma size_seen_bump [simp]: "size_seen (bump_size m b n) s \<longleftrightarrow> size_seen m s \<or> s = b \<and> n \<noteq> 0"
  by (auto simp: size_seen_def bump_size_def)

lemma size_seen_bumps:
  "size_seen (fold (\<lambda>(b, n) m. bump_size m b n) xs m) s \<longleftrightarrow>
     size_seen m s \<or> (\<exists>n. (s, n) \<in> set xs \<and> n \<noteq> 0)"
  by (induction xs arbitrary: m) auto

lemma size_seen_mem: "size_seen m s \<Longrightarrow> \<exists>n. (s, n) \<in> set m \<and> n \<noteq> 0"
  by (auto simp: size_seen_def bt_get_def split: option.splits dest: map_of_SomeD)

subsection \<open>Increments\<close>

definition increment_ok :: "observation_increment \<Rightarrow> bool" where
  "increment_ok oi \<longleftrightarrow>
     oi_date_candidates oi \<noteq> 0
     \<and> (\<forall>s n. (s, n) \<in> set (oi_raw_size_matches oi) \<and> n \<noteq> 0 \<longrightarrow> oi_raw_resources oi \<noteq> 0)"

lemma count_resources:
  fixes rs :: "remote_resource list" and oi :: observation_increment
  defines "oi' \<equiv> fold count_resource rs oi"
  assumes "increment_ok oi"
  shows "increment_ok oi'" "oi_cohort_index oi' = oi_cohort_index oi"
    "size_seen (oi_raw_size_matches oi') s \<longleftrightarrow>
       size_seen (oi_raw_size_matches oi) s \<or> (\<exists>r\<in>set rs. rx_kind r = RawKind \<and> rx_size_bytes r = s)"
proof -
  have step: "increment_ok (count_resource r oi)" if "increment_ok oi" for r oi
    using that unfolding increment_ok_def count_resource_def by auto
  have "increment_ok (fold count_resource rs oi) \<and> oi_cohort_index (fold count_resource rs oi) = oi_cohort_index oi
    \<and> (size_seen (oi_raw_size_matches (fold count_resource rs oi)) s \<longleftrightarrow>
       size_seen (oi_raw_size_matches oi) s \<or> (\<exists>r\<in>set rs. rx_kind r = RawKind \<and> rx_size_bytes r = s))"
    using assms(2)
  proof (induction rs arbitrary: oi)
    case (Cons r rs)
    have "oi_cohort_index (count_resource r oi) = oi_cohort_index oi"
      "size_seen (oi_raw_size_matches (count_resource r oi)) s \<longleftrightarrow>
         size_seen (oi_raw_size_matches oi) s \<or> rx_kind r = RawKind \<and> rx_size_bytes r = s"
      by (auto simp: count_resource_def)
    with Cons.IH [OF step [OF Cons.prems], of r] show ?case by auto
  qed simp
  then show "increment_ok oi'" "oi_cohort_index oi' = oi_cohort_index oi"
    "size_seen (oi_raw_size_matches oi') s \<longleftrightarrow>
       size_seen (oi_raw_size_matches oi) s \<or> (\<exists>r\<in>set rs. rx_kind r = RawKind \<and> rx_size_bytes r = s)"
    unfolding oi'_def by blast+
qed

lemma increment_for:
  "increment_ok (increment_for rs ci)" "oi_cohort_index (increment_for rs ci) = ci"
  "size_seen (oi_raw_size_matches (increment_for rs ci)) s \<longleftrightarrow>
     (\<exists>r\<in>set rs. rx_kind r = RawKind \<and> rx_size_bytes r = s)"
proof -
  let ?oi = "\<lparr>oi_cohort_index = ci, oi_date_candidates = 1, oi_raw_resources = 0, oi_raw_size_matches = []\<rparr>"
  have "increment_ok ?oi" by (simp add: increment_ok_def)
  note c = count_resources [OF this, of rs]
  show "increment_ok (increment_for rs ci)" "oi_cohort_index (increment_for rs ci) = ci"
    "size_seen (oi_raw_size_matches (increment_for rs ci)) s \<longleftrightarrow>
       (\<exists>r\<in>set rs. rx_kind r = RawKind \<and> rx_size_bytes r = s)"
    using c unfolding increment_for_def by simp_all
qed

subsection \<open>Pages\<close>

definition candidate_counted :: "observation_increment list \<Rightarrow> batch_candidate \<Rightarrow> bool" where
  "candidate_counted ois c \<longleftrightarrow>
     (\<forall>ci\<in>set (bc_cohort_indexes c). \<exists>oi\<in>set ois. oi_cohort_index oi = ci
        \<and> (rx_kind (bc_resource c) = RawKind \<longrightarrow> size_seen (oi_raw_size_matches oi) (rx_size_bytes (bc_resource c))))"

text \<open>Where a candidate of a page comes from.\<close>

definition candidate_of ::
  "url_parser \<Rightarrow> target_index \<Rightarrow> (string, json) btree \<Rightarrow> asset_query_record list \<Rightarrow> batch_candidate \<Rightarrow> bool"
where
  "candidate_of parse_url ix masters assets c \<longleftrightarrow>
     (\<exists>asset\<in>set assets.
        ra_asset_record_name (bc_asset c) = ca_record_name asset
        \<and> ra_asset_record_change_tag (bc_asset c) = ca_record_change_tag asset
        \<and> bc_cohort_indexes c = cohort_indexes_for_asset_date ix (ca_asset_date_unix_seconds asset)
        \<and> (\<exists>master rs. bt_get masters (ca_master_record_name asset) = Some master
             \<and> record_pair_original_asset_resources parse_url (ca_record asset) master = Ok rs
             \<and> bc_resource c \<in> set rs))"

definition items_ok ::
  "url_parser \<Rightarrow> target_index \<Rightarrow> (string, json) btree \<Rightarrow> asset_query_record list \<Rightarrow> page_items \<Rightarrow> bool"
where
  "items_ok parse_url ix masters assets items \<longleftrightarrow>
     (case items of (cs, ois, _) \<Rightarrow>
        (\<forall>oi\<in>set ois. increment_ok oi) \<and> (\<forall>c\<in>set cs. candidate_counted ois c)
        \<and> (\<forall>c\<in>set cs. candidate_of parse_url ix masters assets c))"

lemma add_batch_asset_ok:
  assumes "add_batch_asset parse_url ix masters asset items = Inr items'"
    and "items_ok parse_url ix masters assets items" "asset \<in> set assets"
  shows "items_ok parse_url ix masters assets items'"
proof -
  let ?cis = "cohort_indexes_for_asset_date ix (ca_asset_date_unix_seconds asset)"
  obtain cs ois inv where items: "items = (cs, ois, inv)" by (cases items)
  have ok: "\<forall>oi\<in>set ois. increment_ok oi" "\<forall>c\<in>set cs. candidate_counted ois c"
    "\<forall>c\<in>set cs. candidate_of parse_url ix masters assets c"
    using assms(2) by (auto simp: items items_ok_def)
  show ?thesis
  proof (cases "?cis = []")
    case True
    then have "\<exists>inv'. items' = (cs, ois, inv')"
      using assms(1) by (auto simp: add_batch_asset_def items Let_def bind_ok_eq_Ok split: if_splits)
    then show ?thesis using ok by (auto simp: items_ok_def)
  next
    case False
    then obtain master rs identity where m: "asset_master masters asset = Inr master"
      and rs: "record_pair_original_asset_resources parse_url (ca_record asset) master = Inr rs"
      and items': "items' =
        (cs @ map (\<lambda>r. \<lparr>bc_asset = \<lparr>ra_asset_record_name = ca_record_name asset,
                                     ra_asset_record_change_tag = ca_record_change_tag asset\<rparr>,
                         bc_resource = r, bc_cohort_indexes = ?cis\<rparr>)
              (filter (resource_is_relevant ix ?cis) rs),
         ois @ map (increment_for rs) ?cis, insert identity inv)"
      using assms(1) by (auto simp: add_batch_asset_def items Let_def bind_ok_eq_Ok)
    have "candidate_counted (ois @ map (increment_for rs) ?cis) c" if "candidate_counted ois c" for c
      using that unfolding candidate_counted_def by fastforce
    moreover have "candidate_counted (ois @ map (increment_for rs) ?cis) c"
      if "bc_resource c \<in> set rs" "bc_cohort_indexes c = ?cis" for c
      using that increment_for(2,3) unfolding candidate_counted_def by fastforce
    moreover have "bt_get masters (ca_master_record_name asset) = Some master"
      using m by (simp add: asset_master_def)
    then have "candidate_of parse_url ix masters assets c"
      if "bc_resource c \<in> set rs" "bc_cohort_indexes c = ?cis"
        "bc_asset c = \<lparr>ra_asset_record_name = ca_record_name asset,
           ra_asset_record_change_tag = ca_record_change_tag asset\<rparr>" for c
      using that rs assms(3) unfolding candidate_of_def by force
    ultimately show ?thesis
      using ok increment_for(1) unfolding items' items_ok_def by auto
  qed
qed

definition page_ok :: "batch_candidate query_page \<Rightarrow> bool" where
  "page_ok p \<longleftrightarrow>
     (\<forall>oi\<in>set (qp_observation_increments p). increment_ok oi)
     \<and> (\<forall>c\<in>set (qp_matches p). candidate_counted (qp_observation_increments p) c)"

lemma parse_batch_page:
  assumes "parse_original_asset_batch_query_response parse_url v ix d = Inr p"
  obtains records assets masters where "query_response_records v = Inr records"
    "try_fold (add_query_record d) records ([], []) = Inr (assets, masters)"
    "page_ok p" "\<forall>c\<in>set (qp_matches p). candidate_of parse_url ix masters assets c"
proof -
  from assms obtain records assets masters cs ois inv where
    r: "query_response_records v = Inr records"
      "try_fold (add_query_record d) records ([], []) = Inr (assets, masters)"
    and f: "try_fold (add_batch_asset parse_url ix masters) assets ([], [], {}) = Inr (cs, ois, inv)"
    and p: "qp_matches p = cs" "qp_observation_increments p = ois"
    by (auto simp: parse_original_asset_batch_query_response_def bind_ok_eq_Ok)
  have "items_ok parse_url ix masters assets (cs, ois, inv)"
    by (rule try_fold_invariant [OF f]) (auto simp: items_ok_def [of _ _ _ _ "([], [], {})"] intro: add_batch_asset_ok)
  with r p that show ?thesis by (simp add: items_ok_def page_ok_def)
qed

subsection \<open>The assets of a response\<close>

text \<open>An asset record of an answer, in the destination's zone.\<close>

definition answers_asset :: "cloudkit_library_destination \<Rightarrow> json \<Rightarrow> asset_query_record \<Rightarrow> bool" where
  "answers_asset d v asset \<longleftrightarrow>
     (\<exists>records record. query_response_records v = Ok records \<and> record \<in> set records
        \<and> get_str ''recordType'' record = Some ''CPLAsset''
        \<and> parse_cloudkit_asset_record record d = Ok asset)"

lemma assets_answered:
  assumes "query_response_records v = Inr records"
    and "try_fold (add_query_record d) records ([], []) = Inr (assets, masters)"
  shows "\<forall>asset\<in>set assets. answers_asset d v asset"
proof -
  have "case (assets, masters) of (as, _) \<Rightarrow> \<forall>a\<in>set as. answers_asset d v a"
  proof (rule try_fold_invariant [OF assms(2)])
    fix r acc acc'
    assume "r \<in> set records" "case acc of (as, _) \<Rightarrow> \<forall>a\<in>set as. answers_asset d v a"
      "add_query_record d r acc = Inr acc'"
    then show "case acc' of (as, _) \<Rightarrow> \<forall>a\<in>set as. answers_asset d v a"
      using assms(1)
      by (auto simp: add_query_record_def bind_ok_eq_Ok map_ok_eq_Ok required_record_string_def
          answers_asset_def split: prod.splits if_splits)
  qed simp
  then show ?thesis by simp
qed

text \<open>A master record of an answer, and a resource that an asset of the answer offers with its master.\<close>

definition answers_master :: "json \<Rightarrow> string \<Rightarrow> json \<Rightarrow> bool" where
  "answers_master v name master \<longleftrightarrow>
     (\<exists>records. query_response_records v = Ok records \<and> master \<in> set records
        \<and> get_str ''recordType'' master = Some ''CPLMaster'' \<and> get_str ''recordName'' master = Some name)"

definition offers_resource :: "url_parser \<Rightarrow> json \<Rightarrow> asset_query_record \<Rightarrow> remote_resource \<Rightarrow> bool" where
  "offers_resource parse_url v asset r \<longleftrightarrow>
     (\<exists>master rs. answers_master v (ca_master_record_name asset) master
        \<and> record_pair_original_asset_resources parse_url (ca_record asset) master = Ok rs \<and> r \<in> set rs)"

lemma masters_answered:
  assumes "query_response_records v = Inr records"
    and "try_fold (add_query_record d) records ([], []) = Inr (assets, masters)"
    and "bt_get masters name = Some master"
  shows "answers_master v name master"
proof -
  have "case (assets, masters) of (_, ms) \<Rightarrow> \<forall>n r. bt_get ms n = Some r \<longrightarrow> answers_master v n r"
  proof (rule try_fold_invariant [OF assms(2)])
    fix r acc acc'
    assume "r \<in> set records" "case acc of (_, ms) \<Rightarrow> \<forall>n r. bt_get ms n = Some r \<longrightarrow> answers_master v n r"
      "add_query_record d r acc = Inr acc'"
    then show "case acc' of (_, ms) \<Rightarrow> \<forall>n r. bt_get ms n = Some r \<longrightarrow> answers_master v n r"
      using assms(1)
      by (auto simp: add_query_record_def bind_ok_eq_Ok map_ok_eq_Ok required_record_string_def
          answers_master_def split: prod.splits if_splits)
  qed simp
  then show ?thesis using assms(3) by simp
qed

subsection \<open>The work of a cohort\<close>

definition matches_of :: "candidate_kind \<Rightarrow> cohort_work \<Rightarrow> (match_key, (string, remote_match) btree) btree" where
  "matches_of kind w = (case kind of RawKind \<Rightarrow> cw_raw_matches w | ReplacementKind \<Rightarrow> cw_replacement_matches w)"

lemma matches_of_simps [simp]:
  "matches_of RawKind w = cw_raw_matches w" "matches_of ReplacementKind w = cw_replacement_matches w"
  by (simp_all add: matches_of_def)

definition date_noted :: "cohort_work \<Rightarrow> candidate_kind \<Rightarrow> u64 \<Rightarrow> bool" where
  "date_noted w kind s \<longleftrightarrow>
     ro_date_candidates (cw_observations w) \<noteq> 0 \<and> (kind = RawKind \<longrightarrow> size_seen (cw_raw_size_matches w) s)"

type_synonym backing = "nat \<Rightarrow> candidate_kind \<Rightarrow> match_key \<Rightarrow> remote_match \<Rightarrow> bool"

definition work_ok :: "backing \<Rightarrow> nat \<Rightarrow> cohort_work \<Rightarrow> bool" where
  "work_ok E ci w \<longleftrightarrow>
     (\<forall>kind key ms. bt_get (matches_of kind w) key = Some ms \<longrightarrow>
        ms \<noteq> [] \<and> date_noted w kind (mk_size_bytes key) \<and> (\<forall>p\<in>set ms. E ci kind key (snd p)))
     \<and> (\<forall>s. size_seen (cw_raw_size_matches w) s \<longrightarrow> ro_raw_resources (cw_observations w) \<noteq> 0)
     \<and> (ro_raw_resources (cw_observations w) \<noteq> 0 \<longrightarrow> ro_date_candidates (cw_observations w) \<noteq> 0)
     \<and> ro_ambiguity_evidence (cw_observations w) = 0"

definition works_ok :: "backing \<Rightarrow> cohort_work list \<Rightarrow> bool" where
  "works_ok E ws \<longleftrightarrow> (\<forall>ci<length ws. work_ok E ci (ws ! ci))"

definition noted :: "cohort_work list \<Rightarrow> nat \<Rightarrow> candidate_kind \<Rightarrow> u64 \<Rightarrow> bool" where
  "noted ws ci kind s \<longleftrightarrow> ci < length ws \<and> date_noted (ws ! ci) kind s"

lemma works_ok_update:
  assumes "works_ok E ws" "ci < length ws \<Longrightarrow> work_ok E ci w"
  shows "works_ok E (ws[ci := w])"
  unfolding works_ok_def
proof (intro allI impI)
  fix i
  assume "i < length (ws[ci := w])"
  then show "work_ok E i (ws[ci := w] ! i)"
    using assms by (cases "i = ci") (simp_all add: works_ok_def)
qed

lemma noted_update:
  assumes "noted ws i kind s" "ci < length ws \<Longrightarrow> date_noted (ws ! ci) kind s \<Longrightarrow> date_noted w kind s"
  shows "noted (ws[ci := w]) i kind s"
  using assms by (cases "i = ci") (auto simp: noted_def)

lemma no_work_ok: "works_ok E (replicate n no_work)"
  by (simp add: works_ok_def work_ok_def no_work_def no_observations_def matches_of_def split: candidate_kind.split)

lemma add_observation_ok:
  assumes "work_ok E ci w" "increment_ok oi"
  shows "work_ok E ci (add_observation oi w)"
    "date_noted w kind s \<Longrightarrow> date_noted (add_observation oi w) kind s"
    "(kind = RawKind \<Longrightarrow> size_seen (oi_raw_size_matches oi) s) \<Longrightarrow> date_noted (add_observation oi w) kind s"
proof -
  have seen: "size_seen (cw_raw_size_matches (add_observation oi w)) s \<longleftrightarrow>
      size_seen (cw_raw_size_matches w) s \<or> (\<exists>n. (s, n) \<in> set (oi_raw_size_matches oi) \<and> n \<noteq> 0)" for s
    by (simp add: add_observation_def size_seen_bumps)
  have date: "oi_date_candidates oi \<noteq> 0" using assms(2) by (simp add: increment_ok_def)
  have fields: "matches_of kind (add_observation oi w) = matches_of kind w"
    "ro_date_candidates (cw_observations (add_observation oi w)) \<noteq> 0"
    "ro_raw_resources (cw_observations (add_observation oi w)) = 0 \<longleftrightarrow>
       ro_raw_resources (cw_observations w) = 0 \<and> oi_raw_resources oi = 0"
    "ro_ambiguity_evidence (cw_observations (add_observation oi w)) = ro_ambiguity_evidence (cw_observations w)"
    for kind
    using date by (cases kind; simp add: add_observation_def)+
  show "date_noted w kind s \<Longrightarrow> date_noted (add_observation oi w) kind s" for kind s
    using fields(2) seen by (auto simp: date_noted_def)
  then show "work_ok E ci (add_observation oi w)"
    using assms fields(2) unfolding work_ok_def fields(1,3,4) seen increment_ok_def by blast
  show "(kind = RawKind \<Longrightarrow> size_seen (oi_raw_size_matches oi) s) \<Longrightarrow> date_noted (add_observation oi w) kind s"
    using fields(2) seen size_seen_mem by (auto simp: date_noted_def)
qed

lemma observe_ok:
  assumes "observe oi ws = Inr ws'" "works_ok E ws" "increment_ok oi"
  shows "works_ok E ws'" "length ws' = length ws" "noted ws ci kind s \<Longrightarrow> noted ws' ci kind s"
    "(kind = RawKind \<Longrightarrow> size_seen (oi_raw_size_matches oi) s) \<Longrightarrow> noted ws' (oi_cohort_index oi) kind s"
proof -
  let ?i = "oi_cohort_index oi"
  have i: "?i < length ws" and ws': "ws' = ws[?i := add_observation oi (ws ! ?i)]"
    using assms(1) by (auto simp: observe_def split: if_splits)
  have w: "work_ok E ?i (ws ! ?i)" using assms(2) i by (simp add: works_ok_def)
  note add = add_observation_ok [OF w assms(3)]
  show "works_ok E ws'"
    unfolding ws' using assms(2) add(1) by (rule works_ok_update)
  show "length ws' = length ws" by (simp add: ws')
  show "noted ws ci kind s \<Longrightarrow> noted ws' ci kind s"
    unfolding ws' by (erule noted_update) (rule add(2))
  show "(kind = RawKind \<Longrightarrow> size_seen (oi_raw_size_matches oi) s) \<Longrightarrow> noted ws' ?i kind s"
    using add(3) i by (simp add: ws' noted_def)
qed

lemma observe_all_ok:
  assumes "try_fold observe ois ws = Inr ws'" "works_ok E ws" "\<forall>oi\<in>set ois. increment_ok oi"
  shows "works_ok E ws' \<and> length ws' = length ws \<and> (\<forall>ci kind s. noted ws ci kind s \<longrightarrow> noted ws' ci kind s)
    \<and> (\<forall>oi\<in>set ois. \<forall>kind s. (kind = RawKind \<longrightarrow> size_seen (oi_raw_size_matches oi) s)
          \<longrightarrow> noted ws' (oi_cohort_index oi) kind s)"
  using assms
proof (induction ois arbitrary: ws)
  case Nil
  then show ?case by simp
next
  case (Cons oi ois)
  from Cons.prems(1) obtain ws1 where ws1: "observe oi ws = Inr ws1" "try_fold observe ois ws1 = Inr ws'"
    by (auto simp: result_simps)
  have oi: "increment_ok oi" using Cons.prems(3) by simp
  note first = observe_ok [OF ws1(1) Cons.prems(2) oi]
  have rest: "works_ok E ws' \<and> length ws' = length ws1 \<and> (\<forall>ci kind s. noted ws1 ci kind s \<longrightarrow> noted ws' ci kind s)
    \<and> (\<forall>oi\<in>set ois. \<forall>kind s. (kind = RawKind \<longrightarrow> size_seen (oi_raw_size_matches oi) s)
          \<longrightarrow> noted ws' (oi_cohort_index oi) kind s)"
    using Cons.IH [OF ws1(2) first(1)] Cons.prems(3) by simp
  show ?case
    using rest first(2,3,4) by (auto 0 3)
qed

subsection \<open>Candidates\<close>

lemma add_match_get:
  "bt_get (add_match key identity m matches) k =
     (if k = key then Some (bt_insert identity m (case_option [] id (bt_get matches key))) else bt_get matches k)"
  by (simp add: add_match_def)

lemma bt_insert_mem: "p \<in> set (bt_insert k v m) \<Longrightarrow> p \<in> set m \<or> p = (k, v)"
  by (induction m) (auto split: if_splits)

lemma bt_insert_not_Nil [simp]: "bt_insert k v m \<noteq> []"
  by (cases m) auto

lemma added_match_ok:
  assumes "work_ok E ci w" "date_noted w kind (mk_size_bytes key)" "E ci kind key m"
    and "cw_observations w' = cw_observations w" "cw_raw_size_matches w' = cw_raw_size_matches w"
    and "matches_of kind w' = add_match key identity m (matches_of kind w)"
    and "\<And>k. k \<noteq> kind \<Longrightarrow> matches_of k w' = matches_of k w"
  shows "work_ok E ci w'"
  unfolding work_ok_def
proof (intro conjI allI impI)
  fix k key' ms
  assume get: "bt_get (matches_of k w') key' = Some ms"
  have ok: "\<And>ms. bt_get (matches_of k w) key' = Some ms \<Longrightarrow>
      ms \<noteq> [] \<and> date_noted w k (mk_size_bytes key') \<and> (\<forall>p\<in>set ms. E ci k key' (snd p))"
    using assms(1) unfolding work_ok_def by blast
  have "ms \<noteq> [] \<and> date_noted w k (mk_size_bytes key') \<and> (\<forall>p\<in>set ms. E ci k key' (snd p))"
  proof (cases "k = kind \<and> key' = key")
    case True
    with get assms(6) have ms: "ms = bt_insert identity m (case_option [] id (bt_get (matches_of k w) key'))"
      by (simp add: add_match_get)
    have "\<forall>p\<in>set (case_option [] id (bt_get (matches_of k w) key')). E ci k key' (snd p)"
      using ok by (cases "bt_get (matches_of k w) key'") auto
    with True assms(2,3) show ?thesis unfolding ms by (auto dest!: bt_insert_mem)
  next
    case False
    with get assms(6,7) have "bt_get (matches_of k w) key' = Some ms"
      by (cases "k = kind") (auto simp: add_match_get)
    then show ?thesis by (rule ok)
  qed
  then show "ms \<noteq> []" "date_noted w' k (mk_size_bytes key')" "\<forall>p\<in>set ms. E ci k key' (snd p)"
    by (simp_all add: date_noted_def assms(4,5))
qed (use assms(1,4,5) in \<open>auto simp: work_ok_def\<close>)

lemma note_match_ok:
  assumes "works_ok E ws" "noted ws ci kind (mk_size_bytes key)" "E ci kind key m"
  shows "works_ok E (note_match ix kind key identity m ci ws)"
    "length (note_match ix kind key identity m ci ws) = length ws"
    "noted ws ci' kind' s \<Longrightarrow> noted (note_match ix kind key identity m ci ws) ci' kind' s"
proof -
  have ci: "ci < length ws" "date_noted (ws ! ci) kind (mk_size_bytes key)" "work_ok E ci (ws ! ci)"
    using assms(1,2) by (auto simp: noted_def works_ok_def)
  define w' where "w' = (case kind of
      RawKind \<Rightarrow> (ws ! ci)\<lparr>cw_raw_matches := add_match key identity m (cw_raw_matches (ws ! ci))\<rparr>
    | ReplacementKind \<Rightarrow>
        (ws ! ci)\<lparr>cw_replacement_matches := add_match key identity m (cw_replacement_matches (ws ! ci))\<rparr>)"
  have shape: "note_match ix kind key identity m ci ws \<in> {ws, ws[ci := w']}"
    by (auto simp: note_match_def w'_def Let_def split: candidate_kind.split)
  have obs: "cw_observations w' = cw_observations (ws ! ci)" "cw_raw_size_matches w' = cw_raw_size_matches (ws ! ci)"
    by (auto simp: w'_def split: candidate_kind.split)
  have "work_ok E ci w'"
    by (rule added_match_ok [OF ci(3,2) assms(3) obs])
      (auto simp: w'_def matches_of_def split: candidate_kind.splits)
  then show "works_ok E (note_match ix kind key identity m ci ws)"
    using shape assms(1) works_ok_update by auto
  show "length (note_match ix kind key identity m ci ws) = length ws" using shape by auto
  show "noted ws ci' kind' s \<Longrightarrow> noted (note_match ix kind key identity m ci ws) ci' kind' s"
    using shape obs noted_update [of ws ci' kind' s ci w'] by (auto simp: date_noted_def)
qed

lemma note_incomplete_ok:
  assumes "works_ok E ws"
  shows "works_ok E (note_incomplete ix r ci ws)" "length (note_incomplete ix r ci ws) = length ws"
    "noted ws ci' kind' s \<Longrightarrow> noted (note_incomplete ix r ci ws) ci' kind' s"
proof -
  have "\<exists>a b. note_incomplete ix r ci ws
      \<in> {ws, ws[ci := (ws ! ci)\<lparr>cw_incomplete_raw_sizes := a\<rparr>],
          ws[ci := (ws ! ci)\<lparr>cw_incomplete_replacement_sizes := b\<rparr>]}"
    by (auto simp: note_incomplete_def Let_def split: candidate_kind.split)
  then obtain a b where shape: "note_incomplete ix r ci ws
      \<in> {ws, ws[ci := (ws ! ci)\<lparr>cw_incomplete_raw_sizes := a\<rparr>],
          ws[ci := (ws ! ci)\<lparr>cw_incomplete_replacement_sizes := b\<rparr>]}" by blast
  have same: "work_ok E ci (w\<lparr>cw_incomplete_raw_sizes := a\<rparr>) = work_ok E ci w"
    "work_ok E ci (w\<lparr>cw_incomplete_replacement_sizes := b\<rparr>) = work_ok E ci w"
    "date_noted (w\<lparr>cw_incomplete_raw_sizes := a\<rparr>) = date_noted w"
    "date_noted (w\<lparr>cw_incomplete_replacement_sizes := b\<rparr>) = date_noted w" for ci w
    by (auto simp: work_ok_def date_noted_def matches_of_def fun_eq_iff split: candidate_kind.splits)
  show "works_ok E (note_incomplete ix r ci ws)"
    using shape assms works_ok_update [OF assms, of ci] by (auto simp: same works_ok_def)
  show "length (note_incomplete ix r ci ws) = length ws" using shape by auto
  show "noted ws ci' kind' s \<Longrightarrow> noted (note_incomplete ix r ci ws) ci' kind' s"
    using shape noted_update [of ws ci' kind' s ci] by (auto simp: same)
qed

subsection \<open>Scans\<close>

text \<open>
  What a scan relies on: \<open>D\<close> holds of whatever is downloaded at the announced size, and every candidate
  of a good page backs the matches it leads to.
\<close>

definition scan_ok ::
  "(string \<times> u64 \<Rightarrow> resource_download \<Rightarrow> bool) \<Rightarrow> backing \<Rightarrow> batch_scan \<Rightarrow> bool"
where
  "scan_ok D E s \<longleftrightarrow>
     works_ok E (bs_work s) \<and> (\<forall>key dl. bs_cache s key = Some (Downloaded dl) \<longrightarrow> D key dl)"

lemma works_ok_mono:
  assumes "works_ok E ws" "\<And>ci kind key m. E ci kind key m \<Longrightarrow> E' ci kind key m"
  shows "works_ok E' ws"
  using assms unfolding works_ok_def work_ok_def by blast

lemma fold_note_match_ok:
  assumes "works_ok E ws" "\<forall>ci\<in>set cis. noted ws ci kind (mk_size_bytes key) \<and> E ci kind key m"
  shows "works_ok E (fold (note_match ix kind key identity m) cis ws)
    \<and> length (fold (note_match ix kind key identity m) cis ws) = length ws
    \<and> (\<forall>ci k s. noted ws ci k s \<longrightarrow> noted (fold (note_match ix kind key identity m) cis ws) ci k s)"
  using assms
proof (induction cis arbitrary: ws)
  case (Cons ci cis)
  have n: "noted ws ci kind (mk_size_bytes key)" "E ci kind key m" using Cons.prems(2) by auto
  note step = note_match_ok [OF Cons.prems(1) n, where ix = ix and identity = identity]
  have "\<forall>ci\<in>set cis. noted (note_match ix kind key identity m ci' ws) ci kind (mk_size_bytes key) \<and> E ci kind key m"
    if "ci' = ci" for ci'
    using Cons.prems(2) step(3) that by auto
  from Cons.IH [OF step(1) this [OF refl]] step(2,3) show ?case by simp
qed simp

lemma fold_note_incomplete_ok:
  assumes "works_ok E ws"
  shows "works_ok E (fold (note_incomplete ix r) cis ws)
    \<and> length (fold (note_incomplete ix r) cis ws) = length ws
    \<and> (\<forall>ci k s. noted ws ci k s \<longrightarrow> noted (fold (note_incomplete ix r) cis ws) ci k s)"
  using assms
proof (induction cis arbitrary: ws)
  case (Cons ci cis)
  note step = note_incomplete_ok [OF Cons.prems, where ix = ix and r = r and ci = ci]
  from Cons.IH [OF step(1)] step(2,3) show ?case by simp
qed simp

text \<open>
  What is read grows along a scan: \<open>le\<close> orders the states of the transport, and what holds of the
  calls made before a state holds later.
\<close>

locale backed_scan =
  fixes download :: "'t download"
    and le :: "'t \<Rightarrow> 't \<Rightarrow> bool"
    and D :: "'t \<Rightarrow> string \<times> u64 \<Rightarrow> resource_download \<Rightarrow> bool"
    and E :: "'t \<Rightarrow> backing"
    and good :: "'t \<Rightarrow> batch_candidate query_page \<Rightarrow> bool"
  assumes grows: "download u b t = (r, t') \<Longrightarrow> le t t'"
    and le_refl [simp]: "le t t"
    and le_trans: "le s t \<Longrightarrow> le t t' \<Longrightarrow> le s t'"
    and D_later: "D t key dl \<Longrightarrow> le t t' \<Longrightarrow> D t' key dl"
    and E_later: "E t ci kind k m \<Longrightarrow> le t t' \<Longrightarrow> E t' ci kind k m"
    and good_later: "good t p \<Longrightarrow> le t t' \<Longrightarrow> good t' p"
    and downloads:
      "download u b t = (Inr dl, t') \<Longrightarrow> rd_size_bytes dl = b \<Longrightarrow> D t' (url_as_str u, b) dl"
    and good_ok: "good t p \<Longrightarrow> page_ok p"
    and good_backs: "good t p \<Longrightarrow> c \<in> set (qp_matches p) \<Longrightarrow> ci \<in> set (bc_cohort_indexes c)
      \<Longrightarrow> D t (url_as_str (rx_download_url (bc_resource c)), rx_size_bytes (bc_resource c)) dl
      \<Longrightarrow> E t ci (rx_kind (bc_resource c)) (MatchKey (rx_size_bytes (bc_resource c)) (rd_sha256 dl))
            \<lparr>rm_asset = bc_asset c, rm_resource_field = rx_field (bc_resource c)\<rparr>"
begin

lemma scan_ok_later: "scan_ok (D t) (E t) s \<Longrightarrow> le t t' \<Longrightarrow> scan_ok (D t') (E t') s"
  unfolding scan_ok_def by (blast intro: D_later E_later works_ok_mono)

lemma cached_download_backed:
  assumes "cached_download download r cache t = (Inr (result, cache'), t')"
    and "\<forall>key dl. cache key = Some (Downloaded dl) \<longrightarrow> D t key dl"
  shows "\<forall>key dl. cache' key = Some (Downloaded dl) \<longrightarrow> D t' key dl"
    and "result = Downloaded dl \<Longrightarrow> D t' (url_as_str (rx_download_url r), rx_size_bytes r) dl"
    and "le t t'"
proof -
  let ?key = "(url_as_str (rx_download_url r), rx_size_bytes r)"
  have "(\<forall>key dl. cache' key = Some (Downloaded dl) \<longrightarrow> D t' key dl)
      \<and> (\<forall>dl. result = Downloaded dl \<longrightarrow> D t' ?key dl) \<and> le t t'"
  proof (cases "cache ?key")
    case (Some c)
    then show ?thesis using assms by (auto simp: cached_download_def Let_def)
  next
    case None
    with assms(1) obtain c where
      c: "(case download (rx_download_url r) (rx_size_bytes r) t of
             (Inr dl, t') \<Rightarrow>
               (Ok (if rd_size_bytes dl = rx_size_bytes r then Downloaded dl else SizeMismatch), t')
           | (Inl (OriginalAssetDownloadSizeMismatch _ _), t') \<Rightarrow> (Ok SizeMismatch, t')
           | (Inl e, t') \<Rightarrow> (Err e, t')) = (Inr c, t')"
      and result: "result = c" "cache' = cache(?key \<mapsto> c)"
      by (auto simp: cached_download_def Let_def and_then_eq_Ok)
    obtain x t1 where x: "download (rx_download_url r) (rx_size_bytes r) t = (x, t1)"
      by fastforce
    from c x have t1: "t1 = t'"
      by (auto split: sum.splits upload_error.splits)
    from c have "D t' ?key dl" if "c = Downloaded dl" for dl
      using that downloads
      by (auto split: prod.splits sum.splits if_splits upload_error.splits)
    moreover have later: "le t t'" using grows x t1 by blast
    moreover have "D t' key dl" if "cache key = Some (Downloaded dl)" for key dl
      using D_later [OF _ later] assms(2) that by blast
    ultimately show ?thesis using result by (simp split: if_splits)
  qed
  then show "\<forall>key dl. cache' key = Some (Downloaded dl) \<longrightarrow> D t' key dl"
    "result = Downloaded dl \<Longrightarrow> D t' (url_as_str (rx_download_url r), rx_size_bytes r) dl"
    "le t t'" by blast+
qed

lemma scan_candidate_ok:
  assumes "scan_candidate download ix c s t = (Inr s', t')" "scan_ok (D t) (E t) s"
    and "good t p" "c \<in> set (qp_matches p)"
    and "\<forall>ci\<in>set (bc_cohort_indexes c). noted (bs_work s) ci (rx_kind (bc_resource c)) (rx_size_bytes (bc_resource c))"
  shows "scan_ok (D t') (E t') s' \<and> le t t' \<and> length (bs_work s') = length (bs_work s)
    \<and> (\<forall>ci k b. noted (bs_work s) ci k b \<longrightarrow> noted (bs_work s') ci k b)"
proof -
  from assms(1) obtain result cache where
    dl: "cached_download download (bc_resource c) (bs_cache s) t = (Inr (result, cache), t')"
    and s': "s' = s\<lparr>bs_cache := cache,
               bs_work :=
                 (case result of
                    SizeMismatch \<Rightarrow> fold (note_incomplete ix (bc_resource c)) (bc_cohort_indexes c) (bs_work s)
                  | Downloaded dl \<Rightarrow>
                      fold (note_match ix (rx_kind (bc_resource c))
                            (MatchKey (rx_size_bytes (bc_resource c)) (rd_sha256 dl))
                            (remote_resource_identity (ra_asset_record_name (bc_asset c)) (bc_resource c))
                            \<lparr>rm_asset = bc_asset c, rm_resource_field = rx_field (bc_resource c)\<rparr>)
                        (bc_cohort_indexes c) (bs_work s))\<rparr>"
    by (auto simp: scan_candidate_def and_then_eq_Ok)
  have "\<forall>key dl. bs_cache s key = Some (Downloaded dl) \<longrightarrow> D t key dl"
    using assms(2) by (simp add: scan_ok_def)
  note cached = cached_download_backed [OF dl this]
  have ok: "works_ok (E t') (bs_work s)"
    using scan_ok_later [OF assms(2) cached(3)] by (simp add: scan_ok_def)
  note good = good_later [OF assms(3) cached(3)]
  show ?thesis
  proof (cases result)
    case (Downloaded dl)
    have "\<forall>ci\<in>set (bc_cohort_indexes c).
        noted (bs_work s) ci (rx_kind (bc_resource c)) (mk_size_bytes (MatchKey (rx_size_bytes (bc_resource c)) (rd_sha256 dl)))
        \<and> E t' ci (rx_kind (bc_resource c)) (MatchKey (rx_size_bytes (bc_resource c)) (rd_sha256 dl))
            \<lparr>rm_asset = bc_asset c, rm_resource_field = rx_field (bc_resource c)\<rparr>"
      using assms(5) good_backs [OF good assms(4) _ cached(2) [OF Downloaded]] by auto
    from fold_note_match_ok [OF ok this] show ?thesis
      using cached(1,3) unfolding s' Downloaded scan_ok_def by simp
  next
    case SizeMismatch
    from fold_note_incomplete_ok [OF ok] show ?thesis
      using cached(1,3) unfolding s' SizeMismatch scan_ok_def by simp
  qed
qed

lemma scan_candidates_ok:
  assumes "call_fold (scan_candidate download ix) cs s t = (Inr s', t')" "scan_ok (D t) (E t) s"
    and "good t p" "set cs \<subseteq> set (qp_matches p)"
    and "\<forall>c\<in>set cs. \<forall>ci\<in>set (bc_cohort_indexes c).
          noted (bs_work s) ci (rx_kind (bc_resource c)) (rx_size_bytes (bc_resource c))"
  shows "scan_ok (D t') (E t') s' \<and> le t t' \<and> length (bs_work s') = length (bs_work s)"
  using assms
proof (induction cs arbitrary: s t)
  case (Cons c cs)
  from Cons.prems(1) obtain s1 t1 where s1: "scan_candidate download ix c s t = (Inr s1, t1)"
    "call_fold (scan_candidate download ix) cs s1 t1 = (Inr s', t')"
    by (auto simp: and_then_eq_Ok)
  have c: "c \<in> set (qp_matches p)" using Cons.prems(4) by simp
  have "\<forall>ci\<in>set (bc_cohort_indexes c). noted (bs_work s) ci (rx_kind (bc_resource c)) (rx_size_bytes (bc_resource c))"
    using Cons.prems(5) by simp
  note step = scan_candidate_ok [OF s1(1) Cons.prems(2,3) c this]
  then have "scan_ok (D t1) (E t1) s1" "good t1 p" using good_later [OF Cons.prems(3)] by blast+
  from Cons.IH [OF s1(2) this] Cons.prems(4,5) step show ?case by (auto intro: le_trans)
qed simp

lemma scan_page_ok:
  assumes "scan_page download ix p s t = (Inr s', t')" "scan_ok (D t) (E t) s" "good t p"
  shows "scan_ok (D t') (E t') s' \<and> le t t' \<and> length (bs_work s') = length (bs_work s)"
proof -
  from assms(1) obtain ws where
    ws: "try_fold observe (qp_observation_increments p) (bs_work s) = Inr ws"
    and cs: "call_fold (scan_candidate download ix) (qp_matches p)
      (s\<lparr>bs_work := ws, bs_inventory := bs_inventory s \<union> set (qp_inventory_records p)\<rparr>) t = (Inr s', t')"
    by (auto simp: scan_page_def and_then_eq_Ok)
  have p: "\<forall>oi\<in>set (qp_observation_increments p). increment_ok oi"
    "\<forall>c\<in>set (qp_matches p). candidate_counted (qp_observation_increments p) c"
    using good_ok [OF assms(3)] by (auto simp: page_ok_def)
  have "works_ok (E t) (bs_work s)" using assms(2) by (simp add: scan_ok_def)
  note obs = observe_all_ok [OF ws this p(1)]
  have "noted ws ci (rx_kind (bc_resource c)) (rx_size_bytes (bc_resource c))"
    if c: "c \<in> set (qp_matches p)" and ci: "ci \<in> set (bc_cohort_indexes c)" for c ci
  proof -
    obtain oi where oi: "oi \<in> set (qp_observation_increments p)" "oi_cohort_index oi = ci"
      "rx_kind (bc_resource c) = RawKind \<longrightarrow> size_seen (oi_raw_size_matches oi) (rx_size_bytes (bc_resource c))"
      using p(2) c ci unfolding candidate_counted_def by blast
    show ?thesis using obs oi(1,3) unfolding oi(2) [symmetric] by blast
  qed
  then have "scan_ok (D t') (E t') s' \<and> le t t' \<and> length (bs_work s')
      = length (bs_work (s\<lparr>bs_work := ws, bs_inventory := bs_inventory s \<union> set (qp_inventory_records p)\<rparr>))"
    using assms(2) obs by (intro scan_candidates_ok [OF cs _ assms(3)]) (auto simp: scan_ok_def)
  then show ?thesis using obs by simp
qed

lemma scan_batch_ok:
  assumes "\<And>marker rank t p t'. query_batch_page parse_url post ix (br_page_size request) d marker rank t = (Inr p, t')
      \<Longrightarrow> good t' p \<and> le t t'"
  shows "scan_batch parse_url post download request ix d w page s n t = (Inr (s', exhausted), t')
    \<Longrightarrow> scan_ok (D t) (E t) s \<Longrightarrow> good t (pp_page page)
    \<Longrightarrow> scan_ok (D t') (E t') s' \<and> le t t' \<and> length (bs_work s') = length (bs_work s)"
proof (induction "unat (br_max_pages request) - unat n" arbitrary: page s n t rule: less_induct)
  case less
  show ?case
  proof (cases "page_step (pp_page page) w")
    case ScanPage
    with less.prems(1) obtain s1 t1 where s1: "scan_page download ix (pp_page page) s t = (Inr s1, t1)"
      and rest: "(case qp_continuation_marker (pp_page page) of
          None \<Rightarrow> now (Ok (s1, True))
        | Some marker \<Rightarrow>
            if br_max_pages request \<le> n then now (Ok (s1, False))
            else
              and_then (query_batch_page parse_url post ix (br_page_size request) d (Some marker)
                  (pp_start_rank page)) (\<lambda>next.
              scan_batch parse_url post download request ix d w
                \<lparr>pp_start_rank = pp_start_rank page, pp_page = next\<rparr> s1 (saturating_add n 1))) t1
          = (Inr (s', exhausted), t')"
      by (subst (asm) scan_batch.simps) (auto simp: and_then_eq_Ok)
    note ok1 = scan_page_ok [OF s1 less.prems(2,3)]
    show ?thesis
    proof (cases "qp_continuation_marker (pp_page page) = None \<or> br_max_pages request \<le> n")
      case True
      with rest ok1 show ?thesis by (auto split: option.splits)
    next
      case False
      then obtain marker where m: "qp_continuation_marker (pp_page page) = Some marker"
        and n: "\<not> br_max_pages request \<le> n" by auto
      with rest obtain p t2 where
        p: "query_batch_page parse_url post ix (br_page_size request) d (Some marker) (pp_start_rank page) t1 = (Inr p, t2)"
        and scan: "scan_batch parse_url post download request ix d w
          \<lparr>pp_start_rank = pp_start_rank page, pp_page = p\<rparr> s1 (saturating_add n 1) t2 = (Inr (s', exhausted), t')"
        by (auto simp: and_then_eq_Ok)
      have t2: "good t2 p" "le t t2" "scan_ok (D t2) (E t2) s1"
        using assms [OF p] ok1 scan_ok_later by (blast intro: le_trans)+
      then show ?thesis
        using less.hyps [OF pages_read_decreases [OF n] scan t2(3)] ok1 by (auto intro: le_trans)
    qed
  qed (use less.prems in \<open>auto simp: scan_batch.simps [of _ _ _ _ _ _ _ page]\<close>)
qed

end

end
