(* ===== verification/Resolver_Log.thy ===== *)
theory Resolver_Log
  imports Resolver
begin

section \<open>Runs of the resolver with a log of the transport\<close>

text \<open>
  A transport with a log of its calls: every answer and every fetched resource is appended with the
  payload or the URL and size that were asked for. The log changes nothing: \<open>mirrors\<close> says that a call on
  the logged transport ends as the call on the transport itself, and holds of every step of the batch
  resolver, so each run has a log.
\<close>

datatype transport_event =
    Posted json "upload_error + json"
  | Fetched url u64 "upload_error + resource_download"

definition logged_post :: "'t post \<Rightarrow> ('t \<times> transport_event list) post" where
  "logged_post post payload = (\<lambda>(t, log).
     case post payload t of (r, t') \<Rightarrow> (r, t', log @ [Posted payload r]))"

definition logged_download :: "'t download \<Rightarrow> ('t \<times> transport_event list) download" where
  "logged_download download u bytes = (\<lambda>(t, log).
     case download u bytes t of (r, t') \<Rightarrow> (r, t', log @ [Fetched u bytes r]))"

subsection \<open>The log only grows\<close>

definition logged_before :: "'t \<times> transport_event list \<Rightarrow> 't \<times> transport_event list \<Rightarrow> bool" where
  "logged_before s s' \<longleftrightarrow> (\<exists>more. snd s' = snd s @ more)"

lemma logged_before_refl [simp]: "logged_before s s"
  by (simp add: logged_before_def)

lemma logged_before_trans: "logged_before s s' \<Longrightarrow> logged_before s' s'' \<Longrightarrow> logged_before s s''"
  by (auto simp: logged_before_def)

lemma logged_later: "logged_before s s' \<Longrightarrow> e \<in> set (snd s) \<Longrightarrow> e \<in> set (snd s')"
  by (auto simp: logged_before_def)

lemma logged_post_eq:
  "logged_post post payload s = (r, s') \<Longrightarrow> logged_before s s' \<and> Posted payload r \<in> set (snd s')"
  by (auto simp: logged_post_def logged_before_def split: prod.splits)

lemma logged_download_eq:
  "logged_download download u bytes s = (r, s') \<Longrightarrow> logged_before s s' \<and> Fetched u bytes r \<in> set (snd s')"
  by (auto simp: logged_download_def logged_before_def split: prod.splits)

subsection \<open>The log changes nothing\<close>

definition mirrors :: "('t \<times> 'l, 'a) call \<Rightarrow> ('t, 'a) call \<Rightarrow> bool" where
  "mirrors f g \<longleftrightarrow> (\<forall>t l. \<exists>l'. f (t, l) = (fst (g t), snd (g t), l'))"

named_theorems mirror_intros \<open>calls that a log does not change\<close>

lemma mirrors_now [mirror_intros]: "mirrors (now r) (now r)"
  by (simp add: mirrors_def)

lemma mirrors_and_then [mirror_intros]:
  assumes f: "mirrors f g" and k: "\<And>x t t'. g t = (Inr x, t') \<Longrightarrow> mirrors (k x) (k' x)"
  shows "mirrors (and_then f k) (and_then g k')"
  unfolding mirrors_def
proof (intro allI)
  fix t l
  obtain r t' where g: "g t = (r, t')" by (cases "g t")
  with f obtain l' where fl: "f (t, l) = (r, t', l')" unfolding mirrors_def by (metis fst_conv snd_conv)
  show "\<exists>l''. and_then f k (t, l) = (fst (and_then g k' t), snd (and_then g k' t), l'')"
  proof (cases r)
    case (Inr x)
    with k [of t x t'] g show ?thesis
      unfolding mirrors_def and_then_def by (simp add: fl)
  qed (simp add: and_then_def fl g)
qed

lemma mirrors_pair [mirror_intros]:
  "(\<And>a b. p = (a, b) \<Longrightarrow> mirrors (f a b) (g a b)) \<Longrightarrow> mirrors (case p of (a, b) \<Rightarrow> f a b) (case p of (a, b) \<Rightarrow> g a b)"
  by (cases p) simp

lemma mirrors_call_fold [mirror_intros]:
  "(\<And>x s. mirrors (f x s) (g x s)) \<Longrightarrow> mirrors (call_fold f xs s) (call_fold g xs s)"
  by (induction xs arbitrary: s) (auto intro: mirror_intros)

lemma logged_post_mirrors [mirror_intros]: "mirrors (logged_post post payload) (post payload)"
  by (auto simp: mirrors_def logged_post_def split: prod.split)

lemma logged_download_mirrors: "\<exists>l'. logged_download download u bytes (t, l)
    = (fst (download u bytes t), snd (download u bytes t), l')"
  by (auto simp: logged_download_def split: prod.split)

lemma query_batch_mirrors [mirror_intros]:
  "mirrors (query_batch_page parse_url (logged_post post) ix page_size d marker rank)
     (query_batch_page parse_url post ix page_size d marker rank)"
  unfolding query_batch_page_def by (intro mirror_intros)

text \<open>The steps of the seek, for any query that is mirrored.\<close>

locale mirrored_query =
  fixes query :: "u64 \<Rightarrow> ('t \<times> 'l, 'a query_page) call" and plain :: "u64 \<Rightarrow> ('t, 'a query_page) call"
  assumes query_mirrors: "mirrors (query rank) (plain rank)"
begin

lemma read_mirrors:
  "mirrors (read_original_asset_rank_page query rank n) (read_original_asset_rank_page plain rank n)"
  unfolding read_original_asset_rank_page_def by (intro mirror_intros query_mirrors)

lemma probe_older_mirrors:
  "mirrors (probe_older query w max_pages start_rank lower step n)
     (probe_older plain w max_pages start_rank lower step n)"
proof (induction "unat max_pages - unat n" arbitrary: lower step n rule: less_induct)
  case less
  show ?case
    unfolding probe_older.simps [of _ w max_pages start_rank lower step n]
    using less.hyps
    by (auto intro!: mirror_intros read_mirrors simp: read_page_eq_Ok pages_read_decreases)
qed

lemma bisect_older_mirrors:
  "mirrors (bisect_older query w max_pages lower upper n) (bisect_older plain w max_pages lower upper n)"
proof (induction "unat max_pages - unat n" arbitrary: lower upper n rule: less_induct)
  case less
  show ?case
    unfolding bisect_older.simps [of _ w max_pages lower upper n] Let_def
    using less.hyps
    by (auto intro!: mirror_intros read_mirrors simp: read_page_eq_Ok pages_read_decreases)
qed

lemma probe_newer_mirrors:
  "mirrors (probe_newer query w max_pages upper step n) (probe_newer plain w max_pages upper step n)"
proof (induction "unat max_pages - unat n" arbitrary: upper step n rule: less_induct)
  case less
  show ?case
    unfolding probe_newer.simps [of _ w max_pages upper step n] Let_def
    using less.hyps
    by (auto intro!: mirror_intros read_mirrors simp: read_page_eq_Ok pages_read_decreases)
qed

lemma bisect_newer_mirrors:
  "mirrors (bisect_newer query w max_pages lower upper n) (bisect_newer plain w max_pages lower upper n)"
proof (induction "unat max_pages - unat n" arbitrary: lower upper n rule: less_induct)
  case less
  show ?case
    unfolding bisect_newer.simps [of _ w max_pages lower upper n] Let_def
    using less.hyps
    by (auto intro!: mirror_intros read_mirrors simp: read_page_eq_Ok pages_read_decreases
        split: page_position.split)
qed

lemma seek_mirrors:
  "mirrors (seek_original_asset_query_page query start_rank page_size max_pages w)
     (seek_original_asset_query_page plain start_rank page_size max_pages w)"
  unfolding seek_original_asset_query_page_def seek_toward_newer_def
  by (auto intro!: mirror_intros read_mirrors probe_older_mirrors bisect_older_mirrors
      probe_newer_mirrors bisect_newer_mirrors split: page_position.split probe_end.split)

end

interpretation mirrored_batch: mirrored_query
    "query_batch_page parse_url (logged_post post) ix page_size d marker"
    "query_batch_page parse_url post ix page_size d marker"
  for parse_url post ix page_size d marker
  by unfold_locales (rule query_batch_mirrors)

text \<open>The scan and the whole run.\<close>

lemma cached_download_mirrors [mirror_intros]:
  "mirrors (cached_download (logged_download download) r cache) (cached_download download r cache)"
proof -
  let ?f = "\<lambda>download t. case download (rx_download_url r) (rx_size_bytes r) t of
      (Inr dl, t') \<Rightarrow>
        (Ok (if rd_size_bytes dl = rx_size_bytes r then Downloaded dl else SizeMismatch), t')
    | (Inl (OriginalAssetDownloadSizeMismatch _ _), t') \<Rightarrow> (Ok SizeMismatch, t')
    | (Inl e, t') \<Rightarrow> (Err e, t')"
  have "mirrors (?f (logged_download download)) (?f download)"
    unfolding mirrors_def
  proof (intro allI)
    fix t and l :: "transport_event list"
    obtain x t1 where x: "download (rx_download_url r) (rx_size_bytes r) t = (x, t1)" by fastforce
    then obtain l' where "logged_download download (rx_download_url r) (rx_size_bytes r) (t, l) = (x, t1, l')"
      using logged_download_mirrors [of download "rx_download_url r" "rx_size_bytes r" t l] by auto
    with x show "\<exists>l'. ?f (logged_download download) (t, l) = (fst (?f download t), snd (?f download t), l')"
      by (simp split: sum.split upload_error.split)
  qed
  then show ?thesis
    unfolding cached_download_def Let_def by (auto intro!: mirror_intros split: option.split)
qed

lemma scan_page_mirrors [mirror_intros]:
  "mirrors (scan_page (logged_download download) ix p s) (scan_page download ix p s)"
  unfolding scan_page_def scan_candidate_def by (intro mirror_intros)

lemma scan_batch_mirrors [mirror_intros]:
  "mirrors (scan_batch parse_url (logged_post post) (logged_download download) request ix d w page s n)
     (scan_batch parse_url post download request ix d w page s n)"
proof (induction "unat (br_max_pages request) - unat n" arbitrary: page s n rule: less_induct)
  case less
  show ?case
    unfolding scan_batch.simps [of _ _ _ request ix d w page s n]
    using less.hyps
    by (auto intro!: mirror_intros simp: pages_read_decreases split: page_action.split option.split)
qed

lemma mirrors_incomplete [mirror_intros]:
  assumes f: "mirrors f g" and k: "\<And>x. mirrors (k x) (k' x)"
  shows "mirrors
    (\<lambda>t. case f t of
       (Inl (OriginalAssetResolveIncomplete a), t') \<Rightarrow> (Ok out, t')
     | (Inl e, t') \<Rightarrow> (Err e, t')
     | (Inr x, t') \<Rightarrow> k x t')
    (\<lambda>t. case g t of
       (Inl (OriginalAssetResolveIncomplete a), t') \<Rightarrow> (Ok out, t')
     | (Inl e, t') \<Rightarrow> (Err e, t')
     | (Inr x, t') \<Rightarrow> k' x t')"
  unfolding mirrors_def
proof (intro allI)
  fix t l
  obtain r t' where g: "g t = (r, t')" by (cases "g t")
  with f obtain l' where fl: "f (t, l) = (r, t', l')" unfolding mirrors_def by (metis fst_conv snd_conv)
  show "\<exists>l'. (case f (t, l) of
       (Inl (OriginalAssetResolveIncomplete a), t') \<Rightarrow> (Ok out, t')
     | (Inl e, t') \<Rightarrow> (Err e, t')
     | (Inr x, t') \<Rightarrow> k x t')
    = (fst (case g t of
       (Inl (OriginalAssetResolveIncomplete a), t') \<Rightarrow> (Ok out, t')
     | (Inl e, t') \<Rightarrow> (Err e, t')
     | (Inr x, t') \<Rightarrow> k' x t'),
     snd (case g t of
       (Inl (OriginalAssetResolveIncomplete a), t') \<Rightarrow> (Ok out, t')
     | (Inl e, t') \<Rightarrow> (Err e, t')
     | (Inr x, t') \<Rightarrow> k' x t'), l')"
    using k unfolding fl g mirrors_def by (auto split: sum.split upload_error.split)
qed

lemma logged_run:
  assumes "resolve_original_assets_batch_outcome sha256 parse_url post download session request t = (Inr outcome, t')"
  obtains log where "resolve_original_assets_batch_outcome sha256 parse_url (logged_post post)
      (logged_download download) session request (t, []) = (Inr outcome, (t', log))"
proof -
  have "mirrors (resolve_original_assets_batch_outcome sha256 parse_url (logged_post post) (logged_download download)
      session request) (resolve_original_assets_batch_outcome sha256 parse_url post download session request)"
    unfolding resolve_original_assets_batch_outcome_def Let_def
    by (intro mirror_intros mirrored_batch.seek_mirrors)
  with assms that show ?thesis unfolding mirrors_def by (metis fst_conv snd_conv)
qed

end
