(* ===== verification/Resolver_Outcome.thy ===== *)
theory Resolver_Outcome
  imports Resolver_Evidence Resolver_Log Reconcile
begin

section \<open>What an outcome of the resolver rests on\<close>

text \<open>
  The scan's invariant on the transport the program has. Each run has a log of its
  calls (\<open>Resolver_Log\<close>); a match stands for an asset of a logged answer, within the window of its cohort, and for one of
  the resources this asset offers, whose own URL was fetched in the same run and gave bytes of the size
  and the hash of the match. Two theorems follow for every outcome: its dispositions agree with its
  observations as the reconciliation demands, and the proofs it makes name assets whose bytes were read.
\<close>

subsection \<open>Matches and the log\<close>

definition was_downloaded :: "transport_event list \<Rightarrow> string \<times> u64 \<Rightarrow> resource_download \<Rightarrow> bool" where
  "was_downloaded log key dl \<longleftrightarrow>
     (\<exists>u. url_as_str u = fst key \<and> Fetched u (snd key) (Ok dl) \<in> set log \<and> rd_size_bytes dl = snd key)"

definition was_answered ::
  "url_parser \<Rightarrow> target_index \<Rightarrow> cloudkit_library_destination \<Rightarrow> transport_event list
     \<Rightarrow> batch_candidate query_page \<Rightarrow> bool"
where
  "was_answered parse_url ix d log p \<longleftrightarrow>
     (\<exists>payload v. Posted payload (Ok v) \<in> set log
        \<and> parse_original_asset_batch_query_response parse_url v ix d = Ok p)"

text \<open>
  An asset of an answer in the log that offers the resource \<open>r\<close>, the URL of which was fetched and
  gave as many bytes as announced, with a given hash.
\<close>

definition asset_holds ::
  "url_parser \<Rightarrow> transport_event list \<Rightarrow> cloudkit_library_destination \<Rightarrow> asset_query_record
     \<Rightarrow> remote_resource \<Rightarrow> string \<Rightarrow> bool"
where
  "asset_holds parse_url log d asset r sha256 \<longleftrightarrow>
     (\<exists>payload v. Posted payload (Ok v) \<in> set log \<and> answers_asset d v asset
        \<and> offers_resource parse_url v asset r)
     \<and> (\<exists>u dl. url_as_str u = url_as_str (rx_download_url r)
        \<and> Fetched u (rx_size_bytes r) (Ok dl) \<in> set log
        \<and> rd_size_bytes dl = rx_size_bytes r \<and> rd_sha256 dl = sha256)"

definition was_matched ::
  "url_parser \<Rightarrow> target_index \<Rightarrow> cloudkit_library_destination \<Rightarrow> transport_event list \<Rightarrow> backing"
where
  "was_matched parse_url ix d log ci kind key m \<longleftrightarrow>
     (\<exists>asset r. asset_holds parse_url log d asset r (mk_sha256 key)
        \<and> rx_kind r = kind \<and> rx_size_bytes r = mk_size_bytes key \<and> rx_field r = rm_resource_field m
        \<and> ra_asset_record_name (rm_asset m) = ca_record_name asset
        \<and> ra_asset_record_change_tag (rm_asset m) = ca_record_change_tag asset
        \<and> ci \<in> set (cohort_indexes_for_asset_date ix (ca_asset_date_unix_seconds asset)))"

lemma was_downloaded_later:
  "was_downloaded (snd s) key dl \<Longrightarrow> logged_before s s' \<Longrightarrow> was_downloaded (snd s') key dl"
  unfolding was_downloaded_def by (blast intro: logged_later)

lemma was_answered_later:
  "was_answered parse_url ix d (snd s) p \<Longrightarrow> logged_before s s' \<Longrightarrow> was_answered parse_url ix d (snd s') p"
  unfolding was_answered_def by (blast intro: logged_later)

lemma was_matched_later:
  "was_matched parse_url ix d (snd s) ci kind key m \<Longrightarrow> logged_before s s'
     \<Longrightarrow> was_matched parse_url ix d (snd s') ci kind key m"
  unfolding was_matched_def asset_holds_def by (blast intro: logged_later)

lemma answered_backs:
  assumes p: "was_answered parse_url ix d log p" and c: "c \<in> set (qp_matches p)"
    and ci: "ci \<in> set (bc_cohort_indexes c)"
    and dl: "was_downloaded log (url_as_str (rx_download_url (bc_resource c)), rx_size_bytes (bc_resource c)) dl"
  shows "was_matched parse_url ix d log ci (rx_kind (bc_resource c))
      (MatchKey (rx_size_bytes (bc_resource c)) (rd_sha256 dl))
      \<lparr>rm_asset = bc_asset c, rm_resource_field = rx_field (bc_resource c)\<rparr>"
proof -
  obtain payload v where v: "Posted payload (Inr v) \<in> set log"
    "parse_original_asset_batch_query_response parse_url v ix d = Inr p"
    using p unfolding was_answered_def by blast
  obtain records assets masters where r: "query_response_records v = Inr records"
    "try_fold (add_query_record d) records ([], []) = Inr (assets, masters)"
    "\<forall>c\<in>set (qp_matches p). candidate_of parse_url ix masters assets c"
    using parse_batch_page [OF v(2)] by metis
  obtain asset master rs where a: "asset \<in> set assets" "ra_asset_record_name (bc_asset c) = ca_record_name asset"
    "ra_asset_record_change_tag (bc_asset c) = ca_record_change_tag asset"
    "bc_cohort_indexes c = cohort_indexes_for_asset_date ix (ca_asset_date_unix_seconds asset)"
    and m: "bt_get masters (ca_master_record_name asset) = Some master"
    "record_pair_original_asset_resources parse_url (ca_record asset) master = Ok rs" "bc_resource c \<in> set rs"
    using r(3) c unfolding candidate_of_def by blast
  have "answers_asset d v asset" using assets_answered [OF r(1,2)] a(1) by blast
  moreover have "offers_resource parse_url v asset (bc_resource c)"
    using masters_answered [OF r(1,2) m(1)] m(2,3) unfolding offers_resource_def by blast
  ultimately have "asset_holds parse_url log d asset (bc_resource c) (rd_sha256 dl)"
    using v(1) dl unfolding asset_holds_def was_downloaded_def fst_conv snd_conv by blast
  then show ?thesis
    using a(2,3) ci unfolding was_matched_def a(4) by (intro exI [of _ asset] exI [of _ "bc_resource c"]) simp
qed

interpretation scanned: backed_scan "logged_download download" logged_before "\<lambda>s. was_downloaded (snd s)"
    "\<lambda>s. was_matched parse_url ix d (snd s)" "\<lambda>s. was_answered parse_url ix d (snd s)"
  for download parse_url ix d
proof unfold_locales
  fix u b s dl s'
  assume "logged_download download u b s = (Inr dl, s')" "rd_size_bytes dl = b"
  then show "was_downloaded (snd s') (url_as_str u, b) dl"
    unfolding was_downloaded_def fst_conv snd_conv by (blast dest: logged_download_eq)
next
  fix s :: "'a \<times> transport_event list" and p
  assume "was_answered parse_url ix d (snd s) p"
  then show "page_ok p" unfolding was_answered_def by (metis parse_batch_page)
qed (blast dest: logged_download_eq intro: logged_before_trans was_downloaded_later was_answered_later
      was_matched_later answered_backs logged_before_refl)+

lemma query_batch_answered:
  "query_batch_page parse_url (logged_post post) ix page_size d marker rank s = (Inr p, s')
     \<Longrightarrow> was_answered parse_url ix d (snd s') p \<and> logged_before s s'"
  unfolding was_answered_def query_batch_page_def
  by (auto simp: and_then_eq_Ok dest!: logged_post_eq)

subsection \<open>The seek returns a page that was answered\<close>

text \<open>
  The pages of a query whose transport remembers its calls: \<open>good\<close> pages were answered by the state
  at hand.
\<close>

locale growing_pages =
  fixes query :: "u64 \<Rightarrow> ('s, 'a query_page) call"
    and le :: "'s \<Rightarrow> 's \<Rightarrow> bool"
    and good :: "'s \<Rightarrow> 'a query_page \<Rightarrow> bool"
  assumes query_good: "query rank s = (Inr p, s') \<Longrightarrow> good s' p \<and> le s s'"
    and le_refl [simp]: "le s s"
    and le_trans: "le s t \<Longrightarrow> le t s' \<Longrightarrow> le s s'"
    and good_later: "good s p \<Longrightarrow> le s s' \<Longrightarrow> good s' p"
begin

lemma read_good:
  "read_original_asset_rank_page query rank n s = (Inr (page, m), s') \<Longrightarrow>
     good s' (pp_page page) \<and> le s s'"
  by (auto simp: read_page_eq_Ok dest: query_good)

lemma probe_older_page:
  "probe_older query w max_pages start_rank lower step n s = (Inr (l, page, m), s') \<Longrightarrow>
     good s' (pp_page page) \<and> le s s'"
proof (induction "unat max_pages - unat n" arbitrary: lower step n s rule: less_induct)
  case less
  note run = less.prems [unfolded probe_older.simps [of query w max_pages start_rank lower step n]]
  then have n: "\<not> max_pages \<le> n" by (auto split: if_splits)
  show ?case
    using run n less.hyps [OF pages_read_decreases [OF n]]
    by (auto simp: and_then_eq_Ok read_page_eq_Ok split: if_splits dest: query_good intro: le_trans)
qed

lemma bisect_older_page:
  "bisect_older query w max_pages lower upper n s = (Inr r, s') \<Longrightarrow> good s (pp_page upper)
     \<Longrightarrow> good s' (pp_page (sr_page r)) \<and> le s s'"
proof (induction "unat max_pages - unat n" arbitrary: lower upper n s rule: less_induct)
  case less
  note run = less.prems(1) [unfolded bisect_older.simps [of query w max_pages lower upper n] Let_def]
  show ?case
  proof (cases "saturating_add lower 1 < pp_start_rank upper")
    case True
    with run have n: "\<not> max_pages \<le> n" by (auto split: if_splits)
    show ?thesis
      using run True n less.prems(2) less.hyps [OF pages_read_decreases [OF n]]
      by (auto simp: and_then_eq_Ok read_page_eq_Ok split: if_splits
          dest!: query_good intro: le_trans good_later)
        (blast intro: le_trans good_later)+
  qed (use run less.prems(2) in auto)
qed

lemma probe_newer_page:
  "probe_newer query w max_pages upper step n s = (Inr (end, m), s') \<Longrightarrow> good s (pp_page upper)
     \<Longrightarrow> le s s' \<and> (case end of ReturnPage page \<Rightarrow> good s' (pp_page page)
          | LowerPage page upper \<Rightarrow> good s' (pp_page page) \<and> good s' (pp_page upper))"
proof (induction "unat max_pages - unat n" arbitrary: upper step n s rule: less_induct)
  case less
  note run = less.prems(1) [unfolded probe_newer.simps [of query w max_pages upper step n] Let_def]
  then have n: "\<not> max_pages \<le> n" by (auto split: if_splits)
  obtain p t1 where p: "query (saturating_sub (pp_start_rank upper) step) s = (Inr p, t1)"
    using run n by (auto simp: and_then_eq_Ok read_page_eq_Ok)
  have t1: "good t1 p" "le s t1" "good t1 (pp_page upper)"
    using query_good [OF p] good_later [OF less.prems(2)] by blast+
  show ?case
    using run n p t1 less.hyps [OF pages_read_decreases [OF n]]
    by (auto simp: and_then_eq_Ok read_page_eq_Ok split: if_splits intro: le_trans)
qed

lemma bisect_newer_page:
  "bisect_newer query w max_pages lower upper n s = (Inr r, s') \<Longrightarrow> good s (pp_page upper)
     \<Longrightarrow> good s' (pp_page (sr_page r)) \<and> le s s'"
proof (induction "unat max_pages - unat n" arbitrary: lower upper n s rule: less_induct)
  case less
  note run = less.prems(1) [unfolded bisect_newer.simps [of query w max_pages lower upper n] Let_def]
  show ?case
  proof (cases "saturating_add lower 1 < pp_start_rank upper")
    case True
    with run have n: "\<not> max_pages \<le> n" by (auto split: if_splits)
    obtain p t1 where p: "query (middle_rank lower (pp_start_rank upper)) s = (Inr p, t1)"
      using run True n by (auto simp: and_then_eq_Ok read_page_eq_Ok)
    have t1: "good t1 p" "le s t1" "good t1 (pp_page upper)"
      using query_good [OF p] good_later [OF less.prems(2)] by blast+
    show ?thesis
      using run True n p t1 less.hyps [OF pages_read_decreases [OF n]]
      by (auto simp: and_then_eq_Ok read_page_eq_Ok split: page_position.splits if_splits
          intro: le_trans)
  qed (use run less.prems(2) in auto)
qed

lemma seek_newer_page:
  assumes run: "seek_toward_newer query first page_size max_pages w n s = (Inr r, s')"
    and good: "good s (pp_page first)"
  shows "good s' (pp_page (sr_page r)) \<and> le s s'"
proof (cases "pp_start_rank first = 0")
  case True
  with run good show ?thesis by (auto simp: seek_toward_newer_def)
next
  case False
  with run obtain final m t where
    probe: "probe_newer query w max_pages first (first_step (pp_page first) page_size) n s
      = (Inr (final, m), t)"
    and rest: "(case final of
         ReturnPage page \<Rightarrow> now (Ok \<lparr>sr_page = page, sr_pages_read = m\<rparr>)
       | LowerPage lower_page upper_page \<Rightarrow>
           if position_against (pp_page lower_page) w \<noteq> TooNew
           then now (Ok \<lparr>sr_page = lower_page, sr_pages_read = m\<rparr>)
           else bisect_newer query w max_pages (pp_start_rank lower_page) upper_page m) t = (Inr r, s')"
    by (auto simp: seek_toward_newer_def and_then_eq_Ok)
  note ends = probe_newer_page [OF probe good]
  show ?thesis
  proof (cases final)
    case (ReturnPage page)
    with rest ends show ?thesis by auto
  next
    case (LowerPage lower upper)
    with rest ends show ?thesis
      by (auto split: if_splits dest!: bisect_newer_page intro: le_trans)
  qed
qed

lemma seek_page:
  assumes "seek_original_asset_query_page query start_rank page_size max_pages w s = (Inr r, s')"
  shows "good s' (pp_page (sr_page r)) \<and> le s s'"
proof -
  obtain first n t where first: "read_original_asset_rank_page query start_rank 0 s = (Inr (first, n), t)"
    and run: "(case position_against (pp_page first) w of
         TooNew \<Rightarrow>
           and_then (probe_older query w max_pages start_rank start_rank (first_step (pp_page first) page_size) n)
             (\<lambda>(lower_rank, upper_page, n). bisect_older query w max_pages lower_rank upper_page n)
       | TooOld \<Rightarrow> seek_toward_newer query first page_size max_pages w n
       | _ \<Rightarrow> now (Ok \<lparr>sr_page = first, sr_pages_read = n\<rparr>)) t = (Inr r, s')"
    using assms by (auto simp: seek_original_asset_query_page_def and_then_eq_Ok)
  note good = read_good [OF first]
  show ?thesis
  proof (cases "position_against (pp_page first) w")
    case TooNew
    with run obtain l page m t2 where
      probe: "probe_older query w max_pages start_rank start_rank (first_step (pp_page first) page_size) n t
        = (Inr (l, page, m), t2)"
      and bisect: "bisect_older query w max_pages l page m t2 = (Inr r, s')"
      by (auto simp: and_then_eq_Ok)
    with probe_older_page [OF probe] bisect_older_page [OF bisect] good show ?thesis
      by (blast intro: le_trans)
  next
    case TooOld
    with run have "seek_toward_newer query first page_size max_pages w n t = (Inr r, s')" by simp
    from seek_newer_page [OF this] good show ?thesis by (blast intro: le_trans)
  qed (use run good in auto)
qed

end

interpretation answered: growing_pages
    "query_batch_page parse_url (logged_post post) ix page_size d marker" logged_before
    "\<lambda>s. was_answered parse_url ix d (snd s)"
  for parse_url post ix page_size d marker
  by unfold_locales
    (blast intro: query_batch_answered logged_before_trans was_answered_later logged_before_refl
      dest: query_batch_answered)+

subsection \<open>Ambiguous groups\<close>

definition group_found :: "cohort_work list \<Rightarrow> match_group \<Rightarrow> bool" where
  "group_found works g \<longleftrightarrow>
     mg_cohort_index g < length works
     \<and> bt_contains (matches_of (mg_kind g) (works ! mg_cohort_index g)) (mg_key g)"

definition groups_found :: "cohort_work list \<Rightarrow> claims \<times> match_group set \<Rightarrow> bool" where
  "groups_found works acc \<longleftrightarrow>
     (\<forall>p\<in>set (fst acc). \<forall>g\<in>snd p. group_found works g) \<and> (\<forall>g\<in>snd acc. group_found works g)"

lemma fold_preserves: "P acc \<Longrightarrow> (\<And>x acc. x \<in> set xs \<Longrightarrow> P acc \<Longrightarrow> P (f x acc)) \<Longrightarrow> P (fold f xs acc)"
  by (induction xs arbitrary: acc) auto

lemma claims_found:
  fixes cs :: claims
  assumes "\<forall>p\<in>set cs. \<forall>g\<in>snd p. group_found works g" "group_found works g"
  shows "\<forall>p\<in>set (fold (claim g) ids cs). \<forall>g\<in>snd p. group_found works g"
  using assms(1)
proof (rule fold_preserves)
  fix identity :: string and cs :: claims
  assume cs: "\<forall>p\<in>set cs. \<forall>g\<in>snd p. group_found works g"
  have "\<forall>g\<in>case_option {} id (bt_get cs identity). group_found works g"
    using cs by (auto simp: bt_get_def split: option.split dest: map_of_SomeD)
  then show "\<forall>p\<in>set (claim g identity cs). \<forall>g\<in>snd p. group_found works g"
    using cs assms(2) by (auto simp: claim_def dest!: bt_insert_mem)
qed

lemma add_group_found:
  assumes "groups_found works acc" "ci < length works" "entry \<in> set (matches_of kind (works ! ci))"
  shows "groups_found works (add_group ci kind counts entry acc)"
proof -
  obtain key candidates where entry: "entry = (key, candidates)" by (cases entry)
  have "group_found works (MatchGroup ci kind key)"
    using assms(2,3) unfolding entry group_found_def by (force simp: bt_contains_keys bt_keys_def)
  note g = this
  obtain cs amb where acc: "acc = (cs, amb)" by (cases acc)
  have old: "\<forall>p\<in>set cs. \<forall>g\<in>snd p. group_found works g" "\<forall>g\<in>amb. group_found works g"
    using assms(1) by (auto simp: groups_found_def acc)
  show ?thesis
    unfolding groups_found_def add_group_def entry acc prod.case Let_def fst_conv snd_conv
    using claims_found [OF old(1) g] old(2) g by simp
qed

lemma ambiguous_groups_found:
  assumes "g \<in> ambiguous_groups works cohorts"
  shows "group_found works g"
proof -
  let ?acc = "fold add_cohort_groups (enumerate 0 (zip works cohorts)) ([], {})"
  have "groups_found works ?acc"
  proof (rule fold_preserves)
    show "groups_found works ([], {})" by (simp add: groups_found_def)
  next
    fix x acc
    assume x: "x \<in> set (enumerate 0 (zip works cohorts))" and acc: "groups_found works acc"
    obtain ci work cohort where xs: "x = (ci, work, cohort)" by (cases x)
    from x have ci: "ci < length works" "work = works ! ci"
      unfolding xs by (auto simp: in_set_enumerate_eq)
    have raw: "groups_found works (fold (add_group ci RawKind (tc_raw_target_counts cohort)) (cw_raw_matches work) acc)"
      using acc by (rule fold_preserves) (use ci in \<open>auto intro: add_group_found\<close>)
    show "groups_found works (add_cohort_groups x acc)"
      unfolding add_cohort_groups_def xs prod.case
      using raw by (rule fold_preserves) (use ci in \<open>auto intro: add_group_found\<close>)
  qed
  moreover obtain cs amb where acc: "?acc = (cs, amb)" by (cases ?acc)
  ultimately have found: "\<forall>p\<in>set cs. \<forall>g\<in>snd p. group_found works g" "\<forall>g\<in>amb. group_found works g"
    by (auto simp: groups_found_def)
  have "\<forall>g\<in>fold (\<lambda>gs amb. if 1 < card gs then amb \<union> gs else amb) (bt_values cs) amb. group_found works g"
    by (rule fold_preserves) (use found in \<open>auto simp: bt_values_def\<close>)
  then show ?thesis using assms unfolding ambiguous_groups_def acc by simp
qed

lemma ambiguous_target:
  assumes "target_is_ambiguous (ambiguous_groups works cohorts) ci t"
  shows "bt_contains (cw_raw_matches (works ! ci)) (raw_key t)
    \<or> (\<exists>k. replacement_key t = Some k \<and> bt_contains (cw_replacement_matches (works ! ci)) k)"
  using assms
  by (auto simp: target_is_ambiguous_def split: option.splits
      dest!: ambiguous_groups_found simp: group_found_def)

text \<open>Contents found in more than one place, or asked for by more than one target, are ambiguous.\<close>

lemma fold_reaches:
  assumes "x \<in> set xs" "\<And>acc. Q (f x acc)" "\<And>y acc. Q acc \<Longrightarrow> Q (f y acc)"
  shows "Q (fold f xs acc)"
  using assms(1)
proof (induction xs arbitrary: acc)
  case (Cons y ys)
  have stays: "Q (fold f zs acc)" if "Q acc" for zs acc
    using that by (rule fold_preserves) (rule assms(3))
  show ?case using Cons assms(2) stays by (cases "x = y") auto
qed simp

lemma add_group_keeps: "g \<in> snd acc \<Longrightarrow> g \<in> snd (add_group ci kind counts entry acc)"
  by (auto simp: add_group_def Let_def split: prod.splits)

lemma add_groups_keep: "g \<in> snd acc \<Longrightarrow> g \<in> snd (fold (add_group ci kind counts) entries acc)"
  by (rule fold_preserves) (auto intro: add_group_keeps)

lemma add_cohort_groups_keep: "g \<in> snd acc \<Longrightarrow> g \<in> snd (add_cohort_groups x acc)"
  by (auto simp: add_cohort_groups_def split: prod.splits intro: add_groups_keep)

lemma several_matches_ambiguous:
  assumes "ci < length works" "length works = length cohorts"
    and "bt_get (matches_of kind (works ! ci)) key = Some ms" "1 < length ms"
  shows "MatchGroup ci kind key \<in> ambiguous_groups works cohorts"
proof -
  let ?g = "MatchGroup ci kind key"
  let ?acc = "fold add_cohort_groups (enumerate 0 (zip works cohorts)) ([], {})"
  have entry: "(key, ms) \<in> set (matches_of kind (works ! ci))"
    using assms(3) by (auto simp: bt_get_def dest: map_of_SomeD)
  have added: "?g \<in> snd (fold (add_group ci kind counts) (matches_of kind (works ! ci)) acc)" for counts acc
    using entry by (rule fold_reaches) (use assms(4) in \<open>auto simp: add_group_def Let_def split: prod.splits\<close>)
  have "?g \<in> snd (add_cohort_groups (ci, works ! ci, cohorts ! ci) acc)" for acc
  proof (cases kind)
    case RawKind
    show ?thesis
      unfolding add_cohort_groups_def prod.case
      by (rule add_groups_keep) (use added RawKind in simp)
  next
    case ReplacementKind
    show ?thesis
      unfolding add_cohort_groups_def prod.case using added ReplacementKind by simp
  qed
  moreover have "(ci, works ! ci, cohorts ! ci) \<in> set (enumerate 0 (zip works cohorts))"
    using assms(1,2) by (simp add: in_set_enumerate_eq)
  ultimately have "?g \<in> snd ?acc"
    using fold_reaches [of "(ci, works ! ci, cohorts ! ci)" _ "\<lambda>acc. ?g \<in> snd acc" add_cohort_groups]
      add_cohort_groups_keep by blast
  moreover obtain cs amb where acc: "?acc = (cs, amb)" by (cases ?acc)
  ultimately have "?g \<in> amb" by simp
  then have "?g \<in> fold (\<lambda>gs amb. if 1 < card gs then amb \<union> gs else amb) (bt_values cs) amb"
    by (rule fold_preserves) auto
  then show ?thesis unfolding ambiguous_groups_def acc by simp
qed

subsection \<open>One target\<close>

lemma unique_match_Some: "unique_match ms = Some m \<longleftrightarrow> (\<exists>i. ms = Some [(i, m)])"
  by (auto simp: unique_match_def split: option.splits list.splits)

lemma no_unique_match: "unique_match ms = None \<Longrightarrow> ms = Some cs \<Longrightarrow> cs \<noteq> [] \<Longrightarrow> 1 < length cs"
  by (auto simp: unique_match_def split: list.splits prod.splits)

text \<open>
  The observations of a resolution agree with its disposition, whatever was found, if the work of its
  cohort is in order and contents found more than once are ambiguous.
\<close>

lemma resolution_coherent:
  assumes ok: "work_ok E ci w" and w: "w = works ! ci" "ci < length works" "length works = length cohorts"
  shows "validate_disposition_evidence a
    (resolve_target_in (ambiguous_groups works cohorts) transient d ci w t) = Ok ()"
proof -
  define amb where "amb = target_is_ambiguous (ambiguous_groups works cohorts) ci t"
  define ob where "ob = target_observations (ambiguous_groups works cohorts) ci w t"
  define raw where "raw = bt_get (cw_raw_matches w) (raw_key t)"
  define rep where "rep = target_replacement_matches w t"
  have fields: "ro_date_candidates ob = ro_date_candidates (cw_observations w)"
    "ro_raw_resources ob = ro_raw_resources (cw_observations w)"
    "ro_raw_size_matches ob \<noteq> 0 \<longleftrightarrow> size_seen (cw_raw_size_matches w) (rt_raw_size_bytes t)"
    "ro_raw_hash_matches ob = case_option 0 len_u64 raw"
    "ro_replacement_resource_matches ob = case_option 0 len_u64 rep"
    "ro_ambiguity_evidence ob = (if amb then 1 else 0)"
    using ok by (simp_all add: ob_def target_observations_def size_seen_def raw_def rep_def amb_def work_ok_def)
  have mismatches: "\<not> target_is_incomplete w t \<Longrightarrow> ro_download_size_mismatches ob = 0"
    by (auto simp: ob_def target_observations_def target_is_incomplete_def bt_contains_def split: option.splits)
  have raw_ok: "raw = Some ms \<Longrightarrow> ms \<noteq> [] \<and> ro_date_candidates ob \<noteq> 0 \<and> ro_raw_resources ob \<noteq> 0
      \<and> ro_raw_size_matches ob \<noteq> 0 \<and> (\<not> amb \<longrightarrow> length ms = 1)" for ms
  proof -
    assume r: "raw = Some ms"
    then have get: "bt_get (matches_of RawKind w) (raw_key t) = Some ms" by (simp add: raw_def)
    then have "ms \<noteq> []" "date_noted w RawKind (mk_size_bytes (raw_key t))"
      using ok unfolding work_ok_def by blast+
    then have "ms \<noteq> []" "ro_date_candidates ob \<noteq> 0" "ro_raw_size_matches ob \<noteq> 0"
      unfolding fields date_noted_def raw_key_def by auto
    moreover from this(3) have "ro_raw_resources ob \<noteq> 0" using ok unfolding work_ok_def fields by blast
    moreover have "length ms = 1" if "\<not> amb"
    proof (rule ccontr)
      assume "length ms \<noteq> 1"
      then have "1 < length ms" using \<open>ms \<noteq> []\<close> by (cases ms) auto
      then have "MatchGroup ci RawKind (raw_key t) \<in> ambiguous_groups works cohorts"
        using several_matches_ambiguous [OF w(2,3)] get w(1) by blast
      with that show False by (simp add: amb_def target_is_ambiguous_def)
    qed
    ultimately show ?thesis by blast
  qed
  have rep_ok: "rep = Some ms \<Longrightarrow> ms \<noteq> [] \<and> ro_date_candidates ob \<noteq> 0 \<and> (\<not> amb \<longrightarrow> length ms = 1)
      \<and> rt_replacement_candidate t \<noteq> None" for ms
  proof -
    assume "rep = Some ms"
    then obtain k where k: "replacement_key t = Some k"
      and get: "bt_get (matches_of ReplacementKind w) k = Some ms"
      by (auto simp: rep_def target_replacement_matches_def bind_eq_Some_conv)
    then have "ms \<noteq> []" "date_noted w ReplacementKind (mk_size_bytes k)"
      using ok unfolding work_ok_def by blast+
    moreover have "length ms = 1" if "\<not> amb"
    proof (rule ccontr)
      assume "length ms \<noteq> 1"
      then have "1 < length ms" using \<open>ms \<noteq> []\<close> by (cases ms) auto
      then have "MatchGroup ci ReplacementKind k \<in> ambiguous_groups works cohorts"
        using several_matches_ambiguous [OF w(2,3)] get w(1) by blast
      with that k show False by (simp add: amb_def target_is_ambiguous_def)
    qed
    moreover have "rt_replacement_candidate t \<noteq> None" using k by (auto simp: replacement_key_def)
    ultimately show ?thesis by (simp add: fields date_noted_def)
  qed
  have sizes: "ro_raw_size_matches ob \<noteq> 0 \<Longrightarrow> ro_raw_resources ob \<noteq> 0"
    "ro_raw_resources ob \<noteq> 0 \<Longrightarrow> ro_date_candidates ob \<noteq> 0"
    using ok unfolding work_ok_def fields by blast+
  have amb_ok: "amb \<Longrightarrow> (\<exists>ms. raw = Some ms) \<or> (\<exists>ms. rep = Some ms)"
    using ambiguous_target [of works cohorts ci t]
    by (auto simp: amb_def raw_def rep_def w(1) bt_contains_def target_replacement_matches_def)
  have disposition: "rn_disposition (resolve_target_in (ambiguous_groups works cohorts) transient d ci w t)
      = target_disposition (transient \<or> target_is_incomplete w t) amb ob w d t"
    "rn_observations (resolve_target_in (ambiguous_groups works cohorts) transient d ci w t) = ob"
    by (simp_all add: resolve_target_in_def amb_def ob_def Let_def)
  show ?thesis
  proof (cases "transient \<or> target_is_incomplete w t")
    case True
    then show ?thesis
      by (simp add: validate_disposition_evidence_def disposition target_disposition_def)
  next
    case False
    then have dl: "ro_download_size_mismatches ob = 0" using mismatches by blast
    note defs = target_disposition_def evidence_is_coherent_def
      observations_def word_gt_0 raw_def [symmetric] rep_def [symmetric]
    show ?thesis
    proof (cases amb)
      case True
      have "ro_date_candidates ob \<noteq> 0" "ro_raw_hash_matches ob \<noteq> 0 \<or> ro_replacement_resource_matches ob \<noteq> 0"
        using amb_ok [OF True] raw_ok rep_ok unfolding fields(4,5) by fastforce+
      with False True dl show ?thesis
        unfolding validate_disposition_evidence_def disposition by (simp add: defs fields(6))
    next
      case unambiguous: False
      consider "raw = None" | i m where "raw = Some [(i, m)]"
        using raw_ok unambiguous by (cases raw) (auto simp: length_Suc_conv)
      note raws = this
      consider "rep = None" | c i m where "rep = Some [(i, m)]" "rt_replacement_candidate t = Some c"
        using rep_ok unambiguous by (cases rep) (auto simp: length_Suc_conv)
      then show ?thesis
      proof cases
        case 1
        with raws show ?thesis
        proof cases
          case 1
          with \<open>rep = None\<close> False unambiguous dl sizes show ?thesis
            unfolding validate_disposition_evidence_def disposition
            by (auto simp: defs fields(4-6) unique_match_def)
        next
          case (2 i m)
          with \<open>rep = None\<close> False unambiguous dl raw_ok [of "[(i, m)]"] show ?thesis
            unfolding validate_disposition_evidence_def disposition
            by (simp add: defs fields(4-6) unique_match_def)
        qed
      next
        case c: (2 c i m)
        with raws show ?thesis
        proof cases
          case 1
          with c False unambiguous dl rep_ok [of "[(i, m)]"] show ?thesis
            unfolding validate_disposition_evidence_def disposition
            by (simp add: defs fields(4-6) unique_match_def)
        next
          case (2 j n)
          with c False unambiguous dl raw_ok [of "[(j, n)]"] show ?thesis
            unfolding validate_disposition_evidence_def disposition
            by (simp add: defs fields(4-6) unique_match_def)
        qed
      qed
    qed
  qed
qed

subsection \<open>A whole run\<close>

lemma resolution_of:
  assumes "bt_get (bo_resolutions (build_batch_resolve_outcome sha256 request ix w d works inventory complete transient)) a
      = Some r"
  obtains i where "i < length (br_targets request)" "a = rt_asset_id (br_targets request ! i)"
    "r = resolve_target_in (ambiguous_groups works (ti_cohorts ix)) transient d
           (ti_target_cohort_indexes ix ! i) (works ! (ti_target_cohort_indexes ix ! i)) (br_targets request ! i)"
proof -
  have "(a, r) \<in> set (map (\<lambda>(i, t).
             let ci = ti_target_cohort_indexes ix ! i in
             (rt_asset_id t, resolve_target_in (ambiguous_groups works (ti_cohorts ix)) transient d ci (works ! ci) t))
           (enumerate 0 (br_targets request)))"
    using assms by (auto simp: build_batch_resolve_outcome_def Let_def bt_get_from dest!: map_of_SomeD)
  then show ?thesis using that by (auto simp: Let_def in_set_enumerate_eq)
qed

lemma batch_outcome_built:
  assumes "resolve_original_assets_batch_outcome sha256 parse_url (logged_post post) (logged_download download)
    session request (t, []) = (Inr outcome, (t', log))"
  defines "ix \<equiv> new_target_index (br_targets request)" and "d \<equiv> ds_zone session"
  obtains works inventory complete where
    "outcome = build_batch_resolve_outcome sha256 request ix (index_date_window ix) d works inventory complete (\<not> complete)"
    "works_ok (was_matched parse_url ix d log) works" "length works = length (ti_cohorts ix)"
proof -
  let ?query = "query_batch_page parse_url (logged_post post) ix (br_page_size request) d None"
  let ?seek = "seek_original_asset_query_page ?query
      (br_start_rank request) (br_page_size request) (br_max_pages request) (index_date_window ix) (t, [])"
  let ?works = "replicate (cohort_count ix) no_work"
  let ?build = "build_batch_resolve_outcome sha256 request ix (index_date_window ix) d"
  have len: "length ?works = length (ti_cohorts ix)" by (simp add: cohort_count_def)
  from assms(1) have run: "(case ?seek of
          (Inl (OriginalAssetResolveIncomplete _), t') \<Rightarrow> (Ok (?build ?works {} False True), t')
        | (Inl e, t') \<Rightarrow> (Err e, t')
        | (Inr found, t') \<Rightarrow>
            and_then
              (scan_batch parse_url (logged_post post) (logged_download download) request ix d
                (index_date_window ix) (sr_page found)
                \<lparr>bs_work = ?works, bs_cache = Map.empty, bs_inventory = {}\<rparr> (sr_pages_read found))
              (\<lambda>(s, exhausted).
                 now (Ok (?build (bs_work s) (bs_inventory s) exhausted (\<not> exhausted)))) t') = (Inr outcome, (t', log))"
    unfolding resolve_original_assets_batch_outcome_def now_then_eq_Ok Let_def ix_def d_def
    by (elim exE conjE)
  show ?thesis
  proof (rule prod.exhaust [of ?seek])
    fix r s1
    assume Pair: "?seek = (r, s1)"
    show ?thesis
    proof (cases r)
      case (Inl e)
      with run Pair have "outcome = ?build ?works {} False True"
        by (auto split: upload_error.splits)
      then show ?thesis using that [of ?works "{}" False] no_work_ok len by simp
    next
      case (Inr found)
      with run Pair obtain s exhausted where
        s: "scan_batch parse_url (logged_post post) (logged_download download) request ix d
              (index_date_window ix) (sr_page found)
              \<lparr>bs_work = ?works, bs_cache = Map.empty, bs_inventory = {}\<rparr> (sr_pages_read found) s1
            = (Inr (s, exhausted), (t', log))"
        and outcome: "outcome = ?build (bs_work s) (bs_inventory s) exhausted (\<not> exhausted)"
        by (auto simp: and_then_eq_Ok)
      have page: "was_answered parse_url ix d (snd s1) (pp_page (sr_page found))"
        using answered.seek_page [OF Pair [unfolded Inr]] by blast
      have start: "scan_ok (was_downloaded (snd s1)) (was_matched parse_url ix d (snd s1))
          \<lparr>bs_work = ?works, bs_cache = Map.empty, bs_inventory = {}\<rparr>"
        by (simp add: scan_ok_def no_work_ok)
      have "scan_ok (was_downloaded log) (was_matched parse_url ix d log) s \<and> length (bs_work s) = length ?works"
        using scanned.scan_batch_ok [OF query_batch_answered s start page] by simp
      then show ?thesis using that [OF outcome] len by (simp add: scan_ok_def)
    qed
  qed
qed

text \<open>
  A proof of an original for a target: an asset of an answer, captured within the target's tolerance,
  that offers a resource of the kind, whose own URL was fetched in the run and gave bytes of the target's
  size and hash. Likewise for a replacement, with the field of the resource.
\<close>

definition asset_proves ::
  "url_parser \<Rightarrow> transport_event list \<Rightarrow> cloudkit_library_destination \<Rightarrow> resolve_target \<Rightarrow> candidate_kind
     \<Rightarrow> string \<Rightarrow> u64 \<Rightarrow> string \<Rightarrow> string \<Rightarrow> string \<Rightarrow> bool"
where
  "asset_proves parse_url log d target kind field bytes sha256 name tag \<longleftrightarrow>
     (\<exists>asset r. asset_holds parse_url log d asset r sha256
        \<and> rx_kind r = kind \<and> rx_field r = field \<and> rx_size_bytes r = bytes
        \<and> asset_date_matches (ca_asset_date_unix_seconds asset) (rt_source_captured_unix_seconds target)
            (rt_capture_tolerance_seconds target)
        \<and> ca_record_name asset = name \<and> ca_record_change_tag asset = tag)"

definition original_is_proven ::
  "url_parser \<Rightarrow> transport_event list \<Rightarrow> cloudkit_library_destination \<Rightarrow> resolve_target
     \<Rightarrow> original_asset_proof \<Rightarrow> bool"
where
  "original_is_proven parse_url log d target p \<longleftrightarrow>
     (\<exists>field. asset_proves parse_url log d target RawKind field (oa_size_bytes p) (oa_matched_raw_sha256 p)
        (oa_record_name p) (oa_record_change_tag p))
     \<and> validate_exact_original_proof (rt_asset_id target) p target d
       = fail_if (\<not> is_safe_identity (oa_record_name p) \<or> \<not> is_safe_identity (oa_record_change_tag p))
           (InvalidResolutionProof (rt_asset_id target) ''exact original proof does not bind the target and destination'')"

definition replacement_is_proven ::
  "url_parser \<Rightarrow> transport_event list \<Rightarrow> cloudkit_library_destination \<Rightarrow> resolve_target
     \<Rightarrow> replacement_resource_proof \<Rightarrow> bool"
where
  "replacement_is_proven parse_url log d target q \<longleftrightarrow>
     asset_proves parse_url log d target ReplacementKind (rr_resource_field q) (rr_size_bytes q)
       (rr_matched_heic_sha256 q) (rr_record_name q) (rr_record_change_tag q)
     \<and> validate_replacement_proof (rt_asset_id target) q target d
       = fail_if (\<not> is_safe_identity (rr_record_name q) \<or> \<not> is_safe_identity (rr_record_change_tag q)
             \<or> \<not> is_safe_identity (rr_resource_field q))
           (InvalidResolutionProof (rt_asset_id target) ''replacement proof does not bind the target and destination'')"

lemma match_proves:
  assumes "work_ok (was_matched parse_url ix d log) ci w" "ix = new_target_index targets" "i < length targets"
    and "ci = ti_target_cohort_indexes ix ! i" "unique_match (bt_get (matches_of kind w) key) = Some m"
  shows "asset_proves parse_url log d (targets ! i) kind (rm_resource_field m) (mk_size_bytes key) (mk_sha256 key)
    (ra_asset_record_name (rm_asset m)) (ra_asset_record_change_tag (rm_asset m))"
proof -
  obtain j where "bt_get (matches_of kind w) key = Some [(j, m)]"
    using assms(5) by (auto simp: unique_match_Some)
  then have "was_matched parse_url ix d log ci kind key m"
    using assms(1) unfolding work_ok_def by fastforce
  then obtain asset r where a: "asset_holds parse_url log d asset r (mk_sha256 key)"
    "rx_kind r = kind" "rx_size_bytes r = mk_size_bytes key" "rx_field r = rm_resource_field m"
    "ra_asset_record_name (rm_asset m) = ca_record_name asset"
    "ra_asset_record_change_tag (rm_asset m) = ca_record_change_tag asset"
    "ci \<in> set (cohort_indexes_for_asset_date ix (ca_asset_date_unix_seconds asset))"
    unfolding was_matched_def by blast
  obtain q where q: "ti_target_cohort_indexes (new_target_index targets) ! i = q"
    "q < length (ti_cohorts (new_target_index targets))"
    "ti_cohorts (new_target_index targets) ! q
       = cohort_of_targets (target_window (targets ! i), map ((!) targets)
           (filter (\<lambda>j. target_window (targets ! j) = target_window (targets ! i)) [0..<length targets]))"
    using cohort_index_of_target [OF assms(3)] .
  have "asset_date_matches (ca_asset_date_unix_seconds asset) (rt_source_captured_unix_seconds (targets ! i))
      (rt_capture_tolerance_seconds (targets ! i))"
    using a(7) q unfolding assms(2,4) q(1) cohort_indexes_mem by (simp add: target_window_def window_admits_date)
  with a(1-6) show ?thesis unfolding asset_proves_def by auto
qed

lemma original_proof_proven:
  assumes "asset_proves parse_url log d target RawKind field (rt_raw_size_bytes target)
    (rt_matched_raw_sha256 target) (ra_asset_record_name (rm_asset m)) (ra_asset_record_change_tag (rm_asset m))"
  shows "original_is_proven parse_url log d target (original_proof_of target d m)"
  using assms by (auto simp: original_is_proven_def original_proof_of_def validate_exact_original_proof_def)

lemma replacement_proof_proven:
  assumes "asset_proves parse_url log d target ReplacementKind (rm_resource_field m) (rc_size_bytes c)
    (rc_sha256 c) (ra_asset_record_name (rm_asset m)) (ra_asset_record_change_tag (rm_asset m))"
    and "rt_replacement_candidate target = Some c"
  shows "replacement_is_proven parse_url log d target (replacement_proof_of c d m)"
  using assms by (simp add: replacement_is_proven_def replacement_proof_of_def validate_replacement_proof_def)

definition disposition_is_proven ::
  "url_parser \<Rightarrow> transport_event list \<Rightarrow> cloudkit_library_destination \<Rightarrow> resolve_target \<Rightarrow> resolve_disposition \<Rightarrow> bool"
where
  "disposition_is_proven parse_url log d target x \<longleftrightarrow>
     (case x of
        ResolvedExactOriginal p \<Rightarrow> original_is_proven parse_url log d target p
      | ResolvedReplacementPresent q \<Rightarrow> replacement_is_proven parse_url log d target q
      | ResolvedCoexistence p q \<Rightarrow>
          original_is_proven parse_url log d target p \<and> replacement_is_proven parse_url log d target q
      | _ \<Rightarrow> True)"

lemma target_disposition_proven:
  assumes raw: "\<And>m. unique_match (bt_get (cw_raw_matches w) (raw_key target)) = Some m \<Longrightarrow>
      original_is_proven parse_url log d target (original_proof_of target d m)"
    and replacement: "\<And>c m. rt_replacement_candidate target = Some c \<Longrightarrow>
      unique_match (bt_get (cw_replacement_matches w) (candidate_key c)) = Some m \<Longrightarrow>
      replacement_is_proven parse_url log d target (replacement_proof_of c d m)"
  shows "disposition_is_proven parse_url log d target (target_disposition transient ambiguous ob w d target)"
proof -
  have "unique_match (target_replacement_matches w target) = Some m \<Longrightarrow> rt_replacement_candidate target = Some c
      \<Longrightarrow> replacement_is_proven parse_url log d target (replacement_proof_of c d m)" for c m
    using replacement by (simp add: target_replacement_matches_def replacement_key_def)
  with raw show ?thesis
    unfolding disposition_is_proven_def target_disposition_def Let_def
    by (auto split: option.split)
qed

lemma logged_outcome_proven:
  assumes "resolve_original_assets_batch_outcome sha256 parse_url (logged_post post) (logged_download download)
      session request (t, []) = (Ok outcome, (t', log))"
    and "bt_get (bo_resolutions outcome) a = Some r"
  shows "validate_disposition_evidence a r = Ok ()
    \<and> (\<exists>target. target \<in> set (br_targets request) \<and> rt_asset_id target = a
         \<and> disposition_is_proven parse_url log (ds_zone session) target (rn_disposition r))"
proof -
  define ix where "ix = new_target_index (br_targets request)"
  let ?d = "ds_zone session"
  obtain works inventory complete where
    outcome: "outcome = build_batch_resolve_outcome sha256 request ix (index_date_window ix) ?d works inventory
      complete (\<not> complete)"
    and works: "works_ok (was_matched parse_url ix ?d log) works" "length works = length (ti_cohorts ix)"
    using batch_outcome_built [OF assms(1)] unfolding ix_def .
  obtain i where i: "i < length (br_targets request)" "a = rt_asset_id (br_targets request ! i)"
    "r = resolve_target_in (ambiguous_groups works (ti_cohorts ix)) (\<not> complete) ?d
           (ti_target_cohort_indexes ix ! i) (works ! (ti_target_cohort_indexes ix ! i)) (br_targets request ! i)"
    using resolution_of [OF assms(2) [unfolded outcome]] .
  let ?ci = "ti_target_cohort_indexes ix ! i" and ?t = "br_targets request ! i"
  have ci: "?ci < length works"
    using cohort_index_of_target [OF i(1)] works(2) unfolding ix_def by metis
  then have w: "work_ok (was_matched parse_url ix ?d log) ?ci (works ! ?ci)"
    using works(1) by (simp add: works_ok_def)
  have evidence: "validate_disposition_evidence a r = Ok ()"
    unfolding i(3) using w refl ci works(2) by (rule resolution_coherent)
  note proves = match_proves [OF w ix_def i(1) refl]
  have "disposition_is_proven parse_url log ?d ?t (rn_disposition r)"
    unfolding i(3) resolve_target_in_def Let_def asset_resolution.simps
  proof (rule target_disposition_proven)
    fix m
    assume "unique_match (bt_get (cw_raw_matches (works ! ?ci)) (raw_key ?t)) = Some m"
    then show "original_is_proven parse_url log ?d ?t (original_proof_of ?t ?d m)"
      using proves [of RawKind "raw_key ?t" m]
      by (intro original_proof_proven [of _ _ _ _ "rm_resource_field m"]) (simp add: raw_key_def)
  next
    fix c m
    assume c: "rt_replacement_candidate ?t = Some c"
      and "unique_match (bt_get (cw_replacement_matches (works ! ?ci)) (candidate_key c)) = Some m"
    then show "replacement_is_proven parse_url log ?d ?t (replacement_proof_of c ?d m)"
      using proves [of ReplacementKind "candidate_key c" m]
      by (intro replacement_proof_proven) (simp_all add: candidate_key_def)
  qed
  then show ?thesis using evidence i(1,2) by (intro conjI exI [of _ ?t]) simp_all
qed

text \<open>
  C24: A run of the batch resolver that returns has a log of its calls of the transport, on which
  every resolution of a target rests. It agrees with its own observations, as the reconciliation checks
  before it records anything. An original or replacement it names is an asset of some answer of this
  run, captured within the target's tolerance, that offers - itself or through its master in the same
  answer - a resource of that kind whose own URL was fetched in this run and gave bytes of the size and
  the hash of the proof; a replacement names the field of this resource. The proof binds the target and
  the session's library, so that the reconciliation refuses it only for names with control characters.
\<close>

theorem resolver_outcomes_are_proven:
  assumes "resolve_original_assets_batch_outcome sha256 parse_url post download session request t
      = (Ok outcome, t')"
    and "bt_get (bo_resolutions outcome) a = Some r"
  shows "validate_disposition_evidence a r = Ok ()
    \<and> (\<exists>log target. resolve_original_assets_batch_outcome sha256 parse_url (logged_post post)
           (logged_download download) session request (t, []) = (Ok outcome, (t', log))
         \<and> target \<in> set (br_targets request) \<and> rt_asset_id target = a
         \<and> disposition_is_proven parse_url log (ds_zone session) target (rn_disposition r))"
proof -
  obtain log where log: "resolve_original_assets_batch_outcome sha256 parse_url (logged_post post)
      (logged_download download) session request (t, []) = (Ok outcome, (t', log))"
    using assms(1) by (rule logged_run)
  from logged_outcome_proven [OF log assms(2)] log show ?thesis by blast
qed

end
