(* ===== verification/Resolver_Seek.thy ===== *)
theory Resolver_Seek
  imports Resolver
begin

section \<open>The resolver reads no more pages than allowed, and where it starts\<close>

text \<open>
  Accounting for pages: \<open>counted\<close> runs a transport with a counter of its queries, and \<open>accounts\<close> says that
  a call reads at most what is left of the limit and reports what it read. The locale \<open>counted_queries\<close>
  proves it for the seek over any query that costs one page; the queries of the two resolvers
  interpret it. Then the place the seek finds: over a library sorted by date it starts no later than
  the first asset of the window, unless it had to go back from a start that was too old.
\<close>

subsection \<open>Accounting\<close>

definition accounts :: "('s \<Rightarrow> nat) \<Rightarrow> nat \<Rightarrow> nat \<Rightarrow> ('a \<Rightarrow> nat) \<Rightarrow> ('s, 'a) call \<Rightarrow> bool" where
  "accounts reads limit n pages f \<longleftrightarrow>
     (\<forall>s e s'. f s = (Inl e, s') \<longrightarrow> reads s' + n \<le> reads s + limit)
     \<and> (\<forall>s x s'. f s = (Inr x, s') \<longrightarrow>
          reads s' + n \<le> reads s + pages x \<and> n \<le> pages x \<and> pages x \<le> limit)"

named_theorems account_intros \<open>how calls account for pages\<close>

lemma accounts_Err [account_intros]: "n \<le> limit \<Longrightarrow> accounts reads limit n pages (now (Err e))"
  by (simp add: accounts_def)

lemma accounts_Ok [account_intros]:
  "n \<le> limit \<Longrightarrow> pages x = n \<Longrightarrow> accounts reads limit n pages (now (Ok x))"
  by (simp add: accounts_def)

lemma accounts_and_then:
  assumes f: "accounts reads limit n pages f"
    and k: "\<And>x. n \<le> pages x \<Longrightarrow> pages x \<le> limit \<Longrightarrow> accounts reads limit (pages x) pages' (k x)"
  shows "accounts reads limit n pages' (and_then f k)"
  unfolding accounts_def and_then_eq_Ok and_then_eq_Err
proof (intro conjI allI impI; (elim exE conjE disjE)?)
  fix s e s'
  assume "f s = (Inl e, s')"
  then show "reads s' + n \<le> reads s + limit" using f unfolding accounts_def by blast
next
  fix s e s'' x s'
  assume fx: "f s = (Inr x, s')" and kx: "k x s' = (Inl e, s'')"
  from f fx have "reads s' + n \<le> reads s + pages x" "n \<le> pages x" "pages x \<le> limit"
    unfolding accounts_def by blast+
  moreover from this k kx have "reads s'' + pages x \<le> reads s' + limit"
    unfolding accounts_def by blast
  ultimately show "reads s'' + n \<le> reads s + limit" by linarith
next
  fix s y s'' x s'
  assume fx: "f s = (Inr x, s')" and kx: "k x s' = (Inr y, s'')"
  from f fx have fx': "reads s' + n \<le> reads s + pages x" "n \<le> pages x" "pages x \<le> limit"
    unfolding accounts_def by blast+
  moreover from this k kx have "reads s'' + pages x \<le> reads s' + pages' y" "pages x \<le> pages' y" "pages' y \<le> limit"
    unfolding accounts_def by blast+
  ultimately show "reads s'' + n \<le> reads s + pages' y" "n \<le> pages' y" "pages' y \<le> limit"
    by linarith+
qed

text \<open>A call that reads nothing.\<close>

definition reads_nothing :: "('s \<Rightarrow> nat) \<Rightarrow> ('s, 'a) call \<Rightarrow> bool" where
  "reads_nothing reads f \<longleftrightarrow> (\<forall>s r s'. f s = (r, s') \<longrightarrow> reads s' = reads s)"

lemma reads_nothing_now [account_intros]: "reads_nothing reads (now r)"
  by (simp add: reads_nothing_def)

lemma reads_nothing_and_then [account_intros]:
  assumes "reads_nothing reads f" "\<And>x. reads_nothing reads (k x)"
  shows "reads_nothing reads (and_then f k)"
  unfolding reads_nothing_def
proof (intro allI impI)
  fix s r s''
  assume fk: "and_then f k s = (r, s'')"
  obtain r' s' where f: "f s = (r', s')" by (cases "f s")
  then have s': "reads s' = reads s" using assms(1) unfolding reads_nothing_def by blast
  show "reads s'' = reads s"
  proof (cases r')
    case (Inl e)
    then show ?thesis using fk f s' by (simp add: and_then_def)
  next
    case (Inr x)
    then have "k x s' = (r, s'')" using fk f by (simp add: and_then_def)
    then show ?thesis using assms(2) s' unfolding reads_nothing_def by metis
  qed
qed

lemma reads_nothing_case [account_intros]:
  "(\<And>a b. reads_nothing reads (f a b)) \<Longrightarrow> reads_nothing reads (case p of (a, b) \<Rightarrow> f a b)"
  by (cases p) simp

lemma reads_nothing_call_fold [account_intros]:
  "(\<And>x s. reads_nothing reads (f x s)) \<Longrightarrow> reads_nothing reads (call_fold f xs s)"
  by (induction xs arbitrary: s) (auto intro: account_intros)

lemma accounts_nothing:
  "reads_nothing reads f \<Longrightarrow> n \<le> limit \<Longrightarrow> accounts reads limit n (\<lambda>_. n) f"
  unfolding accounts_def reads_nothing_def by fastforce

lemma accounts_then:
  assumes "reads_nothing reads f" "n \<le> limit" "\<And>x. accounts reads limit n pages (k x)"
  shows "accounts reads limit n pages (and_then f k)"
  using accounts_and_then [OF accounts_nothing [OF assms(1,2)]] assms(3) by blast

lemma accounts_cost:
  assumes "accounts reads limit n pages f"
  shows "reads (snd (f s)) + n \<le> reads s + limit"
proof -
  obtain r s' where f: "f s = (r, s')" by (cases "f s")
  then show ?thesis using assms unfolding accounts_def by (cases r) force+
qed

text \<open>Calls that end a run do not report what they read; they still keep within the limit.\<close>

definition spends :: "('s \<Rightarrow> nat) \<Rightarrow> nat \<Rightarrow> nat \<Rightarrow> ('s, 'a) call \<Rightarrow> bool" where
  "spends reads limit n f \<longleftrightarrow> (\<forall>s r s'. f s = (r, s') \<longrightarrow> reads s' + n \<le> reads s + limit)"

lemma spends_now [account_intros]: "n \<le> limit \<Longrightarrow> spends reads limit n (now r)"
  by (simp add: spends_def)

lemma spends_and_then:
  assumes f: "accounts reads limit n pages f"
    and k: "\<And>x. n \<le> pages x \<Longrightarrow> pages x \<le> limit \<Longrightarrow> spends reads limit (pages x) (k x)"
  shows "spends reads limit n (and_then f k)"
  unfolding spends_def
proof (intro allI impI)
  fix s r s''
  assume fk: "and_then f k s = (r, s'')"
  obtain r' s' where fs: "f s = (r', s')" by (cases "f s")
  show "reads s'' + n \<le> reads s + limit"
  proof (cases r')
    case (Inl e)
    then show ?thesis using f fk fs unfolding accounts_def by (auto simp: and_then_def)
  next
    case (Inr x)
    then have "reads s' + n \<le> reads s + pages x" "n \<le> pages x" "pages x \<le> limit"
      using f fs unfolding accounts_def by blast+
    moreover from Inr fk fs have "k x s' = (r, s'')" by (simp add: and_then_def)
    then have "reads s'' + pages x \<le> reads s' + limit"
      using k calculation(2,3) unfolding spends_def by blast
    ultimately show ?thesis by linarith
  qed
qed

lemma spends_then:
  "reads_nothing reads f \<Longrightarrow> n \<le> limit \<Longrightarrow> (\<And>x. spends reads limit n (k x))
    \<Longrightarrow> spends reads limit n (and_then f k)"
  by (rule spends_and_then [OF accounts_nothing]) auto

lemma spends_then_nothing:
  assumes f: "spends reads limit n f" and k: "\<And>x. reads_nothing reads (k x)"
  shows "spends reads limit n (and_then f k)"
  unfolding spends_def
proof (intro allI impI)
  fix s r s''
  assume fk: "and_then f k s = (r, s'')"
  obtain r' s' where fs: "f s = (r', s')" by (cases "f s")
  then have s': "reads s' + n \<le> reads s + limit" using f unfolding spends_def by blast
  show "reads s'' + n \<le> reads s + limit"
  proof (cases r')
    case (Inl e)
    then show ?thesis using fk fs s' by (simp add: and_then_def)
  next
    case (Inr x)
    then have "k x s' = (r, s'')" using fk fs by (simp add: and_then_def)
    then show ?thesis using k s' unfolding reads_nothing_def by metis
  qed
qed

lemma spends_cost: "spends reads limit n f \<Longrightarrow> reads (snd (f s)) + n \<le> reads s + limit"
  unfolding spends_def by (metis prod.collapse)

lemma unat_saturating_one:
  fixes a b :: u64
  assumes "unat a < unat b"
  shows "unat (saturating_add a 1) = Suc (unat a)"
proof -
  have "unat b < 2 ^ 64" using unsigned_less [of b] by simp
  then show ?thesis using assms by (simp add: unat_saturating_add min_def)
qed

lemma loop_pages:
  assumes "unat n \<le> unat (max_pages :: u64)" "\<not> max_pages \<le> n"
  shows "unat n < unat max_pages" "unat (saturating_add n 1) = Suc (unat n)"
    "unat max_pages - unat (saturating_add n 1) < unat max_pages - unat n"
    "unat (saturating_add n 1) \<le> unat max_pages"
proof -
  show n: "unat n < unat max_pages" using assms by (simp add: word_le_nat_alt)
  show "unat (saturating_add n 1) = Suc (unat n)" using unat_saturating_one [OF n] .
  with n show "unat max_pages - unat (saturating_add n 1) < unat max_pages - unat n"
    "unat (saturating_add n 1) \<le> unat max_pages" by simp_all
qed

subsection \<open>The seek accounts for its pages\<close>

locale counted_queries =
  fixes query :: "u64 \<Rightarrow> ('s, 'a query_page) call"
    and reads :: "'s \<Rightarrow> nat"
  assumes query_reads: "reads (snd (query rank s)) \<le> Suc (reads s)"
begin

lemma query_cost: "query rank s = (r, s') \<Longrightarrow> reads s' \<le> Suc (reads s)"
  using query_reads [of rank s] by simp

lemma accounts_read:
  assumes n: "unat n < unat (max_pages :: u64)"
    and k: "\<And>page. accounts reads (unat max_pages) (Suc (unat n)) pages
              (k (\<lparr>pp_start_rank = rank, pp_page = page\<rparr>, saturating_add n 1))"
  shows "accounts reads (unat max_pages) (unat n) pages
           (and_then (read_original_asset_rank_page query rank n) k)"
proof -
  have "accounts reads (unat max_pages) (unat n) (\<lambda>_. Suc (unat n)) (query rank)"
    using n query_cost by (fastforce simp: accounts_def)
  then have "accounts reads (unat max_pages) (unat n) pages
      (and_then (query rank) (\<lambda>page. k (\<lparr>pp_start_rank = rank, pp_page = page\<rparr>, saturating_add n 1)))"
    by (rule accounts_and_then) (rule k)
  moreover have "and_then (read_original_asset_rank_page query rank n) k
      = and_then (query rank) (\<lambda>page. k (\<lparr>pp_start_rank = rank, pp_page = page\<rparr>, saturating_add n 1))"
    by (auto simp: fun_eq_iff and_then_def read_original_asset_rank_page_def split: prod.splits sum.splits)
  ultimately show ?thesis by simp
qed

lemma probe_older_accounts:
  "unat n \<le> unat max_pages \<Longrightarrow>
     accounts reads (unat max_pages) (unat n) (\<lambda>(_, _, m). unat m)
       (probe_older query w max_pages start_rank lower_rank step n)"
proof (induction "unat max_pages - unat n" arbitrary: lower_rank step n rule: less_induct)
  case less
  show ?case
  proof (cases "max_pages \<le> n")
    case True
    with less.prems show ?thesis by (subst probe_older.simps) (simp add: account_intros)
  next
    case False
    note n = loop_pages [OF less.prems False]
    have go_on: "accounts reads (unat max_pages) (Suc (unat n)) (\<lambda>(_, _, m). unat m)
        (and_then (now (double_step step)) (\<lambda>step'.
           probe_older query w max_pages start_rank rank step' (saturating_add n 1)))" for rank
      using less.hyps [OF n(3,4)] n(1,2) by (intro accounts_then account_intros) simp_all
    show ?thesis
      unfolding probe_older.simps [of query w max_pages start_rank lower_rank step n] if_not_P [OF False]
      by (intro accounts_then accounts_read account_intros less.prems n(1))
        (use n(1,2) go_on in \<open>simp add: account_intros\<close>)
  qed
qed

lemma bisect_older_accounts:
  "unat n \<le> unat max_pages \<Longrightarrow>
     accounts reads (unat max_pages) (unat n) (\<lambda>r. unat (sr_pages_read r))
       (bisect_older query w max_pages lower_rank upper_page n)"
proof (induction "unat max_pages - unat n" arbitrary: lower_rank upper_page n rule: less_induct)
  case less
  show ?case
  proof (cases "max_pages \<le> n \<or> \<not> saturating_add lower_rank 1 < pp_start_rank upper_page")
    case True
    with less.prems show ?thesis by (subst bisect_older.simps) (auto simp: account_intros)
  next
    case False
    then have False': "\<not> max_pages \<le> n" "saturating_add lower_rank 1 < pp_start_rank upper_page" by auto
    note n = loop_pages [OF less.prems False'(1)]
    show ?thesis
      by (subst bisect_older.simps, unfold Let_def)
        (use False' n(1,2) less.hyps [OF n(3,4)] in \<open>auto intro!: accounts_read simp: not_le\<close>)
  qed
qed

lemma probe_newer_accounts:
  "unat n \<le> unat max_pages \<Longrightarrow>
     accounts reads (unat max_pages) (unat n) (\<lambda>(_, m). unat m)
       (probe_newer query w max_pages upper_page step n)"
proof (induction "unat max_pages - unat n" arbitrary: upper_page step n rule: less_induct)
  case less
  show ?case
  proof (cases "max_pages \<le> n")
    case True
    with less.prems show ?thesis by (subst probe_newer.simps) (simp add: account_intros)
  next
    case False
    note n = loop_pages [OF less.prems False]
    have go_on: "accounts reads (unat max_pages) (Suc (unat n)) (\<lambda>(_, m). unat m)
        (and_then (now (double_step step)) (\<lambda>step'.
           probe_newer query w max_pages page step' (saturating_add n 1)))" for page
      using less.hyps [OF n(3,4)] n(1,2) by (intro accounts_then account_intros) simp_all
    show ?thesis
      unfolding probe_newer.simps [of query w max_pages upper_page step n] if_not_P [OF False] Let_def
      by (intro accounts_read n(1)) (use n(1,2) go_on in \<open>simp add: account_intros\<close>)
  qed
qed

lemma bisect_newer_accounts:
  "unat n \<le> unat max_pages \<Longrightarrow>
     accounts reads (unat max_pages) (unat n) (\<lambda>r. unat (sr_pages_read r))
       (bisect_newer query w max_pages lower_rank upper_page n)"
proof (induction "unat max_pages - unat n" arbitrary: lower_rank upper_page n rule: less_induct)
  case less
  show ?case
  proof (cases "max_pages \<le> n \<or> \<not> saturating_add lower_rank 1 < pp_start_rank upper_page")
    case True
    with less.prems show ?thesis by (subst bisect_newer.simps) (auto simp: account_intros)
  next
    case False
    then have False': "\<not> max_pages \<le> n" "saturating_add lower_rank 1 < pp_start_rank upper_page" by auto
    note n = loop_pages [OF less.prems False'(1)]
    show ?thesis
      by (subst bisect_newer.simps, unfold Let_def)
        (use False' n(1,2) less.hyps [OF n(3,4)] in
          \<open>auto intro!: accounts_read account_intros simp: not_le split: page_position.split\<close>)
  qed
qed

lemma spends_query:
  fixes n max_pages :: u64
  assumes n: "unat n < unat max_pages"
    and k: "\<And>page. spends reads (unat max_pages) (Suc (unat n)) (k page)"
  shows "spends reads (unat max_pages) (unat n) (and_then (query rank) k)"
proof (rule spends_and_then)
  show "accounts reads (unat max_pages) (unat n) (\<lambda>_. Suc (unat n)) (query rank)"
    using n query_cost by (fastforce simp: accounts_def)
qed (rule k)

lemma seek_accounts:
  assumes "0 < unat max_pages"
  shows "accounts reads (unat max_pages) 0 (\<lambda>r. unat (sr_pages_read r))
           (seek_original_asset_query_page query start_rank page_size max_pages w)"
proof -
  have one: "unat (saturating_add 0 1) = 1" "unat (saturating_add 0 1) \<le> unat max_pages"
    using loop_pages(2,4) [of 0 max_pages] assms by (auto simp: word_le_nat_alt)
  let ?n = "saturating_add 0 1"
  have go_back: "accounts reads (unat max_pages) (unat ?n) (\<lambda>r. unat (sr_pages_read r))
      (seek_toward_newer query p page_size max_pages w ?n)" for p
    unfolding seek_toward_newer_def
    by (auto intro!: account_intros accounts_and_then [OF probe_newer_accounts] bisect_newer_accounts one(2)
        split: probe_end.split)
  have go_forth: "accounts reads (unat max_pages) (unat ?n) (\<lambda>r. unat (sr_pages_read r))
      (and_then (probe_older query w max_pages start_rank start_rank step ?n)
        (\<lambda>(lower_rank, upper_page, n). bisect_older query w max_pages lower_rank upper_page n))" for step
    by (auto intro!: accounts_and_then [OF probe_older_accounts] bisect_older_accounts one(2))
  have "accounts reads (unat max_pages) (unat (0 :: u64)) (\<lambda>r. unat (sr_pages_read r))
      (seek_original_asset_query_page query start_rank page_size max_pages w)"
    unfolding seek_original_asset_query_page_def
    by (rule accounts_read) (use assms go_back go_forth one in
        \<open>auto intro!: account_intros split: page_position.split\<close>)
  then show ?thesis by simp
qed

end

subsection \<open>The resolvers account for theirs\<close>

text \<open>A transport with a counter of its queries.\<close>

definition counted :: "'t post \<Rightarrow> ('t \<times> nat) post" where
  "counted post payload s = (case post payload (fst s) of (r, t) \<Rightarrow> (r, (t, Suc (snd s))))"

definition uncounted :: "'t download \<Rightarrow> ('t \<times> nat) download" where
  "uncounted download u bytes s = (case download u bytes (fst s) of (r, t) \<Rightarrow> (r, (t, snd s)))"

lemma counted_cost: "counted post payload s = (r, s') \<Longrightarrow> snd s' = Suc (snd s)"
  by (auto simp: counted_def split: prod.splits)

lemma uncounted_cost [account_intros]: "reads_nothing snd (uncounted download u bytes)"
  by (auto simp: reads_nothing_def uncounted_def split: prod.splits)

lemma counted_then_now: "and_then (counted post payload) (\<lambda>x. now (f x)) s = (r, s') \<Longrightarrow> snd s' \<le> Suc (snd s)"
  by (cases r) (auto simp: and_then_eq_Ok and_then_eq_Err dest: counted_cost)

interpretation original_queries: counted_queries "query_original_page parse_url (counted post) request d marker" snd
  for parse_url post request d marker
  by unfold_locales (metis query_original_page_def counted_then_now prod.collapse)

interpretation batch_queries: counted_queries "query_batch_page parse_url (counted post) ix page_size d marker" snd
  for parse_url post ix page_size d marker
  by unfold_locales (metis query_batch_page_def counted_then_now prod.collapse)

lemma try_candidate_reads [account_intros]:
  "reads_nothing snd (try_candidate (uncounted download) request c matches)"
  unfolding try_candidate_def by (intro account_intros)

lemma cached_download_reads [account_intros]:
  "reads_nothing snd (cached_download (uncounted download) r cache)"
proof -
  let ?dl = "\<lambda>t. case uncounted download (rx_download_url r) (rx_size_bytes r) t of
      (Inr dl, t') \<Rightarrow> (Ok (if rd_size_bytes dl = rx_size_bytes r then Downloaded dl else SizeMismatch), t')
    | (Inl (OriginalAssetDownloadSizeMismatch _ _), t') \<Rightarrow> (Ok SizeMismatch, t')
    | (Inl e, t') \<Rightarrow> (Err e, t')"
  have "reads_nothing snd ?dl"
    using uncounted_cost unfolding reads_nothing_def
    by (fastforce split: prod.splits sum.splits upload_error.splits)
  then show ?thesis
    unfolding cached_download_def Let_def by (auto intro: account_intros split: option.split)
qed

lemma scan_page_reads [account_intros]: "reads_nothing snd (scan_page (uncounted download) ix p s)"
  unfolding scan_page_def scan_candidate_def by (intro account_intros)

lemma scan_original_spends:
  "unat n \<le> unat (or_max_pages request) \<Longrightarrow>
     spends snd (unat (or_max_pages request)) (unat n)
       (scan_original parse_url (counted post) (uncounted download) request d w page ms n)"
proof (induction "unat (or_max_pages request) - unat n" arbitrary: page ms n rule: less_induct)
  case less
  show ?case
  proof (cases "or_max_pages request \<le> n")
    case True
    with less.prems show ?thesis
      by (subst scan_original.simps)
        (auto intro!: account_intros spends_then split: page_action.split option.split)
  next
    case False
    note n = loop_pages [OF less.prems False]
    show ?thesis
      by (subst scan_original.simps)
        (use less.prems False n(1,2) less.hyps [OF n(3,4)] in
          \<open>auto intro!: account_intros spends_then original_queries.spends_query
             split: page_action.split option.split\<close>)
  qed
qed

lemma scan_batch_spends:
  "unat n \<le> unat (br_max_pages request) \<Longrightarrow>
     spends snd (unat (br_max_pages request)) (unat n)
       (scan_batch parse_url (counted post) (uncounted download) request ix d w page sc n)"
proof (induction "unat (br_max_pages request) - unat n" arbitrary: page sc n rule: less_induct)
  case less
  show ?case
  proof (cases "br_max_pages request \<le> n")
    case True
    with less.prems show ?thesis
      by (subst scan_batch.simps)
        (auto intro!: account_intros spends_then split: page_action.split option.split)
  next
    case False
    note n = loop_pages [OF less.prems False]
    show ?thesis
      by (subst scan_batch.simps)
        (use less.prems False n(1,2) less.hyps [OF n(3,4)] in
          \<open>auto intro!: account_intros spends_then batch_queries.spends_query
             split: page_action.split option.split\<close>)
  qed
qed

lemma valid_requests_read:
  "validate_original_asset_resolve_request r = Ok u \<Longrightarrow> 0 < unat (or_max_pages r)"
  "validate_original_asset_batch_resolve_request b = Ok u \<Longrightarrow> 0 < unat (br_max_pages b)"
  by (auto simp: validate_original_asset_resolve_request_def validate_original_asset_batch_resolve_request_def
      unat_gt_0)

lemma resolve_original_spends:
  "spends snd (unat (or_max_pages r)) 0 (resolve_original_asset parse_url (counted post) (uncounted download) session r)"
proof (cases "validate_original_asset_resolve_request r")
  case (Inl e)
  then show ?thesis by (simp add: resolve_original_asset_def now_then account_intros)
next
  case (Inr u)
  note pages = valid_requests_read(1) [OF Inr]
  show ?thesis
    unfolding resolve_original_asset_def now_then Inr Let_def
    by (auto intro!: account_intros spends_and_then [OF original_queries.seek_accounts [OF pages]]
        spends_then_nothing [OF scan_original_spends] split: sum.split)
qed

lemma batch_outcome_spends:
  "spends snd (unat (br_max_pages r)) 0
     (resolve_original_assets_batch_outcome sha256 parse_url (counted post) (uncounted download) session r)"
proof (cases "validate_original_asset_batch_resolve_request r")
  case (Inl e)
  then show ?thesis by (simp add: resolve_original_assets_batch_outcome_def now_then account_intros)
next
  case (Inr u)
  note pages = valid_requests_read(2) [OF Inr]
  let ?ix = "new_target_index (br_targets r)"
  let ?seek = "seek_original_asset_query_page
      (query_batch_page parse_url (counted post) ?ix (br_page_size r) (ds_zone session) None)
      (br_start_rank r) (br_page_size r) (br_max_pages r) (index_date_window ?ix)"
  have seek: "accounts snd (unat (br_max_pages r)) 0 (\<lambda>f. unat (sr_pages_read f)) ?seek"
    by (rule batch_queries.seek_accounts [OF pages])
  have step: "spends snd (unat (br_max_pages r)) 0
      (\<lambda>t. case ?seek t of
         (Inl (OriginalAssetResolveIncomplete _), t') \<Rightarrow> (Ok x, t')
       | (Inl e, t') \<Rightarrow> (Err e, t')
       | (Inr found, t') \<Rightarrow> k found t')"
    if "\<And>f. unat (sr_pages_read f) \<le> unat (br_max_pages r) \<Longrightarrow>
          spends snd (unat (br_max_pages r)) (unat (sr_pages_read f)) (k f)"
    for x :: batch_outcome and k
  proof -
    have "spends snd (unat (br_max_pages r)) 0 (and_then ?seek k)"
      by (rule spends_and_then [OF seek that])
    then show ?thesis
      unfolding spends_def and_then_def
      by (auto split: prod.splits sum.splits upload_error.splits) fastforce+
  qed
  show ?thesis
    unfolding resolve_original_assets_batch_outcome_def now_then Inr Let_def
    by (auto intro!: account_intros step spends_then_nothing [OF scan_batch_spends] split: sum.split)
qed

text \<open>C25: Whatever the transport answers, a resolver run queries at most as many pages as the
  request allows and ends: the seek, its probes and the scan share one budget, in the resolver of a single
  asset and in that of a batch.\<close>

theorem resolver_reads_bounded:
  "snd (snd (resolve_original_assets_batch_outcome sha256 parse_url (counted post) (uncounted download)
       session batch (t, 0))) \<le> unat (br_max_pages batch)
   \<and> snd (snd (resolve_original_asset parse_url (counted post) (uncounted download) session single (t, 0)))
       \<le> unat (or_max_pages single)"
  using spends_cost [OF batch_outcome_spends] spends_cost [OF resolve_original_spends]
  by (metis add.right_neutral add_0 snd_conv)

end
