(* ===== verification/Resolver_Window.thy ===== *)
theory Resolver_Window
  imports Resolver_Seek
begin

section \<open>Where the scan starts\<close>

text \<open>
  Over a library whose assets are ranked from the newest to the oldest, the page the seek finds is not
  too new, and nothing before it lies in the window or is older, if the run starts at rank zero or at
  an asset that is too new. From a start that is too old this fails: the way back returns the first
  page it meets that overlaps the window.
\<close>

text \<open>
  What the program relies on: the page at a rank holds the dates from that rank on, as many as the
  service cares to send, and dates fall as ranks grow. Answers may be errors.
\<close>

definition serves :: "(u64 \<Rightarrow> ('t, 'a query_page) call) \<Rightarrow> u64 list \<Rightarrow> bool" where
  "serves query dates \<longleftrightarrow>
     sorted_wrt (\<ge>) dates
     \<and> (\<forall>rank t p t'. query rank t = (Inr p, t') \<longrightarrow> (\<exists>n. qp_asset_dates p = take n (drop (unat rank) dates)))"

definition newer_before :: "u64 list \<Rightarrow> date_window \<Rightarrow> nat \<Rightarrow> bool" where
  "newer_before dates w r \<longleftrightarrow> (\<forall>i<length dates. i < r \<longrightarrow> dw_end_unix_seconds w < dates ! i)"

lemma newer_before_mono: "newer_before dates w r \<Longrightarrow> r' \<le> r \<Longrightarrow> newer_before dates w r'"
  by (auto simp: newer_before_def)

lemma newer_before_0 [simp]: "newer_before dates w 0"
  by (simp add: newer_before_def)

lemma min_or_zero_Min: "xs \<noteq> [] \<Longrightarrow> min_or_zero xs = Min (set xs)"
  by (cases xs) (simp_all add: min_or_zero_def Min.set_eq_fold [symmetric])

lemma max_or_zero_Max: "xs \<noteq> [] \<Longrightarrow> max_or_zero xs = Max (set xs)"
  by (cases xs) (simp_all add: max_or_zero_def Max.set_eq_fold [symmetric])

lemma too_new_dates:
  "position_against p w = TooNew \<longleftrightarrow>
     qp_asset_dates p \<noteq> [] \<and> (\<forall>d\<in>set (qp_asset_dates p). dw_end_unix_seconds w < d)"
  by (cases "qp_asset_dates p = []")
    (auto simp: position_against_def date_bounds_def min_or_zero_Min max_or_zero_Max neq_Nil_conv split: if_splits)

lemma too_old_dates:
  "position_against p w = TooOld \<Longrightarrow>
     qp_asset_dates p \<noteq> [] \<and> (\<forall>d\<in>set (qp_asset_dates p). d < dw_start_unix_seconds w)"
  by (cases "qp_asset_dates p = []")
    (auto simp: position_against_def date_bounds_def min_or_zero_Min max_or_zero_Max neq_Nil_conv split: if_splits)

lemma overlapping_dates:
  assumes "position_against p w = Overlaps"
  shows "\<exists>d\<in>set (qp_asset_dates p). dw_start_unix_seconds w \<le> d"
proof -
  let ?ds = "qp_asset_dates p"
  have ne: "?ds \<noteq> []"
    using assms by (cases ?ds) (auto simp: position_against_def date_bounds_def)
  then have "date_bounds p = Some (min_or_zero ?ds, max_or_zero ?ds)"
    by (simp add: date_bounds_def split: list.splits)
  with assms have "dw_start_unix_seconds w \<le> max_or_zero ?ds"
    by (simp add: position_against_def not_less split: if_splits)
  then have "dw_start_unix_seconds w \<le> Max (set ?ds)" by (simp only: max_or_zero_Max [OF ne])
  moreover note ne
  ultimately show ?thesis by (intro bexI [of _ "Max (set ?ds)"]) simp_all
qed

lemma served_first:
  assumes "serves query dates" "query rank t = (Inr p, t')" "qp_asset_dates p \<noteq> []"
  shows "unat rank < length dates" "dates ! unat rank \<in> set (qp_asset_dates p)"
proof -
  obtain n where n: "qp_asset_dates p = take n (drop (unat rank) dates)"
    using assms(1,2) unfolding serves_def by blast
  with assms(3) have "drop (unat rank) dates \<noteq> []" "n \<noteq> 0" by auto
  then show "unat rank < length dates" by simp
  then have "drop (unat rank) dates = dates ! unat rank # drop (Suc (unat rank)) dates"
    by (simp add: Cons_nth_drop_Suc)
  with n \<open>n \<noteq> 0\<close> show "dates ! unat rank \<in> set (qp_asset_dates p)" by (cases n) auto
qed

lemma too_new_page:
  assumes "serves query dates" "query rank t = (Inr p, t')" "position_against p w = TooNew"
  shows "newer_before dates w (Suc (unat rank))"
  unfolding newer_before_def
proof (intro allI impI)
  fix i
  assume i: "i < length dates" "i < Suc (unat rank)"
  have new: "qp_asset_dates p \<noteq> []" "\<forall>d\<in>set (qp_asset_dates p). dw_end_unix_seconds w < d"
    using assms(3) by (auto simp: too_new_dates)
  note first = served_first [OF assms(1,2) new(1)]
  have "dates ! unat rank \<le> dates ! i"
    using i first(1) assms(1) unfolding serves_def
    by (cases "i = unat rank") (auto simp: sorted_wrt_iff_nth_less)
  moreover have "dw_end_unix_seconds w < dates ! unat rank" using first new by blast
  ultimately show "dw_end_unix_seconds w < dates ! i" by simp
qed

subsection \<open>The way forward\<close>

lemma probe_older_finds:
  assumes "serves query dates"
  shows "probe_older query w max_pages start_rank lower_rank step n t = (Inr (lower, page, m), t')
    \<Longrightarrow> newer_before dates w (Suc (unat lower_rank))
    \<Longrightarrow> newer_before dates w (Suc (unat lower)) \<and> position_against (pp_page page) w \<noteq> TooNew"
proof (induction "unat max_pages - unat n" arbitrary: lower_rank step n t rule: less_induct)
  case less
  from less.prems(1) have n: "\<not> max_pages \<le> n"
    by (subst (asm) probe_older.simps) (auto split: if_splits)
  with less.prems(1) obtain probe p t1 where p: "query probe t = (Inr p, t1)"
    and rest: "(if position_against p w = TooNew
       then and_then (now (double_step step)) (\<lambda>step'. probe_older query w max_pages start_rank probe step'
              (saturating_add n 1))
       else now (Ok (lower_rank, \<lparr>pp_start_rank = probe, pp_page = p\<rparr>, saturating_add n 1))) t1
       = (Inr (lower, page, m), t')"
    by (subst (asm) probe_older.simps) (auto simp: and_then_eq_Ok read_page_eq_Ok)
  show ?case
  proof (cases "position_against p w = TooNew")
    case True
    with rest obtain step' where
      "probe_older query w max_pages start_rank probe step' (saturating_add n 1) t1 = (Inr (lower, page, m), t')"
      by (auto simp: and_then_eq_Ok)
    then show ?thesis
      using less.hyps [OF pages_read_decreases [OF n]] too_new_page [OF assms p True] by blast
  next
    case False
    with rest less.prems(2) show ?thesis by auto
  qed
qed

lemma bisect_stops:
  "\<not> saturating_add lower 1 < upper \<Longrightarrow> unat upper \<le> Suc (unat lower)"
  by (simp add: word_less_nat_alt unat_saturating_add)

lemma bisect_older_finds:
  assumes "serves query dates"
  shows "bisect_older query w max_pages lower_rank upper_page n t = (Inr r, t')
    \<Longrightarrow> newer_before dates w (Suc (unat lower_rank))
    \<Longrightarrow> position_against (pp_page upper_page) w \<noteq> TooNew
    \<Longrightarrow> newer_before dates w (unat (pp_start_rank (sr_page r)))
       \<and> position_against (pp_page (sr_page r)) w \<noteq> TooNew"
proof (induction "unat max_pages - unat n" arbitrary: lower_rank upper_page n t rule: less_induct)
  case less
  show ?case
  proof (cases "saturating_add lower_rank 1 < pp_start_rank upper_page")
    case False
    with less.prems(1) have "r = \<lparr>sr_page = upper_page, sr_pages_read = n\<rparr>"
      by (subst (asm) bisect_older.simps) simp
    with less.prems(2,3) bisect_stops [OF False] show ?thesis by (auto intro: newer_before_mono)
  next
    case True
    with less.prems(1) have n: "\<not> max_pages \<le> n"
      by (subst (asm) bisect_older.simps) (auto split: if_splits)
    let ?mid = "middle_rank lower_rank (pp_start_rank upper_page)"
    from less.prems(1) True n obtain p t1 where p: "query ?mid t = (Inr p, t1)"
      and rest: "(if position_against p w = TooNew
         then bisect_older query w max_pages ?mid upper_page (saturating_add n 1)
         else bisect_older query w max_pages lower_rank \<lparr>pp_start_rank = ?mid, pp_page = p\<rparr> (saturating_add n 1)) t1
         = (Inr r, t')"
      by (subst (asm) bisect_older.simps) (auto simp: and_then_eq_Ok read_page_eq_Ok Let_def)
    show ?thesis
    proof (cases "position_against p w = TooNew")
      case True
      with rest show ?thesis
        using less.hyps [OF pages_read_decreases [OF n]] too_new_page [OF assms p True] less.prems(3) by auto
    next
      case False
      with rest show ?thesis
        using less.hyps [OF pages_read_decreases [OF n]] less.prems(2) by auto
    qed
  qed
qed

text \<open>Over a library ranked from the newest asset to the oldest, a seek from rank
  zero, or from an asset newer than the window, ends at a page that is not too new and before which
  every asset is newer than the window: the scan that starts there misses none of the window.\<close>

theorem seek_starts_before_the_window:
  assumes "serves query dates" "dw_start_unix_seconds w \<le> dw_end_unix_seconds w"
    and "seek_original_asset_query_page query start_rank page_size max_pages w t = (Ok r, t')"
    and "start_rank = 0 \<or> newer_before dates w (Suc (unat start_rank))"
  shows "newer_before dates w (unat (pp_start_rank (sr_page r)))
    \<and> position_against (pp_page (sr_page r)) w \<noteq> TooNew"
proof -
  have start: "newer_before dates w (unat start_rank)"
    using assms(4) by (auto intro: newer_before_mono)
  obtain p t1 where p: "query start_rank t = (Inr p, t1)"
    and rest: "(case position_against p w of
         TooNew \<Rightarrow>
           and_then (probe_older query w max_pages start_rank start_rank 
             (first_step (pp_page \<lparr>pp_start_rank = start_rank, pp_page = p\<rparr>) page_size) (saturating_add 0 1))
             (\<lambda>(lower_rank, upper_page, n). bisect_older query w max_pages lower_rank upper_page n)
       | TooOld \<Rightarrow> seek_toward_newer query \<lparr>pp_start_rank = start_rank, pp_page = p\<rparr> page_size max_pages w
                     (saturating_add 0 1)
       | _ \<Rightarrow> now (Ok \<lparr>sr_page = \<lparr>pp_start_rank = start_rank, pp_page = p\<rparr>,
                         sr_pages_read = saturating_add 0 1\<rparr>)) t1 = (Ok r, t')"
    using assms(3) by (auto simp: seek_original_asset_query_page_def and_then_eq_Ok read_page_eq_Ok)
  show ?thesis
  proof (cases "position_against p w")
    case TooNew
    with rest obtain lower page m t2 where
      "probe_older query w max_pages start_rank start_rank (first_step p page_size) (saturating_add 0 1) t1
         = (Inr (lower, page, m), t2)"
      "bisect_older query w max_pages lower page m t2 = (Inr r, t')"
      by (auto simp: and_then_eq_Ok)
    then show ?thesis
      using probe_older_finds [OF assms(1)] bisect_older_finds [OF assms(1)] too_new_page [OF assms(1) p TooNew]
      by blast
  next
    case TooOld
    have "start_rank = 0"
    proof (rule ccontr)
      assume "start_rank \<noteq> 0"
      with assms(4) have "newer_before dates w (Suc (unat start_rank))" by simp
      moreover note too_old_dates [OF TooOld]
      moreover from this served_first [OF assms(1) p]
      have "unat start_rank < length dates" "dates ! unat start_rank \<in> set (qp_asset_dates p)" by auto
      ultimately show False using assms(2) unfolding newer_before_def by fastforce
    qed
    with rest TooOld start show ?thesis by (auto simp: seek_toward_newer_def)
  qed (use rest start in auto)
qed

subsection \<open>A library of dates\<close>

definition sample_library :: "u64 list \<Rightarrow> nat \<Rightarrow> u64 \<Rightarrow> (unit, unit query_page) call" where
  "sample_library dates n rank =
     now (Ok \<lparr>qp_continuation_marker = None, qp_matches = [], qp_asset_dates = take n (drop (unat rank) dates),
             qp_observation_increments = [], qp_inventory_records = []\<rparr>)"

definition sample_dates :: "u64 list" where
  "sample_dates = [30, 20, 9, 9, 9, 9, 1, 1]"

definition sample_window :: date_window where
  "sample_window = new_date_window 9 1"

definition sample_found :: "u64 \<Rightarrow> u64 \<Rightarrow> u64 list \<Rightarrow> unit seek_result" where
  "sample_found rank n dates =
     \<lparr>sr_page = \<lparr>pp_start_rank = rank,
        pp_page = \<lparr>qp_continuation_marker = None, qp_matches = [], qp_asset_dates = dates,
          qp_observation_increments = [], qp_inventory_records = []\<rparr>\<rparr>, sr_pages_read = n\<rparr>"

lemma sample_library_serves: "sorted_wrt (\<ge>) dates \<Longrightarrow> serves (sample_library dates n) dates"
  by (auto simp: serves_def sample_library_def)

lemmas seek_eval =
  seek_original_asset_query_page_def seek_toward_newer_def probe_older.simps bisect_older.simps
  probe_newer.simps bisect_newer.simps read_original_asset_rank_page_def and_then_def now_def
  position_against_def date_bounds_def first_step_def middle_rank_def checked_rank_add_def double_step_def
  checked_add_def checked_mul_def saturating_add_def saturating_sub_def asset_count_def len_u64_def
  min_or_zero_def max_or_zero_def

lemma sample_seek_forward:
  "seek_original_asset_query_page (sample_library sample_dates 2) 0 2 10 sample_window ()
     = (Ok (sample_found 1 3 [20, 9]), ())"
  by (simp add: seek_eval sample_library_def sample_dates_def sample_window_def new_date_window_def sample_found_def,
      simp add: word_le_nat_alt)

lemma sample_dates_fall: "sorted_wrt (\<ge>) sample_dates"
  by (simp add: sample_dates_def)

lemma seek_starts_before_the_window_witness:
  "newer_before sample_dates sample_window 1"
  using seek_starts_before_the_window [OF sample_library_serves [OF sample_dates_fall] _ sample_seek_forward]
  by (simp add: sample_found_def sample_window_def new_date_window_def saturating_sub_def saturating_add_def)

text \<open>
  C40: If the page at the start is too old and the first probe towards the newer assets overlaps the
  window, the seek succeeds with the page of that probe, whatever lies before it: over a library ranked by
  date, every asset before this page that is not newer than the window is an asset of the window. So what
  a seek from rank zero guarantees, that everything before the page is newer than the window, fails here
  as soon as there is such an asset.
\<close>

theorem seek_back_skips_the_window:
  assumes "serves query dates"
    and "query start_rank t = (Ok first, t1)" and "position_against first w = TooOld" and "start_rank \<noteq> 0"
    and "query (saturating_sub start_rank (first_step first page_size)) t1 = (Ok p, t2)"
    and "position_against p w = Overlaps" and "1 < max_pages"
    and "i < unat (saturating_sub start_rank (first_step first page_size))" and "dates ! i \<le> dw_end_unix_seconds w"
  shows "\<exists>r. seek_original_asset_query_page query start_rank page_size max_pages w t = (Ok r, t2)
    \<and> pp_page (sr_page r) = p \<and> i < unat (pp_start_rank (sr_page r))
    \<and> dw_start_unix_seconds w \<le> dates ! i \<and> dates ! i \<le> dw_end_unix_seconds w
    \<and> \<not> newer_before dates w (unat (pp_start_rank (sr_page r)))"
proof -
  let ?probe = "saturating_sub start_rank (first_step first page_size)"
  have one: "saturating_add 0 1 = (1 :: u64)" by (simp add: saturating_add_def)
  have pages: "\<not> max_pages \<le> 1" using assms(7) by simp
  have probe: "probe_newer query w max_pages \<lparr>pp_start_rank = start_rank, pp_page = first\<rparr>
      (first_step first page_size) 1 t1
    = (Ok (LowerPage \<lparr>pp_start_rank = ?probe, pp_page = p\<rparr> \<lparr>pp_start_rank = start_rank, pp_page = first\<rparr>,
          saturating_add 1 1), t2)"
    using assms(5,6) pages
    by (subst probe_newer.simps) (simp add: Let_def read_original_asset_rank_page_def and_then_def)
  have seek: "seek_original_asset_query_page query start_rank page_size max_pages w t
      = (Ok \<lparr>sr_page = \<lparr>pp_start_rank = ?probe, pp_page = p\<rparr>, sr_pages_read = saturating_add 1 1\<rparr>, t2)"
    using assms(2-4,6) probe one
    by (simp add: seek_original_asset_query_page_def seek_toward_newer_def read_original_asset_rank_page_def
        and_then_def)
  obtain n where n: "qp_asset_dates p = take n (drop (unat ?probe) dates)"
    using assms(1,5) unfolding serves_def by blast
  obtain d where d: "d \<in> set (qp_asset_dates p)" "dw_start_unix_seconds w \<le> d"
    using overlapping_dates [OF assms(6)] by blast
  then obtain k where "k < length dates - unat ?probe" "d = drop (unat ?probe) dates ! k"
    unfolding n by (auto simp: in_set_conv_nth)
  then obtain j where j: "j < length dates" "unat ?probe \<le> j" "dates ! j = d"
    using that [of "unat ?probe + k"] by simp
  have "i < length dates" "dates ! j \<le> dates ! i"
    using assms(1,8) j unfolding serves_def by (auto simp: sorted_wrt_iff_nth_less)
  with j d(2) have "dw_start_unix_seconds w \<le> dates ! i" "i < length dates" by auto
  with assms(8,9) have "dw_start_unix_seconds w \<le> dates ! i"
    and "\<not> newer_before dates w (unat ?probe)" unfolding newer_before_def by auto
  with seek assms(8,9) show ?thesis by simp
qed

theorem seek_back_skips_the_window_witness:
  "\<exists>r. seek_original_asset_query_page (sample_library sample_dates 2) 6 2 10 sample_window () = (Ok r, ())
     \<and> 3 < unat (pp_start_rank (sr_page r))
     \<and> dw_start_unix_seconds sample_window \<le> sample_dates ! 3 \<and> sample_dates ! 3 \<le> dw_end_unix_seconds sample_window"
proof -
  let ?page = "\<lambda>dates. \<lparr>qp_continuation_marker = None, qp_matches = [], qp_asset_dates = dates,
      qp_observation_increments = [], qp_inventory_records = []\<rparr> :: unit query_page"
  have step: "saturating_sub 6 (first_step (?page [1, 1]) 2) = (4 :: u64)"
    by (simp add: first_step_def asset_count_def len_u64_def saturating_sub_def word_le_nat_alt)
  have first: "sample_library sample_dates 2 6 () = (Ok (?page [1, 1]), ())"
    by (simp add: sample_library_def sample_dates_def)
  have probed: "sample_library sample_dates 2 (saturating_sub 6 (first_step (?page [1, 1]) 2)) () = (Ok (?page [9, 9]), ())"
    unfolding step by (simp add: sample_library_def sample_dates_def)
  have old: "position_against (?page [1, 1]) sample_window = TooOld"
    and over: "position_against (?page [9, 9]) sample_window = Overlaps"
    by (simp_all add: position_against_def date_bounds_def min_or_zero_def max_or_zero_def sample_window_def
        new_date_window_def saturating_sub_def saturating_add_def word_le_nat_alt)
  have before: "3 < unat (saturating_sub 6 (first_step (?page [1, 1]) 2))"
    "sample_dates ! 3 \<le> dw_end_unix_seconds sample_window"
    unfolding step
    by (simp_all add: sample_dates_def sample_window_def new_date_window_def saturating_add_def saturating_sub_def
        word_le_nat_alt)
  show ?thesis
    using seek_back_skips_the_window [OF sample_library_serves [OF sample_dates_fall] first old _ probed over _ before,
        of 10] by auto
qed

end
