(* ===== verification/Resolver_Sample.thy ===== *)
theory Resolver_Sample
  imports Resolver_Outcome Resolver_Window
begin

section \<open>One batch\<close>

text \<open>A library with one RAW asset, asked for one target, where the theorems are applied.\<close>

definition sample_zone :: json where
  "sample_zone = JObject [(''zoneName'', JString PRIMARY_SYNC_ZONE)]"

definition sample_value :: "json \<Rightarrow> json" where
  "sample_value v = JObject [(''value'', v)]"

definition sample_cpl_asset :: json where
  "sample_cpl_asset =
     JObject
      [(''fields'', JObject
         [(''assetDate'', sample_value (JNumber (PosInt 1000))),
          (''masterRef'', sample_value (JObject [(''recordName'', JString ''m''), (''zoneID'', sample_zone)]))]),
       (''recordChangeTag'', JString ''t''), (''recordName'', JString ''a''),
       (''recordType'', JString ''CPLAsset''), (''zoneID'', sample_zone)]"

definition sample_cpl_master :: json where
  "sample_cpl_master =
     JObject
      [(''fields'', JObject
         [(''resOriginalFileType'', sample_value (JString ''dng'')),
          (''resOriginalFingerprint'', sample_value (JString ''f'')),
          (''resOriginalRes'', sample_value
             (JObject [(''downloadURL'', JString ''u''), (''size'', JNumber (PosInt 9))]))]),
       (''recordName'', JString ''m''), (''recordType'', JString ''CPLMaster''), (''zoneID'', sample_zone)]"

definition sample_query_answer :: json where
  "sample_query_answer = JObject [(''records'', JArray [sample_cpl_asset, sample_cpl_master])]"

definition sample_url :: url where
  "sample_url =
     \<lparr>url_as_str = ''u'', url_scheme = ''https'', url_username = [], url_password = None,
      url_fragment = None, url_host_str = Some ''icloud.com''\<rparr>"

definition sample_parse_url :: url_parser where
  "sample_parse_url s = (if s = ''u'' then Some sample_url else None)"

definition sample_query_post :: "unit post" where
  "sample_query_post payload = now (Ok sample_query_answer)"

definition sample_download :: "unit download" where
  "sample_download u bytes = now (Ok \<lparr>rd_sha256 = ''s'', rd_size_bytes = 9\<rparr>)"

definition sample_resolve_target :: resolve_target where
  "sample_resolve_target =
     \<lparr>rt_asset_id = ''x'', rt_raw_size_bytes = 9, rt_source_captured_unix_seconds = 1001,
      rt_capture_tolerance_seconds = 2, rt_filename = ''n'', rt_matched_raw_sha256 = ''s'',
      rt_replacement_candidate = None\<rparr>"

definition sample_batch_request :: batch_resolve_request where
  "sample_batch_request =
     \<lparr>br_targets = [sample_resolve_target], br_start_rank = 0, br_page_size = 2, br_max_pages = 3\<rparr>"

definition sample_library_session :: delete_session where
  "sample_library_session = \<lparr>ds_database_scope = Private, ds_zone = primary_sync\<rparr>"

lemmas sample_json = sample_zone_def sample_value_def sample_cpl_asset_def sample_cpl_master_def
  sample_query_answer_def

definition sample_asset_read :: asset_query_record where
  "sample_asset_read =
     \<lparr>ca_record_name = ''a'', ca_record_change_tag = ''t'', ca_master_record_name = ''m'',
      ca_asset_date_unix_seconds = 1000, ca_record = sample_cpl_asset\<rparr>"

lemma sample_asset_parses: "parse_cloudkit_asset_record sample_cpl_asset primary_sync = Ok sample_asset_read"
  by (simp add: parse_cloudkit_asset_record_def sample_asset_read_def sample_json get_str_def bt_get_def
      validate_original_asset_zone_identity_def required_record_string_def query_record_fields_def field_value_def
      primary_sync_def cloudkit_unix_seconds_def json_fraction_def f64_nearest_def f64_round_u64_def
      bit_length.simps round_half_even_def round_half_up_def byte_def Let_def)

lemma sample_records_split:
  "try_fold (add_query_record primary_sync) [sample_cpl_asset, sample_cpl_master] ([], [])
     = Ok ([sample_asset_read], [(''m'', sample_cpl_master)])"
  using sample_asset_parses
  by (simp add: try_fold.simps add_query_record_def required_record_string_def get_str_def bt_get_def bt_contains_def
      validate_original_asset_zone_identity_def primary_sync_def sample_json)

definition sample_resource :: remote_resource where
  "sample_resource =
     \<lparr>rx_field = ''resOriginalRes'', rx_kind = RawKind, rx_size_bytes = 9, rx_download_url = sample_url\<rparr>"

lemma sample_pair_resources:
  "record_pair_original_asset_resources sample_parse_url sample_cpl_asset sample_cpl_master = Ok [sample_resource]"
  by (simp add: record_pair_original_asset_resources_def record_original_asset_resources_def query_record_fields_def
      sample_json original_prefixes_def prefix_resource_def field_value_object_def resource_size_bytes_def field_string_def
      field_value_def resource_kind_def resource_type_is_raw_def to_ascii_lowercase_def ascii_lower_def byte_def
      resource_download_url_def sample_parse_url_def sample_url_def validate_cloudkit_resource_download_url_def
      is_allowed_icloud_host_def bt_get_def sample_resource_def map_filter_def Let_def)

lemma sample_identity: "\<exists>identity. normalized_inventory_asset_identity sample_asset_read sample_cpl_master = Ok identity"
  by (simp add: normalized_inventory_asset_identity_def sample_asset_read_def required_record_string_def get_str_def
      record_resource_identities_def query_record_fields_def sample_json original_prefixes_def
      normalized_inventory_resource_identity_def field_value_object_def resource_size_bytes_def field_string_def
      field_value_def bt_get_def byte_def map_filter_def)

definition sample_index :: target_index where
  "sample_index =
     \<lparr>ti_cohorts = [\<lparr>tc_start_unix_seconds = 999, tc_end_unix_seconds = 1003,
        tc_raw_target_counts = [(MatchKey 9 ''s'', 1)], tc_replacement_target_counts = [],
        tc_raw_target_sizes = {9}, tc_replacement_target_sizes = {}\<rparr>],
      ti_target_cohort_indexes = [0]\<rparr>"

lemma sample_index_built: "new_target_index [sample_resolve_target] = sample_index"
  by (simp add: new_target_index_def target_date_windows_def target_window_def push_entry_def sample_resolve_target_def
      saturating_sub_def saturating_add_def cohort_of_targets_def count_target_def bump_entry_def raw_key_def
      sample_index_def Let_def)

lemma sample_window_of_index: "index_date_window sample_index = \<lparr>dw_start_unix_seconds = 999, dw_end_unix_seconds = 1003\<rparr>"
  by (simp add: index_date_window_def sample_index_def min_or_zero_def max_or_zero_def)

lemma sample_cohorts_of_date: "cohort_indexes_for_asset_date sample_index 1000 = [0]"
  by (simp add: cohort_indexes_for_asset_date_def sample_index_def partition_point_def Let_def)

definition sample_candidate :: batch_candidate where
  "sample_candidate =
     \<lparr>bc_asset = \<lparr>ra_asset_record_name = ''a'', ra_asset_record_change_tag = ''t''\<rparr>,
      bc_resource = sample_resource, bc_cohort_indexes = [0]\<rparr>"

definition sample_increment :: observation_increment where
  "sample_increment =
     \<lparr>oi_cohort_index = 0, oi_date_candidates = 1, oi_raw_resources = 1, oi_raw_size_matches = [(9, 1)]\<rparr>"

lemma sample_page_parses:
  "\<exists>names. parse_original_asset_batch_query_response sample_parse_url sample_query_answer sample_index primary_sync
     = Ok \<lparr>qp_continuation_marker = None, qp_matches = [sample_candidate], qp_asset_dates = [1000],
           qp_observation_increments = [sample_increment], qp_inventory_records = names\<rparr>"
proof -
  obtain identity where identity: "normalized_inventory_asset_identity sample_asset_read sample_cpl_master = Ok identity"
    using sample_identity ..
  have records: "query_response_records sample_query_answer = Ok [sample_cpl_asset, sample_cpl_master]"
    "parse_cloudkit_continuation_marker sample_query_answer = Ok None"
    by (simp_all add: query_response_records_def parse_cloudkit_continuation_marker_def sample_query_answer_def bt_get_def)
  have increment: "increment_for [sample_resource] 0 = sample_increment"
    by (simp add: increment_for_def count_resource_def sample_resource_def bump_size_def saturating_add_def
        sample_increment_def)
  have relevant: "resource_is_relevant sample_index [0] sample_resource"
    by (simp add: resource_is_relevant_def sample_resource_def sample_index_def)
  have "add_batch_asset sample_parse_url sample_index [(''m'', sample_cpl_master)] sample_asset_read ([], [], {})
      = Ok ([sample_candidate], [sample_increment], {identity})"
    using identity sample_pair_resources sample_cohorts_of_date increment relevant
    by (simp add: add_batch_asset_def asset_master_def sample_asset_read_def bt_get_def sample_candidate_def Let_def)
  then show ?thesis
    unfolding parse_original_asset_batch_query_response_def records bind_ok_simps sample_records_split
    by (simp add: try_fold.simps sample_asset_read_def)
qed

definition sample_match :: remote_match where
  "sample_match =
     \<lparr>rm_asset = \<lparr>ra_asset_record_name = ''a'', ra_asset_record_change_tag = ''t''\<rparr>,
      rm_resource_field = ''resOriginalRes''\<rparr>"

definition sample_work :: cohort_work where
  "sample_work =
     no_work\<lparr>cw_observations := no_observations\<lparr>ro_date_candidates := 1, ro_raw_resources := 1\<rparr>,
       cw_raw_size_matches := [(9, 1)],
       cw_raw_matches := [(MatchKey 9 ''s'', [(remote_resource_identity ''a'' sample_resource, sample_match)])]\<rparr>"

lemma sample_page_scans:
  assumes "qp_matches p = [sample_candidate]" "qp_observation_increments p = [sample_increment]"
  shows "\<exists>cache names. scan_page sample_download sample_index p
      \<lparr>bs_work = [no_work], bs_cache = Map.empty, bs_inventory = {}\<rparr> ()
    = (Ok \<lparr>bs_work = [sample_work], bs_cache = cache, bs_inventory = names\<rparr>, ())"
  using assms
  by (simp add: scan_page_def now_then try_fold.simps observe_def sample_increment_def add_observation_def
      no_work_def no_observations_def bump_size_def saturating_add_def scan_candidate_def cached_download_def
      sample_candidate_def sample_resource_def sample_download_def and_then_def sample_url_def note_match_def
      sample_index_def bt_contains_def bt_get_def add_match_def sample_work_def sample_match_def Let_def)

definition sample_resolution :: asset_resolution where
  "sample_resolution =
     \<lparr>rn_observations = \<lparr>ro_date_candidates = 1, ro_raw_resources = 1, ro_raw_size_matches = 1,
        ro_raw_hash_matches = 1, ro_replacement_resource_matches = 0, ro_download_size_mismatches = 0,
        ro_ambiguity_evidence = 0\<rparr>,
      rn_disposition = ResolvedExactOriginal (original_proof_of sample_resolve_target primary_sync sample_match)\<rparr>"

lemma sample_resolves:
  "resolve_target_in (ambiguous_groups [sample_work] (ti_cohorts sample_index)) False primary_sync 0 sample_work
     sample_resolve_target = sample_resolution"
proof -
  have "ambiguous_groups [sample_work] (ti_cohorts sample_index) = {}"
    by (simp add: ambiguous_groups_def sample_work_def no_work_def sample_index_def add_cohort_groups_def add_group_def
        claim_def bt_keys_def bt_values_def bt_get_def Let_def)
  then show ?thesis
    by (simp add: resolve_target_in_def target_observations_def target_is_ambiguous_def target_is_incomplete_def
        target_replacement_matches_def replacement_key_def sample_resolve_target_def raw_key_def sample_work_def
        no_work_def no_observations_def bt_get_def bt_contains_def len_u64_def saturating_add_def
        target_disposition_def unique_match_def sample_resolution_def Let_def)
qed

lemma sample_requests_valid:
  "validate_original_asset_batch_resolve_request sample_batch_request = Ok ()"
  "validate_original_asset_batch_pagination_range sample_batch_request = Ok ()"
  by (simp_all add: validate_original_asset_batch_resolve_request_def sample_batch_request_def try_fold.simps
      validate_resolve_target_def sample_resolve_target_def validate_original_asset_target_fields_def byte_def
      validate_original_asset_batch_pagination_range_def original_asset_query_start_rank_def checked_rank_add_def
      checked_mul_def checked_add_def)

lemma sample_run:
  "\<exists>outcome. resolve_original_assets_batch_outcome sha256 sample_parse_url sample_query_post sample_download
       sample_library_session sample_batch_request () = (Ok outcome, ())
     \<and> bt_get (bo_resolutions outcome) ''x'' = Some sample_resolution"
proof -
  obtain names where page: "parse_original_asset_batch_query_response sample_parse_url sample_query_answer sample_index primary_sync
     = Ok \<lparr>qp_continuation_marker = None, qp_matches = [sample_candidate], qp_asset_dates = [1000],
           qp_observation_increments = [sample_increment], qp_inventory_records = names\<rparr>"
    (is "_ = Ok ?p") using sample_page_parses by blast
  have query: "query_batch_page sample_parse_url sample_query_post sample_index 2 primary_sync None rank () = (Ok ?p, ())" for rank
    by (simp add: query_batch_page_def and_then_def sample_query_post_def page)
  let ?w = "\<lparr>dw_start_unix_seconds = 999, dw_end_unix_seconds = 1003\<rparr>"
  have position: "position_against ?p ?w = Overlaps"
    by (simp add: position_against_def date_bounds_def min_or_zero_def max_or_zero_def)
  have seek: "seek_original_asset_query_page (query_batch_page sample_parse_url sample_query_post sample_index 2 primary_sync None)
      0 2 3 ?w () = (Ok \<lparr>sr_page = \<lparr>pp_start_rank = 0, pp_page = ?p\<rparr>, sr_pages_read = saturating_add 0 1\<rparr>, ())"
    by (simp add: seek_original_asset_query_page_def read_original_asset_rank_page_def and_then_def query position)
  obtain cache inventory where scan: "scan_page sample_download sample_index ?p
      \<lparr>bs_work = [no_work], bs_cache = Map.empty, bs_inventory = {}\<rparr> ()
    = (Ok \<lparr>bs_work = [sample_work], bs_cache = cache, bs_inventory = inventory\<rparr>, ())"
    using sample_page_scans [of ?p] by auto
  have scan_all: "scan_batch sample_parse_url sample_query_post sample_download sample_batch_request sample_index primary_sync ?w
      \<lparr>pp_start_rank = 0, pp_page = ?p\<rparr> \<lparr>bs_work = [no_work], bs_cache = Map.empty, bs_inventory = {}\<rparr>
      (saturating_add 0 1) ()
    = (Ok (\<lparr>bs_work = [sample_work], bs_cache = cache, bs_inventory = inventory\<rparr>, True), ())"
    using scan by (subst scan_batch.simps) (simp add: page_step_def position and_then_def)
  have index: "new_target_index (br_targets sample_batch_request) = sample_index"
    by (simp add: sample_batch_request_def sample_index_built)
  have works: "replicate (cohort_count sample_index) no_work = [no_work]"
    by (simp add: cohort_count_def sample_index_def)
  have request: "br_page_size sample_batch_request = 2" "br_start_rank sample_batch_request = 0"
    "br_max_pages sample_batch_request = 3" "ds_zone sample_library_session = primary_sync"
    by (simp_all add: sample_batch_request_def sample_library_session_def)
  let ?outcome = "build_batch_resolve_outcome sha256 sample_batch_request sample_index ?w primary_sync [sample_work]
      inventory True False"
  have run: "resolve_original_assets_batch_outcome sha256 sample_parse_url sample_query_post sample_download
      sample_library_session sample_batch_request () = (Ok ?outcome, ())"
    unfolding resolve_original_assets_batch_outcome_def now_then sample_requests_valid sum.case index request
      sample_window_of_index works Let_def seek prod.case
    by (simp add: and_then_def scan_all)
  have "ti_target_cohort_indexes sample_index ! 0 = 0" by (simp add: sample_index_def)
  then have "bt_get (bo_resolutions ?outcome) ''x'' = Some sample_resolution"
    by (simp add: build_batch_resolve_outcome_def sample_batch_request_def sample_resolves bt_from_def bt_get_def Let_def
        sample_resolve_target_def [THEN arg_cong [where f = rt_asset_id], simplified])
  with run show ?thesis by blast
qed

lemma resolver_outcomes_are_proven_witness:
  "validate_disposition_evidence ''x'' sample_resolution = Ok ()"
proof -
  obtain outcome where
    "resolve_original_assets_batch_outcome (\<lambda>s. s) sample_parse_url sample_query_post sample_download
       sample_library_session sample_batch_request () = (Ok outcome, ())"
    "bt_get (bo_resolutions outcome) ''x'' = Some sample_resolution"
    using sample_run by blast
  from resolver_outcomes_are_proven [OF this] show ?thesis ..
qed

lemma cohorts_match_dates_witness:
  "ti_target_cohort_indexes (new_target_index [sample_resolve_target]) ! 0
     \<in> set (cohort_indexes_for_asset_date (new_target_index [sample_resolve_target]) 1003)"
  using cohorts_match_dates [of 0 "[sample_resolve_target]" 1003]
  by (simp add: sample_resolve_target_def asset_date_matches_def)

end
