(* ===== verification/State_Lease.thy ===== *)
theory State_Lease
  imports Atomic_Save
begin

section \<open>The state database and its writer lease\<close>

text \<open>
  The tables of \<open>src/src/state_store.rs\<close>, its transactions and the lease that decides which of several
  processes may write. The tables are a record with a field for each, as \<open>create_v2_schema\<close> declares
  them; a statement of SQL is the change it makes to them. SQLite is a library: which of its calls fail
  is an argument (\<open>db_calls\<close>), and a transaction that is not committed leaves the tables as they were
  (its documented behaviour). A handle (\<open>state_store\<close>) holds the token of the lease it acquired; the
  lock inside the handle makes each operation one step. \<open>i64\<close> columns are integers with the
  saturation written out.
\<close>

subsection \<open>Tables\<close>

record asset_row =
  aw_state :: string
  aw_updated_at :: string
  aw_record_json :: string

record lease_columns =
  lc_owner_id :: string
  lc_epoch :: int
  lc_expires_at_unix_ms :: int
  lc_acquired_at_unix_ms :: int
  lc_renewed_at_unix_ms :: int

record import_columns =
  ic_imported_once :: int
  ic_source_path :: "string option"
  ic_source_size_bytes :: "int option"
  ic_source_mtime_unix_nanos :: "int option"
  ic_imported_at_unix_ms :: "int option"
  ic_import_note :: "string option"

record registry_columns =
  gc_schema_version :: int
  gc_registry_sha256 :: string
  gc_registry_json :: string

record state_db =
  sd_user_version :: int
  sd_user_table_count :: nat
  sd_assets :: "(string, asset_row) btree"
  sd_writer_lease :: "lease_columns option"
  sd_json_import_metadata :: "import_columns option"
  sd_registry_table :: bool
  sd_registry :: "registry_columns option"

definition SCHEMA_VERSION :: int where
  "SCHEMA_VERSION = 2"

definition MAX_WRITER_LEASE_TTL :: duration where
  "MAX_WRITER_LEASE_TTL = 5 * 60 * nanos_per_second"

definition MAX_WRITER_OWNER_ID_BYTES :: nat where
  "MAX_WRITER_OWNER_ID_BYTES = 128"

text \<open>The variants of \<open>AssetStateStoreError\<close> that the modelled operations return.\<close>

datatype store_error =
    CreateDirectory path
  | OpenDatabase path
  | MigrationRequired path
  | Database
  | StoreManifest manifest_error
  | StoreReservedInternalProof
  | LegacyRegistryMismatch
  | JsonCheckpointRegistryMismatch
  | DecodeLegacyRegistry
  | ManifestMetadata path
  | DecodeRecord string
  | UnsupportedSchema int int
  | MissingSchema
  | WalUnavailable
  | LegacyUploadApplyStateChanged
  | JsonCheckpointUnavailable path
  | IntegrityCheck string
  | RecordColumnMismatch string
  | StaleRecord string
  | DuplicateRecord string
  | ExactCasMismatchedIds string string
  | ExactCasMismatch string
  | WriterLeaseRequired
  | InvalidWriterOwnerId nat nat
  | InvalidWriterLeaseTtl duration duration
  | WriterLeaseHeld string u64 int
  | InvalidWriterLeaseEpoch int
  | WriterLeaseFenced string u64 string u64
  | WriterLeaseHeartbeatLost string

subsection \<open>Transactions\<close>

text \<open>
  The calls of one operation on the database: opening it, beginning the transaction, its statements,
  the commit, and the clock. A failing statement ends the transaction with a database error.
\<close>

record db_calls =
  dc_open :: bool
  dc_begin :: bool
  dc_statements :: bool
  dc_commit :: bool
  dc_clock :: system_time

type_synonym 'a transaction = "state_db \<Rightarrow> store_error + 'a \<times> state_db"

definition in_transaction ::
  "db_calls \<Rightarrow> path \<Rightarrow> 'a transaction \<Rightarrow> state_db \<Rightarrow> (store_error + 'a) \<times> state_db"
where
  "in_transaction c p body db =
     (if \<not> dc_open c then (Err (OpenDatabase p), db)
      else if \<not> dc_begin c \<or> \<not> dc_statements c then (Err Database, db)
      else case body db of
        Inl e \<Rightarrow> (Err e, db)
      | Inr (x, db') \<Rightarrow> if dc_commit c then (Ok x, db') else (Err Database, db))"

definition i64_max :: int where
  "i64_max = 2 ^ 63 - 1"

definition current_unix_millis :: "system_time \<Rightarrow> int" where
  "current_unix_millis t =
     (case duration_since t 0 of None \<Rightarrow> 0 | Some d \<Rightarrow> min i64_max (int (d div 1000000)))"

definition duration_millis_i64 :: "duration \<Rightarrow> int" where
  "duration_millis_i64 d = min i64_max (int (d div 1000000))"

definition i64_saturating_add :: "int \<Rightarrow> int \<Rightarrow> int" where
  "i64_saturating_add x y = max (- (2 ^ 63)) (min i64_max (x + y))"

definition u64_to_i64 :: "u64 \<Rightarrow> int" where
  "u64_to_i64 n = min i64_max (int (unat n))"

subsection \<open>The lease\<close>

record writer_lease_token =
  wt_owner_id :: string
  wt_epoch :: u64
  wt_lease_ttl :: duration

record writer_lease_row =
  wl_owner_id :: string
  wl_epoch :: u64
  wl_expires_at_unix_ms :: int
  wl_acquired_at_unix_ms :: int

text \<open>A handle; the failure of the heartbeat is shared by all clones of a handle.\<close>

record state_store =
  ss_manifest_path :: path
  ss_db_path :: path
  ss_writer :: "writer_lease_token option"
  ss_heartbeat_failure :: "string option"

definition db_path_for_manifest :: "path \<Rightarrow> path" where
  "db_path_for_manifest manifest_path = set_extension manifest_path ''state.sqlite3''"

definition validate_writer_owner_id :: "string \<Rightarrow> store_error + unit" where
  "validate_writer_owner_id owner_id =
     fail_if (is_blank owner_id \<or> MAX_WRITER_OWNER_ID_BYTES < length owner_id)
       (InvalidWriterOwnerId (length owner_id) MAX_WRITER_OWNER_ID_BYTES)"

definition validate_writer_lease_ttl :: "duration \<Rightarrow> store_error + unit" where
  "validate_writer_lease_ttl ttl =
     fail_if (ttl = 0 \<or> MAX_WRITER_LEASE_TTL < ttl \<or> i64_max < int (ttl div 1000000))
       (InvalidWriterLeaseTtl ttl MAX_WRITER_LEASE_TTL)"

definition load_writer_lease :: "state_db \<Rightarrow> store_error + writer_lease_row" where
  "load_writer_lease db =
     bind_ok (ok_or Database (sd_writer_lease db)) (\<lambda>r.
     if lc_epoch r < 0 then Err (InvalidWriterLeaseEpoch (lc_epoch r))
     else Ok \<lparr>wl_owner_id = lc_owner_id r, wl_epoch = word_of_int (lc_epoch r),
              wl_expires_at_unix_ms = lc_expires_at_unix_ms r,
              wl_acquired_at_unix_ms = lc_acquired_at_unix_ms r\<rparr>)"

definition update_lease :: "(lease_columns \<Rightarrow> lease_columns) \<Rightarrow> state_db \<Rightarrow> state_db" where
  "update_lease f db = db\<lparr>sd_writer_lease := map_option f (sd_writer_lease db)\<rparr>"

definition acquire_writer_lease_in_transaction ::
  "string \<Rightarrow> duration \<Rightarrow> int \<Rightarrow> writer_lease_token transaction"
where
  "acquire_writer_lease_in_transaction owner_id lease_ttl now db =
     bind_ok (load_writer_lease db) (\<lambda>current.
     let expires = i64_saturating_add now (duration_millis_i64 lease_ttl) in
     bind_ok
       (if wl_owner_id current = owner_id \<and> now < wl_expires_at_unix_ms current
        then Ok (wl_epoch current, wl_acquired_at_unix_ms current, max (wl_expires_at_unix_ms current) expires)
        else if wl_owner_id current = [] \<or> wl_expires_at_unix_ms current \<le> now
        then Ok (saturating_add (wl_epoch current) 1, now, expires)
        else Err (WriterLeaseHeld (wl_owner_id current) (wl_epoch current) (wl_expires_at_unix_ms current)))
       (\<lambda>(epoch, acquired, expires).
     Ok (\<lparr>wt_owner_id = owner_id, wt_epoch = epoch, wt_lease_ttl = lease_ttl\<rparr>,
         update_lease (\<lambda>r. r\<lparr>lc_owner_id := owner_id, lc_epoch := u64_to_i64 epoch,
             lc_expires_at_unix_ms := expires, lc_acquired_at_unix_ms := acquired,
             lc_renewed_at_unix_ms := now\<rparr>) db)))"

definition validate_writer_lease :: "writer_lease_token \<Rightarrow> int \<Rightarrow> state_db \<Rightarrow> store_error + state_db" where
  "validate_writer_lease token now db =
     bind_ok (load_writer_lease db) (\<lambda>current.
     if wl_owner_id current \<noteq> wt_owner_id token \<or> wl_epoch current \<noteq> wt_epoch token
        \<or> wl_expires_at_unix_ms current \<le> now
     then Err (WriterLeaseFenced (wt_owner_id token) (wt_epoch token) (wl_owner_id current) (wl_epoch current))
     else
       let renewed_until =
         max (wl_expires_at_unix_ms current) (i64_saturating_add now (duration_millis_i64 (wt_lease_ttl token))) in
       Ok (update_lease (\<lambda>r. r\<lparr>lc_expires_at_unix_ms := renewed_until, lc_renewed_at_unix_ms := now\<rparr>) db))"

definition writer_token :: "state_store \<Rightarrow> store_error + writer_lease_token" where
  "writer_token s =
     bind_ok (ok_or WriterLeaseRequired (ss_writer s)) (\<lambda>token.
     case ss_heartbeat_failure s of None \<Rightarrow> Ok token | Some reason \<Rightarrow> Err (WriterLeaseHeartbeatLost reason))"

definition record_writer_lease_heartbeat_failure :: "string \<Rightarrow> state_store \<Rightarrow> state_store" where
  "record_writer_lease_heartbeat_failure reason s =
     (if ss_writer s = None \<or> ss_heartbeat_failure s \<noteq> None then s
      else s\<lparr>ss_heartbeat_failure := Some reason\<rparr>)"

definition writer_epoch :: "state_store \<Rightarrow> u64 option" where
  "writer_epoch s = map_option wt_epoch (ss_writer s)"

text \<open>An operation of a writer: its token, then one transaction that starts by validating the lease.\<close>

definition as_writer ::
  "db_calls \<Rightarrow> state_store \<Rightarrow> 'a transaction \<Rightarrow> state_db \<Rightarrow> (store_error + 'a) \<times> state_db"
where
  "as_writer c s body db =
     (case writer_token s of
        Inl e \<Rightarrow> (Err e, db)
      | Inr token \<Rightarrow>
          in_transaction c (ss_db_path s) (\<lambda>db.
            bind_ok (validate_writer_lease token (current_unix_millis (dc_clock c)) db) body) db)"

definition renew_writer_lease :: "db_calls \<Rightarrow> state_store \<Rightarrow> state_db \<Rightarrow> (store_error + unit) \<times> state_db" where
  "renew_writer_lease c s db = as_writer c s (\<lambda>db. Ok ((), db)) db"

definition release_writer_lease_for_token ::
  "db_calls \<Rightarrow> path \<Rightarrow> writer_lease_token \<Rightarrow> state_db \<Rightarrow> (store_error + unit) \<times> state_db"
where
  "release_writer_lease_for_token c p token db =
     in_transaction c p (\<lambda>db.
       bind_ok (load_writer_lease db) (\<lambda>lease.
       Ok ((),
         if wl_owner_id lease = wt_owner_id token \<and> wl_epoch lease = wt_epoch token
         then update_lease (\<lambda>r. r\<lparr>lc_owner_id := [], lc_expires_at_unix_ms := 0,
                lc_renewed_at_unix_ms := current_unix_millis (dc_clock c)\<rparr>) db
         else db))) db"

definition release_writer_lease :: "db_calls \<Rightarrow> state_store \<Rightarrow> state_db \<Rightarrow> (store_error + unit) \<times> state_db" where
  "release_writer_lease c s db =
     (case ss_writer s of
        None \<Rightarrow> (Ok (), db)
      | Some token \<Rightarrow> release_writer_lease_for_token c (ss_db_path s) token db)"

subsection \<open>Opening a writer\<close>

definition create_v2_schema :: "state_db \<Rightarrow> state_db" where
  "create_v2_schema db =
     db\<lparr>sd_user_version := 2, sd_user_table_count := 4, sd_assets := [],
        sd_writer_lease := Some \<lparr>lc_owner_id = [], lc_epoch = 0, lc_expires_at_unix_ms = 0,
          lc_acquired_at_unix_ms = 0, lc_renewed_at_unix_ms = 0\<rparr>,
        sd_json_import_metadata := Some \<lparr>ic_imported_once = 0, ic_source_path = None,
          ic_source_size_bytes = None, ic_source_mtime_unix_nanos = None,
          ic_imported_at_unix_ms = None, ic_import_note = None\<rparr>,
        sd_registry_table := True, sd_registry := None\<rparr>"

definition ensure_legacy_upload_migration_registry_table :: "state_db \<Rightarrow> state_db" where
  "ensure_legacy_upload_migration_registry_table db =
     (if sd_registry_table db then db
      else db\<lparr>sd_registry_table := True, sd_registry := None,
              sd_user_table_count := sd_user_table_count db + 1\<rparr>)"

definition initialize_writer :: "path \<Rightarrow> state_db \<Rightarrow> store_error + state_db" where
  "initialize_writer p db =
     bind_ok
       (if sd_user_version db = 0 \<and> sd_user_table_count db = 0 then Ok (create_v2_schema db)
        else if sd_user_version db = 1 then Err (MigrationRequired p)
        else if sd_user_table_count db = 0 then Err MissingSchema
        else if sd_user_version db = SCHEMA_VERSION then Ok db
        else Err (UnsupportedSchema SCHEMA_VERSION (sd_user_version db)))
       (\<lambda>db. Ok (ensure_legacy_upload_migration_registry_table db))"

definition verify_read_only_schema :: "state_db \<Rightarrow> store_error + unit" where
  "verify_read_only_schema db =
     (if sd_user_version db = 0 \<and> sd_user_table_count db = 0 then Err MissingSchema
      else if sd_user_version db = 1 then Err (UnsupportedSchema SCHEMA_VERSION 1)
      else if sd_user_table_count db = 0 then Err MissingSchema
      else if sd_user_version db = SCHEMA_VERSION then Ok ()
      else Err (UnsupportedSchema SCHEMA_VERSION (sd_user_version db)))"

text \<open>The answer of SQLite's \<open>quick_check\<close>, if it answers.\<close>

definition verify_integrity :: "string option \<Rightarrow> store_error + unit" where
  "verify_integrity answer =
     bind_ok (ok_or Database answer) (\<lambda>result. fail_if (result \<noteq> ''ok'') (IntegrityCheck result))"

text \<open>
  The further calls of \<open>open_writer\<close>: creating the directory, switching to write-ahead logging, and
  the integrity check, with the calls of the release where it fails.
\<close>

record open_calls =
  oc_create_dir :: bool
  oc_wal :: bool
  oc_transaction :: db_calls
  oc_quick_check :: "string option"
  oc_release :: db_calls

definition open_writer ::
  "open_calls \<Rightarrow> path \<Rightarrow> string \<Rightarrow> duration \<Rightarrow> state_db \<Rightarrow> (store_error + state_store) \<times> state_db"
where
  "open_writer c manifest_path owner_id lease_ttl db =
     (case checks [validate_writer_owner_id owner_id, validate_writer_lease_ttl lease_ttl] of
        Inl e \<Rightarrow> (Err e, db)
      | Inr _ \<Rightarrow>
          let p = db_path_for_manifest manifest_path in
          if \<not> oc_create_dir c then (Err (CreateDirectory (save_parent p)), db)
          else if \<not> dc_open (oc_transaction c) then (Err (OpenDatabase p), db)
          else if sd_user_version db = 1 then (Err (MigrationRequired p), db)
          else if \<not> oc_wal c then (Err WalUnavailable, db)
          else
            case in_transaction (oc_transaction c) p (\<lambda>db.
                bind_ok (initialize_writer p db)
                  (acquire_writer_lease_in_transaction owner_id lease_ttl
                     (current_unix_millis (dc_clock (oc_transaction c))))) db of
              (Inl e, db') \<Rightarrow> (Err e, db')
            | (Inr token, db') \<Rightarrow>
                (case verify_integrity (oc_quick_check c) of
                   Inl error \<Rightarrow>
                     (case release_writer_lease_for_token (oc_release c) p token db' of
                        (Inl e, db'') \<Rightarrow> (Err e, db'')
                      | (Inr _, db'') \<Rightarrow> (Err error, db''))
                 | Inr _ \<Rightarrow>
                     (Ok \<lparr>ss_manifest_path = manifest_path, ss_db_path = p, ss_writer = Some token,
                          ss_heartbeat_failure = None\<rparr>, db')))"

end
