(* ===== verification/State_Records.thy ===== *)
theory State_Records
  imports State_Lease
begin

section \<open>Records in the state database\<close>

text \<open>
  The operations of \<open>src/src/state_store.rs\<close> on asset records: the encoding of a row, reading the
  manifest back, the import of the JSON manifest, the writes (one record, a batch, a whole manifest, a
  batch compared with what is stored) and the export. A row keeps the text of its record. The text that
  \<open>serde_json\<close> writes is \<open>json_text\<close>; its parser, the digest and what the sealed migration registry needs
  are the parameters of \<open>store_api\<close>.
\<close>

record 'r store_api =
  sa_parse :: "string \<Rightarrow> raw_json option"
  sa_float_text :: "u64 \<Rightarrow> string"
  sa_sha256_hex :: "string \<Rightarrow> string"
  sa_registry :: "'r registry_api"
  sa_registry_text :: "'r \<Rightarrow> string"
  sa_registry_schema_version :: "'r \<Rightarrow> u64"
  sa_registry_eq :: "'r \<Rightarrow> 'r \<Rightarrow> bool"
  sa_migration_record_ok :: "asset_record \<Rightarrow> bool"

subsection \<open>Encoding\<close>

definition encode_record :: "'r store_api \<Rightarrow> asset_record \<Rightarrow> string" where
  "encode_record api r = asset_record_text (sa_float_text api) r"

definition state_store_asset_record_sha256 :: "'r store_api \<Rightarrow> asset_record \<Rightarrow> string" where
  "state_store_asset_record_sha256 api r = asset_record_sha256 (sa_float_text api) (sa_sha256_hex api) r"

definition decode_record :: "'r store_api \<Rightarrow> string \<Rightarrow> string \<Rightarrow> store_error + asset_record" where
  "decode_record api a text = ok_or (DecodeRecord a) (strict_from de_asset_record (sa_parse api text))"

definition store_reject_reserved :: "asset_record \<Rightarrow> store_error + unit" where
  "store_reject_reserved r = fail_if (record_has_reserved_internal_proof r) StoreReservedInternalProof"

definition store_reject_all_reserved :: "asset_record list \<Rightarrow> store_error + unit" where
  "store_reject_all_reserved rs = checks (map store_reject_reserved rs)"

definition reject_reserved_internal_proof_json ::
  "'r store_api \<Rightarrow> string \<Rightarrow> string option \<Rightarrow> store_error + unit"
where
  "reject_reserved_internal_proof_json api a text =
     (case text of None \<Rightarrow> Ok () | Some t \<Rightarrow> bind_ok (decode_record api a t) store_reject_reserved)"

definition reject_persisted_reserved_internal_proof ::
  "'r store_api \<Rightarrow> string \<Rightarrow> state_db \<Rightarrow> store_error + unit"
where
  "reject_persisted_reserved_internal_proof api a db =
     reject_reserved_internal_proof_json api a (map_option aw_record_json (bt_get (sd_assets db) a))"

subsection \<open>Rows\<close>

definition row_of :: "asset_record \<Rightarrow> string \<Rightarrow> asset_row" where
  "row_of r text = \<lparr>aw_state = state_as_str (ar_state r), aw_updated_at = ar_updated_at r, aw_record_json = text\<rparr>"

text \<open>The rows changed, and the tables after the statement.\<close>

definition upsert_encoded_record :: "asset_record \<Rightarrow> string \<Rightarrow> state_db \<Rightarrow> nat \<times> state_db" where
  "upsert_encoded_record r text db =
     (case bt_get (sd_assets db) (ar_asset_id r) of
        Some row \<Rightarrow>
          if aw_updated_at row < ar_updated_at r
          then (1, db\<lparr>sd_assets := bt_insert (ar_asset_id r) (row_of r text) (sd_assets db)\<rparr>)
          else (0, db)
      | None \<Rightarrow> (1, db\<lparr>sd_assets := bt_insert (ar_asset_id r) (row_of r text) (sd_assets db)\<rparr>))"

definition upsert_record :: "'r store_api \<Rightarrow> asset_record \<Rightarrow> state_db \<Rightarrow> nat \<times> state_db" where
  "upsert_record api r db = upsert_encoded_record r (encode_record api r) db"

definition reject_stale_record :: "'r store_api \<Rightarrow> asset_record \<Rightarrow> nat \<Rightarrow> state_db \<Rightarrow> store_error + unit" where
  "reject_stale_record api r changed db =
     (if 0 < changed then Ok ()
      else bind_ok (ok_or Database (bt_get (sd_assets db) (ar_asset_id r))) (\<lambda>row.
           fail_if (aw_record_json row \<noteq> encode_record api r) (StaleRecord (ar_asset_id r))))"

definition validate_requested_record :: "asset_record \<Rightarrow> string \<Rightarrow> asset_row option \<Rightarrow> store_error + unit" where
  "validate_requested_record r text persisted =
     (case persisted of
        None \<Rightarrow> Ok ()
      | Some row \<Rightarrow>
          fail_if (ar_updated_at r < aw_updated_at row
                   \<or> (aw_updated_at row = ar_updated_at r \<and> aw_record_json row \<noteq> text))
            (StaleRecord (ar_asset_id r)))"

subsection \<open>Reading the manifest\<close>

definition state_store_record_authority ::
  "'r store_api \<Rightarrow> asset_record \<Rightarrow> manifest_error + record_authority"
where
  "state_store_record_authority api r =
     (if record_has_reserved_internal_proof r \<and> \<not> sa_migration_record_ok api r
      then Err ReservedInternalProofCapabilityMismatch
      else Ok (authority_for_record (state_store_asset_record_sha256 api) r))"

definition load_row :: "'r store_api \<Rightarrow> string \<times> asset_row \<Rightarrow> 'r manifest \<Rightarrow> store_error + 'r manifest" where
  "load_row api entry m =
     (case entry of (a, row) \<Rightarrow>
        bind_ok (decode_record api a (aw_record_json row)) (\<lambda>r.
        if ar_asset_id r \<noteq> a \<or> state_as_str (ar_state r) \<noteq> aw_state row \<or> ar_updated_at r \<noteq> aw_updated_at row
        then Err (RecordColumnMismatch a)
        else
          map_err StoreManifest
            (bind_ok (state_store_record_authority api r) (\<lambda>au.
             upsert_authorized (state_store_asset_record_sha256 api) au m r))))"

definition load_database_manifest_from_statement :: "'r store_api \<Rightarrow> state_db \<Rightarrow> store_error + 'r manifest" where
  "load_database_manifest_from_statement api db = try_fold (load_row api) (sd_assets db) new_manifest"

definition load_database_legacy_upload_migration_registry ::
  "'r store_api \<Rightarrow> state_db \<Rightarrow> store_error + 'r option"
where
  "load_database_legacy_upload_migration_registry api db =
     (case (if sd_registry_table db then sd_registry db else None) of
        None \<Rightarrow> Ok None
      | Some row \<Rightarrow>
          bind_ok (ok_or DecodeLegacyRegistry
            (strict_from (reg_de (sa_registry api)) (sa_parse api (gc_registry_json row)))) (\<lambda>registry.
          if gc_schema_version row \<noteq> u64_to_i64 (sa_registry_schema_version api registry)
             \<or> gc_registry_sha256 row \<noteq> reg_sha256 (sa_registry api) registry
             \<or> sa_registry_text api registry \<noteq> gc_registry_json row
             \<or> \<not> reg_valid (sa_registry api) registry
          then Err LegacyRegistryMismatch
          else Ok (Some registry)))"

definition install_database_legacy_upload_migration_registry ::
  "'r store_api \<Rightarrow> state_db \<Rightarrow> 'r manifest \<Rightarrow> store_error + 'r manifest"
where
  "install_database_legacy_upload_migration_registry api db m =
     bind_ok (load_database_legacy_upload_migration_registry api db) (\<lambda>found.
     case found of
       None \<Rightarrow> Ok m
     | Some registry \<Rightarrow>
         bind_ok (map_err (\<lambda>_. LegacyRegistryMismatch) (registry_authority (sa_registry api) registry)) (\<lambda>au.
         map_err StoreManifest
           (install_legacy_upload_migration_registry (registry_authorizes (sa_registry api) au) m registry)))"

definition load_database_manifest_from_transaction :: "'r store_api \<Rightarrow> state_db \<Rightarrow> store_error + 'r manifest" where
  "load_database_manifest_from_transaction api db =
     bind_ok (load_database_manifest_from_statement api db)
       (install_database_legacy_upload_migration_registry api db)"

text \<open>
  The JSON checkpoint beside the database: what opening it without following links finds, an error, no
  file or a document; a document that is no manifest counts as none.
\<close>

type_synonym checkpoint_file = "store_error + raw_json option option"

definition load_json_checkpoint ::
  "'r store_api \<Rightarrow> (asset_record \<Rightarrow> string) \<Rightarrow> checkpoint_file \<Rightarrow> store_error + 'r manifest option"
where
  "load_json_checkpoint api digest file =
     bind_ok file (\<lambda>found.
     case found of
       None \<Rightarrow> Ok None
     | Some doc \<Rightarrow>
         (case load_from_reader (sa_registry api) digest doc of
            Inr m \<Rightarrow> Ok (Some m)
          | Inl ManifestJson \<Rightarrow> Ok None
          | Inl e \<Rightarrow> Err (StoreManifest e)))"

definition checkpoint_registry_matches :: "'r manifest option \<Rightarrow> 'r manifest \<Rightarrow> bool" where
  "checkpoint_registry_matches checkpoint m \<longleftrightarrow>
     (case checkpoint of None \<Rightarrow> True
      | Some ck \<Rightarrow> mf_registry ck = None \<or> mf_registry ck = mf_registry m)"

definition validate_database_checkpoint_registry_binding ::
  "'r store_api \<Rightarrow> (asset_record \<Rightarrow> string) \<Rightarrow> checkpoint_file \<Rightarrow> 'r manifest \<Rightarrow> store_error + unit"
where
  "validate_database_checkpoint_registry_binding api digest file m =
     bind_ok (load_json_checkpoint api digest file) (\<lambda>checkpoint.
     fail_if (\<not> checkpoint_registry_matches checkpoint m) JsonCheckpointRegistryMismatch)"

datatype json_checkpoint_status = CheckpointCurrent | CheckpointStale

definition json_checkpoint_status_for_manifest ::
  "'r store_api \<Rightarrow> (asset_record \<Rightarrow> string) \<Rightarrow> checkpoint_file \<Rightarrow> 'r manifest
     \<Rightarrow> store_error + json_checkpoint_status"
where
  "json_checkpoint_status_for_manifest api digest file m =
     bind_ok (load_json_checkpoint api digest file) (\<lambda>checkpoint.
     Ok (if checkpoint = Some m then CheckpointCurrent else CheckpointStale))"

text \<open>\<open>load\<close>, of a writer whose lease was not lost or of a reader.\<close>

definition load_database_manifest ::
  "'r store_api \<Rightarrow> (asset_record \<Rightarrow> string) \<Rightarrow> db_calls \<Rightarrow> state_store \<Rightarrow> checkpoint_file \<Rightarrow> state_db
     \<Rightarrow> store_error + 'r manifest"
where
  "load_database_manifest api digest c s file db =
     bind_ok (if ss_writer s = None then Ok () else map_ok (\<lambda>_. ()) (writer_token s)) (\<lambda>_.
     bind_ok (fail_if (\<not> dc_open c) (OpenDatabase (ss_db_path s))) (\<lambda>_.
     bind_ok (fail_if (\<not> dc_statements c) Database) (\<lambda>_.
     bind_ok (load_database_manifest_from_transaction api db) (\<lambda>m.
     bind_ok (validate_database_checkpoint_registry_binding api digest file m) (\<lambda>_.
     Ok m)))))"

subsection \<open>Writing\<close>

definition write_record :: "'r store_api \<Rightarrow> asset_record \<Rightarrow> unit transaction" where
  "write_record api r db =
     bind_ok (reject_persisted_reserved_internal_proof api (ar_asset_id r) db) (\<lambda>_.
     let (changed, db') = upsert_record api r db in
     bind_ok (reject_stale_record api r changed db') (\<lambda>_. Ok ((), db')))"

definition persist_record_with_owned_lease ::
  "'r store_api \<Rightarrow> db_calls \<Rightarrow> state_store \<Rightarrow> asset_record \<Rightarrow> state_db \<Rightarrow> (store_error + unit) \<times> state_db"
where
  "persist_record_with_owned_lease api c s r db = as_writer c s (write_record api r) db"

definition persist_record ::
  "'r store_api \<Rightarrow> db_calls \<Rightarrow> state_store \<Rightarrow> asset_record \<Rightarrow> state_db \<Rightarrow> (store_error + unit) \<times> state_db"
where
  "persist_record api c s r db =
     (case store_reject_reserved r of
        Inl e \<Rightarrow> (Err e, db)
      | Inr _ \<Rightarrow> persist_record_with_owned_lease api c s (sanitize_untrusted_recipe_claims r) db)"

definition persist_record_trusted ::
  "'r store_api \<Rightarrow> db_calls \<Rightarrow> state_store \<Rightarrow> asset_record \<Rightarrow> state_db \<Rightarrow> (store_error + unit) \<times> state_db"
where
  "persist_record_trusted api c s r db =
     (case store_reject_reserved r of
        Inl e \<Rightarrow> (Err e, db)
      | Inr _ \<Rightarrow> persist_record_with_owned_lease api c s r db)"

text \<open>The check of a batch against the rows, then its writes.\<close>

definition validate_against_rows :: "'r store_api \<Rightarrow> state_db \<Rightarrow> asset_record \<Rightarrow> store_error + unit" where
  "validate_against_rows api db r =
     (let persisted = bt_get (sd_assets db) (ar_asset_id r) in
      bind_ok (reject_reserved_internal_proof_json api (ar_asset_id r) (map_option aw_record_json persisted)) (\<lambda>_.
      validate_requested_record r (encode_record api r) persisted))"

definition write_records :: "'r store_api \<Rightarrow> asset_record list \<Rightarrow> unit transaction" where
  "write_records api rs db =
     bind_ok (checks (map (validate_against_rows api db) rs)) (\<lambda>_.
     Ok ((), fold (\<lambda>r db. snd (upsert_record api r db)) rs db))"

definition claim_asset_id :: "string \<Rightarrow> string set \<Rightarrow> store_error + string set" where
  "claim_asset_id a seen = (if a \<in> seen then Err (DuplicateRecord a) else Ok (insert a seen))"

definition persist_records_atomic_with_owned_lease ::
  "'r store_api \<Rightarrow> db_calls \<Rightarrow> state_store \<Rightarrow> asset_record list \<Rightarrow> state_db \<Rightarrow> (store_error + unit) \<times> state_db"
where
  "persist_records_atomic_with_owned_lease api c s rs db =
     (case bind_ok (writer_token s) (\<lambda>_. try_fold claim_asset_id (map ar_asset_id rs) {}) of
        Inl e \<Rightarrow> (Err e, db)
      | Inr _ \<Rightarrow> if rs = [] then (Ok (), db) else as_writer c s (write_records api rs) db)"

definition persist_records_atomic ::
  "'r store_api \<Rightarrow> db_calls \<Rightarrow> state_store \<Rightarrow> asset_record list \<Rightarrow> state_db \<Rightarrow> (store_error + unit) \<times> state_db"
where
  "persist_records_atomic api c s rs db =
     (case store_reject_all_reserved rs of
        Inl e \<Rightarrow> (Err e, db)
      | Inr _ \<Rightarrow> persist_records_atomic_with_owned_lease api c s (map sanitize_untrusted_recipe_claims rs) db)"

definition persist_records_atomic_trusted ::
  "'r store_api \<Rightarrow> db_calls \<Rightarrow> state_store \<Rightarrow> asset_record list \<Rightarrow> state_db \<Rightarrow> (store_error + unit) \<times> state_db"
where
  "persist_records_atomic_trusted api c s rs db =
     (case store_reject_all_reserved rs of
        Inl e \<Rightarrow> (Err e, db)
      | Inr _ \<Rightarrow> persist_records_atomic_with_owned_lease api c s rs db)"

definition persist_manifest_records_with_owned_lease ::
  "'r store_api \<Rightarrow> db_calls \<Rightarrow> state_store \<Rightarrow> 'r manifest \<Rightarrow> state_db \<Rightarrow> (store_error + unit) \<times> state_db"
where
  "persist_manifest_records_with_owned_lease api c s m db =
     (case writer_token s of
        Inl e \<Rightarrow> (Err e, db)
      | Inr _ \<Rightarrow>
          if mf_records m = [] then (Ok (), db)
          else as_writer c s (write_records api (bt_values (mf_records m))) db)"

definition persist_manifest_records ::
  "'r store_api \<Rightarrow> db_calls \<Rightarrow> state_store \<Rightarrow> 'r manifest \<Rightarrow> state_db \<Rightarrow> (store_error + unit) \<times> state_db"
where
  "persist_manifest_records api c s m db =
     (case bind_ok (store_reject_all_reserved (bt_values (mf_records m))) (\<lambda>_.
             map_err StoreManifest
               (try_fold (\<lambda>r sanitized. upsert sanitized r) (bt_values (mf_records m)) new_manifest)) of
        Inl e \<Rightarrow> (Err e, db)
      | Inr sanitized \<Rightarrow> persist_manifest_records_with_owned_lease api c s (sanitized :: 'r manifest) db)"

definition persist_manifest_records_trusted ::
  "'r store_api \<Rightarrow> db_calls \<Rightarrow> state_store \<Rightarrow> 'r manifest \<Rightarrow> state_db \<Rightarrow> (store_error + unit) \<times> state_db"
where
  "persist_manifest_records_trusted api c s m db =
     (case store_reject_all_reserved (bt_values (mf_records m)) of
        Inl e \<Rightarrow> (Err e, db)
      | Inr _ \<Rightarrow> persist_manifest_records_with_owned_lease api c s m db)"

end
