(* ===== verification/State_Store.thy ===== *)
theory State_Store
  imports State_Records
begin

section \<open>Exact writes, import and export\<close>

text \<open>
  The remaining operations of \<open>src/src/state_store.rs\<close>: a batch that is written only if every stored
  row is still exactly the expected one (compare and swap), the sealed registry of the legacy
  migration, the one-time import of the JSON manifest and the export of the tables as that manifest.
\<close>

subsection \<open>The migration registry\<close>

text \<open>The two modes of \<open>LegacyUploadMigrationRegistryWriteMode\<close>, with the registry.\<close>

datatype 'r registry_write = InsertOnceOrExactReplay 'r | VerifyExact 'r

definition insert_or_replay_legacy_upload_migration_registry ::
  "'r store_api \<Rightarrow> 'r \<Rightarrow> state_db \<Rightarrow> store_error + state_db"
where
  "insert_or_replay_legacy_upload_migration_registry api registry db =
     bind_ok (fail_if (\<not> reg_valid (sa_registry api) registry) LegacyRegistryMismatch) (\<lambda>_.
     bind_ok (load_database_legacy_upload_migration_registry api db) (\<lambda>persisted.
     case persisted of
       Some p \<Rightarrow> if sa_registry_eq api p registry then Ok db else Err LegacyRegistryMismatch
     | None \<Rightarrow>
         Ok (db\<lparr>sd_registry := Some
               \<lparr>gc_schema_version = u64_to_i64 (sa_registry_schema_version api registry),
                gc_registry_sha256 = reg_sha256 (sa_registry api) registry,
                gc_registry_json = sa_registry_text api registry\<rparr>\<rparr>)))"

definition apply_legacy_upload_migration_registry_authority ::
  "'r store_api \<Rightarrow> 'r registry_write \<Rightarrow> state_db \<Rightarrow> store_error + state_db"
where
  "apply_legacy_upload_migration_registry_authority api authority db =
     (case authority of
        InsertOnceOrExactReplay registry \<Rightarrow> insert_or_replay_legacy_upload_migration_registry api registry db
      | VerifyExact registry \<Rightarrow>
          bind_ok (load_database_legacy_upload_migration_registry api db) (\<lambda>persisted.
          if rel_option (sa_registry_eq api) persisted (Some registry) then Ok db else Err LegacyRegistryMismatch))"

subsection \<open>Compare and swap\<close>

record cas_update =
  cu_expected :: asset_record
  cu_updated :: asset_record

definition claim_cas_update :: "cas_update \<Rightarrow> string set \<Rightarrow> store_error + string set" where
  "claim_cas_update u seen =
     (if ar_asset_id (cu_expected u) \<noteq> ar_asset_id (cu_updated u)
      then Err (ExactCasMismatchedIds (ar_asset_id (cu_expected u)) (ar_asset_id (cu_updated u)))
      else claim_asset_id (ar_asset_id (cu_expected u)) seen)"

definition expected_is_stored :: "'r store_api \<Rightarrow> state_db \<Rightarrow> cas_update \<Rightarrow> store_error + unit" where
  "expected_is_stored api db u =
     fail_if
       (bt_get (sd_assets db) (ar_asset_id (cu_expected u))
          \<noteq> Some (row_of (cu_expected u) (encode_record api (cu_expected u))))
       (ExactCasMismatch (ar_asset_id (cu_expected u)))"

definition swap_record :: "'r store_api \<Rightarrow> cas_update \<Rightarrow> state_db \<Rightarrow> store_error + state_db" where
  "swap_record api u db =
     (let r = cu_updated u in
      if bt_contains (sd_assets db) (ar_asset_id r)
      then Ok (db\<lparr>sd_assets := bt_insert (ar_asset_id r) (row_of r (encode_record api r)) (sd_assets db)\<rparr>)
      else Err (ExactCasMismatch (ar_asset_id r)))"

definition swap_records ::
  "'r store_api \<Rightarrow> 'r registry_write option \<Rightarrow> cas_update list \<Rightarrow> unit transaction"
where
  "swap_records api authority us db =
     bind_ok (case authority of None \<Rightarrow> Ok db
       | Some au \<Rightarrow> apply_legacy_upload_migration_registry_authority api au db) (\<lambda>db.
     bind_ok (checks (map (expected_is_stored api db) us)) (\<lambda>_.
     map_ok (\<lambda>db. ((), db)) (try_fold (swap_record api) us db)))"

definition persist_records_exact_cas_atomic_with_owned_lease ::
  "'r store_api \<Rightarrow> db_calls \<Rightarrow> state_store \<Rightarrow> 'r registry_write option \<Rightarrow> cas_update list \<Rightarrow> state_db
     \<Rightarrow> (store_error + unit) \<times> state_db"
where
  "persist_records_exact_cas_atomic_with_owned_lease api c s authority us db =
     (case bind_ok (writer_token s) (\<lambda>_. try_fold claim_cas_update us {}) of
        Inl e \<Rightarrow> (Err e, db)
      | Inr _ \<Rightarrow> if us = [] then (Ok (), db) else as_writer c s (swap_records api authority us) db)"

definition persist_records_exact_cas_atomic_trusted ::
  "'r store_api \<Rightarrow> db_calls \<Rightarrow> state_store \<Rightarrow> cas_update list \<Rightarrow> state_db \<Rightarrow> (store_error + unit) \<times> state_db"
where
  "persist_records_exact_cas_atomic_trusted api c s us db =
     (if list_ex (\<lambda>u. record_has_reserved_internal_proof (cu_expected u)
           \<or> record_has_reserved_internal_proof (cu_updated u)) us
      then (Err StoreReservedInternalProof, db)
      else persist_records_exact_cas_atomic_with_owned_lease api c s None us db)"

definition persist_records_exact_cas_atomic ::
  "'r store_api \<Rightarrow> db_calls \<Rightarrow> state_store \<Rightarrow> cas_update list \<Rightarrow> state_db \<Rightarrow> (store_error + unit) \<times> state_db"
where
  "persist_records_exact_cas_atomic api c s us db =
     (if list_ex (\<lambda>u. record_has_reserved_internal_proof (cu_expected u)
           \<or> record_has_reserved_internal_proof (cu_updated u)) us
      then (Err StoreReservedInternalProof, db)
      else persist_records_exact_cas_atomic_trusted api c s
             (map (\<lambda>u. u\<lparr>cu_updated := sanitize_untrusted_recipe_claims (cu_updated u)\<rparr>) us) db)"

subsection \<open>Import\<close>

text \<open>
  What reading the JSON manifest finds: its document or nothing, an I/O error, and the size and time
  of the file.
\<close>

record import_calls =
  im_file :: "manifest_error + raw_json option option"
  im_metadata :: "store_error + (u64 \<times> system_time option) option"
  im_clock :: system_time

record 'r json_import_snapshot =
  is_manifest :: "'r manifest"
  is_source_size_bytes :: "int option"
  is_source_mtime_unix_nanos :: "int option"
  is_import_note :: string

definition system_time_to_unix_nanos_i64 :: "system_time \<Rightarrow> int option" where
  "system_time_to_unix_nanos_i64 t =
     Option.bind (duration_since t 0) (\<lambda>d. if int d \<le> i64_max then Some (int d) else None)"

definition manifest_file_metadata :: "import_calls \<Rightarrow> store_error + int option \<times> int option" where
  "manifest_file_metadata c =
     map_ok (\<lambda>found.
       case found of
         None \<Rightarrow> (None, None)
       | Some (bytes, modified) \<Rightarrow>
           (Some (u64_to_i64 bytes), Option.bind modified system_time_to_unix_nanos_i64)) (im_metadata c)"

definition load_json_manifest_snapshot ::
  "'r store_api \<Rightarrow> (asset_record \<Rightarrow> string) \<Rightarrow> import_calls \<Rightarrow> store_error + 'r json_import_snapshot"
where
  "load_json_manifest_snapshot api digest c =
     bind_ok (map_err StoreManifest (im_file c)) (\<lambda>found.
     case found of
       None \<Rightarrow>
         Ok \<lparr>is_manifest = new_manifest, is_source_size_bytes = None, is_source_mtime_unix_nanos = None,
             is_import_note = ''missing_json_bootstrap''\<rparr>
     | Some doc \<Rightarrow>
         bind_ok (map_err StoreManifest (load_from_reader (sa_registry api) digest doc)) (\<lambda>m.
         bind_ok (fail_if (\<not> reg_binding (sa_registry api) m) LegacyRegistryMismatch) (\<lambda>_.
         bind_ok (manifest_file_metadata c) (\<lambda>(bytes, modified).
         Ok \<lparr>is_manifest = m, is_source_size_bytes = bytes, is_source_mtime_unix_nanos = modified,
             is_import_note = ''json_bootstrap''\<rparr>))))"

definition persist_json_import_metadata ::
  "path \<Rightarrow> 'r json_import_snapshot \<Rightarrow> int \<Rightarrow> state_db \<Rightarrow> state_db"
where
  "persist_json_import_metadata manifest_path snapshot now db =
     db\<lparr>sd_json_import_metadata := map_option (\<lambda>_.
          \<lparr>ic_imported_once = 1, ic_source_path = Some manifest_path,
           ic_source_size_bytes = is_source_size_bytes snapshot,
           ic_source_mtime_unix_nanos = is_source_mtime_unix_nanos snapshot,
           ic_imported_at_unix_ms = Some now, ic_import_note = Some (is_import_note snapshot)\<rparr>)
        (sd_json_import_metadata db)\<rparr>"

definition import_snapshot ::
  "'r store_api \<Rightarrow> path \<Rightarrow> 'r json_import_snapshot \<Rightarrow> int \<Rightarrow> state_db \<Rightarrow> store_error + state_db"
where
  "import_snapshot api manifest_path snapshot now db =
     bind_ok (case mf_registry (is_manifest snapshot) of None \<Rightarrow> Ok db
       | Some registry \<Rightarrow> insert_or_replay_legacy_upload_migration_registry api registry db) (\<lambda>db.
     Ok (persist_json_import_metadata manifest_path snapshot now
           (fold (\<lambda>r db. snd (upsert_record api r db)) (bt_values (mf_records (is_manifest snapshot))) db)))"

definition import_once ::
  "'r store_api \<Rightarrow> (asset_record \<Rightarrow> string) \<Rightarrow> import_calls \<Rightarrow> path \<Rightarrow> state_db \<Rightarrow> store_error + state_db"
where
  "import_once api digest ic manifest_path db =
     bind_ok (ok_or Database (sd_json_import_metadata db)) (\<lambda>metadata.
     if ic_imported_once metadata \<noteq> 0 then Ok db
     else bind_ok (load_json_manifest_snapshot api digest ic) (\<lambda>snapshot.
          import_snapshot api manifest_path snapshot (current_unix_millis (im_clock ic)) db))"

definition load_or_import ::
  "'r store_api \<Rightarrow> (asset_record \<Rightarrow> string) \<Rightarrow> db_calls \<Rightarrow> import_calls \<Rightarrow> state_store \<Rightarrow> state_db
     \<Rightarrow> (store_error + 'r manifest) \<times> state_db"
where
  "load_or_import api digest c ic s db =
     as_writer c s (\<lambda>db.
       bind_ok (import_once api digest ic (ss_manifest_path s) db) (\<lambda>db.
       map_ok (\<lambda>m. (m, db)) (load_database_manifest_from_transaction api db))) db"

subsection \<open>Export\<close>

text \<open>
  The export writes the file inside the transaction: the result, the tables, and every state of the
  file system on the way. \<open>StateStoreManifestExportAuthority\<close> is made from the very manifest and path
  it is used with; what remains of it is the binding of the registry.
\<close>

definition exported_manifest ::
  "'r store_api \<Rightarrow> (asset_record \<Rightarrow> string) \<Rightarrow> checkpoint_file \<Rightarrow> state_db \<Rightarrow> store_error + 'r manifest"
where
  "exported_manifest api digest file db =
     bind_ok (load_database_manifest_from_transaction api db) (\<lambda>m.
     bind_ok (load_json_checkpoint api digest file) (\<lambda>checkpoint.
     bind_ok (fail_if (\<not> checkpoint_registry_matches checkpoint m) JsonCheckpointRegistryMismatch) (\<lambda>_.
     bind_ok (fail_if (\<not> reg_binding (sa_registry api) m)
       (StoreManifest ReservedInternalProofCapabilityMismatch)) (\<lambda>_.
     Ok m))))"

text \<open>The commit comes after the file is written, so it is left out of the transaction and added last.\<close>

definition export_json ::
  "'r store_api \<Rightarrow> (asset_record \<Rightarrow> string) \<Rightarrow> db_calls \<Rightarrow> save_calls \<Rightarrow> state_store \<Rightarrow> checkpoint_file
     \<Rightarrow> string file_system \<Rightarrow> state_db
     \<Rightarrow> (store_error + 'r manifest) \<times> state_db \<times> string file_system list"
where
  "export_json api digest c sc s file fs db =
     (case as_writer (c\<lparr>dc_commit := True\<rparr>) s (\<lambda>db. map_ok (\<lambda>m. (m, db)) (exported_manifest api digest file db)) db of
        (Inl e, db') \<Rightarrow> (Err e, db, [fs])
      | (Inr m, db') \<Rightarrow>
          (case save_atomic_unchecked sc (manifest_text (sa_float_text api) (sa_registry api) m) (ss_manifest_path s) fs of
             (states, Inl e) \<Rightarrow> (Err (StoreManifest e), db, states)
           | (states, Inr _) \<Rightarrow>
               if dc_commit c then (Ok m, db', states) else (Err Database, db, states)))"

end
