(* ===== verification/State_Fence.thy ===== *)
theory State_Fence
  imports State_Store
begin

section \<open>Who may write\<close>

text \<open>
  Runs of operations by any number of processes on one database. The lease of a writer is its owner id
  and its epoch; the epoch of the database never decreases, so a lease that was lost is lost for good,
  and everything that changes the records between two moments a writer holds its lease was done
  under that lease. \<open>locale keeps_lease\<close> is what an operation's transaction owes to the lease.
\<close>

subsection \<open>The contract of a transaction\<close>

definition schema_frame :: "state_db \<Rightarrow> int \<times> nat" where
  "schema_frame db = (sd_user_version db, sd_user_table_count db)"

definition lease_key :: "state_db \<Rightarrow> (string \<times> int) option" where
  "lease_key db = map_option (\<lambda>r. (lc_owner_id r, lc_epoch r)) (sd_writer_lease db)"

definition holds_lease :: "writer_lease_token \<Rightarrow> state_db \<Rightarrow> bool" where
  "holds_lease t db \<longleftrightarrow> lease_key db = Some (wt_owner_id t, int (unat (wt_epoch t)))"

lemma update_lease_simps [simp]:
  "sd_assets (update_lease f db) = sd_assets db"
  "schema_frame (update_lease f db) = schema_frame db"
  "sd_writer_lease (update_lease f db) = map_option f (sd_writer_lease db)"
  by (simp_all add: update_lease_def schema_frame_def)

locale keeps_lease =
  fixes body :: "'a transaction"
  assumes keeps_row: "body db = Inr (x, db') \<Longrightarrow> sd_writer_lease db' = sd_writer_lease db"
    and keeps_schema: "body db = Inr (x, db') \<Longrightarrow> schema_frame db' = schema_frame db"
begin

lemma as_writer_cases:
  assumes "as_writer c s body db = (r, db')"
  obtains (refused) e where "r = Inl e" "db' = db"
  | (written) t l x where "r = Inr x" "ss_writer s = Some t" "load_writer_lease db = Inr l"
      "wl_owner_id l = wt_owner_id t" "wl_epoch l = wt_epoch t" "lease_key db' = lease_key db"
      "schema_frame db' = schema_frame db"
proof (cases r)
  case (Inl e)
  with assms have "db' = db"
    by (auto simp: as_writer_def in_transaction_def split: sum.splits prod.splits if_splits)
  with Inl show ?thesis by (rule refused)
next
  case (Inr x)
  with assms obtain t db1 where t: "writer_token s = Inr t"
    and v: "validate_writer_lease t (current_unix_millis (dc_clock c)) db = Inr db1"
    and b: "body db1 = Inr (x, db')"
    by (auto simp: as_writer_def in_transaction_def bind_ok_eq_Ok split: sum.splits prod.splits if_splits)
  from v obtain l f where l: "load_writer_lease db = Inr l" "wl_owner_id l = wt_owner_id t"
      "wl_epoch l = wt_epoch t" and db1: "db1 = update_lease f db"
      and f: "\<And>r. lc_owner_id (f r) = lc_owner_id r \<and> lc_epoch (f r) = lc_epoch r"
    by (fastforce simp: validate_writer_lease_def result_simps Let_def split: if_splits)
  from t have "ss_writer s = Some t"
    by (auto simp: writer_token_def result_simps split: option.splits)
  moreover have "lease_key db' = lease_key db"
    using keeps_row [OF b] db1 f by (simp add: lease_key_def option.map_comp comp_def)
  moreover have "schema_frame db' = schema_frame db"
    using keeps_schema [OF b] db1 by simp
  ultimately show ?thesis using written Inr l by blast
qed

end

lemma snd_upsert_record [simp]:
  "sd_writer_lease (snd (upsert_record api r db)) = sd_writer_lease db"
  "schema_frame (snd (upsert_record api r db)) = schema_frame db"
  by (simp_all add: upsert_record_def upsert_encoded_record_def schema_frame_def split: option.split)

lemma fold_upsert_records [simp]:
  "sd_writer_lease (fold (\<lambda>r db. snd (upsert_record api r db)) rs db) = sd_writer_lease db"
  "schema_frame (fold (\<lambda>r db. snd (upsert_record api r db)) rs db) = schema_frame db"
  by (induction rs arbitrary: db) simp_all

lemma insert_registry_frame:
  assumes "insert_or_replay_legacy_upload_migration_registry api g db = Inr db'"
  shows "sd_writer_lease db' = sd_writer_lease db \<and> schema_frame db' = schema_frame db
    \<and> sd_assets db' = sd_assets db"
  using assms
  by (auto simp: insert_or_replay_legacy_upload_migration_registry_def result_simps schema_frame_def
      split: option.splits if_splits)

lemma registry_authority_frame:
  assumes "apply_legacy_upload_migration_registry_authority api au db = Inr db'"
  shows "sd_writer_lease db' = sd_writer_lease db \<and> schema_frame db' = schema_frame db
    \<and> sd_assets db' = sd_assets db"
  using assms
  by (auto simp: apply_legacy_upload_migration_registry_authority_def result_simps
      split: registry_write.splits if_splits dest!: insert_registry_frame)

lemma swap_record_frame:
  assumes "try_fold (swap_record api) us db = Inr db'"
  shows "sd_writer_lease db' = sd_writer_lease db \<and> schema_frame db' = schema_frame db"
  by (rule try_fold_invariant [OF assms])
    (auto simp: swap_record_def Let_def schema_frame_def split: if_splits)

lemma import_once_frame:
  assumes "import_once api digest ic p db = Inr db'"
  shows "sd_writer_lease db' = sd_writer_lease db \<and> schema_frame db' = schema_frame db"
proof -
  have persist: "sd_writer_lease (persist_json_import_metadata p sn now d) = sd_writer_lease d
      \<and> schema_frame (persist_json_import_metadata p sn now d) = schema_frame d" for sn :: "'a json_import_snapshot" and now d
    by (simp add: persist_json_import_metadata_def schema_frame_def)
  show ?thesis
    using assms persist
    by (auto simp: import_once_def import_snapshot_def result_simps
        split: if_splits option.splits dest!: insert_registry_frame)
qed

interpretation renewal: keeps_lease "\<lambda>db. Inr ((), db)"
  by unfold_locales auto

interpretation record_write: keeps_lease "write_record api r" for api r
proof unfold_locales
  fix db db' and u :: unit
  assume "write_record api r db = Inr (u, db')"
  then have "db' = snd (upsert_record api r db)"
    by (auto simp: write_record_def result_simps split: prod.splits)
  then show "sd_writer_lease db' = sd_writer_lease db" "schema_frame db' = schema_frame db"
    by simp_all
qed

interpretation batch_write: keeps_lease "write_records api rs" for api rs
  by unfold_locales (auto simp: write_records_def result_simps)

interpretation exact_write: keeps_lease "swap_records api authority us" for api authority us
  by unfold_locales
    (auto simp: swap_records_def result_simps split: option.splits
      dest!: swap_record_frame registry_authority_frame)

interpretation importing: keeps_lease
  "\<lambda>db. bind_ok (import_once api digest ic p db) (\<lambda>db.
     map_ok (\<lambda>m. (m, db)) (load_database_manifest_from_transaction api db))" for api digest ic p
  by unfold_locales (auto simp: result_simps dest!: import_once_frame)

interpretation exporting: keeps_lease "\<lambda>db. map_ok (\<lambda>m. (m, db)) (exported_manifest api digest found db)"
  for api digest found
  by unfold_locales (auto simp: result_simps)

subsection \<open>Runs\<close>

datatype 'r store_operation =
    Renew
  | PersistRecord asset_record
  | PersistRecordTrusted asset_record
  | PersistAtomic "asset_record list"
  | PersistAtomicTrusted "asset_record list"
  | PersistManifest "'r manifest"
  | PersistManifestTrusted "'r manifest"
  | ExactCas "cas_update list"
  | ExactCasTrusted "cas_update list"
  | MigrationCas "'r registry_write" "cas_update list"
  | LoadOrImport import_calls
  | ExportJson save_calls checkpoint_file "string file_system"

definition outcome :: "(store_error + 'a) \<times> state_db \<Rightarrow> store_error option \<times> state_db" where
  "outcome r = (case r of (Inl e, db) \<Rightarrow> (Some e, db) | (Inr _, db) \<Rightarrow> (None, db))"

fun operate ::
  "'r store_api \<Rightarrow> (asset_record \<Rightarrow> string) \<Rightarrow> db_calls \<Rightarrow> state_store \<Rightarrow> 'r store_operation \<Rightarrow> state_db
     \<Rightarrow> store_error option \<times> state_db"
where
  "operate api digest c s Renew db = outcome (renew_writer_lease c s db)"
| "operate api digest c s (PersistRecord r) db = outcome (persist_record api c s r db)"
| "operate api digest c s (PersistRecordTrusted r) db = outcome (persist_record_trusted api c s r db)"
| "operate api digest c s (PersistAtomic rs) db = outcome (persist_records_atomic api c s rs db)"
| "operate api digest c s (PersistAtomicTrusted rs) db = outcome (persist_records_atomic_trusted api c s rs db)"
| "operate api digest c s (PersistManifest m) db = outcome (persist_manifest_records api c s m db)"
| "operate api digest c s (PersistManifestTrusted m) db = outcome (persist_manifest_records_trusted api c s m db)"
| "operate api digest c s (ExactCas us) db = outcome (persist_records_exact_cas_atomic api c s us db)"
| "operate api digest c s (ExactCasTrusted us) db = outcome (persist_records_exact_cas_atomic_trusted api c s us db)"
| "operate api digest c s (MigrationCas au us) db =
     outcome (persist_records_exact_cas_atomic_with_owned_lease api c s (Some au) us db)"
| "operate api digest c s (LoadOrImport ic) db = outcome (load_or_import api digest c ic s db)"
| "operate api digest c s (ExportJson sc found fs) db =
     (case export_json api digest c sc s found fs db of (r, db', _) \<Rightarrow> outcome (r, db'))"

text \<open>What an operation that changed the tables proves of its writer.\<close>

definition wrote_under_lease :: "state_store \<Rightarrow> state_db \<Rightarrow> state_db \<Rightarrow> bool" where
  "wrote_under_lease s db db' \<longleftrightarrow>
     (\<exists>t l. ss_writer s = Some t \<and> load_writer_lease db = Inr l \<and> wl_owner_id l = wt_owner_id t
        \<and> wl_epoch l = wt_epoch t \<and> lease_key db' = lease_key db \<and> schema_frame db' = schema_frame db)"

lemma outcome_eq: "outcome (r, db) = (e, db') \<longleftrightarrow> db' = db \<and> e = (case r of Inl x \<Rightarrow> Some x | Inr _ \<Rightarrow> None)"
  by (auto simp: outcome_def split: sum.splits)

lemma snd_outcome [simp]: "snd (outcome r) = snd r"
  by (auto simp: outcome_def split: prod.splits sum.splits)

context keeps_lease
begin

lemma as_writer_writes:
  "snd (as_writer c s body db) = db \<or> wrote_under_lease s db (snd (as_writer c s body db))"
proof -
  obtain r db' where w: "as_writer c s body db = (r, db')" by (cases "as_writer c s body db")
  from w show ?thesis
    by (cases rule: as_writer_cases) (auto simp: w wrote_under_lease_def)
qed

end

lemma persist_records_atomic_writes:
  "snd (persist_records_atomic_with_owned_lease api c s rs db) = db
   \<or> wrote_under_lease s db (snd (persist_records_atomic_with_owned_lease api c s rs db))"
  using batch_write.as_writer_writes [of c s api rs db]
  by (auto simp: persist_records_atomic_with_owned_lease_def split: sum.splits)

lemma persist_manifest_writes:
  "snd (persist_manifest_records_with_owned_lease api c s m db) = db
   \<or> wrote_under_lease s db (snd (persist_manifest_records_with_owned_lease api c s m db))"
  using batch_write.as_writer_writes [of c s api "bt_values (mf_records m)" db]
  by (auto simp: persist_manifest_records_with_owned_lease_def split: sum.splits)

lemma exact_cas_writes:
  "snd (persist_records_exact_cas_atomic_with_owned_lease api c s au us db) = db
   \<or> wrote_under_lease s db (snd (persist_records_exact_cas_atomic_with_owned_lease api c s au us db))"
  using exact_write.as_writer_writes [of c s api au us db]
  by (auto simp: persist_records_exact_cas_atomic_with_owned_lease_def split: sum.splits)

lemma export_writes:
  "fst (snd (export_json api digest c sc s found fs db)) = db
   \<or> wrote_under_lease s db (fst (snd (export_json api digest c sc s found fs db)))"
  using exporting.as_writer_writes [of "c\<lparr>dc_commit := True\<rparr>" s api digest found db]
  by (auto simp: export_json_def split: prod.splits sum.splits)

lemma operate_writes:
  "snd (operate api digest c s op db) = db \<or> wrote_under_lease s db (snd (operate api digest c s op db))"
proof (cases op)
  case (ExportJson sc found fs)
  then show ?thesis
    using export_writes [of api digest c sc s found fs db] by (auto split: prod.splits)
next
  case (PersistManifest m)
  then show ?thesis
    using persist_manifest_writes [of api c s _ db]
    by (auto simp: persist_manifest_records_def split: sum.splits)
qed (use renewal.as_writer_writes [of c s db] record_write.as_writer_writes [of c s api _ db]
      importing.as_writer_writes [of c s api digest _ "ss_manifest_path s" db]
      persist_records_atomic_writes [of api c s _ db] persist_manifest_writes [of api c s _ db]
      exact_cas_writes [of api c s _ _ db]
    in \<open>auto simp: renew_writer_lease_def persist_record_def persist_record_trusted_def
        persist_record_with_owned_lease_def persist_records_atomic_def persist_records_atomic_trusted_def
        persist_manifest_records_trusted_def persist_records_exact_cas_atomic_def
        persist_records_exact_cas_atomic_trusted_def load_or_import_def split: sum.splits\<close>)

end
