(* ===== verification/State_Runs.thy ===== *)
theory State_Runs
  imports State_Fence
begin

section \<open>Runs on the state database\<close>

text \<open>
  Any number of processes open writers, operate and release on one database. Every step moves the lease
  forward (\<open>lease_grows\<close>): the epoch does not decrease, and at the same epoch the owner stays or is
  cleared. From that follow the two guarantees a writer relies on.
\<close>

datatype 'r store_event =
    OpenWriter open_calls path string duration
  | Operate db_calls state_store "'r store_operation"
  | Release db_calls state_store

fun store_step :: "'r store_api \<Rightarrow> (asset_record \<Rightarrow> string) \<Rightarrow> 'r store_event \<Rightarrow> state_db \<Rightarrow> state_db" where
  "store_step api digest (OpenWriter oc p owner ttl) db = snd (open_writer oc p owner ttl db)"
| "store_step api digest (Operate c s op) db = snd (operate api digest c s op db)"
| "store_step api digest (Release c s) db = snd (release_writer_lease c s db)"

definition store_run ::
  "'r store_api \<Rightarrow> (asset_record \<Rightarrow> string) \<Rightarrow> 'r store_event list \<Rightarrow> state_db \<Rightarrow> state_db"
where
  "store_run api digest es db = fold (store_step api digest) es db"

text \<open>A database after its first writer: the schema, and a lease row whose epoch is an \<open>i64\<close>.\<close>

definition db_ready :: "state_db \<Rightarrow> bool" where
  "db_ready db \<longleftrightarrow>
     sd_user_version db = SCHEMA_VERSION \<and> 0 < sd_user_table_count db
     \<and> (\<exists>w e. lease_key db = Some (w, e) \<and> 0 \<le> e \<and> e \<le> i64_max)"

definition lease_grows :: "state_db \<Rightarrow> state_db \<Rightarrow> bool" where
  "lease_grows db db' \<longleftrightarrow>
     (\<exists>w e w' e'. lease_key db = Some (w, e) \<and> lease_key db' = Some (w', e') \<and> e \<le> e' \<and> e' \<le> i64_max
        \<and> (e' = e \<longrightarrow> w' = w \<or> w' = [] \<or> e = i64_max))"

lemma lease_grows_refl: "db_ready db \<Longrightarrow> lease_key db' = lease_key db \<Longrightarrow> lease_grows db db'"
  by (auto simp: db_ready_def lease_grows_def)

lemma lease_grows_trans:
  assumes "lease_grows a b" and "lease_grows b c"
  shows "lease_grows a c"
  using assms unfolding lease_grows_def by fastforce

text \<open>What a step may do to the tables beside the records.\<close>

definition lease_step :: "state_db \<Rightarrow> state_db \<Rightarrow> bool" where
  "lease_step db db' \<longleftrightarrow> lease_grows db db' \<and> db_ready db'"

lemma lease_step_trans: "lease_step a b \<Longrightarrow> lease_step b c \<Longrightarrow> lease_step a c"
  by (auto simp: lease_step_def intro: lease_grows_trans)

lemma lease_step_refl: "db_ready db \<Longrightarrow> lease_step db db"
  by (simp add: lease_step_def lease_grows_refl)

lemma lease_step_same_schema:
  assumes "db_ready db" "lease_grows db db'" "schema_frame db' = schema_frame db"
  shows "lease_step db db'"
  using assms by (fastforce simp: lease_step_def lease_grows_def db_ready_def schema_frame_def)

lemma epoch_word:
  assumes "0 \<le> e" "e \<le> i64_max"
  shows "int (unat (word_of_int e :: u64)) = e"
  using assms by (simp add: i64_max_def unsigned_of_int take_bit_int_eq_self)

lemma load_writer_lease_key:
  assumes "load_writer_lease db = Inr l" "db_ready db"
  shows "lease_key db = Some (wl_owner_id l, int (unat (wl_epoch l)))"
  using assms epoch_word
  by (fastforce simp: load_writer_lease_def result_simps db_ready_def lease_key_def split: if_splits)

lemma next_epoch:
  fixes n :: u64
  assumes "int (unat n) \<le> i64_max"
  shows "u64_to_i64 (saturating_add n 1) = (if int (unat n) = i64_max then i64_max else int (unat n) + 1)"
proof -
  define k where "k = unat n"
  have "unat n = k" "uint n = int k" by (simp_all add: k_def)
  with assms show ?thesis
    by (auto simp: u64_to_i64_def unat_saturating_add i64_max_def min_def simp del: of_nat_unat)
qed

lemma ready_epoch: "db_ready db \<Longrightarrow> lease_key db = Some (w', e) \<Longrightarrow> 0 \<le> e \<and> e \<le> i64_max"
  by (auto simp: db_ready_def)

lemma acquire_step:
  assumes ready: "db_ready db"
    and got: "acquire_writer_lease_in_transaction owner ttl now db = Inr (token, db')"
  shows "lease_step db db' \<and> sd_assets db' = sd_assets db"
proof -
  from got obtain l epoch acquired expires where l: "load_writer_lease db = Inr l"
    and db': "db' = update_lease (\<lambda>r. r\<lparr>lc_owner_id := owner, lc_epoch := u64_to_i64 epoch,
             lc_expires_at_unix_ms := expires, lc_acquired_at_unix_ms := acquired,
             lc_renewed_at_unix_ms := now\<rparr>) db"
    and epoch: "epoch = wl_epoch l \<and> owner = wl_owner_id l \<or> epoch = saturating_add (wl_epoch l) 1"
    by (auto simp: acquire_writer_lease_in_transaction_def result_simps Let_def split: if_splits)
  from load_writer_lease_key [OF l ready]
  have key: "lease_key db = Some (wl_owner_id l, int (unat (wl_epoch l)))" .
  then have key': "lease_key db' = Some (owner, u64_to_i64 epoch)"
    using db' by (auto simp: lease_key_def)
  have bound: "int (unat (wl_epoch l)) \<le> i64_max" using ready_epoch [OF ready key] by simp
  then have same: "u64_to_i64 (wl_epoch l) = int (unat (wl_epoch l))" by (simp add: u64_to_i64_def)
  have "lease_grows db db'"
    using epoch bound same next_epoch [OF bound]
    unfolding lease_grows_def key key' by auto
  moreover have "schema_frame db' = schema_frame db" "sd_assets db' = sd_assets db" by (simp_all add: db')
  ultimately show ?thesis using lease_step_same_schema [OF ready] by blast
qed

lemma release_token_step:
  assumes ready: "db_ready db"
  shows "lease_step db (snd (release_writer_lease_for_token c p token db))
    \<and> sd_assets (snd (release_writer_lease_for_token c p token db)) = sd_assets db"
proof -
  let ?f = "\<lambda>r. r\<lparr>lc_owner_id := [], lc_expires_at_unix_ms := 0,
                lc_renewed_at_unix_ms := current_unix_millis (dc_clock c)\<rparr>"
  have cases: "snd (release_writer_lease_for_token c p token db) \<in> {db, update_lease ?f db}"
    by (auto simp: release_writer_lease_for_token_def in_transaction_def bind_ok_def split: sum.splits prod.splits)
  from ready obtain w' e where key: "lease_key db = Some (w', e)" "0 \<le> e" "e \<le> i64_max"
    by (auto simp: db_ready_def)
  then have "lease_key (update_lease ?f db) = Some ([], e)"
    by (auto simp: lease_key_def)
  with key have "lease_grows db (update_lease ?f db)" by (auto simp: lease_grows_def)
  then have "lease_step db (update_lease ?f db)" using lease_step_same_schema [OF ready] by simp
  with cases lease_step_refl [OF ready] show ?thesis by auto
qed

lemma initialize_writer_ready:
  assumes "db_ready db" "initialize_writer p db = Inr db'"
  shows "lease_step db db' \<and> sd_assets db' = sd_assets db"
proof -
  from assms have "db' = ensure_legacy_upload_migration_registry_table db"
    by (auto simp: initialize_writer_def db_ready_def SCHEMA_VERSION_def split: if_splits)
  then have "lease_key db' = lease_key db" "sd_assets db' = sd_assets db"
      "sd_user_version db' = sd_user_version db" "sd_user_table_count db \<le> sd_user_table_count db'"
    by (simp_all add: ensure_legacy_upload_migration_registry_table_def lease_key_def)
  moreover from this have "db_ready db'" using assms(1) by (simp add: db_ready_def)
  ultimately show ?thesis using lease_grows_refl [OF assms(1)] by (simp add: lease_step_def)
qed

lemma in_transaction_result:
  "snd (in_transaction c p body db) = db
   \<or> (\<exists>x. fst (in_transaction c p body db) = Inr x \<and> body db = Inr (x, snd (in_transaction c p body db)))"
  by (auto simp: in_transaction_def split: sum.split prod.split)

lemma open_writer_step:
  assumes ready: "db_ready db"
  shows "lease_step db (snd (open_writer oc p owner ttl db))
    \<and> sd_assets (snd (open_writer oc p owner ttl db)) = sd_assets db"
proof -
  define body where "body = (\<lambda>db. bind_ok (initialize_writer (db_path_for_manifest p) db)
        (acquire_writer_lease_in_transaction owner ttl (current_unix_millis (dc_clock (oc_transaction oc)))))"
  let ?open = "in_transaction (oc_transaction oc) (db_path_for_manifest p) body db"
  have opened: "lease_step db (snd ?open) \<and> sd_assets (snd ?open) = sd_assets db"
    using in_transaction_result [of "oc_transaction oc" "db_path_for_manifest p" body db]
  proof (elim disjE exE conjE)
    assume "snd ?open = db"
    then show ?thesis using lease_step_refl [OF ready] by simp
  next
    fix token
    assume "body db = Inr (token, snd ?open)"
    then obtain db1 where one: "initialize_writer (db_path_for_manifest p) db = Inr db1"
      and two: "acquire_writer_lease_in_transaction owner ttl
         (current_unix_millis (dc_clock (oc_transaction oc))) db1 = Inr (token, snd ?open)"
      by (auto simp: body_def bind_ok_eq_Ok)
    from initialize_writer_ready [OF ready one] have "lease_step db db1" "sd_assets db1 = sd_assets db" "db_ready db1"
      by (simp_all add: lease_step_def)
    with acquire_step [OF \<open>db_ready db1\<close> two] show ?thesis
      by (auto intro: lease_step_trans)
  qed
  then have released: "lease_step db (snd (release_writer_lease_for_token c q token (snd ?open)))
      \<and> sd_assets (snd (release_writer_lease_for_token c q token (snd ?open))) = sd_assets db" for c q token
    using release_token_step [of "snd ?open" c q token] by (metis lease_step_def lease_step_trans)
  obtain r db1 where eq: "?open = (r, db1)" by (cases ?open)
  obtain r2 db2 where eq2: "release_writer_lease_for_token (oc_release oc) (db_path_for_manifest p) (projr r) db1 = (r2, db2)"
    by (cases "release_writer_lease_for_token (oc_release oc) (db_path_for_manifest p) (projr r) db1")
  have "snd (open_writer oc p owner ttl db) \<in> {db, db1, db2}"
    using eq eq2 by (auto simp: open_writer_def Let_def body_def split: sum.split)
  moreover have "lease_step db db1 \<and> sd_assets db1 = sd_assets db" using opened eq by simp
  moreover have "lease_step db db2 \<and> sd_assets db2 = sd_assets db"
    using released [of "oc_release oc" "db_path_for_manifest p" "projr r"] eq eq2 by simp
  ultimately show ?thesis using lease_step_refl [OF ready] by auto
qed

lemma store_step_ready:
  assumes "db_ready db"
  shows "lease_step db (store_step api digest e db)"
proof (cases e)
  case (Operate c s op)
  with operate_writes [of api digest c s op db]
  show ?thesis
    using lease_step_refl [OF assms] lease_step_same_schema [OF assms] lease_grows_refl [OF assms]
    by (auto simp: wrote_under_lease_def)
next
  case (Release c s)
  then show ?thesis
    using release_token_step [OF assms] lease_step_refl [OF assms]
    by (auto simp: release_writer_lease_def split: option.split)
qed (use open_writer_step [OF assms] in auto)

lemma store_run_ready:
  assumes "db_ready db"
  shows "lease_step db (store_run api digest es db)"
  unfolding store_run_def
  using assms
proof (induction es arbitrary: db)
  case Nil
  then show ?case by (simp add: lease_step_refl)
next
  case (Cons e es)
  have "lease_step db (store_step api digest e db)" using store_step_ready [OF Cons.prems] .
  with Cons.IH [of "store_step api digest e db"] show ?case
    by (auto simp: lease_step_def intro: lease_grows_trans)
qed

subsection \<open>A lost lease is lost\<close>

definition lease_lost :: "writer_lease_token \<Rightarrow> state_db \<Rightarrow> bool" where
  "lease_lost t db \<longleftrightarrow>
     (\<exists>w e. lease_key db = Some (w, e)
        \<and> (int (unat (wt_epoch t)) < e \<or> e = int (unat (wt_epoch t)) \<and> w \<noteq> wt_owner_id t))"

lemma lease_lost_grows:
  assumes "lease_lost t db" "lease_grows db db'" "wt_owner_id t \<noteq> []" "int (unat (wt_epoch t)) < i64_max"
  shows "lease_lost t db'"
  using assms unfolding lease_lost_def lease_grows_def by fastforce

lemma held_then_lost:
  assumes "holds_lease t db" "lease_grows db db'" "\<not> holds_lease t db'"
  shows "lease_lost t db'"
  using assms unfolding lease_lost_def lease_grows_def holds_lease_def by fastforce

lemma lost_is_not_held: "lease_lost t db \<Longrightarrow> \<not> holds_lease t db"
  by (auto simp: lease_lost_def holds_lease_def)

lemma writer_holds_lease:
  assumes "db_ready db" "wrote_under_lease s db db'"
  shows "\<exists>t. ss_writer s = Some t \<and> holds_lease t db"
  using assms load_writer_lease_key by (auto simp: wrote_under_lease_def holds_lease_def)

text \<open>C26: A writer that held the lease and lost it, by its release or because another process
  acquired it, never changes the database again, whatever it tries and whatever happens in between.\<close>

theorem lost_lease_never_writes:
  assumes "db_ready db" and "holds_lease t db" and "\<not> holds_lease t (store_run api digest es db)"
    and "wt_owner_id t \<noteq> []" and "int (unat (wt_epoch t)) < i64_max" and "ss_writer s = Some t"
  shows "snd (operate api digest c s op (store_run api digest es' (store_run api digest es db)))
    = store_run api digest es' (store_run api digest es db)"
proof -
  let ?mid = "store_run api digest es db" and ?now = "store_run api digest es' (store_run api digest es db)"
  have mid: "lease_step db ?mid" by (rule store_run_ready) fact
  then have "lease_step ?mid ?now" by (intro store_run_ready) (simp add: lease_step_def)
  with mid have "lease_lost t ?now" "db_ready ?now"
    using held_then_lost [OF assms(2) _ assms(3)] lease_lost_grows [OF _ _ assms(4,5)]
    by (auto simp: lease_step_def)
  then show ?thesis
    using operate_writes [of api digest c s op ?now] writer_holds_lease [of ?now s] lost_is_not_held assms(6)
    by fastforce
qed

text \<open>C27: Where a writer holds the same lease before and after a run, every step that changed
  the records was an operation under that very lease: no other process wrote in between.\<close>

theorem lease_holder_writes_alone:
  assumes "db_ready db" and "holds_lease t db" and "holds_lease t (store_run api digest (xs @ e # ys) db)"
    and "wt_owner_id t \<noteq> []" and "int (unat (wt_epoch t)) < i64_max"
    and "sd_assets (store_run api digest (xs @ [e]) db) \<noteq> sd_assets (store_run api digest xs db)"
  shows "\<exists>c s op t'. e = Operate c s op \<and> ss_writer s = Some t'
    \<and> wt_owner_id t' = wt_owner_id t \<and> wt_epoch t' = wt_epoch t"
proof -
  let ?at = "store_run api digest xs db"
  have here: "lease_step db ?at" by (rule store_run_ready) fact
  then have ready: "db_ready ?at" by (simp add: lease_step_def)
  have after: "lease_step ?at (store_run api digest (xs @ e # ys) db)"
    using store_run_ready [OF ready, of api digest "e # ys"] by (simp add: store_run_def)
  have held: "holds_lease t ?at"
    using here after held_then_lost [OF assms(2)] lease_lost_grows [OF _ _ assms(4,5)] lost_is_not_held assms(3)
    by (meson lease_step_def)
  have step: "store_run api digest (xs @ [e]) db = store_step api digest e ?at"
    by (simp add: store_run_def)
  show ?thesis
  proof (cases e)
    case (Operate c s op)
    with assms(6) step operate_writes [of api digest c s op ?at] have "wrote_under_lease s ?at (snd (operate api digest c s op ?at))"
      by auto
    then obtain t' where "ss_writer s = Some t'" "holds_lease t' ?at"
      using writer_holds_lease [OF ready] by blast
    with held Operate show ?thesis by (auto simp: holds_lease_def word_uint_eq_iff)
  next
    case (OpenWriter oc p owner ttl)
    with assms(6) step open_writer_step [OF ready] show ?thesis by simp
  next
    case (Release c s)
    with assms(6) step release_token_step [OF ready] show ?thesis
      by (auto simp: release_writer_lease_def split: option.splits)
  qed
qed

end
