(* ===== verification/State_Refine.thy ===== *)
theory State_Refine
  imports State_Runs
begin

section \<open>The tables are the manifest\<close>

text \<open>
  What the database means is the manifest that is loaded from it. A batch that is persisted refines the
  insertion of its records into that manifest, or leaves the database alone; a compare-and-swap batch
  refines the same insertion, provided the expected records were the stored ones. The text of a record
  is assumed to be read back by the parser as the document that was written.
\<close>

subsection \<open>A record's text\<close>

text \<open>The document of a record, in the order of its fields.\<close>

definition record_document :: "asset_record \<Rightarrow> raw_json" where
  "record_document r = to_raw (asset_record_fields r)"

definition reads_back :: "'r store_api \<Rightarrow> asset_record \<Rightarrow> bool" where
  "reads_back api r \<longleftrightarrow> record_storable r \<and> sa_parse api (encode_record api r) = Some (record_document r)"

lemma strict_record_document:
  "record_storable r \<Longrightarrow> strict_value (record_document r) = Inr (ser_asset_record r)"
  by (simp add: record_document_def strict_asset_record)

lemma decode_encoded:
  assumes "reads_back api r"
  shows "decode_record api a (encode_record api r) = Inr r"
  using assms strict_record_document [of r]
  by (simp add: reads_back_def decode_record_def strict_from_def)

subsection \<open>Rows as records\<close>

definition row_record :: "'r store_api \<Rightarrow> string \<Rightarrow> asset_row \<Rightarrow> store_error + asset_record" where
  "row_record api a row =
     bind_ok (decode_record api a (aw_record_json row)) (\<lambda>r.
     if ar_asset_id r \<noteq> a \<or> state_as_str (ar_state r) \<noteq> aw_state row \<or> ar_updated_at r \<noteq> aw_updated_at row
     then Err (RecordColumnMismatch a)
     else map_ok (\<lambda>_. r) (map_err StoreManifest (state_store_record_authority api r)))"

lemma load_row_eq:
  "load_row api (a, row) m = map_ok (\<lambda>r. insert_record r m) (row_record api a row)"
  by (cases "decode_record api a (aw_record_json row)")
    (simp_all add: load_row_def row_record_def state_store_record_authority_def)

lemma row_record_id: "row_record api a row = Inr r \<Longrightarrow> ar_asset_id r = a"
  by (auto simp: row_record_def result_simps split: if_splits)

lemma load_rows_Ok:
  assumes "try_fold (load_row api) rows m = Inr m'"
  shows "m' = fold insert_record (map (\<lambda>(a, row). projr (row_record api a row)) rows) m
    \<and> (\<forall>(a, row)\<in>set rows. \<exists>r. row_record api a row = Inr r)"
  using assms
proof (induction rows arbitrary: m)
  case (Cons p rows)
  obtain a row where p: "p = (a, row)" by (cases p)
  with Cons.prems obtain r where "row_record api a row = Inr r"
    and rest: "try_fold (load_row api) rows (insert_record r m) = Inr m'"
    by (auto simp: result_simps load_row_eq)
  with Cons.IH [OF rest] p show ?case by simp
qed simp

lemma load_rows_read:
  assumes "\<forall>(a, row)\<in>set rows. \<exists>r. row_record api a row = Inr r"
  shows "try_fold (load_row api) rows m
    = Inr (fold insert_record (map (\<lambda>(a, row). projr (row_record api a row)) rows) m)"
  using assms
proof (induction rows arbitrary: m)
  case (Cons p rows)
  obtain a row where p: "p = (a, row)" by (cases p)
  with Cons.prems obtain r where "row_record api a row = Inr r" by auto
  with Cons p show ?case by (simp add: try_fold.simps(2) load_row_eq)
qed simp

definition rows_records :: "'r store_api \<Rightarrow> (string, asset_row) btree \<Rightarrow> (string, asset_record) btree" where
  "rows_records api rows = map (\<lambda>(a, row). (a, projr (row_record api a row))) rows"

definition rows_readable :: "'r store_api \<Rightarrow> (string, asset_row) btree \<Rightarrow> bool" where
  "rows_readable api rows \<longleftrightarrow> bt_valid rows \<and> (\<forall>(a, row)\<in>set rows. \<exists>r. row_record api a row = Inr r)"

lemma map_bt_insert:
  "map (\<lambda>(k, v). (k, f k v)) (bt_insert a x m) = bt_insert a (f a x) (map (\<lambda>(k, v). (k, f k v)) m)"
  by (induction a x m rule: bt_insert.induct) auto

lemma rows_records_insert:
  "rows_records api (bt_insert a row rows) = bt_insert a (projr (row_record api a row)) (rows_records api rows)"
  unfolding rows_records_def by (rule map_bt_insert)

lemma bt_get_rows_records:
  "bt_get (rows_records api rows) a = map_option (\<lambda>row. projr (row_record api a row)) (bt_get rows a)"
  by (induction rows) (auto simp: rows_records_def bt_get_def)

lemma rows_readable_insert:
  assumes "rows_readable api rows" and "row_record api a row = Inr r"
  shows "rows_readable api (bt_insert a row rows)"
proof -
  have "\<forall>(k, v)\<in>set (bt_insert a row rows). \<exists>r. row_record api k v = Inr r"
    using assms by (intro bt.all_entries_put) (auto simp: rows_readable_def)
  then show ?thesis using assms by (auto simp: rows_readable_def)
qed

lemma load_statement:
  assumes "bt_valid (sd_assets db)"
  shows "load_database_manifest_from_statement api db = Inr m \<longleftrightarrow>
    rows_readable api (sd_assets db) \<and> m = new_manifest\<lparr>mf_records := rows_records api (sd_assets db)\<rparr>"
proof -
  let ?rs = "map (\<lambda>(a, row). projr (row_record api a row)) (sd_assets db)"
  have fold: "fold insert_record ?rs new_manifest = new_manifest\<lparr>mf_records := rows_records api (sd_assets db)\<rparr>"
    if "rows_readable api (sd_assets db)"
  proof -
    have "bt_valid (rows_records api (sd_assets db))"
      using assms by (auto simp: bt_valid_def rows_records_def comp_def case_prod_beta)
    moreover have "list_all (\<lambda>(k, r). ar_asset_id r = k) (rows_records api (sd_assets db))"
      using that row_record_id by (fastforce simp: rows_readable_def rows_records_def list_all_iff)
    moreover have "bt_values (rows_records api (sd_assets db)) = ?rs"
      by (auto simp: bt_values_def rows_records_def)
    ultimately show ?thesis
      using fold_insert_records [of "[]" "rows_records api (sd_assets db)" new_manifest]
      by (simp add: new_manifest_def)
  qed
  show ?thesis
    unfolding load_database_manifest_from_statement_def
    using load_rows_Ok [of api "sd_assets db" new_manifest m] load_rows_read [of "sd_assets db" api new_manifest]
      fold assms by (auto simp: rows_readable_def)
qed

text \<open>What the registry row adds does not depend on the records.\<close>

lemma install_registry:
  assumes "mf_registry m = None"
  shows "install_database_legacy_upload_migration_registry api db m = Inr m' \<longleftrightarrow>
    (\<exists>g. load_database_legacy_upload_migration_registry api db = Inr g \<and> m' = m\<lparr>mf_registry := g\<rparr>
       \<and> (\<forall>registry. g = Some registry \<longrightarrow> reg_valid (sa_registry api) registry))"
  using assms
  by (auto simp: install_database_legacy_upload_migration_registry_def result_simps registry_authority_def
      registry_authorizes_def install_legacy_upload_migration_registry_def
      split: option.splits if_splits)

lemma load_manifest:
  assumes "bt_valid (sd_assets db)"
  shows "load_database_manifest_from_transaction api db = Inr m \<longleftrightarrow>
    rows_readable api (sd_assets db) \<and> mf_records m = rows_records api (sd_assets db)
    \<and> load_database_legacy_upload_migration_registry api db = Inr (mf_registry m)
    \<and> (\<forall>registry. mf_registry m = Some registry \<longrightarrow> reg_valid (sa_registry api) registry)"
  by (auto simp: load_database_manifest_from_transaction_def bind_ok_eq_Ok load_statement [OF assms]
      install_registry new_manifest_def intro: manifest.equality)

subsection \<open>Writes\<close>

lemma row_record_encoded:
  assumes "reads_back api r" and "\<not> record_has_reserved_internal_proof r"
  shows "row_record api (ar_asset_id r) (row_of r (encode_record api r)) = Inr r"
  using assms by (simp add: row_record_def row_of_def decode_encoded state_store_record_authority_def)

lemma registry_of_rows:
  assumes "sd_registry_table db' = sd_registry_table db" "sd_registry db' = sd_registry db"
  shows "load_database_legacy_upload_migration_registry api db' = load_database_legacy_upload_migration_registry api db"
  using assms by (simp add: load_database_legacy_upload_migration_registry_def)

text \<open>A table in which the rows of some records were replaced loads as the manifest with them.\<close>

definition put_row :: "'r store_api \<Rightarrow> asset_record \<Rightarrow> state_db \<Rightarrow> state_db" where
  "put_row api r db =
     db\<lparr>sd_assets := bt_insert (ar_asset_id r) (row_of r (encode_record api r)) (sd_assets db)\<rparr>"

lemma load_put_row:
  assumes "load_database_manifest_from_transaction api db = Inr m" and "bt_valid (sd_assets db)"
    and "reads_back api r" and "\<not> record_has_reserved_internal_proof r"
  shows "load_database_manifest_from_transaction api (put_row api r db) = Inr (insert_record r m)
    \<and> bt_valid (sd_assets (put_row api r db))"
proof -
  note row = row_record_encoded [OF assms(3,4)]
  have "bt_valid (sd_assets (put_row api r db))" using assms(2) by (simp add: put_row_def)
  moreover have "rows_readable api (sd_assets (put_row api r db))"
    using assms(1) rows_readable_insert [OF _ row] by (simp add: load_manifest [OF assms(2)] put_row_def)
  moreover have "mf_records (insert_record r m) = rows_records api (sd_assets (put_row api r db))"
    using assms(1) row by (simp add: load_manifest [OF assms(2)] put_row_def rows_records_insert insert_record_def)
  moreover have "load_database_legacy_upload_migration_registry api (put_row api r db)
      = load_database_legacy_upload_migration_registry api db"
    by (rule registry_of_rows) (simp_all add: put_row_def)
  moreover have "mf_registry (insert_record r m) = mf_registry m" by (simp add: insert_record_def)
  ultimately show ?thesis
    using assms(1) by (simp add: load_manifest [OF assms(2)] load_manifest)
qed

text \<open>Where a row holds exactly the record, the manifest holds it too.\<close>

lemma stored_record_is_loaded:
  assumes "load_database_manifest_from_transaction api db = Inr m" and "bt_valid (sd_assets db)"
    and "reads_back api r" and "bt_get (sd_assets db) (ar_asset_id r) = Some row"
    and "aw_record_json row = encode_record api r"
  shows "bt_get (mf_records m) (ar_asset_id r) = Some r"
proof -
  from assms(1,2,4) obtain r' where "row_record api (ar_asset_id r) row = Inr r'"
    by (fastforce simp: load_manifest [OF assms(2)] rows_readable_def bt_get_mem [symmetric])
  with decode_encoded [OF assms(3)] assms(5) have "row_record api (ar_asset_id r) row = Inr r"
    by (auto simp: row_record_def result_simps split: if_splits)
  with assms show ?thesis by (simp add: load_manifest [OF assms(2)] bt_get_rows_records)
qed

lemma insert_present:
  assumes "bt_valid (mf_records m)" "bt_get (mf_records m) (ar_asset_id r) = Some r"
  shows "insert_record r m = m"
  using bt.put_present [OF assms] by (simp add: insert_record_def)

lemma loaded_valid:
  assumes "load_database_manifest_from_transaction api db = Inr m" "bt_valid (sd_assets db)"
  shows "bt_valid (mf_records m)"
  using assms by (auto simp: load_manifest [OF assms(2)] bt_valid_def rows_records_def comp_def case_prod_beta)

lemma upsert_record_cases:
  assumes "validate_against_rows api db r = Inr ()"
  obtains (put) "snd (upsert_record api r db) = put_row api r db"
  | (same) row where "snd (upsert_record api r db) = db" "bt_get (sd_assets db) (ar_asset_id r) = Some row"
      "aw_record_json row = encode_record api r"
proof (cases "bt_get (sd_assets db) (ar_asset_id r)")
  case None
  then show ?thesis
    by (intro put) (simp add: upsert_record_def upsert_encoded_record_def put_row_def)
next
  case (Some row)
  show ?thesis
  proof (cases "aw_updated_at row < ar_updated_at r")
    case True
    with Some show ?thesis
      by (intro put) (simp add: upsert_record_def upsert_encoded_record_def put_row_def)
  next
    case False
    with assms Some have "aw_record_json row = encode_record api r"
      by (auto simp: validate_against_rows_def validate_requested_record_def result_simps Let_def)
    with Some False show ?thesis
      by (intro same) (simp_all add: upsert_record_def upsert_encoded_record_def)
  qed
qed

text \<open>A row of another asset does not matter to the check of a record.\<close>

lemma validate_against_other:
  assumes "bt_get (sd_assets db') (ar_asset_id r) = bt_get (sd_assets db) (ar_asset_id r)"
  shows "validate_against_rows api db' r = validate_against_rows api db r"
  using assms by (simp add: validate_against_rows_def)

lemma upsert_other_row:
  assumes "a \<noteq> ar_asset_id r"
  shows "bt_get (sd_assets (snd (upsert_record api r db))) a = bt_get (sd_assets db) a"
  using assms by (simp add: upsert_record_def upsert_encoded_record_def split: option.split)

lemma fold_upsert_loads:
  assumes "load_database_manifest_from_transaction api db = Inr m" and "bt_valid (sd_assets db)"
    and "\<forall>r\<in>set rs. reads_back api r \<and> \<not> record_has_reserved_internal_proof r"
    and "\<forall>r\<in>set rs. validate_against_rows api db r = Inr ()" and "distinct (map ar_asset_id rs)"
  shows "load_database_manifest_from_transaction api (fold (\<lambda>r db. snd (upsert_record api r db)) rs db)
      = Inr (fold insert_record rs m)
    \<and> bt_valid (sd_assets (fold (\<lambda>r db. snd (upsert_record api r db)) rs db))"
  using assms
proof (induction rs arbitrary: db m)
  case (Cons r rs)
  let ?db = "snd (upsert_record api r db)"
  have step: "load_database_manifest_from_transaction api ?db = Inr (insert_record r m) \<and> bt_valid (sd_assets ?db)"
  proof -
    from Cons.prems(4) have "validate_against_rows api db r = Inr ()" by simp
    then show ?thesis
    proof (cases rule: upsert_record_cases)
      case put
      with Cons.prems load_put_row [OF Cons.prems(1,2)] show ?thesis by auto
    next
      case (same row)
      have "reads_back api r" using Cons.prems(3) by simp
      from stored_record_is_loaded [OF Cons.prems(1,2) this same(2,3)]
      have "insert_record r m = m"
        using loaded_valid [OF Cons.prems(1,2)] by (rule insert_present [rotated])
      with same Cons.prems show ?thesis by simp
    qed
  qed
  have "\<forall>x\<in>set rs. validate_against_rows api ?db x = Inr ()"
  proof
    fix x
    assume x: "x \<in> set rs"
    then have "ar_asset_id x \<noteq> ar_asset_id r" using Cons.prems(5) by (metis distinct.simps(2) image_eqI list.simps(9) set_map)
    with x Cons.prems(4) show "validate_against_rows api ?db x = Inr ()"
      by (simp add: validate_against_other [OF upsert_other_row])
  qed
  with Cons.IH [OF conjunct1 [OF step] conjunct2 [OF step]] Cons.prems show ?case by simp
qed simp

lemma claim_asset_ids:
  "try_fold claim_asset_id xs seen = Inr seen' \<longleftrightarrow> distinct xs \<and> set xs \<inter> seen = {} \<and> seen' = seen \<union> set xs"
  by (induction xs arbitrary: seen) (auto simp: result_simps claim_asset_id_def split: if_splits)

text \<open>Validating the lease changes nothing a load reads.\<close>

lemma validated_lease:
  assumes "validate_writer_lease token now db = Inr db'"
  shows "sd_assets db' = sd_assets db"
    and "load_database_manifest_from_transaction api db' = load_database_manifest_from_transaction api db"
proof -
  from assms obtain f where db': "db' = update_lease f db"
    by (auto simp: validate_writer_lease_def result_simps Let_def split: if_splits)
  then show assets: "sd_assets db' = sd_assets db" by simp
  have "sd_registry_table db' = sd_registry_table db" "sd_registry db' = sd_registry db"
    by (simp_all add: db' update_lease_def)
  then have "load_database_legacy_upload_migration_registry api db' = load_database_legacy_upload_migration_registry api db"
    by (rule registry_of_rows)
  then have "install_database_legacy_upload_migration_registry api db'
      = install_database_legacy_upload_migration_registry api db"
    by (simp add: install_database_legacy_upload_migration_registry_def fun_eq_iff)
  then show "load_database_manifest_from_transaction api db' = load_database_manifest_from_transaction api db"
    unfolding load_database_manifest_from_transaction_def load_database_manifest_from_statement_def
    using assets by (metis (no_types))
qed

text \<open>A writing operation: refused with the database as it was, or its body's effect.\<close>

lemma as_writer_effect:
  assumes "as_writer c s body db = (r, db')"
  obtains (refused) e where "r = Inl e" "db' = db"
  | (committed) token db1 x where "r = Inr x" "ss_writer s = Some token"
      "validate_writer_lease token (current_unix_millis (dc_clock c)) db = Inr db1" "body db1 = Inr (x, db')"
proof (cases r)
  case (Inl e)
  with assms have "db' = db"
    by (auto simp: as_writer_def in_transaction_def split: sum.splits prod.splits if_splits)
  with Inl show ?thesis by (rule refused)
next
  case (Inr x)
  with assms show ?thesis
    using committed
    by (auto simp: as_writer_def in_transaction_def bind_ok_eq_Ok writer_token_def
        split: sum.splits prod.splits if_splits option.splits)
qed

text \<open>C34: A batch of records that is persisted refines their insertion into the manifest: either
  the operation fails and the database is as it was, or the manifest loaded afterwards is the one loaded
  before with exactly these records inserted.\<close>

theorem persisted_batch_is_inserted:
  assumes "load_database_manifest_from_transaction api db = Inr m" and "bt_valid (sd_assets db)"
    and "\<forall>r\<in>set rs. reads_back api r"
    and "persist_records_atomic_trusted api c s rs db = (result, db')"
  shows "case result of
      Inl e \<Rightarrow> db' = db
    | Inr _ \<Rightarrow> load_database_manifest_from_transaction api db' = Inr (fold insert_record rs m)
        \<and> bt_valid (sd_assets db') \<and> distinct (map ar_asset_id rs)"
proof (cases "store_reject_all_reserved rs")
  case (Inl e)
  with assms(4) have "result = Inl e" "db' = db" by (auto simp: persist_records_atomic_trusted_def)
  then show ?thesis by simp
next
  case (Inr u)
  then have free: "\<forall>r\<in>set rs. \<not> record_has_reserved_internal_proof r"
    by (auto simp: store_reject_all_reserved_def checks_eq_Ok_iff store_reject_reserved_def)
  from Inr assms(4) have p: "persist_records_atomic_with_owned_lease api c s rs db = (result, db')"
    by (simp add: persist_records_atomic_trusted_def)
  show ?thesis
  proof (cases "bind_ok (writer_token s) (\<lambda>_. try_fold claim_asset_id (map ar_asset_id rs) {})")
    case (Inl e)
    with p show ?thesis by (auto simp: persist_records_atomic_with_owned_lease_def)
  next
    case (Inr seen)
    then have distinct: "distinct (map ar_asset_id rs)" by (auto simp: result_simps claim_asset_ids)
    show ?thesis
    proof (cases "rs = []")
      case True
      with p Inr assms(1,2) show ?thesis by (auto simp: persist_records_atomic_with_owned_lease_def)
    next
      case False
      with p Inr have "as_writer c s (write_records api rs) db = (result, db')"
        by (simp add: persist_records_atomic_with_owned_lease_def)
      then show ?thesis
      proof (cases rule: as_writer_effect)
        case (committed token db1 x)
        note lease = validated_lease(1) [OF committed(3)] validated_lease(2) [OF committed(3), of api]
        from committed(4) have valid: "\<forall>r\<in>set rs. validate_against_rows api db1 r = Inr ()"
          and db': "db' = fold (\<lambda>r db. snd (upsert_record api r db)) rs db1"
          by (auto simp: write_records_def result_simps checks_eq_Ok_iff)
        have "load_database_manifest_from_transaction api db1 = Inr m" "bt_valid (sd_assets db1)"
          using assms(1,2) lease by simp_all
        with fold_upsert_loads [OF _ _ _ valid distinct] assms(3) free committed(1) db' distinct
        show ?thesis by auto
      qed simp
    qed
  qed
qed

subsection \<open>Compare and swap\<close>

lemma claim_cas_updates:
  "try_fold claim_cas_update us seen = Inr seen' \<Longrightarrow>
     (\<forall>u\<in>set us. ar_asset_id (cu_updated u) = ar_asset_id (cu_expected u))
     \<and> distinct (map (\<lambda>u. ar_asset_id (cu_expected u)) us)
     \<and> (\<forall>u\<in>set us. ar_asset_id (cu_expected u) \<notin> seen)"
  by (induction us arbitrary: seen)
    (fastforce simp: result_simps claim_cas_update_def claim_asset_id_def split: if_splits)+

lemma swap_loads:
  assumes "load_database_manifest_from_transaction api db = Inr m" and "bt_valid (sd_assets db)"
    and "\<forall>u\<in>set us. reads_back api (cu_updated u) \<and> \<not> record_has_reserved_internal_proof (cu_updated u)"
    and "try_fold (swap_record api) us db = Inr db'"
  shows "load_database_manifest_from_transaction api db' = Inr (fold insert_record (map cu_updated us) m)
    \<and> bt_valid (sd_assets db')"
  using assms
proof (induction us arbitrary: db m)
  case (Cons u us)
  from Cons.prems(4) obtain db1 where "swap_record api u db = Inr db1"
    and "try_fold (swap_record api) us db1 = Inr db'" by (auto simp: result_simps)
  then have rest: "try_fold (swap_record api) us (put_row api (cu_updated u) db) = Inr db'"
    by (auto simp: swap_record_def Let_def put_row_def split: if_splits)
  have "load_database_manifest_from_transaction api (put_row api (cu_updated u) db)
      = Inr (insert_record (cu_updated u) m) \<and> bt_valid (sd_assets (put_row api (cu_updated u) db))"
    using Cons.prems(3) by (intro load_put_row [OF Cons.prems(1,2)]) auto
  with Cons.IH [OF _ _ _ rest] Cons.prems(3) show ?case by simp
qed simp

text \<open>C35: A compare-and-swap batch either fails and leaves the database as it was, or every expected
  record was exactly the one stored and the manifest loaded afterwards is the one loaded before with the
  updated records in their place.\<close>

theorem exact_cas_is_exact:
  assumes "load_database_manifest_from_transaction api db = Inr m" and "bt_valid (sd_assets db)"
    and "\<forall>u\<in>set us. reads_back api (cu_expected u) \<and> reads_back api (cu_updated u)"
    and "persist_records_exact_cas_atomic_trusted api c s us db = (result, db')"
  shows "case result of
      Inl e \<Rightarrow> db' = db
    | Inr _ \<Rightarrow>
        (\<forall>u\<in>set us. bt_get (mf_records m) (ar_asset_id (cu_expected u)) = Some (cu_expected u)
           \<and> ar_asset_id (cu_updated u) = ar_asset_id (cu_expected u))
        \<and> load_database_manifest_from_transaction api db' = Inr (fold insert_record (map cu_updated us) m)"
proof (cases "list_ex (\<lambda>u. record_has_reserved_internal_proof (cu_expected u)
           \<or> record_has_reserved_internal_proof (cu_updated u)) us")
  case True
  with assms(4) have "is_ok result = False" "db' = db"
    by (auto simp: persist_records_exact_cas_atomic_trusted_def)
  then show ?thesis by (cases result) simp_all
next
  case False
  then have free: "\<forall>u\<in>set us. \<not> record_has_reserved_internal_proof (cu_updated u)"
    by (auto simp: list_ex_iff)
  from False assms(4) have p: "persist_records_exact_cas_atomic_with_owned_lease api c s None us db = (result, db')"
    by (simp add: persist_records_exact_cas_atomic_trusted_def)
  show ?thesis
  proof (cases "bind_ok (writer_token s) (\<lambda>_. try_fold claim_cas_update us {})")
    case (Inl e)
    with p have "is_ok result = False" "db' = db" by (auto simp: persist_records_exact_cas_atomic_with_owned_lease_def)
    then show ?thesis by (cases result) simp_all
  next
    case (Inr seen)
    then have ids: "\<forall>u\<in>set us. ar_asset_id (cu_updated u) = ar_asset_id (cu_expected u)"
      by (auto simp: result_simps dest!: claim_cas_updates)
    show ?thesis
    proof (cases "us = []")
      case True
      with p Inr assms(1) show ?thesis by (auto simp: persist_records_exact_cas_atomic_with_owned_lease_def)
    next
      case False
      with p Inr have "as_writer c s (swap_records api None us) db = (result, db')"
        by (simp add: persist_records_exact_cas_atomic_with_owned_lease_def)
      then show ?thesis
      proof (cases rule: as_writer_effect)
        case (committed token db1 x)
        note lease = validated_lease(1) [OF committed(3)] validated_lease(2) [OF committed(3), of api]
        have load1: "load_database_manifest_from_transaction api db1 = Inr m" "bt_valid (sd_assets db1)"
          using assms(1,2) lease by simp_all
        from committed(4) have stored: "\<forall>u\<in>set us. bt_get (sd_assets db1) (ar_asset_id (cu_expected u))
              = Some (row_of (cu_expected u) (encode_record api (cu_expected u)))"
          and swapped: "try_fold (swap_record api) us db1 = Inr db'"
          by (auto simp: swap_records_def result_simps checks_eq_Ok_iff expected_is_stored_def)
        have "bt_get (mf_records m) (ar_asset_id (cu_expected u)) = Some (cu_expected u)" if "u \<in> set us" for u
          using stored_record_is_loaded [OF load1, of "cu_expected u"] stored assms(3) that
          by (simp add: row_of_def)
        moreover have "load_database_manifest_from_transaction api db' = Inr (fold insert_record (map cu_updated us) m)"
          using swap_loads [OF load1 _ swapped] assms(3) free by blast
        ultimately show ?thesis using committed(1) ids by simp
      qed simp
    qed
  qed
qed

end
