(* ===== verification/State_Sample.thy ===== *)
theory State_Sample
  imports State_Refine
begin

section \<open>A database with one record\<close>

text \<open>
  One record and a newer version of it, a database that holds the first under the lease of the process
  \<open>one\<close>, and a second process that takes the lease over once it has expired. The theorems on the
  database are applied here.
\<close>

definition sample_old :: asset_record where
  "sample_old = new_asset_record ''A'' ''/nas/a.dng'' ''1.000000000Z''"

definition sample_new :: asset_record where
  "sample_new = sample_old\<lparr>ar_updated_at := ''2.000000000Z''\<rparr>"

definition sample_api :: "unit store_api" where
  "sample_api =
     \<lparr>sa_parse = (\<lambda>text. map_option record_document
        (find (\<lambda>r. asset_record_text (\<lambda>_. []) r = text) [sample_old, sample_new])),
      sa_float_text = (\<lambda>_. []), sa_sha256_hex = (\<lambda>text. text), sa_registry = plain_registry,
      sa_registry_text = (\<lambda>_. []), sa_registry_schema_version = (\<lambda>_. 1), sa_registry_eq = (=),
      sa_migration_record_ok = (\<lambda>_. False)\<rparr>"

definition sample_token :: "string \<Rightarrow> u64 \<Rightarrow> writer_lease_token" where
  "sample_token owner epoch =
     \<lparr>wt_owner_id = owner, wt_epoch = epoch, wt_lease_ttl = 60 * nanos_per_second\<rparr>"

definition sample_store :: "string \<Rightarrow> u64 \<Rightarrow> state_store" where
  "sample_store owner epoch =
     \<lparr>ss_manifest_path = ''/m.json'', ss_db_path = ''/m.state.sqlite3'',
      ss_writer = Some (sample_token owner epoch), ss_heartbeat_failure = None\<rparr>"

definition sample_db :: state_db where
  "sample_db =
     \<lparr>sd_user_version = 2, sd_user_table_count = 4,
      sd_assets = [(''A'', row_of sample_old (encode_record sample_api sample_old))],
      sd_writer_lease = Some \<lparr>lc_owner_id = ''one'', lc_epoch = 1, lc_expires_at_unix_ms = 60000,
        lc_acquired_at_unix_ms = 0, lc_renewed_at_unix_ms = 0\<rparr>,
      sd_json_import_metadata = None, sd_registry_table = True, sd_registry = None\<rparr>"

definition sample_seconds :: "nat \<Rightarrow> db_calls" where
  "sample_seconds n =
     \<lparr>dc_open = True, dc_begin = True, dc_statements = True, dc_commit = True,
      dc_clock = int (n * nanos_per_second)\<rparr>"

definition sample_loaded :: "unit manifest" where
  "sample_loaded = new_manifest\<lparr>mf_records := [(''A'', sample_old)]\<rparr>"

lemma sample_reads_back: "reads_back sample_api sample_old" "reads_back sample_api sample_new"
proof -
  have "asset_record_text (\<lambda>_. []) sample_old \<noteq> asset_record_text (\<lambda>_. []) sample_new" by code_simp
  then show "reads_back sample_api sample_old" "reads_back sample_api sample_new"
    by (simp_all add: reads_back_def sample_api_def encode_record_def record_storable_def
        sample_old_def sample_new_def new_asset_record_def)
qed

lemma sample_unreserved:
  "\<not> record_has_reserved_internal_proof sample_old" "\<not> record_has_reserved_internal_proof sample_new"
  by code_simp+

lemma sample_db_loads:
  "load_database_manifest_from_transaction sample_api sample_db = Inr sample_loaded"
  "bt_valid (sd_assets sample_db)"
proof -
  have row: "row_record sample_api ''A'' (row_of sample_old (encode_record sample_api sample_old)) = Inr sample_old"
    using row_record_encoded [OF sample_reads_back(1) sample_unreserved(1)]
    by (simp add: sample_old_def new_asset_record_def)
  show valid: "bt_valid (sd_assets sample_db)" by (simp add: sample_db_def bt_valid_def)
  show "load_database_manifest_from_transaction sample_api sample_db = Inr sample_loaded"
    unfolding load_manifest [OF valid]
    using row by (simp add: sample_db_def rows_readable_def rows_records_def bt_valid_def sample_loaded_def
        new_manifest_def load_database_legacy_upload_migration_registry_def)
qed

lemma sample_lease:
  "writer_token (sample_store ''one'' 1) = Inr (sample_token ''one'' 1)"
  "is_ok (validate_writer_lease (sample_token ''one'' 1) (current_unix_millis (dc_clock (sample_seconds 10))) sample_db)"
  by (simp_all add: writer_token_def sample_store_def sample_token_def validate_writer_lease_def
      load_writer_lease_def sample_db_def current_unix_millis_def duration_since_def sample_seconds_def
      nanos_per_second_def i64_max_def Let_def)

subsection \<open>The database after a write\<close>

definition sample_write :: "(store_error + unit) \<times> state_db" where
  "sample_write = persist_records_atomic_trusted sample_api (sample_seconds 10) (sample_store ''one'' 1) [sample_new] sample_db"

lemma sample_validates:
  assumes "sd_assets db = sd_assets sample_db"
  shows "validate_against_rows sample_api db sample_new = Inr ()"
proof -
  have "decode_record sample_api ''A'' (encode_record sample_api sample_old) = Inr sample_old"
    by (rule decode_encoded) (rule sample_reads_back)
  moreover have "bt_get (sd_assets db) ''A'' = Some (row_of sample_old (encode_record sample_api sample_old))"
    using assms by (simp add: sample_db_def bt_get_def)
  moreover have "ar_asset_id sample_new = ''A''" "ar_updated_at sample_old < ar_updated_at sample_new"
    by (simp_all add: sample_new_def sample_old_def new_asset_record_def)
  ultimately show ?thesis
    using sample_unreserved
    by (auto simp: validate_against_rows_def reject_reserved_internal_proof_json_def store_reject_reserved_def
        validate_requested_record_def row_of_def)
qed

lemma sample_as_writer:
  assumes "\<And>db. sd_assets db = sd_assets sample_db \<Longrightarrow> is_ok (body db)"
  shows "is_ok (fst (as_writer (sample_seconds 10) (sample_store ''one'' 1) body sample_db))"
proof -
  let ?now = "current_unix_millis (dc_clock (sample_seconds 10))"
  obtain db1 where v: "validate_writer_lease (sample_token ''one'' 1) ?now sample_db = Inr db1"
    using sample_lease(2) by (auto simp: is_ok_def split: sum.splits)
  have "is_ok (body db1)" using assms validated_lease(1) [OF v] by simp
  then show ?thesis
    using sample_lease(1) v
    by (auto simp: as_writer_def in_transaction_def sample_seconds_def is_ok_def split: sum.splits prod.splits)
qed

lemma sample_write_ok: "is_ok (fst sample_write)"
proof -
  have "store_reject_all_reserved [sample_new] = Inr ()"
    using sample_unreserved by (simp add: store_reject_all_reserved_def store_reject_reserved_def)
  then show ?thesis
    using sample_as_writer [of "write_records sample_api [sample_new]"] sample_validates sample_lease(1)
    by (simp add: sample_write_def persist_records_atomic_trusted_def persist_records_atomic_with_owned_lease_def
        write_records_def claim_asset_id_def try_fold.simps(2))
qed

lemma persisted_batch_is_inserted_witness:
  "load_database_manifest_from_transaction sample_api (snd sample_write) = Inr (insert_record sample_new sample_loaded)"
  using persisted_batch_is_inserted [OF sample_db_loads, of "[sample_new]" "sample_seconds 10"
      "sample_store ''one'' 1" "fst sample_write" "snd sample_write"] sample_reads_back sample_write_ok
  by (auto simp: sample_write_def [symmetric] is_ok_def split: sum.splits)

definition sample_swap :: "(store_error + unit) \<times> state_db" where
  "sample_swap = persist_records_exact_cas_atomic_trusted sample_api (sample_seconds 10) (sample_store ''one'' 1)
     [\<lparr>cu_expected = sample_old, cu_updated = sample_new\<rparr>] sample_db"

lemma sample_swap_ok: "is_ok (fst sample_swap)"
proof -
  let ?us = "[\<lparr>cu_expected = sample_old, cu_updated = sample_new\<rparr>]"
  have "is_ok (swap_records sample_api None ?us db)" if "sd_assets db = sd_assets sample_db" for db
    using that by (simp add: swap_records_def expected_is_stored_def swap_record_def sample_db_def bt_get_def
        bt_contains_def sample_new_def sample_old_def new_asset_record_def try_fold.simps Let_def)
  then show ?thesis
    using sample_as_writer [of "swap_records sample_api None ?us"] sample_lease(1) sample_unreserved
    by (simp add: sample_swap_def persist_records_exact_cas_atomic_trusted_def
        persist_records_exact_cas_atomic_with_owned_lease_def claim_cas_update_def claim_asset_id_def
        try_fold.simps(2) sample_new_def)
qed

lemma exact_cas_is_exact_witness:
  "load_database_manifest_from_transaction sample_api (snd sample_swap) = Inr (insert_record sample_new sample_loaded)"
  using exact_cas_is_exact [OF sample_db_loads, of "[\<lparr>cu_expected = sample_old, cu_updated = sample_new\<rparr>]"
      "sample_seconds 10" "sample_store ''one'' 1" "fst sample_swap" "snd sample_swap"]
    sample_reads_back sample_swap_ok
  by (auto simp: sample_swap_def [symmetric] is_ok_def split: sum.splits)

subsection \<open>A second process\<close>

definition sample_take_over :: "nat \<Rightarrow> unit store_event" where
  "sample_take_over n = OpenWriter \<lparr>oc_create_dir = True, oc_wal = True, oc_transaction = sample_seconds n,
     oc_quick_check = Some ''ok'', oc_release = sample_seconds n\<rparr> ''/m.json'' ''two'' (60 * nanos_per_second)"

lemma sample_ready: "db_ready sample_db" "holds_lease (sample_token ''one'' 1) sample_db"
  by (simp_all add: db_ready_def holds_lease_def lease_key_def sample_db_def sample_token_def SCHEMA_VERSION_def i64_max_def)

lemma sample_opens:
  "checks [validate_writer_owner_id ''two'', validate_writer_lease_ttl (60 * nanos_per_second)] = Inr ()"
proof -
  have "\<not> is_blank ''two''" by code_simp
  then show ?thesis
    by (simp add: validate_writer_owner_id_def validate_writer_lease_ttl_def MAX_WRITER_OWNER_ID_BYTES_def
        MAX_WRITER_LEASE_TTL_def nanos_per_second_def i64_max_def)
qed

lemmas sample_evaluation = store_run_def sample_take_over_def open_writer_def in_transaction_def
  sample_seconds_def initialize_writer_def sample_db_def SCHEMA_VERSION_def
  ensure_legacy_upload_migration_registry_table_def acquire_writer_lease_in_transaction_def
  load_writer_lease_def current_unix_millis_def duration_since_def i64_max_def update_lease_def
  verify_integrity_def lease_key_def Let_def

lemma sample_taken:
  "lease_key (store_run sample_api (\<lambda>_. []) [sample_take_over 120] sample_db) = Some (''two'', 2)"
  "store_run sample_api (\<lambda>_. []) [sample_take_over 10] sample_db = sample_db"
  using sample_opens next_epoch [of 1]
  by (simp_all add: sample_evaluation nanos_per_second_def)

lemma lost_lease_never_writes_witness:
  "snd (operate sample_api (\<lambda>_. []) (sample_seconds 130) (sample_store ''one'' 1) (PersistAtomicTrusted [sample_new])
     (store_run sample_api (\<lambda>_. []) [sample_take_over 120] sample_db))
   = store_run sample_api (\<lambda>_. []) [sample_take_over 120] sample_db"
  using lost_lease_never_writes [OF sample_ready, of sample_api "\<lambda>_. []" "[sample_take_over 120]"
      "sample_store ''one'' 1" "sample_seconds 130" "PersistAtomicTrusted [sample_new]" "[]"] sample_taken
  by (simp add: holds_lease_def sample_token_def sample_store_def i64_max_def store_run_def)

lemma sample_write_row:
  "map_option aw_updated_at (bt_get (sd_assets (snd sample_write)) ''A'') = Some ''2.000000000Z''"
proof -
  have unreserved: "store_reject_all_reserved [sample_new] = Inr ()"
    using sample_unreserved by (simp add: store_reject_all_reserved_def store_reject_reserved_def)
  have "sample_write = as_writer (sample_seconds 10) (sample_store ''one'' 1) (write_records sample_api [sample_new]) sample_db"
    using unreserved sample_lease(1)
    by (simp add: sample_write_def persist_records_atomic_trusted_def persist_records_atomic_with_owned_lease_def
        claim_asset_id_def try_fold.simps(2))
  then have "as_writer (sample_seconds 10) (sample_store ''one'' 1) (write_records sample_api [sample_new]) sample_db
      = (fst sample_write, snd sample_write)" by simp
  then show ?thesis
  proof (cases rule: as_writer_effect)
    case (refused e)
    with sample_write_ok show ?thesis by simp
  next
    case (committed token db1 x)
    have "sd_assets db1 = sd_assets sample_db" by (rule validated_lease(1)) fact
    moreover have "snd sample_write = snd (upsert_record sample_api sample_new db1)"
      using committed(4) by (auto simp: write_records_def result_simps)
    ultimately show ?thesis
      by (simp add: upsert_record_def upsert_encoded_record_def sample_db_def bt_get_def row_of_def
          sample_new_def sample_old_def new_asset_record_def)
  qed
qed

text \<open>The process \<open>two\<close> is refused while the lease is good, and \<open>one\<close> then writes.\<close>

lemma lease_holder_writes_alone_witness:
  "\<exists>c s op t. Operate (sample_seconds 10) (sample_store ''one'' 1) (PersistAtomicTrusted [sample_new]) = Operate c s op
    \<and> ss_writer s = Some t \<and> wt_owner_id t = ''one'' \<and> wt_epoch t = 1"
proof -
  let ?e = "Operate (sample_seconds 10) (sample_store ''one'' 1) (PersistAtomicTrusted [sample_new])"
  have run: "store_run sample_api (\<lambda>_. []) ([sample_take_over 10] @ [?e]) sample_db = snd sample_write"
    using sample_taken(2) by (simp add: store_run_def sample_write_def)
  have changed: "sd_assets (snd sample_write) \<noteq> sd_assets sample_db"
    using sample_write_row by (auto simp: sample_db_def bt_get_def row_of_def sample_old_def new_asset_record_def)
  have held: "holds_lease (sample_token ''one'' 1) (snd sample_write)"
    using operate_writes [of sample_api "\<lambda>_. []" "sample_seconds 10" "sample_store ''one'' 1"
        "PersistAtomicTrusted [sample_new]" sample_db] sample_ready(2)
    by (auto simp: sample_write_def wrote_under_lease_def holds_lease_def)
  show ?thesis
    using lease_holder_writes_alone [OF sample_ready, of sample_api "\<lambda>_. []" "[sample_take_over 10]" ?e "[]"]
      run sample_taken(2) changed held
    by (simp add: sample_token_def i64_max_def)
qed

end
