(* ===== verification/Monitor_Delete.thy ===== *)
theory Monitor_Delete
  imports Calls State_Runs Workflow
begin

section \<open>The deletion stage of a scan\<close>

text \<open>
  The stage of \<open>src/src/monitor.rs\<close> that deletes originals (\<open>delete_original_assets_with_client\<close>): windows
  of assets, first the ones approved in an earlier scan, whose fate is looked up, then the preparation of
  tokens by worker threads, the submission of a group to CloudKit and the commit of what was confirmed.
  It works on a \<open>delete_scan\<close>: the manifest in memory, the database, the files and the summary. What
  the outside answers is indexed by the moment of the call (\<open>monitor_calls\<close>), and between two calls other
  processes and the heartbeat of the lease may work on the database. Logging and timing are left out.
\<close>

datatype monitor_error =
    MonManifest manifest_error
  | MonStateStore store_error
  | MonWorkflow workflow_error
  | MonUpload upload_error
  | CommandFailed string
  | MonPanic manifest_error

text \<open>What \<open>record_monitor_failure\<close> is given, as a value in place of its text.\<close>

datatype monitor_failure =
    FailedWith monitor_error
  | DeletesUnconfirmed nat nat upload_error
  | DeleteLookupFailed upload_error upload_error

record monitor_config =
  mg_jobs :: nat
  mg_max_lifecycle_per_scan :: nat
  mg_delete_operator :: string

record 'r delete_scan =
  dn_moment :: nat
  dn_manifest :: "'r manifest"
  dn_db :: state_db
  dn_files :: "string file_system"
  dn_failures :: u64
  dn_last_error :: "monitor_failure option"
  dn_originals_deleted :: u64
  dn_deleted_raw_bytes :: u64
  dn_bytes_saved :: u64

record 'r monitor_calls =
  mc_world :: "nat \<Rightarrow> workflow_world"
  mc_capture :: "nat \<Rightarrow> capture_observations"
  mc_clock :: "nat \<Rightarrow> system_time"
  mc_modify :: "nat \<Rightarrow> json \<Rightarrow> upload_error + json"
  mc_lookup :: "nat \<Rightarrow> json \<Rightarrow> upload_error + json"
  mc_worker_panics :: "nat \<Rightarrow> bool"
  mc_store :: "nat \<Rightarrow> state_store"
  mc_db :: "nat \<Rightarrow> db_calls"
  mc_others :: "nat \<Rightarrow> 'r store_event list"
  mc_api :: "'r store_api"
  mc_digest :: "asset_record \<Rightarrow> string"
  mc_save :: save_calls
  mc_checkpoint :: checkpoint_file

type_synonym ('r, 'a) scan_call = "'r delete_scan \<Rightarrow> (monitor_error + 'a) \<times> 'r delete_scan"

definition at_moment :: "(nat \<Rightarrow> 'a) \<Rightarrow> ('r, 'a) scan_call" where
  "at_moment f = (\<lambda>s. (Ok (f (dn_moment s)), s\<lparr>dn_moment := Suc (dn_moment s)\<rparr>))"

definition the_manifest :: "('r, 'r manifest) scan_call" where
  "the_manifest = (\<lambda>s. (Ok (dn_manifest s), s))"

definition record_monitor_failure :: "monitor_failure \<Rightarrow> ('r, unit) scan_call" where
  "record_monitor_failure e =
     (\<lambda>s. (Ok (), s\<lparr>dn_failures := saturating_add (dn_failures s) 1, dn_last_error := Some e\<rparr>))"

text \<open>An operation of the state store, after what others did to the database.\<close>

definition store_call ::
  "'r monitor_calls \<Rightarrow> (db_calls \<Rightarrow> state_store \<Rightarrow> state_db \<Rightarrow> (store_error + 'a) \<times> state_db) \<Rightarrow> ('r, 'a) scan_call"
where
  "store_call c f =
     (\<lambda>s. let k = dn_moment s in
          case f (mc_db c k) (mc_store c k) (store_run (mc_api c) (mc_digest c) (mc_others c k) (dn_db s)) of
            (r, db) \<Rightarrow> (map_err MonStateStore r, s\<lparr>dn_db := db, dn_moment := Suc k\<rparr>))"

definition persist_batch :: "'r monitor_calls \<Rightarrow> asset_record list \<Rightarrow> ('r, unit) scan_call" where
  "persist_batch c rs = store_call c (\<lambda>dc store. persist_records_atomic_trusted (mc_api c) dc store rs)"

text \<open>\<open>upsert_trusted\<close> panics on a reserved record.\<close>

definition upsert_or_panic :: "asset_record \<Rightarrow> 'r manifest \<Rightarrow> monitor_error + 'r manifest" where
  "upsert_or_panic r m = map_err MonPanic (upsert_trusted m r)"

definition publish_records :: "asset_record list \<Rightarrow> ('r, unit) scan_call" where
  "publish_records rs =
     (\<lambda>s. case try_fold upsert_or_panic rs (dn_manifest s) of
            Inl e \<Rightarrow> (Err e, s)
          | Inr m \<Rightarrow> (Ok (), s\<lparr>dn_manifest := m\<rparr>))"

subsection \<open>Records\<close>

definition monitor_get :: "'r manifest \<Rightarrow> string \<Rightarrow> monitor_error + asset_record" where
  "monitor_get m a = map_err MonManifest (manifest_get m a)"

definition decode_monitor_proof :: "(json \<Rightarrow> 'a option) \<Rightarrow> asset_record \<Rightarrow> string \<Rightarrow> monitor_error + 'a" where
  "decode_monitor_proof de r proof_key =
     bind_ok (ok_or (MonWorkflow (MissingProof (ar_asset_id r) proof_key)) (get_proof r proof_key)) (\<lambda>v.
     ok_or (MonWorkflow (ProofDecode (ar_asset_id r) proof_key)) (de v))"

definition raw_size_bytes :: "'r manifest \<Rightarrow> string \<Rightarrow> monitor_error + u64" where
  "raw_size_bytes m a =
     bind_ok (monitor_get m a) (\<lambda>r. map_ok nr_size_bytes (decode_monitor_proof de_nas_raw_proof r NAS_PROOF))"

definition heic_size_bytes :: "'r manifest \<Rightarrow> string \<Rightarrow> monitor_error + u64" where
  "heic_size_bytes m a =
     bind_ok (monitor_get m a) (\<lambda>r. map_ok hp_size_bytes (decode_monitor_proof de_heic_verification_proof r HEIC_PROOF))"

subsection \<open>Candidates and windows\<close>

definition asset_ids_matching :: "'r manifest \<Rightarrow> nat \<Rightarrow> (asset_record \<Rightarrow> bool) \<Rightarrow> string list" where
  "asset_ids_matching m limit P = map ar_asset_id (take limit (filter P (bt_values (mf_records m))))"

definition active_lifecycle_allows :: "string list option \<Rightarrow> string \<Rightarrow> bool" where
  "active_lifecycle_allows ids a = (case ids of None \<Rightarrow> True | Some xs \<Rightarrow> a \<in> set xs)"

definition local_mirror_work_disposition ::
  "workflow_world \<Rightarrow> 'r manifest \<Rightarrow> asset_record \<Rightarrow> icloudpd_local_mirror_proof_disposition"
where
  "local_mirror_work_disposition w m r = mirror_proof_disposition w m (ar_asset_id r)"

definition is_upload_verified_delete_candidate :: "workflow_world \<Rightarrow> 'r manifest \<Rightarrow> asset_record \<Rightarrow> bool" where
  "is_upload_verified_delete_candidate w m r \<longleftrightarrow>
     ar_state r = UploadVerified \<and> local_mirror_work_disposition w m r = Current"

definition delete_lifecycle_asset_ids ::
  "workflow_world \<Rightarrow> 'r manifest \<Rightarrow> monitor_config \<Rightarrow> string list \<Rightarrow> string list"
where
  "delete_lifecycle_asset_ids w m cfg active =
     (let ids = asset_ids_matching m (mg_max_lifecycle_per_scan cfg) (\<lambda>r.
            active_lifecycle_allows (Some active) (ar_asset_id r) \<and> is_upload_verified_delete_candidate w m r) in
      ids @ asset_ids_matching m (mg_max_lifecycle_per_scan cfg - length ids) (\<lambda>r.
            active_lifecycle_allows (Some active) (ar_asset_id r)
            \<and> ar_state r \<in> {DeleteEligible, DeleteApproved}))"

definition CLOUDKIT_RECORDS_MODIFY_MAX_OPERATIONS :: nat where
  "CLOUDKIT_RECORDS_MODIFY_MAX_OPERATIONS = 200"

definition delete_submission_window_size :: "monitor_config \<Rightarrow> nat \<Rightarrow> nat" where
  "delete_submission_window_size cfg queued =
     min (max 1 (min (mg_jobs cfg) CLOUDKIT_RECORDS_MODIFY_MAX_OPERATIONS)) queued"

definition delete_prepare_worker_count :: "monitor_config \<Rightarrow> nat \<Rightarrow> nat" where
  "delete_prepare_worker_count cfg queued = min (max (mg_jobs cfg) 1) queued"

text \<open>\<open>chunks(n)\<close>, of a positive length.\<close>

function chunks :: "nat \<Rightarrow> 'a list \<Rightarrow> 'a list list" where
  "chunks n xs = (if xs = [] \<or> n = 0 then [] else take n xs # chunks n (drop n xs))"
  by auto
termination by (relation "measure (\<lambda>(n, xs). length xs)") auto

declare chunks.simps [simp del]

text \<open>
  The groups of a \<open>BTreeMap\<close> keyed by destinations, in the order the key type derives: scope, zone, owner.
\<close>

definition destination_key :: "cloudkit_library_destination \<Rightarrow> string list" where
  "destination_key d =
     scope_as_str (ld_database_scope d) # ld_zone_name d #
       (case ld_owner_record_name d of None \<Rightarrow> [] | Some owner \<Rightarrow> [owner])"

definition destination_session :: "cloudkit_library_destination \<Rightarrow> delete_session" where
  "destination_session d = \<lparr>ds_database_scope = ld_database_scope d, ds_zone = d\<rparr>"

record commit_totals =
  ct_recorded :: u64
  ct_deleted_raw_bytes :: u64
  ct_bytes_saved :: u64

definition no_totals :: commit_totals where
  "no_totals = \<lparr>ct_recorded = 0, ct_deleted_raw_bytes = 0, ct_bytes_saved = 0\<rparr>"

definition count_deleted :: "u64 \<Rightarrow> u64 \<Rightarrow> commit_totals \<Rightarrow> commit_totals" where
  "count_deleted raw_bytes heic_bytes t =
     \<lparr>ct_recorded = saturating_add (ct_recorded t) 1,
      ct_deleted_raw_bytes = saturating_add (ct_deleted_raw_bytes t) raw_bytes,
      ct_bytes_saved = saturating_add (ct_bytes_saved t) (saturating_sub raw_bytes heic_bytes)\<rparr>"

definition add_totals :: "commit_totals \<Rightarrow> commit_totals \<Rightarrow> commit_totals" where
  "add_totals t u =
     \<lparr>ct_recorded = saturating_add (ct_recorded t) (ct_recorded u),
      ct_deleted_raw_bytes = saturating_add (ct_deleted_raw_bytes t) (ct_deleted_raw_bytes u),
      ct_bytes_saved = saturating_add (ct_bytes_saved t) (ct_bytes_saved u)\<rparr>"

text \<open>The records a commit works on, copied into a manifest of their own.\<close>

definition stage_record :: "'r manifest \<Rightarrow> string \<Rightarrow> 'r manifest \<Rightarrow> monitor_error + 'r manifest" where
  "stage_record m a staged = bind_ok (monitor_get m a) (\<lambda>r. upsert_or_panic r staged)"

text \<open>One recorded deletion of a commit: the staged records, the changed ones and the totals.\<close>

type_synonym 'r staging = "'r manifest \<times> asset_record list \<times> commit_totals"

subsection \<open>Deletions whose fate is looked up\<close>

record reconciliation_item =
  ri_raw_bytes :: u64
  ri_heic_bytes :: u64
  ri_reconciliation :: delete_reconciliation

definition classify_delete ::
  "'r monitor_calls \<Rightarrow> string \<Rightarrow> string list \<times> (string list, reconciliation_item list) btree
     \<Rightarrow> ('r, string list \<times> (string list, reconciliation_item list) btree) scan_call"
where
  "classify_delete c a acc =
     (case acc of (remaining, grouped) \<Rightarrow>
        and_then the_manifest (\<lambda>m.
        and_then (now (monitor_get m a)) (\<lambda>r.
        if ar_state r \<noteq> DeleteApproved then now (Ok (remaining @ [a], grouped))
        else
          and_then (at_moment (mc_world c)) (\<lambda>w.
          case prepare_delete_reconciliation w m a of
            Inl e \<Rightarrow>
              and_then (record_monitor_failure (FailedWith (MonWorkflow e))) (\<lambda>_. now (Ok (remaining, grouped)))
          | Inr t \<Rightarrow>
              and_then (now (raw_size_bytes m a)) (\<lambda>raw.
              and_then (now (heic_size_bytes m a)) (\<lambda>heic.
              now (Ok (remaining,
                push_entry (destination_key (request_destination (rc_request t)))
                  \<lparr>ri_raw_bytes = raw, ri_heic_bytes = heic, ri_reconciliation = t\<rparr> grouped))))))))"

definition index_outcomes :: "cloudkit_delete_outcome list \<Rightarrow> (string, cloudkit_delete_outcome) btree" where
  "index_outcomes outs = fold (\<lambda>out. bt_insert (do_record_name out) out) outs []"

definition settle_item ::
  "string set \<Rightarrow> reconciliation_item
     \<Rightarrow> string list \<times> (reconciliation_item \<times> cloudkit_delete_outcome) list \<times> (string, cloudkit_delete_outcome) btree
     \<Rightarrow> monitor_error
        + string list \<times> (reconciliation_item \<times> cloudkit_delete_outcome) list \<times> (string, cloudkit_delete_outcome) btree"
where
  "settle_item unconfirmed item acc =
     (case acc of (remaining, confirmed, outcomes) \<Rightarrow>
        let record_name = dr_record_name (rc_request (ri_reconciliation item)) in
        case bt_get outcomes record_name of
          Some out \<Rightarrow> Ok (remaining, confirmed @ [(item, out)], bt_remove record_name outcomes)
        | None \<Rightarrow>
            if record_name \<in> unconfirmed
            then Ok (remaining @ [rc_asset_id (ri_reconciliation item)], confirmed, outcomes)
            else Err (CommandFailed (''CloudKit delete lookup omitted reconciliation result for '' @ record_name)))"

definition settle_lookup ::
  "delete_state_lookup_result \<Rightarrow> reconciliation_item list
     \<Rightarrow> string list \<times> (reconciliation_item \<times> cloudkit_delete_outcome) list
     \<Rightarrow> monitor_error + string list \<times> (reconciliation_item \<times> cloudkit_delete_outcome) list"
where
  "settle_lookup lookup items acc =
     (case acc of (remaining, confirmed) \<Rightarrow>
        bind_ok (try_fold (settle_item (set (map dr_record_name (sl_unconfirmed lookup)))) items
          (remaining, confirmed, index_outcomes (sl_confirmed_deleted lookup))) (\<lambda>(remaining, confirmed, outcomes).
        case outcomes of
          [] \<Rightarrow> Ok (remaining, confirmed)
        | (record_name, _) # _ \<Rightarrow>
            Err (CommandFailed
              (''CloudKit delete lookup returned unrequested reconciliation outcome for '' @ record_name))))"

definition reconcile_group ::
  "'r monitor_calls \<Rightarrow> reconciliation_item list
     \<Rightarrow> string list \<times> (reconciliation_item \<times> cloudkit_delete_outcome) list
     \<Rightarrow> ('r, string list \<times> (reconciliation_item \<times> cloudkit_delete_outcome) list) scan_call"
where
  "reconcile_group c items acc =
     (let requests = map (rc_request \<circ> ri_reconciliation) items in
      and_then (at_moment (mc_lookup c)) (\<lambda>post.
      case lookup_delete_states post (destination_session (request_destination (hd requests))) requests of
        Inl e \<Rightarrow>
          and_then (record_monitor_failure (FailedWith (MonUpload e))) (\<lambda>_.
          now (Ok (fst acc @ map (rc_asset_id \<circ> ri_reconciliation) items, snd acc)))
      | Inr lookup \<Rightarrow> now (settle_lookup lookup items acc)))"

definition record_reconciled ::
  "'r monitor_calls \<Rightarrow> reconciliation_item \<times> cloudkit_delete_outcome \<Rightarrow> 'r staging \<Rightarrow> ('r, 'r staging) scan_call"
where
  "record_reconciled c confirmed acc =
     (case confirmed of (item, out) \<Rightarrow>
      case acc of (staged, changed, totals) \<Rightarrow>
        and_then (at_moment (mc_world c)) (\<lambda>w.
        now (bind_ok (map_err MonWorkflow
               (record_reconciled_delete_execution w (ri_reconciliation item) out staged)) (\<lambda>staged.
             bind_ok (monitor_get staged (rc_asset_id (ri_reconciliation item))) (\<lambda>r.
             Ok (staged, changed @ [r], count_deleted (ri_raw_bytes item) (ri_heic_bytes item) totals))))))"

definition stage_and_commit_reconciled_deletes ::
  "'r monitor_calls \<Rightarrow> (reconciliation_item \<times> cloudkit_delete_outcome) list \<Rightarrow> ('r, commit_totals) scan_call"
where
  "stage_and_commit_reconciled_deletes c confirmed =
     (if confirmed = [] then now (Ok no_totals)
      else
        and_then the_manifest (\<lambda>m.
        and_then (now (try_fold (stage_record m)
          (map (rc_asset_id \<circ> ri_reconciliation \<circ> fst) confirmed) new_manifest)) (\<lambda>staged.
        and_then (call_fold (record_reconciled c) confirmed (staged, [], no_totals)) (\<lambda>(_, changed, totals).
        and_then (persist_batch c changed) (\<lambda>_.
        and_then (publish_records changed) (\<lambda>_.
        now (Ok totals)))))))"

text \<open>The assets that remain to be prepared, and what was recorded.\<close>

definition reconcile_delete_window ::
  "'r monitor_calls \<Rightarrow> string list \<Rightarrow> ('r, string list \<times> commit_totals) scan_call"
where
  "reconcile_delete_window c ids =
     and_then (call_fold (classify_delete c) ids ([], [])) (\<lambda>(remaining, grouped).
     and_then (call_fold (reconcile_group c) (bt_values grouped) (remaining, [])) (\<lambda>(remaining, confirmed).
     and_then (stage_and_commit_reconciled_deletes c confirmed) (\<lambda>totals.
     now (Ok (remaining, totals)))))"

subsection \<open>Preparation\<close>

record prepared_item =
  pi_raw_bytes :: u64
  pi_heic_bytes :: u64
  pi_prevalidated :: prevalidated_delete

text \<open>A worker's manifest, whether it changed, and the item; the worker looks at the world three times.\<close>

definition prepare_delete_item ::
  "(nat \<Rightarrow> workflow_world) \<Rightarrow> nat \<Rightarrow> string \<Rightarrow> 'r manifest \<Rightarrow> string
     \<Rightarrow> monitor_error + prepared_item option \<times> bool \<times> 'r manifest"
where
  "prepare_delete_item world k operator m a =
     bind_ok (monitor_get m a) (\<lambda>r.
     bind_ok
       (if ar_state r = UploadVerified
        then map_ok (\<lambda>m. (m, True)) (map_err MonWorkflow (mark_delete_eligible (world k) m a))
        else Ok (m, False)) (\<lambda>(m, changed).
     bind_ok (monitor_get m a) (\<lambda>r.
     bind_ok
       (if ar_state r = DeleteEligible
        then map_ok (\<lambda>m. (m, True)) (map_err MonWorkflow (approve_delete (world (k + 1)) operator m a))
        else Ok (m, changed)) (\<lambda>(m, changed).
     bind_ok (monitor_get m a) (\<lambda>r.
     if ar_state r \<noteq> DeleteApproved then Ok (None, changed, m)
     else
       bind_ok (raw_size_bytes m a) (\<lambda>raw.
       bind_ok (heic_size_bytes m a) (\<lambda>heic.
       bind_ok (map_err MonWorkflow (prevalidate_approved_original_delete (world (k + 2)) m a)) (\<lambda>t.
       Ok (Some \<lparr>pi_raw_bytes = raw, pi_heic_bytes = heic, pi_prevalidated = t\<rparr>, changed, m)))))))))"

definition prepare_delete_item_snapshot ::
  "(nat \<Rightarrow> workflow_world) \<Rightarrow> nat \<Rightarrow> string \<Rightarrow> 'r manifest \<Rightarrow> string
     \<Rightarrow> monitor_error + prepared_item option \<times> asset_record option"
where
  "prepare_delete_item_snapshot world k operator snapshot a =
     bind_ok (prepare_delete_item world k operator snapshot a) (\<lambda>(prepared, changed, snapshot).
     if changed then map_ok (\<lambda>r. (prepared, Some r)) (monitor_get snapshot a)
     else Ok (prepared, None))"

record preparation_batch =
  pb_prepared :: "prepared_item list"
  pb_changed_records :: "asset_record list"
  pb_failures :: "monitor_error list"

definition no_preparation :: preparation_batch where
  "no_preparation = \<lparr>pb_prepared = [], pb_changed_records = [], pb_failures = []\<rparr>"

definition add_failure :: "monitor_error \<Rightarrow> preparation_batch \<Rightarrow> preparation_batch" where
  "add_failure e b = b\<lparr>pb_failures := pb_failures b @ [e]\<rparr>"

definition start_worker ::
  "'r manifest \<Rightarrow> nat \<times> string \<Rightarrow> (nat \<times> string \<times> 'r manifest) list \<times> preparation_batch
     \<Rightarrow> (nat \<times> string \<times> 'r manifest) list \<times> preparation_batch"
where
  "start_worker m entry acc =
     (case entry of (i, a) \<Rightarrow> case acc of (handles, b) \<Rightarrow>
        case snapshot_record m a of
          Inl e \<Rightarrow> (handles, add_failure (MonManifest e) b)
        | Inr snapshot \<Rightarrow> (handles @ [(i, a, snapshot)], b))"

definition join_worker ::
  "'r monitor_calls \<Rightarrow> nat \<Rightarrow> string \<Rightarrow> nat \<times> string \<times> 'r manifest \<Rightarrow> preparation_batch \<Rightarrow> preparation_batch"
where
  "join_worker c k operator handle b =
     (case handle of (i, a, snapshot) \<Rightarrow>
        if mc_worker_panics c (k + 3 * i)
        then add_failure (CommandFailed (''delete preparation worker panicked for '' @ a)) b
        else
          case prepare_delete_item_snapshot (mc_world c) (k + 3 * i) operator snapshot a of
            Inl e \<Rightarrow> add_failure e b
          | Inr (prepared, checkpoint) \<Rightarrow>
              b\<lparr>pb_changed_records := pb_changed_records b @ (case checkpoint of None \<Rightarrow> [] | Some r \<Rightarrow> [r]),
                pb_prepared := pb_prepared b @ (case prepared of None \<Rightarrow> [] | Some item \<Rightarrow> [item])\<rparr>)"

definition prepare_chunk ::
  "'r monitor_calls \<Rightarrow> nat \<Rightarrow> string \<Rightarrow> 'r manifest \<Rightarrow> (nat \<times> string) list \<Rightarrow> preparation_batch \<Rightarrow> preparation_batch"
where
  "prepare_chunk c k operator m chunk b =
     (case fold (start_worker m) chunk ([], b) of (handles, b) \<Rightarrow> fold (join_worker c k operator) handles b)"

definition prepare_delete_items ::
  "'r monitor_calls \<Rightarrow> nat \<Rightarrow> monitor_config \<Rightarrow> 'r manifest \<Rightarrow> string list \<Rightarrow> preparation_batch"
where
  "prepare_delete_items c k cfg m ids =
     (let workers = delete_prepare_worker_count cfg (length ids) in
      if workers = 0 then no_preparation
      else fold (prepare_chunk c k (mg_delete_operator cfg) m) (chunks workers (enumerate 0 ids)) no_preparation)"

definition record_failures :: "monitor_error list \<Rightarrow> ('r, unit) scan_call" where
  "record_failures es = call_fold (\<lambda>e _. record_monitor_failure (FailedWith e)) es ()"

definition process_delete_preparation_window ::
  "'r monitor_calls \<Rightarrow> monitor_config \<Rightarrow> string list \<Rightarrow> ('r, prepared_item list) scan_call"
where
  "process_delete_preparation_window c cfg ids =
     and_then the_manifest (\<lambda>m.
     and_then (\<lambda>s. (Ok (prepare_delete_items c (dn_moment s) cfg m ids),
                    s\<lparr>dn_moment := dn_moment s + 3 * length ids\<rparr>)) (\<lambda>preparation.
     and_then (record_failures (pb_failures preparation)) (\<lambda>_.
     if pb_changed_records preparation = [] then now (Ok (pb_prepared preparation))
     else
       and_then (persist_batch c (pb_changed_records preparation)) (\<lambda>_.
       and_then (publish_records (pb_changed_records preparation)) (\<lambda>_.
       now (Ok (pb_prepared preparation)))))))"

subsection \<open>Submission\<close>

definition DELETE_LIVE_RAW_MAX_AGE :: duration where
  "DELETE_LIVE_RAW_MAX_AGE = 30 * nanos_per_second"

text \<open>Whether an item failed the live check of its RAW file; each failure is recorded.\<close>

definition check_live_raw ::
  "'r monitor_calls \<Rightarrow> duration \<Rightarrow> prepared_item \<Rightarrow> bool \<Rightarrow> ('r, bool) scan_call"
where
  "check_live_raw c max_age item failed =
     and_then (at_moment (\<lambda>k. (mc_capture c k, mc_clock c k))) (\<lambda>(ob, time).
     case validate_live_raw_at ob (pi_prevalidated item) max_age time of
       Inl e \<Rightarrow> and_then (record_monitor_failure (FailedWith (MonWorkflow e))) (\<lambda>_. now (Ok True))
     | Inr _ \<Rightarrow> now (Ok failed))"

definition delete_preflight ::
  "duration \<Rightarrow> system_time \<Rightarrow> prepared_item list \<Rightarrow> json \<Rightarrow> workflow_error list + unit"
where
  "delete_preflight max_age request_time items payload =
     (let failures = List.map_filter (\<lambda>item.
            case validate_freshness_at (pi_prevalidated item) max_age request_time of
              Inl e \<Rightarrow> Some e | Inr _ \<Rightarrow> None) items in
      if failures = [] then Ok () else Err failures)"

definition index_confirmed ::
  "cloudkit_delete_outcome \<Rightarrow> (string, cloudkit_delete_outcome) btree
     \<Rightarrow> monitor_error + (string, cloudkit_delete_outcome) btree"
where
  "index_confirmed out by_name =
     (if bt_contains by_name (do_record_name out)
      then Err (CommandFailed (''duplicate confirmed CloudKit delete outcome for '' @ do_record_name out))
      else Ok (bt_insert (do_record_name out) out by_name))"

fun pair_items ::
  "prepared_item list \<Rightarrow> (string, cloudkit_delete_outcome) btree
     \<Rightarrow> (prepared_item \<times> cloudkit_delete_outcome) list \<times> (string, cloudkit_delete_outcome) btree"
where
  "pair_items [] by_name = ([], by_name)"
| "pair_items (item # items) by_name =
     (let record_name = dr_record_name (pd_request (pi_prevalidated item)) in
      case bt_get by_name record_name of
        None \<Rightarrow> pair_items items by_name
      | Some out \<Rightarrow>
          (case pair_items items (bt_remove record_name by_name) of (pairs, rest) \<Rightarrow> ((item, out) # pairs, rest)))"

definition pair_confirmed_delete_outcomes ::
  "prepared_item list \<Rightarrow> cloudkit_delete_outcome list
     \<Rightarrow> monitor_error + (prepared_item \<times> cloudkit_delete_outcome) list"
where
  "pair_confirmed_delete_outcomes items outs =
     bind_ok (try_fold index_confirmed outs []) (\<lambda>by_name.
     case pair_items items by_name of (confirmed, rest) \<Rightarrow>
       (case rest of
          [] \<Rightarrow> Ok confirmed
        | (record_name, _) # _ \<Rightarrow>
            Err (CommandFailed (''confirmed CloudKit delete outcome was not requested: '' @ record_name))))"

definition finish_delete_submission ::
  "prepared_item list \<Rightarrow> cloudkit_delete_outcome list
     \<Rightarrow> ('r, (prepared_item \<times> cloudkit_delete_outcome) list) scan_call"
where
  "finish_delete_submission items outs =
     (case pair_confirmed_delete_outcomes items outs of
        Inl e \<Rightarrow> and_then (record_monitor_failure (FailedWith e)) (\<lambda>_. now (Ok []))
      | Inr confirmed \<Rightarrow> now (Ok confirmed))"

text \<open>After a modification whose answer failed, what a lookup says.\<close>

definition reconcile_submission ::
  "'r monitor_calls \<Rightarrow> prepared_item list \<Rightarrow> delete_session \<Rightarrow> cloudkit_delete_request list \<Rightarrow> upload_error
     \<Rightarrow> ('r, (prepared_item \<times> cloudkit_delete_outcome) list) scan_call"
where
  "reconcile_submission c items session requests modify_error =
     and_then (at_moment (mc_lookup c)) (\<lambda>post.
     case lookup_delete_states post session requests of
       Inr found \<Rightarrow>
         and_then
           (if sl_unconfirmed found = [] then now (Ok ())
            else record_monitor_failure
                   (DeletesUnconfirmed (length (sl_unconfirmed found)) (length requests) modify_error)) (\<lambda>_.
         finish_delete_submission items (sl_confirmed_deleted found))
     | Inl lookup_error \<Rightarrow>
         and_then (record_monitor_failure (DeleteLookupFailed modify_error lookup_error)) (\<lambda>_. now (Ok [])))"

definition submit_prepared_delete_group_with_clock ::
  "'r monitor_calls \<Rightarrow> duration \<Rightarrow> prepared_item list
     \<Rightarrow> ('r, (prepared_item \<times> cloudkit_delete_outcome) list) scan_call"
where
  "submit_prepared_delete_group_with_clock c max_age items =
     (if items = [] then now (Ok [])
      else
        let requests = map (pd_request \<circ> pi_prevalidated) items;
            session = destination_session (request_destination (hd requests)) in
        and_then (call_fold (check_live_raw c max_age) items False) (\<lambda>validation_failed.
        if validation_failed then now (Ok [])
        else
          and_then (at_moment (\<lambda>k. (mc_clock c k, mc_modify c k))) (\<lambda>(request_time, post).
          case delete_originals_batch_with_preflight post (delete_preflight max_age request_time items)
                 session requests of
            Inr outs \<Rightarrow> finish_delete_submission items outs
          | Inl (Preflight failures) \<Rightarrow>
              and_then (record_failures (map MonWorkflow failures)) (\<lambda>_. now (Ok []))
          | Inl (InvalidRequest e) \<Rightarrow>
              and_then (record_monitor_failure (FailedWith (MonUpload e))) (\<lambda>_. now (Ok []))
          | Inl (Remote e) \<Rightarrow> reconcile_submission c items session requests e)))"

definition submit_prepared_delete_group ::
  "'r monitor_calls \<Rightarrow> prepared_item list \<Rightarrow> ('r, (prepared_item \<times> cloudkit_delete_outcome) list) scan_call"
where
  "submit_prepared_delete_group c items =
     submit_prepared_delete_group_with_clock c DELETE_LIVE_RAW_MAX_AGE items"

subsection \<open>Commit\<close>

definition record_confirmed ::
  "'r monitor_calls \<Rightarrow> prepared_item \<times> cloudkit_delete_outcome \<Rightarrow> 'r staging \<Rightarrow> ('r, 'r staging) scan_call"
where
  "record_confirmed c confirmed acc =
     (case confirmed of (item, out) \<Rightarrow>
      case acc of (staged, changed, totals) \<Rightarrow>
        and_then (at_moment (mc_world c)) (\<lambda>w.
        now (bind_ok (map_err MonWorkflow
               (record_prevalidated_delete_execution w (pi_prevalidated item) out staged)) (\<lambda>staged.
             bind_ok (monitor_get staged (pd_asset_id (pi_prevalidated item))) (\<lambda>r.
             if ar_state r \<noteq> Deleted
             then Err (CommandFailed (''confirmed delete did not transition ''
                    @ pd_asset_id (pi_prevalidated item) @ '' to deleted''))
             else Ok (staged, changed @ [r], count_deleted (pi_raw_bytes item) (pi_heic_bytes item) totals))))))"

definition stage_and_commit_confirmed_deletes ::
  "'r monitor_calls \<Rightarrow> (prepared_item \<times> cloudkit_delete_outcome) list \<Rightarrow> ('r, commit_totals) scan_call"
where
  "stage_and_commit_confirmed_deletes c confirmed =
     (if confirmed = [] then now (Ok no_totals)
      else
        and_then the_manifest (\<lambda>m.
        and_then (now (try_fold (stage_record m)
          (map (pd_asset_id \<circ> pi_prevalidated \<circ> fst) confirmed) new_manifest)) (\<lambda>staged.
        and_then (call_fold (record_confirmed c) confirmed (staged, [], no_totals)) (\<lambda>(_, changed, totals).
        and_then (persist_batch c changed) (\<lambda>_.
        and_then (publish_records changed) (\<lambda>_.
        now (Ok totals)))))))"

subsection \<open>The stage\<close>

definition group_by_destination :: "prepared_item list \<Rightarrow> prepared_item list list" where
  "group_by_destination items =
     bt_values (fold (\<lambda>item. push_entry
       (destination_key (request_destination (pd_request (pi_prevalidated item)))) item) items [])"

definition delete_group ::
  "'r monitor_calls \<Rightarrow> prepared_item list \<Rightarrow> commit_totals \<Rightarrow> ('r, commit_totals) scan_call"
where
  "delete_group c items totals =
     and_then (submit_prepared_delete_group c items) (\<lambda>confirmed.
     if confirmed = [] then now (Ok totals)
     else
       and_then (stage_and_commit_confirmed_deletes c confirmed) (\<lambda>committed.
       now (Ok (add_totals totals committed))))"

definition delete_window ::
  "'r monitor_calls \<Rightarrow> monitor_config \<Rightarrow> string list \<Rightarrow> commit_totals \<Rightarrow> ('r, commit_totals) scan_call"
where
  "delete_window c cfg ids totals =
     and_then (reconcile_delete_window c ids) (\<lambda>(remaining, reconciled).
     and_then (process_delete_preparation_window c cfg remaining) (\<lambda>prepared.
     call_fold (delete_group c) (group_by_destination prepared) (add_totals totals reconciled)))"

definition export_state :: "'r monitor_calls \<Rightarrow> ('r, unit) scan_call" where
  "export_state c =
     (\<lambda>s. let k = dn_moment s in
          case export_json (mc_api c) (mc_digest c) (mc_db c k) (mc_save c) (mc_store c k) (mc_checkpoint c)
                 (dn_files s) (store_run (mc_api c) (mc_digest c) (mc_others c k) (dn_db s)) of
            (r, db, states) \<Rightarrow>
              (map_ok (\<lambda>_. ()) (map_err MonStateStore r),
               s\<lparr>dn_db := db, dn_files := last states, dn_moment := Suc k\<rparr>))"

definition add_to_summary :: "commit_totals \<Rightarrow> ('r, unit) scan_call" where
  "add_to_summary t =
     (\<lambda>s. (Ok (), s\<lparr>dn_originals_deleted := saturating_add (dn_originals_deleted s) (ct_recorded t),
                   dn_deleted_raw_bytes := saturating_add (dn_deleted_raw_bytes s) (ct_deleted_raw_bytes t),
                   dn_bytes_saved := saturating_add (dn_bytes_saved s) (ct_bytes_saved t)\<rparr>))"

definition delete_original_assets_with_client ::
  "'r monitor_calls \<Rightarrow> monitor_config \<Rightarrow> string list \<Rightarrow> ('r, unit) scan_call"
where
  "delete_original_assets_with_client c cfg active =
     and_then the_manifest (\<lambda>m.
     and_then (at_moment (mc_world c)) (\<lambda>w.
     let ids = delete_lifecycle_asset_ids w m cfg active in
     if ids = [] then now (Ok ())
     else
       and_then (call_fold (delete_window c cfg)
         (chunks (delete_submission_window_size cfg (length ids)) ids) no_totals) (\<lambda>totals.
       and_then (export_state c) (\<lambda>_.
       add_to_summary totals))))"

end
