(* ===== verification/Monitor_Safety.thy ===== *)
theory Monitor_Safety
  imports Monitor_Delete Workflow_Renewal State_Refine Lifecycle
begin

section \<open>What the deletion stage may do\<close>

text \<open>
  Along the deletion stage the manifest in memory and the database move together: every batch is saved
  before it is shown (\<open>stage_progress\<close>), and a record that becomes deleted carries evidence: the token was
  made for a justified deletion, nothing of it changed since, and CloudKit confirmed the outcome for the
  very request of the token. \<open>triple\<close> is the contract of a call of the stage, on the manifest in memory.
\<close>

subsection \<open>Evidence of a deletion\<close>

definition token_for ::
  "workflow_world \<Rightarrow> cloudkit_delete_request \<Rightarrow> bool \<Rightarrow> 'r itself \<Rightarrow> asset_record \<Rightarrow> bool"
where
  "token_for w request live TYPE('r) r \<longleftrightarrow>
     (\<exists>(m0 :: 'r manifest) a r0 nas conversion performance facts.
        justified w m0 a r0 nas conversion performance facts
        \<and> request = delete_request_of (pf_original facts)
        \<and> (live \<longrightarrow> raw_unchanged w nas (sa_min_age_seconds (pf_source_age facts)))
        \<and> ar_asset_id r = ar_asset_id r0 \<and> path_eq (ar_raw_path r) (ar_raw_path r0)
        \<and> (\<forall>k\<in>set (plan_keys conversion). get_proof r k = get_proof r0 k))"

lemma plan_keys_before_execution: "k \<in> set (plan_keys conversion) \<Longrightarrow> k \<noteq> DELETE_EXECUTION_PROOF"
  by (auto simp: plan_keys_def BASE_DELETE_PLAN_PROOFS_def split: conversion_source_binding.splits)

lemma token_for_executed:
  assumes "token_for w request live TYPE('r) r"
  shows "token_for w request live TYPE('r) (with_proof stamp Deleted DELETE_EXECUTION_PROOF v r)"
proof -
  from assms obtain m0 :: "'r manifest" and a r0 nas conversion performance facts where
    "justified w m0 a r0 nas conversion performance facts" "request = delete_request_of (pf_original facts)"
    "live \<longrightarrow> raw_unchanged w nas (sa_min_age_seconds (pf_source_age facts))"
    "ar_asset_id r = ar_asset_id r0" "path_eq (ar_raw_path r) (ar_raw_path r0)"
    "\<forall>k\<in>set (plan_keys conversion). get_proof r k = get_proof r0 k"
    unfolding token_for_def by blast
  then show ?thesis
    unfolding token_for_def using plan_keys_before_execution [of _ conversion]
    by (intro exI [of _ m0] exI [of _ a] exI [of _ r0] exI [of _ nas] exI [of _ conversion]
        exI [of _ performance] exI [of _ facts]) auto
qed

text \<open>The record after a recorded deletion, and what the token and the outcome were.\<close>

definition executed ::
  "workflow_world \<Rightarrow> cloudkit_delete_request \<Rightarrow> bool \<Rightarrow> cloudkit_delete_outcome \<Rightarrow> string \<Rightarrow> 'r manifest
     \<Rightarrow> 'r manifest \<Rightarrow> bool"
where
  "executed w request live out a m m' \<longleftrightarrow>
     (\<exists>r now v. bt_get (mf_records m) a = Some r \<and> unreserved r
        \<and> (ar_asset_id r = a \<longrightarrow> token_for w request live TYPE('r) r)
        \<and> do_record_name out = dr_record_name request \<and> do_record_change_tag out \<noteq> dr_record_change_tag request
        \<and> m' = put_record a (with_proof now Deleted DELETE_EXECUTION_PROOF v r) m)"

lemma prevalidated_execution:
  fixes m0 m m' :: "'r manifest"
  assumes "prevalidate_approved_original_delete w m0 a = Inr t"
    and "record_prevalidated_delete_execution w' t out m = Inr m'"
  shows "executed w (pd_request t) True out (pd_asset_id t) m m'"
proof -
  from assms(1) obtain r0 fp original upload ps where
    r0: "bt_get (mf_records m0) a = Some r0"
    and fp: "revalidate_delete_plan_proofs w m0 a = Inr fp"
    and original: "stored_proof de_original_asset_proof m0 a ORIGINAL_ASSET_PROOF = Inr original"
    and ps: "delete_plan_proof_snapshot r0 = Inr ps"
    and t: "pd_asset_id t = ar_asset_id r0" "pd_raw_path t = ar_raw_path r0" "pd_proofs t = ps"
      "pd_request t = delete_request_of original"
    by (auto simp: prevalidate_approved_original_delete_def bind_ok_eq_Ok)
  from revalidated_justified [OF fp] obtain r' nas conversion performance facts where
    "justified w m0 a r' nas conversion performance facts"
    and live: "raw_unchanged w nas (sa_min_age_seconds (pf_source_age facts))" by blast
  with r0 have j: "justified w m0 a r0 nas conversion performance facts" by (metis justified_record)
  then have same: "original = pf_original facts"
    using original by (simp add: justified_def chain_stored_def)
  from assms(2) obtain r p where r: "bt_get (mf_records m) (pd_asset_id t) = Some r"
    and token: "validate_delete_token_snapshot r (pd_asset_id t) (ar_raw_path r0) ps Prevalidated = Inr ()"
    and p: "execution_proof_of (dr_record_name (pd_request t)) (dr_record_change_tag (pd_request t))
      (pd_uploaded_heic_asset_id t) out = Inr p"
    and m': "transition_with_proof w' Deleted DELETE_EXECUTION_PROOF (ser_delete_execution_proof p) m (pd_asset_id t)
      = Inr m'"
    by (auto simp: record_prevalidated_delete_execution_def validate_prevalidated_delete_def bind_ok_eq_Ok t)
  have "token_for w (pd_request t) True TYPE('r) r" if "ar_asset_id r = pd_asset_id t"
    unfolding token_for_def using j live token_evidence [OF j ps token] t same that
    by (intro exI [of _ m0] exI) auto
  with r p m' show ?thesis
    unfolding executed_def by (auto simp: execution_proof_Ok change_eq_Ok)
qed

lemma reconciled_execution:
  fixes m0 m m' :: "'r manifest"
  assumes "prepare_delete_reconciliation w m0 a = Inr t"
    and "record_reconciled_delete_execution w' t out m = Inr m'"
  shows "executed w (rc_request t) False out (rc_asset_id t) m m'"
proof -
  from assms(1) obtain r0 facts ps where
    r0: "bt_get (mf_records m0) a = Some r0"
    and facts: "validate_stored_delete_plan_proofs w m0 a = Inr facts"
    and ps: "delete_plan_proof_snapshot r0 = Inr ps"
    and t: "rc_asset_id t = ar_asset_id r0" "rc_raw_path t = ar_raw_path r0" "rc_proofs t = ps"
      "rc_request t = delete_request_of (pf_original facts)"
    by (auto simp: prepare_delete_reconciliation_def bind_ok_eq_Ok)
  from stored_plan_justified [OF facts] obtain r' nas conversion performance where
    "justified w m0 a r' nas conversion performance facts" by blast
  with r0 have j: "justified w m0 a r0 nas conversion performance facts" by (metis justified_record)
  from assms(2) obtain r p where r: "bt_get (mf_records m) (rc_asset_id t) = Some r"
    and token: "validate_delete_token_snapshot r (rc_asset_id t) (ar_raw_path r0) ps Reconciliation = Inr ()"
    and p: "execution_proof_of (dr_record_name (rc_request t)) (dr_record_change_tag (rc_request t))
      (rc_uploaded_heic_asset_id t) out = Inr p"
    and m': "transition_with_proof w' Deleted DELETE_EXECUTION_PROOF (ser_delete_execution_proof p) m (rc_asset_id t)
      = Inr m'"
    by (auto simp: record_reconciled_delete_execution_def bind_ok_eq_Ok t)
  have "token_for w (rc_request t) False TYPE('r) r" if "ar_asset_id r = rc_asset_id t"
    unfolding token_for_def using j token_evidence [OF j ps token] t that
    by (intro exI [of _ m0] exI) auto
  with r p m' show ?thesis
    unfolding executed_def by (auto simp: execution_proof_Ok change_eq_Ok)
qed

subsection \<open>Progress\<close>

definition modified :: "'r monitor_calls \<Rightarrow> cloudkit_delete_outcome \<Rightarrow> cloudkit_delete_request \<Rightarrow> bool" where
  "modified c out request \<longleftrightarrow>
     (\<exists>k session rs outs. delete_originals_batch (mc_modify c k) session rs = Inr outs \<and> out \<in> set outs
        \<and> request \<in> set rs \<and> do_record_name out = dr_record_name request)"

definition looked_up :: "'r monitor_calls \<Rightarrow> cloudkit_delete_outcome \<Rightarrow> cloudkit_delete_request \<Rightarrow> bool" where
  "looked_up c out request \<longleftrightarrow>
     (\<exists>k session rs found. lookup_delete_states (mc_lookup c k) session rs = Inr found
        \<and> out \<in> set (sl_confirmed_deleted found) \<and> request \<in> set rs \<and> do_record_name out = dr_record_name request)"

definition deletion_cause :: "'r monitor_calls \<Rightarrow> asset_record \<Rightarrow> bool" where
  "deletion_cause c r \<longleftrightarrow>
     (\<exists>k request live out. token_for (mc_world c k) request live TYPE('r) r
        \<and> do_record_change_tag out \<noteq> dr_record_change_tag request
        \<and> (live \<and> modified c out request \<or> looked_up c out request))"

inductive stage_progress :: "'r monitor_calls \<Rightarrow> 'r manifest \<times> state_db \<Rightarrow> 'r manifest \<times> state_db \<Rightarrow> bool"
  for c x where
  progress_none: "stage_progress c x x"
| progress_others: "stage_progress c x (m, db) \<Longrightarrow> stage_progress c x (m, store_run (mc_api c) (mc_digest c) es db)"
| progress_batch: "stage_progress c x (m, db) \<Longrightarrow>
    persist_records_atomic_trusted (mc_api c) dc (mc_store c k) rs db = (Inr (), db') \<Longrightarrow>
    \<forall>r\<in>set rs. ar_state r = Deleted \<longrightarrow> deletion_cause c r \<Longrightarrow>
    stage_progress c x (fold insert_record rs m, db')"

inductive_cases stage_progress_cases: "stage_progress c x (m, db)"

definition ids_ok :: "'r manifest \<Rightarrow> bool" where
  "ids_ok m \<longleftrightarrow> (\<forall>a r. bt_get (mf_records m) a = Some r \<longrightarrow> ar_asset_id r = a)"

lemma ids_ok_new [simp]: "ids_ok new_manifest"
  by (simp add: ids_ok_def new_manifest_def)

lemma get_insert_record [simp]:
  "bt_get (mf_records (insert_record r m)) a = (if a = ar_asset_id r then Some r else bt_get (mf_records m) a)"
  by (simp add: insert_record_def)

lemma ids_ok_insert [simp]: "ids_ok m \<Longrightarrow> ids_ok (insert_record r m)"
  by (simp add: ids_ok_def)

lemma ids_ok_inserts: "ids_ok m \<Longrightarrow> ids_ok (fold insert_record rs m)"
  by (induction rs arbitrary: m) simp_all

lemma progress_ids_ok: "stage_progress c x y \<Longrightarrow> ids_ok (fst x) \<Longrightarrow> ids_ok (fst y)"
  by (induction rule: stage_progress.induct) (auto intro: ids_ok_inserts)

text \<open>A failed batch, or an export, is one more thing that happens to the database.\<close>

lemma progress_operate:
  assumes "stage_progress c x (m, db)"
  shows "stage_progress c x (m, snd (operate (mc_api c) (mc_digest c) dc s op db))"
  using progress_others [OF assms, of "[Operate dc s op]"] by (simp add: store_run_def)

subsection \<open>The contract of a call\<close>

definition scan_pair :: "'r delete_scan \<Rightarrow> 'r manifest \<times> state_db" where
  "scan_pair s = (dn_manifest s, dn_db s)"

definition triple ::
  "'r monitor_calls \<Rightarrow> 'r manifest \<times> state_db \<Rightarrow> ('r manifest \<Rightarrow> bool) \<Rightarrow> ('r, 'a) scan_call
     \<Rightarrow> ('a \<Rightarrow> 'r manifest \<Rightarrow> bool) \<Rightarrow> bool"
where
  "triple c x P f Q \<longleftrightarrow>
     (\<forall>s r s'. stage_progress c x (scan_pair s) \<longrightarrow> ids_ok (dn_manifest s) \<longrightarrow> P (dn_manifest s) \<longrightarrow> f s = (r, s') \<longrightarrow>
        stage_progress c x (scan_pair s') \<and> ids_ok (dn_manifest s')
        \<and> (\<forall>y. r = Inr y \<longrightarrow> Q y (dn_manifest s')))"

named_theorems triple_intros

lemma triple_now [triple_intros]: "(\<And>y m. r = Inr y \<Longrightarrow> P m \<Longrightarrow> Q y m) \<Longrightarrow> triple c x P (now r) Q"
  by (auto simp: triple_def)

lemma triple_then:
  assumes "triple c x P f Q" and "\<And>y. triple c x (Q y) (k y) R"
  shows "triple c x P (and_then f k) R"
  unfolding triple_def
proof (intro allI impI)
  fix s r s''
  assume pre: "stage_progress c x (scan_pair s)" "ids_ok (dn_manifest s)" "P (dn_manifest s)"
    and run: "and_then f k s = (r, s'')"
  obtain r1 s1 where f: "f s = (r1, s1)" by (cases "f s")
  with assms(1) pre have mid: "stage_progress c x (scan_pair s1)" "ids_ok (dn_manifest s1)"
      "\<forall>y. r1 = Inr y \<longrightarrow> Q y (dn_manifest s1)"
    unfolding triple_def by blast+
  show "stage_progress c x (scan_pair s'') \<and> ids_ok (dn_manifest s'') \<and> (\<forall>y. r = Inr y \<longrightarrow> R y (dn_manifest s''))"
  proof (cases r1)
    case (Inl e)
    with f run mid show ?thesis by (auto simp: and_then_def)
  next
    case (Inr y)
    with f run have "k y s1 = (r, s'')" by (simp add: and_then_def)
    with assms(2) [of y] mid Inr show ?thesis unfolding triple_def by blast
  qed
qed

lemma triple_weaken:
  assumes "triple c x P f Q" "\<And>m. P' m \<Longrightarrow> P m" "\<And>y m. Q y m \<Longrightarrow> Q' y m"
  shows "triple c x P' f Q'"
  using assms unfolding triple_def by blast

lemma triple_fold:
  assumes "\<And>y acc. y \<in> set ys \<Longrightarrow> triple c x (I acc) (f y acc) I"
  shows "triple c x (I acc) (call_fold f ys acc) I"
  using assms
proof (induction ys arbitrary: acc)
  case Nil
  show ?case by (simp only: call_fold.simps) (rule triple_now, simp)
next
  case (Cons y ys)
  show ?case
    by (simp only: call_fold.simps) (rule triple_then [of _ _ _ _ I]; use Cons in simp)
qed

text \<open>What does not depend on the manifest.\<close>

lemma triple_fact:
  assumes "F \<Longrightarrow> triple c x (\<lambda>_. True) f Q"
  shows "triple c x (\<lambda>_. F) f Q"
proof (cases F)
  case True
  then show ?thesis using assms [OF True] by simp
next
  case False
  then show ?thesis by (simp add: triple_def)
qed

lemma triple_fold_fact:
  assumes "F acc" and "\<And>y acc. y \<in> set ys \<Longrightarrow> F acc \<Longrightarrow> triple c x (\<lambda>_. True) (f y acc) (\<lambda>acc' _. F acc')"
  shows "triple c x (\<lambda>_. True) (call_fold f ys acc) (\<lambda>acc' _. F acc')"
proof -
  have "triple c x (\<lambda>_. F acc) (call_fold f ys acc) (\<lambda>acc' _. F acc')"
    by (rule triple_fold [where I = "\<lambda>acc _. F acc"]) (rule triple_fact, rule assms(2))
  then show ?thesis using assms(1) by simp
qed

lemma triple_manifest: "triple c x P the_manifest (\<lambda>y m. P m \<and> y = m \<and> ids_ok m)"
  by (auto simp: triple_def the_manifest_def)

lemma triple_moment: "triple c x P (at_moment f) (\<lambda>y m. P m \<and> (\<exists>k. y = f k))"
  by (auto simp: triple_def at_moment_def scan_pair_def)

lemma triple_failure: "triple c x P (record_monitor_failure e) (\<lambda>_. P)"
  by (auto simp: triple_def record_monitor_failure_def scan_pair_def)

lemma triple_failures: "triple c x P (record_failures es) (\<lambda>_. P)"
  unfolding record_failures_def by (rule triple_fold) (rule triple_failure)

subsection \<open>Commits\<close>

text \<open>A batch that may be saved and shown: no reserved record, and a cause for each deletion.\<close>

definition batch_ok :: "'r monitor_calls \<Rightarrow> 'r manifest \<Rightarrow> asset_record list \<Rightarrow> bool" where
  "batch_ok c m rs \<longleftrightarrow>
     (\<forall>r\<in>set rs. unreserved r \<and> (\<forall>old. bt_get (mf_records m) (ar_asset_id r) = Some old \<longrightarrow> unreserved old)
        \<and> (ar_state r = Deleted \<longrightarrow> deletion_cause c r))"

lemma upsert_or_panic_Ok:
  "upsert_or_panic r m = Inr m' \<longleftrightarrow>
     unreserved r \<and> (\<forall>old. bt_get (mf_records m) (ar_asset_id r) = Some old \<longrightarrow> unreserved old) \<and> m' = insert_record r m"
  by (auto simp: upsert_or_panic_def map_err_eq_Ok upsert_trusted_eq_Ok)

lemma publish_batch:
  assumes "batch_ok c m rs"
  shows "try_fold upsert_or_panic rs m = Inr (fold insert_record rs m)"
  using assms
proof (induction rs arbitrary: m)
  case (Cons r rs)
  then have "upsert_or_panic r m = Inr (insert_record r m)" "batch_ok c (insert_record r m) rs"
    by (auto simp: batch_ok_def upsert_or_panic_Ok)
  with Cons.IH show ?case by (simp add: try_fold.simps(2))
qed simp

lemma triple_commit:
  "triple c x (\<lambda>m. batch_ok c m rs)
     (and_then (persist_batch c rs) (\<lambda>_. and_then (publish_records rs) (\<lambda>_. now (Ok y)))) (\<lambda>z _. z = y)"
  unfolding triple_def
proof (intro allI impI)
  fix s r s''
  assume pre: "stage_progress c x (scan_pair s)" "ids_ok (dn_manifest s)" "batch_ok c (dn_manifest s) rs"
    and run: "and_then (persist_batch c rs) (\<lambda>_. and_then (publish_records rs) (\<lambda>_. now (Ok y))) s = (r, s'')"
  let ?k = "dn_moment s"
  let ?db = "store_run (mc_api c) (mc_digest c) (mc_others c ?k) (dn_db s)"
  obtain result db' where p: "persist_records_atomic_trusted (mc_api c) (mc_db c ?k) (mc_store c ?k) rs ?db = (result, db')"
    by (cases "persist_records_atomic_trusted (mc_api c) (mc_db c ?k) (mc_store c ?k) rs ?db")
  have others: "stage_progress c x (dn_manifest s, ?db)"
    using pre(1) by (auto simp: scan_pair_def intro: progress_others)
  have "\<forall>z. r = Inr z \<longrightarrow> z = y" using run by (auto simp: and_then_def split: prod.splits sum.splits)
  moreover have "stage_progress c x (scan_pair s'') \<and> ids_ok (dn_manifest s'')"
  proof (cases result)
    case (Inl e)
    with run p have "dn_manifest s'' = dn_manifest s" "dn_db s'' = db'"
      by (auto simp: and_then_def persist_batch_def store_call_def Let_def map_err_def)
    moreover have "db' = snd (operate (mc_api c) (mc_digest c) (mc_db c ?k) (mc_store c ?k) (PersistAtomicTrusted rs) ?db)"
      using p by simp
    ultimately show ?thesis
      using progress_operate [OF others, of "mc_db c ?k" "mc_store c ?k" "PersistAtomicTrusted rs"] pre(2)
      by (simp add: scan_pair_def)
  next
    case (Inr u)
    with run p publish_batch [OF pre(3)]
    have "dn_manifest s'' = fold insert_record rs (dn_manifest s)" "dn_db s'' = db'"
      by (auto simp: and_then_def persist_batch_def store_call_def Let_def map_err_def publish_records_def)
    moreover have "stage_progress c x (fold insert_record rs (dn_manifest s), db')"
      using progress_batch [OF others] p Inr pre(3) by (auto simp: batch_ok_def)
    ultimately show ?thesis using ids_ok_inserts [OF pre(2)] by (simp add: scan_pair_def)
  qed
  ultimately show "stage_progress c x (scan_pair s'') \<and> ids_ok (dn_manifest s'') \<and> (\<forall>z. r = Inr z \<longrightarrow> z = y)"
    by simp
qed

subsection \<open>Staging\<close>

text \<open>
  What holds of the staged records and the changed ones while deletions are recorded: a staged record
  stands under its own id and is reserved only if the one in memory is; a changed one may be shown.
\<close>

definition staging_ok :: "'r monitor_calls \<Rightarrow> 'r manifest \<Rightarrow> 'r manifest \<Rightarrow> asset_record list \<Rightarrow> bool" where
  "staging_ok c m staged changed \<longleftrightarrow>
     ids_ok staged \<and> batch_ok c m changed
     \<and> (\<forall>a r. bt_get (mf_records staged) a = Some r \<longrightarrow> unreserved r \<longrightarrow>
          (\<forall>old. bt_get (mf_records m) a = Some old \<longrightarrow> unreserved old))"

lemma stage_record_ok:
  assumes "stage_record m a staged = Inr staged'" "staging_ok c m staged []" "ids_ok m"
  shows "staging_ok c m staged' []"
proof -
  from assms(1) obtain r where "bt_get (mf_records m) a = Some r" "unreserved r" "staged' = insert_record r staged"
    by (auto simp: stage_record_def bind_ok_eq_Ok upsert_or_panic_Ok monitor_get_def map_err_eq_Ok manifest_get_eq_Ok)
  with assms(2,3) show ?thesis by (auto simp: staging_ok_def batch_ok_def ids_ok_def)
qed

lemma stage_records_ok:
  assumes "try_fold (stage_record m) ids new_manifest = Inr staged" "ids_ok m"
  shows "staging_ok c m staged []"
proof (rule try_fold_invariant [OF assms(1), of "\<lambda>s. staging_ok c m s []"])
  show "staging_ok c m new_manifest []" by (simp add: staging_ok_def batch_ok_def new_manifest_def ids_ok_def)
qed (use assms(2) stage_record_ok in blast)

lemma executed_staging:
  assumes "executed w request live out a staged staged'" and "staging_ok c m staged changed"
    and "w = mc_world c k" and "live \<and> modified c out request \<or> looked_up c out request"
    and "bt_get (mf_records staged') a = Some r"
  shows "staging_ok c m staged' (changed @ [r])"
proof -
  from assms(1) obtain r0 now v where r0: "bt_get (mf_records staged) a = Some r0" "unreserved r0"
    and t: "ar_asset_id r0 = a \<longrightarrow> token_for w request live TYPE('a) r0"
    and tag: "do_record_change_tag out \<noteq> dr_record_change_tag request"
    and staged': "staged' = put_record a (with_proof now Deleted DELETE_EXECUTION_PROOF v r0) staged"
    unfolding executed_def by blast
  have name: "DELETE_EXECUTION_PROOF \<noteq> RESERVED_PROOF_NAME" by (simp add: model_defs)
  have id: "ar_asset_id r0 = a" using assms(2) r0(1) by (simp add: staging_ok_def ids_ok_def)
  have r: "r = with_proof now Deleted DELETE_EXECUTION_PROOF v r0" using assms(5) staged' by simp
  have unreserved: "unreserved r"
    using r0(2) name unfolding r by (simp add: has_proof_def bt_contains_def get_proof_def [symmetric])
  have "token_for w request live TYPE('a) r"
    using t id unfolding r by (simp add: token_for_executed)
  with tag assms(3,4) have "deletion_cause c r" unfolding deletion_cause_def by blast
  with assms(2) r0 id unreserved r staged' show ?thesis
    by (auto simp: staging_ok_def batch_ok_def ids_ok_def split: if_splits)
qed

subsection \<open>Tokens and what confirms them\<close>

definition item_ok :: "'r monitor_calls \<Rightarrow> prepared_item \<Rightarrow> bool" where
  "item_ok c item \<longleftrightarrow>
     (\<exists>k (m0 :: 'r manifest) a. prevalidate_approved_original_delete (mc_world c k) m0 a = Inr (pi_prevalidated item))"

definition pair_ok :: "'r monitor_calls \<Rightarrow> prepared_item \<times> cloudkit_delete_outcome \<Rightarrow> bool" where
  "pair_ok c p \<longleftrightarrow> item_ok c (fst p)
     \<and> (modified c (snd p) (pd_request (pi_prevalidated (fst p))) \<or> looked_up c (snd p) (pd_request (pi_prevalidated (fst p))))"

definition reconciliation_ok :: "'r monitor_calls \<Rightarrow> reconciliation_item \<Rightarrow> bool" where
  "reconciliation_ok c item \<longleftrightarrow>
     (\<exists>k (m0 :: 'r manifest) a. prepare_delete_reconciliation (mc_world c k) m0 a = Inr (ri_reconciliation item))"

definition reconciled_ok :: "'r monitor_calls \<Rightarrow> reconciliation_item \<times> cloudkit_delete_outcome \<Rightarrow> bool" where
  "reconciled_ok c p \<longleftrightarrow> reconciliation_ok c (fst p) \<and> looked_up c (snd p) (rc_request (ri_reconciliation (fst p)))"

abbreviation staging_at :: "'r monitor_calls \<Rightarrow> 'r manifest \<Rightarrow> 'r staging \<Rightarrow> 'r manifest \<Rightarrow> bool" where
  "staging_at c m acc m' \<equiv> m' = m \<and> (case acc of (staged, changed, _) \<Rightarrow> staging_ok c m staged changed)"

lemma triple_record_confirmed:
  fixes acc :: "'r staging"
  assumes "pair_ok c p"
  shows "triple c x (staging_at c m acc) (record_confirmed c p acc) (staging_at c m)"
proof -
  obtain item out staged changed totals where p: "p = (item, out)" "acc = (staged, changed, totals)"
    by (metis prod.exhaust)
  from assms obtain k a and m0 :: "'r manifest" where
    t: "prevalidate_approved_original_delete (mc_world c k) m0 a = Inr (pi_prevalidated item)"
    and cause: "modified c out (pd_request (pi_prevalidated item)) \<or> looked_up c out (pd_request (pi_prevalidated item))"
    unfolding pair_ok_def item_ok_def p by auto
  show ?thesis
    unfolding p record_confirmed_def prod.case
    by (rule triple_then [OF triple_moment], rule triple_now)
      (use executed_staging [OF prevalidated_execution [OF t] _ refl] cause
       in \<open>auto simp: bind_ok_eq_Ok map_err_eq_Ok monitor_get_def manifest_get_eq_Ok split: if_splits\<close>)
qed

lemma triple_record_reconciled:
  fixes acc :: "'r staging"
  assumes "reconciled_ok c p"
  shows "triple c x (staging_at c m acc) (record_reconciled c p acc) (staging_at c m)"
proof -
  obtain item out staged changed totals where p: "p = (item, out)" "acc = (staged, changed, totals)"
    by (metis prod.exhaust)
  from assms obtain k a and m0 :: "'r manifest" where
    t: "prepare_delete_reconciliation (mc_world c k) m0 a = Inr (ri_reconciliation item)"
    and cause: "looked_up c out (rc_request (ri_reconciliation item))"
    unfolding reconciled_ok_def reconciliation_ok_def p by auto
  show ?thesis
    unfolding p record_reconciled_def prod.case
    by (rule triple_then [OF triple_moment], rule triple_now)
      (use executed_staging [OF reconciled_execution [OF t] _ refl] cause
       in \<open>auto simp: bind_ok_eq_Ok map_err_eq_Ok monitor_get_def manifest_get_eq_Ok\<close>)
qed

text \<open>Staging, recording, saving and showing, for both kinds of tokens.\<close>

lemma triple_stage_and_commit:
  fixes c :: "'a monitor_calls"
  assumes "\<And>p acc m. p \<in> set ps \<Longrightarrow> triple c x (staging_at c m acc) (step c p acc) (staging_at c m)"
  shows "triple c x (\<lambda>_. True)
     (and_then the_manifest (\<lambda>m.
      and_then (now (try_fold (stage_record m) (ids ps) new_manifest)) (\<lambda>staged.
      and_then (call_fold (step c) ps (staged, [], no_totals)) (\<lambda>(_, changed, totals).
      and_then (persist_batch c changed) (\<lambda>_.
      and_then (publish_records changed) (\<lambda>_.
      now (Ok totals))))))) (\<lambda>_ _. True)"
proof (rule triple_then [OF triple_manifest])
  fix m
  show "triple c x (\<lambda>m'. True \<and> m = m' \<and> ids_ok m')
     (and_then (now (try_fold (stage_record m) (ids ps) new_manifest)) (\<lambda>staged.
      and_then (call_fold (step c) ps (staged, [], no_totals)) (\<lambda>(_, changed, totals).
      and_then (persist_batch c changed) (\<lambda>_. and_then (publish_records changed) (\<lambda>_. now (Ok totals)))))) (\<lambda>_ _. True)"
  proof (rule triple_then [where Q = "\<lambda>staged. staging_at c m (staged, [], no_totals)"])
    show "triple c x (\<lambda>m'. True \<and> m = m' \<and> ids_ok m') (now (try_fold (stage_record m) (ids ps) new_manifest))
       (\<lambda>staged. staging_at c m (staged, [], no_totals))"
      by (rule triple_now) (auto intro: stage_records_ok)
  next
    fix staged
    show "triple c x (staging_at c m (staged, [], no_totals))
      (and_then (call_fold (step c) ps (staged, [], no_totals)) (\<lambda>(_, changed, totals).
       and_then (persist_batch c changed) (\<lambda>_. and_then (publish_records changed) (\<lambda>_. now (Ok totals))))) (\<lambda>_ _. True)"
    proof (rule triple_then [where Q = "staging_at c m"])
      show "triple c x (staging_at c m (staged, [], no_totals)) (call_fold (step c) ps (staged, [], no_totals)) (staging_at c m)"
        by (rule triple_fold) (rule assms)
    next
      fix acc :: "'a staging"
      obtain staged' changed totals where acc: "acc = (staged', changed, totals)" by (cases acc)
      show "triple c x (staging_at c m acc) (case acc of (_, changed, totals) \<Rightarrow>
         and_then (persist_batch c changed) (\<lambda>_. and_then (publish_records changed) (\<lambda>_. now (Ok totals)))) (\<lambda>_ _. True)"
        unfolding acc prod.case
        by (rule triple_weaken [OF triple_commit]) (auto simp: staging_ok_def)
    qed
  qed
qed

lemma triple_commit_confirmed:
  assumes "\<forall>p\<in>set ps. pair_ok c p"
  shows "triple c x (\<lambda>_. True) (stage_and_commit_confirmed_deletes c ps) (\<lambda>_ _. True)"
proof (cases "ps = []")
  case True
  then show ?thesis
    unfolding stage_and_commit_confirmed_deletes_def if_P [OF True] by (intro triple_now) simp
next
  case False
  show ?thesis
    unfolding stage_and_commit_confirmed_deletes_def if_not_P [OF False]
    by (rule triple_stage_and_commit [where ids = "map (pd_asset_id \<circ> pi_prevalidated \<circ> fst)" and step = record_confirmed])
      (rule triple_record_confirmed, use assms in blast)
qed

lemma triple_commit_reconciled:
  assumes "\<forall>p\<in>set ps. reconciled_ok c p"
  shows "triple c x (\<lambda>_. True) (stage_and_commit_reconciled_deletes c ps) (\<lambda>_ _. True)"
proof (cases "ps = []")
  case True
  then show ?thesis
    unfolding stage_and_commit_reconciled_deletes_def if_P [OF True] by (intro triple_now) simp
next
  case False
  show ?thesis
    unfolding stage_and_commit_reconciled_deletes_def if_not_P [OF False]
    by (rule triple_stage_and_commit [where ids = "map (rc_asset_id \<circ> ri_reconciliation \<circ> fst)" and step = record_reconciled])
      (rule triple_record_reconciled, use assms in blast)
qed

subsection \<open>Lookups\<close>

lemma index_outcomes_get:
  "bt_get (fold (\<lambda>out. bt_insert (do_record_name out) out) outs m) n = Some out \<Longrightarrow>
     out \<in> set outs \<and> do_record_name out = n \<or> bt_get m n = Some out"
  by (induction outs arbitrary: m) (fastforce split: if_splits)+

lemma settle_lookup_Ok:
  assumes "settle_lookup lookup items (remaining, confirmed) = Inr (remaining', confirmed')"
  shows "\<forall>(item, out)\<in>set confirmed'. (item, out) \<in> set confirmed
    \<or> item \<in> set items \<and> out \<in> set (sl_confirmed_deleted lookup)
      \<and> do_record_name out = dr_record_name (rc_request (ri_reconciliation item))"
proof -
  let ?ok = "\<lambda>(item, out). (item, out) \<in> set confirmed \<or> item \<in> set items \<and> out \<in> set (sl_confirmed_deleted lookup)
      \<and> do_record_name out = dr_record_name (rc_request (ri_reconciliation item))"
  let ?P = "\<lambda>(_, settled, outcomes). (\<forall>p\<in>set settled. ?ok p)
      \<and> (\<forall>n out. bt_get outcomes n = Some out \<longrightarrow> out \<in> set (sl_confirmed_deleted lookup) \<and> do_record_name out = n)"
  from assms obtain outcomes where
    fold: "try_fold (settle_item (set (map dr_record_name (sl_unconfirmed lookup)))) items
      (remaining, confirmed, index_outcomes (sl_confirmed_deleted lookup)) = Inr (remaining', confirmed', outcomes)"
    by (auto simp: settle_lookup_def bind_ok_eq_Ok split: list.split_asm) (metis list.exhaust surj_pair)
  have "?P (remaining', confirmed', outcomes)"
  proof (rule try_fold_invariant [OF fold])
    show "?P (remaining, confirmed, index_outcomes (sl_confirmed_deleted lookup))"
      using index_outcomes_get [of "sl_confirmed_deleted lookup" "[]"]
      by (auto simp: index_outcomes_def)
  next
    fix item s s'
    assume "item \<in> set items" "?P s" "settle_item (set (map dr_record_name (sl_unconfirmed lookup))) item s = Inr s'"
    moreover obtain r0 settled outcomes where "s = (r0, settled, outcomes)" by (cases s)
    ultimately show "?P s'"
      by (auto simp: settle_item_def Let_def split: option.splits if_splits)
  qed
  then show ?thesis by auto
qed

lemma triple_reconcile_group:
  assumes "\<forall>item\<in>set items. reconciliation_ok c item" and "\<forall>p\<in>set (snd acc). reconciled_ok c p"
  shows "triple c x (\<lambda>_. True) (reconcile_group c items acc) (\<lambda>acc' _. \<forall>p\<in>set (snd acc'). reconciled_ok c p)"
  unfolding reconcile_group_def Let_def
proof (rule triple_then [OF triple_moment])
  fix post
  let ?requests = "map (rc_request \<circ> ri_reconciliation) items"
  let ?session = "destination_session (request_destination (hd ?requests))"
  show "triple c x (\<lambda>_. True \<and> (\<exists>k. post = mc_lookup c k))
    (case lookup_delete_states post ?session ?requests of
       Inl e \<Rightarrow> and_then (record_monitor_failure (FailedWith (MonUpload e))) (\<lambda>_.
          now (Ok (fst acc @ map (rc_asset_id \<circ> ri_reconciliation) items, snd acc)))
     | Inr lookup \<Rightarrow> now (settle_lookup lookup items acc)) (\<lambda>acc' _. \<forall>p\<in>set (snd acc'). reconciled_ok c p)"
  proof (cases "lookup_delete_states post ?session ?requests")
    case (Inl e)
    show ?thesis
      unfolding Inl sum.case
      by (rule triple_then [OF triple_failure], rule triple_now) (use assms(2) in auto)
  next
    case (Inr found)
    have "reconciled_ok c (item, out)"
      if "settle_lookup found items acc = Inr acc'" "(item, out) \<in> set (snd acc')" "post = mc_lookup c k" for acc' item out k
      using settle_lookup_Ok [of found items "fst acc" "snd acc" "fst acc'" "snd acc'"] that assms Inr
      unfolding reconciled_ok_def looked_up_def by fastforce
    then show ?thesis
      unfolding Inr sum.case by (intro triple_now) auto
  qed
qed

abbreviation grouped_ok :: "'r monitor_calls \<Rightarrow> (string list, reconciliation_item list) btree \<Rightarrow> bool" where
  "grouped_ok c g \<equiv> \<forall>(key, items)\<in>set g. \<forall>item\<in>set items. reconciliation_ok c item"

lemma set_bt_insert: "set (bt_insert k v m) \<subseteq> insert (k, v) (set m)"
  by (induction k v m rule: bt_insert.induct) auto

lemma push_entry_all:
  assumes "\<forall>(k, vs)\<in>set m. \<forall>v\<in>set vs. P v" "P v"
  shows "\<forall>(k, vs)\<in>set (push_entry k v m). \<forall>v\<in>set vs. P v"
proof -
  have "(k, vs) \<in> set m" if "bt_get m k = Some vs" for vs
    using that by (simp add: bt_get_def map_of_SomeD)
  then have "\<forall>v\<in>set (case_option [] id (bt_get m k) @ [v]). P v"
    using assms by (cases "bt_get m k") auto
  then show ?thesis
    using assms(1) set_bt_insert [of k "case_option [] id (bt_get m k) @ [v]" m]
    unfolding push_entry_def by blast
qed

lemma triple_classify:
  assumes "grouped_ok c (snd acc)"
  shows "triple c x (\<lambda>_. True) (classify_delete c a acc) (\<lambda>acc' _. grouped_ok c (snd acc'))"
proof -
  obtain remaining grouped where acc: "acc = (remaining, grouped)" by (cases acc)
  show ?thesis
    unfolding acc classify_delete_def prod.case
  proof (rule triple_then [OF triple_manifest], rule triple_then [where Q = "\<lambda>_ _. True"])
    fix m :: "'a manifest" and r
    show "triple c x (\<lambda>_. True)
      (if ar_state r \<noteq> DeleteApproved then now (Ok (remaining @ [a], grouped))
       else and_then (at_moment (mc_world c)) (\<lambda>w.
         case prepare_delete_reconciliation w m a of
           Inl e \<Rightarrow> and_then (record_monitor_failure (FailedWith (MonWorkflow e))) (\<lambda>_. now (Ok (remaining, grouped)))
         | Inr t \<Rightarrow> and_then (now (raw_size_bytes m a)) (\<lambda>raw. and_then (now (heic_size_bytes m a)) (\<lambda>heic.
             now (Ok (remaining, push_entry (destination_key (request_destination (rc_request t)))
               \<lparr>ri_raw_bytes = raw, ri_heic_bytes = heic, ri_reconciliation = t\<rparr> grouped))))))
      (\<lambda>acc' _. grouped_ok c (snd acc'))"
    proof (cases "ar_state r \<noteq> DeleteApproved")
      case True
      show ?thesis unfolding if_P [OF True] by (rule triple_now) (use assms acc in auto)
    next
      case False
      show ?thesis
        unfolding if_not_P [OF False]
      proof (rule triple_then [OF triple_moment])
        fix w
        show "triple c x (\<lambda>_. True \<and> (\<exists>k. w = mc_world c k))
          (case prepare_delete_reconciliation w m a of
             Inl e \<Rightarrow> and_then (record_monitor_failure (FailedWith (MonWorkflow e))) (\<lambda>_. now (Ok (remaining, grouped)))
           | Inr t \<Rightarrow> and_then (now (raw_size_bytes m a)) (\<lambda>raw. and_then (now (heic_size_bytes m a)) (\<lambda>heic.
               now (Ok (remaining, push_entry (destination_key (request_destination (rc_request t)))
                 \<lparr>ri_raw_bytes = raw, ri_heic_bytes = heic, ri_reconciliation = t\<rparr> grouped)))))
          (\<lambda>acc' _. grouped_ok c (snd acc'))"
        proof (cases "prepare_delete_reconciliation w m a")
          case (Inl e)
          show ?thesis unfolding Inl sum.case
            by (rule triple_then [OF triple_failure], rule triple_now) (use assms acc in auto)
        next
          case (Inr t)
          have ok: "grouped_ok c (push_entry key \<lparr>ri_raw_bytes = raw, ri_heic_bytes = heic, ri_reconciliation = t\<rparr> grouped)"
            if "w = mc_world c k" for k key raw heic
            using assms acc Inr that by (intro push_entry_all) (auto simp: reconciliation_ok_def)
          show ?thesis unfolding Inr sum.case
            by (rule triple_then [where Q = "\<lambda>_ _. \<exists>k. w = mc_world c k"], rule triple_now, simp,
                rule triple_then [where Q = "\<lambda>_ _. \<exists>k. w = mc_world c k"], rule triple_now, simp, rule triple_now)
              (use ok in fastforce)
        qed
      qed
    qed
  qed (rule triple_now, simp)
qed

lemma triple_reconcile_window: "triple c x (\<lambda>_. True) (reconcile_delete_window c ids) (\<lambda>_ _. True)"
  unfolding reconcile_delete_window_def
proof (rule triple_then [where Q = "\<lambda>acc _. grouped_ok c (snd acc)"])
  show "triple c x (\<lambda>_. True) (call_fold (classify_delete c) ids ([], [])) (\<lambda>acc _. grouped_ok c (snd acc))"
    by (rule triple_fold_fact) (simp, rule triple_classify)
next
  fix acc :: "string list \<times> (string list, reconciliation_item list) btree"
  obtain remaining grouped where acc: "acc = (remaining, grouped)" by (cases acc)
  show "triple c x (\<lambda>_. grouped_ok c (snd acc))
    (case acc of (remaining, grouped) \<Rightarrow>
       and_then (call_fold (reconcile_group c) (bt_values grouped) (remaining, [])) (\<lambda>(remaining, confirmed).
       and_then (stage_and_commit_reconciled_deletes c confirmed) (\<lambda>totals. now (Ok (remaining, totals))))) (\<lambda>_ _. True)"
    unfolding acc prod.case snd_conv
  proof (rule triple_fact, rule triple_then)
    assume ok: "grouped_ok c grouped"
    show "triple c x (\<lambda>_. True) (call_fold (reconcile_group c) (bt_values grouped) (remaining, []))
        (\<lambda>acc _. \<forall>p\<in>set (snd acc). reconciled_ok c p)"
    proof (rule triple_fold_fact)
      fix items and acc :: "string list \<times> (reconciliation_item \<times> cloudkit_delete_outcome) list"
      assume "items \<in> set (bt_values grouped)" "\<forall>p\<in>set (snd acc). reconciled_ok c p"
      with ok show "triple c x (\<lambda>_. True) (reconcile_group c items acc) (\<lambda>acc _. \<forall>p\<in>set (snd acc). reconciled_ok c p)"
        by (intro triple_reconcile_group) (auto simp: bt_values_def)
    qed simp
  next
    fix acc :: "string list \<times> (reconciliation_item \<times> cloudkit_delete_outcome) list"
    show "triple c x (\<lambda>_. \<forall>p\<in>set (snd acc). reconciled_ok c p)
      (case acc of (remaining, confirmed) \<Rightarrow>
         and_then (stage_and_commit_reconciled_deletes c confirmed) (\<lambda>totals. now (Ok (remaining, totals)))) (\<lambda>_ _. True)"
      by (cases acc, simp only: prod.case snd_conv)
        (rule triple_fact, rule triple_then [OF triple_commit_reconciled], assumption, rule triple_now, simp)
  qed
qed

end
