(* ===== verification/Monitor_Stage.thy ===== *)
theory Monitor_Stage
  imports Monitor_Safety
begin

section \<open>The deletion stage as a whole\<close>

text \<open>
  The remaining steps of the stage keep the contract of \<open>Monitor_Safety\<close>: the preparation by worker
  threads, the submission of a group, a window and the stage itself. From that follow its guarantees: a
  record that becomes deleted has a cause, what is shown was saved, a stage whose lease is lost changes
  nothing, and a group with a stale token never reaches CloudKit.
\<close>

subsection \<open>Preparation\<close>

lemma mark_eq_Ok:
  "mark_delete_eligible w m a = Inr m' \<Longrightarrow>
     \<exists>r stamp v. bt_get (mf_records m) a = Some r \<and> unreserved r
       \<and> m' = put_record a (with_proof stamp DeleteEligible DELETE_ELIGIBILITY_PROOF v r) m"
  by (auto simp: mark_delete_eligible_def bind_ok_eq_Ok change_eq_Ok)

lemma approve_eq_Ok:
  "approve_delete w operator m a = Inr m' \<Longrightarrow>
     \<exists>r stamp v. bt_get (mf_records m) a = Some r \<and> unreserved r
       \<and> m' = put_record a (with_proof stamp DeleteApproved DELETE_APPROVAL_PROOF v r) m"
  by (auto simp: approve_delete_def bind_ok_eq_Ok change_eq_Ok Let_def)

lemma unreserved_with_proof:
  "k \<noteq> RESERVED_PROOF_NAME \<Longrightarrow> unreserved (with_proof stamp st k v r) \<longleftrightarrow> unreserved r"
  by (auto simp: has_proof_def bt_contains_def get_proof_def [symmetric])

lemma approval_names_not_reserved:
  "DELETE_ELIGIBILITY_PROOF \<noteq> RESERVED_PROOF_NAME" "DELETE_APPROVAL_PROOF \<noteq> RESERVED_PROOF_NAME"
  by (simp_all add: model_defs)

text \<open>The record of a worker's manifest, before and after.\<close>

definition prepared_from :: "'r manifest \<Rightarrow> string \<Rightarrow> bool \<Rightarrow> 'r manifest \<Rightarrow> bool" where
  "prepared_from m a changed m' \<longleftrightarrow>
     (if changed
      then \<exists>r0 r. bt_get (mf_records m) a = Some r0 \<and> unreserved r0 \<and> bt_get (mf_records m') a = Some r
        \<and> unreserved r \<and> ar_asset_id r = ar_asset_id r0 \<and> ar_state r \<in> {DeleteEligible, DeleteApproved}
      else m' = m)"

lemma prepared_from_mark:
  assumes "(if ar_state r = UploadVerified
      then map_ok (\<lambda>m. (m, True)) (map_err MonWorkflow (mark_delete_eligible w m a)) else Inr (m, False)) = Inr (m', changed)"
  shows "prepared_from m a changed m'"
  using assms
  by (auto simp: prepared_from_def map_ok_eq_Ok map_err_eq_Ok unreserved_with_proof approval_names_not_reserved
      split: if_splits dest!: mark_eq_Ok)

lemma prepared_from_approve:
  assumes "(if ar_state r = DeleteEligible
      then map_ok (\<lambda>m. (m, True)) (map_err MonWorkflow (approve_delete w operator m1 a)) else Inr (m1, changed)) = Inr (m', changed')"
    and "prepared_from m a changed m1"
  shows "prepared_from m a changed' m'"
  using assms
  by (auto simp: prepared_from_def map_ok_eq_Ok map_err_eq_Ok unreserved_with_proof approval_names_not_reserved
      split: if_splits dest!: approve_eq_Ok)

lemma prepare_delete_item_Ok:
  assumes "prepare_delete_item world k operator m a = Inr (prepared, changed, m')"
  shows "prepared_from m a changed m'"
    and "prepared = Some item \<Longrightarrow>
      \<exists>i. prevalidate_approved_original_delete (world i) m' a = Inr (pi_prevalidated item)"
proof -
  from assms obtain r r1 r2 :: asset_record and m1 changed1 m2 changed2 where
    one: "(if ar_state r = UploadVerified
      then map_ok (\<lambda>m. (m, True)) (map_err MonWorkflow (mark_delete_eligible (world k) m a)) else Inr (m, False))
      = Inr (m1, changed1)"
    and two: "(if ar_state r1 = DeleteEligible
      then map_ok (\<lambda>m. (m, True)) (map_err MonWorkflow (approve_delete (world (k + 1)) operator m1 a))
      else Inr (m1, changed1)) = Inr (m2, changed2)"
    and rest: "(if ar_state r2 \<noteq> DeleteApproved then Inr (None, changed2, m2)
      else bind_ok (raw_size_bytes m2 a) (\<lambda>raw. bind_ok (heic_size_bytes m2 a) (\<lambda>heic.
        bind_ok (map_err MonWorkflow (prevalidate_approved_original_delete (world (k + 2)) m2 a)) (\<lambda>t.
        Inr (Some \<lparr>pi_raw_bytes = raw, pi_heic_bytes = heic, pi_prevalidated = t\<rparr>, changed2, m2)))))
      = Inr (prepared, changed, m')"
    unfolding prepare_delete_item_def bind_ok_eq_Ok split_paired_Ex prod.case by blast
  have "changed = changed2" "m' = m2"
    using rest by (auto simp: bind_ok_eq_Ok split: if_splits)
  then show "prepared_from m a changed m'"
    using prepared_from_approve [OF two prepared_from_mark [OF one]] by simp
  show "\<exists>i. prevalidate_approved_original_delete (world i) m' a = Inr (pi_prevalidated item)" if "prepared = Some item"
    using rest that by (auto simp: bind_ok_eq_Ok map_err_eq_Ok split: if_splits)
qed

definition preparation_ok :: "'r monitor_calls \<Rightarrow> 'r manifest \<Rightarrow> preparation_batch \<Rightarrow> bool" where
  "preparation_ok c m b \<longleftrightarrow> batch_ok c m (pb_changed_records b) \<and> (\<forall>item\<in>set (pb_prepared b). item_ok c item)"

lemma no_preparation_ok: "preparation_ok c m no_preparation"
  by (simp add: preparation_ok_def no_preparation_def batch_ok_def)

lemma add_failure_ok: "preparation_ok c m (add_failure e b) = preparation_ok c m b"
  by (simp add: preparation_ok_def add_failure_def)

lemma join_worker_ok:
  assumes "preparation_ok c m b" and "snapshot_record m a = Inr snapshot" and "ids_ok m"
  shows "preparation_ok c m (join_worker c k operator (i, a, snapshot) b)"
proof (cases "mc_worker_panics c (k + 3 * i)")
  case True
  then show ?thesis using assms(1) by (simp add: join_worker_def add_failure_ok)
next
  case False
  from assms(2,3) obtain r0 where r0: "bt_get (mf_records m) a = Some r0" "unreserved r0" "ar_asset_id r0 = a"
    and snapshot: "snapshot = \<lparr>mf_records = [(a, r0)], mf_registry = None\<rparr>"
    by (auto simp: snapshot_is_the_record record_has_reserved_internal_proof_def ids_ok_def split: option.splits if_splits)
  show ?thesis
  proof (cases "prepare_delete_item_snapshot (mc_world c) (k + 3 * i) operator snapshot a")
    case (Inl e)
    then show ?thesis using assms(1) False by (simp add: join_worker_def add_failure_ok)
  next
    case (Inr y)
    then obtain prepared checkpoint changed m' where y: "y = (prepared, checkpoint)"
      and item: "prepare_delete_item (mc_world c) (k + 3 * i) operator snapshot a = Inr (prepared, changed, m')"
      and checkpoint: "(if changed then map_ok (\<lambda>r. (prepared, Some r)) (monitor_get m' a) else Inr (prepared, None))
        = Inr (prepared, checkpoint)"
      by (cases y) (auto simp: prepare_delete_item_snapshot_def bind_ok_eq_Ok map_ok_eq_Ok split: prod.splits if_splits)
    have new: "batch_ok c m [r]" if "checkpoint = Some r" for r
      using prepare_delete_item_Ok(1) [OF item] checkpoint that r0 snapshot
      by (auto simp: batch_ok_def prepared_from_def map_ok_eq_Ok monitor_get_def map_err_eq_Ok manifest_get_eq_Ok
          bt_get_def split: if_splits)
    have "item_ok c it" if "prepared = Some it" for it
      using prepare_delete_item_Ok(2) [OF item that] unfolding item_ok_def by blast
    with new show ?thesis
      using assms(1) False Inr y
      by (auto simp: join_worker_def preparation_ok_def batch_ok_def split: option.split)
  qed
qed

definition started_ok ::
  "'r monitor_calls \<Rightarrow> 'r manifest \<Rightarrow> (nat \<times> string \<times> 'r manifest) list \<times> preparation_batch \<Rightarrow> bool"
where
  "started_ok c m acc \<longleftrightarrow>
     preparation_ok c m (snd acc) \<and> (\<forall>(i, a, snapshot)\<in>set (fst acc). snapshot_record m a = Inr snapshot)"

lemma start_worker_ok: "started_ok c m acc \<Longrightarrow> started_ok c m (start_worker m entry acc)"
  by (auto simp: started_ok_def start_worker_def add_failure_ok split: prod.splits sum.splits)

lemma start_workers_ok: "started_ok c m acc \<Longrightarrow> started_ok c m (fold (start_worker m) chunk acc)"
  by (induction chunk arbitrary: acc) (auto simp: start_worker_ok)

lemma join_workers_ok:
  assumes "preparation_ok c m b" "\<forall>(i, a, snapshot)\<in>set handles. snapshot_record m a = Inr snapshot" "ids_ok m"
  shows "preparation_ok c m (fold (join_worker c k operator) handles b)"
  using assms by (induction handles arbitrary: b) (auto simp: join_worker_ok)

lemma prepare_chunk_ok:
  assumes "preparation_ok c m b" "ids_ok m"
  shows "preparation_ok c m (prepare_chunk c k operator m chunk b)"
proof -
  obtain handles b' where h: "fold (start_worker m) chunk ([], b) = (handles, b')"
    by (cases "fold (start_worker m) chunk ([], b)")
  have "started_ok c m ([], b)" using assms(1) by (simp add: started_ok_def)
  then have "started_ok c m (handles, b')" using start_workers_ok h by metis
  then show ?thesis
    using assms(2) h by (auto simp: prepare_chunk_def started_ok_def intro!: join_workers_ok)
qed

lemma prepare_delete_items_ok:
  assumes "ids_ok m"
  shows "preparation_ok c m (prepare_delete_items c k cfg m ids)"
proof -
  have "preparation_ok c m b \<Longrightarrow> preparation_ok c m (fold (prepare_chunk c k operator m) chunks b)" for b operator chunks
    by (induction chunks arbitrary: b) (auto simp: prepare_chunk_ok assms)
  then show ?thesis by (simp add: prepare_delete_items_def Let_def no_preparation_ok)
qed

lemma triple_preparation:
  "triple c x (\<lambda>_. True) (process_delete_preparation_window c cfg ids) (\<lambda>items _. \<forall>item\<in>set items. item_ok c item)"
  unfolding process_delete_preparation_window_def
proof (rule triple_then [OF triple_manifest])
  fix m
  let ?then = "\<lambda>preparation. and_then (record_failures (pb_failures preparation)) (\<lambda>_.
     if pb_changed_records preparation = [] then now (Ok (pb_prepared preparation))
     else and_then (persist_batch c (pb_changed_records preparation)) (\<lambda>_.
       and_then (publish_records (pb_changed_records preparation)) (\<lambda>_. now (Ok (pb_prepared preparation)))))"
  show "triple c x (\<lambda>m'. True \<and> m = m' \<and> ids_ok m')
    (and_then (\<lambda>s. (Ok (prepare_delete_items c (dn_moment s) cfg m ids), s\<lparr>dn_moment := dn_moment s + 3 * length ids\<rparr>)) ?then)
    (\<lambda>items _. \<forall>item\<in>set items. item_ok c item)"
  proof (rule triple_then [where Q = "\<lambda>b m'. m = m' \<and> preparation_ok c m b"])
    show "triple c x (\<lambda>m'. True \<and> m = m' \<and> ids_ok m')
      (\<lambda>s. (Ok (prepare_delete_items c (dn_moment s) cfg m ids), s\<lparr>dn_moment := dn_moment s + 3 * length ids\<rparr>))
      (\<lambda>b m'. m = m' \<and> preparation_ok c m b)"
      by (auto simp: triple_def scan_pair_def prepare_delete_items_ok)
  next
    fix b
    have commit: "triple c x (\<lambda>m'. m = m' \<and> preparation_ok c m b)
      (and_then (persist_batch c (pb_changed_records b)) (\<lambda>_.
         and_then (publish_records (pb_changed_records b)) (\<lambda>_. now (Ok (pb_prepared b)))))
      (\<lambda>items _. \<forall>item\<in>set items. item_ok c item)"
    proof (cases "preparation_ok c m b")
      case True
      show ?thesis by (rule triple_weaken [OF triple_commit]) (use True in \<open>auto simp: preparation_ok_def\<close>)
    next
      case False
      then show ?thesis by (simp add: triple_def)
    qed
    show "triple c x (\<lambda>m'. m = m' \<and> preparation_ok c m b) (?then b) (\<lambda>items _. \<forall>item\<in>set items. item_ok c item)"
    proof (rule triple_then [OF triple_failures])
      show "triple c x (\<lambda>m'. m = m' \<and> preparation_ok c m b)
        (if pb_changed_records b = [] then now (Ok (pb_prepared b))
         else and_then (persist_batch c (pb_changed_records b)) (\<lambda>_.
           and_then (publish_records (pb_changed_records b)) (\<lambda>_. now (Ok (pb_prepared b)))))
        (\<lambda>items _. \<forall>item\<in>set items. item_ok c item)"
        using commit by (cases "pb_changed_records b = []") (auto simp: preparation_ok_def intro: triple_now simp del: now_simps)
    qed
  qed
qed

subsection \<open>Submission\<close>

lemma pair_items_get:
  "pair_items items by_name = (pairs, rest) \<Longrightarrow> (item, out) \<in> set pairs \<Longrightarrow>
     item \<in> set items \<and> bt_get by_name (dr_record_name (pd_request (pi_prevalidated item))) = Some out"
proof (induction items by_name arbitrary: pairs rest rule: pair_items.induct)
  case (2 it items by_name)
  show ?case
  proof (cases "bt_get by_name (dr_record_name (pd_request (pi_prevalidated it)))")
    case None
    with 2 show ?thesis by (auto simp: Let_def)
  next
    case (Some o1)
    obtain pairs' rest' where "pair_items items (bt_remove (dr_record_name (pd_request (pi_prevalidated it))) by_name) = (pairs', rest')"
      by (cases "pair_items items (bt_remove (dr_record_name (pd_request (pi_prevalidated it))) by_name)")
    with 2 Some show ?thesis by (fastforce simp: Let_def split: if_splits)
  qed
qed simp

lemma index_confirmed_get:
  assumes "try_fold index_confirmed outs [] = Inr by_name" "bt_get by_name n = Some out"
  shows "out \<in> set outs \<and> do_record_name out = n"
proof -
  have "\<forall>n out. bt_get by_name n = Some out \<longrightarrow> out \<in> set outs \<and> do_record_name out = n"
    by (rule try_fold_invariant [OF assms(1)]) (auto simp: index_confirmed_def split: if_splits)
  with assms(2) show ?thesis by blast
qed

lemma pair_confirmed_Ok:
  assumes "pair_confirmed_delete_outcomes items outs = Inr pairs" "(item, out) \<in> set pairs"
  shows "item \<in> set items \<and> out \<in> set outs \<and> do_record_name out = dr_record_name (pd_request (pi_prevalidated item))"
proof -
  from assms(1) obtain by_name where index: "try_fold index_confirmed outs [] = Inr by_name"
    and pairs: "(case pair_items items by_name of (confirmed, rest) \<Rightarrow>
       (case rest of [] \<Rightarrow> Ok confirmed | (record_name, _) # _ \<Rightarrow>
          Err (CommandFailed (''confirmed CloudKit delete outcome was not requested: '' @ record_name)))) = Inr pairs"
    unfolding pair_confirmed_delete_outcomes_def bind_ok_eq_Ok by blast
  obtain confirmed rest where p: "pair_items items by_name = (confirmed, rest)"
    by (cases "pair_items items by_name")
  with pairs have "confirmed = pairs" by (cases rest) auto
  with p pair_items_get [OF _ assms(2)] index_confirmed_get [OF index] show ?thesis by blast
qed

lemma triple_finish:
  assumes "\<forall>item\<in>set items. item_ok c item"
    and "\<And>item out. item \<in> set items \<Longrightarrow> out \<in> set outs \<Longrightarrow>
      do_record_name out = dr_record_name (pd_request (pi_prevalidated item)) \<Longrightarrow>
      modified c out (pd_request (pi_prevalidated item)) \<or> looked_up c out (pd_request (pi_prevalidated item))"
  shows "triple c x (\<lambda>_. True) (finish_delete_submission items outs) (\<lambda>pairs _. \<forall>p\<in>set pairs. pair_ok c p)"
proof (cases "pair_confirmed_delete_outcomes items outs")
  case (Inl e)
  show ?thesis
    unfolding finish_delete_submission_def Inl sum.case
    by (rule triple_then [OF triple_failure], rule triple_now) simp
next
  case (Inr pairs)
  have "pair_ok c (item, out)" if "(item, out) \<in> set pairs" for item out
    using pair_confirmed_Ok [OF Inr that] assms by (simp add: pair_ok_def)
  then show ?thesis
    unfolding finish_delete_submission_def Inr sum.case by (intro triple_now) auto
qed

lemma preflight_batch:
  "delete_originals_batch_with_preflight post preflight session rs = Inr outs \<Longrightarrow>
     delete_originals_batch post session rs = Inr outs"
  by (auto simp: delete_originals_batch_with_preflight_def delete_originals_batch_def bind_ok_eq_Ok
      map_err_eq_Ok Let_def)

lemma looked_upI:
  assumes "lookup_delete_states (mc_lookup c k) session rs = Inr found" "out \<in> set (sl_confirmed_deleted found)"
    and "request \<in> set rs" "do_record_name out = dr_record_name request"
  shows "looked_up c out request"
  unfolding looked_up_def using assms by blast

lemma modifiedI:
  assumes "delete_originals_batch (mc_modify c k) session rs = Inr outs" "out \<in> set outs"
    and "request \<in> set rs" "do_record_name out = dr_record_name request"
  shows "modified c out request"
  unfolding modified_def using assms by blast

lemma triple_reconcile_submission:
  assumes "\<forall>item\<in>set items. item_ok c item" and "rs = map (pd_request \<circ> pi_prevalidated) items"
  shows "triple c x (\<lambda>_. True) (reconcile_submission c items session rs e) (\<lambda>pairs _. \<forall>p\<in>set pairs. pair_ok c p)"
  unfolding reconcile_submission_def
proof (rule triple_then [OF triple_moment])
  fix post
  show "triple c x (\<lambda>_. True \<and> (\<exists>k. post = mc_lookup c k))
    (case lookup_delete_states post session rs of
       Inl lookup_error \<Rightarrow> and_then (record_monitor_failure (DeleteLookupFailed e lookup_error)) (\<lambda>_. now (Ok []))
     | Inr found \<Rightarrow> and_then (if sl_unconfirmed found = [] then now (Ok ())
          else record_monitor_failure (DeletesUnconfirmed (length (sl_unconfirmed found)) (length rs) e)) (\<lambda>_.
          finish_delete_submission items (sl_confirmed_deleted found)))
    (\<lambda>pairs _. \<forall>p\<in>set pairs. pair_ok c p)"
    unfolding simp_thms
  proof (rule triple_fact)
    assume "\<exists>k. post = mc_lookup c k"
    then obtain k where k: "post = mc_lookup c k" by blast
    show "triple c x (\<lambda>_. True)
      (case lookup_delete_states post session rs of
         Inl lookup_error \<Rightarrow> and_then (record_monitor_failure (DeleteLookupFailed e lookup_error)) (\<lambda>_. now (Ok []))
       | Inr found \<Rightarrow> and_then (if sl_unconfirmed found = [] then now (Ok ())
            else record_monitor_failure (DeletesUnconfirmed (length (sl_unconfirmed found)) (length rs) e)) (\<lambda>_.
            finish_delete_submission items (sl_confirmed_deleted found)))
      (\<lambda>pairs _. \<forall>p\<in>set pairs. pair_ok c p)"
    proof (cases "lookup_delete_states post session rs")
      case (Inl lookup_error)
      show ?thesis unfolding Inl sum.case by (rule triple_then [OF triple_failure], rule triple_now) simp
    next
      case (Inr found)
      have finish: "triple c x (\<lambda>_. True) (finish_delete_submission items (sl_confirmed_deleted found))
          (\<lambda>pairs _. \<forall>p\<in>set pairs. pair_ok c p)"
        using assms Inr k by (intro triple_finish disjI2 looked_upI [of c k session rs found]) auto
      show ?thesis
        unfolding Inr sum.case
      proof (rule triple_then [where Q = "\<lambda>_ _. True"])
        show "triple c x (\<lambda>_. True) (if sl_unconfirmed found = [] then now (Ok ())
            else record_monitor_failure (DeletesUnconfirmed (length (sl_unconfirmed found)) (length rs) e)) (\<lambda>_ _. True)"
          using triple_failure [of c x "\<lambda>_. True"]
          by (cases "sl_unconfirmed found = []") (auto intro: triple_now simp del: now_simps)
      qed (rule finish)
    qed
  qed
qed

lemma triple_check_live_raw: "triple c x (\<lambda>_. True) (check_live_raw c max_age item failed) (\<lambda>_ _. True)"
  unfolding check_live_raw_def
proof (rule triple_then [where Q = "\<lambda>_ _. True"])
  show "triple c x (\<lambda>_. True) (at_moment (\<lambda>k. (mc_capture c k, mc_clock c k))) (\<lambda>_ _. True)"
    by (rule triple_weaken [OF triple_moment]) auto
next
  fix y :: "capture_observations \<times> system_time"
  show "triple c x (\<lambda>_. True)
    (case y of (ob, time) \<Rightarrow>
       case validate_live_raw_at ob (pi_prevalidated item) max_age time of
         Inl e \<Rightarrow> and_then (record_monitor_failure (FailedWith (MonWorkflow e))) (\<lambda>_. now (Ok True))
       | Inr _ \<Rightarrow> now (Ok failed)) (\<lambda>_ _. True)"
    by (auto simp: triple_def and_then_def record_monitor_failure_def scan_pair_def split: prod.splits sum.splits)
qed

lemma triple_submit:
  assumes "\<forall>item\<in>set items. item_ok c item"
  shows "triple c x (\<lambda>_. True) (submit_prepared_delete_group_with_clock c max_age items) (\<lambda>pairs _. \<forall>p\<in>set pairs. pair_ok c p)"
proof (cases "items = []")
  case True
  show ?thesis
    unfolding submit_prepared_delete_group_with_clock_def if_P [OF True] by (rule triple_now) simp
next
  case False
  let ?rs = "map (pd_request \<circ> pi_prevalidated) items"
  let ?session = "destination_session (request_destination (hd ?rs))"
  let ?sent = "\<lambda>time post. case delete_originals_batch_with_preflight post (delete_preflight max_age time items) ?session ?rs of
      Inl (InvalidRequest e) \<Rightarrow> and_then (record_monitor_failure (FailedWith (MonUpload e))) (\<lambda>_. now (Ok []))
    | Inl (Preflight failures) \<Rightarrow> and_then (record_failures (map MonWorkflow failures)) (\<lambda>_. now (Ok []))
    | Inl (Remote e) \<Rightarrow> reconcile_submission c items ?session ?rs e
    | Inr outs \<Rightarrow> finish_delete_submission items outs"
  have sent: "triple c x (\<lambda>_. True) (?sent time (mc_modify c k)) (\<lambda>pairs _. \<forall>p\<in>set pairs. pair_ok c p)" for time k
  proof (cases "delete_originals_batch_with_preflight (mc_modify c k) (delete_preflight max_age time items) ?session ?rs")
    case (Inr outs)
    have "triple c x (\<lambda>_. True) (finish_delete_submission items outs) (\<lambda>pairs _. \<forall>p\<in>set pairs. pair_ok c p)"
      using assms by (intro triple_finish disjI1 modifiedI [OF preflight_batch [OF Inr]]) auto
    then show ?thesis unfolding Inr sum.case .
  next
    case (Inl e)
    show ?thesis
    proof (cases e)
      case (InvalidRequest err)
      show ?thesis unfolding Inl InvalidRequest sum.case delete_batch_send_error.case
        by (rule triple_then [OF triple_failure], rule triple_now) simp
    next
      case (Preflight failures)
      show ?thesis unfolding Inl Preflight sum.case delete_batch_send_error.case
        by (rule triple_then [OF triple_failures], rule triple_now) simp
    next
      case (Remote err)
      show ?thesis unfolding Inl Remote sum.case delete_batch_send_error.case
        by (rule triple_reconcile_submission [OF assms refl])
    qed
  qed
  show ?thesis
    unfolding submit_prepared_delete_group_with_clock_def if_not_P [OF False] Let_def
  proof (rule triple_then [where Q = "\<lambda>_ _. True"])
    show "triple c x (\<lambda>_. True) (call_fold (check_live_raw c max_age) items False) (\<lambda>_ _. True)"
      by (rule triple_fold_fact [where F = "\<lambda>_. True"]) (simp, rule triple_check_live_raw)
  next
    fix failed
    show "triple c x (\<lambda>_. True)
      (if failed then now (Ok [])
       else and_then (at_moment (\<lambda>k. (mc_clock c k, mc_modify c k))) (\<lambda>(time, post). ?sent time post))
      (\<lambda>pairs _. \<forall>p\<in>set pairs. pair_ok c p)"
    proof (cases failed)
      case True
      show ?thesis unfolding if_P [OF True] by (rule triple_now) simp
    next
      case False
      show ?thesis
        unfolding if_not_P [OF False]
      proof (rule triple_then [OF triple_moment])
        fix y :: "system_time \<times> (json \<Rightarrow> upload_error + json)"
        show "triple c x (\<lambda>_. True \<and> (\<exists>k. y = (mc_clock c k, mc_modify c k)))
          (case y of (time, post) \<Rightarrow> ?sent time post) (\<lambda>pairs _. \<forall>p\<in>set pairs. pair_ok c p)"
          unfolding simp_thms by (rule triple_fact) (use sent in auto)
      qed
    qed
  qed
qed

subsection \<open>The stage\<close>

lemma push_entries_all:
  assumes "\<forall>(k, vs)\<in>set m. \<forall>v\<in>set vs. P v" "\<forall>v\<in>set xs. P v"
  shows "\<forall>(k, vs)\<in>set (fold (\<lambda>v. push_entry (f v) v) xs m). \<forall>v\<in>set vs. P v"
  using assms
proof (induction xs arbitrary: m)
  case (Cons v xs)
  then have "\<forall>(k, vs)\<in>set (push_entry (f v) v m). \<forall>v\<in>set vs. P v" by (intro push_entry_all) auto
  with Cons.IH [OF this] Cons.prems show ?case by simp
qed simp

lemma group_items:
  assumes "items \<in> set (group_by_destination all)" "item \<in> set items"
  shows "item \<in> set all"
  using assms push_entries_all [of "[]" "\<lambda>v. v \<in> set all" all]
  by (fastforce simp: group_by_destination_def bt_values_def)

lemma triple_group:
  assumes "\<forall>item\<in>set items. item_ok c item"
  shows "triple c x (\<lambda>_. True) (delete_group c items totals) (\<lambda>_ _. True)"
  unfolding delete_group_def submit_prepared_delete_group_def
proof (rule triple_then [OF triple_submit [OF assms]], rule triple_fact)
  fix confirmed
  assume ok: "\<forall>p\<in>set confirmed. pair_ok c p"
  show "triple c x (\<lambda>_. True)
    (if confirmed = [] then now (Ok totals)
     else and_then (stage_and_commit_confirmed_deletes c confirmed) (\<lambda>committed. now (Ok (add_totals totals committed))))
    (\<lambda>_ _. True)"
  proof (cases "confirmed = []")
    case True
    show ?thesis unfolding if_P [OF True] by (rule triple_now) simp
  next
    case False
    show ?thesis unfolding if_not_P [OF False]
      by (rule triple_then [OF triple_commit_confirmed [OF ok]], rule triple_now) simp
  qed
qed

lemma triple_window: "triple c x (\<lambda>_. True) (delete_window c cfg ids totals) (\<lambda>_ _. True)"
  unfolding delete_window_def
proof (rule triple_then [OF triple_reconcile_window])
  fix y :: "string list \<times> commit_totals"
  obtain remaining reconciled where y: "y = (remaining, reconciled)" by (cases y)
  show "triple c x (\<lambda>_. True) (case y of (remaining, reconciled) \<Rightarrow>
      and_then (process_delete_preparation_window c cfg remaining) (\<lambda>prepared.
        call_fold (delete_group c) (group_by_destination prepared) (add_totals totals reconciled))) (\<lambda>_ _. True)"
    unfolding y prod.case
  proof (rule triple_then [OF triple_preparation], rule triple_fact)
    fix prepared
    assume "\<forall>item\<in>set prepared. item_ok c item"
    then show "triple c x (\<lambda>_. True) (call_fold (delete_group c) (group_by_destination prepared) (add_totals totals reconciled)) (\<lambda>_ _. True)"
      by (intro triple_fold_fact [where F = "\<lambda>_. True"] triple_group) (auto dest: group_items)
  qed
qed

lemma triple_export: "triple c x (\<lambda>_. True) (export_state c) (\<lambda>_ _. True)"
  unfolding triple_def
proof (intro allI impI conjI)
  fix s r s'
  assume pre: "stage_progress c x (scan_pair s)" "ids_ok (dn_manifest s)" and run: "export_state c s = (r, s')"
  let ?k = "dn_moment s"
  let ?db = "store_run (mc_api c) (mc_digest c) (mc_others c ?k) (dn_db s)"
  have manifest: "dn_manifest s' = dn_manifest s"
    using run by (auto simp: export_state_def Let_def split: prod.splits)
  then show "ids_ok (dn_manifest s')" using pre by simp
  have "dn_db s' = snd (operate (mc_api c) (mc_digest c) (mc_db c ?k) (mc_store c ?k)
      (ExportJson (mc_save c) (mc_checkpoint c) (dn_files s)) ?db)"
    using run by (auto simp: export_state_def Let_def split: prod.splits)
  moreover have "stage_progress c x (dn_manifest s, ?db)"
    using pre(1) by (auto simp: scan_pair_def intro: progress_others)
  ultimately have "stage_progress c x (dn_manifest s, dn_db s')" by (metis progress_operate)
  then show "stage_progress c x (scan_pair s')" by (simp only: scan_pair_def manifest)
qed simp

lemma triple_summary: "triple c x P (add_to_summary t) (\<lambda>_. P)"
  by (auto simp: triple_def add_to_summary_def scan_pair_def)

lemma triple_stage: "triple c x (\<lambda>_. True) (delete_original_assets_with_client c cfg active) (\<lambda>_ _. True)"
  unfolding delete_original_assets_with_client_def Let_def
proof (rule triple_then [OF triple_manifest], rule triple_weaken [where P = "\<lambda>_. True" and Q = "\<lambda>_ _. True"])
  fix m
  show "triple c x (\<lambda>_. True)
    (and_then (at_moment (mc_world c)) (\<lambda>w.
      if delete_lifecycle_asset_ids w m cfg active = [] then now (Ok ())
      else and_then (call_fold (delete_window c cfg)
        (chunks (delete_submission_window_size cfg (length (delete_lifecycle_asset_ids w m cfg active)))
          (delete_lifecycle_asset_ids w m cfg active)) no_totals) (\<lambda>totals.
        and_then (export_state c) (\<lambda>_. add_to_summary totals)))) (\<lambda>_ _. True)"
  proof (rule triple_then [where Q = "\<lambda>_ _. True"])
    show "triple c x (\<lambda>_. True) (at_moment (mc_world c)) (\<lambda>_ _. True)"
      by (rule triple_weaken [OF triple_moment]) auto
  next
    fix w
    let ?ids = "delete_lifecycle_asset_ids w m cfg active"
    show "triple c x (\<lambda>_. True)
      (if ?ids = [] then now (Ok ())
       else and_then (call_fold (delete_window c cfg) (chunks (delete_submission_window_size cfg (length ?ids)) ?ids) no_totals)
        (\<lambda>totals. and_then (export_state c) (\<lambda>_. add_to_summary totals))) (\<lambda>_ _. True)"
    proof (cases "?ids = []")
      case True
      show ?thesis unfolding if_P [OF True] by (rule triple_now) simp
    next
      case False
      show ?thesis unfolding if_not_P [OF False]
        by (rule triple_then [OF triple_fold_fact [where F = "\<lambda>_. True"]], simp, rule triple_window,
            rule triple_then [OF triple_export], rule triple_weaken [OF triple_summary]) auto
    qed
  qed
qed simp_all

end
