(* ===== verification/Monitor_Guarantees.thy ===== *)
theory Monitor_Guarantees
  imports Monitor_Stage
begin

section \<open>The guarantees of the deletion stage\<close>

text \<open>
  What the contract of \<open>Monitor_Stage\<close> gives for a whole run of the stage, whatever fails on the way and
  whatever other processes do to the database meanwhile.
\<close>

lemma stage_run:
  assumes "delete_original_assets_with_client c cfg active s = (result, s')" and "ids_ok (dn_manifest s)"
  shows "stage_progress c (scan_pair s) (scan_pair s')"
  using triple_stage [of c "scan_pair s" cfg active] assms progress_none [of c "scan_pair s"]
  unfolding triple_def by blast

lemma progress_deletions:
  assumes "stage_progress c x y" and "bt_get (mf_records (fst y)) a = Some r" and "ar_state r = Deleted"
    and "bt_get (mf_records (fst x)) a \<noteq> Some r"
  shows "deletion_cause c r"
  using assms
proof (induction arbitrary: r rule: stage_progress.induct)
  case (progress_batch m db dc k rs db')
  have "bt_get (mf_records (fold insert_record rs m)) a = Some r \<Longrightarrow>
      r \<in> set rs \<or> bt_get (mf_records m) a = Some r" for rs m
    by (induction rs arbitrary: m) (fastforce split: if_splits)+
  with progress_batch show ?case by auto
qed simp_all

text \<open>C6: The deletion stage refines a sequence of saved batches: whatever calls fail,
  every change of the manifest in memory is a batch of records that the state store saved first, in one
  transaction under the stage's own lease, and every record of it that is deleted has a cause.\<close>

theorem stage_saves_before_it_shows:
  assumes "delete_original_assets_with_client c cfg active s = (result, s')" and "ids_ok (dn_manifest s)"
  shows "stage_progress c (dn_manifest s, dn_db s) (dn_manifest s', dn_db s')"
  using stage_run [OF assms] by (simp add: scan_pair_def)

text \<open>C5: A record the stage turns into a deleted one has a cause: a token was made for it
  when its deletion was justified by the whole chain of stored proofs, none of that evidence changed until
  the deletion was recorded, and CloudKit confirmed, for the very request of the token, that the original
  is deleted under a new change tag - in answer to a modification, sent with a RAW file that was still
  unchanged, or in answer to a lookup.\<close>

theorem deleted_records_have_a_cause:
  assumes "delete_original_assets_with_client c cfg active s = (result, s')" and "ids_ok (dn_manifest s)"
    and "bt_get (mf_records (dn_manifest s')) a = Some r" and "ar_state r = Deleted"
    and "bt_get (mf_records (dn_manifest s)) a \<noteq> Some r"
  shows "deletion_cause c r"
  using progress_deletions [OF stage_run [OF assms(1,2)]] assms(3-) by (simp add: scan_pair_def)

subsection \<open>Without the lease\<close>

lemma committed_batch_holds_lease:
  assumes "persist_records_atomic_trusted api dc store rs db = (Inr (), db')" and "db_ready db"
    and "ss_writer store = Some t"
  shows "rs = [] \<or> holds_lease t db"
proof (cases "rs = []")
  case False
  with assms(1) have "as_writer dc store (write_records api rs) db = (Inr (), db')"
    by (auto simp: persist_records_atomic_trusted_def persist_records_atomic_with_owned_lease_def split: sum.splits)
  then show ?thesis
  proof (cases rule: as_writer_effect)
    case (committed token db1 x)
    then have "token = t" using assms(3) by simp
    moreover obtain l where "load_writer_lease db = Inr l" "wl_owner_id l = wt_owner_id token" "wl_epoch l = wt_epoch token"
      using committed(3) by (auto simp: validate_writer_lease_def bind_ok_eq_Ok Let_def split: if_splits)
    ultimately show ?thesis
      using load_writer_lease_key assms(2) by (fastforce simp: holds_lease_def)
  qed simp
qed simp

lemma progress_without_lease:
  assumes "stage_progress c x y" and "db_ready (snd x)" and "lease_lost t (snd x)"
    and "\<And>k. ss_writer (mc_store c k) = Some t" and "wt_owner_id t \<noteq> []" and "int (unat (wt_epoch t)) < i64_max"
  shows "fst y = fst x \<and> db_ready (snd y) \<and> lease_lost t (snd y)"
  using assms(1-3)
proof (induction rule: stage_progress.induct)
  case (progress_others m db es)
  then show ?case
    using store_run_ready [of db "mc_api c" "mc_digest c" es] lease_lost_grows [OF _ _ assms(5,6)]
    by (auto simp: lease_step_def)
next
  case (progress_batch m db dc k rs db')
  then have lost: "db_ready db" "lease_lost t db" "m = fst x" by auto
  with progress_batch(2) have "rs = []"
    using committed_batch_holds_lease [OF progress_batch(2) lost(1) assms(4)] lost_is_not_held by blast
  moreover have "db' = snd (operate (mc_api c) (mc_digest c) dc (mc_store c k) (PersistAtomicTrusted rs) db)"
    using progress_batch(2) by simp
  then have "db' = store_run (mc_api c) (mc_digest c) [Operate dc (mc_store c k) (PersistAtomicTrusted rs)] db"
    by (simp add: store_run_def)
  ultimately show ?case
    using store_run_ready [OF lost(1)] lease_lost_grows [OF lost(2) _ assms(5,6)] lost(3)
    by (auto simp: lease_step_def)
qed simp

text \<open>C32: A stage whose lease is lost changes nothing in memory: no approval and no
  deletion is shown, whatever CloudKit answers, because nothing of it could be saved.\<close>

theorem stage_without_lease_shows_nothing:
  assumes "delete_original_assets_with_client c cfg active s = (result, s')" and "ids_ok (dn_manifest s)"
    and "db_ready (dn_db s)" and "lease_lost t (dn_db s)"
    and "\<And>k. ss_writer (mc_store c k) = Some t" and "wt_owner_id t \<noteq> []" and "int (unat (wt_epoch t)) < i64_max"
  shows "dn_manifest s' = dn_manifest s"
  using progress_without_lease [OF stage_run [OF assms(1,2)] _ _ assms(5-)] assms(3,4)
  by (simp add: scan_pair_def)

subsection \<open>Stale tokens\<close>

text \<open>The live check of the \<open>i\<close>-th item of a group that starts at the moment \<open>k\<close>.\<close>

definition live_at :: "'r monitor_calls \<Rightarrow> duration \<Rightarrow> nat \<Rightarrow> prepared_item \<Rightarrow> bool" where
  "live_at c max_age k item \<longleftrightarrow>
     is_ok (validate_live_raw_at (mc_capture c k) (pi_prevalidated item) max_age (mc_clock c k))"

lemma live_checks:
  "\<exists>s'. call_fold (check_live_raw c max_age) items failed s
      = (Ok (failed \<or> (\<exists>i<length items. \<not> live_at c max_age (dn_moment s + i) (items ! i))), s')
    \<and> dn_moment s' = dn_moment s + length items"
proof (induction items arbitrary: failed s)
  case Nil
  show ?case by simp
next
  case (Cons item items)
  obtain s1 where one: "check_live_raw c max_age item failed s = (Ok (failed \<or> \<not> live_at c max_age (dn_moment s) item), s1)"
      "dn_moment s1 = Suc (dn_moment s)"
    by (cases "validate_live_raw_at (mc_capture c (dn_moment s)) (pi_prevalidated item) max_age (mc_clock c (dn_moment s))")
      (auto simp: check_live_raw_def and_then_def at_moment_def record_monitor_failure_def live_at_def)
  have split: "(\<exists>i<length (item # items). \<not> live_at c max_age (dn_moment s + i) ((item # items) ! i))
      \<longleftrightarrow> \<not> live_at c max_age (dn_moment s) item
        \<or> (\<exists>i<length items. \<not> live_at c max_age (dn_moment s1 + i) (items ! i))"
    by (simp add: one(2) Ex_less_Suc2)
  show ?case
    using Cons.IH [of "failed \<or> \<not> live_at c max_age (dn_moment s) item" s1] one
    unfolding split call_fold.simps by (auto simp: and_then_def)
qed

text \<open>The world a group is submitted in, with another CloudKit.\<close>

definition with_cloudkit ::
  "(nat \<Rightarrow> json \<Rightarrow> upload_error + json) \<Rightarrow> (nat \<Rightarrow> json \<Rightarrow> upload_error + json) \<Rightarrow> 'r monitor_calls \<Rightarrow> 'r monitor_calls"
where
  "with_cloudkit modify lookup c = c\<lparr>mc_modify := modify, mc_lookup := lookup\<rparr>"

lemma with_cloudkit_checks:
  "check_live_raw (with_cloudkit modify lookup c) = check_live_raw c"
  "mc_clock (with_cloudkit modify lookup c) = mc_clock c"
  by (simp_all add: with_cloudkit_def check_live_raw_def fun_eq_iff)

lemma record_failures_Ok: "\<exists>s'. record_failures es s = (Ok (), s')"
  unfolding record_failures_def
  by (induction es arbitrary: s) (auto simp: and_then_def record_monitor_failure_def)

lemma preflight_was_called:
  assumes "delete_originals_batch_with_preflight post preflight session rs = Inr outs"
  shows "\<exists>payload. preflight payload = Inr ()"
  using assms by (auto simp: delete_originals_batch_with_preflight_def bind_ok_eq_Ok map_err_eq_Ok Let_def)

lemma refused_preflight:
  assumes "\<And>payload. \<exists>e. preflight payload = Inl e"
  shows "\<exists>e. delete_originals_batch_with_preflight post preflight session rs = Inl e \<and> \<not> transport_was_called e"
proof (cases "delete_originals_batch_with_preflight post preflight session rs")
  case (Inr outs)
  with preflight_was_called assms show ?thesis by (metis Inl_Inr_False)
next
  case (Inl e)
  have "\<not> transport_was_called e"
    using refused_batch_reaches_no_transport [OF Inl] assms by (metis Inl_Inr_False)
  with Inl show ?thesis by blast
qed

text \<open>C33: A group is sent to CloudKit only if every one of its RAW files was found live and every
  one of its tokens was fresh at the moment of the request: otherwise nothing is confirmed, and the
  result is the same whatever CloudKit would have answered.\<close>

theorem stale_group_is_not_sent:
  assumes "i < length items"
    and "\<not> live_at c max_age (dn_moment s + i) (items ! i)
      \<or> \<not> is_ok (validate_freshness_at (pi_prevalidated (items ! i)) max_age (mc_clock c (dn_moment s + length items)))"
  shows "fst (submit_prepared_delete_group_with_clock c max_age items s) = Ok []
    \<and> submit_prepared_delete_group_with_clock (with_cloudkit modify lookup c) max_age items s
      = submit_prepared_delete_group_with_clock c max_age items s"
proof -
  let ?rs = "map (pd_request \<circ> pi_prevalidated) items"
  let ?session = "destination_session (request_destination (hd ?rs))"
  have nonempty: "items \<noteq> []" using assms(1) by auto
  obtain s' where checks: "call_fold (check_live_raw c max_age) items False s
      = (Ok (\<exists>i<length items. \<not> live_at c max_age (dn_moment s + i) (items ! i)), s')"
    and moment: "dn_moment s' = dn_moment s + length items"
    using live_checks [of c max_age items False s] by auto
  show ?thesis
  proof (cases "\<exists>i<length items. \<not> live_at c max_age (dn_moment s + i) (items ! i)")
    case True
    with checks nonempty show ?thesis
      by (simp add: submit_prepared_delete_group_with_clock_def and_then_def with_cloudkit_checks Let_def)
  next
    case False
    let ?time = "mc_clock c (dn_moment s')"
    have "\<not> is_ok (validate_freshness_at (pi_prevalidated (items ! i)) max_age ?time)"
      using False assms moment by auto
    then have preflight: "\<exists>e. delete_preflight max_age ?time items payload = Inl e" for payload
      using assms(1)
      by (auto simp: delete_preflight_def Let_def List.map_filter_def filter_empty_conv is_ok_def
          intro!: bexI [of _ "items ! i"] split: sum.splits)
    have refused: "\<exists>e. delete_originals_batch_with_preflight post (delete_preflight max_age ?time items) ?session ?rs = Inl e
        \<and> \<not> transport_was_called e" for post
      by (rule refused_preflight) (rule preflight)
    then obtain e where "delete_originals_batch_with_preflight undefined (delete_preflight max_age ?time items) ?session ?rs = Inl e"
      and local: "\<not> transport_was_called e" by blast
    then have e: "delete_originals_batch_with_preflight post (delete_preflight max_age ?time items) ?session ?rs = Inl e" for post
      using refused_batch_reaches_no_transport [of undefined _ _ _ e post] by simp
    have same: "submit_prepared_delete_group_with_clock c' max_age items s
        = (case e of
             InvalidRequest err \<Rightarrow> and_then (record_monitor_failure (FailedWith (MonUpload err))) (\<lambda>_. now (Ok []))
           | Preflight failures \<Rightarrow> and_then (record_failures (map MonWorkflow failures)) (\<lambda>_. now (Ok []))
           | Remote err \<Rightarrow> now (Ok [])) (s'\<lparr>dn_moment := Suc (dn_moment s')\<rparr>)"
      if "check_live_raw c' = check_live_raw c" "mc_clock c' = mc_clock c" for c'
      using checks nonempty False e local that
      by (auto simp: submit_prepared_delete_group_with_clock_def and_then_def at_moment_def Let_def
          transport_was_called_def split: delete_batch_send_error.splits)
    have "fst (submit_prepared_delete_group_with_clock c max_age items s) = Ok []"
      unfolding same [OF refl refl]
      using record_failures_Ok [of _ "s'\<lparr>dn_moment := Suc (dn_moment s')\<rparr>"]
      by (cases e) (auto simp: and_then_def record_monitor_failure_def split: prod.splits sum.splits, (metis Inl_Inr_False Pair_inject)+)
    then show ?thesis
      using same [OF refl refl] same [OF with_cloudkit_checks] by simp
  qed
qed

end
