(* ===== verification/Monitor_Sample.thy ===== *)
theory Monitor_Sample
  imports Monitor_Guarantees State_Sample Delete_Sample
begin

section \<open>A stage that records one deletion\<close>

text \<open>
  The approved asset of \<open>Delete_Sample\<close>, whose deletion an earlier scan had asked for: the stage looks it up
  in CloudKit, learns that the original is gone, saves the deleted record under the lease of \<open>one\<close> and
  shows it.
\<close>

definition sample_monitor :: "unit monitor_calls" where
  "sample_monitor =
     \<lparr>mc_world = (\<lambda>_. sample_workflow_world), mc_capture = (\<lambda>_. \<lparr>co_path = None, co_metadata = None\<rparr>),
      mc_clock = (\<lambda>_. 0), mc_modify = (\<lambda>_ _. Err (UploadTransportFailed ''network'')),
      mc_lookup = (\<lambda>_ _. Ok (sample_records [sample_answer 1 ''t2'' ''A''])),
      mc_worker_panics = (\<lambda>_. False), mc_store = (\<lambda>_. sample_store ''one'' 1),
      mc_db = (\<lambda>_. sample_seconds 10), mc_others = (\<lambda>_. []), mc_api = sample_api,
      mc_digest = (\<lambda>_. []), mc_save = sample_save_calls, mc_checkpoint = Inr None\<rparr>"

definition sample_config :: monitor_config where
  "sample_config = \<lparr>mg_jobs = 1, mg_max_lifecycle_per_scan = 1, mg_delete_operator = ''op''\<rparr>"

definition sample_scan :: "state_db \<Rightarrow> unit delete_scan" where
  "sample_scan db =
     \<lparr>dn_moment = 0, dn_manifest = sample_approved, dn_db = db, dn_files = Map.empty, dn_failures = 0,
      dn_last_error = None, dn_originals_deleted = 0, dn_deleted_raw_bytes = 0, dn_bytes_saved = 0\<rparr>"

lemma sample_monitor_simps [simp]:
  "mc_world sample_monitor k = sample_workflow_world"
  "mc_lookup sample_monitor k v = Ok (sample_records [sample_answer 1 ''t2'' ''A''])"
  "mc_store sample_monitor k = sample_store ''one'' 1" "mc_db sample_monitor k = sample_seconds 10"
  "mc_others sample_monitor k = []" "mc_api sample_monitor = sample_api"
  by (simp_all add: sample_monitor_def)

lemma sample_scan_simps [simp]:
  "dn_manifest (sample_scan db) = sample_approved" "dn_db (sample_scan db) = db"
  by (simp_all add: sample_scan_def)

subsection \<open>The window\<close>

lemma sample_approved_id: "ar_asset_id sample_approved_record = ''a''"
  by (simp add: sample_approved_record_def approved_record_def sample_eligible_record_def eligible_record_def
      sample_uploaded_record_def new_asset_record_def)

lemma sample_approved_records: "mf_records sample_approved = [(''a'', sample_approved_record)]"
  by (simp add: sample_approved_def sample_eligible_def sample_uploaded_def new_manifest_def put_record_def)

lemma sample_ids_ok: "ids_ok sample_approved"
  by (simp add: ids_ok_def sample_approved_records sample_approved_id bt_get_def)

lemma sample_window:
  "delete_lifecycle_asset_ids w sample_approved sample_config [''a''] = [''a'']"
  "chunks (delete_submission_window_size sample_config (length [''a''])) [''a''] = [[''a'']]"
  by (simp_all add: delete_lifecycle_asset_ids_def asset_ids_matching_def sample_approved_records bt_values_def
      sample_config_def active_lifecycle_allows_def is_upload_verified_delete_candidate_def sample_approved_id
      delete_submission_window_size_def chunks.simps)

lemma sample_sizes:
  "raw_size_bytes sample_approved ''a'' = Inr (nr_size_bytes sample_nas_proof)"
  "heic_size_bytes sample_approved ''a'' = Inr (hp_size_bytes sample_heic)"
proof -
  have "get_proof sample_approved_record NAS_PROOF = Some (ser_nas_raw_proof sample_nas_proof)"
    "get_proof sample_approved_record HEIC_PROOF = Some (ser_heic_verification_proof sample_heic)"
    by (simp_all add: sample_approved_record_def approved_record_def sample_eligible_record_def
        eligible_record_def sample_get_proof sample_proofs_def)
  then show "raw_size_bytes sample_approved ''a'' = Inr (nr_size_bytes sample_nas_proof)"
    "heic_size_bytes sample_approved ''a'' = Inr (hp_size_bytes sample_heic)"
    by (simp_all add: raw_size_bytes_def heic_size_bytes_def monitor_get_def decode_monitor_proof_def
        nas_codec.de_enc heic_codec.de_enc manifest_get_def)
qed

lemma sample_delete_request: "delete_request_of sample_original_proof = sample_request ''A''"
  by (simp add: delete_request_of_def sample_request_def sample_defs)

lemma sample_looked_up:
  "lookup_delete_states (\<lambda>_. Ok (sample_records [sample_answer 1 ''t2'' ''A'']))
     (destination_session (request_destination (sample_request ''A''))) [sample_request ''A'']
   = Inr \<lparr>sl_confirmed_deleted = [sample_delete_outcome], sl_unconfirmed = []\<rparr>"
proof -
  have "validate_cloudkit_delete_batch_request [sample_request ''A''] = Inr ()"
    by (simp add: valid_batch_iff sample_valid)
  moreover have "cloudkit_delete_batch_destination [sample_request ''A''] = Inr primary_sync"
    by (simp add: cloudkit_delete_batch_destination_def sample_destination_request)
  moreover have "destination_session primary_sync = sample_session"
    by (simp add: destination_session_def sample_session_def primary_sync_def)
  ultimately show ?thesis
    by (simp add: lookup_delete_states_def sample_destination_request sample_session_valid
        parse_cloudkit_delete_state_lookup_response_def response_records_def get_str_def bt_get_def
        bt_contains_def sample_lookup_states map_filter_simps sample_outcome_def sample_delete_outcome_def)
qed

subsection \<open>The run\<close>

text \<open>The token of the reconciliation, the changed manifest and the record it saves.\<close>

lemma sample_deletion:
  "\<exists>t v. prepare_delete_reconciliation sample_workflow_world sample_approved ''a'' = Inr t
     \<and> rc_asset_id t = ''a'' \<and> rc_request t = sample_request ''A''
     \<and> record_reconciled_delete_execution sample_workflow_world t sample_delete_outcome sample_approved
       = Inr (put_record ''a'' (with_proof ''1'' Deleted DELETE_EXECUTION_PROOF v sample_approved_record)
           sample_approved)"
proof -
  from sample_reconciled obtain t and m' :: "unit manifest" where
    t: "prepare_delete_reconciliation sample_workflow_world sample_approved ''a'' = Inr t"
    "record_reconciled_delete_execution sample_workflow_world t sample_delete_outcome sample_approved = Inr m'"
    by blast
  have request: "rc_asset_id t = ''a''" "rc_request t = sample_request ''A''"
    using t(1) sample_plan_Ok
    by (auto simp: prepare_delete_reconciliation_def bind_ok_eq_Ok sample_approved_id sample_facts_def
        sample_delete_request)
  with t show ?thesis
    by (auto simp: record_reconciled_delete_execution_def bind_ok_eq_Ok change_eq_Ok sample_workflow_world_def)
qed

lemma sample_saves:
  assumes "ar_asset_id r = ''a''" and "unreserved r"
  shows "is_ok (fst (persist_records_atomic_trusted sample_api (sample_seconds 10) (sample_store ''one'' 1) [r] sample_db))"
proof -
  have "store_reject_all_reserved [r] = Inr ()"
    using assms(2)
    by (simp add: store_reject_all_reserved_def store_reject_reserved_def record_has_reserved_internal_proof_def)
  moreover have "validate_against_rows sample_api db r = Inr ()" if "sd_assets db = sd_assets sample_db" for db
    using that assms(1)
    by (simp add: validate_against_rows_def reject_reserved_internal_proof_json_def validate_requested_record_def
        sample_db_def bt_get_def)
  ultimately show ?thesis
    using sample_as_writer [of "write_records sample_api [r]"] sample_lease(1)
    by (simp add: persist_records_atomic_trusted_def persist_records_atomic_with_owned_lease_def
        write_records_def claim_asset_id_def try_fold.simps(2))
qed

lemma sample_reconciles:
  assumes "dn_manifest s = sample_approved" and "dn_db s = sample_db"
  shows "\<exists>totals s' r. reconcile_delete_window sample_monitor [''a''] s = (Inr ([], totals), s')
    \<and> bt_get (mf_records (dn_manifest s')) ''a'' = Some r \<and> ar_state r = Deleted"
proof -
  from sample_deletion obtain t v where
    t: "prepare_delete_reconciliation sample_workflow_world sample_approved ''a'' = Inr t"
    "rc_asset_id t = ''a''" "rc_request t = sample_request ''A''"
    and m': "record_reconciled_delete_execution sample_workflow_world t sample_delete_outcome sample_approved
       = Inr (put_record ''a'' (with_proof ''1'' Deleted DELETE_EXECUTION_PROOF v sample_approved_record)
           sample_approved)" by blast
  let ?r = "with_proof ''1'' Deleted DELETE_EXECUTION_PROOF v sample_approved_record"
  let ?item = "\<lparr>ri_raw_bytes = nr_size_bytes sample_nas_proof, ri_heic_bytes = hp_size_bytes sample_heic,
    ri_reconciliation = t\<rparr>"
  let ?s1 = "s\<lparr>dn_moment := Suc (dn_moment s)\<rparr>"
  let ?s2 = "s\<lparr>dn_moment := Suc (Suc (dn_moment s))\<rparr>"
  let ?s3 = "s\<lparr>dn_moment := Suc (Suc (Suc (dn_moment s)))\<rparr>"
  have get: "monitor_get sample_approved ''a'' = Inr sample_approved_record"
    "monitor_get (put_record ''a'' ?r sample_approved) ''a'' = Inr ?r"
    by (simp_all add: monitor_get_def manifest_get_def)
  have push: "push_entry k item [] = [(k, [item])]" for k :: "string list" and item :: reconciliation_item
    by (simp add: push_entry_def bt_get_def)
  have classify: "classify_delete sample_monitor ''a'' ([], []) s
      = (Inr ([], [(destination_key (request_destination (sample_request ''A'')), [?item])]), ?s1)"
    by (simp add: classify_delete_def and_then_def the_manifest_def assms at_moment_def get t sample_sizes push)
  have group: "reconcile_group sample_monitor [?item] ([], []) ?s1 = (Inr ([], [(?item, sample_delete_outcome)]), ?s2)"
    using sample_looked_up
    by (simp add: reconcile_group_def and_then_def at_moment_def t Let_def settle_lookup_def settle_item_def
        index_outcomes_def try_fold.simps(2) bt_get_def bt_remove_def sample_delete_outcome_def sample_request_def
        sample_monitor_def)
  have "upsert_or_panic sample_approved_record new_manifest = Inr sample_approved"
    using sample_step_simps(6)
    by (simp add: upsert_or_panic_def upsert_trusted_def insert_record_def
        reject_reserved_internal_proof_upsert_def record_has_reserved_internal_proof_def sample_approved_id
        sample_approved_def put_record_def sample_eligible_def sample_uploaded_def new_manifest_def bt_get_def)
  then have staged: "stage_record sample_approved ''a'' new_manifest = Inr sample_approved"
    by (simp add: stage_record_def get)
  have recorded: "record_reconciled sample_monitor (?item, sample_delete_outcome) (sample_approved, [], no_totals) ?s2
      = (Inr (put_record ''a'' ?r sample_approved, [?r],
           count_deleted (nr_size_bytes sample_nas_proof) (hp_size_bytes sample_heic) no_totals), ?s3)"
    by (simp add: record_reconciled_def and_then_def at_moment_def m' t get)
  have unreserved: "unreserved ?r" using sample_step_simps(6) by (subst unreserved_with_proof) simp_all
  then obtain db' where "persist_records_atomic_trusted sample_api (sample_seconds 10) (sample_store ''one'' 1) [?r] sample_db
      = (Inr (), db')"
    using sample_saves [of ?r] sample_approved_id
    by (cases "persist_records_atomic_trusted sample_api (sample_seconds 10) (sample_store ''one'' 1) [?r] sample_db")
      (auto simp: is_ok_def split: sum.splits)
  then have persist: "persist_batch sample_monitor [?r] ?s3
      = (Inr (), ?s3\<lparr>dn_db := db', dn_moment := Suc (Suc (Suc (Suc (dn_moment s))))\<rparr>)"
    by (simp add: persist_batch_def store_call_def assms store_run_def)
  have publish: "publish_records [?r] s4 = (Inr (), s4\<lparr>dn_manifest := insert_record ?r sample_approved\<rparr>)"
    if "dn_manifest s4 = sample_approved" for s4
    using that sample_approved_id sample_step_simps(6)
    by (simp add: unreserved publish_records_def upsert_or_panic_def upsert_trusted_def try_fold.simps
        reject_reserved_internal_proof_upsert_def record_has_reserved_internal_proof_def)
  show ?thesis
    using sample_approved_id
    by (simp add: reconcile_delete_window_def and_then_def classify group bt_values_def
        stage_and_commit_reconciled_deletes_def the_manifest_def assms t staged recorded persist publish
        try_fold.simps(2))
qed

lemma sample_stage_run:
  "\<exists>result s' r. delete_original_assets_with_client sample_monitor sample_config [''a''] (sample_scan sample_db) = (result, s')
     \<and> bt_get (mf_records (dn_manifest s')) ''a'' = Some r \<and> ar_state r = Deleted"
proof -
  let ?s = "sample_scan sample_db\<lparr>dn_moment := Suc 0\<rparr>"
  obtain totals s1 r where reconciled: "reconcile_delete_window sample_monitor [''a''] ?s = (Inr ([], totals), s1)"
    and r: "bt_get (mf_records (dn_manifest s1)) ''a'' = Some r" "ar_state r = Deleted"
    using sample_reconciles [of ?s] by auto
  have unprepared: "process_delete_preparation_window sample_monitor sample_config [] s1 = (Inr [], s1)"
    by (simp add: process_delete_preparation_window_def and_then_def the_manifest_def prepare_delete_items_def
        delete_prepare_worker_count_def no_preparation_def record_failures_def)
  have window: "delete_window sample_monitor sample_config [''a''] no_totals ?s = (Inr (add_totals no_totals totals), s1)"
    by (simp add: delete_window_def and_then_def reconciled unprepared group_by_destination_def bt_values_def)
  have same: "dn_manifest (snd (export_state sample_monitor s1)) = dn_manifest s1"
    by (simp add: export_state_def Let_def split: prod.splits)
  have "dn_manifest (snd (delete_original_assets_with_client sample_monitor sample_config [''a''] (sample_scan sample_db)))
      = dn_manifest s1"
    using same window sample_window
    by (auto simp: delete_original_assets_with_client_def and_then_def the_manifest_def at_moment_def
        add_to_summary_def sample_scan_def split: prod.splits sum.splits)
  with r show ?thesis by (metis prod.collapse)
qed

lemma sample_new_deletion:
  "ar_state r = Deleted \<Longrightarrow> bt_get (mf_records sample_approved) ''a'' \<noteq> Some r"
  by auto

theorem deleted_records_have_a_cause_witness:
  "\<exists>s' r. snd (delete_original_assets_with_client sample_monitor sample_config [''a''] (sample_scan sample_db)) = s'
     \<and> bt_get (mf_records (dn_manifest s')) ''a'' = Some r \<and> ar_state r = Deleted \<and> deletion_cause sample_monitor r"
proof -
  obtain result s' r where run: "delete_original_assets_with_client sample_monitor sample_config [''a'']
      (sample_scan sample_db) = (result, s')"
    and r: "bt_get (mf_records (dn_manifest s')) ''a'' = Some r" "ar_state r = Deleted"
    using sample_stage_run by blast
  with deleted_records_have_a_cause [OF run _ r] sample_new_deletion sample_ids_ok show ?thesis by auto
qed

theorem stage_saves_before_it_shows_witness:
  "\<exists>s'. snd (delete_original_assets_with_client sample_monitor sample_config [''a''] (sample_scan sample_db)) = s'
     \<and> dn_manifest s' \<noteq> sample_approved
     \<and> stage_progress sample_monitor (sample_approved, sample_db) (dn_manifest s', dn_db s')"
proof -
  obtain result s' r where run: "delete_original_assets_with_client sample_monitor sample_config [''a'']
      (sample_scan sample_db) = (result, s')"
    and r: "bt_get (mf_records (dn_manifest s')) ''a'' = Some r" "ar_state r = Deleted"
    using sample_stage_run by blast
  have "dn_manifest s' \<noteq> sample_approved" using r sample_new_deletion by auto
  with stage_saves_before_it_shows [OF run] sample_ids_ok run show ?thesis by auto
qed

text \<open>After \<open>two\<close> took the lease over, the stage of \<open>one\<close> shows nothing.\<close>

theorem stage_without_lease_shows_nothing_witness:
  "dn_manifest (snd (delete_original_assets_with_client sample_monitor sample_config [''a'']
     (sample_scan (store_run sample_api (\<lambda>_. []) [sample_take_over 120] sample_db)))) = sample_approved"
proof -
  let ?db = "store_run sample_api (\<lambda>_. []) [sample_take_over 120] sample_db"
  have "db_ready ?db" using store_run_ready [OF sample_ready(1)] by (auto simp: lease_step_def)
  moreover have "lease_lost (sample_token ''one'' 1) ?db"
    using sample_taken(1) by (simp add: lease_lost_def sample_token_def)
  ultimately show ?thesis
    using stage_without_lease_shows_nothing [OF prod.collapse [symmetric], where t = "sample_token ''one'' 1"
        and c = sample_monitor and cfg = sample_config and active = "[''a'']" and s = "sample_scan ?db"] sample_ids_ok
    by (simp add: sample_store_def sample_token_def i64_max_def)
qed

text \<open>The token of \<open>Delete_Sample\<close>, at a moment before it was made.\<close>

theorem stale_group_is_not_sent_witness:
  "\<exists>t. prevalidate_approved_original_delete sample_workflow_world sample_approved ''a'' = Ok t
     \<and> fst (submit_prepared_delete_group_with_clock sample_monitor DELETE_LIVE_RAW_MAX_AGE
         [\<lparr>pi_raw_bytes = 9, pi_heic_bytes = 5, pi_prevalidated = t\<rparr>] (sample_scan sample_db)) = Ok []"
proof -
  from sample_token obtain t where t: "prevalidate_approved_original_delete sample_workflow_world sample_approved ''a'' = Ok t"
    by blast
  let ?item = "\<lparr>pi_raw_bytes = 9, pi_heic_bytes = 5, pi_prevalidated = t\<rparr>"
  have "\<not> live_at sample_monitor DELETE_LIVE_RAW_MAX_AGE k ?item" for k
    by (simp add: live_at_def sample_monitor_def validate_live_raw_at_def capture_def is_ok_def bind_ok_eq_Ok
        map_err_eq_Ok split: sum.splits)
  then show ?thesis
    using stale_group_is_not_sent [of 0 "[?item]" sample_monitor DELETE_LIVE_RAW_MAX_AGE "sample_scan sample_db"] t by auto
qed

end
