(* ===== verification/Migration_Types.thy ===== *)
theory Migration_Types
  imports State_Store Workflow
begin

section \<open>The data of the legacy upload migration\<close>

text \<open>
  The data of \<open>src/src/legacy_upload_migration.rs\<close>: the phases of the migration of one legacy upload, the
  journal that a record carries as its reserved proof (one entry per phase, chained by digests), the
  plan of the files that are put into quarantine, and the sealed registry of the cohort of two assets;
  their JSON codecs and the texts that are hashed. Equality is the derived one, so two spellings of
  a path with the same components are equal (\<open>identity_eq\<close>, \<open>plan_eq\<close>).
\<close>

subsection \<open>Phases\<close>

datatype migration_phase =
    PhPrepared
  | PhDeleteConfirmed
  | PhQuarantined
  | PhReset
  | PhConverted
  | PhUploadPrepared
  | PhUploadVerified
  | PhMirrored
  | PhComplete

definition ORDER :: "migration_phase list" where
  "ORDER = [PhPrepared, PhDeleteConfirmed, PhQuarantined, PhReset, PhConverted, PhUploadPrepared,
     PhUploadVerified, PhMirrored, PhComplete]"

fun phase_as_str :: "migration_phase \<Rightarrow> string" where
  "phase_as_str PhPrepared = ''prepared''"
| "phase_as_str PhDeleteConfirmed = ''delete_confirmed''"
| "phase_as_str PhQuarantined = ''quarantined''"
| "phase_as_str PhReset = ''reset''"
| "phase_as_str PhConverted = ''converted''"
| "phase_as_str PhUploadPrepared = ''upload_prepared''"
| "phase_as_str PhUploadVerified = ''upload_verified''"
| "phase_as_str PhMirrored = ''mirrored''"
| "phase_as_str PhComplete = ''complete''"

fun required_state :: "migration_phase \<Rightarrow> state" where
  "required_state PhPrepared = UploadVerified"
| "required_state PhDeleteConfirmed = UploadVerified"
| "required_state PhQuarantined = UploadVerified"
| "required_state PhReset = NasVerified"
| "required_state PhConverted = ConversionVerified"
| "required_state PhUploadPrepared = ConversionVerified"
| "required_state PhUploadVerified = UploadVerified"
| "required_state PhMirrored = UploadVerified"
| "required_state PhComplete = UploadVerified"

datatype migration_witness_kind =
    WkPreparation
  | WkDeleteConfirmation
  | WkQuarantine
  | WkResetSnapshot
  | WkVerifiedConversion
  | WkUploadIntent
  | WkVerifiedUpload
  | WkVerifiedMirror
  | WkCompletion

fun witness_kind :: "migration_phase \<Rightarrow> migration_witness_kind" where
  "witness_kind PhPrepared = WkPreparation"
| "witness_kind PhDeleteConfirmed = WkDeleteConfirmation"
| "witness_kind PhQuarantined = WkQuarantine"
| "witness_kind PhReset = WkResetSnapshot"
| "witness_kind PhConverted = WkVerifiedConversion"
| "witness_kind PhUploadPrepared = WkUploadIntent"
| "witness_kind PhUploadVerified = WkVerifiedUpload"
| "witness_kind PhMirrored = WkVerifiedMirror"
| "witness_kind PhComplete = WkCompletion"

text \<open>The position of a phase in \<open>ORDER\<close>.\<close>

fun phase_index :: "migration_phase \<Rightarrow> nat" where
  "phase_index PhPrepared = 0"
| "phase_index PhDeleteConfirmed = 1"
| "phase_index PhQuarantined = 2"
| "phase_index PhReset = 3"
| "phase_index PhConverted = 4"
| "phase_index PhUploadPrepared = 5"
| "phase_index PhUploadVerified = 6"
| "phase_index PhMirrored = 7"
| "phase_index PhComplete = 8"

lemma length_ORDER [simp]: "length ORDER = 9"
  by (simp add: ORDER_def)

lemma ORDER_phase_index [simp]: "ORDER ! phase_index p = p"
  by (cases p) (simp_all add: ORDER_def)

lemma phase_index_less [simp]: "phase_index p < 9"
  by (cases p) simp_all

lemma phase_index_ORDER [simp]: "i < 9 \<Longrightarrow> phase_index (ORDER ! i) = i"
  by (auto simp: ORDER_def less_Suc_eq numeral_eq_Suc)

lemma phase_index_inject [simp]: "phase_index p = phase_index q \<longleftrightarrow> p = q"
  by (metis ORDER_phase_index)

definition next_phase :: "migration_phase \<Rightarrow> migration_phase option" where
  "next_phase p = (if phase_index p + 1 < length ORDER then Some (ORDER ! (phase_index p + 1)) else None)"

lemma next_phase_eq_Some: "next_phase p = Some q \<longleftrightarrow> phase_index q = Suc (phase_index p)"
  by (cases p; cases q) (simp_all add: next_phase_def ORDER_def)

fun witness_kind_as_str :: "migration_witness_kind \<Rightarrow> string" where
  "witness_kind_as_str WkPreparation = ''preparation''"
| "witness_kind_as_str WkDeleteConfirmation = ''delete_confirmation''"
| "witness_kind_as_str WkQuarantine = ''quarantine''"
| "witness_kind_as_str WkResetSnapshot = ''reset_snapshot''"
| "witness_kind_as_str WkVerifiedConversion = ''verified_conversion''"
| "witness_kind_as_str WkUploadIntent = ''upload_intent''"
| "witness_kind_as_str WkVerifiedUpload = ''verified_upload''"
| "witness_kind_as_str WkVerifiedMirror = ''verified_mirror''"
| "witness_kind_as_str WkCompletion = ''completion''"

datatype quarantine_kind = QkFinal | QkReference | QkOldMirror

fun quarantine_kind_as_str :: "quarantine_kind \<Rightarrow> string" where
  "quarantine_kind_as_str QkFinal = ''final''"
| "quarantine_kind_as_str QkReference = ''reference''"
| "quarantine_kind_as_str QkOldMirror = ''old_mirror''"

subsection \<open>The quarantine plan\<close>

text \<open>The \<open>i64\<close> fields are words, read with their sign.\<close>

record quarantine_file_identity =
  qf_device :: u64
  qf_inode :: u64
  qf_owner :: u32
  qf_mode :: u32
  qf_link_count :: u64
  qf_size_bytes :: u64
  qf_modified_unix_seconds :: "64 word"
  qf_modified_unix_nanoseconds :: "64 word"
  qf_sha256 :: string

record quarantine_root =
  qr_canonical_path :: path
  qr_device :: u64
  qr_inode :: u64
  qr_owner :: u32
  qr_mode :: u32

record quarantine_member =
  qm_asset_id :: string
  qm_kind :: quarantine_kind
  qm_source_path :: path
  qm_destination_path :: path
  qm_source :: quarantine_file_identity
  qm_root_device :: u64

record migration_raw_input =
  mr_asset_id :: string
  mr_path :: path
  mr_source :: quarantine_file_identity

record quarantine_plan =
  qp_schema_version :: u64
  qp_roots :: "quarantine_root list"
  qp_members :: "quarantine_member list"
  qp_raw_inputs :: "migration_raw_input list"
  qp_plan_sha256 :: string

subsection \<open>The journal and the registry\<close>

record migration_identity =
  mi_migration_id :: string
  mi_evidence_sha256 :: string
  mi_cohort_sha256 :: string
  mi_asset_id :: string
  mi_source_record_sha256 :: string
  mi_old_uploaded_asset_id :: string
  mi_old_uploaded_master_id :: string
  mi_destination_sha256 :: string
  mi_original_asset_identity_sha256 :: string
  mi_old_conversion_lineage_sha256 :: string
  mi_old_upload_lineage_sha256 :: string
  mi_old_mirror_lineage_sha256 :: string
  mi_quarantine_plan :: quarantine_plan

record phase_entry =
  pe_ordinal :: u64
  pe_phase :: migration_phase
  pe_witness_kind :: migration_witness_kind
  pe_witness_sha256 :: string
  pe_record_body_sha256 :: string
  pe_previous_entry_sha256 :: string
  pe_entry_sha256 :: string

record migration_journal =
  mj_schema_version :: u64
  mj_identity :: migration_identity
  mj_entries :: "phase_entry list"

record migration_registry_asset =
  ma_asset_id :: string
  ma_identity_sha256 :: string
  ma_source_record_sha256 :: string
  ma_original_asset_identity_sha256 :: string
  ma_old_conversion_lineage_sha256 :: string
  ma_old_upload_lineage_sha256 :: string
  ma_old_mirror_lineage_sha256 :: string

record migration_registry =
  ms_schema_version :: u64
  ms_migration_id :: string
  ms_evidence_sha256 :: string
  ms_cohort_sha256 :: string
  ms_quarantine_plan :: quarantine_plan
  ms_assets :: "migration_registry_asset \<times> migration_registry_asset"
  ms_registry_sha256 :: string

type_synonym migration_manifest = "migration_registry manifest"

subsection \<open>Equality\<close>

definition root_eq :: "quarantine_root \<Rightarrow> quarantine_root \<Rightarrow> bool" where
  "root_eq a b \<longleftrightarrow>
     path_eq (qr_canonical_path a) (qr_canonical_path b) \<and> a\<lparr>qr_canonical_path := qr_canonical_path b\<rparr> = b"

definition member_eq :: "quarantine_member \<Rightarrow> quarantine_member \<Rightarrow> bool" where
  "member_eq a b \<longleftrightarrow>
     path_eq (qm_source_path a) (qm_source_path b) \<and> path_eq (qm_destination_path a) (qm_destination_path b)
     \<and> a\<lparr>qm_source_path := qm_source_path b, qm_destination_path := qm_destination_path b\<rparr> = b"

definition raw_input_eq :: "migration_raw_input \<Rightarrow> migration_raw_input \<Rightarrow> bool" where
  "raw_input_eq a b \<longleftrightarrow> path_eq (mr_path a) (mr_path b) \<and> a\<lparr>mr_path := mr_path b\<rparr> = b"

definition plan_eq :: "quarantine_plan \<Rightarrow> quarantine_plan \<Rightarrow> bool" where
  "plan_eq a b \<longleftrightarrow>
     qp_schema_version a = qp_schema_version b \<and> list_all2 root_eq (qp_roots a) (qp_roots b)
     \<and> list_all2 member_eq (qp_members a) (qp_members b)
     \<and> list_all2 raw_input_eq (qp_raw_inputs a) (qp_raw_inputs b) \<and> qp_plan_sha256 a = qp_plan_sha256 b"

definition identity_eq :: "migration_identity \<Rightarrow> migration_identity \<Rightarrow> bool" where
  "identity_eq a b \<longleftrightarrow>
     plan_eq (mi_quarantine_plan a) (mi_quarantine_plan b)
     \<and> a\<lparr>mi_quarantine_plan := mi_quarantine_plan b\<rparr> = b"

definition registry_eq :: "migration_registry \<Rightarrow> migration_registry \<Rightarrow> bool" where
  "registry_eq a b \<longleftrightarrow>
     plan_eq (ms_quarantine_plan a) (ms_quarantine_plan b)
     \<and> a\<lparr>ms_quarantine_plan := ms_quarantine_plan b\<rparr> = b"

definition migration_record_eq :: "asset_record \<Rightarrow> asset_record \<Rightarrow> bool" where
  "migration_record_eq a b \<longleftrightarrow> path_eq (ar_raw_path a) (ar_raw_path b) \<and> a\<lparr>ar_raw_path := ar_raw_path b\<rparr> = b"

lemma plan_eq_refl [simp]: "plan_eq p p"
  by (simp add: plan_eq_def root_eq_def member_eq_def raw_input_eq_def list.rel_refl)

lemma identity_eq_refl [simp]: "identity_eq i i"
  by (simp add: identity_eq_def)

lemma registry_eq_refl [simp]: "registry_eq r r"
  by (simp add: registry_eq_def)

lemma migration_record_eq_refl [simp]: "migration_record_eq r r"
  by (simp add: migration_record_eq_def)

lemma root_eq_sym: "root_eq a b \<Longrightarrow> root_eq b a"
  by (cases a; cases b) (auto simp: root_eq_def path_eq_def)

lemma member_eq_sym: "member_eq a b \<Longrightarrow> member_eq b a"
  by (cases a; cases b) (auto simp: member_eq_def path_eq_def)

lemma raw_input_eq_sym: "raw_input_eq a b \<Longrightarrow> raw_input_eq b a"
  by (cases a; cases b) (auto simp: raw_input_eq_def path_eq_def)

lemma list_all2_swap: "list_all2 P xs ys \<Longrightarrow> (\<And>x y. P x y \<Longrightarrow> P y x) \<Longrightarrow> list_all2 P ys xs"
  by (simp add: list_all2_conv_all_nth)

lemma plan_eq_sym: "plan_eq a b \<Longrightarrow> plan_eq b a"
  by (auto simp: plan_eq_def intro: list_all2_swap root_eq_sym member_eq_sym raw_input_eq_sym)

lemma identity_eq_sym: "identity_eq a b \<Longrightarrow> identity_eq b a"
  by (cases a; cases b) (auto simp: identity_eq_def plan_eq_sym)

lemma root_eq_trans: "root_eq a b \<Longrightarrow> root_eq b c \<Longrightarrow> root_eq a c"
  by (cases a; cases b; cases c) (auto simp: root_eq_def path_eq_def)

lemma member_eq_trans: "member_eq a b \<Longrightarrow> member_eq b c \<Longrightarrow> member_eq a c"
  by (cases a; cases b; cases c) (auto simp: member_eq_def path_eq_def)

lemma raw_input_eq_trans: "raw_input_eq a b \<Longrightarrow> raw_input_eq b c \<Longrightarrow> raw_input_eq a c"
  by (cases a; cases b; cases c) (auto simp: raw_input_eq_def path_eq_def)

lemma plan_eq_trans: "plan_eq a b \<Longrightarrow> plan_eq b c \<Longrightarrow> plan_eq a c"
  by (auto simp: plan_eq_def intro: list_all2_trans root_eq_trans member_eq_trans raw_input_eq_trans)

lemma identity_eq_trans: "identity_eq a b \<Longrightarrow> identity_eq b c \<Longrightarrow> identity_eq a c"
  by (cases a; cases b; cases c) (auto simp: identity_eq_def intro: plan_eq_trans)

end
