(* ===== verification/Migration_Codec.thy ===== *)
theory Migration_Codec
  imports Migration_Types
begin

section \<open>The JSON of the legacy upload migration\<close>

text \<open>
  The derived codecs of the journal and of the registry, all with \<open>deny_unknown_fields\<close>. A struct has one
  list of fields; \<open>ob\<close> makes an object of it, an ordered map for a stored value (\<open>jobject\<close>) and the list
  as it is for the text that is hashed (\<open>JObject\<close>).
\<close>

definition ser_i64 :: "64 word \<Rightarrow> json" where
  "ser_i64 n = JNumber (if sint n < 0 then NegInt n else PosInt n)"

definition de_i64 :: "json \<Rightarrow> (64 word) option" where
  "de_i64 j =
     (case j of
        JNumber (PosInt n) \<Rightarrow> (if 0 \<le> sint n then Some n else None)
      | JNumber (NegInt n) \<Rightarrow> Some n
      | _ \<Rightarrow> None)"

lemma de_ser_i64 [simp]: "de_i64 (ser_i64 n) = Some n"
  by (simp add: de_i64_def ser_i64_def)

definition ser_migration_phase :: "migration_phase \<Rightarrow> json" where
  "ser_migration_phase p = JString (phase_as_str p)"

definition de_migration_phase :: "json \<Rightarrow> migration_phase option" where
  "de_migration_phase = de_unit_variant (map (\<lambda>p. (phase_as_str p, p)) ORDER)"

definition ser_migration_witness_kind :: "migration_witness_kind \<Rightarrow> json" where
  "ser_migration_witness_kind k = JString (witness_kind_as_str k)"

definition de_migration_witness_kind :: "json \<Rightarrow> migration_witness_kind option" where
  "de_migration_witness_kind =
     de_unit_variant (map (\<lambda>p. (witness_kind_as_str (witness_kind p), witness_kind p)) ORDER)"

definition ser_quarantine_kind :: "quarantine_kind \<Rightarrow> json" where
  "ser_quarantine_kind k = JString (quarantine_kind_as_str k)"

definition de_quarantine_kind :: "json \<Rightarrow> quarantine_kind option" where
  "de_quarantine_kind =
     de_unit_variant (map (\<lambda>k. (quarantine_kind_as_str k, k)) [QkFinal, QkReference, QkOldMirror])"

lemma de_ser_variants [simp]:
  "de_migration_phase (ser_migration_phase p) = Some p"
  "de_migration_witness_kind (ser_migration_witness_kind k) = Some k"
  "de_quarantine_kind (ser_quarantine_kind q) = Some q"
proof -
  show "de_migration_phase (ser_migration_phase p) = Some p"
    by (cases p) (simp_all add: de_migration_phase_def ser_migration_phase_def de_unit_variant_def ORDER_def)
  show "de_migration_witness_kind (ser_migration_witness_kind k) = Some k"
    by (cases k) (simp_all add: de_migration_witness_kind_def ser_migration_witness_kind_def de_unit_variant_def
        ORDER_def)
  show "de_quarantine_kind (ser_quarantine_kind q) = Some q"
    by (cases q) (simp_all add: de_quarantine_kind_def ser_quarantine_kind_def de_unit_variant_def)
qed

text \<open>How an object is made of its fields.\<close>

type_synonym object_of = "(string \<times> json) list \<Rightarrow> json"

subsection \<open>The quarantine plan\<close>

definition quarantine_file_identity_json :: "object_of \<Rightarrow> quarantine_file_identity \<Rightarrow> json" where
  "quarantine_file_identity_json ob x =
     ob
       [(''device'', ser_u64 (qf_device x)), (''inode'', ser_u64 (qf_inode x)),
        (''owner'', ser_small (qf_owner x)), (''mode'', ser_small (qf_mode x)),
        (''link_count'', ser_u64 (qf_link_count x)), (''size_bytes'', ser_u64 (qf_size_bytes x)),
        (''modified_unix_seconds'', ser_i64 (qf_modified_unix_seconds x)),
        (''modified_unix_nanoseconds'', ser_i64 (qf_modified_unix_nanoseconds x)),
        (''sha256'', JString (qf_sha256 x))]"

definition de_quarantine_file_identity :: "json \<Rightarrow> quarantine_file_identity option" where
  "de_quarantine_file_identity j =
     Option.bind (strict_struct
       [''device'', ''inode'', ''owner'', ''mode'', ''link_count'', ''size_bytes'',
       ''modified_unix_seconds'', ''modified_unix_nanoseconds'', ''sha256''] j) (\<lambda>src.
     Option.bind (field_req src ''device'' de_u64) (\<lambda>device'.
     Option.bind (field_req src ''inode'' de_u64) (\<lambda>inode'.
     Option.bind (field_req src ''owner'' de_small) (\<lambda>owner'.
     Option.bind (field_req src ''mode'' de_small) (\<lambda>mode'.
     Option.bind (field_req src ''link_count'' de_u64) (\<lambda>link_count'.
     Option.bind (field_req src ''size_bytes'' de_u64) (\<lambda>size_bytes'.
     Option.bind (field_req src ''modified_unix_seconds'' de_i64) (\<lambda>modified_unix_seconds'.
     Option.bind (field_req src ''modified_unix_nanoseconds'' de_i64) (\<lambda>modified_unix_nanoseconds'.
     Option.bind (field_req src ''sha256'' de_string) (\<lambda>sha256'.
     Some \<lparr>qf_device = device', qf_inode = inode', qf_owner = owner', qf_mode = mode',
           qf_link_count = link_count', qf_size_bytes = size_bytes',
           qf_modified_unix_seconds = modified_unix_seconds',
           qf_modified_unix_nanoseconds = modified_unix_nanoseconds', qf_sha256 = sha256'\<rparr>))))))))))"

lemma de_ser_quarantine_file_identity [simp]: "de_quarantine_file_identity (quarantine_file_identity_json jobject x) = Some x"
  by (simp add: quarantine_file_identity_json_def de_quarantine_file_identity_def decode_simps)

definition quarantine_root_json :: "object_of \<Rightarrow> quarantine_root \<Rightarrow> json" where
  "quarantine_root_json ob x =
     ob
       [(''canonical_path'', JString (qr_canonical_path x)), (''device'', ser_u64 (qr_device x)),
        (''inode'', ser_u64 (qr_inode x)), (''owner'', ser_small (qr_owner x)),
        (''mode'', ser_small (qr_mode x))]"

definition de_quarantine_root :: "json \<Rightarrow> quarantine_root option" where
  "de_quarantine_root j =
     Option.bind (strict_struct
       [''canonical_path'', ''device'', ''inode'', ''owner'', ''mode''] j) (\<lambda>src.
     Option.bind (field_req src ''canonical_path'' de_string) (\<lambda>canonical_path'.
     Option.bind (field_req src ''device'' de_u64) (\<lambda>device'.
     Option.bind (field_req src ''inode'' de_u64) (\<lambda>inode'.
     Option.bind (field_req src ''owner'' de_small) (\<lambda>owner'.
     Option.bind (field_req src ''mode'' de_small) (\<lambda>mode'.
     Some \<lparr>qr_canonical_path = canonical_path', qr_device = device', qr_inode = inode',
           qr_owner = owner', qr_mode = mode'\<rparr>))))))"

lemma de_ser_quarantine_root [simp]: "de_quarantine_root (quarantine_root_json jobject x) = Some x"
  by (simp add: quarantine_root_json_def de_quarantine_root_def decode_simps)

definition quarantine_member_json :: "object_of \<Rightarrow> quarantine_member \<Rightarrow> json" where
  "quarantine_member_json ob x =
     ob
       [(''asset_id'', JString (qm_asset_id x)), (''kind'', ser_quarantine_kind (qm_kind x)),
        (''source_path'', JString (qm_source_path x)),
        (''destination_path'', JString (qm_destination_path x)),
        (''source'', quarantine_file_identity_json ob (qm_source x)),
        (''root_device'', ser_u64 (qm_root_device x))]"

definition de_quarantine_member :: "json \<Rightarrow> quarantine_member option" where
  "de_quarantine_member j =
     Option.bind (strict_struct
       [''asset_id'', ''kind'', ''source_path'', ''destination_path'', ''source'', ''root_device''] j) (\<lambda>src.
     Option.bind (field_req src ''asset_id'' de_string) (\<lambda>asset_id'.
     Option.bind (field_req src ''kind'' de_quarantine_kind) (\<lambda>kind'.
     Option.bind (field_req src ''source_path'' de_string) (\<lambda>source_path'.
     Option.bind (field_req src ''destination_path'' de_string) (\<lambda>destination_path'.
     Option.bind (field_req src ''source'' de_quarantine_file_identity) (\<lambda>source'.
     Option.bind (field_req src ''root_device'' de_u64) (\<lambda>root_device'.
     Some \<lparr>qm_asset_id = asset_id', qm_kind = kind', qm_source_path = source_path',
           qm_destination_path = destination_path', qm_source = source', qm_root_device = root_device'\<rparr>)))))))"

lemma de_ser_quarantine_member [simp]: "de_quarantine_member (quarantine_member_json jobject x) = Some x"
  by (simp add: quarantine_member_json_def de_quarantine_member_def decode_simps)

definition migration_raw_input_json :: "object_of \<Rightarrow> migration_raw_input \<Rightarrow> json" where
  "migration_raw_input_json ob x =
     ob
       [(''asset_id'', JString (mr_asset_id x)), (''path'', JString (mr_path x)),
        (''source'', quarantine_file_identity_json ob (mr_source x))]"

definition de_migration_raw_input :: "json \<Rightarrow> migration_raw_input option" where
  "de_migration_raw_input j =
     Option.bind (strict_struct
       [''asset_id'', ''path'', ''source''] j) (\<lambda>src.
     Option.bind (field_req src ''asset_id'' de_string) (\<lambda>asset_id'.
     Option.bind (field_req src ''path'' de_string) (\<lambda>path'.
     Option.bind (field_req src ''source'' de_quarantine_file_identity) (\<lambda>source'.
     Some \<lparr>mr_asset_id = asset_id', mr_path = path', mr_source = source'\<rparr>))))"

lemma de_ser_migration_raw_input [simp]: "de_migration_raw_input (migration_raw_input_json jobject x) = Some x"
  by (simp add: migration_raw_input_json_def de_migration_raw_input_def decode_simps)

definition quarantine_plan_json :: "object_of \<Rightarrow> quarantine_plan \<Rightarrow> json" where
  "quarantine_plan_json ob x =
     ob
       [(''schema_version'', ser_u64 (qp_schema_version x)),
        (''roots'', JArray (map (quarantine_root_json ob) (qp_roots x))),
        (''members'', JArray (map (quarantine_member_json ob) (qp_members x))),
        (''raw_inputs'', JArray (map (migration_raw_input_json ob) (qp_raw_inputs x))),
        (''plan_sha256'', JString (qp_plan_sha256 x))]"

definition de_quarantine_plan :: "json \<Rightarrow> quarantine_plan option" where
  "de_quarantine_plan j =
     Option.bind (strict_struct
       [''schema_version'', ''roots'', ''members'', ''raw_inputs'', ''plan_sha256''] j) (\<lambda>src.
     Option.bind (field_req src ''schema_version'' de_u64) (\<lambda>schema_version'.
     Option.bind (field_req src ''roots'' (de_vec de_quarantine_root)) (\<lambda>roots'.
     Option.bind (field_req src ''members'' (de_vec de_quarantine_member)) (\<lambda>members'.
     Option.bind (field_req src ''raw_inputs'' (de_vec de_migration_raw_input)) (\<lambda>raw_inputs'.
     Option.bind (field_req src ''plan_sha256'' de_string) (\<lambda>plan_sha256'.
     Some \<lparr>qp_schema_version = schema_version', qp_roots = roots', qp_members = members',
           qp_raw_inputs = raw_inputs', qp_plan_sha256 = plan_sha256'\<rparr>))))))"

lemma de_ser_quarantine_plan [simp]: "de_quarantine_plan (quarantine_plan_json jobject x) = Some x"
  by (simp add: quarantine_plan_json_def de_quarantine_plan_def decode_simps de_vec_def)

subsection \<open>The journal\<close>

definition migration_identity_json :: "object_of \<Rightarrow> migration_identity \<Rightarrow> json" where
  "migration_identity_json ob x =
     ob
       [(''migration_id'', JString (mi_migration_id x)),
        (''evidence_sha256'', JString (mi_evidence_sha256 x)),
        (''cohort_sha256'', JString (mi_cohort_sha256 x)), (''asset_id'', JString (mi_asset_id x)),
        (''source_record_sha256'', JString (mi_source_record_sha256 x)),
        (''old_uploaded_asset_id'', JString (mi_old_uploaded_asset_id x)),
        (''old_uploaded_master_id'', JString (mi_old_uploaded_master_id x)),
        (''destination_sha256'', JString (mi_destination_sha256 x)),
        (''original_asset_identity_sha256'', JString (mi_original_asset_identity_sha256 x)),
        (''old_conversion_lineage_sha256'', JString (mi_old_conversion_lineage_sha256 x)),
        (''old_upload_lineage_sha256'', JString (mi_old_upload_lineage_sha256 x)),
        (''old_mirror_lineage_sha256'', JString (mi_old_mirror_lineage_sha256 x)),
        (''quarantine_plan'', quarantine_plan_json ob (mi_quarantine_plan x))]"

definition de_migration_identity :: "json \<Rightarrow> migration_identity option" where
  "de_migration_identity j =
     Option.bind (strict_struct
       [''migration_id'', ''evidence_sha256'', ''cohort_sha256'', ''asset_id'', ''source_record_sha256'',
       ''old_uploaded_asset_id'', ''old_uploaded_master_id'', ''destination_sha256'',
       ''original_asset_identity_sha256'', ''old_conversion_lineage_sha256'',
       ''old_upload_lineage_sha256'', ''old_mirror_lineage_sha256'', ''quarantine_plan''] j) (\<lambda>src.
     Option.bind (field_req src ''migration_id'' de_string) (\<lambda>migration_id'.
     Option.bind (field_req src ''evidence_sha256'' de_string) (\<lambda>evidence_sha256'.
     Option.bind (field_req src ''cohort_sha256'' de_string) (\<lambda>cohort_sha256'.
     Option.bind (field_req src ''asset_id'' de_string) (\<lambda>asset_id'.
     Option.bind (field_req src ''source_record_sha256'' de_string) (\<lambda>source_record_sha256'.
     Option.bind (field_req src ''old_uploaded_asset_id'' de_string) (\<lambda>old_uploaded_asset_id'.
     Option.bind (field_req src ''old_uploaded_master_id'' de_string) (\<lambda>old_uploaded_master_id'.
     Option.bind (field_req src ''destination_sha256'' de_string) (\<lambda>destination_sha256'.
     Option.bind (field_req src ''original_asset_identity_sha256'' de_string) (\<lambda>original_asset_identity_sha256'.
     Option.bind (field_req src ''old_conversion_lineage_sha256'' de_string) (\<lambda>old_conversion_lineage_sha256'.
     Option.bind (field_req src ''old_upload_lineage_sha256'' de_string) (\<lambda>old_upload_lineage_sha256'.
     Option.bind (field_req src ''old_mirror_lineage_sha256'' de_string) (\<lambda>old_mirror_lineage_sha256'.
     Option.bind (field_req src ''quarantine_plan'' de_quarantine_plan) (\<lambda>quarantine_plan'.
     Some \<lparr>mi_migration_id = migration_id', mi_evidence_sha256 = evidence_sha256',
           mi_cohort_sha256 = cohort_sha256', mi_asset_id = asset_id',
           mi_source_record_sha256 = source_record_sha256',
           mi_old_uploaded_asset_id = old_uploaded_asset_id',
           mi_old_uploaded_master_id = old_uploaded_master_id',
           mi_destination_sha256 = destination_sha256',
           mi_original_asset_identity_sha256 = original_asset_identity_sha256',
           mi_old_conversion_lineage_sha256 = old_conversion_lineage_sha256',
           mi_old_upload_lineage_sha256 = old_upload_lineage_sha256',
           mi_old_mirror_lineage_sha256 = old_mirror_lineage_sha256',
           mi_quarantine_plan = quarantine_plan'\<rparr>))))))))))))))"

lemma de_ser_migration_identity [simp]: "de_migration_identity (migration_identity_json jobject x) = Some x"
  by (simp add: migration_identity_json_def de_migration_identity_def decode_simps)

definition phase_entry_json :: "object_of \<Rightarrow> phase_entry \<Rightarrow> json" where
  "phase_entry_json ob x =
     ob
       [(''ordinal'', ser_u64 (pe_ordinal x)), (''phase'', ser_migration_phase (pe_phase x)),
        (''witness_kind'', ser_migration_witness_kind (pe_witness_kind x)),
        (''witness_sha256'', JString (pe_witness_sha256 x)),
        (''record_body_sha256'', JString (pe_record_body_sha256 x)),
        (''previous_entry_sha256'', JString (pe_previous_entry_sha256 x)),
        (''entry_sha256'', JString (pe_entry_sha256 x))]"

definition de_phase_entry :: "json \<Rightarrow> phase_entry option" where
  "de_phase_entry j =
     Option.bind (strict_struct
       [''ordinal'', ''phase'', ''witness_kind'', ''witness_sha256'', ''record_body_sha256'',
       ''previous_entry_sha256'', ''entry_sha256''] j) (\<lambda>src.
     Option.bind (field_req src ''ordinal'' de_u64) (\<lambda>ordinal'.
     Option.bind (field_req src ''phase'' de_migration_phase) (\<lambda>phase'.
     Option.bind (field_req src ''witness_kind'' de_migration_witness_kind) (\<lambda>witness_kind'.
     Option.bind (field_req src ''witness_sha256'' de_string) (\<lambda>witness_sha256'.
     Option.bind (field_req src ''record_body_sha256'' de_string) (\<lambda>record_body_sha256'.
     Option.bind (field_req src ''previous_entry_sha256'' de_string) (\<lambda>previous_entry_sha256'.
     Option.bind (field_req src ''entry_sha256'' de_string) (\<lambda>entry_sha256'.
     Some \<lparr>pe_ordinal = ordinal', pe_phase = phase', pe_witness_kind = witness_kind',
           pe_witness_sha256 = witness_sha256', pe_record_body_sha256 = record_body_sha256',
           pe_previous_entry_sha256 = previous_entry_sha256', pe_entry_sha256 = entry_sha256'\<rparr>))))))))"

lemma de_ser_phase_entry [simp]: "de_phase_entry (phase_entry_json jobject x) = Some x"
  by (simp add: phase_entry_json_def de_phase_entry_def decode_simps)

definition migration_journal_json :: "object_of \<Rightarrow> migration_journal \<Rightarrow> json" where
  "migration_journal_json ob x =
     ob
       [(''schema_version'', ser_u64 (mj_schema_version x)),
        (''identity'', migration_identity_json ob (mj_identity x)),
        (''entries'', JArray (map (phase_entry_json ob) (mj_entries x)))]"

definition de_migration_journal :: "json \<Rightarrow> migration_journal option" where
  "de_migration_journal j =
     Option.bind (strict_struct
       [''schema_version'', ''identity'', ''entries''] j) (\<lambda>src.
     Option.bind (field_req src ''schema_version'' de_u64) (\<lambda>schema_version'.
     Option.bind (field_req src ''identity'' de_migration_identity) (\<lambda>identity'.
     Option.bind (field_req src ''entries'' (de_vec de_phase_entry)) (\<lambda>entries'.
     Some \<lparr>mj_schema_version = schema_version', mj_identity = identity', mj_entries = entries'\<rparr>))))"

lemma de_ser_migration_journal [simp]: "de_migration_journal (migration_journal_json jobject x) = Some x"
  by (simp add: migration_journal_json_def de_migration_journal_def decode_simps de_vec_def)

subsection \<open>The registry\<close>

definition migration_registry_asset_json :: "object_of \<Rightarrow> migration_registry_asset \<Rightarrow> json" where
  "migration_registry_asset_json ob x =
     ob
       [(''asset_id'', JString (ma_asset_id x)), (''identity_sha256'', JString (ma_identity_sha256 x)),
        (''source_record_sha256'', JString (ma_source_record_sha256 x)),
        (''original_asset_identity_sha256'', JString (ma_original_asset_identity_sha256 x)),
        (''old_conversion_lineage_sha256'', JString (ma_old_conversion_lineage_sha256 x)),
        (''old_upload_lineage_sha256'', JString (ma_old_upload_lineage_sha256 x)),
        (''old_mirror_lineage_sha256'', JString (ma_old_mirror_lineage_sha256 x))]"

definition de_migration_registry_asset :: "json \<Rightarrow> migration_registry_asset option" where
  "de_migration_registry_asset j =
     Option.bind (strict_struct
       [''asset_id'', ''identity_sha256'', ''source_record_sha256'', ''original_asset_identity_sha256'',
       ''old_conversion_lineage_sha256'', ''old_upload_lineage_sha256'', ''old_mirror_lineage_sha256''] j) (\<lambda>src.
     Option.bind (field_req src ''asset_id'' de_string) (\<lambda>asset_id'.
     Option.bind (field_req src ''identity_sha256'' de_string) (\<lambda>identity_sha256'.
     Option.bind (field_req src ''source_record_sha256'' de_string) (\<lambda>source_record_sha256'.
     Option.bind (field_req src ''original_asset_identity_sha256'' de_string) (\<lambda>original_asset_identity_sha256'.
     Option.bind (field_req src ''old_conversion_lineage_sha256'' de_string) (\<lambda>old_conversion_lineage_sha256'.
     Option.bind (field_req src ''old_upload_lineage_sha256'' de_string) (\<lambda>old_upload_lineage_sha256'.
     Option.bind (field_req src ''old_mirror_lineage_sha256'' de_string) (\<lambda>old_mirror_lineage_sha256'.
     Some \<lparr>ma_asset_id = asset_id', ma_identity_sha256 = identity_sha256',
           ma_source_record_sha256 = source_record_sha256',
           ma_original_asset_identity_sha256 = original_asset_identity_sha256',
           ma_old_conversion_lineage_sha256 = old_conversion_lineage_sha256',
           ma_old_upload_lineage_sha256 = old_upload_lineage_sha256',
           ma_old_mirror_lineage_sha256 = old_mirror_lineage_sha256'\<rparr>))))))))"

lemma de_ser_migration_registry_asset [simp]: "de_migration_registry_asset (migration_registry_asset_json jobject x) = Some x"
  by (simp add: migration_registry_asset_json_def de_migration_registry_asset_def decode_simps)

text \<open>\<open>[T; 2]\<close>, an array of exactly two.\<close>

definition registry_assets_json ::
  "object_of \<Rightarrow> migration_registry_asset \<times> migration_registry_asset \<Rightarrow> json"
where
  "registry_assets_json ob p = JArray [migration_registry_asset_json ob (fst p), migration_registry_asset_json ob (snd p)]"

definition de_registry_assets :: "json \<Rightarrow> (migration_registry_asset \<times> migration_registry_asset) option" where
  "de_registry_assets j =
     (case de_vec de_migration_registry_asset j of Some [a, b] \<Rightarrow> Some (a, b) | _ \<Rightarrow> None)"

lemma de_ser_registry_assets [simp]: "de_registry_assets (registry_assets_json jobject p) = Some p"
  by (simp add: de_registry_assets_def registry_assets_json_def de_vec_def)

definition migration_registry_json :: "object_of \<Rightarrow> migration_registry \<Rightarrow> json" where
  "migration_registry_json ob x =
     ob
       [(''schema_version'', ser_u64 (ms_schema_version x)),
        (''migration_id'', JString (ms_migration_id x)),
        (''evidence_sha256'', JString (ms_evidence_sha256 x)),
        (''cohort_sha256'', JString (ms_cohort_sha256 x)),
        (''quarantine_plan'', quarantine_plan_json ob (ms_quarantine_plan x)),
        (''assets'', registry_assets_json ob (ms_assets x)),
        (''registry_sha256'', JString (ms_registry_sha256 x))]"

definition de_migration_registry :: "json \<Rightarrow> migration_registry option" where
  "de_migration_registry j =
     Option.bind (strict_struct
       [''schema_version'', ''migration_id'', ''evidence_sha256'', ''cohort_sha256'',
       ''quarantine_plan'', ''assets'', ''registry_sha256''] j) (\<lambda>src.
     Option.bind (field_req src ''schema_version'' de_u64) (\<lambda>schema_version'.
     Option.bind (field_req src ''migration_id'' de_string) (\<lambda>migration_id'.
     Option.bind (field_req src ''evidence_sha256'' de_string) (\<lambda>evidence_sha256'.
     Option.bind (field_req src ''cohort_sha256'' de_string) (\<lambda>cohort_sha256'.
     Option.bind (field_req src ''quarantine_plan'' de_quarantine_plan) (\<lambda>quarantine_plan'.
     Option.bind (field_req src ''assets'' de_registry_assets) (\<lambda>assets'.
     Option.bind (field_req src ''registry_sha256'' de_string) (\<lambda>registry_sha256'.
     Some \<lparr>ms_schema_version = schema_version', ms_migration_id = migration_id',
           ms_evidence_sha256 = evidence_sha256', ms_cohort_sha256 = cohort_sha256',
           ms_quarantine_plan = quarantine_plan', ms_assets = assets',
           ms_registry_sha256 = registry_sha256'\<rparr>))))))))"

lemma de_ser_migration_registry [simp]: "de_migration_registry (migration_registry_json jobject x) = Some x"
  by (simp add: migration_registry_json_def de_migration_registry_def decode_simps)

interpretation quarantine_plan_codec: codec "quarantine_plan_json jobject" de_quarantine_plan
  by unfold_locales simp

interpretation migration_journal_codec: codec "migration_journal_json jobject" de_migration_journal
  by unfold_locales simp

interpretation migration_registry_codec: codec "migration_registry_json jobject" de_migration_registry
  by unfold_locales simp

end
