(* ===== verification/Migration_Journal.thy ===== *)
theory Migration_Journal
  imports Migration_Codec
begin

section \<open>The journal of the legacy upload migration\<close>

text \<open>
  The validators of \<open>src/src/legacy_upload_migration.rs\<close> and the operations that write a journal: a record
  of the migration carries, as its reserved proof, a journal with one entry per phase; each entry holds
  the digests of its witness, of the rest of the record and of the entry before it. SHA-256 and the
  text of floats are those of the \<open>workflow_world\<close>.
\<close>

datatype migration_error =
    JournalMissing
  | JournalEmpty
  | UnsupportedSchemaVersion u64
  | InvalidDigest string
  | InvalidRemoteIdentity string
  | IdentityMismatch
  | CohortAuthorityMismatch
  | RegistryMissing
  | RegistryTampered
  | RegistryCohortMismatch
  | PhaseAuthorityMismatch
  | SourceRecordMismatch
  | JournalTampered string
  | InvalidPhaseTransition migration_phase migration_phase
  | ReplayMismatch migration_phase
  | CompleteImmutable
  | IncompleteJournal migration_phase
  | StateMismatch migration_phase state state
  | MigrationJson

definition LEGACY_UPLOAD_MIGRATION_PROOF_NAME :: string where
  "LEGACY_UPLOAD_MIGRATION_PROOF_NAME = RESERVED_PROOF_NAME"

definition LEGACY_UPLOAD_MIGRATION_SCHEMA_VERSION :: u64 where
  "LEGACY_UPLOAD_MIGRATION_SCHEMA_VERSION = 2"

definition LEGACY_UPLOAD_MIGRATION_REGISTRY_SCHEMA_VERSION :: u64 where
  "LEGACY_UPLOAD_MIGRATION_REGISTRY_SCHEMA_VERSION = 1"

definition GENESIS_ENTRY_SHA256 :: string where
  "GENESIS_ENTRY_SHA256 = replicate 64 CHR ''0''"

definition MAX_REMOTE_IDENTITY_BYTES :: nat where
  "MAX_REMOTE_IDENTITY_BYTES = 1024"

subsection \<open>Digests\<close>

definition canonical_digest :: "workflow_world \<Rightarrow> json \<Rightarrow> string" where
  "canonical_digest w j = ww_sha256_hex w (json_text (ww_float_text w) j)"

definition migration_record_json :: "asset_record \<Rightarrow> proofs \<Rightarrow> json" where
  "migration_record_json r proofs =
     JObject
       [(''asset_id'', JString (ar_asset_id r)), (''raw_path'', JString (ar_raw_path r)),
        (''state'', ser_state (ar_state r)), (''proofs'', JObject proofs),
        (''failures'', JArray (map failure_record_fields (ar_failures r))),
        (''updated_at'', JString (ar_updated_at r))]"

definition legacy_upload_migration_record_digest :: "workflow_world \<Rightarrow> asset_record \<Rightarrow> string" where
  "legacy_upload_migration_record_digest w r = canonical_digest w (migration_record_json r (ar_proofs r))"

definition legacy_upload_migration_record_body_digest :: "workflow_world \<Rightarrow> asset_record \<Rightarrow> string" where
  "legacy_upload_migration_record_body_digest w r =
     canonical_digest w (migration_record_json r
       (filter (\<lambda>(name, _). name \<noteq> LEGACY_UPLOAD_MIGRATION_PROOF_NAME) (ar_proofs r)))"

definition identity_digest :: "workflow_world \<Rightarrow> migration_identity \<Rightarrow> string" where
  "identity_digest w i = canonical_digest w (migration_identity_json JObject i)"

definition entry_digest_input ::
  "u64 \<Rightarrow> string \<Rightarrow> u64 \<Rightarrow> migration_phase \<Rightarrow> migration_witness_kind \<Rightarrow> string \<Rightarrow> string \<Rightarrow> string \<Rightarrow> json"
where
  "entry_digest_input schema_version id_sha256 ordinal phase kind witness_sha256 record_body_sha256
       previous_entry_sha256 =
     JObject
       [(''schema_version'', ser_u64 schema_version), (''identity_sha256'', JString id_sha256),
        (''ordinal'', ser_u64 ordinal), (''phase'', ser_migration_phase phase),
        (''witness_kind'', ser_migration_witness_kind kind), (''witness_sha256'', JString witness_sha256),
        (''record_body_sha256'', JString record_body_sha256),
        (''previous_entry_sha256'', JString previous_entry_sha256)]"

definition entry_digest ::
  "workflow_world \<Rightarrow> u64 \<Rightarrow> string \<Rightarrow> u64 \<Rightarrow> migration_phase \<Rightarrow> migration_witness_kind \<Rightarrow> string \<Rightarrow> string \<Rightarrow> string
     \<Rightarrow> string"
where
  "entry_digest w schema_version id_sha256 ordinal phase kind witness_sha256 record_body_sha256
       previous_entry_sha256 =
     canonical_digest w (entry_digest_input schema_version id_sha256 ordinal phase kind witness_sha256
       record_body_sha256 previous_entry_sha256)"

subsection \<open>Validators of fields\<close>

definition validate_digest :: "string \<Rightarrow> string \<Rightarrow> migration_error + unit" where
  "validate_digest field v =
     fail_if (length v \<noteq> 64
              \<or> \<not> list_all (\<lambda>c. 48 \<le> byte c \<and> byte c \<le> 57 \<or> 97 \<le> byte c \<and> byte c \<le> 102) v)
       (InvalidDigest field)"

definition validate_remote_identity :: "string \<Rightarrow> string \<Rightarrow> migration_error + unit" where
  "validate_remote_identity field v =
     fail_if (v = [] \<or> trim v \<noteq> v \<or> MAX_REMOTE_IDENTITY_BYTES < length v \<or> has_control v)
       (InvalidRemoteIdentity field)"

definition validate_state :: "asset_record \<Rightarrow> migration_phase \<Rightarrow> migration_error + unit" where
  "validate_state r phase =
     fail_if (ar_state r \<noteq> required_state phase) (StateMismatch phase (required_state phase) (ar_state r))"

definition safe_quarantine_plan_path :: "path \<Rightarrow> bool" where
  "safe_quarantine_plan_path p \<longleftrightarrow>
     is_absolute p \<and> list_all (\<lambda>c. case c of RootDir \<Rightarrow> True | Normal _ \<Rightarrow> True | _ \<Rightarrow> False) (components p)"

subsection \<open>The quarantine plan\<close>

definition plan_digest :: "workflow_world \<Rightarrow> quarantine_plan \<Rightarrow> string" where
  "plan_digest w p =
     canonical_digest w (JArray
       [ser_u64 (qp_schema_version p), JArray (map (quarantine_root_json JObject) (qp_roots p)),
        JArray (map (quarantine_member_json JObject) (qp_members p)),
        JArray (map (migration_raw_input_json JObject) (qp_raw_inputs p))])"

text \<open>A set of paths is a set of their components.\<close>

definition plan_root_ok ::
  "quarantine_root \<Rightarrow> u64 set \<times> component list set \<Rightarrow> migration_error + u64 set \<times> component list set"
where
  "plan_root_ok root acc =
     (case acc of (devices, paths) \<Rightarrow>
        if \<not> safe_quarantine_plan_path (qr_canonical_path root) \<or> qr_device root = 0 \<or> qr_inode root = 0
           \<or> qr_mode root \<noteq> 448 \<or> qr_device root \<in> devices \<or> components (qr_canonical_path root) \<in> paths
        then Err CohortAuthorityMismatch
        else Ok (insert (qr_device root) devices, insert (components (qr_canonical_path root)) paths))"

record member_sets =
  ks_member_keys :: "(string \<times> quarantine_kind) set"
  ks_sources :: "component list set"
  ks_source_identities :: "(u64 \<times> u64) set"
  ks_destinations :: "component list set"

definition file_key :: "quarantine_file_identity \<Rightarrow> u64 \<times> u64" where
  "file_key f = (qf_device f, qf_inode f)"

definition plan_member_ok ::
  "quarantine_plan \<Rightarrow> u64 set \<Rightarrow> quarantine_member \<Rightarrow> member_sets \<Rightarrow> migration_error + member_sets"
where
  "plan_member_ok plan devices x ks =
     bind_ok (validate_remote_identity ''quarantine_asset_id'' (qm_asset_id x)) (\<lambda>_.
     bind_ok (validate_digest ''quarantine_source_sha256'' (qf_sha256 (qm_source x))) (\<lambda>_.
     if \<not> safe_quarantine_plan_path (qm_source_path x) \<or> \<not> safe_quarantine_plan_path (qm_destination_path x)
        \<or> qf_device (qm_source x) = 0 \<or> qf_inode (qm_source x) = 0 \<or> qf_link_count (qm_source x) \<noteq> 1
        \<or> qf_size_bytes (qm_source x) = 0 \<or> qm_root_device x \<noteq> qf_device (qm_source x)
        \<or> qm_root_device x \<notin> devices \<or> (qm_asset_id x, qm_kind x) \<in> ks_member_keys ks
        \<or> components (qm_source_path x) \<in> ks_sources ks \<or> file_key (qm_source x) \<in> ks_source_identities ks
        \<or> components (qm_destination_path x) \<in> ks_destinations ks
     then Err CohortAuthorityMismatch
     else
       bind_ok (ok_or CohortAuthorityMismatch
         (List.find (\<lambda>root. qr_device root = qm_root_device x) (qp_roots plan))) (\<lambda>root.
       if \<not> path_starts_with (qm_destination_path x) (qr_canonical_path root) then Err CohortAuthorityMismatch
       else if path_starts_with (qm_source_path x) (qr_canonical_path root) then Err CohortAuthorityMismatch
       else Ok \<lparr>ks_member_keys = insert (qm_asset_id x, qm_kind x) (ks_member_keys ks),
                ks_sources = insert (components (qm_source_path x)) (ks_sources ks),
                ks_source_identities = insert (file_key (qm_source x)) (ks_source_identities ks),
                ks_destinations = insert (components (qm_destination_path x)) (ks_destinations ks)\<rparr>)))"

definition kind_count :: "quarantine_plan \<Rightarrow> quarantine_kind \<Rightarrow> nat" where
  "kind_count plan k = length (filter (\<lambda>x. qm_kind x = k) (qp_members plan))"

record raw_sets =
  rs_asset_ids :: "string set"
  rs_paths :: "component list set"
  rs_identities :: "(u64 \<times> u64) set"

definition plan_raw_ok :: "quarantine_plan \<Rightarrow> migration_raw_input \<Rightarrow> raw_sets \<Rightarrow> migration_error + raw_sets" where
  "plan_raw_ok plan x rs =
     bind_ok (validate_remote_identity ''raw_asset_id'' (mr_asset_id x)) (\<lambda>_.
     bind_ok (validate_digest ''raw_source_sha256'' (qf_sha256 (mr_source x))) (\<lambda>_.
     if \<not> safe_quarantine_plan_path (mr_path x) \<or> qf_device (mr_source x) = 0 \<or> qf_inode (mr_source x) = 0
        \<or> qf_link_count (mr_source x) \<noteq> 1 \<or> qf_size_bytes (mr_source x) = 0
        \<or> mr_asset_id x \<in> rs_asset_ids rs \<or> components (mr_path x) \<in> rs_paths rs
        \<or> file_key (mr_source x) \<in> rs_identities rs
        \<or> list_ex (\<lambda>root. path_starts_with (mr_path x) (qr_canonical_path root)) (qp_roots plan)
     then Err CohortAuthorityMismatch
     else Ok \<lparr>rs_asset_ids = insert (mr_asset_id x) (rs_asset_ids rs),
              rs_paths = insert (components (mr_path x)) (rs_paths rs),
              rs_identities = insert (file_key (mr_source x)) (rs_identities rs)\<rparr>))"

definition validate_quarantine_plan :: "workflow_world \<Rightarrow> quarantine_plan \<Rightarrow> migration_error + unit" where
  "validate_quarantine_plan w plan =
     bind_ok (fail_if (qp_schema_version plan \<noteq> 1 \<or> qp_roots plan = [] \<or> length (qp_members plan) \<noteq> 9
                       \<or> length (qp_raw_inputs plan) \<noteq> 10) CohortAuthorityMismatch) (\<lambda>_.
     bind_ok (validate_digest ''quarantine_plan_sha256'' (qp_plan_sha256 plan)) (\<lambda>_.
     bind_ok (try_fold plan_root_ok (qp_roots plan) ({}, {})) (\<lambda>(devices, _).
     bind_ok (try_fold (plan_member_ok plan devices) (qp_members plan)
       \<lparr>ks_member_keys = {}, ks_sources = {}, ks_source_identities = {}, ks_destinations = {}\<rparr>) (\<lambda>ks.
     bind_ok (fail_if (kind_count plan QkFinal \<noteq> 2 \<or> kind_count plan QkReference \<noteq> 5
                       \<or> kind_count plan QkOldMirror \<noteq> 2) CohortAuthorityMismatch) (\<lambda>_.
     bind_ok (try_fold (plan_raw_ok plan) (qp_raw_inputs plan)
       \<lparr>rs_asset_ids = {}, rs_paths = {}, rs_identities = {}\<rparr>) (\<lambda>rs.
     bind_ok (fail_if (rs_identities rs \<inter> ks_source_identities ks \<noteq> {}) CohortAuthorityMismatch) (\<lambda>_.
     fail_if (qp_plan_sha256 plan \<noteq> plan_digest w plan) CohortAuthorityMismatch)))))))"

definition seal_legacy_upload_migration_quarantine_plan ::
  "workflow_world \<Rightarrow> quarantine_plan \<Rightarrow> migration_error + quarantine_plan"
where
  "seal_legacy_upload_migration_quarantine_plan w plan =
     (let plan = plan\<lparr>qp_plan_sha256 := plan_digest w plan\<rparr> in
      bind_ok (validate_quarantine_plan w plan) (\<lambda>_. Ok plan))"

definition legacy_upload_migration_quarantine_destination_path ::
  "workflow_world \<Rightarrow> path \<Rightarrow> string \<Rightarrow> quarantine_kind \<Rightarrow> string \<Rightarrow> path \<Rightarrow> path"
where
  "legacy_upload_migration_quarantine_destination_path w root cohort_sha256 kind asset_id source_path =
     (let digest = canonical_digest w
            (JObject
              [(''schema_version'', ser_u64 1), (''cohort_sha256'', JString cohort_sha256),
               (''kind'', ser_quarantine_kind kind), (''asset_id'', JString asset_id),
               (''source_path'', JString source_path)]);
          extension = (case kind of QkReference \<Rightarrow> ''jpg'' | _ \<Rightarrow> ''heic'') in
      path_join (path_join root cohort_sha256) (digest @ ''.'' @ extension))"

subsection \<open>Identities\<close>

definition validate_identity :: "workflow_world \<Rightarrow> migration_identity \<Rightarrow> migration_error + unit" where
  "validate_identity w i =
     bind_ok (checks
       [validate_digest ''migration_id'' (mi_migration_id i),
        validate_digest ''evidence_sha256'' (mi_evidence_sha256 i),
        validate_digest ''cohort_sha256'' (mi_cohort_sha256 i),
        validate_digest ''source_record_sha256'' (mi_source_record_sha256 i),
        validate_digest ''destination_sha256'' (mi_destination_sha256 i),
        validate_digest ''original_asset_identity_sha256'' (mi_original_asset_identity_sha256 i),
        validate_digest ''old_conversion_lineage_sha256'' (mi_old_conversion_lineage_sha256 i),
        validate_digest ''old_upload_lineage_sha256'' (mi_old_upload_lineage_sha256 i),
        validate_digest ''old_mirror_lineage_sha256'' (mi_old_mirror_lineage_sha256 i)]) (\<lambda>_.
     bind_ok (validate_quarantine_plan w (mi_quarantine_plan i)) (\<lambda>_.
     checks
       [validate_remote_identity ''asset_id'' (mi_asset_id i),
        validate_remote_identity ''old_uploaded_asset_id'' (mi_old_uploaded_asset_id i),
        validate_remote_identity ''old_uploaded_master_id'' (mi_old_uploaded_master_id i)]))"

subsection \<open>The journal\<close>

text \<open>One entry, after the digest of the one before; the result is its own digest.\<close>

definition journal_entry_ok ::
  "workflow_world \<Rightarrow> u64 \<Rightarrow> string \<Rightarrow> nat \<times> phase_entry \<Rightarrow> string \<Rightarrow> migration_error + string"
where
  "journal_entry_ok w schema_version id_sha256 indexed previous =
     (case indexed of (index, e) \<Rightarrow>
        bind_ok (fail_if (length ORDER \<le> index) (JournalTampered ''phase_count'')) (\<lambda>_.
        bind_ok (fail_if (pe_ordinal e \<noteq> of_nat index) (JournalTampered ''ordinal'')) (\<lambda>_.
        bind_ok (fail_if (pe_phase e \<noteq> ORDER ! index) (JournalTampered ''phase'')) (\<lambda>_.
        bind_ok (fail_if (pe_witness_kind e \<noteq> witness_kind (pe_phase e)) (JournalTampered ''witness_kind'')) (\<lambda>_.
        bind_ok (validate_digest ''witness_sha256'' (pe_witness_sha256 e)) (\<lambda>_.
        bind_ok (validate_digest ''record_body_sha256'' (pe_record_body_sha256 e)) (\<lambda>_.
        bind_ok (validate_digest ''previous_entry_sha256'' (pe_previous_entry_sha256 e)) (\<lambda>_.
        bind_ok (validate_digest ''entry_sha256'' (pe_entry_sha256 e)) (\<lambda>_.
        bind_ok (fail_if (pe_previous_entry_sha256 e \<noteq> previous) (JournalTampered ''previous_entry_sha256'')) (\<lambda>_.
        bind_ok (fail_if
          (pe_entry_sha256 e \<noteq> entry_digest w schema_version id_sha256 (pe_ordinal e) (pe_phase e)
             (pe_witness_kind e) (pe_witness_sha256 e) (pe_record_body_sha256 e) (pe_previous_entry_sha256 e))
          (JournalTampered ''entry_sha256'')) (\<lambda>_.
        Ok (pe_entry_sha256 e))))))))))))"

definition validate_journal_for_record ::
  "workflow_world \<Rightarrow> asset_record \<Rightarrow> bool \<Rightarrow> migration_error + migration_journal"
where
  "validate_journal_for_record w r validate_current_state =
     bind_ok (ok_or JournalMissing (get_proof r LEGACY_UPLOAD_MIGRATION_PROOF_NAME)) (\<lambda>v.
     bind_ok (ok_or MigrationJson (de_migration_journal v)) (\<lambda>j.
     bind_ok (fail_if (mj_schema_version j \<noteq> LEGACY_UPLOAD_MIGRATION_SCHEMA_VERSION)
       (UnsupportedSchemaVersion (mj_schema_version j))) (\<lambda>_.
     bind_ok (validate_identity w (mj_identity j)) (\<lambda>_.
     bind_ok (fail_if (mi_asset_id (mj_identity j) \<noteq> ar_asset_id r) IdentityMismatch) (\<lambda>_.
     bind_ok (fail_if (mj_entries j = []) JournalEmpty) (\<lambda>_.
     bind_ok (try_fold (journal_entry_ok w (mj_schema_version j) (identity_digest w (mj_identity j)))
       (enumerate 0 (mj_entries j)) GENESIS_ENTRY_SHA256) (\<lambda>_.
     bind_ok
       (if validate_current_state
        then
          bind_ok (fail_if (pe_record_body_sha256 (last (mj_entries j)) \<noteq> legacy_upload_migration_record_body_digest w r)
            (JournalTampered ''record_body_sha256'')) (\<lambda>_.
          validate_state r (pe_phase (last (mj_entries j))))
        else Ok ()) (\<lambda>_.
     Ok j))))))))"

definition validate_legacy_upload_migration_record ::
  "workflow_world \<Rightarrow> asset_record \<Rightarrow> migration_error + migration_journal"
where
  "validate_legacy_upload_migration_record w r = validate_journal_for_record w r True"

definition build_entry ::
  "workflow_world \<Rightarrow> u64 \<Rightarrow> string \<Rightarrow> u64 \<Rightarrow> migration_phase \<Rightarrow> string \<Rightarrow> string \<Rightarrow> string \<Rightarrow> phase_entry"
where
  "build_entry w schema_version id_sha256 ordinal phase witness_sha256 record_body_sha256 previous =
     \<lparr>pe_ordinal = ordinal, pe_phase = phase, pe_witness_kind = witness_kind phase,
      pe_witness_sha256 = witness_sha256, pe_record_body_sha256 = record_body_sha256,
      pe_previous_entry_sha256 = previous,
      pe_entry_sha256 = entry_digest w schema_version id_sha256 ordinal phase (witness_kind phase)
        witness_sha256 record_body_sha256 previous\<rparr>"

definition with_journal :: "migration_journal \<Rightarrow> asset_record \<Rightarrow> asset_record" where
  "with_journal j r =
     r\<lparr>ar_proofs := bt_insert LEGACY_UPLOAD_MIGRATION_PROOF_NAME (migration_journal_json jobject j) (ar_proofs r)\<rparr>"

definition advance_legacy_upload_migration_record_with_witness ::
  "workflow_world \<Rightarrow> migration_phase \<Rightarrow> string \<Rightarrow> asset_record \<Rightarrow> migration_error + asset_record"
where
  "advance_legacy_upload_migration_record_with_witness w phase witness_sha256 r =
     bind_ok (validate_digest ''witness_sha256'' witness_sha256) (\<lambda>_.
     bind_ok (validate_journal_for_record w r False) (\<lambda>j.
     let prev = last (mj_entries j) in
     if pe_phase prev = phase
     then
       bind_ok (validate_state r phase) (\<lambda>_.
       if pe_witness_sha256 prev = witness_sha256 \<and> pe_witness_kind prev = witness_kind phase then Ok r
       else Err (if phase = PhComplete then CompleteImmutable else ReplayMismatch phase))
     else if pe_phase prev = PhComplete then Err CompleteImmutable
     else
       bind_ok (ok_or CompleteImmutable (next_phase (pe_phase prev))) (\<lambda>expected.
       if phase \<noteq> expected then Err (InvalidPhaseTransition (pe_phase prev) phase)
       else
         bind_ok (validate_state r phase) (\<lambda>_.
         let e = build_entry w (mj_schema_version j) (identity_digest w (mj_identity j))
                   (of_nat (length (mj_entries j))) phase witness_sha256
                   (legacy_upload_migration_record_body_digest w r) (pe_entry_sha256 prev);
             updated = with_journal (j\<lparr>mj_entries := mj_entries j @ [e]\<rparr>) r in
         bind_ok (validate_legacy_upload_migration_record w updated) (\<lambda>_. Ok updated)))))"

subsection \<open>Preparation\<close>

text \<open>The authority for a cohort of two: for each, its identity and the digest of its witness.\<close>

record authorized_preparation =
  zp_identity :: migration_identity
  zp_prepared_witness_sha256 :: string

type_synonym cohort_authority = "authorized_preparation \<times> authorized_preparation"

definition both :: "'a \<times> 'a \<Rightarrow> 'a list" where
  "both p = [fst p, snd p]"

text \<open>The only one of a pair with a property.\<close>

definition unique_of :: "('a \<Rightarrow> bool) \<Rightarrow> 'a \<times> 'a \<Rightarrow> 'a option" where
  "unique_of P p = (case filter P (both p) of [x] \<Rightarrow> Some x | _ \<Rightarrow> None)"

definition preparation_for_asset :: "cohort_authority \<Rightarrow> string \<Rightarrow> authorized_preparation option" where
  "preparation_for_asset au a = unique_of (\<lambda>p. mi_asset_id (zp_identity p) = a) au"

definition same_cohort :: "migration_identity \<Rightarrow> migration_identity \<Rightarrow> bool" where
  "same_cohort i k \<longleftrightarrow>
     mi_migration_id i = mi_migration_id k \<and> mi_evidence_sha256 i = mi_evidence_sha256 k
     \<and> mi_cohort_sha256 i = mi_cohort_sha256 k"

definition validate_cohort_authority :: "workflow_world \<Rightarrow> cohort_authority \<Rightarrow> migration_error + unit" where
  "validate_cohort_authority w au =
     (case au of (p, q) \<Rightarrow>
        bind_ok (validate_identity w (zp_identity p)) (\<lambda>_.
        bind_ok (validate_identity w (zp_identity q)) (\<lambda>_.
        bind_ok (validate_digest ''prepared_witness_sha256'' (zp_prepared_witness_sha256 p)) (\<lambda>_.
        bind_ok (validate_digest ''prepared_witness_sha256'' (zp_prepared_witness_sha256 q)) (\<lambda>_.
        fail_if (mi_asset_id (zp_identity p) = mi_asset_id (zp_identity q)
                 \<or> \<not> same_cohort (zp_identity p) (zp_identity q)
                 \<or> \<not> plan_eq (mi_quarantine_plan (zp_identity p)) (mi_quarantine_plan (zp_identity q)))
          CohortAuthorityMismatch)))))"

definition prepare_legacy_upload_migration_record ::
  "workflow_world \<Rightarrow> cohort_authority \<Rightarrow> asset_record \<Rightarrow> migration_error + asset_record"
where
  "prepare_legacy_upload_migration_record w au r =
     bind_ok (validate_cohort_authority w au) (\<lambda>_.
     bind_ok (ok_or CohortAuthorityMismatch (preparation_for_asset au (ar_asset_id r))) (\<lambda>p.
     let i = zp_identity p; witness_sha256 = zp_prepared_witness_sha256 p in
     if has_proof r LEGACY_UPLOAD_MIGRATION_PROOF_NAME
     then
       bind_ok (validate_journal_for_record w r True) (\<lambda>j.
       if \<not> identity_eq (mj_identity j) i then Err IdentityMismatch
       else advance_legacy_upload_migration_record_with_witness w PhPrepared witness_sha256 r)
     else
       bind_ok (validate_identity w i) (\<lambda>_.
       bind_ok (validate_digest ''witness_sha256'' witness_sha256) (\<lambda>_.
       bind_ok (fail_if (mi_asset_id i \<noteq> ar_asset_id r) IdentityMismatch) (\<lambda>_.
       bind_ok (fail_if (mi_source_record_sha256 i \<noteq> legacy_upload_migration_record_digest w r)
         SourceRecordMismatch) (\<lambda>_.
       bind_ok (validate_state r PhPrepared) (\<lambda>_.
       let e = build_entry w LEGACY_UPLOAD_MIGRATION_SCHEMA_VERSION (identity_digest w i) 0 PhPrepared
                 witness_sha256 (legacy_upload_migration_record_body_digest w r) GENESIS_ENTRY_SHA256;
           updated = with_journal \<lparr>mj_schema_version = LEGACY_UPLOAD_MIGRATION_SCHEMA_VERSION,
                                   mj_identity = i, mj_entries = [e]\<rparr> r in
       bind_ok (validate_legacy_upload_migration_record w updated) (\<lambda>_. Ok updated))))))))"

end
