(* ===== verification/Migration_Update.thy ===== *)
theory Migration_Update
  imports Migration_Journal
begin

section \<open>Updates of the legacy upload migration\<close>

text \<open>
  What may change between two phases (\<open>delta_policy\<close>), how an update of one record is validated, and the
  authority of a phase: the digests of the records a step starts from and ends with, made together with
  the updated records. The checks of a delta run the operations of \<open>workflow.rs\<close> on a copy of the record;
  they read one world.
\<close>

datatype migration_commit_error =
    CommitMismatchedAssetIds
  | CommitDuplicateAsset
  | CommitCohortMismatch
  | CommitCohortAuthorityMismatch
  | CommitPhaseAuthorityMismatch
  | InvalidRecordTransition
  | BatchTransitionMismatch
  | CommitStateStore store_error

datatype transition_shape = Replay migration_phase | Advance migration_phase migration_phase

datatype delta_policy =
    JournalOnly
  | ResetLegacyLineage
  | InstallVerifiedConversion
  | InstallVerifiedUpload
  | InstallVerifiedMirror

definition for_transition :: "migration_phase \<Rightarrow> migration_phase \<Rightarrow> delta_policy option" where
  "for_transition from_phase to_phase =
     (case (from_phase, to_phase) of
        (PhPrepared, PhDeleteConfirmed) \<Rightarrow> Some JournalOnly
      | (PhDeleteConfirmed, PhQuarantined) \<Rightarrow> Some JournalOnly
      | (PhConverted, PhUploadPrepared) \<Rightarrow> Some JournalOnly
      | (PhMirrored, PhComplete) \<Rightarrow> Some JournalOnly
      | (PhQuarantined, PhReset) \<Rightarrow> Some ResetLegacyLineage
      | (PhReset, PhConverted) \<Rightarrow> Some InstallVerifiedConversion
      | (PhUploadPrepared, PhUploadVerified) \<Rightarrow> Some InstallVerifiedUpload
      | (PhUploadVerified, PhMirrored) \<Rightarrow> Some InstallVerifiedMirror
      | _ \<Rightarrow> None)"

subsection \<open>Proofs\<close>

definition proofs_without_migration_journal :: "asset_record \<Rightarrow> proofs" where
  "proofs_without_migration_journal r = bt_remove LEGACY_UPLOAD_MIGRATION_PROOF_NAME (ar_proofs r)"

definition records_match_except_migration_journal :: "asset_record \<Rightarrow> asset_record \<Rightarrow> bool" where
  "records_match_except_migration_journal expected updated \<longleftrightarrow>
     ar_asset_id expected = ar_asset_id updated \<and> path_eq (ar_raw_path expected) (ar_raw_path updated)
     \<and> ar_state expected = ar_state updated \<and> ar_failures expected = ar_failures updated
     \<and> ar_updated_at expected = ar_updated_at updated
     \<and> proofs_without_migration_journal expected = proofs_without_migration_journal updated"

fun remove_proofs :: "string list \<Rightarrow> proofs \<Rightarrow> proofs option" where
  "remove_proofs [] desired = Some desired"
| "remove_proofs (k # ks) desired =
     (if bt_contains desired k then remove_proofs ks (bt_remove k desired) else None)"

fun add_proofs :: "proofs \<Rightarrow> string list \<Rightarrow> proofs \<Rightarrow> proofs option" where
  "add_proofs updated [] desired = Some desired"
| "add_proofs updated (k # ks) desired =
     (if bt_contains desired k then None
      else case bt_get updated k of
             None \<Rightarrow> None
           | Some v \<Rightarrow> add_proofs updated ks (bt_insert k v desired))"

definition exact_proof_delta :: "asset_record \<Rightarrow> asset_record \<Rightarrow> string list \<Rightarrow> string list \<Rightarrow> bool" where
  "exact_proof_delta expected updated removed added \<longleftrightarrow>
     Option.bind (remove_proofs removed (proofs_without_migration_journal expected))
       (add_proofs (proofs_without_migration_journal updated) added)
     = Some (proofs_without_migration_journal updated)"

definition decode_canonical_proof :: "('a \<Rightarrow> json) \<Rightarrow> (json \<Rightarrow> 'a option) \<Rightarrow> asset_record \<Rightarrow> string \<Rightarrow> 'a option" where
  "decode_canonical_proof ser de r k =
     Option.bind (get_proof r k) (\<lambda>v.
     Option.bind (de v) (\<lambda>p. if ser p = v then Some p else None))"

definition manifest_with_record :: "workflow_world \<Rightarrow> asset_record \<Rightarrow> migration_manifest option" where
  "manifest_with_record w r =
     (case validate_journal_for_record w r False of
        Inl _ \<Rightarrow> None
      | Inr _ \<Rightarrow>
          if has_proof r LEGACY_UPLOAD_MIGRATION_PROOF_NAME
          then Some (insert_record (r\<lparr>ar_proofs := proofs_without_migration_journal r\<rparr>) new_manifest)
          else None)"

definition generated_proofs_match :: "migration_manifest \<Rightarrow> asset_record \<Rightarrow> string list \<Rightarrow> bool" where
  "generated_proofs_match generated updated ks \<longleftrightarrow>
     (case manifest_get generated (ar_asset_id updated) of
        Inl _ \<Rightarrow> False
      | Inr r \<Rightarrow> list_all (\<lambda>k. get_proof r k = get_proof updated k) ks)"

subsection \<open>The deltas that install proofs\<close>

definition conversion_delta_input :: "conversion_result_proof \<Rightarrow> conversion_result_input" where
  "conversion_delta_input p =
     \<lparr>ci_heic_path = cp_heic_path p, ci_heic_sha256 = cp_heic_sha256 p, ci_size_bytes = cp_size_bytes p,
      ci_source_binding = cp_source_binding p\<rparr>"

definition performance_delta_input :: "conversion_performance_proof \<Rightarrow> conversion_performance_input" where
  "performance_delta_input p =
     \<lparr>pi_measured_at_unix_seconds = pp_measured_at_unix_seconds p, pi_conversion_tool = pp_conversion_tool p,
      pi_conversion_tool_version = pp_conversion_tool_version p, pi_heic_quality = pp_heic_quality p,
      pi_convert_wall_time_millis = pp_convert_wall_time_millis p,
      pi_total_wall_time_millis = pp_total_wall_time_millis p,
      pi_user_cpu_time_millis = pp_user_cpu_time_millis p,
      pi_system_cpu_time_millis = pp_system_cpu_time_millis p, pi_peak_rss_kib = pp_peak_rss_kib p,
      pi_conversion_command_timings = pp_conversion_command_timings p\<rparr>"

definition heic_delta_input :: "heic_verification_proof \<Rightarrow> heic_verification_input" where
  "heic_delta_input p =
     \<lparr>hi_heic_path = hp_heic_path p, hi_heic_sha256 = hp_heic_sha256 p, hi_size_bytes = hp_size_bytes p,
      hi_heif_info_ok = hp_heif_info_ok p, hi_metadata_copied = hp_metadata_copied p,
      hi_visual_content_ok = hp_visual_content_ok p, hi_visual_match_ok = hp_visual_match_ok p,
      hi_visual_rmse_ppm = hp_visual_rmse_ppm p, hi_visual_mae_ppm = hp_visual_mae_ppm p\<rparr>"

text \<open>The manifest the operations of the workflow make of the expected record and the new proofs.\<close>

definition install_conversion ::
  "workflow_world \<Rightarrow> conversion_result_proof \<Rightarrow> conversion_performance_proof \<Rightarrow> heic_verification_proof
     \<Rightarrow> migration_manifest \<Rightarrow> string \<Rightarrow> workflow_error + migration_manifest"
where
  "install_conversion w conversion performance heic m a =
     bind_ok (record_current_conversion_result w (conversion_delta_input conversion) m a) (\<lambda>m.
     bind_ok (record_current_conversion_performance w (performance_delta_input performance) m a) (\<lambda>m.
     record_current_heic_verification w (heic_delta_input heic) m a))"

definition validate_verified_conversion_delta :: "workflow_world \<Rightarrow> asset_record \<Rightarrow> asset_record \<Rightarrow> bool" where
  "validate_verified_conversion_delta w expected updated \<longleftrightarrow>
     (case (decode_canonical_proof ser_conversion_result_proof de_conversion_result_proof updated CONVERSION_PROOF,
            decode_canonical_proof ser_conversion_performance_proof de_conversion_performance_proof updated
              CONVERSION_PERFORMANCE_PROOF,
            decode_canonical_proof ser_heic_verification_proof de_heic_verification_proof updated HEIC_PROOF) of
        (Some conversion, Some performance, Some heic) \<Rightarrow>
          is_ok (validate_digest ''heic_sha256'' (cp_heic_sha256 conversion))
          \<and> (case manifest_with_record w expected of
               None \<Rightarrow> False
             | Some m \<Rightarrow>
                 (case install_conversion w conversion performance heic m (ar_asset_id expected) of
                    Inl _ \<Rightarrow> False
                  | Inr m' \<Rightarrow>
                      generated_proofs_match m' updated
                        [CONVERSION_PROOF, CONVERSION_PERFORMANCE_PROOF, HEIC_PROOF]))
      | _ \<Rightarrow> False)"

definition validate_verified_upload_delta :: "workflow_world \<Rightarrow> asset_record \<Rightarrow> asset_record \<Rightarrow> bool" where
  "validate_verified_upload_delta w expected updated \<longleftrightarrow>
     (case decode_canonical_proof ser_upload_proof de_upload_proof updated UPLOAD_PROOF of
        None \<Rightarrow> False
      | Some upload \<Rightarrow>
          (case manifest_with_record w expected of
             None \<Rightarrow> False
           | Some m \<Rightarrow>
               (case record_upload_proof w upload m (ar_asset_id expected) of
                  Inl _ \<Rightarrow> False
                | Inr m' \<Rightarrow>
                    is_ok (uploaded_heic_delete_request m' (ar_asset_id expected))
                    \<and> generated_proofs_match m' updated [UPLOAD_PROOF])))"

definition validate_verified_mirror_delta :: "workflow_world \<Rightarrow> asset_record \<Rightarrow> asset_record \<Rightarrow> bool" where
  "validate_verified_mirror_delta w expected updated \<longleftrightarrow>
     (case decode_canonical_proof ser_icloudpd_local_mirror_proof de_icloudpd_local_mirror_proof updated
             ICLOUDPD_LOCAL_MIRROR_PROOF of
        None \<Rightarrow> False
      | Some mirror \<Rightarrow>
          (case manifest_with_record w expected of
             None \<Rightarrow> False
           | Some m \<Rightarrow>
               (case record_icloudpd_local_mirror_proof w mirror m (ar_asset_id expected) of
                  Inl _ \<Rightarrow> False
                | Inr m' \<Rightarrow> generated_proofs_match m' updated [ICLOUDPD_LOCAL_MIRROR_PROOF])))"

subsection \<open>Updates of one record\<close>

definition delta_valid :: "workflow_world \<Rightarrow> asset_record \<Rightarrow> asset_record \<Rightarrow> delta_policy \<Rightarrow> bool" where
  "delta_valid w expected updated policy \<longleftrightarrow>
     (case policy of
        JournalOnly \<Rightarrow>
          ar_state expected = ar_state updated
          \<and> proofs_without_migration_journal expected = proofs_without_migration_journal updated
      | ResetLegacyLineage \<Rightarrow>
          ar_state expected = UploadVerified \<and> ar_state updated = NasVerified
          \<and> exact_proof_delta expected updated
              [CONVERSION_PROOF, CONVERSION_PERFORMANCE_PROOF, HEIC_PROOF, UPLOAD_PROOF, ICLOUDPD_LOCAL_MIRROR_PROOF]
              []
      | InstallVerifiedConversion \<Rightarrow>
          ar_state expected = NasVerified \<and> ar_state updated = ConversionVerified
          \<and> exact_proof_delta expected updated [] [CONVERSION_PROOF, CONVERSION_PERFORMANCE_PROOF, HEIC_PROOF]
          \<and> validate_verified_conversion_delta w expected updated
      | InstallVerifiedUpload \<Rightarrow>
          ar_state expected = ConversionVerified \<and> ar_state updated = UploadVerified
          \<and> exact_proof_delta expected updated [] [UPLOAD_PROOF]
          \<and> validate_verified_upload_delta w expected updated
      | InstallVerifiedMirror \<Rightarrow>
          ar_state expected = UploadVerified \<and> ar_state updated = UploadVerified
          \<and> exact_proof_delta expected updated [] [ICLOUDPD_LOCAL_MIRROR_PROOF]
          \<and> validate_verified_mirror_delta w expected updated)"

definition validate_transition_delta ::
  "workflow_world \<Rightarrow> asset_record \<Rightarrow> asset_record \<Rightarrow> delta_policy \<Rightarrow> migration_commit_error + unit"
where
  "validate_transition_delta w expected updated policy =
     bind_ok (fail_if (ar_asset_id expected \<noteq> ar_asset_id updated
                       \<or> \<not> path_eq (ar_raw_path expected) (ar_raw_path updated)
                       \<or> ar_failures expected \<noteq> ar_failures updated
                       \<or> ar_updated_at expected \<noteq> ar_updated_at updated) InvalidRecordTransition) (\<lambda>_.
     fail_if (\<not> delta_valid w expected updated policy) InvalidRecordTransition)"

definition journal_phase :: "migration_journal \<Rightarrow> migration_phase" where
  "journal_phase j = pe_phase (last (mj_entries j))"

definition validate_legacy_upload_migration_record_update ::
  "workflow_world \<Rightarrow> asset_record \<Rightarrow> asset_record \<Rightarrow> migration_commit_error + transition_shape"
where
  "validate_legacy_upload_migration_record_update w expected updated =
     bind_ok (map_err (\<lambda>_. InvalidRecordTransition) (validate_legacy_upload_migration_record w expected)) (\<lambda>j.
     bind_ok (map_err (\<lambda>_. InvalidRecordTransition) (validate_legacy_upload_migration_record w updated)) (\<lambda>j'.
     bind_ok (fail_if (ar_asset_id expected \<noteq> ar_asset_id updated \<or> \<not> identity_eq (mj_identity j) (mj_identity j'))
       InvalidRecordTransition) (\<lambda>_.
     if migration_record_eq expected updated then Ok (Replay (journal_phase j))
     else
       bind_ok (fail_if (length (mj_entries j') \<noteq> length (mj_entries j) + 1
                         \<or> take (length (mj_entries j)) (mj_entries j') \<noteq> mj_entries j) InvalidRecordTransition) (\<lambda>_.
       bind_ok (ok_or InvalidRecordTransition (for_transition (journal_phase j) (journal_phase j'))) (\<lambda>policy.
       bind_ok (validate_transition_delta w expected updated policy) (\<lambda>_.
       Ok (Advance (journal_phase j) (journal_phase j'))))))))"

subsection \<open>The authority of a phase\<close>

record authorized_transition =
  zt_asset_id :: string
  zt_expected_record_sha256 :: string
  zt_candidate_record_sha256 :: string
  zt_updated_record_sha256 :: string
  zt_payload_sha256 :: string
  zt_witness_sha256 :: string

record phase_authority =
  za_migration_id :: string
  za_evidence_sha256 :: string
  za_cohort_sha256 :: string
  za_from :: migration_phase
  za_to :: migration_phase
  za_transitions :: "authorized_transition \<times> authorized_transition"

definition transition_for_asset :: "phase_authority \<Rightarrow> string \<Rightarrow> authorized_transition option" where
  "transition_for_asset au a = unique_of (\<lambda>t. zt_asset_id t = a) (za_transitions au)"

definition phase_authority_witness_sha256 ::
  "workflow_world \<Rightarrow> phase_authority \<Rightarrow> authorized_transition \<Rightarrow> string"
where
  "phase_authority_witness_sha256 w au t =
     canonical_digest w (JObject
       [(''schema_version'', ser_u64 LEGACY_UPLOAD_MIGRATION_SCHEMA_VERSION),
        (''migration_id'', JString (za_migration_id au)), (''evidence_sha256'', JString (za_evidence_sha256 au)),
        (''cohort_sha256'', JString (za_cohort_sha256 au)), (''asset_id'', JString (zt_asset_id t)),
        (''from'', ser_migration_phase (za_from au)), (''to'', ser_migration_phase (za_to au)),
        (''expected_record_sha256'', JString (zt_expected_record_sha256 t)),
        (''candidate_record_sha256'', JString (zt_candidate_record_sha256 t)),
        (''payload_sha256'', JString (zt_payload_sha256 t))])"

definition authorized_transition_ok ::
  "workflow_world \<Rightarrow> phase_authority \<Rightarrow> authorized_transition \<Rightarrow> migration_error + unit"
where
  "authorized_transition_ok w au t =
     checks
       [validate_remote_identity ''asset_id'' (zt_asset_id t),
        validate_digest ''expected_record_sha256'' (zt_expected_record_sha256 t),
        validate_digest ''candidate_record_sha256'' (zt_candidate_record_sha256 t),
        validate_digest ''updated_record_sha256'' (zt_updated_record_sha256 t),
        validate_digest ''payload_sha256'' (zt_payload_sha256 t),
        validate_digest ''witness_sha256'' (zt_witness_sha256 t),
        fail_if (zt_witness_sha256 t \<noteq> phase_authority_witness_sha256 w au t) PhaseAuthorityMismatch]"

definition validate_phase_authority :: "workflow_world \<Rightarrow> phase_authority \<Rightarrow> migration_error + unit" where
  "validate_phase_authority w au =
     checks
       [validate_digest ''migration_id'' (za_migration_id au),
        validate_digest ''evidence_sha256'' (za_evidence_sha256 au),
        validate_digest ''cohort_sha256'' (za_cohort_sha256 au),
        fail_if (for_transition (za_from au) (za_to au) = None
                 \<or> zt_asset_id (fst (za_transitions au)) = zt_asset_id (snd (za_transitions au)))
          PhaseAuthorityMismatch,
        authorized_transition_ok w au (fst (za_transitions au)),
        authorized_transition_ok w au (snd (za_transitions au))]"

definition phase_authority_matches_identity :: "phase_authority \<Rightarrow> migration_identity \<Rightarrow> bool" where
  "phase_authority_matches_identity au i \<longleftrightarrow>
     mi_migration_id i = za_migration_id au \<and> mi_evidence_sha256 i = za_evidence_sha256 au
     \<and> mi_cohort_sha256 i = za_cohort_sha256 au"

definition advance_legacy_upload_migration_record ::
  "workflow_world \<Rightarrow> phase_authority \<Rightarrow> asset_record \<Rightarrow> migration_error + asset_record"
where
  "advance_legacy_upload_migration_record w au r =
     bind_ok (validate_phase_authority w au) (\<lambda>_.
     bind_ok (ok_or PhaseAuthorityMismatch (transition_for_asset au (ar_asset_id r))) (\<lambda>t.
     bind_ok (validate_journal_for_record w r False) (\<lambda>j.
     bind_ok (fail_if (\<not> phase_authority_matches_identity au (mj_identity j)) PhaseAuthorityMismatch) (\<lambda>_.
     bind_ok (if journal_phase j = za_from au then Ok (zt_candidate_record_sha256 t)
              else if journal_phase j = za_to au then Ok (zt_updated_record_sha256 t)
              else Err PhaseAuthorityMismatch) (\<lambda>expected_digest.
     bind_ok (fail_if (legacy_upload_migration_record_digest w r \<noteq> expected_digest) PhaseAuthorityMismatch) (\<lambda>_.
     bind_ok (advance_legacy_upload_migration_record_with_witness w (za_to au) (zt_witness_sha256 t) r) (\<lambda>updated.
     bind_ok (fail_if (legacy_upload_migration_record_digest w updated \<noteq> zt_updated_record_sha256 t)
       PhaseAuthorityMismatch) (\<lambda>_.
     Ok updated))))))))"

text \<open>The receipts of a step are given by their JSON.\<close>

definition pending_transition ::
  "workflow_world \<Rightarrow> asset_record \<Rightarrow> asset_record \<Rightarrow> json \<Rightarrow> authorized_transition"
where
  "pending_transition w expected candidate receipt =
     \<lparr>zt_asset_id = ar_asset_id candidate,
      zt_expected_record_sha256 = legacy_upload_migration_record_digest w expected,
      zt_candidate_record_sha256 = legacy_upload_migration_record_digest w candidate,
      zt_updated_record_sha256 = canonical_digest w (JString ''pending_updated_record''),
      zt_payload_sha256 = canonical_digest w receipt,
      zt_witness_sha256 = canonical_digest w (JString ''pending_phase_witness'')\<rparr>"

definition build_legacy_upload_migration_phase_authority ::
  "workflow_world \<Rightarrow> migration_phase \<Rightarrow> asset_record \<times> asset_record \<Rightarrow> asset_record \<times> asset_record \<Rightarrow> json \<times> json
     \<Rightarrow> migration_error + phase_authority \<times> asset_record \<times> asset_record"
where
  "build_legacy_upload_migration_phase_authority w to_phase expected candidates receipts =
     bind_ok (validate_journal_for_record w (fst candidates) False) (\<lambda>left.
     bind_ok (validate_journal_for_record w (snd candidates) False) (\<lambda>right.
     let from_phase = journal_phase left in
     bind_ok (fail_if (journal_phase right \<noteq> from_phase \<or> \<not> same_cohort (mj_identity left) (mj_identity right)
                       \<or> next_phase from_phase \<noteq> Some to_phase) PhaseAuthorityMismatch) (\<lambda>_.
     let t = pending_transition w (fst expected) (fst candidates) (fst receipts);
         u = pending_transition w (snd expected) (snd candidates) (snd receipts);
         au = \<lparr>za_migration_id = mi_migration_id (mj_identity left),
               za_evidence_sha256 = mi_evidence_sha256 (mj_identity left),
               za_cohort_sha256 = mi_cohort_sha256 (mj_identity left), za_from = from_phase, za_to = to_phase,
               za_transitions = (t, u)\<rparr>;
         t = t\<lparr>zt_witness_sha256 := phase_authority_witness_sha256 w au t\<rparr>;
         u = u\<lparr>zt_witness_sha256 := phase_authority_witness_sha256 w au u\<rparr> in
     bind_ok (advance_legacy_upload_migration_record_with_witness w to_phase (zt_witness_sha256 t) (fst candidates))
       (\<lambda>first.
     bind_ok (advance_legacy_upload_migration_record_with_witness w to_phase (zt_witness_sha256 u) (snd candidates))
       (\<lambda>second.
     let au = au\<lparr>za_transitions :=
                (t\<lparr>zt_updated_record_sha256 := legacy_upload_migration_record_digest w first\<rparr>,
                 u\<lparr>zt_updated_record_sha256 := legacy_upload_migration_record_digest w second\<rparr>)\<rparr> in
     bind_ok (validate_phase_authority w au) (\<lambda>_. Ok (au, first, second)))))))"

end
