(* ===== verification/Migration_Commit.thy ===== *)
theory Migration_Commit
  imports Migration_Update
begin

section \<open>The registry of the legacy upload migration and its commits\<close>

text \<open>
  The sealed registry of a cohort of two assets, its binding to the records of a manifest, the split of a
  manifest into ordinary and migrated records, and the two commits of \<open>src/src/legacy_upload_migration.rs\<close>:
  a pair of records is swapped in one transaction of the state store, under the authority of the
  cohort for the first phase and of a phase for the others.
\<close>

subsection \<open>The registry\<close>

definition legacy_upload_migration_registry_digest :: "workflow_world \<Rightarrow> migration_registry \<Rightarrow> string" where
  "legacy_upload_migration_registry_digest w g =
     canonical_digest w (JObject
       [(''schema_version'', ser_u64 (ms_schema_version g)), (''migration_id'', JString (ms_migration_id g)),
        (''evidence_sha256'', JString (ms_evidence_sha256 g)), (''cohort_sha256'', JString (ms_cohort_sha256 g)),
        (''quarantine_plan'', quarantine_plan_json JObject (ms_quarantine_plan g)),
        (''assets'', registry_assets_json JObject (ms_assets g))])"

definition registry_asset_ok :: "migration_registry_asset \<Rightarrow> migration_error + unit" where
  "registry_asset_ok x =
     checks
       [validate_remote_identity ''asset_id'' (ma_asset_id x),
        validate_digest ''identity_sha256'' (ma_identity_sha256 x),
        validate_digest ''source_record_sha256'' (ma_source_record_sha256 x),
        validate_digest ''original_asset_identity_sha256'' (ma_original_asset_identity_sha256 x),
        validate_digest ''old_conversion_lineage_sha256'' (ma_old_conversion_lineage_sha256 x),
        validate_digest ''old_upload_lineage_sha256'' (ma_old_upload_lineage_sha256 x),
        validate_digest ''old_mirror_lineage_sha256'' (ma_old_mirror_lineage_sha256 x)]"

definition validate_legacy_upload_migration_registry ::
  "workflow_world \<Rightarrow> migration_registry \<Rightarrow> migration_error + unit"
where
  "validate_legacy_upload_migration_registry w g =
     checks
       [fail_if (ms_schema_version g \<noteq> LEGACY_UPLOAD_MIGRATION_REGISTRY_SCHEMA_VERSION) RegistryTampered,
        validate_digest ''migration_id'' (ms_migration_id g),
        validate_digest ''evidence_sha256'' (ms_evidence_sha256 g),
        validate_digest ''cohort_sha256'' (ms_cohort_sha256 g),
        validate_digest ''registry_sha256'' (ms_registry_sha256 g),
        validate_quarantine_plan w (ms_quarantine_plan g),
        fail_if (ma_asset_id (snd (ms_assets g)) \<le> ma_asset_id (fst (ms_assets g))) RegistryTampered,
        registry_asset_ok (fst (ms_assets g)),
        registry_asset_ok (snd (ms_assets g)),
        fail_if (ms_registry_sha256 g \<noteq> legacy_upload_migration_registry_digest w g) RegistryTampered]"

definition registry_asset_of :: "workflow_world \<Rightarrow> migration_identity \<Rightarrow> migration_registry_asset" where
  "registry_asset_of w i =
     \<lparr>ma_asset_id = mi_asset_id i, ma_identity_sha256 = identity_digest w i,
      ma_source_record_sha256 = mi_source_record_sha256 i,
      ma_original_asset_identity_sha256 = mi_original_asset_identity_sha256 i,
      ma_old_conversion_lineage_sha256 = mi_old_conversion_lineage_sha256 i,
      ma_old_upload_lineage_sha256 = mi_old_upload_lineage_sha256 i,
      ma_old_mirror_lineage_sha256 = mi_old_mirror_lineage_sha256 i\<rparr>"

definition sealed_registry :: "workflow_world \<Rightarrow> migration_identity \<Rightarrow> migration_identity \<Rightarrow> migration_registry" where
  "sealed_registry w i k =
     (let g = \<lparr>ms_schema_version = LEGACY_UPLOAD_MIGRATION_REGISTRY_SCHEMA_VERSION,
               ms_migration_id = mi_migration_id i, ms_evidence_sha256 = mi_evidence_sha256 i,
               ms_cohort_sha256 = mi_cohort_sha256 i, ms_quarantine_plan = mi_quarantine_plan i,
               ms_assets = (registry_asset_of w i, registry_asset_of w k), ms_registry_sha256 = []\<rparr> in
      g\<lparr>ms_registry_sha256 := legacy_upload_migration_registry_digest w g\<rparr>)"

definition legacy_upload_migration_registry_from_identities ::
  "workflow_world \<Rightarrow> migration_identity \<times> migration_identity \<Rightarrow> migration_error + migration_registry"
where
  "legacy_upload_migration_registry_from_identities w identities =
     (let (i, k) = (if mi_asset_id (snd identities) < mi_asset_id (fst identities)
                    then (snd identities, fst identities) else identities) in
      bind_ok (fail_if (mi_asset_id i = mi_asset_id k \<or> \<not> same_cohort i k
                        \<or> \<not> plan_eq (mi_quarantine_plan i) (mi_quarantine_plan k)) CohortAuthorityMismatch) (\<lambda>_.
      bind_ok (validate_identity w i) (\<lambda>_.
      bind_ok (validate_identity w k) (\<lambda>_.
      bind_ok (validate_legacy_upload_migration_registry w (sealed_registry w i k)) (\<lambda>_.
      Ok (sealed_registry w i k))))))"

definition legacy_upload_migration_registry_from_authority ::
  "workflow_world \<Rightarrow> cohort_authority \<Rightarrow> migration_error + migration_registry"
where
  "legacy_upload_migration_registry_from_authority w au =
     legacy_upload_migration_registry_from_identities w (zp_identity (fst au), zp_identity (snd au))"

definition legacy_upload_migration_registry_from_journals ::
  "workflow_world \<Rightarrow> migration_journal list \<Rightarrow> migration_error + migration_registry"
where
  "legacy_upload_migration_registry_from_journals w js =
     (case js of
        [j, j'] \<Rightarrow> legacy_upload_migration_registry_from_identities w (mj_identity j, mj_identity j')
      | _ \<Rightarrow> Err RegistryCohortMismatch)"

subsection \<open>The binding\<close>

definition journal_records :: "migration_manifest \<Rightarrow> asset_record list" where
  "journal_records m = filter (\<lambda>r. has_proof r LEGACY_UPLOAD_MIGRATION_PROOF_NAME) (bt_values (mf_records m))"

definition validate_legacy_upload_migration_registry_binding ::
  "workflow_world \<Rightarrow> migration_manifest \<Rightarrow> bool \<Rightarrow> migration_error + unit"
where
  "validate_legacy_upload_migration_registry_binding w m require_complete =
     (case mf_registry m of
        None \<Rightarrow> fail_if (journal_records m \<noteq> []) RegistryMissing
      | Some registry \<Rightarrow>
          bind_ok (validate_legacy_upload_migration_registry w registry) (\<lambda>_.
          bind_ok (fail_if (length (journal_records m) \<noteq> 2) RegistryCohortMismatch) (\<lambda>_.
          bind_ok (try_map (validate_legacy_upload_migration_record w) (journal_records m)) (\<lambda>js.
          bind_ok (fail_if (journal_phase (hd js) \<noteq> journal_phase (last js)) RegistryCohortMismatch) (\<lambda>_.
          bind_ok (if require_complete
                   then fail_if (journal_phase (hd js) \<noteq> PhComplete) (IncompleteJournal (journal_phase (hd js)))
                   else Ok ()) (\<lambda>_.
          bind_ok (legacy_upload_migration_registry_from_journals w js) (\<lambda>expected.
          fail_if (\<not> registry_eq expected registry) RegistryCohortMismatch)))))))"

definition classify_record ::
  "workflow_world \<Rightarrow> asset_record \<Rightarrow> migration_manifest \<times> string set
     \<Rightarrow> migration_error + migration_manifest \<times> string set"
where
  "classify_record w r acc =
     (case acc of (ordinary, sealed_ids) \<Rightarrow>
        if \<not> has_proof r LEGACY_UPLOAD_MIGRATION_PROOF_NAME then Ok (insert_record r ordinary, sealed_ids)
        else
          bind_ok (validate_legacy_upload_migration_record w r) (\<lambda>j.
          if journal_phase j \<noteq> PhComplete then Err (IncompleteJournal (journal_phase j))
          else Ok (ordinary, insert (ar_asset_id r) sealed_ids)))"

definition classify_legacy_upload_migration_records ::
  "workflow_world \<Rightarrow> migration_manifest \<Rightarrow> migration_error + migration_manifest \<times> string set"
where
  "classify_legacy_upload_migration_records w m =
     bind_ok (validate_legacy_upload_migration_registry_binding w m True) (\<lambda>_.
     try_fold (classify_record w) (bt_values (mf_records m)) (new_manifest, {}))"

subsection \<open>The interface to the manifest and the state store\<close>

text \<open>What \<open>Manifest_Store\<close> takes as a parameter, now from the source.\<close>

definition migration_registry_api :: "workflow_world \<Rightarrow> migration_registry registry_api" where
  "migration_registry_api w =
     \<lparr>reg_ser = migration_registry_json jobject, reg_fields = migration_registry_json JObject,
      reg_de = de_migration_registry,
      reg_valid = (\<lambda>g. is_ok (validate_legacy_upload_migration_registry w g)),
      reg_sha256 = ms_registry_sha256,
      reg_binding = (\<lambda>m. is_ok (validate_legacy_upload_migration_registry_binding w m False))\<rparr>"

text \<open>And the state store, with the parser of JSON texts left as a parameter.\<close>

definition migration_store_api :: "workflow_world \<Rightarrow> (string \<Rightarrow> raw_json option) \<Rightarrow> migration_registry store_api" where
  "migration_store_api w parse =
     \<lparr>sa_parse = parse, sa_float_text = ww_float_text w, sa_sha256_hex = ww_sha256_hex w,
      sa_registry = migration_registry_api w,
      sa_registry_text = (\<lambda>g. json_text (ww_float_text w) (migration_registry_json JObject g)),
      sa_registry_schema_version = ms_schema_version, sa_registry_eq = registry_eq,
      sa_migration_record_ok = (\<lambda>r. is_ok (validate_legacy_upload_migration_record w r))\<rparr>"

definition persist_records_exact_cas_atomic_with_legacy_upload_migration_authority ::
  "'r store_api \<Rightarrow> db_calls \<Rightarrow> state_store \<Rightarrow> 'r registry_write \<Rightarrow> cas_update list \<Rightarrow> state_db
     \<Rightarrow> (store_error + unit) \<times> state_db"
where
  "persist_records_exact_cas_atomic_with_legacy_upload_migration_authority api c s authority us db =
     persist_records_exact_cas_atomic_with_owned_lease api c s (Some authority) us db"

subsection \<open>Pairs\<close>

type_synonym cas_pair = "cas_update \<times> cas_update"

definition validate_preparation_update :: "workflow_world \<Rightarrow> cas_update \<Rightarrow> migration_commit_error + migration_journal" where
  "validate_preparation_update w u =
     (let prepared = has_proof (cu_expected u) LEGACY_UPLOAD_MIGRATION_PROOF_NAME in
      bind_ok (fail_if (prepared \<and> \<not> migration_record_eq (cu_expected u) (cu_updated u)
                        \<or> \<not> prepared \<and> \<not> records_match_except_migration_journal (cu_expected u) (cu_updated u))
        InvalidRecordTransition) (\<lambda>_.
      bind_ok (map_err (\<lambda>_. InvalidRecordTransition) (validate_legacy_upload_migration_record w (cu_updated u))) (\<lambda>j.
      bind_ok (fail_if (length (mj_entries j) \<noteq> 1 \<or> pe_phase (hd (mj_entries j)) \<noteq> PhPrepared
                        \<or> \<not> prepared
                          \<and> mi_source_record_sha256 (mj_identity j)
                              \<noteq> legacy_upload_migration_record_digest w (cu_expected u))
        InvalidRecordTransition) (\<lambda>_.
      Ok j))))"

definition authorized_preparation_ok ::
  "cohort_authority \<Rightarrow> cas_update \<times> migration_journal \<Rightarrow> migration_commit_error + unit"
where
  "authorized_preparation_ok au entry =
     (case entry of (u, j) \<Rightarrow>
        bind_ok (ok_or CommitCohortAuthorityMismatch (preparation_for_asset au (ar_asset_id (cu_updated u)))) (\<lambda>p.
        fail_if (\<not> identity_eq (mj_identity j) (zp_identity p) \<or> length (mj_entries j) \<noteq> 1
                 \<or> pe_witness_sha256 (hd (mj_entries j)) \<noteq> zp_prepared_witness_sha256 p)
          CommitCohortAuthorityMismatch))"

definition validate_authorized_preparation_pair ::
  "cohort_authority \<Rightarrow> cas_pair \<Rightarrow> migration_journal list \<Rightarrow> migration_commit_error + unit"
where
  "validate_authorized_preparation_pair au us js =
     bind_ok (fail_if (length js \<noteq> 2) CommitCohortAuthorityMismatch) (\<lambda>_.
     bind_ok (checks (map (authorized_preparation_ok au) (zip (both us) js))) (\<lambda>_.
     fail_if (list_ex (\<lambda>p. \<not> list_ex (\<lambda>u. ar_asset_id (cu_updated u) = mi_asset_id (zp_identity p)) (both us)) (both au))
       CommitCohortAuthorityMismatch))"

definition validate_exact_pair :: "cas_pair \<Rightarrow> migration_journal list \<Rightarrow> migration_commit_error + unit" where
  "validate_exact_pair us js =
     checks
       [fail_if (list_ex (\<lambda>u. ar_asset_id (cu_expected u) \<noteq> ar_asset_id (cu_updated u)) (both us))
          CommitMismatchedAssetIds,
        fail_if (ar_asset_id (cu_updated (fst us)) = ar_asset_id (cu_updated (snd us))) CommitDuplicateAsset,
        fail_if (\<not> same_cohort (mj_identity (js ! 1)) (mj_identity (js ! 0))) CommitCohortMismatch]"

definition persist_exact_pair ::
  "workflow_world \<Rightarrow> (string \<Rightarrow> raw_json option) \<Rightarrow> db_calls \<Rightarrow> state_store \<Rightarrow> migration_registry registry_write
     \<Rightarrow> cas_pair \<Rightarrow> state_db \<Rightarrow> (migration_commit_error + unit) \<times> state_db"
where
  "persist_exact_pair w parse c s authority us db =
     (case persist_records_exact_cas_atomic_with_legacy_upload_migration_authority (migration_store_api w parse) c s
             authority (both us) db of
        (result, db') \<Rightarrow> (map_err CommitStateStore result, db'))"

definition persist_two_legacy_upload_migration_preparations_exact_cas ::
  "workflow_world \<Rightarrow> (string \<Rightarrow> raw_json option) \<Rightarrow> db_calls \<Rightarrow> state_store \<Rightarrow> cohort_authority \<Rightarrow> cas_pair
     \<Rightarrow> state_db \<Rightarrow> (migration_commit_error + unit) \<times> state_db"
where
  "persist_two_legacy_upload_migration_preparations_exact_cas w parse c s au us db =
     (case bind_ok (map_err (\<lambda>_. CommitCohortAuthorityMismatch) (validate_cohort_authority w au)) (\<lambda>_.
           bind_ok (try_map (validate_preparation_update w) (both us)) (\<lambda>js.
           bind_ok (validate_authorized_preparation_pair au us js) (\<lambda>_.
           bind_ok (validate_exact_pair us js) (\<lambda>_.
           map_err (\<lambda>_. CommitCohortAuthorityMismatch) (legacy_upload_migration_registry_from_authority w au))))) of
        Inl e \<Rightarrow> (Err e, db)
      | Inr registry \<Rightarrow> persist_exact_pair w parse c s (InsertOnceOrExactReplay registry) us db)"

definition authorized_phase_ok ::
  "workflow_world \<Rightarrow> phase_authority \<Rightarrow> transition_shape \<Rightarrow> cas_update \<times> migration_journal
     \<Rightarrow> migration_commit_error + unit"
where
  "authorized_phase_ok w au shape entry =
     (case entry of (u, j) \<Rightarrow>
        bind_ok (ok_or CommitPhaseAuthorityMismatch (transition_for_asset au (ar_asset_id (cu_updated u)))) (\<lambda>t.
        bind_ok (fail_if (\<not> phase_authority_matches_identity au (mj_identity j)) CommitPhaseAuthorityMismatch) (\<lambda>_.
        let expected = legacy_upload_migration_record_digest w (cu_expected u);
            updated = legacy_upload_migration_record_digest w (cu_updated u);
            digest_matches = (case shape of
                Advance from_phase to_phase \<Rightarrow>
                  from_phase = za_from au \<and> to_phase = za_to au \<and> expected = zt_expected_record_sha256 t
                  \<and> updated = zt_updated_record_sha256 t
              | Replay phase \<Rightarrow>
                  phase = za_to au \<and> expected = zt_updated_record_sha256 t \<and> updated = zt_updated_record_sha256 t);
            witness_matches = (mj_entries j \<noteq> [] \<and> journal_phase j = za_to au
                               \<and> pe_witness_sha256 (last (mj_entries j)) = zt_witness_sha256 t) in
        fail_if (\<not> digest_matches \<or> \<not> witness_matches) CommitPhaseAuthorityMismatch)))"

definition validate_authorized_phase_pair ::
  "workflow_world \<Rightarrow> phase_authority \<Rightarrow> cas_pair \<Rightarrow> migration_journal list \<Rightarrow> transition_shape
     \<Rightarrow> migration_commit_error + unit"
where
  "validate_authorized_phase_pair w au us js shape =
     bind_ok (checks (map (authorized_phase_ok w au shape) (zip (both us) js))) (\<lambda>_.
     fail_if (list_ex (\<lambda>t. \<not> list_ex (\<lambda>u. ar_asset_id (cu_updated u) = zt_asset_id t) (both us)) (both (za_transitions au)))
       CommitPhaseAuthorityMismatch)"

definition validate_phase_update ::
  "workflow_world \<Rightarrow> cas_update \<Rightarrow> migration_commit_error + transition_shape \<times> migration_journal"
where
  "validate_phase_update w u =
     bind_ok (validate_legacy_upload_migration_record_update w (cu_expected u) (cu_updated u)) (\<lambda>shape.
     bind_ok (map_err (\<lambda>_. InvalidRecordTransition) (validate_legacy_upload_migration_record w (cu_updated u))) (\<lambda>j.
     Ok (shape, j)))"

definition persist_two_legacy_upload_migration_records_exact_cas ::
  "workflow_world \<Rightarrow> (string \<Rightarrow> raw_json option) \<Rightarrow> db_calls \<Rightarrow> state_store \<Rightarrow> phase_authority \<Rightarrow> cas_pair
     \<Rightarrow> state_db \<Rightarrow> (migration_commit_error + unit) \<times> state_db"
where
  "persist_two_legacy_upload_migration_records_exact_cas w parse c s au us db =
     (case bind_ok (map_err (\<lambda>_. CommitPhaseAuthorityMismatch) (validate_phase_authority w au)) (\<lambda>_.
           bind_ok (try_map (validate_phase_update w) (both us)) (\<lambda>checked.
           bind_ok (validate_exact_pair us (map snd checked)) (\<lambda>_.
           bind_ok (fail_if (fst (checked ! 0) \<noteq> fst (checked ! 1)) BatchTransitionMismatch) (\<lambda>_.
           bind_ok (validate_authorized_phase_pair w au us (map snd checked) (fst (checked ! 0))) (\<lambda>_.
           map_err (\<lambda>_. CommitPhaseAuthorityMismatch)
             (legacy_upload_migration_registry_from_journals w (map snd checked))))))) of
        Inl e \<Rightarrow> (Err e, db)
      | Inr registry \<Rightarrow> persist_exact_pair w parse c s (VerifyExact registry) us db)"

end
