(* ===== verification/Json_Text.thy ===== *)
theory Json_Text
  imports Manifest_Store
begin

section \<open>A canonical text determines its value\<close>

text \<open>
  The compact text that is hashed is a prefix code: two values with the same text are the same value, so a
  digest of a text pins the value as far as the digest has no collision. Floating point numbers are left
  out, since their text belongs to the library.
\<close>

fun plain_json :: "json \<Rightarrow> bool" where
  "plain_json (JNumber (NegInt n)) = (sint n < 0)"
| "plain_json (JNumber (Float64 n)) = False"
| "plain_json (JArray vs) = (\<forall>v\<in>set vs. plain_json v)"
| "plain_json (JObject m) = (\<forall>kv\<in>set m. plain_json (snd kv))"
| "plain_json JNull = True"
| "plain_json (JBool b) = True"
| "plain_json (JNumber (PosInt n)) = True"
| "plain_json (JString s) = True"

subsection \<open>Strings\<close>

definition unhex :: "char \<Rightarrow> nat" where
  "unhex c = (if byte c < 58 then byte c - 48 else byte c - 87)"

lemma byte_char_of: "n < 256 \<Longrightarrow> byte (char_of n) = n"
  by (simp add: byte_def of_char_of take_bit_nat_eq_self)

lemma char_of_byte: "char_of (byte c) = c"
  by (simp add: byte_def)

lemma unhex_digit: "n < 16 \<Longrightarrow> unhex (hex_digit n) = n"
  by (simp add: unhex_def hex_digit_def byte_char_of)

text \<open>The decoder of one character.\<close>

fun unescape :: "string \<Rightarrow> (char \<times> string) option" where
  "unescape [] = None"
| "unescape (x # s) =
     (if byte x \<noteq> 92 then Some (x, s)
      else case s of
             [] \<Rightarrow> None
           | y # s' \<Rightarrow>
               if byte y = 117 then Some (char_of (16 * unhex (s' ! 2) + unhex (s' ! 3)), drop 4 s')
               else Some (char_of (if byte y = 98 then 8 else if byte y = 116 then 9 else if byte y = 110 then 10
                      else if byte y = 102 then 12 else if byte y = 114 then 13 else byte y :: nat), s'))"

lemma unescape_escape: "unescape (json_escape c @ u) = Some (c, u)"
proof -
  have "char_of (16 * (byte c div 16) + byte c mod 16) = c"
    by (simp add: char_of_byte)
  moreover have "c = char_of n" if "byte c = n" for n
    using that char_of_byte [of c] by simp
  moreover have "byte c div 16 < 16" "byte c mod 16 < 16"
    by (simp_all add: byte_def less_mult_imp_div_less)
  moreover have "byte CHR ''b'' = 98" "byte CHR ''t'' = 116" "byte CHR ''n'' = 110" "byte CHR ''f'' = 102"
    "byte CHR ''r'' = 114" "byte CHR ''u'' = 117"
    by (simp_all add: byte_def)
  ultimately show ?thesis
    by (auto simp: json_escape_def Let_def byte_char_of unhex_digit char_of_byte; metis char_of_byte)
qed

lemma escape_inject: "json_escape c @ u = json_escape d @ v \<longleftrightarrow> c = d \<and> u = v"
  by (metis unescape_escape option.inject prod.inject)

lemma escape_not_quote: "json_escape c \<noteq> [] \<and> hd (json_escape c) \<noteq> CHR 0x22"
proof -
  have "char_of (92 :: nat) \<noteq> CHR 0x22"
  proof
    assume "char_of (92 :: nat) = CHR 0x22"
    then have "byte (char_of (92 :: nat)) = byte CHR 0x22" by (rule arg_cong)
    then show False unfolding byte_char_of [of 92, simplified] by (simp add: byte_def)
  qed
  then show ?thesis by (auto simp: json_escape_def Let_def byte_def)
qed

lemma escape_ends: "json_escape c @ u \<noteq> CHR 0x22 # v"
  using escape_not_quote [of c] by (cases "json_escape c") auto

lemma string_text_inject:
  "json_string_text a @ u = json_string_text b @ v \<longleftrightarrow> a = b \<and> u = v"
proof -
  have "concat (map json_escape a) @ CHR 0x22 # u = concat (map json_escape b) @ CHR 0x22 # v
      \<Longrightarrow> a = b \<and> u = v"
  proof (induction a arbitrary: b)
    case Nil
    then show ?case using escape_ends by (cases b) (auto, metis)
  next
    case (Cons c a)
    show ?case
    proof (cases b)
      case Nil
      with Cons.prems show ?thesis using escape_ends [of c] by auto
    next
      case (Cons d b')
      with Cons.prems Cons.IH [of b'] show ?thesis by (simp add: escape_inject)
    qed
  qed
  then show ?thesis by (auto simp: json_string_text_def)
qed

subsection \<open>Numbers\<close>

definition digit :: "char \<Rightarrow> bool" where
  "digit c \<longleftrightarrow> 48 \<le> byte c \<and> byte c \<le> 57"

lemma nat_text_digits: "nat_to_string n \<noteq> [] \<and> list_all digit (nat_to_string n)"
proof (induction n rule: nat_to_string.induct)
  case (1 n)
  have "digit (char_of (48 + n mod 10))" "n < 10 \<Longrightarrow> digit (char_of (48 + n))"
    by (simp_all add: digit_def byte_char_of)
  with 1 show ?case by (subst nat_to_string.simps, subst (2) nat_to_string.simps) auto
qed

lemma nat_text_inject: "nat_to_string m = nat_to_string n \<longleftrightarrow> m = n"
proof
  show "nat_to_string m = nat_to_string n \<Longrightarrow> m = n"
  proof (induction m arbitrary: n rule: nat_to_string.induct)
    case (1 m)
    have digit: "char_of (48 + a) = (char_of (48 + b) :: char) \<Longrightarrow> a < 10 \<Longrightarrow> b < 10 \<Longrightarrow> a = b" for a b :: nat
      using byte_char_of [of "48 + a"] byte_char_of [of "48 + b"] by simp
    have long: "length (nat_to_string k) = 1 \<longleftrightarrow> k < 10" for k
      using nat_text_digits [of "k div 10"] by (subst nat_to_string.simps) (auto simp: neq_Nil_conv)
    show ?case
    proof (cases "m < 10")
      case True
      with 1(2) long have "n < 10" by metis
      with True 1(2) digit show ?thesis by (simp add: nat_to_string.simps)
    next
      case False
      with 1(2) long have "\<not> n < 10" by metis
      with False 1(2) have "nat_to_string (m div 10) = nat_to_string (n div 10)"
        "char_of (48 + m mod 10) = (char_of (48 + n mod 10) :: char)"
        by (subst (asm) nat_to_string.simps, subst (asm) (2) nat_to_string.simps, simp)+
      with False 1(1) [of "n div 10"] digit [of "m mod 10" "n mod 10"] show ?thesis
        by (metis div_mult_mod_eq mod_less_divisor zero_less_numeral)
    qed
  qed
qed simp

text \<open>What may follow a value.\<close>

definition stops :: "string \<Rightarrow> bool" where
  "stops u \<longleftrightarrow> (case u of [] \<Rightarrow> True | c # _ \<Rightarrow> \<not> digit c)"

lemma nat_text_prefix:
  assumes "nat_to_string m @ u = nat_to_string n @ v" and "stops u" and "stops v"
  shows "m = n \<and> u = v"
proof -
  have "takeWhile digit (nat_to_string k @ x) = nat_to_string k" if "stops x" for k x
    using nat_text_digits [of k] that
    by (simp add: takeWhile_append list_all_iff stops_def split: list.splits)
  with assms have "nat_to_string m = nat_to_string n" by metis
  with assms(1) show ?thesis by (simp add: nat_text_inject)
qed

subsection \<open>Sequences\<close>

lemma join_with_Cons: "join_with sep (x # xs) = x @ concat (map (\<lambda>y. sep @ y) xs)"
  by (induction xs arbitrary: x) simp_all

lemma tails_inject:
  assumes "\<And>x y u v. x \<in> set xs \<Longrightarrow> P y \<Longrightarrow> stops u \<Longrightarrow> stops v \<Longrightarrow> f x @ u = f y @ v \<Longrightarrow> x = y \<and> u = v"
    and "concat (map (\<lambda>x. CHR '','' # f x) xs) @ e # u = concat (map (\<lambda>x. CHR '','' # f x) ys) @ e # v"
    and "\<forall>y\<in>set ys. P y" and "\<not> digit e" and "e \<noteq> CHR '',''"
  shows "xs = ys \<and> u = v"
  using assms(1-3)
proof (induction xs arbitrary: ys)
  case Nil
  then show ?case using assms(5) by (cases ys) auto
next
  case (Cons x xs)
  have comma: "\<not> digit CHR '',''" by (simp add: digit_def byte_def)
  then have stops: "stops (concat (map (\<lambda>x. CHR '','' # f x) zs) @ e # w)" for zs w
    using assms(4) by (cases zs) (simp_all add: stops_def)
  show ?case
  proof (cases ys)
    case Nil
    with Cons.prems(2) assms(5) show ?thesis by auto
  next
    case (Cons y ys')
    with Cons.prems have "f x @ (concat (map (\<lambda>x. CHR '','' # f x) xs) @ e # u)
        = f y @ (concat (map (\<lambda>x. CHR '','' # f x) ys') @ e # v)" by simp
    with Cons.prems(1) [of x y] Cons.prems(3) Cons stops have "x = y"
      "concat (map (\<lambda>x. CHR '','' # f x) xs) @ e # u = concat (map (\<lambda>x. CHR '','' # f x) ys') @ e # v"
      by auto
    with Cons.IH [of ys'] Cons.prems(1,3) Cons show ?thesis by auto
  qed
qed

lemma sequence_inject:
  assumes "\<And>x y u v. x \<in> set xs \<Longrightarrow> P y \<Longrightarrow> stops u \<Longrightarrow> stops v \<Longrightarrow> f x @ u = f y @ v \<Longrightarrow> x = y \<and> u = v"
    and "join_with '','' (map f xs) @ e # u = join_with '','' (map f ys) @ e # v"
    and "\<forall>y\<in>set ys. P y" and "\<not> digit e" and "e \<noteq> CHR '',''"
    and "\<And>x. x \<in> set xs \<union> set ys \<Longrightarrow> f x \<noteq> [] \<and> hd (f x) \<noteq> e"
  shows "xs = ys \<and> u = v"
proof (cases xs; cases ys)
  fix x xs' y ys'
  assume xs: "xs = x # xs'" and ys: "ys = y # ys'"
  let ?t = "\<lambda>zs w. concat (map (\<lambda>x. CHR '','' # f x) zs) @ e # w"
  have "\<not> digit CHR '',''" by (simp add: digit_def byte_def)
  then have stops: "stops (?t zs w)" for zs w
    using assms(4) by (cases zs) (simp_all add: stops_def)
  have "f x @ ?t xs' u = f y @ ?t ys' v"
    using assms(2) xs ys by (simp add: join_with_Cons comp_def)
  with assms(1) [of x y] xs ys assms(3) stops have "x = y" and tails: "?t xs' u = ?t ys' v" by auto
  moreover have "xs' = ys' \<and> u = v"
    using tails_inject [of xs' P f e u ys' v] assms(1,3,4,5) xs ys tails by auto
  ultimately show ?thesis using xs ys by simp
next
  fix y ys'
  assume "xs = []" "ys = y # ys'"
  with assms(2) assms(6) [of y] show ?thesis by (cases "f y") (auto simp: join_with_Cons)
next
  fix x xs'
  assume "xs = x # xs'" "ys = []"
  with assms(2) assms(6) [of x] show ?thesis by (cases "f x") (auto simp: join_with_Cons)
next
  assume "xs = []" "ys = []"
  with assms(2) show ?thesis by simp
qed

subsection \<open>Values\<close>

text \<open>The first character of a text tells the kind of its value.\<close>

fun json_kind :: "json \<Rightarrow> nat" where
  "json_kind JNull = 0"
| "json_kind (JBool b) = 1"
| "json_kind (JNumber n) = 2"
| "json_kind (JString s) = 3"
| "json_kind (JArray vs) = 4"
| "json_kind (JObject m) = 5"

definition char_kind :: "char \<Rightarrow> nat" where
  "char_kind c =
     (if c = CHR ''n'' then 0 else if c = CHR ''t'' \<or> c = CHR ''f'' then 1
      else if digit c \<or> c = CHR ''-'' then 2 else if c = CHR 0x22 then 3 else if c = CHR ''['' then 4
      else if c = CHR 0x7B then 5 else 6)"

lemma text_kind: "plain_json j \<Longrightarrow> \<exists>c t. json_text fmt j = c # t \<and> char_kind c = json_kind j"
proof (cases j)
  case (JNumber n)
  assume plain: "plain_json j"
  have digits: "\<exists>c t. nat_to_string k = c # t \<and> char_kind c = 2" for k
    using nat_text_digits [of k]
    by (cases "nat_to_string k") (auto simp: char_kind_def digit_def byte_def)
  show ?thesis
  proof (cases n)
    case (PosInt w)
    with JNumber digits show ?thesis by (simp add: number_text_def)
  next
    case (NegInt w)
    with JNumber show ?thesis by (simp add: number_text_def char_kind_def)
  next
    case (Float64 w)
    with JNumber plain show ?thesis by simp
  qed
qed (simp_all add: char_kind_def json_string_text_def digit_def byte_def)

lemma same_kind:
  assumes "json_text fmt j @ u = json_text fmt k @ v" and "plain_json j" and "plain_json k"
  shows "json_kind j = json_kind k"
  using text_kind [OF assms(2), of fmt] text_kind [OF assms(3), of fmt] assms(1) by auto

lemma text_starts: "plain_json j \<Longrightarrow> json_text fmt j \<noteq> [] \<and> hd (json_text fmt j) \<noteq> CHR '']''"
  using text_kind [of j fmt] by (cases j) (auto simp: char_kind_def digit_def byte_def split: if_splits)

lemma json_text_prefix:
  assumes "plain_json j" and "plain_json k" and "stops u" and "stops v"
    and "json_text fmt j @ u = json_text fmt k @ v"
  shows "j = k \<and> u = v"
  using assms
proof (induction j arbitrary: k u v rule: plain_json.induct)
  case (1 n)
  then obtain n' where k: "k = JNumber n'" using same_kind [of fmt _ u k v] by (cases k) fastforce+
  have minus: "CHR ''-'' # x \<noteq> nat_to_string m @ y" for x m y
    using nat_text_digits [of m] by (cases "nat_to_string m") (auto simp: digit_def byte_def)
  show ?case
  proof (cases n')
    case (NegInt m)
    with 1 k have "nat (- sint n) = nat (- sint m) \<and> u = v" "sint n < 0" "sint m < 0"
      using nat_text_prefix [of "nat (- sint n)" u "nat (- sint m)" v] by (auto simp: number_text_def)
    then have "sint n = sint m" and "u = v" by auto
    then have "n = m" and "u = v" by (simp_all add: signed_word_eqI)
    then show ?thesis using k NegInt by simp
  qed (use 1 k minus in \<open>auto simp: number_text_def\<close>)
next
  case (3 vs)
  then obtain ws where k: "k = JArray ws" using same_kind [of fmt _ u k v] by (cases k) fastforce+
  have "vs = ws \<and> u = v"
  proof (rule sequence_inject [where P = plain_json and f = "json_text fmt" and e = "CHR '']''"])
    show "join_with '','' (map (json_text fmt) vs) @ CHR '']'' # u = join_with '','' (map (json_text fmt) ws) @ CHR '']'' # v"
      using 3 k by simp
  qed (use 3 k text_starts in \<open>auto simp: digit_def byte_def\<close>)
  with k show ?case by simp
next
  case (4 m)
  then obtain m' where k: "k = JObject m'" using same_kind [of fmt _ u k v] by (cases k) fastforce+
  let ?f = "\<lambda>(k, v). json_string_text k @ '':'' @ json_text fmt v"
  have "m = m' \<and> u = v"
  proof (rule sequence_inject [where P = "\<lambda>kv. plain_json (snd kv)" and f = ?f and e = "CHR 0x7D"])
    fix x y u v
    assume "x \<in> set m" "plain_json (snd y)" "stops u" "stops v" "?f x @ u = ?f y @ v"
    with 4 show "x = y \<and> u = v"
      by (cases x; cases y) (auto simp: string_text_inject)
  qed (use 4 k in \<open>auto simp: digit_def byte_def json_string_text_def\<close>)
  with k show ?case by simp
next
  case 5
  then show ?case using same_kind [of fmt _ u k v] by (cases k) fastforce+
next
  case (6 b)
  then have "json_kind (JBool b) = json_kind k" by (intro same_kind)
  then obtain c where k: "k = JBool c" by (cases k) simp_all
  with 6 show ?case by (cases b; cases c) simp_all
next
  case (7 w)
  then obtain n' where k: "k = JNumber n'" using same_kind [of fmt _ u k v] by (cases k) fastforce+
  have minus: "nat_to_string m @ y \<noteq> CHR ''-'' # x" for x m y
    using nat_text_digits [of m] by (cases "nat_to_string m") (auto simp: digit_def byte_def)
  show ?case
  proof (cases n')
    case (PosInt m)
    with 7 k nat_text_prefix [of "unat w" u "unat m" v] show ?thesis
      by (auto simp: number_text_def unsigned_word_eqI)
  qed (use 7 k minus in \<open>auto simp: number_text_def\<close>)
next
  case (8 s)
  then obtain s' where k: "k = JString s'" using same_kind [of fmt _ u k v] by (cases k) fastforce+
  with 8 show ?case by (simp add: string_text_inject)
qed simp

lemma json_text_inject:
  "plain_json j \<Longrightarrow> plain_json k \<Longrightarrow> json_text fmt j = json_text fmt k \<Longrightarrow> j = k"
  using json_text_prefix [of j k "[]" "[]" fmt] by (simp add: stops_def)

end
