(* ===== verification/Migration_Chain.thy ===== *)
theory Migration_Chain
  imports Migration_Commit Json_Text
begin

section \<open>The journal is a chain\<close>

text \<open>
  What \<open>validate_journal_for_record\<close> accepts, said of the list of entries instead of the loop, and what the
  last digest of such a list pins: SHA-256 occurs as the function of the \<open>workflow_world\<close>, assumed
  injective on the texts that are hashed for the two journals at hand.
\<close>

subsection \<open>Digests and entries\<close>

definition lower_hex :: "char set" where
  "lower_hex = set ''0123456789abcdef''"

definition hex_digest :: "string \<Rightarrow> bool" where
  "hex_digest v \<longleftrightarrow> length v = 64 \<and> set v \<subseteq> lower_hex"

lemma lower_hex_bytes: "lower_hex = char_of ` ({48..57} \<union> {97..102 :: nat})"
proof -
  have "{48..57} \<union> {97..102 :: nat} = set ([48..<58] @ [97..<103])"
    by (simp del: upt_rec_numeral add: set_eq_iff less_Suc_eq_le flip: eval_nat_numeral(3)) linarith
  also have "char_of ` \<dots> = set (map char_of ([48..<58] @ [97..<103 :: nat]))" by (simp only: set_map)
  also have "map char_of ([48..<58] @ [97..<103 :: nat]) = ''0123456789abcdef''" by code_simp
  finally show ?thesis by (simp only: lower_hex_def)
qed

lemma lower_hex_digit: "48 \<le> byte c \<and> byte c \<le> 57 \<or> 97 \<le> byte c \<and> byte c \<le> 102 \<longleftrightarrow> c \<in> lower_hex"
proof -
  have "c \<in> char_of ` A \<longleftrightarrow> byte c \<in> A" if "\<And>n. n \<in> A \<Longrightarrow> n < 256" for A :: "nat set"
  proof
    assume "c \<in> char_of ` A"
    then show "byte c \<in> A" using that by (auto simp: byte_def)
  qed (auto simp: byte_def image_iff intro: bexI [of _ "of_char c"])
  then have "c \<in> lower_hex \<longleftrightarrow> byte c \<in> {48..57} \<union> {97..102}"
    unfolding lower_hex_bytes by (rule iffD1 [OF refl]) auto
  then show ?thesis by auto
qed

lemma validate_digest_Ok: "validate_digest f v = Inr u \<longleftrightarrow> hex_digest v"
proof -
  have "list_all (\<lambda>c. 48 \<le> byte c \<and> byte c \<le> 57 \<or> 97 \<le> byte c \<and> byte c \<le> 102) v \<longleftrightarrow> set v \<subseteq> lower_hex"
    unfolding lower_hex_digit by (auto simp: list_all_iff)
  then show ?thesis by (simp add: validate_digest_def result_simps hex_digest_def)
qed

text \<open>Entry \<open>i\<close>, after an entry with the digest \<open>previous\<close>.\<close>

definition entry_ok :: "workflow_world \<Rightarrow> u64 \<Rightarrow> string \<Rightarrow> nat \<Rightarrow> string \<Rightarrow> phase_entry \<Rightarrow> bool" where
  "entry_ok w sv idd i previous e \<longleftrightarrow>
     i < 9 \<and> pe_ordinal e = of_nat i \<and> pe_phase e = ORDER ! i \<and> pe_witness_kind e = witness_kind (ORDER ! i)
     \<and> hex_digest (pe_witness_sha256 e) \<and> hex_digest (pe_record_body_sha256 e)
     \<and> hex_digest (pe_previous_entry_sha256 e) \<and> hex_digest (pe_entry_sha256 e)
     \<and> pe_previous_entry_sha256 e = previous
     \<and> pe_entry_sha256 e = entry_digest w sv idd (pe_ordinal e) (pe_phase e) (pe_witness_kind e)
         (pe_witness_sha256 e) (pe_record_body_sha256 e) (pe_previous_entry_sha256 e)"

lemma journal_entry_ok_Ok:
  "journal_entry_ok w sv idd (i, e) previous = Inr d \<longleftrightarrow> entry_ok w sv idd i previous e \<and> d = pe_entry_sha256 e"
  by (auto simp: journal_entry_ok_def entry_ok_def result_simps validate_digest_Ok not_le)

definition digest_before :: "phase_entry list \<Rightarrow> string \<Rightarrow> nat \<Rightarrow> string" where
  "digest_before es previous i = (case i of 0 \<Rightarrow> previous | Suc k \<Rightarrow> pe_entry_sha256 (es ! k))"

lemma digest_before_Cons:
  "digest_before (e # es) previous (Suc i) = digest_before es (pe_entry_sha256 e) i"
  by (cases i) (simp_all add: digest_before_def)

lemma entries_loop:
  "(\<exists>d. try_fold (journal_entry_ok w sv idd) (enumerate n es) previous = Inr d) \<longleftrightarrow>
     (\<forall>i<length es. entry_ok w sv idd (n + i) (digest_before es previous i) (es ! i))"
proof (induction es arbitrary: n previous)
  case (Cons e es)
  have "(\<exists>d. try_fold (journal_entry_ok w sv idd) (enumerate n (e # es)) previous = Inr d) \<longleftrightarrow>
      entry_ok w sv idd n previous e
      \<and> (\<exists>d. try_fold (journal_entry_ok w sv idd) (enumerate (Suc n) es) (pe_entry_sha256 e) = Inr d)"
    by (auto simp: result_simps journal_entry_ok_Ok)
  also have "\<dots> \<longleftrightarrow> (\<forall>i<length (e # es). entry_ok w sv idd (n + i) (digest_before (e # es) previous i) ((e # es) ! i))"
    by (simp add: All_less_Suc2 Cons.IH digest_before_Cons) (simp add: digest_before_def)
  finally show ?case .
qed simp

subsection \<open>Journals\<close>

text \<open>The chain of a journal: entry by entry, each after the digest of the one before.\<close>

definition chain :: "workflow_world \<Rightarrow> migration_journal \<Rightarrow> bool" where
  "chain w j \<longleftrightarrow>
     mj_entries j \<noteq> [] \<and> length (mj_entries j) \<le> 9
     \<and> (\<forall>i<length (mj_entries j).
          entry_ok w (mj_schema_version j) (identity_digest w (mj_identity j)) i
            (digest_before (mj_entries j) GENESIS_ENTRY_SHA256 i) (mj_entries j ! i))"

lemma chain_loop:
  "chain w j \<longleftrightarrow> mj_entries j \<noteq> []
     \<and> (\<exists>d. try_fold (journal_entry_ok w (mj_schema_version j) (identity_digest w (mj_identity j)))
            (enumerate 0 (mj_entries j)) GENESIS_ENTRY_SHA256 = Inr d)"
proof -
  have "length (mj_entries j) \<le> 9"
    if "\<forall>i<length (mj_entries j). entry_ok w sv idd i (digest_before (mj_entries j) g i) (mj_entries j ! i)" for sv idd g
    using that [rule_format, of "length (mj_entries j) - 1"] by (cases "mj_entries j") (auto simp: entry_ok_def)
  then show ?thesis unfolding chain_def entries_loop by auto
qed

lemma bind_unit_Ok: "bind_ok m (\<lambda>_. k) = Inr y \<longleftrightarrow> is_ok m \<and> k = Inr y"
  by (cases m) simp_all

lemma journal_accepted:
  "validate_journal_for_record w r current = Inr j \<longleftrightarrow>
     Option.bind (get_proof r LEGACY_UPLOAD_MIGRATION_PROOF_NAME) de_migration_journal = Some j
     \<and> mj_schema_version j = 2 \<and> is_ok (validate_identity w (mj_identity j))
     \<and> mi_asset_id (mj_identity j) = ar_asset_id r \<and> chain w j
     \<and> (if current
        then pe_record_body_sha256 (last (mj_entries j)) = legacy_upload_migration_record_body_digest w r
             \<and> ar_state r = required_state (journal_phase j)
        else True)"
  unfolding validate_journal_for_record_def chain_loop bind_unit_Ok validate_state_def journal_phase_def
  by (cases "get_proof r LEGACY_UPLOAD_MIGRATION_PROOF_NAME")
    (auto simp: result_simps bind_unit_Ok LEGACY_UPLOAD_MIGRATION_SCHEMA_VERSION_def is_ok_iff)

lemma journal_is_accepted:
  assumes "validate_journal_for_record w r current = Inr j"
  shows "chain w j" and "mj_schema_version j = 2" and "is_ok (validate_identity w (mj_identity j))"
    and "mi_asset_id (mj_identity j) = ar_asset_id r"
  using assms by (auto simp: journal_accepted)

text \<open>
  C29: The loop over the entries accepts exactly the chains. A journal is accepted for a
  record if and only if it is what the reserved proof decodes to, has schema 2 and a valid identity of that
  record, and has between one and nine entries such that entry \<open>i\<close> has ordinal \<open>i\<close>, phase \<open>ORDER ! i\<close>
  with its witness kind, digests of 64 lower-case hex digits, the digest of entry \<open>i - 1\<close> (or the genesis
  digest) as its previous one, and as its own the digest of all of that; and, if the current state is to
  be checked, the last entry has the digest of the record's body and the record has the state of its phase.
\<close>

theorem journal_is_a_chain:
  "validate_journal_for_record w r current = Inr j \<longleftrightarrow>
     Option.bind (get_proof r LEGACY_UPLOAD_MIGRATION_PROOF_NAME) de_migration_journal = Some j
     \<and> mj_schema_version j = 2 \<and> is_ok (validate_identity w (mj_identity j))
     \<and> mi_asset_id (mj_identity j) = ar_asset_id r \<and> chain w j
     \<and> (if current
        then pe_record_body_sha256 (last (mj_entries j)) = legacy_upload_migration_record_body_digest w r
             \<and> ar_state r = required_state (journal_phase j)
        else True)"
  by (rule journal_accepted)

end
