(* ===== verification/Migration_Steps.thy ===== *)
theory Migration_Steps
  imports Migration_Chain
begin

section \<open>What the operations of the migration write\<close>

text \<open>
  A journal grows by an entry that the validators accept: what \<open>prepare\<close> and \<open>advance\<close> write passes the
  validation that they, the state store and the commits do afterwards. SHA-256 is any function whose
  values are 64 lower-case hex digits.
\<close>

subsection \<open>Writing a journal\<close>

lemma filter_bt_insert: "filter (\<lambda>(k', _). k' \<noteq> k) (bt_insert k v m) = filter (\<lambda>(k', _). k' \<noteq> k) m"
  by (induction k v m rule: bt_insert.induct) auto

lemma with_journal_simps [simp]:
  "get_proof (with_journal j r) k =
     (if k = LEGACY_UPLOAD_MIGRATION_PROOF_NAME then Some (migration_journal_json jobject j) else get_proof r k)"
  "ar_asset_id (with_journal j r) = ar_asset_id r" "ar_state (with_journal j r) = ar_state r"
  "ar_raw_path (with_journal j r) = ar_raw_path r" "ar_failures (with_journal j r) = ar_failures r"
  "ar_updated_at (with_journal j r) = ar_updated_at r"
  "proofs_without_migration_journal (with_journal j r) = proofs_without_migration_journal r"
  "legacy_upload_migration_record_body_digest w (with_journal j r) = legacy_upload_migration_record_body_digest w r"
  by (simp_all add: with_journal_def get_proof_def proofs_without_migration_journal_def bt_remove_def
      filter_bt_insert legacy_upload_migration_record_body_digest_def migration_record_json_def)

lemma records_match_with_journal [simp]: "records_match_except_migration_journal r (with_journal j r)"
  by (simp add: records_match_except_migration_journal_def path_eq_def)

definition hex_world :: "workflow_world \<Rightarrow> bool" where
  "hex_world w \<longleftrightarrow> (\<forall>t. hex_digest (ww_sha256_hex w t))"

lemma canonical_digest_hex: "hex_world w \<Longrightarrow> hex_digest (canonical_digest w j)"
  by (simp add: hex_world_def canonical_digest_def)

lemma hex_digests:
  assumes "hex_world w"
  shows "hex_digest (entry_digest w sv idd n p k x b d)" "hex_digest (legacy_upload_migration_record_body_digest w r)"
    "hex_digest (legacy_upload_migration_record_digest w r)"
  using assms by (simp_all add: entry_digest_def legacy_upload_migration_record_body_digest_def
      legacy_upload_migration_record_digest_def canonical_digest_hex)

lemma genesis_hex: "hex_digest GENESIS_ENTRY_SHA256"
  by (simp add: hex_digest_def GENESIS_ENTRY_SHA256_def lower_hex_def)

subsection \<open>Longer chains\<close>

lemma build_entry_ok:
  assumes "hex_world w" and "i < 9" and "hex_digest x" and "hex_digest b" and "hex_digest previous"
  shows "entry_ok w sv idd i previous (build_entry w sv idd (of_nat i) (ORDER ! i) x b previous)"
  using assms by (simp add: entry_ok_def build_entry_def hex_digests)

lemma chain_last:
  assumes "chain w j"
  shows "entry_ok w (mj_schema_version j) (identity_digest w (mj_identity j)) (length (mj_entries j) - 1)
    (digest_before (mj_entries j) GENESIS_ENTRY_SHA256 (length (mj_entries j) - 1)) (last (mj_entries j))"
  using assms unfolding chain_def by (metis diff_less last_conv_nth length_greater_0_conv zero_less_one)

lemma chain_phase:
  assumes "chain w j"
  shows "phase_index (journal_phase j) = length (mj_entries j) - 1"
  using chain_last [OF assms] by (simp add: journal_phase_def entry_ok_def)

lemma digest_before_append [simp]: "i \<le> length es \<Longrightarrow> digest_before (es @ fs) g i = digest_before es g i"
  by (cases i) (simp_all add: digest_before_def nth_append)

definition extended :: "migration_journal \<Rightarrow> phase_entry \<Rightarrow> migration_journal" where
  "extended j e = j\<lparr>mj_entries := mj_entries j @ [e]\<rparr>"

lemma extended_simps [simp]:
  "mj_entries (extended j e) = mj_entries j @ [e]" "mj_identity (extended j e) = mj_identity j"
  "mj_schema_version (extended j e) = mj_schema_version j" "journal_phase (extended j e) = pe_phase e"
  by (simp_all add: extended_def journal_phase_def)

lemma chain_extended:
  assumes "chain w j" and "next_phase (journal_phase j) = Some p" and "hex_world w" and "hex_digest x" and "hex_digest b"
  shows "chain w (extended j (build_entry w (mj_schema_version j) (identity_digest w (mj_identity j))
           (of_nat (length (mj_entries j))) p x b (pe_entry_sha256 (last (mj_entries j)))))" (is "chain w (extended j ?e)")
proof -
  let ?n = "length (mj_entries j)"
  have ne: "mj_entries j \<noteq> []" using assms(1) by (simp add: chain_def)
  then have p: "phase_index p = ?n" using assms(2) chain_phase [OF assms(1)] by (simp add: next_phase_eq_Some)
  then have n: "?n < 9" and order: "ORDER ! ?n = p" using phase_index_less [of p] ORDER_phase_index [of p] by simp_all
  have "digest_before (mj_entries j) GENESIS_ENTRY_SHA256 ?n = pe_entry_sha256 (last (mj_entries j))"
    using ne by (cases "mj_entries j" rule: rev_cases) (simp_all add: digest_before_def nth_append)
  moreover have "hex_digest (pe_entry_sha256 (last (mj_entries j)))"
    using chain_last [OF assms(1)] unfolding entry_ok_def by blast
  ultimately have "entry_ok w (mj_schema_version j) (identity_digest w (mj_identity j)) ?n
      (digest_before (mj_entries j) GENESIS_ENTRY_SHA256 ?n) ?e"
    using build_entry_ok [OF assms(3) n assms(4,5)] order by simp
  with assms(1) n show ?thesis by (auto simp: chain_def nth_append less_Suc_eq)
qed

lemma accepted_with_journal:
  assumes "chain w j" and "mj_schema_version j = 2" and "is_ok (validate_identity w (mj_identity j))"
    and "mi_asset_id (mj_identity j) = ar_asset_id r"
    and "pe_record_body_sha256 (last (mj_entries j)) = legacy_upload_migration_record_body_digest w r"
    and "ar_state r = required_state (journal_phase j)"
  shows "validate_journal_for_record w (with_journal j r) current = Inr j"
  using assms by (simp add: journal_accepted)

subsection \<open>Advancing\<close>

lemma has_proof_with_journal [simp]: "has_proof (with_journal j r) LEGACY_UPLOAD_MIGRATION_PROOF_NAME"
  by (simp add: has_proof_iff)

lemma get_proof_cong: "ar_proofs r = ar_proofs r' \<Longrightarrow> get_proof r k = get_proof r' k"
  by (simp add: get_proof_def)

lemma advance_ok:
  assumes "validate_journal_for_record w r False = Inr j" and "next_phase (journal_phase j) = Some q"
    and "ar_state r = required_state q" and "hex_world w" and "hex_digest x"
  shows "\<exists>j'. advance_legacy_upload_migration_record_with_witness w q x r = Inr (with_journal j' r)
    \<and> validate_legacy_upload_migration_record w (with_journal j' r) = Inr j'
    \<and> mj_identity j' = mj_identity j
    \<and> (\<exists>e. mj_entries j' = mj_entries j @ [e] \<and> pe_phase e = q \<and> pe_witness_sha256 e = x)"
proof -
  let ?e = "build_entry w (mj_schema_version j) (identity_digest w (mj_identity j)) (of_nat (length (mj_entries j))) q x
      (legacy_upload_migration_record_body_digest w r) (pe_entry_sha256 (last (mj_entries j)))"
  note j = journal_is_accepted [OF assms(1)]
  have "chain w (extended j ?e)" by (rule chain_extended [OF j(1) assms(2,4,5) hex_digests(2) [OF assms(4)]])
  then have accepted: "validate_legacy_upload_migration_record w (with_journal (extended j ?e) r) = Inr (extended j ?e)"
    unfolding validate_legacy_upload_migration_record_def
    by (rule accepted_with_journal) (use j(2-4) assms(3) in \<open>simp_all add: build_entry_def\<close>)
  have phases: "journal_phase j \<noteq> q" "journal_phase j \<noteq> PhComplete"
    using assms(2) phase_index_less [of q] by (auto simp: next_phase_eq_Some)
  have "advance_legacy_upload_migration_record_with_witness w q x r = Inr (with_journal (extended j ?e) r)"
    using assms phases accepted
    by (simp add: advance_legacy_upload_migration_record_with_witness_def result_simps validate_digest_Ok
        validate_state_def Let_def journal_phase_def flip: extended_def)
  with accepted show ?thesis by (intro exI [of _ "extended j ?e"]) (simp add: build_entry_def)
qed

lemma advance_again:
  assumes "validate_legacy_upload_migration_record w r = Inr j" and "hex_digest x"
    and "pe_witness_sha256 (last (mj_entries j)) = x" and "q = journal_phase j"
  shows "advance_legacy_upload_migration_record_with_witness w q x r = Inr r"
proof -
  have "validate_journal_for_record w r False = Inr j" "ar_state r = required_state (journal_phase j)" "chain w j"
    using assms(1) by (simp_all add: validate_legacy_upload_migration_record_def journal_accepted)
  moreover from chain_last [OF calculation(3)]
  have "pe_witness_kind (last (mj_entries j)) = witness_kind (journal_phase j)"
    by (simp add: entry_ok_def journal_phase_def)
  ultimately show ?thesis using assms(2-)
    by (simp add: advance_legacy_upload_migration_record_with_witness_def result_simps validate_digest_Ok
        validate_state_def Let_def journal_phase_def)
qed

lemma longer_journal_differs:
  assumes "validate_legacy_upload_migration_record w r = Inr j" and "validate_legacy_upload_migration_record w r' = Inr j'"
    and "mj_entries j \<noteq> mj_entries j'"
  shows "\<not> migration_record_eq r r'"
proof
  assume "migration_record_eq r r'"
  then have "get_proof r LEGACY_UPLOAD_MIGRATION_PROOF_NAME = get_proof r' LEGACY_UPLOAD_MIGRATION_PROOF_NAME"
    by (cases r; cases r') (simp add: migration_record_eq_def get_proof_def)
  with assms show False by (auto simp: validate_legacy_upload_migration_record_def journal_accepted)
qed

lemma journal_only_next: "for_transition p q = Some d \<Longrightarrow> next_phase p = Some q"
  by (cases p; cases q) (simp_all add: for_transition_def next_phase_eq_Some)

lemma journal_only_state: "for_transition p q = Some JournalOnly \<Longrightarrow> required_state q = required_state p"
  by (cases p; cases q) (simp_all add: for_transition_def)

end
