(* ===== verification/Migration_Pinned.thy ===== *)
theory Migration_Pinned
  imports Migration_Chain
begin

section \<open>What the last digest of a journal pins\<close>

text \<open>
  The texts that are hashed for a journal determine what they are made from, so two accepted journals with
  the same last digest are the same journal, unless SHA-256 collides on two of their texts.
\<close>

subsection \<open>The JSON that is hashed determines its value\<close>

lemma ser_small_inject: "ser_small (a :: u32) = ser_small b \<Longrightarrow> a = b"
  by (metis de_ser_u32 option.inject)

lemma ser_i64_inject: "ser_i64 a = ser_i64 b \<Longrightarrow> a = b"
  by (metis de_ser_i64 option.inject)

lemma ser_variants_inject:
  "ser_migration_phase p = ser_migration_phase q \<Longrightarrow> p = q"
  "ser_migration_witness_kind k = ser_migration_witness_kind l \<Longrightarrow> k = l"
  "ser_quarantine_kind c = ser_quarantine_kind d \<Longrightarrow> c = d"
  by (metis de_ser_variants option.inject)+

lemma file_identity_inject:
  "quarantine_file_identity_json JObject x = quarantine_file_identity_json JObject y \<Longrightarrow> x = y"
  by (cases x; cases y)
    (auto simp: quarantine_file_identity_json_def ser_u64_def dest!: ser_small_inject ser_i64_inject)

lemma root_inject: "quarantine_root_json JObject x = quarantine_root_json JObject y \<Longrightarrow> x = y"
  by (cases x; cases y) (auto simp: quarantine_root_json_def ser_u64_def dest!: ser_small_inject)

lemma member_inject: "quarantine_member_json JObject x = quarantine_member_json JObject y \<Longrightarrow> x = y"
  by (cases x; cases y)
    (auto simp: quarantine_member_json_def ser_u64_def dest!: ser_variants_inject file_identity_inject)

lemma raw_input_inject: "migration_raw_input_json JObject x = migration_raw_input_json JObject y \<Longrightarrow> x = y"
  by (cases x; cases y) (auto simp: migration_raw_input_json_def dest!: file_identity_inject)

lemma plan_inject: "quarantine_plan_json JObject x = quarantine_plan_json JObject y \<Longrightarrow> x = y"
  by (cases x; cases y)
    (auto simp: quarantine_plan_json_def ser_u64_def
      dest!: map_injective [OF _ injI] intro: root_inject member_inject raw_input_inject)

lemma identity_inject: "migration_identity_json JObject x = migration_identity_json JObject y \<Longrightarrow> x = y"
  by (cases x; cases y) (auto simp: migration_identity_json_def dest!: plan_inject)

lemmas plain_simps = ser_u64_def ser_small_def ser_i64_def ser_migration_phase_def ser_migration_witness_kind_def
  ser_quarantine_kind_def

lemma plain_identity: "plain_json (migration_identity_json JObject i)"
  by (simp add: migration_identity_json_def quarantine_plan_json_def quarantine_root_json_def
      quarantine_member_json_def migration_raw_input_json_def quarantine_file_identity_json_def plain_simps)

lemma plain_entry: "plain_json (entry_digest_input sv idd n p k x b d)"
  by (simp add: entry_digest_input_def plain_simps)

lemma entry_input_inject:
  "entry_digest_input sv idd n p k x b d = entry_digest_input sv' idd' n' p' k' x' b' d' \<longleftrightarrow>
     sv = sv' \<and> idd = idd' \<and> n = n' \<and> p = p' \<and> k = k' \<and> x = x' \<and> b = b' \<and> d = d'"
  by (auto simp: entry_digest_input_def ser_u64_def dest: ser_variants_inject)

subsection \<open>The hashed texts\<close>

definition identity_text :: "workflow_world \<Rightarrow> migration_journal \<Rightarrow> string" where
  "identity_text w j = json_text (ww_float_text w) (migration_identity_json JObject (mj_identity j))"

definition entry_text :: "workflow_world \<Rightarrow> migration_journal \<Rightarrow> phase_entry \<Rightarrow> string" where
  "entry_text w j e =
     json_text (ww_float_text w)
       (entry_digest_input (mj_schema_version j) (identity_digest w (mj_identity j)) (pe_ordinal e) (pe_phase e)
         (pe_witness_kind e) (pe_witness_sha256 e) (pe_record_body_sha256 e) (pe_previous_entry_sha256 e))"

definition hashed_texts :: "workflow_world \<Rightarrow> migration_journal \<Rightarrow> string set" where
  "hashed_texts w j = insert (identity_text w j) (entry_text w j ` set (mj_entries j))"

lemma identity_digest_text: "identity_digest w (mj_identity j) = ww_sha256_hex w (identity_text w j)"
  by (simp add: identity_digest_def canonical_digest_def identity_text_def)

lemma chain_nth:
  assumes "chain w j" and "i < length (mj_entries j)"
  shows "pe_ordinal (mj_entries j ! i) = of_nat i" and "i < 9"
    and "pe_previous_entry_sha256 (mj_entries j ! i) = digest_before (mj_entries j) GENESIS_ENTRY_SHA256 i"
    and "pe_entry_sha256 (mj_entries j ! i) = ww_sha256_hex w (entry_text w j (mj_entries j ! i))"
    and "entry_text w j (mj_entries j ! i) \<in> hashed_texts w j"
proof -
  show "entry_text w j (mj_entries j ! i) \<in> hashed_texts w j" using assms(2) by (simp add: hashed_texts_def)
qed (use assms in \<open>auto simp: chain_def entry_ok_def entry_digest_def canonical_digest_def entry_text_def\<close>)

lemma entry_text_inject:
  assumes "entry_text w j e = entry_text w j' e'"
  shows "identity_digest w (mj_identity j) = identity_digest w (mj_identity j')"
    and "pe_entry_sha256 e = pe_entry_sha256 e' \<Longrightarrow> e = e'"
  using assms
  by (auto simp: entry_text_def entry_input_inject dest!: json_text_inject [OF plain_entry plain_entry])

lemma of_nat_ordinal: "i < 9 \<Longrightarrow> k < 9 \<Longrightarrow> (of_nat i :: u64) = of_nat k \<Longrightarrow> i = k"
  by (simp add: word_of_nat_eq_iff take_bit_nat_eq_self)

lemma same_digest_same_prefix:
  assumes chains: "chain w j" "chain w j'" and sha: "inj_on (ww_sha256_hex w) (hashed_texts w j \<union> hashed_texts w j')"
    and "i < length (mj_entries j)" and "k < length (mj_entries j')"
    and "pe_entry_sha256 (mj_entries j ! i) = pe_entry_sha256 (mj_entries j' ! k)"
  shows "i = k \<and> take (Suc i) (mj_entries j) = take (Suc k) (mj_entries j')"
  using assms(4-)
proof (induction i arbitrary: k)
  case (0 k)
  let ?e = "mj_entries j ! 0" and ?e' = "mj_entries j' ! k"
  note n = chain_nth [OF chains(1) 0(1)] and n' = chain_nth [OF chains(2) 0(2)]
  have texts: "entry_text w j ?e = entry_text w j' ?e'"
    using 0(3) n(5) n'(5) unfolding n(4) n'(4) by (auto dest: inj_onD [OF sha])
  then have "?e = ?e'" using 0(3) by (rule entry_text_inject(2))
  moreover have "0 = k" by (rule of_nat_ordinal [OF n(2) n'(2)]) (use \<open>?e = ?e'\<close> n(1) n'(1) in simp)
  ultimately show ?case using 0 by (simp add: take_Suc_conv_app_nth)
next
  case (Suc i k)
  let ?e = "mj_entries j ! Suc i" and ?e' = "mj_entries j' ! k"
  note n = chain_nth [OF chains(1) Suc(2)] and n' = chain_nth [OF chains(2) Suc(3)]
  have texts: "entry_text w j ?e = entry_text w j' ?e'"
    using Suc(4) n(5) n'(5) unfolding n(4) n'(4) by (auto dest: inj_onD [OF sha])
  then have same: "?e = ?e'" using Suc(4) by (rule entry_text_inject(2))
  have k: "Suc i = k" by (rule of_nat_ordinal [OF n(2) n'(2)]) (use same n(1) n'(1) in simp)
  then have "pe_entry_sha256 (mj_entries j ! i) = pe_entry_sha256 (mj_entries j' ! i)"
    using n(3) n'(3) same by (auto simp: digest_before_def)
  then have "take (Suc i) (mj_entries j) = take (Suc i) (mj_entries j')"
    using Suc.IH [of i] Suc.prems k by simp
  then show ?case using k same Suc.prems by (simp add: take_Suc_conv_app_nth)
qed

lemma chain_pinned:
  assumes "chain w j" and "chain w j'" and "mj_schema_version j = mj_schema_version j'"
    and "inj_on (ww_sha256_hex w) (hashed_texts w j \<union> hashed_texts w j')"
    and "pe_entry_sha256 (last (mj_entries j)) = pe_entry_sha256 (last (mj_entries j'))"
  shows "j = j'"
proof -
  have ne: "mj_entries j \<noteq> []" "mj_entries j' \<noteq> []" using assms(1,2) by (simp_all add: chain_def)
  let ?i = "length (mj_entries j) - 1" and ?k = "length (mj_entries j') - 1"
  have "?i = ?k \<and> take (Suc ?i) (mj_entries j) = take (Suc ?k) (mj_entries j')"
    by (rule same_digest_same_prefix [OF assms(1,2,4)]) (use ne assms(5) in \<open>simp_all add: last_conv_nth\<close>)
  then have entries: "mj_entries j = mj_entries j'" using ne by simp
  note n = chain_nth [OF assms(1), of 0] and n' = chain_nth [OF assms(2), of 0]
  have "entry_text w j (mj_entries j ! 0) = entry_text w j' (mj_entries j' ! 0)"
    using n(4,5) n'(4,5) ne by (auto simp: entries dest: inj_onD [OF assms(4)])
  then have "identity_digest w (mj_identity j) = identity_digest w (mj_identity j')" by (rule entry_text_inject)
  then have "identity_text w j = identity_text w j'"
    unfolding identity_digest_text by (rule inj_onD [OF assms(4)]) (simp_all add: hashed_texts_def)
  then have "mj_identity j = mj_identity j'"
    unfolding identity_text_def by (intro identity_inject json_text_inject plain_identity)
  then show ?thesis using entries assms(3) by simp
qed

text \<open>
  C28: The digest of the last entry pins the whole journal. Two records whose journals
  are accepted and end with the same digest carry the same journal - the same identity with its quarantine
  plan, and the same entries from the first on - unless SHA-256 has one value for two different texts
  among those hashed for the two journals.
\<close>

theorem sealed_history_is_pinned:
  assumes "validate_journal_for_record w r current = Inr j"
    and "validate_journal_for_record w r' current' = Inr j'"
    and "inj_on (ww_sha256_hex w) (hashed_texts w j \<union> hashed_texts w j')"
    and "pe_entry_sha256 (last (mj_entries j)) = pe_entry_sha256 (last (mj_entries j'))"
  shows "j = j'"
  using journal_is_accepted [OF assms(1)] journal_is_accepted [OF assms(2)] assms(3,4)
  by (intro chain_pinned) simp_all

end
