(* ===== verification/Migration_Sample.thy ===== *)
theory Migration_Sample
  imports Migration_Pinned Workflow_Steps
begin

section \<open>A migration of two assets\<close>

text \<open>
  A world whose digests show what was hashed, a quarantine plan with its nine members and ten RAW inputs
  and a cohort of two identities, as concrete inputs for the properties of the migration.
\<close>

definition sample_sha :: "string \<Rightarrow> string" where
  "sample_sha t =
     replicate 64 (if t ! 2 = CHR ''s'' then CHR ''1'' else if t ! 2 = CHR ''m'' then CHR ''2''
       else if t ! 2 = CHR ''a'' then CHR ''3'' else CHR ''4'')"

definition migration_world :: workflow_world where
  "migration_world = sample_workflow_world\<lparr>ww_sha256_hex := sample_sha\<rparr>"

definition sample_file :: "u64 \<Rightarrow> quarantine_file_identity" where
  "sample_file n =
     \<lparr>qf_device = 1, qf_inode = n, qf_owner = 0, qf_mode = 384, qf_link_count = 1, qf_size_bytes = 10,
      qf_modified_unix_seconds = 0, qf_modified_unix_nanoseconds = 0, qf_sha256 = replicate 64 CHR ''0''\<rparr>"

definition sample_member :: "string \<times> quarantine_kind \<times> string \<times> u64 \<Rightarrow> quarantine_member" where
  "sample_member = (\<lambda>(a, kind, name, n).
     \<lparr>qm_asset_id = a, qm_kind = kind, qm_source_path = ''/s/'' @ name, qm_destination_path = ''/q/'' @ name,
      qm_source = sample_file n, qm_root_device = 1\<rparr>)"

definition sample_raw_input :: "string \<times> u64 \<Rightarrow> migration_raw_input" where
  "sample_raw_input = (\<lambda>(a, n). \<lparr>mr_asset_id = a, mr_path = ''/r/'' @ a, mr_source = sample_file n\<rparr>)"

definition sample_plan :: quarantine_plan where
  "sample_plan =
     \<lparr>qp_schema_version = 1,
      qp_roots = [\<lparr>qr_canonical_path = ''/q'', qr_device = 1, qr_inode = 1, qr_owner = 0, qr_mode = 448\<rparr>],
      qp_members = map sample_member
        [(''A'', QkFinal, ''a'', 11), (''B'', QkFinal, ''b'', 12), (''A'', QkReference, ''c'', 13),
         (''B'', QkReference, ''d'', 14), (''C'', QkReference, ''e'', 15), (''D'', QkReference, ''f'', 16),
         (''E'', QkReference, ''g'', 17), (''A'', QkOldMirror, ''h'', 18), (''B'', QkOldMirror, ''i'', 19)],
      qp_raw_inputs = map sample_raw_input
        [(''A'', 21), (''B'', 22), (''C'', 23), (''D'', 24), (''E'', 25), (''F'', 26), (''G'', 27), (''H'', 28),
         (''I'', 29), (''J'', 30)],
      qp_plan_sha256 = replicate 64 CHR ''4''\<rparr>"

lemma one_text: "json_text fmt (ser_u64 1) = ''1''"
proof -
  have "nat_to_string 1 = ''1''" by code_simp
  then show ?thesis by (simp add: ser_u64_def number_text_def)
qed

lemma sample_plan_digest:
  "qp_schema_version p = 1 \<Longrightarrow> plan_digest migration_world p = replicate 64 CHR ''4''"
  unfolding plan_digest_def canonical_digest_def json_text.simps list.map join_with.simps
  by (simp add: one_text migration_world_def sample_sha_def)



lemma path_components:
  "c \<noteq> CHR ''/'' \<Longrightarrow> c \<noteq> CHR ''.'' \<Longrightarrow> components [CHR ''/'', CHR ''s'', CHR ''/'', c] = [RootDir, Normal ''s'', Normal [c]]"
  "c \<noteq> CHR ''/'' \<Longrightarrow> c \<noteq> CHR ''.'' \<Longrightarrow> components [CHR ''/'', CHR ''q'', CHR ''/'', c] = [RootDir, Normal ''q'', Normal [c]]"
  "c \<noteq> CHR ''/'' \<Longrightarrow> c \<noteq> CHR ''.'' \<Longrightarrow> components [CHR ''/'', CHR ''r'', CHR ''/'', c] = [RootDir, Normal ''r'', Normal [c]]"
  "components ''/q'' = [RootDir, Normal ''q'']"
  by (simp_all add: components_def component_spans_def segment_component_def is_absolute_def)


lemma sample_remote:
  assumes "c \<in> set ''ABCDEFGHIJ''"
  shows "validate_remote_identity f [c] = Inr ()"
proof -
  have "trim [c] = [c]" by (rule trim_graphic) (use assms in \<open>auto simp: byte_def\<close>)
  moreover have "\<not> has_control [c]" using assms by (auto simp: byte_def)
  ultimately show ?thesis by (simp add: validate_remote_identity_def MAX_REMOTE_IDENTITY_BYTES_def)
qed

lemma sample_hex: "validate_digest f (replicate 64 CHR ''0'') = Inr ()" "validate_digest f (replicate 64 CHR ''1'') = Inr ()"
  "validate_digest f (replicate 64 CHR ''2'') = Inr ()" "validate_digest f (replicate 64 CHR ''3'') = Inr ()"
  "validate_digest f (replicate 64 CHR ''4'') = Inr ()"
  by (simp_all add: validate_digest_Ok hex_digest_def lower_hex_def)

lemma sample_roots: "try_fold plan_root_ok (qp_roots sample_plan) ({}, {}) = Inr ({1}, {[RootDir, Normal ''q'']})"
  by (simp add: sample_plan_def try_fold.simps(2) plan_root_ok_def path_components safe_quarantine_plan_path_def
     is_absolute_def)

lemma sample_member_ok:
  assumes "a \<in> set ''ABCDEFGHIJ''" and "c \<noteq> CHR ''/''" and "c \<noteq> CHR ''.''" and "n \<noteq> 0"
    and "([a], k) \<notin> ks_member_keys ks" and "[RootDir, Normal ''s'', Normal [c]] \<notin> ks_sources ks"
    and "(1, n) \<notin> ks_source_identities ks" and "[RootDir, Normal ''q'', Normal [c]] \<notin> ks_destinations ks"
  shows "plan_member_ok sample_plan {1} (sample_member ([a], k, [c], n)) ks =
    Inr \<lparr>ks_member_keys = insert ([a], k) (ks_member_keys ks),
         ks_sources = insert [RootDir, Normal ''s'', Normal [c]] (ks_sources ks),
         ks_source_identities = insert (1, n) (ks_source_identities ks),
         ks_destinations = insert [RootDir, Normal ''q'', Normal [c]] (ks_destinations ks)\<rparr>"
  using assms
  by (simp add: plan_member_ok_def sample_member_def sample_remote sample_hex sample_file_def path_components
      safe_quarantine_plan_path_def is_absolute_def file_key_def path_starts_with_def sample_plan_def)

lemma sample_raw_ok:
  assumes "a \<in> set ''ABCDEFGHIJ''" and "n \<noteq> 0" and "[a] \<notin> rs_asset_ids rs"
    and "[RootDir, Normal ''r'', Normal [a]] \<notin> rs_paths rs" and "(1, n) \<notin> rs_identities rs"
  shows "plan_raw_ok sample_plan (sample_raw_input ([a], n)) rs =
    Inr \<lparr>rs_asset_ids = insert [a] (rs_asset_ids rs),
         rs_paths = insert [RootDir, Normal ''r'', Normal [a]] (rs_paths rs),
         rs_identities = insert (1, n) (rs_identities rs)\<rparr>"
proof -
  have "a \<noteq> CHR ''/''" "a \<noteq> CHR ''.''" using assms(1) by auto
  with assms show ?thesis
    by (simp add: plan_raw_ok_def sample_raw_input_def sample_remote sample_hex sample_file_def path_components
        safe_quarantine_plan_path_def is_absolute_def file_key_def path_starts_with_def sample_plan_def)
qed

lemma sample_members:
  "\<exists>ks. try_fold (plan_member_ok sample_plan {1}) (qp_members sample_plan)
      \<lparr>ks_member_keys = {}, ks_sources = {}, ks_source_identities = {}, ks_destinations = {}\<rparr> = Inr ks
    \<and> ks_source_identities ks = {(1, 11), (1, 12), (1, 13), (1, 14), (1, 15), (1, 16), (1, 17), (1, 18), (1, 19)}"
proof -
  have members: "qp_members sample_plan = map sample_member
        [(''A'', QkFinal, ''a'', 11), (''B'', QkFinal, ''b'', 12), (''A'', QkReference, ''c'', 13),
         (''B'', QkReference, ''d'', 14), (''C'', QkReference, ''e'', 15), (''D'', QkReference, ''f'', 16),
         (''E'', QkReference, ''g'', 17), (''A'', QkOldMirror, ''h'', 18), (''B'', QkOldMirror, ''i'', 19)]"
    by (simp add: sample_plan_def)
  show ?thesis unfolding members list.map
    by (simp add: try_fold.simps(2) sample_member_ok) auto
qed

lemma sample_raws:
  "\<exists>rs. try_fold (plan_raw_ok sample_plan) (qp_raw_inputs sample_plan)
      \<lparr>rs_asset_ids = {}, rs_paths = {}, rs_identities = {}\<rparr> = Inr rs
    \<and> rs_identities rs = {(1, 21), (1, 22), (1, 23), (1, 24), (1, 25), (1, 26), (1, 27), (1, 28), (1, 29), (1, 30)}"
proof -
  have raws: "qp_raw_inputs sample_plan = map sample_raw_input
        [(''A'', 21), (''B'', 22), (''C'', 23), (''D'', 24), (''E'', 25), (''F'', 26), (''G'', 27), (''H'', 28),
         (''I'', 29), (''J'', 30)]"
    by (simp add: sample_plan_def)
  show ?thesis unfolding raws list.map
    by (simp add: try_fold.simps(2) sample_raw_ok) auto
qed

lemma sample_plan_valid: "validate_quarantine_plan migration_world sample_plan = Inr ()"
proof -
  have fields: "qp_schema_version sample_plan = 1" "qp_roots sample_plan \<noteq> []" "length (qp_members sample_plan) = 9"
    "length (qp_raw_inputs sample_plan) = 10" "qp_plan_sha256 sample_plan = replicate 64 CHR ''4''"
    "kind_count sample_plan QkFinal = 2" "kind_count sample_plan QkReference = 5" "kind_count sample_plan QkOldMirror = 2"
    by (simp_all add: sample_plan_def kind_count_def sample_member_def)
  show ?thesis
    using sample_members sample_raws
    by (auto simp: validate_quarantine_plan_def result_simps fields sample_hex sample_plan_digest sample_roots)
qed

subsection \<open>The cohort\<close>

definition sample_identity :: "string \<Rightarrow> migration_identity" where
  "sample_identity a =
     (let zeros = replicate 64 CHR ''0'' in
      \<lparr>mi_migration_id = zeros, mi_evidence_sha256 = zeros, mi_cohort_sha256 = zeros, mi_asset_id = a,
       mi_source_record_sha256 = replicate 64 CHR ''3'', mi_old_uploaded_asset_id = a, mi_old_uploaded_master_id = a,
       mi_destination_sha256 = zeros, mi_original_asset_identity_sha256 = zeros,
       mi_old_conversion_lineage_sha256 = zeros, mi_old_upload_lineage_sha256 = zeros,
       mi_old_mirror_lineage_sha256 = zeros, mi_quarantine_plan = sample_plan\<rparr>)"

definition sample_legacy :: "string \<Rightarrow> asset_record" where
  "sample_legacy a = (new_asset_record a (''/r/'' @ a) ''1'')\<lparr>ar_state := UploadVerified\<rparr>"

definition sample_preparation :: "string \<Rightarrow> authorized_preparation" where
  "sample_preparation a = \<lparr>zp_identity = sample_identity a, zp_prepared_witness_sha256 = replicate 64 CHR ''0''\<rparr>"

definition sample_cohort :: cohort_authority where
  "sample_cohort = (sample_preparation ''A'', sample_preparation ''B'')"

lemma sample_identity_valid: "a \<in> set ''ABCDEFGHIJ'' \<Longrightarrow> validate_identity migration_world (sample_identity [a]) = Inr ()"
  by (simp add: validate_identity_def sample_identity_def Let_def sample_hex sample_remote sample_plan_valid
      try_fold.simps(2))

lemma sample_cohort_valid: "validate_cohort_authority migration_world sample_cohort = Inr ()"
  unfolding validate_cohort_authority_def sample_cohort_def prod.case
  by (simp add: sample_preparation_def sample_identity_valid sample_hex)
    (simp add: sample_identity_def same_cohort_def Let_def)

lemma sample_preparation_for:
  "preparation_for_asset sample_cohort ''A'' = Some (sample_preparation ''A'')"
  "preparation_for_asset sample_cohort ''B'' = Some (sample_preparation ''B'')"
  by (simp_all add: preparation_for_asset_def sample_cohort_def unique_of_def both_def sample_preparation_def
      sample_identity_def Let_def)

lemma migration_world_hex: "hex_digest (ww_sha256_hex migration_world t)"
  by (simp add: migration_world_def sample_sha_def hex_digest_def lower_hex_def)

lemma sample_record_digest:
  "legacy_upload_migration_record_digest migration_world r = replicate 64 CHR ''3''"
proof -
  have "json_escape CHR ''a'' = ''a''" by (simp add: json_escape_def byte_def)
  then show ?thesis
    by (simp add: legacy_upload_migration_record_digest_def canonical_digest_def migration_record_json_def
        migration_world_def sample_sha_def json_string_text_def)
qed

end
