(* ===== verification/Migration_Guarantees.thy ===== *)
theory Migration_Guarantees
  imports Migration_Steps Migration_Sample
begin

section \<open>The migration can always be recorded\<close>

text \<open>
  The producers agree with the validators: a prepared record, and a record advanced by one phase, are
  accepted by the update validators that the commits run, and repeating the step changes no record.
\<close>

subsection \<open>Candidates\<close>

lemma lineage_names [simp]:
  "CONVERSION_PROOF \<noteq> LEGACY_UPLOAD_MIGRATION_PROOF_NAME"
  "CONVERSION_PERFORMANCE_PROOF \<noteq> LEGACY_UPLOAD_MIGRATION_PROOF_NAME"
  "HEIC_PROOF \<noteq> LEGACY_UPLOAD_MIGRATION_PROOF_NAME" "UPLOAD_PROOF \<noteq> LEGACY_UPLOAD_MIGRATION_PROOF_NAME"
  "ICLOUDPD_LOCAL_MIRROR_PROOF \<noteq> LEGACY_UPLOAD_MIGRATION_PROOF_NAME"
  by (simp_all add: LEGACY_UPLOAD_MIGRATION_PROOF_NAME_def RESERVED_PROOF_NAME_def CONVERSION_PROOF_def
      CONVERSION_PERFORMANCE_PROOF_def HEIC_PROOF_def UPLOAD_PROOF_def ICLOUDPD_LOCAL_MIRROR_PROOF_def)

lemma decode_with_journal:
  "k \<noteq> LEGACY_UPLOAD_MIGRATION_PROOF_NAME \<Longrightarrow>
     decode_canonical_proof ser de (with_journal j c) k = decode_canonical_proof ser de c k"
  by (simp add: decode_canonical_proof_def)

lemma generated_with_journal:
  "LEGACY_UPLOAD_MIGRATION_PROOF_NAME \<notin> set ks \<Longrightarrow>
     generated_proofs_match m (with_journal j c) ks = generated_proofs_match m c ks"
proof -
  assume "LEGACY_UPLOAD_MIGRATION_PROOF_NAME \<notin> set ks"
  then have "list_all (\<lambda>k. get_proof r k = get_proof (with_journal j c) k) ks
      = list_all (\<lambda>k. get_proof r k = get_proof c k) ks" for r
    by (intro list.pred_cong) auto
  then show ?thesis by (simp add: generated_proofs_match_def cong: sum.case_cong)
qed

lemma delta_with_journal [simp]:
  "validate_transition_delta w r (with_journal j c) d = validate_transition_delta w r c d"
proof -
  note names = lineage_names lineage_names [symmetric]
  have "validate_verified_conversion_delta w r (with_journal j c) = validate_verified_conversion_delta w r c"
    "validate_verified_upload_delta w r (with_journal j c) = validate_verified_upload_delta w r c"
    "validate_verified_mirror_delta w r (with_journal j c) = validate_verified_mirror_delta w r c"
    by (simp_all add: validate_verified_conversion_delta_def validate_verified_upload_delta_def
        validate_verified_mirror_delta_def decode_with_journal generated_with_journal names
        cong: option.case_cong sum.case_cong)
  then have valid: "delta_valid w r (with_journal j c) d = delta_valid w r c d"
    by (cases d) (simp_all add: delta_valid_def exact_proof_delta_def)
  show ?thesis unfolding validate_transition_delta_def with_journal_simps valid ..
qed

lemma delta_states:
  assumes "for_transition p q = Some d" and "delta_valid w r c d" and "ar_state r = required_state p"
  shows "ar_state c = required_state q"
  using assms by (cases p; cases q) (auto simp: for_transition_def delta_valid_def)

lemma journal_of_candidate:
  assumes "validate_legacy_upload_migration_record w r = Inr j" and "ar_asset_id c = ar_asset_id r"
    and "get_proof c LEGACY_UPLOAD_MIGRATION_PROOF_NAME = get_proof r LEGACY_UPLOAD_MIGRATION_PROOF_NAME"
  shows "validate_journal_for_record w c False = Inr j"
  using assms by (simp add: validate_legacy_upload_migration_record_def journal_accepted)

lemma advance_accepted:
  assumes "hex_world w" and "validate_legacy_upload_migration_record w r = Inr j"
    and "for_transition (journal_phase j) q = Some d" and "validate_transition_delta w r c d = Inr ()"
    and "get_proof c LEGACY_UPLOAD_MIGRATION_PROOF_NAME = get_proof r LEGACY_UPLOAD_MIGRATION_PROOF_NAME"
    and "hex_digest x"
  shows "\<exists>j'. advance_legacy_upload_migration_record_with_witness w q x c = Inr (with_journal j' c)
    \<and> (\<exists>e. mj_entries j' = mj_entries j @ [e] \<and> pe_phase e = q \<and> pe_witness_sha256 e = x)
    \<and> validate_legacy_upload_migration_record_update w r (with_journal j' c) = Inr (Advance (journal_phase j) q)
    \<and> advance_legacy_upload_migration_record_with_witness w q x (with_journal j' c) = Inr (with_journal j' c)"
proof -
  have id: "ar_asset_id c = ar_asset_id r" and delta: "delta_valid w r c d"
    using assms(4) by (auto simp: validate_transition_delta_def result_simps)
  have state: "ar_state r = required_state (journal_phase j)"
    using assms(2) by (simp add: validate_legacy_upload_migration_record_def journal_accepted)
  obtain j' e where j': "advance_legacy_upload_migration_record_with_witness w q x c = Inr (with_journal j' c)"
      "validate_legacy_upload_migration_record w (with_journal j' c) = Inr j'" "mj_identity j' = mj_identity j"
      "mj_entries j' = mj_entries j @ [e]" "pe_phase e = q" "pe_witness_sha256 e = x"
    using advance_ok [OF journal_of_candidate [OF assms(2) id assms(5)] journal_only_next [OF assms(3)]
        delta_states [OF assms(3) delta state] assms(1,6)] by blast
  then have q: "journal_phase j' = q" by (simp add: journal_phase_def)
  have "\<not> migration_record_eq r (with_journal j' c)"
    by (rule longer_journal_differs [OF assms(2) j'(2)]) (simp add: j'(4))
  then have "validate_legacy_upload_migration_record_update w r (with_journal j' c) = Inr (Advance (journal_phase j) q)"
    using assms(2-4) j'(2-4) id q
    by (simp add: validate_legacy_upload_migration_record_update_def result_simps map_err_def)
  moreover have "advance_legacy_upload_migration_record_with_witness w q x (with_journal j' c) = Inr (with_journal j' c)"
    by (rule advance_again [OF j'(2) assms(6)]) (simp_all add: j' q)
  ultimately show ?thesis using j' by blast
qed

text \<open>
  C30: Advancing never gets stuck on a good candidate. If the record's journal is accepted,
  the policy of the step allows the change from the record to the candidate, and the candidate still carries
  the journal, then \<open>advance\<close> returns the candidate with one more entry, of the phase and the witness asked
  for; the update from the old record to it passes the validator of updates as that very step, and
  advancing once more by the same witness changes no byte.
\<close>

theorem advance_is_accepted:
  assumes "hex_world w" and "validate_legacy_upload_migration_record w r = Inr j"
    and "for_transition (journal_phase j) q = Some d" and "validate_transition_delta w r c d = Inr ()"
    and "get_proof c LEGACY_UPLOAD_MIGRATION_PROOF_NAME = get_proof r LEGACY_UPLOAD_MIGRATION_PROOF_NAME"
    and "hex_digest x"
  shows "\<exists>j'. advance_legacy_upload_migration_record_with_witness w q x c = Inr (with_journal j' c)
    \<and> (\<exists>e. mj_entries j' = mj_entries j @ [e] \<and> pe_phase e = q \<and> pe_witness_sha256 e = x)
    \<and> validate_legacy_upload_migration_record_update w r (with_journal j' c) = Inr (Advance (journal_phase j) q)
    \<and> advance_legacy_upload_migration_record_with_witness w q x (with_journal j' c) = Inr (with_journal j' c)"
  using assms by (rule advance_accepted)

subsection \<open>Preparation\<close>

lemma unique_of_Some: "unique_of P p = Some x \<Longrightarrow> x \<in> set (both p) \<and> P x"
  by (cases p) (auto simp: unique_of_def both_def split: if_splits)

lemma cohort_identity_ok:
  assumes "validate_cohort_authority w au = Inr ()" and "preparation_for_asset au a = Some p"
  shows "validate_identity w (zp_identity p) = Inr ()" and "hex_digest (zp_prepared_witness_sha256 p)"
    and "mi_asset_id (zp_identity p) = a"
  using assms
  by (auto simp: validate_cohort_authority_def result_simps validate_digest_Ok preparation_for_asset_def both_def
      split: prod.splits dest!: unique_of_Some)

text \<open>
  C31: An untouched legacy record can be prepared. If the cohort's authority is valid and
  names the asset, and the record is the one that was inspected (its digest is the one in the identity,
  its state is \<open>UploadVerified\<close>, it carries no journal), then \<open>prepare\<close> returns the record with a journal
  of exactly one entry, of phase \<open>PhPrepared\<close> and the authority's witness, for the authority's identity;
  the pair passes the validator of the commit, and preparing again changes no byte.
\<close>

theorem preparation_is_accepted:
  assumes "hex_world w" and "validate_cohort_authority w au = Inr ()"
    and "preparation_for_asset au (ar_asset_id r) = Some p" and "\<not> has_proof r LEGACY_UPLOAD_MIGRATION_PROOF_NAME"
    and "ar_state r = UploadVerified"
    and "mi_source_record_sha256 (zp_identity p) = legacy_upload_migration_record_digest w r"
  shows "\<exists>j e. prepare_legacy_upload_migration_record w au r = Inr (with_journal j r)
    \<and> mj_identity j = zp_identity p \<and> mj_entries j = [e] \<and> pe_phase e = PhPrepared
    \<and> pe_witness_sha256 e = zp_prepared_witness_sha256 p
    \<and> validate_preparation_update w \<lparr>cu_expected = r, cu_updated = with_journal j r\<rparr> = Inr j
    \<and> prepare_legacy_upload_migration_record w au (with_journal j r) = Inr (with_journal j r)"
proof -
  note p = cohort_identity_ok [OF assms(2,3)]
  define e where "e = build_entry w 2 (identity_digest w (zp_identity p)) 0 PhPrepared (zp_prepared_witness_sha256 p)
      (legacy_upload_migration_record_body_digest w r) GENESIS_ENTRY_SHA256"
  let ?j = "\<lparr>mj_schema_version = 2, mj_identity = zp_identity p, mj_entries = [e]\<rparr>"
  have e: "pe_phase e = PhPrepared" "pe_witness_sha256 e = zp_prepared_witness_sha256 p"
    "pe_record_body_sha256 e = legacy_upload_migration_record_body_digest w r"
    by (simp_all add: e_def build_entry_def)
  have "entry_ok w 2 (identity_digest w (zp_identity p)) 0 GENESIS_ENTRY_SHA256 e"
    using build_entry_ok [OF assms(1) _ p(2) hex_digests(2) [OF assms(1)] genesis_hex, of 0]
    by (simp add: e_def ORDER_def)
  then have "chain w ?j" by (simp add: chain_def digest_before_def)
  then have accepted: "validate_journal_for_record w (with_journal ?j r) current = Inr ?j" for current
    by (rule accepted_with_journal) (use p assms(5) e in \<open>simp_all add: journal_phase_def\<close>)
  have first: "prepare_legacy_upload_migration_record w au r = Inr (with_journal ?j r)"
    using assms p accepted [of True] unfolding e_def
    by (simp add: prepare_legacy_upload_migration_record_def result_simps validate_digest_Ok validate_state_def
        Let_def LEGACY_UPLOAD_MIGRATION_SCHEMA_VERSION_def validate_legacy_upload_migration_record_def)
  have "advance_legacy_upload_migration_record_with_witness w PhPrepared (zp_prepared_witness_sha256 p) (with_journal ?j r)
      = Inr (with_journal ?j r)"
    by (rule advance_again [of _ _ ?j, OF _ p(2)])
      (use accepted [of True] e in \<open>simp_all add: validate_legacy_upload_migration_record_def journal_phase_def\<close>)
  then have "prepare_legacy_upload_migration_record w au (with_journal ?j r) = Inr (with_journal ?j r)"
    using assms(2,3) accepted [of True]
    by (simp add: prepare_legacy_upload_migration_record_def result_simps Let_def)
  moreover have "validate_preparation_update w \<lparr>cu_expected = r, cu_updated = with_journal ?j r\<rparr> = Inr ?j"
    using assms(4,6) accepted [of True] e(1)
    by (simp add: validate_preparation_update_def result_simps map_err_def validate_legacy_upload_migration_record_def)
  ultimately show ?thesis using first e by (intro exI [of _ ?j] exI [of _ e]) simp
qed

lemma sample_hex_world: "hex_world migration_world"
  by (simp add: hex_world_def migration_world_hex)

text \<open>The legacy record of the first asset of the cohort.\<close>

theorem preparation_is_accepted_witness:
  "\<exists>j e. prepare_legacy_upload_migration_record migration_world sample_cohort (sample_legacy ''A'')
       = Inr (with_journal j (sample_legacy ''A''))
     \<and> mj_entries j = [e] \<and> pe_phase e = PhPrepared"
proof -
  have "preparation_for_asset sample_cohort (ar_asset_id (sample_legacy ''A'')) = Some (sample_preparation ''A'')"
    "\<not> has_proof (sample_legacy ''A'') LEGACY_UPLOAD_MIGRATION_PROOF_NAME" "ar_state (sample_legacy ''A'') = UploadVerified"
    "mi_source_record_sha256 (zp_identity (sample_preparation ''A''))
       = legacy_upload_migration_record_digest migration_world (sample_legacy ''A'')"
    by (simp_all add: sample_legacy_def new_asset_record_def has_proof_iff get_proof_def sample_preparation_for
        sample_record_digest sample_preparation_def sample_identity_def Let_def)
  from preparation_is_accepted [OF sample_hex_world sample_cohort_valid this] show ?thesis by blast
qed

subsection \<open>A prepared record\<close>

definition sample_entry :: phase_entry where
  "sample_entry = build_entry migration_world 2 (identity_digest migration_world (sample_identity ''A'')) (of_nat 0)
     (ORDER ! 0) (replicate 64 CHR ''0'')
     (legacy_upload_migration_record_body_digest migration_world (sample_legacy ''A'')) GENESIS_ENTRY_SHA256"

definition sample_journal :: migration_journal where
  "sample_journal = \<lparr>mj_schema_version = 2, mj_identity = sample_identity ''A'', mj_entries = [sample_entry]\<rparr>"

definition sample_prepared :: asset_record where
  "sample_prepared = with_journal sample_journal (sample_legacy ''A'')"

lemma sample_journal_phase: "journal_phase sample_journal = PhPrepared"
  by (simp add: journal_phase_def sample_journal_def sample_entry_def build_entry_def ORDER_def)

lemma sample_prepared_valid: "validate_journal_for_record migration_world sample_prepared current = Inr sample_journal"
proof -
  have "entry_ok migration_world 2 (identity_digest migration_world (sample_identity ''A'')) 0 GENESIS_ENTRY_SHA256 sample_entry"
    unfolding sample_entry_def
    by (rule build_entry_ok [OF sample_hex_world _ _ hex_digests(2) [OF sample_hex_world] genesis_hex])
      (simp_all add: hex_digest_def lower_hex_def)
  then have chain: "chain migration_world sample_journal" by (simp add: chain_def digest_before_def sample_journal_def)
  have "mi_asset_id (sample_identity ''A'') = ar_asset_id (sample_legacy ''A'')"
    by (simp add: sample_identity_def sample_legacy_def new_asset_record_def Let_def)
  moreover have "ar_state (sample_legacy ''A'') = UploadVerified" by (simp add: sample_legacy_def)
  moreover have "pe_record_body_sha256 sample_entry
      = legacy_upload_migration_record_body_digest migration_world (sample_legacy ''A'')"
    by (simp add: sample_entry_def build_entry_def)
  ultimately show ?thesis unfolding sample_prepared_def
    by (intro accepted_with_journal chain)
      (simp_all add: sample_journal_phase, simp_all add: sample_journal_def sample_identity_valid)
qed

theorem advance_is_accepted_witness:
  "\<exists>j'. advance_legacy_upload_migration_record_with_witness migration_world PhDeleteConfirmed (replicate 64 CHR ''1'')
        sample_prepared = Inr (with_journal j' sample_prepared)
     \<and> validate_legacy_upload_migration_record_update migration_world sample_prepared (with_journal j' sample_prepared)
       = Inr (Advance PhPrepared PhDeleteConfirmed)"
proof -
  have "validate_legacy_upload_migration_record migration_world sample_prepared = Inr sample_journal"
    by (simp add: validate_legacy_upload_migration_record_def sample_prepared_valid)
  moreover have "for_transition (journal_phase sample_journal) PhDeleteConfirmed = Some JournalOnly"
    by (simp add: sample_journal_phase for_transition_def)
  moreover have "validate_transition_delta migration_world sample_prepared sample_prepared JournalOnly = Inr ()"
    by (simp add: validate_transition_delta_def result_simps delta_valid_def path_eq_def)
  moreover have "hex_digest (replicate 64 CHR ''1'')" by (simp add: hex_digest_def lower_hex_def)
  ultimately show ?thesis
    using advance_is_accepted [OF sample_hex_world _ _ _ refl, of sample_prepared sample_journal] sample_journal_phase
    by metis
qed

subsection \<open>The sealed history of the sample\<close>

lemma sample_texts:
  "identity_text migration_world sample_journal ! 2 = CHR ''m''"
  "entry_text migration_world sample_journal e ! 2 = CHR ''s''"
proof -
  have "json_escape CHR ''m'' = ''m''" "json_escape CHR ''s'' = ''s''" by (simp_all add: json_escape_def byte_def)
  then show "identity_text migration_world sample_journal ! 2 = CHR ''m''"
    "entry_text migration_world sample_journal e ! 2 = CHR ''s''"
    by (simp_all add: identity_text_def entry_text_def migration_identity_json_def entry_digest_input_def
        json_string_text_def)
qed

theorem sealed_history_is_pinned_witness:
  "\<exists>j j'. validate_journal_for_record migration_world sample_prepared True = Inr j
     \<and> validate_journal_for_record migration_world (sample_prepared\<lparr>ar_state := NasVerified\<rparr>) False = Inr j'
     \<and> j = j'"
proof -
  have other: "validate_journal_for_record migration_world (sample_prepared\<lparr>ar_state := NasVerified\<rparr>) False
      = Inr sample_journal"
    using sample_prepared_valid [of False] by (simp add: journal_accepted get_proof_def)
  have "inj_on (ww_sha256_hex migration_world)
      (hashed_texts migration_world sample_journal \<union> hashed_texts migration_world sample_journal)"
    by (auto simp: hashed_texts_def inj_on_def sample_journal_def migration_world_def sample_sha_def
        sample_texts [unfolded sample_journal_def migration_world_def])
  from sealed_history_is_pinned [OF sample_prepared_valid other this refl] other sample_prepared_valid
  show ?thesis by blast
qed

end
