(* ===== verification/Migration_Safety.thy ===== *)
theory Migration_Safety
  imports Migration_Guarantees "HOL-Library.Sublist"
begin

section \<open>What an accepted update may change\<close>

text \<open>
  An update that the commits accept is a replay or one step of the order of phases; a step changes the
  proofs of its phase and nothing else. Hence what a run of accepted updates keeps.
\<close>

subsection \<open>Exact deltas\<close>

lemma get_without_journal:
  "bt_get (proofs_without_migration_journal r) k = (if k = LEGACY_UPLOAD_MIGRATION_PROOF_NAME then None else get_proof r k)"
  by (simp add: proofs_without_migration_journal_def get_proof_def)

lemma remove_proofs_Some:
  assumes "remove_proofs ks d = Some d'"
  shows "bt_get d' k = (if k \<in> set ks then None else bt_get d k) \<and> (k \<in> set ks \<longrightarrow> bt_get d k \<noteq> None)"
  using assms
proof (induction ks arbitrary: d)
  case (Cons a ks)
  then have "bt_get d a \<noteq> None" "remove_proofs ks (bt_remove a d) = Some d'"
    by (auto simp: bt_contains_def split: if_splits)
  with Cons.IH [OF this(2)] show ?case by (auto split: if_splits)
qed simp

lemma add_proofs_Some:
  assumes "add_proofs u ks d = Some d'"
  shows "bt_get d' k = (if k \<in> set ks then bt_get u k else bt_get d k)
    \<and> (k \<in> set ks \<longrightarrow> bt_get d k = None \<and> bt_get u k \<noteq> None)"
  using assms
proof (induction ks arbitrary: d)
  case (Cons a ks)
  then obtain v where "bt_get d a = None" "bt_get u a = Some v" "add_proofs u ks (bt_insert a v d) = Some d'"
    by (auto simp: bt_contains_def split: if_splits option.splits)
  with Cons.IH [OF this(3)] show ?case by (auto split: if_splits)
qed simp

text \<open>The proofs that entering a phase takes away, and those that it brings.\<close>

definition lineage_proofs :: "string set" where
  "lineage_proofs = {CONVERSION_PROOF, CONVERSION_PERFORMANCE_PROOF, HEIC_PROOF, UPLOAD_PROOF, ICLOUDPD_LOCAL_MIRROR_PROOF}"

definition phase_removes :: "migration_phase \<Rightarrow> string set" where
  "phase_removes q = (if q = PhReset then lineage_proofs else {})"

definition phase_adds :: "migration_phase \<Rightarrow> string set" where
  "phase_adds q =
     (case q of
        PhConverted \<Rightarrow> {CONVERSION_PROOF, CONVERSION_PERFORMANCE_PROOF, HEIC_PROOF}
      | PhUploadVerified \<Rightarrow> {UPLOAD_PROOF}
      | PhMirrored \<Rightarrow> {ICLOUDPD_LOCAL_MIRROR_PROOF}
      | _ \<Rightarrow> {})"

text \<open>How proof \<open>k\<close> of a record may change when it enters phase \<open>q\<close>.\<close>

definition proof_step :: "migration_phase \<Rightarrow> string \<Rightarrow> json option \<Rightarrow> json option \<Rightarrow> bool" where
  "proof_step q k before after \<longleftrightarrow>
     (if k \<in> phase_removes q then before \<noteq> None \<and> after = None
      else if k \<in> phase_adds q then before = None \<and> after \<noteq> None
      else after = before)"

lemma exact_proof_delta_step:
  assumes "exact_proof_delta r r' removed added" and "k \<noteq> LEGACY_UPLOAD_MIGRATION_PROOF_NAME"
    and "set removed = phase_removes q" and "set added = phase_adds q"
  shows "proof_step q k (get_proof r k) (get_proof r' k)"
proof -
  obtain d where d: "remove_proofs removed (proofs_without_migration_journal r) = Some d"
      "add_proofs (proofs_without_migration_journal r') added d = Some (proofs_without_migration_journal r')"
    using assms(1) by (auto simp: exact_proof_delta_def bind_eq_Some_conv)
  have "k \<notin> phase_removes q \<or> k \<notin> phase_adds q" by (cases q) (simp_all add: phase_removes_def phase_adds_def)
  with remove_proofs_Some [OF d(1), of k] add_proofs_Some [OF d(2), of k] show ?thesis
    using assms(2) unfolding assms(3,4) get_without_journal proof_step_def
    by (cases "k \<in> phase_removes q"; cases "k \<in> phase_adds q") simp_all
qed

lemma delta_proof_step:
  assumes "for_transition p q = Some d" and "delta_valid w r r' d" and "k \<noteq> LEGACY_UPLOAD_MIGRATION_PROOF_NAME"
  shows "proof_step q k (get_proof r k) (get_proof r' k)"
proof (cases "d = JournalOnly")
  case True
  then have "bt_get (proofs_without_migration_journal r) k = bt_get (proofs_without_migration_journal r') k"
    using assms(2) by (simp add: delta_valid_def)
  moreover have "phase_removes q = {}" "phase_adds q = {}"
    using assms(1) True by (cases p; cases q; simp add: for_transition_def phase_removes_def phase_adds_def)+
  ultimately show ?thesis using assms(3) by (simp add: get_without_journal proof_step_def)
next
  case False
  then obtain removed added where "exact_proof_delta r r' removed added"
      "set removed = phase_removes q" "set added = phase_adds q"
    using assms(1,2)
    by (cases p; cases q) (auto simp: for_transition_def delta_valid_def phase_removes_def phase_adds_def lineage_proofs_def)
  then show ?thesis using exact_proof_delta_step assms(3) by blast
qed

subsection \<open>What the workflow would have recorded\<close>

text \<open>
  The proofs that a phase brings are those of the operations of \<open>workflow.rs\<close>, run on the record without
  its journal.
\<close>

definition installed_by :: "workflow_world \<Rightarrow> asset_record \<Rightarrow> migration_phase \<Rightarrow> migration_manifest \<Rightarrow> bool" where
  "installed_by w r q m' \<longleftrightarrow>
     (let m = insert_record (r\<lparr>ar_proofs := proofs_without_migration_journal r\<rparr>) new_manifest; a = ar_asset_id r in
      case q of
        PhConverted \<Rightarrow>
          (\<exists>m1 m2 conversion performance heic. record_current_conversion_result w conversion m a = Inr m1
             \<and> record_current_conversion_performance w performance m1 a = Inr m2
             \<and> record_current_heic_verification w heic m2 a = Inr m')
      | PhUploadVerified \<Rightarrow> (\<exists>upload. record_upload_proof w upload m a = Inr m')
      | PhMirrored \<Rightarrow> (\<exists>mirror. record_icloudpd_local_mirror_proof w mirror m a = Inr m')
      | _ \<Rightarrow> m' = m)"

lemma manifest_with_record_Some:
  "manifest_with_record w r = Some m \<Longrightarrow> m = insert_record (r\<lparr>ar_proofs := proofs_without_migration_journal r\<rparr>) new_manifest"
  by (auto simp: manifest_with_record_def split: sum.splits if_splits)

lemma generated_proof:
  "generated_proofs_match m r' ks \<Longrightarrow>
     \<exists>x. manifest_get m (ar_asset_id r') = Inr x \<and> (\<forall>k\<in>set ks. get_proof x k = get_proof r' k)"
  by (auto simp: generated_proofs_match_def list_all_iff split: sum.splits)

lemma delta_installed:
  assumes "for_transition p q = Some d" and "delta_valid w r r' d" and "ar_asset_id r' = ar_asset_id r"
    and "phase_adds q \<noteq> {}"
  shows "\<exists>m x. installed_by w r q m \<and> manifest_get m (ar_asset_id r) = Inr x
    \<and> (\<forall>k\<in>phase_adds q. get_proof x k = get_proof r' k)"
proof -
  consider "q = PhConverted" "validate_verified_conversion_delta w r r'"
    | "q = PhUploadVerified" "validate_verified_upload_delta w r r'"
    | "q = PhMirrored" "validate_verified_mirror_delta w r r'"
    using assms(1,2,4) by (cases p; cases q) (auto simp: for_transition_def delta_valid_def phase_adds_def)
  then show ?thesis
  proof cases
    case 1
    then obtain c p h m m' where m: "manifest_with_record w r = Some m" "install_conversion w c p h m (ar_asset_id r) = Inr m'"
      "generated_proofs_match m' r' [CONVERSION_PROOF, CONVERSION_PERFORMANCE_PROOF, HEIC_PROOF]"
      by (auto simp: validate_verified_conversion_delta_def split: option.splits sum.splits)
    have "installed_by w r q m'"
      using m(2) unfolding manifest_with_record_Some [OF m(1)] 1(1)
      by (auto simp: installed_by_def Let_def install_conversion_def result_simps)
    with generated_proof [OF m(3)] show ?thesis using assms(3) 1(1) by (auto simp: phase_adds_def)
  next
    case 2
    then obtain u m m' where m: "manifest_with_record w r = Some m" "record_upload_proof w u m (ar_asset_id r) = Inr m'"
      "generated_proofs_match m' r' [UPLOAD_PROOF]"
      by (auto simp: validate_verified_upload_delta_def split: option.splits sum.splits)
    have "installed_by w r q m'"
      using m(2) unfolding manifest_with_record_Some [OF m(1)] 2(1) by (auto simp: installed_by_def Let_def)
    with generated_proof [OF m(3)] show ?thesis using assms(3) 2(1) by (auto simp: phase_adds_def)
  next
    case 3
    then obtain u m m' where m: "manifest_with_record w r = Some m"
      "record_icloudpd_local_mirror_proof w u m (ar_asset_id r) = Inr m'"
      "generated_proofs_match m' r' [ICLOUDPD_LOCAL_MIRROR_PROOF]"
      by (auto simp: validate_verified_mirror_delta_def split: option.splits sum.splits)
    have "installed_by w r q m'"
      using m(2) unfolding manifest_with_record_Some [OF m(1)] 3(1) by (auto simp: installed_by_def Let_def)
    with generated_proof [OF m(3)] show ?thesis using assms(3) 3(1) by (auto simp: phase_adds_def)
  qed
qed

subsection \<open>Updates\<close>

text \<open>What no update touches.\<close>

definition same_body :: "asset_record \<Rightarrow> asset_record \<Rightarrow> bool" where
  "same_body r r' \<longleftrightarrow>
     ar_asset_id r' = ar_asset_id r \<and> path_eq (ar_raw_path r) (ar_raw_path r') \<and> ar_failures r' = ar_failures r
     \<and> ar_updated_at r' = ar_updated_at r"

lemma accepted_state:
  "validate_legacy_upload_migration_record w r = Inr j \<Longrightarrow> ar_state r = required_state (journal_phase j)"
  by (simp add: validate_legacy_upload_migration_record_def journal_accepted)

lemma update_journals:
  assumes "validate_legacy_upload_migration_record_update w r r' = Inr shape"
  obtains j j' where "validate_legacy_upload_migration_record w r = Inr j"
    and "validate_legacy_upload_migration_record w r' = Inr j'" and "identity_eq (mj_identity j) (mj_identity j')"
    and "migration_record_eq r r' \<Longrightarrow> shape = Replay (journal_phase j)"
    and "\<not> migration_record_eq r r' \<Longrightarrow> \<exists>d. length (mj_entries j') = length (mj_entries j) + 1
      \<and> take (length (mj_entries j)) (mj_entries j') = mj_entries j
      \<and> for_transition (journal_phase j) (journal_phase j') = Some d
      \<and> validate_transition_delta w r r' d = Inr () \<and> shape = Advance (journal_phase j) (journal_phase j')"
proof -
  from assms obtain j j' where j: "validate_legacy_upload_migration_record w r = Inr j"
      "validate_legacy_upload_migration_record w r' = Inr j'"
    unfolding validate_legacy_upload_migration_record_update_def bind_ok_eq_Ok map_err_eq_Ok by blast
  show thesis
    by (rule that [OF j])
      (use assms j in \<open>auto simp: validate_legacy_upload_migration_record_update_def result_simps map_err_def split: if_splits\<close>)
qed

lemma one_more_entry:
  assumes "length ys = length xs + 1" and "take (length xs) ys = xs"
  shows "\<exists>e. ys = xs @ [e]"
proof -
  have "ys = take (length xs) ys @ drop (length xs) ys" by simp
  moreover have "length (drop (length xs) ys) = 1" using assms(1) by simp
  ultimately show ?thesis using assms(2) by (metis One_nat_def length_0_conv length_Suc_conv)
qed

lemma update_exact:
  assumes "validate_legacy_upload_migration_record_update w r r' = Inr (Advance p q)"
  shows "next_phase p = Some q \<and> ar_state r = required_state p \<and> ar_state r' = required_state q
    \<and> same_body r r'
    \<and> (\<exists>j j' e. validate_legacy_upload_migration_record w r = Inr j
         \<and> validate_legacy_upload_migration_record w r' = Inr j'
         \<and> identity_eq (mj_identity j) (mj_identity j') \<and> mj_entries j' = mj_entries j @ [e]
         \<and> journal_phase j = p \<and> pe_phase e = q)
    \<and> (\<forall>k. k = LEGACY_UPLOAD_MIGRATION_PROOF_NAME \<or> proof_step q k (get_proof r k) (get_proof r' k))
    \<and> (phase_adds q = {}
       \<or> (\<exists>m x. installed_by w r q m \<and> manifest_get m (ar_asset_id r) = Inr x
            \<and> (\<forall>k\<in>phase_adds q. get_proof x k = get_proof r' k)))"
proof -
  obtain j j' d where j: "validate_legacy_upload_migration_record w r = Inr j"
      "validate_legacy_upload_migration_record w r' = Inr j'" "identity_eq (mj_identity j) (mj_identity j')"
      "length (mj_entries j') = length (mj_entries j) + 1" "take (length (mj_entries j)) (mj_entries j') = mj_entries j"
      "for_transition (journal_phase j) (journal_phase j') = Some d" "validate_transition_delta w r r' d = Inr ()"
      "p = journal_phase j" "q = journal_phase j'"
    by (rule update_journals [OF assms]) auto
  obtain e where e: "mj_entries j' = mj_entries j @ [e]" using one_more_entry [OF j(4,5)] by blast
  have delta: "same_body r r'" "delta_valid w r r' d"
    using j(7) by (auto simp: validate_transition_delta_def result_simps same_body_def)
  then have id: "ar_asset_id r' = ar_asset_id r" by (simp add: same_body_def)
  have step: "k = LEGACY_UPLOAD_MIGRATION_PROOF_NAME \<or> proof_step q k (get_proof r k) (get_proof r' k)" for k
    using delta_proof_step [OF j(6) delta(2)] j(9) by blast
  have installed: "phase_adds q = {} \<or> (\<exists>m x. installed_by w r q m \<and> manifest_get m (ar_asset_id r) = Inr x
      \<and> (\<forall>k\<in>phase_adds q. get_proof x k = get_proof r' k))"
    using delta_installed [OF j(6) delta(2) id] j(9) by blast
  have "pe_phase e = q" using e j(9) by (simp add: journal_phase_def)
  then show ?thesis
    using journal_only_next [OF j(6)] accepted_state [OF j(1)] accepted_state [OF j(2)] delta(1) step installed j(1-3,8,9) e
    by auto
qed

text \<open>
  C2: An accepted advance is exactly one step. The phase is followed by the next one of
  the order, the states are those of the two phases, the asset, its path, its failures and its time stay,
  and the journal gains one entry at its end. Of the other proofs only those of the step change: on the
  reset the five proofs of the old lineage, all present before, are gone; a conversion, an upload and a
  mirror bring the proofs of that kind, all absent before, and these are the very proofs that the
  operations of \<open>workflow.rs\<close> record when they run on the old record.
\<close>

theorem migration_update_is_exact:
  assumes "validate_legacy_upload_migration_record_update w r r' = Inr (Advance p q)"
  shows "next_phase p = Some q \<and> ar_state r = required_state p \<and> ar_state r' = required_state q
    \<and> same_body r r'
    \<and> (\<exists>j j' e. validate_legacy_upload_migration_record w r = Inr j
         \<and> validate_legacy_upload_migration_record w r' = Inr j'
         \<and> identity_eq (mj_identity j) (mj_identity j') \<and> mj_entries j' = mj_entries j @ [e]
         \<and> journal_phase j = p \<and> pe_phase e = q)
    \<and> (\<forall>k. k = LEGACY_UPLOAD_MIGRATION_PROOF_NAME \<or> proof_step q k (get_proof r k) (get_proof r' k))
    \<and> (phase_adds q = {}
       \<or> (\<exists>m x. installed_by w r q m \<and> manifest_get m (ar_asset_id r) = Inr x
            \<and> (\<forall>k\<in>phase_adds q. get_proof x k = get_proof r' k)))"
  using assms by (rule update_exact)

lemma sample_advance:
  "\<exists>j'. validate_legacy_upload_migration_record_update migration_world sample_prepared (with_journal j' sample_prepared)
       = Inr (Advance PhPrepared PhDeleteConfirmed)"
proof -
  have "validate_legacy_upload_migration_record migration_world sample_prepared = Inr sample_journal"
    by (simp add: validate_legacy_upload_migration_record_def sample_prepared_valid)
  moreover have "for_transition (journal_phase sample_journal) PhDeleteConfirmed = Some JournalOnly"
    by (simp add: sample_journal_phase for_transition_def)
  moreover have "validate_transition_delta migration_world sample_prepared sample_prepared JournalOnly = Inr ()"
    by (simp add: validate_transition_delta_def result_simps delta_valid_def path_eq_def)
  moreover have "hex_digest (replicate 64 CHR ''1'')" by (simp add: hex_digest_def lower_hex_def)
  ultimately show ?thesis
    using advance_accepted [OF sample_hex_world _ _ _ refl, of sample_prepared sample_journal] sample_journal_phase
    by metis
qed

theorem migration_update_is_exact_witness:
  "\<exists>r. validate_legacy_upload_migration_record_update migration_world sample_prepared r
       = Inr (Advance PhPrepared PhDeleteConfirmed)
     \<and> same_body sample_prepared r
     \<and> (\<forall>k. k = LEGACY_UPLOAD_MIGRATION_PROOF_NAME
          \<or> proof_step PhDeleteConfirmed k (get_proof sample_prepared k) (get_proof r k))"
proof -
  obtain r where r: "validate_legacy_upload_migration_record_update migration_world sample_prepared r
      = Inr (Advance PhPrepared PhDeleteConfirmed)"
    using sample_advance by blast
  then show ?thesis using migration_update_is_exact [OF r] by blast
qed

subsection \<open>Runs\<close>

text \<open>
  A run of accepted updates of one record; the world may have changed between two of them.
\<close>

inductive migration_run :: "asset_record \<Rightarrow> asset_record \<Rightarrow> bool" where
  start: "migration_run r r"
| update: "migration_run r r1 \<Longrightarrow> validate_legacy_upload_migration_record_update w r1 r2 = Inr shape \<Longrightarrow> migration_run r r2"

definition stored_journal :: "asset_record \<Rightarrow> migration_journal option" where
  "stored_journal r = Option.bind (get_proof r LEGACY_UPLOAD_MIGRATION_PROOF_NAME) de_migration_journal"

lemma accepted_stored: "validate_legacy_upload_migration_record w r = Inr j \<Longrightarrow> stored_journal r = Some j"
  by (simp add: stored_journal_def validate_legacy_upload_migration_record_def journal_accepted)

text \<open>What one update keeps.\<close>

definition grown :: "asset_record \<Rightarrow> migration_journal \<Rightarrow> asset_record \<Rightarrow> migration_journal \<Rightarrow> bool" where
  "grown r j r' j' \<longleftrightarrow>
     identity_eq (mj_identity j) (mj_identity j') \<and> prefix (mj_entries j) (mj_entries j') \<and> same_body r r'
     \<and> (\<forall>k. k = LEGACY_UPLOAD_MIGRATION_PROOF_NAME \<or> k \<in> lineage_proofs \<or> get_proof r' k = get_proof r k)"

lemma grown_refl: "grown r j r j"
  by (simp add: grown_def same_body_def path_eq_def)

lemma grown_trans: "grown r j r1 j1 \<Longrightarrow> grown r1 j1 r2 j2 \<Longrightarrow> grown r j r2 j2"
  unfolding grown_def same_body_def path_eq_def
  by (metis identity_eq_trans prefix_order.trans)

lemma phase_names: "phase_removes q \<union> phase_adds q \<subseteq> lineage_proofs"
  by (cases q) (simp_all add: phase_removes_def phase_adds_def lineage_proofs_def)

lemma update_grown:
  assumes "validate_legacy_upload_migration_record_update w r r' = Inr shape"
  shows "\<exists>j j'. stored_journal r = Some j \<and> validate_legacy_upload_migration_record w r' = Inr j' \<and> grown r j r' j'"
proof (cases "migration_record_eq r r'")
  case True
  then have proofs: "get_proof r' k = get_proof r k" for k
    by (cases r; cases r') (simp add: migration_record_eq_def get_proof_def)
  have body: "same_body r r'"
    using True by (cases r; cases r') (simp add: migration_record_eq_def same_body_def path_eq_def)
  obtain j j' where j: "validate_legacy_upload_migration_record w r = Inr j"
      "validate_legacy_upload_migration_record w r' = Inr j'" "identity_eq (mj_identity j) (mj_identity j')"
    by (rule update_journals [OF assms])
  then have "j' = j" using accepted_stored [OF j(1)] accepted_stored [OF j(2)] proofs by (simp add: stored_journal_def)
  then show ?thesis using j accepted_stored proofs body unfolding grown_def by blast
next
  case False
  then obtain p q where "shape = Advance p q" by (metis update_journals [OF assms])
  with assms have exact: "validate_legacy_upload_migration_record_update w r r' = Inr (Advance p q)" by simp
  from update_exact [OF exact] obtain j j' e where j: "validate_legacy_upload_migration_record w r = Inr j"
      "validate_legacy_upload_migration_record w r' = Inr j'" "identity_eq (mj_identity j) (mj_identity j')"
      "mj_entries j' = mj_entries j @ [e]" and body: "same_body r r'"
      and step: "\<forall>k. k = LEGACY_UPLOAD_MIGRATION_PROOF_NAME \<or> proof_step q k (get_proof r k) (get_proof r' k)"
    by blast
  have "get_proof r' k = get_proof r k" if "k \<noteq> LEGACY_UPLOAD_MIGRATION_PROOF_NAME" "k \<notin> lineage_proofs" for k
    using step that phase_names [of q] by (auto simp: proof_step_def split: if_splits)
  then have "grown r j r' j'" using j body by (auto simp: grown_def)
  then show ?thesis using j accepted_stored by blast
qed

lemma run_grown:
  assumes "migration_run r0 r" and "validate_legacy_upload_migration_record w r0 = Inr j0"
  shows "\<exists>w' j. validate_legacy_upload_migration_record w' r = Inr j \<and> grown r0 j0 r j"
  using assms
proof (induction rule: migration_run.induct)
  case (start r)
  then show ?case using grown_refl by blast
next
  case (update r0 r1 w1 r2 shape)
  then obtain w' j1 where j1: "validate_legacy_upload_migration_record w' r1 = Inr j1" "grown r0 j0 r1 j1" by blast
  from update_grown [OF update.hyps(2)] obtain j j2 where j2: "stored_journal r1 = Some j"
      "validate_legacy_upload_migration_record w1 r2 = Inr j2" "grown r1 j r2 j2"
    by blast
  moreover have "j = j1" using j2(1) accepted_stored [OF j1(1)] by simp
  ultimately show ?case using grown_trans [OF j1(2)] by blast
qed

lemma chain_phases:
  assumes "chain w j"
  shows "map pe_phase (mj_entries j) = take (length (mj_entries j)) ORDER" and "length (mj_entries j) \<le> 9"
proof -
  show n: "length (mj_entries j) \<le> 9" using assms by (simp add: chain_def)
  show "map pe_phase (mj_entries j) = take (length (mj_entries j)) ORDER"
    by (rule nth_equalityI) (use assms n in \<open>auto simp: chain_def entry_ok_def\<close>)
qed

text \<open>
  C3: Along every run of accepted updates, in whatever worlds they were accepted, the
  history of a migrated record only grows: its journal stays accepted, keeps its identity and its first
  entries, and its phases are the beginning of the order (so it gains at most eight entries); the record
  has the state of its last phase; asset, path, failures and time stay; and every proof but the journal
  and the five of the lineage - the proof of the RAW file among them - is what it was at the start.
\<close>

theorem migration_history_grows:
  assumes "migration_run r0 r" and "validate_legacy_upload_migration_record w r0 = Inr j0"
  shows "\<exists>w' j. validate_legacy_upload_migration_record w' r = Inr j
    \<and> identity_eq (mj_identity j0) (mj_identity j) \<and> prefix (mj_entries j0) (mj_entries j)
    \<and> map pe_phase (mj_entries j) = take (length (mj_entries j)) ORDER
    \<and> ar_state r = required_state (journal_phase j) \<and> same_body r0 r
    \<and> (\<forall>k. k = LEGACY_UPLOAD_MIGRATION_PROOF_NAME \<or> k \<in> lineage_proofs \<or> get_proof r k = get_proof r0 k)"
proof -
  obtain w' j where j: "validate_legacy_upload_migration_record w' r = Inr j" "grown r0 j0 r j"
    using run_grown [OF assms] by blast
  then have "chain w' j" by (auto simp: validate_legacy_upload_migration_record_def dest: journal_is_accepted)
  then show ?thesis using j chain_phases accepted_state [OF j(1)] unfolding grown_def by blast
qed

theorem migration_history_grows_witness:
  "\<exists>r w' j. migration_run sample_prepared r \<and> validate_legacy_upload_migration_record w' r = Inr j
     \<and> prefix (mj_entries sample_journal) (mj_entries j) \<and> same_body sample_prepared r"
proof -
  obtain r where "validate_legacy_upload_migration_record_update migration_world sample_prepared r
      = Inr (Advance PhPrepared PhDeleteConfirmed)"
    using sample_advance by blast
  then have run: "migration_run sample_prepared r" by (rule migration_run.update [OF migration_run.start])
  have "validate_legacy_upload_migration_record migration_world sample_prepared = Inr sample_journal"
    by (simp add: validate_legacy_upload_migration_record_def sample_prepared_valid)
  from migration_history_grows [OF run this] run show ?thesis by blast
qed

end
