(* ===== verification/Migration_Pair.thy ===== *)
theory Migration_Pair
  imports Migration_Safety State_Refine
begin

section \<open>A pair is committed as a whole\<close>

text \<open>
  The two records of a cohort move together: a commit swaps both rows in one transaction or leaves the
  tables as they were, under the registry of the cohort.
\<close>

definition stored_row :: "migration_registry store_api \<Rightarrow> asset_record \<Rightarrow> asset_row" where
  "stored_row api r = row_of r (encode_record api r)"

text \<open>Both expected rows were there, and the updated ones take their place.\<close>

definition pair_swapped :: "migration_registry store_api \<Rightarrow> cas_update \<Rightarrow> cas_update \<Rightarrow> state_db \<Rightarrow> state_db \<Rightarrow> bool" where
  "pair_swapped api u v db db' \<longleftrightarrow>
     ar_asset_id (cu_updated u) = ar_asset_id (cu_expected u) \<and> ar_asset_id (cu_updated v) = ar_asset_id (cu_expected v)
     \<and> ar_asset_id (cu_expected u) \<noteq> ar_asset_id (cu_expected v)
     \<and> bt_get (sd_assets db) (ar_asset_id (cu_expected u)) = Some (stored_row api (cu_expected u))
     \<and> bt_get (sd_assets db) (ar_asset_id (cu_expected v)) = Some (stored_row api (cu_expected v))
     \<and> (\<forall>a. bt_get (sd_assets db') a =
          (if a = ar_asset_id (cu_expected u) then Some (stored_row api (cu_updated u))
           else if a = ar_asset_id (cu_expected v) then Some (stored_row api (cu_updated v))
           else bt_get (sd_assets db) a))"

lemma swap_record_Ok:
  "swap_record api u db = Inr db' \<longleftrightarrow>
     bt_contains (sd_assets db) (ar_asset_id (cu_updated u))
     \<and> db' = db\<lparr>sd_assets := bt_insert (ar_asset_id (cu_updated u)) (row_of (cu_updated u) (encode_record api (cu_updated u)))
         (sd_assets db)\<rparr>"
  by (auto simp: swap_record_def Let_def)

lemma claimed_pair:
  assumes "try_fold claim_cas_update [u, v] {} = Inr seen"
  shows "ar_asset_id (cu_updated u) = ar_asset_id (cu_expected u)" "ar_asset_id (cu_updated v) = ar_asset_id (cu_expected v)"
    "ar_asset_id (cu_expected u) \<noteq> ar_asset_id (cu_expected v)"
  using claim_cas_updates [OF assms] by simp_all

lemma swapped_pair:
  assumes "swap_records api (Some authority) [u, v] db = Inr (x, db')"
    and "try_fold claim_cas_update [u, v] {} = Inr seen"
  shows "\<exists>db1. apply_legacy_upload_migration_registry_authority api authority db = Inr db1 \<and> pair_swapped api u v db1 db'
    \<and> sd_registry db' = sd_registry db1 \<and> sd_registry_table db' = sd_registry_table db1"
proof -
  from assms(1) obtain db1 db2 where d: "apply_legacy_upload_migration_registry_authority api authority db = Inr db1"
      "expected_is_stored api db1 u = Inr ()" "expected_is_stored api db1 v = Inr ()"
      "swap_record api u db1 = Inr db2" "swap_record api v db2 = Inr db'"
    by (auto simp: swap_records_def result_simps)
  note ids = claimed_pair [OF assms(2)]
  have "pair_swapped api u v db1 db'"
    using d(2-5) ids
    by (auto simp: pair_swapped_def stored_row_def expected_is_stored_def swap_record_Ok)
  moreover have "sd_registry db' = sd_registry db1" "sd_registry_table db' = sd_registry_table db1"
    using d(4,5) by (auto simp: swap_record_Ok)
  ultimately show ?thesis using d(1) by blast
qed

lemma pair_swapped_same_rows:
  "sd_assets db1 = sd_assets db \<Longrightarrow> pair_swapped api u v db1 db' = pair_swapped api u v db db'"
  by (simp add: pair_swapped_def)

lemma lease_registry:
  assumes "validate_writer_lease token now db = Inr db'"
  shows "sd_registry db' = sd_registry db" "sd_registry_table db' = sd_registry_table db"
proof -
  from assms obtain f where "db' = update_lease f db"
    by (auto simp: validate_writer_lease_def result_simps Let_def split: if_splits)
  then show "sd_registry db' = sd_registry db" "sd_registry_table db' = sd_registry_table db"
    by (simp_all add: update_lease_def)
qed

text \<open>What a commit of a pair leaves, for either way to treat the registry.\<close>

lemma persist_exact_pair_effect:
  assumes "persist_exact_pair w parse c s authority (u, v) db = (result, db')"
  shows "case result of
      Inl e \<Rightarrow> db' = db
    | Inr _ \<Rightarrow> \<exists>db1 db2. sd_registry db1 = sd_registry db \<and> sd_registry_table db1 = sd_registry_table db
        \<and> apply_legacy_upload_migration_registry_authority (migration_store_api w parse) authority db1 = Inr db2
        \<and> pair_swapped (migration_store_api w parse) u v db db'
        \<and> sd_registry db' = sd_registry db2 \<and> sd_registry_table db' = sd_registry_table db2"
proof -
  let ?api = "migration_store_api w parse"
  obtain r where r: "persist_records_exact_cas_atomic_with_owned_lease ?api c s (Some authority) [u, v] db = (r, db')"
      "result = map_err CommitStateStore r"
    using assms
    by (auto simp: persist_exact_pair_def persist_records_exact_cas_atomic_with_legacy_upload_migration_authority_def
        both_def split: prod.splits)
  show ?thesis
  proof (cases "bind_ok (writer_token s) (\<lambda>_. try_fold claim_cas_update [u, v] {})")
    case (Inl e)
    with r show ?thesis by (auto simp: persist_records_exact_cas_atomic_with_owned_lease_def)
  next
    case (Inr seen)
    then have claimed: "try_fold claim_cas_update [u, v] {} = Inr seen" by (auto simp: bind_ok_eq_Ok)
    from r(1) Inr have "as_writer c s (swap_records ?api (Some authority) [u, v]) db = (r, db')"
      by (simp add: persist_records_exact_cas_atomic_with_owned_lease_def)
    then show ?thesis
    proof (cases rule: as_writer_effect)
      case (refused e)
      with r(2) show ?thesis by simp
    next
      case (committed token db1 x)
      from swapped_pair [OF committed(4) claimed] obtain db2 where
        db2: "apply_legacy_upload_migration_registry_authority ?api authority db1 = Inr db2"
          "pair_swapped ?api u v db2 db'" "sd_registry db' = sd_registry db2" "sd_registry_table db' = sd_registry_table db2"
        by blast
      have "sd_assets db2 = sd_assets db"
        using registry_authority_frame [OF db2(1)] validated_lease(1) [OF committed(3)] by simp
      then have "pair_swapped ?api u v db db'" using db2(2) pair_swapped_same_rows by blast
      with db2 lease_registry [OF committed(3)] committed(1) r(2) show ?thesis by auto
    qed
  qed
qed

subsection \<open>A phase\<close>

lemma verify_exact_Ok:
  "apply_legacy_upload_migration_registry_authority (migration_store_api w parse) (VerifyExact g) db = Inr db' \<longleftrightarrow>
     db' = db \<and> (\<exists>p. load_database_legacy_upload_migration_registry (migration_store_api w parse) db = Inr (Some p)
       \<and> registry_eq p g)"
  by (auto simp: apply_legacy_upload_migration_registry_authority_def result_simps migration_store_api_def
      option_rel_Some2 split: if_splits)

lemma authorized_shape:
  assumes "authorized_phase_ok w au shape (u, j) = Inr ()"
  shows "shape = Advance (za_from au) (za_to au) \<or> shape = Replay (za_to au)"
  using assms by (cases shape) (auto simp: authorized_phase_ok_def result_simps Let_def)

text \<open>
  C4: A commit of a phase is all or nothing. If it fails, the state database is what it
  was. If it succeeds, both updates passed the validator as the same step, the one of the authority or its
  replay; both expected records were the stored rows, the updated ones take their place and no other
  row changed; and the registry in the database, which stays, is the one of the two updated journals.
\<close>

theorem phase_commit_is_atomic:
  "case persist_two_legacy_upload_migration_records_exact_cas w parse c s au (u, v) db of
      (Inl e, db') \<Rightarrow> db' = db
    | (Inr _, db') \<Rightarrow>
        (\<exists>shape. validate_legacy_upload_migration_record_update w (cu_expected u) (cu_updated u) = Inr shape
           \<and> validate_legacy_upload_migration_record_update w (cu_expected v) (cu_updated v) = Inr shape
           \<and> (shape = Advance (za_from au) (za_to au) \<or> shape = Replay (za_to au)))
        \<and> pair_swapped (migration_store_api w parse) u v db db'
        \<and> sd_registry db' = sd_registry db
        \<and> (\<exists>stored sealed j j'. load_database_legacy_upload_migration_registry (migration_store_api w parse) db = Inr (Some stored)
             \<and> validate_legacy_upload_migration_record w (cu_updated u) = Inr j
             \<and> validate_legacy_upload_migration_record w (cu_updated v) = Inr j'
             \<and> legacy_upload_migration_registry_from_journals w [j, j'] = Inr sealed \<and> registry_eq stored sealed)"
proof -
  obtain result db' where p: "persist_two_legacy_upload_migration_records_exact_cas w parse c s au (u, v) db = (result, db')"
    by (rule prod.exhaust)
  define checked where "checked = bind_ok (map_err (\<lambda>_. CommitPhaseAuthorityMismatch) (validate_phase_authority w au)) (\<lambda>_.
           bind_ok (try_map (validate_phase_update w) (both (u, v))) (\<lambda>checked.
           bind_ok (validate_exact_pair (u, v) (map snd checked)) (\<lambda>_.
           bind_ok (fail_if (fst (checked ! 0) \<noteq> fst (checked ! 1)) BatchTransitionMismatch) (\<lambda>_.
           bind_ok (validate_authorized_phase_pair w au (u, v) (map snd checked) (fst (checked ! 0))) (\<lambda>_.
           map_err (\<lambda>_. CommitPhaseAuthorityMismatch)
             (legacy_upload_migration_registry_from_journals w (map snd checked)))))))"
  show ?thesis
  proof (cases checked)
    case (Inl e)
    with p show ?thesis
      by (auto simp: persist_two_legacy_upload_migration_records_exact_cas_def simp flip: checked_def)
  next
    case (Inr g)
    with p have pair: "persist_exact_pair w parse c s (VerifyExact g) (u, v) db = (result, db')"
      by (simp add: persist_two_legacy_upload_migration_records_exact_cas_def flip: checked_def)
    from Inr obtain xs where xs: "try_map (validate_phase_update w) (both (u, v)) = Inr xs"
        "fst (xs ! 0) = fst (xs ! 1)"
        "validate_authorized_phase_pair w au (u, v) (map snd xs) (fst (xs ! 0)) = Inr ()"
        "legacy_upload_migration_registry_from_journals w (map snd xs) = Inr g"
      unfolding checked_def by (auto simp: bind_ok_eq_Ok)
    have "map (validate_phase_update w) [u, v] = map Inr xs"
      using xs(1) unfolding try_map_eq_Ok by (simp add: both_def)
    then obtain shape j shape' j' where ys: "xs = [(shape, j), (shape', j')]"
        "validate_phase_update w u = Inr (shape, j)" "validate_phase_update w v = Inr (shape', j')"
      by (auto simp: Cons_eq_map_conv)
    have same: "shape' = shape" using xs(2) ys(1) by simp
    have first: "authorized_phase_ok w au shape (u, j) = Inr ()"
      using xs(3) by (auto simp: validate_authorized_phase_pair_def ys(1) both_def result_simps)
    have updates: "validate_legacy_upload_migration_record_update w (cu_expected u) (cu_updated u) = Inr shape"
      "validate_legacy_upload_migration_record_update w (cu_expected v) (cu_updated v) = Inr shape"
      "validate_legacy_upload_migration_record w (cu_updated u) = Inr j"
      "validate_legacy_upload_migration_record w (cu_updated v) = Inr j'"
      using ys(2,3) same by (auto simp: validate_phase_update_def bind_ok_eq_Ok)
    have registry: "legacy_upload_migration_registry_from_journals w [j, j'] = Inr g" using xs(4) ys(1) by simp
    show ?thesis
    proof (cases result)
      case (Inl e)
      with persist_exact_pair_effect [OF pair] p show ?thesis by simp
    next
      case (Inr x)
      with persist_exact_pair_effect [OF pair] obtain db1 where
        db1: "sd_registry db1 = sd_registry db" "sd_registry_table db1 = sd_registry_table db"
          "pair_swapped (migration_store_api w parse) u v db db'" "sd_registry db' = sd_registry db1"
        and stored: "\<exists>q. load_database_legacy_upload_migration_registry (migration_store_api w parse) db1 = Inr (Some q)
          \<and> registry_eq q g"
        by (auto simp: verify_exact_Ok)
      from stored have "\<exists>q. load_database_legacy_upload_migration_registry (migration_store_api w parse) db = Inr (Some q)
          \<and> registry_eq q g"
        unfolding registry_of_rows [OF db1(2,1)] .
      then show ?thesis using updates registry authorized_shape [OF first] db1(1,3,4) p Inr by auto
    qed
  qed
qed

end
