(* ===== verification/Json_Parser.thy ===== *)
theory Json_Parser
  imports Json_Text
begin

section \<open>A parser of JSON texts\<close>

text \<open>
  The program leaves parsing to a library, which the model takes as a parameter. This theory states what a
  parser has to do for a text the program writes (\<open>reads_written\<close>): hand over the tokens of the
  value, if it holds no floating point number and is nested at most 127 deep. The library promises no
  more: it reads floating point numbers with an error in the last digit, unless a feature is on that the
  program does not ask for, and it stops at a nesting of 128. The theory also gives a parser that does so for
  every value, by recursive descent with the recursion limit of the library: white space, keywords,
  strings with escapes, integers in the range of \<open>u64\<close> and \<open>i64\<close>, arrays and objects.
\<close>

subsection \<open>What a parser has to read\<close>

fun shallow :: "nat \<Rightarrow> json \<Rightarrow> bool" where
  "shallow d (JArray vs) = (d \<noteq> 0 \<and> (\<forall>v\<in>set vs. shallow (d - 1) v))"
| "shallow d (JObject kvs) = (d \<noteq> 0 \<and> (\<forall>p\<in>set kvs. shallow (d - 1) (snd p)))"
| "shallow d JNull = True"
| "shallow d (JBool b) = True"
| "shallow d (JNumber n) = True"
| "shallow d (JString s) = True"

definition max_nesting :: nat where
  "max_nesting = 127"

definition readable_json :: "json \<Rightarrow> bool" where
  "readable_json j \<longleftrightarrow> plain_json j \<and> shallow max_nesting j"

definition reads_written :: "(u64 \<Rightarrow> string) \<Rightarrow> (string \<Rightarrow> raw_json option) \<Rightarrow> json \<Rightarrow> bool" where
  "reads_written fmt parse j \<longleftrightarrow>
     (readable_json j \<longrightarrow> parse (pretty_text fmt 0 j @ [CHR 0x0A]) = Some (to_raw j))"

subsection \<open>Characters, strings and numbers\<close>

definition space :: "char \<Rightarrow> bool" where
  "space c \<longleftrightarrow> c = CHR '' '' \<or> c = CHR 0x0A \<or> c = CHR 0x09 \<or> c = CHR 0x0D"

definition skip_space :: "string \<Rightarrow> string" where
  "skip_space s = dropWhile space s"

fun parse_chars :: "nat \<Rightarrow> string \<Rightarrow> (string \<times> string) option" where
  "parse_chars 0 s = None"
| "parse_chars (Suc n) s =
     (case s of
        [] \<Rightarrow> None
      | c # t \<Rightarrow>
          if c = CHR 0x22 then Some ([], t)
          else (case unescape s of None \<Rightarrow> None
                | Some (x, u) \<Rightarrow> map_option (map_prod ((#) x) id) (parse_chars n u)))"

definition keyword :: "string \<Rightarrow> raw_json \<Rightarrow> string \<Rightarrow> (raw_json \<times> string) option" where
  "keyword w v s = (if take (length w) s = w then Some (v, drop (length w) s) else None)"

definition digits_value :: "string \<Rightarrow> nat" where
  "digits_value ds = foldl (\<lambda>n c. 10 * n + (byte c - 48)) 0 ds"

text \<open>An integer; a fraction or an exponent is refused, and so are superfluous zeros.\<close>

definition parse_natural :: "string \<Rightarrow> (nat \<times> string) option" where
  "parse_natural s =
     (let ds = takeWhile digit s; rest = dropWhile digit s in
      if ds = [] \<or> (1 < length ds \<and> hd ds = CHR ''0'')
         \<or> (rest \<noteq> [] \<and> hd rest \<in> {CHR ''.'', CHR ''e'', CHR ''E''})
      then None else Some (digits_value ds, rest))"

definition parse_number :: "string \<Rightarrow> (raw_json \<times> string) option" where
  "parse_number s =
     (case s of
        [] \<Rightarrow> None
      | c # t \<Rightarrow>
          if c = CHR ''-''
          then (case parse_natural t of None \<Rightarrow> None
                | Some (n, u) \<Rightarrow> if n = 0 \<or> 2 ^ 63 < n then None else Some (RI64 (- of_nat n), u))
          else (case parse_natural s of None \<Rightarrow> None
                | Some (n, u) \<Rightarrow> if 2 ^ 64 \<le> n then None else Some (RU64 (of_nat n), u)))"

subsection \<open>Values\<close>

text \<open>The parser of a value with fuel \<open>n\<close>, and \<open>d\<close> containers left of the recursion limit.\<close>

fun parse_value :: "nat \<Rightarrow> nat \<Rightarrow> string \<Rightarrow> (raw_json \<times> string) option"
and parse_items :: "nat \<Rightarrow> nat \<Rightarrow> string \<Rightarrow> (raw_json list \<times> string) option"
and parse_members :: "nat \<Rightarrow> nat \<Rightarrow> string \<Rightarrow> ((string \<times> raw_json) list \<times> string) option"
where
  "parse_value 0 d s = None"
| "parse_value (Suc n) d s =
     (case skip_space s of
        [] \<Rightarrow> None
      | c # t \<Rightarrow>
          if c = CHR ''n'' then keyword ''ull'' RNull t
          else if c = CHR ''t'' then keyword ''rue'' (RBool True) t
          else if c = CHR ''f'' then keyword ''alse'' (RBool False) t
          else if c = CHR 0x22 then map_option (map_prod RStr id) (parse_chars (Suc (length t)) t)
          else if c = CHR ''['' then
            (if d = 0 then None
             else (case skip_space t of
                     [] \<Rightarrow> None
                   | e # u \<Rightarrow>
                       if e = CHR '']'' then Some (RSeq [], u)
                       else map_option (map_prod RSeq id) (parse_items n (d - 1) (e # u))))
          else if c = CHR 0x7B then
            (if d = 0 then None
             else (case skip_space t of
                     [] \<Rightarrow> None
                   | e # u \<Rightarrow>
                       if e = CHR 0x7D then Some (RMap [], u)
                       else map_option (map_prod RMap id) (parse_members n (d - 1) (e # u))))
          else parse_number (c # t))"
| "parse_items 0 d s = None"
| "parse_items (Suc n) d s =
     (case parse_value n d s of None \<Rightarrow> None
      | Some (v, t) \<Rightarrow>
          (case skip_space t of
             [] \<Rightarrow> None
           | c # u \<Rightarrow>
               if c = CHR '','' then map_option (map_prod ((#) v) id) (parse_items n d u)
               else if c = CHR '']'' then Some ([v], u) else None))"
| "parse_members 0 d s = None"
| "parse_members (Suc n) d s =
     (case skip_space s of
        [] \<Rightarrow> None
      | q # s' \<Rightarrow>
          if q \<noteq> CHR 0x22 then None
          else (case parse_chars (Suc (length s')) s' of None \<Rightarrow> None
                | Some (k, t) \<Rightarrow>
                    (case skip_space t of
                       [] \<Rightarrow> None
                     | c # t' \<Rightarrow>
                         if c \<noteq> CHR '':'' then None
                         else (case parse_value n d t' of None \<Rightarrow> None
                               | Some (v, u) \<Rightarrow>
                                   (case skip_space u of
                                      [] \<Rightarrow> None
                                    | e # u' \<Rightarrow>
                                        if e = CHR '',''
                                        then map_option (map_prod ((#) (k, v)) id) (parse_members n d u')
                                        else if e = CHR 0x7D then Some ([(k, v)], u') else None)))))"

definition parse_json :: "string \<Rightarrow> raw_json option" where
  "parse_json s =
     (case parse_value (length s) max_nesting s of None \<Rightarrow> None
      | Some (v, u) \<Rightarrow> if skip_space u = [] then Some v else None)"

subsection \<open>The parser reads what is written\<close>

lemma skip_space_new_line [simp]: "skip_space (new_line n @ s) = skip_space s"
proof -
  have "dropWhile space (replicate m CHR '' '' @ s) = dropWhile space s" for m
    by (induction m) (simp_all add: space_def)
  then show ?thesis by (simp add: skip_space_def new_line_def space_def)
qed

lemma skip_space_Cons [simp]: "\<not> space c \<Longrightarrow> skip_space (c # s) = c # s"
  by (simp add: skip_space_def)

lemma skip_space_blank [simp]: "skip_space (CHR '' '' # s) = skip_space s" "skip_space (CHR 0x0A # s) = skip_space s"
  by (simp_all add: skip_space_def space_def)

lemma parse_chars_text:
  "length s < n \<Longrightarrow> parse_chars n (concat (map json_escape s) @ CHR 0x22 # u) = Some (s, u)"
proof (induction s arbitrary: n)
  case Nil
  then show ?case by (cases n) simp_all
next
  case (Cons c s)
  then obtain m where n: "n = Suc m" "length s < m" by (cases n) auto
  let ?rest = "concat (map json_escape s) @ CHR 0x22 # u"
  obtain x xs where x: "json_escape c @ ?rest = x # xs" "x \<noteq> CHR 0x22"
    using escape_not_quote [of c] by (cases "json_escape c") auto
  then have "unescape (x # xs) = Some (c, ?rest)" using unescape_escape [of c ?rest] by simp
  with x Cons.IH [OF n(2)] show ?case by (simp add: n(1) del: unescape.simps)
qed

lemma parse_string_text:
  "length (json_string_text s) \<le> Suc n \<Longrightarrow>
     parse_chars n (tl (json_string_text s @ u)) = Some (s, u)"
proof -
  have "length s \<le> length (concat (map json_escape s))"
  proof (induction s)
    case (Cons c s)
    then show ?case using escape_not_quote [of c] by (cases "json_escape c") auto
  qed simp
  moreover assume "length (json_string_text s) \<le> Suc n"
  ultimately have "length s < n" by (simp add: json_string_text_def)
  then show ?thesis using parse_chars_text [of s n u] by (simp add: json_string_text_def)
qed

lemma digits_value_text: "digits_value (nat_to_string n) = n"
proof (induction n rule: nat_to_string.induct)
  case (1 n)
  have "byte (char_of (48 + k)) - 48 = k" if "k < 10" for k
    using byte_char_of [of "48 + k"] that by simp
  with 1 show ?case
    by (subst nat_to_string.simps) (auto simp: digits_value_def)
qed

lemma no_leading_zero: "1 < length (nat_to_string n) \<Longrightarrow> hd (nat_to_string n) \<noteq> CHR ''0''"
proof (induction n rule: nat_to_string.induct)
  case (1 n)
  show ?case
  proof (cases "n < 10")
    case True
    with 1(2) show ?thesis by (subst (asm) nat_to_string.simps) simp
  next
    case False
    have ne: "nat_to_string (n div 10) \<noteq> []" using nat_text_digits by blast
    then have hd: "hd (nat_to_string n) = hd (nat_to_string (n div 10))"
      using False by (subst nat_to_string.simps) simp
    show ?thesis
    proof (cases "1 < length (nat_to_string (n div 10))")
      case True
      with 1(1) False hd show ?thesis by simp
    next
      case short: False
      have long: "n div 10 < 10"
      proof (rule ccontr)
        assume "\<not> n div 10 < 10"
        then have "1 < length (nat_to_string (n div 10))"
          using nat_text_digits [of "n div 10 div 10"] by (subst nat_to_string.simps) (cases "nat_to_string (n div 10 div 10)", auto)
        with short show False by simp
      qed
      then have one: "nat_to_string (n div 10) = [char_of (48 + n div 10)]"
        by (subst nat_to_string.simps) simp
      have "char_of (48 + n div 10) \<noteq> CHR ''0''"
      proof
        assume "char_of (48 + n div 10) = CHR ''0''"
        then have "byte (char_of (48 + n div 10)) = byte CHR ''0''" by (rule arg_cong)
        moreover have "byte (char_of (48 + n div 10)) = 48 + n div 10" using long by (intro byte_char_of) simp
        ultimately show False using False by (simp add: byte_def)
      qed
      with hd one show ?thesis by simp
    qed
  qed
qed

text \<open>What may follow a number: neither a digit nor the start of a fraction or an exponent.\<close>

definition ends_value :: "string \<Rightarrow> bool" where
  "ends_value u \<longleftrightarrow> (case u of [] \<Rightarrow> True | c # _ \<Rightarrow> c \<in> {CHR '','', CHR 0x0A})"

lemma parse_natural_text:
  assumes "ends_value u"
  shows "parse_natural (nat_to_string n @ u) = Some (n, u)"
proof -
  have stops: "takeWhile digit u = []" "dropWhile digit u = u"
    using assms by (auto simp: ends_value_def digit_def byte_def split: list.splits)
  have "takeWhile digit (nat_to_string n @ u) = nat_to_string n" "dropWhile digit (nat_to_string n @ u) = u"
    using nat_text_digits [of n] stops by (simp_all add: takeWhile_append dropWhile_append list_all_iff)
  moreover have "u \<noteq> [] \<Longrightarrow> hd u \<notin> {CHR ''.'', CHR ''e'', CHR ''E''}"
    using assms by (cases u) (auto simp: ends_value_def)
  ultimately show ?thesis
    using nat_text_digits [of n] no_leading_zero [of n] by (auto simp: parse_natural_def digits_value_text Let_def)
qed

lemma parse_number_text:
  assumes "plain_json (JNumber x)" and "ends_value u"
  shows "parse_number (number_text fmt x @ u) = Some (to_raw (JNumber x), u)"
proof (cases x)
  case (PosInt n)
  obtain c t where t: "nat_to_string (unat n) = c # t" "digit c"
    using nat_text_digits [of "unat n"] by (cases "nat_to_string (unat n)") auto
  then have "c \<noteq> CHR ''-''" by (auto simp: digit_def byte_def)
  moreover have "unat n < 2 ^ 64" using unsigned_less [where w = n and ?'a = nat] by simp
  ultimately show ?thesis
    using parse_natural_text [OF assms(2), of "unat n"] t
    by (auto simp: PosInt parse_number_def number_text_def)
next
  case (NegInt n)
  then have neg: "sint n < 0" using assms(1) by simp
  have "- (2 ^ 63) \<le> sint n" using sint_ge [of n] by simp
  then have "nat (- sint n) \<noteq> 0" "nat (- sint n) \<le> 2 ^ 63" using neg by simp_all
  moreover have "- of_nat (nat (- sint n)) = n"
  proof -
    have "- of_nat (nat (- sint n)) = (of_int (sint n) :: u64)" using neg by simp
    then show ?thesis by simp
  qed
  ultimately show ?thesis
    using parse_natural_text [OF assms(2), of "nat (- sint n)"]
    by (simp add: NegInt parse_number_def number_text_def)
next
  case (Float64 n)
  then show ?thesis using assms(1) by simp
qed

text \<open>The fuel that a value needs is at most the length of its text.\<close>

fun need :: "json \<Rightarrow> nat" where
  "need (JArray vs) = Suc (Suc (sum_list (map (\<lambda>v. Suc (need v)) vs)))"
| "need (JObject kvs) = Suc (Suc (sum_list (map (\<lambda>p. Suc (need (snd p))) kvs)))"
| "need JNull = 1"
| "need (JBool b) = 1"
| "need (JNumber n) = 1"
| "need (JString s) = 1"


lemma pretty_kind:
  assumes "plain_json j"
  shows "\<exists>c t. pretty_text fmt k j = c # t \<and> char_kind c = json_kind j"
proof (cases j)
  case (JArray vs)
  then show ?thesis by (simp add: char_kind_def digit_def byte_def)
next
  case (JObject kvs)
  then show ?thesis by (simp add: char_kind_def digit_def byte_def)
qed (use assms text_kind [of j fmt] in auto)

lemma kind_no_space: "char_kind c = json_kind j \<Longrightarrow> \<not> space c \<and> c \<noteq> CHR '']''"
  by (cases j) (auto simp: char_kind_def space_def digit_def byte_def split: if_splits)

lemma skip_space_value:
  assumes "plain_json j"
  shows "skip_space (pretty_text fmt k j @ u) = pretty_text fmt k j @ u"
  using pretty_kind [OF assms, of fmt k] kind_no_space by fastforce

lemma skip_space_idem [simp]: "skip_space (skip_space s) = skip_space s"
  unfolding skip_space_def by (induction s) auto

lemma parse_skip_space:
  "parse_value n d (skip_space s) = parse_value n d s"
  "parse_items n d (skip_space s) = parse_items n d s"
  "parse_members n d (skip_space s) = parse_members n d s"
proof -
  show v: "parse_value n d (skip_space s) = parse_value n d s" for n by (cases n) simp_all
  show "parse_items n d (skip_space s) = parse_items n d s" by (cases n) (simp_all add: v)
  show "parse_members n d (skip_space s) = parse_members n d s" by (cases n) simp_all
qed

definition value_reads :: "(u64 \<Rightarrow> string) \<Rightarrow> json \<Rightarrow> bool" where
  "value_reads fmt j \<longleftrightarrow>
     (\<forall>n d k u. plain_json j \<and> shallow d j \<and> need j \<le> n \<and> ends_value u
        \<longrightarrow> parse_value n d (pretty_text fmt k j @ u) = Some (to_raw j, u))"

lemma value_readsD:
  assumes "value_reads fmt j" and "plain_json j" and "shallow d j" and "need j \<le> n" and "ends_value u"
  shows "parse_value n d (new_line m @ pretty_text fmt k j @ u) = Some (to_raw j, u)"
    and "parse_value n d (CHR '' '' # pretty_text fmt k j @ u) = Some (to_raw j, u)"
proof -
  have read: "parse_value n d (pretty_text fmt k j @ u) = Some (to_raw j, u)"
    using assms unfolding value_reads_def by blast
  then show "parse_value n d (new_line m @ pretty_text fmt k j @ u) = Some (to_raw j, u)"
    using parse_skip_space(1) [of n d "new_line m @ pretty_text fmt k j @ u"]
      parse_skip_space(1) [of n d "pretty_text fmt k j @ u"] by simp
  from read show "parse_value n d (CHR '' '' # pretty_text fmt k j @ u) = Some (to_raw j, u)"
    using parse_skip_space(1) [of n d "CHR '' '' # pretty_text fmt k j @ u"]
      parse_skip_space(1) [of n d "pretty_text fmt k j @ u"] by simp
qed

lemma ends_value_simps [simp]: "ends_value (CHR '','' # u)" "ends_value (new_line n @ u)"
  by (simp_all add: ends_value_def new_line_def)

lemma parse_items_text:
  assumes "vs \<noteq> []" and "\<forall>v\<in>set vs. value_reads fmt v \<and> plain_json v \<and> shallow d v"
    and "sum_list (map (\<lambda>v. Suc (need v)) vs) \<le> n"
  shows "parse_items n d (join_with '','' (map (\<lambda>v. new_line m @ pretty_text fmt m v) vs)
            @ new_line k @ CHR '']'' # u) = Some (map to_raw vs, u)"
  using assms
proof (induction vs arbitrary: n rule: list_nonempty_induct)
  case (single v)
  then obtain n' where "n = Suc n'" "need v \<le> n'" by (cases n) auto
  with single show ?case by (simp add: value_readsD space_def)
next
  case (cons v vs)
  then obtain n' where n: "n = Suc n'" "need v \<le> n'" "sum_list (map (\<lambda>v. Suc (need v)) vs) \<le> n'"
    by (cases n) auto
  obtain w ws where vs: "vs = w # ws" using cons.hyps by (cases vs) auto
  have join: "join_with '','' (map (\<lambda>v. new_line m @ pretty_text fmt m v) (v # vs))
      = new_line m @ pretty_text fmt m v
          @ CHR '','' # join_with '','' (map (\<lambda>v. new_line m @ pretty_text fmt m v) vs)"
    by (simp add: vs)
  from cons.IH [OF _ n(3)] cons.prems(1) n show ?case
    unfolding join by (simp add: value_readsD space_def)
qed

lemma json_string_text_Cons: "json_string_text s @ u = CHR 0x22 # tl (json_string_text s @ u)"
  by (simp add: json_string_text_def)

lemma parse_key_text:
  "t = tl (json_string_text s @ u) \<Longrightarrow> parse_chars (Suc (length t)) t = Some (s, u)"
  using parse_string_text [of s "Suc (length t)" u] by (simp add: json_string_text_def)

lemma parse_member_text:
  assumes "value_reads fmt v" "plain_json v" "shallow d v" "need v \<le> n" "ends_value u"
  shows "parse_members (Suc n) d (new_line m @ json_string_text k @ '': '' @ pretty_text fmt i v @ u)
    = (case skip_space u of [] \<Rightarrow> None
       | e # u' \<Rightarrow>
           if e = CHR '','' then map_option (map_prod ((#) (k, to_raw v)) id) (parse_members n d u')
           else if e = CHR 0x7D then Some ([(k, to_raw v)], u') else None)"
proof -
  let ?rest = "'': '' @ pretty_text fmt i v @ u"
  have key: "skip_space (new_line m @ json_string_text k @ ?rest) = CHR 0x22 # tl (json_string_text k @ ?rest)"
    by (simp add: json_string_text_def space_def)
  show ?thesis
    using value_readsD(2) [OF assms, of i]
    by (simp only: parse_members.simps key list.case parse_key_text [OF refl] option.case prod.case)
      (simp add: space_def)
qed

lemma parse_members_text:
  assumes "kvs \<noteq> []" and "\<forall>p\<in>set kvs. value_reads fmt (snd p) \<and> plain_json (snd p) \<and> shallow d (snd p)"
    and "sum_list (map (\<lambda>p. Suc (need (snd p))) kvs) \<le> n"
  shows "parse_members n d
      (join_with '','' (map (\<lambda>(k, v). new_line m @ json_string_text k @ '': '' @ pretty_text fmt m v) kvs)
         @ new_line i @ CHR 0x7D # u) = Some (map (\<lambda>(k, v). (k, to_raw v)) kvs, u)"
  using assms
proof (induction kvs arbitrary: n rule: list_nonempty_induct)
  case (single p)
  obtain k v where p: "p = (k, v)" by (cases p)
  from single p obtain n' where n: "n = Suc n'" "need v \<le> n'" by (cases n) auto
  have "parse_members (Suc n') d (new_line m @ json_string_text k @ '': '' @ pretty_text fmt m v
      @ (new_line i @ CHR 0x7D # u)) = Some ([(k, to_raw v)], u)"
    using single p n by (subst parse_member_text) (simp_all add: space_def)
  then show ?case by (simp add: p n(1) del: parse_members.simps)
next
  case (cons p kvs)
  obtain k v where p: "p = (k, v)" by (cases p)
  from cons p obtain n' where n: "n = Suc n'" "need v \<le> n'" "sum_list (map (\<lambda>p. Suc (need (snd p))) kvs) \<le> n'"
    by (cases n) auto
  let ?more = "join_with '','' (map (\<lambda>(k, v). new_line m @ json_string_text k @ '': '' @ pretty_text fmt m v) kvs)
    @ new_line i @ CHR 0x7D # u"
  obtain q qs where kvs: "kvs = q # qs" using cons.hyps by (cases kvs) auto
  have "parse_members (Suc n') d (new_line m @ json_string_text k @ '': '' @ pretty_text fmt m v @ (CHR '','' # ?more))
      = Some ((k, to_raw v) # map (\<lambda>(k, v). (k, to_raw v)) kvs, u)"
    using cons.prems(1) cons.IH [OF _ n(3)] p n(2) by (subst parse_member_text) (simp_all add: space_def)
  moreover have "join_with '','' (map (\<lambda>(k, v). new_line m @ json_string_text k @ '': '' @ pretty_text fmt m v) (p # kvs))
      @ new_line i @ CHR 0x7D # u
    = new_line m @ json_string_text k @ '': '' @ pretty_text fmt m v @ (CHR '','' # ?more)"
    by (simp add: kvs p)
  ultimately show ?case by (simp only: n(1)) (simp add: p)
qed

lemma every_value_reads: "value_reads fmt j"
proof (induction j)
  case (JArray vs)
  show ?case
    unfolding value_reads_def
  proof (intro allI impI, elim conjE)
    fix n d k u
    assume j: "plain_json (JArray vs)" "shallow d (JArray vs)" "need (JArray vs) \<le> n" "ends_value u"
    obtain n' where n: "n = Suc n'" using j(3) by (cases n) auto
    show "parse_value n d (pretty_text fmt k (JArray vs) @ u) = Some (to_raw (JArray vs), u)"
    proof (cases vs)
      case Nil
      with j n show ?thesis by (simp add: space_def)
    next
      case (Cons v ws)
      let ?items = "join_with '','' (map (\<lambda>v. new_line (Suc k) @ pretty_text fmt (Suc k) v) vs)
        @ new_line k @ CHR '']'' # u"
      have items: "parse_items n' (d - 1) ?items = Some (map to_raw vs, u)"
        using j n Cons JArray by (intro parse_items_text) auto
      have "plain_json v" using j(1) Cons by simp
      then obtain c t where c: "pretty_text fmt (Suc k) v = c # t" "\<not> space c" "c \<noteq> CHR '']''"
        using pretty_kind [of v fmt "Suc k"] kind_no_space by blast
      then obtain t' where "skip_space ?items = c # t'"
        by (auto simp: Cons join_with_Cons)
      moreover from this items have "parse_items n' (d - 1) (c # t') = Some (map to_raw vs, u)"
        using parse_skip_space(2) [of n' "d - 1" ?items] by simp
      ultimately show ?thesis
        using j(2) c(3) Cons by (simp add: n space_def)
    qed
  qed
next
  case (JObject kvs)
  show ?case
    unfolding value_reads_def
  proof (intro allI impI, elim conjE)
    fix n d k u
    assume j: "plain_json (JObject kvs)" "shallow d (JObject kvs)" "need (JObject kvs) \<le> n" "ends_value u"
    obtain n' where n: "n = Suc n'" using j(3) by (cases n) auto
    show "parse_value n d (pretty_text fmt k (JObject kvs) @ u) = Some (to_raw (JObject kvs), u)"
    proof (cases kvs)
      case Nil
      with j n show ?thesis by (simp add: space_def)
    next
      case (Cons p qs)
      let ?members = "join_with '',''
          (map (\<lambda>(q, v). new_line (Suc k) @ json_string_text q @ '': '' @ pretty_text fmt (Suc k) v) kvs)
        @ new_line k @ CHR 0x7D # u"
      have members: "parse_members n' (d - 1) ?members = Some (map (\<lambda>(k, v). (k, to_raw v)) kvs, u)"
        using j n Cons JObject by (intro parse_members_text) (auto simp: snds.simps)
      obtain t' where "skip_space ?members = CHR 0x22 # t'"
        by (cases p) (auto simp: Cons join_with_Cons json_string_text_def space_def)
      moreover from this members
      have "parse_members n' (d - 1) (CHR 0x22 # t') = Some (map (\<lambda>(k, v). (k, to_raw v)) kvs, u)"
        using parse_skip_space(3) [of n' "d - 1" ?members] by simp
      ultimately show ?thesis
        using j(2) Cons by (simp add: n space_def)
    qed
  qed
next
  case (JNumber x)
  show ?case
    unfolding value_reads_def
  proof (intro allI impI, elim conjE)
    fix n d k u
    assume j: "plain_json (JNumber x)" "need (JNumber x) \<le> n" "ends_value u"
    obtain n' where n: "n = Suc n'" using j(2) by (cases n) auto
    obtain c t where c: "number_text fmt x = c # t" "char_kind c = 2"
      using text_kind [OF j(1), of fmt] by auto
    then have "c \<notin> {CHR ''n'', CHR ''t'', CHR ''f'', CHR 0x22, CHR ''['', CHR 0x7B}" "\<not> space c"
      by (auto simp: char_kind_def digit_def byte_def space_def split: if_splits)
    with parse_number_text [OF j(1,3), of fmt] c
    show "parse_value n d (pretty_text fmt k (JNumber x) @ u) = Some (to_raw (JNumber x), u)"
      by (simp add: n)
  qed
next
  case (JString s)
  show ?case
    unfolding value_reads_def
  proof (intro allI impI, elim conjE)
    fix n d k u
    assume j: "need (JString s) \<le> n"
    obtain n' where n: "n = Suc n'" using j by (cases n) auto
    have "skip_space (json_string_text s @ u) = CHR 0x22 # tl (json_string_text s @ u)"
      by (simp add: json_string_text_def space_def)
    then show "parse_value n d (pretty_text fmt k (JString s) @ u) = Some (to_raw (JString s), u)"
      using parse_key_text [of "tl (json_string_text s @ u)" s u]
      by (simp add: n del: parse_chars.simps)
  qed
next
  case JNull
  show ?case by (auto simp: value_reads_def space_def keyword_def Suc_le_eq gr0_conv_Suc)
next
  case (JBool b)
  show ?case by (auto simp: value_reads_def space_def keyword_def Suc_le_eq gr0_conv_Suc)
qed

lemma join_with_length: "sum_list (map length xs) \<le> length (join_with sep xs)"
  by (induction sep xs rule: join_with.induct) simp_all

lemma number_text_nonempty: "plain_json (JNumber x) \<Longrightarrow> 0 < length (number_text fmt x)"
  using text_kind [of "JNumber x" fmt] by auto

lemma need_length: "plain_json j \<Longrightarrow> need j \<le> length (pretty_text fmt k j)"
proof (induction j arbitrary: k)
  case (JArray vs)
  let ?f = "\<lambda>v. new_line (Suc k) @ pretty_text fmt (Suc k) v"
  have "sum_list (map (\<lambda>v. Suc (need v)) vs) \<le> sum_list (map (\<lambda>v. length (?f v)) vs)"
  proof (rule sum_list_mono)
    fix v
    assume v: "v \<in> set vs"
    with JArray.prems have "plain_json v" by simp
    with JArray.IH [OF v] have "need v \<le> length (pretty_text fmt (Suc k) v)" .
    then show "Suc (need v) \<le> length (?f v)" by (simp add: new_line_def)
  qed
  also have "\<dots> \<le> length (join_with '','' (map ?f vs))"
    using join_with_length [of "map ?f vs" "'',''"] by (simp add: comp_def)
  finally show ?case by (cases "vs = []") (simp_all add: new_line_def)
next
  case (JObject kvs)
  let ?f = "\<lambda>(q, v). new_line (Suc k) @ json_string_text q @ '': '' @ pretty_text fmt (Suc k) v"
  have "Suc (need (snd p)) \<le> length (?f p)" if "p \<in> set kvs" for p
  proof -
    have "plain_json (snd p)" using JObject.prems that by simp
    then have "need (snd p) \<le> length (pretty_text fmt (Suc k) (snd p))"
      using JObject.IH [of p "snd p" "Suc k"] that by (simp add: snds.simps)
    then show ?thesis by (simp add: case_prod_beta new_line_def)
  qed
  then have "sum_list (map (\<lambda>p. Suc (need (snd p))) kvs) \<le> sum_list (map (\<lambda>p. length (?f p)) kvs)"
    by (rule sum_list_mono)
  also have "\<dots> \<le> length (join_with '','' (map ?f kvs))"
    using join_with_length [of "map ?f kvs" "'',''"] by (simp add: comp_def)
  finally show ?case by (cases "kvs = []") (simp_all add: new_line_def)
qed (use number_text_nonempty [of _ fmt] in \<open>simp_all add: json_string_text_def Suc_le_eq\<close>)

text \<open>The parser hands over the tokens of every readable value from the text that is written for it.\<close>

lemma parse_json_reads_written: "reads_written fmt parse_json j"
  unfolding reads_written_def
proof
  assume "readable_json j"
  then have j: "plain_json j" "shallow max_nesting j" by (simp_all add: readable_json_def)
  let ?text = "pretty_text fmt 0 j @ [CHR 0x0A]"
  have ends: "ends_value [CHR 0x0A]" by (simp add: ends_value_def)
  have "need j \<le> length ?text" using need_length [OF j(1), of fmt 0] by simp
  then have "parse_value (length ?text) max_nesting ?text = Some (to_raw j, [CHR 0x0A])"
    using every_value_reads [of fmt j] j ends unfolding value_reads_def by blast
  then show "parse_json ?text = Some (to_raw j)"
    unfolding parse_json_def by (simp del: parse_value.simps add: skip_space_def space_def)
qed

end
