(* ===== verification/Manifest_Text.thy ===== *)
theory Manifest_Text
  imports Json_Parser Atomic_Save Migration_Guarantees
begin

section \<open>A saved manifest loads back\<close>

text \<open>
  From the manifest in memory to the text of the file and back, over the source's own registry: the fields
  of the records and of the sealed registry are printed in the order of the structs, the parser (a parameter)
  hands over their tokens, and the strict reader, the decoders and the checks of the load rebuild
  the manifest. The witness uses the parser of \<open>Json_Parser\<close> and a sealed cohort with its two prepared records.
\<close>

subsection \<open>The registry is read as it is written\<close>

text \<open>The fields of a value that is written are read by the strict reader as the value itself.\<close>

lemma strict_small:
  "strict_value (to_raw (ser_u64 n)) = Inr (ser_u64 n)"
  "strict_value (to_raw (ser_small k)) = Inr (ser_small k)"
  "strict_value (to_raw (ser_i64 i)) = Inr (ser_i64 i)"
  "strict_value (to_raw (JString s)) = Inr (JString s)"
  by (simp_all add: ser_u64_def ser_small_def ser_i64_def)

lemma strict_file_identity:
  "strict_value (to_raw (quarantine_file_identity_json JObject x)) = Inr (quarantine_file_identity_json jobject x)"
  unfolding quarantine_file_identity_json_def by (rule strict_object) (simp_all add: strict_small del: to_raw.simps strict_value.simps)

lemma strict_root: "strict_value (to_raw (quarantine_root_json JObject x)) = Inr (quarantine_root_json jobject x)"
  unfolding quarantine_root_json_def by (rule strict_object) (simp_all add: strict_small del: to_raw.simps strict_value.simps)

lemma strict_member: "strict_value (to_raw (quarantine_member_json JObject x)) = Inr (quarantine_member_json jobject x)"
  unfolding quarantine_member_json_def
  by (rule strict_object)
    (simp_all add: strict_small strict_file_identity ser_quarantine_kind_def del: to_raw.simps strict_value.simps)

lemma strict_raw_input:
  "strict_value (to_raw (migration_raw_input_json JObject x)) = Inr (migration_raw_input_json jobject x)"
  unfolding migration_raw_input_json_def
  by (rule strict_object) (simp_all add: strict_small strict_file_identity del: to_raw.simps strict_value.simps)

lemma strict_plan: "strict_value (to_raw (quarantine_plan_json JObject x)) = Inr (quarantine_plan_json jobject x)"
  unfolding quarantine_plan_json_def
  by (rule strict_object)
    (simp_all add: strict_small strict_array strict_root strict_member strict_raw_input
      del: to_raw.simps strict_value.simps)

lemma strict_registry_asset:
  "strict_value (to_raw (migration_registry_asset_json JObject x)) = Inr (migration_registry_asset_json jobject x)"
  unfolding migration_registry_asset_json_def
  by (rule strict_object) (simp_all add: strict_small del: to_raw.simps strict_value.simps)

lemma strict_registry_assets:
  "strict_value (to_raw (registry_assets_json JObject p)) = Inr (registry_assets_json jobject p)"
  by (simp add: registry_assets_json_def strict_registry_asset)

lemma strict_registry:
  "strict_value (to_raw (migration_registry_json JObject g)) = Inr (migration_registry_json jobject g)"
  unfolding migration_registry_json_def
  by (rule strict_object)
    (simp_all add: strict_small strict_plan strict_registry_assets del: to_raw.simps strict_value.simps)

subsection \<open>The text is readable\<close>

text \<open>Neither the records nor the registry hold a floating point number outside of the proofs, and
  their nesting is a constant.\<close>

lemmas field_shapes =
  quarantine_file_identity_json_def quarantine_root_json_def quarantine_member_json_def
  migration_raw_input_json_def quarantine_plan_json_def migration_registry_asset_json_def
  registry_assets_json_def migration_registry_json_def ser_u64_def ser_small_def ser_i64_def
  ser_quarantine_kind_def

lemma registry_plain: "plain_json (migration_registry_json JObject g)"
  by (simp add: field_shapes)

lemma registry_shallow: "shallow 126 (migration_registry_json JObject g)"
  by (simp add: field_shapes)

text \<open>A record whose proofs the library can hold, print and read again: three containers are around them.\<close>

definition record_readable :: "asset_record \<Rightarrow> bool" where
  "record_readable r \<longleftrightarrow>
     record_storable r \<and> plain_json (JObject (ar_proofs r)) \<and> shallow (max_nesting - 3) (JObject (ar_proofs r))"

lemma record_fields_readable:
  assumes "record_readable r"
  shows "plain_json (asset_record_fields r)" "shallow 125 (asset_record_fields r)"
proof -
  have failure: "plain_json (failure_record_fields x)" "shallow 123 (failure_record_fields x)"
    if "x \<in> set (ar_failures r)" for x
    by (cases "fr_kind x"; simp add: failure_record_fields_def ser_skip_none_def ser_failure_kind_def)+
  show "plain_json (asset_record_fields r)"
    using assms failure(1) by (simp add: asset_record_fields_def record_readable_def ser_state_def)
  show "shallow 125 (asset_record_fields r)"
    using assms failure(2)
    by (simp add: asset_record_fields_def record_readable_def ser_state_def max_nesting_def)
qed

lemma manifest_file_readable:
  assumes "\<forall>r\<in>set (bt_values (mf_records m)). record_readable r"
  shows "readable_json (manifest_file_fields (migration_registry_api w) m)"
  using assms record_fields_readable
  by (cases "mf_registry m")
    (auto simp: readable_json_def max_nesting_def manifest_file_fields_def ser_skip_none_def
      migration_registry_api_def registry_plain registry_shallow)

subsection \<open>A save and a load\<close>

text \<open>
  C15: A well-formed manifest that is saved loads back as the same manifest, from a file system that differs from the
  one before the save in the destination alone. The manifest may hold a sealed migration registry:
  it has to be bound to the records as the load checks. The parser is a parameter, which hands over the
  tokens of the text that was written as long as it holds no floating point number and is nested at most 127
  deep; so the proofs of every record have to be free of floating point numbers and nested at most 124 deep
  (three containers are around them).
\<close>

theorem saved_manifest_loads_back:
  fixes m :: migration_manifest
  assumes "reads_written fmt parse (manifest_file_fields (migration_registry_api w) m)"
    and "manifest_ok m" and "\<forall>r\<in>set (bt_values (mf_records m)). record_readable r"
    and "validate_legacy_upload_migration_registry_binding w m False = Ok ()"
    and "save_atomic_unchecked sc (manifest_text fmt (migration_registry_api w) m) destination fs = (states, Ok ())"
  shows "load parse (migration_registry_api w) digest destination (last states) = Ok m
    \<and> (\<forall>p. p \<noteq> components destination \<longrightarrow> last states p = fs p)"
proof -
  let ?api = "migration_registry_api w"
  have "parse (manifest_text fmt ?api m) = Some (to_raw (manifest_file_fields ?api m))"
    using assms(1) manifest_file_readable [OF assms(3)] by (simp add: reads_written_def manifest_text_def)
  moreover have "load_from_reader ?api digest (Some (to_raw (manifest_file_fields ?api m))) = Ok m"
  proof (rule manifest_reads_back [OF assms(2)])
    show "list_all record_storable (bt_values (mf_records m))"
      using assms(3) by (simp add: list_all_iff record_readable_def)
    show "reg_binding ?api m" using assms(4) by (simp add: migration_registry_api_def)
    fix g
    assume "mf_registry m = Some g"
    with assms(4) have "validate_legacy_upload_migration_registry w g = Inr ()"
      by (auto simp: validate_legacy_upload_migration_registry_binding_def bind_ok_eq_Ok)
    then show "reg_de ?api (reg_ser ?api g) = Some g \<and> reg_ser ?api g \<noteq> JNull
      \<and> strict_value (to_raw (reg_fields ?api g)) = Ok (reg_ser ?api g) \<and> reg_valid ?api g"
      by (simp add: migration_registry_api_def strict_registry)
        (simp add: migration_registry_json_def jobject_def)
  qed
  ultimately show ?thesis
    using saved_text_is_loaded [of sc "manifest_text fmt ?api m" destination fs parse ?api digest] assms(5) by simp
qed

subsection \<open>A sealed cohort on disk\<close>

text \<open>The journal of a record holds no floating point number, and its nesting is a constant.\<close>

lemma jobject_all:
  assumes "\<forall>p\<in>set kvs. P (snd p)"
  shows "\<exists>m. jobject kvs = JObject m \<and> (\<forall>p\<in>set m. P (snd p))"
proof -
  have "\<forall>p\<in>set (fold (\<lambda>(k, v) m. bt_insert k v m) kvs m). P (snd p)" if "\<forall>p\<in>set m. P (snd p)" "bt_valid m" for m
    using assms that
  proof (induction kvs arbitrary: m)
    case (Cons p kvs)
    have "\<forall>(k, v)\<in>set (bt_insert (fst p) (snd p) m). P v"
      using Cons.prems by (intro bt.all_entries_put) auto
    then have "\<forall>q\<in>set (bt_insert (fst p) (snd p) m). P (snd q)" by auto
    with Cons show ?case by (simp add: case_prod_beta)
  qed simp
  from this [of "[]"] show ?thesis by (auto simp: jobject_def bt_from_def)
qed

lemma plain_jobject: "\<forall>p\<in>set kvs. plain_json (snd p) \<Longrightarrow> plain_json (jobject kvs)"
  using jobject_all [of kvs plain_json] by auto

lemma shallow_jobject: "d \<noteq> 0 \<Longrightarrow> \<forall>p\<in>set kvs. shallow (d - 1) (snd p) \<Longrightarrow> shallow d (jobject kvs)"
  using jobject_all [of kvs "shallow (d - 1)"] by auto

lemma storable_jobject: "\<forall>p\<in>set kvs. json_storable (snd p) \<Longrightarrow> json_storable (jobject kvs)"
  by (rule json_storable_jobject) (simp add: list_all_iff)

lemmas journal_shapes =
  field_shapes migration_identity_json_def phase_entry_json_def migration_journal_json_def
  ser_migration_phase_def ser_migration_witness_kind_def

lemma journal_readable:
  "plain_json (migration_journal_json jobject j)"
  "shallow 123 (migration_journal_json jobject j)"
  "json_storable (migration_journal_json jobject j)"
  by (simp_all add: journal_shapes plain_jobject shallow_jobject storable_jobject list_all_iff)

text \<open>The two records of the cohort after their preparation, under the registry that is sealed over them.\<close>

definition prepared_journal :: "string \<Rightarrow> migration_journal" where
  "prepared_journal a =
     \<lparr>mj_schema_version = 2, mj_identity = sample_identity a,
      mj_entries = [build_entry migration_world 2 (identity_digest migration_world (sample_identity a)) (of_nat 0)
        (ORDER ! 0) (replicate 64 CHR ''0'')
        (legacy_upload_migration_record_body_digest migration_world (sample_legacy a)) GENESIS_ENTRY_SHA256]\<rparr>"

definition prepared_cohort :: migration_manifest where
  "prepared_cohort =
     \<lparr>mf_records = [(''A'', with_journal (prepared_journal ''A'') (sample_legacy ''A'')),
        (''B'', with_journal (prepared_journal ''B'') (sample_legacy ''B''))],
      mf_registry = Some (sealed_registry migration_world (sample_identity ''A'') (sample_identity ''B''))\<rparr>"

lemma prepared_phase: "journal_phase (prepared_journal a) = PhPrepared"
  by (simp add: journal_phase_def prepared_journal_def build_entry_def ORDER_def)

lemma prepared_valid:
  assumes "a \<in> set ''AB''"
  shows "validate_legacy_upload_migration_record migration_world (with_journal (prepared_journal [a]) (sample_legacy [a]))
    = Inr (prepared_journal [a])"
proof -
  have "entry_ok migration_world 2 (identity_digest migration_world (sample_identity [a])) 0 GENESIS_ENTRY_SHA256
      (hd (mj_entries (prepared_journal [a])))"
    unfolding prepared_journal_def migration_journal.simps list.sel
    by (rule build_entry_ok [OF sample_hex_world _ _ hex_digests(2) [OF sample_hex_world] genesis_hex])
      (simp_all add: hex_digest_def lower_hex_def)
  then have chain: "chain migration_world (prepared_journal [a])"
    by (simp add: chain_def digest_before_def prepared_journal_def)
  have "validate_identity migration_world (sample_identity [a]) = Inr ()"
    using assms by (intro sample_identity_valid) auto
  moreover have "mi_asset_id (sample_identity [a]) = ar_asset_id (sample_legacy [a])"
    "ar_state (sample_legacy [a]) = UploadVerified"
    by (simp_all add: sample_identity_def sample_legacy_def new_asset_record_def Let_def)
  ultimately show ?thesis
    unfolding validate_legacy_upload_migration_record_def
    by (intro accepted_with_journal chain)
      (simp_all add: prepared_phase, simp_all add: prepared_journal_def build_entry_def)
qed

lemma sample_identity_fields:
  "mi_asset_id (sample_identity a) = a"
  "same_cohort (sample_identity a) (sample_identity b)"
  "mi_quarantine_plan (sample_identity a) = sample_plan"
  by (simp_all add: sample_identity_def same_cohort_def Let_def)

lemma prepared_registry_valid:
  "validate_legacy_upload_migration_registry migration_world
     (sealed_registry migration_world (sample_identity ''A'') (sample_identity ''B'')) = Inr ()"
proof -
  have hex: "validate_digest f (canonical_digest migration_world j) = Inr ()" for f j
    using canonical_digest_hex [OF sample_hex_world] by (simp add: validate_digest_Ok)
  have asset: "registry_asset_ok (registry_asset_of migration_world (sample_identity [a])) = Inr ()"
    if "a \<in> set ''ABCDEFGHIJ''" for a
    using that by (simp add: registry_asset_ok_def registry_asset_of_def identity_digest_def hex sample_hex
        sample_remote sample_identity_def Let_def try_fold.simps(2))
  show ?thesis
    by (simp add: validate_legacy_upload_migration_registry_def sealed_registry_def Let_def asset
        legacy_upload_migration_registry_digest_def hex try_fold.simps(2))
      (simp add: sample_identity_def registry_asset_of_def Let_def sample_hex sample_plan_valid)
qed

lemma prepared_registry:
  "legacy_upload_migration_registry_from_journals migration_world [prepared_journal ''A'', prepared_journal ''B'']
     = Inr (sealed_registry migration_world (sample_identity ''A'') (sample_identity ''B''))"
proof -
  have identity: "mj_identity (prepared_journal a) = sample_identity a" for a by (simp add: prepared_journal_def)
  have order: "\<not> ''B'' < ''A''" by simp
  show ?thesis
    unfolding legacy_upload_migration_registry_from_journals_def list.case identity
      legacy_upload_migration_registry_from_identities_def Let_def fst_conv snd_conv sample_identity_fields
      if_not_P [OF order] prod.case
    by (simp add: sample_identity_fields sample_identity_valid prepared_registry_valid)
qed

lemma prepared_binding:
  "validate_legacy_upload_migration_registry_binding migration_world prepared_cohort False = Ok ()"
proof -
  let ?r = "\<lambda>a. with_journal (prepared_journal a) (sample_legacy a)"
  have records: "journal_records prepared_cohort = [?r ''A'', ?r ''B'']"
    by (simp add: journal_records_def prepared_cohort_def bt_values_def)
  have read: "try_map (validate_legacy_upload_migration_record migration_world) [?r ''A'', ?r ''B'']
      = Inr [prepared_journal ''A'', prepared_journal ''B'']"
    by (simp add: try_map_eq_Ok prepared_valid)
  have registry: "mf_registry prepared_cohort
      = Some (sealed_registry migration_world (sample_identity ''A'') (sample_identity ''B''))"
    by (simp add: prepared_cohort_def)
  show ?thesis
    unfolding validate_legacy_upload_migration_registry_binding_def registry option.case records read bind_ok_simps
      prepared_registry_valid prepared_registry prepared_phase list.sel
    by (simp add: prepared_phase)
qed

theorem saved_manifest_loads_back_witness:
  "\<exists>states. save_atomic_unchecked sample_save_calls
       (manifest_text (\<lambda>_. []) (migration_registry_api migration_world) prepared_cohort) sample_destination Map.empty
       = (states, Ok ())
     \<and> load parse_json (migration_registry_api migration_world) ar_updated_at sample_destination (last states)
       = Ok prepared_cohort"
proof -
  let ?saved = "save_atomic_unchecked sample_save_calls
    (manifest_text (\<lambda>_. []) (migration_registry_api migration_world) prepared_cohort) sample_destination Map.empty"
  have ok: "manifest_ok prepared_cohort"
    by (simp add: manifest_ok_def prepared_cohort_def bt_valid_def sample_legacy_def with_journal_def new_asset_record_def
        record_ok_def)
  have readable: "\<forall>r\<in>set (bt_values (mf_records prepared_cohort)). record_readable r"
    using journal_readable
    by (simp add: prepared_cohort_def bt_values_def record_readable_def record_storable_def with_journal_def
        sample_legacy_def new_asset_record_def max_nesting_def bt_valid_def)
  have "?saved = (fst ?saved, Ok ())" using sample_save_Ok by (intro prod_eqI) simp_all
  with saved_manifest_loads_back [OF parse_json_reads_written ok readable prepared_binding this]
  show ?thesis by blast
qed

end
