(* ===== verification/Spec2Isabelle.thy ===== *)
theory Spec2Isabelle
  imports Lifecycle Atomic_Save Cloudkit Nas_Proof Adjusted_Resolve Workflow_Recipes Reconcile_Sample Resolver_Sample State_Sample Monitor_Sample Migration_Pair
    Manifest_Text
begin

text \<open>
  \<^bold>\<open>A verification library for icloudpd-optimizer.\<close>

  The program (Rust, \<open>src/src/\<close>) replaces RAW photographs of an iCloud library by smaller HEIC files. It
  proves that a RAW file is safe on a NAS, converts it, verifies and uploads the HEIC file, waits until
  the replacement is mirrored locally, and only then asks CloudKit to delete the original. What it knows
  of each asset is a record in a manifest: a state, a map of named JSON proofs and a list of failures.
  Its core is therefore a state machine whose steps are guarded by stored evidence, and its risk is the
  deletion of an original without that evidence. This library models that core from the source and
  proves what guards the deletion.

  \<^bold>\<open>How the parts interact.\<close> \<open>workflow.rs\<close> is the client of everything else: each of its operations reads the
  stored proofs of one asset, checks them against each other and against what the outside world answers,
  and then makes one change through the operations of \<open>manifest.rs\<close>, which know the states and the
  reserved migration proof but not the meaning of proofs. \<open>proof.rs\<close> proves RAW files, \<open>adjusted_source.rs\<close>
  fetches and proves edited JPEG sources, \<open>upload.rs\<close> sends deletions to CloudKit and reads the answers.
  A manifest is written and read as strict JSON by \<open>manifest.rs\<close> and \<open>strict_json.rs\<close>.

  \<^bold>\<open>Theories.\<close>
  \<^item> \<open>Prelude\<close>: results as sums with \<open>?\<close> as \<open>bind_ok\<close>, blocks of checks, loops that stop at an error,
    and Rust's \<open>BTreeMap\<close> as an ordered association list (\<open>locale ordered_map\<close>, interpreted on it).
  \<^item> \<open>Rust_Std\<close>: what the source uses of Rust's library: \<open>trim\<close>, control characters, saturating and
    wrapping words, \<open>Path\<close> components, extensions and prefixes, \<open>SystemTime\<close> and \<open>Duration\<close>.
  \<^item> \<open>Calls\<close>: calls that may fail and change a state, in sequence (\<open>and_then\<close>) and in loops (\<open>call_fold\<close>).
  \<^item> \<open>Json\<close>: JSON values, serde's derived decoding of structs (defaults, aliases, skipped fields), compact
    text, and \<open>locale codec\<close> for a type whose decoder inverts its encoder; every proof type of the program
    interprets it.
  \<^item> \<open>Manifest\<close>, \<open>Manifest_Ops\<close>: the data of \<open>manifest.rs\<close> and every operation that changes a manifest.
    \<open>locale record_op\<close> is the contract of an operation on one record (what it leaves alone), \<open>state_op\<close>
    adds the steps of the state it allows; each operation interprets it.
  \<^item> \<open>Lifecycle\<close>: runs of all the calls that change a manifest (\<open>run_calls\<close>: the operations on one record,
    generic, trusted and capability upserts, the update of a resolved original, the sweep of interrupted
    retries and the installation of a registry): terminal states and the reserved proof. Runs of the
    operations on one record alone (\<open>run_events\<close>): no skipped states, the untrusted recipe claims.
    Also the sweep itself, and snapshots.
  \<^item> \<open>Manifest_Store\<close>, \<open>Atomic_Save\<close>: the manifest file and its text (\<open>manifest_text\<close>), \<open>load_from_reader\<close>,
    \<open>save_atomic\<close> over a file system of texts whose calls may fail, as the sequence of file systems a crash
    can leave. \<open>Json_Parser\<close>: what a parser owes to a written text, and a parser that keeps it.
    \<open>Manifest_Text\<close>: a saved manifest loads back, with the registry of the migration.
  \<^item> \<open>Cloudkit\<close>: the deletion part of \<open>upload.rs\<close>: destinations, requests, payloads, answers, single and
    batched deletion, and the lookup of a deletion's fate.
  \<^item> \<open>Nas_Proof\<close>: \<open>proof.rs\<close> over what the file system answers during a proof.
  \<^item> \<open>Adjusted_Source\<close>, \<open>Adjusted_Resolve\<close>: \<open>adjusted_source.rs\<close>: the proof, its validators, the resolver.
  \<^item> \<open>Workflow_Proofs\<close>, \<open>Delete_Proofs\<close>: the proof types of \<open>workflow.rs\<close> with their codecs.
  \<^item> \<open>Workflow_Checks\<close>, \<open>Workflow_Chain\<close>, \<open>Delete_Chain\<close>: \<open>WorkflowError\<close>, the requirements on fields, the
    readers of stored proofs and the validators that tie the proofs of a record together.
  \<^item> \<open>Delete_Plan\<close>: eligibility and approval, plans, the execution proof, the tokens a caller holds while
    the remote deletion runs, and their freshness.
  \<^item> \<open>Workflow\<close>: every operation of \<open>workflow.rs\<close> that changes a manifest.
  \<^item> \<open>Delete_Spec\<close>: the abstract specification of a justified deletion, as a relation on stored proofs, and
    the equivalence with the validator. \<open>Workflow_Frame\<close>: what changes and readers leave alone.
  \<^item> \<open>Delete_Safety\<close>, \<open>Delete_Progress\<close>: no deletion without justification; the way to a deletion is open.
  \<^item> \<open>Delete_Sample\<close>: one deletion from upload to execution, where the theorems are applied.
  \<^item> \<open>Workflow_Steps\<close>: runs of workflow operations refine abstract steps (\<open>record_step\<close>), which write a proof
    of the replacement only while the state is not late; the invariant of all reachable manifests. \<open>Workflow_Evidence\<close>, \<open>Workflow_Renewal\<close>, \<open>Workflow_Recipes\<close>: which proofs an
    operation may touch, renewed mirrors, tokens, batches, recipes and reverification.
  \<^item> \<open>Reconcile_Proofs\<close>, \<open>Reconcile\<close>, \<open>Reconcile_Batch\<close>: \<open>reconciliation.rs\<close>: the durable proof with its
    flattened, tagged disposition, the validators of a source and of an outcome, the known remote records
    and the batch, with the two state classifiers of \<open>workflow.rs\<close>. \<open>Reconcile_Frame\<close>: the known records,
    record by record. \<open>Reconcile_Outcome\<close>, \<open>Reconcile_Safety\<close>, \<open>Reconcile_Sample\<close>: a batch refines a relation
    on its targets, is exact, and reads back, except beside the proof of a deleted replacement.
  \<^item> \<open>Rust_Float\<close>, \<open>Resolver_Cohorts\<close>, \<open>Resolver_Records\<close>, \<open>Resolver_Pages\<close>, \<open>Resolver\<close>: the resolvers of
    \<open>upload.rs\<close> that ask CloudKit which asset is the original of a RAW file: the targets of a batch grouped
    by their window of dates, the records of a page, the seek for the page to start from
    (\<open>seek_original_asset_query_page\<close>), the scan with its downloads, and the outcome of a batch.
    \<open>Resolver_Seek\<close>: what a resolver may ask for (\<open>locale counted_queries\<close>, interpreted on both kinds of
    query). \<open>Resolver_Window\<close>: the seek over a library ordered by dates. \<open>Resolver_Log\<close>: a transport that keeps a
    log of its answers, and that runs on it mirror runs without the log (\<open>locale mirrored_query\<close>).
    \<open>Resolver_Evidence\<close> and \<open>Resolver_Outcome\<close>: what the scan collects is backed by the answers and downloads
    of its log (\<open>locale backed_scan\<close>, \<open>growing_pages\<close>), each download by the own URL of the resource, and so
    is the outcome that \<open>Reconcile\<close> takes. \<open>Resolver_Sample\<close>: a batch that finds an original.
  \<^item> \<open>State_Lease\<close>, \<open>State_Records\<close>, \<open>State_Store\<close>: \<open>state_store.rs\<close>: the tables as a record, a SQL statement as
    the change it makes to them, the writer lease with its epochs, the rows of the records, compare and
    swap, the one-time import of the JSON manifest and its export. \<open>locale keeps_lease\<close> (\<open>State_Fence\<close>) is
    what the body of a transaction owes to the lease; every writing operation interprets it. \<open>State_Runs\<close>:
    runs of any number of processes on one database, and what a lease is worth. \<open>State_Refine\<close>: the manifest
    the tables mean, and writes as insertions into it. \<open>State_Sample\<close>: two processes and one record.
  \<^item> \<open>Monitor_Delete\<close>: the stage of \<open>monitor.rs\<close> in which everything above meets
    (\<open>delete_original_assets_with_client\<close>): it takes windows of assets, looks up what became of earlier
    deletions, lets workers approve and prepare tokens, submits groups to CloudKit, commits what was
    confirmed through the state store and only then shows it in the manifest in memory. Each call to the
    outside has a moment, and between two calls other processes may work on the database. \<open>Monitor_Safety\<close>
    holds the contract of such a call (\<open>triple\<close>) and what a recorded deletion rests on, \<open>Monitor_Stage\<close>
    the contract of every step, \<open>Monitor_Guarantees\<close> what follows for a whole stage, \<open>Monitor_Sample\<close> a stage
    that records one deletion.
  \<^item> \<open>Migration_Types\<close>, \<open>Migration_Codec\<close>, \<open>Migration_Journal\<close>, \<open>Migration_Update\<close>, \<open>Migration_Commit\<close>:
    \<open>legacy_upload_migration.rs\<close>, by which a cohort of two assets whose replacement was uploaded by an older
    version gets a new one. Each record carries, as its reserved proof, a journal with one entry per phase,
    chained by digests; an update between two phases may change only what the phase stands for; a sealed
    registry names the cohort, and both records are committed together by the compare and swap of the
    state store. \<open>Json_Text\<close>: the text of JSON is a prefix code, so the hashed text determines the value.
    \<open>Migration_Chain\<close>: the loop of the validator accepts exactly the chains. \<open>Migration_Pinned\<close>: what the last
    digest pins. \<open>Migration_Steps\<close>, \<open>Migration_Guarantees\<close>: preparing and advancing are accepted by the
    validators. \<open>Migration_Safety\<close>: what an accepted update changes and what runs of them keep.
    \<open>Migration_Pair\<close>: a commit of two records is all or nothing.
    \<open>Migration_Sample\<close>: a cohort with its quarantine plan.

  \<^bold>\<open>How the source is read.\<close> A struct is a record with a short prefix, an enum a datatype with the source's
  names (prefixed where they clash); \<open>Result\<close> is a sum with the error left. \<open>&mut Manifest\<close> becomes a
  manifest in and a manifest out; an operation that fails leaves it as it was. \<open>u64\<close> and other machine
  integers are words, and saturation is written out. Times are nanoseconds. Loops over lists are
  structural recursion or \<open>try_fold\<close>; the loops over pages and probes are functions whose measure is the
  number of pages left of \<open>max_pages\<close>, which every turn spends. So there is no fuel anywhere and every
  definition is total. A length that becomes a \<open>u64\<close> saturates (\<open>len_u64\<close>), which no list in memory reaches. A panic
  of the source is an error value (\<open>WfPanic\<close>, \<open>MonPanic\<close>).

  \<^bold>\<open>What is a parameter.\<close> SHA-256, the text of floats, URL parsing (\<open>url_parser\<close>), JPEG decoding, the answers of the file
  system, the network and the clock (records \<open>workflow_world\<close>, \<open>raw_observations\<close>, \<open>save_calls\<close>,
  \<open>resolve_world\<close>, \<open>installed_source\<close>; for the resolvers of \<open>upload.rs\<close> two calls on a transport with a
  state of its own, \<open>post\<close> and \<open>download\<close>). The manifest and the state store take what they need of the migration as
  parameters (\<open>registry_api\<close>, \<open>store_api\<close>); \<open>Migration_Commit\<close> makes these of the migration's own definitions. Of SHA-256
  the theorems assume no more than that it is a function, except that the migration needs its digests to
  be 64 hex digits (\<open>hex_world\<close>) and, to pin a history, that it does not collide on that history's texts. SQLite is a parameter too (\<open>db_calls\<close>): opening,
  beginning, the statements and the commit may each fail, and a transaction that is not committed leaves
  the tables as they were. Texts are printed by the model (\<open>json_text\<close>, \<open>pretty_text\<close>) and parsed by a parameter,
  since \<open>serde_json\<close> does not read every text it prints: floating point numbers lose their last digit
  without a feature the program does not ask for, and the nesting is limited. Where a theorem needs that
  the parser reads a written text back, it says so of the text concerned: of a record in the database
  (\<open>reads_back\<close>), and of a manifest file without floating point numbers and nested at most 127 deep
  (\<open>reads_written\<close>). Strings are lists of bytes, those of the UTF-8 text.

  \<^bold>\<open>Not modelled so far.\<close> From \<open>upload.rs\<close> sessions, uploads and the lookup of
  uploaded files; of the state store the migration of an older schema, the immutable snapshots and the
  checks that a path still names the same file; of the legacy migration the collection of its evidence and
  its execution on files and CloudKit (\<open>evidence.rs\<close>, \<open>apply.rs\<close>); the policies of authorization, mirroring, conversion and services; and command line, the other
  stages of the monitor, process and keychain handling, which are input and output around the modelled
  core. Of the modelled stage the log lines, their correlation ids and the timings are left out.
\<close>

end
